(* ===== verification/Prelude.thy ===== *)
theory Prelude
  imports Main "HOL-Library.List_Lexorder" "HOL-Library.Char_ord"
begin

text \<open>
  Shared vocabulary of the development: results with errors as values, the check lists that
  stand for the \<open>__post_init__\<close> validators, Python strings (\<open>strip\<close>), Python datetimes, and
  the generic list facts that the component theories use.
\<close>

named_theorems result_simps \<open>characteristic equations of results and check lists\<close>

section \<open>Results: a raised error or a value\<close>

text \<open>
  A Python function that may raise returns \<open>error + 'a\<close>: \<open>Inl e\<close> is the raised error and
  \<open>Inr x\<close> the returned value. \<open>bind_result\<close> sequences two such computations.
\<close>

fun bind_result :: "'e + 'a \<Rightarrow> ('a \<Rightarrow> 'e + 'b) \<Rightarrow> 'e + 'b" where
  "bind_result (Inl e) f = Inl e"
| "bind_result (Inr x) f = f x"

fun map_result :: "('a \<Rightarrow> 'b) \<Rightarrow> 'e + 'a \<Rightarrow> 'e + 'b" where
  "map_result f (Inl e) = Inl e"
| "map_result f (Inr x) = Inr (f x)"

definition raise_or :: "'e option \<Rightarrow> 'a \<Rightarrow> 'e + 'a" where
  "raise_or c x = (case c of None \<Rightarrow> Inr x | Some e \<Rightarrow> Inl e)"

lemma bind_result_Inr_iff [result_simps]:
  "bind_result m f = Inr y \<longleftrightarrow> (\<exists>x. m = Inr x \<and> f x = Inr y)"
  by (cases m) auto

lemma bind_result_Inl_iff:
  "bind_result m f = Inl e \<longleftrightarrow> m = Inl e \<or> (\<exists>x. m = Inr x \<and> f x = Inl e)"
  by (cases m) auto

lemma bind_result_cong [fundef_cong]:
  "m = m' \<Longrightarrow> (\<And>x. m' = Inr x \<Longrightarrow> f x = f' x) \<Longrightarrow> bind_result m f = bind_result m' f'"
  by (cases m') auto

lemma bind_result_assoc:
  "bind_result (bind_result m f) g = bind_result m (\<lambda>x. bind_result (f x) g)"
  by (cases m) auto

lemma map_result_Inr_iff [result_simps]:
  "map_result f m = Inr y \<longleftrightarrow> (\<exists>x. m = Inr x \<and> y = f x)"
  by (cases m) auto

lemma raise_or_Inr_iff [result_simps]: "raise_or c x = Inr y \<longleftrightarrow> c = None \<and> y = x"
  by (auto simp: raise_or_def split: option.splits)

lemma raise_or_None [simp]: "raise_or None x = Inr x"
  by (simp add: raise_or_def)

lemma raise_or_Some [simp]: "raise_or (Some e) x = Inl e"
  by (simp add: raise_or_def)

lemma if_Inl_Inr_iff [result_simps]:
  "(if b then Inl e else m) = Inr y \<longleftrightarrow> \<not> b \<and> m = Inr y"
  "(if b then m else Inl e) = Inr y \<longleftrightarrow> b \<and> m = Inr y"
  by auto

text \<open>A comprehension whose element may raise: the first error, or the list of the values.\<close>

fun collect_results :: "('e + 'a) list \<Rightarrow> 'e + 'a list" where
  "collect_results [] = Inr []"
| "collect_results (r # rs) = bind_result r (\<lambda>x. map_result ((#) x) (collect_results rs))"

lemma collect_results_Inr: "collect_results rs = Inr xs \<longleftrightarrow> rs = map Inr xs"
  by (induction rs arbitrary: xs) (auto simp: result_simps)

lemma collect_results_member:
  assumes "collect_results (map f xs) = Inr ys" "x \<in> set xs"
  shows "\<exists>y. f x = Inr y"
proof -
  have "f x \<in> set (map Inr ys)" using assms unfolding collect_results_Inr by (metis image_eqI list.set_map)
  then show ?thesis by auto
qed

section \<open>Check lists\<close>

text \<open>
  A validator is the list of its checks in source order. A check is \<open>None\<close> when it passes and
  \<open>Some e\<close> when the source raises \<open>e\<close> there; the validator raises the first failing one.
  \<open>reject_if_result\<close> is a check whose condition itself may raise (a digest comparison).
\<close>

fun first_some :: "'e option list \<Rightarrow> 'e option" where
  "first_some [] = None"
| "first_some (None # cs) = first_some cs"
| "first_some (Some e # cs) = Some e"

definition reject_if :: "bool \<Rightarrow> 'e \<Rightarrow> 'e option" where
  "reject_if b e = (if b then Some e else None)"

fun reject_if_result :: "'e + bool \<Rightarrow> 'e \<Rightarrow> 'e option" where
  "reject_if_result (Inl e') e = Some e'"
| "reject_if_result (Inr b) e = reject_if b e"

lemma reject_if_None [result_simps]: "reject_if b e = None \<longleftrightarrow> \<not> b"
  by (simp add: reject_if_def)

lemma reject_if_True [simp]: "reject_if True e = Some e"
  by (simp add: reject_if_def)

lemma reject_if_False [simp]: "reject_if False e = None"
  by (simp add: reject_if_def)

lemma reject_if_result_None [result_simps]: "reject_if_result m e = None \<longleftrightarrow> m = Inr False"
  by (cases m) (auto simp: reject_if_None)

lemma first_some_Cons: "first_some (c # cs) = (case c of None \<Rightarrow> first_some cs | Some e \<Rightarrow> Some e)"
  by (cases c) auto

lemma first_some_append:
  "first_some (cs @ ds) = (case first_some cs of None \<Rightarrow> first_some ds | Some e \<Rightarrow> Some e)"
  by (induction cs rule: first_some.induct) auto

lemma first_some_None_iff: "first_some cs = None \<longleftrightarrow> (\<forall>c \<in> set cs. c = None)"
  by (induction cs rule: first_some.induct) auto

lemma first_some_Nil_None [result_simps]: "first_some [] = None \<longleftrightarrow> True"
  by simp

lemma first_some_Cons_None [result_simps]:
  "first_some (c # cs) = None \<longleftrightarrow> c = None \<and> first_some cs = None"
  by (cases c) auto

lemma first_some_append_None [result_simps]:
  "first_some (cs @ ds) = None \<longleftrightarrow> first_some cs = None \<and> first_some ds = None"
  by (auto simp: first_some_None_iff)

lemma first_some_concat_None [result_simps]:
  "first_some (concat css) = None \<longleftrightarrow> (\<forall>cs \<in> set css. first_some cs = None)"
  by (auto simp: first_some_None_iff)

lemma first_some_map_None [result_simps]:
  "first_some (map f xs) = None \<longleftrightarrow> (\<forall>x \<in> set xs. f x = None)"
  by (auto simp: first_some_None_iff)

section \<open>Python strings\<close>

text \<open>
  A Python \<open>str\<close> is represented by its UTF-8 bytes. \<open>blank s\<close> is \<open>not s.strip()\<close>: every code
  point is one of Python's whitespace code points (U+0009-000D, 001C-0020, 0085, 00A0, 1680,
  2000-200A, 2028, 2029, 202F, 205F, 3000), here read off the UTF-8 bytes.
\<close>

definition ascii_space :: "nat \<Rightarrow> bool" where
  "ascii_space b \<longleftrightarrow> (9 \<le> b \<and> b \<le> 13) \<or> (28 \<le> b \<and> b \<le> 32)"

definition space2 :: "nat \<Rightarrow> nat list \<Rightarrow> bool" where
  "space2 b bs \<longleftrightarrow> b = 0xC2 \<and> (take 1 bs = [0x85] \<or> take 1 bs = [0xA0])"

definition space3 :: "nat \<Rightarrow> nat list \<Rightarrow> bool" where
  "space3 b bs \<longleftrightarrow>
     (case take 2 bs of
        [c, d] \<Rightarrow>
          (b = 0xE1 \<and> c = 0x9A \<and> d = 0x80) \<or>
          (b = 0xE2 \<and> c = 0x80 \<and> (0x80 \<le> d \<and> d \<le> 0x8A \<or> d = 0xA8 \<or> d = 0xA9 \<or> d = 0xAF)) \<or>
          (b = 0xE2 \<and> c = 0x81 \<and> d = 0x9F) \<or>
          (b = 0xE3 \<and> c = 0x80 \<and> d = 0x80)
      | _ \<Rightarrow> False)"

fun blank_bytes :: "nat list \<Rightarrow> bool" where
  "blank_bytes [] = True"
| "blank_bytes (b # bs) =
     (if ascii_space b then blank_bytes bs
      else if space2 b bs then blank_bytes (drop 1 bs)
      else if space3 b bs then blank_bytes (drop 2 bs)
      else False)"

definition blank :: "string \<Rightarrow> bool" where
  "blank s = blank_bytes (map of_char s)"

lemma blank_Nil [simp]: "blank []"
  by (simp add: blank_def)

lemmas blank_eval = blank_def ascii_space_def space2_def space3_def

section \<open>Datetimes\<close>

text \<open>
  A Python \<open>datetime\<close> is its instant in microseconds since 1970-01-01T00:00:00Z and its UTC
  offset in microseconds (\<open>None\<close>: a naive datetime). Every comparison in the modelled code is
  between values whose offset has been checked to be zero, so it compares instants.
\<close>

datatype datetime = DateTime (instant: int) (utc_offset: "int option")

definition is_utc :: "datetime \<Rightarrow> bool" where
  "is_utc d \<longleftrightarrow> utc_offset d = Some 0"

definition utc :: "int \<Rightarrow> datetime" where
  "utc t = DateTime t (Some 0)"

lemma instant_utc [simp]: "instant (utc t) = t"
  by (simp add: utc_def)

lemma is_utc_utc [simp]: "is_utc (utc t)"
  by (simp add: utc_def is_utc_def)

lemma is_utc_eq: "is_utc a \<Longrightarrow> is_utc b \<Longrightarrow> instant a = instant b \<longleftrightarrow> a = b"
  by (cases a; cases b) (simp add: is_utc_def)

definition plus_delta :: "datetime \<Rightarrow> int \<Rightarrow> datetime" where
  "plus_delta d us = DateTime (instant d + us) (utc_offset d)"

lemma plus_delta_simps [simp]:
  "instant (plus_delta d us) = instant d + us"
  "is_utc (plus_delta d us) = is_utc d"
  by (simp_all add: plus_delta_def is_utc_def)

section \<open>Decimal numerals and ISO timestamps\<close>

definition digit_char :: "nat \<Rightarrow> char" where
  "digit_char d = char_of (48 + d)"

fun show_nat :: "nat \<Rightarrow> string" where
  "show_nat n = (if n < 10 then [digit_char n] else show_nat (n div 10) @ [digit_char (n mod 10)])"

declare show_nat.simps [simp del]

definition show_int :: "int \<Rightarrow> string" where
  "show_int i = (if i < 0 then CHR ''-'' # show_nat (nat (- i)) else show_nat (nat i))"

definition pad_left :: "nat \<Rightarrow> string \<Rightarrow> string" where
  "pad_left w s = replicate (w - length s) (CHR ''0'') @ s"

text \<open>
  The proleptic Gregorian calendar date of a day number counted from 1970-01-01, as Python's
  \<open>datetime\<close> computes it: 400-year eras of 146097 days, years starting on 1 March.
\<close>

definition civil_from_days :: "int \<Rightarrow> int \<times> int \<times> int" where
  "civil_from_days z0 =
     (let z = z0 + 719468;
          era = z div 146097;
          doe = z mod 146097;
          yoe = (doe - doe div 1460 + doe div 36524 - doe div 146096) div 365;
          doy = doe - (365 * yoe + yoe div 4 - yoe div 100);
          mp = (5 * doy + 2) div 153;
          d = doy - (153 * mp + 2) div 5 + 1;
          m = (if mp < 10 then mp + 3 else mp - 9);
          y = yoe + era * 400 + (if m \<le> 2 then 1 else 0)
      in (y, m, d))"

text \<open>
  \<open>isoformat\<close> of a UTC datetime without its offset suffix; \<open>iso_z\<close> is the source's
  \<open>isoformat().replace("+00:00", "Z")\<close>.
\<close>

definition iso_base :: "datetime \<Rightarrow> string" where
  "iso_base t =
     (let us = instant t;
          (y, m, d) = civil_from_days (us div 86400000000);
          r = us mod 86400000000;
          s = r div 1000000;
          f = r mod 1000000;
          two = (\<lambda>n. pad_left 2 (show_int n))
      in pad_left 4 (show_int y) @ ''-'' @ two m @ ''-'' @ two d @ ''T'' @
         two (s div 3600) @ '':'' @ two (s div 60 mod 60) @ '':'' @ two (s mod 60) @
         (if f = 0 then '''' else ''.'' @ pad_left 6 (show_int f)))"

definition iso_z :: "datetime \<Rightarrow> string" where
  "iso_z t = iso_base t @ ''Z''"

definition iso_offset :: "datetime \<Rightarrow> string" where
  "iso_offset t = iso_base t @ ''+00:00''"

section \<open>Lists\<close>

text \<open>\<open>", ".join(parts)\<close> and its kin.\<close>

fun join_with :: "string \<Rightarrow> string list \<Rightarrow> string" where
  "join_with sep [] = ''''"
| "join_with sep [x] = x"
| "join_with sep (x # y # ys) = x @ sep @ join_with sep (y # ys)"

text \<open>\<open>reversed(xs)\<close> searched with \<open>next(..., None)\<close>: the last element with the property.\<close>

definition find_last :: "('a \<Rightarrow> bool) \<Rightarrow> 'a list \<Rightarrow> 'a option" where
  "find_last P xs = find P (rev xs)"

definition last_opt :: "'a list \<Rightarrow> 'a option" where
  "last_opt xs = (if xs = [] then None else Some (last xs))"

lemma last_opt_Some_iff: "last_opt xs = Some x \<longleftrightarrow> (\<exists>ys. xs = ys @ [x])"
  by (cases xs rule: rev_cases) (auto simp: last_opt_def)

lemma last_opt_None_iff [simp]: "last_opt xs = None \<longleftrightarrow> xs = []"
  by (simp add: last_opt_def)

lemma last_opt_Nil [simp]: "last_opt [] = None"
  by simp

lemma last_opt_append1 [simp]: "last_opt (xs @ [x]) = Some x"
  by (simp add: last_opt_def)

lemma find_SomeD: "find P xs = Some x \<Longrightarrow> P x \<and> x \<in> set xs"
  by (auto simp: find_Some_iff)

lemma find_last_SomeD: "find_last P xs = Some x \<Longrightarrow> P x \<and> x \<in> set xs"
  by (auto simp: find_last_def dest: find_SomeD)

lemma find_append: "find P (xs @ ys) = (case find P xs of None \<Rightarrow> find P ys | Some x \<Rightarrow> Some x)"
  by (induction xs) auto

lemma find_map: "find P (map f xs) = map_option f (find (P \<circ> f) xs)"
  by (induction xs) auto

lemma distinct_map_find:
  "distinct (map f xs) \<Longrightarrow> x \<in> set xs \<Longrightarrow> find (\<lambda>y. f y = f x) xs = Some x"
  by (induction xs) auto

lemma find_last_distinct:
  assumes "distinct (map f xs)" "x \<in> set xs"
  shows "find_last (\<lambda>y. f y = f x) xs = Some x"
proof -
  have "distinct (map f (rev xs))" using assms(1) by (simp add: rev_map [symmetric])
  then show ?thesis unfolding find_last_def by (rule distinct_map_find) (simp add: assms(2))
qed

lemma butlast_snoc_map: "xs \<noteq> [] \<Longrightarrow> map f (butlast xs) @ [f (last xs)] = map f xs"
  by (metis append_butlast_last_id map_append list.simps(8,9))

text \<open>
  An \<open>OrderedDict\<close> as an association list, oldest entry first. \<open>move_to_end\<close> and an assignment to a new
  key are \<open>put_last\<close>; \<open>popitem(last=False)\<close> is the tail; \<open>del\<close> and \<open>pop\<close> are \<open>remove_key\<close>.
\<close>

definition remove_key :: "'k \<Rightarrow> ('k \<times> 'v) list \<Rightarrow> ('k \<times> 'v) list" where
  "remove_key k xs = filter (\<lambda>e. fst e \<noteq> k) xs"

definition put_last :: "'k \<Rightarrow> 'v \<Rightarrow> ('k \<times> 'v) list \<Rightarrow> ('k \<times> 'v) list" where
  "put_last k v xs = remove_key k xs @ [(k, v)]"

lemma map_of_remove_key [simp]: "map_of (remove_key k xs) = (map_of xs)(k := None)"
  by (induction xs) (auto simp: remove_key_def fun_eq_iff)

lemma map_of_put_last [simp]: "map_of (put_last k v xs) = (map_of xs)(k \<mapsto> v)"
  by (simp add: put_last_def map_add_def fun_eq_iff split: option.splits)

lemma keys_remove_key [simp]: "fst ` set (remove_key k xs) = fst ` set xs - {k}"
  by (auto simp: remove_key_def)

lemma keys_put_last [simp]: "fst ` set (put_last k v xs) = insert k (fst ` set xs)"
  by (auto simp: put_last_def remove_key_def)

lemma distinct_remove_key [simp]: "distinct (map fst xs) \<Longrightarrow> distinct (map fst (remove_key k xs))"
  unfolding remove_key_def by (rule distinct_map_filter)

lemma distinct_put_last [simp]: "distinct (map fst xs) \<Longrightarrow> distinct (map fst (put_last k v xs))"
  by (simp add: put_last_def)

lemma length_distinct_keys: "distinct (map fst xs) \<Longrightarrow> length xs = card (fst ` set xs)"
  by (metis distinct_card length_map list.set_map)

text \<open>A table whose keys lie in a set of at most \<open>n\<close> keys has room for one more of them.\<close>

lemma room_for_key:
  assumes "distinct (map fst xs)" "fst ` set xs \<subseteq> K" "finite K" "card K \<le> n" "k \<in> K" "map_of xs k = None"
  shows "length xs < n"
proof -
  have "fst ` set xs \<subset> K" using assms(2,5,6) by (auto simp: map_of_eq_None_iff)
  then have "card (fst ` set xs) < card K" by (rule psubset_card_mono [OF assms(3)])
  then show ?thesis using assms(4) length_distinct_keys [OF assms(1)] by simp
qed

end
