(* ===== verification/Sha256.thy ===== *)
theory Sha256
  imports Prelude "HOL-Library.Word"
begin

unbundle bit_operations_syntax

text \<open>
  SHA-256 as \<open>hashlib.sha256(...).hexdigest()\<close> computes it (FIPS 180-4), on a message given
  as a list of bytes. It is used by the canonical digests only.
\<close>

type_synonym byte = "8 word"
type_synonym w32 = "32 word"

text \<open>The first 32 bits of the fractional parts of the cube roots of the first 64 primes.\<close>

definition sha256_k :: "w32 list" where
  "sha256_k = [
    1116352408, 1899447441, 3049323471, 3921009573, 961987163, 1508970993, 2453635748, 2870763221,
    3624381080, 310598401, 607225278, 1426881987, 1925078388, 2162078206, 2614888103, 3248222580,
    3835390401, 4022224774, 264347078, 604807628, 770255983, 1249150122, 1555081692, 1996064986,
    2554220882, 2821834349, 2952996808, 3210313671, 3336571891, 3584528711, 113926993, 338241895,
    666307205, 773529912, 1294757372, 1396182291, 1695183700, 1986661051, 2177026350, 2456956037,
    2730485921, 2820302411, 3259730800, 3345764771, 3516065817, 3600352804, 4094571909, 275423344,
    430227734, 506948616, 659060556, 883997877, 958139571, 1322822218, 1537002063, 1747873779,
    1955562222, 2024104815, 2227730452, 2361852424, 2428436474, 2756734187, 3204031479, 3329325298]"

record sha_state =
  sha_a :: w32  sha_b :: w32  sha_c :: w32  sha_d :: w32
  sha_e :: w32  sha_f :: w32  sha_g :: w32  sha_h :: w32

definition sha256_init :: sha_state where
  "sha256_init =
     \<lparr>sha_a = 0x6a09e667, sha_b = 0xbb67ae85, sha_c = 0x3c6ef372, sha_d = 0xa54ff53a,
      sha_e = 0x510e527f, sha_f = 0x9b05688c, sha_g = 0x1f83d9ab, sha_h = 0x5be0cd19\<rparr>"

definition small_sigma0 :: "w32 \<Rightarrow> w32" where
  "small_sigma0 x = word_rotr 7 x XOR word_rotr 18 x XOR drop_bit 3 x"

definition small_sigma1 :: "w32 \<Rightarrow> w32" where
  "small_sigma1 x = word_rotr 17 x XOR word_rotr 19 x XOR drop_bit 10 x"

definition big_sigma0 :: "w32 \<Rightarrow> w32" where
  "big_sigma0 x = word_rotr 2 x XOR word_rotr 13 x XOR word_rotr 22 x"

definition big_sigma1 :: "w32 \<Rightarrow> w32" where
  "big_sigma1 x = word_rotr 6 x XOR word_rotr 11 x XOR word_rotr 25 x"

text \<open>The message schedule: the window holds the last sixteen words, oldest first.\<close>

fun sha256_schedule :: "nat \<Rightarrow> w32 list \<Rightarrow> w32 list" where
  "sha256_schedule 0 win = win"
| "sha256_schedule (Suc n) win =
     hd win # sha256_schedule n (tl win @
       [small_sigma1 (win ! 14) + win ! 9 + small_sigma0 (win ! 1) + win ! 0])"

definition sha256_round :: "sha_state \<Rightarrow> w32 \<times> w32 \<Rightarrow> sha_state" where
  "sha256_round s kw =
     (let ch = (sha_e s AND sha_f s) XOR (NOT (sha_e s) AND sha_g s);
          t1 = sha_h s + big_sigma1 (sha_e s) + ch + fst kw + snd kw;
          maj = (sha_a s AND sha_b s) XOR (sha_a s AND sha_c s) XOR (sha_b s AND sha_c s);
          t2 = big_sigma0 (sha_a s) + maj
      in \<lparr>sha_a = t1 + t2, sha_b = sha_a s, sha_c = sha_b s, sha_d = sha_c s,
          sha_e = sha_d s + t1, sha_f = sha_e s, sha_g = sha_f s, sha_h = sha_g s\<rparr>)"

fun be_word :: "byte list \<Rightarrow> w32" where
  "be_word bs = foldl (\<lambda>w b. push_bit 8 w OR ucast b) 0 bs"

fun group4 :: "byte list \<Rightarrow> w32 list" where
  "group4 (a # b # c # d # rest) = be_word [a, b, c, d] # group4 rest"
| "group4 _ = []"

definition sha256_block :: "sha_state \<Rightarrow> byte list \<Rightarrow> sha_state" where
  "sha256_block s block =
     (let ws = sha256_schedule 48 (group4 block);
          t = foldl sha256_round s (zip sha256_k ws)
      in \<lparr>sha_a = sha_a s + sha_a t, sha_b = sha_b s + sha_b t,
          sha_c = sha_c s + sha_c t, sha_d = sha_d s + sha_d t,
          sha_e = sha_e s + sha_e t, sha_f = sha_f s + sha_f t,
          sha_g = sha_g s + sha_g t, sha_h = sha_h s + sha_h t\<rparr>)"

definition be_bytes :: "64 word \<Rightarrow> byte list" where
  "be_bytes w = map (\<lambda>i. ucast (drop_bit (8 * i) w)) [7, 6, 5, 4, 3, 2, 1, 0]"

definition sha256_pad :: "byte list \<Rightarrow> byte list" where
  "sha256_pad m =
     m @ [0x80] @ replicate (nat ((55 - int (length m)) mod 64)) 0 @ be_bytes (8 * of_nat (length m))"

fun sha256_blocks :: "nat \<Rightarrow> sha_state \<Rightarrow> byte list \<Rightarrow> sha_state" where
  "sha256_blocks 0 s bs = s"
| "sha256_blocks (Suc n) s bs = sha256_blocks n (sha256_block s (take 64 bs)) (drop 64 bs)"

definition sha_words :: "sha_state \<Rightarrow> w32 list" where
  "sha_words s = [sha_a s, sha_b s, sha_c s, sha_d s, sha_e s, sha_f s, sha_g s, sha_h s]"

definition hex_digit :: "nat \<Rightarrow> char" where
  "hex_digit d = char_of (if d < 10 then 48 + d else 87 + d)"

definition hex_word :: "w32 \<Rightarrow> string" where
  "hex_word w = map (\<lambda>i. hex_digit (unat (drop_bit (4 * i) w AND 15))) [7, 6, 5, 4, 3, 2, 1, 0]"

definition sha256_hexdigest :: "byte list \<Rightarrow> string" where
  "sha256_hexdigest m =
     (let padded = sha256_pad m
      in concat (map hex_word (sha_words (sha256_blocks (length padded div 64) sha256_init padded))))"

section \<open>The shape of a digest\<close>

lemma length_sha_words [simp]: "length (sha_words s) = 8"
  by (simp add: sha_words_def)

lemma length_hex_word [simp]: "length (hex_word w) = 8"
  by (simp add: hex_word_def)

definition is_hex_char :: "char \<Rightarrow> bool" where
  "is_hex_char c \<longleftrightarrow> c \<in> set ''0123456789abcdef''"

lemma hex_digit_is_hex: "d < 16 \<Longrightarrow> is_hex_char (hex_digit d)"
proof -
  assume "d < 16"
  then have "d \<in> set [0..<16]" by simp
  moreover have "\<forall>d \<in> set [0..<16]. is_hex_char (hex_digit d)" by code_simp
  ultimately show ?thesis by blast
qed

lemma unat_and_15: "unat (x AND 15 :: w32) < 16"
proof -
  have "x AND 15 \<le> 15" by (rule word_and_le1)
  then show ?thesis by (simp add: word_le_nat_alt)
qed

lemma hex_word_is_hex: "list_all is_hex_char (hex_word w)"
  by (simp add: hex_word_def list_all_iff hex_digit_is_hex unat_and_15)

lemma length_concat_hex_words: "length (concat (map hex_word ws)) = 8 * length ws"
  by (induction ws) simp_all

lemma length_sha256_hexdigest: "length (sha256_hexdigest m) = 64"
  by (simp only: sha256_hexdigest_def Let_def length_concat_hex_words length_sha_words)

lemma sha256_hexdigest_is_hex: "list_all is_hex_char (sha256_hexdigest m)"
  using hex_word_is_hex by (auto simp: sha256_hexdigest_def Let_def list_all_iff)

text \<open>Padding always gives a positive whole number of 64-byte blocks.\<close>

lemma length_be_bytes [simp]: "length (be_bytes w) = 8"
  by (simp add: be_bytes_def)

text \<open>The arithmetic is stated with the residue \<open>z\<close> abstracted, which keeps the modulus out of it.\<close>

lemma dvd_padded_length:
  assumes "int z = (55 - int n) mod k" and "k = 64"
  shows "k dvd int (n + (1 + (z + 8)))"
proof -
  have "k dvd (55 - int n) - (55 - int n) mod k" by (rule dvd_minus_mod)
  then have "k dvd (55 - int n) - int z" using assms(1) by (simp only:)
  moreover have "k dvd k" by (rule dvd_refl)
  ultimately have "k dvd k - ((55 - int n) - int z)" by (rule dvd_diff [rotated])
  moreover have "k - ((55 - int n) - int z) = int (n + (1 + (z + 8)))" using assms(2) by linarith
  ultimately show ?thesis by (simp only:)
qed

lemma sha256_pad_blocks: "64 dvd length (sha256_pad m)"
proof -
  have z: "int (nat ((55 - int (length m)) mod 64)) = (55 - int (length m)) mod 64"
    by (rule nat_0_le) (rule pos_mod_sign, rule zero_less_numeral)
  have "64 dvd int (length (sha256_pad m))"
    unfolding sha256_pad_def length_append length_replicate length_be_bytes list.size
    using dvd_padded_length [OF z refl] by (simp only: add_0 plus_nat.add_0 One_nat_def add_Suc)
  then show ?thesis using int_dvd_int_iff [of 64 "length (sha256_pad m)"] by (simp only: of_nat_numeral)
qed

text \<open>
  A published SHA-256 test vector (the message \<open>abc\<close>), evaluated in the kernel: the hash model
  is the real function and not a stand-in.
\<close>

lemma sha256_abc:
  "sha256_hexdigest [0x61, 0x62, 0x63] =
     ''ba7816bf8f01cfea414140de5dae2223b00361a396177a9cb410ff61f20015ad''"
  by code_simp

end
