(* ===== verification/Domain_Errors.thy ===== *)
theory Domain_Errors
  imports Prelude
begin

text \<open>
  The stable errors of the execution domain (\<open>src/qarunner/domain/errors.py\<close>) and the three
  value types they carry. Every exception class is a constructor whose arguments are the
  keyword arguments of the class in source order; a \<open>StrEnum\<close> state is carried as its string
  value. \<open>ensure_expected_version\<close> is the shared compare-and-set precondition.
\<close>

section \<open>Values carried by errors\<close>

datatype digest = Digest (digest_value: string)

record worker_ref =
  wr_worker_id :: string
  wr_generation :: int

record attempt_event =
  ev_event_id :: string
  ev_event_seq :: int
  ev_event_type :: string
  ev_payload_digest :: digest

section \<open>The error classes\<close>

datatype domain_error =
    ArtifactValidationError string string
  | DomainValidationError string string string
  | WorkerGenerationConflict string int string int string
  | WorkerNotClaimable string int string
  | WorkerLeaseConflict string string
  | EvidenceNotReady string
  | EvidenceDigestMismatch digest digest
  | EvidenceConflict digest digest
  | UnknownObservationConflict string string
  | AttemptUnknownReviewRequired string string int string
  | AdjudicationConflict string string
  | RetryNotAllowed string string string string
  | CancellationConflict string string string
  | BatchCancellationConflict string string string
  | AttemptConflict string string string
  | CanonicalizationError string string
  | AssignmentConflict string string string
  | SuiteConflict string string
  | InvalidTransition string string string string int int
  | IdempotencyConflict string string digest digest
  | EventConflict string attempt_event attempt_event
  | EventSequenceGap string int int
  | AttemptEventRejected string string
  | StaleFence string int int
  | StaleGeneration string worker_ref worker_ref
  | VersionConflict string string int int
  | QueueOverflow string int int string
  | ExecutionAdmissionError string
  | CollectionAdapterRejected string string

type_synonym 'a result = "domain_error + 'a"

section \<open>The compare-and-set precondition\<close>

definition ensure_expected_version :: "string \<Rightarrow> string \<Rightarrow> int \<Rightarrow> int \<Rightarrow> unit result" where
  "ensure_expected_version entity_type entity_id current_version expected_version =
     (if expected_version < 0
      then Inl (DomainValidationError entity_type ''expected_version'' ''negative'')
      else if expected_version \<noteq> current_version
      then Inl (VersionConflict entity_type entity_id current_version expected_version)
      else Inr ())"

lemma ensure_expected_version_ok [result_simps]:
  "ensure_expected_version et i cur ex = Inr u \<longleftrightarrow> 0 \<le> ex \<and> ex = cur"
  by (auto simp: ensure_expected_version_def)

lemma ensure_expected_version_stale:
  "0 \<le> ex \<Longrightarrow> ex \<noteq> cur \<Longrightarrow> ensure_expected_version et i cur ex = Inl (VersionConflict et i cur ex)"
  by (simp add: ensure_expected_version_def)

section \<open>Shared field checks\<close>

text \<open>
  The private helpers that the domain modules repeat: a non-empty string, a positive or
  non-negative integer, a UTC datetime. Type tests (\<open>isinstance\<close>) hold by typing here.
\<close>

definition require_nonempty_string :: "string \<Rightarrow> string \<Rightarrow> string \<Rightarrow> domain_error option" where
  "require_nonempty_string entity_type field v =
     reject_if (blank v) (DomainValidationError entity_type field ''empty'')"

definition require_positive_integer :: "string \<Rightarrow> string \<Rightarrow> int \<Rightarrow> domain_error option" where
  "require_positive_integer entity_type field v =
     reject_if (v < 1) (DomainValidationError entity_type field ''not_positive'')"

definition require_nonnegative_version :: "string \<Rightarrow> string \<Rightarrow> int \<Rightarrow> domain_error option" where
  "require_nonnegative_version entity_type field v =
     reject_if (v < 0) (DomainValidationError entity_type field ''negative'')"

definition require_utc :: "string \<Rightarrow> string \<Rightarrow> datetime \<Rightarrow> domain_error option" where
  "require_utc entity_type field v =
     reject_if (\<not> is_utc v) (DomainValidationError entity_type field ''not_utc'')"

lemma require_nonempty_string_None [result_simps]:
  "require_nonempty_string et f v = None \<longleftrightarrow> \<not> blank v"
  by (simp add: require_nonempty_string_def result_simps)

lemma require_positive_integer_None [result_simps]:
  "require_positive_integer et f v = None \<longleftrightarrow> 1 \<le> v"
  by (auto simp: require_positive_integer_def result_simps)

lemma require_nonnegative_version_None [result_simps]:
  "require_nonnegative_version et f v = None \<longleftrightarrow> 0 \<le> v"
  by (auto simp: require_nonnegative_version_def result_simps)

lemma require_utc_None [result_simps]: "require_utc et f v = None \<longleftrightarrow> is_utc v"
  by (simp add: require_utc_def result_simps)

end
