(* ===== verification/Canonical_Json.thy ===== *)
theory Canonical_Json
  imports Domain_Errors Sha256 "HOL-Library.Multiset"
begin

text \<open>
  Canonical content digests (\<open>src/qarunner/domain/digest.py\<close>): the JSON values that may be
  hashed, their validation, the deterministic serialisation \<open>json.dumps(..., sort_keys=True,
  separators=(",", ":"), ensure_ascii=False)\<close> and the SHA-256 digest of it. A Python dict is
  the list of its items in insertion order. Floats and other Python types are excluded by the
  type (\<open>JsonValue\<close> excludes them too); strings are UTF-8 bytes, so lone surrogates do not arise.
\<close>

section \<open>Digest values\<close>

definition check_digest :: "digest \<Rightarrow> domain_error option" where
  "check_digest d =
     reject_if (\<not> (take 7 (digest_value d) = ''sha256:'' \<and>
                   length (digest_value d) = 71 \<and>
                   list_all is_hex_char (drop 7 (digest_value d))))
       (DomainValidationError ''digest'' ''value'' ''invalid_sha256'')"

definition mk_digest :: "string \<Rightarrow> digest result" where
  "mk_digest v = raise_or (check_digest (Digest v)) (Digest v)"

section \<open>JSON values\<close>

datatype json =
    JNull
  | JBool bool
  | JInt int
  | JStr string
  | JList "json list"
  | JObj "(string \<times> json) list"

definition json_opt :: "('a \<Rightarrow> json) \<Rightarrow> 'a option \<Rightarrow> json" where
  "json_opt f v = (case v of None \<Rightarrow> JNull | Some x \<Rightarrow> f x)"

definition safe_int :: "int \<Rightarrow> bool" where
  "safe_int i \<longleftrightarrow> \<bar>i\<bar> \<le> 9007199254740991"

fun validate_json_value :: "string \<Rightarrow> json \<Rightarrow> domain_error option"
  and validate_json_items :: "string \<Rightarrow> nat \<Rightarrow> json list \<Rightarrow> domain_error option"
  and validate_json_members :: "string \<Rightarrow> (string \<times> json) list \<Rightarrow> domain_error option"
where
  "validate_json_value path JNull = None"
| "validate_json_value path (JBool b) = None"
| "validate_json_value path (JInt i) =
     (if \<bar>i\<bar> > 9007199254740991
      then Some (CanonicalizationError path ''integer exceeds I-JSON safe range'') else None)"
| "validate_json_value path (JStr s) = None"
| "validate_json_value path (JList js) = validate_json_items path 0 js"
| "validate_json_value path (JObj kvs) = validate_json_members path kvs"
| "validate_json_items path n [] = None"
| "validate_json_items path n (j # js) =
     (case validate_json_value (path @ ''['' @ show_nat n @ '']'') j of
        Some e \<Rightarrow> Some e
      | None \<Rightarrow> validate_json_items path (Suc n) js)"
| "validate_json_members path [] = None"
| "validate_json_members path ((k, j) # kvs) =
     (case validate_json_value (path @ ''.'' @ k) j of
        Some e \<Rightarrow> Some e
      | None \<Rightarrow> validate_json_members path kvs)"

text \<open>The values that validation accepts: every integer is in the I-JSON safe range.\<close>

fun json_safe :: "json \<Rightarrow> bool" where
  "json_safe (JInt i) = safe_int i"
| "json_safe (JList js) = list_all json_safe js"
| "json_safe (JObj kvs) = list_all (\<lambda>kv. json_safe (snd kv)) kvs"
| "json_safe _ = True"

lemma validate_json_value_None:
  "validate_json_value p j = None \<longleftrightarrow> json_safe j"
  "validate_json_items p n js = None \<longleftrightarrow> list_all json_safe js"
  "validate_json_members p kvs = None \<longleftrightarrow> list_all (\<lambda>kv. json_safe (snd kv)) kvs"
  by (induction p j and p n js and p kvs
      rule: validate_json_value_validate_json_items_validate_json_members.induct)
    (auto simp: safe_int_def split: option.splits)

section \<open>Serialisation\<close>

definition hex2 :: "nat \<Rightarrow> string" where
  "hex2 n = [hex_digit (n div 16), hex_digit (n mod 16)]"

definition json_escape :: "char \<Rightarrow> string" where
  "json_escape c =
     (let n = of_char c :: nat in
      if n = 34 then [char_of (92::nat), char_of (34::nat)]
      else if n = 92 then [char_of (92::nat), char_of (92::nat)]
      else if n = 10 then char_of (92::nat) # ''n''
      else if n = 13 then char_of (92::nat) # ''r''
      else if n = 9 then char_of (92::nat) # ''t''
      else if n = 12 then char_of (92::nat) # ''f''
      else if n = 8 then char_of (92::nat) # ''b''
      else if n < 32 then char_of (92::nat) # ''u00'' @ hex2 n
      else [c])"

definition quote_char :: char where
  "quote_char = char_of (34::nat)"

definition json_quote :: "string \<Rightarrow> string" where
  "json_quote s = quote_char # concat (map json_escape s) @ [quote_char]"

definition json_member :: "string \<times> string \<Rightarrow> string" where
  "json_member kv = json_quote (fst kv) @ '':'' @ snd kv"

fun json_dumps :: "json \<Rightarrow> string" where
  "json_dumps JNull = ''null''"
| "json_dumps (JBool b) = (if b then ''true'' else ''false'')"
| "json_dumps (JInt i) = show_int i"
| "json_dumps (JStr s) = json_quote s"
| "json_dumps (JList js) = ''['' @ join_with '','' (map json_dumps js) @ '']''"
| "json_dumps (JObj kvs) =
     ''{'' @ join_with '',''
        (map json_member (sort_key fst (map (\<lambda>kv. (fst kv, json_dumps (snd kv))) kvs))) @ ''}''"

definition string_bytes :: "string \<Rightarrow> byte list" where
  "string_bytes s = map of_char s"

section \<open>The canonical digest\<close>

definition canonical_bytes :: "string \<Rightarrow> json \<Rightarrow> string" where
  "canonical_bytes schema_version payload =
     json_dumps (JObj [(''payload'', payload), (''schema_version'', JStr schema_version)])"

definition digest_of :: "string \<Rightarrow> json \<Rightarrow> digest" where
  "digest_of schema_version payload =
     Digest (''sha256:'' @ sha256_hexdigest (string_bytes (canonical_bytes schema_version payload)))"

definition canonical_digest :: "string \<Rightarrow> json \<Rightarrow> digest result" where
  "canonical_digest schema_version payload =
     (case validate_json_value ''$.payload'' payload of
        Some e \<Rightarrow> Inl e
      | None \<Rightarrow> mk_digest (''sha256:'' @
          sha256_hexdigest (string_bytes (canonical_bytes schema_version payload))))"

definition canonical_materialized_run_set_digest :: "string \<Rightarrow> string list \<Rightarrow> digest result" where
  "canonical_materialized_run_set_digest batch_id run_ids =
     canonical_digest ''qep.authoritative-materialized-run-set.v1''
       (JObj [(''batch_id'', JStr batch_id), (''run_ids'', JList (map JStr (sort run_ids)))])"

lemma check_digest_of [simp]: "check_digest (digest_of sv p) = None"
  by (simp add: check_digest_def digest_of_def length_sha256_hexdigest sha256_hexdigest_is_hex)

lemma canonical_digest_eq:
  "canonical_digest sv p =
     (case validate_json_value ''$.payload'' p of None \<Rightarrow> Inr (digest_of sv p) | Some e \<Rightarrow> Inl e)"
  using check_digest_of [of sv p]
  by (simp add: canonical_digest_def mk_digest_def digest_of_def split: option.splits)

lemma canonical_digest_Inr [result_simps]:
  "canonical_digest sv p = Inr d \<longleftrightarrow> json_safe p \<and> d = digest_of sv p"
  using validate_json_value_None(1) [of "''$.payload''" p]
  by (auto simp: canonical_digest_eq split: option.splits)

lemma canonical_digest_safe: "json_safe p \<Longrightarrow> canonical_digest sv p = Inr (digest_of sv p)"
  by (simp add: result_simps)

lemma json_safe_opt [simp]: "json_safe (json_opt f v) \<longleftrightarrow> (case v of None \<Rightarrow> True | Some x \<Rightarrow> json_safe (f x))"
  by (simp add: json_opt_def split: option.splits)

text \<open>A materialised Run set has one digest, whatever the order the Runs are listed in.\<close>

lemma sort_mset_cong: "mset xs = mset ys \<Longrightarrow> sort xs = sort ys"
  using properties_for_sort [of "sort ys" xs] by simp

lemma materialized_run_set_digest_perm:
  "mset xs = mset ys \<Longrightarrow>
   canonical_materialized_run_set_digest b xs = canonical_materialized_run_set_digest b ys"
  by (simp add: canonical_materialized_run_set_digest_def sort_mset_cong [of xs ys])

end
