(* ===== verification/Versioned.thy ===== *)
theory Versioned
  imports Prelude "HOL-Library.Sublist"
begin

text \<open>
  The contract that every versioned aggregate of the domain keeps, as locales. A command names
  the aggregate version it was computed from (\<open>expected_version\<close>); executing it either raises,
  replays (returns the aggregate unchanged), or consumes exactly that version. \<open>history\<close> is the
  reachability relation of such an executor. The lemmas proved here once (no ABA, no lost update,
  absorbing states, append-only logs) are instantiated for the Worker, the Attempt and the Run.
\<close>

section \<open>Histories of an executor\<close>

inductive history :: "('c \<Rightarrow> 's \<Rightarrow> 'e + 's) \<Rightarrow> 's \<Rightarrow> 's \<Rightarrow> bool" for exec where
  history_refl: "history exec s s"
| history_step: "history exec s t \<Longrightarrow> exec c t = Inr u \<Longrightarrow> history exec s u"

lemma history_single: "exec c s = Inr t \<Longrightarrow> history exec s t"
  by (rule history_step [OF history_refl])

lemma history_trans: "history exec t u \<Longrightarrow> history exec s t \<Longrightarrow> history exec s u"
  by (induction rule: history.induct) (auto intro: history_step)

lemma history_invariant:
  assumes "history exec s t" and "P s" and "\<And>c t u. P t \<Longrightarrow> exec c t = Inr u \<Longrightarrow> P u"
  shows "P t"
  using assms by (induction rule: history.induct) blast+

section \<open>Compare-and-set commands\<close>

locale versioned_commands =
  fixes ver :: "'s \<Rightarrow> int"
    and expects :: "'c \<Rightarrow> int"
    and exec :: "'c \<Rightarrow> 's \<Rightarrow> 'e + 's"
    and good :: "'s \<Rightarrow> bool"
  assumes exec_good: "good s \<Longrightarrow> exec c s = Inr t \<Longrightarrow> good t"
    and exec_cas: "exec c s = Inr t \<Longrightarrow> t \<noteq> s \<Longrightarrow> expects c = ver s \<and> ver t = ver s + 1"
begin

lemma exec_ver_mono: "exec c s = Inr t \<Longrightarrow> ver s \<le> ver t"
  using exec_cas [of c s t] by (cases "t = s") auto

lemma exec_same_ver: "exec c s = Inr t \<Longrightarrow> ver t = ver s \<Longrightarrow> t = s"
  using exec_cas [of c s t] by auto

lemma history_good: "history exec s t \<Longrightarrow> good s \<Longrightarrow> good t"
  by (rule history_invariant) (auto intro: exec_good)

lemma history_ver_mono: "history exec s t \<Longrightarrow> ver s \<le> ver t"
  by (induction rule: history.induct) (auto dest: exec_ver_mono)

lemma history_same_ver: "history exec s t \<Longrightarrow> ver t = ver s \<Longrightarrow> t = s"
proof (induction rule: history.induct)
  case (history_refl s)
  then show ?case by simp
next
  case (history_step s t c u)
  have "ver s \<le> ver t" "ver t \<le> ver u"
    using history_step.hyps by (auto dest: history_ver_mono exec_ver_mono)
  with history_step.prems have same: "ver t = ver s" "ver u = ver t" by auto
  have "u = t" using exec_same_ver [OF history_step.hyps(2) same(2)] .
  with history_step.IH [OF same(1)] show ?case by simp
qed

text \<open>A command that consumed a version shuts out every later command built on that version.\<close>

lemma no_lost_update:
  assumes "exec c s = Inr t" "t \<noteq> s" "history exec t u" "expects c' = expects c" "exec c' u = Inr v"
  shows "v = u"
proof (rule ccontr)
  assume "v \<noteq> u"
  with assms(5) have "expects c' = ver u" using exec_cas by blast
  moreover have "expects c = ver s" "ver t = ver s + 1" using exec_cas assms(1,2) by blast+
  moreover have "ver t \<le> ver u" using history_ver_mono assms(3) .
  ultimately show False using assms(4) by simp
qed

end

section \<open>Absorbing states and append-only logs\<close>

locale absorbing_lifecycle = versioned_commands ver expects exec good
  for ver :: "'s \<Rightarrow> int" and expects :: "'c \<Rightarrow> int" and exec :: "'c \<Rightarrow> 's \<Rightarrow> 'e + 's"
    and good :: "'s \<Rightarrow> bool" +
  fixes absorbing :: "'s \<Rightarrow> bool"
  assumes exec_absorbing: "good s \<Longrightarrow> absorbing s \<Longrightarrow> exec c s = Inr t \<Longrightarrow> t = s"
begin

lemma history_absorbing:
  assumes "history exec s t" "good s" "absorbing s"
  shows "t = s"
  using assms by (induction rule: history.induct) (auto dest: exec_absorbing)

end

locale append_only_log = versioned_commands ver expects exec good
  for ver :: "'s \<Rightarrow> int" and expects :: "'c \<Rightarrow> int" and exec :: "'c \<Rightarrow> 's \<Rightarrow> 'e + 's"
    and good :: "'s \<Rightarrow> bool" +
  fixes log :: "'s \<Rightarrow> 'l list"
  assumes exec_appends: "good s \<Longrightarrow> exec c s = Inr t \<Longrightarrow> prefix (log s) (log t)"
begin

lemma history_appends:
  assumes "history exec s t" "good s"
  shows "prefix (log s) (log t)"
  using assms
proof (induction rule: history.induct)
  case (history_refl s)
  then show ?case by simp
next
  case (history_step s t c u)
  then have "good t" using history_good by blast
  with history_step show ?case by (meson exec_appends prefix_order.trans)
qed

end

end
