(* ===== verification/Worker.thy ===== *)
theory Worker
  imports Canonical_Json Versioned
begin

text \<open>
  Worker identity and generation lifecycle (\<open>src/qarunner/domain/worker.py\<close>) and the authority
  snapshots (\<open>src/qarunner/domain/authority.py\<close>): the validated facts of one Worker rebuild
  generation, its transition table, reconcile, assignment observation and claimability.
\<close>

section \<open>Data\<close>

datatype worker_state =
    WorkerRegistering | WorkerReady | WorkerBusy | WorkerDraining
  | WorkerQuarantined | WorkerOffline | WorkerRetired

fun worker_state_value :: "worker_state \<Rightarrow> string" where
  "worker_state_value WorkerRegistering = ''registering''"
| "worker_state_value WorkerReady = ''ready''"
| "worker_state_value WorkerBusy = ''busy''"
| "worker_state_value WorkerDraining = ''draining''"
| "worker_state_value WorkerQuarantined = ''quarantined''"
| "worker_state_value WorkerOffline = ''offline''"
| "worker_state_value WorkerRetired = ''retired''"

fun worker_transitions :: "worker_state \<Rightarrow> worker_state list" where
  "worker_transitions WorkerRegistering = [WorkerReady, WorkerQuarantined]"
| "worker_transitions WorkerReady = [WorkerDraining, WorkerOffline, WorkerQuarantined]"
| "worker_transitions WorkerBusy = [WorkerDraining, WorkerOffline, WorkerQuarantined]"
| "worker_transitions WorkerDraining = [WorkerRetired, WorkerOffline, WorkerQuarantined]"
| "worker_transitions WorkerOffline = [WorkerQuarantined]"
| "worker_transitions WorkerQuarantined = [WorkerRetired]"
| "worker_transitions WorkerRetired = []"

definition worker_terminal_states :: "worker_state list" where
  "worker_terminal_states = [WorkerRetired]"

definition check_worker_ref :: "worker_ref \<Rightarrow> domain_error option" where
  "check_worker_ref r = first_some
     [reject_if (blank (wr_worker_id r)) (DomainValidationError ''worker_ref'' ''worker_id'' ''empty_id''),
      reject_if (wr_generation r \<le> 0) (DomainValidationError ''worker_ref'' ''generation'' ''not_positive'')]"

record reconcile_worker_facts =
  rf_active_assignments :: int
  rf_drain_requested :: bool

definition check_reconcile_worker_facts :: "reconcile_worker_facts \<Rightarrow> domain_error option" where
  "check_reconcile_worker_facts f =
     reject_if (rf_active_assignments f < 0)
       (DomainValidationError ''reconcile_worker_facts'' ''active_assignments'' ''negative'')"

record worker_generation =
  wg_ref :: worker_ref
  wg_host_id :: string
  wg_pool_id :: string
  wg_cert_serial :: string
  wg_agent_version :: string
  wg_capabilities_digest :: digest
  wg_state :: worker_state
  wg_registered_at :: datetime
  wg_state_changed_at :: datetime
  wg_last_seen_at :: "datetime option"
  wg_retired_at :: "datetime option"
  wg_version :: int

record worker_authority =
  wa_current_ref :: worker_ref

record attempt_authority =
  aa_current_fence :: int
  aa_current_worker :: worker_ref

definition check_attempt_authority :: "attempt_authority \<Rightarrow> domain_error option" where
  "check_attempt_authority a =
     reject_if (aa_current_fence a < 1)
       (DomainValidationError ''attempt_authority'' ''current_fence'' ''not_positive'')"

abbreviation worker_invalid :: "string \<Rightarrow> string \<Rightarrow> domain_error" where
  "worker_invalid field reason \<equiv> DomainValidationError ''worker_generation'' field reason"

definition check_worker_generation :: "worker_generation \<Rightarrow> domain_error option" where
  "check_worker_generation w = first_some (
     [reject_if (blank (wg_host_id w)) (worker_invalid ''host_id'' ''empty_value''),
      reject_if (blank (wg_pool_id w)) (worker_invalid ''pool_id'' ''empty_value''),
      reject_if (blank (wg_cert_serial w)) (worker_invalid ''cert_serial'' ''empty_value''),
      reject_if (blank (wg_agent_version w)) (worker_invalid ''agent_version'' ''empty_value''),
      reject_if (wg_version w < 0) (worker_invalid ''version'' ''negative''),
      require_utc ''worker_generation'' ''registered_at'' (wg_registered_at w),
      require_utc ''worker_generation'' ''state_changed_at'' (wg_state_changed_at w),
      reject_if (instant (wg_state_changed_at w) < instant (wg_registered_at w))
        (worker_invalid ''state_changed_at'' ''before_registration'')] @
     (case wg_last_seen_at w of
        None \<Rightarrow> []
      | Some t \<Rightarrow>
          [require_utc ''worker_generation'' ''last_seen_at'' t,
           reject_if (instant t < instant (wg_registered_at w))
             (worker_invalid ''last_seen_at'' ''before_registration'')]) @
     (case wg_retired_at w of
        None \<Rightarrow> []
      | Some t \<Rightarrow>
          [require_utc ''worker_generation'' ''retired_at'' t,
           reject_if (instant t \<noteq> instant (wg_state_changed_at w))
             (worker_invalid ''retired_at'' ''must_equal_state_changed_at'')]) @
     [reject_if ((wg_state w = WorkerRetired) \<noteq> (wg_retired_at w \<noteq> None))
        (worker_invalid ''retired_at'' ''must_match_retired_state'')])"

definition mk_worker_generation :: "worker_generation \<Rightarrow> worker_generation result" where
  "mk_worker_generation w = raise_or (check_worker_generation w) w"

section \<open>Operations\<close>

definition worker_register ::
  "worker_ref \<Rightarrow> string \<Rightarrow> string \<Rightarrow> string \<Rightarrow> string \<Rightarrow> digest \<Rightarrow> datetime \<Rightarrow> worker_generation result" where
  "worker_register ref host_id pool_id cert_serial agent_version capabilities_digest registered_at =
     mk_worker_generation
       \<lparr>wg_ref = ref, wg_host_id = host_id, wg_pool_id = pool_id, wg_cert_serial = cert_serial,
        wg_agent_version = agent_version, wg_capabilities_digest = capabilities_digest,
        wg_state = WorkerRegistering, wg_registered_at = registered_at,
        wg_state_changed_at = registered_at, wg_last_seen_at = None, wg_retired_at = None,
        wg_version = 0\<rparr>"

definition worker_ensure_authority :: "worker_generation \<Rightarrow> worker_authority \<Rightarrow> unit result" where
  "worker_ensure_authority w authority =
     (if wg_ref w \<noteq> wa_current_ref authority
      then Inl (WorkerGenerationConflict
             (wr_worker_id (wa_current_ref authority)) (wr_generation (wa_current_ref authority))
             (wr_worker_id (wg_ref w)) (wr_generation (wg_ref w)) ''generation_not_current'')
      else Inr ())"

definition worker_ensure_event_time :: "worker_generation \<Rightarrow> string \<Rightarrow> datetime \<Rightarrow> unit result" where
  "worker_ensure_event_time w field v = raise_or (first_some
     [require_utc ''worker_generation'' field v,
      reject_if (instant v < instant (wg_state_changed_at w)) (worker_invalid field ''before_current_state'')]) ()"

definition worker_ensure_observation_time :: "worker_generation \<Rightarrow> string \<Rightarrow> datetime \<Rightarrow> unit result" where
  "worker_ensure_observation_time w field v =
     bind_result (worker_ensure_event_time w field v) (\<lambda>_.
       case wg_last_seen_at w of
         None \<Rightarrow> Inr ()
       | Some t \<Rightarrow>
           (if instant v < instant t then Inl (worker_invalid field ''before_last_seen'') else Inr ()))"

definition worker_state_from_facts :: "reconcile_worker_facts \<Rightarrow> worker_state" where
  "worker_state_from_facts f =
     (if rf_drain_requested f then WorkerDraining
      else if rf_active_assignments f > 0 then WorkerBusy else WorkerReady)"

abbreviation worker_invalid_transition ::
  "worker_generation \<Rightarrow> worker_state \<Rightarrow> int \<Rightarrow> domain_error" where
  "worker_invalid_transition w target expected \<equiv>
     InvalidTransition ''worker_generation'' (wr_worker_id (wg_ref w))
       (worker_state_value (wg_state w)) (worker_state_value target) (wg_version w) expected"

definition worker_transition ::
  "worker_state \<Rightarrow> worker_authority \<Rightarrow> int \<Rightarrow> datetime \<Rightarrow> worker_generation \<Rightarrow> worker_generation result" where
  "worker_transition target authority expected_version occurred_at w =
     bind_result (worker_ensure_authority w authority) (\<lambda>_.
     bind_result (ensure_expected_version ''worker_generation'' (wr_worker_id (wg_ref w))
       (wg_version w) expected_version) (\<lambda>_.
     bind_result (worker_ensure_event_time w ''occurred_at'' occurred_at) (\<lambda>_.
     if target \<notin> set (worker_transitions (wg_state w))
     then Inl (worker_invalid_transition w target expected_version)
     else mk_worker_generation (w
       \<lparr>wg_state := target,
        wg_state_changed_at := occurred_at,
        wg_last_seen_at := (if target = WorkerReady then Some occurred_at else wg_last_seen_at w),
        wg_retired_at := (if target = WorkerRetired then Some occurred_at else None),
        wg_version := wg_version w + 1\<rparr>))))"

definition worker_reconcile ::
  "worker_authority \<Rightarrow> worker_ref \<Rightarrow> reconcile_worker_facts \<Rightarrow> int \<Rightarrow> datetime \<Rightarrow>
   worker_generation \<Rightarrow> worker_generation result" where
  "worker_reconcile authority authenticated_ref facts expected_version observed_at w =
     bind_result (worker_ensure_authority w authority) (\<lambda>_.
     if authenticated_ref \<noteq> wg_ref w
     then Inl (WorkerGenerationConflict (wr_worker_id (wg_ref w)) (wr_generation (wg_ref w))
       (wr_worker_id authenticated_ref) (wr_generation authenticated_ref) ''generation_not_current'')
     else bind_result (ensure_expected_version ''worker_generation'' (wr_worker_id (wg_ref w))
       (wg_version w) expected_version) (\<lambda>_.
     bind_result (worker_ensure_observation_time w ''observed_at'' observed_at) (\<lambda>_.
     let target = worker_state_from_facts facts in
     if wg_state w \<noteq> WorkerOffline
     then Inl (worker_invalid_transition w target expected_version)
     else mk_worker_generation (w
       \<lparr>wg_state := target, wg_state_changed_at := observed_at,
        wg_last_seen_at := Some observed_at, wg_version := wg_version w + 1\<rparr>))))"

definition worker_observe_assignments ::
  "worker_authority \<Rightarrow> int \<Rightarrow> int \<Rightarrow> datetime \<Rightarrow> worker_generation \<Rightarrow> worker_generation result" where
  "worker_observe_assignments authority active_assignments expected_version observed_at w =
     bind_result (worker_ensure_authority w authority) (\<lambda>_.
     let facts = \<lparr>rf_active_assignments = active_assignments, rf_drain_requested = False\<rparr> in
     bind_result (raise_or (check_reconcile_worker_facts facts) ()) (\<lambda>_.
     bind_result (ensure_expected_version ''worker_generation'' (wr_worker_id (wg_ref w))
       (wg_version w) expected_version) (\<lambda>_.
     bind_result (worker_ensure_observation_time w ''observed_at'' observed_at) (\<lambda>_.
     let target = worker_state_from_facts facts in
     if wg_state w \<notin> {WorkerReady, WorkerBusy}
     then Inl (worker_invalid_transition w target expected_version)
     else mk_worker_generation (w
       \<lparr>wg_state := target, wg_state_changed_at := observed_at,
        wg_last_seen_at := Some observed_at, wg_version := wg_version w + 1\<rparr>)))))"

definition worker_claimable_ref :: "worker_authority \<Rightarrow> worker_generation \<Rightarrow> worker_ref result" where
  "worker_claimable_ref authority w =
     bind_result (worker_ensure_authority w authority) (\<lambda>_.
     if wg_state w \<notin> {WorkerReady, WorkerBusy}
     then Inl (WorkerNotClaimable (wr_worker_id (wg_ref w)) (wr_generation (wg_ref w))
       (worker_state_value (wg_state w)))
     else Inr (wg_ref w))"

section \<open>Commands\<close>

datatype worker_command =
    WorkerTransition worker_state worker_authority int datetime
  | WorkerReconcile worker_authority worker_ref reconcile_worker_facts int datetime
  | WorkerObserve worker_authority int int datetime

fun exec_worker :: "worker_command \<Rightarrow> worker_generation \<Rightarrow> worker_generation result" where
  "exec_worker (WorkerTransition t a v d) w = worker_transition t a v d w"
| "exec_worker (WorkerReconcile a r f v d) w = worker_reconcile a r f v d w"
| "exec_worker (WorkerObserve a n v d) w = worker_observe_assignments a n v d w"

fun worker_expects :: "worker_command \<Rightarrow> int" where
  "worker_expects (WorkerTransition t a v d) = v"
| "worker_expects (WorkerReconcile a r f v d) = v"
| "worker_expects (WorkerObserve a n v d) = v"

definition wf_worker :: "worker_generation \<Rightarrow> bool" where
  "wf_worker w \<longleftrightarrow> check_worker_generation w = None"

lemmas worker_op_defs = worker_transition_def worker_reconcile_def worker_observe_assignments_def
  worker_ensure_authority_def worker_ensure_observation_time_def worker_ensure_event_time_def
  mk_worker_generation_def

lemma exec_worker_wf: "exec_worker c w = Inr w' \<Longrightarrow> wf_worker w'"
  by (cases c) (auto simp: worker_op_defs wf_worker_def result_simps Let_def split: option.splits)

lemma exec_worker_cas:
  "exec_worker c w = Inr w' \<Longrightarrow> worker_expects c = wg_version w \<and> wg_version w' = wg_version w + 1"
  by (cases c) (auto simp: worker_op_defs result_simps Let_def split: option.splits)

lemma exec_worker_retired: "wg_state w = WorkerRetired \<Longrightarrow> exec_worker c w \<noteq> Inr w'"
  by (cases c) (auto simp: worker_op_defs result_simps Let_def)

interpretation worker_life: absorbing_lifecycle wg_version worker_expects exec_worker wf_worker
  "\<lambda>w. wg_state w = WorkerRetired"
  by unfold_locales (auto intro: exec_worker_wf dest: exec_worker_cas exec_worker_retired)

text \<open>Where one step can lead: the source's table, plus reconcile and observation.\<close>

lemma exec_worker_edge:
  "exec_worker c w = Inr w' \<Longrightarrow>
     wg_ref w' = wg_ref w \<and>
     (wg_state w' \<in> set (worker_transitions (wg_state w)) \<or>
      (wg_state w = WorkerOffline \<and> wg_state w' \<in> {WorkerDraining, WorkerBusy, WorkerReady}) \<or>
      (wg_state w \<in> {WorkerReady, WorkerBusy} \<and> wg_state w' \<in> {WorkerReady, WorkerBusy}))"
  by (cases c) (auto simp: worker_op_defs worker_state_from_facts_def result_simps Let_def split: option.splits)

lemma exec_worker_quarantined:
  "exec_worker c w = Inr w' \<Longrightarrow> wg_state w \<in> {WorkerQuarantined, WorkerRetired} \<Longrightarrow>
   wg_state w' \<in> {WorkerQuarantined, WorkerRetired}"
  using exec_worker_edge [of c w w'] by auto

lemma worker_claimable_ref_Inr [result_simps]:
  "worker_claimable_ref a w = Inr r \<longleftrightarrow>
     wg_ref w = wa_current_ref a \<and> wg_state w \<in> {WorkerReady, WorkerBusy} \<and> r = wg_ref w"
  by (auto simp: worker_claimable_ref_def worker_ensure_authority_def result_simps)

end
