(* ===== verification/Assignment.thy ===== *)
theory Assignment
  imports Worker
begin

text \<open>
  The short-lived reservation of a Run on one Worker generation
  (\<open>src/qarunner/domain/assignment.py\<close>): its closure fact, its validator, and the four state
  changes offer, claim, commit and close.
\<close>

section \<open>Data\<close>

datatype assignment_state =
    AssignmentOffered | AssignmentClaimed | AssignmentCommitted
  | AssignmentExpiredPrestart | AssignmentReleasedPrestart | AssignmentCancelledPrestart

datatype assignment_closure_kind =
    ClosureExpiredPrestart | ClosureReleasedPrestart | ClosureCancelledPrestart

fun closure_kind_value :: "assignment_closure_kind \<Rightarrow> string" where
  "closure_kind_value ClosureExpiredPrestart = ''expired_prestart''"
| "closure_kind_value ClosureReleasedPrestart = ''released_prestart''"
| "closure_kind_value ClosureCancelledPrestart = ''cancelled_prestart''"

record assignment_closure =
  cl_assignment_id :: string
  cl_idempotency_key :: string
  cl_kind :: assignment_closure_kind
  cl_effective_at :: datetime
  cl_recorded_at :: datetime
  cl_worker :: "worker_ref option"
  cl_cancellation_intent_digest :: "digest option"

abbreviation closure_invalid :: "string \<Rightarrow> string \<Rightarrow> domain_error" where
  "closure_invalid field reason \<equiv> DomainValidationError ''assignment_closure'' field reason"

definition check_assignment_closure :: "assignment_closure \<Rightarrow> domain_error option" where
  "check_assignment_closure c = first_some (
     [require_nonempty_string ''assignment_closure'' ''assignment_id'' (cl_assignment_id c),
      require_nonempty_string ''assignment_closure'' ''idempotency_key'' (cl_idempotency_key c),
      require_utc ''assignment_closure'' ''effective_at'' (cl_effective_at c),
      require_utc ''assignment_closure'' ''recorded_at'' (cl_recorded_at c),
      reject_if (instant (cl_recorded_at c) < instant (cl_effective_at c))
        (closure_invalid ''recorded_at'' ''before_effective_at'')] @
     (case cl_kind c of
        ClosureExpiredPrestart \<Rightarrow>
          [reject_if (cl_worker c \<noteq> None) (closure_invalid ''worker'' ''forbidden_for_kind''),
           reject_if (cl_cancellation_intent_digest c \<noteq> None)
             (closure_invalid ''cancellation_intent_digest'' ''forbidden_for_kind'')]
      | ClosureReleasedPrestart \<Rightarrow>
          [reject_if (cl_worker c = None) (closure_invalid ''worker'' ''required_for_kind''),
           reject_if (cl_cancellation_intent_digest c \<noteq> None)
             (closure_invalid ''cancellation_intent_digest'' ''forbidden_for_kind'')]
      | ClosureCancelledPrestart \<Rightarrow>
          [reject_if (cl_worker c \<noteq> None) (closure_invalid ''worker'' ''forbidden_for_kind''),
           reject_if (cl_cancellation_intent_digest c = None)
             (closure_invalid ''cancellation_intent_digest'' ''required_for_kind'')]))"

definition mk_assignment_closure :: "assignment_closure \<Rightarrow> assignment_closure result" where
  "mk_assignment_closure c = raise_or (check_assignment_closure c) c"

definition worker_ref_json :: "worker_ref \<Rightarrow> json" where
  "worker_ref_json r =
     JObj [(''worker_id'', JStr (wr_worker_id r)), (''generation'', JInt (wr_generation r))]"

definition closure_request_digest :: "assignment_closure \<Rightarrow> digest result" where
  "closure_request_digest c = canonical_digest ''qep.assignment-closure-request.v1''
     (JObj [(''assignment_id'', JStr (cl_assignment_id c)),
            (''idempotency_key'', JStr (cl_idempotency_key c)),
            (''kind'', JStr (closure_kind_value (cl_kind c))),
            (''worker'', json_opt worker_ref_json (cl_worker c))])"

definition closure_digest :: "assignment_closure \<Rightarrow> digest result" where
  "closure_digest c =
     bind_result (closure_request_digest c) (\<lambda>rd.
     canonical_digest ''qep.assignment-closure.v1''
       (JObj ([(''request_digest'', JStr (digest_value rd)),
               (''effective_at'', JStr (iso_z (cl_effective_at c))),
               (''recorded_at'', JStr (iso_z (cl_recorded_at c)))] @
              (case cl_cancellation_intent_digest c of
                 None \<Rightarrow> []
               | Some d \<Rightarrow> [(''cancellation_intent_digest'', JStr (digest_value d))]))))"

record assignment =
  as_id :: string
  as_worker :: worker_ref
  as_spec_digest :: digest
  as_state :: assignment_state
  as_offered_at :: datetime
  as_expires_at :: datetime
  as_claimed_at :: "datetime option"
  as_committed_at :: "datetime option"
  as_retry_intent_id :: "string option"
  as_closure :: "assignment_closure option"

abbreviation assignment_invalid :: "string \<Rightarrow> string \<Rightarrow> domain_error" where
  "assignment_invalid field reason \<equiv> DomainValidationError ''assignment'' field reason"

fun assignment_terminal_kind :: "assignment_state \<Rightarrow> assignment_closure_kind option" where
  "assignment_terminal_kind AssignmentExpiredPrestart = Some ClosureExpiredPrestart"
| "assignment_terminal_kind AssignmentReleasedPrestart = Some ClosureReleasedPrestart"
| "assignment_terminal_kind AssignmentCancelledPrestart = Some ClosureCancelledPrestart"
| "assignment_terminal_kind _ = None"

fun closed_state_of :: "assignment_closure_kind \<Rightarrow> assignment_state" where
  "closed_state_of ClosureExpiredPrestart = AssignmentExpiredPrestart"
| "closed_state_of ClosureReleasedPrestart = AssignmentReleasedPrestart"
| "closed_state_of ClosureCancelledPrestart = AssignmentCancelledPrestart"

text \<open>
  The validator. \<open>claimed\<close> and \<open>committed\<close> hold the optional timestamps; a comparison with an
  absent one is guarded exactly where the source guards it.
\<close>

definition optional_utc_checks :: "string \<Rightarrow> datetime option \<Rightarrow> domain_error option list" where
  "optional_utc_checks field v =
     (case v of None \<Rightarrow> [] | Some t \<Rightarrow> [require_utc ''assignment'' field t])"

definition outside_claim_window :: "assignment \<Rightarrow> bool" where
  "outside_claim_window a =
     (case as_committed_at a of
        None \<Rightarrow> False
      | Some m \<Rightarrow>
          (case as_claimed_at a of
             None \<Rightarrow> True
           | Some c \<Rightarrow> \<not> (instant c \<le> instant m \<and> instant m < instant (as_expires_at a))))"

definition outside_offer_window :: "assignment \<Rightarrow> bool" where
  "outside_offer_window a =
     (case as_claimed_at a of
        None \<Rightarrow> False
      | Some c \<Rightarrow> \<not> (instant (as_offered_at a) \<le> instant c \<and> instant c < instant (as_expires_at a)))"

definition open_assignment_checks :: "assignment \<Rightarrow> domain_error option list" where
  "open_assignment_checks a =
     [reject_if (as_closure a \<noteq> None) (assignment_invalid ''closure'' ''forbidden_for_state''),
      reject_if (as_state a = AssignmentOffered \<and> (as_claimed_at a \<noteq> None \<or> as_committed_at a \<noteq> None))
        (assignment_invalid ''claimed_at'' ''forbidden_for_state''),
      reject_if (as_state a = AssignmentClaimed \<and> (as_claimed_at a = None \<or> as_committed_at a \<noteq> None))
        (assignment_invalid ''claimed_at'' ''required_for_state''),
      reject_if (as_state a = AssignmentCommitted \<and> as_committed_at a = None)
        (assignment_invalid ''committed_at'' ''required_for_state'')]"

definition closed_assignment_checks ::
  "assignment \<Rightarrow> assignment_closure_kind \<Rightarrow> domain_error option list" where
  "closed_assignment_checks a kind =
     reject_if (as_committed_at a \<noteq> None) (assignment_invalid ''committed_at'' ''forbidden_for_state'') #
     (case as_closure a of
        None \<Rightarrow> [Some (assignment_invalid ''closure'' ''required_for_state'')]
      | Some c \<Rightarrow>
          [reject_if (cl_assignment_id c \<noteq> as_id a) (assignment_invalid ''closure'' ''assignment_mismatch''),
           reject_if (cl_kind c \<noteq> kind) (assignment_invalid ''closure'' ''state_mismatch''),
           reject_if (cl_kind c = ClosureExpiredPrestart \<and>
               instant (cl_effective_at c) \<noteq> instant (as_expires_at a))
             (assignment_invalid ''closure'' ''expiry_effective_at_mismatch''),
           reject_if (cl_kind c = ClosureReleasedPrestart \<and> cl_worker c \<noteq> Some (as_worker a))
             (assignment_invalid ''closure'' ''worker_mismatch'')] @
          (if cl_kind c \<noteq> ClosureExpiredPrestart then
             [reject_if (case as_claimed_at a of None \<Rightarrow> False
                         | Some t \<Rightarrow> instant (cl_effective_at c) < instant t)
                (assignment_invalid ''closure'' ''before_claimed_at''),
              reject_if (instant (cl_effective_at c) < instant (as_offered_at a))
                (assignment_invalid ''closure'' ''before_offered_at''),
              reject_if (instant (cl_effective_at c) \<ge> instant (as_expires_at a))
                (assignment_invalid ''closure'' ''at_or_after_expiry'')]
           else []))"

definition check_assignment :: "assignment \<Rightarrow> domain_error option" where
  "check_assignment a = first_some (
     [reject_if (blank (as_id a)) (assignment_invalid ''id'' ''empty''),
      require_utc ''assignment'' ''offered_at'' (as_offered_at a),
      require_utc ''assignment'' ''expires_at'' (as_expires_at a),
      reject_if (instant (as_expires_at a) \<le> instant (as_offered_at a))
        (assignment_invalid ''expires_at'' ''not_after_offered_at'')] @
     optional_utc_checks ''claimed_at'' (as_claimed_at a) @
     optional_utc_checks ''committed_at'' (as_committed_at a) @
     [reject_if (outside_offer_window a) (assignment_invalid ''claimed_at'' ''outside_offer_window''),
      reject_if (outside_claim_window a) (assignment_invalid ''committed_at'' ''outside_claim_window''),
      reject_if (case as_retry_intent_id a of None \<Rightarrow> False | Some i \<Rightarrow> blank i)
        (assignment_invalid ''retry_intent_id'' ''invalid'')] @
     (case assignment_terminal_kind (as_state a) of
        None \<Rightarrow> open_assignment_checks a
      | Some kind \<Rightarrow> closed_assignment_checks a kind))"

definition mk_assignment :: "assignment \<Rightarrow> assignment result" where
  "mk_assignment a = raise_or (check_assignment a) a"

section \<open>Operations\<close>

definition assignment_offer ::
  "string \<Rightarrow> worker_ref \<Rightarrow> digest \<Rightarrow> datetime \<Rightarrow> datetime \<Rightarrow> string option \<Rightarrow> assignment result" where
  "assignment_offer assignment_id worker spec_digest offered_at expires_at retry_intent_id =
     mk_assignment
       \<lparr>as_id = assignment_id, as_worker = worker, as_spec_digest = spec_digest,
        as_state = AssignmentOffered, as_offered_at = offered_at, as_expires_at = expires_at,
        as_claimed_at = None, as_committed_at = None, as_retry_intent_id = retry_intent_id,
        as_closure = None\<rparr>"

definition assignment_claim :: "datetime \<Rightarrow> assignment \<Rightarrow> assignment result" where
  "assignment_claim claimed_at a =
     (if as_state a \<noteq> AssignmentOffered
      then Inl (assignment_invalid ''state'' ''transition_not_allowed'')
      else mk_assignment (a\<lparr>as_state := AssignmentClaimed, as_claimed_at := Some claimed_at\<rparr>))"

definition assignment_commit :: "datetime \<Rightarrow> assignment \<Rightarrow> assignment result" where
  "assignment_commit committed_at a =
     (if as_state a \<noteq> AssignmentClaimed
      then Inl (assignment_invalid ''state'' ''transition_not_allowed'')
      else mk_assignment (a\<lparr>as_state := AssignmentCommitted, as_committed_at := Some committed_at\<rparr>))"

definition assignment_close_prestart :: "assignment_closure \<Rightarrow> assignment \<Rightarrow> assignment result" where
  "assignment_close_prestart closure a =
     (if as_state a \<notin> {AssignmentOffered, AssignmentClaimed}
      then Inl (assignment_invalid ''state'' ''transition_not_allowed'')
      else mk_assignment (a\<lparr>as_state := closed_state_of (cl_kind closure), as_closure := Some closure\<rparr>))"

section \<open>Facts\<close>

definition wf_assignment :: "assignment \<Rightarrow> bool" where
  "wf_assignment a \<longleftrightarrow>
     check_assignment a = None \<and>
     (\<forall>c. as_closure a = Some c \<longrightarrow> check_assignment_closure c = None)"

lemmas assignment_check_defs = check_assignment_def open_assignment_checks_def
  closed_assignment_checks_def optional_utc_checks_def outside_claim_window_def
  outside_offer_window_def

lemma closed_state_terminal [simp]: "assignment_terminal_kind (closed_state_of k) = Some k"
  by (cases k) auto

lemma terminal_kind_Some_iff:
  "assignment_terminal_kind s = Some k \<longleftrightarrow> s = closed_state_of k"
  by (cases s; cases k) auto

lemma terminal_kind_None_iff:
  "assignment_terminal_kind s = None \<longleftrightarrow> s \<in> {AssignmentOffered, AssignmentClaimed, AssignmentCommitted}"
  by (cases s) auto

lemma assignment_claim_Inr [result_simps]:
  "assignment_claim t a = Inr b \<longleftrightarrow>
     as_state a = AssignmentOffered \<and>
     b = a\<lparr>as_state := AssignmentClaimed, as_claimed_at := Some t\<rparr> \<and> check_assignment b = None"
  by (auto simp: assignment_claim_def mk_assignment_def result_simps)

lemma assignment_commit_Inr [result_simps]:
  "assignment_commit t a = Inr b \<longleftrightarrow>
     as_state a = AssignmentClaimed \<and>
     b = a\<lparr>as_state := AssignmentCommitted, as_committed_at := Some t\<rparr> \<and> check_assignment b = None"
  by (auto simp: assignment_commit_def mk_assignment_def result_simps)

lemma assignment_close_Inr [result_simps]:
  "assignment_close_prestart c a = Inr b \<longleftrightarrow>
     as_state a \<in> {AssignmentOffered, AssignmentClaimed} \<and>
     b = a\<lparr>as_state := closed_state_of (cl_kind c), as_closure := Some c\<rparr> \<and> check_assignment b = None"
  by (auto simp: assignment_close_prestart_def mk_assignment_def result_simps)

lemma assignment_offer_Inr [result_simps]:
  "assignment_offer i w d ot e r = Inr b \<longleftrightarrow>
     b = \<lparr>as_id = i, as_worker = w, as_spec_digest = d, as_state = AssignmentOffered,
          as_offered_at = ot, as_expires_at = e, as_claimed_at = None, as_committed_at = None,
          as_retry_intent_id = r, as_closure = None\<rparr> \<and> check_assignment b = None"
  by (auto simp: assignment_offer_def mk_assignment_def result_simps)

lemma wf_assignment_committed:
  assumes "wf_assignment a" "as_state a = AssignmentCommitted"
  obtains c m where "as_claimed_at a = Some c" "as_committed_at a = Some m"
    "as_closure a = None" "instant (as_offered_at a) \<le> instant c" "instant c \<le> instant m"
    "instant m < instant (as_expires_at a)"
  using assms
  by (auto simp: wf_assignment_def assignment_check_defs result_simps split: option.splits)

lemma wf_assignment_open:
  assumes "wf_assignment a" "as_state a \<in> {AssignmentOffered, AssignmentClaimed}"
  shows "as_committed_at a = None" "as_closure a = None"
    "as_claimed_at a = None \<longleftrightarrow> as_state a = AssignmentOffered"
  using assms
  by (auto simp: wf_assignment_def assignment_check_defs result_simps split: option.splits)

lemma wf_assignment_closed:
  assumes "wf_assignment a" "as_state a = closed_state_of k"
  obtains c where "as_closure a = Some c" "cl_kind c = k" "cl_assignment_id c = as_id a"
    "as_committed_at a = None"
  using assms
  by (auto simp: wf_assignment_def assignment_check_defs result_simps split: option.splits)

end
