(* ===== verification/Run_Cancellation.thy ===== *)
theory Run_Cancellation
  imports Assignment
begin

text \<open>
  Cancellation facts owned by a Run (\<open>src/qarunner/domain/cancellation.py\<close>, the Run part): the
  intent to stop, with the request digest that decides replays, and the trusted proof that the
  process and its access to the system under test have both stopped.
\<close>

section \<open>Intent\<close>

datatype cancellation_source = UserRequest | DeadlineExceeded | PolicyEnforcement

fun cancellation_source_value :: "cancellation_source \<Rightarrow> string" where
  "cancellation_source_value UserRequest = ''user_request''"
| "cancellation_source_value DeadlineExceeded = ''deadline_exceeded''"
| "cancellation_source_value PolicyEnforcement = ''policy_enforcement''"

record cancellation_intent =
  ci_run_id :: string
  ci_idempotency_key :: string
  ci_source :: cancellation_source
  ci_actor_id :: string
  ci_reason :: string
  ci_recorded_at :: datetime

definition check_cancellation_intent :: "cancellation_intent \<Rightarrow> domain_error option" where
  "check_cancellation_intent c = first_some
     [require_nonempty_string ''cancellation_intent'' ''run_id'' (ci_run_id c),
      require_nonempty_string ''cancellation_intent'' ''idempotency_key'' (ci_idempotency_key c),
      require_nonempty_string ''cancellation_intent'' ''actor_id'' (ci_actor_id c),
      require_nonempty_string ''cancellation_intent'' ''reason'' (ci_reason c),
      require_utc ''cancellation_intent'' ''recorded_at'' (ci_recorded_at c)]"

definition mk_cancellation_intent :: "cancellation_intent \<Rightarrow> cancellation_intent result" where
  "mk_cancellation_intent c = raise_or (check_cancellation_intent c) c"

definition cancellation_request_json :: "cancellation_intent \<Rightarrow> json" where
  "cancellation_request_json c = JObj
     [(''run_id'', JStr (ci_run_id c)),
      (''idempotency_key'', JStr (ci_idempotency_key c)),
      (''source'', JStr (cancellation_source_value (ci_source c))),
      (''actor_id'', JStr (ci_actor_id c)),
      (''reason'', JStr (ci_reason c))]"

definition cancellation_request_digest :: "cancellation_intent \<Rightarrow> digest result" where
  "cancellation_request_digest c =
     canonical_digest ''qep.cancellation-request.v1'' (cancellation_request_json c)"

definition cancellation_intent_digest :: "cancellation_intent \<Rightarrow> digest result" where
  "cancellation_intent_digest c =
     bind_result (cancellation_request_digest c) (\<lambda>rd.
     canonical_digest ''qep.cancellation-intent.v1''
       (JObj [(''request_digest'', JStr (digest_value rd)),
              (''recorded_at'', JStr (iso_z (ci_recorded_at c)))]))"

lemma cancellation_request_digest_total:
  "cancellation_request_digest c =
     Inr (digest_of ''qep.cancellation-request.v1'' (cancellation_request_json c))"
  by (simp add: cancellation_request_digest_def cancellation_request_json_def result_simps)

lemma cancellation_intent_digest_total: "\<exists>d. cancellation_intent_digest c = Inr d"
  by (simp add: cancellation_intent_digest_def cancellation_request_digest_total result_simps)

section \<open>Stop proof\<close>

record trusted_cancellation_stop =
  cs_run_id :: string
  cs_attempt_id :: string
  cs_fence :: int
  cs_worker :: worker_ref
  cs_cancellation_intent_digest :: digest
  cs_source_event_id :: string
  cs_process_stopped_at :: datetime
  cs_sut_access_stopped_at :: datetime
  cs_recorded_at :: datetime

definition check_trusted_cancellation_stop :: "trusted_cancellation_stop \<Rightarrow> domain_error option" where
  "check_trusted_cancellation_stop s =
     (let e = ''trusted_cancellation_stop'' in first_some
     [require_nonempty_string e ''run_id'' (cs_run_id s),
      require_nonempty_string e ''attempt_id'' (cs_attempt_id s),
      require_nonempty_string e ''source_event_id'' (cs_source_event_id s),
      require_positive_integer e ''fence'' (cs_fence s),
      require_utc e ''process_stopped_at'' (cs_process_stopped_at s),
      require_utc e ''sut_access_stopped_at'' (cs_sut_access_stopped_at s),
      require_utc e ''recorded_at'' (cs_recorded_at s),
      reject_if (instant (cs_recorded_at s) <
          max (instant (cs_process_stopped_at s)) (instant (cs_sut_access_stopped_at s)))
        (DomainValidationError e ''recorded_at'' ''before_stop_facts'')])"

definition trusted_cancellation_stop_digest :: "trusted_cancellation_stop \<Rightarrow> digest result" where
  "trusted_cancellation_stop_digest s = canonical_digest ''qep.trusted-cancellation-stop.v1''
     (JObj [(''run_id'', JStr (cs_run_id s)),
            (''attempt_id'', JStr (cs_attempt_id s)),
            (''fence'', JInt (cs_fence s)),
            (''worker'', worker_ref_json (cs_worker s)),
            (''cancellation_intent_digest'', JStr (digest_value (cs_cancellation_intent_digest s))),
            (''source_event_id'', JStr (cs_source_event_id s)),
            (''process_stopped_at'', JStr (iso_z (cs_process_stopped_at s))),
            (''sut_access_stopped_at'', JStr (iso_z (cs_sut_access_stopped_at s))),
            (''recorded_at'', JStr (iso_z (cs_recorded_at s)))])"

definition stop_floor :: "trusted_cancellation_stop \<Rightarrow> int" where
  "stop_floor s = min (instant (cs_process_stopped_at s)) (instant (cs_sut_access_stopped_at s))"

end
