(* ===== verification/Evidence.thy ===== *)
theory Evidence
  imports Run_Cancellation
begin

text \<open>
  Trusted artifacts and Attempt evidence (\<open>src/qarunner/domain/evidence.py\<close>): safe artifact
  paths, the case summary, outcome classification from platform facts, and the canonical
  \<open>build_evidence_manifest\<close> that the control plane recomputes on every finalize and rehydration.
\<close>

section \<open>Artifacts\<close>

datatype artifact_class =
    StructuredResult | LogArtifact | Screenshot | VideoArtifact | TraceArtifact
  | ReportArtifact | DiagnosticArtifact

fun artifact_class_value :: "artifact_class \<Rightarrow> string" where
  "artifact_class_value StructuredResult = ''structured_result''"
| "artifact_class_value LogArtifact = ''log''"
| "artifact_class_value Screenshot = ''screenshot''"
| "artifact_class_value VideoArtifact = ''video''"
| "artifact_class_value TraceArtifact = ''trace''"
| "artifact_class_value ReportArtifact = ''report''"
| "artifact_class_value DiagnosticArtifact = ''diagnostic''"

datatype platform_exit_class = ExitCompleted | ExitInfraFailed | ExitCancelled

fun platform_exit_class_value :: "platform_exit_class \<Rightarrow> string" where
  "platform_exit_class_value ExitCompleted = ''completed''"
| "platform_exit_class_value ExitInfraFailed = ''infra_failed''"
| "platform_exit_class_value ExitCancelled = ''cancelled''"

datatype artifact_path = ArtifactPath (ap_value: string)

text \<open>\<open>value.split("/")\<close>: always at least one segment.\<close>

fun split_slash :: "string \<Rightarrow> string list" where
  "split_slash [] = [[]]"
| "split_slash (c # cs) =
     (if c = CHR ''/'' then [] # split_slash cs
      else (case split_slash cs of [] \<Rightarrow> [[c]] | seg # segs \<Rightarrow> (c # seg) # segs))"

definition check_artifact_path :: "artifact_path \<Rightarrow> domain_error option" where
  "check_artifact_path p = first_some
     [reject_if (ap_value p = []) (ArtifactValidationError ''path'' ''must not be empty''),
      reject_if (take 1 (ap_value p) = ''/'') (ArtifactValidationError ''path'' ''must be relative''),
      reject_if (char_of (0::nat) \<in> set (ap_value p)) (ArtifactValidationError ''path'' ''must not contain NUL''),
      reject_if (char_of (92::nat) \<in> set (ap_value p))
        (ArtifactValidationError ''path'' ''must use POSIX separators''),
      reject_if (\<exists>seg \<in> set (split_slash (ap_value p)). seg \<in> {'''', ''.'', ''..''})
        (ArtifactValidationError ''path'' ''contains an unsafe segment'')]"

record verified_artifact =
  va_path :: artifact_path
  va_content_class :: artifact_class
  va_size_bytes :: int
  va_digest :: digest

definition check_verified_artifact :: "verified_artifact \<Rightarrow> domain_error option" where
  "check_verified_artifact a =
     reject_if (va_size_bytes a < 0) (ArtifactValidationError ''size_bytes'' ''must be non-negative'')"

record trusted_exit_facts =
  te_source_event_id :: string
  te_pid :: "int option"
  te_exit_class :: platform_exit_class
  te_exit_code :: "int option"
  te_signal :: "int option"
  te_oom :: bool
  te_timeout :: bool

record evidence_proposal =
  ep_root_digest :: digest

record validated_case_summary =
  su_schema_version :: string
  su_source_artifact_path :: artifact_path
  su_source_artifact_digest :: digest
  su_expected :: int
  su_passed :: int
  su_failed :: int
  su_skipped :: int
  su_not_reported :: int
  su_unexpected :: int

definition check_case_summary :: "validated_case_summary \<Rightarrow> domain_error option" where
  "check_case_summary s = first_some
     [reject_if (\<exists>n \<in> set [su_expected s, su_passed s, su_failed s, su_skipped s, su_not_reported s,
                          su_unexpected s]. n < 0)
        (EvidenceNotReady ''case summary counts must be non-negative''),
      reject_if (su_expected s \<noteq> su_passed s + su_failed s + su_skipped s + su_not_reported s)
        (EvidenceNotReady ''case summary does not account for every expected case'')]"

text \<open>The frozen set of required paths is a list whose order and duplicates are not observed.\<close>

record evidence_requirements =
  er_required_artifact_paths :: "artifact_path list"

datatype evidence_outcome = OutcomePassed | OutcomeTestFailed | OutcomeInfraFailed | OutcomeCancelled

fun evidence_outcome_value :: "evidence_outcome \<Rightarrow> string" where
  "evidence_outcome_value OutcomePassed = ''passed''"
| "evidence_outcome_value OutcomeTestFailed = ''test_failed''"
| "evidence_outcome_value OutcomeInfraFailed = ''infra_failed''"
| "evidence_outcome_value OutcomeCancelled = ''cancelled''"

record evidence_manifest =
  em_schema_version :: string
  em_attempt_id :: string
  em_run_id :: string
  em_attempt_no :: int
  em_assignment_id :: string
  em_fence :: int
  em_worker :: worker_ref
  em_execution_spec_digest :: digest
  em_platform_exit :: trusted_exit_facts
  em_case_summary :: "validated_case_summary option"
  em_artifacts :: "verified_artifact list"
  em_classification_version :: string
  em_outcome :: evidence_outcome
  em_root_digest :: digest
  em_cancellation_stop :: "trusted_cancellation_stop option"

section \<open>The checks before a manifest exists\<close>

definition ensure_cancellation_stop_binding ::
  "string \<Rightarrow> string \<Rightarrow> int \<Rightarrow> worker_ref \<Rightarrow> trusted_exit_facts \<Rightarrow>
   trusted_cancellation_stop option \<Rightarrow> unit result" where
  "ensure_cancellation_stop_binding run_id attempt_id fence worker trusted_exit stop =
     (case stop of
        None \<Rightarrow> Inr ()
      | Some s \<Rightarrow>
          if te_exit_class trusted_exit \<noteq> ExitCancelled
          then Inl (EvidenceNotReady ''trusted cancellation stop proof requires a cancelled exit'')
          else if cs_source_event_id s \<noteq> te_source_event_id trusted_exit
          then Inl (EvidenceNotReady ''cancellation stop source event does not match exit facts'')
          else if cs_run_id s \<noteq> run_id \<or> cs_attempt_id s \<noteq> attempt_id \<or> cs_fence s \<noteq> fence \<or>
                  cs_worker s \<noteq> worker
          then Inl (EvidenceNotReady ''cancellation stop proof does not match the attempt'')
          else Inr ())"

definition ensure_case_summary_source ::
  "validated_case_summary option \<Rightarrow> verified_artifact list \<Rightarrow> unit result" where
  "ensure_case_summary_source summary artifacts =
     (case summary of
        None \<Rightarrow> Inr ()
      | Some s \<Rightarrow>
          (case find (\<lambda>a. va_path a = su_source_artifact_path s) artifacts of
             None \<Rightarrow> Inl (EvidenceNotReady ''case summary source artifact is missing'')
           | Some m \<Rightarrow>
               if va_content_class m \<noteq> StructuredResult
               then Inl (EvidenceNotReady ''case summary source is not a structured result'')
               else if va_digest m \<noteq> su_source_artifact_digest s
               then Inl (EvidenceNotReady ''case summary source digest does not match the artifact'')
               else Inr ()))"

definition classify_outcome ::
  "trusted_exit_facts \<Rightarrow> validated_case_summary option \<Rightarrow> trusted_cancellation_stop option \<Rightarrow>
   evidence_outcome result" where
  "classify_outcome trusted_exit summary stop =
     (if te_exit_class trusted_exit = ExitInfraFailed then Inr OutcomeInfraFailed
      else if te_exit_class trusted_exit = ExitCancelled then
        (if stop = None then Inl (EvidenceNotReady ''trusted cancellation stop proof is missing'')
         else Inr OutcomeCancelled)
      else if (case te_pid trusted_exit of None \<Rightarrow> True | Some p \<Rightarrow> p \<le> 0)
      then Inl (EvidenceNotReady ''completed process facts require a positive pid'')
      else if te_signal trusted_exit \<noteq> None \<or> te_oom trusted_exit \<or> te_timeout trusted_exit
      then Inl (EvidenceNotReady ''completed process facts contradict a platform failure'')
      else (case te_exit_code trusted_exit of
        None \<Rightarrow> Inl (EvidenceNotReady ''completed process facts require an exit code'')
      | Some code \<Rightarrow>
          (case summary of
             None \<Rightarrow> Inl (EvidenceNotReady ''completed process facts require a validated case summary'')
           | Some s \<Rightarrow>
               let incomplete = su_not_reported s > 0 \<or> su_unexpected s > 0 in
               if code = 0 \<and> su_failed s = 0 \<and> \<not> incomplete then Inr OutcomePassed
               else if code \<noteq> 0 \<and> su_failed s > 0 \<and> \<not> incomplete then Inr OutcomeTestFailed
               else Inl (EvidenceNotReady
                 ''process exit and validated case summary are contradictory''))))"

section \<open>The canonical manifest\<close>

definition case_summary_json :: "validated_case_summary option \<Rightarrow> json" where
  "case_summary_json = json_opt (\<lambda>s. JObj
     [(''schema_version'', JStr (su_schema_version s)),
      (''source_artifact_path'', JStr (ap_value (su_source_artifact_path s))),
      (''source_artifact_digest'', JStr (digest_value (su_source_artifact_digest s))),
      (''expected'', JInt (su_expected s)),
      (''passed'', JInt (su_passed s)),
      (''failed'', JInt (su_failed s)),
      (''skipped'', JInt (su_skipped s)),
      (''not_reported'', JInt (su_not_reported s)),
      (''unexpected'', JInt (su_unexpected s))])"

definition artifact_json :: "verified_artifact \<Rightarrow> json" where
  "artifact_json a = JObj
     [(''path'', JStr (ap_value (va_path a))),
      (''class'', JStr (artifact_class_value (va_content_class a))),
      (''size_bytes'', JInt (va_size_bytes a)),
      (''digest'', JStr (digest_value (va_digest a)))]"

definition platform_exit_json :: "trusted_exit_facts \<Rightarrow> json" where
  "platform_exit_json x = JObj
     [(''source_event_id'', JStr (te_source_event_id x)),
      (''pid'', json_opt JInt (te_pid x)),
      (''class'', JStr (platform_exit_class_value (te_exit_class x))),
      (''exit_code'', json_opt JInt (te_exit_code x)),
      (''signal'', json_opt JInt (te_signal x)),
      (''oom'', JBool (te_oom x)),
      (''timeout'', JBool (te_timeout x))]"

definition stop_json :: "trusted_cancellation_stop \<Rightarrow> digest \<Rightarrow> json" where
  "stop_json s proof_digest = JObj
     [(''proof_digest'', JStr (digest_value proof_digest)),
      (''cancellation_intent_digest'', JStr (digest_value (cs_cancellation_intent_digest s))),
      (''source_event_id'', JStr (cs_source_event_id s)),
      (''process_stopped_at'', JStr (iso_z (cs_process_stopped_at s))),
      (''sut_access_stopped_at'', JStr (iso_z (cs_sut_access_stopped_at s))),
      (''recorded_at'', JStr (iso_z (cs_recorded_at s)))]"

definition classification_schema_version :: string where
  "classification_schema_version = ''qep.attempt-classification.v1''"

definition sort_artifacts :: "verified_artifact list \<Rightarrow> verified_artifact list" where
  "sort_artifacts = sort_key (\<lambda>a. ap_value (va_path a))"

definition evidence_payload ::
  "string \<Rightarrow> string \<Rightarrow> int \<Rightarrow> string \<Rightarrow> int \<Rightarrow> worker_ref \<Rightarrow> digest \<Rightarrow> trusted_exit_facts \<Rightarrow>
   validated_case_summary option \<Rightarrow> verified_artifact list \<Rightarrow> evidence_outcome \<Rightarrow> (string \<times> json) list" where
  "evidence_payload attempt_id run_id attempt_no assignment_id fence worker spec_digest x summary
     ordered outcome =
     [(''attempt'', JObj
         [(''assignment_id'', JStr assignment_id), (''attempt_id'', JStr attempt_id),
          (''attempt_no'', JInt attempt_no), (''fence'', JInt fence), (''run_id'', JStr run_id)]),
      (''worker'', worker_ref_json worker),
      (''input'', JObj [(''execution_spec_digest'', JStr (digest_value spec_digest))]),
      (''platform_exit'', platform_exit_json x),
      (''case_summary'', case_summary_json summary),
      (''artifacts'', JList (map artifact_json ordered)),
      (''classification'', JObj
         [(''schema_version'', JStr classification_schema_version),
          (''outcome'', JStr (evidence_outcome_value outcome))])]"

text \<open>The schema version and the payload, extended with the stop proof when there is one.\<close>

definition sealed_payload ::
  "(string \<times> json) list \<Rightarrow> trusted_cancellation_stop option \<Rightarrow> (string \<times> json) result" where
  "sealed_payload base stop =
     (case stop of
        None \<Rightarrow> Inr (''qep.m0-attempt-evidence.v1'', JObj base)
      | Some s \<Rightarrow> map_result
          (\<lambda>d. (''qep.m0-attempt-evidence.v2'', JObj (base @ [(''cancellation_stop'', stop_json s d)])))
          (trusted_cancellation_stop_digest s))"

definition build_evidence_manifest ::
  "string \<Rightarrow> string \<Rightarrow> int \<Rightarrow> string \<Rightarrow> int \<Rightarrow> worker_ref \<Rightarrow> digest \<Rightarrow> trusted_exit_facts option \<Rightarrow>
   validated_case_summary option \<Rightarrow> verified_artifact list \<Rightarrow> trusted_cancellation_stop option \<Rightarrow>
   evidence_manifest result" where
  "build_evidence_manifest attempt_id run_id attempt_no assignment_id fence worker spec_digest
     trusted_exit summary artifacts stop =
     (case trusted_exit of
        None \<Rightarrow> Inl (EvidenceNotReady ''trusted platform exit facts are missing'')
      | Some x \<Rightarrow>
          bind_result (ensure_cancellation_stop_binding run_id attempt_id fence worker x stop) (\<lambda>_.
          let ordered = sort_artifacts artifacts in
          if \<not> distinct (map va_path ordered)
          then Inl (ArtifactValidationError ''path'' ''must be unique within an Attempt'')
          else bind_result (ensure_case_summary_source summary ordered) (\<lambda>_.
          bind_result (classify_outcome x summary stop) (\<lambda>outcome.
          bind_result (sealed_payload (evidence_payload attempt_id run_id attempt_no assignment_id
            fence worker spec_digest x summary ordered outcome) stop) (\<lambda>sealed.
          map_result
            (\<lambda>root.
              \<lparr>em_schema_version = fst sealed, em_attempt_id = attempt_id, em_run_id = run_id,
               em_attempt_no = attempt_no, em_assignment_id = assignment_id, em_fence = fence,
               em_worker = worker, em_execution_spec_digest = spec_digest, em_platform_exit = x,
               em_case_summary = summary, em_artifacts = ordered,
               em_classification_version = classification_schema_version, em_outcome = outcome,
               em_root_digest = root, em_cancellation_stop = stop\<rparr>)
            (canonical_digest (fst sealed) (snd sealed)))))))"

section \<open>Facts\<close>

lemma sort_artifacts_idem [simp]: "sort_artifacts (sort_artifacts xs) = sort_artifacts xs"
  unfolding sort_artifacts_def by (rule sort_key_id_if_sorted) (rule sorted_sort_key)

lemmas build_evidence_simps = bind_result_Inr_iff map_result_Inr_iff if_Inl_Inr_iff

lemma build_evidence_Inr:
  assumes "build_evidence_manifest aid rid n asg f w sd te su arts stop = Inr m"
  shows "em_attempt_id m = aid" "em_run_id m = rid" "em_attempt_no m = n" "em_assignment_id m = asg"
    "em_fence m = f" "em_worker m = w" "em_execution_spec_digest m = sd"
    "te = Some (em_platform_exit m)" "em_case_summary m = su" "em_artifacts m = sort_artifacts arts"
    "em_cancellation_stop m = stop" "classify_outcome (em_platform_exit m) su stop = Inr (em_outcome m)"
    "ensure_cancellation_stop_binding rid aid f w (em_platform_exit m) stop = Inr ()"
    "ensure_case_summary_source su (em_artifacts m) = Inr ()"
    "distinct (map va_path (em_artifacts m))"
  using assms unfolding build_evidence_manifest_def Let_def
  by (auto simp: build_evidence_simps split: option.split_asm)

text \<open>Rebuilding evidence from a manifest's own fields gives the manifest back.\<close>

lemma build_evidence_sorted:
  "build_evidence_manifest aid rid n asg f w sd te su (sort_artifacts arts) stop =
   build_evidence_manifest aid rid n asg f w sd te su arts stop"
  by (cases te) (simp_all only: build_evidence_manifest_def option.case sort_artifacts_idem)

lemma build_evidence_rebuild:
  assumes "build_evidence_manifest aid rid n asg f w sd te su arts stop = Inr m"
  shows "build_evidence_manifest aid rid n asg f w sd (Some (em_platform_exit m)) (em_case_summary m)
    (em_artifacts m) (em_cancellation_stop m) = Inr m"
  using assms build_evidence_Inr(8-11) [OF assms] by (simp add: build_evidence_sorted)

text \<open>A cancelled outcome needs the stop proof; without one the outcome is never cancelled.\<close>

lemma classify_outcome_cancelled:
  assumes "classify_outcome x su stop = Inr o1"
  shows "o1 = OutcomeCancelled \<longleftrightarrow> te_exit_class x = ExitCancelled \<and> stop \<noteq> None"
  using assms
  by (cases "te_exit_class x")
    (auto simp: classify_outcome_def Let_def split: if_splits option.splits)

lemma binding_stop_exit:
  "ensure_cancellation_stop_binding rid aid f w x (Some s) = Inr () \<Longrightarrow> te_exit_class x = ExitCancelled"
  by (auto simp: ensure_cancellation_stop_binding_def split: if_splits)

lemma build_evidence_cancelled_iff:
  assumes "build_evidence_manifest aid rid n asg f w sd te su arts stop = Inr m"
  shows "em_outcome m = OutcomeCancelled \<longleftrightarrow> stop \<noteq> None"
  using classify_outcome_cancelled [OF build_evidence_Inr(12) [OF assms]]
    build_evidence_Inr(13) [OF assms] binding_stop_exit by (cases stop) auto

end
