(* ===== verification/Retry_Policy.thy ===== *)
theory Retry_Policy
  imports Canonical_Json "HOL-Library.Product_Lexorder"
begin

text \<open>
  The versioned, fail-closed Run retry policy (\<open>src/qarunner/domain/run_retry_policy.py\<close>):
  policies, budgets, the authority record and \<open>evaluate_run_retry\<close>, which turns exact inputs
  into a decision.
\<close>

section \<open>Enumerations\<close>

datatype attempt_execution_fact =
    FactPassed | FactTestFailed | FactInfraFailed | FactCancelled | FactAttemptUnknown

fun execution_fact_value :: "attempt_execution_fact \<Rightarrow> string" where
  "execution_fact_value FactPassed = ''passed''"
| "execution_fact_value FactTestFailed = ''test_failed''"
| "execution_fact_value FactInfraFailed = ''infra_failed''"
| "execution_fact_value FactCancelled = ''cancelled''"
| "execution_fact_value FactAttemptUnknown = ''attempt_unknown''"

datatype retry_policy_family = SuiteFamily | PlatformFamily

fun retry_family_value :: "retry_policy_family \<Rightarrow> string" where
  "retry_family_value SuiteFamily = ''suite''"
| "retry_family_value PlatformFamily = ''platform''"

datatype retry_decision_source_kind = SuitePolicyKind | PlatformPolicyKind

fun retry_source_kind_value :: "retry_decision_source_kind \<Rightarrow> string" where
  "retry_source_kind_value SuitePolicyKind = ''suite_policy''"
| "retry_source_kind_value PlatformPolicyKind = ''platform_policy''"

datatype retry_decision = DecisionRetry | DecisionClosedNoRetry

fun retry_decision_value :: "retry_decision \<Rightarrow> string" where
  "retry_decision_value DecisionRetry = ''retry''"
| "retry_decision_value DecisionClosedNoRetry = ''closed_no_retry''"

datatype retry_scope = FullRun

fun retry_scope_value :: "retry_scope \<Rightarrow> string" where
  "retry_scope_value FullRun = ''full_run''"

section \<open>Selectors, budgets and their checks\<close>

definition policy_string :: "string \<Rightarrow> string \<Rightarrow> string \<Rightarrow> domain_error option" where
  "policy_string entity field v = reject_if (blank v) (DomainValidationError entity field ''empty'')"

definition policy_positive :: "string \<Rightarrow> string \<Rightarrow> int \<Rightarrow> domain_error option" where
  "policy_positive entity field v =
     reject_if (v \<le> 0) (DomainValidationError entity field ''not_positive_integer'')"

definition policy_nonnegative :: "string \<Rightarrow> string \<Rightarrow> int \<Rightarrow> domain_error option" where
  "policy_nonnegative entity field v =
     reject_if (v < 0) (DomainValidationError entity field ''not_nonnegative_integer'')"

definition policy_window :: "string \<Rightarrow> datetime \<Rightarrow> datetime \<Rightarrow> domain_error option" where
  "policy_window entity start end' = first_some
     [require_utc entity ''effective_from'' start,
      require_utc entity ''effective_until'' end',
      reject_if (instant start \<ge> instant end')
        (DomainValidationError entity ''effective_until'' ''invalid_window'')]"

lemma policy_check_None [result_simps]:
  "policy_string et f v = None \<longleftrightarrow> \<not> blank v"
  "policy_positive et f i = None \<longleftrightarrow> 0 < i"
  "policy_nonnegative et f i = None \<longleftrightarrow> 0 \<le> i"
  "policy_window et s t = None \<longleftrightarrow> is_utc s \<and> is_utc t \<and> instant s < instant t"
  by (auto simp: policy_string_def policy_positive_def policy_nonnegative_def policy_window_def result_simps)

datatype retry_reason_selector = RetryReasonSelector (rs_reason_class: string) (rs_reason_code: string)

text \<open>The dataclass is declared with \<open>order=True\<close>: selectors compare as the tuple of their fields.\<close>

definition selector_key :: "retry_reason_selector \<Rightarrow> string \<times> string" where
  "selector_key x = (rs_reason_class x, rs_reason_code x)"

lemma selector_key_inj: "selector_key x = selector_key y \<Longrightarrow> x = y"
  by (simp add: selector_key_def retry_reason_selector.expand)

instantiation retry_reason_selector :: linorder
begin

definition less_eq_retry_reason_selector :: "retry_reason_selector \<Rightarrow> retry_reason_selector \<Rightarrow> bool" where
  "x \<le> y \<longleftrightarrow> selector_key x \<le> selector_key y"

definition less_retry_reason_selector :: "retry_reason_selector \<Rightarrow> retry_reason_selector \<Rightarrow> bool" where
  "x < y \<longleftrightarrow> selector_key x < selector_key y"

instance
proof
  fix x y z :: retry_reason_selector
  show "x < y \<longleftrightarrow> x \<le> y \<and> \<not> y \<le> x"
    unfolding less_eq_retry_reason_selector_def less_retry_reason_selector_def by (rule less_le_not_le)
  show "x \<le> x" by (simp only: less_eq_retry_reason_selector_def order_refl)
  show "x \<le> y \<Longrightarrow> y \<le> z \<Longrightarrow> x \<le> z"
    unfolding less_eq_retry_reason_selector_def by (rule order_trans)
  show "x \<le> y \<Longrightarrow> y \<le> x \<Longrightarrow> x = y"
    unfolding less_eq_retry_reason_selector_def by (rule selector_key_inj, rule order_antisym)
  show "x \<le> y \<or> y \<le> x" unfolding less_eq_retry_reason_selector_def by (rule linear)
qed

end

definition mk_retry_reason_selector :: "string \<Rightarrow> string \<Rightarrow> retry_reason_selector result" where
  "mk_retry_reason_selector c k = raise_or (first_some
     [policy_string ''retry_reason_selector'' ''reason_class'' c,
      policy_string ''retry_reason_selector'' ''reason_code'' k]) (RetryReasonSelector c k)"

record retry_budget =
  rb_max_retries :: int
  rb_max_execution_seconds :: int
  rb_max_resource_unit_seconds :: int

definition check_retry_budget :: "retry_budget \<Rightarrow> domain_error option" where
  "check_retry_budget b = first_some
     [policy_nonnegative ''retry_budget'' ''max_retries'' (rb_max_retries b),
      policy_nonnegative ''retry_budget'' ''max_execution_seconds'' (rb_max_execution_seconds b),
      policy_nonnegative ''retry_budget'' ''max_resource_unit_seconds'' (rb_max_resource_unit_seconds b)]"

record retry_budget_usage =
  ru_retry_count :: int
  ru_execution_seconds :: int
  ru_resource_unit_seconds :: int

definition check_retry_budget_usage :: "retry_budget_usage \<Rightarrow> domain_error option" where
  "check_retry_budget_usage u = first_some
     [policy_nonnegative ''retry_budget_usage'' ''retry_count'' (ru_retry_count u),
      policy_nonnegative ''retry_budget_usage'' ''execution_seconds'' (ru_execution_seconds u),
      policy_nonnegative ''retry_budget_usage'' ''resource_unit_seconds'' (ru_resource_unit_seconds u)]"

record retry_requested_budget =
  rq_execution_seconds :: int
  rq_resource_unit_seconds :: int

definition check_retry_requested_budget :: "retry_requested_budget \<Rightarrow> domain_error option" where
  "check_retry_requested_budget r = first_some
     [policy_positive ''retry_requested_budget'' ''execution_seconds'' (rq_execution_seconds r),
      policy_positive ''retry_requested_budget'' ''resource_unit_seconds'' (rq_resource_unit_seconds r)]"

section \<open>Policies\<close>

record retry_policy_base =
  rp_policy_id :: string
  rp_version :: int
  rp_project_id :: string
  rp_retryable_reasons :: "retry_reason_selector list"
  rp_required_approver_role :: string
  rp_max_retries :: int
  rp_retry_scope :: retry_scope
  rp_budget :: retry_budget
  rp_effective_from :: datetime
  rp_effective_until :: datetime
  rp_policy_digest :: digest

record suite_retry_policy = retry_policy_base +
  sp_suite_revision_id :: string

record platform_retry_policy = retry_policy_base +
  pp_runner_id :: string
  pp_runner_version :: int
  pp_require_prior_execution_stop :: bool

text \<open>\<open>_policy_common\<close>; \<open>FULL_RUN\<close> is the only scope, so its check cannot fail here.\<close>

definition policy_common :: "'b retry_policy_base_scheme \<Rightarrow> int \<Rightarrow> string \<Rightarrow> domain_error option list"
  where
  "policy_common p max_allowed entity =
     [policy_string entity ''policy_id'' (rp_policy_id p),
      policy_string entity ''project_id'' (rp_project_id p),
      policy_positive entity ''version'' (rp_version p),
      policy_nonnegative entity ''max_retries'' (rp_max_retries p),
      reject_if (rp_max_retries p > max_allowed \<or> rb_max_retries (rp_budget p) \<noteq> rp_max_retries p)
        (DomainValidationError entity ''max_retries'' ''outside_signed_limit''),
      reject_if (rp_retry_scope p \<noteq> FullRun) (DomainValidationError entity ''retry_scope'' ''unsupported''),
      policy_string entity ''required_approver_role'' (rp_required_approver_role p),
      reject_if (rp_retryable_reasons p = [])
        (DomainValidationError entity ''retryable_reasons'' ''invalid_selector''),
      reject_if (sort (remdups (rp_retryable_reasons p)) \<noteq> rp_retryable_reasons p)
        (DomainValidationError entity ''retryable_reasons'' ''not_sorted_unique''),
      policy_window entity (rp_effective_from p) (rp_effective_until p)]"

definition check_suite_retry_policy :: "suite_retry_policy \<Rightarrow> domain_error option" where
  "check_suite_retry_policy p = first_some
     (policy_common p 1 ''suite_retry_policy'' @
      [policy_string ''suite_retry_policy'' ''suite_revision_id'' (sp_suite_revision_id p)])"

definition check_platform_retry_policy :: "platform_retry_policy \<Rightarrow> domain_error option" where
  "check_platform_retry_policy p = first_some
     (policy_common p 2 ''platform_retry_policy'' @
      [policy_string ''platform_retry_policy'' ''runner_id'' (pp_runner_id p),
       policy_positive ''platform_retry_policy'' ''runner_version'' (pp_runner_version p),
       reject_if (\<not> pp_require_prior_execution_stop p)
         (DomainValidationError ''platform_retry_policy'' ''require_prior_execution_stop'' ''must_be_true'')])"

datatype retry_policy = SuitePolicy suite_retry_policy | PlatformPolicy platform_retry_policy

text \<open>The attributes that both policy classes have, read through the union.\<close>

fun policy_base :: "retry_policy \<Rightarrow> retry_policy_base" where
  "policy_base (SuitePolicy p) = retry_policy_base.truncate p"
| "policy_base (PlatformPolicy p) = retry_policy_base.truncate p"

fun check_retry_policy :: "retry_policy \<Rightarrow> domain_error option" where
  "check_retry_policy (SuitePolicy p) = check_suite_retry_policy p"
| "check_retry_policy (PlatformPolicy p) = check_platform_retry_policy p"

section \<open>Source facts, authority and decision\<close>

record retry_source_fact =
  sf_run_id :: string
  sf_run_version :: int
  sf_attempt_id :: string
  sf_attempt_no :: int
  sf_attempt_fence :: int
  sf_outcome :: attempt_execution_fact
  sf_reason_class :: string
  sf_reason_code :: string
  sf_item_resolution_set_digest :: digest
  sf_source_item_set_digest :: digest
  sf_target_item_set_digest :: digest
  sf_prior_execution_stop_digest :: "digest option"

definition check_retry_source_fact :: "retry_source_fact \<Rightarrow> domain_error option" where
  "check_retry_source_fact f = first_some
     [policy_string ''retry_source_fact'' ''run_id'' (sf_run_id f),
      policy_string ''retry_source_fact'' ''attempt_id'' (sf_attempt_id f),
      policy_string ''retry_source_fact'' ''reason_class'' (sf_reason_class f),
      policy_string ''retry_source_fact'' ''reason_code'' (sf_reason_code f),
      policy_nonnegative ''retry_source_fact'' ''run_version'' (sf_run_version f),
      policy_positive ''retry_source_fact'' ''attempt_no'' (sf_attempt_no f),
      policy_positive ''retry_source_fact'' ''attempt_fence'' (sf_attempt_fence f),
      reject_if (sf_source_item_set_digest f \<noteq> sf_target_item_set_digest f)
        (DomainValidationError ''retry_source_fact'' ''target_item_set_digest'' ''full_run_scope_mismatch'')]"

record retry_policy_authority =
  pa_schema :: string
  pa_authority_id :: string
  pa_version :: int
  pa_family :: retry_policy_family
  pa_project_id :: string
  pa_suite_revision_id :: "string option"
  pa_runner_id :: "string option"
  pa_runner_version :: "int option"
  pa_approver_role :: string
  pa_approval_record_digest :: digest
  pa_valid_from :: datetime
  pa_valid_until :: datetime
  pa_authority_digest :: digest

text \<open>\<open>_string\<close> and \<open>_positive\<close> also reject \<open>None\<close> (it is no string and no integer).\<close>

definition check_retry_policy_authority :: "retry_policy_authority \<Rightarrow> domain_error option" where
  "check_retry_policy_authority a =
     (let e = ''retry_policy_authority'' in first_some (
     [policy_string e ''schema'' (pa_schema a),
      policy_string e ''authority_id'' (pa_authority_id a),
      policy_string e ''project_id'' (pa_project_id a),
      policy_string e ''approver_role'' (pa_approver_role a),
      policy_positive e ''version'' (pa_version a),
      policy_window e (pa_valid_from a) (pa_valid_until a)] @
     (if pa_family a = SuiteFamily then
        [reject_if (case pa_suite_revision_id a of None \<Rightarrow> True | Some s \<Rightarrow> blank s)
           (DomainValidationError e ''suite_revision_id'' ''empty''),
         reject_if (pa_runner_id a \<noteq> None \<or> pa_runner_version a \<noteq> None)
           (DomainValidationError e ''runner'' ''forbidden'')]
      else
        [reject_if (case pa_runner_id a of None \<Rightarrow> True | Some s \<Rightarrow> blank s)
           (DomainValidationError e ''runner_id'' ''empty''),
         reject_if (case pa_runner_version a of None \<Rightarrow> True | Some n \<Rightarrow> n \<le> 0)
           (DomainValidationError e ''runner_version'' ''not_positive_integer''),
         reject_if (pa_suite_revision_id a \<noteq> None)
           (DomainValidationError e ''suite_revision_id'' ''forbidden'')])))"

record run_retry_decision =
  rd_source :: retry_source_fact
  rd_retry_scope :: retry_scope
  rd_decision :: retry_decision
  rd_decision_source_kind :: retry_decision_source_kind
  rd_reason_class :: string
  rd_reason_code :: string
  rd_retry_intent_digest :: "digest option"
  rd_authority_schema :: "string option"
  rd_authority_id :: "string option"
  rd_authority_version :: "int option"
  rd_authority_digest :: "digest option"
  rd_policy_digest :: "digest option"
  rd_prior_execution_stop_digest :: "digest option"
  rd_budget :: retry_budget
  rd_usage :: retry_budget_usage
  rd_requested :: retry_requested_budget
  rd_decided_at :: datetime

definition check_run_retry_decision :: "run_retry_decision \<Rightarrow> domain_error option" where
  "check_run_retry_decision d = first_some
     [reject_if (rd_decision d = DecisionRetry \<and> rd_retry_intent_digest d = None)
        (DomainValidationError ''run_retry_decision'' ''retry_intent_digest'' ''required''),
      reject_if (rd_decision d = DecisionClosedNoRetry \<and> rd_retry_intent_digest d \<noteq> None)
        (DomainValidationError ''run_retry_decision'' ''retry_intent_digest'' ''forbidden'')]"

section \<open>Evaluation\<close>

fun expected_source_outcome :: "retry_policy_family \<Rightarrow> attempt_execution_fact" where
  "expected_source_outcome SuiteFamily = FactTestFailed"
| "expected_source_outcome PlatformFamily = FactInfraFailed"

fun source_kind_of_family :: "retry_policy_family \<Rightarrow> retry_decision_source_kind" where
  "source_kind_of_family SuiteFamily = SuitePolicyKind"
| "source_kind_of_family PlatformFamily = PlatformPolicyKind"

fun policy_family :: "retry_policy \<Rightarrow> retry_policy_family" where
  "policy_family (SuitePolicy p) = SuiteFamily"
| "policy_family (PlatformPolicy p) = PlatformFamily"

text \<open>The conjuncts before and after the reason-selector test, in source order.\<close>

definition authority_matches ::
  "retry_policy \<Rightarrow> retry_source_fact \<Rightarrow> retry_policy_authority \<Rightarrow> datetime \<Rightarrow> bool" where
  "authority_matches p source authority decided_at \<longleftrightarrow>
     sf_outcome source = expected_source_outcome (policy_family p) \<and>
     pa_family authority = policy_family p \<and>
     pa_project_id authority = rp_project_id (policy_base p) \<and>
     pa_approver_role authority = rp_required_approver_role (policy_base p) \<and>
     instant (rp_effective_from (policy_base p)) \<le> instant decided_at \<and>
     instant decided_at < instant (rp_effective_until (policy_base p)) \<and>
     instant (pa_valid_from authority) \<le> instant decided_at \<and>
     instant decided_at < instant (pa_valid_until authority)"

definition within_budget ::
  "retry_policy \<Rightarrow> retry_budget_usage \<Rightarrow> retry_requested_budget \<Rightarrow> bool" where
  "within_budget p usage requested \<longleftrightarrow>
     ru_retry_count usage < rp_max_retries (policy_base p) \<and>
     ru_execution_seconds usage + rq_execution_seconds requested
       \<le> rb_max_execution_seconds (rp_budget (policy_base p)) \<and>
     ru_resource_unit_seconds usage + rq_resource_unit_seconds requested
       \<le> rb_max_resource_unit_seconds (rp_budget (policy_base p))"

fun family_binding :: "retry_policy \<Rightarrow> retry_source_fact \<Rightarrow> retry_policy_authority \<Rightarrow> bool" where
  "family_binding (SuitePolicy p) source authority \<longleftrightarrow>
     pa_suite_revision_id authority = Some (sp_suite_revision_id p)"
| "family_binding (PlatformPolicy p) source authority \<longleftrightarrow>
     pa_runner_id authority = Some (pp_runner_id p) \<and>
     pa_runner_version authority = Some (pp_runner_version p) \<and>
     sf_prior_execution_stop_digest source \<noteq> None"

definition retry_allowed ::
  "retry_policy option \<Rightarrow> retry_source_fact \<Rightarrow> retry_policy_authority option \<Rightarrow>
   retry_budget_usage \<Rightarrow> retry_requested_budget \<Rightarrow> datetime \<Rightarrow> bool result" where
  "retry_allowed policy source authority usage requested decided_at =
     (case (policy, authority) of
        (Some p, Some a) \<Rightarrow>
          bind_result
            (if authority_matches p source a decided_at then
               map_result
                 (\<lambda>sel. sel \<in> set (rp_retryable_reasons (policy_base p)) \<and> within_budget p usage requested)
                 (mk_retry_reason_selector (sf_reason_class source) (sf_reason_code source))
             else Inr False)
            (\<lambda>ok. Inr (ok \<and> family_binding p source a))
      | _ \<Rightarrow> Inr False)"

definition evaluate_run_retry ::
  "retry_policy option \<Rightarrow> retry_source_fact \<Rightarrow> retry_policy_authority option \<Rightarrow>
   retry_budget_usage \<Rightarrow> retry_requested_budget \<Rightarrow> digest \<Rightarrow> datetime \<Rightarrow> run_retry_decision result" where
  "evaluate_run_retry policy source authority usage requested retry_intent_digest decided_at =
     bind_result (raise_or (require_utc ''run_retry_evaluation'' ''decided_at'' decided_at) ()) (\<lambda>_.
     bind_result (retry_allowed policy source authority usage requested decided_at) (\<lambda>allowed.
     let d = \<lparr>rd_source = source,
       rd_retry_scope = FullRun,
       rd_decision = (if allowed then DecisionRetry else DecisionClosedNoRetry),
       rd_decision_source_kind =
         source_kind_of_family (case policy of None \<Rightarrow> SuiteFamily | Some p \<Rightarrow> policy_family p),
       rd_reason_class = sf_reason_class source,
       rd_reason_code = sf_reason_code source,
       rd_retry_intent_digest = (if allowed then Some retry_intent_digest else None),
       rd_authority_schema = map_option pa_schema authority,
       rd_authority_id = map_option pa_authority_id authority,
       rd_authority_version = map_option pa_version authority,
       rd_authority_digest = map_option pa_authority_digest authority,
       rd_policy_digest = map_option (\<lambda>p. rp_policy_digest (policy_base p)) policy,
       rd_prior_execution_stop_digest = sf_prior_execution_stop_digest source,
       rd_budget = (case policy of Some p \<Rightarrow> rp_budget (policy_base p)
                    | None \<Rightarrow> \<lparr>rb_max_retries = 0, rb_max_execution_seconds = 0,
                               rb_max_resource_unit_seconds = 0\<rparr>),
       rd_usage = usage,
       rd_requested = requested,
       rd_decided_at = decided_at\<rparr>
     in raise_or (check_run_retry_decision d) d))"

section \<open>Decision digest\<close>

definition budget_json :: "retry_budget \<Rightarrow> json" where
  "budget_json b = JObj
     [(''max_retries'', JInt (rb_max_retries b)),
      (''max_execution_seconds'', JInt (rb_max_execution_seconds b)),
      (''max_resource_unit_seconds'', JInt (rb_max_resource_unit_seconds b))]"

definition usage_json :: "retry_budget_usage \<Rightarrow> json" where
  "usage_json u = JObj
     [(''retry_count'', JInt (ru_retry_count u)),
      (''execution_seconds'', JInt (ru_execution_seconds u)),
      (''resource_unit_seconds'', JInt (ru_resource_unit_seconds u))]"

definition requested_json :: "retry_requested_budget \<Rightarrow> json" where
  "requested_json r = JObj
     [(''execution_seconds'', JInt (rq_execution_seconds r)),
      (''resource_unit_seconds'', JInt (rq_resource_unit_seconds r))]"

definition opt_digest_json :: "digest option \<Rightarrow> json" where
  "opt_digest_json = json_opt (\<lambda>d. JStr (digest_value d))"

definition run_retry_decision_json :: "run_retry_decision \<Rightarrow> json" where
  "run_retry_decision_json d = JObj
     [(''run_id'', JStr (sf_run_id (rd_source d))),
      (''source_run_version'', JInt (sf_run_version (rd_source d))),
      (''source_attempt_id'', JStr (sf_attempt_id (rd_source d))),
      (''source_attempt_no'', JInt (sf_attempt_no (rd_source d))),
      (''source_attempt_fence'', JInt (sf_attempt_fence (rd_source d))),
      (''source_outcome'', JStr (execution_fact_value (sf_outcome (rd_source d)))),
      (''source_item_resolution_set_digest'',
         JStr (digest_value (sf_item_resolution_set_digest (rd_source d)))),
      (''source_item_set_digest'', JStr (digest_value (sf_source_item_set_digest (rd_source d)))),
      (''target_item_set_digest'', JStr (digest_value (sf_target_item_set_digest (rd_source d)))),
      (''retry_scope'', JStr (retry_scope_value (rd_retry_scope d))),
      (''decision'', JStr (retry_decision_value (rd_decision d))),
      (''decision_source_kind'', JStr (retry_source_kind_value (rd_decision_source_kind d))),
      (''reason_class'', JStr (rd_reason_class d)),
      (''reason_code'', JStr (rd_reason_code d)),
      (''retry_intent_digest'', opt_digest_json (rd_retry_intent_digest d)),
      (''authority_schema'', json_opt JStr (rd_authority_schema d)),
      (''authority_id'', json_opt JStr (rd_authority_id d)),
      (''authority_version'', json_opt JInt (rd_authority_version d)),
      (''authority_digest'', opt_digest_json (rd_authority_digest d)),
      (''policy_digest'', opt_digest_json (rd_policy_digest d)),
      (''adjudication_digest'', JNull),
      (''prior_execution_stop_digest'', opt_digest_json (rd_prior_execution_stop_digest d)),
      (''duplicate_risk_acceptance_digest'', JNull),
      (''attempt_budget_snapshot'', JObj
         [(''configured'', budget_json (rd_budget d)),
          (''usage'', usage_json (rd_usage d)),
          (''requested'', requested_json (rd_requested d))]),
      (''decided_at'', JStr (iso_z (rd_decided_at d)))]"

definition run_retry_decision_digest :: "run_retry_decision \<Rightarrow> digest result" where
  "run_retry_decision_digest d =
     canonical_digest ''qep.run-retry-decision.v1'' (run_retry_decision_json d)"

section \<open>Facts\<close>

lemma evaluate_run_retry_RETRY:
  assumes "evaluate_run_retry policy source authority usage requested rid t = Inr d"
  shows "rd_decision d = DecisionRetry \<longleftrightarrow>
    (\<exists>p a. policy = Some p \<and> authority = Some a \<and> authority_matches p source a t \<and>
       RetryReasonSelector (sf_reason_class source) (sf_reason_code source)
         \<in> set (rp_retryable_reasons (policy_base p)) \<and>
       within_budget p usage requested \<and> family_binding p source a)"
  using assms
  by (auto simp: evaluate_run_retry_def retry_allowed_def mk_retry_reason_selector_def Let_def
      result_simps split: option.splits if_splits)

text \<open>A well-formed source fact never makes the evaluation raise: it always returns a decision.\<close>

lemma evaluate_run_retry_total:
  assumes "is_utc t" "check_retry_source_fact source = None"
  shows "\<exists>d. evaluate_run_retry policy source authority usage requested rid t = Inr d"
proof -
  have sel: "mk_retry_reason_selector (sf_reason_class source) (sf_reason_code source) =
      Inr (RetryReasonSelector (sf_reason_class source) (sf_reason_code source))"
    using assms(2) by (simp add: mk_retry_reason_selector_def check_retry_source_fact_def result_simps)
  have "\<exists>b. retry_allowed policy source authority usage requested t = Inr b"
    by (cases policy; cases authority) (auto simp: retry_allowed_def sel)
  then obtain b where "retry_allowed policy source authority usage requested t = Inr b" ..
  then show ?thesis
    using assms(1)
    by (cases b) (auto simp: evaluate_run_retry_def Let_def check_run_retry_decision_def require_utc_def)
qed

lemma wf_policy_retry_limit:
  assumes "check_retry_policy p = None"
  shows "rp_max_retries (policy_base p) \<le> (case policy_family p of SuiteFamily \<Rightarrow> 1 | PlatformFamily \<Rightarrow> 2)"
  using assms
  by (cases p) (auto simp: check_suite_retry_policy_def check_platform_retry_policy_def
      policy_common_def result_simps retry_policy_base.defs)

end
