(* ===== verification/Unknown.thy ===== *)
theory Unknown
  imports Canonical_Json
begin

text \<open>
  Immutable facts for control-plane unknown classifications (\<open>src/qarunner/domain/unknown.py\<close>):
  the observation that makes an Attempt unknown and the append-only adjudications that say how
  an unknown Attempt is handled. Each decision needs its own authority basis and forbids the
  others'.
\<close>

section \<open>Observations\<close>

datatype unknown_reason =
    WorkerLostAfterCommit | CancelStopUnproven | LeaseStopUnproven
  | ReconcileAmbiguous | ExecutionStopUnproven

fun unknown_reason_value :: "unknown_reason \<Rightarrow> string" where
  "unknown_reason_value WorkerLostAfterCommit = ''worker_lost_after_commit''"
| "unknown_reason_value CancelStopUnproven = ''cancel_stop_unproven''"
| "unknown_reason_value LeaseStopUnproven = ''lease_stop_unproven''"
| "unknown_reason_value ReconcileAmbiguous = ''reconcile_ambiguous''"
| "unknown_reason_value ExecutionStopUnproven = ''execution_stop_unproven''"

datatype unknown_source = Coordinator | CancelConvergence | LeaseWatchdog | Reconciler

fun unknown_source_value :: "unknown_source \<Rightarrow> string" where
  "unknown_source_value Coordinator = ''coordinator''"
| "unknown_source_value CancelConvergence = ''cancel_convergence''"
| "unknown_source_value LeaseWatchdog = ''lease_watchdog''"
| "unknown_source_value Reconciler = ''reconciler''"

record unknown_observation =
  uo_id :: string
  uo_reason :: unknown_reason
  uo_source :: unknown_source
  uo_review_basis_digest :: digest
  uo_recorded_at :: datetime

definition check_unknown_observation :: "unknown_observation \<Rightarrow> domain_error option" where
  "check_unknown_observation o1 = first_some
     [require_nonempty_string ''unknown_observation'' ''id'' (uo_id o1),
      require_utc ''unknown_observation'' ''recorded_at'' (uo_recorded_at o1)]"

definition mk_unknown_observation :: "unknown_observation \<Rightarrow> unknown_observation result" where
  "mk_unknown_observation o1 = raise_or (check_unknown_observation o1) o1"

definition unknown_observation_digest :: "unknown_observation \<Rightarrow> digest result" where
  "unknown_observation_digest o1 = canonical_digest ''qep.unknown-observation.v1''
     (JObj [(''id'', JStr (uo_id o1)),
            (''reason'', JStr (unknown_reason_value (uo_reason o1))),
            (''source'', JStr (unknown_source_value (uo_source o1))),
            (''review_basis_digest'', JStr (digest_value (uo_review_basis_digest o1))),
            (''recorded_at'', JStr (iso_z (uo_recorded_at o1)))])"

lemma unknown_observation_digest_total: "\<exists>d. unknown_observation_digest o1 = Inr d"
  by (simp add: unknown_observation_digest_def result_simps)

section \<open>Adjudications\<close>

datatype unknown_decision =
    ConfirmStoppedThenRetry | AcceptDuplicateRiskThenRetry
  | MarkInfraFailedNoRetry | MarkCompletedFromVerifiedEvidence

fun unknown_decision_value :: "unknown_decision \<Rightarrow> string" where
  "unknown_decision_value ConfirmStoppedThenRetry = ''confirm_stopped_then_retry''"
| "unknown_decision_value AcceptDuplicateRiskThenRetry = ''accept_duplicate_risk_then_retry''"
| "unknown_decision_value MarkInfraFailedNoRetry = ''mark_infra_failed_no_retry''"
| "unknown_decision_value MarkCompletedFromVerifiedEvidence = ''mark_completed_from_verified_evidence''"

definition permits_retry :: "unknown_decision \<Rightarrow> bool" where
  "permits_retry d \<longleftrightarrow> d \<in> {ConfirmStoppedThenRetry, AcceptDuplicateRiskThenRetry}"

record unknown_adjudication =
  ua_id :: string
  ua_attempt_id :: string
  ua_unknown_observation_digest :: digest
  ua_decision :: unknown_decision
  ua_actor_id :: string
  ua_reason :: string
  ua_occurred_at :: datetime
  ua_proof_digest :: "digest option"
  ua_risk_approver_id :: "string option"
  ua_risk_acceptance_digest :: "digest option"
  ua_evidence_root_digest :: "digest option"
  ua_supersedes_adjudication_id :: "string option"

abbreviation adjudication_invalid :: "string \<Rightarrow> string \<Rightarrow> domain_error" where
  "adjudication_invalid field reason \<equiv> DomainValidationError ''unknown_adjudication'' field reason"

definition forbid_basis :: "string \<Rightarrow> 'a option \<Rightarrow> domain_error option" where
  "forbid_basis field v = reject_if (v \<noteq> None) (adjudication_invalid field ''not_allowed_for_decision'')"

definition require_basis :: "string \<Rightarrow> 'a option \<Rightarrow> domain_error option" where
  "require_basis field v = reject_if (v = None) (adjudication_invalid field ''required_for_decision'')"

definition optional_nonempty :: "string \<Rightarrow> string \<Rightarrow> string option \<Rightarrow> domain_error option" where
  "optional_nonempty entity field v =
     (case v of None \<Rightarrow> None | Some s \<Rightarrow> require_nonempty_string entity field s)"

definition decision_basis_checks :: "unknown_adjudication \<Rightarrow> domain_error option list" where
  "decision_basis_checks a =
     (case ua_decision a of
        ConfirmStoppedThenRetry \<Rightarrow>
          [require_basis ''proof_digest'' (ua_proof_digest a),
           forbid_basis ''risk_approver_id'' (ua_risk_approver_id a),
           forbid_basis ''risk_acceptance_digest'' (ua_risk_acceptance_digest a),
           forbid_basis ''evidence_root_digest'' (ua_evidence_root_digest a)]
      | AcceptDuplicateRiskThenRetry \<Rightarrow>
          [require_basis ''risk_approver_id'' (ua_risk_approver_id a),
           require_basis ''risk_acceptance_digest'' (ua_risk_acceptance_digest a),
           forbid_basis ''proof_digest'' (ua_proof_digest a),
           forbid_basis ''evidence_root_digest'' (ua_evidence_root_digest a)]
      | MarkInfraFailedNoRetry \<Rightarrow>
          [forbid_basis ''proof_digest'' (ua_proof_digest a),
           forbid_basis ''risk_approver_id'' (ua_risk_approver_id a),
           forbid_basis ''risk_acceptance_digest'' (ua_risk_acceptance_digest a),
           forbid_basis ''evidence_root_digest'' (ua_evidence_root_digest a)]
      | MarkCompletedFromVerifiedEvidence \<Rightarrow>
          [require_basis ''evidence_root_digest'' (ua_evidence_root_digest a),
           forbid_basis ''proof_digest'' (ua_proof_digest a),
           forbid_basis ''risk_approver_id'' (ua_risk_approver_id a),
           forbid_basis ''risk_acceptance_digest'' (ua_risk_acceptance_digest a)])"

definition check_unknown_adjudication :: "unknown_adjudication \<Rightarrow> domain_error option" where
  "check_unknown_adjudication a = first_some (
     [require_nonempty_string ''unknown_adjudication'' ''id'' (ua_id a),
      require_nonempty_string ''unknown_adjudication'' ''attempt_id'' (ua_attempt_id a),
      require_nonempty_string ''unknown_adjudication'' ''actor_id'' (ua_actor_id a),
      require_nonempty_string ''unknown_adjudication'' ''reason'' (ua_reason a),
      require_utc ''unknown_adjudication'' ''occurred_at'' (ua_occurred_at a),
      optional_nonempty ''unknown_adjudication'' ''risk_approver_id'' (ua_risk_approver_id a),
      optional_nonempty ''unknown_adjudication'' ''supersedes_adjudication_id''
        (ua_supersedes_adjudication_id a)] @
     decision_basis_checks a)"

definition unknown_adjudication_digest :: "unknown_adjudication \<Rightarrow> digest result" where
  "unknown_adjudication_digest a = canonical_digest ''qep.unknown-adjudication.v1''
     (JObj [(''id'', JStr (ua_id a)),
            (''attempt_id'', JStr (ua_attempt_id a)),
            (''unknown_observation_digest'', JStr (digest_value (ua_unknown_observation_digest a))),
            (''decision'', JStr (unknown_decision_value (ua_decision a))),
            (''actor_id'', JStr (ua_actor_id a)),
            (''reason'', JStr (ua_reason a)),
            (''occurred_at'', JStr (iso_z (ua_occurred_at a))),
            (''proof_digest'', json_opt (JStr \<circ> digest_value) (ua_proof_digest a)),
            (''risk_approver_id'', json_opt JStr (ua_risk_approver_id a)),
            (''risk_acceptance_digest'', json_opt (JStr \<circ> digest_value) (ua_risk_acceptance_digest a)),
            (''evidence_root_digest'', json_opt (JStr \<circ> digest_value) (ua_evidence_root_digest a)),
            (''supersedes_adjudication_id'', json_opt JStr (ua_supersedes_adjudication_id a))])"

lemma unknown_adjudication_digest_total: "\<exists>d. unknown_adjudication_digest a = Inr d"
  by (simp add: unknown_adjudication_digest_def result_simps split: option.splits)

text \<open>A decision that permits a retry carries a stop proof or a named risk approver's acceptance.\<close>

lemma permits_retry_basis:
  assumes "check_unknown_adjudication a = None" "permits_retry (ua_decision a)"
  shows "(ua_proof_digest a \<noteq> None \<and> ua_risk_approver_id a = None) \<or>
         (\<exists>p. ua_risk_approver_id a = Some p \<and> \<not> blank p \<and> ua_risk_acceptance_digest a \<noteq> None \<and>
              ua_proof_digest a = None)"
  using assms
  by (auto simp: check_unknown_adjudication_def permits_retry_def decision_basis_checks_def
      require_basis_def forbid_basis_def optional_nonempty_def result_simps)

end
