(* ===== verification/Retry.thy ===== *)
theory Retry
  imports Retry_Policy Unknown
begin

text \<open>
  Immutable retry authorization and Attempt provenance facts (\<open>src/qarunner/domain/retry.py\<close>):
  the two kinds of authority a retry may rest on, the RetryIntent a Run persists, and the
  RetryProvenance a retried Attempt carries.
\<close>

section \<open>Authorities\<close>

record unknown_retry_authority =
  ur_adjudication_id :: string
  ur_adjudication_digest :: digest
  ur_decision :: unknown_decision

definition check_unknown_retry_authority :: "unknown_retry_authority \<Rightarrow> domain_error option" where
  "check_unknown_retry_authority a =
     require_nonempty_string ''unknown_retry_authority'' ''adjudication_id'' (ur_adjudication_id a)"

record policy_retry_authority =
  pr_family :: retry_policy_family
  pr_decision_source_kind :: retry_decision_source_kind
  pr_policy_digest :: digest
  pr_authority_schema :: string
  pr_authority_id :: string
  pr_authority_version :: int
  pr_authority_digest :: digest
  pr_source_outcome :: attempt_execution_fact
  pr_item_resolution_set_digest :: digest
  pr_source_item_set_digest :: digest
  pr_target_item_set_digest :: digest

definition check_policy_retry_authority :: "policy_retry_authority \<Rightarrow> domain_error option" where
  "check_policy_retry_authority a =
     (let e = ''policy_retry_authority'' in first_some
     [reject_if (pr_decision_source_kind a \<noteq> source_kind_of_family (pr_family a))
        (DomainValidationError e ''decision_source_kind'' ''family_mismatch''),
      reject_if (pr_source_outcome a \<noteq> expected_source_outcome (pr_family a))
        (DomainValidationError e ''source_outcome'' ''family_mismatch''),
      require_nonempty_string e ''authority_schema'' (pr_authority_schema a),
      require_nonempty_string e ''authority_id'' (pr_authority_id a),
      require_positive_integer e ''authority_version'' (pr_authority_version a),
      reject_if (pr_source_item_set_digest a \<noteq> pr_target_item_set_digest a)
        (DomainValidationError e ''target_item_set_digest'' ''full_run_scope_mismatch'')])"

datatype retry_authority =
    UnknownAuthority unknown_retry_authority
  | PolicyAuthority policy_retry_authority

fun check_retry_authority :: "retry_authority \<Rightarrow> domain_error option" where
  "check_retry_authority (UnknownAuthority a) = check_unknown_retry_authority a"
| "check_retry_authority (PolicyAuthority a) = check_policy_retry_authority a"

fun retry_authority_json :: "retry_authority \<Rightarrow> json" where
  "retry_authority_json (UnknownAuthority a) = JObj
     [(''kind'', JStr ''unknown_adjudication''),
      (''adjudication_id'', JStr (ur_adjudication_id a)),
      (''adjudication_digest'', JStr (digest_value (ur_adjudication_digest a))),
      (''decision'', JStr (unknown_decision_value (ur_decision a)))]"
| "retry_authority_json (PolicyAuthority a) = JObj
     [(''kind'', JStr ''policy''),
      (''family'', JStr (retry_family_value (pr_family a))),
      (''decision_source_kind'', JStr (retry_source_kind_value (pr_decision_source_kind a))),
      (''policy_digest'', JStr (digest_value (pr_policy_digest a))),
      (''authority_schema'', JStr (pr_authority_schema a)),
      (''authority_id'', JStr (pr_authority_id a)),
      (''authority_version'', JInt (pr_authority_version a)),
      (''authority_digest'', JStr (digest_value (pr_authority_digest a))),
      (''source_outcome'', JStr (execution_fact_value (pr_source_outcome a))),
      (''item_resolution_set_digest'', JStr (digest_value (pr_item_resolution_set_digest a))),
      (''source_item_set_digest'', JStr (digest_value (pr_source_item_set_digest a))),
      (''target_item_set_digest'', JStr (digest_value (pr_target_item_set_digest a)))]"

text \<open>The three properties that read through an authority; the policy kind has none of them.\<close>

fun authority_adjudication_id :: "retry_authority \<Rightarrow> string" where
  "authority_adjudication_id (UnknownAuthority a) = ur_adjudication_id a"
| "authority_adjudication_id (PolicyAuthority a) = ''''"

fun authority_adjudication_digest :: "retry_authority \<Rightarrow> digest option" where
  "authority_adjudication_digest (UnknownAuthority a) = Some (ur_adjudication_digest a)"
| "authority_adjudication_digest (PolicyAuthority a) = None"

fun authority_decision :: "retry_authority \<Rightarrow> unknown_decision option" where
  "authority_decision (UnknownAuthority a) = Some (ur_decision a)"
| "authority_decision (PolicyAuthority a) = None"

section \<open>Intents\<close>

record retry_intent =
  ri_id :: string
  ri_run_id :: string
  ri_source_attempt_id :: string
  ri_source_attempt_no :: int
  ri_source_fence :: int
  ri_authority :: retry_authority
  ri_execution_spec_digest :: digest
  ri_created_at :: datetime

definition check_retry_intent :: "retry_intent \<Rightarrow> domain_error option" where
  "check_retry_intent i = first_some
     [require_nonempty_string ''retry_intent'' ''id'' (ri_id i),
      require_nonempty_string ''retry_intent'' ''run_id'' (ri_run_id i),
      require_nonempty_string ''retry_intent'' ''source_attempt_id'' (ri_source_attempt_id i),
      require_positive_integer ''retry_intent'' ''source_attempt_no'' (ri_source_attempt_no i),
      require_positive_integer ''retry_intent'' ''source_fence'' (ri_source_fence i),
      require_utc ''retry_intent'' ''created_at'' (ri_created_at i)]"

definition retry_intent_digest :: "retry_intent \<Rightarrow> digest result" where
  "retry_intent_digest i = canonical_digest ''qep.retry-intent.v2''
     (JObj [(''id'', JStr (ri_id i)),
            (''run_id'', JStr (ri_run_id i)),
            (''source_attempt_id'', JStr (ri_source_attempt_id i)),
            (''source_attempt_no'', JInt (ri_source_attempt_no i)),
            (''source_fence'', JInt (ri_source_fence i)),
            (''authority'', retry_authority_json (ri_authority i)),
            (''execution_spec_digest'', JStr (digest_value (ri_execution_spec_digest i))),
            (''created_at'', JStr (iso_z (ri_created_at i)))])"

section \<open>Provenance\<close>

record retry_provenance =
  rv_retry_intent_id :: string
  rv_retry_intent_digest :: digest
  rv_source_attempt_id :: string
  rv_source_attempt_no :: int
  rv_source_fence :: int
  rv_authority :: retry_authority

definition check_retry_provenance :: "retry_provenance \<Rightarrow> domain_error option" where
  "check_retry_provenance p = first_some
     [require_nonempty_string ''retry_provenance'' ''retry_intent_id'' (rv_retry_intent_id p),
      require_nonempty_string ''retry_provenance'' ''source_attempt_id'' (rv_source_attempt_id p),
      require_positive_integer ''retry_provenance'' ''source_attempt_no'' (rv_source_attempt_no p),
      require_positive_integer ''retry_provenance'' ''source_fence'' (rv_source_fence p)]"

definition retry_provenance_from_intent :: "retry_intent \<Rightarrow> retry_provenance result" where
  "retry_provenance_from_intent i =
     bind_result (retry_intent_digest i) (\<lambda>d.
     let p = \<lparr>rv_retry_intent_id = ri_id i, rv_retry_intent_digest = d,
              rv_source_attempt_id = ri_source_attempt_id i,
              rv_source_attempt_no = ri_source_attempt_no i,
              rv_source_fence = ri_source_fence i, rv_authority = ri_authority i\<rparr>
     in raise_or (check_retry_provenance p) p)"

definition retry_provenance_digest :: "retry_provenance \<Rightarrow> digest result" where
  "retry_provenance_digest p = canonical_digest ''qep.retry-provenance.v2''
     (JObj [(''retry_intent_id'', JStr (rv_retry_intent_id p)),
            (''retry_intent_digest'', JStr (digest_value (rv_retry_intent_digest p))),
            (''source_attempt_id'', JStr (rv_source_attempt_id p)),
            (''source_attempt_no'', JInt (rv_source_attempt_no p)),
            (''source_fence'', JInt (rv_source_fence p)),
            (''authority'', retry_authority_json (rv_authority p))])"

definition wf_retry_intent :: "retry_intent \<Rightarrow> bool" where
  "wf_retry_intent i \<longleftrightarrow> check_retry_intent i = None \<and> check_retry_authority (ri_authority i) = None"

lemma provenance_from_intent_Inr [result_simps]:
  "retry_provenance_from_intent i = Inr p \<longleftrightarrow>
     (\<exists>d. retry_intent_digest i = Inr d \<and>
        p = \<lparr>rv_retry_intent_id = ri_id i, rv_retry_intent_digest = d,
             rv_source_attempt_id = ri_source_attempt_id i,
             rv_source_attempt_no = ri_source_attempt_no i,
             rv_source_fence = ri_source_fence i, rv_authority = ri_authority i\<rparr> \<and>
        check_retry_provenance p = None)"
  by (auto simp: retry_provenance_from_intent_def Let_def result_simps)

text \<open>A validated intent always yields a provenance, unless its digest cannot be computed.\<close>

lemma provenance_of_wf_intent:
  assumes "wf_retry_intent i" "retry_intent_digest i = Inr d"
  shows "\<exists>p. retry_provenance_from_intent i = Inr p"
  using assms
  by (auto simp: result_simps wf_retry_intent_def check_retry_intent_def check_retry_provenance_def)

end
