(* ===== verification/Attempt.thy ===== *)
theory Attempt
  imports Evidence Retry
begin

text \<open>
  The Attempt aggregate (\<open>src/qarunner/domain/attempt.py\<close>): one committed execution of a Run,
  its event log, its Evidence, and the absorbing unknown state with its adjudication chain.
\<close>

section \<open>State\<close>

datatype attempt_state =
    AttemptStartCommitted | AttemptProvisioning | AttemptRunning | AttemptUploading
  | AttemptPassed | AttemptTestFailed | AttemptInfraFailed | AttemptCancelled | AttemptUnknown

fun attempt_state_value :: "attempt_state \<Rightarrow> string" where
  "attempt_state_value AttemptStartCommitted = ''start_committed''"
| "attempt_state_value AttemptProvisioning = ''provisioning''"
| "attempt_state_value AttemptRunning = ''running''"
| "attempt_state_value AttemptUploading = ''uploading''"
| "attempt_state_value AttemptPassed = ''passed''"
| "attempt_state_value AttemptTestFailed = ''test_failed''"
| "attempt_state_value AttemptInfraFailed = ''infra_failed''"
| "attempt_state_value AttemptCancelled = ''cancelled''"
| "attempt_state_value AttemptUnknown = ''attempt_unknown''"

definition attempt_terminal_states :: "attempt_state list" where
  "attempt_terminal_states =
     [AttemptPassed, AttemptTestFailed, AttemptInfraFailed, AttemptCancelled, AttemptUnknown]"

definition evidence_terminal_states :: "attempt_state list" where
  "evidence_terminal_states = [AttemptPassed, AttemptTestFailed, AttemptInfraFailed, AttemptCancelled]"

fun attempt_transitions :: "attempt_state \<Rightarrow> attempt_state list" where
  "attempt_transitions AttemptStartCommitted = [AttemptProvisioning]"
| "attempt_transitions AttemptProvisioning = [AttemptRunning, AttemptUploading]"
| "attempt_transitions AttemptRunning = [AttemptUploading]"
| "attempt_transitions _ = []"

text \<open>\<open>AttemptState(outcome.value)\<close>: the four outcome values are all Attempt state values.\<close>

fun state_of_outcome :: "evidence_outcome \<Rightarrow> attempt_state" where
  "state_of_outcome OutcomePassed = AttemptPassed"
| "state_of_outcome OutcomeTestFailed = AttemptTestFailed"
| "state_of_outcome OutcomeInfraFailed = AttemptInfraFailed"
| "state_of_outcome OutcomeCancelled = AttemptCancelled"

lemma state_of_outcome_value: "attempt_state_value (state_of_outcome o1) = evidence_outcome_value o1"
  by (cases o1) auto

record attempt =
  at_id :: string
  at_run_id :: string
  at_attempt_no :: int
  at_fence :: int
  at_assignment_id :: string
  at_worker :: worker_ref
  at_spec_digest :: digest
  at_start_commit_key :: string
  at_events :: "attempt_event list"
  at_evidence :: "evidence_manifest option"
  at_unknown_observation :: "unknown_observation option"
  at_adjudications :: "unknown_adjudication list"
  at_state :: attempt_state
  at_version :: int
  at_retry_provenance :: "retry_provenance option"

record finalize_evidence_result =
  fe_attempt :: attempt
  fe_evidence :: evidence_manifest
  fe_replayed :: bool

section \<open>Events\<close>

definition check_attempt_event :: "attempt_event \<Rightarrow> domain_error option" where
  "check_attempt_event e = first_some
     [reject_if (blank (ev_event_id e)) (DomainValidationError ''attempt_event'' ''event_id'' ''empty''),
      reject_if (blank (ev_event_type e)) (DomainValidationError ''attempt_event'' ''event_type'' ''empty''),
      reject_if (ev_event_seq e < 1) (DomainValidationError ''attempt_event'' ''event_seq'' ''not_positive'')]"

section \<open>Validation\<close>

abbreviation attempt_invalid :: "string \<Rightarrow> string \<Rightarrow> domain_error" where
  "attempt_invalid field reason \<equiv> DomainValidationError ''attempt'' field reason"

text \<open>\<open>record.supersedes_adjudication_id\<close> must be the id of the record before it.\<close>

fun supersession_ok :: "string option \<Rightarrow> unknown_adjudication list \<Rightarrow> bool" where
  "supersession_ok expected [] = True"
| "supersession_ok expected (a # as) =
     (ua_supersedes_adjudication_id a = expected \<and> supersession_ok (Some (ua_id a)) as)"

definition adjudication_history_checks :: "attempt \<Rightarrow> domain_error option list" where
  "adjudication_history_checks a =
     (let adj = at_adjudications a;
          bad = (\<lambda>reason. attempt_invalid ''adjudications'' reason)
      in
      [reject_if (adj \<noteq> [] \<and> at_state a \<noteq> AttemptUnknown) (bad ''only_allowed_for_unknown''),
       reject_if (\<exists>r \<in> set adj. ua_attempt_id r \<noteq> at_id a) (bad ''attempt_mismatch'')] @
      (case at_unknown_observation a of
         None \<Rightarrow> [reject_if (adj \<noteq> []) (bad ''observation_mismatch'')]
       | Some obs \<Rightarrow>
           [reject_if_result
              (map_result (\<lambda>d. \<exists>r \<in> set adj. ua_unknown_observation_digest r \<noteq> d)
                (unknown_observation_digest obs))
              (bad ''observation_mismatch''),
            reject_if (\<exists>r \<in> set adj. instant (ua_occurred_at r) < instant (uo_recorded_at obs))
              (bad ''before_unknown'')]) @
      [reject_if (\<not> distinct (map ua_id adj)) (bad ''duplicate_id''),
       reject_if (\<not> supersession_ok None adj) (bad ''supersession_mismatch''),
       reject_if
         (\<exists>(x, y) \<in> set (zip adj (tl adj)). instant (ua_occurred_at y) < instant (ua_occurred_at x))
         (bad ''occurred_at_not_monotonic''),
       reject_if (\<exists>r \<in> set adj. ua_decision r = MarkCompletedFromVerifiedEvidence)
         (bad ''verified_evidence_adjudication_not_supported'')])"

definition check_attempt :: "attempt \<Rightarrow> domain_error option" where
  "check_attempt a = first_some (
     [reject_if (blank (at_id a)) (attempt_invalid ''id'' ''empty''),
      reject_if (blank (at_run_id a)) (attempt_invalid ''run_id'' ''empty''),
      reject_if (blank (at_assignment_id a)) (attempt_invalid ''assignment_id'' ''empty''),
      reject_if (blank (at_start_commit_key a)) (attempt_invalid ''start_commit_key'' ''empty''),
      reject_if (at_attempt_no a < 1) (attempt_invalid ''attempt_no'' ''not_positive''),
      reject_if (at_fence a < 1) (attempt_invalid ''fence'' ''not_positive''),
      reject_if (at_version a < 0) (attempt_invalid ''version'' ''invalid''),
      reject_if (at_state a \<in> set evidence_terminal_states \<and> at_evidence a = None)
        (attempt_invalid ''evidence'' ''required_for_terminal'')] @
     (case at_evidence a of
        None \<Rightarrow> []
      | Some m \<Rightarrow>
          [reject_if (at_state a \<notin> set evidence_terminal_states)
             (attempt_invalid ''evidence'' ''forbidden_for_state''),
           reject_if (at_state a \<noteq> state_of_outcome (em_outcome m))
             (attempt_invalid ''evidence'' ''outcome_mismatch'')]) @
     [reject_if (at_state a = AttemptUnknown \<and> at_unknown_observation a = None)
        (attempt_invalid ''unknown_observation'' ''required_for_unknown''),
      reject_if (at_state a \<noteq> AttemptUnknown \<and> at_unknown_observation a \<noteq> None)
        (attempt_invalid ''unknown_observation'' ''only_allowed_for_unknown''),
      reject_if (at_attempt_no a > 1 \<and> at_retry_provenance a = None)
        (attempt_invalid ''retry_provenance'' ''required_for_retry_attempt'')] @
     (case at_retry_provenance a of
        None \<Rightarrow> []
      | Some p \<Rightarrow>
          [reject_if (at_attempt_no a < 2)
             (attempt_invalid ''retry_provenance'' ''not_allowed_for_first_attempt''),
           reject_if (rv_source_attempt_id p = at_id a)
             (attempt_invalid ''retry_provenance'' ''source_is_self'')]) @
     adjudication_history_checks a)"

definition mk_attempt :: "attempt \<Rightarrow> attempt result" where
  "mk_attempt a = raise_or (check_attempt a) a"

section \<open>Operations\<close>

definition attempt_create ::
  "string \<Rightarrow> string \<Rightarrow> int \<Rightarrow> int \<Rightarrow> string \<Rightarrow> worker_ref \<Rightarrow> digest \<Rightarrow> string \<Rightarrow> retry_provenance option \<Rightarrow>
   attempt result" where
  "attempt_create attempt_id run_id attempt_no fence assignment_id worker spec_digest
     start_commit_key retry_provenance =
     mk_attempt
       \<lparr>at_id = attempt_id, at_run_id = run_id, at_attempt_no = attempt_no, at_fence = fence,
        at_assignment_id = assignment_id, at_worker = worker, at_spec_digest = spec_digest,
        at_start_commit_key = start_commit_key, at_events = [], at_evidence = None,
        at_unknown_observation = None, at_adjudications = [], at_state = AttemptStartCommitted,
        at_version = 0, at_retry_provenance = retry_provenance\<rparr>"

definition attempt_ensure_authority ::
  "attempt \<Rightarrow> attempt_authority \<Rightarrow> worker_ref \<Rightarrow> int \<Rightarrow> unit result" where
  "attempt_ensure_authority a authority worker fence =
     (if at_fence a \<noteq> aa_current_fence authority
      then Inl (StaleFence (at_id a) (aa_current_fence authority) (at_fence a))
      else if fence \<noteq> aa_current_fence authority
      then Inl (StaleFence (at_id a) (aa_current_fence authority) fence)
      else if at_worker a \<noteq> aa_current_worker authority
      then Inl (StaleGeneration (at_id a) (aa_current_worker authority) (at_worker a))
      else if worker \<noteq> aa_current_worker authority
      then Inl (StaleGeneration (at_id a) (aa_current_worker authority) worker)
      else Inr ())"

abbreviation attempt_expect :: "attempt \<Rightarrow> int \<Rightarrow> unit result" where
  "attempt_expect a expected_version \<equiv>
     ensure_expected_version ''attempt'' (at_id a) (at_version a) expected_version"

abbreviation attempt_invalid_transition :: "attempt \<Rightarrow> attempt_state \<Rightarrow> int \<Rightarrow> domain_error" where
  "attempt_invalid_transition a target expected_version \<equiv>
     InvalidTransition ''attempt'' (at_id a) (attempt_state_value (at_state a))
       (attempt_state_value target) (at_version a) expected_version"

definition attempt_transition :: "attempt_state \<Rightarrow> int \<Rightarrow> attempt \<Rightarrow> attempt result" where
  "attempt_transition target expected_version a =
     bind_result (attempt_expect a expected_version) (\<lambda>_.
     if target \<notin> set (attempt_transitions (at_state a))
     then Inl (attempt_invalid_transition a target expected_version)
     else mk_attempt (a\<lparr>at_state := target, at_version := at_version a + 1\<rparr>))"

definition attempt_mark_unknown ::
  "unknown_observation \<Rightarrow> attempt_authority \<Rightarrow> int \<Rightarrow> attempt \<Rightarrow> attempt result" where
  "attempt_mark_unknown observation authority expected_version a =
     bind_result (attempt_ensure_authority a authority (at_worker a) (at_fence a)) (\<lambda>_.
     let fresh =
       bind_result (attempt_expect a expected_version) (\<lambda>_.
       if at_state a \<notin> {AttemptStartCommitted, AttemptProvisioning, AttemptRunning, AttemptUploading}
       then Inl (attempt_invalid_transition a AttemptUnknown expected_version)
       else mk_attempt (a\<lparr>at_state := AttemptUnknown, at_unknown_observation := Some observation,
                          at_version := at_version a + 1\<rparr>))
     in case at_unknown_observation a of
       None \<Rightarrow> fresh
     | Some stored \<Rightarrow>
         (if uo_id stored = uo_id observation
          then (if stored = observation then Inr a
                else Inl (UnknownObservationConflict (at_id a) (uo_id observation)))
          else fresh))"

definition attempt_append_unknown_adjudication ::
  "unknown_adjudication \<Rightarrow> int \<Rightarrow> attempt \<Rightarrow> attempt result" where
  "attempt_append_unknown_adjudication adjudication expected_version a =
     (case find (\<lambda>r. ua_id r = ua_id adjudication) (at_adjudications a) of
        Some existing \<Rightarrow>
          (if existing = adjudication then Inr a
           else Inl (AdjudicationConflict (at_id a) (ua_id adjudication)))
      | None \<Rightarrow>
          bind_result (attempt_expect a expected_version) (\<lambda>_.
          mk_attempt (a\<lparr>at_adjudications := at_adjudications a @ [adjudication],
                        at_version := at_version a + 1\<rparr>)))"

definition next_event_seq :: "attempt \<Rightarrow> int" where
  "next_event_seq a = (if at_events a = [] then 1 else ev_event_seq (last (at_events a)) + 1)"

definition attempt_record_event ::
  "attempt_event \<Rightarrow> attempt_authority \<Rightarrow> worker_ref \<Rightarrow> int \<Rightarrow> int \<Rightarrow> attempt \<Rightarrow> attempt result" where
  "attempt_record_event event authority worker fence expected_version a =
     bind_result (attempt_ensure_authority a authority worker fence) (\<lambda>_.
     case find (\<lambda>c. ev_event_id c = ev_event_id event \<or> ev_event_seq c = ev_event_seq event)
            (at_events a) of
       Some existing \<Rightarrow>
         (if existing \<noteq> event then Inl (EventConflict (at_id a) existing event) else Inr a)
     | None \<Rightarrow>
         bind_result (attempt_expect a expected_version) (\<lambda>_.
         if at_state a \<in> set attempt_terminal_states
         then Inl (AttemptEventRejected (at_id a) ''attempt_terminal'')
         else if ev_event_seq event \<noteq> next_event_seq a
         then Inl (EventSequenceGap (at_id a) (next_event_seq a) (ev_event_seq event))
         else mk_attempt (a\<lparr>at_events := at_events a @ [event], at_version := at_version a + 1\<rparr>)))"

definition missing_artifact_paths :: "evidence_requirements \<Rightarrow> evidence_manifest \<Rightarrow> string list" where
  "missing_artifact_paths requirements m =
     sort (map ap_value (filter (\<lambda>p. p \<notin> set (map va_path (em_artifacts m)))
       (remdups (er_required_artifact_paths requirements))))"

definition attempt_finalize ::
  "evidence_proposal \<Rightarrow> trusted_exit_facts option \<Rightarrow> validated_case_summary option \<Rightarrow>
   verified_artifact list \<Rightarrow> evidence_requirements \<Rightarrow> attempt_authority \<Rightarrow> worker_ref \<Rightarrow> int \<Rightarrow> int \<Rightarrow>
   trusted_cancellation_stop option \<Rightarrow> attempt \<Rightarrow> finalize_evidence_result result" where
  "attempt_finalize proposal trusted_exit case_summary artifacts requirements authority worker fence
     expected_version cancellation_stop a =
     bind_result (attempt_ensure_authority a authority worker fence) (\<lambda>_.
     bind_result (build_evidence_manifest (at_id a) (at_run_id a) (at_attempt_no a)
       (at_assignment_id a) (at_fence a) (at_worker a) (at_spec_digest a) trusted_exit case_summary
       artifacts cancellation_stop) (\<lambda>candidate.
     case at_evidence a of
       Some stored \<Rightarrow>
         (if stored = candidate \<and> ep_root_digest proposal = em_root_digest candidate
          then Inr \<lparr>fe_attempt = a, fe_evidence = stored, fe_replayed = True\<rparr>
          else Inl (EvidenceConflict (em_root_digest stored)
            (if stored = candidate then ep_root_digest proposal else em_root_digest candidate)))
     | None \<Rightarrow>
         bind_result (attempt_expect a expected_version) (\<lambda>_.
         let target_state = state_of_outcome (em_outcome candidate) in
         if at_state a \<noteq> AttemptUploading
         then Inl (attempt_invalid_transition a target_state expected_version)
         else if missing_artifact_paths requirements candidate \<noteq> []
         then Inl (EvidenceNotReady (''required artifacts are missing: '' @
           join_with '', '' (missing_artifact_paths requirements candidate)))
         else if ep_root_digest proposal \<noteq> em_root_digest candidate
         then Inl (EvidenceDigestMismatch (ep_root_digest proposal) (em_root_digest candidate))
         else map_result
           (\<lambda>finalized. \<lparr>fe_attempt = finalized, fe_evidence = candidate, fe_replayed = False\<rparr>)
           (mk_attempt (a\<lparr>at_evidence := Some candidate, at_state := target_state,
                          at_version := at_version a + 1\<rparr>)))))"

definition attempt_finalize_evidence ::
  "evidence_proposal \<Rightarrow> trusted_exit_facts option \<Rightarrow> validated_case_summary option \<Rightarrow>
   verified_artifact list \<Rightarrow> evidence_requirements \<Rightarrow> attempt_authority \<Rightarrow> worker_ref \<Rightarrow> int \<Rightarrow> int \<Rightarrow>
   trusted_cancellation_stop option \<Rightarrow> attempt \<Rightarrow> finalize_evidence_result result" where
  "attempt_finalize_evidence proposal trusted_exit case_summary artifacts requirements authority
     worker fence expected_version cancellation_stop a =
     (if cancellation_stop \<noteq> None
      then Inl (EvidenceNotReady ''cancelled evidence requires Run-owned finalization'')
      else attempt_finalize proposal trusted_exit case_summary artifacts requirements authority
        worker fence expected_version None a)"

definition attempt_finalize_cancellation_evidence ::
  "evidence_proposal \<Rightarrow> trusted_exit_facts option \<Rightarrow> validated_case_summary option \<Rightarrow>
   verified_artifact list \<Rightarrow> evidence_requirements \<Rightarrow> attempt_authority \<Rightarrow> worker_ref \<Rightarrow> int \<Rightarrow> int \<Rightarrow>
   trusted_cancellation_stop \<Rightarrow> attempt \<Rightarrow> finalize_evidence_result result" where
  "attempt_finalize_cancellation_evidence proposal trusted_exit case_summary artifacts requirements
     authority worker fence expected_version cancellation_stop a =
     attempt_finalize proposal trusted_exit case_summary artifacts requirements authority
       worker fence expected_version (Some cancellation_stop) a"

end
