(* ===== verification/Attempt_Lifecycle.thy ===== *)
theory Attempt_Lifecycle
  imports Attempt Versioned
begin

text \<open>
  The Attempt as a versioned state machine: one command type for its public methods, the type
  invariant \<open>wf_attempt\<close>, and the lemmas that the Run and the properties use (frozen identity,
  append-only contiguous event log, absorbing terminal states, exact replays).
\<close>

section \<open>Commands\<close>

text \<open>
  A command carries the value objects of the call. \<open>exec_attempt\<close> validates them first: in the
  source they are constructed, and may raise, before the method runs.
\<close>

datatype attempt_command =
    AttemptTransition attempt_state int
  | AttemptMarkUnknown unknown_observation attempt_authority int
  | AttemptAdjudicate unknown_adjudication int
  | AttemptRecordEvent attempt_event attempt_authority worker_ref int int
  | AttemptFinalize evidence_proposal "trusted_exit_facts option" "validated_case_summary option"
      "verified_artifact list" evidence_requirements attempt_authority worker_ref int int
      "trusted_cancellation_stop option"

fun exec_attempt :: "attempt_command \<Rightarrow> attempt \<Rightarrow> attempt result" where
  "exec_attempt (AttemptTransition t v) a = attempt_transition t v a"
| "exec_attempt (AttemptMarkUnknown o1 au v) a =
     bind_result (raise_or (check_unknown_observation o1) o1) (\<lambda>o1. attempt_mark_unknown o1 au v a)"
| "exec_attempt (AttemptAdjudicate ad v) a =
     bind_result (raise_or (check_unknown_adjudication ad) ad)
       (\<lambda>ad. attempt_append_unknown_adjudication ad v a)"
| "exec_attempt (AttemptRecordEvent e au w f v) a =
     bind_result (raise_or (check_attempt_event e) e) (\<lambda>e. attempt_record_event e au w f v a)"
| "exec_attempt (AttemptFinalize p te su arts rq au w f v stop) a =
     map_result fe_attempt (attempt_finalize p te su arts rq au w f v stop a)"

fun attempt_expects :: "attempt_command \<Rightarrow> int" where
  "attempt_expects (AttemptTransition t v) = v"
| "attempt_expects (AttemptMarkUnknown o1 au v) = v"
| "attempt_expects (AttemptAdjudicate ad v) = v"
| "attempt_expects (AttemptRecordEvent e au w f v) = v"
| "attempt_expects (AttemptFinalize p te su arts rq au w f v stop) = v"

section \<open>The type invariant\<close>

definition wf_attempt :: "attempt \<Rightarrow> bool" where
  "wf_attempt a \<longleftrightarrow>
     check_attempt a = None \<and>
     list_all (\<lambda>e. check_attempt_event e = None) (at_events a) \<and>
     (\<forall>o1. at_unknown_observation a = Some o1 \<longrightarrow> check_unknown_observation o1 = None) \<and>
     list_all (\<lambda>r. check_unknown_adjudication r = None) (at_adjudications a) \<and>
     (\<forall>p. at_retry_provenance a = Some p \<longrightarrow>
        check_retry_provenance p = None \<and> check_retry_authority (rv_authority p) = None)"

lemma mk_attempt_Inr [result_simps]: "mk_attempt a = Inr b \<longleftrightarrow> check_attempt a = None \<and> b = a"
  by (simp add: mk_attempt_def result_simps)

lemma attempt_ensure_authority_Inr [result_simps]:
  "attempt_ensure_authority a au w f = Inr u \<longleftrightarrow>
     at_fence a = aa_current_fence au \<and> f = aa_current_fence au \<and>
     at_worker a = aa_current_worker au \<and> w = aa_current_worker au"
  by (auto simp: attempt_ensure_authority_def)

section \<open>What each operation returns\<close>

text \<open>Each operation either gives the Attempt back or builds exactly one successor.\<close>

lemma attempt_transition_Inr:
  "attempt_transition t v a = Inr b \<longleftrightarrow>
     0 \<le> v \<and> v = at_version a \<and> t \<in> set (attempt_transitions (at_state a)) \<and>
     b = a\<lparr>at_state := t, at_version := at_version a + 1\<rparr> \<and> check_attempt b = None"
  by (auto simp: attempt_transition_def result_simps)

lemma attempt_mark_unknown_Inr:
  assumes "attempt_mark_unknown o1 au v a = Inr b"
  shows "at_fence a = aa_current_fence au" "at_worker a = aa_current_worker au"
    "(b = a \<and> at_unknown_observation a = Some o1) \<or>
     (v = at_version a \<and> 0 \<le> v \<and>
      at_state a \<in> {AttemptStartCommitted, AttemptProvisioning, AttemptRunning, AttemptUploading} \<and>
      b = a\<lparr>at_state := AttemptUnknown, at_unknown_observation := Some o1,
            at_version := at_version a + 1\<rparr> \<and> check_attempt b = None)"
  using assms by (auto simp: attempt_mark_unknown_def Let_def result_simps split: option.splits if_splits)

lemma attempt_adjudicate_Inr:
  assumes "attempt_append_unknown_adjudication ad v a = Inr b"
  shows "(b = a \<and> ad \<in> set (at_adjudications a)) \<or>
    (v = at_version a \<and> 0 \<le> v \<and> (\<forall>r \<in> set (at_adjudications a). ua_id r \<noteq> ua_id ad) \<and>
     b = a\<lparr>at_adjudications := at_adjudications a @ [ad], at_version := at_version a + 1\<rparr> \<and>
     check_attempt b = None)"
  using assms
  by (auto simp: attempt_append_unknown_adjudication_def find_None_iff result_simps
      dest: find_SomeD split: option.splits if_splits)

lemma attempt_record_event_Inr:
  assumes "attempt_record_event e au w f v a = Inr b"
  shows "at_fence a = aa_current_fence au" "f = aa_current_fence au"
    "at_worker a = aa_current_worker au" "w = aa_current_worker au"
    "(b = a \<and> e \<in> set (at_events a)) \<or>
     (v = at_version a \<and> 0 \<le> v \<and> at_state a \<notin> set attempt_terminal_states \<and>
      ev_event_seq e = next_event_seq a \<and>
      (\<forall>c \<in> set (at_events a). ev_event_id c \<noteq> ev_event_id e \<and> ev_event_seq c \<noteq> ev_event_seq e) \<and>
      b = a\<lparr>at_events := at_events a @ [e], at_version := at_version a + 1\<rparr> \<and> check_attempt b = None)"
  using assms
  by (auto simp: attempt_record_event_def find_None_iff result_simps
      dest: find_SomeD split: option.splits if_splits)

lemma attempt_finalize_Inr:
  assumes "attempt_finalize p te su arts rq au w f v stop a = Inr r"
  obtains m where
    "build_evidence_manifest (at_id a) (at_run_id a) (at_attempt_no a) (at_assignment_id a)
       (at_fence a) (at_worker a) (at_spec_digest a) te su arts stop = Inr m"
    "fe_evidence r = m" "ep_root_digest p = em_root_digest m"
    "(fe_replayed r \<and> fe_attempt r = a \<and> at_evidence a = Some m) \<or>
     (\<not> fe_replayed r \<and> at_evidence a = None \<and> v = at_version a \<and> 0 \<le> v \<and>
      at_state a = AttemptUploading \<and> missing_artifact_paths rq m = [] \<and>
      fe_attempt r = a\<lparr>at_evidence := Some m, at_state := state_of_outcome (em_outcome m),
                       at_version := at_version a + 1\<rparr> \<and> check_attempt (fe_attempt r) = None)"
    "at_fence a = aa_current_fence au" "f = aa_current_fence au"
    "at_worker a = aa_current_worker au" "w = aa_current_worker au"
proof -
  from assms obtain m where m:
    "build_evidence_manifest (at_id a) (at_run_id a) (at_attempt_no a) (at_assignment_id a)
       (at_fence a) (at_worker a) (at_spec_digest a) te su arts stop = Inr m"
    by (auto simp: attempt_finalize_def bind_result_Inr_iff)
  show thesis
    by (rule that [OF m])
      (use assms m in \<open>auto simp: attempt_finalize_def Let_def result_simps split: option.splits if_splits\<close>)
qed

section \<open>Frozen identity\<close>

definition attempt_identity ::
  "attempt \<Rightarrow> string \<times> string \<times> int \<times> int \<times> string \<times> worker_ref \<times> digest \<times> string \<times> retry_provenance option"
  where
  "attempt_identity a = (at_id a, at_run_id a, at_attempt_no a, at_fence a, at_assignment_id a,
     at_worker a, at_spec_digest a, at_start_commit_key a, at_retry_provenance a)"

text \<open>One step of an Attempt: unchanged, or the version moves by one and exactly one part grows.\<close>

inductive attempt_step :: "attempt \<Rightarrow> attempt \<Rightarrow> bool" where
  attempt_stay: "attempt_step a a"
| attempt_move:
    "t \<in> set (attempt_transitions (at_state a)) \<Longrightarrow>
     b = a\<lparr>at_state := t, at_version := at_version a + 1\<rparr> \<Longrightarrow> check_attempt b = None \<Longrightarrow>
     attempt_step a b"
| attempt_lost:
    "at_state a \<notin> set attempt_terminal_states \<Longrightarrow> check_unknown_observation obs = None \<Longrightarrow>
     b = a\<lparr>at_state := AttemptUnknown, at_unknown_observation := Some obs,
           at_version := at_version a + 1\<rparr> \<Longrightarrow> check_attempt b = None \<Longrightarrow>
     attempt_step a b"
| attempt_adjudged:
    "check_unknown_adjudication ad = None \<Longrightarrow>
     b = a\<lparr>at_adjudications := at_adjudications a @ [ad], at_version := at_version a + 1\<rparr> \<Longrightarrow>
     check_attempt b = None \<Longrightarrow> attempt_step a b"
| attempt_logged:
    "at_state a \<notin> set attempt_terminal_states \<Longrightarrow> check_attempt_event e = None \<Longrightarrow>
     ev_event_seq e = next_event_seq a \<Longrightarrow>
     b = a\<lparr>at_events := at_events a @ [e], at_version := at_version a + 1\<rparr> \<Longrightarrow>
     check_attempt b = None \<Longrightarrow> attempt_step a b"
| attempt_sealed:
    "at_state a = AttemptUploading \<Longrightarrow> at_evidence a = None \<Longrightarrow>
     build_evidence_manifest (at_id a) (at_run_id a) (at_attempt_no a) (at_assignment_id a)
       (at_fence a) (at_worker a) (at_spec_digest a) te su arts stop = Inr m \<Longrightarrow>
     b = a\<lparr>at_evidence := Some m, at_state := state_of_outcome (em_outcome m),
           at_version := at_version a + 1\<rparr> \<Longrightarrow> check_attempt b = None \<Longrightarrow>
     attempt_step a b"

lemma not_terminal_iff:
  "s \<notin> set attempt_terminal_states \<longleftrightarrow>
   s \<in> {AttemptStartCommitted, AttemptProvisioning, AttemptRunning, AttemptUploading}"
  by (cases s) (auto simp: attempt_terminal_states_def)

lemma attempt_step_transition: "attempt_transition t v a = Inr b \<Longrightarrow> attempt_step a b"
  by (auto simp: attempt_transition_Inr intro: attempt_move [of t])

lemma attempt_step_mark_unknown:
  assumes "attempt_mark_unknown obs au v a = Inr b" "check_unknown_observation obs = None"
  shows "attempt_step a b"
  using attempt_mark_unknown_Inr(3) [OF assms(1)]
proof (elim disjE conjE)
  assume "b = a" then show ?thesis by (simp add: attempt_stay)
next
  assume "at_state a \<in> {AttemptStartCommitted, AttemptProvisioning, AttemptRunning, AttemptUploading}"
    and b: "b = a\<lparr>at_state := AttemptUnknown, at_unknown_observation := Some obs,
                  at_version := at_version a + 1\<rparr>" "check_attempt b = None"
  then have "at_state a \<notin> set attempt_terminal_states" by (simp only: not_terminal_iff)
  then show ?thesis by (rule attempt_lost [OF _ assms(2) b])
qed

lemma attempt_step_adjudicate:
  assumes "attempt_append_unknown_adjudication ad v a = Inr b" "check_unknown_adjudication ad = None"
  shows "attempt_step a b"
  using attempt_adjudicate_Inr [OF assms(1)]
proof (elim disjE conjE)
  assume "b = a" then show ?thesis by (simp add: attempt_stay)
next
  assume b: "b = a\<lparr>at_adjudications := at_adjudications a @ [ad], at_version := at_version a + 1\<rparr>"
    "check_attempt b = None"
  show ?thesis by (rule attempt_adjudged [OF assms(2) b])
qed

lemma attempt_step_record_event:
  assumes "attempt_record_event e au w f v a = Inr b" "check_attempt_event e = None"
  shows "attempt_step a b"
  using attempt_record_event_Inr(5) [OF assms(1)]
proof (elim disjE conjE)
  assume "b = a" then show ?thesis by (simp add: attempt_stay)
next
  assume ts: "at_state a \<notin> set attempt_terminal_states" and sq: "ev_event_seq e = next_event_seq a"
    and b: "b = a\<lparr>at_events := at_events a @ [e], at_version := at_version a + 1\<rparr>"
      "check_attempt b = None"
  show ?thesis by (rule attempt_logged [OF ts assms(2) sq b])
qed

lemma attempt_step_finalize:
  assumes "attempt_finalize p te su arts rq au w f v stop a = Inr r"
  shows "attempt_step a (fe_attempt r)"
proof (rule attempt_finalize_Inr [OF assms])
  fix m
  assume m: "build_evidence_manifest (at_id a) (at_run_id a) (at_attempt_no a) (at_assignment_id a)
       (at_fence a) (at_worker a) (at_spec_digest a) te su arts stop = Inr m"
  assume "(fe_replayed r \<and> fe_attempt r = a \<and> at_evidence a = Some m) \<or>
     (\<not> fe_replayed r \<and> at_evidence a = None \<and> v = at_version a \<and> 0 \<le> v \<and>
      at_state a = AttemptUploading \<and> missing_artifact_paths rq m = [] \<and>
      fe_attempt r = a\<lparr>at_evidence := Some m, at_state := state_of_outcome (em_outcome m),
                       at_version := at_version a + 1\<rparr> \<and> check_attempt (fe_attempt r) = None)"
  then show ?thesis
  proof (elim disjE conjE)
    assume "fe_attempt r = a" then show ?thesis by (simp add: attempt_stay)
  next
    assume up: "at_state a = AttemptUploading" "at_evidence a = None"
      and b: "fe_attempt r = a\<lparr>at_evidence := Some m, at_state := state_of_outcome (em_outcome m),
                       at_version := at_version a + 1\<rparr>" "check_attempt (fe_attempt r) = None"
    show ?thesis by (rule attempt_sealed [OF up m b])
  qed
qed

lemma exec_attempt_step:
  assumes "exec_attempt c a = Inr b"
  shows "attempt_step a b"
proof (cases c)
  case (AttemptTransition t v)
  with assms show ?thesis by (simp add: attempt_step_transition)
next
  case (AttemptMarkUnknown obs au v)
  with assms show ?thesis by (auto simp: bind_result_Inr_iff raise_or_Inr_iff intro: attempt_step_mark_unknown)
next
  case (AttemptAdjudicate ad v)
  with assms show ?thesis by (auto simp: bind_result_Inr_iff raise_or_Inr_iff intro: attempt_step_adjudicate)
next
  case (AttemptRecordEvent e au w f v)
  with assms show ?thesis by (auto simp: bind_result_Inr_iff raise_or_Inr_iff intro: attempt_step_record_event)
next
  case (AttemptFinalize p te su arts rq au w f v stop)
  with assms show ?thesis by (auto simp: map_result_Inr_iff intro: attempt_step_finalize)
qed

section \<open>Facts the validator gives\<close>

lemmas check_attempt_simps = check_attempt_def adjudication_history_checks_def result_simps

lemma check_attempt_adjudicated:
  "check_attempt a = None \<Longrightarrow> at_adjudications a \<noteq> [] \<Longrightarrow> at_state a = AttemptUnknown"
  by (simp add: check_attempt_simps Let_def)

lemma check_attempt_unknown:
  "check_attempt a = None \<Longrightarrow> at_state a = AttemptUnknown \<longleftrightarrow> at_unknown_observation a \<noteq> None"
  by (auto simp: check_attempt_simps Let_def)

lemma check_attempt_evidence:
  "check_attempt a = None \<Longrightarrow> at_state a \<in> set evidence_terminal_states \<longleftrightarrow> at_evidence a \<noteq> None"
  by (auto simp: check_attempt_simps Let_def)

lemma check_attempt_outcome:
  "check_attempt a = None \<Longrightarrow> at_evidence a = Some m \<Longrightarrow> at_state a = state_of_outcome (em_outcome m)"
  by (auto simp: check_attempt_simps Let_def)

lemma check_attempt_provenance:
  "check_attempt a = None \<Longrightarrow> at_attempt_no a > 1 \<longleftrightarrow> at_retry_provenance a \<noteq> None"
  by (auto simp: check_attempt_simps Let_def split: option.splits)

lemma check_attempt_numbers:
  "check_attempt a = None \<Longrightarrow> 1 \<le> at_attempt_no a \<and> 1 \<le> at_fence a \<and> 0 \<le> at_version a"
  by (auto simp: check_attempt_simps Let_def)

lemma wf_attempt_check: "wf_attempt a \<Longrightarrow> check_attempt a = None"
  by (simp add: wf_attempt_def)

section \<open>Consequences of a step\<close>

lemma attempt_step_identity: "attempt_step a b \<Longrightarrow> attempt_identity b = attempt_identity a"
  by (induction rule: attempt_step.induct) (simp_all add: attempt_identity_def)

lemma attempt_step_version: "attempt_step a b \<Longrightarrow> b = a \<or> at_version b = at_version a + 1"
  by (induction rule: attempt_step.induct) simp_all

lemma attempt_step_wf: "attempt_step a b \<Longrightarrow> wf_attempt a \<Longrightarrow> wf_attempt b"
  by (induction rule: attempt_step.induct) (simp_all add: wf_attempt_def)

lemma attempt_step_events: "attempt_step a b \<Longrightarrow> prefix (at_events a) (at_events b)"
  by (induction rule: attempt_step.induct) simp_all

lemma attempt_step_adjudications: "attempt_step a b \<Longrightarrow> prefix (at_adjudications a) (at_adjudications b)"
  by (induction rule: attempt_step.induct) simp_all

lemma attempt_step_terminal:
  assumes "attempt_step a b" "at_state a \<in> set evidence_terminal_states"
  shows "b = a"
  using assms
proof (induction rule: attempt_step.induct)
  case (attempt_adjudged ad b a)
  then have "at_state b = AttemptUnknown" by (intro check_attempt_adjudicated) simp_all
  with attempt_adjudged show ?case by (simp add: evidence_terminal_states_def)
qed (auto simp: evidence_terminal_states_def attempt_terminal_states_def)

lemma attempt_step_unknown:
  assumes "attempt_step a b" "at_state a = AttemptUnknown"
  shows "b = a \<or> (\<exists>ad. check_unknown_adjudication ad = None \<and>
    b = a\<lparr>at_adjudications := at_adjudications a @ [ad], at_version := at_version a + 1\<rparr>)"
  using assms by (induction rule: attempt_step.induct) (auto simp: attempt_terminal_states_def)

lemma attempt_step_state:
  "attempt_step a b \<Longrightarrow> at_state a \<in> set attempt_terminal_states \<Longrightarrow> at_state b = at_state a"
  by (induction rule: attempt_step.induct) (auto simp: attempt_terminal_states_def)

text \<open>The sealed evidence of an Attempt is the rebuild of its own identity and facts.\<close>

definition evidence_rebuilt :: "attempt \<Rightarrow> bool" where
  "evidence_rebuilt a \<longleftrightarrow>
     (\<forall>m. at_evidence a = Some m \<longrightarrow>
        build_evidence_manifest (at_id a) (at_run_id a) (at_attempt_no a) (at_assignment_id a)
          (at_fence a) (at_worker a) (at_spec_digest a) (Some (em_platform_exit m))
          (em_case_summary m) (em_artifacts m) (em_cancellation_stop m) = Inr m)"

lemma attempt_step_rebuilt: "attempt_step a b \<Longrightarrow> evidence_rebuilt a \<Longrightarrow> evidence_rebuilt b"
  by (induction rule: attempt_step.induct) (simp_all add: evidence_rebuilt_def build_evidence_rebuild)

text \<open>Event sequence numbers run 1, 2, 3, ... without a gap.\<close>

definition events_contiguous :: "attempt \<Rightarrow> bool" where
  "events_contiguous a \<longleftrightarrow>
     map ev_event_seq (at_events a) = map int [1..<length (at_events a) + 1]"

lemma contiguous_next_seq:
  assumes "events_contiguous a"
  shows "next_event_seq a = int (length (at_events a)) + 1"
proof (cases "at_events a" rule: rev_cases)
  case Nil
  then show ?thesis by (simp add: next_event_seq_def)
next
  case (snoc es e)
  with assms have "map ev_event_seq (es @ [e]) = map int ([1..<length es + 1] @ [length es + 1])"
    by (simp add: events_contiguous_def)
  then show ?thesis using snoc by (simp add: next_event_seq_def)
qed

lemma attempt_step_contiguous: "attempt_step a b \<Longrightarrow> events_contiguous a \<Longrightarrow> events_contiguous b"
proof (induction rule: attempt_step.induct)
  case (attempt_logged a e b)
  then show ?case using contiguous_next_seq [of a] by (simp add: events_contiguous_def)
qed (simp_all add: events_contiguous_def)

section \<open>The Attempt keeps the contract of a versioned aggregate\<close>

lemma exec_attempt_cas:
  assumes "exec_attempt c a = Inr b" "b \<noteq> a"
  shows "attempt_expects c = at_version a \<and> at_version b = at_version a + 1"
proof
  show "at_version b = at_version a + 1"
    using attempt_step_version exec_attempt_step assms by blast
  show "attempt_expects c = at_version a"
  proof (cases c)
    case (AttemptTransition t v)
    with assms show ?thesis by (simp add: attempt_transition_Inr)
  next
    case (AttemptMarkUnknown obs au v)
    with assms show ?thesis
      using attempt_mark_unknown_Inr(3) [of obs au v a b] by (auto simp: bind_result_Inr_iff raise_or_Inr_iff)
  next
    case (AttemptAdjudicate ad v)
    with assms show ?thesis
      using attempt_adjudicate_Inr [of ad v a b] by (auto simp: bind_result_Inr_iff raise_or_Inr_iff)
  next
    case (AttemptRecordEvent e au w f v)
    with assms show ?thesis
      using attempt_record_event_Inr(5) [of e au w f v a b] by (auto simp: bind_result_Inr_iff raise_or_Inr_iff)
  next
    case (AttemptFinalize p te su arts rq au w f v stop)
    with assms obtain r where "attempt_finalize p te su arts rq au w f v stop a = Inr r"
      "b = fe_attempt r" by (auto simp: map_result_Inr_iff)
    with AttemptFinalize assms(2) show ?thesis
      by (elim attempt_finalize_Inr) auto
  qed
qed

lemma exec_attempt_good: "exec_attempt c a = Inr b \<Longrightarrow> wf_attempt a \<Longrightarrow> wf_attempt b"
  using exec_attempt_step attempt_step_wf by blast

interpretation attempt_life: absorbing_lifecycle at_version attempt_expects exec_attempt wf_attempt
  "\<lambda>a. at_state a \<in> set evidence_terminal_states"
  by unfold_locales
    (auto intro: exec_attempt_good dest: exec_attempt_cas exec_attempt_step attempt_step_terminal)

interpretation attempt_event_log: append_only_log at_version attempt_expects exec_attempt wf_attempt at_events
  by unfold_locales (auto dest: exec_attempt_step attempt_step_events)

interpretation attempt_adjudication_log:
  append_only_log at_version attempt_expects exec_attempt wf_attempt at_adjudications
  by unfold_locales (auto dest: exec_attempt_step attempt_step_adjudications)

lemma attempt_create_Inr:
  "attempt_create i rid n f asg w sd key prov = Inr a \<longleftrightarrow>
     a = \<lparr>at_id = i, at_run_id = rid, at_attempt_no = n, at_fence = f, at_assignment_id = asg,
          at_worker = w, at_spec_digest = sd, at_start_commit_key = key, at_events = [],
          at_evidence = None, at_unknown_observation = None, at_adjudications = [],
          at_state = AttemptStartCommitted, at_version = 0, at_retry_provenance = prov\<rparr> \<and>
     check_attempt a = None"
  by (auto simp: attempt_create_def result_simps)

end
