(* ===== verification/Run_Model.thy ===== *)
theory Run_Model
  imports Attempt_Lifecycle
begin

text \<open>
  The Run aggregate's state and its rehydration validator (\<open>src/qarunner/domain/run.py\<close>,
  \<open>Run.__post_init__\<close>): normalised history, cancellation causality, state pointers, assignment
  epochs and retry-intent consumption, check by check in source order.
\<close>

section \<open>State\<close>

datatype run_state = RunPlanned | RunQueued | RunAssigned | RunRunning | RunRetryQueued | RunCancelled

fun run_state_value :: "run_state \<Rightarrow> string" where
  "run_state_value RunPlanned = ''planned''"
| "run_state_value RunQueued = ''queued''"
| "run_state_value RunAssigned = ''assigned''"
| "run_state_value RunRunning = ''running''"
| "run_state_value RunRetryQueued = ''retry_queued''"
| "run_state_value RunCancelled = ''cancelled''"

fun run_transitions :: "run_state \<Rightarrow> run_state list" where
  "run_transitions RunPlanned = [RunQueued]"
| "run_transitions _ = []"

record run =
  run_id :: string
  run_state :: run_state
  run_version :: int
  run_current_fence :: int
  run_assignments :: "assignment list"
  run_current_assignment_id :: "string option"
  run_attempts :: "attempt list"
  run_retry_intents :: "retry_intent list"
  run_pending_retry_intent_id :: "string option"
  run_cancel_intent :: "cancellation_intent option"
  run_cancellation_stop :: "trusted_cancellation_stop option"

definition run_assignment :: "run \<Rightarrow> assignment option" where
  "run_assignment r =
     (case run_current_assignment_id r of
        None \<Rightarrow> None
      | Some i \<Rightarrow> find_last (\<lambda>a. as_id a = i) (run_assignments r))"

definition run_pending_retry_intent :: "run \<Rightarrow> retry_intent option" where
  "run_pending_retry_intent r =
     (case run_pending_retry_intent_id r of
        None \<Rightarrow> None
      | Some i \<Rightarrow> find_last (\<lambda>t. ri_id t = i) (run_retry_intents r))"

definition assignment_by_id :: "string \<Rightarrow> assignment list \<Rightarrow> assignment option" where
  "assignment_by_id i xs = find (\<lambda>a. as_id a = i) xs"

definition intent_by_id :: "string \<Rightarrow> retry_intent list \<Rightarrow> retry_intent option" where
  "intent_by_id i xs = find (\<lambda>t. ri_id t = i) xs"

definition attempt_by_id :: "string \<Rightarrow> attempt list \<Rightarrow> attempt option" where
  "attempt_by_id i xs = find (\<lambda>a. at_id a = i) xs"

abbreviation run_invalid :: "string \<Rightarrow> string \<Rightarrow> domain_error" where
  "run_invalid field reason \<equiv> DomainValidationError ''run'' field reason"

section \<open>Normalised history\<close>

definition pointer_checks ::
  "string \<Rightarrow> string option \<Rightarrow> string list \<Rightarrow> domain_error option list" where
  "pointer_checks field pointer ids =
     (case pointer of
        None \<Rightarrow> []
      | Some i \<Rightarrow>
          [reject_if (i \<notin> set ids) (run_invalid field ''not_found''),
           reject_if (last_opt ids \<noteq> Some i) (run_invalid field ''not_latest'')])"

text \<open>The Attempt at a position after the first: its provenance, intent and source agree.\<close>

definition provenance_checks :: "run \<Rightarrow> nat \<Rightarrow> attempt \<Rightarrow> assignment \<Rightarrow> domain_error option list" where
  "provenance_checks r index a asg =
     (case at_retry_provenance a of
        None \<Rightarrow> [Some (run_invalid ''attempts'' ''retry_provenance_missing'')]
      | Some p \<Rightarrow>
          let bad = run_invalid ''attempts'' ''retry_provenance_mismatch'';
              previous = run_attempts r ! (index - 2)
          in (case (intent_by_id (rv_retry_intent_id p) (run_retry_intents r),
                    attempt_by_id (rv_source_attempt_id p) (run_attempts r)) of
                (Some intent, Some source) \<Rightarrow>
                  [reject_if
                     (at_id source \<noteq> at_id previous \<or>
                      as_retry_intent_id asg \<noteq> Some (ri_id intent) \<or>
                      at_spec_digest a \<noteq> ri_execution_spec_digest intent \<or>
                      ri_source_attempt_no intent \<noteq> at_attempt_no source \<or>
                      ri_source_fence intent \<noteq> at_fence source) bad,
                   reject_if_result
                     (map_result (\<lambda>d. rv_retry_intent_digest p \<noteq> d) (retry_intent_digest intent)) bad,
                   reject_if
                     (rv_source_attempt_no p \<noteq> ri_source_attempt_no intent \<or>
                      rv_source_fence p \<noteq> ri_source_fence intent \<or>
                      rv_authority p \<noteq> ri_authority intent) bad]
              | _ \<Rightarrow> [Some bad]))"

definition attempt_position_checks :: "run \<Rightarrow> nat \<times> attempt \<Rightarrow> domain_error option list" where
  "attempt_position_checks r ia =
     (let index = fst ia; a = snd ia in
      [reject_if (at_run_id a \<noteq> run_id r) (run_invalid ''attempts'' ''run_mismatch''),
       reject_if (at_attempt_no a \<noteq> int index) (run_invalid ''attempts'' ''attempt_no_not_contiguous''),
       reject_if (at_fence a \<noteq> int index) (run_invalid ''attempts'' ''attempt_fence_not_contiguous'')] @
      (case assignment_by_id (at_assignment_id a) (run_assignments r) of
         None \<Rightarrow> [Some (run_invalid ''attempts'' ''assignment_missing'')]
       | Some asg \<Rightarrow>
           [reject_if (as_state asg \<noteq> AssignmentCommitted \<or> as_worker asg \<noteq> at_worker a \<or>
               as_spec_digest asg \<noteq> at_spec_digest a)
              (run_invalid ''attempts'' ''assignment_mismatch''),
            reject_if
              (case (at_unknown_observation a, as_committed_at asg) of
                 (Some obs, Some t) \<Rightarrow> instant (uo_recorded_at obs) < instant t
               | _ \<Rightarrow> False)
              (run_invalid ''attempts'' ''unknown_before_assignment_commit'')] @
           (if index = 1
            then [reject_if (as_retry_intent_id asg \<noteq> None)
                    (run_invalid ''assignments'' ''retry_intent_mismatch'')]
            else provenance_checks r index a asg)))"

fun retry_source_state :: "attempt_execution_fact \<Rightarrow> attempt_state" where
  "retry_source_state FactTestFailed = AttemptTestFailed"
| "retry_source_state _ = AttemptInfraFailed"

definition intent_checks :: "run \<Rightarrow> retry_intent \<Rightarrow> domain_error option list" where
  "intent_checks r intent =
     (case attempt_by_id (ri_source_attempt_id intent) (run_attempts r) of
        None \<Rightarrow> [Some (run_invalid ''retry_intents'' ''source_mismatch'')]
      | Some source \<Rightarrow>
          [reject_if (ri_run_id intent \<noteq> run_id r) (run_invalid ''retry_intents'' ''source_mismatch''),
           reject_if
             (ri_source_attempt_no intent \<noteq> at_attempt_no source \<or>
              ri_source_fence intent \<noteq> at_fence source \<or>
              ri_execution_spec_digest intent \<noteq> at_spec_digest source)
             (run_invalid ''retry_intents'' ''source_mismatch'')] @
          (case ri_authority intent of
             UnknownAuthority ua \<Rightarrow>
               (let bad = run_invalid ''retry_intents'' ''adjudication_not_authoritative'' in
                case last_opt (at_adjudications source) of
                  None \<Rightarrow> [Some bad]
                | Some adj \<Rightarrow>
                    [reject_if (ur_adjudication_id ua \<noteq> ua_id adj) bad,
                     reject_if_result
                       (map_result (\<lambda>d. ur_adjudication_digest ua \<noteq> d) (unknown_adjudication_digest adj)) bad,
                     reject_if
                       (ur_decision ua \<noteq> ua_decision adj \<or> \<not> permits_retry (ua_decision adj) \<or>
                        instant (ri_created_at intent) < instant (ua_occurred_at adj)) bad])
           | PolicyAuthority pa \<Rightarrow>
               [reject_if (at_state source \<noteq> retry_source_state (pr_source_outcome pa))
                  (run_invalid ''retry_intents'' ''policy_not_authoritative'')]))"

text \<open>The 1-based position of an intent id: the epoch of the assignments that carry it.\<close>

fun intent_epoch :: "string \<Rightarrow> retry_intent list \<Rightarrow> nat" where
  "intent_epoch i [] = 0"
| "intent_epoch i (t # ts) = (if ri_id t = i then 1 else Suc (intent_epoch i ts))"

definition assignment_epoch :: "run \<Rightarrow> assignment \<Rightarrow> nat" where
  "assignment_epoch r a =
     (case as_retry_intent_id a of None \<Rightarrow> 0 | Some i \<Rightarrow> intent_epoch i (run_retry_intents r))"

definition assignment_checks :: "run \<Rightarrow> assignment \<Rightarrow> domain_error option list" where
  "assignment_checks r a =
     (case as_retry_intent_id a of
        None \<Rightarrow> []
      | Some i \<Rightarrow>
          (case intent_by_id i (run_retry_intents r) of
             None \<Rightarrow> [Some (run_invalid ''assignments'' ''retry_intent_mismatch'')]
           | Some intent \<Rightarrow>
               [reject_if (as_spec_digest a \<noteq> ri_execution_spec_digest intent)
                  (run_invalid ''assignments'' ''retry_intent_mismatch''),
                reject_if (instant (as_offered_at a) < instant (ri_created_at intent))
                  (run_invalid ''assignments'' ''offered_before_retry_intent'')])) @
     (let is_current = (Some (as_id a) = run_current_assignment_id r) in
      if as_state a = AssignmentCommitted then
        [reject_if (as_id a \<notin> set (map at_assignment_id (run_attempts r)))
           (run_invalid ''assignments'' ''committed_without_attempt'')]
      else if assignment_terminal_kind (as_state a) \<noteq> None then
        [reject_if is_current (run_invalid ''assignments'' ''closed_reservation_current'')]
      else
        [reject_if (\<not> is_current) (run_invalid ''assignments'' ''historical_reservation_not_committed'')])"

text \<open>When a reservation ended: its closure's record time, or its commit time (if any).\<close>

definition assignment_closed_at :: "assignment \<Rightarrow> datetime option" where
  "assignment_closed_at a =
     (case as_closure a of Some c \<Rightarrow> Some (cl_recorded_at c) | None \<Rightarrow> as_committed_at a)"

fun timeline_ok :: "datetime option \<Rightarrow> assignment list \<Rightarrow> bool" where
  "timeline_ok prev [] = True"
| "timeline_ok prev (a # as) =
     ((case prev of None \<Rightarrow> True | Some t \<Rightarrow> instant t \<le> instant (as_offered_at a)) \<and>
      timeline_ok (assignment_closed_at a) as)"

definition committed_assignments :: "run \<Rightarrow> assignment list" where
  "committed_assignments r = filter (\<lambda>a. as_state a = AssignmentCommitted) (run_assignments r)"

definition history_pointer_checks :: "run \<Rightarrow> domain_error option list" where
  "history_pointer_checks r =
     [reject_if (\<not> distinct (map as_id (run_assignments r))) (run_invalid ''assignments'' ''duplicate_id'')] @
     pointer_checks ''current_assignment_id'' (run_current_assignment_id r) (map as_id (run_assignments r)) @
     [reject_if (\<not> distinct (map ri_id (run_retry_intents r))) (run_invalid ''retry_intents'' ''duplicate_id'')] @
     pointer_checks ''pending_retry_intent_id'' (run_pending_retry_intent_id r) (map ri_id (run_retry_intents r)) @
     [reject_if (\<not> distinct (map at_id (run_attempts r))) (run_invalid ''attempts'' ''duplicate_id''),
      reject_if (\<not> distinct (map at_start_commit_key (run_attempts r)))
        (run_invalid ''attempts'' ''duplicate_start_commit_key'')]"

definition history_fence_checks :: "run \<Rightarrow> domain_error option list" where
  "history_fence_checks r =
     [reject_if (run_current_fence r \<noteq>
          (case last_opt (run_attempts r) of None \<Rightarrow> 0 | Some a \<Rightarrow> at_fence a))
        (run_invalid ''current_fence'' ''attempt_fence_mismatch''),
      reject_if
        (case run_pending_retry_intent r of
           None \<Rightarrow> False
         | Some t \<Rightarrow> map_option at_id (last_opt (run_attempts r)) \<noteq> Some (ri_source_attempt_id t))
        (run_invalid ''pending_retry_intent_id'' ''source_attempt_not_current''),
      reject_if (\<not> distinct (map (\<lambda>t. (ri_source_attempt_id t, ri_authority t)) (run_retry_intents r)))
        (run_invalid ''retry_intents'' ''duplicate_authority'')]"

definition history_order_checks :: "run \<Rightarrow> domain_error option list" where
  "history_order_checks r =
     [reject_if
        (case run_assignments r of
           [] \<Rightarrow> False
         | a # as \<Rightarrow> \<exists>b \<in> set as. as_spec_digest b \<noteq> as_spec_digest a)
        (run_invalid ''assignments'' ''spec_digest_mismatch''),
      reject_if (map as_id (committed_assignments r) \<noteq> map at_assignment_id (run_attempts r))
        (run_invalid ''assignments'' ''attempt_order_mismatch''),
      reject_if (\<not> sorted (map (assignment_epoch r) (run_assignments r)))
        (run_invalid ''assignments'' ''retry_intent_order_mismatch''),
      reject_if (\<not> timeline_ok None (run_assignments r))
        (run_invalid ''assignments'' ''timeline_not_monotonic'')]"

definition validate_normalized_history :: "run \<Rightarrow> domain_error option list" where
  "validate_normalized_history r =
     history_pointer_checks r @
     concat (map (attempt_position_checks r) (enumerate 1 (run_attempts r))) @
     history_fence_checks r @
     concat (map (intent_checks r) (run_retry_intents r)) @
     concat (map (assignment_checks r) (run_assignments r)) @
     history_order_checks r"

section \<open>Cancellation\<close>

definition latest_committed_at :: "run \<Rightarrow> datetime option" where
  "latest_committed_at r =
     (case find_last (\<lambda>a. as_committed_at a \<noteq> None) (run_assignments r) of
        None \<Rightarrow> None | Some a \<Rightarrow> as_committed_at a)"

definition latest_closure :: "run \<Rightarrow> assignment_closure option" where
  "latest_closure r =
     (case find_last (\<lambda>a. as_closure a \<noteq> None) (run_assignments r) of
        None \<Rightarrow> None | Some a \<Rightarrow> as_closure a)"

definition is_before :: "datetime \<Rightarrow> datetime option \<Rightarrow> bool" where
  "is_before t bound = (case bound of None \<Rightarrow> False | Some b \<Rightarrow> instant t < instant b)"

definition validate_cancel_intent_causality :: "run \<Rightarrow> domain_error option list" where
  "validate_cancel_intent_causality r =
     (case run_cancel_intent r of
        None \<Rightarrow> []
      | Some c \<Rightarrow>
          [reject_if (is_before (ci_recorded_at c) (latest_committed_at r))
             (run_invalid ''cancel_intent'' ''before_current_attempt_commit''),
           reject_if (is_before (ci_recorded_at c) (map_option cl_recorded_at (latest_closure r)))
             (run_invalid ''cancel_intent'' ''before_latest_assignment_closure''),
           reject_if (is_before (ci_recorded_at c) (map_option ri_created_at (run_pending_retry_intent r)))
             (run_invalid ''cancel_intent'' ''before_pending_retry_intent'')])"

definition validate_cancellation_history :: "run \<Rightarrow> domain_error option list" where
  "validate_cancellation_history r =
     (if filter (\<lambda>a. as_state a = AssignmentCancelledPrestart) (run_assignments r) = [] then []
      else
        reject_if
          (filter (\<lambda>a. as_state a = AssignmentCancelledPrestart) (butlast (run_assignments r)) \<noteq> [] \<or>
           run_state r \<noteq> RunCancelled \<or> run_cancel_intent r = None)
          (run_invalid ''assignments'' ''cancelled_prestart_not_terminal'') #
        (case (as_closure (last (run_assignments r)), run_cancel_intent r) of
           (Some cl, Some ci) \<Rightarrow>
             [reject_if_result
                (map_result (\<lambda>d. cl_cancellation_intent_digest cl \<noteq> Some d) (cancellation_intent_digest ci))
                (run_invalid ''assignments'' ''cancellation_intent_mismatch''),
              reject_if
                (cl_idempotency_key cl \<noteq> ci_idempotency_key ci \<or>
                 instant (cl_effective_at cl) \<noteq> instant (ci_recorded_at ci) \<or>
                 instant (cl_recorded_at cl) \<noteq> instant (ci_recorded_at ci))
                (run_invalid ''assignments'' ''cancellation_intent_mismatch'')]
         | _ \<Rightarrow> [Some (run_invalid ''assignments'' ''cancellation_closure_missing'')]))"

section \<open>Evidence snapshots\<close>

definition rebuild_evidence ::
  "attempt \<Rightarrow> evidence_manifest \<Rightarrow> trusted_cancellation_stop option \<Rightarrow> evidence_manifest result" where
  "rebuild_evidence a m stop =
     build_evidence_manifest (at_id a) (at_run_id a) (at_attempt_no a) (at_assignment_id a)
       (at_fence a) (at_worker a) (at_spec_digest a) (Some (em_platform_exit m)) (em_case_summary m)
       (em_artifacts m) stop"

text \<open>The source catches every \<open>ValueError\<close> of the rebuild; all the domain errors are ValueErrors.\<close>

definition evidence_snapshot_checks :: "attempt \<Rightarrow> domain_error option list" where
  "evidence_snapshot_checks a =
     (case at_evidence a of
        None \<Rightarrow> []
      | Some m \<Rightarrow>
          [reject_if (rebuild_evidence a m (em_cancellation_stop m) \<noteq> Inr m)
             (run_invalid ''attempts'' ''evidence_root_mismatch''),
           reject_if (at_state a \<noteq> state_of_outcome (em_outcome m))
             (run_invalid ''attempts'' ''evidence_state_mismatch'')])"

section \<open>State pointers\<close>

definition stop_binding_checks ::
  "run \<Rightarrow> attempt \<Rightarrow> trusted_cancellation_stop \<Rightarrow> cancellation_intent \<Rightarrow> domain_error option list" where
  "stop_binding_checks r latest stop ci =
     (case at_evidence latest of
        None \<Rightarrow> [Some (run_invalid ''cancellation_stop'' ''attempt_evidence_mismatch'')]
      | Some m \<Rightarrow>
          [reject_if
             (at_state latest \<noteq> AttemptCancelled \<or> em_outcome m \<noteq> OutcomeCancelled \<or>
              em_cancellation_stop m \<noteq> Some stop)
             (run_invalid ''cancellation_stop'' ''attempt_evidence_mismatch''),
           reject_if
             (cs_run_id stop \<noteq> run_id r \<or> cs_attempt_id stop \<noteq> at_id latest \<or>
              cs_fence stop \<noteq> at_fence latest \<or> cs_fence stop \<noteq> run_current_fence r \<or>
              cs_worker stop \<noteq> at_worker latest)
             (run_invalid ''cancellation_stop'' ''binding_mismatch''),
           reject_if_result
             (map_result (\<lambda>d. cs_cancellation_intent_digest stop \<noteq> d) (cancellation_intent_digest ci))
             (run_invalid ''cancellation_stop'' ''binding_mismatch''),
           reject_if (stop_floor stop < instant (ci_recorded_at ci))
             (run_invalid ''cancellation_stop'' ''binding_mismatch''),
           reject_if (rebuild_evidence latest m (Some stop) \<noteq> Inr m)
             (run_invalid ''cancellation_stop'' ''evidence_root_mismatch'')])"

definition cancelled_state_checks :: "run \<Rightarrow> domain_error option list" where
  "cancelled_state_checks r =
     [reject_if (run_assignment r \<noteq> None)
        (run_invalid ''current_assignment_id'' ''must_be_clear_for_cancelled''),
      reject_if (run_cancel_intent r = None) (run_invalid ''cancel_intent'' ''required_for_cancelled'')] @
     (case (last_opt (run_attempts r), run_pending_retry_intent r) of
        (Some latest, None) \<Rightarrow>
          (case (run_cancellation_stop r, run_cancel_intent r) of
             (Some stop, Some ci) \<Rightarrow> stop_binding_checks r latest stop ci
           | _ \<Rightarrow> [Some (run_invalid ''cancellation_stop'' ''required_for_postcommit_cancelled'')])
      | _ \<Rightarrow>
          [reject_if (run_cancellation_stop r \<noteq> None)
             (run_invalid ''cancellation_stop'' ''forbidden_without_cancelled_attempt'')])"

definition assigned_state_checks :: "run \<Rightarrow> domain_error option list" where
  "assigned_state_checks r =
     (case run_assignment r of
        None \<Rightarrow> [Some (run_invalid ''current_assignment_id'' ''active_assignment_required'')]
      | Some current \<Rightarrow>
          [reject_if (as_state current \<notin> {AssignmentOffered, AssignmentClaimed})
             (run_invalid ''current_assignment_id'' ''active_assignment_required'')] @
          (if run_attempts r \<noteq> [] then
             (case run_pending_retry_intent r of
                None \<Rightarrow> [Some (run_invalid ''pending_retry_intent_id'' ''required_for_retry_assignment'')]
              | Some pending \<Rightarrow>
                  [reject_if (as_retry_intent_id current \<noteq> Some (ri_id pending))
                     (run_invalid ''current_assignment_id'' ''retry_intent_mismatch'')])
           else []))"

definition phase_checks :: "run \<Rightarrow> domain_error option list" where
  "phase_checks r =
     (case run_state r of
        RunPlanned \<Rightarrow>
          [reject_if (run_assignments r \<noteq> [] \<or> run_attempts r \<noteq> [] \<or> run_retry_intents r \<noteq> [])
             (run_invalid ''state'' ''planned_has_history'')]
      | RunQueued \<Rightarrow>
          [reject_if (run_assignment r \<noteq> None)
             (run_invalid ''current_assignment_id'' ''must_be_clear_for_queued''),
           reject_if (run_pending_retry_intent r \<noteq> None)
             (run_invalid ''pending_retry_intent_id'' ''must_be_clear_for_queued''),
           reject_if (run_attempts r \<noteq> [] \<or> run_retry_intents r \<noteq> [])
             (run_invalid ''state'' ''queued_has_attempt_history'')]
      | RunRetryQueued \<Rightarrow>
          [reject_if (run_assignment r \<noteq> None)
             (run_invalid ''current_assignment_id'' ''must_be_clear_for_retry_queued''),
           reject_if (run_pending_retry_intent r = None)
             (run_invalid ''pending_retry_intent_id'' ''required_for_retry_queued'')]
      | RunAssigned \<Rightarrow> assigned_state_checks r
      | RunCancelled \<Rightarrow> cancelled_state_checks r
      | RunRunning \<Rightarrow>
          [reject_if
             (case run_assignment r of None \<Rightarrow> True | Some c \<Rightarrow> as_state c \<noteq> AssignmentCommitted)
             (run_invalid ''current_assignment_id'' ''committed_assignment_required''),
           reject_if (run_pending_retry_intent r \<noteq> None)
             (run_invalid ''pending_retry_intent_id'' ''must_be_consumed_for_running'')])"

definition has_cancelled_outcome :: "attempt \<Rightarrow> bool" where
  "has_cancelled_outcome a \<longleftrightarrow>
     at_state a = AttemptCancelled \<or>
     (case at_evidence a of None \<Rightarrow> False | Some m \<Rightarrow> em_outcome m = OutcomeCancelled)"

definition validate_state_pointers :: "run \<Rightarrow> domain_error option list" where
  "validate_state_pointers r =
     phase_checks r @
     concat (map evidence_snapshot_checks (run_attempts r)) @
     [reject_if
        ((case last_opt (run_attempts r) of None \<Rightarrow> False | Some a \<Rightarrow> has_cancelled_outcome a) \<and>
         \<not> (run_state r = RunCancelled \<and> run_pending_retry_intent r = None \<and>
            run_cancellation_stop r \<noteq> None))
        (run_invalid ''attempts'' ''cancelled_attempt_requires_converged_run''),
      reject_if (run_state r \<noteq> RunCancelled \<and> run_cancellation_stop r \<noteq> None)
        (run_invalid ''cancellation_stop'' ''only_allowed_for_cancelled''),
      reject_if (run_cancel_intent r \<noteq> None \<and> run_state r \<notin> {RunRunning, RunCancelled})
        (run_invalid ''cancel_intent'' ''not_allowed_for_state'')]"

section \<open>Epoch tails and intent consumption\<close>

text \<open>
  Position of the first assignment with a property, and of the last one. The normalised history
  has already been checked, so the intent and the committed assignment exist.
\<close>

definition positions :: "('a \<Rightarrow> bool) \<Rightarrow> 'a list \<Rightarrow> nat list" where
  "positions P xs = map fst (filter (\<lambda>ix. P (snd ix)) (enumerate 0 xs))"

definition epoch_intent_id :: "run \<Rightarrow> nat \<Rightarrow> string option" where
  "epoch_intent_id r attempt_index =
     (if attempt_index = 0 then None
      else if attempt_index - 1 < length (run_retry_intents r)
      then Some (ri_id (run_retry_intents r ! (attempt_index - 1))) else None)"

definition epoch_tail_checks :: "run \<Rightarrow> nat \<times> attempt \<Rightarrow> domain_error option list" where
  "epoch_tail_checks r ia =
     (let group = positions (\<lambda>a. as_retry_intent_id a = epoch_intent_id r (fst ia)) (run_assignments r);
          committed = positions (\<lambda>a. as_id a = at_assignment_id (snd ia)) (run_assignments r)
      in [reject_if (group = [] \<or> last_opt group \<noteq> (case committed of [] \<Rightarrow> None | p # _ \<Rightarrow> Some p))
            (run_invalid ''assignments'' ''committed_assignment_not_epoch_tail'')])"

definition validate_assignment_epoch_tails :: "run \<Rightarrow> domain_error option list" where
  "validate_assignment_epoch_tails r =
     concat (map (epoch_tail_checks r) (enumerate 0 (run_attempts r)))"

definition consumed_intent_ids :: "attempt list \<Rightarrow> string list" where
  "consumed_intent_ids as =
     concat (map (\<lambda>a. case at_retry_provenance a of None \<Rightarrow> [] | Some p \<Rightarrow> [rv_retry_intent_id p]) as)"

definition validate_retry_intent_consumption :: "run \<Rightarrow> domain_error option list" where
  "validate_retry_intent_consumption r =
     [reject_if
        (map ri_id (run_retry_intents r) \<noteq>
         consumed_intent_ids (run_attempts r) @
           (case run_pending_retry_intent_id r of None \<Rightarrow> [] | Some i \<Rightarrow> [i]))
        (run_invalid ''retry_intents'' ''order_mismatch'')]"

section \<open>The validator\<close>

definition run_field_checks :: "run \<Rightarrow> domain_error option list" where
  "run_field_checks r =
     [reject_if (blank (run_id r)) (run_invalid ''id'' ''invalid''),
      reject_if (run_version r < 0) (run_invalid ''version'' ''invalid''),
      reject_if (run_current_fence r < 0) (run_invalid ''current_fence'' ''invalid''),
      reject_if (case run_current_assignment_id r of None \<Rightarrow> False | Some i \<Rightarrow> blank i)
        (run_invalid ''current_assignment_id'' ''invalid''),
      reject_if (case run_pending_retry_intent_id r of None \<Rightarrow> False | Some i \<Rightarrow> blank i)
        (run_invalid ''pending_retry_intent_id'' ''invalid''),
      reject_if (case run_cancel_intent r of None \<Rightarrow> False | Some c \<Rightarrow> ci_run_id c \<noteq> run_id r)
        (run_invalid ''cancel_intent'' ''run_mismatch'')]"

definition run_checks :: "run \<Rightarrow> domain_error option list" where
  "run_checks r =
     run_field_checks r @
     validate_normalized_history r @
     validate_cancel_intent_causality r @
     validate_cancellation_history r @
     validate_state_pointers r @
     validate_assignment_epoch_tails r @
     validate_retry_intent_consumption r"

definition check_run :: "run \<Rightarrow> domain_error option" where
  "check_run r = first_some (run_checks r)"

definition mk_run :: "run \<Rightarrow> run result" where
  "mk_run r = raise_or (check_run r) r"

lemma mk_run_Inr [result_simps]: "mk_run r = Inr s \<longleftrightarrow> check_run r = None \<and> s = r"
  by (simp add: mk_run_def result_simps)

definition run_create :: "string \<Rightarrow> run result" where
  "run_create rid = mk_run
     \<lparr>run_id = rid, run_state = RunPlanned, run_version = 0, run_current_fence = 0,
      run_assignments = [], run_current_assignment_id = None, run_attempts = [],
      run_retry_intents = [], run_pending_retry_intent_id = None, run_cancel_intent = None,
      run_cancellation_stop = None\<rparr>"

end
