(* ===== verification/Run_Commands.thy ===== *)
theory Run_Commands
  imports Run_Model
begin

text \<open>
  The public methods of the Run aggregate (\<open>src/qarunner/domain/run.py\<close>), one definition per
  method, with the guards and early returns in source order. \<open>replace(self, ...)\<close> constructs and
  therefore re-validates the new Run: it is \<open>mk_run\<close> of the updated record.
\<close>

section \<open>Shared pieces\<close>

abbreviation run_expect :: "run \<Rightarrow> int \<Rightarrow> unit result" where
  "run_expect r expected_version \<equiv>
     ensure_expected_version ''run'' (run_id r) (run_version r) expected_version"

abbreviation run_invalid_transition :: "run \<Rightarrow> run_state \<Rightarrow> int \<Rightarrow> domain_error" where
  "run_invalid_transition r target expected_version \<equiv>
     InvalidTransition ''run'' (run_id r) (run_state_value (run_state r))
       (run_state_value target) (run_version r) expected_version"

abbreviation assignment_conflict :: "run \<Rightarrow> string \<Rightarrow> string \<Rightarrow> domain_error" where
  "assignment_conflict r assignment_id reason \<equiv> AssignmentConflict (run_id r) assignment_id reason"

abbreviation retry_not_allowed :: "run \<Rightarrow> string \<Rightarrow> string \<Rightarrow> string \<Rightarrow> domain_error" where
  "retry_not_allowed r attempt_id adjudication_id reason \<equiv>
     RetryNotAllowed (run_id r) attempt_id adjudication_id reason"

abbreviation intent_adjudication_id :: "retry_intent \<Rightarrow> string" where
  "intent_adjudication_id i \<equiv> authority_adjudication_id (ri_authority i)"

definition run_require_utc :: "string \<Rightarrow> datetime \<Rightarrow> unit result" where
  "run_require_utc field t = raise_or (require_utc ''run'' field t) ()"

lemma run_require_utc_Inr [result_simps]: "run_require_utc f t = Inr u \<longleftrightarrow> is_utc t"
  by (simp add: run_require_utc_def result_simps)

definition replace_current_assignment :: "run \<Rightarrow> assignment \<Rightarrow> assignment list result" where
  "replace_current_assignment r updated =
     (if run_current_assignment_id r \<noteq> Some (as_id updated)
      then Inl (assignment_conflict r (as_id updated) ''current_assignment_missing'')
      else
        let replaced = map (\<lambda>a. if Some (as_id a) = run_current_assignment_id r then updated else a)
              (run_assignments r)
        in if replaced = run_assignments r
           then Inl (assignment_conflict r (as_id updated) ''current_assignment_missing'')
           else Inr replaced)"

definition current_attempt :: "run \<Rightarrow> string \<Rightarrow> attempt result" where
  "current_attempt r attempt_id =
     (case last_opt (run_attempts r) of
        None \<Rightarrow> Inl (AttemptUnknownReviewRequired (run_id r) attempt_id (run_current_fence r)
                  ''source_attempt_not_current'')
      | Some a \<Rightarrow>
          (if at_id a \<noteq> attempt_id \<or> at_run_id a \<noteq> run_id r
           then Inl (AttemptUnknownReviewRequired (run_id r) attempt_id (run_current_fence r)
                  ''source_attempt_not_current'')
           else if at_fence a \<noteq> run_current_fence r
           then Inl (StaleFence (at_id a) (run_current_fence r) (at_fence a))
           else Inr a))"

definition ensure_retry_intent_authoritative :: "run \<Rightarrow> retry_intent \<Rightarrow> attempt \<Rightarrow> unit result" where
  "ensure_retry_intent_authoritative r i source =
     (case ri_authority i of
        PolicyAuthority pa \<Rightarrow>
          (if at_state source \<noteq> retry_source_state (pr_source_outcome pa) \<or>
              ri_run_id i \<noteq> run_id r \<or> ri_source_attempt_no i \<noteq> at_attempt_no source \<or>
              ri_source_fence i \<noteq> at_fence source \<or>
              ri_execution_spec_digest i \<noteq> at_spec_digest source
           then Inl (retry_not_allowed r (at_id source) '''' ''retry_intent_mismatch'')
           else Inr ())
      | UnknownAuthority ua \<Rightarrow>
          (if at_state source \<noteq> AttemptUnknown
           then Inl (retry_not_allowed r (at_id source) (intent_adjudication_id i)
                  ''source_attempt_not_unknown'')
           else case last_opt (at_adjudications source) of
             None \<Rightarrow> Inl (retry_not_allowed r (at_id source) (intent_adjudication_id i)
                       ''adjudication_missing'')
           | Some adj \<Rightarrow>
               (if ua_id adj \<noteq> intent_adjudication_id i
                then Inl (retry_not_allowed r (at_id source) (intent_adjudication_id i)
                       ''adjudication_not_current'')
                else if \<not> permits_retry (ua_decision adj)
                then Inl (retry_not_allowed r (at_id source) (ua_id adj)
                       ''decision_does_not_permit_retry'')
                else bind_result (unknown_adjudication_digest adj) (\<lambda>d.
                  if ri_run_id i \<noteq> run_id r \<or> ri_source_attempt_no i \<noteq> at_attempt_no source \<or>
                     ri_source_fence i \<noteq> at_fence source \<or>
                     authority_adjudication_digest (ri_authority i) \<noteq> Some d \<or>
                     authority_decision (ri_authority i) \<noteq> Some (ua_decision adj) \<or>
                     ri_execution_spec_digest i \<noteq> at_spec_digest source \<or>
                     instant (ri_created_at i) < instant (ua_occurred_at adj)
                  then Inl (retry_not_allowed r (at_id source) (ua_id adj) ''retry_intent_mismatch'')
                  else Inr ()))))"

definition ensure_policy_retry_intent_authoritative ::
  "run \<Rightarrow> retry_intent \<Rightarrow> run_retry_decision \<Rightarrow> attempt \<Rightarrow> unit result" where
  "ensure_policy_retry_intent_authoritative r i decision source =
     (case ri_authority i of
        UnknownAuthority ua \<Rightarrow>
          Inl (retry_not_allowed r (at_id source) '''' ''policy_authority_required'')
      | PolicyAuthority au \<Rightarrow>
          bind_result (retry_intent_digest i) (\<lambda>d.
          let fact = rd_source decision in
          if rd_decision decision \<noteq> DecisionRetry \<or>
             rd_retry_intent_digest decision \<noteq> Some d \<or>
             at_state source \<noteq> retry_source_state (pr_source_outcome au) \<or>
             sf_run_id fact \<noteq> run_id r \<or> sf_run_version fact \<noteq> run_version r \<or>
             sf_attempt_id fact \<noteq> at_id source \<or> sf_attempt_no fact \<noteq> at_attempt_no source \<or>
             sf_attempt_fence fact \<noteq> at_fence source \<or>
             sf_outcome fact \<noteq> pr_source_outcome au \<or>
             sf_item_resolution_set_digest fact \<noteq> pr_item_resolution_set_digest au \<or>
             sf_source_item_set_digest fact \<noteq> pr_source_item_set_digest au \<or>
             sf_target_item_set_digest fact \<noteq> pr_target_item_set_digest au \<or>
             rd_decision_source_kind decision \<noteq> pr_decision_source_kind au \<or>
             rd_policy_digest decision \<noteq> Some (pr_policy_digest au) \<or>
             rd_authority_schema decision \<noteq> Some (pr_authority_schema au) \<or>
             rd_authority_id decision \<noteq> Some (pr_authority_id au) \<or>
             rd_authority_version decision \<noteq> Some (pr_authority_version au) \<or>
             rd_authority_digest decision \<noteq> Some (pr_authority_digest au) \<or>
             ri_run_id i \<noteq> run_id r \<or> ri_source_attempt_no i \<noteq> at_attempt_no source \<or>
             ri_source_fence i \<noteq> at_fence source \<or>
             ri_execution_spec_digest i \<noteq> at_spec_digest source
          then Inl (retry_not_allowed r (at_id source) '''' ''retry_intent_mismatch'')
          else Inr ()))"

definition start_commit_digest :: "string \<Rightarrow> worker_ref \<Rightarrow> digest \<Rightarrow> digest result" where
  "start_commit_digest assignment_id worker spec_digest =
     canonical_digest ''qep.start-commit.v1''
       (JObj [(''assignment_id'', JStr assignment_id),
              (''worker_id'', JStr (wr_worker_id worker)),
              (''worker_generation'', JInt (wr_generation worker)),
              (''spec_digest'', JStr (digest_value spec_digest))])"

section \<open>Planning and cancellation\<close>

definition run_transition :: "run_state \<Rightarrow> int \<Rightarrow> run \<Rightarrow> run result" where
  "run_transition target expected_version r =
     bind_result (run_expect r expected_version) (\<lambda>_.
     if target \<notin> set (run_transitions (run_state r))
     then Inl (run_invalid_transition r target expected_version)
     else mk_run (r\<lparr>run_state := target, run_version := run_version r + 1\<rparr>))"

definition cancel_time_check :: "run \<Rightarrow> datetime \<Rightarrow> domain_error option" where
  "cancel_time_check r observed_at = first_some
     [reject_if
        (run_state r = RunRunning \<and>
         is_before observed_at
           (case run_assignment r of None \<Rightarrow> None | Some a \<Rightarrow> as_committed_at a))
        (run_invalid ''observed_at'' ''before_current_attempt_commit''),
      reject_if (is_before observed_at (map_option cl_recorded_at (latest_closure r)))
        (run_invalid ''observed_at'' ''before_latest_assignment_closure''),
      reject_if (is_before observed_at (map_option ri_created_at (run_pending_retry_intent r)))
        (run_invalid ''observed_at'' ''before_pending_retry_intent'')]"

definition cancel_closure :: "assignment \<Rightarrow> cancellation_intent \<Rightarrow> assignment_closure result" where
  "cancel_closure current intent =
     (let expired = instant (as_expires_at current) \<le> instant (ci_recorded_at intent) in
      bind_result
        (if expired then Inr None else map_result Some (cancellation_intent_digest intent)) (\<lambda>d.
      mk_assignment_closure
        \<lparr>cl_assignment_id = as_id current, cl_idempotency_key = ci_idempotency_key intent,
         cl_kind = (if expired then ClosureExpiredPrestart else ClosureCancelledPrestart),
         cl_effective_at = (if expired then as_expires_at current else ci_recorded_at intent),
         cl_recorded_at = ci_recorded_at intent, cl_worker = None,
         cl_cancellation_intent_digest = d\<rparr>))"

definition run_cancel_fresh :: "cancellation_intent \<Rightarrow> int \<Rightarrow> run \<Rightarrow> run result" where
  "run_cancel_fresh intent expected_version r =
     (if run_state r \<notin> {RunQueued, RunAssigned, RunRunning, RunRetryQueued}
      then Inl (run_invalid_transition r RunCancelled expected_version)
      else bind_result (raise_or (cancel_time_check r (ci_recorded_at intent)) ()) (\<lambda>_.
      bind_result (run_expect r expected_version) (\<lambda>_.
      if run_state r = RunAssigned then
        (case run_assignment r of
           None \<Rightarrow> Inl (assignment_conflict r '''' ''current_assignment_missing'')
         | Some current \<Rightarrow>
             bind_result (cancel_closure current intent) (\<lambda>closure.
             bind_result (assignment_close_prestart closure current) (\<lambda>closed.
             bind_result (replace_current_assignment r closed) (\<lambda>assignments.
             mk_run (r\<lparr>run_state := RunCancelled, run_version := run_version r + 1,
                       run_assignments := assignments, run_current_assignment_id := None,
                       run_cancel_intent := Some intent\<rparr>)))))
      else mk_run (r\<lparr>run_state := (if run_state r \<in> {RunQueued, RunRetryQueued}
                                  then RunCancelled else RunRunning),
                     run_version := run_version r + 1, run_cancel_intent := Some intent\<rparr>))))"

definition run_request_cancel ::
  "string \<Rightarrow> cancellation_source \<Rightarrow> string \<Rightarrow> string \<Rightarrow> datetime \<Rightarrow> int \<Rightarrow> run \<Rightarrow> run result" where
  "run_request_cancel cancel_key source actor_id reason observed_at expected_version r =
     bind_result (mk_cancellation_intent
       \<lparr>ci_run_id = run_id r, ci_idempotency_key = cancel_key, ci_source = source,
        ci_actor_id = actor_id, ci_reason = reason, ci_recorded_at = observed_at\<rparr>) (\<lambda>intent.
     case run_cancel_intent r of
       Some stored \<Rightarrow>
         (if ci_idempotency_key stored = cancel_key then
            bind_result (cancellation_request_digest stored) (\<lambda>sd.
            bind_result (cancellation_request_digest intent) (\<lambda>rd.
            if sd \<noteq> rd
            then Inl (IdempotencyConflict (''run:'' @ run_id r @ '':cancel'') cancel_key sd rd)
            else Inr r))
          else Inl (CancellationConflict (run_id r) (ci_idempotency_key stored) cancel_key))
     | None \<Rightarrow> run_cancel_fresh intent expected_version r)"

section \<open>Assignments\<close>

definition pending_intent_id :: "run \<Rightarrow> string option" where
  "pending_intent_id r = map_option ri_id (run_pending_retry_intent r)"

definition offer_guards :: "run \<Rightarrow> string \<Rightarrow> digest \<Rightarrow> domain_error option list" where
  "offer_guards r assignment_id spec_digest =
     [reject_if (run_state r \<notin> {RunQueued, RunRetryQueued} \<or> run_assignment r \<noteq> None)
        (assignment_conflict r assignment_id ''run_not_queued''),
      reject_if (assignment_id \<in> set (map as_id (run_assignments r)))
        (assignment_conflict r assignment_id ''assignment_id_reused''),
      reject_if
        (run_state r = RunQueued \<and>
         (case run_assignments r of [] \<Rightarrow> False | a # as \<Rightarrow> spec_digest \<noteq> as_spec_digest a))
        (assignment_conflict r assignment_id ''spec_digest_mismatch'')] @
     (case run_pending_retry_intent r of
        None \<Rightarrow>
          [reject_if (run_state r = RunRetryQueued)
             (retry_not_allowed r
               (case last_opt (run_attempts r) of None \<Rightarrow> '''' | Some a \<Rightarrow> at_id a)
               '''' ''retry_intent_not_pending'')]
      | Some i \<Rightarrow>
          [reject_if (run_state r = RunQueued)
             (retry_not_allowed r (ri_source_attempt_id i) (intent_adjudication_id i)
               ''retry_intent_not_pending''),
           reject_if (spec_digest \<noteq> ri_execution_spec_digest i)
             (retry_not_allowed r (ri_source_attempt_id i) (intent_adjudication_id i)
               ''retry_spec_mismatch'')])"

definition run_offer_assignment ::
  "string \<Rightarrow> worker_generation \<Rightarrow> worker_authority \<Rightarrow> digest \<Rightarrow> datetime \<Rightarrow> datetime \<Rightarrow> int \<Rightarrow>
   run \<Rightarrow> run result" where
  "run_offer_assignment assignment_id worker authority spec_digest offered_at expires_at
     expected_version r =
     bind_result (run_expect r expected_version) (\<lambda>_.
     bind_result (raise_or (first_some (offer_guards r assignment_id spec_digest)) ()) (\<lambda>_.
     bind_result (worker_claimable_ref authority worker) (\<lambda>ref.
     bind_result (assignment_offer assignment_id ref spec_digest offered_at expires_at
       (pending_intent_id r)) (\<lambda>a.
     mk_run (r\<lparr>run_state := RunAssigned, run_assignments := run_assignments r @ [a],
               run_current_assignment_id := Some (as_id a),
               run_version := run_version r + 1\<rparr>)))))"

definition run_claim_assignment ::
  "string \<Rightarrow> worker_ref \<Rightarrow> datetime \<Rightarrow> int \<Rightarrow> run \<Rightarrow> run result" where
  "run_claim_assignment assignment_id worker observed_at expected_version r =
     bind_result (run_expect r expected_version) (\<lambda>_.
     bind_result (run_require_utc ''observed_at'' observed_at) (\<lambda>_.
     case run_assignment r of
       None \<Rightarrow> Inl (assignment_conflict r assignment_id ''offer_mismatch'')
     | Some a \<Rightarrow>
         (if run_state r \<noteq> RunAssigned \<or> as_id a \<noteq> assignment_id \<or> as_worker a \<noteq> worker \<or>
             as_state a \<noteq> AssignmentOffered
          then Inl (assignment_conflict r assignment_id ''offer_mismatch'')
          else if \<not> (instant (as_offered_at a) \<le> instant observed_at \<and>
                     instant observed_at < instant (as_expires_at a))
          then Inl (assignment_conflict r assignment_id
                 (if instant (as_expires_at a) \<le> instant observed_at
                  then ''assignment_expired'' else ''assignment_not_effective''))
          else bind_result (assignment_claim observed_at a) (\<lambda>claimed.
               bind_result (replace_current_assignment r claimed) (\<lambda>assignments.
               mk_run (r\<lparr>run_assignments := assignments, run_version := run_version r + 1\<rparr>))))))"

section \<open>The start commit\<close>

record commit_start_result =
  sr_run :: run
  sr_attempt :: attempt
  sr_fence :: int
  sr_replayed :: bool

definition commit_start_replay ::
  "run \<Rightarrow> attempt \<Rightarrow> string \<Rightarrow> digest \<Rightarrow> commit_start_result result" where
  "commit_start_replay r existing start_commit_key received =
     bind_result (start_commit_digest (at_assignment_id existing) (at_worker existing)
       (at_spec_digest existing)) (\<lambda>stored.
     if stored \<noteq> received
     then Inl (IdempotencyConflict (''run:'' @ run_id r @ '':start-commit'') start_commit_key
            stored received)
     else if at_fence existing \<noteq> run_current_fence r
     then Inl (StaleFence (at_id existing) (run_current_fence r) (at_fence existing))
     else if run_state r \<noteq> RunRunning \<or>
             (case run_assignment r of
                None \<Rightarrow> True
              | Some a \<Rightarrow> as_id a \<noteq> at_assignment_id existing \<or> as_state a \<noteq> AssignmentCommitted) \<or>
             map_option at_id (last_opt (run_attempts r)) \<noteq> Some (at_id existing) \<or>
             at_state existing \<notin>
               {AttemptStartCommitted, AttemptProvisioning, AttemptRunning, AttemptUploading}
     then Inl (assignment_conflict r (at_assignment_id existing) ''start_commit_superseded'')
     else Inr \<lparr>sr_run = r, sr_attempt = existing, sr_fence = at_fence existing, sr_replayed = True\<rparr>)"

text \<open>The retry provenance of the new Attempt: none for the first, else the pending intent's.\<close>

definition commit_start_provenance ::
  "run \<Rightarrow> assignment \<Rightarrow> digest \<Rightarrow> retry_provenance option result" where
  "commit_start_provenance r current spec_digest =
     (case last_opt (run_attempts r) of
        Some latest \<Rightarrow>
          (case run_pending_retry_intent r of
             None \<Rightarrow> Inl (retry_not_allowed r (at_id latest) '''' ''retry_intent_not_pending'')
           | Some pending \<Rightarrow>
               (if as_retry_intent_id current \<noteq> Some (ri_id pending)
                then Inl (retry_not_allowed r (at_id latest) (intent_adjudication_id pending)
                       ''retry_intent_not_pending'')
                else if spec_digest \<noteq> ri_execution_spec_digest pending \<or>
                        as_spec_digest current \<noteq> ri_execution_spec_digest pending
                then Inl (retry_not_allowed r (ri_source_attempt_id pending)
                       (intent_adjudication_id pending) ''retry_spec_mismatch'')
                else bind_result (current_attempt r (ri_source_attempt_id pending)) (\<lambda>source.
                     bind_result (ensure_retry_intent_authoritative r pending source) (\<lambda>_.
                     map_result Some (retry_provenance_from_intent pending)))))
      | None \<Rightarrow>
          (case run_pending_retry_intent r of
             Some pending \<Rightarrow> Inl (retry_not_allowed r (ri_source_attempt_id pending)
                               (intent_adjudication_id pending) ''retry_intent_not_pending'')
           | None \<Rightarrow>
               (if as_retry_intent_id current \<noteq> None
                then Inl (retry_not_allowed r '''' '''' ''retry_intent_not_pending'')
                else Inr None)))"

text \<open>
  A CLAIMED assignment always has a claim time (its validator requires it), so the comparison with
  an absent one cannot be reached; it is listed with the validator's error.
\<close>

definition commit_start_fresh ::
  "string \<Rightarrow> worker_ref \<Rightarrow> string \<Rightarrow> digest \<Rightarrow> string \<Rightarrow> datetime \<Rightarrow> int \<Rightarrow> run \<Rightarrow>
   commit_start_result result" where
  "commit_start_fresh assignment_id worker start_commit_key spec_digest new_attempt_id observed_at
     expected_version r =
     bind_result (run_expect r expected_version) (\<lambda>_.
     bind_result (run_require_utc ''observed_at'' observed_at) (\<lambda>_.
     case run_assignment r of
       None \<Rightarrow> Inl (assignment_conflict r assignment_id ''assignment_not_claimed'')
     | Some current \<Rightarrow>
         (if run_state r \<noteq> RunAssigned \<or> as_id current \<noteq> assignment_id \<or>
             as_worker current \<noteq> worker \<or> as_spec_digest current \<noteq> spec_digest \<or>
             as_state current \<noteq> AssignmentClaimed
          then Inl (assignment_conflict r assignment_id ''assignment_not_claimed'')
          else case as_claimed_at current of
            None \<Rightarrow> Inl (assignment_invalid ''claimed_at'' ''required_for_state'')
          | Some claimed_at \<Rightarrow>
              (if \<not> (instant claimed_at \<le> instant observed_at \<and>
                      instant observed_at < instant (as_expires_at current))
               then Inl (assignment_conflict r assignment_id
                      (if instant (as_expires_at current) \<le> instant observed_at
                       then ''assignment_expired'' else ''commit_before_claim''))
               else if new_attempt_id \<in> set (map at_id (run_attempts r))
               then Inl (AttemptConflict (run_id r) new_attempt_id ''attempt_id_reused'')
               else
                 bind_result (commit_start_provenance r current spec_digest) (\<lambda>provenance.
                 let fence = run_current_fence r + 1 in
                 bind_result (attempt_create new_attempt_id (run_id r)
                   (int (length (run_attempts r)) + 1) fence assignment_id worker spec_digest
                   start_commit_key provenance) (\<lambda>attempt.
                 bind_result (assignment_commit observed_at current) (\<lambda>committed.
                 bind_result (replace_current_assignment r committed) (\<lambda>assignments.
                 map_result
                   (\<lambda>run. \<lparr>sr_run = run, sr_attempt = attempt, sr_fence = fence, sr_replayed = False\<rparr>)
                   (mk_run (r\<lparr>run_state := RunRunning, run_version := run_version r + 1,
                       run_current_fence := fence, run_assignments := assignments,
                       run_attempts := run_attempts r @ [attempt],
                       run_pending_retry_intent_id := None\<rparr>))))))))))"

definition run_commit_start ::
  "string \<Rightarrow> worker_ref \<Rightarrow> string \<Rightarrow> digest \<Rightarrow> string \<Rightarrow> datetime \<Rightarrow> int \<Rightarrow> run \<Rightarrow>
   commit_start_result result" where
  "run_commit_start assignment_id worker start_commit_key spec_digest new_attempt_id observed_at
     expected_version r =
     bind_result (start_commit_digest assignment_id worker spec_digest) (\<lambda>received.
     case find (\<lambda>a. at_start_commit_key a = start_commit_key) (run_attempts r) of
       Some existing \<Rightarrow> commit_start_replay r existing start_commit_key received
     | None \<Rightarrow> commit_start_fresh assignment_id worker start_commit_key spec_digest new_attempt_id
                observed_at expected_version r)"

section \<open>Closing a reservation before the commit\<close>

definition close_guards :: "run \<Rightarrow> assignment \<Rightarrow> assignment_closure \<Rightarrow> domain_error option list" where
  "close_guards r current closure =
     (let conflict = assignment_conflict r (cl_assignment_id closure);
          at = instant (cl_recorded_at closure)
      in
      if cl_kind closure = ClosureExpiredPrestart then
        [reject_if (at < instant (as_expires_at current)) (conflict ''assignment_not_expired'')]
      else
        [reject_if (cl_worker closure \<noteq> Some (as_worker current)) (conflict ''worker_mismatch''),
         reject_if
           (at < instant (case as_claimed_at current of None \<Rightarrow> as_offered_at current | Some t \<Rightarrow> t))
           (conflict (if as_claimed_at current \<noteq> None then ''release_before_claim''
                      else ''assignment_not_effective'')),
         reject_if (instant (as_expires_at current) \<le> at) (conflict ''assignment_expired'')])"

definition close_precommit_fresh :: "assignment_closure \<Rightarrow> int \<Rightarrow> run \<Rightarrow> run result" where
  "close_precommit_fresh closure expected_version r =
     bind_result (run_expect r expected_version) (\<lambda>_.
     case run_assignment r of
       None \<Rightarrow> Inl (assignment_conflict r (cl_assignment_id closure) ''assignment_not_precommit'')
     | Some current \<Rightarrow>
         (if run_state r \<noteq> RunAssigned \<or> as_id current \<noteq> cl_assignment_id closure \<or>
             as_state current \<notin> {AssignmentOffered, AssignmentClaimed}
          then Inl (assignment_conflict r (cl_assignment_id closure) ''assignment_not_precommit'')
          else
            bind_result (raise_or (first_some (close_guards r current closure)) ()) (\<lambda>_.
            bind_result (assignment_close_prestart closure current) (\<lambda>closed.
            bind_result (replace_current_assignment r closed) (\<lambda>assignments.
            mk_run (r\<lparr>run_state := (if as_retry_intent_id current \<noteq> None then RunRetryQueued
                                   else RunQueued),
                      run_assignments := assignments, run_current_assignment_id := None,
                      run_version := run_version r + 1\<rparr>))))))"

definition close_precommit_assignment :: "assignment_closure \<Rightarrow> int \<Rightarrow> run \<Rightarrow> run result" where
  "close_precommit_assignment closure expected_version r =
     (case (case assignment_by_id (cl_assignment_id closure) (run_assignments r) of
              None \<Rightarrow> None | Some existing \<Rightarrow> as_closure existing) of
        Some stored \<Rightarrow>
          (if cl_idempotency_key stored = cl_idempotency_key closure then
             bind_result (closure_request_digest stored) (\<lambda>sd.
             bind_result (closure_request_digest closure) (\<lambda>rd.
             if sd \<noteq> rd
             then Inl (IdempotencyConflict
                    (''run:'' @ run_id r @ '':assignment:'' @ cl_assignment_id closure @
                     '':precommit-closure'')
                    (cl_idempotency_key closure) sd rd)
             else Inr r))
           else Inl (assignment_conflict r (cl_assignment_id closure) ''assignment_already_closed''))
      | None \<Rightarrow> close_precommit_fresh closure expected_version r)"

definition run_expire_precommit_assignment ::
  "string \<Rightarrow> string \<Rightarrow> datetime \<Rightarrow> int \<Rightarrow> run \<Rightarrow> run result" where
  "run_expire_precommit_assignment assignment_id expiry_key observed_at expected_version r =
     bind_result (run_require_utc ''observed_at'' observed_at) (\<lambda>_.
     bind_result (mk_assignment_closure
       \<lparr>cl_assignment_id = assignment_id, cl_idempotency_key = expiry_key,
        cl_kind = ClosureExpiredPrestart,
        cl_effective_at =
          (case assignment_by_id assignment_id (run_assignments r) of
             None \<Rightarrow> observed_at
           | Some existing \<Rightarrow>
               (if instant (as_expires_at existing) < instant observed_at
                then as_expires_at existing else observed_at)),
        cl_recorded_at = observed_at, cl_worker = None,
        cl_cancellation_intent_digest = None\<rparr>) (\<lambda>closure.
     close_precommit_assignment closure expected_version r))"

definition run_release_precommit_assignment ::
  "string \<Rightarrow> worker_ref \<Rightarrow> string \<Rightarrow> datetime \<Rightarrow> int \<Rightarrow> run \<Rightarrow> run result" where
  "run_release_precommit_assignment assignment_id worker release_key observed_at expected_version r =
     bind_result (run_require_utc ''observed_at'' observed_at) (\<lambda>_.
     bind_result (mk_assignment_closure
       \<lparr>cl_assignment_id = assignment_id, cl_idempotency_key = release_key,
        cl_kind = ClosureReleasedPrestart, cl_effective_at = observed_at,
        cl_recorded_at = observed_at, cl_worker = Some worker,
        cl_cancellation_intent_digest = None\<rparr>) (\<lambda>closure.
     close_precommit_assignment closure expected_version r))"

section \<open>The current Attempt\<close>

text \<open>
  Every method that advances the latest Attempt replaces the tail of \<open>attempts\<close>. \<open>x is current\<close> in
  the source is equality here: an Attempt operation that changes anything bumps its version.
\<close>

definition replace_latest_attempt :: "run \<Rightarrow> attempt \<Rightarrow> run result" where
  "replace_latest_attempt r updated =
     mk_run (r\<lparr>run_attempts := butlast (run_attempts r) @ [updated],
               run_version := run_version r + 1\<rparr>)"

definition run_mark_current_attempt_unknown ::
  "string \<Rightarrow> unknown_observation \<Rightarrow> int \<Rightarrow> int \<Rightarrow> run \<Rightarrow> run result" where
  "run_mark_current_attempt_unknown attempt_id observation expected_version
     expected_attempt_version r =
     bind_result (current_attempt r attempt_id) (\<lambda>current.
     let authority = \<lparr>aa_current_fence = run_current_fence r, aa_current_worker = at_worker current\<rparr> in
     bind_result (raise_or (check_attempt_authority authority) authority) (\<lambda>authority.
     bind_result (attempt_mark_unknown observation authority expected_attempt_version current)
       (\<lambda>unknown.
     if unknown = current then Inr r
     else bind_result (run_expect r expected_version) (\<lambda>_. replace_latest_attempt r unknown))))"

definition run_transition_current_attempt ::
  "string \<Rightarrow> attempt_state \<Rightarrow> int \<Rightarrow> int \<Rightarrow> run \<Rightarrow> run result" where
  "run_transition_current_attempt attempt_id target expected_version expected_attempt_version r =
     bind_result (current_attempt r attempt_id) (\<lambda>current.
     bind_result (attempt_transition target expected_attempt_version current) (\<lambda>updated.
     bind_result (run_expect r expected_version) (\<lambda>_. replace_latest_attempt r updated)))"

definition run_record_current_attempt_event ::
  "string \<Rightarrow> attempt_event \<Rightarrow> attempt_authority \<Rightarrow> worker_ref \<Rightarrow> int \<Rightarrow> int \<Rightarrow> int \<Rightarrow> run \<Rightarrow> run result" where
  "run_record_current_attempt_event attempt_id event authority worker fence expected_version
     expected_attempt_version r =
     bind_result (current_attempt r attempt_id) (\<lambda>current.
     bind_result (attempt_record_event event authority worker fence expected_attempt_version current)
       (\<lambda>updated.
     if updated = current then Inr r
     else bind_result (run_expect r expected_version) (\<lambda>_. replace_latest_attempt r updated)))"

text \<open>The two result classes of the finalize methods have the same four fields.\<close>

record run_finalize_result =
  fr_run :: run
  fr_attempt :: attempt
  fr_evidence :: evidence_manifest
  fr_replayed :: bool

definition run_finalize_current_attempt_evidence ::
  "string \<Rightarrow> evidence_proposal \<Rightarrow> trusted_exit_facts option \<Rightarrow> validated_case_summary option \<Rightarrow>
   verified_artifact list \<Rightarrow> evidence_requirements \<Rightarrow> attempt_authority \<Rightarrow> worker_ref \<Rightarrow> int \<Rightarrow>
   int \<Rightarrow> int \<Rightarrow> run \<Rightarrow> run_finalize_result result" where
  "run_finalize_current_attempt_evidence attempt_id proposal trusted_exit case_summary artifacts
     requirements authority worker fence expected_version expected_attempt_version r =
     bind_result (current_attempt r attempt_id) (\<lambda>current.
     bind_result (attempt_finalize_evidence proposal trusted_exit case_summary artifacts requirements
       authority worker fence expected_attempt_version None current) (\<lambda>finalized.
     if fe_replayed finalized
     then Inr \<lparr>fr_run = r, fr_attempt = current, fr_evidence = fe_evidence finalized,
               fr_replayed = True\<rparr>
     else bind_result (run_expect r expected_version) (\<lambda>_.
       map_result
         (\<lambda>updated. \<lparr>fr_run = updated, fr_attempt = fe_attempt finalized,
                     fr_evidence = fe_evidence finalized, fr_replayed = False\<rparr>)
         (replace_latest_attempt r (fe_attempt finalized)))))"

definition run_mark_cancel_stop_unproven ::
  "string \<Rightarrow> string \<Rightarrow> datetime \<Rightarrow> int \<Rightarrow> int \<Rightarrow> run \<Rightarrow> run result" where
  "run_mark_cancel_stop_unproven attempt_id observation_id recorded_at expected_version
     expected_attempt_version r =
     (case run_cancel_intent r of
        None \<Rightarrow> Inl (run_invalid ''cancel_intent'' ''required_for_cancel_convergence'')
      | Some intent \<Rightarrow>
          bind_result (run_require_utc ''recorded_at'' recorded_at) (\<lambda>_.
          if instant recorded_at < instant (ci_recorded_at intent)
          then Inl (run_invalid ''recorded_at'' ''before_cancel_intent'')
          else
            bind_result (cancellation_intent_digest intent) (\<lambda>d.
            bind_result (mk_unknown_observation
              \<lparr>uo_id = observation_id, uo_reason = CancelStopUnproven, uo_source = CancelConvergence,
               uo_review_basis_digest = d, uo_recorded_at = recorded_at\<rparr>) (\<lambda>observation.
            run_mark_current_attempt_unknown attempt_id observation expected_version
              expected_attempt_version r))))"

definition cancelled_finalize_guard ::
  "run \<Rightarrow> trusted_cancellation_stop \<Rightarrow> unit result" where
  "cancelled_finalize_guard r stop =
     (case run_cancel_intent r of
        None \<Rightarrow> Inl (EvidenceNotReady ''cancellation intent is missing'')
      | Some intent \<Rightarrow>
          bind_result (cancellation_intent_digest intent) (\<lambda>d.
          if cs_cancellation_intent_digest stop \<noteq> d
          then Inl (EvidenceNotReady ''cancellation stop proof does not match intent'')
          else if stop_floor stop < instant (ci_recorded_at intent)
          then Inl (EvidenceNotReady ''cancellation stop proof predates the intent'')
          else Inr ()))"

definition run_finalize_cancelled_attempt_evidence ::
  "string \<Rightarrow> evidence_proposal \<Rightarrow> trusted_exit_facts option \<Rightarrow> trusted_cancellation_stop \<Rightarrow>
   validated_case_summary option \<Rightarrow> verified_artifact list \<Rightarrow> evidence_requirements \<Rightarrow>
   attempt_authority \<Rightarrow> worker_ref \<Rightarrow> int \<Rightarrow> int \<Rightarrow> int \<Rightarrow> run \<Rightarrow> run_finalize_result result" where
  "run_finalize_cancelled_attempt_evidence attempt_id proposal trusted_exit stop case_summary
     artifacts requirements authority worker fence expected_version expected_attempt_version r =
     bind_result (cancelled_finalize_guard r stop) (\<lambda>_.
     bind_result (current_attempt r attempt_id) (\<lambda>current.
     bind_result (attempt_finalize_cancellation_evidence proposal trusted_exit case_summary artifacts
       requirements authority worker fence expected_attempt_version stop current) (\<lambda>finalized.
     case run_cancellation_stop r of
       Some stored \<Rightarrow>
         (if run_state r = RunCancelled \<and> stored = stop \<and> fe_replayed finalized
          then Inr \<lparr>fr_run = r, fr_attempt = current, fr_evidence = fe_evidence finalized,
                    fr_replayed = True\<rparr>
          else Inl (EvidenceNotReady ''run cancellation is already converged''))
     | None \<Rightarrow>
         bind_result (run_expect r expected_version) (\<lambda>_.
         if run_state r \<noteq> RunRunning
         then Inl (run_invalid_transition r RunCancelled expected_version)
         else map_result
           (\<lambda>converged. \<lparr>fr_run = converged, fr_attempt = fe_attempt finalized,
                         fr_evidence = fe_evidence finalized, fr_replayed = False\<rparr>)
           (mk_run (r\<lparr>run_state := RunCancelled, run_version := run_version r + 1,
                     run_current_assignment_id := None,
                     run_attempts := butlast (run_attempts r) @ [fe_attempt finalized],
                     run_cancellation_stop := Some stop\<rparr>))))))"

section \<open>Retry queueing and adjudication\<close>

definition retry_queued_run :: "run \<Rightarrow> retry_intent \<Rightarrow> run result" where
  "retry_queued_run r i =
     mk_run (r\<lparr>run_state := RunRetryQueued, run_version := run_version r + 1,
               run_current_assignment_id := None,
               run_retry_intents := run_retry_intents r @ [i],
               run_pending_retry_intent_id := Some (ri_id i)\<rparr>)"

definition retry_intent_replay :: "run \<Rightarrow> retry_intent \<Rightarrow> retry_intent \<Rightarrow> run result" where
  "retry_intent_replay r existing i =
     bind_result (retry_intent_digest existing) (\<lambda>sd.
     bind_result (retry_intent_digest i) (\<lambda>rd.
     if sd \<noteq> rd
     then Inl (IdempotencyConflict (''run:'' @ run_id r @ '':retry-intent'') (ri_id i) sd rd)
     else Inr r))"

definition run_queue_adjudicated_retry :: "retry_intent \<Rightarrow> int \<Rightarrow> run \<Rightarrow> run result" where
  "run_queue_adjudicated_retry i expected_version r =
     (case intent_by_id (ri_id i) (run_retry_intents r) of
        Some existing \<Rightarrow> retry_intent_replay r existing i
      | None \<Rightarrow>
          bind_result (current_attempt r (ri_source_attempt_id i)) (\<lambda>source.
          bind_result (ensure_retry_intent_authoritative r i source) (\<lambda>_.
          if run_cancel_intent r \<noteq> None
          then Inl (retry_not_allowed r (at_id source) (intent_adjudication_id i) ''cancel_requested'')
          else if run_state r \<noteq> RunRunning \<or> run_pending_retry_intent r \<noteq> None
          then Inl (retry_not_allowed r (at_id source) (intent_adjudication_id i) ''retry_already_queued'')
          else if (case run_assignment r of None \<Rightarrow> True | Some a \<Rightarrow> as_state a \<noteq> AssignmentCommitted)
          then Inl (retry_not_allowed r (at_id source) (intent_adjudication_id i)
                 ''source_assignment_not_committed'')
          else bind_result (run_expect r expected_version) (\<lambda>_. retry_queued_run r i))))"

definition run_queue_policy_retry ::
  "retry_intent \<Rightarrow> run_retry_decision \<Rightarrow> int \<Rightarrow> run \<Rightarrow> run result" where
  "run_queue_policy_retry i decision expected_version r =
     (case intent_by_id (ri_id i) (run_retry_intents r) of
        Some existing \<Rightarrow> retry_intent_replay r existing i
      | None \<Rightarrow>
          bind_result (current_attempt r (ri_source_attempt_id i)) (\<lambda>source.
          if run_cancel_intent r \<noteq> None
          then Inl (retry_not_allowed r (at_id source) '''' ''cancel_requested'')
          else if run_state r \<noteq> RunRunning \<or> run_pending_retry_intent r \<noteq> None
          then Inl (retry_not_allowed r (at_id source) '''' ''retry_already_queued'')
          else bind_result (ensure_policy_retry_intent_authoritative r i decision source) (\<lambda>_.
               bind_result (run_expect r expected_version) (\<lambda>_. retry_queued_run r i))))"

definition ensure_automatic_retry_source_is_not_unknown :: "string \<Rightarrow> int \<Rightarrow> run \<Rightarrow> unit result" where
  "ensure_automatic_retry_source_is_not_unknown attempt_id expected_version r =
     bind_result (current_attempt r attempt_id) (\<lambda>current.
     if at_state current = AttemptUnknown
     then Inl (AttemptUnknownReviewRequired (run_id r) attempt_id (run_current_fence r)
            ''manual_adjudication_required'')
     else run_expect r expected_version)"

definition run_append_current_unknown_adjudication ::
  "string \<Rightarrow> unknown_adjudication \<Rightarrow> int \<Rightarrow> int \<Rightarrow> run \<Rightarrow> run result" where
  "run_append_current_unknown_adjudication attempt_id adjudication expected_version
     expected_attempt_version r =
     bind_result (current_attempt r attempt_id) (\<lambda>current.
     bind_result (attempt_append_unknown_adjudication adjudication expected_attempt_version current)
       (\<lambda>adjudicated.
     if adjudicated = current then Inr r
     else if run_pending_retry_intent r \<noteq> None \<or> run_state r \<noteq> RunRunning
     then Inl (retry_not_allowed r attempt_id (ua_id adjudication) ''retry_already_queued'')
     else bind_result (run_expect r expected_version) (\<lambda>_. replace_latest_attempt r adjudicated)))"

end
