(* ===== verification/Run_Lifecycle.thy ===== *)
theory Run_Lifecycle
  imports Run_Commands
begin

text \<open>
  The Run as a versioned state machine: one command type for its public methods, what each of
  them can return, and the step relation \<open>run_move\<close> that every successful, non-replayed command
  is an instance of. The safety theorems are inductions over this relation.
\<close>

section \<open>Commands\<close>

text \<open>
  A command carries the value objects of the call. The objects the Run stores are validated when
  the caller constructs them, before the method runs; \<open>exec_run\<close> does so first.
\<close>

datatype run_command =
    RunTransition run_state int
  | RunRequestCancel string cancellation_source string string datetime int
  | RunOffer string worker_generation worker_authority digest datetime datetime int
  | RunClaim string worker_ref datetime int
  | RunCommitStart string worker_ref string digest string datetime int
  | RunExpire string string datetime int
  | RunRelease string worker_ref string datetime int
  | RunMarkUnknown string unknown_observation int int
  | RunTransitionAttempt string attempt_state int int
  | RunRecordEvent string attempt_event attempt_authority worker_ref int int int
  | RunFinalize string evidence_proposal "trusted_exit_facts option"
      "validated_case_summary option" "verified_artifact list" evidence_requirements
      attempt_authority worker_ref int int int
  | RunCancelStopUnproven string string datetime int int
  | RunFinalizeCancelled string evidence_proposal "trusted_exit_facts option"
      trusted_cancellation_stop "validated_case_summary option" "verified_artifact list"
      evidence_requirements attempt_authority worker_ref int int int
  | RunQueueAdjudicatedRetry retry_intent int
  | RunQueuePolicyRetry retry_intent run_retry_decision int
  | RunAdjudicate string unknown_adjudication int int

definition mk_retry_intent :: "retry_intent \<Rightarrow> retry_intent result" where
  "mk_retry_intent i =
     bind_result (raise_or (check_retry_authority (ri_authority i)) ()) (\<lambda>_.
     raise_or (check_retry_intent i) i)"

lemma mk_retry_intent_Inr [result_simps]: "mk_retry_intent i = Inr j \<longleftrightarrow> wf_retry_intent i \<and> j = i"
  by (auto simp: mk_retry_intent_def wf_retry_intent_def result_simps)

fun exec_run :: "run_command \<Rightarrow> run \<Rightarrow> run result" where
  "exec_run (RunTransition t v) r = run_transition t v r"
| "exec_run (RunRequestCancel k src actor reason t v) r = run_request_cancel k src actor reason t v r"
| "exec_run (RunOffer i w au d ot et v) r = run_offer_assignment i w au d ot et v r"
| "exec_run (RunClaim i w t v) r = run_claim_assignment i w t v r"
| "exec_run (RunCommitStart i w k d n t v) r = map_result sr_run (run_commit_start i w k d n t v r)"
| "exec_run (RunExpire i k t v) r = run_expire_precommit_assignment i k t v r"
| "exec_run (RunRelease i w k t v) r = run_release_precommit_assignment i w k t v r"
| "exec_run (RunMarkUnknown i obs v av) r =
     bind_result (mk_unknown_observation obs) (\<lambda>obs. run_mark_current_attempt_unknown i obs v av r)"
| "exec_run (RunTransitionAttempt i t v av) r = run_transition_current_attempt i t v av r"
| "exec_run (RunRecordEvent i e au w f v av) r =
     bind_result (raise_or (check_attempt_event e) e)
       (\<lambda>e. run_record_current_attempt_event i e au w f v av r)"
| "exec_run (RunFinalize i p te su arts rq au w f v av) r =
     map_result fr_run (run_finalize_current_attempt_evidence i p te su arts rq au w f v av r)"
| "exec_run (RunCancelStopUnproven i oid t v av) r = run_mark_cancel_stop_unproven i oid t v av r"
| "exec_run (RunFinalizeCancelled i p te stop su arts rq au w f v av) r =
     bind_result (raise_or (check_trusted_cancellation_stop stop) stop) (\<lambda>stop.
     map_result fr_run
       (run_finalize_cancelled_attempt_evidence i p te stop su arts rq au w f v av r))"
| "exec_run (RunQueueAdjudicatedRetry i v) r =
     bind_result (mk_retry_intent i) (\<lambda>i. run_queue_adjudicated_retry i v r)"
| "exec_run (RunQueuePolicyRetry i d v) r =
     bind_result (mk_retry_intent i) (\<lambda>i.
     bind_result (raise_or (check_run_retry_decision d) d) (\<lambda>d. run_queue_policy_retry i d v r))"
| "exec_run (RunAdjudicate i ad v av) r =
     bind_result (raise_or (check_unknown_adjudication ad) ad)
       (\<lambda>ad. run_append_current_unknown_adjudication i ad v av r)"

fun run_expects :: "run_command \<Rightarrow> int" where
  "run_expects (RunTransition t v) = v"
| "run_expects (RunRequestCancel k src actor reason t v) = v"
| "run_expects (RunOffer i w au d ot et v) = v"
| "run_expects (RunClaim i w t v) = v"
| "run_expects (RunCommitStart i w k d n t v) = v"
| "run_expects (RunExpire i k t v) = v"
| "run_expects (RunRelease i w k t v) = v"
| "run_expects (RunMarkUnknown i obs v av) = v"
| "run_expects (RunTransitionAttempt i t v av) = v"
| "run_expects (RunRecordEvent i e au w f v av) = v"
| "run_expects (RunFinalize i p te su arts rq au w f v av) = v"
| "run_expects (RunCancelStopUnproven i oid t v av) = v"
| "run_expects (RunFinalizeCancelled i p te stop su arts rq au w f v av) = v"
| "run_expects (RunQueueAdjudicatedRetry i v) = v"
| "run_expects (RunQueuePolicyRetry i d v) = v"
| "run_expects (RunAdjudicate i ad v av) = v"

section \<open>The step relation\<close>

definition replaced_assignments :: "run \<Rightarrow> assignment \<Rightarrow> assignment list" where
  "replaced_assignments r b =
     map (\<lambda>a. if Some (as_id a) = run_current_assignment_id r then b else a) (run_assignments r)"

text \<open>The latest Attempt of a Run whose fence is the Run's current one.\<close>

definition owns_latest :: "run \<Rightarrow> attempt list \<Rightarrow> attempt \<Rightarrow> bool" where
  "owns_latest r xs a \<longleftrightarrow>
     run_attempts r = xs @ [a] \<and> at_run_id a = run_id r \<and> at_fence a = run_current_fence r"

inductive run_move :: "run \<Rightarrow> run \<Rightarrow> bool" where
  move_planned:
    "run_state r = RunPlanned \<Longrightarrow>
     s = r\<lparr>run_state := RunQueued, run_version := run_version r + 1\<rparr> \<Longrightarrow> run_move r s"
| move_cancel_idle:
    "run_state r \<in> {RunQueued, RunRetryQueued} \<Longrightarrow> run_cancel_intent r = None \<Longrightarrow>
     check_cancellation_intent c = None \<Longrightarrow>
     s = r\<lparr>run_state := RunCancelled, run_version := run_version r + 1, run_cancel_intent := Some c\<rparr> \<Longrightarrow>
     run_move r s"
| move_cancel_reserved:
    "run_state r = RunAssigned \<Longrightarrow> run_cancel_intent r = None \<Longrightarrow>
     check_cancellation_intent c = None \<Longrightarrow> run_assignment r = Some a \<Longrightarrow>
     check_assignment_closure cl = None \<Longrightarrow> assignment_close_prestart cl a = Inr b \<Longrightarrow>
     s = r\<lparr>run_state := RunCancelled, run_version := run_version r + 1,
           run_assignments := replaced_assignments r b, run_current_assignment_id := None,
           run_cancel_intent := Some c\<rparr> \<Longrightarrow>
     run_move r s"
| move_cancel_running:
    "run_state r = RunRunning \<Longrightarrow> run_cancel_intent r = None \<Longrightarrow>
     check_cancellation_intent c = None \<Longrightarrow>
     s = r\<lparr>run_state := RunRunning, run_version := run_version r + 1, run_cancel_intent := Some c\<rparr> \<Longrightarrow>
     run_move r s"
| move_offered:
    "run_state r \<in> {RunQueued, RunRetryQueued} \<Longrightarrow> as_id a \<notin> set (map as_id (run_assignments r)) \<Longrightarrow>
     as_state a = AssignmentOffered \<Longrightarrow> as_closure a = None \<Longrightarrow>
     as_retry_intent_id a = pending_intent_id r \<Longrightarrow> check_assignment a = None \<Longrightarrow>
     s = r\<lparr>run_state := RunAssigned, run_assignments := run_assignments r @ [a],
           run_current_assignment_id := Some (as_id a), run_version := run_version r + 1\<rparr> \<Longrightarrow>
     run_move r s"
| move_claimed:
    "run_state r = RunAssigned \<Longrightarrow> run_assignment r = Some a \<Longrightarrow> assignment_claim t a = Inr b \<Longrightarrow>
     s = r\<lparr>run_assignments := replaced_assignments r b, run_version := run_version r + 1\<rparr> \<Longrightarrow>
     run_move r s"
| move_committed:
    "run_state r = RunAssigned \<Longrightarrow> run_assignment r = Some a \<Longrightarrow> assignment_commit t a = Inr b \<Longrightarrow>
     key \<notin> set (map at_start_commit_key (run_attempts r)) \<Longrightarrow>
     new_id \<notin> set (map at_id (run_attempts r)) \<Longrightarrow>
     commit_start_provenance r a (as_spec_digest a) = Inr prov \<Longrightarrow>
     attempt_create new_id (run_id r) (int (length (run_attempts r)) + 1) (run_current_fence r + 1)
       (as_id a) (as_worker a) (as_spec_digest a) key prov = Inr x \<Longrightarrow>
     s = r\<lparr>run_state := RunRunning, run_version := run_version r + 1,
           run_current_fence := run_current_fence r + 1,
           run_assignments := replaced_assignments r b,
           run_attempts := run_attempts r @ [x], run_pending_retry_intent_id := None\<rparr> \<Longrightarrow>
     run_move r s"
| move_closed:
    "run_state r = RunAssigned \<Longrightarrow> run_assignment r = Some a \<Longrightarrow>
     check_assignment_closure cl = None \<Longrightarrow> assignment_close_prestart cl a = Inr b \<Longrightarrow>
     s = r\<lparr>run_state := (if as_retry_intent_id a \<noteq> None then RunRetryQueued else RunQueued),
           run_assignments := replaced_assignments r b, run_current_assignment_id := None,
           run_version := run_version r + 1\<rparr> \<Longrightarrow>
     run_move r s"
| move_attempt:
    "owns_latest r xs a \<Longrightarrow> attempt_step a b \<Longrightarrow> b \<noteq> a \<Longrightarrow>
     at_state a \<notin> set attempt_terminal_states \<or>
       run_state r = RunRunning \<and> run_pending_retry_intent r = None \<Longrightarrow>
     s = r\<lparr>run_attempts := xs @ [b], run_version := run_version r + 1\<rparr> \<Longrightarrow>
     run_move r s"
| move_converged:
    "run_state r = RunRunning \<Longrightarrow> owns_latest r xs a \<Longrightarrow> attempt_step a b \<Longrightarrow>
     cancelled_finalize_guard r stop = Inr () \<Longrightarrow> check_trusted_cancellation_stop stop = None \<Longrightarrow>
     run_cancellation_stop r = None \<Longrightarrow>
     s = r\<lparr>run_state := RunCancelled, run_version := run_version r + 1,
           run_current_assignment_id := None, run_attempts := xs @ [b],
           run_cancellation_stop := Some stop\<rparr> \<Longrightarrow>
     run_move r s"
| move_retry_queued:
    "run_state r = RunRunning \<Longrightarrow> run_cancel_intent r = None \<Longrightarrow> run_pending_retry_intent r = None \<Longrightarrow>
     owns_latest r xs a \<Longrightarrow> at_id a = ri_source_attempt_id i \<Longrightarrow>
     ensure_retry_intent_authoritative r i a = Inr () \<Longrightarrow> wf_retry_intent i \<Longrightarrow>
     intent_by_id (ri_id i) (run_retry_intents r) = None \<Longrightarrow>
     s = r\<lparr>run_state := RunRetryQueued, run_version := run_version r + 1,
           run_current_assignment_id := None, run_retry_intents := run_retry_intents r @ [i],
           run_pending_retry_intent_id := Some (ri_id i)\<rparr> \<Longrightarrow>
     run_move r s"

text \<open>A successful command: a replay, or a move whose result passed the validator.\<close>

definition run_step :: "int \<Rightarrow> run \<Rightarrow> run \<Rightarrow> bool" where
  "run_step v r s \<longleftrightarrow>
     s = r \<or> (v = run_version r \<and> run_move r s \<and> check_run s = None)"

lemma run_step_stay [intro]: "s = r \<Longrightarrow> run_step v r s"
  by (simp add: run_step_def)

lemma run_stepI: "v = run_version r \<Longrightarrow> run_move r s \<Longrightarrow> check_run s = None \<Longrightarrow> run_step v r s"
  by (simp add: run_step_def)

section \<open>Every operation is a step\<close>

lemma replace_current_assignment_Inr [result_simps]:
  "replace_current_assignment r b = Inr as \<longleftrightarrow>
     run_current_assignment_id r = Some (as_id b) \<and> as = replaced_assignments r b \<and>
     as \<noteq> run_assignments r"
  by (auto simp: replace_current_assignment_def replaced_assignments_def Let_def)

lemma current_attempt_Inr [result_simps]:
  "current_attempt r i = Inr a \<longleftrightarrow>
     at_id a = i \<and> (\<exists>xs. owns_latest r xs a)"
  by (auto simp: current_attempt_def owns_latest_def last_opt_Some_iff split: option.splits)

lemma run_step_transition:
  assumes "run_transition t v r = Inr s" shows "run_step v r s"
  using assms
  by (cases "run_state r")
    (auto simp: run_transition_def result_simps intro!: run_stepI move_planned)

lemma cancel_closure_Inr:
  "cancel_closure a c = Inr cl \<Longrightarrow> check_assignment_closure cl = None"
  by (auto simp: cancel_closure_def mk_assignment_closure_def Let_def result_simps)

lemma run_step_cancel_fresh:
  assumes "run_cancel_fresh c v r = Inr s" "run_cancel_intent r = None"
    "check_cancellation_intent c = None"
  shows "run_step v r s"
proof (cases "run_state r = RunAssigned")
  case True
  with assms(1) obtain a cl b where a: "run_assignment r = Some a" "cancel_closure a c = Inr cl"
    "assignment_close_prestart cl a = Inr b" and v: "v = run_version r"
    and s: "s = r\<lparr>run_state := RunCancelled, run_version := run_version r + 1,
       run_assignments := replaced_assignments r b, run_current_assignment_id := None,
       run_cancel_intent := Some c\<rparr>" "check_run s = None"
    by (auto simp: run_cancel_fresh_def result_simps simp del: assignment_close_Inr split: option.splits)
  show ?thesis
    by (rule run_stepI [OF v move_cancel_reserved [OF True assms(2,3) a(1) cancel_closure_Inr [OF a(2)] a(3) s(1)] s(2)])
next
  case False
  show ?thesis
  proof (cases "run_state r = RunRunning")
    case True
    with assms show ?thesis
      by (auto simp: run_cancel_fresh_def result_simps intro!: run_stepI move_cancel_running)
  next
    case no: False
    with False assms show ?thesis
      by (auto simp: run_cancel_fresh_def result_simps split: if_splits
          intro!: run_stepI move_cancel_idle)
  qed
qed

lemma run_step_request_cancel:
  assumes "run_request_cancel k src actor reason t v r = Inr s" shows "run_step v r s"
  using assms
  by (auto simp: run_request_cancel_def mk_cancellation_intent_def result_simps
      intro: run_step_cancel_fresh split: option.splits if_splits)

lemma run_step_offer:
  assumes "run_offer_assignment i w au d ot et v r = Inr s" shows "run_step v r s"
proof -
  from assms obtain ref a where v: "v = run_version r"
    and g: "first_some (offer_guards r i d) = None"
    and a: "assignment_offer i ref d ot et (pending_intent_id r) = Inr a"
    and s: "s = r\<lparr>run_state := RunAssigned, run_assignments := run_assignments r @ [a],
               run_current_assignment_id := Some (as_id a), run_version := run_version r + 1\<rparr>"
      "check_run s = None"
    by (auto simp: run_offer_assignment_def result_simps simp del: assignment_offer_Inr)
  from g have g: "run_state r \<in> {RunQueued, RunRetryQueued}" "i \<notin> set (map as_id (run_assignments r))"
    by (auto simp: offer_guards_def result_simps)
  from a have "as_id a = i" "as_state a = AssignmentOffered" "as_closure a = None"
    "as_retry_intent_id a = pending_intent_id r" "check_assignment a = None"
    by (auto simp: assignment_offer_Inr)
  with g s v show ?thesis by (intro run_stepI [OF v move_offered [of r a] s(2)]) simp_all
qed

lemma run_step_claim:
  assumes "run_claim_assignment i w t v r = Inr s" shows "run_step v r s"
proof -
  from assms obtain a b where "v = run_version r" "run_state r = RunAssigned"
    "run_assignment r = Some a" "assignment_claim t a = Inr b"
    "s = r\<lparr>run_assignments := replaced_assignments r b, run_version := run_version r + 1\<rparr>"
    "check_run s = None"
    by (auto simp: run_claim_assignment_def result_simps simp del: assignment_claim_Inr
        split: option.splits if_splits)
  then show ?thesis by (intro run_stepI [OF _ move_claimed])
qed

text \<open>A start commit either replays a stored Attempt or extends the Run by exactly one.\<close>

lemma commit_start_replay_Inr:
  assumes "commit_start_replay r e k d = Inr res"
  shows "sr_replayed res" "sr_run res = r" "sr_attempt res = e" "sr_fence res = at_fence e"
  using assms by (auto simp: commit_start_replay_def result_simps split: if_splits)

lemma commit_start_fresh_Inr:
  assumes "run_commit_start i w k d n t v r = Inr res" "\<not> sr_replayed res"
  obtains a b prov x where
    "k \<notin> set (map at_start_commit_key (run_attempts r))" "v = run_version r"
    "run_state r = RunAssigned" "run_assignment r = Some a" "as_id a = i" "as_worker a = w"
    "as_spec_digest a = d" "n \<notin> set (map at_id (run_attempts r))" "assignment_commit t a = Inr b"
    "commit_start_provenance r a d = Inr prov"
    "attempt_create n (run_id r) (int (length (run_attempts r)) + 1) (run_current_fence r + 1)
       i w d k prov = Inr x"
    "sr_attempt res = x" "sr_fence res = run_current_fence r + 1"
    "sr_run res = r\<lparr>run_state := RunRunning, run_version := run_version r + 1,
         run_current_fence := run_current_fence r + 1, run_assignments := replaced_assignments r b,
         run_attempts := run_attempts r @ [x], run_pending_retry_intent_id := None\<rparr>"
    "check_run (sr_run res) = None"
proof (cases "find (\<lambda>a. at_start_commit_key a = k) (run_attempts r)")
  case (Some e)
  with assms show thesis
    using commit_start_replay_Inr(1) by (auto simp: run_commit_start_def result_simps)
next
  case None
  then have key: "k \<notin> set (map at_start_commit_key (run_attempts r))" by (auto simp: find_None_iff)
  from None assms have "commit_start_fresh i w k d n t v r = Inr res"
    by (auto simp: run_commit_start_def result_simps)
  then obtain a prov x b where v: "v = run_version r" and a: "run_state r = RunAssigned"
    "run_assignment r = Some a" "as_id a = i" "as_worker a = w" "as_spec_digest a = d"
    and n: "n \<notin> set (map at_id (run_attempts r))"
    and b: "assignment_commit t a = Inr b"
    and prov: "commit_start_provenance r a d = Inr prov"
    and x: "attempt_create n (run_id r) (int (length (run_attempts r)) + 1) (run_current_fence r + 1)
       i w d k prov = Inr x"
    and res: "sr_attempt res = x" "sr_fence res = run_current_fence r + 1"
      "sr_run res = r\<lparr>run_state := RunRunning, run_version := run_version r + 1,
         run_current_fence := run_current_fence r + 1, run_assignments := replaced_assignments r b,
         run_attempts := run_attempts r @ [x], run_pending_retry_intent_id := None\<rparr>"
      "check_run (sr_run res) = None"
    by (auto simp: commit_start_fresh_def Let_def result_simps
        simp del: assignment_commit_Inr split: option.splits if_splits)
  show thesis by (rule that [OF key v a n b prov x res])
qed

lemma run_step_commit_start:
  assumes "run_commit_start i w k d n t v r = Inr res"
  shows "run_step v r (sr_run res)"
proof (cases "sr_replayed res")
  case True
  then have "sr_run res = r"
    using assms commit_start_replay_Inr(2)
    by (auto simp: run_commit_start_def commit_start_fresh_def Let_def result_simps
        split: option.splits if_splits)
  then show ?thesis by (rule run_step_stay)
next
  case False
  show ?thesis
  proof (rule commit_start_fresh_Inr [OF assms False])
    fix a b prov x
    assume v: "v = run_version r" and a: "run_state r = RunAssigned" "run_assignment r = Some a"
      and eq: "as_id a = i" "as_worker a = w" "as_spec_digest a = d"
      and key: "k \<notin> set (map at_start_commit_key (run_attempts r))"
      and n: "n \<notin> set (map at_id (run_attempts r))"
      and b: "assignment_commit t a = Inr b"
      and px: "commit_start_provenance r a d = Inr prov"
        "attempt_create n (run_id r) (int (length (run_attempts r)) + 1) (run_current_fence r + 1)
         i w d k prov = Inr x"
      and s: "sr_run res = r\<lparr>run_state := RunRunning, run_version := run_version r + 1,
         run_current_fence := run_current_fence r + 1, run_assignments := replaced_assignments r b,
         run_attempts := run_attempts r @ [x], run_pending_retry_intent_id := None\<rparr>"
        "check_run (sr_run res) = None"
    show ?thesis
      by (rule run_stepI [OF v move_committed [OF a b key n] s(2)]) (use eq px s in simp_all)
  qed
qed

lemma run_step_close_precommit:
  assumes "close_precommit_assignment cl v r = Inr s" "check_assignment_closure cl = None"
  shows "run_step v r s"
proof -
  from assms(1) have "s = r \<or> close_precommit_fresh cl v r = Inr s"
    by (auto simp: close_precommit_assignment_def result_simps split: option.splits if_splits)
  then show ?thesis
  proof
    assume "close_precommit_fresh cl v r = Inr s"
    then obtain a b where "v = run_version r" "run_state r = RunAssigned" "run_assignment r = Some a"
      "assignment_close_prestart cl a = Inr b"
      "s = r\<lparr>run_state := (if as_retry_intent_id a \<noteq> None then RunRetryQueued else RunQueued),
             run_assignments := replaced_assignments r b, run_current_assignment_id := None,
             run_version := run_version r + 1\<rparr>"
      "check_run s = None"
      by (auto simp: close_precommit_fresh_def result_simps simp del: assignment_close_Inr
          split: option.splits if_splits)
    with assms(2) show ?thesis by (intro run_stepI [OF _ move_closed])
  qed (rule run_step_stay)
qed

lemma run_step_expire:
  assumes "run_expire_precommit_assignment i k t v r = Inr s" shows "run_step v r s"
  using assms
  by (auto simp: run_expire_precommit_assignment_def mk_assignment_closure_def result_simps
      intro: run_step_close_precommit)

lemma run_step_release:
  assumes "run_release_precommit_assignment i w k t v r = Inr s" shows "run_step v r s"
  using assms
  by (auto simp: run_release_precommit_assignment_def mk_assignment_closure_def result_simps
      intro: run_step_close_precommit)

section \<open>Attempt moves\<close>

lemma replace_latest_Inr:
  assumes "replace_latest_attempt r b = Inr s" "owns_latest r xs a"
  shows "s = r\<lparr>run_attempts := xs @ [b], run_version := run_version r + 1\<rparr> \<and> check_run s = None"
  using assms by (auto simp: replace_latest_attempt_def owns_latest_def result_simps)

lemma run_step_attempt:
  assumes "owns_latest r xs a" "attempt_step a b" "b \<noteq> a"
    "at_state a \<notin> set attempt_terminal_states \<or>
       run_state r = RunRunning \<and> run_pending_retry_intent r = None"
    "v = run_version r" "replace_latest_attempt r b = Inr s"
  shows "run_step v r s"
proof -
  have s: "s = r\<lparr>run_attempts := xs @ [b], run_version := run_version r + 1\<rparr>" "check_run s = None"
    using replace_latest_Inr [OF assms(6,1)] by auto
  show ?thesis by (rule run_stepI [OF assms(5) move_attempt [OF assms(1-4) s(1)] s(2)])
qed

text \<open>An Attempt operation other than adjudication changes only a live Attempt.\<close>

lemma attempt_transition_live:
  assumes "attempt_transition t v a = Inr b"
  shows "at_state a \<notin> set attempt_terminal_states" "b \<noteq> a"
proof -
  have t: "t \<in> set (attempt_transitions (at_state a))" and "at_version b = at_version a + 1"
    using assms by (auto simp: attempt_transition_Inr)
  then show "b \<noteq> a" by auto
  show "at_state a \<notin> set attempt_terminal_states"
    using t by (cases "at_state a") (auto simp: attempt_terminal_states_def)
qed

lemma attempt_mark_unknown_live:
  assumes "attempt_mark_unknown obs au v a = Inr b" "b \<noteq> a"
  shows "at_state a \<notin> set attempt_terminal_states"
  using attempt_mark_unknown_Inr(3) [OF assms(1)] assms(2) by (simp only: not_terminal_iff) blast

lemma attempt_record_event_live:
  assumes "attempt_record_event e au w f v a = Inr b" "b \<noteq> a"
  shows "at_state a \<notin> set attempt_terminal_states"
  using attempt_record_event_Inr(5) [OF assms(1)] assms(2) by blast

lemma attempt_finalize_live:
  assumes "attempt_finalize p te su arts rq au w f v stop a = Inr res" "\<not> fe_replayed res"
  shows "at_state a \<notin> set attempt_terminal_states" "fe_attempt res \<noteq> a"
proof -
  have "at_state a = AttemptUploading \<and> at_version (fe_attempt res) = at_version a + 1"
    by (rule attempt_finalize_Inr [OF assms(1)]) (use assms(2) in auto)
  then show "at_state a \<notin> set attempt_terminal_states" "fe_attempt res \<noteq> a"
    by (auto simp: attempt_terminal_states_def)
qed

lemma run_step_mark_unknown:
  assumes "run_mark_current_attempt_unknown i obs v av r = Inr s" "check_unknown_observation obs = None"
  shows "run_step v r s"
proof -
  from assms(1) obtain xs a au b where a: "owns_latest r xs a"
    and b: "attempt_mark_unknown obs au av a = Inr b"
    and s: "(b = a \<and> s = r) \<or> (b \<noteq> a \<and> v = run_version r \<and> replace_latest_attempt r b = Inr s)"
    by (auto simp: run_mark_current_attempt_unknown_def Let_def result_simps split: if_splits)
  from s show ?thesis
    using run_step_attempt [OF a attempt_step_mark_unknown [OF b assms(2)]]
      attempt_mark_unknown_live [OF b] by (auto simp: run_step_stay)
qed

lemma run_step_transition_attempt:
  assumes "run_transition_current_attempt i t v av r = Inr s" shows "run_step v r s"
proof -
  from assms obtain xs a b where a: "owns_latest r xs a"
    and b: "attempt_transition t av a = Inr b"
    and s: "v = run_version r" "replace_latest_attempt r b = Inr s"
    by (auto simp: run_transition_current_attempt_def result_simps)
  show ?thesis
    using run_step_attempt [OF a attempt_step_transition [OF b] attempt_transition_live(2) [OF b] _ s]
      attempt_transition_live(1) [OF b] by blast
qed

lemma run_step_record_event:
  assumes "run_record_current_attempt_event i e au w f v av r = Inr s" "check_attempt_event e = None"
  shows "run_step v r s"
proof -
  from assms(1) obtain xs a b where a: "owns_latest r xs a"
    and b: "attempt_record_event e au w f av a = Inr b"
    and s: "(b = a \<and> s = r) \<or> (b \<noteq> a \<and> v = run_version r \<and> replace_latest_attempt r b = Inr s)"
    by (auto simp: run_record_current_attempt_event_def result_simps split: if_splits)
  from s show ?thesis
    using run_step_attempt [OF a attempt_step_record_event [OF b assms(2)]]
      attempt_record_event_live [OF b] by (auto simp: run_step_stay)
qed

lemma run_step_finalize:
  assumes "run_finalize_current_attempt_evidence i p te su arts rq au w f v av r = Inr res"
  shows "run_step v r (fr_run res)"
proof -
  from assms obtain xs a fe where a: "owns_latest r xs a"
    and b: "attempt_finalize p te su arts rq au w f av None a = Inr fe"
    and s: "(fe_replayed fe \<and> fr_run res = r) \<or>
       (\<not> fe_replayed fe \<and> v = run_version r \<and>
        replace_latest_attempt r (fe_attempt fe) = Inr (fr_run res))"
    by (auto simp: run_finalize_current_attempt_evidence_def attempt_finalize_evidence_def
        result_simps split: if_splits)
  from s show ?thesis
    using run_step_attempt [OF a attempt_step_finalize [OF b]] attempt_finalize_live [OF b]
    by (auto simp: run_step_stay)
qed

lemma run_step_adjudicate:
  assumes "run_append_current_unknown_adjudication i ad v av r = Inr s"
    "check_unknown_adjudication ad = None"
  shows "run_step v r s"
proof -
  from assms(1) obtain xs a b where a: "owns_latest r xs a"
    and b: "attempt_append_unknown_adjudication ad av a = Inr b"
    and s: "(b = a \<and> s = r) \<or>
       (b \<noteq> a \<and> run_state r = RunRunning \<and> run_pending_retry_intent r = None \<and>
        v = run_version r \<and> replace_latest_attempt r b = Inr s)"
    by (auto simp: run_append_current_unknown_adjudication_def result_simps split: if_splits)
  from s show ?thesis
    using run_step_attempt [OF a attempt_step_adjudicate [OF b assms(2)]] by (auto simp: run_step_stay)
qed

lemma run_step_cancel_stop_unproven:
  assumes "run_mark_cancel_stop_unproven i oid t v av r = Inr s" shows "run_step v r s"
  using assms
  by (auto simp: run_mark_cancel_stop_unproven_def mk_unknown_observation_def result_simps
      intro: run_step_mark_unknown split: option.splits)

lemma run_step_finalize_cancelled:
  assumes "run_finalize_cancelled_attempt_evidence i p te stop su arts rq au w f v av r = Inr res"
    "check_trusted_cancellation_stop stop = None"
  shows "run_step v r (fr_run res)"
proof -
  from assms(1) obtain xs a fe where g: "cancelled_finalize_guard r stop = Inr ()"
    and a: "owns_latest r xs a"
    and b: "attempt_finalize p te su arts rq au w f av (Some stop) a = Inr fe"
    and s: "fr_run res = r \<or>
       (run_cancellation_stop r = None \<and> v = run_version r \<and> run_state r = RunRunning \<and>
        fr_run res = r\<lparr>run_state := RunCancelled, run_version := run_version r + 1,
           run_current_assignment_id := None,
           run_attempts := butlast (run_attempts r) @ [fe_attempt fe],
           run_cancellation_stop := Some stop\<rparr> \<and> check_run (fr_run res) = None)"
    by (auto simp: run_finalize_cancelled_attempt_evidence_def
        attempt_finalize_cancellation_evidence_def result_simps split: option.splits if_splits)
  from s show ?thesis
  proof (elim disjE conjE)
    assume h: "run_cancellation_stop r = None" "v = run_version r" "run_state r = RunRunning"
      and s: "fr_run res = r\<lparr>run_state := RunCancelled, run_version := run_version r + 1,
           run_current_assignment_id := None,
           run_attempts := butlast (run_attempts r) @ [fe_attempt fe],
           run_cancellation_stop := Some stop\<rparr>" "check_run (fr_run res) = None"
    have "butlast (run_attempts r) = xs" using a by (simp add: owns_latest_def)
    with s(1) show ?thesis
      by (intro run_stepI [OF h(2) _ s(2)]
          move_converged [OF h(3) a attempt_step_finalize [OF b] g assms(2) h(1)]) simp
  qed (rule run_step_stay)
qed

section \<open>Retry queueing, and the whole executor\<close>

text \<open>The policy path checks at least what the shared authority check does.\<close>

lemma policy_authoritative:
  assumes "ensure_policy_retry_intent_authoritative r i d a = Inr u"
  shows "ensure_retry_intent_authoritative r i a = Inr ()"
  using assms
  by (auto simp: ensure_policy_retry_intent_authoritative_def ensure_retry_intent_authoritative_def
      Let_def result_simps split: retry_authority.splits)

lemma run_step_retry_queued:
  assumes "current_attempt r (ri_source_attempt_id i) = Inr a"
    "ensure_retry_intent_authoritative r i a = Inr ()" "wf_retry_intent i"
    "intent_by_id (ri_id i) (run_retry_intents r) = None"
    "run_state r = RunRunning" "run_cancel_intent r = None" "run_pending_retry_intent r = None"
    "v = run_version r" "retry_queued_run r i = Inr s"
  shows "run_step v r s"
proof -
  obtain xs where xs: "owns_latest r xs a" and i: "at_id a = ri_source_attempt_id i"
    using assms(1) by (auto simp: current_attempt_Inr)
  have s: "s = r\<lparr>run_state := RunRetryQueued, run_version := run_version r + 1,
           run_current_assignment_id := None, run_retry_intents := run_retry_intents r @ [i],
           run_pending_retry_intent_id := Some (ri_id i)\<rparr>" "check_run s = None"
    using assms(9) by (simp_all add: retry_queued_run_def result_simps)
  show ?thesis
    by (rule run_stepI [OF assms(8) move_retry_queued [OF assms(5-7) xs i assms(2-4) s(1)] s(2)])
qed

lemma run_step_queue_adjudicated:
  assumes "run_queue_adjudicated_retry i v r = Inr s" "wf_retry_intent i" shows "run_step v r s"
proof (cases "intent_by_id (ri_id i) (run_retry_intents r)")
  case None
  with assms(1) obtain a where "current_attempt r (ri_source_attempt_id i) = Inr a"
    "ensure_retry_intent_authoritative r i a = Inr ()" "run_state r = RunRunning"
    "run_cancel_intent r = None" "run_pending_retry_intent r = None" "v = run_version r"
    "retry_queued_run r i = Inr s"
    by (auto simp: run_queue_adjudicated_retry_def bind_result_Inr_iff if_Inl_Inr_iff
        ensure_expected_version_ok)
  then show ?thesis by (intro run_step_retry_queued [OF _ _ assms(2) None])
next
  case (Some e)
  with assms(1) show ?thesis
    by (auto simp: run_queue_adjudicated_retry_def retry_intent_replay_def result_simps split: if_splits)
qed

lemma run_step_queue_policy:
  assumes "run_queue_policy_retry i d v r = Inr s" "wf_retry_intent i" shows "run_step v r s"
proof (cases "intent_by_id (ri_id i) (run_retry_intents r)")
  case None
  with assms(1) obtain a u where "current_attempt r (ri_source_attempt_id i) = Inr a"
    "ensure_policy_retry_intent_authoritative r i d a = Inr u" "run_state r = RunRunning"
    "run_cancel_intent r = None" "run_pending_retry_intent r = None" "v = run_version r"
    "retry_queued_run r i = Inr s"
    by (auto simp: run_queue_policy_retry_def bind_result_Inr_iff if_Inl_Inr_iff
        ensure_expected_version_ok)
  then show ?thesis by (intro run_step_retry_queued [OF _ policy_authoritative assms(2) None])
next
  case (Some e)
  with assms(1) show ?thesis
    by (auto simp: run_queue_policy_retry_def retry_intent_replay_def result_simps split: if_splits)
qed

lemmas run_steps = run_step_transition run_step_request_cancel run_step_offer run_step_claim
  run_step_commit_start run_step_expire run_step_release run_step_mark_unknown
  run_step_transition_attempt run_step_record_event run_step_finalize
  run_step_cancel_stop_unproven run_step_finalize_cancelled run_step_queue_adjudicated
  run_step_queue_policy run_step_adjudicate

lemma exec_run_step:
  assumes "exec_run c r = Inr s" shows "run_step (run_expects c) r s"
  using assms
  by (cases c) (auto simp: bind_result_Inr_iff map_result_Inr_iff raise_or_Inr_iff mk_retry_intent_Inr
      mk_unknown_observation_def intro: run_steps)
end
