(* ===== verification/Run_Invariant.thy ===== *)
theory Run_Invariant
  imports Run_Lifecycle
begin

text \<open>
  The type invariant of the Run and what it implies. The validator checks positions, pointers and
  epochs; here these checks are turned into the statements a reader wants: fences count Attempts,
  only the latest Attempt can be live, and every Attempt that was followed by another one had a
  recorded authority for it.
\<close>

section \<open>The invariant\<close>

definition wf_run :: "run \<Rightarrow> bool" where
  "wf_run r \<longleftrightarrow>
     check_run r = None \<and>
     list_all wf_assignment (run_assignments r) \<and>
     list_all wf_attempt (run_attempts r) \<and>
     list_all wf_retry_intent (run_retry_intents r) \<and>
     (\<forall>c. run_cancel_intent r = Some c \<longrightarrow> check_cancellation_intent c = None) \<and>
     (\<forall>t. run_cancellation_stop r = Some t \<longrightarrow> check_trusted_cancellation_stop t = None)"

lemma wf_run_check: "wf_run r \<Longrightarrow> check_run r = None"
  by (simp add: wf_run_def)

lemma wf_run_attempt: "wf_run r \<Longrightarrow> a \<in> set (run_attempts r) \<Longrightarrow> wf_attempt a"
  by (simp add: wf_run_def list_all_iff)

section \<open>Reading the validator\<close>

lemma check_run_parts:
  assumes "check_run r = None"
  shows "first_some (run_field_checks r) = None" "first_some (validate_normalized_history r) = None"
    "first_some (validate_cancel_intent_causality r) = None"
    "first_some (validate_cancellation_history r) = None"
    "first_some (validate_state_pointers r) = None"
    "first_some (validate_assignment_epoch_tails r) = None"
    "first_some (validate_retry_intent_consumption r) = None"
  using assms by (simp_all add: check_run_def run_checks_def first_some_append_None)

lemma check_run_history:
  assumes "check_run r = None"
  shows "first_some (history_pointer_checks r) = None"
    "first_some (history_fence_checks r) = None"
    "first_some (history_order_checks r) = None"
    "\<And>i. i < length (run_attempts r) \<Longrightarrow>
       first_some (attempt_position_checks r (Suc i, run_attempts r ! i)) = None"
    "\<And>t. t \<in> set (run_retry_intents r) \<Longrightarrow> first_some (intent_checks r t) = None"
    "\<And>a. a \<in> set (run_assignments r) \<Longrightarrow> first_some (assignment_checks r a) = None"
proof -
  have h: "first_some (validate_normalized_history r) = None" using check_run_parts(2) [OF assms] .
  show "first_some (history_pointer_checks r) = None" "first_some (history_fence_checks r) = None"
    "first_some (history_order_checks r) = None"
    using h by (simp_all add: validate_normalized_history_def first_some_append_None)
  show "first_some (attempt_position_checks r (Suc i, run_attempts r ! i)) = None"
    if "i < length (run_attempts r)" for i
  proof -
    have "\<forall>x \<in> set (enumerate 1 (run_attempts r)). first_some (attempt_position_checks r x) = None"
      using h by (simp add: validate_normalized_history_def first_some_append_None first_some_concat_None)
    moreover have "(Suc i, run_attempts r ! i) \<in> set (enumerate 1 (run_attempts r))"
      using that by (simp add: in_set_enumerate_eq)
    ultimately show ?thesis by blast
  qed
  show "first_some (intent_checks r t) = None" if "t \<in> set (run_retry_intents r)" for t
    using h that by (simp add: validate_normalized_history_def first_some_append_None first_some_concat_None)
  show "first_some (assignment_checks r a) = None" if "a \<in> set (run_assignments r)" for a
    using h that by (simp add: validate_normalized_history_def first_some_append_None first_some_concat_None)
qed

lemma check_run_distinct:
  assumes "check_run r = None"
  shows "distinct (map as_id (run_assignments r))" "distinct (map ri_id (run_retry_intents r))"
    "distinct (map at_id (run_attempts r))" "distinct (map at_start_commit_key (run_attempts r))"
  using check_run_history(1) [OF assms] by (simp_all add: history_pointer_checks_def result_simps)

lemma check_run_pointers:
  assumes "check_run r = None"
  shows "\<And>i. run_current_assignment_id r = Some i \<Longrightarrow> last_opt (map as_id (run_assignments r)) = Some i"
    "\<And>i. run_pending_retry_intent_id r = Some i \<Longrightarrow> last_opt (map ri_id (run_retry_intents r)) = Some i"
  using check_run_history(1) [OF assms]
  by (simp_all add: history_pointer_checks_def pointer_checks_def result_simps split: option.splits)

lemma check_run_position:
  assumes "check_run r = None" "i < length (run_attempts r)"
  shows "at_run_id (run_attempts r ! i) = run_id r"
    "at_attempt_no (run_attempts r ! i) = int i + 1" "at_fence (run_attempts r ! i) = int i + 1"
  using check_run_history(4) [OF assms]
  by (simp_all add: attempt_position_checks_def Let_def result_simps)

lemma map_eq_upt:
  assumes "\<And>i. i < length xs \<Longrightarrow> f (xs ! i) = int i + 1"
  shows "map f xs = map int [1..<length xs + 1]"
proof (rule nth_equalityI)
  show "length (map f xs) = length (map int [1..<length xs + 1])" by (simp del: upt_Suc)
  fix i assume "i < length (map f xs)"
  then have "i < length xs" by simp
  moreover from this have "[1..<length xs + 1] ! i = 1 + i" by (intro nth_upt) simp
  ultimately show "map f xs ! i = map int [1..<length xs + 1] ! i"
    using assms [of i] by (simp del: upt_Suc)
qed

lemma check_run_fence:
  assumes "check_run r = None"
  shows "run_current_fence r = int (length (run_attempts r))"
proof (cases "run_attempts r" rule: rev_cases)
  case Nil
  with check_run_history(2) [OF assms] show ?thesis
    by (simp add: history_fence_checks_def result_simps)
next
  case (snoc xs a)
  with check_run_position(3) [OF assms, of "length xs"] check_run_history(2) [OF assms]
  show ?thesis by (simp add: history_fence_checks_def result_simps)
qed

section \<open>Retry authority\<close>

text \<open>What an intent rests on: the chain-tail adjudication of an unknown source, or the source's failure.\<close>

definition retry_basis :: "retry_intent \<Rightarrow> attempt \<Rightarrow> bool" where
  "retry_basis i a \<longleftrightarrow>
     (case ri_authority i of
        UnknownAuthority ua \<Rightarrow>
          (case last_opt (at_adjudications a) of
             None \<Rightarrow> False
           | Some adj \<Rightarrow>
               ua_id adj = ur_adjudication_id ua \<and> ua_decision adj = ur_decision ua \<and>
               unknown_adjudication_digest adj = Inr (ur_adjudication_digest ua) \<and>
               permits_retry (ua_decision adj) \<and>
               instant (ua_occurred_at adj) \<le> instant (ri_created_at i))
      | PolicyAuthority pa \<Rightarrow> at_state a = retry_source_state (pr_source_outcome pa))"

lemma attempt_by_id_SomeD: "attempt_by_id i xs = Some a \<Longrightarrow> at_id a = i \<and> a \<in> set xs"
  by (auto simp: attempt_by_id_def dest: find_SomeD)

lemma intent_by_id_SomeD: "intent_by_id i xs = Some t \<Longrightarrow> ri_id t = i \<and> t \<in> set xs"
  by (auto simp: intent_by_id_def dest: find_SomeD)

lemma check_run_intent:
  assumes "check_run r = None" "t \<in> set (run_retry_intents r)"
  obtains a where "a \<in> set (run_attempts r)" "at_id a = ri_source_attempt_id t"
    "ri_run_id t = run_id r" "ri_source_attempt_no t = at_attempt_no a" "ri_source_fence t = at_fence a"
    "ri_execution_spec_digest t = at_spec_digest a" "retry_basis t a"
proof -
  have c: "first_some (intent_checks r t) = None" using check_run_history(5) [OF assms] .
  then obtain a where a: "attempt_by_id (ri_source_attempt_id t) (run_attempts r) = Some a"
    by (auto simp: intent_checks_def split: option.splits)
  show thesis
    by (rule that [of a])
      (use c a attempt_by_id_SomeD [OF a] in
        \<open>auto simp: intent_checks_def retry_basis_def Let_def result_simps
          split: retry_authority.splits option.splits\<close>)
qed

lemma retry_basis_state:
  assumes "retry_basis i a" "check_attempt a = None"
  shows "at_state a \<in> {AttemptUnknown, AttemptTestFailed, AttemptInfraFailed}"
proof (cases "ri_authority i")
  case (UnknownAuthority ua)
  with assms(1) have "at_adjudications a \<noteq> []" by (auto simp: retry_basis_def split: option.splits)
  with assms(2) show ?thesis by (simp add: check_attempt_adjudicated)
next
  case (PolicyAuthority pa)
  with assms(1) show ?thesis by (cases "pr_source_outcome pa") (auto simp: retry_basis_def)
qed

lemma retry_basis_terminal:
  "retry_basis i a \<Longrightarrow> check_attempt a = None \<Longrightarrow> at_state a \<in> set attempt_terminal_states"
  using retry_basis_state by (force simp: attempt_terminal_states_def)

section \<open>The chain of Attempts\<close>

text \<open>\<open>followed_by r t a b\<close>: the intent \<open>t\<close>, created for \<open>a\<close>, was consumed by the next Attempt \<open>b\<close>.\<close>

definition followed_by :: "run \<Rightarrow> retry_intent \<Rightarrow> attempt \<Rightarrow> attempt \<Rightarrow> bool" where
  "followed_by r t a b \<longleftrightarrow>
     t \<in> set (run_retry_intents r) \<and> ri_source_attempt_id t = at_id a \<and> retry_basis t a \<and>
     at_spec_digest b = at_spec_digest a \<and>
     (\<exists>p. at_retry_provenance b = Some p \<and> rv_retry_intent_id p = ri_id t \<and>
        retry_intent_digest t = Inr (rv_retry_intent_digest p) \<and>
        rv_source_attempt_no p = at_attempt_no a \<and> rv_source_fence p = at_fence a \<and>
        rv_authority p = ri_authority t)"

lemma distinct_map_inj:
  "distinct (map f xs) \<Longrightarrow> x \<in> set xs \<Longrightarrow> y \<in> set xs \<Longrightarrow> f x = f y \<Longrightarrow> x = y"
  by (simp add: distinct_map inj_on_def)

lemma check_run_attempt_no_inj:
  assumes "check_run r = None" "a \<in> set (run_attempts r)" "b \<in> set (run_attempts r)"
    "at_attempt_no a = at_attempt_no b"
  shows "a = b"
  using assms check_run_position(2) [OF assms(1)] by (auto simp: in_set_conv_nth)

lemma check_run_followed:
  assumes "check_run r = None" "Suc i < length (run_attempts r)"
  obtains t where "followed_by r t (run_attempts r ! i) (run_attempts r ! Suc i)"
proof -
  let ?a = "run_attempts r ! i" and ?b = "run_attempts r ! Suc i"
  have "first_some (attempt_position_checks r (Suc (Suc i), ?b)) = None"
    using check_run_history(4) [OF assms] .
  then obtain asg where "first_some (provenance_checks r (Suc (Suc i)) ?b asg) = None"
    by (cases "assignment_by_id (at_assignment_id ?b) (run_assignments r)")
      (auto simp: attempt_position_checks_def Let_def result_simps)
  then obtain p t src where p: "at_retry_provenance ?b = Some p"
    and t: "intent_by_id (rv_retry_intent_id p) (run_retry_intents r) = Some t"
    and src: "attempt_by_id (rv_source_attempt_id p) (run_attempts r) = Some src"
    and eq: "at_id src = at_id ?a" "at_spec_digest ?b = ri_execution_spec_digest t"
      "ri_source_attempt_no t = at_attempt_no src" "ri_source_fence t = at_fence src"
      "retry_intent_digest t = Inr (rv_retry_intent_digest p)"
      "rv_source_attempt_no p = ri_source_attempt_no t" "rv_source_fence p = ri_source_fence t"
      "rv_authority p = ri_authority t"
    by (auto simp: provenance_checks_def Let_def result_simps split: option.splits)
  have a: "?a \<in> set (run_attempts r)" using assms(2) by simp
  have "src \<in> set (run_attempts r)" using attempt_by_id_SomeD [OF src] by simp
  with eq(1) a check_run_distinct(3) [OF assms(1)] have src_a: "src = ?a" by (auto dest: distinct_map_inj)
  have tin: "t \<in> set (run_retry_intents r)" "ri_id t = rv_retry_intent_id p"
    using intent_by_id_SomeD [OF t] by auto
  obtain c where c: "c \<in> set (run_attempts r)" "at_id c = ri_source_attempt_id t"
    "ri_source_attempt_no t = at_attempt_no c" "ri_execution_spec_digest t = at_spec_digest c"
    "retry_basis t c"
    using check_run_intent [OF assms(1) tin(1)] by blast
  have "c = ?a" using check_run_attempt_no_inj [OF assms(1) c(1) a] c(3) eq(3) src_a by simp
  with c p eq tin src_a show thesis by (intro that [of t]) (simp add: followed_by_def)
qed

lemma pending_intent_latest:
  assumes "check_run r = None" "run_pending_retry_intent r = Some t"
  obtains xs a where "run_attempts r = xs @ [a]" "at_id a = ri_source_attempt_id t" "retry_basis t a"
proof -
  have t: "t \<in> set (run_retry_intents r)"
    using assms(2) by (auto simp: run_pending_retry_intent_def dest: find_last_SomeD split: option.splits)
  have "map_option at_id (last_opt (run_attempts r)) = Some (ri_source_attempt_id t)"
    using check_run_history(2) [OF assms(1)] assms(2) by (simp add: history_fence_checks_def result_simps)
  then obtain xs a where a: "run_attempts r = xs @ [a]" "at_id a = ri_source_attempt_id t"
    by (auto simp: last_opt_Some_iff)
  obtain c where c: "c \<in> set (run_attempts r)" "at_id c = ri_source_attempt_id t" "retry_basis t c"
    using check_run_intent [OF assms(1) t] by blast
  have "c = a" using distinct_map_inj [OF check_run_distinct(3) [OF assms(1)] c(1)] a c(2) by simp
  with a c that show thesis by blast
qed

section \<open>Only the latest Attempt can be live\<close>

lemma wf_run_earlier_terminal:
  assumes "wf_run r" "Suc i < length (run_attempts r)"
  shows "at_state (run_attempts r ! i) \<in> {AttemptUnknown, AttemptTestFailed, AttemptInfraFailed}"
proof -
  obtain t where "followed_by r t (run_attempts r ! i) (run_attempts r ! Suc i)"
    using check_run_followed [OF wf_run_check [OF assms(1)] assms(2)] .
  moreover have "wf_attempt (run_attempts r ! i)" using assms by (intro wf_run_attempt [of r]) simp_all
  ultimately show ?thesis using retry_basis_state [of t] by (simp add: followed_by_def wf_attempt_def)
qed

lemma wf_run_live_phase:
  assumes "wf_run r" "run_attempts r = xs @ [a]" "at_state a \<notin> set attempt_terminal_states"
  shows "run_state r = RunRunning \<and> run_pending_retry_intent r = None"
proof -
  have c: "check_run r = None" using assms(1) by (rule wf_run_check)
  have wa: "check_attempt a = None"
    using wf_run_attempt [OF assms(1), of a] assms(2) by (simp add: wf_attempt_def)
  have np: "run_pending_retry_intent r = None"
  proof (rule ccontr)
    assume "run_pending_retry_intent r \<noteq> None"
    then obtain t where "run_pending_retry_intent r = Some t" by blast
    then obtain ys b where b: "run_attempts r = ys @ [b]" "retry_basis t b"
      using pending_intent_latest [OF c] by blast
    then have "b = a" using assms(2) by simp
    with b(2) retry_basis_terminal wa assms(3) show False by blast
  qed
  have p: "first_some (phase_checks r) = None"
    using check_run_parts(5) [OF c] by (simp add: validate_state_pointers_def first_some_append_None)
  have "run_state r = RunRunning"
  proof (cases "run_state r")
    case RunCancelled
    with p assms(2) np have "at_state a = AttemptCancelled"
      by (auto simp: phase_checks_def cancelled_state_checks_def stop_binding_checks_def result_simps
          split: option.splits)
    with assms(3) show ?thesis by (simp add: attempt_terminal_states_def)
  next
    case RunAssigned
    with p assms(2) np show ?thesis
      by (auto simp: phase_checks_def assigned_state_checks_def result_simps split: option.splits)
  qed (use p assms(2) np in \<open>auto simp: phase_checks_def result_simps\<close>)
  with np show ?thesis by simp
qed

section \<open>The phases\<close>

lemma check_run_phase: "check_run r = None \<Longrightarrow> first_some (phase_checks r) = None"
  using check_run_parts(5) by (simp add: validate_state_pointers_def first_some_append_None)

lemma check_run_cancel_phase:
  "check_run r = None \<Longrightarrow> run_cancel_intent r \<noteq> None \<Longrightarrow> run_state r \<in> {RunRunning, RunCancelled}"
  using check_run_parts(5) by (force simp: validate_state_pointers_def result_simps)

lemma check_run_evidence:
  assumes "check_run r = None" "a \<in> set (run_attempts r)" "at_evidence a = Some m"
  shows "rebuild_evidence a m (em_cancellation_stop m) = Inr m"
  using check_run_parts(5) [OF assms(1)] assms(2,3)
  by (auto simp: validate_state_pointers_def evidence_snapshot_checks_def result_simps split: option.splits)

lemma run_assignment_SomeD:
  "run_assignment r = Some a \<Longrightarrow> a \<in> set (run_assignments r) \<and> run_current_assignment_id r = Some (as_id a)"
  by (auto simp: run_assignment_def dest: find_last_SomeD split: option.splits)

text \<open>The current assignment, when there is one, is the last reservation.\<close>

lemma run_assignment_last:
  assumes "check_run r = None" "run_assignment r = Some a"
  obtains xs where "run_assignments r = xs @ [a]" "as_id a \<notin> set (map as_id xs)"
proof -
  have a: "a \<in> set (run_assignments r)" "run_current_assignment_id r = Some (as_id a)"
    using run_assignment_SomeD [OF assms(2)] by auto
  have "last_opt (map as_id (run_assignments r)) = Some (as_id a)"
    using check_run_pointers(1) [OF assms(1) a(2)] .
  then obtain xs b where xs: "run_assignments r = xs @ [b]" "as_id b = as_id a"
    by (cases "run_assignments r" rule: rev_cases) auto
  have d: "distinct (map as_id (run_assignments r))" using check_run_distinct(1) [OF assms(1)] .
  have "b = a" by (rule distinct_map_inj [OF d _ a(1) xs(2)]) (simp add: xs)
  with xs d show thesis by (intro that [of xs]) auto
qed

section \<open>Every step keeps the invariant\<close>

lemma list_all_replaced:
  "list_all P (run_assignments r) \<Longrightarrow> P b \<Longrightarrow> list_all P (replaced_assignments r b)"
  by (auto simp: list_all_iff replaced_assignments_def)

lemma wf_current_assignment: "wf_run r \<Longrightarrow> run_assignment r = Some a \<Longrightarrow> wf_assignment a"
  by (auto simp: wf_run_def list_all_iff dest: run_assignment_SomeD)

lemma wf_claimed: "wf_assignment a \<Longrightarrow> assignment_claim t a = Inr b \<Longrightarrow> wf_assignment b"
  by (auto simp: wf_assignment_def assignment_claim_Inr)

lemma wf_committed: "wf_assignment a \<Longrightarrow> assignment_commit t a = Inr b \<Longrightarrow> wf_assignment b"
  by (auto simp: wf_assignment_def assignment_commit_Inr)

lemma wf_closed:
  "assignment_close_prestart cl a = Inr b \<Longrightarrow> check_assignment_closure cl = None \<Longrightarrow> wf_assignment b"
  by (auto simp: wf_assignment_def assignment_close_Inr)

lemma commit_start_provenance_Inr:
  assumes "commit_start_provenance r a d = Inr prov"
  shows "(run_attempts r = [] \<and> run_pending_retry_intent r = None \<and> prov = None) \<or>
    (\<exists>xs src t p. owns_latest r xs src \<and> run_pending_retry_intent r = Some t \<and>
       ensure_retry_intent_authoritative r t src = Inr () \<and> at_id src = ri_source_attempt_id t \<and>
       as_retry_intent_id a = Some (ri_id t) \<and>
       retry_provenance_from_intent t = Inr p \<and> prov = Some p)"
  using assms
  by (auto simp: commit_start_provenance_def bind_result_Inr_iff map_result_Inr_iff if_Inl_Inr_iff
      current_attempt_Inr split: option.splits if_splits)

lemma pending_intent_in: "run_pending_retry_intent r = Some t \<Longrightarrow> t \<in> set (run_retry_intents r)"
  by (auto simp: run_pending_retry_intent_def dest: find_last_SomeD split: option.splits)

lemma wf_new_attempt:
  assumes "wf_run r" "commit_start_provenance r a d = Inr prov"
    "attempt_create i rid n f asg w sd key prov = Inr x"
  shows "wf_attempt x"
proof -
  have "check_retry_provenance p = None \<and> check_retry_authority (rv_authority p) = None"
    if "prov = Some p" for p
  proof -
    from that commit_start_provenance_Inr [OF assms(2)] obtain t
      where t: "run_pending_retry_intent r = Some t" "retry_provenance_from_intent t = Inr p" by auto
    have "wf_retry_intent t" using assms(1) pending_intent_in [OF t(1)] by (simp add: wf_run_def list_all_iff)
    with t(2) show ?thesis by (auto simp: provenance_from_intent_Inr wf_retry_intent_def)
  qed
  with assms(3) show ?thesis by (auto simp: attempt_create_Inr wf_attempt_def)
qed

lemma wf_offered: "check_assignment a = None \<Longrightarrow> as_closure a = None \<Longrightarrow> wf_assignment a"
  by (simp add: wf_assignment_def)

lemma run_move_wf:
  assumes "run_move r s" "wf_run r" "check_run s = None"
  shows "wf_run s"
  using assms
proof (induction rule: run_move.induct)
  case (move_cancel_reserved r c a cl b s)
  then have "wf_assignment b" by (blast intro: wf_closed)
  with move_cancel_reserved show ?case by (simp add: wf_run_def list_all_replaced)
next
  case (move_offered r a s)
  then have "wf_assignment a" by (blast intro: wf_offered)
  with move_offered show ?case by (simp add: wf_run_def)
next
  case (move_claimed r a t b s)
  then have "wf_assignment b" by (blast intro: wf_claimed wf_current_assignment)
  with move_claimed show ?case by (simp add: wf_run_def list_all_replaced)
next
  case (move_committed r a t b key new_id prov x s)
  then have "wf_assignment b" "wf_attempt x"
    by (blast intro: wf_committed wf_current_assignment, blast intro: wf_new_attempt)
  with move_committed show ?case by (simp add: wf_run_def list_all_replaced)
next
  case (move_closed r a cl b s)
  then have "wf_assignment b" by (blast intro: wf_closed)
  with move_closed show ?case by (simp add: wf_run_def list_all_replaced)
next
  case (move_attempt r xs a b s)
  then have "wf_attempt b"
    using attempt_step_wf wf_run_attempt [of r a] by (auto simp: owns_latest_def)
  with move_attempt show ?case by (simp add: wf_run_def owns_latest_def)
next
  case (move_converged r xs a b stop s)
  then have "wf_attempt b"
    using attempt_step_wf wf_run_attempt [of r a] by (auto simp: owns_latest_def)
  with move_converged show ?case by (simp add: wf_run_def owns_latest_def)
qed (simp_all add: wf_run_def)

section \<open>What a step changes\<close>

lemma run_move_version: "run_move r s \<Longrightarrow> run_version s = run_version r + 1"
  by (induction rule: run_move.induct) simp_all

lemma run_move_id: "run_move r s \<Longrightarrow> run_id s = run_id r"
  by (induction rule: run_move.induct) simp_all

lemma run_move_not_cancelled: "run_move r s \<Longrightarrow> wf_run r \<Longrightarrow> run_state r \<noteq> RunCancelled"
  by (induction rule: run_move.induct) (auto simp: owns_latest_def dest: wf_run_live_phase)

lemma run_move_intents: "run_move r s \<Longrightarrow> prefix (run_retry_intents r) (run_retry_intents s)"
  by (induction rule: run_move.induct) simp_all

lemma run_move_cancel_intent:
  "run_move r s \<Longrightarrow> wf_run r \<Longrightarrow> run_cancel_intent r = Some c \<Longrightarrow> run_cancel_intent s = Some c"
  by (induction rule: run_move.induct) simp_all

definition attempt_log :: "run \<Rightarrow>
  (string \<times> string \<times> int \<times> int \<times> string \<times> worker_ref \<times> digest \<times> string \<times> retry_provenance option) list"
  where "attempt_log r = map attempt_identity (run_attempts r)"

text \<open>What \<open>Attempt.create\<close> always gives.\<close>

definition fresh_attempt :: "attempt \<Rightarrow> bool" where
  "fresh_attempt x \<longleftrightarrow>
     at_events x = [] \<and> at_evidence x = None \<and> at_unknown_observation x = None \<and>
     at_adjudications x = [] \<and> at_state x = AttemptStartCommitted \<and> at_version x = 0"

lemma run_move_attempts:
  "run_move r s \<Longrightarrow>
     run_attempts s = run_attempts r \<or>
     (\<exists>xs a b. owns_latest r xs a \<and> attempt_step a b \<and> run_attempts s = xs @ [b]) \<or>
     (run_state r = RunAssigned \<and> (\<exists>x. fresh_attempt x \<and> run_attempts s = run_attempts r @ [x]))"
  by (induction rule: run_move.induct) (auto simp: attempt_create_Inr fresh_attempt_def)

lemma run_move_attempt_log:
  assumes "run_move r s" shows "prefix (attempt_log r) (attempt_log s)"
  using run_move_attempts [OF assms]
  by (auto simp: attempt_log_def owns_latest_def dest: attempt_step_identity)

definition assignment_identity ::
  "assignment \<Rightarrow> string \<times> worker_ref \<times> digest \<times> datetime \<times> datetime \<times> string option" where
  "assignment_identity a = (as_id a, as_worker a, as_spec_digest a, as_offered_at a,
     as_expires_at a, as_retry_intent_id a)"

definition assignment_log :: "run \<Rightarrow> (string \<times> worker_ref \<times> digest \<times> datetime \<times> datetime \<times> string option) list"
  where "assignment_log r = map assignment_identity (run_assignments r)"

text \<open>An operation on the reservation at hand rewrites the last entry only.\<close>

lemma replaced_last:
  assumes "check_run r = None" "run_assignment r = Some a"
  obtains xs where "run_assignments r = xs @ [a]" "replaced_assignments r b = xs @ [b]"
proof -
  obtain xs where xs: "run_assignments r = xs @ [a]" "as_id a \<notin> set (map as_id xs)"
    using run_assignment_last [OF assms] .
  have "run_current_assignment_id r = Some (as_id a)" using run_assignment_SomeD [OF assms(2)] by simp
  with xs have "replaced_assignments r b = xs @ [b]"
    by (auto simp: replaced_assignments_def image_iff intro!: map_idI)
  with xs(1) that show thesis by blast
qed

lemma assignment_ops_identity:
  "assignment_claim t a = Inr b \<Longrightarrow> assignment_identity b = assignment_identity a"
  "assignment_commit t a = Inr b \<Longrightarrow> assignment_identity b = assignment_identity a"
  "assignment_close_prestart cl a = Inr b \<Longrightarrow> assignment_identity b = assignment_identity a"
  by (auto simp: assignment_identity_def assignment_claim_Inr assignment_commit_Inr assignment_close_Inr)

lemma assignment_ops_open:
  "assignment_claim t a = Inr b \<Longrightarrow> as_state a \<in> {AssignmentOffered, AssignmentClaimed}"
  "assignment_commit t a = Inr b \<Longrightarrow> as_state a \<in> {AssignmentOffered, AssignmentClaimed}"
  "assignment_close_prestart cl a = Inr b \<Longrightarrow> as_state a \<in> {AssignmentOffered, AssignmentClaimed}"
  by (auto simp: assignment_claim_Inr assignment_commit_Inr assignment_close_Inr)

definition tail_rewritten :: "run \<Rightarrow> run \<Rightarrow> bool" where
  "tail_rewritten r s \<longleftrightarrow>
     (\<exists>xs a b. run_assignments r = xs @ [a] \<and> run_assignments s = xs @ [b] \<and>
        assignment_identity b = assignment_identity a \<and>
        as_state a \<in> {AssignmentOffered, AssignmentClaimed})"

lemma tail_rewrittenI:
  assumes "check_run r = None" "run_assignment r = Some a" "run_assignments s = replaced_assignments r b"
    "assignment_identity b = assignment_identity a" "as_state a \<in> {AssignmentOffered, AssignmentClaimed}"
  shows "tail_rewritten r s"
proof -
  obtain xs where "run_assignments r = xs @ [a]" "replaced_assignments r b = xs @ [b]"
    using replaced_last [OF assms(1,2)] .
  with assms show ?thesis unfolding tail_rewritten_def by metis
qed

lemma run_move_assignments:
  "run_move r s \<Longrightarrow> check_run r = None \<Longrightarrow>
     run_assignments s = run_assignments r \<or> tail_rewritten r s \<or>
     (\<exists>a. run_assignments s = run_assignments r @ [a])"
proof (induction rule: run_move.induct)
  case (move_cancel_reserved r c a cl b s)
  then have "tail_rewritten r s"
    by (intro tail_rewrittenI [OF _ _ _ assignment_ops_identity(3) assignment_ops_open(3)]) simp_all
  then show ?case by blast
next
  case (move_claimed r a t b s)
  then have "tail_rewritten r s"
    by (intro tail_rewrittenI [OF _ _ _ assignment_ops_identity(1) assignment_ops_open(1)]) simp_all
  then show ?case by blast
next
  case (move_committed r a t b key new_id prov x s)
  then have "tail_rewritten r s"
    by (intro tail_rewrittenI [OF _ _ _ assignment_ops_identity(2) assignment_ops_open(2)]) simp_all
  then show ?case by blast
next
  case (move_closed r a cl b s)
  then have "tail_rewritten r s"
    by (intro tail_rewrittenI [OF _ _ _ assignment_ops_identity(3) assignment_ops_open(3)]) simp_all
  then show ?case by blast
qed simp_all

lemma run_move_assignment_log:
  assumes "run_move r s" "check_run r = None"
  shows "prefix (assignment_log r) (assignment_log s)"
  using run_move_assignments [OF assms] by (auto simp: assignment_log_def tail_rewritten_def)
end
