(* ===== verification/Run_History.thy ===== *)
theory Run_History
  imports Run_Invariant
begin

text \<open>
  The Run keeps the contract of a versioned aggregate: interpretations of the shared locales, and
  the history lemmas that need the Run's own structure (sealed Attempts, closed reservations,
  cancellation). A history is any sequence of successful commands with arbitrary arguments.
\<close>

section \<open>Interpretations\<close>

lemma exec_run_good: "exec_run c r = Inr s \<Longrightarrow> wf_run r \<Longrightarrow> wf_run s"
  using exec_run_step [of c r s] run_move_wf [of r s] by (auto simp: run_step_def)

lemma exec_run_cas:
  "exec_run c r = Inr s \<Longrightarrow> s \<noteq> r \<Longrightarrow> run_expects c = run_version r \<and> run_version s = run_version r + 1"
  using exec_run_step [of c r s] run_move_version [of r s] by (auto simp: run_step_def)

lemma exec_run_cancelled: "wf_run r \<Longrightarrow> run_state r = RunCancelled \<Longrightarrow> exec_run c r = Inr s \<Longrightarrow> s = r"
  using exec_run_step [of c r s] run_move_not_cancelled [of r s] by (auto simp: run_step_def)

interpretation run_life: absorbing_lifecycle run_version run_expects exec_run wf_run
  "\<lambda>r. run_state r = RunCancelled"
  by unfold_locales (auto intro: exec_run_good dest: exec_run_cas exec_run_cancelled)

lemma exec_run_attempt_log: "exec_run c r = Inr s \<Longrightarrow> prefix (attempt_log r) (attempt_log s)"
  using exec_run_step [of c r s] run_move_attempt_log [of r s] by (auto simp: run_step_def)

lemma exec_run_assignment_log:
  "wf_run r \<Longrightarrow> exec_run c r = Inr s \<Longrightarrow> prefix (assignment_log r) (assignment_log s)"
  using exec_run_step [of c r s] run_move_assignment_log [of r s] by (auto simp: run_step_def wf_run_def)

lemma exec_run_intents: "exec_run c r = Inr s \<Longrightarrow> prefix (run_retry_intents r) (run_retry_intents s)"
  using exec_run_step [of c r s] run_move_intents [of r s] by (auto simp: run_step_def)

interpretation run_attempt_log: append_only_log run_version run_expects exec_run wf_run attempt_log
  by unfold_locales (auto dest: exec_run_attempt_log)

interpretation run_assignment_log: append_only_log run_version run_expects exec_run wf_run assignment_log
  by unfold_locales (auto dest: exec_run_assignment_log)

interpretation run_intent_log: append_only_log run_version run_expects exec_run wf_run run_retry_intents
  by unfold_locales (auto dest: exec_run_intents)

section \<open>Sealed Attempts and closed reservations\<close>

lemma exec_run_sealed:
  assumes "exec_run c r = Inr s" "i < length (run_attempts r)"
    "at_state (run_attempts r ! i) \<in> set evidence_terminal_states"
  shows "i < length (run_attempts s) \<and> run_attempts s ! i = run_attempts r ! i"
proof -
  have "s = r \<or> run_move r s" using exec_run_step [OF assms(1)] by (auto simp: run_step_def)
  then show ?thesis
  proof
    assume "run_move r s"
    from run_move_attempts [OF this] show ?thesis
    proof (elim disjE exE conjE)
      fix xs a b
      assume a: "owns_latest r xs a" "attempt_step a b" "run_attempts s = xs @ [b]"
      then have r: "run_attempts r = xs @ [a]" by (simp add: owns_latest_def)
      show ?thesis
      proof (cases "i = length xs")
        case True
        with r assms(3) have "at_state a \<in> set evidence_terminal_states" by simp
        with a r True show ?thesis using attempt_step_terminal by auto
      next
        case False
        with r assms(2) have "i < length xs" by auto
        with a r show ?thesis by (simp add: nth_append)
      qed
    qed (use assms(2) in \<open>auto simp: nth_append\<close>)
  qed (use assms(2) in auto)
qed

lemma history_sealed:
  assumes "history exec_run r s" "i < length (run_attempts r)"
    "at_state (run_attempts r ! i) \<in> set evidence_terminal_states"
  shows "i < length (run_attempts s) \<and> run_attempts s ! i = run_attempts r ! i"
  using assms by (induction rule: history.induct) (auto dest: exec_run_sealed)

lemma exec_run_closed:
  assumes "exec_run c r = Inr s" "wf_run r" "i < length (run_assignments r)"
    "as_state (run_assignments r ! i) \<notin> {AssignmentOffered, AssignmentClaimed}"
  shows "i < length (run_assignments s) \<and> run_assignments s ! i = run_assignments r ! i"
proof -
  have "s = r \<or> run_move r s" using exec_run_step [OF assms(1)] by (auto simp: run_step_def)
  then show ?thesis
  proof
    assume "run_move r s"
    from run_move_assignments [OF this wf_run_check [OF assms(2)]] show ?thesis
    proof (elim disjE exE)
      assume "tail_rewritten r s"
      then obtain xs a b where r: "run_assignments r = xs @ [a]" "run_assignments s = xs @ [b]"
        "as_state a \<in> {AssignmentOffered, AssignmentClaimed}" by (auto simp: tail_rewritten_def)
      with assms(4) have "i \<noteq> length xs" by auto
      with r assms(3) show ?thesis by (auto simp: nth_append)
    qed (use assms(3) in \<open>auto simp: nth_append\<close>)
  qed (use assms(3) in auto)
qed

lemma history_closed:
  assumes "history exec_run r s" "wf_run r" "i < length (run_assignments r)"
    "as_state (run_assignments r ! i) \<notin> {AssignmentOffered, AssignmentClaimed}"
  shows "i < length (run_assignments s) \<and> run_assignments s ! i = run_assignments r ! i"
  using assms
proof (induction rule: history.induct)
  case (history_step r s c u)
  then have "wf_run s" using run_life.history_good by blast
  with history_step show ?case using exec_run_closed [of c s u i] by auto
qed auto

section \<open>Cancellation\<close>

lemma exec_run_cancel_intent:
  "exec_run c r = Inr s \<Longrightarrow> wf_run r \<Longrightarrow> run_cancel_intent r = Some i \<Longrightarrow> run_cancel_intent s = Some i"
  using exec_run_step [of c r s] run_move_cancel_intent [of r s i] by (auto simp: run_step_def)

lemma exec_run_cancel_attempts:
  assumes "exec_run c r = Inr s" "wf_run r" "run_cancel_intent r \<noteq> None"
  shows "length (run_attempts s) = length (run_attempts r)"
proof -
  have "s = r \<or> run_move r s" using exec_run_step [OF assms(1)] by (auto simp: run_step_def)
  moreover have "run_state r \<noteq> RunAssigned"
    using check_run_cancel_phase [OF wf_run_check [OF assms(2)] assms(3)] by auto
  ultimately show ?thesis using run_move_attempts [of r s] by (auto simp: owns_latest_def)
qed

lemma history_cancelled_attempts:
  assumes "history exec_run r s" "wf_run r" "run_cancel_intent r = Some i"
  shows "run_cancel_intent s = Some i \<and> length (run_attempts s) = length (run_attempts r)"
  using assms
proof (induction rule: history.induct)
  case (history_step r s c u)
  then have "wf_run s" using run_life.history_good by blast
  with history_step show ?case
    using exec_run_cancel_intent [of c s u i] exec_run_cancel_attempts [of c s u] by auto
qed auto

section \<open>Fences\<close>

lemma exec_run_fence:
  assumes "exec_run c r = Inr s" "wf_run r"
  shows "run_current_fence s = run_current_fence r \<and> length (run_attempts s) = length (run_attempts r) \<or>
    run_state r = RunAssigned \<and> run_current_fence s = run_current_fence r + 1 \<and>
    length (run_attempts s) = length (run_attempts r) + 1"
proof -
  have f: "run_current_fence r = int (length (run_attempts r))"
    "run_current_fence s = int (length (run_attempts s))"
    using assms exec_run_good check_run_fence wf_run_check by blast+
  have "s = r \<or> run_move r s" using exec_run_step [OF assms(1)] by (auto simp: run_step_def)
  with f show ?thesis using run_move_attempts [of r s] by (auto simp: owns_latest_def)
qed

section \<open>Reachable Runs\<close>

definition reachable_run :: "run \<Rightarrow> bool" where
  "reachable_run r \<longleftrightarrow> (\<exists>i r0. run_create i = Inr r0 \<and> history exec_run r0 r)"

lemma reachable_create: "run_create i = Inr r \<Longrightarrow> reachable_run r"
  unfolding reachable_run_def by (blast intro: history_refl)

lemma reachable_exec: "reachable_run r \<Longrightarrow> exec_run c r = Inr s \<Longrightarrow> reachable_run s"
  unfolding reachable_run_def by (blast intro: history_step)

lemma reachable_history: "reachable_run r \<Longrightarrow> history exec_run r s \<Longrightarrow> reachable_run s"
  unfolding reachable_run_def by (blast intro: history_trans)

lemma run_create_wf: "run_create i = Inr r \<Longrightarrow> wf_run r"
  by (auto simp: run_create_def wf_run_def result_simps)

lemma reachable_wf: "reachable_run r \<Longrightarrow> wf_run r"
  using run_create_wf run_life.history_good by (auto simp: reachable_run_def)

section \<open>Invariants of the Attempts a Run owns\<close>

lemma exec_run_attempt_cases:
  assumes "exec_run c r = Inr s"
  obtains "run_attempts s = run_attempts r"
  | xs a b where "owns_latest r xs a" "attempt_step a b" "run_attempts s = xs @ [b]"
  | x where "fresh_attempt x" "run_attempts s = run_attempts r @ [x]"
proof -
  have "s = r \<or> run_move r s" using exec_run_step [OF assms] by (auto simp: run_step_def)
  then show thesis using run_move_attempts [of r s] that by blast
qed

lemma reachable_attempts:
  assumes "reachable_run r" "a \<in> set (run_attempts r)"
    and step: "\<And>a b. attempt_step a b \<Longrightarrow> P a \<Longrightarrow> P b" and fresh: "\<And>x. fresh_attempt x \<Longrightarrow> P x"
  shows "P a"
proof -
  obtain i r0 where r0: "run_create i = Inr r0" "history exec_run r0 r"
    using assms(1) by (auto simp: reachable_run_def)
  have keep: "list_all P (run_attempts u)" if "list_all P (run_attempts t)" "exec_run c t = Inr u" for c t u
    by (rule exec_run_attempt_cases [OF that(2)]) (use that(1) step fresh in \<open>auto simp: owns_latest_def\<close>)
  have "list_all P (run_attempts r0)" using r0(1) by (auto simp: run_create_def result_simps)
  then have "list_all P (run_attempts r)"
    by (rule history_invariant [where P = "\<lambda>r. list_all P (run_attempts r)", OF r0(2)]) (rule keep)
  with assms(2) show ?thesis by (simp add: list_all_iff)
qed

text \<open>An Attempt that has a successor is frozen: nothing addresses it any more.\<close>

lemma exec_run_superseded:
  assumes "exec_run c r = Inr s" "Suc i < length (run_attempts r)"
  shows "Suc i < length (run_attempts s) \<and> run_attempts s ! i = run_attempts r ! i"
  by (rule exec_run_attempt_cases [OF assms(1)])
    (use assms(2) in \<open>auto simp: owns_latest_def nth_append\<close>)

lemma history_superseded:
  assumes "history exec_run r s" "Suc i < length (run_attempts r)"
  shows "Suc i < length (run_attempts s) \<and> run_attempts s ! i = run_attempts r ! i"
  using assms by (induction rule: history.induct) (auto dest: exec_run_superseded)

text \<open>An unknown Attempt stays unknown: later facts may only append adjudications.\<close>

lemma exec_run_unknown:
  assumes "exec_run c r = Inr s" "i < length (run_attempts r)"
    "at_state (run_attempts r ! i) = AttemptUnknown"
  shows "i < length (run_attempts s) \<and> at_state (run_attempts s ! i) = AttemptUnknown \<and>
    at_unknown_observation (run_attempts s ! i) = at_unknown_observation (run_attempts r ! i) \<and>
    prefix (at_adjudications (run_attempts r ! i)) (at_adjudications (run_attempts s ! i))"
proof (rule exec_run_attempt_cases [OF assms(1)])
  fix xs a b assume a: "owns_latest r xs a" "attempt_step a b" "run_attempts s = xs @ [b]"
  then have r: "run_attempts r = xs @ [a]" by (simp add: owns_latest_def)
  show ?thesis
  proof (cases "i = length xs")
    case True
    with assms(3) r attempt_step_unknown [OF a(2)] show ?thesis by (auto simp: a(3))
  next
    case False
    with assms(2) r have "i < length xs" by simp
    with assms(3) r a(3) show ?thesis by (simp add: nth_append)
  qed
qed (use assms(2,3) in \<open>auto simp: nth_append\<close>)

lemma history_unknown:
  assumes "history exec_run r s" "i < length (run_attempts r)"
    "at_state (run_attempts r ! i) = AttemptUnknown"
  shows "i < length (run_attempts s) \<and> at_state (run_attempts s ! i) = AttemptUnknown \<and>
    at_unknown_observation (run_attempts s ! i) = at_unknown_observation (run_attempts r ! i) \<and>
    prefix (at_adjudications (run_attempts r ! i)) (at_adjudications (run_attempts s ! i))"
  using assms
proof (induction rule: history.induct)
  case (history_step r s c u)
  then show ?case using exec_run_unknown [of c s u i] by (auto intro: prefix_order.trans)
qed auto

text \<open>
  Idempotent replay: a start commit, a cancellation request, a reservation closure and a retry
  intent that are sent again give the stored result back, whatever version, time or fresh id the
  resend carries, and change nothing.
\<close>

section \<open>Start commit\<close>

lemma run_assignment_snoc:
  "run_current_assignment_id r = Some (as_id b) \<Longrightarrow> run_assignments r = xs @ [b] \<Longrightarrow> run_assignment r = Some b"
  by (simp add: run_assignment_def find_last_def)

lemma find_key_latest:
  "k \<notin> set (map at_start_commit_key xs) \<Longrightarrow> at_start_commit_key x = k \<Longrightarrow>
   find (\<lambda>a. at_start_commit_key a = k) (xs @ [x]) = Some x"
  by (induction xs) auto

lemma commit_start_replayed:
  assumes "check_run r = None" "run_commit_start i w k d n t v r = Inr res" "\<not> sr_replayed res"
  shows "run_commit_start i w k d n' t' v' (sr_run res) = Inr (res\<lparr>sr_replayed := True\<rparr>)"
proof -
  obtain dg where dg: "start_commit_digest i w d = Inr dg"
    using assms(2) by (auto simp: run_commit_start_def result_simps)
  show ?thesis
  proof (rule commit_start_fresh_Inr [OF assms(2,3)])
    fix a b prov x
    assume key: "k \<notin> set (map at_start_commit_key (run_attempts r))"
      and a: "run_assignment r = Some a" "as_id a = i" "as_worker a = w" "as_spec_digest a = d"
      and b: "assignment_commit t a = Inr b"
      and x: "attempt_create n (run_id r) (int (length (run_attempts r)) + 1) (run_current_fence r + 1)
         i w d k prov = Inr x"
      and res: "sr_attempt res = x" "sr_fence res = run_current_fence r + 1"
        "sr_run res = r\<lparr>run_state := RunRunning, run_version := run_version r + 1,
         run_current_fence := run_current_fence r + 1, run_assignments := replaced_assignments r b,
         run_attempts := run_attempts r @ [x], run_pending_retry_intent_id := None\<rparr>"
    obtain xs where xs: "run_assignments r = xs @ [a]" "replaced_assignments r b = xs @ [b]"
      using replaced_last [OF assms(1) a(1)] .
    have b': "as_id b = i" "as_state b = AssignmentCommitted" using a b by (auto simp: assignment_commit_Inr)
    have cur: "run_current_assignment_id r = Some i" using run_assignment_SomeD [OF a(1)] a(2) by simp
    have asg: "run_assignment (sr_run res) = Some b"
      by (rule run_assignment_snoc [of _ _ xs]) (simp_all add: res xs cur b')
    have x': "at_start_commit_key x = k" "at_assignment_id x = i" "at_worker x = w"
      "at_spec_digest x = d" "at_fence x = run_current_fence r + 1" "at_state x = AttemptStartCommitted"
      using x by (auto simp: attempt_create_Inr)
    have f: "find (\<lambda>a. at_start_commit_key a = k) (run_attempts (sr_run res)) = Some x"
      using find_key_latest [OF key x'(1)] by (simp add: res)
    have eq: "res\<lparr>sr_replayed := True\<rparr> =
      \<lparr>sr_run = sr_run res, sr_attempt = x, sr_fence = at_fence x, sr_replayed = True\<rparr>"
      by (cases res) (use res x' in simp)
    have "commit_start_replay (sr_run res) x k dg =
      Inr \<lparr>sr_run = sr_run res, sr_attempt = x, sr_fence = at_fence x, sr_replayed = True\<rparr>"
      using dg x' asg b' by (simp add: commit_start_replay_def res(3))
    with f dg eq show ?thesis by (simp add: run_commit_start_def)
  qed
qed

text \<open>Over any later history, the key stays bound to the Attempt it created.\<close>

lemma attempt_log_member:
  assumes "prefix (attempt_log r) (attempt_log s)" "x \<in> set (run_attempts r)"
  obtains y where "y \<in> set (run_attempts s)" "attempt_identity y = attempt_identity x"
proof -
  have "attempt_identity x \<in> set (attempt_log s)"
    using assms set_mono_prefix [OF assms(1)] by (auto simp: attempt_log_def)
  then show thesis using that by (auto simp: attempt_log_def)
qed

lemma commit_start_once:
  assumes "wf_run r" "run_commit_start i w k d n t v r = Inr res"
    "history exec_run (sr_run res) s" "run_commit_start i' w' k d' n' t' v' s = Inr res'"
  shows "sr_replayed res' \<and> sr_run res' = s \<and> sr_fence res' = sr_fence res \<and>
    attempt_identity (sr_attempt res') = attempt_identity (sr_attempt res)"
proof -
  have ex: "exec_run (RunCommitStart i w k d n t v) r = Inr (sr_run res)" using assms(2) by simp
  have wf: "wf_run (sr_run res)" "wf_run s"
    using exec_run_good [OF ex assms(1)] run_life.history_good [OF assms(3)] by blast+
  have x: "sr_attempt res \<in> set (run_attempts (sr_run res)) \<and> at_start_commit_key (sr_attempt res) = k \<and>
     sr_fence res = at_fence (sr_attempt res)"
  proof (cases "sr_replayed res")
    case True
    with assms(2) obtain e dg where e: "find (\<lambda>a. at_start_commit_key a = k) (run_attempts r) = Some e"
      "commit_start_replay r e k dg = Inr res"
      by (auto simp: run_commit_start_def commit_start_fresh_def Let_def result_simps
          split: option.splits if_splits)
    with find_SomeD [OF e(1)] commit_start_replay_Inr [OF e(2)] show ?thesis by simp
  next
    case False
    show ?thesis
      by (rule commit_start_fresh_Inr [OF assms(2) False]) (auto simp: attempt_create_Inr)
  qed
  obtain y where y: "y \<in> set (run_attempts s)" "attempt_identity y = attempt_identity (sr_attempt res)"
    using attempt_log_member [OF run_attempt_log.history_appends [OF assms(3) wf(1)]] x by blast
  have yk: "at_start_commit_key y = k" "at_fence y = sr_fence res"
    using y(2) x by (simp_all add: attempt_identity_def)
  have "find (\<lambda>a. at_start_commit_key a = k) (run_attempts s) = Some y"
    using distinct_map_find [OF check_run_distinct(4) [OF wf_run_check [OF wf(2)]] y(1)] yk by simp
  with assms(4) obtain dg where "commit_start_replay s y k dg = Inr res'"
    by (auto simp: run_commit_start_def result_simps)
  from commit_start_replay_Inr [OF this] y(2) yk show ?thesis by simp
qed

section \<open>Cancellation requests\<close>

lemma request_cancel_stored:
  assumes "run_request_cancel k src actor reason t v r = Inr s"
  shows "\<exists>c. run_cancel_intent s = Some c \<and> ci_idempotency_key c = k \<and>
    cancellation_request_digest c = cancellation_request_digest
      \<lparr>ci_run_id = run_id s, ci_idempotency_key = k, ci_source = src, ci_actor_id = actor,
       ci_reason = reason, ci_recorded_at = t\<rparr>"
  using assms
  by (auto simp: run_request_cancel_def run_cancel_fresh_def mk_cancellation_intent_def result_simps
      split: option.splits if_splits)

lemma cancellation_digest_ignores_time:
  "cancellation_request_digest (c\<lparr>ci_recorded_at := t\<rparr>) = cancellation_request_digest c"
  by (simp add: cancellation_request_digest_def cancellation_request_json_def)

lemma request_cancel_replayed:
  assumes "run_request_cancel k src actor reason t v r = Inr s" "is_utc t'"
  shows "run_request_cancel k src actor reason t' v' s = Inr s"
proof -
  define q where "q = (\<lambda>t. \<lparr>ci_run_id = run_id s, ci_idempotency_key = k, ci_source = src, ci_actor_id = actor,
       ci_reason = reason, ci_recorded_at = t\<rparr>)"
  obtain c where c: "run_cancel_intent s = Some c" "ci_idempotency_key c = k"
    "cancellation_request_digest c = cancellation_request_digest (q t)"
    using request_cancel_stored [OF assms(1)] by (auto simp: q_def)
  have "run_id s = run_id r"
    using run_step_request_cancel [OF assms(1)] run_move_id by (auto simp: run_step_def)
  with assms have "check_cancellation_intent (q t') = None"
    by (auto simp: q_def run_request_cancel_def mk_cancellation_intent_def check_cancellation_intent_def result_simps)
  moreover have "cancellation_request_digest (q t') = cancellation_request_digest (q t)"
    using cancellation_digest_ignores_time [of t' "q t"] by (simp add: q_def)
  ultimately show ?thesis
    using c by (simp add: q_def run_request_cancel_def mk_cancellation_intent_def cancellation_request_digest_total)
qed

section \<open>Reservation closures\<close>

text \<open>A request digest exists unless the worker's generation is beyond the JSON-safe integers.\<close>

lemma closure_request_digest_total:
  "case cl_worker c of None \<Rightarrow> True | Some w \<Rightarrow> safe_int (wr_generation w) \<Longrightarrow>
   \<exists>d. closure_request_digest c = Inr d"
  by (simp add: closure_request_digest_def canonical_digest_Inr worker_ref_json_def split: option.splits)

lemma close_precommit_stored:
  assumes "close_precommit_assignment cl v r = Inr s" "check_run r = None"
  obtains a c where "assignment_by_id (cl_assignment_id cl) (run_assignments s) = Some a"
    "as_closure a = Some c" "cl_idempotency_key c = cl_idempotency_key cl"
    "closure_request_digest c = closure_request_digest cl"
proof (cases "case assignment_by_id (cl_assignment_id cl) (run_assignments r) of
    None \<Rightarrow> None | Some e \<Rightarrow> as_closure e")
  case (Some c)
  with assms(1) that show thesis
    by (auto simp: close_precommit_assignment_def result_simps split: option.splits if_splits)
next
  case None
  with assms(1) have "close_precommit_fresh cl v r = Inr s" by (simp add: close_precommit_assignment_def)
  then obtain a b where a: "run_assignment r = Some a" "as_id a = cl_assignment_id cl"
    and b: "assignment_close_prestart cl a = Inr b"
    and s: "run_assignments s = replaced_assignments r b" "check_run s = None"
    by (auto simp: close_precommit_fresh_def result_simps simp del: assignment_close_Inr
        split: option.splits if_splits)
  obtain xs where "replaced_assignments r b = xs @ [b]" using replaced_last [OF assms(2) a(1)] by metis
  moreover have "as_id b = cl_assignment_id cl" "as_closure b = Some cl"
    using a(2) b by (auto simp: assignment_close_Inr)
  ultimately have "assignment_by_id (cl_assignment_id cl) (run_assignments s) = Some b"
    using distinct_map_find [OF check_run_distinct(1) [OF s(2)], of b]
    by (simp add: assignment_by_id_def s(1))
  with \<open>as_closure b = Some cl\<close> that show thesis by blast
qed

lemma close_precommit_replayed:
  assumes "close_precommit_assignment cl v r = Inr s" "check_run r = None"
    "cl_assignment_id cl' = cl_assignment_id cl" "cl_idempotency_key cl' = cl_idempotency_key cl"
    "closure_request_digest cl' = Inr d" "closure_request_digest cl = Inr d"
  shows "close_precommit_assignment cl' v' s = Inr s"
proof -
  obtain a c where "assignment_by_id (cl_assignment_id cl) (run_assignments s) = Some a"
    "as_closure a = Some c" "cl_idempotency_key c = cl_idempotency_key cl"
    "closure_request_digest c = closure_request_digest cl"
    using close_precommit_stored [OF assms(1,2)] .
  then show ?thesis by (simp add: close_precommit_assignment_def assms(3-6))
qed

lemma expire_replayed:
  assumes "run_expire_precommit_assignment i k t v r = Inr s" "wf_run r" "is_utc t'"
  shows "run_expire_precommit_assignment i k t' v' s = Inr s"
proof -
  have wfs: "wf_run s"
    using exec_run_good [of "RunExpire i k t v" r s] assms(1,2) by simp
  from assms(1) obtain cl where cl: "close_precommit_assignment cl v r = Inr s"
    "cl_assignment_id cl = i" "cl_idempotency_key cl = k" "cl_kind cl = ClosureExpiredPrestart"
    "cl_worker cl = None" "check_assignment_closure cl = None"
    by (auto simp: run_expire_precommit_assignment_def mk_assignment_closure_def result_simps)
  let ?e = "case assignment_by_id i (run_assignments s) of None \<Rightarrow> t'
     | Some a \<Rightarrow> if instant (as_expires_at a) < instant t' then as_expires_at a else t'"
  let ?c = "\<lparr>cl_assignment_id = i, cl_idempotency_key = k, cl_kind = ClosureExpiredPrestart,
     cl_effective_at = ?e, cl_recorded_at = t', cl_worker = None, cl_cancellation_intent_digest = None\<rparr>"
  have "is_utc (as_expires_at a)" if "assignment_by_id i (run_assignments s) = Some a" for a
    using that wfs
    by (auto simp: assignment_by_id_def wf_run_def list_all_iff wf_assignment_def check_assignment_def
        result_simps dest!: find_SomeD)
  then have e: "is_utc ?e" "instant ?e \<le> instant t'" using assms(3) by (auto split: option.splits)
  have "check_assignment_closure ?c = None"
    using cl(2-6) e assms(3) by (auto simp: check_assignment_closure_def result_simps)
  moreover obtain d where d: "closure_request_digest cl = Inr d"
    using closure_request_digest_total [of cl] cl by auto
  then have "closure_request_digest ?c = Inr d" using cl by (simp add: closure_request_digest_def)
  then have "close_precommit_assignment ?c v' s = Inr s"
    using close_precommit_replayed [OF cl(1) wf_run_check [OF assms(2)], of ?c d] cl d by simp
  ultimately show ?thesis
    by (simp add: run_expire_precommit_assignment_def mk_assignment_closure_def result_simps assms(3))
qed

lemma release_replayed:
  assumes "run_release_precommit_assignment i w k t v r = Inr s" "wf_run r" "is_utc t'"
    "safe_int (wr_generation w)"
  shows "run_release_precommit_assignment i w k t' v' s = Inr s"
proof -
  from assms(1) obtain cl where cl: "close_precommit_assignment cl v r = Inr s"
    "cl_assignment_id cl = i" "cl_idempotency_key cl = k" "cl_kind cl = ClosureReleasedPrestart"
    "cl_worker cl = Some w" "check_assignment_closure cl = None"
    by (auto simp: run_release_precommit_assignment_def mk_assignment_closure_def result_simps)
  let ?c = "\<lparr>cl_assignment_id = i, cl_idempotency_key = k, cl_kind = ClosureReleasedPrestart,
     cl_effective_at = t', cl_recorded_at = t', cl_worker = Some w, cl_cancellation_intent_digest = None\<rparr>"
  have "check_assignment_closure ?c = None"
    using cl(2-6) assms(3) by (auto simp: check_assignment_closure_def result_simps)
  moreover obtain d where d: "closure_request_digest cl = Inr d"
    using closure_request_digest_total [of cl] cl assms(4) by auto
  then have "closure_request_digest ?c = Inr d" using cl by (simp add: closure_request_digest_def)
  then have "close_precommit_assignment ?c v' s = Inr s"
    using close_precommit_replayed [OF cl(1) wf_run_check [OF assms(2)], of ?c d] cl d by simp
  ultimately show ?thesis
    by (simp add: run_release_precommit_assignment_def mk_assignment_closure_def result_simps assms(3))
qed

section \<open>Retry intents\<close>

lemma queue_adjudicated_replayed:
  assumes "run_queue_adjudicated_retry i v r = Inr s" "retry_intent_digest i = Inr d"
  shows "run_queue_adjudicated_retry i v' s = Inr s"
proof -
  have "\<exists>e. intent_by_id (ri_id i) (run_retry_intents s) = Some e \<and> retry_intent_digest e = retry_intent_digest i"
  proof (cases "intent_by_id (ri_id i) (run_retry_intents r)")
    case (Some e)
    with assms have "s = r" "retry_intent_digest e = retry_intent_digest i"
      by (auto simp: run_queue_adjudicated_retry_def retry_intent_replay_def result_simps split: if_splits)
    with Some show ?thesis by simp
  next
    case None
    with assms have "run_retry_intents s = run_retry_intents r @ [i]"
      by (auto simp: run_queue_adjudicated_retry_def retry_queued_run_def result_simps split: if_splits)
    with None show ?thesis by (simp add: intent_by_id_def find_append)
  qed
  with assms(2) show ?thesis by (auto simp: run_queue_adjudicated_retry_def retry_intent_replay_def)
qed

lemma queue_policy_replayed:
  assumes "run_queue_policy_retry i dc v r = Inr s" "retry_intent_digest i = Inr d"
  shows "run_queue_policy_retry i dc' v' s = Inr s"
proof -
  have "\<exists>e. intent_by_id (ri_id i) (run_retry_intents s) = Some e \<and> retry_intent_digest e = retry_intent_digest i"
  proof (cases "intent_by_id (ri_id i) (run_retry_intents r)")
    case (Some e)
    with assms have "s = r" "retry_intent_digest e = retry_intent_digest i"
      by (auto simp: run_queue_policy_retry_def retry_intent_replay_def result_simps split: if_splits)
    with Some show ?thesis by simp
  next
    case None
    with assms have "run_retry_intents s = run_retry_intents r @ [i]"
      by (auto simp: run_queue_policy_retry_def retry_queued_run_def result_simps split: if_splits)
    with None show ?thesis by (simp add: intent_by_id_def find_append)
  qed
  with assms(2) show ?thesis by (auto simp: run_queue_policy_retry_def retry_intent_replay_def)
qed

end
