(* ===== verification/Run_Samples.thy ===== *)
theory Run_Samples
  imports Run_History
begin

text \<open>
  A concrete Run driven through its life by commands of the model: planned, queued, offered,
  claimed, committed, lost, adjudicated, queued for retry, committed again; and the branches where
  it passes, is cancelled, or its reservation expires. Digests stay symbolic (\<open>the_digest\<close>), so no
  hash is evaluated. The witnesses of the properties are evaluations on these Runs.
\<close>

section \<open>The samples\<close>

definition sample_ref :: worker_ref where
  "sample_ref = \<lparr>wr_worker_id = ''w1'', wr_generation = 1\<rparr>"

definition sample_worker :: worker_generation where
  "sample_worker = \<lparr>wg_ref = sample_ref, wg_host_id = ''h'', wg_pool_id = ''p'', wg_cert_serial = ''c'',
     wg_agent_version = ''1'', wg_capabilities_digest = Digest ''caps'', wg_state = WorkerReady,
     wg_registered_at = utc 0, wg_state_changed_at = utc 1, wg_last_seen_at = Some (utc 1),
     wg_retired_at = None, wg_version = 1\<rparr>"

definition sample_created :: run where
  "sample_created = \<lparr>run_id = ''r'', run_state = RunPlanned, run_version = 0, run_current_fence = 0,
      run_assignments = [], run_current_assignment_id = None, run_attempts = [],
      run_retry_intents = [], run_pending_retry_intent_id = None, run_cancel_intent = None,
      run_cancellation_stop = None\<rparr>"

definition sample_offer :: assignment where
  "sample_offer = \<lparr>as_id = ''a1'', as_worker = sample_ref, as_spec_digest = Digest ''spec'',
     as_state = AssignmentOffered, as_offered_at = utc 10, as_expires_at = utc 20, as_claimed_at = None,
     as_committed_at = None, as_retry_intent_id = None, as_closure = None\<rparr>"

definition sample_queued :: run where
  "sample_queued = sample_created\<lparr>run_state := RunQueued, run_version := 1\<rparr>"

definition sample_offered :: run where
  "sample_offered = sample_created\<lparr>run_state := RunAssigned, run_version := 2,
     run_assignments := [sample_offer], run_current_assignment_id := Some ''a1''\<rparr>"

definition sample_claim :: assignment where
  "sample_claim = sample_offer\<lparr>as_state := AssignmentClaimed, as_claimed_at := Some (utc 11)\<rparr>"

definition sample_claimed :: run where
  "sample_claimed = sample_offered\<lparr>run_version := 3, run_assignments := [sample_claim]\<rparr>"

definition sample_commit :: assignment where
  "sample_commit = sample_claim\<lparr>as_state := AssignmentCommitted, as_committed_at := Some (utc 12)\<rparr>"

definition sample_attempt :: attempt where
  "sample_attempt = \<lparr>at_id = ''t1'', at_run_id = ''r'', at_attempt_no = 1, at_fence = 1,
        at_assignment_id = ''a1'', at_worker = sample_ref, at_spec_digest = Digest ''spec'',
        at_start_commit_key = ''k1'', at_events = [], at_evidence = None,
        at_unknown_observation = None, at_adjudications = [], at_state = AttemptStartCommitted,
        at_version = 0, at_retry_provenance = None\<rparr>"

definition sample_running :: run where
  "sample_running = sample_claimed\<lparr>run_state := RunRunning, run_version := 4, run_current_fence := 1,
     run_assignments := [sample_commit], run_attempts := [sample_attempt]\<rparr>"

lemma exec_create: "run_create ''r'' = Inr sample_created" by code_simp

lemma exec_plan: "exec_run (RunTransition RunQueued 0) sample_created = Inr sample_queued" by code_simp

lemma exec_offer1: "exec_run (RunOffer ''a1'' sample_worker \<lparr>wa_current_ref = sample_ref\<rparr> (Digest ''spec'') (utc 10) (utc 20) 1)
  sample_queued = Inr sample_offered" by code_simp

lemma exec_claim1: "exec_run (RunClaim ''a1'' sample_ref (utc 11) 2) sample_offered = Inr sample_claimed" by code_simp

definition the_digest :: "digest result \<Rightarrow> digest" where
  "the_digest m = (case m of Inr d \<Rightarrow> d | Inl e \<Rightarrow> Digest [])"

lemma the_digest_ok: "\<exists>d. m = Inr d \<Longrightarrow> m = Inr (the_digest m)"
  by (auto simp: the_digest_def)

definition sample_obs :: unknown_observation where
  "sample_obs = \<lparr>uo_id = ''u1'', uo_reason = WorkerLostAfterCommit, uo_source = Coordinator,
     uo_review_basis_digest = Digest ''basis'', uo_recorded_at = utc 13\<rparr>"

definition sample_obs_digest :: digest where
  "sample_obs_digest = the_digest (unknown_observation_digest sample_obs)"

lemma sample_obs_digest [simp]: "unknown_observation_digest sample_obs = Inr sample_obs_digest"
  unfolding sample_obs_digest_def by (rule the_digest_ok) (rule unknown_observation_digest_total)

definition sample_lost :: attempt where
  "sample_lost = sample_attempt\<lparr>at_state := AttemptUnknown, at_unknown_observation := Some sample_obs,
     at_version := 1\<rparr>"

definition sample_unknown :: run where
  "sample_unknown = sample_running\<lparr>run_version := 5, run_attempts := [sample_lost]\<rparr>"

lemmas run_check_defs = check_run_def run_checks_def run_field_checks_def
  validate_normalized_history_def history_pointer_checks_def pointer_checks_def
  attempt_position_checks_def provenance_checks_def history_fence_checks_def intent_checks_def
  assignment_checks_def history_order_checks_def assignment_epoch_def committed_assignments_def
  assignment_closed_at_def validate_cancel_intent_causality_def is_before_def
  latest_committed_at_def latest_closure_def find_last_def
  validate_cancellation_history_def validate_state_pointers_def phase_checks_def
  assigned_state_checks_def cancelled_state_checks_def evidence_snapshot_checks_def
  has_cancelled_outcome_def validate_assignment_epoch_tails_def epoch_tail_checks_def
  epoch_intent_id_def positions_def validate_retry_intent_consumption_def consumed_intent_ids_def
  run_assignment_def run_pending_retry_intent_def intent_by_id_def attempt_by_id_def
  assignment_by_id_def last_opt_def reject_if_def

lemmas sample_defs = sample_running_def sample_claimed_def sample_offered_def sample_created_def
  sample_commit_def sample_claim_def sample_offer_def sample_attempt_def sample_lost_def sample_unknown_def
  sample_ref_def
lemma sample_unknown_ok: "check_run sample_unknown = None"
  by (simp add: run_check_defs blank_eval sample_defs sample_obs_def Let_def)

definition sample_adj :: unknown_adjudication where
  "sample_adj = \<lparr>ua_id = ''d1'', ua_attempt_id = ''t1'',
     ua_unknown_observation_digest = sample_obs_digest, ua_decision = ConfirmStoppedThenRetry,
     ua_actor_id = ''ops'', ua_reason = ''host confirmed dead'', ua_occurred_at = utc 14,
     ua_proof_digest = Some (Digest ''proof''), ua_risk_approver_id = None,
     ua_risk_acceptance_digest = None, ua_evidence_root_digest = None,
     ua_supersedes_adjudication_id = None\<rparr>"

definition sample_adj_digest :: digest where
  "sample_adj_digest = the_digest (unknown_adjudication_digest sample_adj)"

lemma sample_adj_digest [simp]: "unknown_adjudication_digest sample_adj = Inr sample_adj_digest"
  unfolding sample_adj_digest_def by (rule the_digest_ok) (rule unknown_adjudication_digest_total)

definition sample_judged :: attempt where
  "sample_judged = sample_lost\<lparr>at_adjudications := [sample_adj], at_version := 2\<rparr>"

definition sample_adjudicated :: run where
  "sample_adjudicated = sample_unknown\<lparr>run_version := 6, run_attempts := [sample_judged]\<rparr>"

definition sample_intent :: retry_intent where
  "sample_intent = \<lparr>ri_id = ''i1'', ri_run_id = ''r'', ri_source_attempt_id = ''t1'',
     ri_source_attempt_no = 1, ri_source_fence = 1,
     ri_authority = UnknownAuthority \<lparr>ur_adjudication_id = ''d1'',
       ur_adjudication_digest = sample_adj_digest, ur_decision = ConfirmStoppedThenRetry\<rparr>,
     ri_execution_spec_digest = Digest ''spec'', ri_created_at = utc 15\<rparr>"

definition sample_intent_digest :: digest where
  "sample_intent_digest = the_digest (retry_intent_digest sample_intent)"

lemma sample_intent_digest [simp]: "retry_intent_digest sample_intent = Inr sample_intent_digest"
  unfolding sample_intent_digest_def
  by (rule the_digest_ok) (simp add: retry_intent_digest_def sample_intent_def canonical_digest_Inr safe_int_def)

definition sample_retry_queued :: run where
  "sample_retry_queued = sample_adjudicated\<lparr>run_state := RunRetryQueued, run_version := 7,
     run_current_assignment_id := None, run_retry_intents := [sample_intent],
     run_pending_retry_intent_id := Some ''i1''\<rparr>"

definition sample_offer2 :: assignment where
  "sample_offer2 = sample_offer\<lparr>as_id := ''a2'', as_offered_at := utc 30, as_expires_at := utc 40,
     as_retry_intent_id := Some ''i1''\<rparr>"

definition sample_offered2 :: run where
  "sample_offered2 = sample_retry_queued\<lparr>run_state := RunAssigned, run_version := 8,
     run_assignments := [sample_commit, sample_offer2], run_current_assignment_id := Some ''a2''\<rparr>"

definition sample_claim2 :: assignment where
  "sample_claim2 = sample_offer2\<lparr>as_state := AssignmentClaimed, as_claimed_at := Some (utc 31)\<rparr>"

definition sample_claimed2 :: run where
  "sample_claimed2 = sample_offered2\<lparr>run_version := 9, run_assignments := [sample_commit, sample_claim2]\<rparr>"

definition sample_commit2 :: assignment where
  "sample_commit2 = sample_claim2\<lparr>as_state := AssignmentCommitted, as_committed_at := Some (utc 32)\<rparr>"

definition sample_provenance :: retry_provenance where
  "sample_provenance = \<lparr>rv_retry_intent_id = ''i1'', rv_retry_intent_digest = sample_intent_digest,
     rv_source_attempt_id = ''t1'', rv_source_attempt_no = 1, rv_source_fence = 1,
     rv_authority = ri_authority sample_intent\<rparr>"

definition sample_attempt2 :: attempt where
  "sample_attempt2 = sample_attempt\<lparr>at_id := ''t2'', at_attempt_no := 2, at_fence := 2,
     at_assignment_id := ''a2'', at_start_commit_key := ''k2'',
     at_retry_provenance := Some sample_provenance\<rparr>"

definition sample_running2 :: run where
  "sample_running2 = sample_claimed2\<lparr>run_state := RunRunning, run_version := 10,
     run_current_fence := 2, run_assignments := [sample_commit, sample_commit2],
     run_attempts := [sample_judged, sample_attempt2], run_pending_retry_intent_id := None\<rparr>"

lemmas sample_defs2 = sample_adjudicated_def sample_judged_def sample_retry_queued_def
  sample_offer2_def sample_offered2_def sample_claim2_def sample_claimed2_def sample_commit2_def
  sample_provenance_def sample_attempt2_def sample_running2_def

lemma sample_intent_fields [simp]:
  "ri_id sample_intent = ''i1''" "ri_source_attempt_id sample_intent = ''t1''"
  "ri_run_id sample_intent = ''r''" "ri_source_attempt_no sample_intent = 1"
  "ri_source_fence sample_intent = 1" "ri_execution_spec_digest sample_intent = Digest ''spec''"
  "ri_created_at sample_intent = utc 15"
  "ri_authority sample_intent = UnknownAuthority \<lparr>ur_adjudication_id = ''d1'',
       ur_adjudication_digest = sample_adj_digest, ur_decision = ConfirmStoppedThenRetry\<rparr>"
  by (simp_all add: sample_intent_def)

lemma sample_adj_fields [simp]:
  "ua_id sample_adj = ''d1''" "ua_attempt_id sample_adj = ''t1''"
  "ua_unknown_observation_digest sample_adj = sample_obs_digest"
  "ua_decision sample_adj = ConfirmStoppedThenRetry" "ua_occurred_at sample_adj = utc 14"
  "ua_supersedes_adjudication_id sample_adj = None"
  by (simp_all add: sample_adj_def)

lemma sample_obs_fields [simp]: "uo_id sample_obs = ''u1''" "uo_recorded_at sample_obs = utc 13"
  by (simp_all add: sample_obs_def)

lemma sample_checks:
  "check_run sample_adjudicated = None" "check_run sample_retry_queued = None"
  "check_run sample_offered2 = None" "check_run sample_claimed2 = None" "check_run sample_running2 = None"
  by (simp_all add: run_check_defs blank_eval sample_defs sample_defs2 permits_retry_def Let_def)
section \<open>The commands that lead from one sample to the next\<close>

lemmas op_defs = run_mark_current_attempt_unknown_def mk_unknown_observation_def
  current_attempt_def check_attempt_authority_def attempt_mark_unknown_def
  attempt_ensure_authority_def replace_latest_attempt_def mk_run_def mk_attempt_def
  check_attempt_def adjudication_history_checks_def ensure_expected_version_def
  check_unknown_observation_def require_nonempty_string_def require_utc_def
  evidence_terminal_states_def attempt_terminal_states_def
  run_append_current_unknown_adjudication_def attempt_append_unknown_adjudication_def
  check_unknown_adjudication_def decision_basis_checks_def optional_nonempty_def require_basis_def
  forbid_basis_def run_queue_adjudicated_retry_def ensure_retry_intent_authoritative_def
  retry_queued_run_def check_retry_intent_def require_positive_integer_def
  mk_retry_intent_def check_unknown_retry_authority_def
  run_offer_assignment_def offer_guards_def worker_claimable_ref_def worker_ensure_authority_def
  assignment_offer_def pending_intent_id_def mk_assignment_def assignment_check_defs
  run_claim_assignment_def run_require_utc_def replace_current_assignment_def assignment_claim_def
  run_commit_start_def commit_start_fresh_def commit_start_provenance_def attempt_create_def
  assignment_commit_def retry_provenance_from_intent_def check_retry_provenance_def
  start_commit_digest_def canonical_digest_safe safe_int_def run_transition_def

lemmas eval_defs = op_defs run_check_defs blank_eval sample_defs sample_defs2 permits_retry_def Let_def

lemma exec_mark_unknown: "exec_run (RunMarkUnknown ''t1'' sample_obs 4 0) sample_running = Inr sample_unknown"
  by (simp add: eval_defs)

lemma exec_adjudicate: "exec_run (RunAdjudicate ''t1'' sample_adj 5 1) sample_unknown = Inr sample_adjudicated"
  by (simp add: eval_defs sample_adj_def)

lemma exec_queue_retry:
  "exec_run (RunQueueAdjudicatedRetry sample_intent 6) sample_adjudicated = Inr sample_retry_queued"
  by (simp add: eval_defs)

lemma exec_offer2:
  "exec_run (RunOffer ''a2'' sample_worker \<lparr>wa_current_ref = sample_ref\<rparr> (Digest ''spec'') (utc 30)
     (utc 40) 7) sample_retry_queued = Inr sample_offered2"
  by (simp add: eval_defs sample_worker_def)

lemma exec_claim2: "exec_run (RunClaim ''a2'' sample_ref (utc 31) 8) sample_offered2 = Inr sample_claimed2"
  by (simp add: eval_defs)

lemma exec_commit1:
  "run_commit_start ''a1'' sample_ref ''k1'' (Digest ''spec'') ''t1'' (utc 12) 3 sample_claimed =
     Inr \<lparr>sr_run = sample_running, sr_attempt = sample_attempt, sr_fence = 1, sr_replayed = False\<rparr>"
  by (simp add: eval_defs)

lemma exec_commit2:
  "run_commit_start ''a2'' sample_ref ''k2'' (Digest ''spec'') ''t2'' (utc 32) 9 sample_claimed2 =
     Inr \<lparr>sr_run = sample_running2, sr_attempt = sample_attempt2, sr_fence = 2, sr_replayed = False\<rparr>"
  by (simp add: eval_defs)
section \<open>A passed Attempt\<close>

definition sample_exit :: trusted_exit_facts where
  "sample_exit = \<lparr>te_source_event_id = ''e9'', te_pid = Some 7, te_exit_class = ExitCompleted,
     te_exit_code = Some 0, te_signal = None, te_oom = False, te_timeout = False\<rparr>"

definition sample_artifact :: verified_artifact where
  "sample_artifact = \<lparr>va_path = ArtifactPath ''junit.xml'', va_content_class = StructuredResult,
     va_size_bytes = 10, va_digest = Digest ''junit''\<rparr>"

definition sample_summary :: validated_case_summary where
  "sample_summary = \<lparr>su_schema_version = ''1'', su_source_artifact_path = ArtifactPath ''junit.xml'',
     su_source_artifact_digest = Digest ''junit'', su_expected = 2, su_passed = 2, su_failed = 0,
     su_skipped = 0, su_not_reported = 0, su_unexpected = 0\<rparr>"

definition sample_root :: digest where
  "sample_root = digest_of ''qep.m0-attempt-evidence.v1''
     (JObj (evidence_payload ''t1'' ''r'' 1 ''a1'' 1 sample_ref (Digest ''spec'') sample_exit
       (Some sample_summary) [sample_artifact] OutcomePassed))"

definition sample_manifest :: evidence_manifest where
  "sample_manifest =
     \<lparr>em_schema_version = ''qep.m0-attempt-evidence.v1'', em_attempt_id = ''t1'', em_run_id = ''r'',
      em_attempt_no = 1, em_assignment_id = ''a1'', em_fence = 1, em_worker = sample_ref,
      em_execution_spec_digest = Digest ''spec'', em_platform_exit = sample_exit,
      em_case_summary = Some sample_summary, em_artifacts = [sample_artifact],
      em_classification_version = classification_schema_version, em_outcome = OutcomePassed,
      em_root_digest = sample_root, em_cancellation_stop = None\<rparr>"

lemma sample_payload_safe:
  "json_safe (JObj (evidence_payload ''t1'' ''r'' 1 ''a1'' 1 sample_ref (Digest ''spec'') sample_exit
     (Some sample_summary) [sample_artifact] OutcomePassed))"
  by (simp add: evidence_payload_def worker_ref_json_def platform_exit_json_def case_summary_json_def
      artifact_json_def sample_exit_def sample_summary_def sample_artifact_def sample_ref_def safe_int_def)

lemma sample_build [simp]:
  "build_evidence_manifest ''t1'' ''r'' 1 ''a1'' 1 sample_ref (Digest ''spec'') (Some sample_exit)
     (Some sample_summary) [sample_artifact] None = Inr sample_manifest"
proof -
  have "classify_outcome sample_exit (Some sample_summary) None = Inr OutcomePassed"
    by (simp add: classify_outcome_def sample_exit_def sample_summary_def)
  moreover have "ensure_case_summary_source (Some sample_summary) [sample_artifact] = Inr ()"
    by (simp add: ensure_case_summary_source_def sample_summary_def sample_artifact_def)
  moreover have "sort_artifacts [sample_artifact] = [sample_artifact]" by (simp add: sort_artifacts_def)
  ultimately show ?thesis
    by (simp add: build_evidence_manifest_def ensure_cancellation_stop_binding_def sealed_payload_def
        canonical_digest_safe [OF sample_payload_safe] sample_manifest_def sample_root_def Let_def)
qed

lemma sample_manifest_fields [simp]:
  "em_outcome sample_manifest = OutcomePassed" "em_platform_exit sample_manifest = sample_exit"
  "em_case_summary sample_manifest = Some sample_summary" "em_artifacts sample_manifest = [sample_artifact]"
  "em_cancellation_stop sample_manifest = None" "em_root_digest sample_manifest = sample_root"
  by (simp_all add: sample_manifest_def)

definition sample_provisioning :: run where
  "sample_provisioning = sample_running\<lparr>run_version := 5,
     run_attempts := [sample_attempt\<lparr>at_state := AttemptProvisioning, at_version := 1\<rparr>]\<rparr>"

definition sample_uploading :: run where
  "sample_uploading = sample_running\<lparr>run_version := 6,
     run_attempts := [sample_attempt\<lparr>at_state := AttemptUploading, at_version := 2\<rparr>]\<rparr>"

definition sample_passed :: run where
  "sample_passed = sample_running\<lparr>run_version := 7,
     run_attempts := [sample_attempt\<lparr>at_state := AttemptPassed, at_version := 3,
       at_evidence := Some sample_manifest\<rparr>]\<rparr>"

definition sample_authority :: attempt_authority where
  "sample_authority = \<lparr>aa_current_fence = 1, aa_current_worker = sample_ref\<rparr>"

lemma exec_provision:
  "exec_run (RunTransitionAttempt ''t1'' AttemptProvisioning 4 0) sample_running = Inr sample_provisioning"
  by (simp add: eval_defs run_transition_current_attempt_def attempt_transition_def sample_provisioning_def)

lemma exec_upload:
  "exec_run (RunTransitionAttempt ''t1'' AttemptUploading 5 1) sample_provisioning = Inr sample_uploading"
  by (simp add: eval_defs run_transition_current_attempt_def attempt_transition_def
      sample_provisioning_def sample_uploading_def)

lemma exec_finalize:
  "exec_run (RunFinalize ''t1'' \<lparr>ep_root_digest = sample_root\<rparr> (Some sample_exit) (Some sample_summary)
     [sample_artifact] \<lparr>er_required_artifact_paths = []\<rparr> sample_authority sample_ref 1 6 2)
     sample_uploading = Inr sample_passed"
  by (simp add: eval_defs run_finalize_current_attempt_evidence_def attempt_finalize_evidence_def
      attempt_finalize_def missing_artifact_paths_def sample_passed_def sample_uploading_def
      sample_authority_def rebuild_evidence_def sample_build [unfolded sample_ref_def])

section \<open>A failed Attempt and its policy retry\<close>

definition sample_fail_exit :: trusted_exit_facts where
  "sample_fail_exit = sample_exit\<lparr>te_exit_code := Some 1\<rparr>"

definition sample_fail_summary :: validated_case_summary where
  "sample_fail_summary = sample_summary\<lparr>su_passed := 1, su_failed := 1\<rparr>"

definition sample_fail_payload :: "(string \<times> json) list" where
  "sample_fail_payload = evidence_payload ''t1'' ''r'' 1 ''a1'' 1 sample_ref (Digest ''spec'')
     sample_fail_exit (Some sample_fail_summary) [sample_artifact] OutcomeTestFailed"

definition sample_fail_manifest :: evidence_manifest where
  "sample_fail_manifest = sample_manifest\<lparr>em_platform_exit := sample_fail_exit,
     em_case_summary := Some sample_fail_summary, em_outcome := OutcomeTestFailed,
     em_root_digest := digest_of ''qep.m0-attempt-evidence.v1'' (JObj sample_fail_payload)\<rparr>"

lemma sample_fail_payload_safe: "json_safe (JObj sample_fail_payload)"
  by (simp add: sample_fail_payload_def evidence_payload_def worker_ref_json_def platform_exit_json_def
      case_summary_json_def artifact_json_def sample_fail_exit_def sample_exit_def
      sample_fail_summary_def sample_summary_def sample_artifact_def sample_ref_def safe_int_def)

lemma sample_fail_build:
  "build_evidence_manifest ''t1'' ''r'' 1 ''a1'' 1 sample_ref (Digest ''spec'') (Some sample_fail_exit)
     (Some sample_fail_summary) [sample_artifact] None = Inr sample_fail_manifest"
proof -
  have "classify_outcome sample_fail_exit (Some sample_fail_summary) None = Inr OutcomeTestFailed"
    by (simp add: classify_outcome_def sample_fail_exit_def sample_exit_def sample_fail_summary_def
        sample_summary_def)
  moreover have "ensure_case_summary_source (Some sample_fail_summary) [sample_artifact] = Inr ()"
    by (simp add: ensure_case_summary_source_def sample_fail_summary_def sample_summary_def sample_artifact_def)
  moreover have "sort_artifacts [sample_artifact] = [sample_artifact]" by (simp add: sort_artifacts_def)
  ultimately show ?thesis
    using canonical_digest_safe [OF sample_fail_payload_safe, of "''qep.m0-attempt-evidence.v1''"]
    by (simp add: build_evidence_manifest_def ensure_cancellation_stop_binding_def sealed_payload_def
        sample_fail_manifest_def sample_manifest_def sample_fail_payload_def Let_def)
qed

lemma sample_fail_manifest_fields [simp]:
  "em_outcome sample_fail_manifest = OutcomeTestFailed"
  "em_platform_exit sample_fail_manifest = sample_fail_exit"
  "em_case_summary sample_fail_manifest = Some sample_fail_summary"
  "em_artifacts sample_fail_manifest = [sample_artifact]"
  "em_cancellation_stop sample_fail_manifest = None"
  by (simp_all add: sample_fail_manifest_def)

definition sample_failed :: run where
  "sample_failed = sample_running\<lparr>run_version := 7,
     run_attempts := [sample_attempt\<lparr>at_state := AttemptTestFailed, at_version := 3,
       at_evidence := Some sample_fail_manifest\<rparr>]\<rparr>"

lemma exec_fail:
  "exec_run (RunFinalize ''t1'' \<lparr>ep_root_digest = em_root_digest sample_fail_manifest\<rparr>
     (Some sample_fail_exit) (Some sample_fail_summary) [sample_artifact]
     \<lparr>er_required_artifact_paths = []\<rparr> sample_authority sample_ref 1 6 2)
     sample_uploading = Inr sample_failed"
  by (simp add: eval_defs run_finalize_current_attempt_evidence_def attempt_finalize_evidence_def
      attempt_finalize_def missing_artifact_paths_def sample_failed_def sample_uploading_def
      sample_authority_def rebuild_evidence_def sample_fail_build [unfolded sample_ref_def])

definition sample_policy_authority :: policy_retry_authority where
  "sample_policy_authority = \<lparr>pr_family = SuiteFamily, pr_decision_source_kind = SuitePolicyKind,
     pr_policy_digest = Digest ''policy'', pr_authority_schema = ''s'', pr_authority_id = ''auth'',
     pr_authority_version = 1, pr_authority_digest = Digest ''auth'', pr_source_outcome = FactTestFailed,
     pr_item_resolution_set_digest = Digest ''res'', pr_source_item_set_digest = Digest ''items'',
     pr_target_item_set_digest = Digest ''items''\<rparr>"

definition sample_policy_intent :: retry_intent where
  "sample_policy_intent = \<lparr>ri_id = ''i9'', ri_run_id = ''r'', ri_source_attempt_id = ''t1'',
     ri_source_attempt_no = 1, ri_source_fence = 1, ri_authority = PolicyAuthority sample_policy_authority,
     ri_execution_spec_digest = Digest ''spec'', ri_created_at = utc 20\<rparr>"

definition sample_policy_digest :: digest where
  "sample_policy_digest = the_digest (retry_intent_digest sample_policy_intent)"

lemma sample_policy_digest [simp]: "retry_intent_digest sample_policy_intent = Inr sample_policy_digest"
  unfolding sample_policy_digest_def
  by (rule the_digest_ok) (simp add: retry_intent_digest_def sample_policy_intent_def
      sample_policy_authority_def canonical_digest_Inr safe_int_def)

lemma sample_policy_intent_fields [simp]:
  "ri_id sample_policy_intent = ''i9''" "ri_source_attempt_id sample_policy_intent = ''t1''"
  "ri_run_id sample_policy_intent = ''r''" "ri_source_attempt_no sample_policy_intent = 1"
  "ri_source_fence sample_policy_intent = 1" "ri_execution_spec_digest sample_policy_intent = Digest ''spec''"
  "ri_created_at sample_policy_intent = utc 20"
  "ri_authority sample_policy_intent = PolicyAuthority sample_policy_authority"
  by (simp_all add: sample_policy_intent_def)

definition sample_source :: retry_source_fact where
  "sample_source = \<lparr>sf_run_id = ''r'', sf_run_version = 7, sf_attempt_id = ''t1'', sf_attempt_no = 1,
     sf_attempt_fence = 1, sf_outcome = FactTestFailed, sf_reason_class = ''assertion'',
     sf_reason_code = ''flaky'', sf_item_resolution_set_digest = Digest ''res'',
     sf_source_item_set_digest = Digest ''items'', sf_target_item_set_digest = Digest ''items'',
     sf_prior_execution_stop_digest = None\<rparr>"

definition sample_decision :: run_retry_decision where
  "sample_decision =
     \<lparr>rd_source = sample_source, rd_retry_scope = FullRun, rd_decision = DecisionRetry,
      rd_decision_source_kind = SuitePolicyKind, rd_reason_class = ''assertion'',
      rd_reason_code = ''flaky'', rd_retry_intent_digest = Some sample_policy_digest,
      rd_authority_schema = Some ''s'', rd_authority_id = Some ''auth'', rd_authority_version = Some 1,
      rd_authority_digest = Some (Digest ''auth''), rd_policy_digest = Some (Digest ''policy''),
      rd_prior_execution_stop_digest = None,
      rd_budget = \<lparr>rb_max_retries = 1, rb_max_execution_seconds = 60, rb_max_resource_unit_seconds = 60\<rparr>,
      rd_usage = \<lparr>ru_retry_count = 0, ru_execution_seconds = 0, ru_resource_unit_seconds = 0\<rparr>,
      rd_requested = \<lparr>rq_execution_seconds = 10, rq_resource_unit_seconds = 10\<rparr>,
      rd_decided_at = utc 20\<rparr>"

definition sample_policy_queued :: run where
  "sample_policy_queued = sample_failed\<lparr>run_state := RunRetryQueued, run_version := 8,
     run_current_assignment_id := None, run_retry_intents := [sample_policy_intent],
     run_pending_retry_intent_id := Some ''i9''\<rparr>"

lemma exec_policy_retry:
  "run_queue_policy_retry sample_policy_intent sample_decision 7 sample_failed = Inr sample_policy_queued"
  by (simp add: eval_defs run_queue_policy_retry_def ensure_policy_retry_intent_authoritative_def
      sample_failed_def sample_policy_queued_def sample_decision_def sample_source_def
      sample_policy_authority_def rebuild_evidence_def sample_fail_build [unfolded sample_ref_def])

lemma sample_policy_queued_neq: "sample_policy_queued \<noteq> sample_failed"
  by (auto dest: arg_cong [where f = run_state] simp: sample_policy_queued_def sample_failed_def sample_running_def)

section \<open>An event\<close>

definition sample_event :: attempt_event where
  "sample_event = \<lparr>ev_event_id = ''ev1'', ev_event_seq = 1, ev_event_type = ''started'',
     ev_payload_digest = Digest ''payload''\<rparr>"

definition sample_evented :: run where
  "sample_evented = sample_running\<lparr>run_version := 5,
     run_attempts := [sample_attempt\<lparr>at_events := [sample_event], at_version := 1\<rparr>]\<rparr>"

lemma exec_event:
  "run_record_current_attempt_event ''t1'' sample_event sample_authority sample_ref 1 4 0 sample_running =
     Inr sample_evented"
  by (simp add: eval_defs run_record_current_attempt_event_def attempt_record_event_def next_event_seq_def
      sample_authority_def sample_evented_def sample_event_def)

section \<open>Cancellation and closed reservations\<close>

definition sample_cancel :: cancellation_intent where
  "sample_cancel = \<lparr>ci_run_id = ''r'', ci_idempotency_key = ''c1'', ci_source = UserRequest,
     ci_actor_id = ''alice'', ci_reason = ''stop'', ci_recorded_at = utc 13\<rparr>"

definition sample_cancelling :: run where
  "sample_cancelling = sample_running\<lparr>run_version := 5, run_cancel_intent := Some sample_cancel\<rparr>"

definition sample_cancelled :: run where
  "sample_cancelled = sample_queued\<lparr>run_state := RunCancelled, run_version := 2,
     run_cancel_intent := Some sample_cancel\<rparr>"

definition sample_expiry :: assignment_closure where
  "sample_expiry = \<lparr>cl_assignment_id = ''a1'', cl_idempotency_key = ''x1'',
     cl_kind = ClosureExpiredPrestart, cl_effective_at = utc 20, cl_recorded_at = utc 25,
     cl_worker = None, cl_cancellation_intent_digest = None\<rparr>"

definition sample_expired :: run where
  "sample_expired = sample_queued\<lparr>run_version := 3,
     run_assignments := [sample_offer\<lparr>as_state := AssignmentExpiredPrestart,
       as_closure := Some sample_expiry\<rparr>]\<rparr>"

definition sample_release :: assignment_closure where
  "sample_release = \<lparr>cl_assignment_id = ''a1'', cl_idempotency_key = ''x2'',
     cl_kind = ClosureReleasedPrestart, cl_effective_at = utc 15, cl_recorded_at = utc 15,
     cl_worker = Some sample_ref, cl_cancellation_intent_digest = None\<rparr>"

definition sample_released :: run where
  "sample_released = sample_queued\<lparr>run_version := 3,
     run_assignments := [sample_offer\<lparr>as_state := AssignmentReleasedPrestart,
       as_closure := Some sample_release\<rparr>]\<rparr>"

lemmas cancel_defs = run_request_cancel_def mk_cancellation_intent_def check_cancellation_intent_def
  run_cancel_fresh_def cancel_time_check_def sample_cancel_def sample_cancelling_def
  sample_cancelled_def sample_queued_def

lemma exec_cancel_running:
  "exec_run (RunRequestCancel ''c1'' UserRequest ''alice'' ''stop'' (utc 13) 4) sample_running =
     Inr sample_cancelling"
  by (simp add: eval_defs cancel_defs)

lemma exec_cancel_queued:
  "exec_run (RunRequestCancel ''c1'' UserRequest ''alice'' ''stop'' (utc 13) 1) sample_queued =
     Inr sample_cancelled"
  by (simp add: eval_defs cancel_defs)

lemmas close_defs = run_expire_precommit_assignment_def run_release_precommit_assignment_def
  mk_assignment_closure_def check_assignment_closure_def close_precommit_assignment_def
  close_precommit_fresh_def close_guards_def assignment_close_prestart_def sample_expiry_def
  sample_expired_def sample_release_def sample_released_def sample_queued_def

lemma exec_expire:
  "exec_run (RunExpire ''a1'' ''x1'' (utc 25) 2) sample_offered = Inr sample_expired"
  by (simp add: eval_defs close_defs)

lemma exec_release:
  "exec_run (RunRelease ''a1'' sample_ref ''x2'' (utc 15) 2) sample_offered = Inr sample_released"
  by (simp add: eval_defs close_defs)
section \<open>A cancelled Attempt\<close>

definition sample_cancel_digest :: digest where
  "sample_cancel_digest = the_digest (cancellation_intent_digest sample_cancel)"

lemma sample_cancel_digest [simp]: "cancellation_intent_digest sample_cancel = Inr sample_cancel_digest"
  unfolding sample_cancel_digest_def by (rule the_digest_ok) (rule cancellation_intent_digest_total)

definition sample_stop :: trusted_cancellation_stop where
  "sample_stop = \<lparr>cs_run_id = ''r'', cs_attempt_id = ''t1'', cs_fence = 1, cs_worker = sample_ref,
     cs_cancellation_intent_digest = sample_cancel_digest, cs_source_event_id = ''e9'',
     cs_process_stopped_at = utc 16, cs_sut_access_stopped_at = utc 17, cs_recorded_at = utc 18\<rparr>"

definition sample_stop_digest :: digest where
  "sample_stop_digest = the_digest (trusted_cancellation_stop_digest sample_stop)"

lemma sample_stop_digest: "trusted_cancellation_stop_digest sample_stop = Inr sample_stop_digest"
  unfolding sample_stop_digest_def
  by (rule the_digest_ok)
    (simp add: trusted_cancellation_stop_digest_def sample_stop_def worker_ref_json_def sample_ref_def
      canonical_digest_Inr safe_int_def)

definition sample_cancel_exit :: trusted_exit_facts where
  "sample_cancel_exit = sample_exit\<lparr>te_exit_class := ExitCancelled, te_exit_code := None\<rparr>"

definition sample_cancel_payload :: "(string \<times> json) list" where
  "sample_cancel_payload =
     evidence_payload ''t1'' ''r'' 1 ''a1'' 1 sample_ref (Digest ''spec'') sample_cancel_exit None []
       OutcomeCancelled @ [(''cancellation_stop'', stop_json sample_stop sample_stop_digest)]"

definition sample_cancel_manifest :: evidence_manifest where
  "sample_cancel_manifest =
     \<lparr>em_schema_version = ''qep.m0-attempt-evidence.v2'', em_attempt_id = ''t1'', em_run_id = ''r'',
      em_attempt_no = 1, em_assignment_id = ''a1'', em_fence = 1, em_worker = sample_ref,
      em_execution_spec_digest = Digest ''spec'', em_platform_exit = sample_cancel_exit,
      em_case_summary = None, em_artifacts = [],
      em_classification_version = classification_schema_version, em_outcome = OutcomeCancelled,
      em_root_digest = digest_of ''qep.m0-attempt-evidence.v2'' (JObj sample_cancel_payload),
      em_cancellation_stop = Some sample_stop\<rparr>"

lemma sample_cancel_payload_safe: "json_safe (JObj sample_cancel_payload)"
  by (simp add: sample_cancel_payload_def evidence_payload_def worker_ref_json_def
      platform_exit_json_def case_summary_json_def stop_json_def sample_cancel_exit_def
      sample_exit_def sample_ref_def safe_int_def)

lemma sample_cancel_build:
  "build_evidence_manifest ''t1'' ''r'' 1 ''a1'' 1 sample_ref (Digest ''spec'')
     (Some sample_cancel_exit) None [] (Some sample_stop) = Inr sample_cancel_manifest"
proof -
  have "classify_outcome sample_cancel_exit None (Some sample_stop) = Inr OutcomeCancelled"
    by (simp add: classify_outcome_def sample_cancel_exit_def)
  moreover have "ensure_cancellation_stop_binding ''r'' ''t1'' 1 sample_ref sample_cancel_exit
      (Some sample_stop) = Inr ()"
    by (simp add: ensure_cancellation_stop_binding_def sample_cancel_exit_def sample_exit_def sample_stop_def)
  ultimately show ?thesis
    using canonical_digest_safe [OF sample_cancel_payload_safe, of "''qep.m0-attempt-evidence.v2''"]
    by (simp add: build_evidence_manifest_def ensure_case_summary_source_def sealed_payload_def
        sort_artifacts_def sample_stop_digest sample_cancel_manifest_def sample_cancel_payload_def Let_def)
qed

lemma sample_cancel_manifest_fields [simp]:
  "em_outcome sample_cancel_manifest = OutcomeCancelled"
  "em_platform_exit sample_cancel_manifest = sample_cancel_exit"
  "em_case_summary sample_cancel_manifest = None" "em_artifacts sample_cancel_manifest = []"
  "em_cancellation_stop sample_cancel_manifest = Some sample_stop"
  by (simp_all add: sample_cancel_manifest_def)

lemma sample_stop_fields [simp]:
  "cs_run_id sample_stop = ''r''" "cs_attempt_id sample_stop = ''t1''" "cs_fence sample_stop = 1"
  "cs_worker sample_stop = sample_ref" "cs_cancellation_intent_digest sample_stop = sample_cancel_digest"
  "stop_floor sample_stop = 16" "check_trusted_cancellation_stop sample_stop = None"
  by (simp_all add: sample_stop_def stop_floor_def check_trusted_cancellation_stop_def blank_eval
      require_nonempty_string_def require_positive_integer_def require_utc_def reject_if_def Let_def)

definition sample_stopping :: run where
  "sample_stopping = sample_running\<lparr>run_version := 7, run_cancel_intent := Some sample_cancel,
     run_attempts := [sample_attempt\<lparr>at_state := AttemptUploading, at_version := 2\<rparr>]\<rparr>"

definition sample_converged :: run where
  "sample_converged = sample_running\<lparr>run_state := RunCancelled, run_version := 8,
     run_current_assignment_id := None, run_cancel_intent := Some sample_cancel,
     run_attempts := [sample_attempt\<lparr>at_state := AttemptCancelled, at_version := 3,
       at_evidence := Some sample_cancel_manifest\<rparr>],
     run_cancellation_stop := Some sample_stop\<rparr>"

lemma exec_cancel_uploading:
  "exec_run (RunRequestCancel ''c1'' UserRequest ''alice'' ''stop'' (utc 13) 6) sample_uploading =
     Inr sample_stopping"
  by (simp add: eval_defs cancel_defs sample_uploading_def sample_stopping_def)

lemma sample_cancel_fields [simp]:
  "ci_run_id sample_cancel = ''r''" "ci_recorded_at sample_cancel = utc 13"
  by (simp_all add: sample_cancel_def)

lemma exec_converge:
  "exec_run (RunFinalizeCancelled ''t1'' \<lparr>ep_root_digest = em_root_digest sample_cancel_manifest\<rparr>
     (Some sample_cancel_exit) sample_stop None [] \<lparr>er_required_artifact_paths = []\<rparr>
     sample_authority sample_ref 1 7 2) sample_stopping = Inr sample_converged"
  by (simp add: eval_defs run_finalize_cancelled_attempt_evidence_def cancelled_finalize_guard_def
      attempt_finalize_cancellation_evidence_def attempt_finalize_def missing_artifact_paths_def
      sample_stopping_def sample_converged_def sample_authority_def rebuild_evidence_def
      stop_binding_checks_def sample_cancel_build [unfolded sample_ref_def])

section \<open>All samples are reachable\<close>

lemma reachable_queued: "reachable_run sample_queued"
  by (rule reachable_exec [OF reachable_create [OF exec_create] exec_plan])

lemma reachable_offered: "reachable_run sample_offered"
  by (rule reachable_exec [OF reachable_queued exec_offer1])

lemma reachable_claimed: "reachable_run sample_claimed"
  by (rule reachable_exec [OF reachable_offered exec_claim1])

lemma reachable_running: "reachable_run sample_running"
  by (rule reachable_exec [OF reachable_claimed,
        of "RunCommitStart ''a1'' sample_ref ''k1'' (Digest ''spec'') ''t1'' (utc 12) 3"])
    (simp add: exec_commit1)

lemma reachable_unknown: "reachable_run sample_unknown"
  by (rule reachable_exec [OF reachable_running exec_mark_unknown])

lemma reachable_adjudicated: "reachable_run sample_adjudicated"
  by (rule reachable_exec [OF reachable_unknown exec_adjudicate])

lemma reachable_retry_queued: "reachable_run sample_retry_queued"
  by (rule reachable_exec [OF reachable_adjudicated exec_queue_retry])

lemma reachable_claimed2: "reachable_run sample_claimed2"
  by (rule reachable_exec [OF reachable_exec [OF reachable_retry_queued exec_offer2] exec_claim2])

lemma reachable_running2: "reachable_run sample_running2"
  by (rule reachable_exec [OF reachable_claimed2,
        of "RunCommitStart ''a2'' sample_ref ''k2'' (Digest ''spec'') ''t2'' (utc 32) 9"])
    (simp add: exec_commit2)

lemma reachable_uploading: "reachable_run sample_uploading"
  by (rule reachable_exec [OF reachable_exec [OF reachable_running exec_provision] exec_upload])

lemma reachable_passed: "reachable_run sample_passed"
  by (rule reachable_exec [OF reachable_uploading exec_finalize])

lemma reachable_cancelling: "reachable_run sample_cancelling"
  by (rule reachable_exec [OF reachable_running exec_cancel_running])

lemma reachable_cancelled: "reachable_run sample_cancelled"
  by (rule reachable_exec [OF reachable_queued exec_cancel_queued])

lemma reachable_expired: "reachable_run sample_expired"
  by (rule reachable_exec [OF reachable_offered exec_expire])

lemma reachable_released: "reachable_run sample_released"
  by (rule reachable_exec [OF reachable_offered exec_release])

lemma reachable_converged: "reachable_run sample_converged"
  by (rule reachable_exec [OF reachable_exec [OF reachable_uploading exec_cancel_uploading] exec_converge])

lemma reachable_evented: "reachable_run sample_evented"
proof -
  have "check_attempt_event sample_event = None"
    by (simp add: check_attempt_event_def sample_event_def blank_eval reject_if_def)
  then have "exec_run (RunRecordEvent ''t1'' sample_event sample_authority sample_ref 1 4 0)
      sample_running = Inr sample_evented"
    by (simp add: exec_event)
  then show ?thesis by (rule reachable_exec [OF reachable_running])
qed

end
