(* ===== verification/Execution_Properties.thy ===== *)
theory Execution_Properties
  imports Run_Samples
begin

text \<open>
  The safety properties of the execution core: what holds of every Run that the commands can
  reach, and of every later history of it. Each witness applies the property to a sample Run.
\<close>

section \<open>Live executions, fences and retries\<close>

text \<open>
  C1: In every reachable Run at most one Attempt is live (not in a terminal state): it is the
  latest one, the Run is RUNNING and no retry is pending. A second execution is never started
  beside a live one.
\<close>

theorem one_live_attempt:
  assumes "reachable_run r" "a \<in> set (run_attempts r)" "at_state a \<notin> set attempt_terminal_states"
  shows "last_opt (run_attempts r) = Some a \<and> run_state r = RunRunning \<and> run_pending_retry_intent r = None"
proof -
  have wf: "wf_run r" using assms(1) by (rule reachable_wf)
  obtain i where i: "i < length (run_attempts r)" "run_attempts r ! i = a"
    using assms(2) by (auto simp: in_set_conv_nth)
  have "\<not> Suc i < length (run_attempts r)"
    using wf_run_earlier_terminal [OF wf] assms(3) i by (auto simp: attempt_terminal_states_def)
  with i have "run_attempts r = take i (run_attempts r) @ [a]"
    by (metis Suc_lessI append_take_drop_id take_Suc_conv_app_nth take_all_iff le_refl)
  with wf_run_live_phase [OF wf _ assms(3)] show ?thesis by (metis last_opt_append1)
qed

theorem one_live_attempt_witness:
  "last_opt (run_attempts sample_running2) = Some sample_attempt2 \<and>
   run_state sample_running2 = RunRunning \<and> run_pending_retry_intent sample_running2 = None"
  by (rule one_live_attempt [OF reachable_running2])
    (simp_all add: sample_defs sample_defs2 attempt_terminal_states_def)

text \<open>
  C2: An Attempt is followed by another one only with a recorded authority: either it ended
  test_failed or infra_failed, or it is unknown and its chain-tail adjudication permits a retry and
  carries a stop proof or a named approver's acceptance of the duplicate risk. The successor runs
  the same execution spec. Unknown never defaults to a retry.
\<close>

theorem successor_needs_authority:
  assumes "reachable_run r" "Suc i < length (run_attempts r)"
  shows "(at_state (run_attempts r ! i) \<in> {AttemptTestFailed, AttemptInfraFailed} \<or>
     at_state (run_attempts r ! i) = AttemptUnknown \<and>
     (\<exists>adj. last_opt (at_adjudications (run_attempts r ! i)) = Some adj \<and> permits_retry (ua_decision adj) \<and>
        (ua_proof_digest adj \<noteq> None \<or>
         ua_risk_approver_id adj \<noteq> None \<and> ua_risk_acceptance_digest adj \<noteq> None))) \<and>
    at_spec_digest (run_attempts r ! Suc i) = at_spec_digest (run_attempts r ! i)"
proof -
  let ?a = "run_attempts r ! i"
  have wf: "wf_run r" using assms(1) by (rule reachable_wf)
  obtain t where f: "followed_by r t ?a (run_attempts r ! Suc i)"
    using check_run_followed [OF wf_run_check [OF wf] assms(2)] .
  have wa: "wf_attempt ?a" using assms(2) by (intro wf_run_attempt [OF wf]) simp
  have b: "retry_basis t ?a" using f by (simp add: followed_by_def)
  have "at_state ?a \<in> {AttemptTestFailed, AttemptInfraFailed} \<or>
     at_state ?a = AttemptUnknown \<and>
     (\<exists>adj. last_opt (at_adjudications ?a) = Some adj \<and> permits_retry (ua_decision adj) \<and>
        (ua_proof_digest adj \<noteq> None \<or>
         ua_risk_approver_id adj \<noteq> None \<and> ua_risk_acceptance_digest adj \<noteq> None))"
  proof (cases "ri_authority t")
    case (PolicyAuthority pa)
    with b show ?thesis by (cases "pr_source_outcome pa") (auto simp: retry_basis_def)
  next
    case (UnknownAuthority ua)
    with b obtain adj where adj: "last_opt (at_adjudications ?a) = Some adj" "permits_retry (ua_decision adj)"
      by (auto simp: retry_basis_def split: option.splits)
    then have "adj \<in> set (at_adjudications ?a)" by (auto simp: last_opt_Some_iff)
    with wa have "check_unknown_adjudication adj = None" "at_adjudications ?a \<noteq> []"
      by (auto simp: wf_attempt_def list_all_iff)
    with adj permits_retry_basis [of adj] check_attempt_adjudicated wf_attempt_check [OF wa]
    show ?thesis by blast
  qed
  with f show ?thesis by (simp add: followed_by_def)
qed

theorem successor_needs_authority_witness:
  "at_state sample_judged = AttemptUnknown \<and>
   (\<exists>adj. last_opt (at_adjudications sample_judged) = Some adj \<and> permits_retry (ua_decision adj))"
  using successor_needs_authority [OF reachable_running2, of 0]
  by (auto simp: sample_defs sample_defs2)

text \<open>
  In every reachable Run the fences of the Attempts, and their numbers, are 1, 2, 3, ... in
  order, and the current fence is the number of Attempts. A fence is never reused or skipped.
\<close>

theorem fences_count_attempts:
  assumes "reachable_run r"
  shows "map at_fence (run_attempts r) = map int [1..<length (run_attempts r) + 1] \<and>
    map at_attempt_no (run_attempts r) = map int [1..<length (run_attempts r) + 1] \<and>
    run_current_fence r = int (length (run_attempts r))"
proof -
  have c: "check_run r = None" using assms by (intro wf_run_check reachable_wf)
  show ?thesis
    using check_run_fence [OF c] map_eq_upt check_run_position(2,3) [OF c] by blast
qed

theorem fences_count_attempts_witness: "map at_fence [sample_judged, sample_attempt2] = [1, 2]"
  using fences_count_attempts [OF reachable_running2] by (simp add: sample_defs sample_defs2)

text \<open>
  The fence rises only when the start of a new Attempt is committed from ASSIGNED, and then by
  exactly one; every other successful command leaves the fence and the number of Attempts alone.
\<close>

theorem fence_rises_with_start_commit:
  assumes "reachable_run r" "exec_run c r = Inr s"
  shows "run_current_fence s = run_current_fence r \<and> length (run_attempts s) = length (run_attempts r) \<or>
    run_state r = RunAssigned \<and> run_current_fence s = run_current_fence r + 1 \<and>
    length (run_attempts s) = length (run_attempts r) + 1"
  by (rule exec_run_fence [OF assms(2) reachable_wf [OF assms(1)]])

theorem fence_rises_with_start_commit_witness:
  "run_current_fence sample_unknown = run_current_fence sample_running"
  using fence_rises_with_start_commit [OF reachable_running exec_mark_unknown]
  by (auto simp: sample_defs)

section \<open>Exactly-once start\<close>

text \<open>
  C3: A start-commit key starts at most one execution: after a successful start commit, any later
  successful start commit with that key, whatever its other arguments, is a replay that leaves the
  Run unchanged and returns the Attempt (same frozen identity) and the fence of the first.
\<close>

theorem start_commit_exactly_once:
  assumes "reachable_run r" "run_commit_start i w k d n t v r = Inr res"
    "history exec_run (sr_run res) s" "run_commit_start i' w' k d' n' t' v' s = Inr res'"
  shows "sr_replayed res' \<and> sr_run res' = s \<and> sr_fence res' = sr_fence res \<and>
    attempt_identity (sr_attempt res') = attempt_identity (sr_attempt res)"
  by (rule commit_start_once [OF reachable_wf [OF assms(1)] assms(2-4)])

lemma replay_on_provisioning:
  "run_commit_start ''a1'' sample_ref ''k1'' (Digest ''spec'') ''other'' (utc 99) 77 sample_provisioning =
     Inr \<lparr>sr_run = sample_provisioning,
          sr_attempt = sample_attempt\<lparr>at_state := AttemptProvisioning, at_version := 1\<rparr>,
          sr_fence = 1, sr_replayed = True\<rparr>"
  by (simp add: eval_defs commit_start_replay_def sample_provisioning_def)

theorem start_commit_exactly_once_witness:
  "attempt_identity (sample_attempt\<lparr>at_state := AttemptProvisioning, at_version := 1\<rparr>) =
   attempt_identity sample_attempt"
  using start_commit_exactly_once [OF reachable_claimed exec_commit1 _ replay_on_provisioning]
    history_single [where exec = exec_run, OF exec_provision] by simp

text \<open>
  Resending a start commit at once (any version, time or proposed Attempt id) returns the same
  result with the replayed flag set.
\<close>

theorem start_commit_replay:
  assumes "reachable_run r" "run_commit_start i w k d n t v r = Inr res" "\<not> sr_replayed res"
  shows "run_commit_start i w k d n' t' v' (sr_run res) = Inr (res\<lparr>sr_replayed := True\<rparr>)"
  by (rule commit_start_replayed [OF wf_run_check [OF reachable_wf [OF assms(1)]] assms(2,3)])

theorem start_commit_replay_witness:
  "run_commit_start ''a1'' sample_ref ''k1'' (Digest ''spec'') ''zz'' (utc 0) 9 sample_running =
     Inr \<lparr>sr_run = sample_running, sr_attempt = sample_attempt, sr_fence = 1, sr_replayed = True\<rparr>"
  using start_commit_replay [OF reachable_claimed exec_commit1] by simp

text \<open>
  C4: In every reachable Run the Attempts are, in order, exactly the committed reservations: same
  reservation id, Worker generation and spec, committed after the claim and before the expiry.
\<close>

theorem attempts_are_committed_reservations:
  assumes "reachable_run r"
  shows "map at_assignment_id (run_attempts r) =
      map as_id (filter (\<lambda>a. as_state a = AssignmentCommitted) (run_assignments r)) \<and>
    (\<forall>a \<in> set (run_assignments r). as_state a = AssignmentCommitted \<longrightarrow>
       (\<exists>c m. as_claimed_at a = Some c \<and> as_committed_at a = Some m \<and>
          instant (as_offered_at a) \<le> instant c \<and> instant c \<le> instant m \<and>
          instant m < instant (as_expires_at a)))"
proof -
  have wf: "wf_run r" using assms by (rule reachable_wf)
  have "map as_id (committed_assignments r) = map at_assignment_id (run_attempts r)"
    using check_run_history(3) [OF wf_run_check [OF wf]]
    by (simp add: history_order_checks_def result_simps)
  moreover have "\<forall>a \<in> set (run_assignments r). wf_assignment a"
    using wf by (simp add: wf_run_def list_all_iff)
  ultimately show ?thesis
    by (simp add: committed_assignments_def) (meson wf_assignment_committed)
qed

theorem attempts_are_committed_reservations_witness:
  "map at_assignment_id [sample_judged, sample_attempt2] = [''a1'', ''a2'']"
  using attempts_are_committed_reservations [OF reachable_running2]
  by (simp add: sample_defs sample_defs2)

section \<open>Cancellation\<close>

text \<open>
  C5: Once a Run holds a cancellation intent, no later command starts another execution, and the
  intent is never replaced: over every later history the number of Attempts stays the same.
\<close>

theorem no_start_after_cancel:
  assumes "reachable_run r" "run_cancel_intent r = Some i" "history exec_run r s"
  shows "length (run_attempts s) = length (run_attempts r) \<and> run_cancel_intent s = Some i"
  using history_cancelled_attempts [OF assms(3) reachable_wf [OF assms(1)] assms(2)] by simp

theorem no_start_after_cancel_witness:
  "run_cancel_intent sample_cancelling = Some sample_cancel \<and> length (run_attempts sample_cancelling) = 1"
  using no_start_after_cancel [OF reachable_cancelling _ history_refl, of sample_cancel]
  by (simp add: sample_cancelling_def sample_running_def)

text \<open>
  C6: A cancellation intent is not a cancelled outcome: an Attempt of a reachable Run is cancelled
  only when the Run is CANCELLED, the Attempt is the latest one, and a trusted stop proof bound to
  that Attempt, its fence and Worker, and to the stored intent shows that the process and its
  access to the system under test stopped no earlier than the intent.
\<close>

theorem cancelled_attempt_has_stop_proof:
  assumes "reachable_run r" "a \<in> set (run_attempts r)" "at_state a = AttemptCancelled"
  shows "run_state r = RunCancelled \<and> last_opt (run_attempts r) = Some a \<and>
    (\<exists>stop ci. run_cancellation_stop r = Some stop \<and> run_cancel_intent r = Some ci \<and>
       cs_run_id stop = run_id r \<and> cs_attempt_id stop = at_id a \<and> cs_fence stop = at_fence a \<and>
       cs_worker stop = at_worker a \<and>
       cancellation_intent_digest ci = Inr (cs_cancellation_intent_digest stop) \<and>
       instant (ci_recorded_at ci) \<le> instant (cs_process_stopped_at stop) \<and>
       instant (ci_recorded_at ci) \<le> instant (cs_sut_access_stopped_at stop))"
proof -
  have wf: "wf_run r" using assms(1) by (rule reachable_wf)
  then have c: "check_run r = None" by (rule wf_run_check)
  obtain i where i: "i < length (run_attempts r)" "run_attempts r ! i = a"
    using assms(2) by (auto simp: in_set_conv_nth)
  have "\<not> Suc i < length (run_attempts r)"
    using wf_run_earlier_terminal [OF wf] assms(3) i by force
  with i have last: "last_opt (run_attempts r) = Some a"
    by (metis Suc_lessI append_take_drop_id take_Suc_conv_app_nth take_all_iff le_refl last_opt_append1)
  have sp: "first_some (validate_state_pointers r) = None" using check_run_parts(5) [OF c] .
  then have st: "run_state r = RunCancelled" "run_pending_retry_intent r = None"
    using last assms(3) by (auto simp: validate_state_pointers_def has_cancelled_outcome_def result_simps)
  have "first_some (cancelled_state_checks r) = None"
    using check_run_phase [OF c] st(1) by (simp add: phase_checks_def)
  then obtain stop ci where sc: "run_cancellation_stop r = Some stop" "run_cancel_intent r = Some ci"
    "first_some (stop_binding_checks r a stop ci) = None"
    using last st(2) by (auto simp: cancelled_state_checks_def result_simps split: option.splits)
  from sc(3) have "cs_run_id stop = run_id r" "cs_attempt_id stop = at_id a" "cs_fence stop = at_fence a"
    "cs_worker stop = at_worker a"
    "cancellation_intent_digest ci = Inr (cs_cancellation_intent_digest stop)"
    "instant (ci_recorded_at ci) \<le> stop_floor stop"
    by (auto simp: stop_binding_checks_def result_simps split: option.splits)
  with st last sc show ?thesis by (auto simp: stop_floor_def)
qed

theorem cancelled_attempt_has_stop_proof_witness:
  "run_state sample_converged = RunCancelled \<and>
   cancellation_intent_digest sample_cancel = Inr (cs_cancellation_intent_digest sample_stop)"
  using cancelled_attempt_has_stop_proof [OF reachable_converged, of "hd (run_attempts sample_converged)"]
  by (simp add: sample_converged_def sample_running_def)

text \<open>
  CANCELLED is absorbing: whatever commands follow, the Run stays exactly as it is.
\<close>

theorem cancelled_run_absorbing:
  assumes "reachable_run r" "run_state r = RunCancelled" "history exec_run r s"
  shows "s = r"
  by (rule run_life.history_absorbing [OF assms(3) reachable_wf [OF assms(1)] assms(2)])

theorem cancelled_run_absorbing_witness:
  "{s. history exec_run sample_cancelled s} = {sample_cancelled}"
  using cancelled_run_absorbing [OF reachable_cancelled]
  by (auto simp: sample_cancelled_def intro: history_refl)

text \<open>
  Resending a cancellation request (same key, source, actor and reason) is accepted at any
  version and any UTC time and changes nothing.
\<close>

theorem cancel_request_replay:
  assumes "run_request_cancel k src actor reason t v r = Inr s" "is_utc t'"
  shows "run_request_cancel k src actor reason t' v' s = Inr s"
  by (rule request_cancel_replayed [OF assms])

theorem cancel_request_replay_witness:
  "run_request_cancel ''c1'' UserRequest ''alice'' ''stop'' (utc 500) 0 sample_cancelling = Inr sample_cancelling"
  using cancel_request_replay [of "''c1''" UserRequest "''alice''" "''stop''" "utc 13" 4 sample_running
      sample_cancelling "utc 500" 0] exec_cancel_running by simp

section \<open>Facts that are never rewritten\<close>

text \<open>
  An Attempt that ended passed, test_failed, infra_failed or cancelled is never rewritten:
  over every later history it stays at its place, equal in every field, Evidence included.
\<close>

theorem sealed_attempt_immutable:
  assumes "history exec_run r s" "i < length (run_attempts r)"
    "at_state (run_attempts r ! i) \<in> {AttemptPassed, AttemptTestFailed, AttemptInfraFailed, AttemptCancelled}"
  shows "i < length (run_attempts s) \<and> run_attempts s ! i = run_attempts r ! i"
  using history_sealed [OF assms(1,2)] assms(3) by (simp add: evidence_terminal_states_def)

theorem sealed_attempt_immutable_witness:
  "0 < length (run_attempts sample_passed) \<and> at_state (run_attempts sample_passed ! 0) = AttemptPassed"
  using sealed_attempt_immutable [OF history_refl, of 0 sample_passed]
  by (simp add: sample_passed_def sample_running_def)

text \<open>
  An Attempt that has been followed by another one is frozen: no later command, whatever its
  claimed authority, changes it. A superseded execution never regains authority.
\<close>

theorem superseded_attempt_frozen:
  assumes "history exec_run r s" "Suc i < length (run_attempts r)"
  shows "Suc i < length (run_attempts s) \<and> run_attempts s ! i = run_attempts r ! i"
  by (rule history_superseded [OF assms])

theorem superseded_attempt_frozen_witness: "run_attempts sample_running2 ! 0 = sample_judged"
  using superseded_attempt_frozen [OF history_refl, of 0 sample_running2]
  by (simp add: sample_defs2)

text \<open>
  The unknown state is absorbing for an Attempt: over every later history it stays unknown
  with the same observation, and its adjudications only grow at the end.
\<close>

theorem unknown_attempt_absorbing:
  assumes "history exec_run r s" "i < length (run_attempts r)"
    "at_state (run_attempts r ! i) = AttemptUnknown"
  shows "i < length (run_attempts s) \<and> at_state (run_attempts s ! i) = AttemptUnknown \<and>
    at_unknown_observation (run_attempts s ! i) = at_unknown_observation (run_attempts r ! i) \<and>
    prefix (at_adjudications (run_attempts r ! i)) (at_adjudications (run_attempts s ! i))"
  by (rule history_unknown [OF assms])

theorem unknown_attempt_absorbing_witness:
  "at_state (run_attempts sample_adjudicated ! 0) = AttemptUnknown"
  using unknown_attempt_absorbing [where i = 0, OF history_single [where exec = exec_run, OF exec_adjudicate]]
  by (simp add: sample_defs sample_defs2)

text \<open>
  Attempt identities, reservations and retry intents are append-only: over every later
  history the frozen identity of every Attempt (ids, number, fence, Worker, spec, key, provenance),
  the terms of every reservation and every retry intent stay in place.
\<close>

theorem records_append_only:
  assumes "reachable_run r" "history exec_run r s"
  shows "prefix (attempt_log r) (attempt_log s) \<and> prefix (assignment_log r) (assignment_log s) \<and>
    prefix (run_retry_intents r) (run_retry_intents s)"
  using run_attempt_log.history_appends run_assignment_log.history_appends
    run_intent_log.history_appends assms reachable_wf by blast

theorem records_append_only_witness:
  "prefix (assignment_log sample_running) (assignment_log sample_unknown)"
  using records_append_only [OF reachable_running history_single [where exec = exec_run, OF exec_mark_unknown]]
  by simp

text \<open>
  A reservation that is committed, expired, released or cancelled is never rewritten.
\<close>

theorem closed_reservation_immutable:
  assumes "reachable_run r" "history exec_run r s" "i < length (run_assignments r)"
    "as_state (run_assignments r ! i) \<notin> {AssignmentOffered, AssignmentClaimed}"
  shows "i < length (run_assignments s) \<and> run_assignments s ! i = run_assignments r ! i"
  by (rule history_closed [OF assms(2) reachable_wf [OF assms(1)] assms(3,4)])

theorem closed_reservation_immutable_witness:
  "run_assignments sample_offered2 ! 0 = run_assignments sample_retry_queued ! 0"
  using closed_reservation_immutable [where i = 0,
      OF reachable_retry_queued history_single [where exec = exec_run, OF exec_offer2]]
  by (simp add: sample_defs sample_defs2)

section \<open>Versions\<close>

text \<open>
  Compare-and-set: when one command computed from a version took effect, every other command
  computed from that same version, sent at any later time, fails or changes nothing. No update is
  lost to a concurrent one.
\<close>

theorem no_lost_run_update:
  assumes "exec_run c r = Inr s" "s \<noteq> r" "history exec_run s t"
    "run_expects c' = run_expects c" "exec_run c' t = Inr u"
  shows "u = t"
  by (rule run_life.no_lost_update [OF assms])

theorem no_lost_run_update_witness:
  "exec_run (RunRequestCancel ''c1'' UserRequest ''alice'' ''stop'' (utc 500) 1) sample_cancelled =
   Inr sample_cancelled"
proof -
  have e: "exec_run (RunRequestCancel ''c1'' UserRequest ''alice'' ''stop'' (utc 500) 1) sample_cancelled =
      Inr sample_cancelled"
    by (simp add: eval_defs cancel_defs cancellation_request_digest_total cancellation_request_json_def)
  have "sample_cancelled \<noteq> sample_queued" by (auto dest: arg_cong [where f = run_state] simp: sample_cancelled_def sample_queued_def)
  from no_lost_run_update [OF exec_cancel_queued this history_refl _ e] e show ?thesis by simp
qed

text \<open>
  The version identifies the state: within a history, equal versions mean equal Runs, so a
  compare on the version can not be fooled by a Run that changed and changed back.
\<close>

theorem run_version_identifies_state:
  assumes "history exec_run r s" "run_version s = run_version r"
  shows "s = r"
  by (rule run_life.history_same_ver [OF assms])

theorem run_version_identifies_state_witness:
  "{s. history exec_run sample_unknown s \<and> run_version s = 5} = {sample_unknown}"
  using run_version_identifies_state [of sample_unknown]
  by (auto simp: sample_unknown_def intro: history_refl)

section \<open>Evidence\<close>

text \<open>
  Every stored Evidence of a reachable Run is the canonical manifest of the Attempt that holds
  it: it carries that Attempt's identity, fence, Worker and spec, rebuilding it from its own facts
  reproduces it (root digest included), and its outcome is the Attempt's terminal state.
\<close>

theorem evidence_matches_attempt:
  assumes "reachable_run r" "a \<in> set (run_attempts r)" "at_evidence a = Some m"
  shows "rebuild_evidence a m (em_cancellation_stop m) = Inr m \<and>
    em_attempt_id m = at_id a \<and> em_run_id m = run_id r \<and> em_attempt_no m = at_attempt_no a \<and>
    em_fence m = at_fence a \<and> em_worker m = at_worker a \<and>
    em_execution_spec_digest m = at_spec_digest a \<and> at_state a = state_of_outcome (em_outcome m)"
proof -
  have wf: "wf_run r" using assms(1) by (rule reachable_wf)
  have b: "rebuild_evidence a m (em_cancellation_stop m) = Inr m"
    using check_run_evidence [OF wf_run_check [OF wf] assms(2,3)] .
  have "at_run_id a = run_id r"
    using check_run_position(1) [OF wf_run_check [OF wf]] assms(2) by (auto simp: in_set_conv_nth)
  moreover have "at_state a = state_of_outcome (em_outcome m)"
    using check_attempt_outcome wf_attempt_check wf_run_attempt [OF wf assms(2)] assms(3) by blast
  ultimately show ?thesis
    using b build_evidence_Inr(1-7) [OF b [unfolded rebuild_evidence_def]] by simp
qed

theorem evidence_matches_attempt_witness:
  "em_attempt_id sample_manifest = ''t1'' \<and> em_fence sample_manifest = 1"
  using evidence_matches_attempt [OF reachable_passed, of "hd (run_attempts sample_passed)" sample_manifest]
  by (simp add: sample_passed_def sample_running_def sample_defs)

text \<open>
  C8: An Attempt of a reachable Run is passed only on trusted facts: the platform saw the process
  complete with exit code 0 and without signal, out-of-memory or timeout, and the validated case
  summary has no failed, unreported or unexpected case. A Worker cannot claim a pass.
\<close>

theorem passed_needs_trusted_facts:
  assumes "reachable_run r" "a \<in> set (run_attempts r)" "at_state a = AttemptPassed"
  shows "\<exists>m su. at_evidence a = Some m \<and> te_exit_class (em_platform_exit m) = ExitCompleted \<and>
    te_exit_code (em_platform_exit m) = Some 0 \<and> te_signal (em_platform_exit m) = None \<and>
    \<not> te_oom (em_platform_exit m) \<and> \<not> te_timeout (em_platform_exit m) \<and>
    em_case_summary m = Some su \<and> su_failed su = 0 \<and> su_not_reported su \<le> 0 \<and> su_unexpected su \<le> 0"
proof -
  have wf: "wf_run r" using assms(1) by (rule reachable_wf)
  have ca: "check_attempt a = None" using wf_attempt_check wf_run_attempt [OF wf assms(2)] by blast
  then obtain m where m: "at_evidence a = Some m"
    using check_attempt_evidence [OF ca] assms(3) by (auto simp: evidence_terminal_states_def)
  have "em_outcome m = OutcomePassed"
    using check_attempt_outcome [OF ca m] assms(3) by (cases "em_outcome m") auto
  moreover have "classify_outcome (em_platform_exit m) (em_case_summary m) (em_cancellation_stop m) =
      Inr (em_outcome m)"
    using build_evidence_Inr(12)
      [OF check_run_evidence [OF wf_run_check [OF wf] assms(2) m, unfolded rebuild_evidence_def]] .
  ultimately show ?thesis
    using m by (cases "te_exit_class (em_platform_exit m)")
      (auto simp: classify_outcome_def Let_def split: if_splits option.splits)
qed

theorem passed_needs_trusted_facts_witness:
  "\<exists>m. at_evidence (hd (run_attempts sample_passed)) = Some m \<and> te_exit_code (em_platform_exit m) = Some 0"
  using passed_needs_trusted_facts [OF reachable_passed, of "hd (run_attempts sample_passed)"]
  by (auto simp: sample_passed_def sample_running_def)

section \<open>Authority\<close>

text \<open>
  The event log of every Attempt of a reachable Run is gapless: the sequence numbers are
  1, 2, 3, ... in order.
\<close>

theorem event_log_gapless:
  assumes "reachable_run r" "a \<in> set (run_attempts r)"
  shows "map ev_event_seq (at_events a) = map int [1..<length (at_events a) + 1]"
proof -
  have "events_contiguous a"
    by (rule reachable_attempts [OF assms])
      (blast intro: attempt_step_contiguous, simp add: fresh_attempt_def events_contiguous_def)
  then show ?thesis by (simp add: events_contiguous_def)
qed

theorem event_log_gapless_witness: "map ev_event_seq [sample_event] = [1]"
  using event_log_gapless [OF reachable_evented, of "hd (run_attempts sample_evented)"]
  by (simp add: sample_evented_def sample_running_def)

text \<open>
  An execution event changes a Run only when it comes from the current generation: the
  addressed Attempt is the latest, the Worker reference and the fence it presents are that
  Attempt's own and the Run's current fence, and the Attempt is still live.
\<close>

theorem event_needs_current_authority:
  assumes "run_record_current_attempt_event i e au w f v av r = Inr s" "s \<noteq> r"
  shows "\<exists>a. last_opt (run_attempts r) = Some a \<and> at_id a = i \<and> w = at_worker a \<and>
    f = run_current_fence r \<and> at_fence a = run_current_fence r \<and>
    at_state a \<notin> set attempt_terminal_states \<and> ev_event_seq e = next_event_seq a \<and> v = run_version r"
proof -
  from assms obtain xs a b where a: "owns_latest r xs a" "at_id a = i"
    and b: "attempt_record_event e au w f av a = Inr b" "b \<noteq> a" and v: "v = run_version r"
    by (auto simp: run_record_current_attempt_event_def result_simps split: if_splits)
  have "ev_event_seq e = next_event_seq a \<and> at_state a \<notin> set attempt_terminal_states"
    using attempt_record_event_Inr(5) [OF b(1)] b(2) by blast
  with a v attempt_record_event_Inr(1-4) [OF b(1)] show ?thesis
    by (auto simp: owns_latest_def)
qed

theorem event_needs_current_authority_witness:
  "\<exists>s. run_record_current_attempt_event ''t1'' sample_event sample_authority sample_ref 1 4 0
     sample_running = Inr s \<and> sample_ref = at_worker sample_attempt"
  using event_needs_current_authority
    [of "''t1''" sample_event sample_authority sample_ref 1 4 0 sample_running sample_evented]
    exec_event by (auto simp: sample_defs sample_evented_def)

text \<open>
  A policy retry never covers an unknown Attempt: queueing one takes a RETRY decision that
  was made for exactly this version of the Run and is bound to the intent's digest, and a source
  Attempt that ended test_failed or infra_failed with the outcome the decision names.
\<close>

theorem policy_retry_needs_failed_source:
  assumes "run_queue_policy_retry i d v r = Inr s" "s \<noteq> r"
  shows "\<exists>a. last_opt (run_attempts r) = Some a \<and> at_id a = ri_source_attempt_id i \<and>
    at_state a = retry_source_state (sf_outcome (rd_source d)) \<and>
    at_state a \<in> {AttemptTestFailed, AttemptInfraFailed} \<and>
    rd_decision d = DecisionRetry \<and> sf_run_version (rd_source d) = run_version r \<and>
    sf_attempt_id (rd_source d) = at_id a \<and> sf_attempt_fence (rd_source d) = run_current_fence r \<and>
    (\<exists>h. rd_retry_intent_digest d = Some h \<and> retry_intent_digest i = Inr h) \<and>
    run_cancel_intent r = None"
proof (cases "intent_by_id (ri_id i) (run_retry_intents r)")
  case (Some e)
  with assms show ?thesis
    by (auto simp: run_queue_policy_retry_def retry_intent_replay_def result_simps split: if_splits)
next
  case None
  with assms(1) obtain xs a u where a: "owns_latest r xs a" "at_id a = ri_source_attempt_id i"
    and p: "ensure_policy_retry_intent_authoritative r i d a = Inr u" and c: "run_cancel_intent r = None"
    by (auto simp: run_queue_policy_retry_def bind_result_Inr_iff if_Inl_Inr_iff current_attempt_Inr)
  obtain pa where pa: "ri_authority i = PolicyAuthority pa"
    using p by (auto simp: ensure_policy_retry_intent_authoritative_def split: retry_authority.splits)
  have st: "retry_source_state x \<in> {AttemptTestFailed, AttemptInfraFailed}" for x by (cases x) auto
  from p pa a c st [of "pr_source_outcome pa"] show ?thesis
    by (auto simp: ensure_policy_retry_intent_authoritative_def Let_def result_simps owns_latest_def)
qed

theorem policy_retry_needs_failed_source_witness:
  "at_state (hd (run_attempts sample_failed)) = AttemptTestFailed \<and> rd_decision sample_decision = DecisionRetry"
  using policy_retry_needs_failed_source [OF exec_policy_retry sample_policy_queued_neq]
  by (auto simp: sample_failed_def sample_running_def)

section \<open>Replays\<close>

text \<open>
  Reporting the expiry of a reservation again, with the same key, at any version and any UTC
  time, is accepted and changes nothing.
\<close>

theorem expiry_replay:
  assumes "reachable_run r" "run_expire_precommit_assignment i k t v r = Inr s" "is_utc t'"
  shows "run_expire_precommit_assignment i k t' v' s = Inr s"
  by (rule expire_replayed [OF assms(2) reachable_wf [OF assms(1)] assms(3)])

theorem expiry_replay_witness:
  "run_expire_precommit_assignment ''a1'' ''x1'' (utc 900) 0 sample_expired = Inr sample_expired"
  using expiry_replay [OF reachable_offered, of "''a1''" "''x1''" "utc 25" 2 sample_expired "utc 900" 0]
    exec_expire by simp

text \<open>
  Queueing the same adjudicated retry intent again is accepted at any version and changes
  nothing (the intent's digest exists whenever its integers are JSON-safe).
\<close>

theorem adjudicated_retry_replay:
  assumes "run_queue_adjudicated_retry i v r = Inr s" "retry_intent_digest i = Inr d"
  shows "run_queue_adjudicated_retry i v' s = Inr s"
  by (rule queue_adjudicated_replayed [OF assms])

theorem adjudicated_retry_replay_witness:
  "run_queue_adjudicated_retry sample_intent 0 sample_retry_queued = Inr sample_retry_queued"
proof -
  have "run_queue_adjudicated_retry sample_intent 6 sample_adjudicated = Inr sample_retry_queued"
    by (simp add: eval_defs)
  from adjudicated_retry_replay [OF this sample_intent_digest] show ?thesis .
qed

text \<open>
  C7: Every command keeps the Run well-typed: from a Run whose validator and whose nested reservations,
  Attempts, events, observations, adjudications, retry intents, provenances, cancellation intent and
  stop proof all pass their own validators, each successful command leads to such a Run
  again; so every reachable Run has only valid parts.
\<close>

theorem run_commands_preserve_types:
  "(wf_run r \<longrightarrow> (\<forall>c s. exec_run c r = Inr s \<longrightarrow> wf_run s)) \<and> (reachable_run r \<longrightarrow> wf_run r)"
  using exec_run_good reachable_wf by blast

theorem run_commands_preserve_types_witness:
  "wf_run sample_running2 \<and> wf_attempt sample_attempt2"
proof -
  have "wf_run sample_running2"
    using run_commands_preserve_types [of sample_running2] reachable_running2 by blast
  moreover have "sample_attempt2 \<in> set (run_attempts sample_running2)"
    by (simp add: sample_defs sample_defs2)
  ultimately show ?thesis using wf_run_attempt by blast
qed

end
