(* ===== verification/Bounded_Queue.thy ===== *)
theory Bounded_Queue
  imports Canonical_Json
begin

text \<open>
  The bounded admission queue (\<open>src/qarunner/domain/bounded_queue.py\<close>): three priority classes,
  each a FIFO of bounded depth; dequeue is strict priority across classes. The FIFO contract is a
  locale over any class-wise queue executor, interpreted on the code's operations.
\<close>

section \<open>Data\<close>

datatype queue_class = QInteractive | QScheduled | QBackground

fun queue_class_value :: "queue_class \<Rightarrow> string" where
  "queue_class_value QInteractive = ''interactive''"
| "queue_class_value QScheduled = ''scheduled''"
| "queue_class_value QBackground = ''background''"

definition dequeue_priority :: "queue_class list" where
  "dequeue_priority = [QInteractive, QScheduled, QBackground]"

datatype admission_decision_kind = Admitted | Queued | CapacityRejected

record admission_decision =
  ad_kind :: admission_decision_kind
  ad_batch_id :: string
  ad_queue_class :: queue_class
  ad_limiting_factor :: "string option"
  ad_reason :: "string option"

definition check_admission_decision :: "admission_decision \<Rightarrow> domain_error option" where
  "check_admission_decision d =
     reject_if (blank (ad_batch_id d)) (DomainValidationError ''admission_decision'' ''batch_id'' ''invalid'')"

text \<open>An item is the source's tuple (batch id, enqueue time in ISO format, enqueue id).\<close>

type_synonym queue_item = "string \<times> string \<times> string"

abbreviation item_id :: "queue_item \<Rightarrow> string" where
  "item_id i \<equiv> snd (snd i)"

record enqueue_receipt =
  er_enqueue_id :: string
  er_batch_id :: string
  er_queue_class :: queue_class
  er_depth_at_enqueue :: int

record dequeue_item =
  di_batch_id :: string
  di_queue_class :: queue_class
  di_enqueue_id :: string

record bounded_queue =
  bq_queue_id :: string
  bq_max_depth_by_class :: "(queue_class \<times> int) list"
  bq_interactive :: "queue_item list"
  bq_scheduled :: "queue_item list"
  bq_background :: "queue_item list"

fun depth_checks :: "queue_class list \<Rightarrow> (queue_class \<times> int) list \<Rightarrow> domain_error option list" where
  "depth_checks seen [] = []"
| "depth_checks seen ((c, d) # rest) =
     reject_if (c \<in> set seen) (DomainValidationError ''bounded_queue'' ''max_depth_by_class'' ''duplicate'') #
     reject_if (d < 1) (DomainValidationError ''bounded_queue'' ''max_depth'' ''not_positive'') #
     depth_checks (c # seen) rest"

definition check_bounded_queue :: "bounded_queue \<Rightarrow> domain_error option" where
  "check_bounded_queue q = first_some
     (reject_if (blank (bq_queue_id q)) (DomainValidationError ''bounded_queue'' ''queue_id'' ''invalid'') #
      reject_if (bq_max_depth_by_class q = [])
        (DomainValidationError ''bounded_queue'' ''max_depth_by_class'' ''empty'') #
      depth_checks [] (bq_max_depth_by_class q))"

definition mk_bounded_queue :: "bounded_queue \<Rightarrow> bounded_queue result" where
  "mk_bounded_queue q = raise_or (check_bounded_queue q) q"

definition queue_digest :: "bounded_queue \<Rightarrow> digest result" where
  "queue_digest q = canonical_digest ''qep.bounded-queue.v1''
     (JObj [(''queue_id'', JStr (bq_queue_id q)),
            (''max_depth_by_class'', JList (map
               (\<lambda>(c, d). JObj [(''queue_class'', JStr (queue_class_value c)), (''max_depth'', JInt d)])
               (sort_key (\<lambda>(c, d). queue_class_value c) (bq_max_depth_by_class q))))])"

section \<open>Operations\<close>

definition max_depth_for :: "queue_class \<Rightarrow> bounded_queue \<Rightarrow> int result" where
  "max_depth_for c q =
     (case find (\<lambda>cd. fst cd = c) (bq_max_depth_by_class q) of
        Some cd \<Rightarrow> Inr (snd cd)
      | None \<Rightarrow> Inl (DomainValidationError ''bounded_queue'' ''queue_class'' ''unknown_queue_class''))"

fun items_for :: "queue_class \<Rightarrow> bounded_queue \<Rightarrow> queue_item list" where
  "items_for QInteractive q = bq_interactive q"
| "items_for QScheduled q = bq_scheduled q"
| "items_for QBackground q = bq_background q"

fun with_items :: "queue_class \<Rightarrow> queue_item list \<Rightarrow> bounded_queue \<Rightarrow> bounded_queue result" where
  "with_items QInteractive xs q = mk_bounded_queue (q\<lparr>bq_interactive := xs\<rparr>)"
| "with_items QScheduled xs q = mk_bounded_queue (q\<lparr>bq_scheduled := xs\<rparr>)"
| "with_items QBackground xs q = mk_bounded_queue (q\<lparr>bq_background := xs\<rparr>)"

definition depth_by_class :: "bounded_queue \<Rightarrow> (queue_class \<times> int) list" where
  "depth_by_class q = map (\<lambda>c. (c, int (length (items_for c q)))) dequeue_priority"

definition all_items :: "bounded_queue \<Rightarrow> queue_item list" where
  "all_items q = concat (map (\<lambda>c. items_for c q) dequeue_priority)"

definition enqueue ::
  "string \<Rightarrow> queue_class \<Rightarrow> string \<Rightarrow> datetime \<Rightarrow> bounded_queue \<Rightarrow>
   (bounded_queue \<times> enqueue_receipt) result" where
  "enqueue batch_id c enqueue_id enqueued_at q =
     bind_result (raise_or (first_some
       [reject_if (blank batch_id) (DomainValidationError ''bounded_queue'' ''batch_id'' ''invalid''),
        reject_if (blank enqueue_id) (DomainValidationError ''bounded_queue'' ''enqueue_id'' ''invalid''),
        require_utc ''bounded_queue'' ''enqueued_at'' enqueued_at,
        reject_if (enqueue_id \<in> set (map item_id (all_items q)))
          (DomainValidationError ''bounded_queue'' ''enqueue_id'' ''duplicate'')]) ()) (\<lambda>_.
     bind_result (max_depth_for c q) (\<lambda>max_depth.
     let depth = int (length (items_for c q)) in
     if depth \<ge> max_depth
     then Inl (QueueOverflow (queue_class_value c) depth max_depth ''max_depth_exceeded'')
     else map_result
       (\<lambda>q'. (q', \<lparr>er_enqueue_id = enqueue_id, er_batch_id = batch_id, er_queue_class = c,
                   er_depth_at_enqueue = depth + 1\<rparr>))
       (with_items c (items_for c q @ [(batch_id, iso_offset enqueued_at, enqueue_id)]) q)))"

fun dequeue_from ::
  "queue_class list \<Rightarrow> bounded_queue \<Rightarrow> (bounded_queue \<times> dequeue_item option) result" where
  "dequeue_from [] q = Inr (q, None)"
| "dequeue_from (c # cs) q =
     (case items_for c q of
        [] \<Rightarrow> dequeue_from cs q
      | i # rest \<Rightarrow> map_result
          (\<lambda>q'. (q', Some \<lparr>di_batch_id = fst i, di_queue_class = c, di_enqueue_id = item_id i\<rparr>))
          (with_items c rest q))"

definition dequeue :: "bounded_queue \<Rightarrow> (bounded_queue \<times> dequeue_item option) result" where
  "dequeue q = dequeue_from dequeue_priority q"

section \<open>Facts about one operation\<close>

definition wf_queue :: "bounded_queue \<Rightarrow> bool" where
  "wf_queue q \<longleftrightarrow>
     check_bounded_queue q = None \<and>
     distinct (map item_id (all_items q)) \<and>
     list_all (\<lambda>c. items_for c q = [] \<or>
       (case max_depth_for c q of Inl e \<Rightarrow> False | Inr d \<Rightarrow> int (length (items_for c q)) \<le> d))
       dequeue_priority"

lemma set_dequeue_priority [simp]: "set dequeue_priority = UNIV"
  using queue_class.exhaust by (auto simp: dequeue_priority_def)

lemma all_queue_class: "(\<forall>k. P k) \<longleftrightarrow> P QInteractive \<and> P QScheduled \<and> P QBackground"
  by (metis queue_class.exhaust)

lemma check_bounded_queue_items [simp]:
  "check_bounded_queue (q\<lparr>bq_interactive := xs\<rparr>) = check_bounded_queue q"
  "check_bounded_queue (q\<lparr>bq_scheduled := xs\<rparr>) = check_bounded_queue q"
  "check_bounded_queue (q\<lparr>bq_background := xs\<rparr>) = check_bounded_queue q"
  by (simp_all add: check_bounded_queue_def)

lemma with_items_Inr [result_simps]:
  "with_items c xs q = Inr q' \<longleftrightarrow>
     check_bounded_queue q = None \<and> bq_queue_id q' = bq_queue_id q \<and>
     bq_max_depth_by_class q' = bq_max_depth_by_class q \<and>
     (\<forall>k. items_for k q' = (if k = c then xs else items_for k q))"
  by (cases c) (auto simp: mk_bounded_queue_def result_simps all_queue_class)

lemma with_items_total: "check_bounded_queue q = None \<Longrightarrow> \<exists>q'. with_items c xs q = Inr q'"
  by (cases c) (auto simp: mk_bounded_queue_def)

lemma max_depth_same: "bq_max_depth_by_class q' = bq_max_depth_by_class q \<Longrightarrow> max_depth_for c q' = max_depth_for c q"
  by (simp add: max_depth_for_def)

lemma enqueue_Inr:
  "enqueue b c i t q = Inr (q', r) \<longleftrightarrow>
     \<not> blank b \<and> \<not> blank i \<and> is_utc t \<and> i \<notin> set (map item_id (all_items q)) \<and>
     (\<exists>d. max_depth_for c q = Inr d \<and> int (length (items_for c q)) < d) \<and>
     with_items c (items_for c q @ [(b, iso_offset t, i)]) q = Inr q' \<and>
     r = \<lparr>er_enqueue_id = i, er_batch_id = b, er_queue_class = c,
          er_depth_at_enqueue = int (length (items_for c q)) + 1\<rparr>"
  by (auto simp: enqueue_def Let_def result_simps simp del: with_items_Inr)

fun class_rank :: "queue_class \<Rightarrow> nat" where
  "class_rank QInteractive = 0"
| "class_rank QScheduled = 1"
| "class_rank QBackground = 2"

text \<open>Dequeue takes the head of the highest-priority class that has one.\<close>

definition head_of :: "queue_class \<Rightarrow> queue_item \<Rightarrow> dequeue_item" where
  "head_of c i = \<lparr>di_batch_id = fst i, di_queue_class = c, di_enqueue_id = item_id i\<rparr>"

lemma dequeue_from_head:
  "items_for c q = i # rest \<Longrightarrow>
   dequeue_from (c # cs) q = map_result (\<lambda>q'. (q', Some (head_of c i))) (with_items c rest q)"
  by (simp add: head_of_def)

lemma dequeue_cases:
  assumes "dequeue q = Inr (q', out)"
  obtains (empty) "out = None" "q' = q" "\<And>c. items_for c q = []"
  | (head) c i rest where "items_for c q = i # rest"
      "\<And>k. class_rank k < class_rank c \<Longrightarrow> items_for k q = []"
      "with_items c rest q = Inr q'" "out = Some (head_of c i)"
proof -
  show thesis
  proof (cases "items_for QInteractive q")
    case (Cons i rest)
    with assms show thesis
      by (intro head [of QInteractive i rest])
        (auto simp: dequeue_def dequeue_priority_def dequeue_from_head simp del: dequeue_from.simps(2)
          simp: map_result_Inr_iff)
  next
    case int_nil: Nil
    show thesis
    proof (cases "items_for QScheduled q")
      case (Cons i rest)
      have "items_for k q = []" if "class_rank k < class_rank QScheduled" for k
        using that int_nil by (cases k) auto
      with assms int_nil Cons show thesis
        by (intro head [of QScheduled i rest])
          (auto simp: dequeue_def dequeue_priority_def map_result_Inr_iff head_of_def)
    next
      case sch_nil: Nil
      show thesis
      proof (cases "items_for QBackground q")
        case (Cons i rest)
        have "items_for k q = []" if "class_rank k < class_rank QBackground" for k
          using that int_nil sch_nil by (cases k) auto
        with assms int_nil sch_nil Cons show thesis
          by (intro head [of QBackground i rest])
            (auto simp: dequeue_def dequeue_priority_def map_result_Inr_iff head_of_def)
      next
        case Nil
        have "items_for c q = []" for c using int_nil sch_nil Nil by (cases c) simp_all
        with assms show thesis
          by (intro empty) (auto simp: dequeue_def dequeue_priority_def)
      qed
    qed
  qed
qed

lemma dequeue_total: "check_bounded_queue q = None \<Longrightarrow> \<exists>q' out. dequeue q = Inr (q', out)"
  using with_items_total [of q]
  by (auto simp: dequeue_def dequeue_priority_def map_result_Inr_iff split: list.split simp del: with_items.simps)

section \<open>The FIFO contract\<close>

text \<open>
  \<open>fifo_run\<close> feeds a sequence of operations to an executor; a rejected operation changes nothing.
  It returns the final queue, the inputs that were accepted and the outputs, each with its class.
\<close>

fun opt_list :: "'a option \<Rightarrow> 'a list" where
  "opt_list None = []"
| "opt_list (Some x) = [x]"

fun fifo_run ::
  "('o \<Rightarrow> 'q \<Rightarrow> 'e + 'q \<times> ('c \<times> 'i) option) \<Rightarrow> ('o \<Rightarrow> ('c \<times> 'i) option) \<Rightarrow> 'o list \<Rightarrow> 'q \<Rightarrow>
   'q \<times> ('c \<times> 'i) list \<times> ('c \<times> 'i) list" where
  "fifo_run exec offers [] q = (q, [], [])"
| "fifo_run exec offers (x # xs) q =
     (case exec x q of
        Inl e \<Rightarrow> fifo_run exec offers xs q
      | Inr (q1, out) \<Rightarrow>
          (case fifo_run exec offers xs q1 of
             (q2, ins, outs) \<Rightarrow> (q2, opt_list (offers x) @ ins, opt_list out @ outs)))"

definition class_part :: "'c \<Rightarrow> ('c \<times> 'i) list \<Rightarrow> 'i list" where
  "class_part c xs = map snd (filter (\<lambda>p. fst p = c) xs)"

lemma class_part_append [simp]: "class_part c (xs @ ys) = class_part c xs @ class_part c ys"
  by (simp add: class_part_def)

locale class_fifo =
  fixes exec :: "'o \<Rightarrow> 'q \<Rightarrow> 'e + 'q \<times> ('c \<times> 'i) option"
    and offers :: "'o \<Rightarrow> ('c \<times> 'i) option"
    and content :: "'c \<Rightarrow> 'q \<Rightarrow> 'i list"
    and good :: "'q \<Rightarrow> bool"
  assumes exec_good: "good q \<Longrightarrow> exec x q = Inr (q', out) \<Longrightarrow> good q'"
    and exec_fifo: "exec x q = Inr (q', out) \<Longrightarrow>
      class_part c (opt_list out) @ content c q' = content c q @ class_part c (opt_list (offers x))"
begin

lemma run_good: "good q \<Longrightarrow> fifo_run exec offers xs q = (q', ins, outs) \<Longrightarrow> good q'"
  by (induction xs arbitrary: q ins outs) (auto split: sum.splits prod.splits dest: exec_good)

text \<open>Per class, what came out followed by what is left is what was there followed by what came in.\<close>

lemma run_fifo:
  "fifo_run exec offers xs q = (q', ins, outs) \<Longrightarrow>
   class_part c outs @ content c q' = content c q @ class_part c ins"
proof (induction xs arbitrary: q q' ins outs)
  case (Cons x xs)
  show ?case
  proof (cases "exec x q")
    case (Inl e)
    with Cons show ?thesis by simp
  next
    case (Inr r)
    then obtain q1 out where e: "exec x q = Inr (q1, out)" by (cases r) auto
    obtain q2 ins' outs' where r: "fifo_run exec offers xs q1 = (q2, ins', outs')"
      by (cases "fifo_run exec offers xs q1") auto
    with Cons.prems e have eq: "q' = q2" "ins = opt_list (offers x) @ ins'" "outs = opt_list out @ outs'"
      by auto
    have "class_part c outs' @ content c q' = content c q1 @ class_part c ins'"
      using Cons.IH [OF r] eq(1) by simp
    then show ?thesis using exec_fifo [OF e, of c] by (simp add: eq)
  qed
qed (simp add: class_part_def)

end

section \<open>The code's queue keeps the contract\<close>

datatype queue_op = Enqueue string queue_class string datetime | Dequeue

fun exec_queue :: "queue_op \<Rightarrow> bounded_queue \<Rightarrow> domain_error + bounded_queue \<times> (queue_class \<times> string) option"
  where
  "exec_queue (Enqueue b c i t) q = map_result (\<lambda>r. (fst r, None)) (enqueue b c i t q)"
| "exec_queue Dequeue q =
     map_result (\<lambda>r. (fst r, map_option (\<lambda>d. (di_queue_class d, di_enqueue_id d)) (snd r))) (dequeue q)"

fun queue_offers :: "queue_op \<Rightarrow> (queue_class \<times> string) option" where
  "queue_offers (Enqueue b c i t) = Some (c, i)"
| "queue_offers Dequeue = None"

definition queued_ids :: "queue_class \<Rightarrow> bounded_queue \<Rightarrow> string list" where
  "queued_ids c q = map item_id (items_for c q)"

lemma head_of_simps [simp]: "di_queue_class (head_of c i) = c" "di_enqueue_id (head_of c i) = item_id i"
  "di_batch_id (head_of c i) = fst i"
  by (simp_all add: head_of_def)

lemma exec_queue_fifo:
  assumes "exec_queue x q = Inr (q', out)"
  shows "class_part c (opt_list out) @ queued_ids c q' = queued_ids c q @ class_part c (opt_list (queue_offers x))"
proof (cases x)
  case (Enqueue b k i t)
  with assms show ?thesis
    by (auto simp: map_result_Inr_iff enqueue_Inr with_items_Inr queued_ids_def class_part_def)
next
  case Dequeue
  with assms obtain d where d: "dequeue q = Inr (q', d)"
    "out = map_option (\<lambda>d. (di_queue_class d, di_enqueue_id d)) d"
    by (auto simp: map_result_Inr_iff)
  from d(1) show ?thesis
  proof (cases rule: dequeue_cases)
    case empty
    with d Dequeue show ?thesis by (simp add: queued_ids_def class_part_def)
  next
    case (head k i rest)
    with d Dequeue show ?thesis by (simp add: queued_ids_def class_part_def with_items_Inr)
  qed
qed

text \<open>Well-formedness splits into the frame, the bounds, and the distinct ids.\<close>

lemma wf_queue_iff:
  "wf_queue q \<longleftrightarrow>
     check_bounded_queue q = None \<and> distinct (map item_id (all_items q)) \<and>
     (\<forall>c. items_for c q = [] \<or>
       (\<exists>d. max_depth_for c q = Inr d \<and> int (length (items_for c q)) \<le> d))"
  by (auto simp: wf_queue_def list_all_iff split: sum.splits) (metis sum.exhaust)+

lemma all_items_eq: "all_items q = bq_interactive q @ bq_scheduled q @ bq_background q"
  by (simp add: all_items_def dequeue_priority_def)

lemma wf_enqueue:
  assumes "wf_queue q" "enqueue b c i t q = Inr (q', r)"
  shows "wf_queue q'"
proof -
  obtain d where new: "i \<notin> set (map item_id (all_items q))" and d: "max_depth_for c q = Inr d"
    "int (length (items_for c q)) < d"
    and w: "with_items c (items_for c q @ [(b, iso_offset t, i)]) q = Inr q'"
    using assms(2) by (auto simp: enqueue_Inr)
  have q': "check_bounded_queue q' = None" "bq_max_depth_by_class q' = bq_max_depth_by_class q"
    "\<And>k. items_for k q' = (if k = c then items_for c q @ [(b, iso_offset t, i)] else items_for k q)"
    using w by (auto simp: with_items_Inr check_bounded_queue_def)
  have "distinct (map item_id (all_items q'))"
    using assms(1) new q'(3) [of QInteractive] q'(3) [of QScheduled] q'(3) [of QBackground]
    by (cases c) (auto simp: all_items_eq wf_queue_iff)
  moreover have "items_for k q' = [] \<or>
      (\<exists>d. max_depth_for k q' = Inr d \<and> int (length (items_for k q')) \<le> d)" for k
    using assms(1) d q'(3) max_depth_same [OF q'(2), of k] by (cases "k = c") (auto simp: wf_queue_iff)
  ultimately show ?thesis using q'(1) by (simp add: wf_queue_iff)
qed

lemma wf_dequeue:
  assumes "wf_queue q" "dequeue q = Inr (q', out)"
  shows "wf_queue q'"
  using assms(2)
proof (cases rule: dequeue_cases)
  case empty
  then show ?thesis using assms(1) by simp
next
  case (head c i rest)
  have q': "check_bounded_queue q' = None" "bq_max_depth_by_class q' = bq_max_depth_by_class q"
    "\<And>k. items_for k q' = (if k = c then rest else items_for k q)"
    using head(3) by (auto simp: with_items_Inr check_bounded_queue_def)
  have "distinct (map item_id (all_items q'))"
    using assms(1) head(1) q'(3) [of QInteractive] q'(3) [of QScheduled] q'(3) [of QBackground]
    by (cases c) (auto simp: all_items_eq wf_queue_iff)
  moreover have "items_for k q' = [] \<or>
      (\<exists>d. max_depth_for k q' = Inr d \<and> int (length (items_for k q')) \<le> d)" for k
    using assms(1) head(1) q'(3) max_depth_same [OF q'(2), of k] by (cases "k = c") (force simp: wf_queue_iff)+
  ultimately show ?thesis using q'(1) by (simp add: wf_queue_iff)
qed

lemma exec_queue_good: "wf_queue q \<Longrightarrow> exec_queue x q = Inr (q', out) \<Longrightarrow> wf_queue q'"
  by (cases x) (auto simp: map_result_Inr_iff dest: wf_enqueue wf_dequeue)

interpretation queue_fifo: class_fifo exec_queue queue_offers queued_ids wf_queue
  by unfold_locales (auto intro: exec_queue_good exec_queue_fifo)

section \<open>Draining\<close>

lemma queued_ids_empty: "all_items q = [] \<longleftrightarrow> (\<forall>c. items_for c q = [])"
  by (auto simp: all_items_eq all_queue_class)

text \<open>\<open>all_items\<close> lists the queue in dequeue order: each dequeue takes its head.\<close>

lemma dequeue_all_items:
  assumes "dequeue q = Inr (q', out)"
  shows "case out of None \<Rightarrow> all_items q = [] \<and> q' = q
    | Some d \<Rightarrow> \<exists>i. all_items q = i # all_items q' \<and> d = head_of (di_queue_class d) i"
  using assms
proof (cases rule: dequeue_cases)
  case empty
  then show ?thesis by (simp add: queued_ids_empty)
next
  case (head c i rest)
  have k: "items_for k q' = (if k = c then rest else items_for k q)" for k
    using head(3) by (auto simp: with_items_Inr)
  have "all_items q = i # all_items q'"
    using head(1) head(2) [of QInteractive] head(2) [of QScheduled]
      k [of QInteractive] k [of QScheduled] k [of QBackground]
    by (cases c) (auto simp: all_items_eq)
  with head(4) show ?thesis by simp
qed

lemma drain_all:
  "wf_queue q \<Longrightarrow> n = length (all_items q) \<Longrightarrow>
   \<exists>q' outs. fifo_run exec_queue queue_offers (replicate n Dequeue) q = (q', [], outs) \<and>
     all_items q' = [] \<and> map snd outs = map item_id (all_items q)"
proof (induction n arbitrary: q)
  case 0
  then show ?case by simp
next
  case (Suc n)
  have "check_bounded_queue q = None" using Suc.prems(1) by (simp add: wf_queue_iff)
  from dequeue_total [OF this] obtain q1 out where d: "dequeue q = Inr (q1, out)" by blast
  with dequeue_all_items [OF d] Suc.prems(2) obtain e i where e: "out = Some e"
    "all_items q = i # all_items q1" "e = head_of (di_queue_class e) i"
    by (cases out) auto
  have "di_enqueue_id e = item_id i" by (subst e(3)) simp
  moreover have "wf_queue q1" using wf_dequeue [OF Suc.prems(1) d] .
  ultimately show ?case
    using Suc.IH [of q1] Suc.prems(2) d e(1,2) by (auto simp: map_result_Inr_iff)
qed

end
