(* ===== verification/Worker_Lease.thy ===== *)
theory Worker_Lease
  imports Worker
begin

text \<open>
  Lease issue and renewal for a committed assignment (\<open>src/qarunner/domain/worker_lease.py\<close>), and
  the idempotency record of a command response (\<open>src/qarunner/domain/idempotency.py\<close>). Durations
  (\<open>timedelta\<close>) are integers of microseconds.
\<close>

section \<open>Data\<close>

datatype lease_command =
    LeaseContinue | LeaseStopCancelled | LeaseStopExpired | LeaseStopPolicyRevoked
  | LeaseDrainAfterCurrent | LeaseQuarantine

definition stop_commands :: "lease_command list" where
  "stop_commands = [LeaseStopCancelled, LeaseStopExpired, LeaseStopPolicyRevoked, LeaseQuarantine]"

record assignment_lease =
  al_assignment_id :: string
  al_worker :: worker_ref
  al_fence :: int
  al_lease_version :: int
  al_issued_at :: datetime
  al_expires_at :: datetime
  al_command :: lease_command

abbreviation lease_invalid :: "string \<Rightarrow> string \<Rightarrow> domain_error" where
  "lease_invalid field reason \<equiv> DomainValidationError ''assignment_lease'' field reason"

definition check_assignment_lease :: "assignment_lease \<Rightarrow> domain_error option" where
  "check_assignment_lease l = first_some
     [reject_if (blank (al_assignment_id l)) (lease_invalid ''assignment_id'' ''invalid''),
      reject_if (al_fence l < 1) (lease_invalid ''fence'' ''invalid''),
      reject_if (al_lease_version l < 1) (lease_invalid ''lease_version'' ''invalid''),
      require_utc ''assignment_lease'' ''issued_at'' (al_issued_at l),
      require_utc ''assignment_lease'' ''expires_at'' (al_expires_at l),
      reject_if (instant (al_expires_at l) \<le> instant (al_issued_at l))
        (lease_invalid ''expires_at'' ''not_after_issued_at'')]"

definition mk_assignment_lease :: "assignment_lease \<Rightarrow> assignment_lease result" where
  "mk_assignment_lease l = raise_or (check_assignment_lease l) l"

section \<open>Operations\<close>

definition lease_issue ::
  "string \<Rightarrow> worker_ref \<Rightarrow> int \<Rightarrow> int \<Rightarrow> datetime \<Rightarrow> int \<Rightarrow> lease_command \<Rightarrow> assignment_lease result" where
  "lease_issue assignment_id worker fence lease_version issued_at ttl command =
     (if ttl \<le> 0 then Inl (lease_invalid ''ttl'' ''invalid'')
      else mk_assignment_lease
        \<lparr>al_assignment_id = assignment_id, al_worker = worker, al_fence = fence,
         al_lease_version = lease_version, al_issued_at = issued_at,
         al_expires_at = plus_delta issued_at ttl, al_command = command\<rparr>)"

definition lease_renew ::
  "int \<Rightarrow> datetime \<Rightarrow> int \<Rightarrow> lease_command \<Rightarrow> worker_ref option \<Rightarrow> assignment_lease \<Rightarrow>
   assignment_lease result" where
  "lease_renew request_lease_version observed_at ttl command worker l =
     (let requesting = (case worker of None \<Rightarrow> al_worker l | Some w \<Rightarrow> w) in
      if wr_worker_id requesting \<noteq> wr_worker_id (al_worker l) \<or>
         wr_generation requesting \<noteq> wr_generation (al_worker l)
      then Inl (WorkerGenerationConflict (wr_worker_id (al_worker l)) (wr_generation (al_worker l))
             (wr_worker_id requesting) (wr_generation requesting) ''generation_mismatch'')
      else if \<not> is_utc observed_at then Inl (lease_invalid ''observed_at'' ''not_utc'')
      else if ttl \<le> 0 then Inl (lease_invalid ''ttl'' ''invalid'')
      else if request_lease_version \<noteq> al_lease_version l
      then Inl (WorkerLeaseConflict (al_assignment_id l) ''stale_lease_version'')
      else if instant (al_expires_at l) \<le> instant observed_at
      then Inl (WorkerLeaseConflict (al_assignment_id l) ''lease_expired'')
      else if al_command l \<in> set stop_commands \<and> command = LeaseContinue
      then Inl (WorkerLeaseConflict (al_assignment_id l) ''stop_command_active'')
      else mk_assignment_lease (l
        \<lparr>al_lease_version := al_lease_version l + 1, al_issued_at := observed_at,
         al_expires_at := plus_delta observed_at ttl, al_command := command\<rparr>))"

section \<open>The lease as a versioned aggregate\<close>

datatype renew_request = RenewLease int datetime int lease_command "worker_ref option"

fun exec_renew :: "renew_request \<Rightarrow> assignment_lease \<Rightarrow> assignment_lease result" where
  "exec_renew (RenewLease v t ttl c w) l = lease_renew v t ttl c w l"

fun renew_expects :: "renew_request \<Rightarrow> int" where
  "renew_expects (RenewLease v t ttl c w) = v"

definition wf_lease :: "assignment_lease \<Rightarrow> bool" where
  "wf_lease l \<longleftrightarrow> check_assignment_lease l = None"

lemma worker_ref_eq_iff:
  "(a :: worker_ref) = b \<longleftrightarrow> wr_worker_id a = wr_worker_id b \<and> wr_generation a = wr_generation b"
  by (cases a; cases b) simp

text \<open>Renewal succeeds exactly under its guards: the re-validation never rejects it.\<close>

lemma lease_renew_Inr:
  assumes "wf_lease l"
  shows "lease_renew v t ttl c w l = Inr m \<longleftrightarrow>
     (case w of None \<Rightarrow> True | Some x \<Rightarrow> x = al_worker l) \<and> is_utc t \<and> 0 < ttl \<and>
     v = al_lease_version l \<and> instant t < instant (al_expires_at l) \<and>
     \<not> (al_command l \<in> set stop_commands \<and> c = LeaseContinue) \<and>
     m = l\<lparr>al_lease_version := al_lease_version l + 1, al_issued_at := t,
           al_expires_at := plus_delta t ttl, al_command := c\<rparr>"
  using assms
  by (auto simp: lease_renew_def mk_assignment_lease_def wf_lease_def check_assignment_lease_def
      worker_ref_eq_iff Let_def result_simps split: option.splits)

lemma exec_renew_step:
  assumes "exec_renew q l = Inr m"
  shows "wf_lease m \<and> renew_expects q = al_lease_version l \<and> al_lease_version m = al_lease_version l + 1 \<and>
    al_worker m = al_worker l \<and> al_fence m = al_fence l \<and> al_assignment_id m = al_assignment_id l"
  using assms
  by (cases q) (auto simp: lease_renew_def mk_assignment_lease_def wf_lease_def Let_def result_simps
      split: if_splits)

interpretation lease_versions: versioned_commands al_lease_version renew_expects exec_renew wf_lease
  by unfold_locales (auto dest: exec_renew_step)

section \<open>Idempotency records\<close>

record idempotency_record =
  ir_scope :: string
  ir_key :: string
  ir_request_digest :: digest
  ir_response_status :: int
  ir_response_ref :: string

record idempotency_resolution =
  ix_response_status :: int
  ix_response_ref :: string
  ix_replayed :: bool

definition idempotency_create ::
  "string \<Rightarrow> string \<Rightarrow> digest \<Rightarrow> int \<Rightarrow> string \<Rightarrow> idempotency_record" where
  "idempotency_create scope key request_digest response_status response_ref =
     \<lparr>ir_scope = scope, ir_key = key, ir_request_digest = request_digest,
      ir_response_status = response_status, ir_response_ref = response_ref\<rparr>"

definition idempotency_resolve :: "digest \<Rightarrow> idempotency_record \<Rightarrow> idempotency_resolution result" where
  "idempotency_resolve request_digest r =
     (if request_digest \<noteq> ir_request_digest r
      then Inl (IdempotencyConflict (ir_scope r) (ir_key r) (ir_request_digest r) request_digest)
      else Inr \<lparr>ix_response_status = ir_response_status r, ix_response_ref = ir_response_ref r,
                ix_replayed = True\<rparr>)"

end
