(* ===== verification/Rbac.thy ===== *)
theory Rbac
  imports Prelude
begin

text \<open>
  The business-role authorization matrix (\<open>src/qarunner/domain/rbac.py\<close>): roles, actions, the
  ownership of the target object, and \<open>authorize\<close>. The branches of the source that catch values
  outside the enumerations do not exist for typed arguments.
\<close>

datatype business_role = Admin | Owner | Maintainer | User | Reviewer | Operator | Auditor

datatype authorization_action =
    SuiteRegister | SuitePublishRevision | SuiteRetire | BatchCreate | BatchCancel | BatchRead
  | AttemptAdjudicateAction | AuditRead | WorkerRead | WorkerDrain

datatype ownership_scope = Own | Other | AnyScope

record authorization_decision =
  az_role :: business_role
  az_action :: authorization_action
  az_ownership :: ownership_scope
  az_allowed :: bool
  az_decision :: string
  az_reason :: string

definition all_actions :: "authorization_action list" where
  "all_actions = [SuiteRegister, SuitePublishRevision, SuiteRetire, BatchCreate, BatchCancel,
     BatchRead, AttemptAdjudicateAction, AuditRead, WorkerRead, WorkerDrain]"

fun role_global_actions :: "business_role \<Rightarrow> authorization_action list" where
  "role_global_actions Admin = all_actions"
| "role_global_actions Operator = [WorkerRead, WorkerDrain, BatchRead, AuditRead]"
| "role_global_actions Auditor = [AuditRead, BatchRead, WorkerRead]"
| "role_global_actions Reviewer = [AttemptAdjudicateAction, BatchRead, AuditRead]"
| "role_global_actions _ = []"

fun role_owned_actions :: "business_role \<Rightarrow> authorization_action list" where
  "role_owned_actions Owner = [SuiteRegister, SuitePublishRevision, SuiteRetire, BatchCreate,
     BatchCancel, BatchRead, AuditRead]"
| "role_owned_actions Maintainer = [SuiteRegister, SuitePublishRevision, BatchCreate, BatchRead, AuditRead]"
| "role_owned_actions User = [BatchCreate, BatchCancel, BatchRead]"
| "role_owned_actions _ = []"

definition rbac_allow ::
  "business_role \<Rightarrow> authorization_action \<Rightarrow> ownership_scope \<Rightarrow> authorization_decision" where
  "rbac_allow role action ownership =
     \<lparr>az_role = role, az_action = action, az_ownership = ownership, az_allowed = True,
      az_decision = ''allow'', az_reason = ''permitted''\<rparr>"

definition rbac_deny ::
  "business_role \<Rightarrow> authorization_action \<Rightarrow> ownership_scope \<Rightarrow> string \<Rightarrow> authorization_decision" where
  "rbac_deny role action ownership reason =
     \<lparr>az_role = role, az_action = action, az_ownership = ownership, az_allowed = False,
      az_decision = ''deny'', az_reason = reason\<rparr>"

definition authorize ::
  "business_role \<Rightarrow> authorization_action \<Rightarrow> ownership_scope \<Rightarrow> authorization_decision" where
  "authorize role action ownership =
     (if role = Admin then rbac_allow role action ownership
      else if action \<in> set (role_global_actions role) then rbac_allow role action ownership
      else if action \<notin> set (role_owned_actions role)
      then rbac_deny role action ownership ''role_not_permitted''
      else if ownership = Other then rbac_deny role action ownership ''not_owner''
      else if ownership = AnyScope then rbac_deny role action ownership ''not_owner''
      else rbac_allow role action ownership)"

lemma all_actions_UNIV: "set all_actions = UNIV"
  using authorization_action.exhaust by (auto simp: all_actions_def)

lemma authorize_allowed_iff:
  "az_allowed (authorize role action ownership) \<longleftrightarrow>
     action \<in> set (role_global_actions role) \<or>
     action \<in> set (role_owned_actions role) \<and> ownership = Own"
  using all_actions_UNIV
  by (cases ownership) (auto simp: authorize_def rbac_allow_def rbac_deny_def)

end
