(* ===== verification/Case_Analysis.thy ===== *)
theory Case_Analysis
  imports Prelude Complex_Main "HOL-Library.AList"
begin

text \<open>
  Cross-run case analysis, three pure modules: flaky detection (\<open>src/qarunner/core/flaky.py\<close>), the
  baseline diff and baseline selection (\<open>src/qarunner/core/regression.py\<close>), and the trend window
  (\<open>src/qarunner/core/trend.py\<close>), with the fields of \<open>TestCaseResult\<close> and \<open>Run\<close> that they read
  (\<open>src/qarunner/models.py\<close>). A Python dict built by a comprehension is an association list:
  \<open>AList.update\<close> keeps the place of a repeated key and replaces its value.
\<close>

section \<open>Flaky detection\<close>

definition failed_status :: "string \<Rightarrow> bool" where
  "failed_status s \<longleftrightarrow> s \<in> {''failed'', ''error''}"

record flaky_policy =
  fp_min_observations :: int
  fp_flip_threshold :: int

definition default_flaky_policy :: flaky_policy where
  "default_flaky_policy = \<lparr>fp_min_observations = 4, fp_flip_threshold = 3\<rparr>"

definition flip_count :: "bool list \<Rightarrow> nat" where
  "flip_count fails = length (filter (\<lambda>(a, b). a \<noteq> b) (zip fails (drop 1 fails)))"

definition flakiness :: "string list \<Rightarrow> flaky_policy \<Rightarrow> bool \<times> int" where
  "flakiness statuses policy =
     (let fails = map failed_status statuses; flips = int (flip_count fails)
      in (fp_min_observations policy \<le> int (length statuses) \<and> fp_flip_threshold policy \<le> flips, flips))"

lemma flip_count_simps [simp]:
  "flip_count [] = 0" "flip_count [a] = 0"
  "flip_count (a # b # xs) = (if a \<noteq> b then 1 else 0) + flip_count (b # xs)"
  by (simp_all add: flip_count_def)

lemma flip_count_bound: "flip_count xs \<le> length xs - 1"
  by (induction xs rule: induct_list012) auto

lemma flip_count_constant: "flip_count (replicate n b) = 0"
proof (induction n)
  case (Suc n)
  then show ?case by (cases n) simp_all
qed simp

lemma flip_count_append:
  "xs \<noteq> [] \<Longrightarrow> ys \<noteq> [] \<Longrightarrow>
   flip_count (xs @ ys) = flip_count xs + (if last xs \<noteq> hd ys then 1 else 0) + flip_count ys"
proof (induction xs rule: induct_list012)
  case (2 x)
  then show ?case by (cases ys) auto
qed auto

text \<open>A history made of constant blocks flips at most once per block boundary.\<close>

lemma flip_count_blocks:
  "flip_count (replicate m a @ replicate n b @ replicate k c) \<le> 2"
proof -
  have two: "flip_count (replicate m x @ replicate n y) \<le> 1" for m n x y
    by (cases "m = 0 \<or> n = 0") (auto simp: flip_count_append flip_count_constant)
  show ?thesis
  proof (cases "m = 0 \<or> replicate n b @ replicate k c = []")
    case True
    then show ?thesis using two [of n b k c] two [of m a 0 a] by auto
  next
    case False
    then show ?thesis
      using two [of n b k c] by (simp add: flip_count_append flip_count_constant)
  qed
qed

section \<open>Baseline diff\<close>

record test_case_result =
  tc_suite :: string
  tc_name :: string
  tc_status :: string
  tc_duration_ms :: int
  tc_message :: "string option"

definition case_identity :: "test_case_result \<Rightarrow> string \<times> string" where
  "case_identity c = (tc_suite c, tc_name c)"

definition is_failure :: "test_case_result \<Rightarrow> bool" where
  "is_failure c = failed_status (tc_status c)"

record regression_diff =
  df_new_failures :: "test_case_result list"
  df_fixed :: "test_case_result list"
  df_still_failing :: "test_case_result list"
  df_new_cases :: "test_case_result list"
  df_removed_cases :: "test_case_result list"

type_synonym case_dict = "((string \<times> string) \<times> test_case_result) list"

definition by_identity :: "test_case_result list \<Rightarrow> case_dict" where
  "by_identity cases = fold (\<lambda>c d. AList.update (case_identity c) c d) cases []"

definition empty_diff :: regression_diff where
  "empty_diff = \<lparr>df_new_failures = [], df_fixed = [], df_still_failing = [], df_new_cases = [],
     df_removed_cases = []\<rparr>"

definition classify_head :: "case_dict \<Rightarrow> (string \<times> string) \<times> test_case_result \<Rightarrow> regression_diff \<Rightarrow> regression_diff"
  where
  "classify_head base_by kh d =
     (let head = snd kh in
      case map_of base_by (fst kh) of
        None \<Rightarrow> d\<lparr>df_new_cases := df_new_cases d @ [head]\<rparr>
      | Some base \<Rightarrow>
          (if is_failure head \<and> \<not> is_failure base
           then d\<lparr>df_new_failures := df_new_failures d @ [head]\<rparr>
           else if \<not> is_failure head \<and> is_failure base
           then d\<lparr>df_fixed := df_fixed d @ [head]\<rparr>
           else if is_failure head \<and> is_failure base
           then d\<lparr>df_still_failing := df_still_failing d @ [head]\<rparr>
           else d))"

definition regression_diff_of :: "test_case_result list \<Rightarrow> test_case_result list \<Rightarrow> regression_diff" where
  "regression_diff_of base_cases head_cases =
     (let base_by = by_identity base_cases; head_by = by_identity head_cases;
          d = fold (classify_head base_by) head_by empty_diff
      in d\<lparr>df_removed_cases := map snd (filter (\<lambda>(k, b). map_of head_by k = None) base_by)\<rparr>)"

text \<open>The dict: one entry per identity, in order of first occurrence, holding the last occurrence.\<close>

lemma by_identity_append:
  "by_identity (cs @ [c]) = AList.update (case_identity c) c (by_identity cs)"
  by (simp add: by_identity_def)

lemma by_identity_distinct: "distinct (map fst (by_identity cs))"
  by (induction cs rule: rev_induct) (simp_all add: by_identity_append distinct_update, simp add: by_identity_def)

definition last_report :: "test_case_result list \<Rightarrow> string \<times> string \<Rightarrow> test_case_result option" where
  "last_report cs k = find_last (\<lambda>c. case_identity c = k) cs"

lemma by_identity_lookup: "map_of (by_identity cs) k = last_report cs k"
  by (induction cs rule: rev_induct)
    (auto simp: by_identity_append update_conv' last_report_def find_last_def, simp add: by_identity_def)

lemma by_identity_set: "(k, c) \<in> set (by_identity cs) \<longleftrightarrow> last_report cs k = Some c"
  using map_of_eq_Some_iff [OF by_identity_distinct, of cs k c] by (simp add: by_identity_lookup)

lemma by_identity_filter:
  "set (map snd (filter (\<lambda>(k, c). P k c) (by_identity cs))) = {c. \<exists>k. last_report cs k = Some c \<and> P k c}"
  by (force simp: by_identity_set)

text \<open>Each bucket of the fold is a filter of the head dict.\<close>

definition base_fails :: "case_dict \<Rightarrow> string \<times> string \<Rightarrow> bool" where
  "base_fails d k = (case map_of d k of None \<Rightarrow> False | Some b \<Rightarrow> is_failure b)"

lemma classify_fold:
  "fold (classify_head d) hs r = \<lparr>
     df_new_failures = df_new_failures r @
       map snd (filter (\<lambda>(k, h). map_of d k \<noteq> None \<and> is_failure h \<and> \<not> base_fails d k) hs),
     df_fixed = df_fixed r @
       map snd (filter (\<lambda>(k, h). map_of d k \<noteq> None \<and> \<not> is_failure h \<and> base_fails d k) hs),
     df_still_failing = df_still_failing r @
       map snd (filter (\<lambda>(k, h). map_of d k \<noteq> None \<and> is_failure h \<and> base_fails d k) hs),
     df_new_cases = df_new_cases r @ map snd (filter (\<lambda>(k, h). map_of d k = None) hs),
     df_removed_cases = df_removed_cases r\<rparr>"
proof (induction hs arbitrary: r)
  case (Cons kh hs)
  obtain k h where kh: "kh = (k, h)" by (cases kh)
  show ?case
  proof (cases "map_of d k")
    case None
    then have "classify_head d kh r = r\<lparr>df_new_cases := df_new_cases r @ [h]\<rparr>"
      by (simp add: kh classify_head_def Let_def)
    with None show ?thesis by (simp add: Cons.IH) (simp add: kh)
  next
    case (Some b)
    then have "classify_head d kh r =
      (if is_failure h \<and> \<not> is_failure b then r\<lparr>df_new_failures := df_new_failures r @ [h]\<rparr>
       else if \<not> is_failure h \<and> is_failure b then r\<lparr>df_fixed := df_fixed r @ [h]\<rparr>
       else if is_failure h \<and> is_failure b then r\<lparr>df_still_failing := df_still_failing r @ [h]\<rparr>
       else r)"
      by (simp add: kh classify_head_def Let_def)
    with Some show ?thesis
      by (cases "is_failure h"; cases "is_failure b") (simp_all add: Cons.IH, simp_all add: kh base_fails_def)
  qed
qed simp

section \<open>Baseline selection and the trend window\<close>

datatype flat_run_status = FlatQueued | FlatRunning | FlatCompleted | FlatFailed | FlatTimeout | FlatCancelled

record test_summary =
  ts_total :: int
  ts_passed :: int
  ts_failed :: int
  ts_skipped :: int
  ts_error :: int
  ts_duration_ms :: int

text \<open>\<open>pass_rate\<close> is the exact quotient here; the source rounds it to a float.\<close>

definition pass_rate :: "test_summary \<Rightarrow> rat" where
  "pass_rate s = (if ts_total s = 0 then 0 else rat_of_int (ts_passed s) / rat_of_int (ts_total s))"

record flat_run =
  fl_id :: string
  fl_status :: flat_run_status
  fl_runner :: string
  fl_tests_path :: string
  fl_args :: "string list"
  fl_summary :: "test_summary option"
  fl_created_at :: int
  fl_profile_id :: "string option"

definition comparable_run :: "flat_run \<Rightarrow> flat_run \<Rightarrow> bool" where
  "comparable_run head r \<longleftrightarrow>
     fl_id r \<noteq> fl_id head \<and> fl_status r = FlatCompleted \<and> fl_profile_id r = fl_profile_id head \<and>
     fl_tests_path r = fl_tests_path head \<and> fl_runner r = fl_runner head \<and>
     fl_args r = fl_args head \<and> fl_created_at r < fl_created_at head"

text \<open>Python's \<open>max(xs, key=...)\<close>: the first of the maximal elements.\<close>

fun max_by :: "('a \<Rightarrow> int) \<Rightarrow> 'a \<Rightarrow> 'a list \<Rightarrow> 'a" where
  "max_by key best [] = best"
| "max_by key best (x # xs) = max_by key (if key best < key x then x else best) xs"

definition select_baseline :: "flat_run \<Rightarrow> flat_run list \<Rightarrow> flat_run option" where
  "select_baseline head candidates =
     (case filter (comparable_run head) candidates of
        [] \<Rightarrow> None
      | r # rs \<Rightarrow> Some (max_by fl_created_at r rs))"

lemma max_by_in: "max_by key best xs \<in> set (best # xs)"
  by (induction key best xs rule: max_by.induct) auto

lemma max_by_ge_best: "key best \<le> key (max_by key best xs)"
proof (induction key best xs rule: max_by.induct)
  case (2 key best y ys)
  then show ?case by (cases "key best < key y") auto
qed simp

lemma max_by_ge: "x \<in> set (best # xs) \<Longrightarrow> key x \<le> key (max_by key best xs)"
proof (induction key best xs arbitrary: x rule: max_by.induct)
  case (2 key best y ys)
  show ?case
  proof (cases "x \<in> set ys")
    case True
    with 2 show ?thesis by simp
  next
    case False
    with "2.prems" have "key x \<le> key (if key best < key y then y else best)" by auto
    also have "\<dots> \<le> key (max_by key (if key best < key y then y else best) ys)" by (rule max_by_ge_best)
    finally show ?thesis by simp
  qed
qed simp

record trend_point =
  tp_run_id :: string
  tp_created_at :: int
  tp_pass_rate :: rat
  tp_total :: int
  tp_passed :: int
  tp_failed :: int

definition has_trend :: "string \<Rightarrow> flat_run \<Rightarrow> bool" where
  "has_trend tests_path r \<longleftrightarrow>
     fl_tests_path r = tests_path \<and> fl_status r = FlatCompleted \<and> fl_summary r \<noteq> None"

definition trend_point_of :: "flat_run \<Rightarrow> trend_point list" where
  "trend_point_of r =
     (case fl_summary r of
        None \<Rightarrow> []
      | Some s \<Rightarrow> [\<lparr>tp_run_id = fl_id r, tp_created_at = fl_created_at r, tp_pass_rate = pass_rate s,
          tp_total = ts_total s, tp_passed = ts_passed s, tp_failed = ts_failed s\<rparr>])"

definition trend_window :: "flat_run list \<Rightarrow> string \<Rightarrow> int \<Rightarrow> flat_run list" where
  "trend_window runs tests_path limit =
     (let matching = sort_key fl_created_at (filter (has_trend tests_path) runs)
      in if 0 < limit then drop (length matching - nat limit) matching else [])"

definition trend_points :: "flat_run list \<Rightarrow> string \<Rightarrow> int \<Rightarrow> trend_point list" where
  "trend_points runs tests_path limit = concat (map trend_point_of (trend_window runs tests_path limit))"

end
