(* ===== verification/Component_Properties.thy ===== *)
theory Component_Properties
  imports Execution_Properties Bounded_Queue Worker_Lease Rbac Case_Analysis
begin

text \<open>
  Properties of the components around the Run: retry policy, Evidence, Worker, lease,
  authorization, admission queue and case analysis.
\<close>

section \<open>Retry policy\<close>

text \<open>
  The retry evaluation always returns a decision for a UTC time and a valid source fact, and
  it is RETRY exactly when a policy and an authority of its family, project and approver role are
  both in force, the failure is one the policy lists, the budget is not exhausted and the family's
  own binding holds. Everything else, a missing policy included, closes without retry.
\<close>

theorem retry_evaluation_exact:
  assumes "is_utc t" "check_retry_source_fact source = None"
  shows "\<exists>d. evaluate_run_retry policy source authority usage requested rid t = Inr d \<and>
    (rd_decision d = DecisionRetry \<longleftrightarrow>
      (\<exists>p a. policy = Some p \<and> authority = Some a \<and> authority_matches p source a t \<and>
         RetryReasonSelector (sf_reason_class source) (sf_reason_code source)
           \<in> set (rp_retryable_reasons (policy_base p)) \<and>
         within_budget p usage requested \<and> family_binding p source a))"
proof -
  obtain d where d: "evaluate_run_retry policy source authority usage requested rid t = Inr d"
    using evaluate_run_retry_total [OF assms] by blast
  show ?thesis by (rule exI [of _ d]) (rule conjI [OF d evaluate_run_retry_RETRY [OF d]])
qed

theorem retry_evaluation_exact_witness:
  "\<exists>d. evaluate_run_retry None sample_source None (rd_usage sample_decision)
     (rd_requested sample_decision) (Digest ''x'') (utc 5) = Inr d \<and> rd_decision d \<noteq> DecisionRetry"
proof -
  have "check_retry_source_fact sample_source = None"
    by (simp add: check_retry_source_fact_def sample_source_def result_simps blank_eval)
  from retry_evaluation_exact [OF is_utc_utc [of 5] this, of None None "rd_usage sample_decision"
      "rd_requested sample_decision" "Digest ''x''"]
  show ?thesis by auto
qed

text \<open>
  A valid policy retries at most once (suite family) or twice (platform family): a RETRY
  decision implies that fewer retries have been used, and that the requested spend fits the budget.
\<close>

theorem retry_budget_capped:
  assumes "check_retry_policy p = None"
    "evaluate_run_retry (Some p) source authority usage requested rid t = Inr d"
    "rd_decision d = DecisionRetry"
  shows "ru_retry_count usage < (case policy_family p of SuiteFamily \<Rightarrow> 1 | PlatformFamily \<Rightarrow> 2) \<and>
    ru_execution_seconds usage + rq_execution_seconds requested
      \<le> rb_max_execution_seconds (rp_budget (policy_base p)) \<and>
    ru_resource_unit_seconds usage + rq_resource_unit_seconds requested
      \<le> rb_max_resource_unit_seconds (rp_budget (policy_base p))"
proof -
  have b: "within_budget p usage requested"
    using evaluate_run_retry_RETRY [OF assms(2)] assms(3) by auto
  with wf_policy_retry_limit [OF assms(1)] show ?thesis by (auto simp: within_budget_def)
qed

definition sample_policy :: retry_policy where
  "sample_policy = SuitePolicy
     \<lparr>rp_policy_id = ''p1'', rp_version = 1, rp_project_id = ''proj'',
      rp_retryable_reasons = [RetryReasonSelector ''assertion'' ''flaky''],
      rp_required_approver_role = ''lead'', rp_max_retries = 1, rp_retry_scope = FullRun,
      rp_budget = \<lparr>rb_max_retries = 1, rb_max_execution_seconds = 60, rb_max_resource_unit_seconds = 60\<rparr>,
      rp_effective_from = utc 0, rp_effective_until = utc 100, rp_policy_digest = Digest ''policy'',
      sp_suite_revision_id = ''rev1''\<rparr>"

definition sample_grant :: retry_policy_authority where
  "sample_grant = \<lparr>pa_schema = ''s'', pa_authority_id = ''auth'', pa_version = 1, pa_family = SuiteFamily,
     pa_project_id = ''proj'', pa_suite_revision_id = Some ''rev1'', pa_runner_id = None,
     pa_runner_version = None, pa_approver_role = ''lead'', pa_approval_record_digest = Digest ''rec'',
     pa_valid_from = utc 0, pa_valid_until = utc 100, pa_authority_digest = Digest ''auth''\<rparr>"

lemma sample_policy_evaluates:
  "check_retry_policy sample_policy = None"
  "evaluate_run_retry (Some sample_policy) sample_source (Some sample_grant) (rd_usage sample_decision)
     (rd_requested sample_decision) sample_policy_digest (utc 20) = Inr sample_decision"
  by (simp_all add: sample_policy_def check_suite_retry_policy_def policy_common_def result_simps
      blank_eval evaluate_run_retry_def retry_allowed_def mk_retry_reason_selector_def
      authority_matches_def within_budget_def family_binding.simps sample_source_def sample_grant_def
      sample_decision_def check_run_retry_decision_def require_utc_def policy_string_def reject_if_def
      retry_policy_base.defs Let_def)

theorem retry_budget_capped_witness:
  "ru_retry_count (rd_usage sample_decision) < 1"
  using retry_budget_capped [OF sample_policy_evaluates]
  by (simp add: sample_decision_def sample_policy_def)

section \<open>Evidence\<close>

lemma ap_value_inj: "ap_value p = ap_value q \<longleftrightarrow> p = q"
  by (cases p; cases q) simp

lemma sort_artifacts_perm:
  assumes "mset xs = mset ys" "distinct (map va_path xs)"
  shows "sort_artifacts xs = sort_artifacts ys"
  unfolding sort_artifacts_def
proof (rule sort_key_inj_key_eq)
  show "mset xs = mset (sort_key (\<lambda>a. ap_value (va_path a)) ys)" using assms(1) by simp
  show "inj_on (\<lambda>a. ap_value (va_path a)) (set xs)"
    using assms(2) by (auto simp: distinct_map inj_on_def ap_value_inj)
  show "sorted (map (\<lambda>a. ap_value (va_path a)) (sort_key (\<lambda>a. ap_value (va_path a)) ys))"
    by (rule sorted_sort_key)
qed

lemma distinct_map_mset: "mset xs = mset ys \<Longrightarrow> distinct (map f xs) = distinct (map f ys)"
  by (metis mset_eq_imp_distinct_iff mset_map)

lemma distinct_sort_artifacts: "distinct (map va_path (sort_artifacts xs)) = distinct (map va_path xs)"
  by (rule distinct_map_mset) (simp add: sort_artifacts_def)

text \<open>
  The order in which the verified artifacts arrive does not matter: any permutation of them
  gives the same manifest, root digest included, or the same error.
\<close>

theorem evidence_order_independent:
  assumes "mset artifacts = mset artifacts'"
  shows "build_evidence_manifest aid rid n asg f w sd te su artifacts stop =
    build_evidence_manifest aid rid n asg f w sd te su artifacts' stop"
proof (cases te)
  case (Some x)
  show ?thesis
  proof (cases "distinct (map va_path artifacts)")
    case True
    show ?thesis by (simp only: build_evidence_manifest_def sort_artifacts_perm [OF assms True])
  next
    case False
    then have "\<not> distinct (map va_path artifacts')" using distinct_map_mset [OF assms] by blast
    with False show ?thesis
      by (simp only: build_evidence_manifest_def Some option.case Let_def distinct_sort_artifacts
          not_False_eq_True if_True)
  qed
qed (simp add: build_evidence_manifest_def)

theorem evidence_order_independent_witness:
  "build_evidence_manifest ''t1'' ''r'' 1 ''a1'' 1 sample_ref (Digest ''spec'') (Some sample_exit) None
     [sample_artifact, sample_artifact\<lparr>va_path := ArtifactPath ''log''\<rparr>] None =
   build_evidence_manifest ''t1'' ''r'' 1 ''a1'' 1 sample_ref (Digest ''spec'') (Some sample_exit) None
     [sample_artifact\<lparr>va_path := ArtifactPath ''log''\<rparr>, sample_artifact] None"
  by (rule evidence_order_independent) simp

text \<open>
  A completed process is classified exactly: with a positive pid and no signal, OOM or
  timeout, exit code 0 with no failed case passes, a nonzero code with failed cases is test_failed,
  and every contradictory or incomplete combination is refused.
\<close>

theorem completed_outcome_exact:
  assumes "te_exit_class x = ExitCompleted"
  shows "classify_outcome x summary stop = Inr outcome \<longleftrightarrow>
    (\<exists>pid code s. te_pid x = Some pid \<and> 0 < pid \<and> te_signal x = None \<and> \<not> te_oom x \<and> \<not> te_timeout x \<and>
       te_exit_code x = Some code \<and> summary = Some s \<and> su_not_reported s \<le> 0 \<and> su_unexpected s \<le> 0 \<and>
       (code = 0 \<and> su_failed s = 0 \<and> outcome = OutcomePassed \<or>
        code \<noteq> 0 \<and> 0 < su_failed s \<and> outcome = OutcomeTestFailed))"
  using assms
  by (auto simp: classify_outcome_def Let_def split: option.splits if_splits)

theorem completed_outcome_exact_witness:
  "classify_outcome sample_fail_exit (Some sample_fail_summary) None = Inr OutcomeTestFailed"
  using completed_outcome_exact [of sample_fail_exit "Some sample_fail_summary" None OutcomeTestFailed]
  by (simp add: sample_fail_exit_def sample_exit_def sample_fail_summary_def sample_summary_def)

section \<open>Workers and leases\<close>

text \<open>
  A quarantined Worker generation never returns to service: over every later history of
  commands it is quarantined or retired, and a retired one never changes again.
\<close>

theorem quarantine_is_permanent:
  assumes "history exec_worker w w'" "wg_state w \<in> {WorkerQuarantined, WorkerRetired}"
  shows "wg_state w' \<in> {WorkerQuarantined, WorkerRetired} \<and> (wg_state w = WorkerRetired \<longrightarrow> w' = w)"
  using assms
proof (induction rule: history.induct)
  case (history_step s t c u)
  then show ?case using exec_worker_quarantined [of c t u] exec_worker_retired [of t c u] by auto
qed simp

theorem quarantine_is_permanent_witness:
  "wg_state (sample_worker\<lparr>wg_state := WorkerQuarantined\<rparr>) \<in> {WorkerQuarantined, WorkerRetired}"
  using quarantine_is_permanent [OF history_refl, of "sample_worker\<lparr>wg_state := WorkerQuarantined\<rparr>"]
  by simp

text \<open>
  Renewing a valid lease succeeds exactly when the lease's own Worker generation asks, with
  the current lease version, at a UTC time before the expiry, for a positive duration, and does not
  try to continue under a stop command; the renewed lease has the next version and a later window.
\<close>

theorem lease_renewal_exact:
  assumes "wf_lease l"
  shows "lease_renew v t ttl c w l = Inr m \<longleftrightarrow>
     (case w of None \<Rightarrow> True | Some x \<Rightarrow> x = al_worker l) \<and> is_utc t \<and> 0 < ttl \<and>
     v = al_lease_version l \<and> instant t < instant (al_expires_at l) \<and>
     \<not> (al_command l \<in> set stop_commands \<and> c = LeaseContinue) \<and>
     m = l\<lparr>al_lease_version := al_lease_version l + 1, al_issued_at := t,
           al_expires_at := plus_delta t ttl, al_command := c\<rparr>"
  by (rule lease_renew_Inr [OF assms])

definition sample_lease :: assignment_lease where
  "sample_lease = \<lparr>al_assignment_id = ''a1'', al_worker = sample_ref, al_fence = 1, al_lease_version = 1,
     al_issued_at = utc 0, al_expires_at = utc 10, al_command = LeaseStopCancelled\<rparr>"

theorem lease_renewal_exact_witness:
  "lease_renew 1 (utc 5) 10 LeaseDrainAfterCurrent None sample_lease =
     Inr (sample_lease\<lparr>al_lease_version := 2, al_issued_at := utc 5, al_expires_at := plus_delta (utc 5) 10,
            al_command := LeaseDrainAfterCurrent\<rparr>)"
proof -
  have "wf_lease sample_lease"
    by (simp add: wf_lease_def check_assignment_lease_def sample_lease_def result_simps blank_eval)
  from lease_renewal_exact [OF this] show ?thesis
    by (simp add: sample_lease_def stop_commands_def)
qed

text \<open>
  The stop check looks at one renewal only: a lease under a stop command can be renewed with
  drain_after_current and then continued, so a stop command does not freeze later renewals.
\<close>

theorem stop_command_can_be_left:
  "\<exists>drained continued.
     al_command sample_lease \<in> set stop_commands \<and>
     lease_renew 1 (utc 5) 10 LeaseDrainAfterCurrent None sample_lease = Inr drained \<and>
     lease_renew 2 (utc 6) 10 LeaseContinue None drained = Inr continued \<and>
     al_command continued = LeaseContinue"
  by (simp add: lease_renew_def mk_assignment_lease_def check_assignment_lease_def sample_lease_def
      stop_commands_def require_utc_def reject_if_def blank_eval Let_def)

section \<open>Authorization\<close>

text \<open>
  A role may act exactly where the matrix says: an admin everywhere, a global action
  anywhere, an owner-scoped action only on an object the actor owns (ANY is not a proof of
  ownership), and every denial is reported as role_not_permitted or not_owner.
\<close>

theorem authorization_exact:
  "(az_allowed (authorize role action ownership) \<longleftrightarrow>
      action \<in> set (role_global_actions role) \<or>
      action \<in> set (role_owned_actions role) \<and> ownership = Own) \<and>
   az_reason (authorize role action ownership) =
     (if az_allowed (authorize role action ownership) then ''permitted''
      else if action \<in> set (role_owned_actions role) then ''not_owner'' else ''role_not_permitted'')"
  using all_actions_UNIV
  by (cases ownership) (auto simp: authorize_def rbac_allow_def rbac_deny_def)

section \<open>The admission queue\<close>

text \<open>
  C32: The queue is a FIFO per class: for any sequence of enqueues and dequeues, rejected ones
  included, what came out of a class followed by what is left in it is what it held followed by what
  was accepted, in order. Nothing is lost, duplicated or reordered.
\<close>

theorem queue_is_fifo_per_class:
  assumes "fifo_run exec_queue queue_offers ops q = (q', ins, outs)"
  shows "class_part c outs @ queued_ids c q' = queued_ids c q @ class_part c ins"
  by (rule queue_fifo.run_fifo [OF assms])

definition sample_queue :: bounded_queue where
  "sample_queue = \<lparr>bq_queue_id = ''q'', bq_max_depth_by_class = [(QInteractive, 1), (QBackground, 2)],
     bq_interactive = [], bq_scheduled = [], bq_background = []\<rparr>"

definition sample_ops :: "queue_op list" where
  "sample_ops = [Enqueue ''b1'' QBackground ''e1'' (utc 0), Enqueue ''b2'' QInteractive ''e2'' (utc 1),
     Enqueue ''b3'' QInteractive ''e3'' (utc 2), Dequeue]"

definition sample_queue_after :: bounded_queue where
  "sample_queue_after = sample_queue\<lparr>bq_background := [(''b1'', iso_offset (utc 0), ''e1'')]\<rparr>"

lemma sample_queue_run:
  "fifo_run exec_queue queue_offers sample_ops sample_queue =
     (sample_queue_after, [(QBackground, ''e1''), (QInteractive, ''e2'')], [(QInteractive, ''e2'')])"
  by (simp add: sample_ops_def sample_queue_def sample_queue_after_def enqueue_def dequeue_def
      dequeue_priority_def max_depth_for_def mk_bounded_queue_def check_bounded_queue_def all_items_def
      require_utc_def reject_if_def blank_eval Let_def)

theorem queue_is_fifo_per_class_witness:
  "class_part QInteractive [(QInteractive, ''e2'')] @ queued_ids QInteractive sample_queue_after =
   queued_ids QInteractive sample_queue @ class_part QInteractive [(QBackground, ''e1''), (QInteractive, ''e2'')]"
  by (rule queue_is_fifo_per_class [OF sample_queue_run])

text \<open>
  The queue stays bounded: whatever operations are sent, no class ever holds more items than
  its configured depth, and no enqueue id is queued twice.
\<close>

theorem queue_stays_bounded:
  assumes "wf_queue q" "fifo_run exec_queue queue_offers ops q = (q', ins, outs)"
  shows "(\<forall>c. items_for c q' = [] \<or>
       (\<exists>d. max_depth_for c q' = Inr d \<and> int (length (items_for c q')) \<le> d)) \<and>
    distinct (map item_id (all_items q'))"
  using queue_fifo.run_good [OF assms] by (simp add: wf_queue_iff)

theorem queue_stays_bounded_witness: "distinct (map item_id (all_items sample_queue_after))"
proof -
  have "wf_queue sample_queue"
    by (simp add: wf_queue_def sample_queue_def check_bounded_queue_def all_items_def
        dequeue_priority_def reject_if_def blank_eval)
  from queue_stays_bounded [OF this sample_queue_run] show ?thesis by simp
qed

text \<open>
  Draining the queue always succeeds and delivers every item: all interactive ones first, then
  the scheduled, then the background ones, each class in its arrival order.
\<close>

theorem queue_drains_in_priority_order:
  assumes "wf_queue q"
  shows "\<exists>q' outs. fifo_run exec_queue queue_offers (replicate (length (all_items q)) Dequeue) q = (q', [], outs) \<and>
     all_items q' = [] \<and>
     map snd outs = queued_ids QInteractive q @ queued_ids QScheduled q @ queued_ids QBackground q"
  using drain_all [OF assms refl] by (simp add: all_items_eq queued_ids_def)

theorem queue_drains_in_priority_order_witness:
  "\<exists>q' outs. fifo_run exec_queue queue_offers (replicate 1 Dequeue) sample_queue_after = (q', [], outs) \<and>
     map snd outs = [''e1'']"
proof -
  have "wf_queue sample_queue_after"
    by (simp add: wf_queue_def sample_queue_after_def sample_queue_def check_bounded_queue_def all_items_def
        dequeue_priority_def max_depth_for_def reject_if_def blank_eval)
  from queue_drains_in_priority_order [OF this] show ?thesis
    by (auto simp: sample_queue_after_def sample_queue_def all_items_eq queued_ids_def)
qed

section \<open>Case analysis\<close>

lemma base_fails_iff:
  "map_of (by_identity base) k \<noteq> None \<and> P \<and> base_fails (by_identity base) k \<longleftrightarrow>
     (\<exists>b. last_report base k = Some b \<and> P \<and> is_failure b)"
  "map_of (by_identity base) k \<noteq> None \<and> P \<and> \<not> base_fails (by_identity base) k \<longleftrightarrow>
     (\<exists>b. last_report base k = Some b \<and> P \<and> \<not> is_failure b)"
  by (auto simp: base_fails_def by_identity_lookup split: option.splits)

text \<open>
  The baseline diff puts every case in the bucket its two final outcomes call for: the last
  report of an identity in each run decides, a case of the head run lands in new_failures, fixed,
  still_failing or new_cases exactly under its condition, and removed_cases holds exactly the cases
  of the base run that the head run lacks.
\<close>

theorem regression_buckets_exact:
  "set (df_new_failures (regression_diff_of base head)) =
     {h. \<exists>k b. last_report head k = Some h \<and> last_report base k = Some b \<and> is_failure h \<and> \<not> is_failure b} \<and>
   set (df_fixed (regression_diff_of base head)) =
     {h. \<exists>k b. last_report head k = Some h \<and> last_report base k = Some b \<and> \<not> is_failure h \<and> is_failure b} \<and>
   set (df_still_failing (regression_diff_of base head)) =
     {h. \<exists>k b. last_report head k = Some h \<and> last_report base k = Some b \<and> is_failure h \<and> is_failure b} \<and>
   set (df_new_cases (regression_diff_of base head)) =
     {h. \<exists>k. last_report head k = Some h \<and> last_report base k = None} \<and>
   set (df_removed_cases (regression_diff_of base head)) =
     {b. \<exists>k. last_report base k = Some b \<and> last_report head k = None}"
  unfolding regression_diff_of_def Let_def classify_fold empty_diff_def regression_diff.simps
    append_Nil by_identity_filter base_fails_iff
  unfolding by_identity_lookup by blast

text \<open>
  A regression that appears and is fixed again is not flaky under the default policy: a
  history of at most three constant stretches (for example passes, then failures, then passes) has
  at most two flips and is never classified as flaky, however long it is.
\<close>

theorem regression_and_fix_not_flaky:
  "fst (flakiness (replicate m s1 @ replicate n s2 @ replicate k s3) default_flaky_policy) = False \<and>
   snd (flakiness (replicate m s1 @ replicate n s2 @ replicate k s3) default_flaky_policy) \<le> 2"
  using flip_count_blocks [of m "failed_status s1" n "failed_status s2" k "failed_status s3"]
  by (simp add: flakiness_def default_flaky_policy_def Let_def)

text \<open>
  The baseline of a run is the newest completed run of the same scope before it: whenever one
  is selected it is a comparable candidate and no comparable candidate is newer, and none is
  selected only when no candidate is comparable.
\<close>

theorem baseline_is_newest_comparable:
  "case select_baseline head candidates of
     None \<Rightarrow> filter (comparable_run head) candidates = []
   | Some r \<Rightarrow> r \<in> set candidates \<and> comparable_run head r \<and>
       list_all (\<lambda>c. fl_created_at c \<le> fl_created_at r) (filter (comparable_run head) candidates)"
proof (cases "filter (comparable_run head) candidates")
  case (Cons r rs)
  have "max_by fl_created_at r rs \<in> set (filter (comparable_run head) candidates)"
    using max_by_in Cons by metis
  moreover have "\<forall>c \<in> set (filter (comparable_run head) candidates).
      fl_created_at c \<le> fl_created_at (max_by fl_created_at r rs)"
    using max_by_ge [of _ r rs fl_created_at] unfolding Cons by blast
  moreover have "select_baseline head candidates = Some (max_by fl_created_at r rs)"
    by (simp add: select_baseline_def Cons)
  ultimately show ?thesis by (simp add: list_all_iff)
qed (simp add: select_baseline_def)

text \<open>
  The trend of a suite is its latest window in time order: for a positive limit the points are
  sorted by creation time, they are all the suite's summarised completed runs or exactly the newest
  limit of them, and every run left out is no newer than any run shown.
\<close>

theorem trend_window_newest:
  assumes "0 < limit"
  shows "\<exists>older. mset (older @ trend_window runs p limit) = mset (filter (has_trend p) runs) \<and>
    sorted (map fl_created_at (older @ trend_window runs p limit)) \<and>
    (older = [] \<or> int (length (trend_window runs p limit)) = limit)"
proof -
  let ?m = "sort_key fl_created_at (filter (has_trend p) runs)"
  let ?k = "length ?m - nat limit"
  have w: "trend_window runs p limit = drop ?k ?m" using assms by (simp add: trend_window_def Let_def)
  have "mset (take ?k ?m @ drop ?k ?m) = mset (filter (has_trend p) runs)" by simp
  moreover have "sorted (map fl_created_at (take ?k ?m @ drop ?k ?m))"
    unfolding append_take_drop_id by (rule sorted_sort_key)
  moreover have "take ?k ?m = [] \<or> int (length (drop ?k ?m)) = limit"
    using assms by (cases "length ?m \<le> nat limit") auto
  ultimately show ?thesis unfolding w by blast
qed

definition sample_flat_run :: flat_run where
  "sample_flat_run = \<lparr>fl_id = ''f1'', fl_status = FlatCompleted, fl_runner = ''pytest'',
     fl_tests_path = ''suite'', fl_args = [], fl_summary = Some \<lparr>ts_total = 1, ts_passed = 1,
       ts_failed = 0, ts_skipped = 0, ts_error = 0, ts_duration_ms = 5\<rparr>,
     fl_created_at = 1, fl_profile_id = None\<rparr>"

theorem trend_window_newest_witness:
  "\<exists>older. sorted (map fl_created_at
     (older @ trend_window [sample_flat_run\<lparr>fl_created_at := 2\<rparr>, sample_flat_run] ''suite'' 1))"
  using trend_window_newest [of 1 "[sample_flat_run\<lparr>fl_created_at := 2\<rparr>, sample_flat_run]" "''suite''"]
  by auto

end
