(* ===== verification/Manifest.thy ===== *)
theory Manifest
  imports Canonical_Json
begin

text \<open>
  The Case Manifest and the Shard Plan with its Run bindings (\<open>src/qarunner/domain/manifest.py\<close>):
  the value types, their validators and their content digests. The planners are in \<open>Sharding\<close>.
\<close>

section \<open>Field checks\<close>

definition max_safe_integer :: int where
  "max_safe_integer = 9007199254740991"

definition manifest_string :: "string \<Rightarrow> string \<Rightarrow> string \<Rightarrow> domain_error option" where
  "manifest_string entity field v = reject_if (blank v) (DomainValidationError entity field ''empty_id'')"

definition manifest_int :: "string \<Rightarrow> string \<Rightarrow> int \<Rightarrow> domain_error option" where
  "manifest_int entity field v = first_some
     [reject_if (v < 0) (DomainValidationError entity field ''negative''),
      reject_if (max_safe_integer < v) (DomainValidationError entity field ''exceeds_safe_integer'')]"

definition canonical_string_set :: "string \<Rightarrow> string \<Rightarrow> string list \<Rightarrow> domain_error option" where
  "canonical_string_set entity field values = first_some
     [reject_if (list_ex blank values) (DomainValidationError entity field ''invalid_value''),
      reject_if (\<not> distinct values) (DomainValidationError entity field ''duplicate''),
      reject_if (values \<noteq> sort values) (DomainValidationError entity field ''not_canonical'')]"

lemma manifest_checks_None [result_simps]:
  "manifest_string et f v = None \<longleftrightarrow> \<not> blank v"
  "manifest_int et f i = None \<longleftrightarrow> 0 \<le> i \<and> i \<le> max_safe_integer"
  "canonical_string_set et f vs = None \<longleftrightarrow> list_all (\<lambda>v. \<not> blank v) vs \<and> distinct vs \<and> sorted vs"
proof -
  have "vs = sort vs \<longleftrightarrow> sorted vs" by (metis sorted_sort sorted_sort_id)
  then show "canonical_string_set et f vs = None \<longleftrightarrow> list_all (\<lambda>v. \<not> blank v) vs \<and> distinct vs \<and> sorted vs"
    by (auto simp: canonical_string_set_def result_simps list_ex_iff list_all_iff)
qed (auto simp: manifest_string_def manifest_int_def result_simps)

section \<open>Manifest items\<close>

datatype estimate_confidence = LowConfidence | MediumConfidence | HighConfidence

fun confidence_value :: "estimate_confidence \<Rightarrow> string" where
  "confidence_value LowConfidence = ''low''"
| "confidence_value MediumConfidence = ''medium''"
| "confidence_value HighConfidence = ''high''"

record framework_locator =
  loc_schema_version :: string
  loc_kind :: string
  loc_parts :: "(string \<times> string) list"

definition check_framework_locator :: "framework_locator \<Rightarrow> domain_error option" where
  "check_framework_locator l = first_some (
     [manifest_string ''framework_locator'' ''schema_version'' (loc_schema_version l),
      manifest_string ''framework_locator'' ''kind'' (loc_kind l),
      reject_if (loc_parts l = []) (DomainValidationError ''framework_locator'' ''parts'' ''empty'')] @
     concat (map (\<lambda>(name, value).
        [manifest_string ''framework_locator'' ''parts'' name,
         manifest_string ''framework_locator'' ''parts'' value]) (loc_parts l)) @
     [reject_if (\<not> distinct (map fst (loc_parts l)))
        (DomainValidationError ''framework_locator'' ''parts'' ''duplicate_name'')])"

record manifest_constraints =
  mc_serial_group :: "string option"
  mc_environment_requirements :: "string list"
  mc_account_requirements :: "string list"
  mc_data_lease_requirements :: "string list"

definition check_manifest_constraints :: "manifest_constraints \<Rightarrow> domain_error option" where
  "check_manifest_constraints c = first_some
     [(case mc_serial_group c of None \<Rightarrow> None
       | Some g \<Rightarrow> manifest_string ''manifest_constraints'' ''serial_group'' g),
      canonical_string_set ''manifest_constraints'' ''environment_requirements'' (mc_environment_requirements c),
      canonical_string_set ''manifest_constraints'' ''account_requirements'' (mc_account_requirements c),
      canonical_string_set ''manifest_constraints'' ''data_lease_requirements'' (mc_data_lease_requirements c)]"

record shard_requirements =
  sq_serial_groups :: "string list"
  sq_environment_requirements :: "string list"
  sq_account_requirements :: "string list"
  sq_data_lease_requirements :: "string list"

definition check_shard_requirements :: "shard_requirements \<Rightarrow> domain_error option" where
  "check_shard_requirements r = first_some
     [canonical_string_set ''shard_requirements'' ''serial_groups'' (sq_serial_groups r),
      canonical_string_set ''shard_requirements'' ''environment_requirements'' (sq_environment_requirements r),
      canonical_string_set ''shard_requirements'' ''account_requirements'' (sq_account_requirements r),
      canonical_string_set ''shard_requirements'' ''data_lease_requirements'' (sq_data_lease_requirements r)]"

definition mk_shard_requirements :: "shard_requirements \<Rightarrow> shard_requirements result" where
  "mk_shard_requirements r = raise_or (check_shard_requirements r) r"

record work_estimate =
  we_duration_ms :: int
  we_confidence :: estimate_confidence

definition check_work_estimate :: "work_estimate \<Rightarrow> domain_error option" where
  "check_work_estimate e = manifest_int ''work_estimate'' ''duration_ms'' (we_duration_ms e)"

record manifest_inputs =
  mi_suite_revision_digest :: digest
  mi_source_digest :: digest
  mi_dependency_digest :: digest
  mi_config_digest :: digest
  mi_runner_digest :: digest
  mi_collection_contract_version :: string

definition check_manifest_inputs :: "manifest_inputs \<Rightarrow> domain_error option" where
  "check_manifest_inputs i =
     manifest_string ''manifest_inputs'' ''collection_contract_version'' (mi_collection_contract_version i)"

record manifest_item =
  it_item_index :: int
  it_stable_case_id :: string
  it_framework_locator :: framework_locator
  it_atomic_group_id :: string
  it_resource_profile_id :: string
  it_constraints :: manifest_constraints
  it_estimate :: work_estimate
  it_tags :: "string list"
  it_selection_metadata_digest :: digest

definition check_manifest_item :: "manifest_item \<Rightarrow> domain_error option" where
  "check_manifest_item i = first_some
     [manifest_int ''manifest_item'' ''item_index'' (it_item_index i),
      manifest_string ''manifest_item'' ''stable_case_id'' (it_stable_case_id i),
      manifest_string ''manifest_item'' ''atomic_group_id'' (it_atomic_group_id i),
      manifest_string ''manifest_item'' ''resource_profile_id'' (it_resource_profile_id i),
      canonical_string_set ''manifest_item'' ''tags'' (it_tags i)]"

definition item_duration :: "manifest_item \<Rightarrow> int" where
  "item_duration i = we_duration_ms (it_estimate i)"

section \<open>The manifest\<close>

text \<open>The hard constraint tokens of an item, each with its kind.\<close>

definition constraint_tokens :: "manifest_item \<Rightarrow> (string \<times> string) list" where
  "constraint_tokens i =
     (case mc_serial_group (it_constraints i) of None \<Rightarrow> [] | Some g \<Rightarrow> [(''serial_group'', g)]) @
     map (Pair ''account_requirement'') (mc_account_requirements (it_constraints i)) @
     map (Pair ''data_lease_requirement'') (mc_data_lease_requirements (it_constraints i))"

text \<open>
  \<open>groups_by_token.setdefault(token, group)\<close> over all the tokens in order: the first group that
  used a token owns it, and the first token whose item is in another group is reported.
\<close>

fun grouping_conflict ::
  "((string \<times> string) \<times> string) list \<Rightarrow> ((string \<times> string) \<times> string) list \<Rightarrow> domain_error option" where
  "grouping_conflict owners [] = None"
| "grouping_conflict owners ((token, gid) # rest) =
     (case map_of owners token of
        None \<Rightarrow> grouping_conflict ((token, gid) # owners) rest
      | Some owner \<Rightarrow>
          if owner \<noteq> gid
          then Some (DomainValidationError ''case_manifest'' ''atomic_group_id'' (''constraint_split:'' @ fst token))
          else grouping_conflict owners rest)"

definition validate_hard_grouping :: "manifest_item list \<Rightarrow> domain_error option" where
  "validate_hard_grouping items = grouping_conflict []
     (concat (map (\<lambda>i. map (\<lambda>t. (t, it_atomic_group_id i)) (constraint_tokens i)) items))"

definition validate_manifest_items :: "manifest_item list \<Rightarrow> domain_error option" where
  "validate_manifest_items items =
     (let invalid = DomainValidationError ''case_manifest''; indices = map it_item_index items in first_some
     [reject_if (items = []) (invalid ''items'' ''empty''),
      reject_if (\<not> distinct indices) (invalid ''item_index'' ''duplicate''),
      reject_if (indices \<noteq> map int [0..<length items]) (invalid ''item_index'' ''not_contiguous''),
      reject_if (\<not> distinct (map it_stable_case_id items)) (invalid ''stable_case_id'' ''duplicate''),
      validate_hard_grouping items])"

definition strings_json :: "string list \<Rightarrow> json" where
  "strings_json xs = JList (map JStr xs)"

definition manifest_item_json :: "manifest_item \<Rightarrow> json" where
  "manifest_item_json i = JObj
     [(''item_index'', JInt (it_item_index i)),
      (''stable_case_id'', JStr (it_stable_case_id i)),
      (''framework_locator'', JObj
         [(''schema_version'', JStr (loc_schema_version (it_framework_locator i))),
          (''kind'', JStr (loc_kind (it_framework_locator i))),
          (''parts'', JList (map (\<lambda>(n, v). JList [JStr n, JStr v]) (loc_parts (it_framework_locator i))))]),
      (''atomic_group_id'', JStr (it_atomic_group_id i)),
      (''resource_profile_id'', JStr (it_resource_profile_id i)),
      (''constraints'', JObj
         [(''serial_group'', json_opt JStr (mc_serial_group (it_constraints i))),
          (''environment_requirements'', strings_json (mc_environment_requirements (it_constraints i))),
          (''account_requirements'', strings_json (mc_account_requirements (it_constraints i))),
          (''data_lease_requirements'', strings_json (mc_data_lease_requirements (it_constraints i)))]),
      (''estimate'', JObj
         [(''duration_ms'', JInt (we_duration_ms (it_estimate i))),
          (''confidence'', JStr (confidence_value (we_confidence (it_estimate i))))]),
      (''tags'', strings_json (it_tags i)),
      (''selection_metadata_digest'', JStr (digest_value (it_selection_metadata_digest i)))]"

definition manifest_json :: "manifest_inputs \<Rightarrow> manifest_item list \<Rightarrow> json" where
  "manifest_json inputs items = JObj
     [(''suite_revision_digest'', JStr (digest_value (mi_suite_revision_digest inputs))),
      (''input_digests'', JObj
         [(''source'', JStr (digest_value (mi_source_digest inputs))),
          (''dependency'', JStr (digest_value (mi_dependency_digest inputs))),
          (''config'', JStr (digest_value (mi_config_digest inputs))),
          (''runner'', JStr (digest_value (mi_runner_digest inputs)))]),
      (''collection_contract_version'', JStr (mi_collection_contract_version inputs)),
      (''items'', JList (map manifest_item_json items))]"

record case_manifest =
  cm_id :: string
  cm_batch_id :: string
  cm_schema_version :: string
  cm_inputs :: manifest_inputs
  cm_items :: "manifest_item list"
  cm_digest :: digest

definition check_case_manifest :: "case_manifest \<Rightarrow> domain_error option" where
  "check_case_manifest m =
     (let invalid = DomainValidationError ''case_manifest'' in first_some
     [manifest_string ''case_manifest'' ''id'' (cm_id m),
      manifest_string ''case_manifest'' ''batch_id'' (cm_batch_id m),
      reject_if (cm_schema_version m \<noteq> ''qep.case-manifest.v1'') (invalid ''schema_version'' ''unsupported''),
      validate_manifest_items (cm_items m),
      reject_if_result
        (map_result (\<lambda>d. cm_digest m \<noteq> d)
          (canonical_digest (cm_schema_version m) (manifest_json (cm_inputs m) (cm_items m))))
        (invalid ''digest'' ''mismatch'')])"

definition case_manifest_create ::
  "string \<Rightarrow> string \<Rightarrow> manifest_inputs \<Rightarrow> manifest_item list \<Rightarrow> case_manifest result" where
  "case_manifest_create manifest_id batch_id inputs items =
     (let ordered = sort_key it_item_index items in
      bind_result (raise_or (validate_manifest_items ordered) ()) (\<lambda>_.
      bind_result (canonical_digest ''qep.case-manifest.v1'' (manifest_json inputs ordered)) (\<lambda>digest.
      let m = \<lparr>cm_id = manifest_id, cm_batch_id = batch_id, cm_schema_version = ''qep.case-manifest.v1'',
               cm_inputs = inputs, cm_items = ordered, cm_digest = digest\<rparr>
      in raise_or (check_case_manifest m) m)))"

text \<open>The bounded completeness view; \<open>indices[0]\<close> of an empty manifest would raise, and no valid one is empty.\<close>

record reconciliation_summary =
  recon_batch_id :: string
  recon_manifest_id :: string
  recon_item_count :: int
  recon_manifest_digest :: digest
  recon_first_item_index :: int
  recon_last_item_index :: int
  recon_missing_count :: int
  recon_duplicate_count :: int

definition check_reconciliation_summary :: "reconciliation_summary \<Rightarrow> domain_error option" where
  "check_reconciliation_summary r =
     (let e = ''manifest_reconciliation_summary'' in first_some
     [manifest_string e ''batch_id'' (recon_batch_id r),
      manifest_string e ''manifest_id'' (recon_manifest_id r),
      manifest_int e ''item_count'' (recon_item_count r),
      reject_if (recon_item_count r < 1) (DomainValidationError e ''item_count'' ''empty''),
      manifest_int e ''first_item_index'' (recon_first_item_index r),
      manifest_int e ''last_item_index'' (recon_last_item_index r),
      manifest_int e ''missing_count'' (recon_missing_count r),
      manifest_int e ''duplicate_count'' (recon_duplicate_count r)])"

definition reconciliation_of :: "case_manifest \<Rightarrow> reconciliation_summary result" where
  "reconciliation_of m =
     (let indices = map it_item_index (cm_items m);
          duplicates = sum_list (map (\<lambda>i. int (count_list indices i) - 1) (remdups indices));
          missing = length (filter (\<lambda>i. i \<notin> set indices) (map int [0..<length (cm_items m)]));
          r = \<lparr>recon_batch_id = cm_batch_id m, recon_manifest_id = cm_id m,
               recon_item_count = int (length (cm_items m)), recon_manifest_digest = cm_digest m,
               recon_first_item_index = hd indices, recon_last_item_index = last indices,
               recon_missing_count = int missing, recon_duplicate_count = duplicates\<rparr>
      in raise_or (check_reconciliation_summary r) r)"

section \<open>Shards\<close>

record planned_shard =
  ps_shard_index :: int
  ps_item_indices :: "int list"
  ps_resource_profile_id :: string
  ps_estimated_duration_ms :: int
  ps_requirements :: shard_requirements
  ps_flags :: "string list"

definition check_planned_shard :: "planned_shard \<Rightarrow> domain_error option" where
  "check_planned_shard s =
     (let invalid = DomainValidationError ''planned_shard'' in first_some (
     [manifest_int ''planned_shard'' ''shard_index'' (ps_shard_index s),
      reject_if (ps_item_indices s = []) (invalid ''manifest_item_indices'' ''empty'')] @
     map (manifest_int ''planned_shard'' ''manifest_item_indices'') (ps_item_indices s) @
     [reject_if (sort (ps_item_indices s) \<noteq> ps_item_indices s)
        (invalid ''manifest_item_indices'' ''not_canonical''),
      reject_if (\<not> distinct (ps_item_indices s)) (invalid ''manifest_item_indices'' ''duplicate''),
      manifest_string ''planned_shard'' ''resource_profile_id'' (ps_resource_profile_id s),
      manifest_int ''planned_shard'' ''estimated_duration_ms'' (ps_estimated_duration_ms s),
      canonical_string_set ''planned_shard'' ''flags'' (ps_flags s)]))"

definition mk_planned_shard :: "planned_shard \<Rightarrow> planned_shard result" where
  "mk_planned_shard s = raise_or (check_planned_shard s) s"

text \<open>\<open>sorted({...})\<close> of strings.\<close>

definition sorted_set :: "string list \<Rightarrow> string list" where
  "sorted_set xs = sort (remdups xs)"

definition requirements_of :: "manifest_item list \<Rightarrow> shard_requirements" where
  "requirements_of items =
     \<lparr>sq_serial_groups = sorted_set (concat (map (\<lambda>i.
        case mc_serial_group (it_constraints i) of None \<Rightarrow> [] | Some g \<Rightarrow> [g]) items)),
      sq_environment_requirements =
        sorted_set (concat (map (\<lambda>i. mc_environment_requirements (it_constraints i)) items)),
      sq_account_requirements =
        sorted_set (concat (map (\<lambda>i. mc_account_requirements (it_constraints i)) items)),
      sq_data_lease_requirements =
        sorted_set (concat (map (\<lambda>i. mc_data_lease_requirements (it_constraints i)) items))\<rparr>"

definition aggregate_shard_requirements :: "manifest_item list \<Rightarrow> shard_requirements result" where
  "aggregate_shard_requirements items = mk_shard_requirements (requirements_of items)"

text \<open>\<open>{item.item_index: item}\<close> looked up at several indices; an absent index contributes nothing.\<close>

definition items_at :: "manifest_item list \<Rightarrow> int list \<Rightarrow> manifest_item list" where
  "items_at items indices =
     concat (map (\<lambda>i. case find_last (\<lambda>x. it_item_index x = i) items of None \<Rightarrow> [] | Some x \<Rightarrow> [x]) indices)"

definition total_duration :: "manifest_item list \<Rightarrow> int" where
  "total_duration items = sum_list (map item_duration items)"

definition reject_first :: "'a list \<Rightarrow> ('a \<Rightarrow> domain_error) \<Rightarrow> domain_error option" where
  "reject_first xs e = (case xs of [] \<Rightarrow> None | x # _ \<Rightarrow> Some (e x))"

text \<open>\<open>unknown\<close>, \<open>duplicates\<close> and \<open>missing\<close> of an index list against the expected indices, smallest first.\<close>

definition exact_cover_checks :: "string \<Rightarrow> string \<Rightarrow> int list \<Rightarrow> int list \<Rightarrow> domain_error option list" where
  "exact_cover_checks entity field expected actual =
     (let invalid = (\<lambda>what i. DomainValidationError entity field (what @ show_int i)) in
     [reject_first (sort (filter (\<lambda>i. i \<notin> set expected) (remdups actual))) (invalid ''unknown:''),
      reject_first (sort (filter (\<lambda>i. 1 < count_list actual i) (remdups actual))) (invalid ''duplicate:''),
      reject_first (sort (filter (\<lambda>i. i \<notin> set actual) (remdups expected))) (invalid ''missing:'')])"

definition shard_index_of :: "planned_shard list \<Rightarrow> manifest_item \<Rightarrow> int option" where
  "shard_index_of shards i =
     map_option ps_shard_index (find_last (\<lambda>s. it_item_index i \<in> set (ps_item_indices s)) shards)"

definition split_groups :: "manifest_item list \<Rightarrow> planned_shard list \<Rightarrow> string list" where
  "split_groups items shards =
     sorted_set (filter (\<lambda>g. 1 < length (remdups (map (shard_index_of shards)
       (filter (\<lambda>i. it_atomic_group_id i = g) items)))) (map it_atomic_group_id items))"

definition shard_content_checks :: "manifest_item list \<Rightarrow> planned_shard \<Rightarrow> domain_error option list" where
  "shard_content_checks items s =
     (let invalid = DomainValidationError ''shard_plan''; own = items_at items (ps_item_indices s) in
     [reject_if_result (map_result (\<lambda>r. ps_requirements s \<noteq> r) (aggregate_shard_requirements own))
        (invalid ''requirements'' (''mismatch:'' @ show_int (ps_shard_index s))),
      reject_first (filter (\<lambda>i. it_resource_profile_id i \<noteq> ps_resource_profile_id s) own)
        (\<lambda>i. invalid ''resource_profile_id'' (''mismatch:'' @ show_int (it_item_index i))),
      reject_if (ps_estimated_duration_ms s \<noteq> total_duration own)
        (invalid ''estimated_duration_ms'' (''mismatch:'' @ show_int (ps_shard_index s)))])"

definition plan_candidate_checks :: "manifest_item list \<Rightarrow> planned_shard list \<Rightarrow> domain_error option list" where
  "plan_candidate_checks items shards =
     (let invalid = DomainValidationError ''shard_plan''; indices = map ps_shard_index shards in
     [reject_if (shards = []) (invalid ''shards'' ''empty''),
      reject_if (\<not> distinct indices) (invalid ''shard_index'' ''duplicate''),
      reject_if (indices \<noteq> map int [0..<length shards]) (invalid ''shard_index'' ''not_contiguous'')] @
     exact_cover_checks ''shard_plan'' ''manifest_item_indices'' (map it_item_index items)
       (concat (map ps_item_indices shards)) @
     [reject_first (split_groups items shards) (\<lambda>g. invalid ''atomic_group_id'' (''split:'' @ g))] @
     concat (map (shard_content_checks items) shards) @
     [reject_if (max_safe_integer < sum_list (map ps_estimated_duration_ms shards))
        (invalid ''total_estimated_duration_ms'' ''exceeds_safe_integer'')])"

definition validate_plan_candidate :: "case_manifest \<Rightarrow> planned_shard list \<Rightarrow> domain_error option" where
  "validate_plan_candidate m shards = first_some (plan_candidate_checks (cm_items m) shards)"

section \<open>The plan and its Run bindings\<close>

definition planned_shard_json :: "planned_shard \<Rightarrow> json" where
  "planned_shard_json s = JObj
     [(''shard_index'', JInt (ps_shard_index s)),
      (''manifest_item_indices'', JList (map JInt (ps_item_indices s))),
      (''resource_profile_id'', JStr (ps_resource_profile_id s)),
      (''estimated_duration_ms'', JInt (ps_estimated_duration_ms s)),
      (''requirements'', JObj
         [(''serial_groups'', strings_json (sq_serial_groups (ps_requirements s))),
          (''environment_requirements'', strings_json (sq_environment_requirements (ps_requirements s))),
          (''account_requirements'', strings_json (sq_account_requirements (ps_requirements s))),
          (''data_lease_requirements'', strings_json (sq_data_lease_requirements (ps_requirements s)))]),
      (''flags'', strings_json (ps_flags s))]"

definition plan_json :: "digest \<Rightarrow> string \<Rightarrow> planned_shard list \<Rightarrow> json" where
  "plan_json manifest_digest algorithm_version shards = JObj
     [(''manifest_digest'', JStr (digest_value manifest_digest)),
      (''algorithm_version'', JStr algorithm_version),
      (''run_count'', JInt (int (length shards))),
      (''total_estimated_duration_ms'', JInt (sum_list (map ps_estimated_duration_ms shards))),
      (''shards'', JList (map planned_shard_json shards))]"

record shard_plan =
  sp_id :: string
  sp_batch_id :: string
  sp_schema_version :: string
  sp_manifest :: case_manifest
  sp_algorithm_version :: string
  sp_shards :: "planned_shard list"
  sp_digest :: digest

definition check_shard_plan :: "shard_plan \<Rightarrow> domain_error option" where
  "check_shard_plan p =
     (let invalid = DomainValidationError ''shard_plan'' in first_some
     [manifest_string ''shard_plan'' ''id'' (sp_id p),
      manifest_string ''shard_plan'' ''batch_id'' (sp_batch_id p),
      reject_if (sp_schema_version p \<noteq> ''qep.shard-plan.v1'') (invalid ''schema_version'' ''unsupported''),
      reject_if (sp_batch_id p \<noteq> cm_batch_id (sp_manifest p)) (invalid ''batch_id'' ''manifest_mismatch''),
      manifest_string ''shard_plan'' ''algorithm_version'' (sp_algorithm_version p),
      validate_plan_candidate (sp_manifest p) (sp_shards p),
      reject_if_result
        (map_result (\<lambda>d. sp_digest p \<noteq> d) (canonical_digest (sp_schema_version p)
          (plan_json (cm_digest (sp_manifest p)) (sp_algorithm_version p) (sp_shards p))))
        (invalid ''digest'' ''mismatch'')])"

definition shard_plan_create ::
  "string \<Rightarrow> string \<Rightarrow> case_manifest \<Rightarrow> string \<Rightarrow> planned_shard list \<Rightarrow> shard_plan result" where
  "shard_plan_create plan_id batch_id m algorithm_version shards =
     (let ordered = sort_key ps_shard_index shards in
      bind_result (raise_or (validate_plan_candidate m ordered) ()) (\<lambda>_.
      bind_result (canonical_digest ''qep.shard-plan.v1'' (plan_json (cm_digest m) algorithm_version ordered))
        (\<lambda>digest.
      let p = \<lparr>sp_id = plan_id, sp_batch_id = batch_id, sp_schema_version = ''qep.shard-plan.v1'',
               sp_manifest = m, sp_algorithm_version = algorithm_version, sp_shards = ordered,
               sp_digest = digest\<rparr>
      in raise_or (check_shard_plan p) p)))"

record run_binding =
  rb_run_id :: string
  rb_shard_index :: int

definition check_run_binding :: "run_binding \<Rightarrow> domain_error option" where
  "check_run_binding b = first_some
     [manifest_string ''run_binding'' ''run_id'' (rb_run_id b),
      manifest_int ''run_binding'' ''shard_index'' (rb_shard_index b)]"

record bound_shard_plan =
  bp_plan :: shard_plan
  bp_bindings :: "run_binding list"

definition run_binding_checks :: "shard_plan \<Rightarrow> run_binding list \<Rightarrow> domain_error option list" where
  "run_binding_checks p bindings =
     reject_if (\<not> distinct (map rb_run_id bindings)) (DomainValidationError ''bound_shard_plan'' ''run_id'' ''duplicate'') #
     exact_cover_checks ''bound_shard_plan'' ''shard_index'' (map ps_shard_index (sp_shards p))
       (map rb_shard_index bindings)"

definition check_bound_shard_plan :: "bound_shard_plan \<Rightarrow> domain_error option" where
  "check_bound_shard_plan b = first_some (
     reject_if (bp_bindings b \<noteq> sort_key rb_shard_index (bp_bindings b))
       (DomainValidationError ''bound_shard_plan'' ''bindings'' ''not_canonical'') #
     run_binding_checks (bp_plan b) (bp_bindings b))"

definition bound_shard_plan_create :: "shard_plan \<Rightarrow> run_binding list \<Rightarrow> bound_shard_plan result" where
  "bound_shard_plan_create p bindings =
     (let b = \<lparr>bp_plan = p, bp_bindings = sort_key rb_shard_index bindings\<rparr>
      in raise_or (check_bound_shard_plan b) b)"

section \<open>What the validators say\<close>

definition wf_manifest :: "case_manifest \<Rightarrow> bool" where
  "wf_manifest m \<longleftrightarrow> check_case_manifest m = None \<and>
     list_all (\<lambda>i. check_manifest_item i = None \<and> check_manifest_constraints (it_constraints i) = None \<and>
       check_work_estimate (it_estimate i) = None) (cm_items m)"

lemma reject_first_None [result_simps]: "reject_first xs e = None \<longleftrightarrow> xs = []"
  by (cases xs) (simp_all add: reject_first_def)

lemma sort_eq_Nil [simp]: "sort_key f xs = [] \<longleftrightarrow> xs = []"
  by (metis length_sort length_0_conv)

lemma exact_cover_None:
  assumes "distinct expected"
  shows "first_some (exact_cover_checks en fi expected actual) = None \<longleftrightarrow> mset actual = mset expected"
proof -
  have "first_some (exact_cover_checks en fi expected actual) = None \<longleftrightarrow>
      set actual = set expected \<and> (\<forall>i \<in> set actual. \<not> 1 < count_list actual i)"
    by (auto simp: exact_cover_checks_def Let_def result_simps filter_empty_conv)
  also have "\<dots> \<longleftrightarrow> set actual = set expected \<and> distinct actual"
  proof -
    have "distinct actual \<longleftrightarrow> (\<forall>i \<in> set actual. count_list actual i = 1)"
      by (auto simp: distinct_count_atmost_1 count_mset [symmetric])
    moreover have "\<not> 1 < count_list actual i \<longleftrightarrow> count_list actual i = 1" if "i \<in> set actual" for i
      using that count_list_0_iff [of actual i] by linarith
    ultimately show ?thesis by blast
  qed
  also have "\<dots> \<longleftrightarrow> mset actual = mset expected"
    using assms by (metis mset_eq_imp_distinct_iff mset_eq_setD set_eq_iff_mset_eq_distinct)
  finally show ?thesis .
qed

end
