(* ===== verification/Plan_Validity.thy ===== *)
theory Plan_Validity
  imports Manifest
begin

text \<open>
  What the plan validator accepts: a shard plan is an exact partition of the manifest, and every
  partition into nonempty, profile-pure parts that keep the atomic groups together gives a plan
  that the validator accepts.
\<close>

section \<open>Items of a valid manifest\<close>

definition valid_item :: "manifest_item \<Rightarrow> bool" where
  "valid_item i \<longleftrightarrow> check_manifest_item i = None \<and> check_manifest_constraints (it_constraints i) = None \<and>
     check_work_estimate (it_estimate i) = None"

definition wf_items :: "manifest_item list \<Rightarrow> bool" where
  "wf_items items \<longleftrightarrow> items \<noteq> [] \<and> map it_item_index items = map int [0..<length items] \<and>
     (\<forall>i \<in> set items. valid_item i)"

lemma wf_manifest_items: "wf_manifest m \<Longrightarrow> wf_items (cm_items m)"
  by (auto simp: wf_manifest_def wf_items_def valid_item_def check_case_manifest_def
      validate_manifest_items_def Let_def result_simps list_all_iff)

lemma wf_items_sorted:
  assumes "wf_items items"
  shows "sorted (map it_item_index items)" "distinct (map it_item_index items)"
  using assms by (auto simp: wf_items_def sorted_map sorted_wrt_map distinct_map inj_on_def intro: sorted_wrt_mono_rel [OF _ sorted_wrt_upt])

lemma sorted_distinct_filter:
  assumes "sorted (map f xs)" "distinct (map f xs)"
  shows "sorted (map f (filter P xs))" "distinct (map f (filter P xs))"
  using assms by (auto intro: sorted_filter distinct_map_filter)

lemma same_index:
  "wf_items items \<Longrightarrow> i \<in> set items \<Longrightarrow> j \<in> set items \<Longrightarrow> it_item_index i = it_item_index j \<longleftrightarrow> i = j"
  using wf_items_sorted(2) [of items] by (auto simp: distinct_map inj_on_def)

lemma find_last_unique:
  assumes "x \<in> set xs" "P x" "\<And>y. y \<in> set xs \<Longrightarrow> P y \<Longrightarrow> y = x"
  shows "find_last P xs = Some x"
proof (cases "find_last P xs")
  case None
  then show ?thesis using assms(1,2) by (simp add: find_last_def find_None_iff)
next
  case (Some y)
  then have "y \<in> set xs" "P y" by (auto simp: find_last_def dest: find_SomeD)
  then show ?thesis using assms(3) Some by blast
qed

lemma items_at_own:
  assumes "wf_items items" "set own \<subseteq> set items"
  shows "items_at items (map it_item_index own) = own"
  using assms(2)
proof (induction own)
  case (Cons x xs)
  have "find_last (\<lambda>y. it_item_index y = it_item_index x) items = Some x"
    using Cons.prems same_index [OF assms(1)] by (intro find_last_unique) auto
  then show ?case using Cons by (simp add: items_at_def)
qed (simp add: items_at_def)

lemma total_duration_nonneg: "\<forall>i \<in> set xs. valid_item i \<Longrightarrow> 0 \<le> total_duration xs"
  by (auto simp: total_duration_def item_duration_def valid_item_def check_work_estimate_def result_simps
      intro!: sum_list_nonneg)

lemma total_duration_mset: "mset xs = mset ys \<Longrightarrow> total_duration xs = total_duration ys"
  unfolding total_duration_def by (metis mset_map sum_mset_sum_list)

lemma total_duration_concat: "total_duration (concat xss) = sum_list (map total_duration xss)"
  by (induction xss) (auto simp: total_duration_def)

section \<open>Requirements of valid items are canonical\<close>

lemma sorted_set_props [simp]: "sorted (sorted_set xs)" "distinct (sorted_set xs)" "set (sorted_set xs) = set xs"
  by (simp_all add: sorted_set_def)

lemma requirements_valid:
  assumes "\<forall>i \<in> set xs. valid_item i"
  shows "check_shard_requirements (requirements_of xs) = None"
  using assms
  by (auto simp: check_shard_requirements_def requirements_of_def result_simps list_all_iff valid_item_def
      check_manifest_constraints_def split: option.splits)

lemma aggregate_valid:
  "\<forall>i \<in> set xs. valid_item i \<Longrightarrow> aggregate_shard_requirements xs = Inr (requirements_of xs)"
  by (simp add: aggregate_shard_requirements_def mk_shard_requirements_def requirements_valid)

section \<open>Parts and their shards\<close>

definition group_whole :: "manifest_item list list \<Rightarrow> bool" where
  "group_whole parts \<longleftrightarrow> (\<forall>p \<in> set parts. \<forall>q \<in> set parts. \<forall>i \<in> set p. \<forall>j \<in> set q.
     it_atomic_group_id i = it_atomic_group_id j \<longrightarrow> p = q)"

definition partition_into :: "manifest_item list \<Rightarrow> manifest_item list list \<Rightarrow> bool" where
  "partition_into items parts \<longleftrightarrow> mset (concat parts) = mset items \<and> [] \<notin> set parts \<and>
     (\<forall>p \<in> set parts. filter (\<lambda>i. i \<in> set p) items = p) \<and> group_whole parts"

definition one_profile :: "manifest_item list \<Rightarrow> bool" where
  "one_profile p \<longleftrightarrow> (\<forall>i \<in> set p. it_resource_profile_id i = it_resource_profile_id (hd p))"

definition part_shard :: "int \<Rightarrow> manifest_item list \<Rightarrow> planned_shard" where
  "part_shard k p =
     \<lparr>ps_shard_index = k, ps_item_indices = map it_item_index p,
      ps_resource_profile_id = it_resource_profile_id (hd p), ps_estimated_duration_ms = total_duration p,
      ps_requirements = requirements_of p, ps_flags = []\<rparr>"

fun part_shards :: "int \<Rightarrow> manifest_item list list \<Rightarrow> planned_shard list" where
  "part_shards k [] = []"
| "part_shards k (p # ps) = part_shard k p # part_shards (k + 1) ps"

lemma part_shards_append: "part_shards k (ps @ qs) = part_shards k ps @ part_shards (k + int (length ps)) qs"
  by (induction ps arbitrary: k) (simp_all add: ac_simps)

lemma length_part_shards [simp]: "length (part_shards k ps) = length ps"
  by (induction ps arbitrary: k) auto

lemma nth_part_shards: "n < length ps \<Longrightarrow> part_shards k ps ! n = part_shard (k + int n) (ps ! n)"
  by (induction ps arbitrary: k n) (auto simp: nth_Cons' algebra_simps)

lemma part_shards_fields:
  "map ps_shard_index (part_shards k ps) = map (\<lambda>n. k + int n) [0..<length ps]"
  "concat (map ps_item_indices (part_shards k ps)) = map it_item_index (concat ps)"
  "map ps_estimated_duration_ms (part_shards k ps) = map total_duration ps"
proof -
  show "map ps_shard_index (part_shards k ps) = map (\<lambda>n. k + int n) [0..<length ps]"
    by (auto intro!: nth_equalityI simp: nth_part_shards part_shard_def)
qed (induction ps arbitrary: k, simp_all add: part_shard_def)+

lemma set_part_shards: "s \<in> set (part_shards k ps) \<longleftrightarrow> (\<exists>n < length ps. s = part_shard (k + int n) (ps ! n))"
  by (auto simp: in_set_conv_nth nth_part_shards)

section \<open>The validator on the shards of a partition\<close>

lemma split_groups_Nil:
  "split_groups items shards = [] \<longleftrightarrow>
     (\<forall>i \<in> set items. \<forall>j \<in> set items. it_atomic_group_id i = it_atomic_group_id j \<longrightarrow>
        shard_index_of shards i = shard_index_of shards j)"
proof -
  have *: "\<not> 1 < length (remdups xs) \<longleftrightarrow> (\<forall>x \<in> set xs. \<forall>y \<in> set xs. x = y)" for xs :: "int option list"
    using card_le_Suc0_iff_eq [of "set xs"] by (simp add: length_remdups_card_conv not_less)
  have "split_groups items shards = [] \<longleftrightarrow> (\<forall>g \<in> set (map it_atomic_group_id items).
      \<not> 1 < length (remdups (map (shard_index_of shards) (filter (\<lambda>i. it_atomic_group_id i = g) items))))"
    by (simp add: split_groups_def sorted_set_def filter_empty_conv del: One_nat_def)
  also have "\<dots> \<longleftrightarrow> (\<forall>i \<in> set items. \<forall>j \<in> set items. it_atomic_group_id i = it_atomic_group_id j \<longrightarrow>
        shard_index_of shards i = shard_index_of shards j)" (is "?l = ?r")
  proof
    show ?r if l: ?l
    proof (intro ballI impI)
      fix i j assume ij: "i \<in> set items" "j \<in> set items" "it_atomic_group_id i = it_atomic_group_id j"
      show "shard_index_of shards i = shard_index_of shards j"
        by (rule l [unfolded *, rule_format, of "it_atomic_group_id i"]) (use ij in auto)
    qed
    show ?l if ?r
      unfolding *
    proof (intro ballI)
      fix g x y
      assume "x \<in> set (map (shard_index_of shards) (filter (\<lambda>i. it_atomic_group_id i = g) items))"
        "y \<in> set (map (shard_index_of shards) (filter (\<lambda>i. it_atomic_group_id i = g) items))"
      then obtain i j where ij: "i \<in> set items" "j \<in> set items" "it_atomic_group_id i = g"
        "it_atomic_group_id j = g" "x = shard_index_of shards i" "y = shard_index_of shards j" by auto
      show "x = y" unfolding ij(5,6) by (rule that [rule_format]) (simp_all add: ij(1-4))
    qed
  qed
  finally show ?thesis .
qed

lemma partition_own:
  assumes "wf_items items" "partition_into items parts"
  shows "set (concat parts) = set items" "distinct (concat parts)" "distinct parts"
proof -
  show s: "set (concat parts) = set items"
    using assms(2) unfolding partition_into_def by (metis set_mset_mset)
  show d: "distinct (concat parts)"
    using assms wf_items_sorted(2) [OF assms(1)] unfolding partition_into_def
    by (metis distinct_map mset_eq_imp_distinct_iff)
  show "distinct parts"
  proof -
    have "distinct (removeAll [] parts)" using d by (simp add: distinct_concat_iff)
    then show ?thesis using assms(2) by (simp add: partition_into_def removeAll_id)
  qed
qed

lemma partition_part:
  assumes "wf_items items" "partition_into items parts" "p \<in> set parts" "q \<in> set parts" "i \<in> set p" "i \<in> set q"
  shows "p = q"
  using assms(2-6) unfolding partition_into_def group_whole_def by blast

lemma shard_index_of_part:
  assumes "wf_items items" "partition_into items parts" "n < length parts" "i \<in> set (parts ! n)"
  shows "shard_index_of (part_shards k parts) i = Some (k + int n)"
proof -
  have own: "it_item_index i \<in> set (ps_item_indices (part_shard j p)) \<longleftrightarrow> i \<in> set p" if "p \<in> set parts" for j p
  proof -
    have "set p \<subseteq> set items" "i \<in> set items"
      using partition_own(1) [OF assms(1,2)] that assms(4) nth_mem [OF assms(3)] by auto
    then show ?thesis using same_index [OF assms(1)] by (auto simp: part_shard_def)
  qed
  have "find_last (\<lambda>s. it_item_index i \<in> set (ps_item_indices s)) (part_shards k parts) =
      Some (part_shard (k + int n) (parts ! n))"
  proof (rule find_last_unique)
    fix s assume "s \<in> set (part_shards k parts)" "it_item_index i \<in> set (ps_item_indices s)"
    then obtain m where m: "m < length parts" "s = part_shard (k + int m) (parts ! m)" "i \<in> set (parts ! m)"
      using own by (auto simp: set_part_shards)
    have "parts ! m = parts ! n"
      using partition_part [OF assms(1,2) nth_mem [OF m(1)] nth_mem [OF assms(3)] m(3) assms(4)] .
    then have "m = n" using partition_own(3) [OF assms(1,2)] m(1) assms(3) by (simp add: nth_eq_iff_index_eq)
    then show "s = part_shard (k + int n) (parts ! n)" using m(2) by simp
  qed (use assms(3,4) in \<open>auto simp: set_part_shards own\<close>)
  then show ?thesis by (simp add: shard_index_of_def part_shard_def)
qed

lemma part_content_None:
  assumes "wf_items items" "set p \<subseteq> set items" "one_profile p"
  shows "first_some (shard_content_checks items (part_shard k p)) = None"
proof -
  have "items_at items (ps_item_indices (part_shard k p)) = p"
    using items_at_own [OF assms(1,2)] by (simp add: part_shard_def)
  moreover have "aggregate_shard_requirements p = Inr (requirements_of p)"
    using assms(1,2) by (intro aggregate_valid) (auto simp: wf_items_def)
  ultimately show ?thesis
    using assms(3) by (auto simp: shard_content_checks_def Let_def result_simps part_shard_def
        one_profile_def filter_empty_conv)
qed

lemma partition_accepted:
  assumes "wf_items items" "partition_into items parts" "\<forall>p \<in> set parts. one_profile p"
    "total_duration items \<le> max_safe_integer"
  shows "first_some (plan_candidate_checks items (part_shards 0 parts)) = None"
proof -
  note own = partition_own [OF assms(1,2)]
  have ne: "parts \<noteq> []" using assms(1,2) by (auto simp: wf_items_def partition_into_def)
  have idx: "map ps_shard_index (part_shards 0 parts) = map int [0..<length parts]"
    by (simp add: part_shards_fields)
  have cover: "first_some (exact_cover_checks ''shard_plan'' ''manifest_item_indices''
      (map it_item_index items) (concat (map ps_item_indices (part_shards 0 parts)))) = None"
    using assms(2) wf_items_sorted(2) [OF assms(1)]
    by (simp only: exact_cover_None part_shards_fields partition_into_def mset_map)
  have split: "split_groups items (part_shards 0 parts) = []"
    unfolding split_groups_Nil
  proof (intro ballI impI)
    fix i j assume ij: "i \<in> set items" "j \<in> set items" "it_atomic_group_id i = it_atomic_group_id j"
    then obtain n m where nm: "n < length parts" "i \<in> set (parts ! n)" "m < length parts" "j \<in> set (parts ! m)"
    proof -
      obtain p q where "p \<in> set parts" "i \<in> set p" "q \<in> set parts" "j \<in> set q"
        using ij(1,2) unfolding own(1) [symmetric] by auto
      then show thesis using that by (metis in_set_conv_nth)
    qed
    then have "parts ! n = parts ! m"
      using assms(2) ij(3) unfolding partition_into_def group_whole_def by (meson nth_mem)
    then have "n = m" using own(3) nm by (simp add: nth_eq_iff_index_eq)
    then show "shard_index_of (part_shards 0 parts) i = shard_index_of (part_shards 0 parts) j"
      using shard_index_of_part [OF assms(1,2)] nm by metis
  qed
  have content: "first_some (shard_content_checks items s) = None" if "s \<in> set (part_shards 0 parts)" for s
  proof -
    obtain n where n: "n < length parts" "s = part_shard (0 + int n) (parts ! n)"
      using \<open>s \<in> set (part_shards 0 parts)\<close> unfolding set_part_shards by blast
    have "set (parts ! n) \<subseteq> set items" using own(1) nth_mem [OF n(1)] by auto
    moreover have "one_profile (parts ! n)" using assms(3) nth_mem [OF n(1)] by blast
    ultimately show ?thesis unfolding n(2) by (rule part_content_None [OF assms(1)])
  qed
  have total: "sum_list (map ps_estimated_duration_ms (part_shards 0 parts)) = total_duration items"
    using assms(2) total_duration_mset [of "concat parts" items]
    by (simp add: part_shards_fields partition_into_def total_duration_concat)
  have "distinct (map ps_shard_index (part_shards 0 parts))"
    unfolding idx by (simp add: distinct_map inj_on_def)
  moreover have "part_shards 0 parts \<noteq> []" using ne by (cases parts) auto
  ultimately show ?thesis
    using cover split content total idx assms(4)
    by (simp add: plan_candidate_checks_def Let_def result_simps)
qed

section \<open>What an accepted plan guarantees\<close>

lemma accepted_cover:
  assumes "wf_items items" "first_some (plan_candidate_checks items shards) = None"
  shows "mset (concat (map ps_item_indices shards)) = mset (map it_item_index items)"
    "map ps_shard_index shards = map int [0..<length shards]" "shards \<noteq> []"
    "sum_list (map ps_estimated_duration_ms shards) \<le> max_safe_integer"
    "split_groups items shards = []"
    "\<And>s. s \<in> set shards \<Longrightarrow> first_some (shard_content_checks items s) = None"
  using assms(2) exact_cover_None [OF wf_items_sorted(2) [OF assms(1)]]
  by (auto simp: plan_candidate_checks_def Let_def result_simps)

lemma accepted_unique_shard:
  assumes "wf_items items" "first_some (plan_candidate_checks items shards) = None" "i \<in> set items"
  shows "\<exists>!s. s \<in> set shards \<and> it_item_index i \<in> set (ps_item_indices s)"
proof -
  note a = accepted_cover [OF assms(1,2)]
  have d: "distinct (concat (map ps_item_indices shards))"
    using a(1) wf_items_sorted(2) [OF assms(1)] by (metis mset_eq_imp_distinct_iff)
  have "it_item_index i \<in> set (concat (map ps_item_indices shards))"
    using assms(3) a(1) by (metis image_eqI mset_eq_setD set_map)
  then obtain s where s: "s \<in> set shards" "it_item_index i \<in> set (ps_item_indices s)" by auto
  have "t = s" if "t \<in> set shards" "it_item_index i \<in> set (ps_item_indices t)" for t
  proof (rule ccontr)
    assume "t \<noteq> s"
    obtain xs ys where "shards = xs @ s # ys" using s(1) by (meson split_list)
    moreover have "t \<in> set xs \<or> t \<in> set ys" using that(1) calculation \<open>t \<noteq> s\<close> by auto
    moreover have "distinct (concat (map ps_item_indices xs) @ ps_item_indices s @ concat (map ps_item_indices ys))"
      using d calculation(1) by simp
    ultimately show False using s(2) that(2) unfolding distinct_append set_append set_concat set_map by blast
  qed
  then show ?thesis using s by blast
qed

lemma accepted_shard_index:
  assumes "wf_items items" "first_some (plan_candidate_checks items shards) = None" "i \<in> set items"
    "s \<in> set shards" "it_item_index i \<in> set (ps_item_indices s)"
  shows "shard_index_of shards i = Some (ps_shard_index s)"
proof -
  have "find_last (\<lambda>s. it_item_index i \<in> set (ps_item_indices s)) shards = Some s"
    by (rule find_last_unique) (use accepted_unique_shard [OF assms(1-3)] assms(4,5) in blast)+
  then show ?thesis by (simp add: shard_index_of_def)
qed

lemma accepted_groups_whole:
  assumes "wf_items items" "first_some (plan_candidate_checks items shards) = None"
    "i \<in> set items" "j \<in> set items" "it_atomic_group_id i = it_atomic_group_id j"
    "s \<in> set shards" "it_item_index i \<in> set (ps_item_indices s)"
  shows "it_item_index j \<in> set (ps_item_indices s)"
proof -
  obtain t where t: "t \<in> set shards" "it_item_index j \<in> set (ps_item_indices t)"
    using accepted_unique_shard [OF assms(1,2,4)] by blast
  have "shard_index_of shards i = shard_index_of shards j"
    using accepted_cover(5) [OF assms(1,2)] assms(3-5) unfolding split_groups_Nil by blast
  then have "ps_shard_index s = ps_shard_index t"
    using accepted_shard_index [OF assms(1,2)] assms(3,4,6,7) t by fastforce
  moreover have "distinct (map ps_shard_index shards)"
    unfolding accepted_cover(2) [OF assms(1,2)] by (simp add: distinct_map inj_on_def)
  ultimately have "s = t" using t(1) assms(6) unfolding distinct_map inj_on_def by blast
  then show ?thesis using t(2) by simp
qed

lemma subset_image_lists: "set ys \<subseteq> f ` set xs \<Longrightarrow> \<exists>zs. set zs \<subseteq> set xs \<and> map f zs = ys"
proof (induction ys)
  case (Cons y ys)
  then obtain zs x where "set zs \<subseteq> set xs" "map f zs = ys" "x \<in> set xs" "f x = y" by auto
  then have "set (x # zs) \<subseteq> set xs \<and> map f (x # zs) = y # ys" by simp
  then show ?case by (rule exI)
qed simp

lemma accepted_content:
  assumes "wf_items items" "first_some (plan_candidate_checks items shards) = None" "s \<in> set shards"
  obtains own where "mset own = filter_mset (\<lambda>i. it_item_index i \<in> set (ps_item_indices s)) (mset items)"
    "map it_item_index own = ps_item_indices s" "ps_estimated_duration_ms s = total_duration own"
    "\<forall>i \<in> set own. it_resource_profile_id i = ps_resource_profile_id s"
    "ps_requirements s = requirements_of own"
proof -
  note a = accepted_cover [OF assms(1,2)]
  let ?own = "items_at items (ps_item_indices s)"
  have d: "distinct (ps_item_indices s)"
  proof -
    have "distinct (concat (map ps_item_indices shards))"
      using a(1) wf_items_sorted(2) [OF assms(1)] by (metis mset_eq_imp_distinct_iff)
    then show ?thesis using assms(3) by (simp add: distinct_concat_iff)
  qed
  have "set (ps_item_indices s) \<subseteq> it_item_index ` set items"
    using mset_eq_setD [OF a(1)] assms(3) by auto
  then obtain own where own: "set own \<subseteq> set items" "map it_item_index own = ps_item_indices s"
    using subset_image_lists by metis
  have at: "?own = own" using items_at_own [OF assms(1) own(1)] own(2) by simp
  show thesis
  proof (rule that)
    have "distinct own" using d own(2) by (metis distinct_map)
    moreover have "distinct items" using wf_items_sorted(2) [OF assms(1)] by (simp add: distinct_map)
    moreover have "set own = {i \<in> set items. it_item_index i \<in> set (ps_item_indices s)}"
      using own same_index [OF assms(1)] by (auto simp flip: own(2))
    ultimately show "mset own = filter_mset (\<lambda>i. it_item_index i \<in> set (ps_item_indices s)) (mset items)"
      by (metis distinct_filter mset_filter set_eq_iff_mset_eq_distinct set_filter)
    show "map it_item_index own = ps_item_indices s" by (rule own(2))
  qed (use a(6) [OF assms(3)] at in \<open>auto simp: shard_content_checks_def Let_def result_simps
       filter_empty_conv aggregate_shard_requirements_def mk_shard_requirements_def\<close>)
qed

end
