(* ===== verification/Resource_Profile.thy ===== *)
theory Resource_Profile
  imports Canonical_Json "HOL-Library.Log_Nat"
begin

text \<open>
  Resource profiles and the shard planning budget (\<open>src/qarunner/domain/resource_profile.py\<close>): the
  resource vectors, the validators, the shard count that a host budget allows and the
  all-or-nothing admission of a set of shards. \<open>math.ceil(a / b)\<close> goes through a double; the
  division is modelled with its rounding (53-bit mantissa, ties to even; the exponent range of
  doubles is not limited here) and proved exact below \<open>2^53\<close>.
\<close>

section \<open>Ceiling of a floating-point quotient\<close>

definition round_half_even :: "int \<Rightarrow> int \<Rightarrow> int" where
  "round_half_even n d =
     (let q = n div d; r = n mod d in
      if 2 * r < d \<or> (2 * r = d \<and> even q) then q else q + 1)"

definition at_least_pow2 :: "int \<Rightarrow> int \<Rightarrow> int \<Rightarrow> bool" where
  "at_least_pow2 a b e \<longleftrightarrow> b * 2 ^ nat e \<le> a * 2 ^ nat (- e)"

definition quotient_exponent :: "int \<Rightarrow> int \<Rightarrow> int" where
  "quotient_exponent a b =
     (let k = bitlen a - bitlen b in if at_least_pow2 a b k then k else k - 1)"

definition ceil_true_div :: "int \<Rightarrow> int \<Rightarrow> int" where
  "ceil_true_div a b =
     (let s = quotient_exponent a b - 52 in
      if s \<le> 0 then (let n = 2 ^ nat (- s) in - ((- round_half_even (a * n) b) div n))
      else round_half_even a (b * 2 ^ nat s) * 2 ^ nat s)"

lemma quotient_exponent_lower:
  assumes "0 < a" "0 < b"
  shows "at_least_pow2 a b (quotient_exponent a b)"
proof (cases "at_least_pow2 a b (bitlen a - bitlen b)")
  case True
  then show ?thesis by (simp add: quotient_exponent_def Let_def)
next
  case False
  let ?k = "bitlen a - bitlen b - 1"
  have a: "2 ^ nat (bitlen a - 1) \<le> a" and b: "b < 2 ^ nat (bitlen b)"
    using bitlen_bounds [OF assms(1)] bitlen_bounds [OF assms(2)] by auto
  have p: "1 \<le> bitlen a" "1 \<le> bitlen b" using assms by (simp_all add: bitlen_ge_iff_power)
  have e: "nat (bitlen b) + nat ?k = nat (bitlen a - 1) + nat (- ?k)" using p by linarith
  have "b * 2 ^ nat ?k \<le> 2 ^ nat (bitlen b) * 2 ^ nat ?k"
    using b by (intro mult_right_mono) simp_all
  also have "\<dots> = 2 ^ nat (bitlen a - 1) * 2 ^ nat (- ?k)" by (simp only: power_add [symmetric] e)
  also have "\<dots> \<le> a * 2 ^ nat (- ?k)" using a by (intro mult_right_mono) simp_all
  finally show ?thesis using False by (simp add: quotient_exponent_def Let_def at_least_pow2_def)
qed

lemma ceil_div_bounds:
  fixes n d :: int
  assumes "0 < d"
  shows "n \<le> - ((- n) div d) * d" "(- ((- n) div d) - 1) * d < n"
proof -
  obtain q r where q: "q = (- n) div d" and r: "r = (- n) mod d" by blast
  have "- n = q * d + r" "0 \<le> r" "r < d" using assms by (simp_all add: q r)
  then show "n \<le> - ((- n) div d) * d" "(- ((- n) div d) - 1) * d < n"
    unfolding q [symmetric] by (simp_all add: left_diff_distrib)
qed

lemma ceil_div_unique:
  fixes n d c :: int
  assumes "0 < d" "n \<le> c * d" "(c - 1) * d < n"
  shows "- ((- n) div d) = c"
proof -
  obtain k where k: "k = - ((- n) div d)" by blast
  have "n \<le> k * d" "(k - 1) * d < n" using ceil_div_bounds [OF assms(1), of n] by (simp_all add: k)
  then have "(k - 1) * d < c * d" "(c - 1) * d < k * d" using assms(2,3) by linarith+
  then have "k - 1 < c" "c - 1 < k" using assms(1) by (metis mult_less_cancel_right_disj not_less_iff_gr_or_eq)+
  then show ?thesis by (simp add: k [symmetric])
qed

lemma round_half_even_cases:
  assumes "0 < d"
  obtains q r where "n = q * d + r" "0 \<le> r" "r < d"
    "round_half_even n d = (if 2 * r < d \<or> (2 * r = d \<and> even q) then q else q + 1)"
proof (rule that)
  show "n = n div d * d + n mod d" by simp
  show "0 \<le> n mod d" "n mod d < d" using assms by simp_all
  show "round_half_even n d =
      (if 2 * (n mod d) < d \<or> (2 * (n mod d) = d \<and> even (n div d)) then n div d else n div d + 1)"
    by (simp add: round_half_even_def Let_def)
qed

lemma round_half_even_le:
  assumes "0 < d" "n \<le> c * d"
  shows "round_half_even n d \<le> c"
proof -
  obtain q r where q: "n = q * d + r" "0 \<le> r" "r < d"
    "round_half_even n d = (if 2 * r < d \<or> (2 * r = d \<and> even q) then q else q + 1)"
    by (rule round_half_even_cases [OF assms(1)])
  have "q * d \<le> c * d" using q(1,2) assms(2) by linarith
  then have "q \<le> c" using assms(1) by (metis mult_right_le_imp_le)
  moreover have "r = 0" if "q = c" using q(1,2) assms(2) that by simp
  ultimately show ?thesis using q(4) assms(1) by (cases "q = c") auto
qed

lemma round_half_even_gt:
  assumes "0 < d" "d < 2 * (n - m * d)"
  shows "m < round_half_even n d"
proof -
  obtain q r where q: "n = q * d + r" "0 \<le> r" "r < d"
    "round_half_even n d = (if 2 * r < d \<or> (2 * r = d \<and> even q) then q else q + 1)"
    by (rule round_half_even_cases [OF assms(1)])
  show ?thesis
  proof (cases "m < q")
    case False
    have "d < 2 * ((q - m) * d + r)" using assms(2) q(1) by (simp add: left_diff_distrib)
    moreover have "(q - m) * d \<le> 0 \<and> (q \<noteq> m \<longrightarrow> (q - m) * d \<le> - d)"
    proof -
      have "(q - m) * d \<le> -1 * d" if "q \<noteq> m"
        using that False assms(1) by (intro mult_right_mono) simp_all
      then show ?thesis using assms(1) by (cases "q = m") auto
    qed
    ultimately have "q = m" "d < 2 * r" using q(3) assms(1) by (cases "q = m"; simp)+
    then show ?thesis using q(4) by simp
  qed (use q(4) in auto)
qed

text \<open>The ceiling of the rounded quotient is the exact one while the dividend fits the mantissa.\<close>

lemma ceil_true_div_exact:
  assumes "0 < a" "a < 2 ^ 53" "0 < b"
  shows "ceil_true_div a b = - ((- a) div b)"
proof -
  let ?e = "quotient_exponent a b"
  let ?n = "2 ^ nat (52 - ?e) :: int"
  have low: "b * 2 ^ nat ?e \<le> a * 2 ^ nat (- ?e)"
    using quotient_exponent_lower [OF assms(1,3)] by (simp add: at_least_pow2_def)
  have e: "?e \<le> 52"
  proof (rule ccontr)
    assume "\<not> ?e \<le> 52"
    then have *: "53 \<le> nat ?e" "nat (- ?e) = 0" by linarith+
    have "(2::int) ^ 53 \<le> 2 ^ nat ?e" using *(1) by (rule power_increasing) simp
    also have "\<dots> \<le> b * 2 ^ nat ?e" using assms(3) by simp
    also have "\<dots> \<le> a" using low * by simp
    finally show False using assms(2) by simp
  qed
  have n0: "0 < ?n" by simp
  have scaled: "b * 2 ^ 52 \<le> a * ?n"
  proof (cases "0 \<le> ?e")
    case True
    have s: "nat ?e + nat (52 - ?e) = 52" using True e by linarith
    have "b * 2 ^ 52 = (b * 2 ^ nat ?e) * ?n" by (simp only: mult.assoc power_add [symmetric] s)
    also have "\<dots> \<le> a * ?n" using low True by (intro mult_right_mono) simp_all
    finally show ?thesis .
  next
    case False
    have s: "52 + nat (- ?e) = nat (52 - ?e)" using False by linarith
    have "b * 2 ^ 52 \<le> (a * 2 ^ nat (- ?e)) * 2 ^ 52" using low False by (intro mult_right_mono) simp_all
    also have "\<dots> = a * ?n" by (simp only: s [symmetric] power_add mult_ac)
    finally show ?thesis .
  qed
  have half: "b < 2 * ?n"
  proof (rule ccontr)
    assume "\<not> b < 2 * ?n"
    then have "a * (2 * ?n) \<le> a * b" using assms(1) by (intro mult_left_mono) simp_all
    also have "\<dots> < 2 ^ 53 * b" using assms by (intro mult_strict_right_mono) simp_all
    finally show False using scaled by simp
  qed
  let ?r = "round_half_even (a * ?n) b"
  let ?c = "- ((- a) div b)"
  have "a * ?n \<le> (?c * ?n) * b"
    using mult_right_mono [OF ceil_div_bounds(1) [OF assms(3), of a], of ?n] by (simp add: mult_ac)
  then have up: "?r \<le> ?c * ?n" by (rule round_half_even_le [OF assms(3)])
  have "(?c - 1) * b + 1 \<le> a" using ceil_div_bounds(2) [OF assms(3), of a] by linarith
  then have "((?c - 1) * b + 1) * ?n \<le> a * ?n" by (intro mult_right_mono) simp_all
  then have "?n \<le> a * ?n - (?c - 1) * ?n * b" by (simp add: algebra_simps)
  with half have "b < 2 * (a * ?n - (?c - 1) * ?n * b)"
    by (meson less_le_trans mult_left_mono zero_le_numeral)
  then have down: "(?c - 1) * ?n < ?r" by (rule round_half_even_gt [OF assms(3)])
  have "- ((- ?r) div ?n) = ?c" by (rule ceil_div_unique [OF n0 up down])
  then show ?thesis using e by (simp add: ceil_true_div_def Let_def)
qed

section \<open>Resource vectors\<close>

record resource_vector =
  rv_cpu_millis :: int
  rv_memory_bytes :: int
  rv_pid_slots :: int
  rv_ephemeral_storage_bytes :: int
  rv_browser_slots :: int

text \<open>\<open>_DIMENSIONS\<close> with their values, in the order of the source.\<close>

definition dimensions :: "resource_vector \<Rightarrow> (string \<times> int) list" where
  "dimensions v =
     [(''cpu_millis'', rv_cpu_millis v), (''memory_bytes'', rv_memory_bytes v),
      (''pid_slots'', rv_pid_slots v), (''ephemeral_storage_bytes'', rv_ephemeral_storage_bytes v),
      (''browser_slots'', rv_browser_slots v)]"

definition check_resource_vector :: "resource_vector \<Rightarrow> domain_error option" where
  "check_resource_vector v = first_some
     (map (\<lambda>(name, value). reject_if (value < 0)
        (DomainValidationError ''resource_vector'' name ''not_nonnegative'')) (dimensions v))"

definition mk_resource_vector :: "resource_vector \<Rightarrow> resource_vector result" where
  "mk_resource_vector v = raise_or (check_resource_vector v) v"

definition scale_vector :: "int \<Rightarrow> resource_vector \<Rightarrow> resource_vector" where
  "scale_vector factor v =
     \<lparr>rv_cpu_millis = rv_cpu_millis v * factor, rv_memory_bytes = rv_memory_bytes v * factor,
      rv_pid_slots = rv_pid_slots v * factor,
      rv_ephemeral_storage_bytes = rv_ephemeral_storage_bytes v * factor,
      rv_browser_slots = rv_browser_slots v * factor\<rparr>"

definition scaled_by :: "int \<Rightarrow> resource_vector \<Rightarrow> resource_vector result" where
  "scaled_by factor v =
     (if factor < 1 then Inl (DomainValidationError ''resource_vector'' ''factor'' ''not_positive'')
      else mk_resource_vector (scale_vector factor v))"

definition added :: "resource_vector \<Rightarrow> resource_vector \<Rightarrow> resource_vector result" where
  "added v other = mk_resource_vector
     \<lparr>rv_cpu_millis = rv_cpu_millis v + rv_cpu_millis other,
      rv_memory_bytes = rv_memory_bytes v + rv_memory_bytes other,
      rv_pid_slots = rv_pid_slots v + rv_pid_slots other,
      rv_ephemeral_storage_bytes = rv_ephemeral_storage_bytes v + rv_ephemeral_storage_bytes other,
      rv_browser_slots = rv_browser_slots v + rv_browser_slots other\<rparr>"

definition is_zero_vector :: "resource_vector \<Rightarrow> bool" where
  "is_zero_vector v \<longleftrightarrow> list_all (\<lambda>d. snd d = 0) (dimensions v)"

definition fits_within :: "resource_vector \<Rightarrow> resource_vector \<Rightarrow> bool" where
  "fits_within v capacity \<longleftrightarrow>
     list_all (\<lambda>(d, c). snd d \<le> snd c) (zip (dimensions v) (dimensions capacity))"

definition first_exceeding_dimension :: "resource_vector \<Rightarrow> resource_vector \<Rightarrow> string option" where
  "first_exceeding_dimension v capacity =
     map_option (\<lambda>(d, c). fst d)
       (find (\<lambda>(d, c). snd c < snd d) (zip (dimensions v) (dimensions capacity)))"

text \<open>\<open>min(limits, key=...)\<close>: the first entry with the smallest quotient.\<close>

fun min_limit :: "int \<times> string \<Rightarrow> (int \<times> string) list \<Rightarrow> int \<times> string" where
  "min_limit m [] = m"
| "min_limit m (x # xs) = min_limit (if fst x < fst m then x else m) xs"

definition dimension_limits :: "resource_vector \<Rightarrow> resource_vector \<Rightarrow> (int \<times> string) list" where
  "dimension_limits v capacity =
     map (\<lambda>(d, c). (snd c div snd d, fst d))
       (filter (\<lambda>(d, c). 0 < snd d) (zip (dimensions v) (dimensions capacity)))"

text \<open>\<open>None\<close> stands for \<open>(math.inf, None)\<close>, the answer for an all-zero cost.\<close>

definition max_concurrent_within :: "resource_vector \<Rightarrow> resource_vector \<Rightarrow> (int \<times> string) option" where
  "max_concurrent_within v capacity =
     (case dimension_limits v capacity of [] \<Rightarrow> None | x # xs \<Rightarrow> Some (min_limit x xs))"

definition vector_json :: "resource_vector \<Rightarrow> json" where
  "vector_json v = JObj (map (\<lambda>(name, value). (name, JInt value)) (dimensions v))"

section \<open>Profiles and budgets\<close>

record resource_profile_spec =
  pf_profile_id :: string
  pf_name :: string
  pf_profile_version :: int
  pf_framework :: string
  pf_requests :: resource_vector
  pf_limits :: resource_vector
  pf_internal_workers :: int
  pf_security_profile_id :: string

definition check_resource_profile :: "resource_profile_spec \<Rightarrow> domain_error option" where
  "check_resource_profile p =
     (let invalid = DomainValidationError ''resource_profile_spec'' in first_some
     [reject_if (blank (pf_profile_id p)) (invalid ''profile_id'' ''invalid''),
      reject_if (blank (pf_name p)) (invalid ''name'' ''invalid''),
      reject_if (blank (pf_framework p)) (invalid ''framework'' ''invalid''),
      reject_if (blank (pf_security_profile_id p)) (invalid ''security_profile_id'' ''invalid''),
      reject_if (pf_profile_version p < 1) (invalid ''profile_version'' ''not_positive''),
      reject_if (pf_internal_workers p < 1) (invalid ''internal_workers'' ''not_positive''),
      reject_if (is_zero_vector (pf_requests p)) (invalid ''requests'' ''zero_request_oversell''),
      (case first_exceeding_dimension (pf_requests p) (pf_limits p) of
         None \<Rightarrow> None
       | Some d \<Rightarrow> Some (invalid ''limits'' (''below_requests:'' @ d)))])"

definition resource_profile_digest :: "resource_profile_spec \<Rightarrow> digest result" where
  "resource_profile_digest p = canonical_digest ''qep.resource-profile.v1''
     (JObj [(''framework'', JStr (pf_framework p)),
            (''internal_workers'', JInt (pf_internal_workers p)),
            (''limits'', vector_json (pf_limits p)),
            (''name'', JStr (pf_name p)),
            (''profile_id'', JStr (pf_profile_id p)),
            (''profile_version'', JInt (pf_profile_version p)),
            (''requests'', vector_json (pf_requests p)),
            (''security_profile_id'', JStr (pf_security_profile_id p))])"

definition concurrent_reservation :: "resource_profile_spec \<Rightarrow> resource_vector result" where
  "concurrent_reservation p = scaled_by (pf_internal_workers p) (pf_requests p)"

record shard_planning_budget =
  sb_target_shard_duration_ms :: int
  sb_min_shards :: int
  sb_max_shards :: int
  sb_host_capacity :: resource_vector
  sb_profiles :: "resource_profile_spec list"

definition check_shard_planning_budget :: "shard_planning_budget \<Rightarrow> domain_error option" where
  "check_shard_planning_budget b =
     (let invalid = DomainValidationError ''shard_planning_budget'' in first_some
     [reject_if (sb_target_shard_duration_ms b < 1) (invalid ''target_shard_duration_ms'' ''not_positive''),
      reject_if (sb_min_shards b < 1) (invalid ''min_shards'' ''not_positive''),
      reject_if (sb_max_shards b < sb_min_shards b) (invalid ''max_shards'' ''below_min_shards''),
      reject_if (sb_profiles b = []) (invalid ''profiles'' ''empty''),
      reject_if (\<not> distinct (map pf_profile_id (sb_profiles b)))
        (invalid ''profiles'' ''duplicate_profile_id'')])"

definition budget_profile :: "string \<Rightarrow> shard_planning_budget \<Rightarrow> resource_profile_spec result" where
  "budget_profile profile_id b =
     (case find (\<lambda>p. pf_profile_id p = profile_id) (sb_profiles b) of
        Some p \<Rightarrow> Inr p
      | None \<Rightarrow> Inl (DomainValidationError ''shard_planning_budget'' ''resource_profile_id'' ''unknown_profile''))"

section \<open>Decisions\<close>

datatype shard_budget_decision_kind = ShardsAdmitted | ShardsClamped | ShardsInfeasible

record shard_budget_decision =
  sd_kind :: shard_budget_decision_kind
  sd_desired_shard_count :: int
  sd_allowed_shard_count :: int
  sd_limiting_dimension :: "string option"
  sd_reason :: "string option"

definition check_shard_budget_decision :: "shard_budget_decision \<Rightarrow> domain_error option" where
  "check_shard_budget_decision d =
     (let invalid = DomainValidationError ''shard_budget_decision'' in first_some
     [reject_if (sd_desired_shard_count d < 0) (invalid ''desired_shard_count'' ''not_nonnegative''),
      reject_if (sd_allowed_shard_count d < 0) (invalid ''allowed_shard_count'' ''not_nonnegative''),
      reject_if (case sd_limiting_dimension d of None \<Rightarrow> False | Some x \<Rightarrow> blank x)
        (invalid ''limiting_dimension'' ''invalid''),
      reject_if (case sd_reason d of None \<Rightarrow> False | Some x \<Rightarrow> blank x) (invalid ''reason'' ''invalid'')])"

definition mk_shard_budget_decision :: "shard_budget_decision \<Rightarrow> shard_budget_decision result" where
  "mk_shard_budget_decision d = raise_or (check_shard_budget_decision d) d"

definition desired_shard_count :: "int \<Rightarrow> int \<Rightarrow> int \<Rightarrow> int \<Rightarrow> int result" where
  "desired_shard_count duration target min_shards max_shards =
     (if duration < 0
      then Inl (DomainValidationError ''shard_planning_budget'' ''total_estimated_duration_ms''
             ''not_nonnegative'')
      else let base = (if duration = 0 then min_shards else ceil_true_div duration target)
           in Inr (max min_shards (min max_shards base)))"

definition plan_shard_count_under_budget ::
  "int \<Rightarrow> string \<Rightarrow> shard_planning_budget \<Rightarrow> shard_budget_decision result" where
  "plan_shard_count_under_budget duration profile_id b =
     bind_result (budget_profile profile_id b) (\<lambda>p.
     bind_result (desired_shard_count duration (sb_target_shard_duration_ms b) (sb_min_shards b)
       (sb_max_shards b)) (\<lambda>desired.
     bind_result (concurrent_reservation p) (\<lambda>unit_cost.
     let (max_by_budget, limiting) =
           (case max_concurrent_within unit_cost (sb_host_capacity b) of
              None \<Rightarrow> (0, ''cpu_millis'') | Some m \<Rightarrow> m) in
     if max_by_budget < 1 then
       mk_shard_budget_decision
         \<lparr>sd_kind = ShardsInfeasible, sd_desired_shard_count = desired, sd_allowed_shard_count = 0,
          sd_limiting_dimension = Some limiting, sd_reason = Some ''oversell''\<rparr>
     else let allowed = min desired max_by_budget in
       if allowed < desired then
         mk_shard_budget_decision
           \<lparr>sd_kind = ShardsClamped, sd_desired_shard_count = desired, sd_allowed_shard_count = allowed,
            sd_limiting_dimension = Some limiting, sd_reason = Some ''host_budget''\<rparr>
       else
         mk_shard_budget_decision
           \<lparr>sd_kind = ShardsAdmitted, sd_desired_shard_count = desired, sd_allowed_shard_count = allowed,
            sd_limiting_dimension = None, sd_reason = None\<rparr>)))"

text \<open>The loop that sums the reservations of the listed shards.\<close>

fun total_reservation ::
  "shard_planning_budget \<Rightarrow> string list \<Rightarrow> resource_vector \<Rightarrow> resource_vector result" where
  "total_reservation b [] sum_so_far = Inr sum_so_far"
| "total_reservation b (i # is) sum_so_far =
     bind_result (budget_profile i b) (\<lambda>p.
     bind_result (concurrent_reservation p) (\<lambda>r.
     bind_result (added sum_so_far r) (total_reservation b is)))"

definition zero_vector :: resource_vector where
  "zero_vector = \<lparr>rv_cpu_millis = 0, rv_memory_bytes = 0, rv_pid_slots = 0,
     rv_ephemeral_storage_bytes = 0, rv_browser_slots = 0\<rparr>"

definition admit_concurrent_shards ::
  "string list \<Rightarrow> shard_planning_budget \<Rightarrow> shard_budget_decision result" where
  "admit_concurrent_shards ids b =
     (let invalid = DomainValidationError ''shard_planning_budget'' ''shard_profile_ids'' in
      if ids = [] then Inl (invalid ''empty'')
      else if list_ex blank ids then Inl (invalid ''invalid_entry'')
      else bind_result (total_reservation b ids zero_vector) (\<lambda>sum_so_far.
        let desired = int (length ids) in
        if fits_within sum_so_far (sb_host_capacity b) then
          mk_shard_budget_decision
            \<lparr>sd_kind = ShardsAdmitted, sd_desired_shard_count = desired,
             sd_allowed_shard_count = desired, sd_limiting_dimension = None, sd_reason = None\<rparr>
        else
          mk_shard_budget_decision
            \<lparr>sd_kind = ShardsInfeasible, sd_desired_shard_count = desired, sd_allowed_shard_count = 0,
             sd_limiting_dimension = first_exceeding_dimension sum_so_far (sb_host_capacity b),
             sd_reason = Some ''oversell''\<rparr>))"

section \<open>Facts\<close>

definition wf_budget :: "shard_planning_budget \<Rightarrow> bool" where
  "wf_budget b \<longleftrightarrow>
     check_shard_planning_budget b = None \<and> check_resource_vector (sb_host_capacity b) = None \<and>
     list_all (\<lambda>p. check_resource_profile p = None \<and> check_resource_vector (pf_requests p) = None \<and>
       check_resource_vector (pf_limits p) = None) (sb_profiles b)"

lemma le_div_iff_mult_le: "0 < u \<Longrightarrow> n \<le> c div u \<longleftrightarrow> n * u \<le> (c::int)"
proof
  assume "0 < u" "n * u \<le> c"
  then show "n \<le> c div u" using zdiv_mono1 [of "n * u" c u] by simp
next
  assume u: "0 < u" and "n \<le> c div u"
  then have "n * u \<le> c div u * u" by (intro mult_right_mono) simp_all
  also have "c div u * u \<le> c"
    using pos_mod_sign [OF u, of c] by (metis add.commute add_increasing div_mult_mod_eq order_refl)
  finally show "n * u \<le> c" .
qed

lemma le_min_limit: "n \<le> fst (min_limit m xs) \<longleftrightarrow> n \<le> fst m \<and> (\<forall>x \<in> set xs. n \<le> fst x)"
  by (induction xs arbitrary: m) auto

lemmas dimension_defs = dimensions_def fits_within_def dimension_limits_def first_exceeding_dimension_def

lemma check_resource_vector_None:
  "check_resource_vector v = None \<longleftrightarrow>
     0 \<le> rv_cpu_millis v \<and> 0 \<le> rv_memory_bytes v \<and> 0 \<le> rv_pid_slots v \<and>
     0 \<le> rv_ephemeral_storage_bytes v \<and> 0 \<le> rv_browser_slots v"
  by (auto simp: check_resource_vector_def dimensions_def result_simps)

lemma scale_vector_check:
  "check_resource_vector v = None \<Longrightarrow> 0 \<le> n \<Longrightarrow> check_resource_vector (scale_vector n v) = None"
  by (simp add: check_resource_vector_None scale_vector_def)

lemma scale_scale: "scale_vector n (scale_vector m v) = scale_vector (n * m) v"
  by (simp add: scale_vector_def mult_ac)

lemma fits_within_iff:
  "fits_within v c \<longleftrightarrow>
     rv_cpu_millis v \<le> rv_cpu_millis c \<and> rv_memory_bytes v \<le> rv_memory_bytes c \<and>
     rv_pid_slots v \<le> rv_pid_slots c \<and> rv_ephemeral_storage_bytes v \<le> rv_ephemeral_storage_bytes c \<and>
     rv_browser_slots v \<le> rv_browser_slots c"
  by (simp add: dimension_defs)

lemma fits_within_None: "first_exceeding_dimension v c = None \<longleftrightarrow> fits_within v c"
  by (auto simp: dimension_defs)

lemma dimension_limits_fit:
  assumes "check_resource_vector v = None" "check_resource_vector c = None" "0 \<le> n"
  shows "(\<forall>x \<in> set (dimension_limits v c). n \<le> fst x) \<longleftrightarrow> fits_within (scale_vector n v) c"
proof -
  have *: "(0 < u \<longrightarrow> n \<le> k div u) \<longleftrightarrow> u * n \<le> k" if "0 \<le> u" "0 \<le> k" for u k :: int
    using le_div_iff_mult_le [of u n k] that by (cases "u = 0") (auto simp: mult.commute)
  show ?thesis
    using assms(1,2) unfolding check_resource_vector_None
    by (simp add: dimension_limits_def dimensions_def fits_within_iff scale_vector_def * [symmetric])
qed

lemma max_concurrent_exact:
  assumes "check_resource_vector v = None" "check_resource_vector c = None" "\<not> is_zero_vector v"
  obtains m d where "max_concurrent_within v c = Some (m, d)"
    "\<And>n. 0 \<le> n \<Longrightarrow> n \<le> m \<longleftrightarrow> fits_within (scale_vector n v) c"
proof -
  have "dimension_limits v c \<noteq> []"
    using assms(1,3) by (auto simp: dimension_limits_def dimensions_def is_zero_vector_def check_resource_vector_None)
  then obtain x xs where x: "dimension_limits v c = x # xs" by (cases "dimension_limits v c") auto
  show thesis
  proof (rule that)
    show "max_concurrent_within v c = Some (fst (min_limit x xs), snd (min_limit x xs))"
      by (simp add: max_concurrent_within_def x)
    show "n \<le> fst (min_limit x xs) \<longleftrightarrow> fits_within (scale_vector n v) c" if "0 \<le> n" for n
      using dimension_limits_fit [OF assms(1,2) that] by (simp add: x le_min_limit)
  qed
qed

lemma budget_profile_Inr:
  "budget_profile i b = Inr p \<Longrightarrow> p \<in> set (sb_profiles b) \<and> pf_profile_id p = i"
  by (auto simp: budget_profile_def dest: find_SomeD split: option.splits)

lemma wf_budget_profile:
  assumes "wf_budget b" "budget_profile i b = Inr p"
  shows "check_resource_vector (pf_requests p) = None" "1 \<le> pf_internal_workers p"
    "\<not> is_zero_vector (pf_requests p)"
  using assms budget_profile_Inr [OF assms(2)]
  by (auto simp: wf_budget_def list_all_iff check_resource_profile_def Let_def result_simps)

lemma concurrent_reservation_wf:
  assumes "wf_budget b" "budget_profile i b = Inr p"
  shows "concurrent_reservation p = Inr (scale_vector (pf_internal_workers p) (pf_requests p))"
  using wf_budget_profile [OF assms]
  by (simp add: concurrent_reservation_def scaled_by_def mk_resource_vector_def scale_vector_check)

lemma scale_vector_nonzero:
  "1 \<le> n \<Longrightarrow> \<not> is_zero_vector v \<Longrightarrow> \<not> is_zero_vector (scale_vector n v)"
  by (auto simp: is_zero_vector_def dimensions_def scale_vector_def)

lemma desired_shard_count_Inr:
  assumes "wf_budget b"
    "desired_shard_count t (sb_target_shard_duration_ms b) (sb_min_shards b) (sb_max_shards b) = Inr n"
  shows "sb_min_shards b \<le> n" "n \<le> sb_max_shards b" "1 \<le> n"
  using assms by (auto simp: desired_shard_count_def wf_budget_def check_shard_planning_budget_def
      Let_def result_simps split: if_splits)

text \<open>Which count the planning allows: the largest one up to the desired count that fits the host.\<close>

lemma plan_shard_count_exact:
  assumes "wf_budget b" "plan_shard_count_under_budget t i b = Inr d"
  obtains p where "budget_profile i b = Inr p"
    "desired_shard_count t (sb_target_shard_duration_ms b) (sb_min_shards b) (sb_max_shards b) =
       Inr (sd_desired_shard_count d)"
    "\<And>n. 0 \<le> n \<Longrightarrow> n \<le> sd_allowed_shard_count d \<longleftrightarrow>
       n \<le> sd_desired_shard_count d \<and>
       fits_within (scale_vector (n * pf_internal_workers p) (pf_requests p)) (sb_host_capacity b)"
    "sd_kind d = ShardsInfeasible \<longleftrightarrow> sd_allowed_shard_count d < 1" "0 \<le> sd_allowed_shard_count d"
proof -
  from assms(2) obtain p n where p: "budget_profile i b = Inr p"
    and n: "desired_shard_count t (sb_target_shard_duration_ms b) (sb_min_shards b) (sb_max_shards b) = Inr n"
    by (auto simp: plan_shard_count_under_budget_def bind_result_Inr_iff)
  let ?u = "scale_vector (pf_internal_workers p) (pf_requests p)"
  have w: "check_resource_vector (pf_requests p) = None" "1 \<le> pf_internal_workers p"
    "\<not> is_zero_vector (pf_requests p)"
    using wf_budget_profile [OF assms(1) p] .
  have c: "check_resource_vector (sb_host_capacity b) = None" using assms(1) by (simp add: wf_budget_def)
  obtain m dim where m: "max_concurrent_within ?u (sb_host_capacity b) = Some (m, dim)"
    and fit: "\<And>n. 0 \<le> n \<Longrightarrow> n \<le> m \<longleftrightarrow> fits_within (scale_vector n ?u) (sb_host_capacity b)"
    using max_concurrent_exact [OF scale_vector_check [OF w(1)] c scale_vector_nonzero [OF w(2,3)]] w(2)
    by (metis int_one_le_iff_zero_less less_imp_le)
  have n1: "1 \<le> n" using desired_shard_count_Inr(3) [OF assms(1) n] .
  have zero: "fits_within (scale_vector 0 ?u) (sb_host_capacity b)"
    using c by (simp add: fits_within_iff scale_vector_def check_resource_vector_None)
  have d: "sd_desired_shard_count d = n" "sd_allowed_shard_count d = (if m < 1 then 0 else min n m)"
    "sd_kind d = ShardsInfeasible \<longleftrightarrow> m < 1"
    using assms(2) by (auto simp: plan_shard_count_under_budget_def p n m Let_def
        concurrent_reservation_wf [OF assms(1) p] mk_shard_budget_decision_def result_simps split: if_splits)
  have m0: "0 \<le> m" using fit [of 0] zero by simp
  show thesis
  proof (rule that [OF p])
    show "desired_shard_count t (sb_target_shard_duration_ms b) (sb_min_shards b) (sb_max_shards b) =
        Inr (sd_desired_shard_count d)" using n d by simp
    show "k \<le> sd_allowed_shard_count d \<longleftrightarrow> k \<le> sd_desired_shard_count d \<and>
        fits_within (scale_vector (k * pf_internal_workers p) (pf_requests p)) (sb_host_capacity b)"
      if "0 \<le> k" for k
      using fit [OF that] d n1 m0 that by (auto simp: scale_scale)
    show "sd_kind d = ShardsInfeasible \<longleftrightarrow> sd_allowed_shard_count d < 1" "0 \<le> sd_allowed_shard_count d"
      using d n1 m0 by auto
  qed
qed

text \<open>The set admission: the sum of the listed reservations, dimension by dimension.\<close>

definition reserved :: "shard_planning_budget \<Rightarrow> string \<Rightarrow> resource_vector" where
  "reserved b i =
     (case budget_profile i b of
        Inr p \<Rightarrow> scale_vector (pf_internal_workers p) (pf_requests p) | Inl _ \<Rightarrow> zero_vector)"

definition sum_reserved :: "shard_planning_budget \<Rightarrow> string list \<Rightarrow> resource_vector" where
  "sum_reserved b ids =
     \<lparr>rv_cpu_millis = sum_list (map (rv_cpu_millis \<circ> reserved b) ids),
      rv_memory_bytes = sum_list (map (rv_memory_bytes \<circ> reserved b) ids),
      rv_pid_slots = sum_list (map (rv_pid_slots \<circ> reserved b) ids),
      rv_ephemeral_storage_bytes = sum_list (map (rv_ephemeral_storage_bytes \<circ> reserved b) ids),
      rv_browser_slots = sum_list (map (rv_browser_slots \<circ> reserved b) ids)\<rparr>"

definition add_vector :: "resource_vector \<Rightarrow> resource_vector \<Rightarrow> resource_vector" where
  "add_vector v w =
     \<lparr>rv_cpu_millis = rv_cpu_millis v + rv_cpu_millis w, rv_memory_bytes = rv_memory_bytes v + rv_memory_bytes w,
      rv_pid_slots = rv_pid_slots v + rv_pid_slots w,
      rv_ephemeral_storage_bytes = rv_ephemeral_storage_bytes v + rv_ephemeral_storage_bytes w,
      rv_browser_slots = rv_browser_slots v + rv_browser_slots w\<rparr>"

lemma added_Inr [result_simps]: "added v w = Inr u \<longleftrightarrow> check_resource_vector u = None \<and> u = add_vector v w"
  by (auto simp: added_def mk_resource_vector_def add_vector_def result_simps)

lemma total_reservation_sum:
  assumes "wf_budget b" "\<And>i. i \<in> set ids \<Longrightarrow> \<exists>p. budget_profile i b = Inr p" "check_resource_vector v = None"
  shows "total_reservation b ids v = Inr (add_vector v (sum_reserved b ids))"
  using assms(2,3)
proof (induction ids arbitrary: v)
  case Nil
  then show ?case by (simp add: add_vector_def sum_reserved_def)
next
  case (Cons i js)
  then obtain p where p: "budget_profile i b = Inr p" by auto
  have r: "concurrent_reservation p = Inr (reserved b i)" "check_resource_vector (reserved b i) = None"
    using concurrent_reservation_wf [OF assms(1) p] wf_budget_profile [OF assms(1) p]
    by (simp_all add: reserved_def p scale_vector_check)
  let ?w = "add_vector v (reserved b i)"
  have w: "check_resource_vector ?w = None"
    using r(2) Cons.prems(2) by (auto simp: check_resource_vector_None add_vector_def)
  have "total_reservation b (i # js) v = total_reservation b js ?w"
    using w by (simp add: p r(1) added_def mk_resource_vector_def add_vector_def)
  also have "\<dots> = Inr (add_vector ?w (sum_reserved b js))"
    by (rule Cons.IH) (use Cons.prems(1) w in auto)
  finally show ?case by (simp add: add_vector_def sum_reserved_def)
qed

lemma admit_concurrent_exact:
  assumes "wf_budget b" "ids \<noteq> []" "\<And>i. i \<in> set ids \<Longrightarrow> \<exists>p. budget_profile i b = Inr p"
    "\<not> list_ex blank ids"
  obtains d where "admit_concurrent_shards ids b = Inr d" "sd_desired_shard_count d = int (length ids)"
    "sd_kind d = ShardsAdmitted \<longleftrightarrow> fits_within (sum_reserved b ids) (sb_host_capacity b)"
    "sd_allowed_shard_count d =
       (if fits_within (sum_reserved b ids) (sb_host_capacity b) then int (length ids) else 0)"
proof -
  let ?t = "sum_reserved b ids"
  have z: "check_resource_vector zero_vector = None"
    by (simp add: check_resource_vector_None zero_vector_def)
  have t: "total_reservation b ids zero_vector = Inr ?t"
    using total_reservation_sum [OF assms(1,3) z]
    by (simp add: add_vector_def zero_vector_def sum_reserved_def)
  have nb: "\<not> blank x" if "first_exceeding_dimension ?t (sb_host_capacity b) = Some x" for x
    using that by (auto simp: dimension_defs blank_eval split: if_splits)
  show thesis
  proof (cases "fits_within ?t (sb_host_capacity b)")
    case True
    show thesis
      by (rule that [of "\<lparr>sd_kind = ShardsAdmitted, sd_desired_shard_count = int (length ids),
             sd_allowed_shard_count = int (length ids), sd_limiting_dimension = None, sd_reason = None\<rparr>"])
        (use True assms(2,4) in \<open>simp_all add: admit_concurrent_shards_def t Let_def
           mk_shard_budget_decision_def check_shard_budget_decision_def\<close>)
  next
    case False
    show thesis
      by (rule that [of "\<lparr>sd_kind = ShardsInfeasible, sd_desired_shard_count = int (length ids),
             sd_allowed_shard_count = 0, sd_limiting_dimension = first_exceeding_dimension ?t (sb_host_capacity b),
             sd_reason = Some ''oversell''\<rparr>"])
        (use False assms(2,4) nb in \<open>auto simp: admit_concurrent_shards_def t Let_def blank_eval
           mk_shard_budget_decision_def check_shard_budget_decision_def reject_if_def raise_or_def
           split: option.splits\<close>)
  qed
qed

end
