(* ===== verification/Sharding.thy ===== *)
theory Sharding
  imports Manifest Resource_Profile "HOL-Library.Product_Lexorder"
begin

text \<open>
  The shard planners (\<open>plan_single_shard\<close>, \<open>plan_multi_shard\<close> and their helpers in
  \<open>src/qarunner/domain/manifest.py\<close>). A Python dict of lists is an association list in insertion
  order; the loops over profiles, atomic groups and shards are recursions over lists.
\<close>

section \<open>Grouping\<close>

text \<open>\<open>groups.setdefault(key, []).append(value)\<close>\<close>

fun append_at :: "'k \<Rightarrow> 'v \<Rightarrow> ('k \<times> 'v list) list \<Rightarrow> ('k \<times> 'v list) list" where
  "append_at k v [] = [(k, [v])]"
| "append_at k v ((k', vs) # rest) = (if k = k' then (k', vs @ [v]) # rest else (k', vs) # append_at k v rest)"

definition group_by :: "('a \<Rightarrow> 'k) \<Rightarrow> ('a \<Rightarrow> 'v) \<Rightarrow> 'a list \<Rightarrow> ('k \<times> 'v list) list" where
  "group_by key val xs = fold (\<lambda>x. append_at (key x) (val x)) xs []"

section \<open>One shard\<close>

definition shard_for ::
  "manifest_item list \<Rightarrow> string \<Rightarrow> int \<Rightarrow> int list \<Rightarrow> planned_shard result" where
  "shard_for items profile_id shard_index indices =
     bind_result (aggregate_shard_requirements items) (\<lambda>requirements.
     mk_planned_shard
       \<lparr>ps_shard_index = shard_index, ps_item_indices = indices, ps_resource_profile_id = profile_id,
        ps_estimated_duration_ms = total_duration items, ps_requirements = requirements, ps_flags = []\<rparr>)"

definition plan_single_shard :: "string \<Rightarrow> case_manifest \<Rightarrow> string \<Rightarrow> shard_plan result" where
  "plan_single_shard plan_id m algorithm_version =
     (case remdups (map it_resource_profile_id (cm_items m)) of
        [profile_id] \<Rightarrow>
          bind_result (shard_for (cm_items m) profile_id 0 (map it_item_index (cm_items m))) (\<lambda>s.
          shard_plan_create plan_id (cm_batch_id m) m algorithm_version [s])
      | _ \<Rightarrow> Inl (DomainValidationError ''shard_plan'' ''resource_profile_id'' ''mixed''))"

definition single_shard_for_group ::
  "manifest_item list \<Rightarrow> string \<Rightarrow> int \<Rightarrow> planned_shard list result" where
  "single_shard_for_group items profile_id offset =
     map_result (\<lambda>s. [s]) (shard_for items profile_id offset (map it_item_index items))"

section \<open>Longest processing time first\<close>

type_synonym work_unit = "string \<times> int \<times> int list"

text \<open>The atomic groups of the items: id, total duration and item indices, in order of appearance.\<close>

definition work_units :: "manifest_item list \<Rightarrow> work_unit list" where
  "work_units items = map (\<lambda>(g, xs). (g, total_duration xs, map it_item_index xs))
     (group_by it_atomic_group_id (\<lambda>i. i) items)"

definition sort_units :: "work_unit list \<Rightarrow> work_unit list" where
  "sort_units = sort_key (\<lambda>u. (- fst (snd u), fst u))"

text \<open>\<open>min(range(n), key=lambda s: (loads[s], s))\<close>: the first shard with the least load.\<close>

fun least_loaded :: "(int \<times> int list) list \<Rightarrow> nat" where
  "least_loaded [] = 0"
| "least_loaded [b] = 0"
| "least_loaded (b # c # bs) =
     (let j = least_loaded (c # bs) in if fst b \<le> fst ((c # bs) ! j) then 0 else Suc j)"

definition add_unit :: "(int \<times> int list) list \<Rightarrow> work_unit \<Rightarrow> (int \<times> int list) list" where
  "add_unit bins u =
     (let t = least_loaded bins; b = bins ! t
      in bins[t := (fst b + fst (snd u), snd b @ snd (snd u))])"

definition lpt_assign :: "nat \<Rightarrow> work_unit list \<Rightarrow> (int \<times> int list) list" where
  "lpt_assign n units = foldl add_unit (replicate n (0, [])) units"

fun build_shards ::
  "manifest_item list \<Rightarrow> string \<Rightarrow> int \<Rightarrow> (int \<times> int list) list \<Rightarrow> planned_shard list result" where
  "build_shards items profile_id index [] = Inr []"
| "build_shards items profile_id index (b # bs) =
     (let ordered = sort (snd b) in
      bind_result (shard_for (filter (\<lambda>i. it_item_index i \<in> set ordered) items) profile_id index ordered)
        (\<lambda>s. map_result ((#) s) (build_shards items profile_id (index + 1) bs)))"

definition lpt_split_group ::
  "manifest_item list \<Rightarrow> string \<Rightarrow> int \<Rightarrow> int \<Rightarrow> planned_shard list result" where
  "lpt_split_group items profile_id allowed offset =
     (let units = sort_units (work_units items);
          effective = nat (min allowed (int (length units)))
      in build_shards items profile_id offset (lpt_assign effective units))"

section \<open>The multi-shard planner\<close>

definition allowed_shard_count ::
  "string \<Rightarrow> manifest_item list \<Rightarrow> shard_planning_budget option \<Rightarrow> int result" where
  "allowed_shard_count profile_id items budget =
     (case budget of
        None \<Rightarrow> Inr 1
      | Some b \<Rightarrow> map_result
          (\<lambda>d. if sd_kind d = ShardsInfeasible then 0 else sd_allowed_shard_count d)
          (plan_shard_count_under_budget (total_duration items) profile_id b))"

definition plan_group ::
  "shard_planning_budget option \<Rightarrow> string \<Rightarrow> manifest_item list \<Rightarrow> int \<Rightarrow> planned_shard list result" where
  "plan_group budget profile_id items offset =
     bind_result (allowed_shard_count profile_id items budget) (\<lambda>allowed.
     if allowed < 1
     then Inl (DomainValidationError ''shard_plan'' ''resource_profile_id'' ''infeasible'')
     else if allowed = 1 \<or> length items \<le> 1 then single_shard_for_group items profile_id offset
     else lpt_split_group items profile_id allowed offset)"

fun plan_groups ::
  "manifest_item list \<Rightarrow> shard_planning_budget option \<Rightarrow> (string \<times> int list) list \<Rightarrow>
   planned_shard list \<Rightarrow> planned_shard list result" where
  "plan_groups items budget [] shards = Inr shards"
| "plan_groups items budget ((profile_id, indices) # rest) shards =
     bind_result (plan_group budget profile_id (items_at items (sort indices)) (int (length shards)))
       (\<lambda>new. plan_groups items budget rest (shards @ new))"

definition plan_multi_shard ::
  "string \<Rightarrow> case_manifest \<Rightarrow> string \<Rightarrow> shard_planning_budget option \<Rightarrow> shard_plan result" where
  "plan_multi_shard plan_id m algorithm_version budget =
     bind_result (plan_groups (cm_items m) budget
       (sort_key fst (group_by it_resource_profile_id it_item_index (cm_items m))) []) (\<lambda>shards.
     shard_plan_create plan_id (cm_batch_id m) m algorithm_version shards)"

text \<open>
  The longest-processing-time assignment as a list-scheduling algorithm: every unit lands in one
  shard, the load of a shard is the sum of its units, the makespan stays within Graham's bound,
  and no shard is left empty when every unit has a positive duration.
\<close>

abbreviation unit_duration :: "work_unit \<Rightarrow> int" where
  "unit_duration u \<equiv> fst (snd u)"

abbreviation unit_indices :: "work_unit \<Rightarrow> int list" where
  "unit_indices u \<equiv> snd (snd u)"

section \<open>The least loaded shard\<close>

lemma least_loaded_bound: "bins \<noteq> [] \<Longrightarrow> least_loaded bins < length bins"
  by (induction bins rule: least_loaded.induct) (auto simp: Let_def)

lemma least_loaded_min:
  "b \<in> set bins \<Longrightarrow> fst (bins ! least_loaded bins) \<le> fst b"
proof (induction bins rule: least_loaded.induct)
  case (3 b' c bs)
  have l: "least_loaded (c # bs) < length (c # bs)" by (rule least_loaded_bound) simp
  show ?case
  proof (cases "b \<in> set (c # bs)")
    case True
    then show ?thesis using "3.IH" by (auto simp: Let_def)
  next
    case False
    then show ?thesis using "3.prems" by (auto simp: Let_def)
  qed
qed simp_all

section \<open>What an assignment is\<close>

text \<open>The units that each shard received, kept beside the loads and indices of the code.\<close>

definition assigns :: "(int \<times> int list) list \<Rightarrow> work_unit list list \<Rightarrow> bool" where
  "assigns bins parts \<longleftrightarrow>
     bins = map (\<lambda>us. (sum_list (map unit_duration us), concat (map unit_indices us))) parts"

definition give :: "(int \<times> int list) list \<Rightarrow> work_unit list list \<Rightarrow> work_unit \<Rightarrow> work_unit list list" where
  "give bins parts u = parts[least_loaded bins := parts ! least_loaded bins @ [u]]"

lemma assigns_length: "assigns bins parts \<Longrightarrow> length bins = length parts"
  by (simp add: assigns_def)

lemma assigns_step:
  assumes "assigns bins parts" "bins \<noteq> []"
  shows "assigns (add_unit bins u) (give bins parts u)"
proof -
  have l: "least_loaded bins < length parts"
    using least_loaded_bound [OF assms(2)] assigns_length [OF assms(1)] by simp
  show ?thesis
    using assms(1) l by (simp add: assigns_def add_unit_def give_def Let_def map_update)
qed

lemma mset_concat_update:
  assumes "t < length parts"
  shows "mset (concat (parts[t := parts ! t @ [u]])) = add_mset u (mset (concat parts))"
proof -
  have p: "parts = take t parts @ parts ! t # drop (Suc t) parts" using assms by (rule id_take_nth_drop)
  have "parts[t := parts ! t @ [u]] = take t parts @ (parts ! t @ [u]) # drop (Suc t) parts"
    using assms by (rule upd_conv_take_nth_drop)
  then have "mset (concat (parts[t := parts ! t @ [u]])) =
      mset (concat (take t parts)) + mset (parts ! t) + {#u#} + mset (concat (drop (Suc t) parts))"
    by simp
  moreover have "mset (concat parts) =
      mset (concat (take t parts)) + mset (parts ! t) + mset (concat (drop (Suc t) parts))"
    by (subst p) simp
  ultimately show ?thesis by simp
qed

lemma give_mset:
  assumes "assigns bins parts" "bins \<noteq> []"
  shows "mset (concat (give bins parts u)) = add_mset u (mset (concat parts))" "length (give bins parts u) = length parts"
  using mset_concat_update least_loaded_bound [OF assms(2)] assigns_length [OF assms(1)]
  by (simp_all add: give_def)

lemma sum_loads:
  assumes "assigns bins parts"
  shows "sum_list (map fst bins) = sum_list (map unit_duration (concat parts))"
  using assms unfolding assigns_def by (induction parts arbitrary: bins) auto

text \<open>Graham's bound for list scheduling, scaled by the number of shards to stay in the integers.\<close>

definition balanced :: "int \<Rightarrow> (int \<times> int list) list \<Rightarrow> bool" where
  "balanced longest bins \<longleftrightarrow>
     (\<forall>b \<in> set bins. int (length bins) * fst b \<le> sum_list (map fst bins) + (int (length bins) - 1) * longest)"

lemma min_times_length: "(\<And>x. x \<in> set xs \<Longrightarrow> m \<le> x) \<Longrightarrow> int (length xs) * m \<le> sum_list xs"
  by (induction xs) (auto simp: algebra_simps, smt (verit))

lemma sum_list_replace: "t < length xs \<Longrightarrow> sum_list (xs[t := x]) = sum_list xs + x - (xs ! t :: int)"
  by (induction xs arbitrary: t) (auto split: nat.splits)

lemma balanced_step:
  assumes "balanced longest bins" "bins \<noteq> []" "0 \<le> unit_duration u" "unit_duration u \<le> longest"
  shows "balanced longest (add_unit bins u)"
proof -
  let ?n = "int (length bins)" and ?t = "least_loaded bins" and ?d = "unit_duration u"
  have t: "?t < length bins" using least_loaded_bound [OF assms(2)] .
  let ?b = "(fst (bins ! ?t) + ?d, snd (bins ! ?t) @ unit_indices u)"
  have upd: "add_unit bins u = bins[?t := ?b]" by (simp add: add_unit_def Let_def)
  have s: "sum_list (map fst (bins[?t := ?b])) = sum_list (map fst bins) + ?d"
    using t by (simp add: map_update sum_list_replace)
  have "?n * fst (bins ! ?t) \<le> sum_list (map fst bins)"
    using min_times_length [of "map fst bins" "fst (bins ! ?t)"] least_loaded_min [of _ bins] by fastforce
  moreover have "(?n - 1) * ?d \<le> (?n - 1) * longest"
    using assms(2,4) by (intro mult_left_mono) (simp_all add: Suc_le_eq)
  ultimately have new: "?n * (fst (bins ! ?t) + ?d) \<le> sum_list (map fst bins) + ?d + (?n - 1) * longest"
    by (simp add: algebra_simps)
  have old: "?n * fst b \<le> sum_list (map fst bins) + ?d + (?n - 1) * longest" if "b \<in> set bins" for b
    using assms(1,3) that by (fastforce simp: balanced_def)
  show ?thesis
    unfolding balanced_def upd s length_list_update
    using old new by (auto dest!: subsetD [OF set_update_subset_insert])
qed

section \<open>No empty shard\<close>

lemma sum_list_pos:
  fixes f :: "'a \<Rightarrow> int"
  assumes "us \<noteq> []" "\<And>u. u \<in> set us \<Longrightarrow> 0 < f u"
  shows "0 < sum_list (map f us)"
  using assms
proof (induction us)
  case (Cons u us)
  then show ?case by (cases us) (auto simp: add_pos_pos)
qed simp

lemma least_loaded_empty:
  assumes "assigns bins parts" "\<And>u. u \<in> set (concat parts) \<Longrightarrow> 0 < unit_duration u" "[] \<in> set parts"
  shows "parts ! least_loaded bins = []"
proof (rule ccontr)
  let ?t = "least_loaded bins"
  have n: "bins \<noteq> []" using assms(1,3) by (auto simp: assigns_def)
  have t: "?t < length parts" using least_loaded_bound [OF n] assigns_length [OF assms(1)] by simp
  assume "parts ! ?t \<noteq> []"
  moreover have "0 < unit_duration u" if "u \<in> set (parts ! ?t)" for u
    by (rule assms(2)) (metis UN_I nth_mem set_concat t that)
  ultimately have "0 < sum_list (map unit_duration (parts ! ?t))"
    by (rule sum_list_pos)
  then have "0 < fst (bins ! ?t)" using assms(1) t by (simp add: assigns_def)
  moreover have "(0, []) \<in> set bins" using assms(1,3) by (force simp: assigns_def)
  ultimately show False using least_loaded_min [of "(0, [])" bins] by simp
qed

definition empties :: "'a list list \<Rightarrow> nat" where
  "empties parts = length (filter (\<lambda>p. p = []) parts)"

lemma empties_update:
  "t < length parts \<Longrightarrow> empties (parts[t := p @ [u]]) = empties parts - (if parts ! t = [] then 1 else 0)"
proof (induction parts arbitrary: t)
  case (Cons q qs)
  then show ?case by (cases t) (auto simp: empties_def filter_empty_conv Suc_diff_le dest: nth_mem)
qed simp

lemma give_empties:
  assumes "assigns bins parts" "bins \<noteq> []" "\<And>u. u \<in> set (concat parts) \<Longrightarrow> 0 < unit_duration u"
  shows "empties (give bins parts u) = empties parts - 1"
proof (cases "[] \<in> set parts")
  case True
  then have "parts ! least_loaded bins = []" using least_loaded_empty [OF assms(1,3)] by blast
  moreover have "least_loaded bins < length parts"
    using least_loaded_bound [OF assms(2)] assigns_length [OF assms(1)] by simp
  ultimately show ?thesis
    using empties_update [of "least_loaded bins" parts "[]" u] by (simp add: give_def)
next
  case False
  then have z: "empties parts = 0" by (auto simp: empties_def filter_empty_conv)
  have "parts ! least_loaded bins \<noteq> []"
    using False least_loaded_bound [OF assms(2)] assigns_length [OF assms(1)] by (metis nth_mem)
  then show ?thesis
    using z empties_update [of "least_loaded bins" parts "parts ! least_loaded bins" u]
      least_loaded_bound [OF assms(2)] assigns_length [OF assms(1)]
    by (simp add: give_def)
qed

section \<open>The whole assignment\<close>

lemma foldl_add_unit:
  assumes "assigns bins parts" "bins \<noteq> []"
  obtains parts' where "assigns (foldl add_unit bins units) parts'" "length parts' = length parts"
    "mset (concat parts') = mset (concat parts) + mset units"
    "(\<And>u. u \<in> set (concat parts) \<union> set units \<Longrightarrow> 0 < unit_duration u) \<Longrightarrow>
       empties parts' = empties parts - length units"
  using assms
proof (induction units arbitrary: bins parts thesis)
  case (Cons u units)
  have n: "add_unit bins u \<noteq> []" using Cons.prems(3) by (simp add: add_unit_def Let_def)
  note g = give_mset [OF Cons.prems(2,3), of u]
  obtain p where p: "assigns (foldl add_unit (add_unit bins u) units) p" "length p = length (give bins parts u)"
    "mset (concat p) = mset (concat (give bins parts u)) + mset units"
    "(\<And>v. v \<in> set (concat (give bins parts u)) \<union> set units \<Longrightarrow> 0 < unit_duration v) \<Longrightarrow>
       empties p = empties (give bins parts u) - length units"
    using Cons.IH [OF _ assigns_step [OF Cons.prems(2,3)] n] by blast
  show ?case
  proof (rule Cons.prems(1) [of p])
    show "mset (concat p) = mset (concat parts) + mset (u # units)" using p(3) g(1) by simp
    have s: "set (concat (give bins parts u)) = insert u (set (concat parts))"
      using g(1) by (metis set_mset_add_mset_insert set_mset_mset)
    show "empties p = empties parts - length (u # units)"
      if "\<And>v. v \<in> set (concat parts) \<union> set (u # units) \<Longrightarrow> 0 < unit_duration v"
    proof -
      have "empties p = empties (give bins parts u) - length units"
        by (rule p(4), rule that) (use s in simp, blast)
      also have "empties (give bins parts u) = empties parts - 1"
        by (rule give_empties [OF Cons.prems(2,3)], rule that) blast
      finally show ?thesis by simp
    qed
  qed (use p g in simp_all)
qed (auto intro: that)

lemma lpt_assign_parts:
  assumes "0 < n"
  obtains parts where "assigns (lpt_assign n units) parts" "length parts = n" "mset (concat parts) = mset units"
    "(\<And>u. u \<in> set units \<Longrightarrow> 0 < unit_duration u) \<Longrightarrow> n \<le> length units \<Longrightarrow> [] \<notin> set parts"
proof -
  have a: "assigns (replicate n (0, [])) (replicate n [])" by (simp add: assigns_def)
  have e: "empties (replicate n []) = n" by (simp add: empties_def)
  have c: "concat (replicate n []) = []" by (induction n) auto
  obtain parts where p: "assigns (foldl add_unit (replicate n (0, [])) units) parts"
    "length parts = length (replicate n ([] :: work_unit list))"
    "mset (concat parts) = mset (concat (replicate n [])) + mset units"
    "(\<And>u. u \<in> set (concat (replicate n [])) \<union> set units \<Longrightarrow> 0 < unit_duration u) \<Longrightarrow>
       empties parts = empties (replicate n ([] :: work_unit list)) - length units"
    by (rule foldl_add_unit [OF a, of units]) (use assms in simp, blast)
  show thesis
  proof (rule that)
    show "assigns (lpt_assign n units) parts" using p(1) by (simp add: lpt_assign_def)
    show "mset (concat parts) = mset units" using p(3) c by simp
    show "[] \<notin> set parts" if "\<And>u. u \<in> set units \<Longrightarrow> 0 < unit_duration u" "n \<le> length units"
    proof -
      have "empties parts = 0"
        using p(4) that by (simp only: c e list.set Un_empty_left diff_is_0_eq)
      then show ?thesis by (auto simp: empties_def filter_empty_conv)
    qed
  qed (use p in simp)
qed

lemma foldl_balanced:
  assumes "balanced longest bins" "bins \<noteq> []"
    "\<And>u. u \<in> set units \<Longrightarrow> 0 \<le> unit_duration u \<and> unit_duration u \<le> longest"
  shows "balanced longest (foldl add_unit bins units)"
  using assms
proof (induction units arbitrary: bins)
  case (Cons u units)
  have "add_unit bins u \<noteq> []" using Cons.prems(2) by (simp add: add_unit_def Let_def)
  moreover have "balanced longest (add_unit bins u)"
    using Cons.prems by (intro balanced_step) (meson list.set_intros(1))+
  moreover have "0 \<le> unit_duration v \<and> unit_duration v \<le> longest" if "v \<in> set units" for v
    using Cons.prems(3) that by (meson list.set_intros(2))
  ultimately show ?case using Cons.IH [of "add_unit bins u"] by simp
qed simp

text \<open>The makespan: each shard carries at most an even share plus one unit's work.\<close>

lemma lpt_makespan:
  assumes "0 < n" "b \<in> set (lpt_assign n units)"
    "\<And>u. u \<in> set units \<Longrightarrow> 0 \<le> unit_duration u \<and> unit_duration u \<le> longest" "0 \<le> longest"
  shows "int n * fst b \<le> sum_list (map unit_duration units) + (int n - 1) * longest"
proof -
  obtain parts where p: "assigns (lpt_assign n units) parts" "length parts = n" "mset (concat parts) = mset units"
    using lpt_assign_parts [OF assms(1)] by blast
  have "balanced longest (replicate n (0, []))"
    using assms(1,4) by (simp add: balanced_def sum_list_replicate)
  then have "balanced longest (lpt_assign n units)"
    unfolding lpt_assign_def by (rule foldl_balanced) (use assms(1) in simp, rule assms(3))
  moreover have "sum_list (map fst (lpt_assign n units)) = sum_list (map unit_duration units)"
    using arg_cong [OF p(3), of "\<lambda>M. sum_mset (image_mset unit_duration M)"]
    unfolding sum_loads [OF p(1)] mset_map [symmetric] sum_mset_sum_list .
  moreover have "length (lpt_assign n units) = n" using p(1,2) assigns_length by simp
  ultimately show ?thesis using assms(2) unfolding balanced_def by metis
qed

end
