(* ===== verification/Plan_Construction.thy ===== *)
theory Plan_Construction
  imports Plan_Validity Sharding
begin

text \<open>
  What the planners build: grouping a list by a key, the shards of one resource profile as parts
  of its items, and the whole plan as a partition of the manifest.
\<close>

section \<open>Grouping by a key\<close>

lemma append_at_lookup:
  "map_of (append_at k v al) =
     (map_of al)(k \<mapsto> (case map_of al k of None \<Rightarrow> [v] | Some vs \<Rightarrow> vs @ [v]))"
  by (induction al) (auto split: option.splits)

lemma append_at_keys:
  "fst ` set (append_at k v al) = insert k (fst ` set al)"
  "distinct (map fst al) \<Longrightarrow> distinct (map fst (append_at k v al))"
proof -
  show *: "fst ` set (append_at k v al) = insert k (fst ` set al)"
    for k v and al :: "('a \<times> 'b list) list"
    by (induction k v al rule: append_at.induct) auto
  show "distinct (map fst al) \<Longrightarrow> distinct (map fst (append_at k v al))"
    by (induction k v al rule: append_at.induct) (simp_all add: *)
qed

lemma group_by_snoc: "group_by key val (xs @ [x]) = append_at (key x) (val x) (group_by key val xs)"
  by (simp add: group_by_def)

lemma group_by_keys:
  "fst ` set (group_by key val xs) = key ` set xs" "distinct (map fst (group_by key val xs))"
  by (induction xs rule: rev_induct) (simp_all add: group_by_snoc append_at_keys, simp_all add: group_by_def)

lemma group_by_lookup:
  "map_of (group_by key val xs) k =
     (if k \<in> key ` set xs then Some (map val (filter (\<lambda>x. key x = k) xs)) else None)"
proof (induction xs rule: rev_induct)
  case (snoc x xs)
  have "filter (\<lambda>y. key y = key x) xs = []" if "key x \<notin> key ` set xs"
    unfolding filter_empty_conv using that by (metis image_eqI)
  then show ?case using snoc by (auto simp: group_by_snoc append_at_lookup)
qed (simp add: group_by_def)

lemma group_by_entry:
  "(k, vs) \<in> set (group_by key val xs) \<longleftrightarrow>
     k \<in> key ` set xs \<and> vs = map val (filter (\<lambda>x. key x = k) xs)"
  using map_of_eq_Some_iff [OF group_by_keys(2), of key val xs k vs] by (auto simp: group_by_lookup split: if_splits)

section \<open>One shard\<close>

lemma sorted_set_filter_index:
  assumes "wf_items items"
  shows "sorted (map it_item_index (filter P items))" "distinct (map it_item_index (filter P items))"
  using sorted_distinct_filter wf_items_sorted [OF assms] by blast+

lemma shard_for_part:
  assumes "wf_items items" "p = filter P items" "p \<noteq> []" "one_profile p" "0 \<le> k" "k \<le> max_safe_integer"
    "total_duration items \<le> max_safe_integer" "profile = it_resource_profile_id (hd p)"
  shows "shard_for p profile k (map it_item_index p) = Inr (part_shard k p)"
proof -
  have valid: "\<forall>i \<in> set p. valid_item i" using assms(1,2) by (auto simp: wf_items_def)
  have idx: "sorted (map it_item_index p)" "distinct (map it_item_index p)"
    unfolding assms(2) by (rule sorted_set_filter_index [OF assms(1)])+
  have "mset items = mset p + mset (filter (\<lambda>i. \<not> P i) items)"
    unfolding assms(2) by (simp add: mset_filter flip: multiset_partition)
  then have "total_duration items = total_duration (p @ filter (\<lambda>i. \<not> P i) items)"
    by (intro total_duration_mset) simp
  then have "total_duration p \<le> max_safe_integer" "0 \<le> total_duration p"
    using total_duration_nonneg [of "filter (\<lambda>i. \<not> P i) items"] total_duration_nonneg [OF valid] assms(1,7)
    by (auto simp: total_duration_def wf_items_def)
  moreover have "\<not> blank (it_resource_profile_id (hd p))"
    using valid assms(3) hd_in_set [OF assms(3)] by (auto simp: valid_item_def check_manifest_item_def result_simps)
  moreover have "0 \<le> it_item_index i \<and> it_item_index i \<le> max_safe_integer" if "i \<in> set p" for i
    using valid that by (auto simp: valid_item_def check_manifest_item_def result_simps)
  ultimately have "check_planned_shard (part_shard k p) = None"
    using assms(3,5,6) idx by (auto simp: check_planned_shard_def Let_def result_simps part_shard_def sorted_sort_id)
  then show ?thesis
    by (simp add: shard_for_def aggregate_valid [OF valid] mk_planned_shard_def part_shard_def assms(8))
qed

section \<open>Work units\<close>

abbreviation in_groups :: "work_unit list \<Rightarrow> manifest_item \<Rightarrow> bool" where
  "in_groups us i \<equiv> it_atomic_group_id i \<in> fst ` set us"

lemma work_units_set:
  "u \<in> set (work_units own) \<longleftrightarrow> fst u \<in> it_atomic_group_id ` set own \<and>
     unit_duration u = total_duration (filter (\<lambda>i. it_atomic_group_id i = fst u) own) \<and>
     unit_indices u = map it_item_index (filter (\<lambda>i. it_atomic_group_id i = fst u) own)"
proof -
  let ?unit = "\<lambda>g. (g, total_duration (filter (\<lambda>i. it_atomic_group_id i = g) own),
      map it_item_index (filter (\<lambda>i. it_atomic_group_id i = g) own))"
  have "u \<in> set (work_units own) \<longleftrightarrow>
      (\<exists>(g, xs) \<in> set (group_by it_atomic_group_id (\<lambda>i. i) own). u = (g, total_duration xs, map it_item_index xs))"
    unfolding work_units_def by auto
  also have "\<dots> \<longleftrightarrow> (\<exists>g \<in> it_atomic_group_id ` set own. u = ?unit g)"
    unfolding Bex_def split_paired_Ex group_by_entry by auto
  finally show ?thesis by (cases u) auto
qed

lemma work_units_distinct: "distinct (map fst (work_units own))"
  using group_by_keys(2) by (simp add: work_units_def split_def comp_def)

lemma mset_filter_disjoint:
  "(\<And>x. x \<in> set xs \<Longrightarrow> \<not> (P x \<and> Q x)) \<Longrightarrow>
     mset (filter (\<lambda>x. P x \<or> Q x) xs) = mset (filter P xs) + mset (filter Q xs)"
  by (induction xs) auto

lemma units_items:
  assumes "set us \<subseteq> set (work_units own)" "distinct (map fst us)"
  shows "mset (concat (map unit_indices us)) = mset (map it_item_index (filter (in_groups us) own))"
    "sum_list (map unit_duration us) = total_duration (filter (in_groups us) own)"
proof -
  have "mset (concat (map unit_indices us)) = mset (map it_item_index (filter (in_groups us) own)) \<and>
    sum_list (map unit_duration us) = total_duration (filter (in_groups us) own)"
    using assms
  proof (induction us)
    case (Cons u us)
    let ?g = "\<lambda>i. it_atomic_group_id i = fst u"
    have h: "mset (filter (in_groups (u # us)) own) = mset (filter ?g own @ filter (in_groups us) own)"
      using mset_filter_disjoint [of own ?g "in_groups us"] Cons.prems(2) by auto
    have m: "mset (map it_item_index (filter (in_groups (u # us)) own)) =
        mset (map it_item_index (filter ?g own @ filter (in_groups us) own))"
      and d: "total_duration (filter (in_groups (u # us)) own) =
        total_duration (filter ?g own @ filter (in_groups us) own)"
      by (simp only: mset_map h, rule total_duration_mset [OF h])
    moreover have "unit_duration u = total_duration (filter ?g own)"
      "unit_indices u = map it_item_index (filter ?g own)"
      using Cons.prems(1) work_units_set [of u own] by auto
    moreover have "mset (concat (map unit_indices us)) = mset (map it_item_index (filter (in_groups us) own))"
      "sum_list (map unit_duration us) = total_duration (filter (in_groups us) own)"
      using Cons by simp_all
    ultimately show ?case unfolding m d by (simp add: total_duration_def)
  qed (simp add: total_duration_def)
  then show "mset (concat (map unit_indices us)) = mset (map it_item_index (filter (in_groups us) own))"
    "sum_list (map unit_duration us) = total_duration (filter (in_groups us) own)" by blast+
qed

section \<open>The shards of a profile\<close>

lemma filter_mem_filter: "filter (\<lambda>i. i \<in> set (filter Q own)) own = filter Q own"
  by (rule filter_cong) auto

lemma build_shards_parts:
  assumes "wf_items items" "own = filter P items" "\<forall>i \<in> set own. it_resource_profile_id i = profile"
    "total_duration items \<le> max_safe_integer" "distinct (map fst (concat uss))"
    "set (concat uss) \<subseteq> set (work_units own)" "[] \<notin> set uss" "0 \<le> k" "k + int (length uss) \<le> max_safe_integer + 1"
  shows "build_shards own profile k (map (\<lambda>us. (sum_list (map unit_duration us), concat (map unit_indices us))) uss) =
    Inr (part_shards k (map (\<lambda>us. filter (in_groups us) own) uss))"
  using assms(5-)
proof (induction uss arbitrary: k)
  case (Cons us uss)
  let ?p = "filter (in_groups us) own"
  have us: "set us \<subseteq> set (work_units own)" "distinct (map fst us)" "us \<noteq> []" using Cons.prems by auto
  have p: "?p = filter (\<lambda>i. P i \<and> in_groups us i) items" by (simp add: assms(2) conj_commute)
  have "fst (hd us) \<in> it_atomic_group_id ` set own"
    using us(1) hd_in_set [OF us(3)] work_units_set by blast
  then have ne: "?p \<noteq> []" using hd_in_set [OF us(3)] by (auto simp: filter_empty_conv) (metis image_eqI)
  have ordered: "sort (concat (map unit_indices us)) = map it_item_index ?p"
  proof (rule properties_for_sort)
    show "mset (map it_item_index ?p) = mset (concat (map unit_indices us))"
      by (rule units_items(1) [OF us(1,2), symmetric])
    show "sorted (map it_item_index ?p)" unfolding p by (rule sorted_set_filter_index(1) [OF assms(1)])
  qed
  have chosen: "filter (\<lambda>i. it_item_index i \<in> set (map it_item_index ?p)) own = ?p"
  proof (rule filter_cong [OF refl])
    fix i assume "i \<in> set own"
    then show "it_item_index i \<in> set (map it_item_index ?p) \<longleftrightarrow> in_groups us i"
      using same_index [OF assms(1)] unfolding assms(2) by auto
  qed
  have prof: "profile = it_resource_profile_id (hd ?p)" "one_profile ?p"
    using assms(3) hd_in_set [OF ne] by (auto simp: one_profile_def)
  have "shard_for ?p profile k (map it_item_index ?p) = Inr (part_shard k ?p)"
    by (rule shard_for_part [OF assms(1) p ne prof(2) _ _ assms(4) prof(1)]) (use Cons.prems in simp_all)
  moreover have "build_shards own profile (k + 1)
      (map (\<lambda>us. (sum_list (map unit_duration us), concat (map unit_indices us))) uss) =
    Inr (part_shards (k + 1) (map (\<lambda>us. filter (in_groups us) own) uss))"
    by (rule Cons.IH) (use Cons.prems in simp_all)
  ultimately show ?case by (simp add: ordered chosen Let_def del: set_map)
qed simp

lemma unit_parts_mset:
  "distinct (map fst (concat uss)) \<Longrightarrow>
     mset (concat (map (\<lambda>us. filter (in_groups us) own) uss)) = mset (filter (in_groups (concat uss)) own)"
proof (induction uss)
  case (Cons us uss)
  have "mset (filter (in_groups (concat (us # uss))) own) =
      mset (filter (in_groups us) own) + mset (filter (in_groups (concat uss)) own)"
    using mset_filter_disjoint [of own "in_groups us" "in_groups (concat uss)"] Cons.prems
    by (auto simp: image_Un)
  then show ?case using Cons by simp
qed simp

lemma unit_parts_partition:
  assumes "mset (concat uss) = mset (work_units own)" "[] \<notin> set uss"
  shows "partition_into own (map (\<lambda>us. filter (in_groups us) own) uss)"
proof -
  have d: "distinct (map fst (concat uss))"
    using work_units_distinct [of own] assms(1) by (metis mset_eq_imp_distinct_iff mset_map)
  have s: "set (concat uss) = set (work_units own)" using mset_eq_setD [OF assms(1)] .
  have keys: "fst ` set (work_units own) = it_atomic_group_id ` set own"
    using group_by_keys(1) [of it_atomic_group_id "\<lambda>i. i" own] by (simp add: work_units_def image_image split_def)
  have all: "filter (in_groups (concat uss)) own = own" unfolding s keys by simp
  have same: "us = vs" if m: "us \<in> set uss" "vs \<in> set uss" "g \<in> fst ` set us" "g \<in> fst ` set vs" for us vs g
  proof (rule ccontr)
    assume "us \<noteq> vs"
    obtain xs ys where xy: "uss = xs @ us # ys" using split_list [OF m(1)] by blast
    then have "vs \<in> set xs \<or> vs \<in> set ys" using m(2) \<open>us \<noteq> vs\<close> by auto
    moreover have "distinct (map fst (concat xs) @ map fst us @ map fst (concat ys))" using d xy by simp
    ultimately show False using m(3,4) unfolding distinct_append set_append set_map set_concat by blast
  qed
  have ne: "filter (in_groups us) own \<noteq> []" if "us \<in> set uss" for us
  proof -
    have u: "hd us \<in> set us" using that assms(2) hd_in_set by metis
    then have "fst (hd us) \<in> fst ` set (work_units own)" using that unfolding s [symmetric] by auto
    then show ?thesis using u unfolding keys by (auto simp: filter_empty_conv) (metis image_eqI)
  qed
  show ?thesis
    unfolding partition_into_def
  proof (intro conjI)
    show "mset (concat (map (\<lambda>us. filter (in_groups us) own) uss)) = mset own"
      unfolding unit_parts_mset [OF d] all ..
    show "[] \<notin> set (map (\<lambda>us. filter (in_groups us) own) uss)" using ne by fastforce
    show "\<forall>p \<in> set (map (\<lambda>us. filter (in_groups us) own) uss). filter (\<lambda>i. i \<in> set p) own = p"
      by (simp only: set_map ball_simps filter_mem_filter) simp
    show "group_whole (map (\<lambda>us. filter (in_groups us) own) uss)"
      unfolding group_whole_def set_map
    proof (intro ballI impI, elim imageE)
      fix p q i j us vs
      assume a: "i \<in> set p" "j \<in> set q" "it_atomic_group_id i = it_atomic_group_id j"
        "p = filter (in_groups us) own" "us \<in> set uss" "q = filter (in_groups vs) own" "vs \<in> set uss"
      then have "us = vs" using same [of us vs "it_atomic_group_id i"] by simp
      then show "p = q" using a by simp
    qed
  qed
qed

lemma partition_length:
  assumes "partition_into own parts" shows "length parts \<le> length own"
proof -
  have "length parts \<le> length (concat parts)" if "[] \<notin> set parts" for parts :: "manifest_item list list"
    using that
  proof (induction parts)
    case (Cons p ps)
    then show ?case by (cases p) simp_all
  qed simp
  then show ?thesis using assms unfolding partition_into_def by (metis size_mset)
qed

lemma lpt_split_parts:
  assumes "wf_items items" "own = filter P items" "own \<noteq> []" "\<forall>i \<in> set own. it_resource_profile_id i = profile"
    "total_duration items \<le> max_safe_integer" "\<forall>i \<in> set own. 0 < item_duration i" "1 \<le> allowed"
    "0 \<le> k" "k + int (length own) \<le> max_safe_integer + 1"
  obtains parts where "lpt_split_group own profile allowed k = Inr (part_shards k parts)" "partition_into own parts"
    "\<And>p. p \<in> set parts \<Longrightarrow> \<exists>b \<in> set (lpt_assign (length parts) (sort_units (work_units own))). fst b = total_duration p"
    "length parts = nat (min allowed (int (length (work_units own))))"
proof -
  let ?units = "work_units own"
  let ?n = "nat (min allowed (int (length ?units)))"
  have ms: "mset (sort_units ?units) = mset ?units" by (simp add: sort_units_def)
  have "hd own \<in> set own" using assms(3) by simp
  then have "it_atomic_group_id (hd own) \<in> fst ` set ?units"
    using group_by_keys(1) [of it_atomic_group_id "\<lambda>i. i" own] by (force simp: work_units_def image_image split_def)
  then have n: "0 < ?n" "?n \<le> length (sort_units ?units)" using assms(7) by (auto simp: sort_units_def)
  have pos: "0 < unit_duration u" if u: "u \<in> set (sort_units ?units)" for u
  proof -
    let ?p = "filter (\<lambda>i. it_atomic_group_id i = fst u) own"
    have "u \<in> set ?units" using u ms by (metis mset_eq_setD)
    then have *: "fst u \<in> it_atomic_group_id ` set own" "unit_duration u = total_duration ?p"
      unfolding work_units_set by blast+
    have "?p \<noteq> []" using *(1) by (auto simp: filter_empty_conv)
    then show ?thesis unfolding *(2) total_duration_def by (rule sum_list_pos) (use assms(6) in simp)
  qed
  obtain uss where uss: "assigns (lpt_assign ?n (sort_units ?units)) uss" "length uss = ?n"
    "mset (concat uss) = mset (sort_units ?units)" "[] \<notin> set uss"
    using lpt_assign_parts [OF n(1), of "sort_units ?units"] pos n(2) by metis
  let ?parts = "map (\<lambda>us. filter (in_groups us) own) uss"
  have m: "mset (concat uss) = mset ?units" using uss(3) ms by simp
  then have d: "distinct (map fst (concat uss))" "set (concat uss) \<subseteq> set ?units"
    using work_units_distinct [of own] mset_eq_setD [OF m] by (metis mset_eq_imp_distinct_iff mset_map, simp)
  have part: "partition_into own ?parts" by (rule unit_parts_partition [OF m uss(4)])
  have b: "lpt_assign ?n (sort_units ?units) =
      map (\<lambda>us. (sum_list (map unit_duration us), concat (map unit_indices us))) uss"
    using uss(1) by (simp add: assigns_def)
  show thesis
  proof (rule that)
    have "k + int (length uss) \<le> max_safe_integer + 1" using partition_length [OF part] assms(9) by simp
    then show "lpt_split_group own profile allowed k = Inr (part_shards k ?parts)"
      using build_shards_parts [OF assms(1,2,4,5) d uss(4) assms(8)] b ms
      by (simp add: lpt_split_group_def Let_def) (metis size_mset)
    show "partition_into own ?parts" by (rule part)
    show "\<exists>b \<in> set (lpt_assign (length ?parts) (sort_units ?units)). fst b = total_duration p"
      if p: "p \<in> set ?parts" for p
    proof -
      obtain us where us: "us \<in> set uss" "p = filter (in_groups us) own" using p by auto
      have "set us \<subseteq> set ?units" "distinct (map fst us)" using us(1) d by (auto simp: map_concat distinct_concat_iff)
      then have "total_duration p = sum_list (map unit_duration us)" using units_items(2) us(2) by simp
      then show ?thesis using us(1) by (auto simp: uss(2) b)
    qed
    show "length ?parts = ?n" by (simp add: uss(2))
  qed
qed

lemma single_part:
  assumes "wf_items items" "own = filter P items" "own \<noteq> []" "\<forall>i \<in> set own. it_resource_profile_id i = profile"
    "total_duration items \<le> max_safe_integer" "0 \<le> k" "k \<le> max_safe_integer"
  shows "single_shard_for_group own profile k = Inr (part_shards k [own])" "partition_into own [own]"
proof -
  have "one_profile own" "profile = it_resource_profile_id (hd own)"
    using assms(4) hd_in_set [OF assms(3)] by (simp_all add: one_profile_def)
  then show "single_shard_for_group own profile k = Inr (part_shards k [own])"
    using shard_for_part [OF assms(1-3) _ assms(6,7,5)] by (simp add: single_shard_for_group_def)
  show "partition_into own [own]" using assms(3) by (simp add: partition_into_def group_whole_def)
qed

lemma plan_group_parts:
  assumes "wf_items items" "own = filter P items" "own \<noteq> []" "\<forall>i \<in> set own. it_resource_profile_id i = profile"
    "total_duration items \<le> max_safe_integer" "0 \<le> k" "k + int (length own) \<le> max_safe_integer + 1"
    "allowed_shard_count profile own budget = Inr n" "1 \<le> n"
    "n = 1 \<or> length own \<le> 1 \<or> (\<forall>i \<in> set own. 0 < item_duration i)"
  obtains parts where "plan_group budget profile own k = Inr (part_shards k parts)" "partition_into own parts"
proof (cases "n = 1 \<or> length own \<le> 1")
  case True
  have "1 \<le> length own" using assms(3) by (simp add: Suc_le_eq)
  then have "k \<le> max_safe_integer" using assms(7) by simp
  from single_part [OF assms(1-6) this] show thesis
    using that [of "[own]"] True assms(8,9) by (simp add: plan_group_def)
next
  case False
  then have "\<forall>i \<in> set own. 0 < item_duration i" using assms(10) by blast
  from lpt_split_parts [OF assms(1-5) this assms(9,6,7)] obtain parts
    where "lpt_split_group own profile n k = Inr (part_shards k parts)" "partition_into own parts" by blast
  then show thesis using that False assms(8,9) by (simp add: plan_group_def)
qed

section \<open>The whole plan\<close>

lemma partition_append:
  assumes "partition_into (filter A items) ps" "partition_into (filter B items) qs"
    "\<And>i j. i \<in> set items \<Longrightarrow> j \<in> set items \<Longrightarrow> A i \<Longrightarrow> B j \<Longrightarrow> it_atomic_group_id i \<noteq> it_atomic_group_id j"
  shows "partition_into (filter (\<lambda>i. A i \<or> B i) items) (ps @ qs)"
proof -
  have own: "set p \<subseteq> set (filter C items)" if "partition_into (filter C items) rs" "p \<in> set rs" for C rs p
    using that mset_eq_setD [of "concat rs" "filter C items"] by (auto simp: partition_into_def)
  have keep: "filter (\<lambda>i. i \<in> set p) (filter (\<lambda>i. A i \<or> B i) items) = p"
    if "filter (\<lambda>i. i \<in> set p) (filter C items) = p" "\<And>i. C i \<Longrightarrow> A i \<or> B i" for C p
  proof -
    have "set p \<subseteq> set (filter C items)" using that(1) by (metis filter_is_subset)
    then have "filter (\<lambda>i. i \<in> set p) (filter (\<lambda>i. A i \<or> B i) items) = filter (\<lambda>i. i \<in> set p) (filter C items)"
      unfolding filter_filter using that(2) by (intro filter_cong) auto
    then show ?thesis using that(1) by simp
  qed
  have cross: "it_atomic_group_id i \<noteq> it_atomic_group_id j"
    if "p \<in> set ps" "q \<in> set qs" "i \<in> set p" "j \<in> set q" for p q i j
    using assms(3) own [OF assms(1) that(1)] own [OF assms(2) that(2)] that(3,4) by auto
  show ?thesis
    unfolding partition_into_def
  proof (intro conjI)
    have "mset (filter (\<lambda>i. A i \<or> B i) items) = mset (filter A items) + mset (filter B items)"
      using assms(3) by (intro mset_filter_disjoint) blast
    then show "mset (concat (ps @ qs)) = mset (filter (\<lambda>i. A i \<or> B i) items)"
      using assms(1,2) by (simp add: partition_into_def)
    show "[] \<notin> set (ps @ qs)" using assms(1,2) by (simp add: partition_into_def)
    show "\<forall>p \<in> set (ps @ qs). filter (\<lambda>i. i \<in> set p) (filter (\<lambda>i. A i \<or> B i) items) = p"
      using keep [of _ A] keep [of _ B] assms(1,2) unfolding partition_into_def set_append by blast
    show "group_whole (ps @ qs)"
      using cross assms(1,2) unfolding partition_into_def group_whole_def set_append by (metis Un_iff)
  qed
qed

definition groups_in_one_profile :: "manifest_item list \<Rightarrow> bool" where
  "groups_in_one_profile items \<longleftrightarrow> (\<forall>i \<in> set items. \<forall>j \<in> set items.
     it_atomic_group_id i = it_atomic_group_id j \<longrightarrow> it_resource_profile_id i = it_resource_profile_id j)"

abbreviation of_profile :: "manifest_item list \<Rightarrow> string \<Rightarrow> manifest_item list" where
  "of_profile items profile \<equiv> filter (\<lambda>i. it_resource_profile_id i = profile) items"

text \<open>
  The budget serves every profile: it allows a shard for it, and where it allows several for several items, each
  of them has a positive duration estimate (without estimates the split leaves a shard empty).
\<close>

definition feasible :: "manifest_item list \<Rightarrow> shard_planning_budget option \<Rightarrow> bool" where
  "feasible items budget \<longleftrightarrow> (\<forall>profile \<in> it_resource_profile_id ` set items.
     \<exists>n. allowed_shard_count profile (of_profile items profile) budget = Inr n \<and> 1 \<le> n \<and>
       (n = 1 \<or> length (of_profile items profile) \<le> 1 \<or> (\<forall>i \<in> set (of_profile items profile). 0 < item_duration i)))"

lemma one_profile_sub: "p \<noteq> [] \<Longrightarrow> set p \<subseteq> set (of_profile items profile) \<Longrightarrow> one_profile p"
  unfolding one_profile_def set_filter using hd_in_set [of p] by (metis (mono_tags, lifting) mem_Collect_eq subset_iff)

lemma plan_groups_parts:
  assumes "wf_items items" "total_duration items \<le> max_safe_integer" "groups_in_one_profile items"
    "feasible items budget" "distinct (map fst es)"
    "\<forall>(profile, indices) \<in> set es. profile \<in> it_resource_profile_id ` set items \<and>
       indices = map it_item_index (of_profile items profile)"
    "int (length ps) + int (length (filter (\<lambda>i. it_resource_profile_id i \<in> fst ` set es) items)) \<le> max_safe_integer + 1"
  obtains qs where "plan_groups items budget es (part_shards 0 ps) = Inr (part_shards 0 (ps @ qs))"
    "partition_into (filter (\<lambda>i. it_resource_profile_id i \<in> fst ` set es) items) qs" "\<forall>q \<in> set qs. one_profile q"
  using assms(5-)
proof (induction es arbitrary: ps thesis)
  case Nil
  show ?case
    by (rule Nil.prems(1) [of "[]"]) (simp_all add: partition_into_def group_whole_def)
next
  case (Cons e es)
  obtain profile where e: "e = (profile, map it_item_index (of_profile items profile))"
    and prof: "profile \<in> it_resource_profile_id ` set items" using Cons.prems(3) by (cases e) auto
  let ?own = "of_profile items profile" and ?rest = "\<lambda>i. it_resource_profile_id i \<in> fst ` set es"
  have fresh: "profile \<notin> fst ` set es" using Cons.prems(2) e by simp
  have split: "filter (\<lambda>i. it_resource_profile_id i \<in> fst ` set (e # es)) items =
      filter (\<lambda>i. it_resource_profile_id i = profile \<or> ?rest i) items" by (simp add: e)
  have "length (filter (\<lambda>i. it_resource_profile_id i \<in> fst ` set (e # es)) items) = length ?own + length (filter ?rest items)"
    unfolding split using mset_filter_disjoint [of items "\<lambda>i. it_resource_profile_id i = profile" ?rest] fresh
    by (metis (mono_tags, lifting) size_mset size_union)
  then have room: "int (length ps) + int (length ?own) + int (length (filter ?rest items)) \<le> max_safe_integer + 1"
    using Cons.prems(4) by simp
  have ne: "?own \<noteq> []" using prof by (auto simp: filter_empty_conv)
  obtain n where n: "allowed_shard_count profile ?own budget = Inr n" "1 \<le> n"
    "n = 1 \<or> length ?own \<le> 1 \<or> (\<forall>i \<in> set ?own. 0 < item_duration i)"
    using assms(4) prof unfolding feasible_def by blast
  obtain parts where parts: "plan_group budget profile ?own (int (length ps)) = Inr (part_shards (int (length ps)) parts)"
    "partition_into ?own parts"
  proof (rule plan_group_parts [OF assms(1) refl ne _ assms(2) _ _ n(1,2), where k = "int (length ps)"])
    show "n = 1 \<or> length ?own \<le> 1 \<or> (\<forall>i \<in> set ?own. 0 < item_duration i)" by (rule n(3))
  qed (use room in auto)
  have own: "set p \<subseteq> set ?own \<and> p \<noteq> []" if "p \<in> set parts" for p
    using parts(2) mset_eq_setD [of "concat parts" ?own] that by (auto simp: partition_into_def)
  have pure: "\<forall>p \<in> set parts. one_profile p" using own one_profile_sub by blast
  have "items_at items (sort (map it_item_index ?own)) = ?own"
    using items_at_own [OF assms(1)] sorted_set_filter_index(1) [OF assms(1)] by (simp add: sorted_sort_id)
  then have step: "plan_groups items budget (e # es) (part_shards 0 ps) =
      plan_groups items budget es (part_shards 0 (ps @ parts))"
    by (simp add: e parts(1) part_shards_append)
  have room': "int (length (ps @ parts)) + int (length (filter ?rest items)) \<le> max_safe_integer + 1"
    using room partition_length [OF parts(2)] by simp
  have es: "distinct (map fst es)" "\<forall>(profile, indices) \<in> set es. profile \<in> it_resource_profile_id ` set items \<and>
      indices = map it_item_index (of_profile items profile)" using Cons.prems(2,3) by simp_all
  obtain qs where qs: "plan_groups items budget es (part_shards 0 (ps @ parts)) = Inr (part_shards 0 ((ps @ parts) @ qs))"
    "partition_into (filter ?rest items) qs" "\<forall>q \<in> set qs. one_profile q"
    by (rule Cons.IH [OF _ es room']) (rule that)
  show ?case
  proof (rule Cons.prems(1) [of "parts @ qs"])
    show "partition_into (filter (\<lambda>i. it_resource_profile_id i \<in> fst ` set (e # es)) items) (parts @ qs)"
      unfolding split
    proof (rule partition_append [OF parts(2) qs(2)])
      fix i j
      assume "i \<in> set items" "j \<in> set items" "it_resource_profile_id i = profile" "?rest j"
      then show "it_atomic_group_id i \<noteq> it_atomic_group_id j"
        using assms(3) fresh unfolding groups_in_one_profile_def by metis
    qed
    show "\<forall>q \<in> set (parts @ qs). one_profile q" using pure qs(3) by auto
  qed (use step qs(1) in simp)
qed

text \<open>A manifest that fits the safe integers: the bound that the canonical digest of a plan needs.\<close>

definition plannable :: "case_manifest \<Rightarrow> bool" where
  "plannable m \<longleftrightarrow> wf_manifest m \<and> int (length (cm_items m)) \<le> max_safe_integer \<and>
     total_duration (cm_items m) \<le> max_safe_integer"

lemma part_durations:
  assumes "wf_items items" "total_duration items \<le> max_safe_integer" "partition_into items parts" "p \<in> set parts"
  shows "0 \<le> total_duration p" "total_duration p \<le> max_safe_integer"
proof -
  have "\<forall>i \<in> set items. valid_item i" using assms(1) by (simp add: wf_items_def)
  then have nonneg: "0 \<le> total_duration q" if "q \<in> set parts" for q
    using partition_own(1) [OF assms(1,3)] that by (intro total_duration_nonneg) auto
  then show "0 \<le> total_duration p" using assms(4) .
  have "sum_list (map total_duration parts) = total_duration items"
    using assms(3) total_duration_mset [of "concat parts" items] by (simp add: partition_into_def total_duration_concat)
  moreover have "total_duration p \<le> sum_list (map total_duration parts)"
    using assms(4) nonneg by (intro member_le_sum_list) auto
  ultimately show "total_duration p \<le> max_safe_integer" using assms(2) by simp
qed

lemma part_shard_json_safe:
  assumes "wf_items items" "set p \<subseteq> set items" "0 \<le> k" "k \<le> max_safe_integer"
    "0 \<le> total_duration p" "total_duration p \<le> max_safe_integer"
  shows "json_safe (planned_shard_json (part_shard k p))"
  using assms
  by (auto simp: planned_shard_json_def part_shard_def strings_json_def list_all_iff safe_int_def max_safe_integer_def
      wf_items_def valid_item_def check_manifest_item_def result_simps)

lemma plan_json_safe:
  assumes "plannable m" "partition_into (cm_items m) parts"
  shows "json_safe (plan_json d v (part_shards 0 parts))"
proof -
  have wf: "wf_items (cm_items m)" and total: "total_duration (cm_items m) \<le> max_safe_integer"
    and len: "int (length parts) \<le> max_safe_integer"
    using assms partition_length [OF assms(2)] by (auto simp: plannable_def wf_manifest_items)
  have "json_safe (planned_shard_json s)" if s: "s \<in> set (part_shards 0 parts)" for s
  proof -
    obtain n where n: "n < length parts" "s = part_shard (0 + int n) (parts ! n)"
      using s unfolding set_part_shards by blast
    note mem = nth_mem [OF n(1)]
    show ?thesis
      unfolding n(2)
      by (rule part_shard_json_safe [OF wf _ _ _ part_durations [OF wf total assms(2) mem]])
        (use partition_own(1) [OF wf assms(2)] mem n(1) len in auto)
  qed
  moreover have "sum_list (map total_duration parts) = total_duration (cm_items m)"
    using assms(2) total_duration_mset [of "concat parts" "cm_items m"]
    by (simp add: partition_into_def total_duration_concat)
  moreover have "0 \<le> total_duration (cm_items m)"
    using wf by (intro total_duration_nonneg) (simp add: wf_items_def)
  ultimately show ?thesis
    using total len
    by (simp add: plan_json_def list_all_iff part_shards_fields safe_int_def max_safe_integer_def)
qed

lemma shard_plan_of_parts:
  assumes "plannable m" "\<not> blank plan_id" "\<not> blank v" "partition_into (cm_items m) parts" "\<forall>p \<in> set parts. one_profile p"
  obtains p where "shard_plan_create plan_id (cm_batch_id m) m v (part_shards 0 parts) = Inr p"
    "sp_shards p = part_shards 0 parts" "sp_manifest p = m" "check_shard_plan p = None"
proof -
  have wf: "wf_items (cm_items m)" and total: "total_duration (cm_items m) \<le> max_safe_integer"
    and batch: "\<not> blank (cm_batch_id m)"
    using assms(1) by (auto simp: plannable_def wf_manifest_items wf_manifest_def check_case_manifest_def Let_def result_simps)
  let ?shards = "part_shards 0 parts" and ?json = "plan_json (cm_digest m) v (part_shards 0 parts)"
  have sorted: "sort_key ps_shard_index ?shards = ?shards"
  proof (rule sort_key_id_if_sorted)
    show "sorted (map ps_shard_index ?shards)"
      unfolding part_shards_fields
      by (simp add: sorted_map)
  qed
  have valid: "validate_plan_candidate m ?shards = None"
    using partition_accepted [OF wf assms(4,5) total] by (simp add: validate_plan_candidate_def)
  have digest: "canonical_digest sv ?json = Inr (digest_of sv ?json)" for sv
    by (rule canonical_digest_safe [OF plan_json_safe [OF assms(1,4)]])
  show thesis
    by (rule that [of "\<lparr>sp_id = plan_id, sp_batch_id = cm_batch_id m, sp_schema_version = ''qep.shard-plan.v1'',
          sp_manifest = m, sp_algorithm_version = v, sp_shards = ?shards, sp_digest = digest_of ''qep.shard-plan.v1'' ?json\<rparr>"])
      (use assms(2,3) batch in \<open>simp_all add: shard_plan_create_def sorted valid digest check_shard_plan_def Let_def result_simps\<close>)
qed

lemma plan_multi_shard_parts:
  assumes "plannable m" "\<not> blank plan_id" "\<not> blank v" "groups_in_one_profile (cm_items m)" "feasible (cm_items m) budget"
  obtains p parts where "plan_multi_shard plan_id m v budget = Inr p" "sp_shards p = part_shards 0 parts"
    "sp_manifest p = m" "partition_into (cm_items m) parts" "\<forall>q \<in> set parts. one_profile q" "check_shard_plan p = None"
proof -
  let ?items = "cm_items m"
  let ?es = "sort_key fst (group_by it_resource_profile_id it_item_index ?items)"
  have wf: "wf_items ?items" and total: "total_duration ?items \<le> max_safe_integer"
    and len: "int (length ?items) \<le> max_safe_integer"
    using assms(1) by (auto simp: plannable_def wf_manifest_items)
  have es: "set ?es = set (group_by it_resource_profile_id it_item_index ?items)" by simp
  have d: "distinct (map fst ?es)"
    using group_by_keys(2) [of it_resource_profile_id it_item_index ?items]
    by (metis mset_eq_imp_distinct_iff mset_map mset_sort)
  have entries: "\<forall>(profile, indices) \<in> set ?es. profile \<in> it_resource_profile_id ` set ?items \<and>
      indices = map it_item_index (of_profile ?items profile)"
    unfolding es by (auto simp: group_by_entry)
  have all: "filter (\<lambda>i. it_resource_profile_id i \<in> fst ` set ?es) ?items = ?items"
    unfolding es group_by_keys(1) by simp
  obtain parts where parts: "plan_groups ?items budget ?es (part_shards 0 []) = Inr (part_shards 0 ([] @ parts))"
    "partition_into (filter (\<lambda>i. it_resource_profile_id i \<in> fst ` set ?es) ?items) parts" "\<forall>q \<in> set parts. one_profile q"
    by (rule plan_groups_parts [OF wf total assms(4,5) d entries, of "[]"]) (use len all in simp, rule that)
  have p: "partition_into ?items parts" using parts(2) unfolding all .
  obtain q where "shard_plan_create plan_id (cm_batch_id m) m v (part_shards 0 parts) = Inr q"
    "sp_shards q = part_shards 0 parts" "sp_manifest q = m" "check_shard_plan q = None"
    by (rule shard_plan_of_parts [OF assms(1-3) p parts(3)]) (rule that)
  then show thesis
    using that p parts(1,3) by (simp add: plan_multi_shard_def)
qed

lemma singleton_list: "distinct xs \<Longrightarrow> set xs = {a} \<Longrightarrow> xs = [a]"
  by (cases xs; cases "tl xs") auto

lemma plan_single_shard_parts:
  assumes "plannable m" "\<not> blank plan_id" "\<not> blank v" "\<forall>i \<in> set (cm_items m). it_resource_profile_id i = profile"
  obtains p where "plan_single_shard plan_id m v = Inr p" "sp_shards p = part_shards 0 [cm_items m]"
    "sp_manifest p = m" "check_shard_plan p = None"
proof -
  let ?items = "cm_items m"
  have wf: "wf_items ?items" and total: "total_duration ?items \<le> max_safe_integer"
    using assms(1) by (auto simp: plannable_def wf_manifest_items)
  have ne: "?items \<noteq> []" using wf by (simp add: wf_items_def)
  have pure: "one_profile ?items" "profile = it_resource_profile_id (hd ?items)"
    using assms(4) hd_in_set [OF ne] by (simp_all add: one_profile_def)
  have "set (map it_resource_profile_id ?items) = {profile}" using assms(4) ne hd_in_set [OF ne] by fastforce
  then have rd: "remdups (map it_resource_profile_id ?items) = [profile]"
    using singleton_list [OF distinct_remdups] by (metis set_remdups)
  have "shard_for ?items profile 0 (map it_item_index ?items) = Inr (part_shard 0 ?items)"
    by (rule shard_for_part [OF wf _ ne pure(1) _ _ total pure(2), of "\<lambda>_. True"]) (simp_all add: max_safe_integer_def)
  moreover have part: "partition_into ?items [?items]" using ne by (simp add: partition_into_def group_whole_def)
  obtain q where "shard_plan_create plan_id (cm_batch_id m) m v (part_shards 0 [?items]) = Inr q"
    "sp_shards q = part_shards 0 [?items]" "sp_manifest q = m" "check_shard_plan q = None"
    using shard_plan_of_parts [OF assms(1-3) part] pure(1) by auto
  ultimately show thesis
    using that by (simp add: plan_single_shard_def rd)
qed

end
