(* ===== verification/Planning_Properties.thy ===== *)
theory Planning_Properties
  imports Plan_Construction
begin

text \<open>
  Properties of the case manifest, the shard planners and the shard budget, with a small manifest
  and budget on which they are exercised.
\<close>

section \<open>Sample values\<close>

definition sample_item :: "int \<Rightarrow> string \<Rightarrow> string \<Rightarrow> int \<Rightarrow> manifest_item" where
  "sample_item k case_id gid duration =
     \<lparr>it_item_index = k, it_stable_case_id = case_id,
      it_framework_locator = \<lparr>loc_schema_version = ''v1'', loc_kind = ''pytest'', loc_parts = [(''node'', case_id)]\<rparr>,
      it_atomic_group_id = gid, it_resource_profile_id = ''p'',
      it_constraints = \<lparr>mc_serial_group = None, mc_environment_requirements = [],
        mc_account_requirements = [], mc_data_lease_requirements = []\<rparr>,
      it_estimate = \<lparr>we_duration_ms = duration, we_confidence = LowConfidence\<rparr>, it_tags = [],
      it_selection_metadata_digest = Digest ''sel''\<rparr>"

definition sample_inputs :: manifest_inputs where
  "sample_inputs = \<lparr>mi_suite_revision_digest = Digest ''s'', mi_source_digest = Digest ''s'',
     mi_dependency_digest = Digest ''d'', mi_config_digest = Digest ''c'', mi_runner_digest = Digest ''r'',
     mi_collection_contract_version = ''v1''\<rparr>"

definition manifest_of :: "manifest_item list \<Rightarrow> case_manifest" where
  "manifest_of items = \<lparr>cm_id = ''m'', cm_batch_id = ''b'', cm_schema_version = ''qep.case-manifest.v1'',
     cm_inputs = sample_inputs, cm_items = items,
     cm_digest = digest_of ''qep.case-manifest.v1'' (manifest_json sample_inputs items)\<rparr>"

definition sample_items :: "manifest_item list" where
  "sample_items = [sample_item 0 ''c0'' ''ga'' 5, sample_item 1 ''c1'' ''gb'' 3, sample_item 2 ''c2'' ''ga'' 2]"

definition zero_items :: "manifest_item list" where
  "zero_items = [sample_item 0 ''c0'' ''ga'' 0, sample_item 1 ''c1'' ''gb'' 0]"

definition sample_vector :: "int \<Rightarrow> resource_vector" where
  "sample_vector n = \<lparr>rv_cpu_millis = n, rv_memory_bytes = n, rv_pid_slots = n,
     rv_ephemeral_storage_bytes = n, rv_browser_slots = 0\<rparr>"

definition sample_budget :: shard_planning_budget where
  "sample_budget = \<lparr>sb_target_shard_duration_ms = 4, sb_min_shards = 2, sb_max_shards = 5,
     sb_host_capacity = sample_vector 7,
     sb_profiles = [\<lparr>pf_profile_id = ''p'', pf_name = ''small'', pf_profile_version = 1, pf_framework = ''pytest'',
       pf_requests = sample_vector 3, pf_limits = sample_vector 3, pf_internal_workers = 1,
       pf_security_profile_id = ''sec''\<rparr>]\<rparr>"

lemma sample_budget_wf: "wf_budget sample_budget"
  by (simp add: wf_budget_def sample_budget_def check_shard_planning_budget_def check_resource_profile_def
      check_resource_vector_def dimensions_def sample_vector_def is_zero_vector_def first_exceeding_dimension_def
      blank_eval)

lemmas sample_defs = sample_item_def manifest_of_def sample_items_def zero_items_def sample_inputs_def

lemmas manifest_check_defs = plannable_def wf_manifest_def check_case_manifest_def validate_manifest_items_def
  validate_hard_grouping_def constraint_tokens_def check_manifest_item_def check_manifest_constraints_def
  check_work_estimate_def Let_def result_simps max_safe_integer_def total_duration_def item_duration_def

lemma sample_plannable:
  "plannable (manifest_of sample_items)" "plannable (manifest_of zero_items)"
proof -
  have "json_safe (manifest_json sample_inputs sample_items)" "json_safe (manifest_json sample_inputs zero_items)"
    by (simp_all add: manifest_json_def manifest_item_json_def strings_json_def sample_defs safe_int_def)
  then show "plannable (manifest_of sample_items)" "plannable (manifest_of zero_items)"
    by (simp_all add: manifest_check_defs canonical_digest_safe sample_defs blank_eval upt_rec)
qed

section \<open>Manifests\<close>

lemma distinct_map_sort_key [simp]: "distinct (map f (sort_key g xs)) \<longleftrightarrow> distinct (map f xs)"
  by (simp add: distinct_map)

lemma distinct_sort_key_cong:
  "mset xs = mset ys \<Longrightarrow> distinct (map f xs) \<Longrightarrow> sort_key f xs = sort_key f ys"
proof (rule properties_for_sort_key)
  assume m: "mset xs = mset ys" and d: "distinct (map f xs)"
  show "filter (\<lambda>x. f k = f x) (sort_key f ys) = filter (\<lambda>x. f k = f x) xs" if "k \<in> set (sort_key f ys)" for k
  proof -
    have k: "k \<in> set xs" "k \<in> set ys" using that m by (auto dest: mset_eq_setD)
    have "filter (\<lambda>x. f k = f x) zs = [k]" if z: "mset zs = mset xs" for zs
    proof -
      have dz: "distinct (map f zs)" using d z by (metis mset_eq_imp_distinct_iff mset_map)
      have "k \<in> set zs" using k(1) mset_eq_setD [OF z] by simp
      then have "set (filter (\<lambda>x. f k = f x) zs) = {k}" using dz by (auto simp: distinct_map inj_on_def)
      then show ?thesis using singleton_list dz by (metis distinct_filter distinct_map)
    qed
    then show ?thesis using m by (metis mset_sort)
  qed
qed (simp_all)

text \<open>
  A Case Manifest does not depend on the order in which its items were collected: any
  permutation gives the same manifest with the same digest, or the same error.
\<close>

theorem manifest_order_independent:
  assumes "mset xs = mset ys"
  shows "case_manifest_create mid bid inputs xs = case_manifest_create mid bid inputs ys"
proof (cases "distinct (map it_item_index xs)")
  case True
  then show ?thesis using distinct_sort_key_cong [OF assms True] by (simp add: case_manifest_create_def)
next
  case False
  have "mset (map it_item_index xs) = mset (map it_item_index ys)" using assms by simp
  then have "\<not> distinct (map it_item_index ys)" using False by (metis mset_eq_imp_distinct_iff)
  moreover have "xs \<noteq> []" "ys \<noteq> []" using False calculation by auto
  ultimately show ?thesis
    using False by (simp add: case_manifest_create_def validate_manifest_items_def Let_def)
qed

theorem manifest_order_independent_witness:
  "case_manifest_create ''m'' ''b'' sample_inputs (rev sample_items) = Inr (manifest_of sample_items)"
proof -
  have "mset (rev sample_items) = mset sample_items" by simp
  note * = manifest_order_independent [OF this, of "''m''" "''b''" sample_inputs]
  have m: "check_case_manifest (manifest_of sample_items) = None" "validate_manifest_items sample_items = None"
    "canonical_digest ''qep.case-manifest.v1'' (manifest_json sample_inputs sample_items) =
       Inr (digest_of ''qep.case-manifest.v1'' (manifest_json sample_inputs sample_items))"
    using sample_plannable(1)
    by (auto simp: plannable_def wf_manifest_def check_case_manifest_def Let_def result_simps manifest_of_def)
  have "sort_key it_item_index sample_items = sample_items"
    by (rule sort_key_id_if_sorted) (simp add: sample_defs)
  then show ?thesis
    using m unfolding * by (simp add: case_manifest_create_def Let_def manifest_of_def)
qed

section \<open>Plans\<close>

text \<open>
  C24: A shard plan that passes the validator is an exact partition of its manifest: every item is
  in exactly one shard, shards are numbered 0, 1, 2, ..., two items of one atomic group are always in
  the same shard, and every shard holds only items of its own resource profile, with their summed
  duration and the union of their requirements.
\<close>

theorem accepted_plan_is_partition:
  assumes "wf_manifest (sp_manifest p)" "check_shard_plan p = None"
  shows "(\<forall>i \<in> set (cm_items (sp_manifest p)). \<exists>!s. s \<in> set (sp_shards p) \<and> it_item_index i \<in> set (ps_item_indices s)) \<and>
    map ps_shard_index (sp_shards p) = map int [0..<length (sp_shards p)] \<and>
    (\<forall>i \<in> set (cm_items (sp_manifest p)). \<forall>j \<in> set (cm_items (sp_manifest p)). \<forall>s \<in> set (sp_shards p).
      it_atomic_group_id i = it_atomic_group_id j \<longrightarrow> it_item_index i \<in> set (ps_item_indices s) \<longrightarrow>
      it_item_index j \<in> set (ps_item_indices s)) \<and>
    (\<forall>s \<in> set (sp_shards p). \<exists>own. map it_item_index own = ps_item_indices s \<and>
      mset own = filter_mset (\<lambda>i. it_item_index i \<in> set (ps_item_indices s)) (mset (cm_items (sp_manifest p))) \<and>
      (\<forall>i \<in> set own. it_resource_profile_id i = ps_resource_profile_id s) \<and>
      ps_estimated_duration_ms s = total_duration own \<and> ps_requirements s = requirements_of own)"
proof -
  have wf: "wf_items (cm_items (sp_manifest p))" using assms(1) by (rule wf_manifest_items)
  have ok: "first_some (plan_candidate_checks (cm_items (sp_manifest p)) (sp_shards p)) = None"
    using assms(2) by (simp add: check_shard_plan_def validate_plan_candidate_def Let_def result_simps)
  show ?thesis
  proof (intro conjI ballI impI)
    show "\<exists>!s. s \<in> set (sp_shards p) \<and> it_item_index i \<in> set (ps_item_indices s)"
      if "i \<in> set (cm_items (sp_manifest p))" for i
      by (rule accepted_unique_shard [OF wf ok that])
    show "map ps_shard_index (sp_shards p) = map int [0..<length (sp_shards p)]"
      by (rule accepted_cover(2) [OF wf ok])
    show "it_item_index j \<in> set (ps_item_indices s)"
      if "i \<in> set (cm_items (sp_manifest p))" "j \<in> set (cm_items (sp_manifest p))" "s \<in> set (sp_shards p)"
        "it_atomic_group_id i = it_atomic_group_id j" "it_item_index i \<in> set (ps_item_indices s)" for i j s
      by (rule accepted_groups_whole [OF wf ok that(1,2,4,3,5)])
    show "\<exists>own. map it_item_index own = ps_item_indices s \<and>
        mset own = filter_mset (\<lambda>i. it_item_index i \<in> set (ps_item_indices s)) (mset (cm_items (sp_manifest p))) \<and>
        (\<forall>i \<in> set own. it_resource_profile_id i = ps_resource_profile_id s) \<and>
        ps_estimated_duration_ms s = total_duration own \<and> ps_requirements s = requirements_of own"
      if "s \<in> set (sp_shards p)" for s
      using accepted_content [OF wf ok that] by metis
  qed
qed

lemma sample_single_plan:
  obtains p where "plan_single_shard ''plan'' (manifest_of sample_items) ''v1'' = Inr p"
    "sp_shards p = part_shards 0 [sample_items]" "sp_manifest p = manifest_of sample_items" "check_shard_plan p = None"
proof -
  have "\<forall>i \<in> set (cm_items (manifest_of sample_items)). it_resource_profile_id i = ''p''"
    by (simp add: sample_defs)
  from plan_single_shard_parts [OF sample_plannable(1) _ _ this, of "''plan''" "''v1''"] show thesis
    using that by (auto simp: blank_eval manifest_of_def)
qed

theorem accepted_plan_is_partition_witness:
  "\<exists>p. plan_single_shard ''plan'' (manifest_of sample_items) ''v1'' = Inr p \<and>
     map ps_shard_index (sp_shards p) = [0]"
proof -
  obtain p where p: "plan_single_shard ''plan'' (manifest_of sample_items) ''v1'' = Inr p"
    "sp_shards p = part_shards 0 [sample_items]" "sp_manifest p = manifest_of sample_items" "check_shard_plan p = None"
    by (rule sample_single_plan)
  have "wf_manifest (sp_manifest p)" using sample_plannable(1) unfolding p(3) plannable_def by blast
  from accepted_plan_is_partition [OF this p(4)]
  have "map ps_shard_index (sp_shards p) = map int [0..<length (sp_shards p)]" by blast
  then show ?thesis using p(1,2) by simp
qed

text \<open>
  C25: The multi-shard planner succeeds on every manifest it can serve: when each atomic group lies in
  one resource profile, the budget allows at least one shard for every profile, and the items of a profile
  that is split (several shards for several items) have positive duration estimates, it returns a plan that
  the validator accepts, and its shards are the parts of a partition of the manifest into profile-pure parts.
  The condition on the estimates cannot be dropped, as the lemma on zero estimates below shows.
\<close>

theorem multi_shard_planner_succeeds:
  assumes "plannable m" "\<not> blank plan_id" "\<not> blank version" "groups_in_one_profile (cm_items m)"
    "feasible (cm_items m) budget"
  shows "\<exists>p parts. plan_multi_shard plan_id m version budget = Inr p \<and> check_shard_plan p = None \<and>
    sp_manifest p = m \<and> sp_shards p = part_shards 0 parts \<and> partition_into (cm_items m) parts \<and>
    (\<forall>q \<in> set parts. one_profile q)"
  using plan_multi_shard_parts [OF assms] by metis

text \<open>The sample budget wants three shards for ten units of work and can host two.\<close>

lemma sample_allowed: "allowed_shard_count ''p'' sample_items (Some sample_budget) = Inr 2"
proof -
  have "ceil_true_div 10 4 = 3" by (subst ceil_true_div_exact) simp_all
  then show ?thesis
    by (simp add: allowed_shard_count_def plan_shard_count_under_budget_def sample_budget_def budget_profile_def
        desired_shard_count_def concurrent_reservation_def scaled_by_def mk_resource_vector_def scale_vector_def
        sample_vector_def check_resource_vector_def dimensions_def max_concurrent_within_def dimension_limits_def
        mk_shard_budget_decision_def check_shard_budget_decision_def sample_defs total_duration_def item_duration_def
        blank_eval Let_def)
qed

theorem multi_shard_planner_succeeds_witness:
  "\<exists>p. plan_multi_shard ''plan'' (manifest_of sample_items) ''v1'' (Some sample_budget) = Inr p \<and>
     check_shard_plan p = None"
proof -
  have "groups_in_one_profile (cm_items (manifest_of sample_items))"
    by (simp add: groups_in_one_profile_def sample_defs)
  moreover have "feasible (cm_items (manifest_of sample_items)) (Some sample_budget)"
    using sample_allowed by (auto simp: feasible_def sample_defs item_duration_def)
  ultimately show ?thesis
    using multi_shard_planner_succeeds [OF sample_plannable(1), of "''plan''" "''v1''" "Some sample_budget"]
    by (auto simp: blank_eval)
qed

section \<open>Quality of the split\<close>

lemma all_units_own: "filter (in_groups (work_units own)) own = own"
  using group_by_keys(1) [of it_atomic_group_id "\<lambda>i. i" own] by (simp add: work_units_def image_image split_def)

lemma alternative_bounds:
  assumes "partition_into own alt" "\<forall>i \<in> set own. valid_item i" "alt \<noteq> []"
  obtains q where "q \<in> set alt" "\<And>r. r \<in> set alt \<Longrightarrow> total_duration r \<le> total_duration q"
    "total_duration own \<le> int (length alt) * total_duration q"
    "\<And>u. u \<in> set (work_units own) \<Longrightarrow> 0 \<le> unit_duration u \<and> unit_duration u \<le> total_duration q"
proof -
  have own: "set (concat alt) = set own" using assms(1) by (intro mset_eq_setD) (simp add: partition_into_def)
  obtain q where q: "q \<in> set alt" "\<And>r. r \<in> set alt \<Longrightarrow> total_duration r \<le> total_duration q"
  proof -
    have "Max (total_duration ` set alt) \<in> total_duration ` set alt" using assms(3) by (intro Max_in) simp_all
    then obtain q where "q \<in> set alt" "total_duration q = Max (total_duration ` set alt)" by auto
    then show thesis using that [of q] by simp
  qed
  have "sum_list (map total_duration alt) = total_duration own"
    using assms(1) total_duration_mset [of "concat alt" own] by (simp add: partition_into_def total_duration_concat)
  moreover have "sum_list (map total_duration rs) \<le> int (length rs) * c"
    if "\<And>r. r \<in> set rs \<Longrightarrow> total_duration r \<le> c" for rs c
    using that by (induction rs) (auto simp: algebra_simps add_mono)
  ultimately have total: "total_duration own \<le> int (length alt) * total_duration q" using q(2) by metis
  have unit: "0 \<le> unit_duration u \<and> unit_duration u \<le> total_duration q" if u: "u \<in> set (work_units own)" for u
  proof -
    let ?g = "\<lambda>i. it_atomic_group_id i = fst u"
    have d: "unit_duration u = total_duration (filter ?g own)" and mem: "fst u \<in> it_atomic_group_id ` set own"
      using u unfolding work_units_set by blast+
    from mem obtain i where i: "i \<in> set own" "?g i" by auto
    then obtain r where r: "r \<in> set alt" "i \<in> set r" using own by auto
    have inside: "j \<in> set r" if j: "j \<in> set own" "?g j" for j
    proof -
      obtain r' where "r' \<in> set alt" "j \<in> set r'" using j(1) own by auto
      then show ?thesis using assms(1) r i(2) j(2) unfolding partition_into_def group_whole_def by metis
    qed
    have "filter (\<lambda>j. j \<in> set r) own = r" using assms(1) r(1) by (simp add: partition_into_def)
    then have "filter ?g r = filter ?g (filter (\<lambda>j. j \<in> set r) own)" by simp
    also have "\<dots> = filter ?g own" unfolding filter_filter using inside by (intro filter_cong) auto
    finally have same: "filter ?g r = filter ?g own" .
    have valid: "\<forall>j \<in> set r. valid_item j" using assms(2) own r(1) by auto
    have "mset (filter ?g r @ filter (\<lambda>j. \<not> ?g j) r) = mset r" by simp
    then have "total_duration r = total_duration (filter ?g r @ filter (\<lambda>j. \<not> ?g j) r)"
      by (rule total_duration_mset [symmetric])
    then have "total_duration (filter ?g own) \<le> total_duration r"
      using total_duration_nonneg [of "filter (\<lambda>j. \<not> ?g j) r"] valid unfolding same by (simp add: total_duration_def)
    moreover have "0 \<le> total_duration (filter ?g own)" using assms(2) by (intro total_duration_nonneg) simp
    ultimately show ?thesis using q(2) [OF r(1)] d by simp
  qed
  show thesis by (rule that [OF q total unit])
qed

text \<open>
  C26: For items with positive duration estimates the longest-processing-time split is within a factor two
  of the best split: with n shards, no
  shard lasts longer than (2n - 1) / n times the longest part of any other partition of the same items
  into at most n parts that keeps the atomic groups whole.
\<close>

theorem lpt_split_within_factor_two:
  assumes "wf_items items" "own = of_profile items profile" "own \<noteq> []" "total_duration items \<le> max_safe_integer"
    "\<forall>i \<in> set own. 0 < item_duration i" "1 \<le> allowed" "0 \<le> k" "k + int (length own) \<le> max_safe_integer + 1"
    "partition_into own alt" "length alt \<le> n" "int n = min allowed (int (length (work_units own)))"
  shows "\<exists>parts. lpt_split_group own profile allowed k = Inr (part_shards k parts) \<and> partition_into own parts \<and>
    length parts = n \<and>
    (\<forall>p \<in> set parts. \<exists>q \<in> set alt. int n * total_duration p \<le> (2 * int n - 1) * total_duration q)"
proof -
  have prof: "\<forall>i \<in> set own. it_resource_profile_id i = profile" and valid: "\<forall>i \<in> set own. valid_item i"
    using assms(1,2) by (auto simp: wf_items_def)
  obtain parts where parts: "lpt_split_group own profile allowed k = Inr (part_shards k parts)" "partition_into own parts"
    "\<And>p. p \<in> set parts \<Longrightarrow> \<exists>b \<in> set (lpt_assign (length parts) (sort_units (work_units own))). fst b = total_duration p"
    "length parts = nat (min allowed (int (length (work_units own))))"
    using lpt_split_parts [OF assms(1-3) prof assms(4-8)] by metis
  have n: "length parts = n" using parts(4) assms(11) by simp
  have "parts \<noteq> []" using parts(2) assms(3) by (auto simp: partition_into_def)
  then have n0: "0 < n" using n by auto
  have "alt \<noteq> []" using assms(3,9) by (auto simp: partition_into_def)
  then obtain q where q: "q \<in> set alt" "total_duration own \<le> int (length alt) * total_duration q"
    "\<And>u. u \<in> set (work_units own) \<Longrightarrow> 0 \<le> unit_duration u \<and> unit_duration u \<le> total_duration q"
    using alternative_bounds [OF assms(9) valid] by metis
  have "set q \<subseteq> set own"
    using q(1) assms(9) mset_eq_setD [of "concat alt" own] by (auto simp: partition_into_def)
  then have q0: "0 \<le> total_duration q" using valid by (intro total_duration_nonneg) auto
  have units: "set (sort_units (work_units own)) = set (work_units own)"
    "sum_list (map unit_duration (sort_units (work_units own))) = total_duration own"
  proof -
    show "set (sort_units (work_units own)) = set (work_units own)" by (simp add: sort_units_def)
    have "mset (map unit_duration (sort_units (work_units own))) = mset (map unit_duration (work_units own))"
      by (simp add: sort_units_def)
    then have "sum_list (map unit_duration (sort_units (work_units own))) = sum_list (map unit_duration (work_units own))"
      by (metis sum_mset_sum_list)
    also have "\<dots> = total_duration (filter (in_groups (work_units own)) own)"
      by (rule units_items(2)) (simp_all add: work_units_distinct)
    also have "\<dots> = total_duration own" by (simp only: all_units_own)
    finally show "sum_list (map unit_duration (sort_units (work_units own))) = total_duration own" .
  qed
  have "int n * total_duration p \<le> (2 * int n - 1) * total_duration q" if p: "p \<in> set parts" for p
  proof -
    obtain b where b: "b \<in> set (lpt_assign n (sort_units (work_units own)))" "fst b = total_duration p"
      using parts(3) [OF p] n by auto
    have "int n * fst b \<le> sum_list (map unit_duration (sort_units (work_units own))) + (int n - 1) * total_duration q"
      by (rule lpt_makespan [OF n0 b(1) _ q0]) (use q(3) units(1) in blast)
    moreover have "int (length alt) * total_duration q \<le> int n * total_duration q"
      using assms(10) q0 by (intro mult_right_mono) simp_all
    ultimately show ?thesis using units(2) q(2) b(2) by (simp add: algebra_simps)
  qed
  then show ?thesis using parts(1,2) n q(1) by blast
qed

theorem lpt_split_within_factor_two_witness:
  "\<exists>parts. lpt_split_group sample_items ''p'' 2 0 = Inr (part_shards 0 parts) \<and> length parts = 2"
proof -
  have "wf_items sample_items" "total_duration sample_items \<le> max_safe_integer"
    using sample_plannable(1) wf_manifest_items unfolding plannable_def by (force simp: manifest_of_def)+
  moreover have "partition_into sample_items [sample_items]" "sample_items = of_profile sample_items ''p''"
    "int 2 = min 2 (int (length (work_units sample_items)))"
    by (simp_all add: partition_into_def group_whole_def sample_defs work_units_def group_by_def)
  ultimately show ?thesis
    using lpt_split_within_factor_two [of sample_items sample_items "''p''" 2 0 "[sample_items]" 2]
    by (auto simp: sample_defs item_duration_def max_safe_integer_def)
qed

section \<open>Groups without an estimate\<close>

text \<open>With zero durations every group goes to shard 0, whatever the number of shards.\<close>

lemma least_loaded_ties: "\<forall>b \<in> set bins. fst b = 0 \<Longrightarrow> least_loaded bins = 0"
proof (induction bins rule: least_loaded.induct)
  case (3 b c bs)
  have "least_loaded (c # bs) < length (c # bs)" by (rule least_loaded_bound) simp
  then have "fst ((c # bs) ! least_loaded (c # bs)) = 0" using "3.prems" by (meson list.set_intros(2) nth_mem)
  then show ?case using "3.prems" by (simp add: Let_def)
qed simp_all

lemma foldl_zero_units:
  assumes "\<forall>u \<in> set us. unit_duration u = 0"
  shows "foldl add_unit ((0, is) # replicate n (0, [])) us =
    (0, is @ concat (map unit_indices us)) # replicate n (0, [])"
  using assms
proof (induction us arbitrary: "is")
  case (Cons u us)
  have "least_loaded ((0, is) # replicate n (0, [])) = 0" by (rule least_loaded_ties) auto
  then have "add_unit ((0, is) # replicate n (0, [])) u = (0, is @ unit_indices u) # replicate n (0, [])"
    using Cons.prems by (simp add: add_unit_def)
  then show ?case using Cons by simp
qed simp

lemma total_duration_zero: "\<forall>i \<in> set xs. item_duration i = 0 \<Longrightarrow> total_duration xs = 0"
  by (induction xs) (simp_all add: total_duration_def)

lemma empty_shard_rejected:
  assumes "0 \<le> k" "k \<le> max_safe_integer"
  shows "shard_for [] profile k [] = Inl (DomainValidationError ''planned_shard'' ''manifest_item_indices'' ''empty'')"
  using assms
  by (simp add: shard_for_def aggregate_valid mk_planned_shard_def check_planned_shard_def Let_def
      manifest_int_def reject_if_def raise_or_def)

text \<open>
  The split cannot serve a profile with two or more atomic groups when none of its items has a
  duration estimate above zero: every group ties onto the first shard, the second one stays empty, and
  the planner raises the empty error of PlannedShard although the shard count was capped to the groups.
\<close>

theorem zero_estimates_break_the_split:
  assumes "wf_items items" "own = of_profile items profile" "total_duration items \<le> max_safe_integer"
    "\<forall>i \<in> set own. item_duration i = 0"
    "2 \<le> length (remdups (map it_atomic_group_id own))" "2 \<le> allowed" "0 \<le> k" "k + 1 \<le> max_safe_integer"
  shows "lpt_split_group own profile allowed k =
    Inl (DomainValidationError ''planned_shard'' ''manifest_item_indices'' ''empty'')"
proof -
  let ?units = "sort_units (work_units own)"
  have len: "2 \<le> length (work_units own)"
  proof -
    have "set (map fst (work_units own)) = set (map it_atomic_group_id own)"
      using group_by_keys(1) [of it_atomic_group_id "\<lambda>i. i" own] by (simp add: work_units_def image_image split_def)
    then have "length (work_units own) = length (remdups (map it_atomic_group_id own))"
      using distinct_card [OF work_units_distinct [of own]] by (simp add: length_remdups_card_conv)
    then show ?thesis using assms(5) by simp
  qed
  define n where "n = nat (min allowed (int (length ?units))) - 2"
  have n: "nat (min allowed (int (length ?units))) = Suc (Suc n)"
    using len assms(6) by (simp add: n_def sort_units_def)
  have zero: "unit_duration u = 0" if u: "u \<in> set ?units" for u
  proof -
    have "u \<in> set (work_units own)" using u by (simp add: sort_units_def)
    then have d: "unit_duration u = total_duration (filter (\<lambda>i. it_atomic_group_id i = fst u) own)"
      unfolding work_units_set by blast
    show ?thesis unfolding d by (rule total_duration_zero) (use assms(4) in simp)
  qed
  let ?xs = "concat (map unit_indices ?units)"
  have bins: "lpt_assign (Suc (Suc n)) ?units = (0, ?xs) # (0, []) # replicate n (0, [])"
    using foldl_zero_units [of ?units "[]" "Suc n"] zero by (simp add: lpt_assign_def)
  have "set ?units = set (work_units own)" "distinct (map fst ?units)"
    using work_units_distinct [of own] by (simp_all add: sort_units_def)
  then have "mset ?xs = mset (map it_item_index own)"
    using units_items(1) [of ?units own] by (simp add: all_units_own del: mset_map)
  then have "sort ?xs = map it_item_index own"
    using sorted_set_filter_index(1) [OF assms(1)] unfolding assms(2) by (intro properties_for_sort) simp_all
  moreover have "own \<noteq> []" using assms(5) by auto
  then have "single_shard_for_group own profile k = Inr (part_shards k [own])"
    using assms(2,3,7,8) by (intro single_part(1) [OF assms(1,2)]) simp_all
  then have "shard_for own profile k (map it_item_index own) = Inr (part_shard k own)"
    by (simp add: single_shard_for_group_def result_simps)
  moreover have "filter (\<lambda>i. it_item_index i \<in> set (map it_item_index own)) own = own" by simp
  moreover have "shard_for [] profile (k + 1) [] =
      Inl (DomainValidationError ''planned_shard'' ''manifest_item_indices'' ''empty'')"
    by (rule empty_shard_rejected) (use assms(7,8) in simp_all)
  ultimately show ?thesis
    by (simp add: lpt_split_group_def Let_def n bins)
qed

theorem zero_estimates_break_the_split_witness:
  "plan_multi_shard ''plan'' (manifest_of zero_items) ''v1'' (Some sample_budget) =
     Inl (DomainValidationError ''planned_shard'' ''manifest_item_indices'' ''empty'')"
proof -
  have "wf_items zero_items" "total_duration zero_items \<le> max_safe_integer"
    using sample_plannable(2) wf_manifest_items unfolding plannable_def by (force simp: manifest_of_def)+
  moreover have "zero_items = of_profile zero_items ''p''" by (simp add: sample_defs)
  moreover have "2 \<le> length (remdups (map it_atomic_group_id zero_items))" by (simp add: sample_defs)
  ultimately have *: "lpt_split_group zero_items ''p'' 2 0 =
      Inl (DomainValidationError ''planned_shard'' ''manifest_item_indices'' ''empty'')"
    using zero_estimates_break_the_split [of zero_items zero_items "''p''" 2 0]
    by (simp add: sample_defs item_duration_def max_safe_integer_def)
  have "allowed_shard_count ''p'' zero_items (Some sample_budget) = Inr 2"
    by (simp add: allowed_shard_count_def plan_shard_count_under_budget_def sample_budget_def budget_profile_def
        desired_shard_count_def concurrent_reservation_def scaled_by_def mk_resource_vector_def scale_vector_def
        sample_vector_def check_resource_vector_def dimensions_def max_concurrent_within_def dimension_limits_def
        mk_shard_budget_decision_def check_shard_budget_decision_def sample_defs total_duration_def item_duration_def
        blank_eval Let_def)
  then have "plan_group (Some sample_budget) ''p'' zero_items 0 =
      Inl (DomainValidationError ''planned_shard'' ''manifest_item_indices'' ''empty'')"
    using * by (simp add: plan_group_def zero_items_def)
  moreover have "group_by it_resource_profile_id it_item_index zero_items = [(''p'', [0, 1])]"
    by (simp add: group_by_def sample_defs)
  moreover have "items_at zero_items [0, 1] = zero_items"
    by (simp add: items_at_def sample_defs find_last_def)
  ultimately show ?thesis by (simp add: plan_multi_shard_def manifest_of_def)
qed

section \<open>The shard budget\<close>

text \<open>
  The shard budget neither oversells the host nor wastes it: the desired count is the exact ceiling
  of the work over the target duration, clamped to the configured range, and the allowed count is the
  largest one up to it whose joint reservation fits the host in every dimension.
\<close>

theorem shard_count_largest_fit:
  assumes "wf_budget b" "plan_shard_count_under_budget work profile b = Inr d" "work < 2 ^ 53"
  shows "\<exists>p. budget_profile profile b = Inr p \<and>
    sd_desired_shard_count d = max (sb_min_shards b) (min (sb_max_shards b)
      (if work = 0 then sb_min_shards b else - ((- work) div sb_target_shard_duration_ms b))) \<and>
    (\<forall>n. 0 \<le> n \<longrightarrow> (n \<le> sd_allowed_shard_count d \<longleftrightarrow> n \<le> sd_desired_shard_count d \<and>
      fits_within (scale_vector (n * pf_internal_workers p) (pf_requests p)) (sb_host_capacity b))) \<and>
    (sd_kind d = ShardsInfeasible \<longleftrightarrow> sd_allowed_shard_count d = 0)"
proof -
  obtain p where p: "budget_profile profile b = Inr p"
    "desired_shard_count work (sb_target_shard_duration_ms b) (sb_min_shards b) (sb_max_shards b) =
       Inr (sd_desired_shard_count d)"
    "\<And>n. 0 \<le> n \<Longrightarrow> n \<le> sd_allowed_shard_count d \<longleftrightarrow>
       n \<le> sd_desired_shard_count d \<and>
       fits_within (scale_vector (n * pf_internal_workers p) (pf_requests p)) (sb_host_capacity b)"
    "sd_kind d = ShardsInfeasible \<longleftrightarrow> sd_allowed_shard_count d < 1" "0 \<le> sd_allowed_shard_count d"
    using plan_shard_count_exact [OF assms(1,2)] by metis
  have target: "0 < sb_target_shard_duration_ms b"
    using assms(1) by (simp add: wf_budget_def check_shard_planning_budget_def Let_def result_simps)
  have "0 \<le> work" using p(2) by (simp add: desired_shard_count_def split: if_splits)
  then have "sd_desired_shard_count d = max (sb_min_shards b) (min (sb_max_shards b)
      (if work = 0 then sb_min_shards b else - ((- work) div sb_target_shard_duration_ms b)))"
    using p(2) ceil_true_div_exact [OF _ assms(3) target]
    by (cases "work = 0") (simp_all add: desired_shard_count_def Let_def)
  moreover have "sd_kind d = ShardsInfeasible \<longleftrightarrow> sd_allowed_shard_count d = 0" using p(4,5) by linarith
  ultimately show ?thesis using p(1,3) by blast
qed

lemma sample_plan_count:
  "plan_shard_count_under_budget 10 ''p'' sample_budget = Inr
     \<lparr>sd_kind = ShardsClamped, sd_desired_shard_count = 3, sd_allowed_shard_count = 2,
      sd_limiting_dimension = Some ''cpu_millis'', sd_reason = Some ''host_budget''\<rparr>"
proof -
  have "ceil_true_div 10 4 = 3" by (subst ceil_true_div_exact) simp_all
  then show ?thesis
    by (simp add: plan_shard_count_under_budget_def sample_budget_def budget_profile_def
        desired_shard_count_def concurrent_reservation_def scaled_by_def mk_resource_vector_def scale_vector_def
        sample_vector_def check_resource_vector_def dimensions_def max_concurrent_within_def dimension_limits_def
        mk_shard_budget_decision_def check_shard_budget_decision_def blank_eval Let_def)
qed

theorem shard_count_largest_fit_witness:
  "\<exists>d p. plan_shard_count_under_budget 10 ''p'' sample_budget = Inr d \<and> budget_profile ''p'' sample_budget = Inr p \<and>
     \<not> fits_within (scale_vector (3 * pf_internal_workers p) (pf_requests p)) (sb_host_capacity sample_budget)"
proof -
  from shard_count_largest_fit [OF sample_budget_wf sample_plan_count] obtain p
    where "budget_profile ''p'' sample_budget = Inr p"
      "\<forall>n. 0 \<le> n \<longrightarrow> (n \<le> 2 \<longleftrightarrow> n \<le> 3 \<and>
        fits_within (scale_vector (n * pf_internal_workers p) (pf_requests p)) (sb_host_capacity sample_budget))"
    by (auto simp del: of_int_numeral)
  then show ?thesis using sample_plan_count by (auto dest: spec [of _ "3 :: int"])
qed

text \<open>
  Admission of a set of shards is all or nothing: with known profiles it always decides, and it
  admits all of them exactly when the sum of their reservations fits the host, and none otherwise.
\<close>

theorem admission_all_or_nothing:
  assumes "wf_budget b" "ids \<noteq> []" "\<forall>i \<in> set ids. \<exists>p. budget_profile i b = Inr p" "\<not> list_ex blank ids"
  shows "\<exists>d. admit_concurrent_shards ids b = Inr d \<and> sd_desired_shard_count d = int (length ids) \<and>
    (sd_kind d = ShardsAdmitted \<longleftrightarrow> fits_within (sum_reserved b ids) (sb_host_capacity b)) \<and>
    sd_allowed_shard_count d = (if sd_kind d = ShardsAdmitted then int (length ids) else 0)"
  using admit_concurrent_exact [OF assms(1,2) _ assms(4)] assms(3) by metis

theorem admission_all_or_nothing_witness:
  "\<exists>d. admit_concurrent_shards [''p'', ''p'', ''p''] sample_budget = Inr d \<and> sd_allowed_shard_count d = 0"
proof -
  have "\<forall>i \<in> set [''p'', ''p'', ''p'']. \<exists>p. budget_profile i sample_budget = Inr p"
    by (simp add: sample_budget_def budget_profile_def)
  moreover have "\<not> fits_within (sum_reserved sample_budget [''p'', ''p'', ''p'']) (sb_host_capacity sample_budget)"
    by (simp add: sum_reserved_def reserved_def sample_budget_def budget_profile_def scale_vector_def sample_vector_def
        fits_within_iff)
  ultimately show ?thesis
    using admission_all_or_nothing [OF sample_budget_wf, of "[''p'', ''p'', ''p'']"] by (auto simp: blank_eval)
qed

section \<open>Run bindings\<close>

text \<open>
  Binding Runs to a plan succeeds exactly when the bindings are a bijection between distinct Runs
  and the shards of the plan; the result lists them in shard order.
\<close>

theorem run_bindings_are_a_bijection:
  assumes "wf_manifest (sp_manifest p)" "check_shard_plan p = None"
  shows "(\<exists>b. bound_shard_plan_create p bindings = Inr b) \<longleftrightarrow>
    distinct (map rb_run_id bindings) \<and> mset (map rb_shard_index bindings) = mset (map ps_shard_index (sp_shards p))"
proof -
  have wf: "wf_items (cm_items (sp_manifest p))" using assms(1) by (rule wf_manifest_items)
  have ok: "first_some (plan_candidate_checks (cm_items (sp_manifest p)) (sp_shards p)) = None"
    using assms(2) by (simp add: check_shard_plan_def validate_plan_candidate_def Let_def result_simps)
  have d: "distinct (map ps_shard_index (sp_shards p))"
    unfolding accepted_cover(2) [OF wf ok] by (simp add: distinct_map inj_on_def)
  have "sort_key rb_shard_index (sort_key rb_shard_index bindings) = sort_key rb_shard_index bindings"
    by (rule sort_key_id_if_sorted) simp
  then show ?thesis
    by (simp add: bound_shard_plan_create_def check_bound_shard_plan_def run_binding_checks_def Let_def result_simps
        exact_cover_None [OF d])
qed

theorem run_bindings_are_a_bijection_witness:
  "\<exists>p. plan_single_shard ''plan'' (manifest_of sample_items) ''v1'' = Inr p \<and>
     (\<exists>b. bound_shard_plan_create p [\<lparr>rb_run_id = ''r'', rb_shard_index = 0\<rparr>] = Inr b) \<and>
     \<not> (\<exists>b. bound_shard_plan_create p [\<lparr>rb_run_id = ''r'', rb_shard_index = 1\<rparr>] = Inr b)"
proof -
  obtain p where p: "plan_single_shard ''plan'' (manifest_of sample_items) ''v1'' = Inr p"
    "sp_shards p = part_shards 0 [sample_items]" "sp_manifest p = manifest_of sample_items" "check_shard_plan p = None"
    by (rule sample_single_plan)
  have "wf_manifest (sp_manifest p)" using sample_plannable(1) unfolding p(3) plannable_def by blast
  note * = run_bindings_are_a_bijection [OF this p(4)]
  have "\<exists>b. bound_shard_plan_create p [\<lparr>rb_run_id = ''r'', rb_shard_index = 0\<rparr>] = Inr b"
    unfolding * by (simp add: p(2) part_shard_def)
  moreover have "\<not> (\<exists>b. bound_shard_plan_create p [\<lparr>rb_run_id = ''r'', rb_shard_index = 1\<rparr>] = Inr b)"
    unfolding * by (simp add: p(2) part_shard_def)
  ultimately show ?thesis using p(1) by blast
qed

end
