(* ===== verification/Batch_Cancellation.thy ===== *)
theory Batch_Cancellation
  imports Run_Cancellation "HOL-Library.Product_Lexorder"
begin

text \<open>
  Cancellation facts owned by a Batch (\<open>src/qarunner/domain/cancellation.py\<close>, the Batch part): the
  scope frozen when the intent is accepted, the intent with its digests, and the scope items that
  record how every Manifest item converges.
\<close>

section \<open>Optional fields\<close>

definition require_present :: "string \<Rightarrow> string \<Rightarrow> string \<Rightarrow> 'a option \<Rightarrow> domain_error option" where
  "require_present entity field reason v = reject_if (v = None) (DomainValidationError entity field reason)"

definition require_absent :: "string \<Rightarrow> string \<Rightarrow> string \<Rightarrow> 'a option \<Rightarrow> domain_error option" where
  "require_absent entity field reason v = reject_if (v \<noteq> None) (DomainValidationError entity field reason)"

definition require_optional_version :: "string \<Rightarrow> string \<Rightarrow> int option \<Rightarrow> domain_error option" where
  "require_optional_version entity field v =
     (case v of None \<Rightarrow> Some (DomainValidationError entity field ''not_integer'')
      | Some n \<Rightarrow> require_nonnegative_version entity field n)"

lemma require_option_None [result_simps]:
  "require_present et f rs v = None \<longleftrightarrow> v \<noteq> None"
  "require_absent et f rs v = None \<longleftrightarrow> v = None"
  "require_optional_version et f n = None \<longleftrightarrow> (\<exists>k. n = Some k \<and> 0 \<le> k)"
  by (auto simp: require_present_def require_absent_def require_optional_version_def result_simps split: option.splits)

definition digest_json :: "digest \<Rightarrow> json" where
  "digest_json d = JStr (digest_value d)"

section \<open>Scope\<close>

datatype batch_cancellation_scope_kind = CancelPrePlan | CancelFrozenPlan

fun cancellation_scope_kind_value :: "batch_cancellation_scope_kind \<Rightarrow> string" where
  "cancellation_scope_kind_value CancelPrePlan = ''pre_plan''"
| "cancellation_scope_kind_value CancelFrozenPlan = ''frozen_plan''"

record batch_cancellation_scope =
  bcs_kind :: batch_cancellation_scope_kind
  bcs_preplan_scope_digest :: "digest option"
  bcs_manifest_digest :: "digest option"
  bcs_shard_plan_version :: "int option"
  bcs_shard_plan_digest :: "digest option"
  bcs_canonical_run_set_digest :: "digest option"

definition check_batch_cancellation_scope :: "batch_cancellation_scope \<Rightarrow> domain_error option" where
  "check_batch_cancellation_scope s =
     (let e = ''batch_cancellation_scope'' in first_some
     (if bcs_kind s = CancelPrePlan then
       [require_present e ''preplan_scope_digest'' ''required_for_kind'' (bcs_preplan_scope_digest s),
        require_absent e ''manifest_digest'' ''forbidden_for_kind'' (bcs_manifest_digest s),
        require_absent e ''shard_plan_version'' ''forbidden_for_kind'' (bcs_shard_plan_version s),
        require_absent e ''shard_plan_digest'' ''forbidden_for_kind'' (bcs_shard_plan_digest s),
        require_absent e ''canonical_run_set_digest'' ''forbidden_for_kind'' (bcs_canonical_run_set_digest s)]
      else
       [require_absent e ''preplan_scope_digest'' ''forbidden_for_kind'' (bcs_preplan_scope_digest s),
        require_present e ''manifest_digest'' ''required_for_kind'' (bcs_manifest_digest s),
        require_present e ''shard_plan_digest'' ''required_for_kind'' (bcs_shard_plan_digest s),
        require_present e ''canonical_run_set_digest'' ''required_for_kind'' (bcs_canonical_run_set_digest s),
        require_optional_version e ''shard_plan_version'' (bcs_shard_plan_version s)]))"

section \<open>Intent\<close>

record batch_cancellation_intent =
  bci_batch_id :: string
  bci_project_id :: string
  bci_suite_revision_id :: string
  bci_source_batch_version :: int
  bci_idempotency_key :: string
  bci_source :: cancellation_source
  bci_actor_id :: string
  bci_reason :: string
  bci_authorization_digest :: digest
  bci_scope :: batch_cancellation_scope
  bci_recorded_at :: datetime

definition check_batch_cancellation_intent :: "batch_cancellation_intent \<Rightarrow> domain_error option" where
  "check_batch_cancellation_intent i =
     (let e = ''batch_cancellation_intent'' in first_some
     [require_nonempty_string e ''batch_id'' (bci_batch_id i),
      require_nonempty_string e ''project_id'' (bci_project_id i),
      require_nonempty_string e ''suite_revision_id'' (bci_suite_revision_id i),
      require_nonempty_string e ''idempotency_key'' (bci_idempotency_key i),
      require_nonempty_string e ''actor_id'' (bci_actor_id i),
      require_nonempty_string e ''reason'' (bci_reason i),
      require_nonnegative_version e ''source_batch_version'' (bci_source_batch_version i),
      require_utc e ''recorded_at'' (bci_recorded_at i)])"

definition batch_cancellation_request_digest :: "batch_cancellation_intent \<Rightarrow> digest result" where
  "batch_cancellation_request_digest i = canonical_digest ''qep.batch-cancellation-request.v1''
     (JObj [(''batch_id'', JStr (bci_batch_id i)),
            (''source_batch_version'', JInt (bci_source_batch_version i)),
            (''idempotency_key'', JStr (bci_idempotency_key i)),
            (''source'', JStr (cancellation_source_value (bci_source i))),
            (''actor_id'', JStr (bci_actor_id i)),
            (''reason'', JStr (bci_reason i))])"

definition batch_cancellation_intent_digest :: "batch_cancellation_intent \<Rightarrow> digest result" where
  "batch_cancellation_intent_digest i =
     bind_result (batch_cancellation_request_digest i) (\<lambda>request_digest.
     canonical_digest ''qep.batch-cancellation-intent.v1''
     (JObj [(''batch_id'', JStr (bci_batch_id i)),
            (''project_id'', JStr (bci_project_id i)),
            (''suite_revision_id'', JStr (bci_suite_revision_id i)),
            (''source_batch_version'', JInt (bci_source_batch_version i)),
            (''request_digest'', digest_json request_digest),
            (''authorization_digest'', digest_json (bci_authorization_digest i)),
            (''scope_kind'', JStr (cancellation_scope_kind_value (bcs_kind (bci_scope i)))),
            (''preplan_scope_digest'', json_opt digest_json (bcs_preplan_scope_digest (bci_scope i))),
            (''manifest_digest'', json_opt digest_json (bcs_manifest_digest (bci_scope i))),
            (''shard_plan_version'', json_opt JInt (bcs_shard_plan_version (bci_scope i))),
            (''shard_plan_digest'', json_opt digest_json (bcs_shard_plan_digest (bci_scope i))),
            (''canonical_run_set_digest'', json_opt digest_json (bcs_canonical_run_set_digest (bci_scope i))),
            (''recorded_at'', JStr (iso_z (bci_recorded_at i)))]))"

section \<open>Scope items\<close>

text \<open>\<open>RunItemKey\<close> of \<open>src/qarunner/domain/run_finalization.py\<close>, ordered by manifest id, then index.\<close>

record run_item_key =
  rk_manifest_id :: string
  rk_item_index :: int

definition check_run_item_key :: "run_item_key \<Rightarrow> domain_error option" where
  "check_run_item_key k = first_some
     [require_nonempty_string ''run_item_key'' ''manifest_id'' (rk_manifest_id k),
      reject_if (rk_item_index k < 0) (DomainValidationError ''run_item_key'' ''item_index'' ''invalid'')]"

definition run_item_key_json :: "run_item_key \<Rightarrow> json" where
  "run_item_key_json k =
     JObj [(''manifest_id'', JStr (rk_manifest_id k)), (''item_index'', JInt (rk_item_index k))]"

definition key_order :: "run_item_key \<Rightarrow> string \<times> int" where
  "key_order k = (rk_manifest_id k, rk_item_index k)"

lemma key_order_inj: "key_order j = key_order k \<longleftrightarrow> j = k"
  by (cases j; cases k) (simp add: key_order_def)

datatype batch_cancellation_resolution_kind = NotExecuted | RunFanout

fun cancellation_resolution_value :: "batch_cancellation_resolution_kind \<Rightarrow> string" where
  "cancellation_resolution_value NotExecuted = ''not_executed''"
| "cancellation_resolution_value RunFanout = ''run_fanout''"

record batch_cancellation_scope_item =
  csi_batch_id :: string
  csi_intent_digest :: digest
  csi_manifest_id :: string
  csi_manifest_digest :: digest
  csi_manifest_item_key :: run_item_key
  csi_shard_plan_version :: int
  csi_shard_plan_digest :: digest
  csi_resolution_kind :: batch_cancellation_resolution_kind
  csi_run_id :: "string option"
  csi_source_run_version :: "int option"
  csi_recorded_at :: datetime

definition check_batch_cancellation_scope_item :: "batch_cancellation_scope_item \<Rightarrow> domain_error option" where
  "check_batch_cancellation_scope_item i =
     (let e = ''batch_cancellation_scope_item'' in first_some (
     [require_nonempty_string e ''batch_id'' (csi_batch_id i),
      require_nonempty_string e ''manifest_id'' (csi_manifest_id i),
      reject_if (rk_manifest_id (csi_manifest_item_key i) \<noteq> csi_manifest_id i)
        (DomainValidationError e ''manifest_item_key'' ''manifest_mismatch''),
      require_nonnegative_version e ''shard_plan_version'' (csi_shard_plan_version i)] @
     (if csi_resolution_kind i = NotExecuted
      then [reject_if (csi_run_id i \<noteq> None \<or> csi_source_run_version i \<noteq> None)
              (DomainValidationError e ''run_binding'' ''forbidden_for_kind'')]
      else [(case csi_run_id i of None \<Rightarrow> Some (DomainValidationError e ''run_id'' ''not_string'')
             | Some r \<Rightarrow> require_nonempty_string e ''run_id'' r),
            require_optional_version e ''source_run_version'' (csi_source_run_version i)]) @
     [require_utc e ''recorded_at'' (csi_recorded_at i)]))"

definition delivery_key :: "batch_cancellation_scope_item \<Rightarrow> digest \<times> run_item_key" where
  "delivery_key i = (csi_intent_digest i, csi_manifest_item_key i)"

definition scope_item_json :: "batch_cancellation_scope_item \<Rightarrow> json" where
  "scope_item_json i =
     (let item_key = run_item_key_json (csi_manifest_item_key i) in JObj
     [(''batch_id'', JStr (csi_batch_id i)),
      (''batch_cancellation_intent_digest'', digest_json (csi_intent_digest i)),
      (''manifest_id'', JStr (csi_manifest_id i)),
      (''manifest_digest'', digest_json (csi_manifest_digest i)),
      (''manifest_item_key'', item_key),
      (''shard_plan_version'', JInt (csi_shard_plan_version i)),
      (''shard_plan_digest'', digest_json (csi_shard_plan_digest i)),
      (''resolution_kind'', JStr (cancellation_resolution_value (csi_resolution_kind i))),
      (''run_id'', json_opt JStr (csi_run_id i)),
      (''source_run_version'', json_opt JInt (csi_source_run_version i)),
      (''delivery_key'', JObj
        [(''batch_cancellation_intent_digest'', digest_json (csi_intent_digest i)),
         (''manifest_item_key'', item_key)]),
      (''recorded_at'', JStr (iso_z (csi_recorded_at i)))])"

definition scope_item_digest :: "batch_cancellation_scope_item \<Rightarrow> digest result" where
  "scope_item_digest i = canonical_digest ''qep.batch-cancellation-scope-item.v1'' (scope_item_json i)"

text \<open>
  \<open>by_delivery_key.setdefault(item.delivery_key, item)\<close> over the items: the first fact of a delivery
  key stays, and a later one with another digest is a conflict.
\<close>

fun collapse_deliveries ::
  "batch_cancellation_scope_item list \<Rightarrow> batch_cancellation_scope_item list \<Rightarrow>
   batch_cancellation_scope_item list result" where
  "collapse_deliveries kept [] = Inr kept"
| "collapse_deliveries kept (i # is) =
     (let (prior, kept') =
        (case find (\<lambda>k. delivery_key k = delivery_key i) kept of
           None \<Rightarrow> (i, kept @ [i]) | Some p \<Rightarrow> (p, kept)) in
      bind_result (scope_item_digest prior) (\<lambda>dp.
      bind_result (scope_item_digest i) (\<lambda>di.
      if dp \<noteq> di then Inl (DomainValidationError ''batch_cancellation_scope_items'' ''items'' ''replay_conflict'')
      else collapse_deliveries kept' is)))"

type_synonym cancellation_envelope = "string \<times> digest \<times> string \<times> digest \<times> int \<times> digest"

definition item_envelope :: "batch_cancellation_scope_item \<Rightarrow> cancellation_envelope" where
  "item_envelope i = (csi_batch_id i, csi_intent_digest i, csi_manifest_id i, csi_manifest_digest i,
     csi_shard_plan_version i, csi_shard_plan_digest i)"

definition canonicalize_scope_items ::
  "string \<Rightarrow> digest \<Rightarrow> string \<Rightarrow> digest \<Rightarrow> int \<Rightarrow> digest \<Rightarrow> run_item_key list \<Rightarrow>
   batch_cancellation_scope_item list \<Rightarrow> batch_cancellation_scope_item list result" where
  "canonicalize_scope_items batch_id intent_digest manifest_id manifest_digest shard_plan_version
     shard_plan_digest expected_item_keys items =
     (let e = ''batch_cancellation_scope_items''; invalid = DomainValidationError ''batch_cancellation_scope_items'' in
     bind_result (raise_or (first_some
       [require_nonempty_string e ''batch_id'' batch_id,
        require_nonempty_string e ''manifest_id'' manifest_id,
        require_nonnegative_version e ''shard_plan_version'' shard_plan_version,
        reject_if (expected_item_keys = []) (invalid ''expected_item_keys'' ''invalid''),
        reject_if (\<not> distinct expected_item_keys) (invalid ''expected_item_keys'' ''duplicate''),
        reject_if (items = []) (invalid ''items'' ''invalid'')]) ()) (\<lambda>_.
     bind_result (collapse_deliveries [] items) (\<lambda>kept.
     let canonical = sort_key (\<lambda>i. key_order (csi_manifest_item_key i)) kept;
         envelope = item_envelope (hd canonical) in
     raise_or (first_some
       [reject_if (map csi_manifest_item_key canonical \<noteq> sort_key key_order expected_item_keys)
          (invalid ''items'' ''manifest_coverage_mismatch''),
        reject_if (list_ex (\<lambda>i. item_envelope i \<noteq> envelope) canonical) (invalid ''items'' ''envelope_mismatch''),
        reject_if (envelope \<noteq> (batch_id, intent_digest, manifest_id, manifest_digest, shard_plan_version,
            shard_plan_digest)) (invalid ''items'' ''authoritative_envelope_mismatch'')]) canonical)))"

end
