(* ===== verification/Run_Resolution.thy ===== *)
theory Run_Resolution
  imports Retry Batch_Cancellation
begin

text \<open>
  Item resolutions of a closed Run (\<open>src/qarunner/domain/run_finalization.py\<close>, first part): how every
  item of a Run was resolved by the original execution and by the effective one (the original itself,
  an authorized retry, or the adjudication of an unknown), the ordered set of them with its digests
  and outcome, and the choice of the latest authorized complete Attempt. \<open>RunItemKey\<close> is in
  \<open>Batch_Cancellation\<close>, \<open>AttemptExecutionFact\<close> in \<open>Retry_Policy\<close>.
\<close>

section \<open>Enumerations\<close>

datatype run_phase = PhasePlanned | PhaseQueued | PhaseAssigned | PhaseRunning | PhaseRetryQueued | PhaseClosed

datatype run_disposition = ReviewRequired | RetryQueued | ClosedNoRetry

fun run_disposition_value :: "run_disposition \<Rightarrow> string" where
  "run_disposition_value ReviewRequired = ''review_required''"
| "run_disposition_value RetryQueued = ''retry_queued''"
| "run_disposition_value ClosedNoRetry = ''closed_no_retry''"

datatype run_outcome = OutcomePassed | OutcomeTestFailed | OutcomeInfraFailed | OutcomeCancelled

fun run_outcome_value :: "run_outcome \<Rightarrow> string" where
  "run_outcome_value OutcomePassed = ''passed''"
| "run_outcome_value OutcomeTestFailed = ''test_failed''"
| "run_outcome_value OutcomeInfraFailed = ''infra_failed''"
| "run_outcome_value OutcomeCancelled = ''cancelled''"

datatype original_source_kind = AttemptResult | AttemptTerminalFallback | SourcePrestartCancel

fun original_source_value :: "original_source_kind \<Rightarrow> string" where
  "original_source_value AttemptResult = ''attempt_result''"
| "original_source_value AttemptTerminalFallback = ''attempt_terminal_fallback''"
| "original_source_value SourcePrestartCancel = ''prestart_cancel''"

datatype effective_source_kind = FromOriginal | FromAuthorizedRetry | FromUnknownAdjudication

fun effective_source_value :: "effective_source_kind \<Rightarrow> string" where
  "effective_source_value FromOriginal = ''original''"
| "effective_source_value FromAuthorizedRetry = ''authorized_retry''"
| "effective_source_value FromUnknownAdjudication = ''unknown_adjudication''"

datatype item_aggregation_class = ClassPassed | ClassTestFailed | ClassInfraFailed | ClassCancelled | ClassUnknownLineage

fun aggregation_class_value :: "item_aggregation_class \<Rightarrow> string" where
  "aggregation_class_value ClassPassed = ''passed''"
| "aggregation_class_value ClassTestFailed = ''test_failed''"
| "aggregation_class_value ClassInfraFailed = ''infra_failed''"
| "aggregation_class_value ClassCancelled = ''cancelled''"
| "aggregation_class_value ClassUnknownLineage = ''unknown_lineage''"

text \<open>\<open>RunOutcome(fact.value)\<close>, which raises for \<open>attempt_unknown\<close>, and \<open>ItemAggregationClass(outcome.value)\<close>.\<close>

fun outcome_of_fact :: "attempt_execution_fact \<Rightarrow> run_outcome option" where
  "outcome_of_fact FactPassed = Some OutcomePassed"
| "outcome_of_fact FactTestFailed = Some OutcomeTestFailed"
| "outcome_of_fact FactInfraFailed = Some OutcomeInfraFailed"
| "outcome_of_fact FactCancelled = Some OutcomeCancelled"
| "outcome_of_fact FactAttemptUnknown = None"

fun class_of_outcome :: "run_outcome \<Rightarrow> item_aggregation_class" where
  "class_of_outcome OutcomePassed = ClassPassed"
| "class_of_outcome OutcomeTestFailed = ClassTestFailed"
| "class_of_outcome OutcomeInfraFailed = ClassInfraFailed"
| "class_of_outcome OutcomeCancelled = ClassCancelled"

lemma class_of_outcome_inj [simp]:
  "class_of_outcome o1 = class_of_outcome o2 \<longleftrightarrow> o1 = o2" "class_of_outcome o1 \<noteq> ClassUnknownLineage"
  by (cases o1; cases o2; simp) (cases o1; simp)

section \<open>Field checks\<close>

definition rf_string :: "string \<Rightarrow> string \<Rightarrow> string \<Rightarrow> domain_error option" where
  "rf_string entity field v = reject_if (blank v) (DomainValidationError entity field ''invalid'')"

definition rf_positive :: "string \<Rightarrow> string \<Rightarrow> int \<Rightarrow> domain_error option" where
  "rf_positive entity field v = reject_if (v < 1) (DomainValidationError entity field ''invalid'')"

definition rf_nonnegative :: "string \<Rightarrow> string \<Rightarrow> int \<Rightarrow> domain_error option" where
  "rf_nonnegative entity field v = reject_if (v < 0) (DomainValidationError entity field ''invalid'')"

text \<open>The same checks on a nullable field: \<open>None\<close> is not a string, an integer or a digest.\<close>

definition rf_some :: "(string \<Rightarrow> string \<Rightarrow> 'a \<Rightarrow> domain_error option) \<Rightarrow> string \<Rightarrow> string \<Rightarrow> 'a option \<Rightarrow> domain_error option" where
  "rf_some check entity field v =
     (case v of None \<Rightarrow> Some (DomainValidationError entity field ''invalid'') | Some x \<Rightarrow> check entity field x)"

abbreviation rf_digest :: "string \<Rightarrow> string \<Rightarrow> digest option \<Rightarrow> domain_error option" where
  "rf_digest entity field v \<equiv> require_present entity field ''not_digest'' v"

abbreviation rf_forbid :: "string \<Rightarrow> string \<Rightarrow> 'a option \<Rightarrow> domain_error option" where
  "rf_forbid entity field v \<equiv> require_absent entity field ''forbidden'' v"

lemma rf_checks_None [result_simps]:
  "rf_string e f s = None \<longleftrightarrow> \<not> blank s" "rf_positive e f n = None \<longleftrightarrow> 1 \<le> n"
  "rf_nonnegative e f n = None \<longleftrightarrow> 0 \<le> n"
  "rf_some c e f v = None \<longleftrightarrow> (\<exists>x. v = Some x \<and> c e f x = None)"
  by (auto simp: rf_string_def rf_positive_def rf_nonnegative_def rf_some_def result_simps split: option.splits)

section \<open>The fields that both resolutions share\<close>

text \<open>
  The source's helpers take either dataclass and read the same eleven attributes of it; here the two
  dataclasses extend one record.
\<close>

record resolution_fields =
  rf_attempt_id :: "string option"
  rf_attempt_no :: "int option"
  rf_attempt_fence :: "int option"
  rf_attempt_item_set_digest :: "digest option"
  rf_fact_schema :: string
  rf_fact_version :: int
  rf_fact_digest :: digest
  rf_evidence_root_digest :: "digest option"
  rf_result_mapping_schema :: "string option"
  rf_result_mapping_version :: "int option"
  rf_result_mapping_digest :: "digest option"

definition require_attempt_identity :: "string \<Rightarrow> 'a resolution_fields_scheme \<Rightarrow> domain_error option" where
  "require_attempt_identity e v = first_some
     [rf_some rf_string e ''attempt_id'' (rf_attempt_id v),
      rf_some rf_positive e ''attempt_no'' (rf_attempt_no v),
      rf_some rf_positive e ''attempt_fence'' (rf_attempt_fence v),
      rf_digest e ''attempt_item_set_digest'' (rf_attempt_item_set_digest v)]"

definition validate_optional_attempt_identity :: "string \<Rightarrow> 'a resolution_fields_scheme \<Rightarrow> domain_error option" where
  "validate_optional_attempt_identity e v =
     (let present = [rf_attempt_id v \<noteq> None, rf_attempt_no v \<noteq> None, rf_attempt_fence v \<noteq> None,
                     rf_attempt_item_set_digest v \<noteq> None] in first_some
     [reject_if (list_ex id present \<and> \<not> list_all id present)
        (DomainValidationError e ''attempt_identity'' ''all_or_none''),
      (if list_all id present then require_attempt_identity e v else None)])"

definition validate_fact_and_mapping :: "string \<Rightarrow> 'a resolution_fields_scheme \<Rightarrow> domain_error option" where
  "validate_fact_and_mapping e v =
     (let present = [rf_result_mapping_schema v \<noteq> None, rf_result_mapping_version v \<noteq> None,
                     rf_result_mapping_digest v \<noteq> None] in first_some (
     [rf_string e ''fact_schema'' (rf_fact_schema v),
      rf_positive e ''fact_version'' (rf_fact_version v),
      reject_if (list_ex id present \<and> \<not> list_all id present)
        (DomainValidationError e ''result_mapping'' ''all_or_none'')] @
     (if list_all id present then
        [rf_some rf_string e ''result_mapping_schema'' (rf_result_mapping_schema v),
         rf_some rf_positive e ''result_mapping_version'' (rf_result_mapping_version v),
         rf_digest e ''result_mapping_digest'' (rf_result_mapping_digest v)]
      else [])))"

text \<open>\<open>_resolution_payload\<close>: the members before and after the field that holds the execution result.\<close>

definition attempt_members :: "'a resolution_fields_scheme \<Rightarrow> (string \<times> json) list" where
  "attempt_members v =
     [(''attempt_id'', json_opt JStr (rf_attempt_id v)),
      (''attempt_no'', json_opt JInt (rf_attempt_no v)),
      (''attempt_fence'', json_opt JInt (rf_attempt_fence v)),
      (''attempt_item_set_digest'', json_opt digest_json (rf_attempt_item_set_digest v))]"

definition fact_members :: "'a resolution_fields_scheme \<Rightarrow> (string \<times> json) list" where
  "fact_members v =
     [(''fact_schema'', JStr (rf_fact_schema v)),
      (''fact_version'', JInt (rf_fact_version v)),
      (''fact_digest'', digest_json (rf_fact_digest v)),
      (''evidence_root_digest'', json_opt digest_json (rf_evidence_root_digest v)),
      (''result_mapping_schema'', json_opt JStr (rf_result_mapping_schema v)),
      (''result_mapping_version'', json_opt JInt (rf_result_mapping_version v)),
      (''result_mapping_digest'', json_opt digest_json (rf_result_mapping_digest v))]"

section \<open>Original resolutions\<close>

record original_resolution = resolution_fields +
  or_source_kind :: original_source_kind
  or_execution_fact :: attempt_execution_fact
  or_prestart_closure_digest :: "digest option"

definition check_original_resolution :: "original_resolution \<Rightarrow> domain_error option" where
  "check_original_resolution v =
     (let e = ''original_item_resolution'' in first_some (
     validate_fact_and_mapping e v #
     (if or_source_kind v = SourcePrestartCancel then
       [reject_if (or_execution_fact v \<noteq> FactCancelled)
          (DomainValidationError e ''execution_fact'' ''prestart_requires_cancelled''),
        rf_forbid e ''attempt_id'' (rf_attempt_id v),
        rf_forbid e ''attempt_no'' (rf_attempt_no v),
        rf_forbid e ''attempt_fence'' (rf_attempt_fence v),
        rf_forbid e ''attempt_item_set_digest'' (rf_attempt_item_set_digest v),
        rf_forbid e ''evidence_root_digest'' (rf_evidence_root_digest v),
        rf_forbid e ''result_mapping_schema'' (rf_result_mapping_schema v),
        rf_forbid e ''result_mapping_version'' (rf_result_mapping_version v),
        rf_forbid e ''result_mapping_digest'' (rf_result_mapping_digest v),
        rf_digest e ''prestart_closure_digest'' (or_prestart_closure_digest v)]
      else
       [require_attempt_identity e v,
        rf_forbid e ''prestart_closure_digest'' (or_prestart_closure_digest v)] @
       (if or_source_kind v = AttemptResult then
         [reject_if (or_execution_fact v \<notin> {FactPassed, FactTestFailed})
            (DomainValidationError e ''execution_fact'' ''invalid_for_attempt_result''),
          rf_digest e ''evidence_root_digest'' (rf_evidence_root_digest v)]
        else
         [reject_if (or_execution_fact v \<notin> {FactInfraFailed, FactCancelled, FactAttemptUnknown})
            (DomainValidationError e ''execution_fact'' ''invalid_for_terminal_fallback''),
          reject_if (rf_result_mapping_digest v \<noteq> None)
            (DomainValidationError e ''result_mapping'' ''forbidden_for_terminal_fallback'')]))))"

definition original_members :: "original_resolution \<Rightarrow> (string \<times> json) list" where
  "original_members v =
     (''source_kind'', JStr (original_source_value (or_source_kind v))) # attempt_members v @
     [(''execution_fact'', JStr (execution_fact_value (or_execution_fact v)))] @ fact_members v @
     [(''prestart_closure_digest'', json_opt digest_json (or_prestart_closure_digest v))]"

definition original_resolution_digest :: "original_resolution \<Rightarrow> digest result" where
  "original_resolution_digest v = canonical_digest ''qep.run-item-resolution-set.v1''
     (JObj ((''projection_kind'', JStr ''original'') # original_members v))"

section \<open>Effective resolutions\<close>

record effective_resolution = resolution_fields +
  er_source_kind :: effective_source_kind
  er_outcome :: run_outcome
  er_retry_intent_digest :: "digest option"
  er_retry_decision_digest :: "digest option"
  er_retry_authority_digest :: "digest option"
  er_adjudication_digest :: "digest option"
  er_adjudication_decision :: "unknown_decision option"

definition retry_resolution_checks :: "string \<Rightarrow> effective_resolution \<Rightarrow> domain_error option list" where
  "retry_resolution_checks e v =
     [require_attempt_identity e v,
      rf_digest e ''retry_intent_digest'' (er_retry_intent_digest v),
      rf_digest e ''retry_decision_digest'' (er_retry_decision_digest v),
      rf_digest e ''retry_authority_digest'' (er_retry_authority_digest v),
      reject_if ((er_adjudication_digest v = None) \<noteq> (er_adjudication_decision v = None))
        (DomainValidationError e ''adjudication_digest'' ''decision_all_or_none''),
      (case er_adjudication_decision v of None \<Rightarrow> None
       | Some d \<Rightarrow> reject_if (\<not> permits_retry d)
           (DomainValidationError e ''adjudication_decision'' ''does_not_permit_retry''))]"

definition adjudicated_resolution_checks :: "string \<Rightarrow> effective_resolution \<Rightarrow> domain_error option list" where
  "adjudicated_resolution_checks e v =
     [require_attempt_identity e v,
      rf_forbid e ''retry_intent_digest'' (er_retry_intent_digest v),
      rf_forbid e ''retry_decision_digest'' (er_retry_decision_digest v),
      rf_forbid e ''retry_authority_digest'' (er_retry_authority_digest v),
      rf_digest e ''adjudication_digest'' (er_adjudication_digest v)] @
     (if er_adjudication_decision v = Some MarkInfraFailedNoRetry then
       [reject_if (er_outcome v \<noteq> OutcomeInfraFailed)
          (DomainValidationError e ''outcome'' ''infra_adjudication_requires_infra''),
        rf_forbid e ''evidence_root_digest'' (rf_evidence_root_digest v),
        rf_forbid e ''result_mapping_schema'' (rf_result_mapping_schema v),
        rf_forbid e ''result_mapping_version'' (rf_result_mapping_version v),
        rf_forbid e ''result_mapping_digest'' (rf_result_mapping_digest v)]
      else if er_adjudication_decision v = Some MarkCompletedFromVerifiedEvidence then
       [rf_digest e ''evidence_root_digest'' (rf_evidence_root_digest v)]
      else [Some (DomainValidationError e ''adjudication_decision'' ''invalid_for_resolution'')])"

definition check_effective_resolution :: "effective_resolution \<Rightarrow> domain_error option" where
  "check_effective_resolution v =
     (let e = ''effective_item_resolution'' in first_some (
     validate_fact_and_mapping e v #
     (case er_source_kind v of
        FromOriginal \<Rightarrow>
         [validate_optional_attempt_identity e v,
          rf_forbid e ''retry_intent_digest'' (er_retry_intent_digest v),
          rf_forbid e ''retry_decision_digest'' (er_retry_decision_digest v),
          rf_forbid e ''retry_authority_digest'' (er_retry_authority_digest v),
          rf_forbid e ''adjudication_digest'' (er_adjudication_digest v),
          rf_forbid e ''adjudication_decision'' (er_adjudication_decision v)]
      | FromAuthorizedRetry \<Rightarrow> retry_resolution_checks e v
      | FromUnknownAdjudication \<Rightarrow> adjudicated_resolution_checks e v)))"

definition effective_members :: "effective_resolution \<Rightarrow> (string \<times> json) list" where
  "effective_members v =
     (''source_kind'', JStr (effective_source_value (er_source_kind v))) # attempt_members v @
     [(''outcome'', JStr (run_outcome_value (er_outcome v)))] @ fact_members v @
     [(''retry_intent_digest'', json_opt digest_json (er_retry_intent_digest v)),
      (''retry_decision_digest'', json_opt digest_json (er_retry_decision_digest v)),
      (''retry_authority_digest'', json_opt digest_json (er_retry_authority_digest v)),
      (''adjudication_digest'', json_opt digest_json (er_adjudication_digest v))]"

definition effective_resolution_digest :: "effective_resolution \<Rightarrow> digest result" where
  "effective_resolution_digest v = canonical_digest ''qep.run-item-resolution-set.v1''
     (JObj ((''projection_kind'', JStr ''effective'') # effective_members v))"

section \<open>The resolution of one item\<close>

record run_item_resolution =
  ir_item_key :: run_item_key
  ir_original :: original_resolution
  ir_effective :: effective_resolution
  ir_unknown_lineage_digest :: "digest option"
  ir_aggregation_class :: item_aggregation_class

definition effective_mirrors_original :: "original_resolution \<Rightarrow> effective_resolution \<Rightarrow> bool" where
  "effective_mirrors_original o1 v \<longleftrightarrow>
     Some (er_outcome v) = outcome_of_fact (or_execution_fact o1) \<and>
     rf_attempt_id v = rf_attempt_id o1 \<and> rf_attempt_no v = rf_attempt_no o1 \<and>
     rf_attempt_fence v = rf_attempt_fence o1 \<and>
     rf_attempt_item_set_digest v = rf_attempt_item_set_digest o1 \<and>
     rf_fact_schema v = rf_fact_schema o1 \<and> rf_fact_version v = rf_fact_version o1 \<and>
     rf_fact_digest v = rf_fact_digest o1 \<and> rf_evidence_root_digest v = rf_evidence_root_digest o1 \<and>
     rf_result_mapping_schema v = rf_result_mapping_schema o1 \<and>
     rf_result_mapping_version v = rf_result_mapping_version o1 \<and>
     rf_result_mapping_digest v = rf_result_mapping_digest o1"

definition check_run_item_resolution :: "run_item_resolution \<Rightarrow> domain_error option" where
  "check_run_item_resolution r =
     (let e = ''run_item_resolution''; original_unknown = (or_execution_fact (ir_original r) = FactAttemptUnknown)
      in first_some (
     (if er_source_kind (ir_effective r) = FromOriginal then
       [reject_if original_unknown (DomainValidationError e ''effective'' ''unadjudicated_unknown''),
        reject_if (\<not> effective_mirrors_original (ir_original r) (ir_effective r))
          (DomainValidationError e ''effective'' ''does_not_mirror_original'')]
      else []) @
     (if ir_unknown_lineage_digest r = None then
       [reject_if (ir_aggregation_class r \<noteq> class_of_outcome (er_outcome (ir_effective r)))
          (DomainValidationError e ''aggregation_class'' ''does_not_match_outcome''),
        reject_if original_unknown
          (DomainValidationError e ''unknown_lineage_digest'' ''required_for_resolved_unknown'')]
      else
       [reject_if (er_adjudication_digest (ir_effective r) = None)
          (DomainValidationError e ''unknown_lineage_digest'' ''requires_adjudication''),
        reject_if (ir_aggregation_class r \<noteq> ClassUnknownLineage)
          (DomainValidationError e ''aggregation_class'' ''unknown_lineage_required'')])))"

definition item_members :: "run_item_resolution \<Rightarrow> (string \<times> json) list" where
  "item_members r =
     [(''item_key'', run_item_key_json (ir_item_key r)),
      (''original'', JObj (original_members (ir_original r))),
      (''effective'', JObj (effective_members (ir_effective r))),
      (''unknown_lineage_digest'', json_opt digest_json (ir_unknown_lineage_digest r)),
      (''aggregation_class'', JStr (aggregation_class_value (ir_aggregation_class r)))]"

definition item_resolution_digest :: "run_item_resolution \<Rightarrow> digest result" where
  "item_resolution_digest r = canonical_digest ''qep.run-item-resolution-set.v1''
     (JObj ((''projection_kind'', JStr ''item'') # item_members r))"

section \<open>The resolution set of a Run\<close>

record run_resolution_set =
  rs_batch_id :: string
  rs_run_id :: string
  rs_source_run_version :: int
  rs_manifest_digest :: digest
  rs_shard_plan_digest :: digest
  rs_run_item_set_digest :: digest
  rs_attempt_chain_digest :: digest
  rs_retry_chain_digest :: "digest option"
  rs_adjudication_chain_digest :: "digest option"
  rs_entries :: "run_item_resolution list"

definition check_run_resolution_set :: "run_resolution_set \<Rightarrow> domain_error option" where
  "check_run_resolution_set s =
     (let e = ''run_item_resolution_set''; keys = map ir_item_key (rs_entries s) in first_some
     [rf_string e ''batch_id'' (rs_batch_id s),
      rf_string e ''run_id'' (rs_run_id s),
      rf_nonnegative e ''source_run_version'' (rs_source_run_version s),
      reject_if (rs_entries s = []) (DomainValidationError e ''entries'' ''invalid''),
      reject_if (\<not> distinct keys) (DomainValidationError e ''entries'' ''duplicate_key''),
      reject_if (keys \<noteq> sort_key key_order keys) (DomainValidationError e ''entries'' ''not_ordered'')])"

text \<open>\<open>build\<close>: the envelope is passed through \<open>**envelope\<close>; here it is a set whose entries are replaced.\<close>

definition run_resolution_set_build ::
  "run_item_key list \<Rightarrow> run_item_resolution list \<Rightarrow> run_resolution_set \<Rightarrow> run_resolution_set result" where
  "run_resolution_set_build expected_item_keys entries envelope =
     (let e = ''run_item_resolution_set''; entry_keys = map ir_item_key entries;
          s = envelope\<lparr>rs_entries := sort_key (\<lambda>r. key_order (ir_item_key r)) entries\<rparr> in
      bind_result (raise_or (first_some
        [reject_if (\<not> distinct entry_keys) (DomainValidationError e ''entries'' ''duplicate_key''),
         reject_if (set entry_keys \<noteq> set expected_item_keys \<or> \<not> distinct expected_item_keys)
           (DomainValidationError e ''entries'' ''key_set_mismatch'')]) ())
      (\<lambda>_. raise_or (check_run_resolution_set s) s))"

definition set_envelope_members :: "run_resolution_set \<Rightarrow> (string \<times> json) list" where
  "set_envelope_members s =
     [(''batch_id'', JStr (rs_batch_id s)),
      (''run_id'', JStr (rs_run_id s)),
      (''source_run_version'', JInt (rs_source_run_version s)),
      (''manifest_digest'', digest_json (rs_manifest_digest s)),
      (''shard_plan_digest'', digest_json (rs_shard_plan_digest s)),
      (''run_item_set_digest'', digest_json (rs_run_item_set_digest s))]"

definition original_resolution_set_digest :: "run_resolution_set \<Rightarrow> digest result" where
  "original_resolution_set_digest s = canonical_digest ''qep.run-item-resolution-set.v1''
     (JObj (set_envelope_members s @
       [(''projection_kind'', JStr ''original_set''),
        (''entries'', JList (map (\<lambda>r. JObj [(''item_key'', run_item_key_json (ir_item_key r)),
           (''original'', JObj (original_members (ir_original r)))]) (rs_entries s)))]))"

definition effective_resolution_set_digest :: "run_resolution_set \<Rightarrow> digest result" where
  "effective_resolution_set_digest s = canonical_digest ''qep.run-item-resolution-set.v1''
     (JObj (set_envelope_members s @
       [(''projection_kind'', JStr ''effective_set''),
        (''entries'', JList (map (\<lambda>r. JObj [(''item_key'', run_item_key_json (ir_item_key r)),
           (''effective'', JObj (effective_members (ir_effective r)))]) (rs_entries s)))]))"

text \<open>The payload computes the item digests, then the two projection digests; any of them may raise.\<close>

definition resolution_set_digest :: "run_resolution_set \<Rightarrow> digest result" where
  "resolution_set_digest s =
     bind_result (collect_results (map item_resolution_digest (rs_entries s))) (\<lambda>digests.
     bind_result (original_resolution_set_digest s) (\<lambda>original.
     bind_result (effective_resolution_set_digest s) (\<lambda>effective.
     canonical_digest ''qep.run-item-resolution-set.v1'' (JObj (set_envelope_members s @
       [(''attempt_chain_digest'', digest_json (rs_attempt_chain_digest s)),
        (''retry_chain_digest'', json_opt digest_json (rs_retry_chain_digest s)),
        (''adjudication_chain_digest'', json_opt digest_json (rs_adjudication_chain_digest s)),
        (''entries'', JList (map (\<lambda>(r, d). JObj (item_members r @ [(''item_resolution_digest'', digest_json d)]))
           (zip (rs_entries s) digests))),
        (''item_count'', JInt (int (length (rs_entries s)))),
        (''original_resolution_set_digest'', digest_json original),
        (''effective_resolution_set_digest'', digest_json effective)])))))"

text \<open>\<open>max(outcomes, key=precedence)\<close>: the first entry of the highest precedence; entries are never empty.\<close>

fun outcome_precedence :: "run_outcome \<Rightarrow> nat" where
  "outcome_precedence OutcomePassed = 0"
| "outcome_precedence OutcomeCancelled = 1"
| "outcome_precedence OutcomeTestFailed = 2"
| "outcome_precedence OutcomeInfraFailed = 3"

fun worst_outcome :: "run_outcome \<Rightarrow> run_outcome list \<Rightarrow> run_outcome" where
  "worst_outcome w [] = w"
| "worst_outcome w (x # xs) = worst_outcome (if outcome_precedence w < outcome_precedence x then x else w) xs"

definition audit_outcome :: "run_resolution_set \<Rightarrow> run_outcome" where
  "audit_outcome s =
     (let outcomes = map (\<lambda>r. er_outcome (ir_effective r)) (rs_entries s)
      in worst_outcome (hd outcomes) (tl outcomes))"

section \<open>Retried Attempts\<close>

record verified_attempt_item =
  vi_item_key :: run_item_key
  vi_effective :: effective_resolution

record verified_attempt_set =
  vs_attempt_id :: string
  vs_attempt_no :: int
  vs_attempt_fence :: int
  vs_attempt_item_set_digest :: digest
  vs_items :: "verified_attempt_item list"

definition verified_item_checks :: "verified_attempt_set \<Rightarrow> verified_attempt_item \<Rightarrow> domain_error option" where
  "verified_item_checks s i =
     (let e = ''verified_attempt_resolution_set''; v = vi_effective i in first_some
     [reject_if (er_source_kind v \<noteq> FromAuthorizedRetry) (DomainValidationError e ''items'' ''not_authorized_retry''),
      reject_if (rf_attempt_id v \<noteq> Some (vs_attempt_id s) \<or> rf_attempt_no v \<noteq> Some (vs_attempt_no s) \<or>
          rf_attempt_fence v \<noteq> Some (vs_attempt_fence s) \<or>
          rf_attempt_item_set_digest v \<noteq> Some (vs_attempt_item_set_digest s))
        (DomainValidationError e ''items'' ''attempt_identity_mismatch'')])"

definition authority_triple :: "verified_attempt_item \<Rightarrow> digest option \<times> digest option \<times> digest option" where
  "authority_triple i = (er_retry_intent_digest (vi_effective i), er_retry_decision_digest (vi_effective i),
     er_retry_authority_digest (vi_effective i))"

definition check_verified_attempt_set :: "verified_attempt_set \<Rightarrow> domain_error option" where
  "check_verified_attempt_set s =
     (let e = ''verified_attempt_resolution_set'' in first_some (
     [rf_string e ''attempt_id'' (vs_attempt_id s),
      rf_positive e ''attempt_no'' (vs_attempt_no s),
      rf_positive e ''attempt_fence'' (vs_attempt_fence s),
      reject_if (\<not> distinct (map vi_item_key (vs_items s))) (DomainValidationError e ''items'' ''duplicate_key'')] @
     map (verified_item_checks s) (vs_items s) @
     [reject_if (1 < card (set (map authority_triple (vs_items s))))
        (DomainValidationError e ''items'' ''retry_authority_mismatch'')]))"

text \<open>The loop of \<open>select_latest_authorized_complete_attempt\<close>; \<open>complete\<close> are the complete Attempts so far.\<close>

fun collect_complete ::
  "run_item_key list \<Rightarrow> digest \<Rightarrow> int \<Rightarrow> int \<Rightarrow> verified_attempt_set list \<Rightarrow> verified_attempt_set list \<Rightarrow>
   verified_attempt_set list result" where
  "collect_complete keys item_set expected_no previous_fence complete [] = Inr complete"
| "collect_complete keys item_set expected_no previous_fence complete (a # as) =
     (let e = ''authorized_retry_selection''; item_keys = set (map vi_item_key (vs_items a)) in
      bind_result (raise_or (first_some
        [reject_if (vs_attempt_no a \<noteq> expected_no \<or> vs_attempt_fence a \<le> previous_fence)
           (DomainValidationError e ''attempts'' ''continuous_chain_required''),
         reject_if (vs_attempt_item_set_digest a \<noteq> item_set)
           (DomainValidationError e ''attempt_item_set_digest'' ''full_run_item_set_required''),
         reject_if (\<not> item_keys \<subseteq> set keys) (DomainValidationError e ''items'' ''cross_run_item'')]) ())
      (\<lambda>_. collect_complete keys item_set (expected_no + 1) (vs_attempt_fence a)
        (if item_keys = set keys then complete @ [a] else complete) as))"

definition select_latest_complete ::
  "run_item_key list \<Rightarrow> digest \<Rightarrow> int \<Rightarrow> int \<Rightarrow> verified_attempt_set list \<Rightarrow> string \<Rightarrow> verified_attempt_set result" where
  "select_latest_complete keys item_set original_no original_fence attempts run_id =
     (let e = ''authorized_retry_selection'' in
      bind_result (raise_or (first_some
        [reject_if (keys = [] \<or> \<not> distinct keys) (DomainValidationError e ''expected_item_keys'' ''invalid''),
         rf_string e ''run_id'' run_id,
         rf_positive e ''original_attempt_no'' original_no,
         rf_positive e ''original_attempt_fence'' original_fence,
         reject_if (attempts = []) (DomainValidationError e ''attempts'' ''invalid'')]) ()) (\<lambda>_.
      bind_result (collect_complete keys item_set (original_no + 1) original_fence [] attempts) (\<lambda>complete.
      if complete = []
      then Inl (AttemptUnknownReviewRequired run_id (vs_attempt_id (last attempts))
             (vs_attempt_fence (last attempts)) ''no_authorized_complete_attempt'')
      else Inr (last complete))))"

end
