(* ===== verification/Run_Basis.thy ===== *)
theory Run_Basis
  imports Run_Resolution
begin

text \<open>
  The immutable basis on which a Run is closed (\<open>src/qarunner/domain/run_finalization.py\<close>, second
  part): the chain of decisions that led to it, the basis itself with the rules for each kind of
  terminal input, and the projection of phase, disposition and outcome.
\<close>

section \<open>Decisions\<close>

datatype terminal_input_kind = VerifiedEvidence | VerifiedCancellationEvidence | InputPrestartCancel | InputUnknownAdjudication

fun terminal_input_value :: "terminal_input_kind \<Rightarrow> string" where
  "terminal_input_value VerifiedEvidence = ''verified_evidence''"
| "terminal_input_value VerifiedCancellationEvidence = ''verified_cancellation_evidence''"
| "terminal_input_value InputPrestartCancel = ''prestart_cancel''"
| "terminal_input_value InputUnknownAdjudication = ''unknown_adjudication''"

datatype decision_kind = ContractRule | SuiteRetry | PlatformRetry | KindUnknownAdjudication | DuplicateRiskAcceptance

fun decision_kind_value :: "decision_kind \<Rightarrow> string" where
  "decision_kind_value ContractRule = ''contract_rule''"
| "decision_kind_value SuiteRetry = ''suite_retry''"
| "decision_kind_value PlatformRetry = ''platform_retry''"
| "decision_kind_value KindUnknownAdjudication = ''unknown_adjudication''"
| "decision_kind_value DuplicateRiskAcceptance = ''duplicate_risk_acceptance''"

record contract_rule_result =
  cr_outcome :: run_outcome
  cr_cancellation_intent_digest :: "digest option"
  cr_cancellation_stop_digest :: "digest option"
  cr_prestart_closure_digest :: "digest option"

record retry_decision_result =
  rd_retry_intent_digest :: digest
  rd_retry_decision_digest :: digest
  rd_retry_authority_digest :: digest
  rd_target_attempt_id :: string
  rd_target_attempt_no :: int
  rd_target_attempt_fence :: int
  rd_target_item_set_digest :: digest

record adjudication_result =
  ar_adjudication_digest :: digest
  ar_decision :: unknown_decision
  ar_evidence_root_digest :: "digest option"
  ar_proof_digest :: "digest option"
  ar_risk_acceptance_digest :: "digest option"

datatype decision_result =
    RuleResult contract_rule_result
  | RetryResult retry_decision_result
  | AdjudicationResult adjudication_result
  | AcceptanceResult digest

definition check_retry_decision_result :: "retry_decision_result \<Rightarrow> domain_error option" where
  "check_retry_decision_result r =
     (let e = ''retry_decision_result_ref'' in first_some
     [rf_string e ''target_attempt_id'' (rd_target_attempt_id r),
      rf_positive e ''target_attempt_no'' (rd_target_attempt_no r),
      rf_positive e ''target_attempt_fence'' (rd_target_attempt_fence r)])"

fun result_of_kind :: "decision_kind \<Rightarrow> decision_result \<Rightarrow> bool" where
  "result_of_kind ContractRule (RuleResult _) = True"
| "result_of_kind SuiteRetry (RetryResult _) = True"
| "result_of_kind PlatformRetry (RetryResult _) = True"
| "result_of_kind KindUnknownAdjudication (AdjudicationResult _) = True"
| "result_of_kind DuplicateRiskAcceptance (AcceptanceResult _) = True"
| "result_of_kind _ _ = False"

text \<open>\<open>_result_payload\<close>: the dataclass fields in order.\<close>

fun decision_result_json :: "decision_result \<Rightarrow> json" where
  "decision_result_json (RuleResult r) = JObj
     [(''outcome'', JStr (run_outcome_value (cr_outcome r))),
      (''cancellation_intent_digest'', json_opt digest_json (cr_cancellation_intent_digest r)),
      (''cancellation_stop_digest'', json_opt digest_json (cr_cancellation_stop_digest r)),
      (''prestart_closure_digest'', json_opt digest_json (cr_prestart_closure_digest r))]"
| "decision_result_json (RetryResult r) = JObj
     [(''retry_intent_digest'', digest_json (rd_retry_intent_digest r)),
      (''retry_decision_digest'', digest_json (rd_retry_decision_digest r)),
      (''retry_authority_digest'', digest_json (rd_retry_authority_digest r)),
      (''target_attempt_id'', JStr (rd_target_attempt_id r)),
      (''target_attempt_no'', JInt (rd_target_attempt_no r)),
      (''target_attempt_fence'', JInt (rd_target_attempt_fence r)),
      (''target_item_set_digest'', digest_json (rd_target_item_set_digest r))]"
| "decision_result_json (AdjudicationResult r) = JObj
     [(''adjudication_digest'', digest_json (ar_adjudication_digest r)),
      (''decision'', JStr (unknown_decision_value (ar_decision r))),
      (''evidence_root_digest'', json_opt digest_json (ar_evidence_root_digest r)),
      (''proof_digest'', json_opt digest_json (ar_proof_digest r)),
      (''risk_acceptance_digest'', json_opt digest_json (ar_risk_acceptance_digest r))]"
| "decision_result_json (AcceptanceResult d) = JObj [(''risk_acceptance_digest'', digest_json d)]"

record decision_ref =
  dr_sequence :: int
  dr_decision_kind :: decision_kind
  dr_decision_schema :: string
  dr_decision_id :: string
  dr_decision_version :: int
  dr_decision_digest :: digest
  dr_decision_result :: decision_result
  dr_source_attempt_id :: "string option"
  dr_source_attempt_no :: "int option"
  dr_source_attempt_fence :: "int option"
  dr_source_item_set_digest :: "digest option"

definition check_decision_ref :: "decision_ref \<Rightarrow> domain_error option" where
  "check_decision_ref r =
     (let e = ''run_finalization_decision_ref'';
          present = [dr_source_attempt_id r \<noteq> None, dr_source_attempt_no r \<noteq> None,
                     dr_source_attempt_fence r \<noteq> None, dr_source_item_set_digest r \<noteq> None] in first_some (
     [rf_positive e ''sequence'' (dr_sequence r),
      rf_string e ''decision_schema'' (dr_decision_schema r),
      rf_string e ''decision_id'' (dr_decision_id r),
      rf_positive e ''decision_version'' (dr_decision_version r),
      reject_if (\<not> result_of_kind (dr_decision_kind r) (dr_decision_result r))
        (DomainValidationError e ''decision_result'' ''kind_mismatch''),
      (case dr_decision_result r of
         RetryResult res \<Rightarrow> reject_if (rd_retry_decision_digest res \<noteq> dr_decision_digest r)
           (DomainValidationError e ''decision_result'' ''decision_digest_mismatch'')
       | _ \<Rightarrow> None),
      reject_if (list_ex id present \<and> \<not> list_all id present)
        (DomainValidationError e ''source_attempt'' ''all_or_none'')] @
     (if list_all id present then
       [rf_some rf_string e ''source_attempt_id'' (dr_source_attempt_id r),
        rf_some rf_positive e ''source_attempt_no'' (dr_source_attempt_no r),
        rf_some rf_positive e ''source_attempt_fence'' (dr_source_attempt_fence r),
        rf_digest e ''source_item_set_digest'' (dr_source_item_set_digest r)]
      else [])))"

definition decision_ref_json :: "decision_ref \<Rightarrow> json" where
  "decision_ref_json r = JObj
     [(''sequence'', JInt (dr_sequence r)),
      (''decision_kind'', JStr (decision_kind_value (dr_decision_kind r))),
      (''decision_schema'', JStr (dr_decision_schema r)),
      (''decision_id'', JStr (dr_decision_id r)),
      (''decision_version'', JInt (dr_decision_version r)),
      (''decision_digest'', digest_json (dr_decision_digest r)),
      (''source_attempt_id'', json_opt JStr (dr_source_attempt_id r)),
      (''source_attempt_no'', json_opt JInt (dr_source_attempt_no r)),
      (''source_attempt_fence'', json_opt JInt (dr_source_attempt_fence r)),
      (''source_item_set_digest'', json_opt digest_json (dr_source_item_set_digest r)),
      (''decision_result'', decision_result_json (dr_decision_result r))]"

section \<open>The basis\<close>

record run_basis =
  fb_run_id :: string
  fb_batch_id :: string
  fb_source_run_version :: int
  fb_manifest_digest :: digest
  fb_shard_plan_digest :: digest
  fb_run_item_set_digest :: digest
  fb_execution_spec_digest :: digest
  fb_original_attempt_id :: "string option"
  fb_original_attempt_fence :: "int option"
  fb_final_attempt_id :: "string option"
  fb_final_attempt_no :: "int option"
  fb_final_attempt_fence :: "int option"
  fb_final_attempt_version :: "int option"
  fb_final_attempt_state :: "attempt_execution_fact option"
  fb_worker_id :: "string option"
  fb_worker_generation :: "int option"
  fb_attempt_chain_digest :: "digest option"
  fb_evidence_root_digest :: "digest option"
  fb_unknown_observation_digest :: "digest option"
  fb_adjudication_chain_digest :: "digest option"
  fb_retry_chain_digest :: "digest option"
  fb_item_resolution_set_digest :: digest
  fb_original_resolution_set_digest :: digest
  fb_effective_resolution_set_digest :: digest
  fb_item_count :: int
  fb_cancellation_intent_digest :: "digest option"
  fb_cancellation_stop_digest :: "digest option"
  fb_prestart_closure_digest :: "digest option"
  fb_terminal_rule_schema :: string
  fb_terminal_rule_version :: int
  fb_terminal_rule_digest :: digest
  fb_decision_chain :: "decision_ref list"
  fb_disposition :: run_disposition
  fb_outcome :: run_outcome
  fb_terminal_input_kind :: terminal_input_kind

abbreviation basis_invalid :: "string \<Rightarrow> string \<Rightarrow> domain_error" where
  "basis_invalid field reason \<equiv> DomainValidationError ''run_finalization_basis'' field reason"

text \<open>
  \<open>_validate_retry_decisions\<close>. The four source fields of a decision are all set or all null
  (\<open>check_decision_ref\<close>), so the comparisons after the first one see values.
\<close>

definition retry_step_checks :: "retry_decision_result option \<Rightarrow> decision_ref \<Rightarrow> retry_decision_result \<Rightarrow> domain_error option list" where
  "retry_step_checks previous r res =
     [reject_if (dr_source_attempt_id r = None) (basis_invalid ''decision_chain'' ''retry_source_required''),
      reject_if (Some (rd_target_attempt_no res) \<noteq> map_option (\<lambda>n. n + 1) (dr_source_attempt_no r) \<or>
          (\<exists>f \<in> set_option (dr_source_attempt_fence r). rd_target_attempt_fence res \<le> f) \<or>
          Some (rd_target_item_set_digest res) \<noteq> dr_source_item_set_digest r)
        (basis_invalid ''decision_chain'' ''retry_target_discontinuous''),
      (case previous of None \<Rightarrow> None
       | Some p \<Rightarrow> reject_if (dr_source_attempt_id r \<noteq> Some (rd_target_attempt_id p) \<or>
           dr_source_attempt_no r \<noteq> Some (rd_target_attempt_no p) \<or>
           dr_source_attempt_fence r \<noteq> Some (rd_target_attempt_fence p) \<or>
           dr_source_item_set_digest r \<noteq> Some (rd_target_item_set_digest p))
           (basis_invalid ''decision_chain'' ''retry_source_discontinuous''))]"

fun retry_chain_checks :: "retry_decision_result option \<Rightarrow> (decision_ref \<times> retry_decision_result) list \<Rightarrow> domain_error option list" where
  "retry_chain_checks previous [] = []"
| "retry_chain_checks previous ((r, res) # rest) =
     retry_step_checks previous r res @ retry_chain_checks (Some res) rest"

text \<open>The retries of the chain with their results; the \<open>assert\<close> of the source holds by \<open>result_of_kind\<close>.\<close>

fun retry_result_of :: "decision_ref \<Rightarrow> retry_decision_result option" where
  "retry_result_of r =
     (if dr_decision_kind r \<in> {SuiteRetry, PlatformRetry}
      then (case dr_decision_result r of RetryResult res \<Rightarrow> Some res | _ \<Rightarrow> None) else None)"

definition chain_retries :: "decision_ref list \<Rightarrow> (decision_ref \<times> retry_decision_result) list" where
  "chain_retries refs = concat (map (\<lambda>r. case retry_result_of r of None \<Rightarrow> [] | Some res \<Rightarrow> [(r, res)]) refs)"

definition retry_basis_mismatch :: "run_basis \<Rightarrow> (decision_ref \<times> retry_decision_result) list \<Rightarrow> bool" where
  "retry_basis_mismatch b retries \<longleftrightarrow>
     (let first = fst (hd retries); final = snd (last retries) in
      dr_source_attempt_id first \<noteq> fb_original_attempt_id b \<or>
      dr_source_attempt_fence first \<noteq> fb_original_attempt_fence b \<or>
      Some (rd_target_attempt_id final) \<noteq> fb_final_attempt_id b \<or>
      Some (rd_target_attempt_no final) \<noteq> fb_final_attempt_no b \<or>
      Some (rd_target_attempt_fence final) \<noteq> fb_final_attempt_fence b \<or>
      rd_target_item_set_digest final \<noteq> fb_run_item_set_digest b)"

definition validate_decisions :: "run_basis \<Rightarrow> domain_error option list" where
  "validate_decisions b =
     (let chain = fb_decision_chain b; retries = chain_retries chain in
     [reject_if (map dr_sequence chain \<noteq> map int [1..<Suc (length chain)])
        (basis_invalid ''decision_chain'' ''non_contiguous''),
      reject_if (\<not> list_ex (\<lambda>r. dr_decision_kind r = ContractRule) chain)
        (basis_invalid ''decision_chain'' ''contract_rule_required'')] @
     retry_chain_checks None retries @
     [reject_if (retries \<noteq> [] \<and> retry_basis_mismatch b retries)
        (basis_invalid ''decision_chain'' ''retry_basis_mismatch'')])"

definition prestart_input_checks :: "run_basis \<Rightarrow> domain_error option list" where
  "prestart_input_checks b =
     (let e = ''run_finalization_basis'' in
     [rf_forbid e ''original_attempt_id'' (fb_original_attempt_id b),
      rf_forbid e ''original_attempt_fence'' (fb_original_attempt_fence b),
      rf_forbid e ''final_attempt_id'' (fb_final_attempt_id b),
      rf_forbid e ''final_attempt_no'' (fb_final_attempt_no b),
      rf_forbid e ''final_attempt_fence'' (fb_final_attempt_fence b),
      rf_forbid e ''final_attempt_version'' (fb_final_attempt_version b),
      rf_forbid e ''final_attempt_state'' (fb_final_attempt_state b),
      rf_forbid e ''worker_id'' (fb_worker_id b),
      rf_forbid e ''worker_generation'' (fb_worker_generation b),
      rf_forbid e ''attempt_chain_digest'' (fb_attempt_chain_digest b),
      rf_forbid e ''evidence_root_digest'' (fb_evidence_root_digest b),
      rf_digest e ''cancellation_intent_digest'' (fb_cancellation_intent_digest b),
      rf_digest e ''prestart_closure_digest'' (fb_prestart_closure_digest b),
      rf_forbid e ''cancellation_stop_digest'' (fb_cancellation_stop_digest b),
      reject_if (fb_outcome b \<noteq> OutcomeCancelled) (basis_invalid ''outcome'' ''prestart_requires_cancelled'')])"

definition attempt_input_checks :: "run_basis \<Rightarrow> domain_error option list" where
  "attempt_input_checks b =
     (let e = ''run_finalization_basis'' in
     [rf_digest e ''attempt_chain_digest'' (fb_attempt_chain_digest b),
      rf_some rf_string e ''original_attempt_id'' (fb_original_attempt_id b),
      rf_some rf_string e ''final_attempt_id'' (fb_final_attempt_id b),
      rf_some rf_string e ''worker_id'' (fb_worker_id b),
      rf_some rf_positive e ''original_attempt_fence'' (fb_original_attempt_fence b),
      rf_some rf_positive e ''final_attempt_no'' (fb_final_attempt_no b),
      rf_some rf_positive e ''final_attempt_fence'' (fb_final_attempt_fence b),
      rf_some rf_positive e ''worker_generation'' (fb_worker_generation b),
      rf_some rf_nonnegative e ''final_attempt_version'' (fb_final_attempt_version b),
      require_present e ''final_attempt_state'' ''unknown'' (fb_final_attempt_state b),
      rf_forbid e ''prestart_closure_digest'' (fb_prestart_closure_digest b)])"

fun rule_of :: "decision_ref \<Rightarrow> contract_rule_result option" where
  "rule_of r = (if dr_decision_kind r = ContractRule
     then (case dr_decision_result r of RuleResult rule \<Rightarrow> Some rule | _ \<Rightarrow> None) else None)"

definition validate_cancel_rule :: "run_basis \<Rightarrow> domain_error option" where
  "validate_cancel_rule b =
     reject_if (\<not> list_ex (\<lambda>r. case rule_of r of None \<Rightarrow> False
         | Some rule \<Rightarrow> cr_cancellation_intent_digest rule = fb_cancellation_intent_digest b \<and>
             cr_cancellation_stop_digest rule = fb_cancellation_stop_digest b) (fb_decision_chain b))
       (basis_invalid ''decision_chain'' ''cancellation_rule_mismatch'')"

definition cancellation_input_checks :: "run_basis \<Rightarrow> domain_error option list" where
  "cancellation_input_checks b =
     (let e = ''run_finalization_basis'' in
     [reject_if (fb_final_attempt_state b \<noteq> Some FactCancelled)
        (basis_invalid ''final_attempt_state'' ''cancellation_requires_cancelled''),
      rf_digest e ''evidence_root_digest'' (fb_evidence_root_digest b),
      rf_digest e ''cancellation_intent_digest'' (fb_cancellation_intent_digest b),
      rf_digest e ''cancellation_stop_digest'' (fb_cancellation_stop_digest b),
      reject_if (fb_outcome b \<noteq> OutcomeCancelled) (basis_invalid ''outcome'' ''cancellation_requires_cancelled''),
      validate_cancel_rule b])"

definition chain_adjudications :: "decision_ref list \<Rightarrow> decision_result list" where
  "chain_adjudications refs =
     map dr_decision_result (filter (\<lambda>r. dr_decision_kind r = KindUnknownAdjudication) refs)"

definition adjudication_input_checks :: "run_basis \<Rightarrow> domain_error option list" where
  "adjudication_input_checks b =
     (let e = ''run_finalization_basis'' in
     [reject_if (fb_final_attempt_state b \<noteq> Some FactAttemptUnknown)
        (basis_invalid ''final_attempt_state'' ''unknown_required''),
      rf_digest e ''unknown_observation_digest'' (fb_unknown_observation_digest b),
      rf_digest e ''adjudication_chain_digest'' (fb_adjudication_chain_digest b)] @
     (case chain_adjudications (fb_decision_chain b) of
        [AdjudicationResult res] \<Rightarrow>
          (if ar_decision res = MarkInfraFailedNoRetry then
            [reject_if (fb_outcome b \<noteq> OutcomeInfraFailed \<or> fb_evidence_root_digest b \<noteq> None)
               (basis_invalid ''outcome'' ''infra_adjudication_matrix'')]
           else if ar_decision res = MarkCompletedFromVerifiedEvidence then
            [rf_digest e ''evidence_root_digest'' (fb_evidence_root_digest b),
             reject_if (ar_evidence_root_digest res \<noteq> fb_evidence_root_digest b)
               (basis_invalid ''evidence_root_digest'' ''adjudication_mismatch'')]
           else [Some (basis_invalid ''decision_result'' ''retry_cannot_close_unknown'')])
      | _ \<Rightarrow> [Some (basis_invalid ''decision_chain'' ''unknown_adjudication_required'')]))"

definition evidence_input_checks :: "run_basis \<Rightarrow> domain_error option list" where
  "evidence_input_checks b =
     [reject_if (fb_final_attempt_state b = Some FactAttemptUnknown)
        (basis_invalid ''final_attempt_state'' ''unresolved_unknown''),
      rf_digest ''run_finalization_basis'' ''evidence_root_digest'' (fb_evidence_root_digest b),
      reject_if (Some (run_outcome_value (fb_outcome b)) \<noteq> map_option execution_fact_value (fb_final_attempt_state b))
        (basis_invalid ''outcome'' ''attempt_state_mismatch'')]"

definition validate_input_kind :: "run_basis \<Rightarrow> domain_error option list" where
  "validate_input_kind b =
     (if fb_terminal_input_kind b = InputPrestartCancel then prestart_input_checks b
      else attempt_input_checks b @
       (case fb_terminal_input_kind b of
          VerifiedCancellationEvidence \<Rightarrow> cancellation_input_checks b
        | InputUnknownAdjudication \<Rightarrow> adjudication_input_checks b
        | _ \<Rightarrow> evidence_input_checks b))"

definition check_run_basis :: "run_basis \<Rightarrow> domain_error option" where
  "check_run_basis b =
     (let e = ''run_finalization_basis'' in first_some (
     [rf_string e ''run_id'' (fb_run_id b),
      rf_string e ''batch_id'' (fb_batch_id b),
      rf_string e ''terminal_rule_schema'' (fb_terminal_rule_schema b),
      rf_nonnegative e ''source_run_version'' (fb_source_run_version b),
      rf_positive e ''terminal_rule_version'' (fb_terminal_rule_version b),
      rf_positive e ''item_count'' (fb_item_count b),
      reject_if (fb_disposition b \<noteq> ClosedNoRetry) (basis_invalid ''disposition'' ''basis_requires_closed_no_retry'')] @
     validate_decisions b @ validate_input_kind b))"

definition mk_run_basis :: "run_basis \<Rightarrow> run_basis result" where
  "mk_run_basis b = raise_or (check_run_basis b) b"

text \<open>
  \<open>build\<close> takes the envelope from the resolution set and the other fields from \<open>**values\<close>; here they
  come as a basis whose envelope fields are replaced. Its four frozen identities must already agree.
\<close>

definition run_basis_build :: "run_resolution_set \<Rightarrow> run_basis \<Rightarrow> run_basis result" where
  "run_basis_build s v =
     (if (fb_manifest_digest v, fb_shard_plan_digest v, fb_run_item_set_digest v, fb_source_run_version v) \<noteq>
         (rs_manifest_digest s, rs_shard_plan_digest s, rs_run_item_set_digest s, rs_source_run_version s)
      then Inl (basis_invalid ''resolution_set'' ''envelope_mismatch'')
      else bind_result (resolution_set_digest s) (\<lambda>set_digest.
      bind_result (original_resolution_set_digest s) (\<lambda>original.
      bind_result (effective_resolution_set_digest s) (\<lambda>effective.
      mk_run_basis (v\<lparr>fb_run_id := rs_run_id s, fb_batch_id := rs_batch_id s,
        fb_attempt_chain_digest := (if fb_terminal_input_kind v = InputPrestartCancel then None
           else Some (rs_attempt_chain_digest s)),
        fb_retry_chain_digest := rs_retry_chain_digest s,
        fb_adjudication_chain_digest := rs_adjudication_chain_digest s,
        fb_item_resolution_set_digest := set_digest, fb_original_resolution_set_digest := original,
        fb_effective_resolution_set_digest := effective, fb_item_count := int (length (rs_entries s))\<rparr>)))))"

definition run_basis_members :: "run_basis \<Rightarrow> (string \<times> json) list" where
  "run_basis_members b =
     [(''schema_version'', JStr ''qep.run-finalization-basis.v1''),
      (''run_id'', JStr (fb_run_id b)),
      (''batch_id'', JStr (fb_batch_id b)),
      (''source_run_version'', JInt (fb_source_run_version b)),
      (''manifest_digest'', digest_json (fb_manifest_digest b)),
      (''shard_plan_digest'', digest_json (fb_shard_plan_digest b)),
      (''run_item_set_digest'', digest_json (fb_run_item_set_digest b)),
      (''execution_spec_digest'', digest_json (fb_execution_spec_digest b)),
      (''original_attempt_id'', json_opt JStr (fb_original_attempt_id b)),
      (''original_attempt_fence'', json_opt JInt (fb_original_attempt_fence b)),
      (''final_attempt_id'', json_opt JStr (fb_final_attempt_id b)),
      (''final_attempt_no'', json_opt JInt (fb_final_attempt_no b)),
      (''final_attempt_fence'', json_opt JInt (fb_final_attempt_fence b)),
      (''final_attempt_version'', json_opt JInt (fb_final_attempt_version b)),
      (''final_attempt_state'', json_opt (\<lambda>f. JStr (execution_fact_value f)) (fb_final_attempt_state b)),
      (''worker_id'', json_opt JStr (fb_worker_id b)),
      (''worker_generation'', json_opt JInt (fb_worker_generation b)),
      (''attempt_chain_digest'', json_opt digest_json (fb_attempt_chain_digest b)),
      (''evidence_root_digest'', json_opt digest_json (fb_evidence_root_digest b)),
      (''unknown_observation_digest'', json_opt digest_json (fb_unknown_observation_digest b)),
      (''adjudication_chain_digest'', json_opt digest_json (fb_adjudication_chain_digest b)),
      (''retry_chain_digest'', json_opt digest_json (fb_retry_chain_digest b)),
      (''item_resolution_set_digest'', digest_json (fb_item_resolution_set_digest b)),
      (''original_resolution_set_digest'', digest_json (fb_original_resolution_set_digest b)),
      (''effective_resolution_set_digest'', digest_json (fb_effective_resolution_set_digest b)),
      (''item_count'', JInt (fb_item_count b)),
      (''cancellation_intent_digest'', json_opt digest_json (fb_cancellation_intent_digest b)),
      (''cancellation_stop_digest'', json_opt digest_json (fb_cancellation_stop_digest b)),
      (''prestart_closure_digest'', json_opt digest_json (fb_prestart_closure_digest b)),
      (''terminal_rule_schema'', JStr (fb_terminal_rule_schema b)),
      (''terminal_rule_version'', JInt (fb_terminal_rule_version b)),
      (''terminal_rule_digest'', digest_json (fb_terminal_rule_digest b)),
      (''decision_chain'', JList (map decision_ref_json (fb_decision_chain b))),
      (''disposition'', JStr (run_disposition_value (fb_disposition b))),
      (''outcome'', JStr (run_outcome_value (fb_outcome b))),
      (''terminal_input_kind'', JStr (terminal_input_value (fb_terminal_input_kind b))),
      (''item_resolution_schema'', JStr ''qep.run-item-resolution-set''),
      (''item_resolution_version'', JInt 1)]"

definition run_basis_digest :: "run_basis \<Rightarrow> digest result" where
  "run_basis_digest b =
     bind_result (canonical_digest ''qep.run-finalization-decision-chain.v1''
       (JObj [(''decisions'', JList (map decision_ref_json (fb_decision_chain b)))])) (\<lambda>chain_digest.
     canonical_digest ''qep.run-finalization-basis.v1''
       (JObj (run_basis_members b @ [(''decision_chain_digest'', digest_json chain_digest)])))"

section \<open>Phase, disposition and outcome\<close>

record finalization_state =
  fs_phase :: run_phase
  fs_disposition :: "run_disposition option"
  fs_outcome :: "run_outcome option"
  fs_finalization_basis_digest :: "digest option"
  fs_latest_attempt_fact :: "attempt_execution_fact option"
  fs_current_assignment_id :: "string option"
  fs_pending_retry_intent_id :: "string option"

abbreviation state_invalid :: "string \<Rightarrow> string \<Rightarrow> domain_error" where
  "state_invalid field reason \<equiv> DomainValidationError ''run_finalization_state'' field reason"

definition validate_closed :: "finalization_state \<Rightarrow> domain_error option list" where
  "validate_closed s =
     (if fs_phase s = PhaseClosed then
       [reject_if (fs_disposition s \<noteq> Some ClosedNoRetry) (state_invalid ''disposition'' ''closed_requires_disposition''),
        reject_if (fs_outcome s = None) (state_invalid ''outcome'' ''closed_requires_outcome''),
        reject_if (fs_finalization_basis_digest s = None)
          (state_invalid ''finalization_basis_digest'' ''closed_requires_basis''),
        reject_if (fs_current_assignment_id s \<noteq> None \<or> fs_pending_retry_intent_id s \<noteq> None)
          (state_invalid ''phase'' ''closed_forbids_active_pointer'')]
      else
       [reject_if (fs_disposition s = Some ClosedNoRetry)
          (state_invalid ''disposition'' ''closed_disposition_requires_closed_phase''),
        reject_if (fs_outcome s \<noteq> None) (state_invalid ''outcome'' ''outcome_requires_closed''),
        reject_if (fs_finalization_basis_digest s \<noteq> None)
          (state_invalid ''finalization_basis_digest'' ''basis_requires_closed'')])"

definition validate_review :: "finalization_state \<Rightarrow> domain_error option list" where
  "validate_review s =
     (if fs_disposition s \<noteq> Some ReviewRequired then [] else
       [reject_if (fs_phase s \<noteq> PhaseRunning) (state_invalid ''disposition'' ''review_requires_running''),
        reject_if (fs_latest_attempt_fact s \<noteq> Some FactAttemptUnknown)
          (state_invalid ''latest_attempt_fact'' ''review_requires_unknown'')])"

definition validate_retry :: "finalization_state \<Rightarrow> domain_error option list" where
  "validate_retry s =
     (if fs_phase s = PhaseRetryQueued then
       [reject_if (fs_disposition s \<noteq> Some RetryQueued) (state_invalid ''disposition'' ''retry_requires_disposition''),
        reject_if (fs_pending_retry_intent_id s = None)
          (state_invalid ''pending_retry_intent_id'' ''retry_requires_pending_intent''),
        reject_if (fs_current_assignment_id s \<noteq> None)
          (state_invalid ''current_assignment_id'' ''retry_forbids_current_assignment'')]
      else
       [reject_if (fs_disposition s = Some RetryQueued)
          (state_invalid ''disposition'' ''retry_disposition_requires_retry_phase''),
        reject_if (fs_pending_retry_intent_id s \<noteq> None)
          (state_invalid ''pending_retry_intent_id'' ''pending_intent_requires_retry_phase'')])"

definition check_finalization_state :: "finalization_state \<Rightarrow> domain_error option" where
  "check_finalization_state s =
     (let pointer = (\<lambda>field v. reject_if (\<exists>x \<in> set_option v. blank x) (state_invalid field ''invalid'')) in first_some (
     [pointer ''current_assignment_id'' (fs_current_assignment_id s),
      pointer ''pending_retry_intent_id'' (fs_pending_retry_intent_id s)] @
     validate_closed s @ validate_review s @ validate_retry s))"

end
