(* ===== verification/Suite.thy ===== *)
theory Suite
  imports Canonical_Json Versioned
begin

text \<open>
  The Suite aggregate (\<open>src/qarunner/domain/suite.py\<close>): immutable revisions appended in order, and
  retirement, after which no new Batch may bind to the Suite.
\<close>

section \<open>Data\<close>

datatype suite_status = SuiteActive | SuiteRetired

datatype suite_revision_status = RevisionDraft | RevisionApproved | RevisionRetired

record suite_revision =
  sr_id :: string
  sr_suite_id :: string
  sr_revision_no :: int
  sr_source_spec_digest :: digest
  sr_config_digest :: digest
  sr_framework :: string
  sr_resource_profile_id :: string
  sr_status :: suite_revision_status
  sr_created_at :: datetime

definition check_suite_revision :: "suite_revision \<Rightarrow> domain_error option" where
  "check_suite_revision r =
     (let e = ''suite_revision'' in first_some
     [require_nonempty_string e ''id'' (sr_id r),
      require_nonempty_string e ''suite_id'' (sr_suite_id r),
      reject_if (sr_revision_no r < 1) (DomainValidationError e ''revision_no'' ''invalid''),
      require_nonempty_string e ''framework'' (sr_framework r),
      reject_if (sr_framework r \<notin> {''pytest'', ''playwright''}) (DomainValidationError e ''framework'' ''unsupported''),
      require_nonempty_string e ''resource_profile_id'' (sr_resource_profile_id r),
      require_utc e ''created_at'' (sr_created_at r)])"

definition mk_suite_revision :: "suite_revision \<Rightarrow> suite_revision result" where
  "mk_suite_revision r = raise_or (check_suite_revision r) r"

record suite =
  su_id :: string
  su_project_id :: string
  su_name :: string
  su_status :: suite_status
  su_version :: int
  su_revisions :: "suite_revision list"
  su_current_revision_id :: string
  su_retired_at :: "datetime option"

text \<open>The loop over the creation times: no revision is older than the one before it.\<close>

fun timeline_monotonic :: "suite_revision list \<Rightarrow> bool" where
  "timeline_monotonic [] = True"
| "timeline_monotonic [r] = True"
| "timeline_monotonic (r # q # rs) \<longleftrightarrow>
     \<not> instant (sr_created_at q) < instant (sr_created_at r) \<and> timeline_monotonic (q # rs)"

definition check_suite :: "suite \<Rightarrow> domain_error option" where
  "check_suite s =
     (let e = ''suite''; invalid = DomainValidationError ''suite''; ids = map sr_id (su_revisions s) in first_some (
     [require_nonempty_string e ''id'' (su_id s),
      require_nonempty_string e ''project_id'' (su_project_id s),
      require_nonempty_string e ''name'' (su_name s),
      reject_if (su_version s < 0) (invalid ''version'' ''invalid''),
      reject_if (su_revisions s = []) (invalid ''revisions'' ''empty''),
      reject_if (\<not> distinct ids) (invalid ''revisions'' ''duplicate_id''),
      reject_if (map sr_revision_no (su_revisions s) \<noteq> map int [1..<length (su_revisions s) + 1])
        (invalid ''revisions'' ''revision_no_not_contiguous''),
      reject_if (list_ex (\<lambda>r. sr_suite_id r \<noteq> su_id s) (su_revisions s)) (invalid ''revisions'' ''suite_id_mismatch''),
      require_nonempty_string e ''current_revision_id'' (su_current_revision_id s),
      reject_if (su_current_revision_id s \<notin> set ids) (invalid ''current_revision_id'' ''not_found''),
      reject_if (last ids \<noteq> su_current_revision_id s) (invalid ''current_revision_id'' ''not_latest'')] @
     (case su_status s of
        SuiteRetired \<Rightarrow>
          (case su_retired_at s of
             None \<Rightarrow> [Some (invalid ''retired_at'' ''required_for_retired'')]
           | Some t \<Rightarrow> [require_utc e ''retired_at'' t])
      | SuiteActive \<Rightarrow> [reject_if (su_retired_at s \<noteq> None) (invalid ''retired_at'' ''forbidden_for_active'')]) @
     [reject_if (\<not> timeline_monotonic (su_revisions s)) (invalid ''revisions'' ''timeline_not_monotonic'')]))"

definition mk_suite :: "suite \<Rightarrow> suite result" where
  "mk_suite s = raise_or (check_suite s) s"

section \<open>Operations\<close>

definition suite_register ::
  "string \<Rightarrow> string \<Rightarrow> string \<Rightarrow> string \<Rightarrow> digest \<Rightarrow> digest \<Rightarrow> string \<Rightarrow> string \<Rightarrow> datetime \<Rightarrow> suite result" where
  "suite_register suite_id project_id name revision_id source_spec_digest config_digest framework
     resource_profile_id registered_at =
     bind_result (mk_suite_revision
       \<lparr>sr_id = revision_id, sr_suite_id = suite_id, sr_revision_no = 1,
        sr_source_spec_digest = source_spec_digest, sr_config_digest = config_digest,
        sr_framework = framework, sr_resource_profile_id = resource_profile_id,
        sr_status = RevisionApproved, sr_created_at = registered_at\<rparr>) (\<lambda>revision.
     mk_suite
       \<lparr>su_id = suite_id, su_project_id = project_id, su_name = name, su_status = SuiteActive,
        su_version = 0, su_revisions = [revision], su_current_revision_id = revision_id, su_retired_at = None\<rparr>)"

definition suite_accepts_new_batch :: "suite \<Rightarrow> bool" where
  "suite_accepts_new_batch s \<longleftrightarrow> su_status s = SuiteActive"

definition suite_revision_of :: "string \<Rightarrow> suite \<Rightarrow> suite_revision result" where
  "suite_revision_of revision_id s =
     (case find (\<lambda>r. sr_id r = revision_id) (su_revisions s) of
        Some r \<Rightarrow> Inr r | None \<Rightarrow> Inl (SuiteConflict (su_id s) ''revision_not_found''))"

definition suite_current_revision :: "suite \<Rightarrow> suite_revision result" where
  "suite_current_revision s = suite_revision_of (su_current_revision_id s) s"

definition require_accepts_new_batch :: "suite \<Rightarrow> unit result" where
  "require_accepts_new_batch s =
     (if \<not> suite_accepts_new_batch s then Inl (SuiteConflict (su_id s) ''suite_retired'') else Inr ())"

definition suite_publish_revision ::
  "string \<Rightarrow> digest \<Rightarrow> digest \<Rightarrow> string \<Rightarrow> string \<Rightarrow> datetime \<Rightarrow> int \<Rightarrow> suite \<Rightarrow> suite result" where
  "suite_publish_revision revision_id source_spec_digest config_digest framework resource_profile_id
     created_at expected_version s =
     bind_result (ensure_expected_version ''suite'' (su_id s) (su_version s) expected_version) (\<lambda>_.
     bind_result (require_accepts_new_batch s) (\<lambda>_.
     if list_ex (\<lambda>r. sr_id r = revision_id) (su_revisions s)
     then Inl (SuiteConflict (su_id s) ''revision_id_reused'')
     else bind_result (mk_suite_revision
       \<lparr>sr_id = revision_id, sr_suite_id = su_id s, sr_revision_no = int (length (su_revisions s)) + 1,
        sr_source_spec_digest = source_spec_digest, sr_config_digest = config_digest,
        sr_framework = framework, sr_resource_profile_id = resource_profile_id,
        sr_status = RevisionApproved, sr_created_at = created_at\<rparr>) (\<lambda>revision.
     mk_suite (s\<lparr>su_revisions := su_revisions s @ [revision], su_current_revision_id := revision_id,
       su_version := su_version s + 1\<rparr>))))"

definition suite_retire :: "datetime \<Rightarrow> int \<Rightarrow> suite \<Rightarrow> suite result" where
  "suite_retire retired_at expected_version s =
     bind_result (ensure_expected_version ''suite'' (su_id s) (su_version s) expected_version) (\<lambda>_.
     if su_status s = SuiteRetired then Inl (SuiteConflict (su_id s) ''suite_already_retired'')
     else bind_result (raise_or (require_utc ''suite'' ''retired_at'' retired_at) ()) (\<lambda>_.
     mk_suite (s\<lparr>su_status := SuiteRetired, su_retired_at := Some retired_at, su_version := su_version s + 1\<rparr>)))"

section \<open>Commands\<close>

datatype suite_command =
    PublishRevision string digest digest string string datetime int
  | RetireSuite datetime int

fun exec_suite :: "suite_command \<Rightarrow> suite \<Rightarrow> suite result" where
  "exec_suite (PublishRevision i sd cd f p t v) s = suite_publish_revision i sd cd f p t v s"
| "exec_suite (RetireSuite t v) s = suite_retire t v s"

fun suite_expects :: "suite_command \<Rightarrow> int" where
  "suite_expects (PublishRevision i sd cd f p t v) = v"
| "suite_expects (RetireSuite t v) = v"

definition wf_suite :: "suite \<Rightarrow> bool" where
  "wf_suite s \<longleftrightarrow> check_suite s = None"

lemmas suite_op_defs = suite_publish_revision_def suite_retire_def mk_suite_def mk_suite_revision_def
  require_accepts_new_batch_def suite_accepts_new_batch_def

lemma exec_suite_wf: "exec_suite c s = Inr t \<Longrightarrow> wf_suite t"
  by (cases c) (auto simp: suite_op_defs wf_suite_def result_simps)

lemma exec_suite_step:
  "exec_suite c s = Inr t \<Longrightarrow> suite_expects c = su_version s \<and> su_version t = su_version s + 1 \<and>
     prefix (su_revisions s) (su_revisions t) \<and> su_id t = su_id s \<and> su_project_id t = su_project_id s"
  by (cases c) (auto simp: suite_op_defs result_simps)

lemma exec_suite_retired: "su_status s = SuiteRetired \<Longrightarrow> exec_suite c s \<noteq> Inr t"
  by (cases c) (auto simp: suite_op_defs result_simps)

interpretation suite_life: absorbing_lifecycle su_version suite_expects exec_suite wf_suite
  "\<lambda>s. su_status s = SuiteRetired"
  by unfold_locales (auto intro: exec_suite_wf dest: exec_suite_step exec_suite_retired)

interpretation suite_revision_log: append_only_log su_version suite_expects exec_suite wf_suite su_revisions
  by unfold_locales (auto dest: exec_suite_step)

lemma timeline_sorted: "timeline_monotonic rs \<longleftrightarrow> sorted (map (\<lambda>r. instant (sr_created_at r)) rs)"
  by (induction rs rule: timeline_monotonic.induct) (auto simp: not_less, meson order_trans)

lemma wf_suite_facts:
  assumes "wf_suite s"
  shows "su_revisions s \<noteq> []" "distinct (map sr_id (su_revisions s))"
    "map sr_revision_no (su_revisions s) = map int [1..<length (su_revisions s) + 1]"
    "sr_id (last (su_revisions s)) = su_current_revision_id s"
    "sorted (map (\<lambda>r. instant (sr_created_at r)) (su_revisions s))"
    "\<And>r. r \<in> set (su_revisions s) \<Longrightarrow> sr_suite_id r = su_id s"
  using assms
  by (auto simp: wf_suite_def check_suite_def Let_def result_simps list_ex_iff timeline_sorted last_map)

lemma suite_current_revision_last:
  assumes "wf_suite s"
  shows "suite_current_revision s = Inr (last (su_revisions s))"
  using distinct_map_find [OF wf_suite_facts(2) [OF assms] last_in_set [OF wf_suite_facts(1) [OF assms]]]
    wf_suite_facts(4) [OF assms]
  by (simp add: suite_current_revision_def suite_revision_of_def)

lemma suite_revision_stable:
  assumes "history exec_suite s t" "wf_suite s" "suite_revision_of i s = Inr r"
  shows "suite_revision_of i t = Inr r"
proof -
  obtain rs where "su_revisions t = su_revisions s @ rs"
    using suite_revision_log.history_appends [OF assms(1,2)] by (auto simp: prefix_def)
  then show ?thesis using assms(3) by (auto simp: suite_revision_of_def find_append split: option.splits)
qed

end
