(* ===== verification/Batch_Model.thy ===== *)
theory Batch_Model
  imports Batch_Cancellation Suite Worker_Lease
begin

text \<open>
  The Batch aggregate (\<open>src/qarunner/domain/batch.py\<close>): states and their edges, the pre-execution
  facts (rejection, scope items, snapshot, closure basis) with their digests, and the validator that
  every Batch value passes.
\<close>

section \<open>States and kinds\<close>

datatype batch_state =
    BatchDraft | BatchValidating | BatchCollecting | BatchPlanning | BatchAwaitingAdmission | BatchQueued
  | BatchRunning | BatchFinalizing | BatchSucceeded | BatchFailed | BatchPartial | BatchCancelled | BatchRejected

fun batch_state_value :: "batch_state \<Rightarrow> string" where
  "batch_state_value BatchDraft = ''draft''"
| "batch_state_value BatchValidating = ''validating''"
| "batch_state_value BatchCollecting = ''collecting''"
| "batch_state_value BatchPlanning = ''planning''"
| "batch_state_value BatchAwaitingAdmission = ''awaiting_admission''"
| "batch_state_value BatchQueued = ''queued''"
| "batch_state_value BatchRunning = ''running''"
| "batch_state_value BatchFinalizing = ''finalizing''"
| "batch_state_value BatchSucceeded = ''succeeded''"
| "batch_state_value BatchFailed = ''failed''"
| "batch_state_value BatchPartial = ''partial''"
| "batch_state_value BatchCancelled = ''cancelled''"
| "batch_state_value BatchRejected = ''rejected''"

fun batch_transitions :: "batch_state \<Rightarrow> batch_state list" where
  "batch_transitions BatchDraft = [BatchValidating]"
| "batch_transitions BatchValidating = [BatchCollecting]"
| "batch_transitions BatchCollecting = [BatchPlanning]"
| "batch_transitions BatchPlanning = [BatchAwaitingAdmission]"
| "batch_transitions BatchAwaitingAdmission = [BatchQueued]"
| "batch_transitions BatchQueued = [BatchRunning]"
| "batch_transitions _ = []"

definition batch_terminal_states :: "batch_state list" where
  "batch_terminal_states = [BatchSucceeded, BatchFailed, BatchPartial, BatchCancelled, BatchRejected]"

definition batch_prestart_cancel_states :: "batch_state list" where
  "batch_prestart_cancel_states =
     [BatchDraft, BatchValidating, BatchCollecting, BatchPlanning, BatchAwaitingAdmission, BatchQueued]"

definition batch_frozen_plan_cancel_states :: "batch_state list" where
  "batch_frozen_plan_cancel_states = [BatchAwaitingAdmission, BatchQueued]"

datatype batch_rejection_stage = StageValidation | StageCollection | StagePlanning | StageAdmission

fun rejection_stage_value :: "batch_rejection_stage \<Rightarrow> string" where
  "rejection_stage_value StageValidation = ''validation''"
| "rejection_stage_value StageCollection = ''collection''"
| "rejection_stage_value StagePlanning = ''planning''"
| "rejection_stage_value StageAdmission = ''admission''"

fun rejection_stage_of_phase :: "batch_state \<Rightarrow> batch_rejection_stage option" where
  "rejection_stage_of_phase BatchValidating = Some StageValidation"
| "rejection_stage_of_phase BatchCollecting = Some StageCollection"
| "rejection_stage_of_phase BatchPlanning = Some StagePlanning"
| "rejection_stage_of_phase BatchAwaitingAdmission = Some StageAdmission"
| "rejection_stage_of_phase _ = None"

datatype batch_rejection_reason_class =
    ReasonInvalidInput | ReasonAuthorizationDenied | ReasonPolicyDenied | ReasonSourceFailure
  | ReasonIntegrityFailure | ReasonPlanningFailure | ReasonCapacityRejected

fun rejection_reason_value :: "batch_rejection_reason_class \<Rightarrow> string" where
  "rejection_reason_value ReasonInvalidInput = ''invalid_input''"
| "rejection_reason_value ReasonAuthorizationDenied = ''authorization_denied''"
| "rejection_reason_value ReasonPolicyDenied = ''policy_denied''"
| "rejection_reason_value ReasonSourceFailure = ''source_failure''"
| "rejection_reason_value ReasonIntegrityFailure = ''integrity_failure''"
| "rejection_reason_value ReasonPlanningFailure = ''planning_failure''"
| "rejection_reason_value ReasonCapacityRejected = ''capacity_rejected''"

datatype preexecution_scope_kind = ScopePrePlan | ScopePlannedUnmaterialized

fun preexecution_scope_value :: "preexecution_scope_kind \<Rightarrow> string" where
  "preexecution_scope_value ScopePrePlan = ''pre_plan''"
| "preexecution_scope_value ScopePlannedUnmaterialized = ''planned_unmaterialized''"

datatype preexecution_terminal_kind = TerminalRejection | TerminalPrestartCancel

fun preexecution_terminal_value :: "preexecution_terminal_kind \<Rightarrow> string" where
  "preexecution_terminal_value TerminalRejection = ''rejection''"
| "preexecution_terminal_value TerminalPrestartCancel = ''prestart_cancel''"

section \<open>Rejection\<close>

record batch_rejection =
  brj_rejection_id :: string
  brj_batch_id :: string
  brj_source_batch_version :: int
  brj_stage :: batch_rejection_stage
  brj_reason_class :: batch_rejection_reason_class
  brj_reason_code :: string
  brj_input_digest :: digest
  brj_authority_digest :: "digest option"
  brj_recorded_at :: datetime

definition check_batch_rejection :: "batch_rejection \<Rightarrow> domain_error option" where
  "check_batch_rejection r =
     (let e = ''batch_rejection'' in first_some
     [require_nonempty_string e ''rejection_id'' (brj_rejection_id r),
      require_nonempty_string e ''batch_id'' (brj_batch_id r),
      require_nonempty_string e ''reason_code'' (brj_reason_code r),
      require_nonnegative_version e ''source_batch_version'' (brj_source_batch_version r),
      reject_if ((brj_stage r = StageAdmission \<or>
           brj_reason_class r \<in> {ReasonAuthorizationDenied, ReasonPolicyDenied}) \<and>
           brj_authority_digest r = None)
        (DomainValidationError e ''authority_digest'' ''required_for_rejection''),
      require_utc e ''recorded_at'' (brj_recorded_at r)])"

definition batch_rejection_digest :: "batch_rejection \<Rightarrow> digest result" where
  "batch_rejection_digest r = canonical_digest ''qep.batch-rejection.v1''
     (JObj [(''rejection_id'', JStr (brj_rejection_id r)),
            (''batch_id'', JStr (brj_batch_id r)),
            (''source_batch_version'', JInt (brj_source_batch_version r)),
            (''stage'', JStr (rejection_stage_value (brj_stage r))),
            (''reason_class'', JStr (rejection_reason_value (brj_reason_class r))),
            (''reason_code'', JStr (brj_reason_code r)),
            (''input_digest'', digest_json (brj_input_digest r)),
            (''authority_digest'', json_opt digest_json (brj_authority_digest r)),
            (''recorded_at'', JStr (iso_z (brj_recorded_at r)))])"

section \<open>Scope items\<close>

record preexecution_scope_item =
  psi_batch_id :: string
  psi_source_batch_version :: int
  psi_terminal_kind :: preexecution_terminal_kind
  psi_rejection_fact_digest :: "digest option"
  psi_cancellation_intent_digest :: "digest option"
  psi_manifest_id :: string
  psi_manifest_digest :: digest
  psi_manifest_item_key :: string
  psi_shard_plan_id :: string
  psi_shard_plan_version :: int
  psi_shard_plan_digest :: digest
  psi_run_absence_digest :: digest
  psi_resolution :: string

text \<open>Which of the two command digests a terminal kind carries.\<close>

definition terminal_digest_checks ::
  "string \<Rightarrow> preexecution_terminal_kind \<Rightarrow> digest option \<Rightarrow> digest option \<Rightarrow> domain_error option list" where
  "terminal_digest_checks e kind rejection cancellation =
     (if kind = TerminalRejection then
       [require_present e ''rejection_fact_digest'' ''required_for_terminal'' rejection,
        require_absent e ''batch_cancellation_intent_digest'' ''forbidden_for_terminal'' cancellation]
      else
       [require_present e ''batch_cancellation_intent_digest'' ''required_for_terminal'' cancellation,
        require_absent e ''rejection_fact_digest'' ''forbidden_for_terminal'' rejection])"

definition check_preexecution_scope_item :: "preexecution_scope_item \<Rightarrow> domain_error option" where
  "check_preexecution_scope_item i =
     (let e = ''batch_preexecution_scope_item'' in first_some (
     [require_nonempty_string e ''batch_id'' (psi_batch_id i),
      require_nonempty_string e ''manifest_id'' (psi_manifest_id i),
      require_nonempty_string e ''manifest_item_key'' (psi_manifest_item_key i),
      require_nonempty_string e ''shard_plan_id'' (psi_shard_plan_id i),
      require_nonnegative_version e ''source_batch_version'' (psi_source_batch_version i),
      require_nonnegative_version e ''shard_plan_version'' (psi_shard_plan_version i)] @
     terminal_digest_checks e (psi_terminal_kind i) (psi_rejection_fact_digest i) (psi_cancellation_intent_digest i) @
     [reject_if (psi_resolution i \<noteq> ''not_started'') (DomainValidationError e ''resolution'' ''unknown'')]))"

definition preexecution_scope_item_digest :: "preexecution_scope_item \<Rightarrow> digest result" where
  "preexecution_scope_item_digest i = canonical_digest ''qep.batch-preexecution-scope-item.v1''
     (JObj [(''batch_id'', JStr (psi_batch_id i)),
            (''source_batch_version'', JInt (psi_source_batch_version i)),
            (''terminal_kind'', JStr (preexecution_terminal_value (psi_terminal_kind i))),
            (''rejection_fact_digest'', json_opt digest_json (psi_rejection_fact_digest i)),
            (''batch_cancellation_intent_digest'', json_opt digest_json (psi_cancellation_intent_digest i)),
            (''manifest_id'', JStr (psi_manifest_id i)),
            (''manifest_digest'', digest_json (psi_manifest_digest i)),
            (''manifest_item_key'', JStr (psi_manifest_item_key i)),
            (''shard_plan_id'', JStr (psi_shard_plan_id i)),
            (''shard_plan_version'', JInt (psi_shard_plan_version i)),
            (''shard_plan_digest'', digest_json (psi_shard_plan_digest i)),
            (''materialized_run_absence_digest'', digest_json (psi_run_absence_digest i)),
            (''resolution'', JStr (psi_resolution i))])"

section \<open>Snapshot\<close>

record preexecution_snapshot =
  pss_batch_id :: string
  pss_source_batch_version :: int
  pss_scope_kind :: preexecution_scope_kind
  pss_submission_digest :: digest
  pss_preplan_scope_digest :: "digest option"
  pss_manifest_digest :: "digest option"
  pss_shard_plan_version :: "int option"
  pss_shard_plan_digest :: "digest option"
  pss_canonical_run_set_digest :: "digest option"
  pss_run_absence_digest :: digest
  pss_execution_absence_digest :: digest
  pss_task_stop_fact_digests :: "digest list"
  pss_scope_items :: "preexecution_scope_item list"
  pss_item_coverage_proof_digest :: "digest option"

definition scope_item_shared where
  "scope_item_shared i = (psi_terminal_kind i, psi_rejection_fact_digest i, psi_cancellation_intent_digest i,
     psi_manifest_id i, psi_manifest_digest i, psi_shard_plan_id i, psi_shard_plan_version i,
     psi_shard_plan_digest i, psi_run_absence_digest i)"

definition scope_items_checks :: "preexecution_scope_item list \<Rightarrow> domain_error option list" where
  "scope_items_checks items =
     (let keys = map psi_manifest_item_key items;
          invalid = DomainValidationError ''batch_preexecution_snapshot'' ''scope_items'' in
     [reject_if (\<not> distinct keys) (invalid ''duplicate''),
      reject_if (keys \<noteq> sort keys) (invalid ''not_canonical'')])"

definition scope_item_bound :: "preexecution_snapshot \<Rightarrow> preexecution_scope_item \<Rightarrow> bool" where
  "scope_item_bound s i \<longleftrightarrow>
     psi_batch_id i = pss_batch_id s \<and> psi_source_batch_version i = pss_source_batch_version s \<and>
     Some (psi_manifest_digest i) = pss_manifest_digest s \<and>
     Some (psi_shard_plan_version i) = pss_shard_plan_version s \<and>
     Some (psi_shard_plan_digest i) = pss_shard_plan_digest s \<and>
     psi_run_absence_digest i = pss_run_absence_digest s \<and>
     scope_item_shared i = scope_item_shared (hd (pss_scope_items s))"

definition check_preexecution_snapshot :: "preexecution_snapshot \<Rightarrow> domain_error option" where
  "check_preexecution_snapshot s =
     (let e = ''batch_preexecution_snapshot''; invalid = DomainValidationError ''batch_preexecution_snapshot'' in first_some (
     [require_nonempty_string e ''batch_id'' (pss_batch_id s),
      require_nonnegative_version e ''source_batch_version'' (pss_source_batch_version s),
      reject_if (\<not> distinct (pss_task_stop_fact_digests s)) (invalid ''task_stop_fact_digests'' ''duplicate'')] @
     (if pss_scope_kind s = ScopePrePlan then
       [require_present e ''preplan_scope_digest'' ''required_for_scope'' (pss_preplan_scope_digest s),
        require_absent e ''manifest_digest'' ''forbidden_for_scope'' (pss_manifest_digest s),
        require_absent e ''shard_plan_version'' ''forbidden_for_scope'' (pss_shard_plan_version s),
        require_absent e ''shard_plan_digest'' ''forbidden_for_scope'' (pss_shard_plan_digest s),
        require_absent e ''canonical_run_set_digest'' ''forbidden_for_scope'' (pss_canonical_run_set_digest s),
        reject_if (pss_scope_items s \<noteq> []) (invalid ''scope_items'' ''forbidden_for_scope''),
        require_absent e ''item_coverage_proof_digest'' ''forbidden_for_scope'' (pss_item_coverage_proof_digest s)]
      else
       [require_absent e ''preplan_scope_digest'' ''forbidden_for_scope'' (pss_preplan_scope_digest s),
        require_present e ''manifest_digest'' ''required_for_scope'' (pss_manifest_digest s),
        require_present e ''shard_plan_digest'' ''required_for_scope'' (pss_shard_plan_digest s),
        require_present e ''canonical_run_set_digest'' ''required_for_scope'' (pss_canonical_run_set_digest s),
        require_present e ''item_coverage_proof_digest'' ''required_for_scope'' (pss_item_coverage_proof_digest s),
        require_present e ''shard_plan_version'' ''required_for_scope'' (pss_shard_plan_version s),
        require_optional_version e ''shard_plan_version'' (pss_shard_plan_version s)] @
       scope_items_checks (pss_scope_items s) @
       [reject_if (pss_scope_items s = []) (invalid ''scope_items'' ''required_for_scope''),
        reject_if (\<not> list_all (scope_item_bound s) (pss_scope_items s)) (invalid ''scope_items'' ''binding_mismatch'')])))"

section \<open>Closure basis\<close>

record preexecution_basis =
  peb_batch_id :: string
  peb_source_batch_version :: int
  peb_source_phase :: batch_state
  peb_terminal_kind :: preexecution_terminal_kind
  peb_rejection_fact_digest :: "digest option"
  peb_cancellation_intent_digest :: "digest option"
  peb_scope_kind :: preexecution_scope_kind
  peb_submission_digest :: digest
  peb_preplan_scope_digest :: "digest option"
  peb_manifest_digest :: "digest option"
  peb_shard_plan_version :: "int option"
  peb_shard_plan_digest :: "digest option"
  peb_canonical_run_set_digest :: "digest option"
  peb_run_absence_digest :: digest
  peb_execution_absence_digest :: digest
  peb_task_stop_fact_digests :: "digest list"
  peb_scope_item_digests :: "digest list"
  peb_item_coverage_proof_digest :: "digest option"
  peb_batch_outcome :: batch_state

definition check_preexecution_basis :: "preexecution_basis \<Rightarrow> domain_error option" where
  "check_preexecution_basis b =
     (let e = ''batch_preexecution_closure_basis''; invalid = DomainValidationError ''batch_preexecution_closure_basis'' in
     first_some (
     [require_nonempty_string e ''batch_id'' (peb_batch_id b),
      require_nonnegative_version e ''source_batch_version'' (peb_source_batch_version b)] @
     terminal_digest_checks e (peb_terminal_kind b) (peb_rejection_fact_digest b) (peb_cancellation_intent_digest b) @
     (if peb_terminal_kind b = TerminalRejection then
       [reject_if (peb_source_phase b \<notin> {BatchValidating, BatchCollecting, BatchPlanning, BatchAwaitingAdmission})
          (invalid ''source_phase'' ''invalid_for_terminal''),
        reject_if (peb_batch_outcome b \<noteq> BatchRejected) (invalid ''batch_outcome'' ''invalid_for_terminal'')]
      else
       [reject_if (peb_source_phase b \<notin> set batch_prestart_cancel_states) (invalid ''source_phase'' ''invalid_for_terminal''),
        reject_if (peb_batch_outcome b \<noteq> BatchCancelled) (invalid ''batch_outcome'' ''invalid_for_terminal'')]) @
     [reject_if (peb_scope_kind b \<noteq>
          (if peb_source_phase b \<in> set batch_frozen_plan_cancel_states then ScopePlannedUnmaterialized else ScopePrePlan))
        (invalid ''scope_kind'' ''invalid_for_source_phase''),
      reject_if (\<not> distinct (peb_task_stop_fact_digests b)) (invalid ''task_stop_fact_digests'' ''duplicate''),
      reject_if (\<not> distinct (peb_scope_item_digests b)) (invalid ''preexecution_scope_item_fact_digests'' ''duplicate'')] @
     (if peb_scope_kind b = ScopePrePlan then
       [require_present e ''preplan_scope_digest'' ''required_for_scope'' (peb_preplan_scope_digest b),
        require_absent e ''manifest_digest'' ''forbidden_for_scope'' (peb_manifest_digest b),
        require_absent e ''shard_plan_version'' ''forbidden_for_scope'' (peb_shard_plan_version b),
        require_absent e ''shard_plan_digest'' ''forbidden_for_scope'' (peb_shard_plan_digest b),
        require_absent e ''canonical_run_set_digest'' ''forbidden_for_scope'' (peb_canonical_run_set_digest b),
        reject_if (peb_scope_item_digests b \<noteq> []) (invalid ''preexecution_scope_item_fact_digests'' ''forbidden_for_scope''),
        require_absent e ''item_coverage_proof_digest'' ''forbidden_for_scope'' (peb_item_coverage_proof_digest b)]
      else
       [require_absent e ''preplan_scope_digest'' ''forbidden_for_scope'' (peb_preplan_scope_digest b),
        require_present e ''manifest_digest'' ''required_for_scope'' (peb_manifest_digest b),
        require_present e ''shard_plan_digest'' ''required_for_scope'' (peb_shard_plan_digest b),
        require_present e ''canonical_run_set_digest'' ''required_for_scope'' (peb_canonical_run_set_digest b),
        require_present e ''item_coverage_proof_digest'' ''required_for_scope'' (peb_item_coverage_proof_digest b),
        require_present e ''shard_plan_version'' ''required_for_scope'' (peb_shard_plan_version b),
        require_optional_version e ''shard_plan_version'' (peb_shard_plan_version b),
        reject_if (peb_scope_item_digests b = []) (invalid ''preexecution_scope_item_fact_digests'' ''required_for_scope'')])))"

definition preexecution_basis_digest :: "preexecution_basis \<Rightarrow> digest result" where
  "preexecution_basis_digest b = canonical_digest ''qep.batch-preexecution-closure-basis.v1''
     (JObj [(''batch_id'', JStr (peb_batch_id b)),
            (''source_batch_version'', JInt (peb_source_batch_version b)),
            (''source_phase'', JStr (batch_state_value (peb_source_phase b))),
            (''terminal_kind'', JStr (preexecution_terminal_value (peb_terminal_kind b))),
            (''rejection_fact_digest'', json_opt digest_json (peb_rejection_fact_digest b)),
            (''batch_cancellation_intent_digest'', json_opt digest_json (peb_cancellation_intent_digest b)),
            (''scope_kind'', JStr (preexecution_scope_value (peb_scope_kind b))),
            (''submission_digest'', digest_json (peb_submission_digest b)),
            (''preplan_scope_digest'', json_opt digest_json (peb_preplan_scope_digest b)),
            (''manifest_digest'', json_opt digest_json (peb_manifest_digest b)),
            (''shard_plan_version'', json_opt JInt (peb_shard_plan_version b)),
            (''shard_plan_digest'', json_opt digest_json (peb_shard_plan_digest b)),
            (''canonical_run_set_digest'', json_opt digest_json (peb_canonical_run_set_digest b)),
            (''materialized_run_absence_digest'', digest_json (peb_run_absence_digest b)),
            (''execution_absence_snapshot_digest'', digest_json (peb_execution_absence_digest b)),
            (''task_stop_fact_digest'', JList (map digest_json (peb_task_stop_fact_digests b))),
            (''preexecution_scope_item_fact_digest'', JList (map digest_json (peb_scope_item_digests b))),
            (''item_coverage_proof_digest'', json_opt digest_json (peb_item_coverage_proof_digest b)),
            (''batch_outcome'', JStr (batch_state_value (peb_batch_outcome b)))])"

end
