(* ===== verification/Batch_Commands.thy ===== *)
theory Batch_Commands
  imports Batch_Model
begin

text \<open>
  The Batch aggregate itself and its commands (\<open>Batch\<close> in \<open>src/qarunner/domain/batch.py\<close>): creation,
  transitions, the cancellation request, rejection before execution and the closure of a cancelled
  Batch whose Runs never materialised.
\<close>

section \<open>The aggregate\<close>

record batch =
  bt_id :: string
  bt_state :: batch_state
  bt_version :: int
  bt_rejection_fact :: "batch_rejection option"
  bt_cancellation_intent :: "batch_cancellation_intent option"
  bt_basis :: "preexecution_basis option"
  bt_project_id :: "string option"
  bt_suite_revision_id :: "string option"
  bt_request_digest :: "digest option"
  bt_idempotency_scope :: "string option"
  bt_idempotency_key :: "string option"
  bt_created_at :: "datetime option"
  bt_priority_class :: string
  bt_deadline_at :: "datetime option"

definition batch_present :: "batch \<Rightarrow> bool list" where
  "batch_present b =
     [bt_project_id b \<noteq> None, bt_suite_revision_id b \<noteq> None, bt_request_digest b \<noteq> None,
      bt_idempotency_scope b \<noteq> None, bt_idempotency_key b \<noteq> None, bt_created_at b \<noteq> None]"

definition optional_check :: "('a \<Rightarrow> domain_error option) \<Rightarrow> 'a option \<Rightarrow> domain_error option" where
  "optional_check f v = (case v of None \<Rightarrow> None | Some x \<Rightarrow> f x)"

definition create_identity_checks :: "batch \<Rightarrow> domain_error option list" where
  "create_identity_checks b =
     (if \<not> list_ex id (batch_present b) then []
      else if \<not> list_all id (batch_present b) then [Some (DomainValidationError ''batch'' ''create_identity'' ''partial'')]
      else
       [optional_check (require_nonempty_string ''batch'' ''project_id'') (bt_project_id b),
        optional_check (require_nonempty_string ''batch'' ''suite_revision_id'') (bt_suite_revision_id b),
        optional_check (require_nonempty_string ''batch'' ''idempotency_scope'') (bt_idempotency_scope b),
        optional_check (require_nonempty_string ''batch'' ''idempotency_key'') (bt_idempotency_key b),
        optional_check (require_utc ''batch'' ''created_at'') (bt_created_at b)])"

definition expected_cancel_scope_kind :: "batch_state \<Rightarrow> batch_cancellation_scope_kind" where
  "expected_cancel_scope_kind st =
     (if st \<in> set batch_frozen_plan_cancel_states then CancelFrozenPlan else CancelPrePlan)"

definition pending_cancel_checks ::
  "string \<Rightarrow> batch_state \<Rightarrow> int \<Rightarrow> batch_cancellation_intent \<Rightarrow> domain_error option list" where
  "pending_cancel_checks batch_id st version intent =
     [reject_if (bci_batch_id intent \<noteq> batch_id \<or> st \<notin> set batch_prestart_cancel_states \<or>
          bci_source_batch_version intent + 1 \<noteq> version)
        (DomainValidationError ''batch'' ''cancellation_intent'' ''aggregate_mismatch''),
      reject_if (bcs_kind (bci_scope intent) \<noteq> expected_cancel_scope_kind st)
        (DomainValidationError ''batch_cancellation_intent'' ''scope'' ''source_phase_mismatch'')]"

definition cancel_basis_matches :: "batch_cancellation_scope \<Rightarrow> preexecution_basis \<Rightarrow> bool" where
  "cancel_basis_matches scope b =
     (if bcs_kind scope = CancelPrePlan
      then peb_scope_kind b = ScopePrePlan \<and> peb_preplan_scope_digest b = bcs_preplan_scope_digest scope
      else peb_scope_kind b = ScopePlannedUnmaterialized \<and> peb_manifest_digest b = bcs_manifest_digest scope \<and>
        peb_shard_plan_version b = bcs_shard_plan_version scope \<and>
        peb_shard_plan_digest b = bcs_shard_plan_digest scope \<and>
        peb_canonical_run_set_digest b = bcs_canonical_run_set_digest scope)"

definition rejection_basis_checks :: "batch \<Rightarrow> preexecution_basis \<Rightarrow> domain_error option list" where
  "rejection_basis_checks b basis =
     (let mismatch = DomainValidationError ''batch'' ''rejection_fact'' ''basis_mismatch'' in
      case bt_rejection_fact b of
        None \<Rightarrow> [Some mismatch]
      | Some r \<Rightarrow>
         [reject_if (bt_cancellation_intent b \<noteq> None \<or> brj_batch_id r \<noteq> bt_id b \<or>
            brj_source_batch_version r \<noteq> peb_source_batch_version basis) mismatch,
          reject_if_result (map_result (\<lambda>d. peb_rejection_fact_digest basis \<noteq> Some d) (batch_rejection_digest r)) mismatch,
          reject_if (Some (brj_stage r) \<noteq> rejection_stage_of_phase (peb_source_phase basis))
            (DomainValidationError ''batch_rejection'' ''stage'' ''source_phase_mismatch'')])"

definition cancellation_basis_checks :: "batch \<Rightarrow> preexecution_basis \<Rightarrow> domain_error option list" where
  "cancellation_basis_checks b basis =
     (let mismatch = DomainValidationError ''batch'' ''cancellation_intent'' ''basis_mismatch'' in
      case bt_cancellation_intent b of
        None \<Rightarrow> [Some mismatch]
      | Some i \<Rightarrow>
         [reject_if (bt_rejection_fact b \<noteq> None \<or> bci_batch_id i \<noteq> bt_id b \<or>
            bci_source_batch_version i \<noteq> peb_source_batch_version basis - 1) mismatch,
          reject_if_result (map_result (\<lambda>d. peb_cancellation_intent_digest basis \<noteq> Some d)
            (batch_cancellation_intent_digest i)) mismatch,
          reject_if (\<not> cancel_basis_matches (bci_scope i) basis)
            (DomainValidationError ''batch_preexecution_closure_basis'' ''scope'' ''cancellation_intent_mismatch'')])"

definition check_batch :: "batch \<Rightarrow> domain_error option" where
  "check_batch b = first_some (
     [reject_if (blank (bt_id b)) (DomainValidationError ''batch'' ''id'' ''invalid''),
      reject_if (bt_version b < 0) (DomainValidationError ''batch'' ''version'' ''invalid'')] @
     create_identity_checks b @
     [reject_if (blank (bt_priority_class b)) (DomainValidationError ''batch'' ''priority_class'' ''invalid''),
      optional_check (require_utc ''batch'' ''deadline_at'') (bt_deadline_at b)] @
     (case bt_basis b of
        None \<Rightarrow>
          [reject_if (bt_rejection_fact b \<noteq> None)
             (DomainValidationError ''batch'' ''preexecution_closure_basis'' ''required_for_rejection'')] @
          (case bt_cancellation_intent b of
             None \<Rightarrow> [] | Some i \<Rightarrow> pending_cancel_checks (bt_id b) (bt_state b) (bt_version b) i)
      | Some basis \<Rightarrow>
          [reject_if (peb_batch_id basis \<noteq> bt_id b \<or> peb_batch_outcome basis \<noteq> bt_state b \<or>
              peb_source_batch_version basis \<noteq> bt_version b - 1)
             (DomainValidationError ''batch'' ''preexecution_closure_basis'' ''aggregate_mismatch'')] @
          (if peb_terminal_kind basis = TerminalRejection then rejection_basis_checks b basis
           else cancellation_basis_checks b basis)))"

definition mk_batch :: "batch \<Rightarrow> batch result" where
  "mk_batch b = raise_or (check_batch b) b"

section \<open>Creation\<close>

definition batch_create :: "string \<Rightarrow> batch result" where
  "batch_create batch_id = mk_batch
     \<lparr>bt_id = batch_id, bt_state = BatchDraft, bt_version = 0, bt_rejection_fact = None,
      bt_cancellation_intent = None, bt_basis = None, bt_project_id = None, bt_suite_revision_id = None,
      bt_request_digest = None, bt_idempotency_scope = None, bt_idempotency_key = None, bt_created_at = None,
      bt_priority_class = ''background'', bt_deadline_at = None\<rparr>"

definition batch_open_for_suite ::
  "string \<Rightarrow> suite \<Rightarrow> digest \<Rightarrow> string \<Rightarrow> string \<Rightarrow> datetime \<Rightarrow> string option \<Rightarrow> string \<Rightarrow>
   datetime option \<Rightarrow> batch result" where
  "batch_open_for_suite batch_id s request_digest idempotency_scope idempotency_key created_at
     suite_revision_id priority_class deadline_at =
     bind_result (require_accepts_new_batch s) (\<lambda>_.
     let revision_id = (case suite_revision_id of None \<Rightarrow> su_current_revision_id s | Some r \<Rightarrow> r) in
     bind_result (suite_revision_of revision_id s) (\<lambda>_.
     bind_result (raise_or (first_some
       [require_nonempty_string ''batch'' ''id'' batch_id,
        require_nonempty_string ''batch'' ''idempotency_scope'' idempotency_scope,
        require_nonempty_string ''batch'' ''idempotency_key'' idempotency_key,
        require_utc ''batch'' ''created_at'' created_at]) ()) (\<lambda>_.
     mk_batch
       \<lparr>bt_id = batch_id, bt_state = BatchDraft, bt_version = 0, bt_rejection_fact = None,
        bt_cancellation_intent = None, bt_basis = None, bt_project_id = Some (su_project_id s),
        bt_suite_revision_id = Some revision_id, bt_request_digest = Some request_digest,
        bt_idempotency_scope = Some idempotency_scope, bt_idempotency_key = Some idempotency_key,
        bt_created_at = Some created_at, bt_priority_class = priority_class, bt_deadline_at = deadline_at\<rparr>)))"

text \<open>The \<open>assert\<close>s of the source hold by the all-or-none check of the create identity.\<close>

definition batch_resolve_create_replay :: "digest \<Rightarrow> batch \<Rightarrow> idempotency_resolution result" where
  "batch_resolve_create_replay request_digest b =
     (case (bt_request_digest b, bt_idempotency_scope b, bt_idempotency_key b) of
        (Some stored, Some scope, Some key) \<Rightarrow>
          idempotency_resolve request_digest (idempotency_create scope key stored 200 (bt_id b))
      | _ \<Rightarrow> Inl (DomainValidationError ''batch'' ''request_digest'' ''create_identity_missing''))"

section \<open>Commands\<close>

abbreviation batch_invalid_transition :: "batch \<Rightarrow> batch_state \<Rightarrow> int \<Rightarrow> domain_error" where
  "batch_invalid_transition b target expected \<equiv>
     InvalidTransition ''batch'' (bt_id b) (batch_state_value (bt_state b)) (batch_state_value target)
       (bt_version b) expected"

definition batch_transition :: "batch_state \<Rightarrow> int \<Rightarrow> batch \<Rightarrow> batch result" where
  "batch_transition target expected_version b =
     bind_result (ensure_expected_version ''batch'' (bt_id b) (bt_version b) expected_version) (\<lambda>_.
     if bt_cancellation_intent b \<noteq> None then Inl (batch_invalid_transition b target expected_version)
     else if target \<notin> set (batch_transitions (bt_state b))
     then Inl (batch_invalid_transition b target expected_version)
     else mk_batch (b\<lparr>bt_state := target, bt_version := bt_version b + 1\<rparr>))"

definition batch_cancel_fresh :: "batch_cancellation_intent \<Rightarrow> int \<Rightarrow> batch \<Rightarrow> batch result" where
  "batch_cancel_fresh intent expected_version b =
     (if bt_state b \<in> set batch_terminal_states
      then Inl (batch_invalid_transition b BatchCancelled expected_version)
      else bind_result (ensure_expected_version ''batch'' (bt_id b) (bt_version b) expected_version) (\<lambda>_.
      if bt_state b \<notin> set batch_prestart_cancel_states
      then Inl (batch_invalid_transition b BatchCancelled expected_version)
      else if bci_batch_id intent \<noteq> bt_id b \<or> bci_source_batch_version intent \<noteq> bt_version b
      then Inl (DomainValidationError ''batch_cancellation_intent'' ''source_batch'' ''mismatch'')
      else if bcs_kind (bci_scope intent) \<noteq> expected_cancel_scope_kind (bt_state b)
      then Inl (DomainValidationError ''batch_cancellation_intent'' ''scope'' ''source_phase_mismatch'')
      else mk_batch (b\<lparr>bt_version := bt_version b + 1, bt_cancellation_intent := Some intent\<rparr>)))"

definition batch_request_cancel :: "batch_cancellation_intent \<Rightarrow> int \<Rightarrow> batch \<Rightarrow> batch result" where
  "batch_request_cancel intent expected_version b =
     (case bt_cancellation_intent b of
        Some stored \<Rightarrow>
          (if bci_idempotency_key stored = bci_idempotency_key intent then
             bind_result (batch_cancellation_request_digest stored) (\<lambda>sd.
             bind_result (batch_cancellation_request_digest intent) (\<lambda>rd.
             if sd \<noteq> rd
             then Inl (IdempotencyConflict (''batch:'' @ bt_id b @ '':cancel'') (bci_idempotency_key intent) sd rd)
             else Inr b))
           else Inl (BatchCancellationConflict (bt_id b) (bci_idempotency_key stored) (bci_idempotency_key intent)))
      | None \<Rightarrow> batch_cancel_fresh intent expected_version b)"

definition build_preexecution_basis ::
  "batch_state \<Rightarrow> preexecution_terminal_kind \<Rightarrow> digest option \<Rightarrow> digest option \<Rightarrow> preexecution_snapshot \<Rightarrow>
   batch_state \<Rightarrow> preexecution_basis result" where
  "build_preexecution_basis source_phase kind rejection_digest cancellation_digest s outcome =
     bind_result (collect_results (map preexecution_scope_item_digest (pss_scope_items s))) (\<lambda>item_digests.
     let b = \<lparr>peb_batch_id = pss_batch_id s, peb_source_batch_version = pss_source_batch_version s,
       peb_source_phase = source_phase, peb_terminal_kind = kind, peb_rejection_fact_digest = rejection_digest,
       peb_cancellation_intent_digest = cancellation_digest, peb_scope_kind = pss_scope_kind s,
       peb_submission_digest = pss_submission_digest s, peb_preplan_scope_digest = pss_preplan_scope_digest s,
       peb_manifest_digest = pss_manifest_digest s, peb_shard_plan_version = pss_shard_plan_version s,
       peb_shard_plan_digest = pss_shard_plan_digest s,
       peb_canonical_run_set_digest = pss_canonical_run_set_digest s,
       peb_run_absence_digest = pss_run_absence_digest s,
       peb_execution_absence_digest = pss_execution_absence_digest s,
       peb_task_stop_fact_digests = pss_task_stop_fact_digests s, peb_scope_item_digests = item_digests,
       peb_item_coverage_proof_digest = pss_item_coverage_proof_digest s, peb_batch_outcome = outcome\<rparr>
     in raise_or (check_preexecution_basis b) b)"

definition snapshot_command_binding ::
  "preexecution_snapshot \<Rightarrow> preexecution_terminal_kind \<Rightarrow> digest \<Rightarrow> domain_error option" where
  "snapshot_command_binding s kind command_digest =
     reject_if (\<not> list_all (\<lambda>i. psi_terminal_kind i = kind \<and>
         (if kind = TerminalRejection then psi_rejection_fact_digest i = Some command_digest
          else psi_cancellation_intent_digest i = Some command_digest)) (pss_scope_items s))
       (DomainValidationError ''batch_preexecution_snapshot'' ''scope_items'' ''command_binding_mismatch'')"

definition rejection_basis :: "batch_state \<Rightarrow> batch_rejection \<Rightarrow> preexecution_snapshot \<Rightarrow> preexecution_basis result" where
  "rejection_basis source_phase rejection s =
     bind_result (batch_rejection_digest rejection) (\<lambda>d.
     bind_result (raise_or (snapshot_command_binding s TerminalRejection d) ()) (\<lambda>_.
     build_preexecution_basis source_phase TerminalRejection (Some d) None s BatchRejected))"

text \<open>A Batch with a rejection but no basis does not exist: its constructor raises.\<close>

definition batch_reject_replay ::
  "batch_rejection \<Rightarrow> batch_rejection \<Rightarrow> preexecution_snapshot \<Rightarrow> batch \<Rightarrow> batch result" where
  "batch_reject_replay stored rejection s b =
     (let scope = ''batch:'' @ bt_id b @ '':rejection'' in
     bind_result (batch_rejection_digest stored) (\<lambda>sd.
     bind_result (batch_rejection_digest rejection) (\<lambda>rd.
     if sd \<noteq> rd then Inl (IdempotencyConflict scope (brj_rejection_id rejection) sd rd)
     else case bt_basis b of
       None \<Rightarrow> Inl (DomainValidationError ''batch'' ''preexecution_closure_basis'' ''required_for_rejection'')
     | Some basis \<Rightarrow>
         bind_result (rejection_basis (peb_source_phase basis) rejection s) (\<lambda>candidate.
         bind_result (preexecution_basis_digest basis) (\<lambda>stored_digest.
         bind_result (preexecution_basis_digest candidate) (\<lambda>candidate_digest.
         if bt_state b = BatchRejected \<and> stored_digest = candidate_digest then Inr b
         else Inl (IdempotencyConflict scope (brj_rejection_id rejection) stored_digest candidate_digest)))))))"

definition batch_reject_fresh ::
  "batch_rejection \<Rightarrow> preexecution_snapshot \<Rightarrow> int \<Rightarrow> batch \<Rightarrow> batch result" where
  "batch_reject_fresh rejection s expected_version b =
     (if bt_state b \<in> set batch_terminal_states
      then Inl (batch_invalid_transition b BatchRejected expected_version)
      else bind_result (ensure_expected_version ''batch'' (bt_id b) (bt_version b) expected_version) (\<lambda>_.
      if bt_cancellation_intent b \<noteq> None then Inl (batch_invalid_transition b BatchRejected expected_version)
      else case rejection_stage_of_phase (bt_state b) of
        None \<Rightarrow> Inl (batch_invalid_transition b BatchRejected expected_version)
      | Some stage \<Rightarrow>
          (if brj_stage rejection \<noteq> stage
           then Inl (DomainValidationError ''batch_rejection'' ''stage'' ''source_phase_mismatch'')
           else if brj_batch_id rejection \<noteq> bt_id b \<or> pss_batch_id s \<noteq> bt_id b \<or>
             brj_source_batch_version rejection \<noteq> bt_version b \<or> pss_source_batch_version s \<noteq> bt_version b
           then Inl (DomainValidationError ''batch_rejection'' ''source_batch'' ''mismatch'')
           else if pss_scope_kind s \<noteq>
             (if bt_state b = BatchAwaitingAdmission then ScopePlannedUnmaterialized else ScopePrePlan)
           then Inl (DomainValidationError ''batch_preexecution_snapshot'' ''scope_kind'' ''source_phase_mismatch'')
           else bind_result (rejection_basis (bt_state b) rejection s) (\<lambda>basis.
           mk_batch (b\<lparr>bt_state := BatchRejected, bt_version := bt_version b + 1,
             bt_rejection_fact := Some rejection, bt_basis := Some basis\<rparr>)))))"

definition batch_reject_preexecution ::
  "batch_rejection \<Rightarrow> preexecution_snapshot \<Rightarrow> int \<Rightarrow> batch \<Rightarrow> batch result" where
  "batch_reject_preexecution rejection s expected_version b =
     (case bt_rejection_fact b of
        Some stored \<Rightarrow>
          (if brj_rejection_id stored = brj_rejection_id rejection
           then batch_reject_replay stored rejection s b
           else batch_reject_fresh rejection s expected_version b)
      | None \<Rightarrow> batch_reject_fresh rejection s expected_version b)"

definition cancel_snapshot_matches :: "batch_cancellation_scope \<Rightarrow> preexecution_snapshot \<Rightarrow> bool" where
  "cancel_snapshot_matches scope s =
     (if bcs_kind scope = CancelPrePlan
      then pss_scope_kind s = ScopePrePlan \<and> pss_preplan_scope_digest s = bcs_preplan_scope_digest scope
      else pss_scope_kind s = ScopePlannedUnmaterialized \<and> pss_manifest_digest s = bcs_manifest_digest scope \<and>
        pss_shard_plan_version s = bcs_shard_plan_version scope \<and>
        pss_shard_plan_digest s = bcs_shard_plan_digest scope \<and>
        pss_canonical_run_set_digest s = bcs_canonical_run_set_digest scope)"

definition cancellation_basis ::
  "batch_state \<Rightarrow> batch_cancellation_intent \<Rightarrow> preexecution_snapshot \<Rightarrow> preexecution_basis result" where
  "cancellation_basis source_phase intent s =
     bind_result (batch_cancellation_intent_digest intent) (\<lambda>d.
     bind_result (raise_or (snapshot_command_binding s TerminalPrestartCancel d) ()) (\<lambda>_.
     build_preexecution_basis source_phase TerminalPrestartCancel None (Some d) s BatchCancelled))"

definition batch_cancel_replay ::
  "batch_cancellation_intent \<Rightarrow> preexecution_basis \<Rightarrow> preexecution_snapshot \<Rightarrow> batch \<Rightarrow> batch result" where
  "batch_cancel_replay intent basis s b =
     bind_result (cancellation_basis (peb_source_phase basis) intent s) (\<lambda>candidate.
     bind_result (preexecution_basis_digest basis) (\<lambda>stored_digest.
     bind_result (preexecution_basis_digest candidate) (\<lambda>candidate_digest.
     if bt_state b = BatchCancelled \<and> stored_digest = candidate_digest then Inr b
     else Inl (IdempotencyConflict (''batch:'' @ bt_id b @ '':preexecution-cancel'') (bci_idempotency_key intent)
            stored_digest candidate_digest))))"

definition batch_cancel_close :: "preexecution_snapshot \<Rightarrow> int \<Rightarrow> batch \<Rightarrow> batch result" where
  "batch_cancel_close s expected_version b =
     (if bt_state b \<in> set batch_terminal_states
      then Inl (batch_invalid_transition b BatchCancelled expected_version)
      else bind_result (ensure_expected_version ''batch'' (bt_id b) (bt_version b) expected_version) (\<lambda>_.
      case bt_cancellation_intent b of
        None \<Rightarrow> Inl (batch_invalid_transition b BatchCancelled expected_version)
      | Some intent \<Rightarrow>
          (if bt_state b \<notin> set batch_prestart_cancel_states
           then Inl (batch_invalid_transition b BatchCancelled expected_version)
           else if pss_batch_id s \<noteq> bt_id b \<or> pss_source_batch_version s \<noteq> bt_version b
           then Inl (DomainValidationError ''batch_preexecution_snapshot'' ''source_batch'' ''mismatch'')
           else if \<not> cancel_snapshot_matches (bci_scope intent) s
           then Inl (DomainValidationError ''batch_preexecution_snapshot'' ''scope'' ''cancellation_intent_mismatch'')
           else bind_result (cancellation_basis (bt_state b) intent s) (\<lambda>basis.
           mk_batch (b\<lparr>bt_state := BatchCancelled, bt_version := bt_version b + 1, bt_basis := Some basis\<rparr>)))))"

definition batch_finalize_unmaterialized_cancel :: "preexecution_snapshot \<Rightarrow> int \<Rightarrow> batch \<Rightarrow> batch result" where
  "batch_finalize_unmaterialized_cancel s expected_version b =
     (case (bt_cancellation_intent b, bt_basis b) of
        (Some intent, Some basis) \<Rightarrow>
          (if peb_terminal_kind basis = TerminalPrestartCancel
           then batch_cancel_replay intent basis s b
           else batch_cancel_close s expected_version b)
      | _ \<Rightarrow> batch_cancel_close s expected_version b)"

end
