(* ===== verification/Batch_Resolution.thy ===== *)
theory Batch_Resolution
  imports Run_Basis Batch_Commands
begin

text \<open>
  Item resolutions of a Batch (\<open>src/qarunner/domain/batch_finalization.py\<close>, first part): every item of
  the Manifest is resolved by the basis of one closed Run or by a fact that it was not executed; the
  ordered set of them, its counts, the success policy and the truth table of the Batch outcome.
\<close>

section \<open>Counts, policy and outcome\<close>

record resolution_counts =
  ct_original_denominator :: int
  ct_passed :: int
  ct_test_failed :: int
  ct_infra_failed :: int
  ct_cancelled :: int
  ct_unknown_lineage :: int
  ct_not_executed :: int

definition check_resolution_counts :: "resolution_counts \<Rightarrow> domain_error option" where
  "check_resolution_counts c =
     (let e = ''batch_resolution_counts'' in first_some
     [rf_nonnegative e ''original_denominator'' (ct_original_denominator c),
      rf_nonnegative e ''passed_count'' (ct_passed c),
      rf_nonnegative e ''test_failed_count'' (ct_test_failed c),
      rf_nonnegative e ''infra_failed_count'' (ct_infra_failed c),
      rf_nonnegative e ''cancelled_count'' (ct_cancelled c),
      rf_nonnegative e ''unknown_lineage_count'' (ct_unknown_lineage c),
      rf_nonnegative e ''not_executed_count'' (ct_not_executed c),
      reject_if (ct_original_denominator c = 0) (DomainValidationError e ''original_denominator'' ''empty''),
      reject_if (ct_passed c + ct_test_failed c + ct_infra_failed c + ct_cancelled c + ct_unknown_lineage c +
          ct_not_executed c \<noteq> ct_original_denominator c)
        (DomainValidationError e ''counts'' ''count_mismatch'')])"

record success_policy =
  po_schema_version :: string
  po_policy_id :: string
  po_policy_version :: int
  po_suite_id :: string
  po_max_test_failed_items :: int
  po_allow_authorized_retry_pass :: bool
  po_allowed_test_failure_selector_digest :: "digest option"
  po_result_mapping_schema :: string
  po_result_mapping_version :: int
  po_result_mapping_digest :: digest
  po_approval_record_digest :: digest

definition check_success_policy :: "success_policy \<Rightarrow> domain_error option" where
  "check_success_policy p =
     (let e = ''batch_success_policy'' in first_some
     [reject_if (po_schema_version p \<noteq> ''qep.batch-success-policy.v1'')
        (DomainValidationError e ''schema_version'' ''unknown''),
      rf_string e ''policy_id'' (po_policy_id p),
      rf_string e ''suite_id'' (po_suite_id p),
      rf_string e ''result_mapping_schema'' (po_result_mapping_schema p),
      rf_positive e ''policy_version'' (po_policy_version p),
      rf_nonnegative e ''max_test_failed_items'' (po_max_test_failed_items p),
      rf_positive e ''result_mapping_version'' (po_result_mapping_version p)])"

definition success_policy_digest :: "success_policy \<Rightarrow> digest result" where
  "success_policy_digest p = canonical_digest (po_schema_version p)
     (JObj [(''policy_id'', JStr (po_policy_id p)),
            (''policy_version'', JInt (po_policy_version p)),
            (''suite_id'', JStr (po_suite_id p)),
            (''max_test_failed_items'', JInt (po_max_test_failed_items p)),
            (''allow_authorized_retry_pass'', JBool (po_allow_authorized_retry_pass p)),
            (''allowed_test_failure_selector_digest'', json_opt digest_json (po_allowed_test_failure_selector_digest p)),
            (''result_mapping_schema'', JStr (po_result_mapping_schema p)),
            (''result_mapping_version'', JInt (po_result_mapping_version p)),
            (''result_mapping_digest'', digest_json (po_result_mapping_digest p)),
            (''approval_record_digest'', digest_json (po_approval_record_digest p))])"

record outcome_evaluation =
  oe_outcome :: batch_state
  oe_counts :: resolution_counts
  oe_policy_digest :: digest
  oe_suite_id :: string
  oe_intent_digest :: "digest option"

abbreviation evaluation_invalid :: "string \<Rightarrow> string \<Rightarrow> domain_error" where
  "evaluation_invalid field reason \<equiv> DomainValidationError ''batch_outcome_evaluation'' field reason"

definition check_outcome_evaluation :: "outcome_evaluation \<Rightarrow> domain_error option" where
  "check_outcome_evaluation v = first_some
     [reject_if (oe_outcome v \<notin> {BatchSucceeded, BatchFailed, BatchPartial, BatchCancelled})
        (evaluation_invalid ''outcome'' ''invalid''),
      reject_if (blank (oe_suite_id v)) (evaluation_invalid ''suite_id'' ''invalid'')]"

definition evaluation_digest :: "outcome_evaluation \<Rightarrow> digest result" where
  "evaluation_digest v = canonical_digest ''qep.batch-outcome-evaluation.v1''
     (JObj [(''outcome'', JStr (batch_state_value (oe_outcome v))),
            (''original_denominator'', JInt (ct_original_denominator (oe_counts v))),
            (''passed_count'', JInt (ct_passed (oe_counts v))),
            (''test_failed_count'', JInt (ct_test_failed (oe_counts v))),
            (''infra_failed_count'', JInt (ct_infra_failed (oe_counts v))),
            (''cancelled_count'', JInt (ct_cancelled (oe_counts v))),
            (''unknown_lineage_count'', JInt (ct_unknown_lineage (oe_counts v))),
            (''not_executed_count'', JInt (ct_not_executed (oe_counts v))),
            (''policy_digest'', digest_json (oe_policy_digest v)),
            (''suite_id'', JStr (oe_suite_id v)),
            (''batch_cancellation_intent_digest'', json_opt digest_json (oe_intent_digest v))])"

definition batch_outcome_of :: "resolution_counts \<Rightarrow> success_policy \<Rightarrow> batch_state" where
  "batch_outcome_of c p =
     (let cancel_scoped = ct_cancelled c + ct_not_executed c in
      if cancel_scoped = ct_original_denominator c \<and>
         ct_passed c + ct_test_failed c + ct_infra_failed c + ct_unknown_lineage c = 0
      then BatchCancelled
      else if 0 < cancel_scoped + ct_unknown_lineage c then BatchPartial
      else if 0 < ct_infra_failed c \<or> po_max_test_failed_items p < ct_test_failed c then BatchFailed
      else BatchSucceeded)"

definition evaluate_batch_outcome ::
  "resolution_counts \<Rightarrow> success_policy \<Rightarrow> string \<Rightarrow> digest option \<Rightarrow> outcome_evaluation result" where
  "evaluate_batch_outcome c p suite_id intent_digest =
     bind_result (raise_or (first_some
       [reject_if (blank suite_id) (evaluation_invalid ''suite_id'' ''invalid''),
        reject_if (suite_id \<noteq> po_suite_id p) (evaluation_invalid ''suite_id'' ''policy_mismatch''),
        reject_if (po_allow_authorized_retry_pass p \<or> po_allowed_test_failure_selector_digest p \<noteq> None)
          (evaluation_invalid ''policy'' ''unsupported_in_h1''),
        reject_if (ct_cancelled c + ct_not_executed c \<noteq> 0 \<and> intent_digest = None)
          (evaluation_invalid ''cancellation_intent'' ''required'')]) ()) (\<lambda>_.
     bind_result (success_policy_digest p) (\<lambda>policy_digest.
     let v = \<lparr>oe_outcome = batch_outcome_of c p, oe_counts = c, oe_policy_digest = policy_digest,
              oe_suite_id = suite_id, oe_intent_digest = intent_digest\<rparr>
     in raise_or (check_outcome_evaluation v) v))"

section \<open>References\<close>

record terminal_run_ref =
  tr_run_id :: string
  tr_source_run_version :: int
  tr_run_basis_digest :: digest
  tr_run_outcome :: run_outcome
  tr_run_item_set_digest :: digest
  tr_original_resolution_set_digest :: digest
  tr_effective_resolution_set_digest :: digest
  tr_item_resolution_set_digest :: digest

definition terminal_ref_from_basis :: "run_basis \<Rightarrow> terminal_run_ref result" where
  "terminal_ref_from_basis b =
     bind_result (run_basis_digest b) (\<lambda>d.
     raise_or (first_some
       [rf_string ''batch_terminal_run_ref'' ''run_id'' (fb_run_id b),
        rf_nonnegative ''batch_terminal_run_ref'' ''source_run_version'' (fb_source_run_version b)])
       \<lparr>tr_run_id = fb_run_id b, tr_source_run_version = fb_source_run_version b, tr_run_basis_digest = d,
        tr_run_outcome = fb_outcome b, tr_run_item_set_digest = fb_run_item_set_digest b,
        tr_original_resolution_set_digest = fb_original_resolution_set_digest b,
        tr_effective_resolution_set_digest = fb_effective_resolution_set_digest b,
        tr_item_resolution_set_digest = fb_item_resolution_set_digest b\<rparr>)"

definition terminal_run_ref_json :: "terminal_run_ref \<Rightarrow> json" where
  "terminal_run_ref_json r = JObj
     [(''run_id'', JStr (tr_run_id r)),
      (''source_run_version'', JInt (tr_source_run_version r)),
      (''run_basis_digest'', digest_json (tr_run_basis_digest r)),
      (''run_outcome'', JStr (run_outcome_value (tr_run_outcome r))),
      (''run_item_set_digest'', digest_json (tr_run_item_set_digest r)),
      (''original_resolution_set_digest'', digest_json (tr_original_resolution_set_digest r)),
      (''effective_resolution_set_digest'', digest_json (tr_effective_resolution_set_digest r)),
      (''item_resolution_set_digest'', digest_json (tr_item_resolution_set_digest r))]"

definition scope_item_schema :: string where
  "scope_item_schema = ''qep.batch-cancellation-scope-item.v1''"

record non_run_ref =
  nr_item_key :: run_item_key
  nr_fact_schema :: string
  nr_fact_digest :: digest

definition check_non_run_ref :: "non_run_ref \<Rightarrow> domain_error option" where
  "check_non_run_ref r = reject_if (nr_fact_schema r \<noteq> scope_item_schema)
     (DomainValidationError ''batch_non_run_resolution_ref'' ''not_executed_fact_schema'' ''unknown'')"

definition non_run_ref_from_scope_item :: "batch_cancellation_scope_item \<Rightarrow> non_run_ref result" where
  "non_run_ref_from_scope_item f =
     (if csi_resolution_kind f \<noteq> NotExecuted
      then Inl (DomainValidationError ''batch_non_run_resolution_ref'' ''fact'' ''not_not_executed'')
      else bind_result (scope_item_digest f) (\<lambda>d.
        let r = \<lparr>nr_item_key = csi_manifest_item_key f, nr_fact_schema = scope_item_schema, nr_fact_digest = d\<rparr>
        in raise_or (check_non_run_ref r) r))"

definition non_run_ref_json :: "non_run_ref \<Rightarrow> json" where
  "non_run_ref_json r = JObj
     [(''item_key'', run_item_key_json (nr_item_key r)),
      (''not_executed_fact_schema'', JStr (nr_fact_schema r)),
      (''not_executed_fact_digest'', digest_json (nr_fact_digest r))]"

record unknown_fact_ref =
  uf_item_key :: run_item_key
  uf_source_item_resolution_digest :: digest
  uf_unknown_lineage_digest :: digest
  uf_adjudication_digest :: digest

definition unknown_ref_from_resolution :: "run_item_resolution \<Rightarrow> unknown_fact_ref result" where
  "unknown_ref_from_resolution r =
     (case (ir_unknown_lineage_digest r, er_adjudication_digest (ir_effective r)) of
        (Some lineage, Some adjudication) \<Rightarrow>
          map_result (\<lambda>d. \<lparr>uf_item_key = ir_item_key r, uf_source_item_resolution_digest = d,
            uf_unknown_lineage_digest = lineage, uf_adjudication_digest = adjudication\<rparr>) (item_resolution_digest r)
      | _ \<Rightarrow> Inl (DomainValidationError ''batch_unknown_fact_ref'' ''resolution'' ''not_unknown_lineage''))"

definition unknown_fact_ref_json :: "unknown_fact_ref \<Rightarrow> json" where
  "unknown_fact_ref_json r = JObj
     [(''item_key'', run_item_key_json (uf_item_key r)),
      (''source_item_resolution_digest'', digest_json (uf_source_item_resolution_digest r)),
      (''unknown_lineage_digest'', digest_json (uf_unknown_lineage_digest r)),
      (''adjudication_digest'', digest_json (uf_adjudication_digest r))]"

section \<open>The resolution of one item\<close>

datatype item_source_kind = SourceRunResolution | SourceNotExecuted

fun item_source_value :: "item_source_kind \<Rightarrow> string" where
  "item_source_value SourceRunResolution = ''run_resolution''"
| "item_source_value SourceNotExecuted = ''not_executed''"

datatype item_classification =
    ItemPassed | ItemTestFailed | ItemInfraFailed | ItemCancelled | ItemUnknownLineage | ItemNotExecuted

fun classification_value :: "item_classification \<Rightarrow> string" where
  "classification_value ItemPassed = ''passed''"
| "classification_value ItemTestFailed = ''test_failed''"
| "classification_value ItemInfraFailed = ''infra_failed''"
| "classification_value ItemCancelled = ''cancelled''"
| "classification_value ItemUnknownLineage = ''unknown_lineage''"
| "classification_value ItemNotExecuted = ''not_executed''"

text \<open>\<open>BatchItemClassification(aggregation_class.value)\<close>.\<close>

fun classification_of :: "item_aggregation_class \<Rightarrow> item_classification" where
  "classification_of ClassPassed = ItemPassed"
| "classification_of ClassTestFailed = ItemTestFailed"
| "classification_of ClassInfraFailed = ItemInfraFailed"
| "classification_of ClassCancelled = ItemCancelled"
| "classification_of ClassUnknownLineage = ItemUnknownLineage"

record batch_item =
  bi_item_key :: run_item_key
  bi_source_kind :: item_source_kind
  bi_source_run_id :: "string option"
  bi_source_run_version :: "int option"
  bi_source_run_basis_digest :: "digest option"
  bi_source_set_digest :: "digest option"
  bi_source_item_digest :: "digest option"
  bi_not_executed_fact_schema :: "string option"
  bi_not_executed_fact_digest :: "digest option"
  bi_cancellation_scope_item_digest :: "digest option"
  bi_classification :: item_classification

definition check_batch_item :: "batch_item \<Rightarrow> domain_error option" where
  "check_batch_item i =
     (let e = ''batch_item_resolution'' in first_some
     (if bi_source_kind i = SourceRunResolution then
       [reject_if (case bi_source_run_id i of None \<Rightarrow> True | Some r \<Rightarrow> blank r)
          (DomainValidationError e ''source_run_id'' ''required''),
        rf_some rf_nonnegative e ''source_run_version'' (bi_source_run_version i),
        reject_if (bi_source_run_basis_digest i = None \<or> bi_source_set_digest i = None \<or> bi_source_item_digest i = None)
          (DomainValidationError e ''run_resolution_source'' ''invalid''),
        reject_if (bi_not_executed_fact_schema i \<noteq> None \<or> bi_not_executed_fact_digest i \<noteq> None \<or>
            bi_cancellation_scope_item_digest i \<noteq> None)
          (DomainValidationError e ''not_executed_source'' ''must_be_null''),
        reject_if (bi_classification i = ItemNotExecuted) (DomainValidationError e ''classification'' ''source_mismatch'')]
      else
       [reject_if (bi_source_run_id i \<noteq> None \<or> bi_source_run_version i \<noteq> None \<or>
            bi_source_run_basis_digest i \<noteq> None \<or> bi_source_set_digest i \<noteq> None \<or> bi_source_item_digest i \<noteq> None)
          (DomainValidationError e ''run_resolution_source'' ''must_be_null''),
        reject_if ((case bi_not_executed_fact_schema i of None \<Rightarrow> True | Some s \<Rightarrow> blank s) \<or>
            bi_not_executed_fact_digest i = None \<or> bi_cancellation_scope_item_digest i = None)
          (DomainValidationError e ''not_executed_source'' ''invalid''),
        reject_if (bi_not_executed_fact_schema i \<noteq> Some scope_item_schema)
          (DomainValidationError e ''not_executed_fact_schema'' ''unknown''),
        reject_if (bi_not_executed_fact_digest i \<noteq> bi_cancellation_scope_item_digest i)
          (DomainValidationError e ''not_executed_source'' ''digest_mismatch''),
        reject_if (bi_classification i \<noteq> ItemNotExecuted) (DomainValidationError e ''classification'' ''source_mismatch'')]))"

definition mk_batch_item :: "batch_item \<Rightarrow> batch_item result" where
  "mk_batch_item i = raise_or (check_batch_item i) i"

definition batch_item_not_executed :: "batch_cancellation_scope_item \<Rightarrow> batch_item result" where
  "batch_item_not_executed f =
     (if csi_resolution_kind f \<noteq> NotExecuted
      then Inl (DomainValidationError ''batch_item_resolution'' ''fact'' ''not_not_executed'')
      else bind_result (scope_item_digest f) (\<lambda>d. mk_batch_item
        \<lparr>bi_item_key = csi_manifest_item_key f, bi_source_kind = SourceNotExecuted, bi_source_run_id = None,
         bi_source_run_version = None, bi_source_run_basis_digest = None, bi_source_set_digest = None,
         bi_source_item_digest = None, bi_not_executed_fact_schema = Some scope_item_schema,
         bi_not_executed_fact_digest = Some d, bi_cancellation_scope_item_digest = Some d,
         bi_classification = ItemNotExecuted\<rparr>))"

text \<open>
  The disjunction of \<open>from_run_resolution\<close>, left to right; the set digests are computed when it
  reaches them and may raise.
\<close>

definition basis_set_mismatch :: "run_basis \<Rightarrow> run_resolution_set \<Rightarrow> domain_error option" where
  "basis_set_mismatch b s =
     (let mismatch = DomainValidationError ''batch_item_resolution'' ''resolution_set'' ''basis_mismatch'';
          differs = (\<lambda>d r. reject_if_result (map_result (\<lambda>x. d \<noteq> x) r) mismatch) in first_some
     [reject_if (fb_batch_id b \<noteq> rs_batch_id s \<or> fb_run_id b \<noteq> rs_run_id s \<or>
        fb_source_run_version b \<noteq> rs_source_run_version s \<or> fb_manifest_digest b \<noteq> rs_manifest_digest s \<or>
        fb_shard_plan_digest b \<noteq> rs_shard_plan_digest s \<or> fb_run_item_set_digest b \<noteq> rs_run_item_set_digest s) mismatch,
      differs (fb_item_resolution_set_digest b) (resolution_set_digest s),
      differs (fb_original_resolution_set_digest b) (original_resolution_set_digest s),
      differs (fb_effective_resolution_set_digest b) (effective_resolution_set_digest s),
      reject_if (fb_item_count b \<noteq> int (length (rs_entries s)) \<or> fb_outcome b \<noteq> audit_outcome s \<or>
        fb_attempt_chain_digest b \<noteq> (if fb_terminal_input_kind b = InputPrestartCancel then None
           else Some (rs_attempt_chain_digest s)) \<or>
        fb_retry_chain_digest b \<noteq> rs_retry_chain_digest s \<or>
        fb_adjudication_chain_digest b \<noteq> rs_adjudication_chain_digest s) mismatch])"

fun filter_result :: "('a \<Rightarrow> bool result) \<Rightarrow> 'a list \<Rightarrow> 'a list result" where
  "filter_result p [] = Inr []"
| "filter_result p (x # xs) =
     bind_result (p x) (\<lambda>keep. map_result (\<lambda>ys. if keep then x # ys else ys) (filter_result p xs))"

definition entry_matches :: "run_item_resolution \<Rightarrow> run_item_resolution \<Rightarrow> bool result" where
  "entry_matches r entry =
     (if ir_item_key entry \<noteq> ir_item_key r then Inr False
      else bind_result (item_resolution_digest entry) (\<lambda>d.
        map_result (\<lambda>d'. d = d') (item_resolution_digest r)))"

definition batch_item_from_run :: "run_basis \<Rightarrow> run_resolution_set \<Rightarrow> run_item_resolution \<Rightarrow> batch_item result" where
  "batch_item_from_run b s r =
     bind_result (raise_or (basis_set_mismatch b s) ()) (\<lambda>_.
     bind_result (filter_result (entry_matches r) (rs_entries s)) (\<lambda>matching.
     if matching \<noteq> [r] then Inl (DomainValidationError ''batch_item_resolution'' ''resolution'' ''not_in_resolution_set'')
     else bind_result (run_basis_digest b) (\<lambda>basis_digest.
     bind_result (resolution_set_digest s) (\<lambda>set_digest.
     bind_result (item_resolution_digest r) (\<lambda>item_digest.
     mk_batch_item
       \<lparr>bi_item_key = ir_item_key r, bi_source_kind = SourceRunResolution, bi_source_run_id = Some (rs_run_id s),
        bi_source_run_version = Some (rs_source_run_version s), bi_source_run_basis_digest = Some basis_digest,
        bi_source_set_digest = Some set_digest, bi_source_item_digest = Some item_digest,
        bi_not_executed_fact_schema = None, bi_not_executed_fact_digest = None,
        bi_cancellation_scope_item_digest = None,
        bi_classification = classification_of (ir_aggregation_class r)\<rparr>)))))"

definition batch_item_members :: "batch_item \<Rightarrow> (string \<times> json) list" where
  "batch_item_members i =
     [(''item_key'', run_item_key_json (bi_item_key i)),
      (''source_kind'', JStr (item_source_value (bi_source_kind i))),
      (''source_run_id'', json_opt JStr (bi_source_run_id i)),
      (''source_run_version'', json_opt JInt (bi_source_run_version i)),
      (''source_run_basis_digest'', json_opt digest_json (bi_source_run_basis_digest i)),
      (''source_run_item_resolution_set_digest'', json_opt digest_json (bi_source_set_digest i)),
      (''source_item_resolution_digest'', json_opt digest_json (bi_source_item_digest i)),
      (''not_executed_fact_schema'', json_opt JStr (bi_not_executed_fact_schema i)),
      (''not_executed_fact_digest'', json_opt digest_json (bi_not_executed_fact_digest i)),
      (''cancellation_scope_item_digest'', json_opt digest_json (bi_cancellation_scope_item_digest i)),
      (''classification'', JStr (classification_value (bi_classification i)))]"

definition batch_item_digest :: "batch_item \<Rightarrow> digest result" where
  "batch_item_digest i = canonical_digest ''qep.batch-item-resolution-set.v1''
     (JObj ((''projection_kind'', JStr ''item'') # batch_item_members i))"

section \<open>The resolution set of a Batch\<close>

record batch_item_set =
  bs_batch_id :: string
  bs_source_batch_version :: int
  bs_manifest_id :: string
  bs_manifest_digest :: digest
  bs_shard_plan_id :: string
  bs_shard_plan_version :: int
  bs_shard_plan_digest :: digest
  bs_canonical_run_set_digest :: digest
  bs_expected_item_keys :: "run_item_key list"
  bs_entries :: "batch_item list"

text \<open>
  The loop over the entries with its four dictionaries: the source of every Run, the Run that owns a
  basis digest or a set digest (\<open>setdefault\<close> keeps the first), and the item digests seen.
\<close>

definition setdefault :: "('k \<rightharpoonup> 'v) \<Rightarrow> 'k \<Rightarrow> 'v \<Rightarrow> ('k \<rightharpoonup> 'v) \<times> 'v" where
  "setdefault m k v = (case m k of None \<Rightarrow> (m(k \<mapsto> v), v) | Some w \<Rightarrow> (m, w))"

type_synonym run_source = "int option \<times> digest option \<times> digest option"

fun run_source_scan ::
  "(string option \<rightharpoonup> run_source) \<Rightarrow> (digest option \<rightharpoonup> string option) \<Rightarrow> (digest option \<rightharpoonup> string option) \<Rightarrow>
   digest option set \<Rightarrow> batch_item list \<Rightarrow> domain_error option" where
  "run_source_scan sources basis_owners set_owners item_digests [] = None"
| "run_source_scan sources basis_owners set_owners item_digests (i # is) =
     (if bi_source_kind i \<noteq> SourceRunResolution then run_source_scan sources basis_owners set_owners item_digests is
      else
        let invalid = DomainValidationError ''batch_item_resolution_set'' ''entries'';
            run_id = bi_source_run_id i;
            source = (bi_source_run_version i, bi_source_run_basis_digest i, bi_source_set_digest i);
            (sources', prior) = setdefault sources run_id source;
            (basis_owners', basis_owner) = setdefault basis_owners (bi_source_run_basis_digest i) run_id;
            (set_owners', set_owner) = setdefault set_owners (bi_source_set_digest i) run_id
        in if prior \<noteq> source then Some (invalid ''run_source_incoherent'')
           else if basis_owner \<noteq> run_id \<or> set_owner \<noteq> run_id \<or> bi_source_item_digest i \<in> item_digests
           then Some (invalid ''run_source_overlap'')
           else run_source_scan sources' basis_owners' set_owners' (insert (bi_source_item_digest i) item_digests) is)"

definition check_batch_item_set :: "batch_item_set \<Rightarrow> domain_error option" where
  "check_batch_item_set s =
     (let e = ''batch_item_resolution_set''; keys = map bi_item_key (bs_entries s); expected = bs_expected_item_keys s;
          foreign = list_ex (\<lambda>k. rk_manifest_id k \<noteq> bs_manifest_id s) in first_some
     [rf_string e ''batch_id'' (bs_batch_id s),
      rf_string e ''manifest_id'' (bs_manifest_id s),
      rf_string e ''shard_plan_id'' (bs_shard_plan_id s),
      rf_nonnegative e ''source_batch_version'' (bs_source_batch_version s),
      rf_nonnegative e ''shard_plan_version'' (bs_shard_plan_version s),
      reject_if (bs_entries s = []) (DomainValidationError e ''entries'' ''invalid''),
      reject_if (expected = []) (DomainValidationError e ''expected_item_keys'' ''invalid''),
      reject_if (\<not> distinct expected) (DomainValidationError e ''expected_item_keys'' ''duplicate_key''),
      reject_if (expected \<noteq> sort_key key_order expected) (DomainValidationError e ''expected_item_keys'' ''not_ordered''),
      reject_if (foreign expected) (DomainValidationError e ''expected_item_keys'' ''manifest_mismatch''),
      reject_if (foreign keys) (DomainValidationError e ''entries'' ''manifest_mismatch''),
      reject_if (\<not> distinct keys) (DomainValidationError e ''entries'' ''duplicate_or_overlapping_key''),
      reject_if (keys \<noteq> sort_key key_order keys) (DomainValidationError e ''entries'' ''not_ordered''),
      reject_if (keys \<noteq> expected) (DomainValidationError e ''entries'' ''manifest_coverage_mismatch''),
      run_source_scan Map.empty Map.empty Map.empty {} (bs_entries s)])"

definition batch_item_set_build ::
  "run_item_key list \<Rightarrow> batch_item list \<Rightarrow> batch_item_set \<Rightarrow> batch_item_set result" where
  "batch_item_set_build expected entries envelope =
     (let e = ''batch_item_resolution_set''; entry_keys = map bi_item_key entries;
          s = envelope\<lparr>bs_expected_item_keys := sort_key key_order expected,
                bs_entries := sort_key (\<lambda>i. key_order (bi_item_key i)) entries\<rparr> in
      bind_result (raise_or (first_some
        [reject_if (expected = []) (DomainValidationError e ''expected_item_keys'' ''invalid''),
         reject_if (\<not> distinct expected) (DomainValidationError e ''expected_item_keys'' ''duplicate_key''),
         reject_if (\<not> distinct entry_keys) (DomainValidationError e ''entries'' ''duplicate_or_overlapping_key''),
         reject_if (set entry_keys \<noteq> set expected) (DomainValidationError e ''entries'' ''manifest_coverage_mismatch'')]) ())
      (\<lambda>_. raise_or (check_batch_item_set s) s))"

definition class_count :: "item_classification \<Rightarrow> batch_item list \<Rightarrow> int" where
  "class_count c items = int (length (filter (\<lambda>i. bi_classification i = c) items))"

definition counts_of :: "batch_item_set \<Rightarrow> resolution_counts" where
  "counts_of s =
     \<lparr>ct_original_denominator = int (length (bs_entries s)),
      ct_passed = class_count ItemPassed (bs_entries s),
      ct_test_failed = class_count ItemTestFailed (bs_entries s),
      ct_infra_failed = class_count ItemInfraFailed (bs_entries s),
      ct_cancelled = class_count ItemCancelled (bs_entries s),
      ct_unknown_lineage = class_count ItemUnknownLineage (bs_entries s),
      ct_not_executed = class_count ItemNotExecuted (bs_entries s)\<rparr>"

text \<open>The property \<open>counts\<close> builds a validated \<open>BatchResolutionCounts\<close>; the constructor never raises
  on a set with entries.\<close>

lemma sum_of_classes:
  "class_count ItemPassed is + class_count ItemTestFailed is + class_count ItemInfraFailed is +
   class_count ItemCancelled is + class_count ItemUnknownLineage is + class_count ItemNotExecuted is = int (length is)"
proof (induction "is")
  case (Cons i "is")
  then show ?case by (cases "bi_classification i") (simp_all add: class_count_def)
qed (simp add: class_count_def)

lemma class_count_nonneg [simp]: "0 \<le> class_count c is"
  by (simp add: class_count_def)

lemma class_count_zero: "class_count c is = 0 \<longleftrightarrow> (\<forall>i \<in> set is. bi_classification i \<noteq> c)"
  by (simp add: class_count_def filter_empty_conv)

lemma counts_valid: "bs_entries s \<noteq> [] \<Longrightarrow> check_resolution_counts (counts_of s) = None"
  using sum_of_classes [of "bs_entries s"] by (simp add: check_resolution_counts_def counts_of_def Let_def result_simps)

definition batch_item_set_json :: "batch_item_set \<Rightarrow> digest list \<Rightarrow> json" where
  "batch_item_set_json s digests = JObj
     [(''batch_id'', JStr (bs_batch_id s)),
      (''source_batch_version'', JInt (bs_source_batch_version s)),
      (''manifest_id'', JStr (bs_manifest_id s)),
      (''manifest_digest'', digest_json (bs_manifest_digest s)),
      (''shard_plan_id'', JStr (bs_shard_plan_id s)),
      (''shard_plan_version'', JInt (bs_shard_plan_version s)),
      (''shard_plan_digest'', digest_json (bs_shard_plan_digest s)),
      (''canonical_run_set_digest'', digest_json (bs_canonical_run_set_digest s)),
      (''entries'', JList (map (\<lambda>(i, d). JObj (batch_item_members i @ [(''batch_item_resolution_digest'', digest_json d)]))
         (zip (bs_entries s) digests))),
      (''item_count'', JInt (ct_original_denominator (counts_of s))),
      (''passed_count'', JInt (ct_passed (counts_of s))),
      (''test_failed_count'', JInt (ct_test_failed (counts_of s))),
      (''infra_failed_count'', JInt (ct_infra_failed (counts_of s))),
      (''cancelled_count'', JInt (ct_cancelled (counts_of s))),
      (''unknown_lineage_count'', JInt (ct_unknown_lineage (counts_of s))),
      (''not_executed_count'', JInt (ct_not_executed (counts_of s)))]"

definition batch_item_set_digest :: "batch_item_set \<Rightarrow> digest result" where
  "batch_item_set_digest s =
     bind_result (collect_results (map batch_item_digest (bs_entries s))) (\<lambda>digests.
     canonical_digest ''qep.batch-item-resolution-set.v1'' (batch_item_set_json s digests))"

end
