(* ===== verification/Batch_Basis.thy ===== *)
theory Batch_Basis
  imports Batch_Resolution
begin

text \<open>
  The immutable basis on which a Batch ends (\<open>src/qarunner/domain/batch_finalization.py\<close>, second
  part): the closed Runs with their bases, the cancellation facts, the references derived from them,
  the policy and its evaluation. \<open>build\<close> derives the references and the validator derives them
  again. A dict that is compared as a whole has distinct keys on both sides, so the comparison is that
  of the sets of its items.
\<close>

section \<open>Deriving the entries from the Runs\<close>

text \<open>\<open>_unique_by_run_id\<close>: the dict in insertion order, as the list itself once the ids are distinct.\<close>

fun unique_by_run_id :: "string \<Rightarrow> string list \<Rightarrow> string list \<Rightarrow> domain_error option" where
  "unique_by_run_id field seen [] = None"
| "unique_by_run_id field seen (r # rs) =
     (if r \<in> set seen then Some (DomainValidationError ''batch_finalization_basis'' field ''duplicate_run'')
      else unique_by_run_id field (seen @ [r]) rs)"

text \<open>
  The inner loop over the items of one Run: the derived entries so far, in insertion order, and the
  unknown references. \<open>wanted\<close> is the caller's condition for recording a reference.
\<close>

type_synonym derivation = "batch_item list \<times> unknown_fact_ref list"

fun derive_items ::
  "(run_item_resolution \<Rightarrow> batch_item \<Rightarrow> bool) \<Rightarrow> run_basis \<Rightarrow> run_resolution_set \<Rightarrow> run_item_resolution list \<Rightarrow>
   derivation \<Rightarrow> derivation result" where
  "derive_items wanted b s [] (derived, unknowns) = Inr (derived, unknowns)"
| "derive_items wanted b s (r # rs) (derived, unknowns) =
     bind_result (batch_item_from_run b s r) (\<lambda>i.
     if bi_item_key i \<in> set (map bi_item_key derived)
     then Inl (DomainValidationError ''batch_finalization_basis'' ''run_resolution_sets'' ''item_overlap'')
     else bind_result (if wanted r i then map_result (\<lambda>u. [u]) (unknown_ref_from_resolution r) else Inr []) (\<lambda>us.
     derive_items wanted b s rs (derived @ [i], unknowns @ us)))"

text \<open>
  The outer loop over the Runs. \<open>visit\<close> is what \<open>build\<close> does with the basis before the items of its
  Run (it collects the terminal reference, which may raise); the validator does nothing there.
\<close>

fun derive_runs ::
  "(run_item_resolution \<Rightarrow> batch_item \<Rightarrow> bool) \<Rightarrow> (run_basis \<Rightarrow> unit result) \<Rightarrow> batch_item_set \<Rightarrow> run_basis list \<Rightarrow>
   run_resolution_set list \<Rightarrow> derivation \<Rightarrow> derivation result" where
  "derive_runs wanted visit t bases [] acc = Inr acc"
| "derive_runs wanted visit t bases (s # ss) acc =
     (case find (\<lambda>b. fb_run_id b = rs_run_id s) bases of
        None \<Rightarrow> Inl (DomainValidationError ''batch_finalization_basis'' ''run_bases'' ''run_set_mismatch'')
      | Some b \<Rightarrow>
          if rs_batch_id s \<noteq> bs_batch_id t \<or> rs_manifest_digest s \<noteq> bs_manifest_digest t \<or>
             rs_shard_plan_digest s \<noteq> bs_shard_plan_digest t
          then Inl (DomainValidationError ''batch_finalization_basis'' ''run_resolution_sets'' ''envelope_mismatch'')
          else bind_result (visit b) (\<lambda>_.
            bind_result (derive_items wanted b s (rs_entries s) acc) (derive_runs wanted visit t bases ss)))"

definition run_entries :: "batch_item_set \<Rightarrow> batch_item list" where
  "run_entries t = filter (\<lambda>i. bi_source_kind i = SourceRunResolution) (bs_entries t)"

definition not_executed_entries :: "batch_item_set \<Rightarrow> batch_item list" where
  "not_executed_entries t = filter (\<lambda>i. bi_source_kind i = SourceNotExecuted) (bs_entries t)"

section \<open>The basis\<close>

record batch_basis =
  bb_resolution_set :: batch_item_set
  bb_run_resolution_sets :: "run_resolution_set list"
  bb_run_bases :: "run_basis list"
  bb_cancellation_scope_items :: "batch_cancellation_scope_item list"
  bb_terminal_run_refs :: "terminal_run_ref list"
  bb_non_run_refs :: "non_run_ref list"
  bb_unknown_fact_refs :: "unknown_fact_ref list"
  bb_policy :: success_policy
  bb_evaluation :: outcome_evaluation

abbreviation bbasis_invalid :: "string \<Rightarrow> string \<Rightarrow> domain_error" where
  "bbasis_invalid field reason \<equiv> DomainValidationError ''batch_finalization_basis'' field reason"

definition ordered_refs :: "string \<Rightarrow> ('r \<Rightarrow> 'k::linorder) \<Rightarrow> 'r list \<Rightarrow> domain_error option" where
  "ordered_refs field key refs = first_some
     [reject_if (\<not> distinct (map key refs)) (bbasis_invalid field ''duplicate''),
      reject_if (map key refs \<noteq> sort (map key refs)) (bbasis_invalid field ''not_ordered'')]"

definition canonical_scope_of ::
  "batch_item_set \<Rightarrow> digest \<Rightarrow> batch_cancellation_scope_item list \<Rightarrow> batch_cancellation_scope_item list result" where
  "canonical_scope_of t intent_digest items = canonicalize_scope_items (bs_batch_id t) intent_digest
     (bs_manifest_id t) (bs_manifest_digest t) (bs_shard_plan_version t) (bs_shard_plan_digest t)
     (bs_expected_item_keys t) items"

definition scope_non_run_refs :: "batch_cancellation_scope_item list \<Rightarrow> non_run_ref list result" where
  "scope_non_run_refs facts = collect_results (map non_run_ref_from_scope_item
     (filter (\<lambda>f. csi_resolution_kind f = NotExecuted) facts))"

text \<open>\<open>__post_init__\<close>: the Run part, the reference part and the cancellation part.\<close>

definition bb_run_ids :: "batch_basis \<Rightarrow> string list" where
  "bb_run_ids b = map rs_run_id (bb_run_resolution_sets b)"

definition validator_derivation :: "batch_basis \<Rightarrow> derivation result" where
  "validator_derivation b =
     derive_runs (\<lambda>r i. ir_unknown_lineage_digest r \<noteq> None) (\<lambda>_. Inr ()) (bb_resolution_set b) (bb_run_bases b)
       (bb_run_resolution_sets b) ([], [])"

definition batch_run_checks :: "batch_basis \<Rightarrow> domain_error option list" where
  "batch_run_checks b =
     [unique_by_run_id ''run_resolution_sets'' [] (bb_run_ids b),
      unique_by_run_id ''run_bases'' [] (map fb_run_id (bb_run_bases b)),
      reject_if (set (bb_run_ids b) \<noteq> set (map fb_run_id (bb_run_bases b)))
        (bbasis_invalid ''run_bases'' ''run_set_mismatch''),
      reject_if_result (map_result (\<lambda>(derived, _). set (run_entries (bb_resolution_set b)) \<noteq> set derived)
        (validator_derivation b)) (bbasis_invalid ''resolution_set'' ''run_sources_mismatch'')]"

definition expected_evaluation :: "batch_basis \<Rightarrow> outcome_evaluation result" where
  "expected_evaluation b = evaluate_batch_outcome (counts_of (bb_resolution_set b)) (bb_policy b)
     (po_suite_id (bb_policy b)) (oe_intent_digest (bb_evaluation b))"

definition expected_terminal_refs :: "run_basis list \<Rightarrow> terminal_run_ref list result" where
  "expected_terminal_refs bases =
     map_result (sort_key tr_run_id) (collect_results (map terminal_ref_from_basis bases))"

definition batch_reference_checks :: "batch_basis \<Rightarrow> domain_error option list" where
  "batch_reference_checks b =
     (let t = bb_resolution_set b in
     [reject_if_result (map_result (\<lambda>v. bb_evaluation b \<noteq> v) (expected_evaluation b))
        (bbasis_invalid ''evaluation'' ''result_mismatch''),
      ordered_refs ''terminal_run_refs'' tr_run_id (bb_terminal_run_refs b),
      reject_if_result (map_result (\<lambda>refs. bb_terminal_run_refs b \<noteq> refs) (expected_terminal_refs (bb_run_bases b)))
        (bbasis_invalid ''terminal_run_refs'' ''basis_mismatch''),
      ordered_refs ''non_run_refs'' (\<lambda>r. key_order (nr_item_key r)) (bb_non_run_refs b),
      reject_if_result (map_result (\<lambda>d. bs_canonical_run_set_digest t \<noteq> d)
          (canonical_materialized_run_set_digest (bs_batch_id t) (bb_run_ids b)))
        (bbasis_invalid ''canonical_run_set_digest'' ''actual_run_set_mismatch''),
      reject_if (set (map (\<lambda>r. (nr_item_key r, Some (nr_fact_digest r))) (bb_non_run_refs b)) \<noteq>
          set (map (\<lambda>i. (bi_item_key i, bi_not_executed_fact_digest i)) (not_executed_entries t)))
        (bbasis_invalid ''non_run_refs'' ''count_mismatch'')])"

definition batch_cancel_checks :: "batch_basis \<Rightarrow> domain_error option list" where
  "batch_cancel_checks b =
     (case oe_intent_digest (bb_evaluation b) of
        None \<Rightarrow> [reject_if (bb_cancellation_scope_items b \<noteq> []) (bbasis_invalid ''cancellation_scope_items'' ''unexpected'')]
      | Some d \<Rightarrow>
         [reject_if_result (map_result (\<lambda>refs. bb_non_run_refs b \<noteq> refs)
             (bind_result (canonical_scope_of (bb_resolution_set b) d (bb_cancellation_scope_items b)) scope_non_run_refs))
           (bbasis_invalid ''non_run_refs'' ''scope_fact_mismatch'')])"

definition batch_unknown_checks :: "batch_basis \<Rightarrow> domain_error option list" where
  "batch_unknown_checks b =
     [reject_if (int (length (bb_unknown_fact_refs b)) \<noteq> ct_unknown_lineage (counts_of (bb_resolution_set b)))
        (bbasis_invalid ''unknown_fact_refs'' ''count_mismatch''),
      ordered_refs ''unknown_fact_refs'' (\<lambda>r. key_order (uf_item_key r)) (bb_unknown_fact_refs b),
      reject_if_result (map_result (\<lambda>(_, unknowns). bb_unknown_fact_refs b \<noteq>
          sort_key (\<lambda>r. key_order (uf_item_key r)) unknowns) (validator_derivation b))
        (bbasis_invalid ''unknown_fact_refs'' ''resolution_mismatch'')]"

definition check_batch_basis :: "batch_basis \<Rightarrow> domain_error option" where
  "check_batch_basis b =
     first_some (batch_run_checks b @ batch_reference_checks b @ batch_cancel_checks b @ batch_unknown_checks b)"

section \<open>Building the basis\<close>

text \<open>
  The loop over the canonical scope facts. \<open>batch_entries[key]\<close> always finds an entry, because the
  canonical facts cover the expected keys and these are the keys of the entries.
\<close>

fun scope_loop ::
  "batch_item list \<Rightarrow> batch_cancellation_scope_item list \<Rightarrow> non_run_ref list result" where
  "scope_loop entries [] = Inr []"
| "scope_loop entries (f # fs) =
     (let invalid = bbasis_invalid ''cancellation_scope_items'' in
      case find (\<lambda>i. bi_item_key i = csi_manifest_item_key f) entries of
        None \<Rightarrow> Inl (invalid ''run_fanout_mismatch'')
      | Some i \<Rightarrow>
          if csi_resolution_kind f = NotExecuted then
            bind_result (batch_item_not_executed f) (\<lambda>expected.
            if i \<noteq> expected then Inl (invalid ''not_executed_mismatch'')
            else bind_result (non_run_ref_from_scope_item f) (\<lambda>ref. map_result ((#) ref) (scope_loop entries fs)))
          else if bi_source_kind i \<noteq> SourceRunResolution \<or> bi_source_run_id i \<noteq> csi_run_id f \<or>
            bi_source_run_version i \<noteq> csi_source_run_version f
          then Inl (invalid ''run_fanout_mismatch'')
          else scope_loop entries fs)"

definition build_non_run_refs ::
  "batch_item_set \<Rightarrow> digest option \<Rightarrow> batch_cancellation_scope_item list \<Rightarrow> non_run_ref list result" where
  "build_non_run_refs t intent_digest items =
     (case intent_digest of
        None \<Rightarrow> if items \<noteq> [] then Inl (bbasis_invalid ''cancellation_scope_items'' ''unexpected'') else Inr []
      | Some d \<Rightarrow> bind_result (canonical_scope_of t d items) (scope_loop (bs_entries t)))"

definition batch_basis_build ::
  "batch_item_set \<Rightarrow> run_resolution_set list \<Rightarrow> run_basis list \<Rightarrow> batch_cancellation_scope_item list \<Rightarrow>
   success_policy \<Rightarrow> outcome_evaluation \<Rightarrow> batch_basis result" where
  "batch_basis_build t sets bases items policy evaluation =
     (let run_ids = map rs_run_id sets in
     if oe_counts evaluation \<noteq> counts_of t then Inl (bbasis_invalid ''evaluation'' ''counts_mismatch'')
     else bind_result (success_policy_digest policy) (\<lambda>policy_digest.
     if oe_policy_digest evaluation \<noteq> policy_digest then Inl (bbasis_invalid ''evaluation'' ''policy_mismatch'')
     else bind_result (evaluate_batch_outcome (counts_of t) policy (po_suite_id policy) (oe_intent_digest evaluation)) (\<lambda>expected.
     bind_result (raise_or (first_some
       [reject_if (evaluation \<noteq> expected) (bbasis_invalid ''evaluation'' ''result_mismatch''),
        unique_by_run_id ''run_resolution_sets'' [] run_ids,
        unique_by_run_id ''run_bases'' [] (map fb_run_id bases),
        reject_if_result (map_result (\<lambda>d. bs_canonical_run_set_digest t \<noteq> d)
            (canonical_materialized_run_set_digest (bs_batch_id t) run_ids))
          (bbasis_invalid ''canonical_run_set_digest'' ''actual_run_set_mismatch''),
        reject_if (set run_ids \<noteq> set (map fb_run_id bases)) (bbasis_invalid ''run_bases'' ''run_set_mismatch'')]) ()) (\<lambda>_.
     bind_result (derive_runs (\<lambda>r i. bi_classification i = ItemUnknownLineage)
       (\<lambda>b. map_result (\<lambda>_. ()) (terminal_ref_from_basis b)) t bases sets ([], [])) (\<lambda>(derived, unknowns).
     if set derived \<noteq> set (run_entries t) then Inl (bbasis_invalid ''run_resolution_sets'' ''item_resolution_mismatch'')
     else bind_result (build_non_run_refs t (oe_intent_digest evaluation) items) (\<lambda>non_run_refs.
     if length non_run_refs \<noteq> length (not_executed_entries t)
     then Inl (bbasis_invalid ''cancellation_scope_items'' ''not_executed_coverage_mismatch'')
     else bind_result (expected_terminal_refs bases) (\<lambda>terminal_refs.
     let b = \<lparr>bb_resolution_set = t, bb_run_resolution_sets = sets, bb_run_bases = bases,
              bb_cancellation_scope_items = items, bb_terminal_run_refs = terminal_refs,
              bb_non_run_refs = sort_key (\<lambda>r. key_order (nr_item_key r)) non_run_refs,
              bb_unknown_fact_refs = sort_key (\<lambda>r. key_order (uf_item_key r)) unknowns,
              bb_policy = policy, bb_evaluation = evaluation\<rparr>
     in raise_or (check_batch_basis b) b)))))))"

section \<open>Digests\<close>

text \<open>\<open>_build_completeness_proof\<close>: every entry with its digest and, for an unknown lineage, its two proofs.\<close>

definition item_binding :: "unknown_fact_ref list \<Rightarrow> batch_item \<Rightarrow> digest \<Rightarrow> json" where
  "item_binding refs i d =
     (let unknown = find_last (\<lambda>r. uf_item_key r = bi_item_key i) refs in JObj
     (batch_item_members i @
      [(''batch_item_resolution_digest'', digest_json d),
       (''unknown_lineage_digest'', json_opt (\<lambda>r. digest_json (uf_unknown_lineage_digest r)) unknown),
       (''adjudication_digest'', json_opt (\<lambda>r. digest_json (uf_adjudication_digest r)) unknown)]))"

definition completeness_proof_digest ::
  "batch_item_set \<Rightarrow> terminal_run_ref list \<Rightarrow> unknown_fact_ref list \<Rightarrow> digest result" where
  "completeness_proof_digest t terminal_refs unknown_refs =
     bind_result (collect_results (map batch_item_digest (bs_entries t))) (\<lambda>digests.
     bind_result (batch_item_set_digest t) (\<lambda>set_digest.
     canonical_digest ''qep.batch-completeness-proof.v1'' (JObj
       [(''batch_id'', JStr (bs_batch_id t)),
        (''source_batch_version'', JInt (bs_source_batch_version t)),
        (''manifest_id'', JStr (bs_manifest_id t)),
        (''manifest_digest'', digest_json (bs_manifest_digest t)),
        (''item_count'', JInt (ct_original_denominator (counts_of t))),
        (''shard_plan_id'', JStr (bs_shard_plan_id t)),
        (''shard_plan_version'', JInt (bs_shard_plan_version t)),
        (''shard_plan_digest'', digest_json (bs_shard_plan_digest t)),
        (''canonical_run_set_digest'', digest_json (bs_canonical_run_set_digest t)),
        (''batch_item_resolution_set_digest'', digest_json set_digest),
        (''item_bindings'', JList (map (\<lambda>(i, d). item_binding unknown_refs i d) (zip (bs_entries t) digests))),
        (''terminal_run_refs'', JList (map terminal_run_ref_json terminal_refs))])))"

definition batch_basis_digest :: "batch_basis \<Rightarrow> digest result" where
  "batch_basis_digest b =
     (let t = bb_resolution_set b; c = counts_of t in
     bind_result (success_policy_digest (bb_policy b)) (\<lambda>policy_digest.
     bind_result (batch_item_set_digest t) (\<lambda>set_digest.
     bind_result (completeness_proof_digest t (bb_terminal_run_refs b) (bb_unknown_fact_refs b)) (\<lambda>proof.
     canonical_digest ''qep.batch-finalization-basis.v1'' (JObj
       [(''batch_id'', JStr (bs_batch_id t)),
        (''source_batch_version'', JInt (bs_source_batch_version t)),
        (''manifest_id'', JStr (bs_manifest_id t)),
        (''manifest_digest'', digest_json (bs_manifest_digest t)),
        (''item_count'', JInt (ct_original_denominator c)),
        (''shard_plan_id'', JStr (bs_shard_plan_id t)),
        (''shard_plan_version'', JInt (bs_shard_plan_version t)),
        (''shard_plan_digest'', digest_json (bs_shard_plan_digest t)),
        (''canonical_run_set_digest'', digest_json (bs_canonical_run_set_digest t)),
        (''terminal_run_refs'', JList (map terminal_run_ref_json (bb_terminal_run_refs b))),
        (''non_run_refs'', JList (map non_run_ref_json (bb_non_run_refs b))),
        (''success_policy_id'', JStr (po_policy_id (bb_policy b))),
        (''success_policy_version'', JInt (po_policy_version (bb_policy b))),
        (''success_policy_digest'', digest_json policy_digest),
        (''batch_item_resolution_schema'', JStr ''qep.batch-item-resolution-set.v1''),
        (''batch_item_resolution_set_digest'', digest_json set_digest),
        (''original_denominator'', JInt (ct_original_denominator c)),
        (''passed_count'', JInt (ct_passed c)),
        (''test_failed_count'', JInt (ct_test_failed c)),
        (''infra_failed_count'', JInt (ct_infra_failed c)),
        (''cancelled_count'', JInt (ct_cancelled c)),
        (''unknown_lineage_count'', JInt (ct_unknown_lineage c)),
        (''not_executed_count'', JInt (ct_not_executed c)),
        (''completeness_proof_digest'', digest_json proof),
        (''batch_cancellation_intent_digest'', json_opt digest_json (oe_intent_digest (bb_evaluation b))),
        (''unknown_fact_refs'', JList (map unknown_fact_ref_json (bb_unknown_fact_refs b))),
        (''batch_outcome'', JStr (batch_state_value (oe_outcome (bb_evaluation b))))])))))"

end
