(* ===== verification/Batch_Building.thy ===== *)
theory Batch_Building
  imports Batch_Basis
begin

text \<open>
  The entries that the Runs of a Batch determine, and the agreement of \<open>BatchFinalizationBasis.build\<close>
  with the validator: \<open>build\<close> returns exactly the bases that the validator accepts and whose fan-out
  facts name the Run of their item.
\<close>

text \<open>
  What the finalization validators establish: the authority behind an item that counts as passed, the
  coherence of the Run sources in a Batch set, the entries that are derived from the Runs, and the
  agreement of \<open>build\<close> with the validator of the Batch basis.
\<close>

section \<open>Run items\<close>

text \<open>Values of the frozen dataclasses have passed their own validators.\<close>

definition valid_resolution :: "run_item_resolution \<Rightarrow> bool" where
  "valid_resolution r \<longleftrightarrow> check_original_resolution (ir_original r) = None \<and>
     check_effective_resolution (ir_effective r) = None \<and> check_run_item_resolution r = None"

definition valid_run_set :: "run_resolution_set \<Rightarrow> bool" where
  "valid_run_set s \<longleftrightarrow> check_run_resolution_set s = None \<and> (\<forall>r \<in> set (rs_entries s). valid_resolution r)"

lemma resolution_class:
  assumes "valid_resolution r"
  shows "ir_unknown_lineage_digest r \<noteq> None \<longleftrightarrow> ir_aggregation_class r = ClassUnknownLineage"
    and "or_execution_fact (ir_original r) = FactAttemptUnknown \<Longrightarrow> ir_unknown_lineage_digest r \<noteq> None"
    and "ir_unknown_lineage_digest r = None \<Longrightarrow> ir_aggregation_class r = class_of_outcome (er_outcome (ir_effective r))"
    and "ir_unknown_lineage_digest r \<noteq> None \<Longrightarrow> er_adjudication_digest (ir_effective r) \<noteq> None"
  using assms by (auto simp: valid_resolution_def check_run_item_resolution_def Let_def result_simps split: if_splits)

lemma resolution_source:
  assumes "valid_resolution r"
  shows "er_source_kind (ir_effective r) = FromOriginal \<Longrightarrow>
      effective_mirrors_original (ir_original r) (ir_effective r) \<and> er_adjudication_digest (ir_effective r) = None"
    and "er_source_kind (ir_effective r) = FromAuthorizedRetry \<Longrightarrow>
      er_retry_intent_digest (ir_effective r) \<noteq> None \<and> er_retry_decision_digest (ir_effective r) \<noteq> None \<and>
      er_retry_authority_digest (ir_effective r) \<noteq> None \<and>
      (\<forall>d. er_adjudication_decision (ir_effective r) = Some d \<longrightarrow> permits_retry d) \<and>
      (er_adjudication_digest (ir_effective r) = None \<longleftrightarrow> er_adjudication_decision (ir_effective r) = None)"
    and "er_source_kind (ir_effective r) = FromUnknownAdjudication \<Longrightarrow>
      er_adjudication_digest (ir_effective r) \<noteq> None \<and>
      (er_outcome (ir_effective r) = OutcomeInfraFailed \<or> rf_evidence_root_digest (ir_effective r) \<noteq> None)"
  using assms
  by (auto simp: valid_resolution_def check_run_item_resolution_def check_effective_resolution_def
      retry_resolution_checks_def adjudicated_resolution_checks_def Let_def result_simps split: if_splits option.splits)

section \<open>The outcome of a Run\<close>

lemma worst_outcome_max:
  "worst_outcome w xs \<in> set (w # xs) \<and>
   (\<forall>x \<in> set (w # xs). outcome_precedence x \<le> outcome_precedence (worst_outcome w xs))"
proof (induction xs arbitrary: w)
  case (Cons x xs)
  show ?case
  proof (cases "outcome_precedence w < outcome_precedence x")
    case True
    then show ?thesis using Cons.IH [of x] by (auto intro: le_trans [OF less_imp_le])
  next
    case False
    then show ?thesis using Cons.IH [of w] by (auto intro: le_trans [OF leI])
  qed
qed simp

lemma outcome_precedence_inj: "outcome_precedence x = outcome_precedence y \<longleftrightarrow> x = y"
  by (cases x; cases y) simp_all

lemma audit_outcome_worst:
  assumes "rs_entries s \<noteq> []"
  shows "\<exists>r \<in> set (rs_entries s). er_outcome (ir_effective r) = audit_outcome s"
    and "r \<in> set (rs_entries s) \<Longrightarrow> outcome_precedence (er_outcome (ir_effective r)) \<le> outcome_precedence (audit_outcome s)"
proof -
  let ?os = "map (\<lambda>r. er_outcome (ir_effective r)) (rs_entries s)"
  have os: "hd ?os # tl ?os = ?os" using assms by simp
  have a: "audit_outcome s = worst_outcome (hd ?os) (tl ?os)" by (simp only: audit_outcome_def Let_def)
  have w: "audit_outcome s \<in> set ?os \<and> (\<forall>x \<in> set ?os. outcome_precedence x \<le> outcome_precedence (audit_outcome s))"
    using worst_outcome_max [of "hd ?os" "tl ?os"] unfolding a os .
  show "\<exists>r \<in> set (rs_entries s). er_outcome (ir_effective r) = audit_outcome s" using w by auto
  show "r \<in> set (rs_entries s) \<Longrightarrow> outcome_precedence (er_outcome (ir_effective r)) \<le> outcome_precedence (audit_outcome s)"
    using w by auto
qed

section \<open>Coherence of the Run sources\<close>

definition source_of :: "batch_item \<Rightarrow> run_source" where
  "source_of i = (bi_source_run_version i, bi_source_run_basis_digest i, bi_source_set_digest i)"

definition fits :: "(string option \<rightharpoonup> run_source) \<Rightarrow> (digest option \<rightharpoonup> string option) \<Rightarrow>
    (digest option \<rightharpoonup> string option) \<Rightarrow> digest option set \<Rightarrow> batch_item \<Rightarrow> bool" where
  "fits S B T D i \<longleftrightarrow> (\<forall>v. S (bi_source_run_id i) = Some v \<longrightarrow> v = source_of i) \<and>
     (\<forall>w. B (bi_source_run_basis_digest i) = Some w \<longrightarrow> w = bi_source_run_id i) \<and>
     (\<forall>w. T (bi_source_set_digest i) = Some w \<longrightarrow> w = bi_source_run_id i) \<and> bi_source_item_digest i \<notin> D"

text \<open>Two entries of one set agree on the source of a Run and share nothing across Runs.\<close>

definition sources_agree :: "batch_item \<Rightarrow> batch_item \<Rightarrow> bool" where
  "sources_agree i j \<longleftrightarrow>
     (bi_source_run_id i = bi_source_run_id j \<longrightarrow> source_of i = source_of j) \<and>
     (bi_source_run_basis_digest i = bi_source_run_basis_digest j \<longrightarrow> bi_source_run_id i = bi_source_run_id j) \<and>
     (bi_source_set_digest i = bi_source_set_digest j \<longrightarrow> bi_source_run_id i = bi_source_run_id j) \<and>
     bi_source_item_digest i \<noteq> bi_source_item_digest j"

abbreviation coherent_sources :: "batch_item list \<Rightarrow> bool" where
  "coherent_sources is \<equiv> sorted_wrt sources_agree is"

lemma map_upd_agrees:
  assumes "\<forall>v. m i = Some v \<longrightarrow> v = x"
  shows "(\<forall>v. (m(i \<mapsto> x)) j = Some v \<longrightarrow> v = y) \<longleftrightarrow> (i = j \<longrightarrow> x = y) \<and> (\<forall>v. m j = Some v \<longrightarrow> v = y)"
proof (cases "i = j")
  case True
  then show ?thesis using assms by (cases "m j"; cases "x = y"; simp)
qed simp

lemma setdefault_snd: "snd (setdefault m k v) = w \<longleftrightarrow> (case m k of None \<Rightarrow> v = w | Some u \<Rightarrow> u = w)"
  by (simp add: setdefault_def split: option.splits)

lemma setdefault_fst: "snd (setdefault m k v) = v \<Longrightarrow> fst (setdefault m k v) = m(k \<mapsto> v)"
  by (auto simp: setdefault_def split: option.splits)

lemma run_source_scan_Cons:
  assumes "bi_source_kind i = SourceRunResolution"
  shows "run_source_scan S B T D (i # is) = None \<longleftrightarrow> fits S B T D i \<and>
     run_source_scan (S(bi_source_run_id i \<mapsto> source_of i)) (B(bi_source_run_basis_digest i \<mapsto> bi_source_run_id i))
       (T(bi_source_set_digest i \<mapsto> bi_source_run_id i)) (insert (bi_source_item_digest i) D) is = None"
proof -
  have *: "fits S B T D i \<longleftrightarrow> snd (setdefault S (bi_source_run_id i) (source_of i)) = source_of i \<and>
      snd (setdefault B (bi_source_run_basis_digest i) (bi_source_run_id i)) = bi_source_run_id i \<and>
      snd (setdefault T (bi_source_set_digest i) (bi_source_run_id i)) = bi_source_run_id i \<and> bi_source_item_digest i \<notin> D"
    by (auto simp: fits_def setdefault_snd split: option.splits)
  show ?thesis
    using setdefault_fst [of S "bi_source_run_id i" "source_of i"]
      setdefault_fst [of B "bi_source_run_basis_digest i" "bi_source_run_id i"]
      setdefault_fst [of T "bi_source_set_digest i" "bi_source_run_id i"]
    unfolding * by (simp add: assms Let_def source_of_def split_def)
qed

lemma fits_upd:
  assumes "fits S B T D i"
  shows "fits (S(bi_source_run_id i \<mapsto> source_of i)) (B(bi_source_run_basis_digest i \<mapsto> bi_source_run_id i))
       (T(bi_source_set_digest i \<mapsto> bi_source_run_id i)) (insert (bi_source_item_digest i) D) j \<longleftrightarrow>
     sources_agree i j \<and> fits S B T D j"
proof -
  have *: "\<forall>v. S (bi_source_run_id i) = Some v \<longrightarrow> v = source_of i"
    "\<forall>w. B (bi_source_run_basis_digest i) = Some w \<longrightarrow> w = bi_source_run_id i"
    "\<forall>w. T (bi_source_set_digest i) = Some w \<longrightarrow> w = bi_source_run_id i"
    using assms unfolding fits_def by blast+
  note e = map_upd_agrees [of S "bi_source_run_id i" "source_of i" "bi_source_run_id j" "source_of j", OF *(1)]
    map_upd_agrees [of B "bi_source_run_basis_digest i" "bi_source_run_id i" "bi_source_run_basis_digest j"
      "bi_source_run_id j", OF *(2)]
    map_upd_agrees [of T "bi_source_set_digest i" "bi_source_run_id i" "bi_source_set_digest j" "bi_source_run_id j", OF *(3)]
  show ?thesis unfolding fits_def sources_agree_def e insert_iff de_Morgan_disj
    by (simp only: conj_ac eq_commute [of "bi_source_item_digest j" "bi_source_item_digest i"])
qed

lemma run_source_scan_None:
  "run_source_scan S B T D is = None \<longleftrightarrow>
     (\<forall>i \<in> set (filter (\<lambda>i. bi_source_kind i = SourceRunResolution) is). fits S B T D i) \<and>
     coherent_sources (filter (\<lambda>i. bi_source_kind i = SourceRunResolution) is)"
proof (induction "is" arbitrary: S B T D)
  case Nil
  then show ?case by simp
next
  case (Cons i "is")
  let ?R = "set (filter (\<lambda>i. bi_source_kind i = SourceRunResolution) is)"
  show ?case
  proof (cases "bi_source_kind i = SourceRunResolution")
    case True
    then show ?thesis unfolding run_source_scan_Cons [OF True] Cons.IH by (auto simp: True fits_upd)
  next
    case False
    then show ?thesis by (simp add: Cons.IH)
  qed
qed

lemma batch_item_set_coherent:
  assumes "check_batch_item_set t = None"
  shows "coherent_sources (run_entries t)" "map bi_item_key (bs_entries t) = bs_expected_item_keys t"
    "distinct (bs_expected_item_keys t)" "bs_entries t \<noteq> []"
    "sort_key key_order (bs_expected_item_keys t) = bs_expected_item_keys t"
  using assms unfolding run_entries_def
  by (auto simp: check_batch_item_set_def Let_def result_simps run_source_scan_None)

section \<open>Entries from Runs\<close>

lemma filter_result_Inr:
  "filter_result p xs = Inr ys \<Longrightarrow> set ys = {x \<in> set xs. p x = Inr True}"
proof (induction xs arbitrary: ys)
  case (Cons x xs)
  then obtain keep zs where "p x = Inr keep" "filter_result p xs = Inr zs" "ys = (if keep then x # zs else zs)"
    by (auto simp: result_simps)
  then show ?case using Cons.IH [of zs] by (cases keep) auto
qed simp

lemma batch_item_from_run_Inr:
  assumes "batch_item_from_run b s r = Inr i"
  shows "r \<in> set (rs_entries s)" "basis_set_mismatch b s = None" "check_batch_item i = None"
    "bi_item_key i = ir_item_key r" "bi_source_kind i = SourceRunResolution"
    "bi_source_run_id i = Some (rs_run_id s)" "bi_source_run_version i = Some (rs_source_run_version s)"
    "bi_classification i = classification_of (ir_aggregation_class r)"
    "map_result Some (run_basis_digest b) = Inr (bi_source_run_basis_digest i)"
    "map_result Some (item_resolution_digest r) = Inr (bi_source_item_digest i)"
  using assms filter_result_Inr [of "entry_matches r" "rs_entries s"]
  by (fastforce simp: batch_item_from_run_def mk_batch_item_def result_simps split: if_splits)+

lemma classification_of_iff [simp]: "classification_of c = ItemUnknownLineage \<longleftrightarrow> c = ClassUnknownLineage"
  by (cases c) simp_all

lemma list_all2_members:
  "list_all2 P xs ys \<Longrightarrow> (\<forall>x \<in> set xs. \<exists>y \<in> set ys. P x y) \<and> (\<forall>y \<in> set ys. \<exists>x \<in> set xs. P x y)"
  by (induction rule: list_all2_induct) auto

lemma derive_items_Inr:
  assumes "derive_items wanted b s rs (ds, us) = Inr (ds', us')"
  shows "\<exists>is. ds' = ds @ is \<and> list_all2 (\<lambda>r i. batch_item_from_run b s r = Inr i) rs is \<and>
     (distinct (map bi_item_key ds) \<longrightarrow> distinct (map bi_item_key ds'))"
  using assms
proof (induction rs arbitrary: ds us)
  case (Cons r rs)
  then obtain i ws where i: "batch_item_from_run b s r = Inr i" "bi_item_key i \<notin> bi_item_key ` set ds"
    "derive_items wanted b s rs (ds @ [i], us @ ws) = Inr (ds', us')"
    by (auto simp: result_simps)
  from Cons.IH [OF i(3)] obtain "is" where "ds' = ds @ i # is"
    "list_all2 (\<lambda>r i. batch_item_from_run b s r = Inr i) rs is"
    "distinct (map bi_item_key (ds @ [i])) \<longrightarrow> distinct (map bi_item_key ds')" by auto
  then show ?case using i(1,2) by (intro exI [of _ "i # is"]) auto
qed simp

text \<open>Where every entry comes from: one Run of the list, its basis, and an item of its set.\<close>

definition from_runs :: "run_basis list \<Rightarrow> run_resolution_set list \<Rightarrow> batch_item \<Rightarrow> bool" where
  "from_runs bases sets i \<longleftrightarrow> (\<exists>s \<in> set sets. \<exists>b \<in> set bases. \<exists>r \<in> set (rs_entries s).
     fb_run_id b = rs_run_id s \<and> batch_item_from_run b s r = Inr i)"

lemma derive_runs_Inr:
  assumes "derive_runs wanted visit t bases sets (ds, us) = Inr (ds', us')"
  shows "\<exists>is. ds' = ds @ is \<and> (\<forall>i \<in> set is. from_runs bases sets i) \<and>
     (\<forall>s \<in> set sets. rs_batch_id s = bs_batch_id t \<and> rs_manifest_digest s = bs_manifest_digest t \<and>
        rs_shard_plan_digest s = bs_shard_plan_digest t \<and>
        (\<forall>r \<in> set (rs_entries s). \<exists>i \<in> set is. bi_item_key i = ir_item_key r)) \<and>
     (distinct (map bi_item_key ds) \<longrightarrow> distinct (map bi_item_key ds'))"
  using assms
proof (induction sets arbitrary: ds us)
  case (Cons s sets)
  then obtain b es vs where b: "find (\<lambda>b. fb_run_id b = rs_run_id s) bases = Some b"
    and env: "rs_batch_id s = bs_batch_id t" "rs_manifest_digest s = bs_manifest_digest t"
      "rs_shard_plan_digest s = bs_shard_plan_digest t"
    and items: "derive_items wanted b s (rs_entries s) (ds, us) = Inr (es, vs)"
    and rest: "derive_runs wanted visit t bases sets (es, vs) = Inr (ds', us')"
    by (auto simp: result_simps split: option.splits if_splits)
  obtain "is" where "is": "es = ds @ is" "list_all2 (\<lambda>r i. batch_item_from_run b s r = Inr i) (rs_entries s) is"
    "distinct (map bi_item_key ds) \<longrightarrow> distinct (map bi_item_key es)" using derive_items_Inr [OF items] by metis
  obtain js where js: "ds' = es @ js" "\<forall>i \<in> set js. from_runs bases sets i"
    "\<forall>s \<in> set sets. rs_batch_id s = bs_batch_id t \<and> rs_manifest_digest s = bs_manifest_digest t \<and>
        rs_shard_plan_digest s = bs_shard_plan_digest t \<and>
        (\<forall>r \<in> set (rs_entries s). \<exists>i \<in> set js. bi_item_key i = ir_item_key r)"
    "distinct (map bi_item_key es) \<longrightarrow> distinct (map bi_item_key ds')" using Cons.IH [OF rest] by metis
  have "b \<in> set bases" "fb_run_id b = rs_run_id s" using find_SomeD [OF b] by simp_all
  moreover have "\<exists>r \<in> set (rs_entries s). batch_item_from_run b s r = Inr i" if "i \<in> set is" for i
    using list_all2_members [OF "is"(2)] that by blast
  ultimately have "\<forall>i \<in> set is. from_runs bases (s # sets) i" unfolding from_runs_def by (metis list.set_intros(1))
  moreover have "\<forall>i \<in> set js. from_runs bases (s # sets) i" using js(2) unfolding from_runs_def by (metis list.set_intros(2))
  moreover have "\<exists>i \<in> set is. bi_item_key i = ir_item_key r" if "r \<in> set (rs_entries s)" for r
    using list_all2_members [OF "is"(2)] that batch_item_from_run_Inr(4) by blast
  ultimately have all: "\<forall>i \<in> set (is @ js). from_runs bases (s # sets) i"
    "\<forall>r \<in> set (rs_entries s). \<exists>i \<in> set (is @ js). bi_item_key i = ir_item_key r"
    unfolding set_append by blast+
  have "\<forall>s' \<in> set (s # sets). rs_batch_id s' = bs_batch_id t \<and> rs_manifest_digest s' = bs_manifest_digest t \<and>
        rs_shard_plan_digest s' = bs_shard_plan_digest t \<and>
        (\<forall>r \<in> set (rs_entries s'). \<exists>i \<in> set (is @ js). bi_item_key i = ir_item_key r)"
    using env all(2) js(3) unfolding list.set(2) set_append by blast
  moreover have "ds' = ds @ is @ js" using "is"(1) js(1) by simp
  ultimately show ?case using "is"(3) js(4) all(1) by blast
qed simp

text \<open>The two callers of the loops record the same references, as the Run items are valid.\<close>

lemma derive_items_same:
  assumes "\<forall>r \<in> set rs. valid_resolution r"
  shows "derive_items (\<lambda>r i. bi_classification i = ItemUnknownLineage) b s rs acc =
    derive_items (\<lambda>r i. ir_unknown_lineage_digest r \<noteq> None) b s rs acc"
  using assms
proof (induction rs arbitrary: acc)
  case (Cons r rs)
  have w: "bi_classification i = ItemUnknownLineage \<longleftrightarrow> ir_unknown_lineage_digest r \<noteq> None"
    if "batch_item_from_run b s r = Inr i" for i
    using batch_item_from_run_Inr(8) [OF that] resolution_class(1) [of r] Cons.prems by simp
  obtain ds us where acc: "acc = (ds, us)" by (cases acc)
  show ?case
  proof (cases "batch_item_from_run b s r")
    case (Inr i)
    then show ?thesis using Cons by (simp only: acc derive_items.simps bind_result.simps w) simp
  qed (simp add: acc)
next
  case Nil
  show ?case by (cases acc) simp
qed

lemma derive_runs_visit:
  assumes "\<forall>s \<in> set sets. \<forall>r \<in> set (rs_entries s). valid_resolution r"
  shows "derive_runs (\<lambda>r i. bi_classification i = ItemUnknownLineage) visit t bases sets acc = Inr x \<longleftrightarrow>
    derive_runs (\<lambda>r i. ir_unknown_lineage_digest r \<noteq> None) (\<lambda>_. Inr ()) t bases sets acc = Inr x \<and>
    (\<forall>s \<in> set sets. \<forall>b. find (\<lambda>b. fb_run_id b = rs_run_id s) bases = Some b \<longrightarrow> (\<exists>u. visit b = Inr u))"
  using assms
proof (induction sets arbitrary: acc)
  case (Cons s sets)
  show ?case
  proof (cases "find (\<lambda>b. fb_run_id b = rs_run_id s) bases")
    case (Some b)
    then show ?thesis
      using Cons derive_items_same [of "rs_entries s" b s acc] by (auto simp: result_simps)
  qed simp
qed simp

lemma unique_by_run_id_None: "unique_by_run_id f seen rs = None \<longleftrightarrow> distinct rs \<and> set seen \<inter> set rs = {}"
  by (induction rs arbitrary: seen) auto

section \<open>Scope facts\<close>

definition valid_item_set :: "batch_item_set \<Rightarrow> bool" where
  "valid_item_set t \<longleftrightarrow> check_batch_item_set t = None \<and> (\<forall>i \<in> set (bs_entries t). check_batch_item i = None)"

definition fanout_bound :: "batch_item_set \<Rightarrow> batch_cancellation_scope_item \<Rightarrow> bool" where
  "fanout_bound t f \<longleftrightarrow> csi_resolution_kind f = RunFanout \<longrightarrow> (\<exists>i \<in> set (bs_entries t).
     bi_item_key i = csi_manifest_item_key f \<and> bi_source_kind i = SourceRunResolution \<and>
     bi_source_run_id i = csi_run_id f \<and> bi_source_run_version i = csi_source_run_version f)"

lemma item_not_executed_fields:
  "check_batch_item i = None \<Longrightarrow> bi_source_kind i = SourceNotExecuted \<longleftrightarrow> bi_classification i = ItemNotExecuted"
  by (cases "bi_source_kind i") (auto simp: check_batch_item_def Let_def result_simps split: if_splits)

text \<open>A not-executed entry is determined by its key and the digest of its fact.\<close>

lemma item_of_scope_fact:
  assumes "check_batch_item i = None" "bi_source_kind i = SourceNotExecuted" "csi_resolution_kind f = NotExecuted"
    "bi_item_key i = csi_manifest_item_key f" "scope_item_digest f = Inr d" "bi_not_executed_fact_digest i = Some d"
  shows "batch_item_not_executed f = Inr i"
proof -
  have "blank scope_item_schema = False" by (simp add: scope_item_schema_def blank_eval)
  then have "i = \<lparr>bi_item_key = csi_manifest_item_key f, bi_source_kind = SourceNotExecuted, bi_source_run_id = None,
         bi_source_run_version = None, bi_source_run_basis_digest = None, bi_source_set_digest = None,
         bi_source_item_digest = None, bi_not_executed_fact_schema = Some scope_item_schema,
         bi_not_executed_fact_digest = Some d, bi_cancellation_scope_item_digest = Some d,
         bi_classification = ItemNotExecuted\<rparr>"
    using assms(1,2,4,6) by (cases i) (auto simp: check_batch_item_def Let_def result_simps)
  then show ?thesis using assms(1,3,5) by (simp add: batch_item_not_executed_def mk_batch_item_def)
qed

lemma non_run_ref_Inr:
  "non_run_ref_from_scope_item f = Inr r \<longleftrightarrow> csi_resolution_kind f = NotExecuted \<and>
     (\<exists>d. scope_item_digest f = Inr d \<and>
       r = \<lparr>nr_item_key = csi_manifest_item_key f, nr_fact_schema = scope_item_schema, nr_fact_digest = d\<rparr>)"
  by (auto simp: non_run_ref_from_scope_item_def check_non_run_ref_def Let_def result_simps split: if_splits)

lemma scope_non_run_refs_Cons:
  "scope_non_run_refs (f # fs) = (if csi_resolution_kind f = NotExecuted
     then bind_result (non_run_ref_from_scope_item f) (\<lambda>r. map_result ((#) r) (scope_non_run_refs fs))
     else scope_non_run_refs fs)"
  by (simp add: scope_non_run_refs_def)

text \<open>The loop of \<open>build\<close> returns the references of the canonical facts, and only if it accepts them.\<close>

lemma scope_loop_Inr:
  assumes "scope_loop (bs_entries t) fs = Inr refs"
  shows "scope_non_run_refs fs = Inr refs" "\<forall>f \<in> set fs. fanout_bound t f"
    "set (map (\<lambda>r. (nr_item_key r, Some (nr_fact_digest r))) refs) \<subseteq>
     set (map (\<lambda>i. (bi_item_key i, bi_not_executed_fact_digest i)) (not_executed_entries t))"
proof -
  have "scope_non_run_refs fs = Inr refs \<and> (\<forall>f \<in> set fs. fanout_bound t f) \<and>
    set (map (\<lambda>r. (nr_item_key r, Some (nr_fact_digest r))) refs) \<subseteq>
     set (map (\<lambda>i. (bi_item_key i, bi_not_executed_fact_digest i)) (not_executed_entries t))"
    using assms
  proof (induction fs arbitrary: refs)
    case (Cons f fs)
    obtain i where i3: "find (\<lambda>i. bi_item_key i = csi_manifest_item_key f) (bs_entries t) = Some i"
      using Cons.prems by (cases "find (\<lambda>i. bi_item_key i = csi_manifest_item_key f) (bs_entries t)") (simp_all add: Let_def)
    note i = find_SomeD [OF i3, THEN conjunct2] find_SomeD [OF i3, THEN conjunct1] i3
    show ?case
    proof (cases "csi_resolution_kind f")
      case NotExecuted
      then obtain r rs where r: "batch_item_not_executed f = Inr i" "non_run_ref_from_scope_item f = Inr r"
        "scope_loop (bs_entries t) fs = Inr rs" "refs = r # rs"
        using Cons.prems i(3) by (auto simp: result_simps Let_def)
      obtain d where "i = \<lparr>bi_item_key = csi_manifest_item_key f, bi_source_kind = SourceNotExecuted, bi_source_run_id = None,
         bi_source_run_version = None, bi_source_run_basis_digest = None, bi_source_set_digest = None,
         bi_source_item_digest = None, bi_not_executed_fact_schema = Some scope_item_schema,
         bi_not_executed_fact_digest = Some d, bi_cancellation_scope_item_digest = Some d,
         bi_classification = ItemNotExecuted\<rparr>" "scope_item_digest f = Inr d"
        using r(1) NotExecuted by (auto simp: batch_item_not_executed_def mk_batch_item_def result_simps)
      then have "(nr_item_key r, Some (nr_fact_digest r)) = (bi_item_key i, bi_not_executed_fact_digest i)"
        "bi_source_kind i = SourceNotExecuted" using r(2) by (auto simp: non_run_ref_Inr)
      then show ?thesis
        using Cons.IH [OF r(3)] r i(1) NotExecuted
        by (auto simp: scope_non_run_refs_Cons fanout_bound_def not_executed_entries_def image_iff)
    next
      case RunFanout
      then have f: "bi_source_kind i = SourceRunResolution" "bi_source_run_id i = csi_run_id f"
        "bi_source_run_version i = csi_source_run_version f" "scope_loop (bs_entries t) fs = Inr refs"
        using Cons.prems i(3) by (auto simp: Let_def split: if_splits)
      then have "fanout_bound t f" using i unfolding fanout_bound_def by blast
      then show ?thesis using Cons.IH [OF f(4)] RunFanout by (simp add: scope_non_run_refs_Cons)
    qed
  qed (simp add: scope_non_run_refs_def)
  then show "scope_non_run_refs fs = Inr refs" "\<forall>f \<in> set fs. fanout_bound t f"
    "set (map (\<lambda>r. (nr_item_key r, Some (nr_fact_digest r))) refs) \<subseteq>
     set (map (\<lambda>i. (bi_item_key i, bi_not_executed_fact_digest i)) (not_executed_entries t))" by blast+
qed

lemma scope_loop_complete:
  assumes "valid_item_set t" "scope_non_run_refs fs = Inr refs" "\<forall>f \<in> set fs. fanout_bound t f"
    "set (map (\<lambda>r. (nr_item_key r, Some (nr_fact_digest r))) refs) \<subseteq>
     set (map (\<lambda>i. (bi_item_key i, bi_not_executed_fact_digest i)) (not_executed_entries t))"
  shows "scope_loop (bs_entries t) fs = Inr refs"
  using assms(2-4)
proof (induction fs arbitrary: refs)
  case (Cons f fs)
  have dist: "distinct (map bi_item_key (bs_entries t))"
    using assms(1) batch_item_set_coherent(2,3) [of t] by (simp add: valid_item_set_def)
  have find: "find (\<lambda>i. bi_item_key i = csi_manifest_item_key f) (bs_entries t) = Some i"
    if "i \<in> set (bs_entries t)" "bi_item_key i = csi_manifest_item_key f" for i
    using distinct_map_find [OF dist that(1)] that(2) by simp
  show ?case
  proof (cases "csi_resolution_kind f")
    case NotExecuted
    then obtain r rs d where r: "non_run_ref_from_scope_item f = Inr r" "scope_non_run_refs fs = Inr rs" "refs = r # rs"
      "scope_item_digest f = Inr d" "nr_item_key r = csi_manifest_item_key f" "nr_fact_digest r = d"
      using Cons.prems(1) by (auto simp: scope_non_run_refs_Cons result_simps non_run_ref_Inr)
    then obtain i where i: "i \<in> set (bs_entries t)" "bi_source_kind i = SourceNotExecuted"
      "bi_item_key i = csi_manifest_item_key f" "bi_not_executed_fact_digest i = Some d"
      using Cons.prems(3) by (auto simp: not_executed_entries_def)
    have "batch_item_not_executed f = Inr i"
      using assms(1) i by (intro item_of_scope_fact [OF _ i(2) NotExecuted i(3) r(4) i(4)]) (simp add: valid_item_set_def)
    moreover have "scope_loop (bs_entries t) fs = Inr rs"
      using Cons.prems r(2,3) by (intro Cons.IH) auto
    ultimately show ?thesis using find [OF i(1,3)] NotExecuted r(1,3) by (simp add: Let_def)
  next
    case RunFanout
    then obtain i where i: "i \<in> set (bs_entries t)" "bi_item_key i = csi_manifest_item_key f"
      "bi_source_kind i = SourceRunResolution" "bi_source_run_id i = csi_run_id f"
      "bi_source_run_version i = csi_source_run_version f"
      using Cons.prems(2) unfolding fanout_bound_def by auto
    moreover have "scope_loop (bs_entries t) fs = Inr refs"
      using Cons.prems RunFanout by (intro Cons.IH) (auto simp: scope_non_run_refs_Cons)
    ultimately show ?thesis using find [OF i(1,2)] RunFanout by (simp add: Let_def)
  qed
qed (simp add: scope_non_run_refs_def)

section \<open>The validator and build\<close>

lemma evaluate_Inr:
  "evaluate_batch_outcome c p suite_id intent_digest = Inr v \<longleftrightarrow>
     \<not> blank suite_id \<and> suite_id = po_suite_id p \<and> \<not> po_allow_authorized_retry_pass p \<and>
     po_allowed_test_failure_selector_digest p = None \<and>
     (ct_cancelled c + ct_not_executed c \<noteq> 0 \<longrightarrow> intent_digest \<noteq> None) \<and>
     (\<exists>d. success_policy_digest p = Inr d \<and> v = \<lparr>oe_outcome = batch_outcome_of c p, oe_counts = c,
        oe_policy_digest = d, oe_suite_id = suite_id, oe_intent_digest = intent_digest\<rparr>)"
proof -
  have "batch_outcome_of c p \<in> {BatchSucceeded, BatchFailed, BatchPartial, BatchCancelled}"
    by (simp add: batch_outcome_of_def Let_def)
  then show ?thesis
    by (auto simp: evaluate_batch_outcome_def check_outcome_evaluation_def Let_def result_simps)
qed

lemma evaluation_fields:
  assumes "evaluate_batch_outcome c p suite_id intent_digest = Inr v"
  shows "oe_counts v = c" "success_policy_digest p = Inr (oe_policy_digest v)" "oe_outcome v = batch_outcome_of c p"
    "oe_intent_digest v = intent_digest"
  using assms by (auto simp: evaluate_Inr)

lemma ordered_refs_None:
  "ordered_refs f key refs = None \<longleftrightarrow> distinct (map key refs) \<and> sort_key key refs = refs"
proof -
  have "map key refs = sort (map key refs) \<longleftrightarrow> sorted (map key refs)" by (metis sorted_sort sorted_sort_id)
  moreover have "sort_key key refs = refs \<longleftrightarrow> sorted (map key refs)" by (metis sort_key_id_if_sorted sorted_sort_key)
  ultimately show ?thesis by (simp add: ordered_refs_def result_simps)
qed

text \<open>What the validator of the Batch basis establishes, one fact per check.\<close>

lemma batch_basis_facts:
  assumes "check_batch_basis b = None"
  obtains derived us where
    "distinct (bb_run_ids b)" "distinct (map fb_run_id (bb_run_bases b))"
    "set (bb_run_ids b) = set (map fb_run_id (bb_run_bases b))"
    "validator_derivation b = Inr (derived, us)" "set (run_entries (bb_resolution_set b)) = set derived"
    "expected_evaluation b = Inr (bb_evaluation b)"
    "expected_terminal_refs (bb_run_bases b) = Inr (bb_terminal_run_refs b)"
    "distinct (map nr_item_key (bb_non_run_refs b))"
    "sort_key (\<lambda>r. key_order (nr_item_key r)) (bb_non_run_refs b) = bb_non_run_refs b"
    "canonical_materialized_run_set_digest (bs_batch_id (bb_resolution_set b)) (bb_run_ids b) =
       Inr (bs_canonical_run_set_digest (bb_resolution_set b))"
    "set (map (\<lambda>r. (nr_item_key r, Some (nr_fact_digest r))) (bb_non_run_refs b)) =
       set (map (\<lambda>i. (bi_item_key i, bi_not_executed_fact_digest i)) (not_executed_entries (bb_resolution_set b)))"
    "first_some (batch_cancel_checks b) = None"
    "bb_unknown_fact_refs b = sort_key (\<lambda>r. key_order (uf_item_key r)) us"
proof -
  have all: "first_some (batch_run_checks b) = None" "first_some (batch_reference_checks b) = None"
    "first_some (batch_cancel_checks b) = None" "first_some (batch_unknown_checks b) = None"
    using assms by (simp_all add: check_batch_basis_def result_simps)
  obtain derived us where d: "validator_derivation b = Inr (derived, us)"
    "set (run_entries (bb_resolution_set b)) = set derived"
    using all(1) by (auto simp: batch_run_checks_def result_simps)
  show thesis
  proof (rule that [OF _ _ _ d])
    show "distinct (bb_run_ids b)" "distinct (map fb_run_id (bb_run_bases b))"
      "set (bb_run_ids b) = set (map fb_run_id (bb_run_bases b))"
      using all(1) by (simp_all add: batch_run_checks_def result_simps unique_by_run_id_None)
    show "expected_evaluation b = Inr (bb_evaluation b)"
      "expected_terminal_refs (bb_run_bases b) = Inr (bb_terminal_run_refs b)"
      "sort_key (\<lambda>r. key_order (nr_item_key r)) (bb_non_run_refs b) = bb_non_run_refs b"
      "canonical_materialized_run_set_digest (bs_batch_id (bb_resolution_set b)) (bb_run_ids b) =
       Inr (bs_canonical_run_set_digest (bb_resolution_set b))"
      "set (map (\<lambda>r. (nr_item_key r, Some (nr_fact_digest r))) (bb_non_run_refs b)) =
       set (map (\<lambda>i. (bi_item_key i, bi_not_executed_fact_digest i)) (not_executed_entries (bb_resolution_set b)))"
      using all(2) by (simp_all add: batch_reference_checks_def Let_def result_simps ordered_refs_None)
    have "distinct (map (\<lambda>r. key_order (nr_item_key r)) (bb_non_run_refs b))"
      using all(2) by (simp add: batch_reference_checks_def Let_def result_simps ordered_refs_None)
    then show "distinct (map nr_item_key (bb_non_run_refs b))"
      by (simp add: distinct_map inj_on_def key_order_inj)
    show "first_some (batch_cancel_checks b) = None" by (rule all(3))
    show "bb_unknown_fact_refs b = sort_key (\<lambda>r. key_order (uf_item_key r)) us"
      using all(4) d(1) by (simp add: batch_unknown_checks_def result_simps)
  qed
qed

lemma not_executed_count:
  assumes "valid_item_set t"
  shows "ct_not_executed (counts_of t) = int (length (not_executed_entries t))"
    "distinct (map bi_item_key (not_executed_entries t))"
proof -
  have "filter (\<lambda>i. bi_classification i = ItemNotExecuted) (bs_entries t) = not_executed_entries t"
    using assms unfolding not_executed_entries_def
    by (intro filter_cong) (auto simp: valid_item_set_def item_not_executed_fields)
  then show "ct_not_executed (counts_of t) = int (length (not_executed_entries t))"
    by (simp add: counts_of_def class_count_def)
  show "distinct (map bi_item_key (not_executed_entries t))"
    using assms batch_item_set_coherent(2,3) [of t]
    by (auto simp: valid_item_set_def not_executed_entries_def intro: distinct_map_filter)
qed

lemma same_pairs_length:
  assumes "distinct (map nr_item_key refs)" "distinct (map bi_item_key is)"
    "set (map (\<lambda>r. (nr_item_key r, Some (nr_fact_digest r))) refs) =
     set (map (\<lambda>i. (bi_item_key i, bi_not_executed_fact_digest i)) is)"
  shows "length refs = length is"
proof -
  have "fst ` set (map (\<lambda>r. (nr_item_key r, Some (nr_fact_digest r))) refs) =
    fst ` set (map (\<lambda>i. (bi_item_key i, bi_not_executed_fact_digest i)) is)" by (simp only: assms(3))
  then have "set (map nr_item_key refs) = set (map bi_item_key is)" by (simp add: image_image)
  then show ?thesis using assms(1,2) distinct_card [of "map nr_item_key refs"] distinct_card [of "map bi_item_key is"] by simp
qed

lemma built_refs:
  assumes "valid_item_set (bb_resolution_set b)" "check_batch_basis b = None"
    "\<And>d facts f. oe_intent_digest (bb_evaluation b) = Some d \<Longrightarrow>
       canonical_scope_of (bb_resolution_set b) d (bb_cancellation_scope_items b) = Inr facts \<Longrightarrow>
       f \<in> set facts \<Longrightarrow> fanout_bound (bb_resolution_set b) f"
  shows "build_non_run_refs (bb_resolution_set b) (oe_intent_digest (bb_evaluation b)) (bb_cancellation_scope_items b) =
      Inr (bb_non_run_refs b)"
    "length (bb_non_run_refs b) = length (not_executed_entries (bb_resolution_set b))"
proof -
  let ?t = "bb_resolution_set b"
  obtain us where f: "expected_evaluation b = Inr (bb_evaluation b)" "distinct (map nr_item_key (bb_non_run_refs b))"
    "set (map (\<lambda>r. (nr_item_key r, Some (nr_fact_digest r))) (bb_non_run_refs b)) =
       set (map (\<lambda>i. (bi_item_key i, bi_not_executed_fact_digest i)) (not_executed_entries ?t))"
    "first_some (batch_cancel_checks b) = None"
    using assms(2) by (rule batch_basis_facts)
  show len: "length (bb_non_run_refs b) = length (not_executed_entries ?t)"
    by (rule same_pairs_length [OF f(2) not_executed_count(2) [OF assms(1)] f(3)])
  show "build_non_run_refs ?t (oe_intent_digest (bb_evaluation b)) (bb_cancellation_scope_items b) = Inr (bb_non_run_refs b)"
  proof (cases "oe_intent_digest (bb_evaluation b)")
    case None
    then have "ct_cancelled (counts_of ?t) + ct_not_executed (counts_of ?t) = 0"
      using f(1) by (auto simp: expected_evaluation_def evaluate_Inr)
    moreover have "0 \<le> ct_cancelled (counts_of ?t)" by (simp add: counts_of_def)
    ultimately have "int (length (bb_non_run_refs b)) = 0"
      using len not_executed_count(1) [OF assms(1)] by linarith
    then have "bb_non_run_refs b = []" by simp
    then show ?thesis using f(4) None by (simp add: build_non_run_refs_def batch_cancel_checks_def result_simps)
  next
    case (Some d)
    then obtain facts where facts: "canonical_scope_of ?t d (bb_cancellation_scope_items b) = Inr facts"
      "scope_non_run_refs facts = Inr (bb_non_run_refs b)"
      using f(4) by (auto simp: batch_cancel_checks_def result_simps)
    have "scope_loop (bs_entries ?t) facts = Inr (bb_non_run_refs b)"
      using assms(3) [OF Some facts(1)] f(3) by (intro scope_loop_complete [OF assms(1) facts(2)]) auto
    then show ?thesis using facts(1) Some by (simp add: build_non_run_refs_def)
  qed
qed

definition built_from :: "batch_basis \<Rightarrow> batch_item_set \<Rightarrow> run_resolution_set list \<Rightarrow> run_basis list \<Rightarrow>
    batch_cancellation_scope_item list \<Rightarrow> success_policy \<Rightarrow> outcome_evaluation \<Rightarrow> bool" where
  "built_from b t sets bases items policy evaluation \<longleftrightarrow> bb_resolution_set b = t \<and> bb_run_resolution_sets b = sets \<and>
     bb_run_bases b = bases \<and> bb_cancellation_scope_items b = items \<and> bb_policy b = policy \<and>
     bb_evaluation b = evaluation"

definition fanout_facts_bound :: "batch_basis \<Rightarrow> bool" where
  "fanout_facts_bound b \<longleftrightarrow> (\<forall>d facts. oe_intent_digest (bb_evaluation b) = Some d \<longrightarrow>
     canonical_scope_of (bb_resolution_set b) d (bb_cancellation_scope_items b) = Inr facts \<longrightarrow>
     (\<forall>f \<in> set facts. fanout_bound (bb_resolution_set b) f))"

lemma batch_basis_build_sound:
  assumes "batch_basis_build t sets bases items policy evaluation = Inr b"
  shows "check_batch_basis b = None" "built_from b t sets bases items policy evaluation" "fanout_facts_bound b"
proof -
  obtain refs where b: "check_batch_basis b = None" "built_from b t sets bases items policy evaluation"
    "build_non_run_refs t (oe_intent_digest evaluation) items = Inr refs"
    using assms by (auto simp: batch_basis_build_def Let_def result_simps split_def built_from_def)
  show "check_batch_basis b = None" "built_from b t sets bases items policy evaluation" by fact+
  show "fanout_facts_bound b"
    using b(2,3) scope_loop_Inr(2)
    by (auto simp: fanout_facts_bound_def built_from_def build_non_run_refs_def result_simps)
qed

lemma visits_ok:
  assumes "expected_terminal_refs bases = Inr refs" "find (\<lambda>b. fb_run_id b = k) bases = Some b"
  shows "\<exists>u. map_result (\<lambda>_. ()) (terminal_ref_from_basis b) = Inr u"
proof -
  obtain xs where "collect_results (map terminal_ref_from_basis bases) = Inr xs"
    using assms(1) by (auto simp: expected_terminal_refs_def result_simps)
  from collect_results_member [OF this find_SomeD [OF assms(2), THEN conjunct2]] show ?thesis
    by (auto simp: result_simps)
qed

lemma batch_basis_build_complete:
  assumes "valid_item_set (bb_resolution_set b)" "\<forall>s \<in> set (bb_run_resolution_sets b). valid_run_set s"
    "check_batch_basis b = None" "fanout_facts_bound b"
  shows "batch_basis_build (bb_resolution_set b) (bb_run_resolution_sets b) (bb_run_bases b)
    (bb_cancellation_scope_items b) (bb_policy b) (bb_evaluation b) = Inr b"
proof -
  obtain derived us where f: "distinct (bb_run_ids b)" "distinct (map fb_run_id (bb_run_bases b))"
    "set (bb_run_ids b) = set (map fb_run_id (bb_run_bases b))"
    "validator_derivation b = Inr (derived, us)" "set (run_entries (bb_resolution_set b)) = set derived"
    "expected_evaluation b = Inr (bb_evaluation b)"
    "expected_terminal_refs (bb_run_bases b) = Inr (bb_terminal_run_refs b)"
    "sort_key (\<lambda>r. key_order (nr_item_key r)) (bb_non_run_refs b) = bb_non_run_refs b"
    "canonical_materialized_run_set_digest (bs_batch_id (bb_resolution_set b)) (bb_run_ids b) =
       Inr (bs_canonical_run_set_digest (bb_resolution_set b))"
    "bb_unknown_fact_refs b = sort_key (\<lambda>r. key_order (uf_item_key r)) us"
    using assms(3) by (rule batch_basis_facts)
  have e: "oe_counts (bb_evaluation b) = counts_of (bb_resolution_set b)"
    "success_policy_digest (bb_policy b) = Inr (oe_policy_digest (bb_evaluation b))"
    using f(6) unfolding expected_evaluation_def by (rule evaluation_fields)+
  have "\<forall>s \<in> set (bb_run_resolution_sets b). \<forall>r \<in> set (rs_entries s). valid_resolution r"
    using assms(2) by (simp add: valid_run_set_def)
  note d = derive_runs_visit [OF this, of "\<lambda>b. map_result (\<lambda>_. ()) (terminal_ref_from_basis b)"
      "bb_resolution_set b" "bb_run_bases b" "([], [])" "(derived, us)"]
  have derive: "derive_runs (\<lambda>r i. bi_classification i = ItemUnknownLineage)
       (\<lambda>b. map_result (\<lambda>_. ()) (terminal_ref_from_basis b)) (bb_resolution_set b) (bb_run_bases b)
       (bb_run_resolution_sets b) ([], []) = Inr (derived, us)"
    unfolding d using f(4) visits_ok [OF f(7)] by (auto simp: validator_derivation_def)
  note refs = built_refs [OF assms(1,3)] assms(4) [unfolded fanout_facts_bound_def]
  have non_run: "build_non_run_refs (bb_resolution_set b) (oe_intent_digest (bb_evaluation b))
      (bb_cancellation_scope_items b) = Inr (bb_non_run_refs b)"
    "length (bb_non_run_refs b) = length (not_executed_entries (bb_resolution_set b))"
    using refs by blast+
  have self: "\<lparr>bb_resolution_set = bb_resolution_set b, bb_run_resolution_sets = bb_run_resolution_sets b,
      bb_run_bases = bb_run_bases b, bb_cancellation_scope_items = bb_cancellation_scope_items b,
      bb_terminal_run_refs = bb_terminal_run_refs b, bb_non_run_refs = bb_non_run_refs b,
      bb_unknown_fact_refs = sort_key (\<lambda>r. key_order (uf_item_key r)) us, bb_policy = bb_policy b,
      bb_evaluation = bb_evaluation b\<rparr> = b" using f(10) by (cases b) simp
  have "unique_by_run_id ''run_resolution_sets'' [] (map rs_run_id (bb_run_resolution_sets b)) = None"
    "unique_by_run_id ''run_bases'' [] (map fb_run_id (bb_run_bases b)) = None"
    using f(1,2) by (simp_all add: unique_by_run_id_None bb_run_ids_def)
  then show ?thesis
    using f(3,5,6,7,8,9) e derive non_run assms(3)
    by (simp add: batch_basis_build_def Let_def expected_evaluation_def bb_run_ids_def self)
qed

text \<open>The objects of a basis have passed their own validators.\<close>

definition valid_basis_parts :: "batch_basis \<Rightarrow> bool" where
  "valid_basis_parts b \<longleftrightarrow> valid_item_set (bb_resolution_set b) \<and>
     (\<forall>s \<in> set (bb_run_resolution_sets b). valid_run_set s) \<and> (\<forall>f \<in> set (bb_run_bases b). check_run_basis f = None)"

end
