(* ===== verification/Finalization_Samples.thy ===== *)
theory Finalization_Samples
  imports Batch_Building
begin

text \<open>
  Sample values on which the finalization properties are exercised: one Run with one item, passed by its
  only Attempt and closed on verified Evidence, and the Batch of it.
\<close>

definition sample_key :: run_item_key where
  "sample_key = \<lparr>rk_manifest_id = ''m'', rk_item_index = 0\<rparr>"

definition sample_original :: original_resolution where
  "sample_original =
     \<lparr>rf_attempt_id = Some ''a1'', rf_attempt_no = Some 1, rf_attempt_fence = Some 1,
      rf_attempt_item_set_digest = Some (Digest ''items''), rf_fact_schema = ''s'', rf_fact_version = 1,
      rf_fact_digest = Digest ''f'', rf_evidence_root_digest = Some (Digest ''e''), rf_result_mapping_schema = None,
      rf_result_mapping_version = None, rf_result_mapping_digest = None, or_source_kind = AttemptResult,
      or_execution_fact = FactPassed, or_prestart_closure_digest = None\<rparr>"

definition sample_effective :: effective_resolution where
  "sample_effective =
     \<lparr>rf_attempt_id = Some ''a1'', rf_attempt_no = Some 1, rf_attempt_fence = Some 1,
      rf_attempt_item_set_digest = Some (Digest ''items''), rf_fact_schema = ''s'', rf_fact_version = 1,
      rf_fact_digest = Digest ''f'', rf_evidence_root_digest = Some (Digest ''e''), rf_result_mapping_schema = None,
      rf_result_mapping_version = None, rf_result_mapping_digest = None, er_source_kind = FromOriginal,
      er_outcome = OutcomePassed, er_retry_intent_digest = None, er_retry_decision_digest = None,
      er_retry_authority_digest = None, er_adjudication_digest = None, er_adjudication_decision = None\<rparr>"

definition sample_resolution :: run_item_resolution where
  "sample_resolution =
     \<lparr>ir_item_key = sample_key, ir_original = sample_original, ir_effective = sample_effective,
      ir_unknown_lineage_digest = None, ir_aggregation_class = ClassPassed\<rparr>"

text \<open>The same item, failed first, retried, and completed from Evidence after the retry became unknown.\<close>

definition adjudicated_resolution :: run_item_resolution where
  "adjudicated_resolution = sample_resolution
     \<lparr>ir_original := sample_original\<lparr>or_execution_fact := FactTestFailed\<rparr>,
      ir_effective := sample_effective\<lparr>rf_attempt_id := Some ''a2'', rf_attempt_no := Some 2, rf_attempt_fence := Some 2,
        er_source_kind := FromUnknownAdjudication, er_adjudication_digest := Some (Digest ''adj''),
        er_adjudication_decision := Some MarkCompletedFromVerifiedEvidence\<rparr>,
      ir_unknown_lineage_digest := Some (Digest ''lineage''), ir_aggregation_class := ClassUnknownLineage\<rparr>"

lemmas sample_item_defs = sample_resolution_def adjudicated_resolution_def sample_original_def sample_effective_def
  sample_key_def

lemma sample_resolutions_valid: "valid_resolution sample_resolution" "valid_resolution adjudicated_resolution"
  by (simp_all add: valid_resolution_def check_original_resolution_def check_effective_resolution_def
      check_run_item_resolution_def validate_fact_and_mapping_def validate_optional_attempt_identity_def
      require_attempt_identity_def adjudicated_resolution_checks_def effective_mirrors_original_def sample_item_defs
      Let_def result_simps blank_eval)

definition sample_set :: run_resolution_set where
  "sample_set =
     \<lparr>rs_batch_id = ''b'', rs_run_id = ''r'', rs_source_run_version = 3, rs_manifest_digest = Digest ''md'',
      rs_shard_plan_digest = Digest ''pd'', rs_run_item_set_digest = Digest ''items'',
      rs_attempt_chain_digest = Digest ''chain'', rs_retry_chain_digest = None, rs_adjudication_chain_digest = None,
      rs_entries = [sample_resolution]\<rparr>"

definition digest_or_empty :: "digest result \<Rightarrow> digest" where
  "digest_or_empty r = (case r of Inr d \<Rightarrow> d | Inl _ \<Rightarrow> Digest '''')"

lemma digest_or_empty: "(\<exists>d. r = Inr d) \<Longrightarrow> r = Inr (digest_or_empty r)"
  by (auto simp: digest_or_empty_def)

lemma sample_set_valid: "valid_run_set sample_set" "audit_outcome sample_set = OutcomePassed"
  using sample_resolutions_valid
  by (simp_all add: valid_run_set_def check_run_resolution_set_def sample_set_def audit_outcome_def Let_def result_simps
      blank_eval) (simp add: sample_item_defs)

lemma sample_item_json: "list_all (\<lambda>kv. json_safe (snd kv)) (item_members sample_resolution)"
  "json_safe (JObj (original_members sample_original))" "json_safe (JObj (effective_members sample_effective))"
  by (simp_all add: item_members_def original_members_def effective_members_def attempt_members_def fact_members_def
      sample_item_defs digest_json_def run_item_key_json_def safe_int_def)

definition "sample_item_digest = digest_or_empty (item_resolution_digest sample_resolution)"
definition "sample_original_digest = digest_or_empty (original_resolution_set_digest sample_set)"
definition "sample_effective_digest = digest_or_empty (effective_resolution_set_digest sample_set)"
definition "sample_set_digest = digest_or_empty (resolution_set_digest sample_set)"

lemma sample_digests:
  "item_resolution_digest sample_resolution = Inr sample_item_digest"
  "original_resolution_set_digest sample_set = Inr sample_original_digest"
  "effective_resolution_set_digest sample_set = Inr sample_effective_digest"
  "resolution_set_digest sample_set = Inr sample_set_digest"
proof -
  have key: "json_safe (run_item_key_json sample_key)" by (simp add: run_item_key_json_def sample_key_def safe_int_def)
  have env: "list_all (\<lambda>kv. json_safe (snd kv)) (set_envelope_members sample_set)"
    by (simp add: set_envelope_members_def sample_set_def digest_json_def safe_int_def)
  have fields: "ir_item_key sample_resolution = sample_key" "ir_original sample_resolution = sample_original"
    "ir_effective sample_resolution = sample_effective" "rs_entries sample_set = [sample_resolution]"
    by (simp_all add: sample_resolution_def sample_set_def)
  have d: "\<exists>d. item_resolution_digest sample_resolution = Inr d" "\<exists>d. original_resolution_set_digest sample_set = Inr d"
    "\<exists>d. effective_resolution_set_digest sample_set = Inr d"
    using sample_item_json env key
    by (simp_all add: item_resolution_digest_def original_resolution_set_digest_def effective_resolution_set_digest_def
        result_simps fields)
  then have "\<exists>d. resolution_set_digest sample_set = Inr d"
    using sample_item_json env key
    by (auto simp: resolution_set_digest_def result_simps fields safe_int_def digest_json_def)
      (simp_all add: sample_set_def digest_json_def)
  with d show "item_resolution_digest sample_resolution = Inr sample_item_digest"
    "original_resolution_set_digest sample_set = Inr sample_original_digest"
    "effective_resolution_set_digest sample_set = Inr sample_effective_digest"
    "resolution_set_digest sample_set = Inr sample_set_digest"
    unfolding sample_item_digest_def sample_original_digest_def sample_effective_digest_def sample_set_digest_def
    by (auto intro: digest_or_empty)
qed

definition sample_rule :: decision_ref where
  "sample_rule =
     \<lparr>dr_sequence = 1, dr_decision_kind = ContractRule, dr_decision_schema = ''s'', dr_decision_id = ''d'',
      dr_decision_version = 1, dr_decision_digest = Digest ''rule'',
      dr_decision_result = RuleResult \<lparr>cr_outcome = OutcomePassed, cr_cancellation_intent_digest = None,
        cr_cancellation_stop_digest = None, cr_prestart_closure_digest = None\<rparr>,
      dr_source_attempt_id = None, dr_source_attempt_no = None, dr_source_attempt_fence = None,
      dr_source_item_set_digest = None\<rparr>"

definition sample_basis :: run_basis where
  "sample_basis =
     \<lparr>fb_run_id = ''r'', fb_batch_id = ''b'', fb_source_run_version = 3, fb_manifest_digest = Digest ''md'',
      fb_shard_plan_digest = Digest ''pd'', fb_run_item_set_digest = Digest ''items'',
      fb_execution_spec_digest = Digest ''spec'', fb_original_attempt_id = Some ''a1'',
      fb_original_attempt_fence = Some 1, fb_final_attempt_id = Some ''a1'', fb_final_attempt_no = Some 1,
      fb_final_attempt_fence = Some 1, fb_final_attempt_version = Some 4, fb_final_attempt_state = Some FactPassed,
      fb_worker_id = Some ''w'', fb_worker_generation = Some 1, fb_attempt_chain_digest = Some (Digest ''chain''),
      fb_evidence_root_digest = Some (Digest ''e''), fb_unknown_observation_digest = None,
      fb_adjudication_chain_digest = None, fb_retry_chain_digest = None,
      fb_item_resolution_set_digest = sample_set_digest, fb_original_resolution_set_digest = sample_original_digest,
      fb_effective_resolution_set_digest = sample_effective_digest, fb_item_count = 1,
      fb_cancellation_intent_digest = None, fb_cancellation_stop_digest = None, fb_prestart_closure_digest = None,
      fb_terminal_rule_schema = ''t'', fb_terminal_rule_version = 1, fb_terminal_rule_digest = Digest ''tr'',
      fb_decision_chain = [sample_rule], fb_disposition = ClosedNoRetry, fb_outcome = OutcomePassed,
      fb_terminal_input_kind = VerifiedEvidence\<rparr>"

lemma sample_basis_built: "run_basis_build sample_set sample_basis = Inr sample_basis" "check_run_basis sample_basis = None"
proof -
  show c: "check_run_basis sample_basis = None"
    by (simp add: check_run_basis_def validate_decisions_def validate_input_kind_def attempt_input_checks_def
        evidence_input_checks_def chain_retries_def sample_basis_def sample_rule_def Let_def result_simps blank_eval)
  have e: "sample_basis\<lparr>fb_run_id := ''r'', fb_batch_id := ''b'', fb_attempt_chain_digest := Some (Digest ''chain''),
      fb_retry_chain_digest := None, fb_adjudication_chain_digest := None, fb_item_resolution_set_digest := sample_set_digest,
      fb_original_resolution_set_digest := sample_original_digest,
      fb_effective_resolution_set_digest := sample_effective_digest, fb_item_count := 1\<rparr> = sample_basis"
    by (simp add: sample_basis_def)
  show "run_basis_build sample_set sample_basis = Inr sample_basis"
    using c e by (simp add: run_basis_build_def sample_digests mk_run_basis_def) (simp add: sample_set_def sample_basis_def)
qed

definition "sample_basis_digest = digest_or_empty (run_basis_digest sample_basis)"

lemma sample_basis_digest: "run_basis_digest sample_basis = Inr sample_basis_digest"
  unfolding sample_basis_digest_def
  by (rule digest_or_empty)
    (simp add: run_basis_digest_def run_basis_members_def decision_ref_json_def sample_basis_def sample_rule_def
      result_simps digest_json_def safe_int_def)

definition sample_batch_item :: batch_item where
  "sample_batch_item =
     \<lparr>bi_item_key = sample_key, bi_source_kind = SourceRunResolution, bi_source_run_id = Some ''r'',
      bi_source_run_version = Some 3, bi_source_run_basis_digest = Some sample_basis_digest,
      bi_source_set_digest = Some sample_set_digest, bi_source_item_digest = Some sample_item_digest,
      bi_not_executed_fact_schema = None, bi_not_executed_fact_digest = None,
      bi_cancellation_scope_item_digest = None, bi_classification = ItemPassed\<rparr>"

lemma sample_batch_item: "check_batch_item sample_batch_item = None"
  "batch_item_from_run sample_basis sample_set sample_resolution = Inr sample_batch_item"
proof -
  show c: "check_batch_item sample_batch_item = None"
    by (simp add: check_batch_item_def sample_batch_item_def Let_def result_simps blank_eval)
  have m: "basis_set_mismatch sample_basis sample_set = None"
    using sample_set_valid(2)
    by (simp add: basis_set_mismatch_def sample_digests Let_def result_simps) (simp add: sample_set_def sample_basis_def)
  have f: "rs_entries sample_set = [sample_resolution]" "rs_run_id sample_set = ''r''" "rs_source_run_version sample_set = 3"
    "ir_item_key sample_resolution = sample_key" "ir_aggregation_class sample_resolution = ClassPassed"
    by (simp_all add: sample_set_def sample_resolution_def)
  show "batch_item_from_run sample_basis sample_set sample_resolution = Inr sample_batch_item"
    using m c
    by (simp add: batch_item_from_run_def mk_batch_item_def entry_matches_def f sample_digests sample_basis_digest)
      (simp add: sample_batch_item_def)
qed

definition "sample_run_set_digest = digest_or_empty (canonical_materialized_run_set_digest ''b'' [''r''])"

definition sample_batch_set :: batch_item_set where
  "sample_batch_set =
     \<lparr>bs_batch_id = ''b'', bs_source_batch_version = 7, bs_manifest_id = ''m'', bs_manifest_digest = Digest ''md'',
      bs_shard_plan_id = ''p'', bs_shard_plan_version = 1, bs_shard_plan_digest = Digest ''pd'',
      bs_canonical_run_set_digest = sample_run_set_digest, bs_expected_item_keys = [sample_key],
      bs_entries = [sample_batch_item]\<rparr>"

definition sample_policy :: success_policy where
  "sample_policy =
     \<lparr>po_schema_version = ''qep.batch-success-policy.v1'', po_policy_id = ''sp'', po_policy_version = 1,
      po_suite_id = ''s'', po_max_test_failed_items = 0, po_allow_authorized_retry_pass = False,
      po_allowed_test_failure_selector_digest = None, po_result_mapping_schema = ''rm'', po_result_mapping_version = 1,
      po_result_mapping_digest = Digest ''rm'', po_approval_record_digest = Digest ''ap''\<rparr>"

definition "sample_success_policy_digest = digest_or_empty (success_policy_digest sample_policy)"

definition sample_evaluation :: outcome_evaluation where
  "sample_evaluation = \<lparr>oe_outcome = BatchSucceeded, oe_counts = counts_of sample_batch_set,
     oe_policy_digest = sample_success_policy_digest, oe_suite_id = ''s'', oe_intent_digest = None\<rparr>"

lemma sample_success_policy_digest: "success_policy_digest sample_policy = Inr sample_success_policy_digest"
  unfolding sample_success_policy_digest_def
  by (rule digest_or_empty)
    (simp add: success_policy_digest_def sample_policy_def result_simps digest_json_def safe_int_def)

lemma sample_run_set_digest: "canonical_materialized_run_set_digest ''b'' [''r''] = Inr sample_run_set_digest"
  unfolding sample_run_set_digest_def
  by (rule digest_or_empty) (simp add: canonical_materialized_run_set_digest_def result_simps)

lemma sample_counts:
  "counts_of sample_batch_set = \<lparr>ct_original_denominator = 1, ct_passed = 1, ct_test_failed = 0, ct_infra_failed = 0,
     ct_cancelled = 0, ct_unknown_lineage = 0, ct_not_executed = 0\<rparr>"
  by (simp add: counts_of_def class_count_def sample_batch_set_def sample_batch_item_def)

lemma sample_batch_set_valid: "valid_item_set sample_batch_set"
  using sample_batch_item(1)
  by (simp add: valid_item_set_def check_batch_item_set_def sample_batch_set_def Let_def result_simps blank_eval
      run_source_scan_None) (simp add: sample_batch_item_def sample_key_def fits_def setdefault_def)

definition sample_terminal_ref :: terminal_run_ref where
  "sample_terminal_ref =
     \<lparr>tr_run_id = ''r'', tr_source_run_version = 3, tr_run_basis_digest = sample_basis_digest,
      tr_run_outcome = OutcomePassed, tr_run_item_set_digest = Digest ''items'',
      tr_original_resolution_set_digest = sample_original_digest,
      tr_effective_resolution_set_digest = sample_effective_digest, tr_item_resolution_set_digest = sample_set_digest\<rparr>"

definition sample_batch_basis :: batch_basis where
  "sample_batch_basis =
     \<lparr>bb_resolution_set = sample_batch_set, bb_run_resolution_sets = [sample_set], bb_run_bases = [sample_basis],
      bb_cancellation_scope_items = [], bb_terminal_run_refs = [sample_terminal_ref], bb_non_run_refs = [],
      bb_unknown_fact_refs = [], bb_policy = sample_policy, bb_evaluation = sample_evaluation\<rparr>"

lemma sample_batch_basis_valid: "valid_basis_parts sample_batch_basis" "check_batch_basis sample_batch_basis = None"
proof -
  show "valid_basis_parts sample_batch_basis"
    using sample_batch_set_valid sample_set_valid sample_basis_built(2)
    by (simp add: valid_basis_parts_def sample_batch_basis_def)
  have f: "rs_run_id sample_set = ''r''" "fb_run_id sample_basis = ''r''" "rs_entries sample_set = [sample_resolution]"
    "rs_batch_id sample_set = ''b''" "rs_manifest_digest sample_set = Digest ''md''"
    "rs_shard_plan_digest sample_set = Digest ''pd''" "ir_unknown_lineage_digest sample_resolution = None"
    by (simp_all add: sample_set_def sample_basis_def sample_resolution_def)
  have d: "validator_derivation sample_batch_basis = Inr ([sample_batch_item], [])"
    by (simp add: validator_derivation_def sample_batch_basis_def f sample_batch_item(2)) (simp add: sample_batch_set_def)
  have e: "expected_evaluation sample_batch_basis = Inr sample_evaluation"
    using sample_success_policy_digest
    by (simp add: expected_evaluation_def sample_batch_basis_def evaluate_Inr sample_evaluation_def sample_counts)
      (simp add: sample_policy_def batch_outcome_of_def blank_eval)
  have t: "expected_terminal_refs [sample_basis] = Inr [sample_terminal_ref]"
    by (simp add: expected_terminal_refs_def terminal_ref_from_basis_def sample_basis_digest result_simps)
      (simp add: sample_terminal_ref_def sample_basis_def rf_string_def rf_nonnegative_def blank_eval)
  have entries: "run_entries sample_batch_set = [sample_batch_item]" "not_executed_entries sample_batch_set = []"
    by (simp_all add: run_entries_def not_executed_entries_def sample_batch_set_def sample_batch_item_def)
  have runs: "first_some (batch_run_checks sample_batch_basis) = None"
    using d entries by (simp add: batch_run_checks_def bb_run_ids_def result_simps) (simp add: sample_batch_basis_def f entries)
  have refs: "first_some (batch_reference_checks sample_batch_basis) = None"
    using e t entries sample_run_set_digest
    by (simp add: batch_reference_checks_def bb_run_ids_def ordered_refs_None Let_def result_simps)
      (simp add: sample_batch_basis_def f, simp add: sample_batch_set_def)
  have rest: "first_some (batch_cancel_checks sample_batch_basis) = None" "first_some (batch_unknown_checks sample_batch_basis) = None"
    using d by (simp_all add: batch_cancel_checks_def batch_unknown_checks_def ordered_refs_None result_simps)
      (simp_all add: sample_batch_basis_def sample_evaluation_def sample_counts)
  show "check_batch_basis sample_batch_basis = None"
    using runs refs rest by (simp add: check_batch_basis_def result_simps)
qed

end
