(* ===== verification/Finalization_Properties.thy ===== *)
theory Finalization_Properties
  imports Finalization_Samples
begin

text \<open>
  Properties of the finalization of Runs and Batches: what a closed Run and an ended Batch rest on, the
  truth table of the Batch outcome, and the selection of the Attempt that counts.
\<close>

section \<open>Closed Runs\<close>

lemma collect_complete_Inr:
  "collect_complete keys d no f acc attempts = Inr out \<longleftrightarrow>
     map vs_attempt_no attempts = map (\<lambda>j. no + int j) [0..<length attempts] \<and>
     (\<forall>a \<in> set attempts. vs_attempt_item_set_digest a = d \<and> vi_item_key ` set (vs_items a) \<subseteq> set keys) \<and>
     sorted_wrt (<) (f # map vs_attempt_fence attempts) \<and>
     out = acc @ filter (\<lambda>a. vi_item_key ` set (vs_items a) = set keys) attempts"
proof (induction attempts arbitrary: no f acc)
  case (Cons a as)
  have "map (\<lambda>j. no + int j) [0..<length (a # as)] = no # map (\<lambda>j. no + 1 + int j) [0..<length as]"
    by (simp add: upt_conv_Cons map_Suc_upt [symmetric] del: upt_Suc)
  then have nos: "map vs_attempt_no (a # as) = map (\<lambda>j. no + int j) [0..<length (a # as)] \<longleftrightarrow>
      vs_attempt_no a = no \<and> map vs_attempt_no as = map (\<lambda>j. no + 1 + int j) [0..<length as]" by simp
  have fences: "sorted_wrt (<) (f # map vs_attempt_fence (a # as)) \<longleftrightarrow>
      f < vs_attempt_fence a \<and> sorted_wrt (<) (vs_attempt_fence a # map vs_attempt_fence as)" by auto
  have step: "collect_complete keys d no f acc (a # as) = Inr out \<longleftrightarrow>
      vs_attempt_no a = no \<and> f < vs_attempt_fence a \<and> vs_attempt_item_set_digest a = d \<and>
      vi_item_key ` set (vs_items a) \<subseteq> set keys \<and>
      collect_complete keys d (no + 1) (vs_attempt_fence a)
        (if vi_item_key ` set (vs_items a) = set keys then acc @ [a] else acc) as = Inr out"
    by (simp add: Let_def result_simps not_le conj_ac)
  show ?case
    unfolding step Cons.IH nos fences
    by (cases "vi_item_key ` set (vs_items a) = set keys") (simp_all only: list.set(2) ball_simps filter.simps if_True if_False append_assoc append_Cons append_Nil conj_ac simp_thms)
qed auto

lemma last_filter_find_last: "filter P xs \<noteq> [] \<Longrightarrow> find_last P xs = Some (last (filter P xs))"
  by (induction xs rule: rev_induct) (auto simp: find_last_def)

lemma find_last_None: "find_last P xs = None \<longleftrightarrow> filter P xs = []"
  by (auto simp: find_last_def find_None_iff filter_empty_conv)

lemma collect_complete_Inl:
  "collect_complete keys d no f acc attempts = Inl e \<Longrightarrow>
     \<exists>field code. e = DomainValidationError ''authorized_retry_selection'' field code"
  by (induction attempts arbitrary: no f acc)
    (auto simp: Let_def bind_result_Inl_iff raise_or_def reject_if_def split: if_splits option.splits)

text \<open>
  C11: The selection of the effective retry returns the latest complete Attempt of the authority chain
  and nothing else. A chain is sound when the Attempt numbers continue from the original one without
  a gap, the fences strictly rise, and every Attempt ran the full item set of the Run without foreign
  items. For a sound chain the result is the last Attempt that covers every item, and when no Attempt does,
  the error that asks for a review of the last Attempt; a chain or Run that is not sound is refused with a
  validation error, never with a selection or a review.
\<close>

theorem latest_complete_attempt_selected:
  "if keys \<noteq> [] \<and> distinct keys \<and> \<not> blank run_id \<and> 1 \<le> no \<and> 1 \<le> f \<and> attempts \<noteq> [] \<and>
     map vs_attempt_no attempts = map (\<lambda>j. no + 1 + int j) [0..<length attempts] \<and>
     sorted_wrt (<) (f # map vs_attempt_fence attempts) \<and>
     list_all (\<lambda>x. vs_attempt_item_set_digest x = d \<and> vi_item_key ` set (vs_items x) \<subseteq> set keys) attempts
   then select_latest_complete keys d no f attempts run_id =
     (case find_last (\<lambda>x. vi_item_key ` set (vs_items x) = set keys) attempts of
        Some a \<Rightarrow> Inr a
      | None \<Rightarrow> Inl (AttemptUnknownReviewRequired run_id (vs_attempt_id (last attempts)) (vs_attempt_fence (last attempts))
          ''no_authorized_complete_attempt''))
   else \<exists>field code. select_latest_complete keys d no f attempts run_id =
     Inl (DomainValidationError ''authorized_retry_selection'' field code)"
proof -
  let ?full = "\<lambda>x. vi_item_key ` set (vs_items x) = set keys"
  let ?inputs = "keys \<noteq> [] \<and> distinct keys \<and> \<not> blank run_id \<and> 1 \<le> no \<and> 1 \<le> f \<and> attempts \<noteq> []"
  let ?chain = "collect_complete keys d (no + 1) f [] attempts"
  have sound: "?inputs \<Longrightarrow> select_latest_complete keys d no f attempts run_id = bind_result ?chain (\<lambda>complete.
      if complete = [] then Inl (AttemptUnknownReviewRequired run_id (vs_attempt_id (last attempts))
        (vs_attempt_fence (last attempts)) ''no_authorized_complete_attempt'') else Inr (last complete))"
    by (simp add: select_latest_complete_def rf_string_def rf_positive_def reject_if_def raise_or_def Let_def)
  have unsound: "\<not> ?inputs \<Longrightarrow> \<exists>field code. select_latest_complete keys d no f attempts run_id =
      Inl (DomainValidationError ''authorized_retry_selection'' field code)"
    by (auto simp: select_latest_complete_def rf_string_def rf_positive_def reject_if_def raise_or_def Let_def)
  have latest: "find_last ?full attempts = (if filter ?full attempts = [] then None else Some (last (filter ?full attempts)))"
    using last_filter_find_last [of ?full attempts] find_last_None [of ?full attempts] by simp
  show ?thesis
  proof (cases ?chain)
    case (Inl e)
    then have "\<exists>field code. select_latest_complete keys d no f attempts run_id =
        Inl (DomainValidationError ''authorized_retry_selection'' field code)"
      using sound unsound collect_complete_Inl [OF Inl] by (cases ?inputs) auto
    moreover have "?chain \<noteq> Inr (filter ?full attempts)" using Inl by simp
    ultimately show ?thesis unfolding collect_complete_Inr by (auto simp: list_all_iff)
  next
    case (Inr out)
    then show ?thesis using sound unsound latest Inr [unfolded collect_complete_Inr] by (cases ?inputs) (auto simp: list_all_iff)
  qed
qed

definition sample_attempt :: "int \<Rightarrow> verified_attempt_item list \<Rightarrow> verified_attempt_set" where
  "sample_attempt n items = \<lparr>vs_attempt_id = ''a'', vs_attempt_no = n, vs_attempt_fence = 2 * n,
     vs_attempt_item_set_digest = Digest ''items'', vs_items = items\<rparr>"

theorem latest_complete_attempt_selected_witness:
  "select_latest_complete [sample_key] (Digest ''items'') 1 1
     [sample_attempt 2 [\<lparr>vi_item_key = sample_key, vi_effective = sample_effective\<rparr>], sample_attempt 3 []] ''r'' =
   Inr (sample_attempt 2 [\<lparr>vi_item_key = sample_key, vi_effective = sample_effective\<rparr>]) \<and>
   select_latest_complete [sample_key] (Digest ''items'') 1 1 [sample_attempt 2 []] ''r'' =
   Inl (AttemptUnknownReviewRequired ''r'' ''a'' 4 ''no_authorized_complete_attempt'')"
  using latest_complete_attempt_selected [of "[sample_key]" "''r''" 1 1
      "[sample_attempt 2 [\<lparr>vi_item_key = sample_key, vi_effective = sample_effective\<rparr>], sample_attempt 3 []]" "Digest ''items''"]
    latest_complete_attempt_selected [of "[sample_key]" "''r''" 1 1 "[sample_attempt 2 []]" "Digest ''items''"]
  by (simp add: sample_attempt_def find_last_def blank_eval)

text \<open>
  A Run is as good as its worst item: the audit outcome of a resolution set is the effective
  outcome of one of its items, none of whose companions is worse in the order passed, cancelled, test
  failed, infra failed; in particular it is passed exactly when every item is.
\<close>

theorem audit_outcome_is_worst_item:
  assumes "check_run_resolution_set s = None"
  shows "(\<exists>r \<in> set (rs_entries s). er_outcome (ir_effective r) = audit_outcome s) \<and>
    (\<forall>r \<in> set (rs_entries s). outcome_precedence (er_outcome (ir_effective r)) \<le> outcome_precedence (audit_outcome s)) \<and>
    (audit_outcome s = OutcomePassed \<longleftrightarrow> (\<forall>r \<in> set (rs_entries s). er_outcome (ir_effective r) = OutcomePassed))"
proof -
  have ne: "rs_entries s \<noteq> []" using assms by (simp add: check_run_resolution_set_def Let_def result_simps)
  note w = audit_outcome_worst [OF ne]
  have "outcome_precedence x \<le> 0 \<longleftrightarrow> x = OutcomePassed" for x by (cases x) simp_all
  then have "audit_outcome s = OutcomePassed \<longleftrightarrow> (\<forall>r \<in> set (rs_entries s). er_outcome (ir_effective r) = OutcomePassed)"
    using w by (metis outcome_precedence.simps(1))
  then show ?thesis using w by blast
qed

theorem audit_outcome_is_worst_item_witness:
  "\<forall>r \<in> set (rs_entries sample_set). er_outcome (ir_effective r) = OutcomePassed"
  using audit_outcome_is_worst_item [of sample_set] sample_set_valid by (simp add: valid_run_set_def)

text \<open>
  Exactly four shapes of a Run's phase, disposition and outcome are valid: closed with outcome and
  basis and no active pointer; retry-queued with the pending intent; running under review of an unknown
  Attempt; and the plain phases, which carry none of these.
\<close>

theorem finalization_state_shapes:
  "check_finalization_state s = None \<longleftrightarrow>
     pred_option (\<lambda>x. \<not> blank x) (fs_current_assignment_id s) \<and>
     pred_option (\<lambda>x. \<not> blank x) (fs_pending_retry_intent_id s) \<and>
     (let no_result = (fs_outcome s = None \<and> fs_finalization_basis_digest s = None) in
      fs_phase s = PhaseClosed \<and> fs_disposition s = Some ClosedNoRetry \<and> fs_outcome s \<noteq> None \<and>
        fs_finalization_basis_digest s \<noteq> None \<and> fs_current_assignment_id s = None \<and> fs_pending_retry_intent_id s = None \<or>
      fs_phase s = PhaseRetryQueued \<and> fs_disposition s = Some RetryQueued \<and> no_result \<and>
        fs_current_assignment_id s = None \<and> fs_pending_retry_intent_id s \<noteq> None \<or>
      fs_phase s = PhaseRunning \<and> fs_disposition s = Some ReviewRequired \<and> no_result \<and>
        fs_latest_attempt_fact s = Some FactAttemptUnknown \<and> fs_pending_retry_intent_id s = None \<or>
      fs_phase s \<notin> {PhaseClosed, PhaseRetryQueued} \<and> fs_disposition s = None \<and> no_result \<and>
        fs_pending_retry_intent_id s = None)"
proof -
  have pointer: "pred_option (\<lambda>x. \<not> blank x) v \<longleftrightarrow> (\<forall>x \<in> set_option v. \<not> blank x)" for v
    by (simp add: option.pred_set)
  show ?thesis
    by (cases "fs_phase s"; cases "fs_disposition s"; (cases "the (fs_disposition s)")?)
      (auto simp: check_finalization_state_def validate_closed_def validate_review_def validate_retry_def Let_def
        result_simps pointer)
qed

theorem finalization_state_shapes_witness:
  "check_finalization_state \<lparr>fs_phase = PhaseClosed, fs_disposition = Some ClosedNoRetry, fs_outcome = None,
     fs_finalization_basis_digest = None, fs_latest_attempt_fact = None, fs_current_assignment_id = None,
     fs_pending_retry_intent_id = None\<rparr> \<noteq> None"
  unfolding finalization_state_shapes by (simp add: Let_def)

section \<open>Items\<close>

text \<open>
  An item counts as passed only on authority: it is never one whose original execution is unknown,
  and its effective outcome is passed by the original execution itself with its Evidence, by a retry
  that carries intent, decision and authority digests, or by an adjudication on verified Evidence.
\<close>

theorem passed_item_has_authority:
  assumes "valid_resolution r" "ir_aggregation_class r = ClassPassed"
  shows "or_execution_fact (ir_original r) \<noteq> FactAttemptUnknown \<and> ir_unknown_lineage_digest r = None \<and>
    er_outcome (ir_effective r) = OutcomePassed \<and>
    (er_source_kind (ir_effective r) = FromOriginal \<and> or_execution_fact (ir_original r) = FactPassed \<and>
       rf_evidence_root_digest (ir_original r) \<noteq> None \<or>
     er_source_kind (ir_effective r) = FromAuthorizedRetry \<and> er_retry_intent_digest (ir_effective r) \<noteq> None \<and>
       er_retry_decision_digest (ir_effective r) \<noteq> None \<and> er_retry_authority_digest (ir_effective r) \<noteq> None \<or>
     er_source_kind (ir_effective r) = FromUnknownAdjudication \<and> er_adjudication_digest (ir_effective r) \<noteq> None \<and>
       er_adjudication_decision (ir_effective r) = Some MarkCompletedFromVerifiedEvidence \<and>
       rf_evidence_root_digest (ir_effective r) \<noteq> None)"
proof -
  have lineage: "ir_unknown_lineage_digest r = None" using resolution_class(1) [OF assms(1)] assms(2) by auto
  then have unknown: "or_execution_fact (ir_original r) \<noteq> FactAttemptUnknown" using resolution_class(2) [OF assms(1)] by blast
  have passed: "er_outcome (ir_effective r) = OutcomePassed"
    using resolution_class(3) [OF assms(1) lineage] assms(2) by (cases "er_outcome (ir_effective r)") simp_all
  have "or_execution_fact (ir_original r) = FactPassed \<and> rf_evidence_root_digest (ir_original r) \<noteq> None"
    if "er_source_kind (ir_effective r) = FromOriginal"
  proof -
    have "outcome_of_fact (or_execution_fact (ir_original r)) = Some OutcomePassed"
      using resolution_source(1) [OF assms(1) that] passed by (auto simp: effective_mirrors_original_def)
    then have f: "or_execution_fact (ir_original r) = FactPassed" by (cases "or_execution_fact (ir_original r)") simp_all
    moreover have "or_source_kind (ir_original r) = AttemptResult"
      using assms(1) f by (auto simp: valid_resolution_def check_original_resolution_def Let_def result_simps split: if_splits)
    ultimately show ?thesis
      using assms(1) by (auto simp: valid_resolution_def check_original_resolution_def Let_def result_simps split: if_splits)
  qed
  moreover have "er_adjudication_decision (ir_effective r) = Some MarkCompletedFromVerifiedEvidence \<and>
      er_adjudication_digest (ir_effective r) \<noteq> None \<and> rf_evidence_root_digest (ir_effective r) \<noteq> None"
    if "er_source_kind (ir_effective r) = FromUnknownAdjudication"
    using assms(1) that passed
    by (auto simp: valid_resolution_def check_effective_resolution_def adjudicated_resolution_checks_def Let_def
        result_simps split: if_splits)
  ultimately show ?thesis
    using lineage unknown passed resolution_source(2) [OF assms(1)] by (cases "er_source_kind (ir_effective r)") simp_all
qed

theorem passed_item_has_authority_witness: "or_execution_fact (ir_original sample_resolution) \<noteq> FactAttemptUnknown"
  using passed_item_has_authority [OF sample_resolutions_valid(1)] by (simp add: sample_resolution_def)

text \<open>
  C10: The unknown lineage of an item is not sticky: when the original execution has a concrete result,
  an item whose effective resolution comes from an adjudicated unknown Attempt, or from a retry of
  one, is also accepted without its lineage digest and then counts under its effective outcome.
\<close>

theorem adjudicated_lineage_can_be_dropped:
  assumes "valid_resolution r" "or_execution_fact (ir_original r) \<noteq> FactAttemptUnknown"
    "er_adjudication_digest (ir_effective r) \<noteq> None"
  shows "valid_resolution (r\<lparr>ir_unknown_lineage_digest := None,
    ir_aggregation_class := class_of_outcome (er_outcome (ir_effective r))\<rparr>)"
proof -
  have "er_source_kind (ir_effective r) \<noteq> FromOriginal" using resolution_source(1) [OF assms(1)] assms(3) by auto
  then show ?thesis
    using assms by (auto simp: valid_resolution_def check_run_item_resolution_def Let_def result_simps)
qed

theorem adjudicated_lineage_can_be_dropped_witness:
  "\<exists>r. valid_resolution r \<and> er_source_kind (ir_effective r) = FromUnknownAdjudication \<and> ir_aggregation_class r = ClassPassed"
  using adjudicated_lineage_can_be_dropped [OF sample_resolutions_valid(2)] by (fastforce simp: sample_item_defs)

section \<open>The basis of a Run\<close>

text \<open>
  What closes a Run: passed only with an Evidence root and either the passed final Attempt or one
  adjudication that completes it from that very root; a final Attempt that is unknown only with its
  observation and one adjudication that forbids retry; a cancelled final Attempt that is reported as
  verified cancellation only with intent and stop digests that a contract rule of the chain names; and
  a Run without Attempt only as cancelled with intent and prestart closure.
\<close>

theorem closed_run_has_authority:
  assumes "check_run_basis b = None"
  shows "fb_disposition b = ClosedNoRetry \<and>
    (fb_outcome b = OutcomePassed \<longrightarrow> fb_evidence_root_digest b \<noteq> None \<and>
       (fb_final_attempt_state b = Some FactPassed \<or> (\<exists>res. chain_adjudications (fb_decision_chain b) = [AdjudicationResult res] \<and>
          ar_decision res = MarkCompletedFromVerifiedEvidence \<and> ar_evidence_root_digest res = fb_evidence_root_digest b))) \<and>
    (fb_final_attempt_state b = Some FactAttemptUnknown \<longrightarrow> fb_unknown_observation_digest b \<noteq> None \<and>
       (\<exists>res. chain_adjudications (fb_decision_chain b) = [AdjudicationResult res] \<and> \<not> permits_retry (ar_decision res))) \<and>
    (fb_terminal_input_kind b = VerifiedCancellationEvidence \<longrightarrow> fb_outcome b = OutcomeCancelled \<and>
       fb_evidence_root_digest b \<noteq> None \<and> (\<exists>r \<in> set (fb_decision_chain b). \<exists>rule i p. rule_of r = Some rule \<and>
          cr_cancellation_intent_digest rule = Some i \<and> cr_cancellation_stop_digest rule = Some p \<and>
          fb_cancellation_intent_digest b = Some i \<and> fb_cancellation_stop_digest b = Some p)) \<and>
    (fb_final_attempt_id b = None \<longrightarrow> fb_outcome b = OutcomeCancelled \<and> fb_cancellation_intent_digest b \<noteq> None \<and>
       fb_prestart_closure_digest b \<noteq> None)"
proof -
  note defs = check_run_basis_def validate_input_kind_def Let_def result_simps
  have closed: "fb_disposition b = ClosedNoRetry" using assms by (simp add: defs)
  show ?thesis
  proof (cases "fb_terminal_input_kind b")
    case VerifiedEvidence
    then have "fb_final_attempt_state b \<noteq> Some FactAttemptUnknown" "fb_evidence_root_digest b \<noteq> None"
      "Some (run_outcome_value (fb_outcome b)) = map_option execution_fact_value (fb_final_attempt_state b)"
      "fb_final_attempt_id b \<noteq> None"
      using assms by (auto simp: defs attempt_input_checks_def evidence_input_checks_def)
    moreover have "fb_final_attempt_state b = Some FactPassed"
      if "fb_outcome b = OutcomePassed" using calculation(3) that
      by (cases "fb_final_attempt_state b"; cases "the (fb_final_attempt_state b)") auto
    ultimately show ?thesis using closed VerifiedEvidence by auto
  next
    case VerifiedCancellationEvidence
    then have "fb_final_attempt_state b = Some FactCancelled" "fb_evidence_root_digest b \<noteq> None"
      "fb_cancellation_intent_digest b \<noteq> None" "fb_cancellation_stop_digest b \<noteq> None" "fb_outcome b = OutcomeCancelled"
      "validate_cancel_rule b = None" "fb_final_attempt_id b \<noteq> None"
      using assms by (auto simp: defs attempt_input_checks_def cancellation_input_checks_def)
    moreover from this(6) have "\<exists>r \<in> set (fb_decision_chain b). \<exists>rule. rule_of r = Some rule \<and>
        cr_cancellation_intent_digest rule = fb_cancellation_intent_digest b \<and>
        cr_cancellation_stop_digest rule = fb_cancellation_stop_digest b"
      by (auto simp: validate_cancel_rule_def result_simps list_ex_iff split: option.splits simp del: rule_of.simps)
    ultimately show ?thesis using closed by (fastforce simp del: rule_of.simps)
  next
    case InputPrestartCancel
    then show ?thesis using assms closed by (auto simp: defs prestart_input_checks_def)
  next
    case InputUnknownAdjudication
    then have f: "fb_final_attempt_state b = Some FactAttemptUnknown" "fb_unknown_observation_digest b \<noteq> None"
      "fb_final_attempt_id b \<noteq> None" "first_some (adjudication_input_checks b) = None"
      using assms by (auto simp: defs attempt_input_checks_def adjudication_input_checks_def)
    from f(4) obtain res where res: "chain_adjudications (fb_decision_chain b) = [AdjudicationResult res]"
      "ar_decision res = MarkInfraFailedNoRetry \<and> fb_outcome b = OutcomeInfraFailed \<or>
       ar_decision res = MarkCompletedFromVerifiedEvidence \<and> fb_evidence_root_digest b \<noteq> None \<and>
         ar_evidence_root_digest res = fb_evidence_root_digest b"
      by (auto simp: adjudication_input_checks_def Let_def result_simps split: list.splits decision_result.splits if_splits)
    then have "\<not> permits_retry (ar_decision res)" by (auto simp: permits_retry_def)
    then show ?thesis using closed f(1-3) res InputUnknownAdjudication by auto
  qed
qed

theorem closed_run_has_authority_witness: "fb_evidence_root_digest sample_basis \<noteq> None"
  using closed_run_has_authority [OF sample_basis_built(2)] by (simp add: sample_basis_def)

section \<open>The retry chain\<close>

definition attempt_rises :: "decision_ref \<Rightarrow> retry_decision_result \<Rightarrow> bool" where
  "attempt_rises r res \<longleftrightarrow> (\<exists>n f. dr_source_attempt_no r = Some n \<and> dr_source_attempt_fence r = Some f \<and>
     rd_target_attempt_no res = n + 1 \<and> f < rd_target_attempt_fence res)"

definition retry_follows :: "decision_ref \<times> retry_decision_result \<Rightarrow> decision_ref \<times> retry_decision_result \<Rightarrow> bool" where
  "retry_follows p q \<longleftrightarrow> dr_source_attempt_id (fst q) = Some (rd_target_attempt_id (snd p)) \<and>
     dr_source_attempt_no (fst q) = Some (rd_target_attempt_no (snd p)) \<and>
     dr_source_attempt_fence (fst q) = Some (rd_target_attempt_fence (snd p))"

lemma chain_retries_member: "x \<in> set (chain_retries refs) \<Longrightarrow> fst x \<in> set refs"
  by (auto simp: chain_retries_def split: option.splits)

lemma retry_step_facts:
  assumes "first_some (retry_step_checks previous r res) = None"
  shows "check_decision_ref r = None \<Longrightarrow> attempt_rises r res" "previous = Some p \<Longrightarrow> retry_follows (q, p) (r, res')"
  using assms
  by (cases "dr_source_attempt_no r"; cases "dr_source_attempt_fence r";
      auto simp: retry_step_checks_def check_decision_ref_def attempt_rises_def retry_follows_def Let_def result_simps)+

lemma retry_chain_steps:
  assumes "first_some (retry_chain_checks previous retries) = None" "\<forall>x \<in> set retries. check_decision_ref (fst x) = None"
  shows "(\<forall>x \<in> set retries. attempt_rises (fst x) (snd x)) \<and> successively retry_follows retries"
  using assms
proof (induction previous retries rule: retry_chain_checks.induct)
  case (2 previous r res rest)
  have s: "first_some (retry_step_checks previous r res) = None" "first_some (retry_chain_checks (Some res) rest) = None"
    using "2.prems"(1) by (simp_all add: result_simps)
  have "retry_follows (r, res) (hd rest)" if "rest \<noteq> []"
  proof (cases rest)
    case (Cons y ys)
    then have "first_some (retry_step_checks (Some res) (fst y) (snd y)) = None"
      using s(2) by (cases y) (simp add: result_simps)
    from retry_step_facts(2) [OF this refl] show ?thesis using Cons by (metis list.sel(1) prod.collapse)
  qed (use that in simp)
  then show ?case
    using "2.IH" [OF s(2)] "2.prems"(2) retry_step_facts(1) [OF s(1)] by (cases rest) auto
qed simp

lemma retry_chain_totals:
  assumes "\<forall>x \<in> set retries. attempt_rises (fst x) (snd x)" "successively retry_follows retries" "retries \<noteq> []"
  shows "\<exists>n f. dr_source_attempt_no (fst (hd retries)) = Some n \<and> dr_source_attempt_fence (fst (hd retries)) = Some f \<and>
    rd_target_attempt_no (snd (last retries)) = n + int (length retries) \<and>
    f + int (length retries) \<le> rd_target_attempt_fence (snd (last retries))"
  using assms
proof (induction retries rule: induct_list012)
  case (3 x y zs)
  then obtain n f where "dr_source_attempt_no (fst y) = Some n" "dr_source_attempt_fence (fst y) = Some f"
    "rd_target_attempt_no (snd (last (y # zs))) = n + int (length (y # zs))"
    "f + int (length (y # zs)) \<le> rd_target_attempt_fence (snd (last (y # zs)))" by auto
  moreover have "retry_follows x y" "attempt_rises (fst x) (snd x)" using "3.prems" by simp_all
  ultimately show ?case by (auto simp: retry_follows_def attempt_rises_def)
qed (auto simp: attempt_rises_def)

text \<open>
  C12: The retry decisions of a closed Run lead without a gap from the original Attempt to the final
  one: each starts at the Attempt that the one before it authorized, the Attempt number rises by one
  with each retry and the fence strictly, so the final Attempt has the number of the first source plus
  the number of retries.
\<close>

theorem retry_chain_unbroken:
  assumes "check_run_basis b = None" "\<forall>r \<in> set (fb_decision_chain b). check_decision_ref r = None"
    "chain_retries (fb_decision_chain b) = retries" "retries \<noteq> []"
  shows "dr_source_attempt_id (fst (hd retries)) = fb_original_attempt_id b \<and>
    fb_final_attempt_id b = Some (rd_target_attempt_id (snd (last retries))) \<and> successively retry_follows retries \<and>
    (\<exists>n. dr_source_attempt_no (fst (hd retries)) = Some n \<and> fb_final_attempt_no b = Some (n + int (length retries))) \<and>
    (\<exists>f g. fb_original_attempt_fence b = Some f \<and> fb_final_attempt_fence b = Some g \<and> f + int (length retries) \<le> g)"
proof -
  have "first_some (validate_decisions b) = None" using assms(1) by (simp add: check_run_basis_def Let_def result_simps)
  then have v: "first_some (retry_chain_checks None retries) = None" "\<not> retry_basis_mismatch b retries"
    using assms(3,4) by (simp_all add: validate_decisions_def Let_def result_simps)
  have "\<forall>x \<in> set retries. check_decision_ref (fst x) = None" using assms(2,3) chain_retries_member by blast
  note steps = retry_chain_steps [OF v(1) this]
  from retry_chain_totals [OF steps [THEN conjunct1] steps [THEN conjunct2] assms(4)] show ?thesis
    using v(2) steps by (auto simp: retry_basis_mismatch_def Let_def dest: sym [of _ "fb_final_attempt_fence b"])
qed

definition sample_retry :: decision_ref where
  "sample_retry = sample_rule
     \<lparr>dr_sequence := 2, dr_decision_kind := SuiteRetry, dr_decision_digest := Digest ''retry'',
      dr_decision_result := RetryResult \<lparr>rd_retry_intent_digest = Digest ''i'', rd_retry_decision_digest = Digest ''retry'',
        rd_retry_authority_digest = Digest ''au'', rd_target_attempt_id = ''a2'', rd_target_attempt_no = 2,
        rd_target_attempt_fence = 3, rd_target_item_set_digest = Digest ''items''\<rparr>,
      dr_source_attempt_id := Some ''a1'', dr_source_attempt_no := Some 1, dr_source_attempt_fence := Some 1,
      dr_source_item_set_digest := Some (Digest ''items'')\<rparr>"

definition retried_basis :: run_basis where
  "retried_basis = sample_basis\<lparr>fb_decision_chain := [sample_rule, sample_retry], fb_final_attempt_id := Some ''a2'',
     fb_final_attempt_no := Some 2, fb_final_attempt_fence := Some 3\<rparr>"

lemma retried_basis_valid: "check_run_basis retried_basis = None" "check_decision_ref sample_rule = None"
  "check_decision_ref sample_retry = None"
  by (simp_all add: check_run_basis_def validate_decisions_def validate_input_kind_def attempt_input_checks_def
      evidence_input_checks_def chain_retries_def retry_step_checks_def retry_basis_mismatch_def check_decision_ref_def
      retried_basis_def sample_basis_def sample_retry_def sample_rule_def Let_def result_simps blank_eval)

theorem retry_chain_unbroken_witness: "fb_final_attempt_no retried_basis = Some (1 + 1)"
proof -
  have r: "chain_retries (fb_decision_chain retried_basis) =
      [(sample_retry, (case dr_decision_result sample_retry of RetryResult res \<Rightarrow> res))]"
    by (simp add: chain_retries_def retried_basis_def sample_retry_def sample_rule_def)
  have "\<forall>r \<in> set (fb_decision_chain retried_basis). check_decision_ref r = None"
    using retried_basis_valid(2,3) by (simp add: retried_basis_def)
  from retry_chain_unbroken [OF retried_basis_valid(1) this r] show ?thesis by (auto simp: sample_retry_def)
qed

section \<open>The outcome of a Batch\<close>

text \<open>
  The truth table of the Batch outcome, row by row: for valid counts and a policy without the
  disabled options, the evaluation always decides, provided that cancelled or not-executed items come
  with a cancellation intent (and that the policy's integers are safe). It says CANCELLED exactly when
  all items are cancelled or not executed, PARTIAL when some but not all are so or one has an unknown
  lineage, FAILED when there is none of these but an infrastructure failure or too many test failures,
  and SUCCEEDED exactly when only passed and at most the tolerated number of failed items remain.
\<close>

theorem batch_outcome_truth_table:
  assumes "check_resolution_counts c = None" "check_success_policy p = None" "success_policy_digest p = Inr d"
    "\<not> po_allow_authorized_retry_pass p" "po_allowed_test_failure_selector_digest p = None"
    "ct_cancelled c + ct_not_executed c \<noteq> 0 \<longrightarrow> intent \<noteq> None"
  shows "\<exists>v. evaluate_batch_outcome c p (po_suite_id p) intent = Inr v \<and> oe_counts v = c \<and>
    (oe_outcome v = BatchCancelled \<longleftrightarrow> ct_cancelled c + ct_not_executed c = ct_original_denominator c) \<and>
    (oe_outcome v = BatchPartial \<longleftrightarrow> 0 < ct_cancelled c + ct_not_executed c + ct_unknown_lineage c \<and>
       ct_cancelled c + ct_not_executed c < ct_original_denominator c) \<and>
    (oe_outcome v = BatchFailed \<longleftrightarrow> ct_cancelled c = 0 \<and> ct_not_executed c = 0 \<and> ct_unknown_lineage c = 0 \<and>
       (0 < ct_infra_failed c \<or> po_max_test_failed_items p < ct_test_failed c)) \<and>
    (oe_outcome v = BatchSucceeded \<longleftrightarrow> ct_passed c + ct_test_failed c = ct_original_denominator c \<and>
       ct_test_failed c \<le> po_max_test_failed_items p)"
proof -
  let ?v = "\<lparr>oe_outcome = batch_outcome_of c p, oe_counts = c, oe_policy_digest = d, oe_suite_id = po_suite_id p,
    oe_intent_digest = intent\<rparr>"
  have "\<not> blank (po_suite_id p)" using assms(2) by (simp add: check_success_policy_def Let_def result_simps)
  then have v: "evaluate_batch_outcome c p (po_suite_id p) intent = Inr ?v" using assms(3-6) by (simp add: evaluate_Inr)
  have c: "0 \<le> ct_passed c" "0 \<le> ct_test_failed c" "0 \<le> ct_infra_failed c" "0 \<le> ct_cancelled c"
    "0 \<le> ct_unknown_lineage c" "0 \<le> ct_not_executed c" "0 < ct_original_denominator c"
    "ct_passed c + ct_test_failed c + ct_infra_failed c + ct_cancelled c + ct_unknown_lineage c + ct_not_executed c =
       ct_original_denominator c"
    using assms(1) by (auto simp: check_resolution_counts_def Let_def result_simps)
  note o = batch_outcome_of_def [of c p] Let_def
  have "batch_outcome_of c p = BatchCancelled \<longleftrightarrow> ct_cancelled c + ct_not_executed c = ct_original_denominator c"
    using c by (simp add: o; linarith)
  moreover have "batch_outcome_of c p = BatchPartial \<longleftrightarrow> 0 < ct_cancelled c + ct_not_executed c + ct_unknown_lineage c \<and>
       ct_cancelled c + ct_not_executed c < ct_original_denominator c"
    using c by (simp add: o; linarith)
  moreover have "batch_outcome_of c p = BatchFailed \<longleftrightarrow> ct_cancelled c = 0 \<and> ct_not_executed c = 0 \<and>
       ct_unknown_lineage c = 0 \<and> (0 < ct_infra_failed c \<or> po_max_test_failed_items p < ct_test_failed c)"
    using c by (simp add: o; linarith)
  moreover have "batch_outcome_of c p = BatchSucceeded \<longleftrightarrow> ct_passed c + ct_test_failed c = ct_original_denominator c \<and>
       ct_test_failed c \<le> po_max_test_failed_items p"
    using c by (simp add: o; linarith)
  ultimately show ?thesis using v by simp
qed

theorem batch_outcome_truth_table_witness:
  "\<exists>v. evaluate_batch_outcome \<lparr>ct_original_denominator = 3, ct_passed = 2, ct_test_failed = 0, ct_infra_failed = 0,
     ct_cancelled = 0, ct_unknown_lineage = 1, ct_not_executed = 0\<rparr> sample_policy ''s'' None = Inr v \<and>
     oe_outcome v = BatchPartial"
proof -
  have "check_success_policy sample_policy = None"
    by (simp add: check_success_policy_def sample_policy_def Let_def result_simps blank_eval)
  note t = batch_outcome_truth_table [OF _ this sample_success_policy_digest]
  show ?thesis
    using t [of "\<lparr>ct_original_denominator = 3, ct_passed = 2, ct_test_failed = 0, ct_infra_failed = 0,
       ct_cancelled = 0, ct_unknown_lineage = 1, ct_not_executed = 0\<rparr>" None]
    by (auto simp: sample_policy_def check_resolution_counts_def Let_def result_simps)
qed

section \<open>The basis of a Batch\<close>

lemma derived_entry:
  assumes "check_batch_basis b = None" "i \<in> set (run_entries (bb_resolution_set b))"
  obtains s f r where "s \<in> set (bb_run_resolution_sets b)" "f \<in> set (bb_run_bases b)" "r \<in> set (rs_entries s)"
    "fb_run_id f = rs_run_id s" "batch_item_from_run f s r = Inr i"
proof -
  obtain derived us where d: "validator_derivation b = Inr (derived, us)"
    "set (run_entries (bb_resolution_set b)) = set derived" using assms(1) by (rule batch_basis_facts)
  have "from_runs (bb_run_bases b) (bb_run_resolution_sets b) i"
    using derive_runs_Inr [OF d(1) [unfolded validator_derivation_def]] assms(2) d(2) by auto
  then show thesis using that unfolding from_runs_def by blast
qed

text \<open>
  C9: A Batch succeeds only when everything is accounted for: every item of the frozen Manifest has an
  entry derived from an item resolution of one of its closed Runs, whose basis and set agree; that item
  has no unknown in its original execution and no unknown lineage, its effective outcome is passed or
  test failed, and no more test failures than the policy tolerates occur. Nothing is unexecuted.
\<close>

theorem succeeded_batch_fully_accounted:
  assumes "valid_basis_parts b" "check_batch_basis b = None" "oe_outcome (bb_evaluation b) = BatchSucceeded"
  shows "(\<forall>k \<in> set (bs_expected_item_keys (bb_resolution_set b)).
      \<exists>s \<in> set (bb_run_resolution_sets b). \<exists>f \<in> set (bb_run_bases b). \<exists>r \<in> set (rs_entries s).
        fb_run_id f = rs_run_id s \<and> fb_outcome f = audit_outcome s \<and> ir_item_key r = k \<and>
        or_execution_fact (ir_original r) \<noteq> FactAttemptUnknown \<and> ir_unknown_lineage_digest r = None \<and>
        er_outcome (ir_effective r) \<in> {OutcomePassed, OutcomeTestFailed}) \<and>
    class_count ItemTestFailed (bs_entries (bb_resolution_set b)) \<le> po_max_test_failed_items (bb_policy b) \<and>
    not_executed_entries (bb_resolution_set b) = []"
proof -
  let ?t = "bb_resolution_set b"
  have t: "valid_item_set ?t" and sets: "\<forall>s \<in> set (bb_run_resolution_sets b). valid_run_set s"
    using assms(1) by (simp_all add: valid_basis_parts_def)
  obtain us where e: "expected_evaluation b = Inr (bb_evaluation b)" using assms(2) by (rule batch_basis_facts)
  have o: "batch_outcome_of (counts_of ?t) (bb_policy b) = BatchSucceeded"
    using evaluation_fields(3) [OF e [unfolded expected_evaluation_def]] assms(3) by simp
  have nonneg: "0 \<le> ct_cancelled (counts_of ?t)" "0 \<le> ct_not_executed (counts_of ?t)"
    "0 \<le> ct_unknown_lineage (counts_of ?t)" "0 \<le> ct_infra_failed (counts_of ?t)" by (simp_all add: counts_of_def)
  have zero: "ct_cancelled (counts_of ?t) = 0" "ct_not_executed (counts_of ?t) = 0"
    "ct_unknown_lineage (counts_of ?t) = 0" "ct_infra_failed (counts_of ?t) = 0"
    "ct_test_failed (counts_of ?t) \<le> po_max_test_failed_items (bb_policy b)"
    using o nonneg by (auto simp: batch_outcome_of_def Let_def split: if_splits)
  then have none: "\<forall>i \<in> set (bs_entries ?t). bi_classification i \<notin> {ItemCancelled, ItemNotExecuted, ItemUnknownLineage, ItemInfraFailed}"
    by (simp add: counts_of_def class_count_zero)
  have empty: "not_executed_entries ?t = []" using not_executed_count(1) [OF t] zero(2) by simp
  have "\<exists>s \<in> set (bb_run_resolution_sets b). \<exists>f \<in> set (bb_run_bases b). \<exists>r \<in> set (rs_entries s).
        fb_run_id f = rs_run_id s \<and> fb_outcome f = audit_outcome s \<and> ir_item_key r = k \<and>
        or_execution_fact (ir_original r) \<noteq> FactAttemptUnknown \<and> ir_unknown_lineage_digest r = None \<and>
        er_outcome (ir_effective r) \<in> {OutcomePassed, OutcomeTestFailed}"
    if k: "k \<in> set (bs_expected_item_keys ?t)" for k
  proof -
    have "k \<in> set (map bi_item_key (bs_entries ?t))"
      using k t batch_item_set_coherent(2) [of ?t] by (simp add: valid_item_set_def)
    then obtain i where i: "i \<in> set (bs_entries ?t)" "bi_item_key i = k" by auto
    have "bi_source_kind i = SourceRunResolution"
      using empty i(1) by (cases "bi_source_kind i") (auto simp: not_executed_entries_def filter_empty_conv)
    then have "i \<in> set (run_entries ?t)" using i(1) by (simp add: run_entries_def)
    with assms(2) obtain s f r where r: "s \<in> set (bb_run_resolution_sets b)" "f \<in> set (bb_run_bases b)"
      "r \<in> set (rs_entries s)" "fb_run_id f = rs_run_id s" "batch_item_from_run f s r = Inr i" by (rule derived_entry)
    note ri = batch_item_from_run_Inr [OF r(5)]
    have valid: "valid_resolution r" using sets r(1,3) by (auto simp: valid_run_set_def)
    have cls: "ir_aggregation_class r \<notin> {ClassCancelled, ClassUnknownLineage, ClassInfraFailed}"
      using none i(1) ri(8) by (cases "ir_aggregation_class r") auto
    then have l: "ir_unknown_lineage_digest r = None" using resolution_class(1) [OF valid] by auto
    then have "er_outcome (ir_effective r) \<in> {OutcomePassed, OutcomeTestFailed}"
      using resolution_class(3) [OF valid l] cls by (cases "er_outcome (ir_effective r)") auto
    moreover have "fb_outcome f = audit_outcome s" using ri(2) by (simp add: basis_set_mismatch_def Let_def result_simps)
    ultimately show ?thesis using r(1-4) ri(4) i(2) l resolution_class(2) [OF valid] by metis
  qed
  moreover have "class_count ItemTestFailed (bs_entries ?t) \<le> po_max_test_failed_items (bb_policy b)"
    using zero(5) by (simp add: counts_of_def)
  ultimately show ?thesis using empty by blast
qed

theorem succeeded_batch_fully_accounted_witness: "not_executed_entries sample_batch_set = []"
  using succeeded_batch_fully_accounted [OF sample_batch_basis_valid] by (simp add: sample_batch_basis_def sample_evaluation_def)

text \<open>
  C13: The build of a Batch basis and its validator agree: from valid parts build returns a basis exactly
  when the validator accepts it, it consists of these parts, and every fan-out fact of the cancellation
  names the Run and version that resolved its item.
\<close>

theorem batch_build_agrees_with_validator:
  assumes "valid_basis_parts b" "built_from b t sets bases items policy evaluation"
  shows "batch_basis_build t sets bases items policy evaluation = Inr b \<longleftrightarrow>
    check_batch_basis b = None \<and> fanout_facts_bound b"
proof
  assume "batch_basis_build t sets bases items policy evaluation = Inr b"
  then show "check_batch_basis b = None \<and> fanout_facts_bound b" using batch_basis_build_sound by metis
next
  assume "check_batch_basis b = None \<and> fanout_facts_bound b"
  then show "batch_basis_build t sets bases items policy evaluation = Inr b"
    using assms batch_basis_build_complete [of b] by (simp add: built_from_def valid_basis_parts_def)
qed

theorem batch_build_agrees_with_validator_witness:
  "batch_basis_build sample_batch_set [sample_set] [sample_basis] [] sample_policy sample_evaluation = Inr sample_batch_basis"
proof -
  have b: "built_from sample_batch_basis sample_batch_set [sample_set] [sample_basis] [] sample_policy sample_evaluation"
    by (simp add: built_from_def sample_batch_basis_def)
  have "fanout_facts_bound sample_batch_basis"
    by (simp add: fanout_facts_bound_def sample_batch_basis_def sample_evaluation_def)
  then show ?thesis
    using batch_build_agrees_with_validator [OF sample_batch_basis_valid(1) b] sample_batch_basis_valid(2) by simp
qed

end
