(* ===== verification/Batch_Lifecycle.thy ===== *)
theory Batch_Lifecycle
  imports Batch_Commands
begin

text \<open>
  The Batch as a versioned aggregate: its commands with validated arguments, what each successful
  command does, the interpretations of the shared locales, and the invariant of reachable Batches.
\<close>

section \<open>Commands with validated arguments\<close>

datatype batch_command =
    BatchTransition batch_state int
  | BatchRequestCancel batch_cancellation_intent int
  | BatchReject batch_rejection preexecution_snapshot int
  | BatchCloseCancel preexecution_snapshot int

definition mk_batch_cancellation_intent :: "batch_cancellation_intent \<Rightarrow> batch_cancellation_intent result" where
  "mk_batch_cancellation_intent i =
     bind_result (raise_or (check_batch_cancellation_scope (bci_scope i)) ()) (\<lambda>_.
     raise_or (check_batch_cancellation_intent i) i)"

definition mk_preexecution_snapshot :: "preexecution_snapshot \<Rightarrow> preexecution_snapshot result" where
  "mk_preexecution_snapshot s =
     bind_result (raise_or (first_some (map check_preexecution_scope_item (pss_scope_items s))) ()) (\<lambda>_.
     raise_or (check_preexecution_snapshot s) s)"

definition mk_batch_rejection :: "batch_rejection \<Rightarrow> batch_rejection result" where
  "mk_batch_rejection r = raise_or (check_batch_rejection r) r"

fun exec_batch :: "batch_command \<Rightarrow> batch \<Rightarrow> batch result" where
  "exec_batch (BatchTransition st v) b = batch_transition st v b"
| "exec_batch (BatchRequestCancel i v) b =
     bind_result (mk_batch_cancellation_intent i) (\<lambda>i. batch_request_cancel i v b)"
| "exec_batch (BatchReject r s v) b =
     bind_result (mk_batch_rejection r) (\<lambda>r.
     bind_result (mk_preexecution_snapshot s) (\<lambda>s. batch_reject_preexecution r s v b))"
| "exec_batch (BatchCloseCancel s v) b =
     bind_result (mk_preexecution_snapshot s) (\<lambda>s. batch_finalize_unmaterialized_cancel s v b)"

fun batch_expects :: "batch_command \<Rightarrow> int" where
  "batch_expects (BatchTransition st v) = v"
| "batch_expects (BatchRequestCancel i v) = v"
| "batch_expects (BatchReject r s v) = v"
| "batch_expects (BatchCloseCancel s v) = v"

definition valid_intent :: "batch_cancellation_intent \<Rightarrow> bool" where
  "valid_intent i \<longleftrightarrow> check_batch_cancellation_scope (bci_scope i) = None \<and> check_batch_cancellation_intent i = None"

definition wf_batch :: "batch \<Rightarrow> bool" where
  "wf_batch b \<longleftrightarrow> check_batch b = None \<and>
     (\<forall>i. bt_cancellation_intent b = Some i \<longrightarrow> valid_intent i) \<and>
     (\<forall>r. bt_rejection_fact b = Some r \<longrightarrow> check_batch_rejection r = None) \<and>
     (\<forall>k. bt_basis b = Some k \<longrightarrow> check_preexecution_basis k = None)"

section \<open>What a successful command does\<close>

inductive batch_move :: "batch \<Rightarrow> batch \<Rightarrow> bool" where
  move_edge: "bt_cancellation_intent b = None \<Longrightarrow> target \<in> set (batch_transitions (bt_state b)) \<Longrightarrow>
    batch_move b (b\<lparr>bt_state := target, bt_version := bt_version b + 1\<rparr>)"
| move_intent: "bt_cancellation_intent b = None \<Longrightarrow> bt_state b \<in> set batch_prestart_cancel_states \<Longrightarrow>
    valid_intent i \<Longrightarrow> bci_batch_id i = bt_id b \<Longrightarrow> bci_source_batch_version i = bt_version b \<Longrightarrow>
    bcs_kind (bci_scope i) = expected_cancel_scope_kind (bt_state b) \<Longrightarrow>
    batch_move b (b\<lparr>bt_version := bt_version b + 1, bt_cancellation_intent := Some i\<rparr>)"
| move_reject: "bt_cancellation_intent b = None \<Longrightarrow> rejection_stage_of_phase (bt_state b) = Some (brj_stage r) \<Longrightarrow>
    check_batch_rejection r = None \<Longrightarrow> rejection_basis (bt_state b) r s = Inr k \<Longrightarrow>
    batch_move b (b\<lparr>bt_state := BatchRejected, bt_version := bt_version b + 1,
      bt_rejection_fact := Some r, bt_basis := Some k\<rparr>)"
| move_close: "bt_cancellation_intent b = Some i \<Longrightarrow> bt_state b \<in> set batch_prestart_cancel_states \<Longrightarrow>
    cancel_snapshot_matches (bci_scope i) s \<Longrightarrow> cancellation_basis (bt_state b) i s = Inr k \<Longrightarrow>
    batch_move b (b\<lparr>bt_state := BatchCancelled, bt_version := bt_version b + 1, bt_basis := Some k\<rparr>)"

inductive_cases batch_moveE: "batch_move b c"

definition batch_step :: "batch_command \<Rightarrow> batch \<Rightarrow> batch \<Rightarrow> bool" where
  "batch_step c b b' \<longleftrightarrow> b' = b \<or>
     (batch_expects c = bt_version b \<and> batch_move b b' \<and> check_batch b' = None)"

lemma batch_transition_step:
  "batch_transition st v b = Inr b' \<Longrightarrow> batch_step (BatchTransition st v) b b'"
  by (auto simp: batch_transition_def batch_step_def mk_batch_def result_simps intro: move_edge)

lemma batch_request_cancel_step:
  "batch_request_cancel i v b = Inr b' \<Longrightarrow> valid_intent i \<Longrightarrow> batch_step (BatchRequestCancel i v) b b'"
  by (auto simp: batch_request_cancel_def batch_cancel_fresh_def batch_step_def mk_batch_def result_simps
      intro: move_intent split: option.splits if_splits)

lemma batch_reject_step:
  "batch_reject_preexecution r s v b = Inr b' \<Longrightarrow> check_batch_rejection r = None \<Longrightarrow>
     batch_step (BatchReject r s v) b b'"
  by (auto simp: batch_reject_preexecution_def batch_reject_fresh_def batch_reject_replay_def batch_step_def
      mk_batch_def Let_def result_simps intro: move_reject split: option.splits if_splits)

lemma batch_close_step:
  "batch_finalize_unmaterialized_cancel s v b = Inr b' \<Longrightarrow> batch_step (BatchCloseCancel s v) b b'"
  by (auto simp: batch_finalize_unmaterialized_cancel_def batch_cancel_close_def batch_cancel_replay_def
      batch_step_def mk_batch_def result_simps intro: move_close split: option.splits if_splits)

lemma exec_batch_step: "exec_batch c b = Inr b' \<Longrightarrow> batch_step c b b'"
  by (cases c)
    (auto simp: mk_batch_cancellation_intent_def mk_preexecution_snapshot_def mk_batch_rejection_def
      valid_intent_def result_simps
      intro: batch_transition_step batch_request_cancel_step batch_reject_step batch_close_step)

section \<open>The contract of a versioned aggregate\<close>

lemma basis_valid:
  "rejection_basis st r s = Inr k \<Longrightarrow> check_preexecution_basis k = None"
  "cancellation_basis st i s = Inr k \<Longrightarrow> check_preexecution_basis k = None"
  by (auto simp: rejection_basis_def cancellation_basis_def build_preexecution_basis_def Let_def result_simps)

lemma batch_move_wf:
  assumes "batch_move b b'" "wf_batch b" "check_batch b' = None"
  shows "wf_batch b'"
  using assms by cases (auto simp: wf_batch_def basis_valid)

lemma exec_batch_wf: "wf_batch b \<Longrightarrow> exec_batch c b = Inr b' \<Longrightarrow> wf_batch b'"
  using exec_batch_step batch_move_wf by (fastforce simp: batch_step_def)

lemma batch_move_version: "batch_move b b' \<Longrightarrow> bt_version b' = bt_version b + 1 \<and> bt_id b' = bt_id b"
  by (induction rule: batch_move.induct) simp_all

lemma exec_batch_cas:
  "exec_batch c b = Inr b' \<Longrightarrow> b' \<noteq> b \<Longrightarrow> batch_expects c = bt_version b \<and> bt_version b' = bt_version b + 1"
  using exec_batch_step [of c b b'] batch_move_version by (auto simp: batch_step_def)

text \<open>States that none of these commands leaves; RUNNING and FINALIZING belong to the reconciler.\<close>

definition batch_settled :: "batch_state \<Rightarrow> bool" where
  "batch_settled st \<longleftrightarrow> st \<in> set batch_terminal_states \<union> {BatchRunning, BatchFinalizing}"

lemma batch_settled_iff:
  "batch_settled st \<longleftrightarrow> st \<notin> set batch_prestart_cancel_states"
  by (cases st) (simp_all add: batch_settled_def batch_terminal_states_def batch_prestart_cancel_states_def)

lemma prestart_states:
  "target \<in> set (batch_transitions st) \<Longrightarrow> st \<in> set batch_prestart_cancel_states"
  "rejection_stage_of_phase st = Some stage \<Longrightarrow> st \<in> set batch_prestart_cancel_states"
  by (cases st; simp add: batch_prestart_cancel_states_def)+

lemma batch_move_unsettled: "batch_move b b' \<Longrightarrow> \<not> batch_settled (bt_state b)"
  by (induction rule: batch_move.induct) (auto simp: batch_settled_iff dest: prestart_states)

lemma exec_batch_settled: "batch_settled (bt_state b) \<Longrightarrow> exec_batch c b = Inr b' \<Longrightarrow> b' = b"
  using exec_batch_step [of c b b'] batch_move_unsettled [of b b'] by (auto simp: batch_step_def)

interpretation batch_life: absorbing_lifecycle bt_version batch_expects exec_batch wf_batch
  "\<lambda>b. batch_settled (bt_state b)"
  by unfold_locales (auto intro: exec_batch_wf dest: exec_batch_cas exec_batch_settled)

section \<open>Reachable Batches\<close>

definition fresh_batch :: "batch \<Rightarrow> bool" where
  "fresh_batch b \<longleftrightarrow> wf_batch b \<and> bt_state b = BatchDraft \<and> bt_version b = 0 \<and> bt_rejection_fact b = None \<and>
     bt_cancellation_intent b = None \<and> bt_basis b = None"

definition reachable_batch :: "batch \<Rightarrow> bool" where
  "reachable_batch b \<longleftrightarrow> (\<exists>b0. fresh_batch b0 \<and> history exec_batch b0 b)"

lemma batch_history_single: "exec_batch c b = Inr b' \<Longrightarrow> history exec_batch b b'"
  by (rule history_single)

lemma reachable_batch_step: "reachable_batch b \<Longrightarrow> exec_batch c b = Inr b' \<Longrightarrow> reachable_batch b'"
  unfolding reachable_batch_def using history_step [where exec = exec_batch] by metis

lemma reachable_fresh_batch: "fresh_batch b \<Longrightarrow> reachable_batch b"
  unfolding reachable_batch_def using history_refl [where exec = exec_batch] by metis

lemma batch_create_fresh: "batch_create i = Inr b \<Longrightarrow> fresh_batch b"
  by (auto simp: batch_create_def mk_batch_def fresh_batch_def wf_batch_def result_simps)

lemma batch_open_fresh:
  "batch_open_for_suite i s rd sc k t sr pc dl = Inr b \<Longrightarrow> fresh_batch b"
  by (auto simp: batch_open_for_suite_def mk_batch_def fresh_batch_def wf_batch_def Let_def result_simps)

text \<open>Which facts a reachable Batch holds in which state.\<close>

definition batch_facts :: "batch \<Rightarrow> bool" where
  "batch_facts b \<longleftrightarrow>
     bt_state b \<in> set batch_prestart_cancel_states \<union> {BatchRunning, BatchRejected, BatchCancelled} \<and>
     (bt_rejection_fact b \<noteq> None \<longleftrightarrow> bt_state b = BatchRejected) \<and>
     (bt_basis b \<noteq> None \<longleftrightarrow> bt_state b \<in> {BatchRejected, BatchCancelled}) \<and>
     (bt_state b = BatchCancelled \<longrightarrow> bt_cancellation_intent b \<noteq> None) \<and>
     (bt_cancellation_intent b \<noteq> None \<longrightarrow> bt_state b \<in> insert BatchCancelled (set batch_prestart_cancel_states))"

lemma batch_edge_target:
  "target \<in> set (batch_transitions st) \<Longrightarrow> target \<in> insert BatchRunning (set batch_prestart_cancel_states)"
  by (cases st) (simp_all add: batch_prestart_cancel_states_def)

lemma prestart_not_closed: "st \<in> set batch_prestart_cancel_states \<Longrightarrow> st \<notin> {BatchRejected, BatchCancelled, BatchRunning}"
  by (auto simp: batch_prestart_cancel_states_def)

lemma batch_move_facts:
  assumes "batch_move b b'" "batch_facts b"
  shows "batch_facts b'"
  using assms
proof cases
  case (move_edge target)
  then have "bt_state b \<in> set batch_prestart_cancel_states" using prestart_states(1) by blast
  then show ?thesis
    using assms(2) move_edge batch_edge_target [OF move_edge(3)] prestart_not_closed
    by (auto simp: batch_facts_def)
next
  case (move_intent i)
  then show ?thesis using assms(2) prestart_not_closed [OF move_intent(3)] by (auto simp: batch_facts_def)
next
  case (move_reject r s k)
  then show ?thesis using assms(2) by (auto simp: batch_facts_def)
next
  case (move_close i s k)
  then show ?thesis using assms(2) prestart_not_closed [OF move_close(3)] by (auto simp: batch_facts_def)
qed

lemma reachable_batch_facts:
  assumes "reachable_batch b"
  shows "batch_facts b" "wf_batch b"
proof -
  obtain b0 where b0: "fresh_batch b0" "history exec_batch b0 b" using assms by (auto simp: reachable_batch_def)
  have "batch_facts b0"
    using b0(1) by (auto simp: fresh_batch_def batch_facts_def batch_prestart_cancel_states_def)
  moreover have "batch_facts u" if "batch_facts t" "exec_batch c t = Inr u" for c t u
    using exec_batch_step [OF that(2)] batch_move_facts that(1) by (auto simp: batch_step_def)
  ultimately show "batch_facts b" using history_invariant [OF b0(2), of batch_facts] by blast
  show "wf_batch b" using batch_life.history_good [OF b0(2)] b0(1) by (simp add: fresh_batch_def)
qed

section \<open>After a cancellation intent\<close>

lemma batch_move_intent_kept:
  "batch_move b b' \<Longrightarrow> bt_cancellation_intent b = Some i \<Longrightarrow>
     bt_cancellation_intent b' = Some i \<and> bt_state b' = BatchCancelled"
  by (induction rule: batch_move.induct) simp_all

lemma batch_intent_history:
  assumes "history exec_batch b b'" "bt_cancellation_intent b = Some i"
  shows "bt_cancellation_intent b' = Some i \<and> (b' = b \<or> bt_state b' = BatchCancelled)"
  using assms
proof (induction rule: history.induct)
  case (history_step s t c u)
  then show ?case
    using exec_batch_step [of c t u] batch_move_intent_kept [of t u i] by (auto simp: batch_step_def)
qed simp

section \<open>Every history ends\<close>

text \<open>The greatest number of commands that can still change a Batch.\<close>

fun prestart_steps_left :: "batch_state \<Rightarrow> nat" where
  "prestart_steps_left BatchDraft = 7"
| "prestart_steps_left BatchValidating = 6"
| "prestart_steps_left BatchCollecting = 5"
| "prestart_steps_left BatchPlanning = 4"
| "prestart_steps_left BatchAwaitingAdmission = 3"
| "prestart_steps_left BatchQueued = 2"
| "prestart_steps_left _ = 0"

definition batch_steps_left :: "batch \<Rightarrow> nat" where
  "batch_steps_left b = (if bt_cancellation_intent b = None then prestart_steps_left (bt_state b)
     else if batch_settled (bt_state b) then 0 else 1)"

lemma prestart_steps_left_edge:
  "target \<in> set (batch_transitions st) \<Longrightarrow> prestart_steps_left target < prestart_steps_left st"
  by (cases st) simp_all

lemma prestart_steps_left_ge: "st \<in> set batch_prestart_cancel_states \<Longrightarrow> 2 \<le> prestart_steps_left st"
  by (cases st) (simp_all add: batch_prestart_cancel_states_def)

lemma batch_move_steps_left: "batch_move b b' \<Longrightarrow> batch_steps_left b' < batch_steps_left b"
proof (induction rule: batch_move.induct)
  case (move_edge b target)
  then show ?case by (simp add: batch_steps_left_def prestart_steps_left_edge)
next
  case (move_intent b i)
  then show ?case using prestart_steps_left_ge [OF move_intent(2)] by (simp add: batch_steps_left_def)
next
  case (move_reject b r s k)
  then show ?case using prestart_steps_left_ge [OF prestart_states(2) [OF move_reject(2)]]
    by (simp add: batch_steps_left_def)
next
  case (move_close b i s k)
  then show ?case by (simp add: batch_steps_left_def batch_settled_iff batch_prestart_cancel_states_def)
qed

lemma exec_batch_steps_left: "exec_batch c b = Inr b' \<Longrightarrow> b' \<noteq> b \<Longrightarrow> batch_steps_left b' < batch_steps_left b"
  using exec_batch_step [of c b b'] batch_move_steps_left by (auto simp: batch_step_def)

text \<open>
  A sequence of commands, each run on the Batch as it is then (one that fails leaves it), and how many of
  them changed it.
\<close>

definition batch_after :: "batch_command \<Rightarrow> batch \<Rightarrow> batch" where
  "batch_after c b = (case exec_batch c b of Inl _ \<Rightarrow> b | Inr t \<Rightarrow> t)"

primrec run_batch :: "batch_command list \<Rightarrow> batch \<Rightarrow> nat \<times> batch" where
  "run_batch [] b = (0, b)"
| "run_batch (c # cs) b =
     (let t = batch_after c b; (n, u) = run_batch cs t in (if t = b then n else Suc n, u))"

lemma batch_after_step:
  "batch_after c b \<noteq> b \<Longrightarrow> bt_version (batch_after c b) = bt_version b + 1 \<and> batch_steps_left (batch_after c b) < batch_steps_left b"
  using exec_batch_cas [of c b] exec_batch_steps_left [of c b] by (auto simp: batch_after_def split: sum.splits)

lemma run_batch_counts:
  "run_batch cs b = (n, u) \<Longrightarrow> bt_version u = bt_version b + int n \<and> n + batch_steps_left u \<le> batch_steps_left b"
proof (induction cs arbitrary: b n)
  case (Cons c cs)
  obtain m where m: "run_batch cs (batch_after c b) = (m, u)" "n = (if batch_after c b = b then m else Suc m)"
    using Cons.prems by (auto simp: Let_def split: prod.splits)
  note Cons.IH [OF m(1)] batch_after_step [of c b]
  then show ?case using m(2) by (cases "batch_after c b = b") auto
qed simp

end
