(* ===== verification/Batch_Facts.thy ===== *)
theory Batch_Facts
  imports Batch_Lifecycle
begin

text \<open>
  Facts behind the Batch properties: the proof a closed Batch holds, the replay of every command,
  when a rejection is possible, and what canonicalising cancellation scope items keeps.
\<close>

section \<open>The proof of a closed Batch\<close>

lemma check_batch_basis:
  assumes "check_batch b = None" "bt_basis b = Some k"
  shows "peb_batch_id k = bt_id b" "peb_batch_outcome k = bt_state b" "peb_source_batch_version k = bt_version b - 1"
    "first_some (if peb_terminal_kind k = TerminalRejection then rejection_basis_checks b k
       else cancellation_basis_checks b k) = None"
  using assms unfolding check_batch_def first_some_append_None option.case by (simp_all add: result_simps)

lemma basis_outcome:
  assumes "check_preexecution_basis k = None"
  shows "peb_batch_outcome k = (if peb_terminal_kind k = TerminalRejection then BatchRejected else BatchCancelled)"
    "peb_terminal_kind k = TerminalPrestartCancel \<Longrightarrow> peb_source_phase k \<in> set batch_prestart_cancel_states"
  using assms unfolding check_preexecution_basis_def Let_def first_some_append_None
  by (simp_all add: result_simps split: if_splits)

lemma closed_rejected:
  assumes "reachable_batch b" "bt_state b = BatchRejected"
  obtains r k where "bt_rejection_fact b = Some r" "bt_basis b = Some k" "peb_terminal_kind k = TerminalRejection"
    "map_result Some (batch_rejection_digest r) = Inr (peb_rejection_fact_digest k)"
    "rejection_stage_of_phase (peb_source_phase k) = Some (brj_stage r)"
    "brj_batch_id r = bt_id b" "peb_batch_id k = bt_id b"
    "brj_source_batch_version r = bt_version b - 1" "peb_source_batch_version k = bt_version b - 1"
    "bt_cancellation_intent b = None"
proof -
  have f: "batch_facts b" "check_batch b = None" "\<And>k. bt_basis b = Some k \<Longrightarrow> check_preexecution_basis k = None"
    using reachable_batch_facts [OF assms(1)] by (auto simp: wf_batch_def)
  obtain r k where rk: "bt_rejection_fact b = Some r" "bt_basis b = Some k"
    using f(1) assms(2) by (auto simp: batch_facts_def)
  note c = check_batch_basis [OF f(2) rk(2)]
  have kind: "peb_terminal_kind k = TerminalRejection"
    using basis_outcome(1) [OF f(3) [OF rk(2)]] c(2) assms(2) by (simp split: if_splits)
  show thesis
    by (rule that [OF rk kind]) (use c rk kind in \<open>auto simp: rejection_basis_checks_def Let_def result_simps\<close>)
qed

lemma closed_cancelled:
  assumes "reachable_batch b" "bt_state b = BatchCancelled"
  obtains i k where "bt_cancellation_intent b = Some i" "bt_basis b = Some k" "peb_terminal_kind k = TerminalPrestartCancel"
    "map_result Some (batch_cancellation_intent_digest i) = Inr (peb_cancellation_intent_digest k)"
    "cancel_basis_matches (bci_scope i) k" "peb_source_phase k \<in> set batch_prestart_cancel_states"
    "bci_batch_id i = bt_id b" "peb_batch_id k = bt_id b"
    "bci_source_batch_version i = bt_version b - 2" "peb_source_batch_version k = bt_version b - 1"
    "bt_rejection_fact b = None"
proof -
  have f: "batch_facts b" "check_batch b = None" "\<And>k. bt_basis b = Some k \<Longrightarrow> check_preexecution_basis k = None"
    using reachable_batch_facts [OF assms(1)] by (auto simp: wf_batch_def)
  obtain i k where ik: "bt_cancellation_intent b = Some i" "bt_basis b = Some k"
    using f(1) assms(2) by (auto simp: batch_facts_def)
  note c = check_batch_basis [OF f(2) ik(2)]
  have kind: "peb_terminal_kind k = TerminalPrestartCancel"
    using basis_outcome(1) [OF f(3) [OF ik(2)]] c(2) assms(2) by (cases "peb_terminal_kind k") simp_all
  show thesis
    by (rule that [OF ik kind])
      (use c ik kind basis_outcome(2) [OF f(3) [OF ik(2)] kind] in
        \<open>auto simp: cancellation_basis_checks_def Let_def result_simps\<close>)
qed

section \<open>Replays\<close>

lemma json_safe_digests [simp]: "json_safe (digest_json d)" "json_safe (json_opt digest_json v)"
  by (simp_all add: digest_json_def split: option.splits)

text \<open>A basis built from a valid snapshot has a digest when its Batch version is a safe integer.\<close>

lemma built_basis_digest:
  assumes "build_preexecution_basis st kind rd cd s out = Inr k" "mk_preexecution_snapshot s = Inr s"
    "safe_int (pss_source_batch_version s)"
  shows "\<exists>d. preexecution_basis_digest k = Inr d"
proof -
  have items: "\<exists>d. preexecution_scope_item_digest i = Inr d" if "i \<in> set (pss_scope_items s)" for i
    using assms(1) collect_results_member [OF _ that] by (auto simp: build_preexecution_basis_def result_simps)
  have "\<forall>v. pss_shard_plan_version s = Some v \<longrightarrow> safe_int v"
  proof (intro allI impI)
    fix v assume v: "pss_shard_plan_version s = Some v"
    have "check_preexecution_snapshot s = None" using assms(2) by (simp add: mk_preexecution_snapshot_def result_simps)
    then have ne: "pss_scope_items s \<noteq> []" and bound: "list_all (scope_item_bound s) (pss_scope_items s)"
      using v unfolding check_preexecution_snapshot_def Let_def first_some_append_None
      by (simp_all add: result_simps split: if_splits)
    let ?i = "hd (pss_scope_items s)"
    have "psi_shard_plan_version ?i = v" using bound ne v by (cases "pss_scope_items s") (auto simp: scope_item_bound_def)
    moreover obtain d where "preexecution_scope_item_digest ?i = Inr d" using items ne by (meson list.set_sel(1))
    ultimately show "safe_int v" by (auto simp: preexecution_scope_item_digest_def result_simps)
  qed
  moreover have "peb_source_batch_version k = pss_source_batch_version s" "peb_shard_plan_version k = pss_shard_plan_version s"
    using assms(1) by (auto simp: build_preexecution_basis_def Let_def result_simps)
  ultimately show ?thesis
    using assms(3) by (simp add: preexecution_basis_digest_def result_simps list_all_iff split: option.split)
qed

lemma request_digest_safe:
  "safe_int (bci_source_batch_version i) \<Longrightarrow> \<exists>d. batch_cancellation_request_digest i = Inr d"
  by (simp add: batch_cancellation_request_digest_def result_simps)

lemma mk_args_Inr [result_simps]:
  "mk_batch_cancellation_intent i = Inr j \<longleftrightarrow> valid_intent i \<and> j = i"
  "mk_batch_rejection r = Inr q \<longleftrightarrow> check_batch_rejection r = None \<and> q = r"
  by (auto simp: mk_batch_cancellation_intent_def mk_batch_rejection_def valid_intent_def result_simps)

lemma mk_snapshot_same: "mk_preexecution_snapshot s = Inr t \<Longrightarrow> t = s"
  by (auto simp: mk_preexecution_snapshot_def result_simps)

lemma rejection_basis_fields:
  assumes "rejection_basis st r s = Inr k"
  shows "peb_source_phase k = st" "peb_terminal_kind k = TerminalRejection" "\<exists>d. batch_rejection_digest r = Inr d"
  using assms by (auto simp: rejection_basis_def build_preexecution_basis_def Let_def result_simps)

lemma cancellation_basis_fields:
  assumes "cancellation_basis st i s = Inr k"
  shows "peb_source_phase k = st" "peb_terminal_kind k = TerminalPrestartCancel"
  using assms by (auto simp: cancellation_basis_def build_preexecution_basis_def Let_def result_simps)

lemma command_basis_digest:
  assumes "rejection_basis st r s = Inr k \<or> cancellation_basis st i s = Inr k" "mk_preexecution_snapshot s = Inr s"
    "safe_int (pss_source_batch_version s)"
  shows "\<exists>d. preexecution_basis_digest k = Inr d"
  using assms built_basis_digest by (fastforce simp: rejection_basis_def cancellation_basis_def result_simps)

lemma request_cancel_replays:
  assumes "exec_batch (BatchRequestCancel i v) b = Inr b'" "b' \<noteq> b" "safe_int (bt_version b)"
  shows "exec_batch (BatchRequestCancel i v) b' = Inr b'"
proof -
  have i: "valid_intent i" "batch_request_cancel i v b = Inr b'" using assms(1) by (auto simp: result_simps)
  have "bt_cancellation_intent b = None" using i(2) assms(2)
    by (auto simp: batch_request_cancel_def result_simps split: option.splits if_splits)
  then have "bt_cancellation_intent b' = Some i" "bci_source_batch_version i = bt_version b"
    using i(2) by (auto simp: batch_request_cancel_def batch_cancel_fresh_def mk_batch_def result_simps)
  then show ?thesis
    using i(1) request_digest_safe [of i] assms(3) by (auto simp: batch_request_cancel_def result_simps)
qed

lemma reject_replays:
  assumes "exec_batch (BatchReject r s v) b = Inr b'" "b' \<noteq> b" "safe_int (bt_version b)"
  shows "exec_batch (BatchReject r s v) b' = Inr b'"
proof -
  have a: "check_batch_rejection r = None" "mk_preexecution_snapshot s = Inr s" "batch_reject_preexecution r s v b = Inr b'"
    using assms(1) by (auto simp: result_simps dest: mk_snapshot_same)
  have fresh: "batch_reject_fresh r s v b = Inr b'"
    using a(3) assms(2)
    by (auto simp: batch_reject_preexecution_def batch_reject_replay_def Let_def result_simps split: option.splits if_splits)
  obtain k where k: "rejection_basis (bt_state b) r s = Inr k" "pss_source_batch_version s = bt_version b"
    "b' = b\<lparr>bt_state := BatchRejected, bt_version := bt_version b + 1, bt_rejection_fact := Some r, bt_basis := Some k\<rparr>"
    using fresh by (auto simp: batch_reject_fresh_def mk_batch_def result_simps split: option.splits if_splits)
  obtain d where "preexecution_basis_digest k = Inr d"
    using command_basis_digest [of _ r s k] a(2) k(1,2) assms(3) by metis
  then show ?thesis
    using a(1,2) k(1) rejection_basis_fields [OF k(1)]
    by (auto simp: result_simps k(3) batch_reject_preexecution_def batch_reject_replay_def Let_def)
qed

lemma close_replays:
  assumes "exec_batch (BatchCloseCancel s v) b = Inr b'" "b' \<noteq> b" "safe_int (bt_version b)"
  shows "exec_batch (BatchCloseCancel s v) b' = Inr b'"
proof -
  have a: "mk_preexecution_snapshot s = Inr s" "batch_finalize_unmaterialized_cancel s v b = Inr b'"
    using assms(1) by (auto simp: result_simps dest: mk_snapshot_same)
  have fresh: "batch_cancel_close s v b = Inr b'"
    using a(2) assms(2)
    by (auto simp: batch_finalize_unmaterialized_cancel_def batch_cancel_replay_def result_simps
        split: option.splits if_splits)
  obtain i k where k: "bt_cancellation_intent b = Some i" "cancellation_basis (bt_state b) i s = Inr k"
    "pss_source_batch_version s = bt_version b"
    "b' = b\<lparr>bt_state := BatchCancelled, bt_version := bt_version b + 1, bt_basis := Some k\<rparr>"
    using fresh by (auto simp: batch_cancel_close_def mk_batch_def result_simps split: option.splits if_splits)
  obtain d where "preexecution_basis_digest k = Inr d"
    using command_basis_digest [of "bt_state b" _ s k i] a(1) k(2,3) assms(3) by metis
  then show ?thesis
    using a(1) k(1,2) cancellation_basis_fields [OF k(2)]
    by (auto simp: result_simps k(4) batch_finalize_unmaterialized_cancel_def batch_cancel_replay_def)
qed

section \<open>When a rejection is possible\<close>

lemma create_identity_cong:
  assumes "bt_project_id b' = bt_project_id b" "bt_suite_revision_id b' = bt_suite_revision_id b"
    "bt_request_digest b' = bt_request_digest b" "bt_idempotency_scope b' = bt_idempotency_scope b"
    "bt_idempotency_key b' = bt_idempotency_key b" "bt_created_at b' = bt_created_at b"
  shows "create_identity_checks b' = create_identity_checks b"
  by (simp only: create_identity_checks_def batch_present_def assms)

lemma preplan_rejection_succeeds:
  assumes "wf_batch b" "bt_cancellation_intent b = None" "bt_state b \<in> {BatchValidating, BatchCollecting, BatchPlanning}"
    "rejection_stage_of_phase (bt_state b) = Some (brj_stage r)" "check_batch_rejection r = None"
    "brj_batch_id r = bt_id b" "brj_source_batch_version r = bt_version b" "safe_int (bt_version b)"
    "mk_preexecution_snapshot s = Inr s" "pss_scope_kind s = ScopePrePlan" "pss_batch_id s = bt_id b"
    "pss_source_batch_version s = bt_version b"
  obtains b' where "exec_batch (BatchReject r s (bt_version b)) b = Inr b'" "bt_state b' = BatchRejected"
proof -
  have c: "check_batch b = None" using assms(1) by (simp add: wf_batch_def)
  have snap: "pss_scope_items s = []" "pss_preplan_scope_digest s \<noteq> None" "pss_manifest_digest s = None"
    "pss_shard_plan_version s = None" "pss_shard_plan_digest s = None" "pss_canonical_run_set_digest s = None"
    "pss_item_coverage_proof_digest s = None" "distinct (pss_task_stop_fact_digests s)"
    using assms(9,10) unfolding mk_preexecution_snapshot_def check_preexecution_snapshot_def Let_def
    by (simp_all add: result_simps)
  have nb: "bt_basis b = None"
  proof (rule ccontr)
    assume "bt_basis b \<noteq> None"
    then obtain k where k: "bt_basis b = Some k" by auto
    then have "check_preexecution_basis k = None" using assms(1) by (simp add: wf_batch_def)
    then show False using basis_outcome(1) check_batch_basis(2) [OF c k] assms(3) by (auto split: if_splits)
  qed
  obtain d where d: "batch_rejection_digest r = Inr d"
    using assms(7,8) by (auto simp: batch_rejection_digest_def result_simps split: option.splits)
  have ids: "\<not> blank (bt_id b)" "0 \<le> bt_version b" using c by (simp_all add: check_batch_def result_simps)
  obtain k where k: "rejection_basis (bt_state b) r s = Inr k"
    using snap assms(3,10-12) ids
    by (auto simp: rejection_basis_def d snapshot_command_binding_def build_preexecution_basis_def Let_def
        check_preexecution_basis_def terminal_digest_checks_def batch_frozen_plan_cancel_states_def result_simps)
  let ?b = "b\<lparr>bt_state := BatchRejected, bt_version := bt_version b + 1, bt_rejection_fact := Some r, bt_basis := Some k\<rparr>"
  have kf: "peb_batch_id k = bt_id b" "peb_batch_outcome k = BatchRejected" "peb_source_batch_version k = bt_version b"
    "peb_rejection_fact_digest k = Some d"
    using k assms(11,12) by (auto simp: rejection_basis_def d build_preexecution_basis_def Let_def result_simps)
  have same: "create_identity_checks ?b = create_identity_checks b"
    by (rule create_identity_cong) simp_all
  have base: "first_some (create_identity_checks b) = None" "\<not> blank (bt_priority_class b)"
    "optional_check (require_utc ''batch'' ''deadline_at'') (bt_deadline_at b) = None"
    using c by (simp_all add: check_batch_def result_simps)
  have "first_some (rejection_basis_checks ?b k) = None"
    using kf(3,4) assms(2,4,6,7) rejection_basis_fields(1) [OF k]
    by (simp add: rejection_basis_checks_def result_simps Let_def d)
  then have "check_batch ?b = None"
    using ids base kf(1-3) rejection_basis_fields(2) [OF k]
    unfolding check_batch_def first_some_append_None same by (simp add: result_simps)
  moreover have "bt_rejection_fact b = None" using c nb by (simp add: check_batch_def result_simps)
  ultimately have "exec_batch (BatchReject r s (bt_version b)) b = Inr ?b"
    using assms(2-7,9-12) k ids
    by (auto simp: result_simps batch_reject_preexecution_def batch_reject_fresh_def mk_batch_def batch_terminal_states_def)
  then show thesis using that by simp
qed

section \<open>Canonical scope items\<close>

lemma collapse_append:
  "collapse_deliveries kept (xs @ ys) = bind_result (collapse_deliveries kept xs) (\<lambda>k. collapse_deliveries k ys)"
proof (induction xs arbitrary: kept)
  case (Cons x xs)
  show ?case
    by (cases "find (\<lambda>k. delivery_key k = delivery_key x) kept"; cases "scope_item_digest x")
      (auto simp: Cons.IH bind_result_assoc Let_def intro!: bind_result_cong)
qed simp

lemma collapse_Inr:
  assumes "collapse_deliveries kept items = Inr out" "distinct (map delivery_key kept)"
  shows "distinct (map delivery_key out) \<and> prefix kept out \<and> set out \<subseteq> set kept \<union> set items \<and>
    (\<forall>i \<in> set items. \<exists>k \<in> set out. delivery_key k = delivery_key i \<and>
       (\<exists>d. scope_item_digest k = Inr d \<and> scope_item_digest i = Inr d))"
  using assms
proof (induction items arbitrary: kept)
  case (Cons i items)
  show ?case
  proof (cases "find (\<lambda>k. delivery_key k = delivery_key i) kept")
    case None
    then have fresh: "\<forall>k \<in> set kept. delivery_key k \<noteq> delivery_key i" by (simp add: find_None_iff)
    obtain d where d: "scope_item_digest i = Inr d" "collapse_deliveries (kept @ [i]) items = Inr out"
      using Cons.prems(1) None by (auto simp: result_simps)
    have "distinct (map delivery_key (kept @ [i]))" using Cons.prems(2) fresh by auto
    note IH = Cons.IH [OF d(2) this]
    then have "i \<in> set out" "prefix kept out" by (auto simp: prefix_def)
    then show ?thesis using IH d(1) by auto
  next
    case (Some p)
    then have p: "delivery_key p = delivery_key i" "p \<in> set kept" by (auto dest: find_SomeD)
    obtain d where d: "scope_item_digest p = Inr d" "scope_item_digest i = Inr d" "collapse_deliveries kept items = Inr out"
      using Cons.prems(1) Some by (auto simp: result_simps split: if_splits)
    note IH = Cons.IH [OF d(3) Cons.prems(2)]
    then have "p \<in> set out" using p(2) by (auto simp: prefix_def)
    then show ?thesis using IH d(1,2) p(1) by auto
  qed
qed simp

lemma collapse_replay:
  assumes "collapse_deliveries [] items = Inr out" "i \<in> set items"
  shows "collapse_deliveries [] (items @ [i]) = Inr out"
proof -
  note c = collapse_Inr [OF assms(1)]
  obtain k d where k: "k \<in> set out" "delivery_key k = delivery_key i" "scope_item_digest k = Inr d" "scope_item_digest i = Inr d"
    using c assms(2) by auto
  have "find (\<lambda>q. delivery_key q = delivery_key i) out = Some k"
    using distinct_map_find [of delivery_key out k] c k(1,2) by simp
  then show ?thesis by (simp add: collapse_append assms(1) k(3,4))
qed

end
