(* ===== verification/Batch_Properties.thy ===== *)
theory Batch_Properties
  imports Batch_Facts
begin

text \<open>
  Properties of the Batch and Suite aggregates and of Batch cancellation, with sample values on
  which they are exercised.
\<close>

section \<open>Sample values\<close>

definition draft_batch :: batch where
  "draft_batch =
     \<lparr>bt_id = ''b'', bt_state = BatchDraft, bt_version = 0, bt_rejection_fact = None,
      bt_cancellation_intent = None, bt_basis = None, bt_project_id = None, bt_suite_revision_id = None,
      bt_request_digest = None, bt_idempotency_scope = None, bt_idempotency_key = None, bt_created_at = None,
      bt_priority_class = ''background'', bt_deadline_at = None\<rparr>"

definition validating_batch :: batch where
  "validating_batch = draft_batch\<lparr>bt_state := BatchValidating, bt_version := 1\<rparr>"

definition sample_rejection :: batch_rejection where
  "sample_rejection =
     \<lparr>brj_rejection_id = ''rej'', brj_batch_id = ''b'', brj_source_batch_version = 1, brj_stage = StageValidation,
      brj_reason_class = ReasonInvalidInput, brj_reason_code = ''bad'', brj_input_digest = Digest ''in'',
      brj_authority_digest = None, brj_recorded_at = utc 5\<rparr>"

definition preplan_snapshot :: "int \<Rightarrow> preexecution_snapshot" where
  "preplan_snapshot v =
     \<lparr>pss_batch_id = ''b'', pss_source_batch_version = v, pss_scope_kind = ScopePrePlan,
      pss_submission_digest = Digest ''sub'', pss_preplan_scope_digest = Some (Digest ''scope''),
      pss_manifest_digest = None, pss_shard_plan_version = None, pss_shard_plan_digest = None,
      pss_canonical_run_set_digest = None, pss_run_absence_digest = Digest ''none'',
      pss_execution_absence_digest = Digest ''none'', pss_task_stop_fact_digests = [], pss_scope_items = [],
      pss_item_coverage_proof_digest = None\<rparr>"

definition sample_intent :: batch_cancellation_intent where
  "sample_intent =
     \<lparr>bci_batch_id = ''b'', bci_project_id = ''p'', bci_suite_revision_id = ''r'', bci_source_batch_version = 1,
      bci_idempotency_key = ''k'', bci_source = UserRequest, bci_actor_id = ''u'', bci_reason = ''stop'',
      bci_authorization_digest = Digest ''auth'',
      bci_scope = \<lparr>bcs_kind = CancelPrePlan, bcs_preplan_scope_digest = Some (Digest ''scope''),
        bcs_manifest_digest = None, bcs_shard_plan_version = None, bcs_shard_plan_digest = None,
        bcs_canonical_run_set_digest = None\<rparr>,
      bci_recorded_at = utc 6\<rparr>"

lemmas batch_sample_defs = draft_batch_def validating_batch_def sample_rejection_def preplan_snapshot_def sample_intent_def

lemma draft_created: "batch_create ''b'' = Inr draft_batch"
  by (simp add: batch_create_def mk_batch_def draft_batch_def check_batch_def create_identity_checks_def
      batch_present_def optional_check_def blank_eval)

lemma validating_step: "exec_batch (BatchTransition BatchValidating 0) draft_batch = Inr validating_batch"
  by (simp add: batch_transition_def ensure_expected_version_def mk_batch_def validating_batch_def draft_batch_def
      check_batch_def create_identity_checks_def batch_present_def optional_check_def blank_eval)

lemma validating_reachable: "reachable_batch validating_batch" "wf_batch validating_batch"
proof -
  show r: "reachable_batch validating_batch"
    by (rule reachable_batch_step [OF reachable_fresh_batch [OF batch_create_fresh [OF draft_created]] validating_step])
  show "wf_batch validating_batch" by (rule reachable_batch_facts(2) [OF r])
qed

lemma sample_args:
  "check_batch_rejection sample_rejection = None" "mk_preexecution_snapshot (preplan_snapshot v) = Inr (preplan_snapshot v) \<longleftrightarrow> 0 \<le> v"
  "valid_intent sample_intent"
  by (auto simp: batch_sample_defs check_batch_rejection_def mk_preexecution_snapshot_def check_preexecution_snapshot_def
      valid_intent_def check_batch_cancellation_scope_def check_batch_cancellation_intent_def Let_def result_simps blank_eval)

lemma sample_rejected:
  obtains b where "exec_batch (BatchReject sample_rejection (preplan_snapshot 1) 1) validating_batch = Inr b"
    "bt_state b = BatchRejected"
proof (rule preplan_rejection_succeeds [OF validating_reachable(2), where r = sample_rejection and s = "preplan_snapshot 1"])
  show "check_batch_rejection sample_rejection = None" by (rule sample_args(1))
  show "mk_preexecution_snapshot (preplan_snapshot 1) = Inr (preplan_snapshot 1)" by (simp add: sample_args(2))
  fix b' assume "exec_batch (BatchReject sample_rejection (preplan_snapshot 1) (bt_version validating_batch)) validating_batch = Inr b'"
    "bt_state b' = BatchRejected"
  then show thesis using that by (simp add: validating_batch_def)
qed (simp_all add: batch_sample_defs safe_int_def)

definition cancelling_batch :: batch where
  "cancelling_batch = validating_batch\<lparr>bt_version := 2, bt_cancellation_intent := Some sample_intent\<rparr>"

lemma cancelling_step: "exec_batch (BatchRequestCancel sample_intent 1) validating_batch = Inr cancelling_batch"
  using sample_args(3)
  by (simp add: mk_batch_cancellation_intent_def valid_intent_def batch_request_cancel_def batch_cancel_fresh_def
      ensure_expected_version_def mk_batch_def cancelling_batch_def batch_sample_defs check_batch_def
      create_identity_checks_def batch_present_def optional_check_def blank_eval batch_terminal_states_def
      batch_prestart_cancel_states_def expected_cancel_scope_kind_def batch_frozen_plan_cancel_states_def
      pending_cancel_checks_def)

lemma cancelling_reachable: "reachable_batch cancelling_batch"
  by (rule reachable_batch_step [OF validating_reachable(1) cancelling_step])

section \<open>Batches\<close>

text \<open>
  C23: A reachable Batch is closed before execution only with its proof: it is REJECTED exactly when it
  holds a rejection fact, and then its closure basis carries the digest of that fact, made for the
  version before and in the phase that the rejection names; it is CANCELLED only with a cancellation
  intent and a basis that carries the digest of the intent and covers the scope frozen in it. In no
  other state does it hold a closure basis.
\<close>

theorem closed_batch_holds_its_proof:
  assumes "reachable_batch b"
  shows "(bt_basis b \<noteq> None \<longleftrightarrow> bt_state b \<in> {BatchRejected, BatchCancelled}) \<and>
    (bt_state b = BatchRejected \<longrightarrow> (\<exists>r k. bt_rejection_fact b = Some r \<and> bt_basis b = Some k \<and>
       map_result Some (batch_rejection_digest r) = Inr (peb_rejection_fact_digest k) \<and>
       rejection_stage_of_phase (peb_source_phase k) = Some (brj_stage r) \<and>
       brj_batch_id r = bt_id b \<and> brj_source_batch_version r = bt_version b - 1 \<and> bt_cancellation_intent b = None)) \<and>
    (bt_state b = BatchCancelled \<longrightarrow> (\<exists>i k. bt_cancellation_intent b = Some i \<and> bt_basis b = Some k \<and>
       map_result Some (batch_cancellation_intent_digest i) = Inr (peb_cancellation_intent_digest k) \<and>
       cancel_basis_matches (bci_scope i) k \<and> peb_source_phase k \<in> set batch_prestart_cancel_states \<and>
       bci_batch_id i = bt_id b \<and> bci_source_batch_version i = bt_version b - 2 \<and> bt_rejection_fact b = None))"
proof (intro conjI impI)
  show "bt_basis b \<noteq> None \<longleftrightarrow> bt_state b \<in> {BatchRejected, BatchCancelled}"
    using reachable_batch_facts(1) [OF assms] by (simp add: batch_facts_def)
  show "\<exists>r k. bt_rejection_fact b = Some r \<and> bt_basis b = Some k \<and>
       map_result Some (batch_rejection_digest r) = Inr (peb_rejection_fact_digest k) \<and>
       rejection_stage_of_phase (peb_source_phase k) = Some (brj_stage r) \<and>
       brj_batch_id r = bt_id b \<and> brj_source_batch_version r = bt_version b - 1 \<and> bt_cancellation_intent b = None"
    if "bt_state b = BatchRejected"
    using closed_rejected [OF assms that] by metis
  show "\<exists>i k. bt_cancellation_intent b = Some i \<and> bt_basis b = Some k \<and>
       map_result Some (batch_cancellation_intent_digest i) = Inr (peb_cancellation_intent_digest k) \<and>
       cancel_basis_matches (bci_scope i) k \<and> peb_source_phase k \<in> set batch_prestart_cancel_states \<and>
       bci_batch_id i = bt_id b \<and> bci_source_batch_version i = bt_version b - 2 \<and> bt_rejection_fact b = None"
    if "bt_state b = BatchCancelled"
    using closed_cancelled [OF assms that] by metis
qed

theorem closed_batch_holds_its_proof_witness:
  "\<exists>b. exec_batch (BatchReject sample_rejection (preplan_snapshot 1) 1) validating_batch = Inr b \<and>
     bt_basis b \<noteq> None"
proof -
  obtain b where b: "exec_batch (BatchReject sample_rejection (preplan_snapshot 1) 1) validating_batch = Inr b"
    "bt_state b = BatchRejected" by (rule sample_rejected)
  have "reachable_batch b" by (rule reachable_batch_step [OF validating_reachable(1) b(1)])
  from closed_batch_holds_its_proof [OF this] show ?thesis using b by auto
qed

text \<open>
  Once a reachable Batch holds a cancellation intent it makes no further progress: the intent is
  never replaced, the Batch never runs, and the only change left is its closure as CANCELLED.
\<close>

theorem no_progress_after_batch_cancel:
  assumes "reachable_batch b" "bt_cancellation_intent b = Some i" "history exec_batch b b'"
  shows "bt_cancellation_intent b' = Some i \<and> bt_state b' \<noteq> BatchRunning \<and>
    (b' = b \<or> bt_state b' = BatchCancelled)"
proof -
  have "bt_state b \<noteq> BatchRunning"
    using reachable_batch_facts(1) [OF assms(1)] assms(2) by (auto simp: batch_facts_def batch_prestart_cancel_states_def)
  then show ?thesis using batch_intent_history [OF assms(3,2)] by auto
qed

theorem no_progress_after_batch_cancel_witness:
  "exec_batch (BatchTransition BatchCollecting 2) cancelling_batch \<noteq> Inr (cancelling_batch\<lparr>bt_state := BatchCollecting, bt_version := 3\<rparr>)"
proof
  assume "exec_batch (BatchTransition BatchCollecting 2) cancelling_batch =
    Inr (cancelling_batch\<lparr>bt_state := BatchCollecting, bt_version := 3\<rparr>)"
  from no_progress_after_batch_cancel [OF cancelling_reachable _ batch_history_single [OF this], of sample_intent]
  show False by (simp add: cancelling_batch_def batch_sample_defs)
qed

text \<open>
  A Batch that runs, finalizes or has ended is out of reach of every pre-execution command: none
  of them changes it, so no rejection or zero-Run cancellation can close a Batch whose Runs started.
\<close>

theorem started_batch_unchanged:
  assumes "wf_batch b" "bt_state b \<notin> set batch_prestart_cancel_states" "history exec_batch b b'"
  shows "b' = b"
  using batch_life.history_absorbing [OF assms(3,1)] assms(2) by (simp add: batch_settled_iff)

theorem started_batch_unchanged_witness:
  "\<exists>b. bt_state b = BatchRejected \<and> wf_batch b \<and> (\<forall>c b'. exec_batch c b = Inr b' \<longrightarrow> b' = b)"
proof -
  obtain b where b: "exec_batch (BatchReject sample_rejection (preplan_snapshot 1) 1) validating_batch = Inr b"
    "bt_state b = BatchRejected" by (rule sample_rejected)
  have wf: "wf_batch b" using exec_batch_wf [OF validating_reachable(2) b(1)] .
  have "bt_state b \<notin> set batch_prestart_cancel_states" by (simp add: b(2) batch_prestart_cancel_states_def)
  from started_batch_unchanged [OF wf this batch_history_single] show ?thesis using b(2) wf by blast
qed

text \<open>
  Every Batch command but a plain transition is idempotent: sending a cancellation request, a
  rejection or a closure again after it succeeded is accepted and changes nothing, whatever version it
  names (the Batch version must be a safe integer for the digests to exist).
\<close>

theorem batch_commands_replay:
  assumes "exec_batch c b = Inr b'" "safe_int (bt_version b)" "\<nexists>st v. c = BatchTransition st v"
  shows "exec_batch c b' = Inr b'"
proof (cases "b' = b")
  case False
  then show ?thesis
    using assms request_cancel_replays reject_replays close_replays by (cases c) blast+
qed (use assms(1) in simp)

theorem batch_commands_replay_witness:
  "exec_batch (BatchRequestCancel sample_intent 1) cancelling_batch = Inr cancelling_batch"
  by (rule batch_commands_replay [OF cancelling_step]) (simp_all add: batch_sample_defs safe_int_def)

text \<open>
  A Batch without a frozen plan can always be rejected: in the validating, collecting and planning
  phases a rejection of the matching stage with a pre-plan snapshot, both bound to the Batch and its
  version, closes it as REJECTED unless a cancellation was requested first.
\<close>

theorem preplan_rejection_possible:
  assumes "wf_batch b" "bt_cancellation_intent b = None" "bt_state b \<in> {BatchValidating, BatchCollecting, BatchPlanning}"
    "rejection_stage_of_phase (bt_state b) = Some (brj_stage r)" "check_batch_rejection r = None"
    "brj_batch_id r = bt_id b" "brj_source_batch_version r = bt_version b" "safe_int (bt_version b)"
    "mk_preexecution_snapshot s = Inr s" "pss_scope_kind s = ScopePrePlan" "pss_batch_id s = bt_id b"
    "pss_source_batch_version s = bt_version b"
  shows "\<exists>b'. exec_batch (BatchReject r s (bt_version b)) b = Inr b' \<and> bt_state b' = BatchRejected"
  using preplan_rejection_succeeds [OF assms] by metis

theorem preplan_rejection_possible_witness:
  "\<exists>b'. exec_batch (BatchReject sample_rejection (preplan_snapshot 1) 1) validating_batch = Inr b' \<and>
     bt_state b' = BatchRejected"
proof -
  have v: "bt_version validating_batch = 1" by (simp add: validating_batch_def)
  show ?thesis
    unfolding v [symmetric]
  proof (rule preplan_rejection_possible [OF validating_reachable(2)])
    show "check_batch_rejection sample_rejection = None" by (rule sample_args(1))
    show "mk_preexecution_snapshot (preplan_snapshot (bt_version validating_batch)) =
        Inr (preplan_snapshot (bt_version validating_batch))" by (simp add: sample_args(2) v)
  qed (simp_all add: batch_sample_defs safe_int_def)
qed

section \<open>Suites and the creation of Batches\<close>

definition sample_suite :: suite where
  "sample_suite =
     \<lparr>su_id = ''s'', su_project_id = ''p'', su_name = ''n'', su_status = SuiteActive, su_version = 0,
      su_revisions = [\<lparr>sr_id = ''r1'', sr_suite_id = ''s'', sr_revision_no = 1, sr_source_spec_digest = Digest ''d'',
        sr_config_digest = Digest ''c'', sr_framework = ''pytest'', sr_resource_profile_id = ''p'',
        sr_status = RevisionApproved, sr_created_at = utc 1\<rparr>],
      su_current_revision_id = ''r1'', su_retired_at = None\<rparr>"

definition retired_suite :: suite where
  "retired_suite = sample_suite\<lparr>su_status := SuiteRetired, su_version := 1, su_retired_at := Some (utc 9)\<rparr>"

lemma sample_suite_facts:
  "wf_suite sample_suite" "exec_suite (RetireSuite (utc 9) 0) sample_suite = Inr retired_suite"
  by (simp_all add: wf_suite_def check_suite_def sample_suite_def retired_suite_def suite_retire_def mk_suite_def
      ensure_expected_version_def Let_def result_simps blank_eval)

text \<open>
  The revisions of a Suite are immutable: over any history they are only appended, every revision
  that could be looked up once is looked up unchanged later, and a retired Suite never changes again.
\<close>

theorem suite_revisions_immutable:
  assumes "wf_suite s" "history exec_suite s t"
  shows "prefix (su_revisions s) (su_revisions t) \<and> wf_suite t \<and>
    (\<forall>i r. suite_revision_of i s = Inr r \<longrightarrow> suite_revision_of i t = Inr r) \<and>
    suite_current_revision t = Inr (last (su_revisions t)) \<and> (su_status s = SuiteRetired \<longrightarrow> t = s)"
proof (intro conjI allI impI)
  show wf: "wf_suite t" by (rule suite_life.history_good [OF assms(2,1)])
  show "prefix (su_revisions s) (su_revisions t)" by (rule suite_revision_log.history_appends [OF assms(2,1)])
  show "suite_revision_of i t = Inr r" if "suite_revision_of i s = Inr r" for i r
    by (rule suite_revision_stable [OF assms(2,1) that])
  show "suite_current_revision t = Inr (last (su_revisions t))" by (rule suite_current_revision_last [OF wf])
  show "t = s" if "su_status s = SuiteRetired" by (rule suite_life.history_absorbing [OF assms(2,1) that])
qed

theorem suite_revisions_immutable_witness:
  "suite_revision_of ''r1'' retired_suite = suite_revision_of ''r1'' sample_suite"
proof -
  have "history exec_suite sample_suite retired_suite" by (rule history_single) (rule sample_suite_facts(2))
  from suite_revisions_immutable [OF sample_suite_facts(1) this]
  have "suite_revision_of ''r1'' sample_suite = Inr r \<Longrightarrow> suite_revision_of ''r1'' retired_suite = Inr r" for r by blast
  then show ?thesis by (simp add: suite_revision_of_def sample_suite_def)
qed

lemma batch_move_identity:
  "batch_move b b' \<Longrightarrow> bt_request_digest b' = bt_request_digest b \<and> bt_idempotency_scope b' = bt_idempotency_scope b \<and>
     bt_idempotency_key b' = bt_idempotency_key b \<and> bt_id b' = bt_id b \<and>
     bt_project_id b' = bt_project_id b \<and> bt_suite_revision_id b' = bt_suite_revision_id b"
  by (induction rule: batch_move.induct) simp_all

lemma batch_identity_history:
  assumes "history exec_batch b b'"
  shows "bt_request_digest b' = bt_request_digest b \<and> bt_idempotency_scope b' = bt_idempotency_scope b \<and>
     bt_idempotency_key b' = bt_idempotency_key b \<and> bt_id b' = bt_id b \<and>
     bt_project_id b' = bt_project_id b \<and> bt_suite_revision_id b' = bt_suite_revision_id b"
  using assms
proof (induction rule: history.induct)
  case (history_step s t c u)
  then show ?case using exec_batch_step [of c t u] batch_move_identity [of t u] by (auto simp: batch_step_def)
qed simp

text \<open>
  A Batch opens only for an active Suite and binds one of its revisions for good: over its whole
  history it keeps the project and the revision, and answers a repeated creation with its own id
  exactly when the request digest is the one it was opened with, and with a conflict otherwise.
\<close>

theorem batch_opens_for_active_suite:
  assumes "batch_open_for_suite bid s rd scope key t rid prio deadline = Inr b" "history exec_batch b b'"
  shows "su_status s = SuiteActive \<and>
    (\<exists>r. suite_revision_of (case rid of None \<Rightarrow> su_current_revision_id s | Some i \<Rightarrow> i) s = Inr r \<and>
       bt_suite_revision_id b' = Some (sr_id r)) \<and> bt_project_id b' = Some (su_project_id s) \<and>
    (\<forall>d. batch_resolve_create_replay d b' =
      (if d = rd then Inr \<lparr>ix_response_status = 200, ix_response_ref = bid, ix_replayed = True\<rparr>
       else Inl (IdempotencyConflict scope key rd d)))"
proof -
  let ?rev = "case rid of None \<Rightarrow> su_current_revision_id s | Some i \<Rightarrow> i"
  obtain r where r: "su_status s = SuiteActive" "suite_revision_of ?rev s = Inr r"
    and b: "bt_suite_revision_id b = Some ?rev" "bt_project_id b = Some (su_project_id s)" "bt_id b = bid"
      "bt_request_digest b = Some rd" "bt_idempotency_scope b = Some scope" "bt_idempotency_key b = Some key"
    using assms(1)
    by (auto simp: batch_open_for_suite_def require_accepts_new_batch_def suite_accepts_new_batch_def mk_batch_def
        Let_def result_simps)
  have "sr_id r = ?rev" using r(2) by (auto simp: suite_revision_of_def dest: find_SomeD split: option.splits)
  then show ?thesis
    using r b batch_identity_history [OF assms(2)]
    by (simp add: batch_resolve_create_replay_def idempotency_create_def idempotency_resolve_def)
qed

theorem batch_opens_for_active_suite_witness:
  "\<exists>b. batch_open_for_suite ''b'' sample_suite (Digest ''q'') ''scope'' ''key'' (utc 2) None ''background'' None = Inr b \<and>
     bt_suite_revision_id b = Some ''r1''"
proof -
  obtain b where b: "batch_open_for_suite ''b'' sample_suite (Digest ''q'') ''scope'' ''key'' (utc 2) None ''background'' None = Inr b"
    by (simp add: batch_open_for_suite_def sample_suite_def require_accepts_new_batch_def suite_accepts_new_batch_def
        suite_revision_of_def mk_batch_def check_batch_def create_identity_checks_def batch_present_def optional_check_def
        require_nonempty_string_def require_utc_def blank_eval)
  from batch_opens_for_active_suite [OF b history_refl] show ?thesis
    using b by (auto simp: suite_revision_of_def sample_suite_def)
qed

section \<open>Cancellation scope items\<close>

text \<open>
  The canonical scope items of a Batch cancellation cover the Manifest exactly: one fact for each
  expected item, in key order, all taken from the delivered ones and all carrying the authoritative
  envelope; every delivered fact is an exact replay of the one kept. Delivering a fact again changes nothing.
\<close>

theorem cancellation_scope_covers_manifest:
  assumes "canonicalize_scope_items bid cd mid md pv pd expected items = Inr out"
  shows "map csi_manifest_item_key out = sort_key key_order expected \<and> distinct (map csi_manifest_item_key out) \<and>
    set out \<subseteq> set items \<and> (\<forall>k \<in> set out. item_envelope k = (bid, cd, mid, md, pv, pd)) \<and>
    (\<forall>i \<in> set items. \<exists>k \<in> set out. delivery_key k = delivery_key i \<and>
       (\<exists>d. scope_item_digest k = Inr d \<and> scope_item_digest i = Inr d)) \<and>
    (\<forall>i \<in> set items. canonicalize_scope_items bid cd mid md pv pd expected (items @ [i]) = Inr out)"
proof -
  obtain kept where kept: "collapse_deliveries [] items = Inr kept"
    "out = sort_key (\<lambda>i. key_order (csi_manifest_item_key i)) kept"
    "map csi_manifest_item_key out = sort_key key_order expected" "distinct expected"
    "\<forall>k \<in> set out. item_envelope k = item_envelope (hd out)"
    "item_envelope (hd out) = (bid, cd, mid, md, pv, pd)"
    using assms by (auto simp: canonicalize_scope_items_def Let_def result_simps list_ex_iff)
  note c = collapse_Inr [OF kept(1)]
  have "distinct (map csi_manifest_item_key out)" using kept(3,4) by simp
  moreover have "canonicalize_scope_items bid cd mid md pv pd expected (items @ [i]) = Inr out" if "i \<in> set items" for i
    using assms collapse_replay [OF kept(1) that] kept(1) by (auto simp: canonicalize_scope_items_def Let_def result_simps)
  moreover have "set out = set kept" by (simp add: kept(2))
  ultimately show ?thesis using c kept(3,5,6) by auto
qed

definition scope_item :: "int \<Rightarrow> batch_cancellation_scope_item" where
  "scope_item n =
     \<lparr>csi_batch_id = ''b'', csi_intent_digest = Digest ''i'', csi_manifest_id = ''m'', csi_manifest_digest = Digest ''md'',
      csi_manifest_item_key = \<lparr>rk_manifest_id = ''m'', rk_item_index = n\<rparr>, csi_shard_plan_version = 1,
      csi_shard_plan_digest = Digest ''pd'', csi_resolution_kind = NotExecuted, csi_run_id = None,
      csi_source_run_version = None, csi_recorded_at = utc 3\<rparr>"

lemma scope_item_fields:
  "csi_manifest_item_key (scope_item n) = \<lparr>rk_manifest_id = ''m'', rk_item_index = n\<rparr>"
  "delivery_key (scope_item n) = (Digest ''i'', \<lparr>rk_manifest_id = ''m'', rk_item_index = n\<rparr>)"
  "item_envelope (scope_item n) = (''b'', Digest ''i'', ''m'', Digest ''md'', 1, Digest ''pd'')"
  by (simp_all add: scope_item_def delivery_key_def item_envelope_def)

theorem cancellation_scope_covers_manifest_witness:
  "canonicalize_scope_items ''b'' (Digest ''i'') ''m'' (Digest ''md'') 1 (Digest ''pd'')
     [\<lparr>rk_manifest_id = ''m'', rk_item_index = 0\<rparr>, \<lparr>rk_manifest_id = ''m'', rk_item_index = 1\<rparr>]
     [scope_item 1, scope_item 0, scope_item 1] = Inr [scope_item 0, scope_item 1]"
proof -
  have d: "\<exists>d. scope_item_digest (scope_item n) = Inr d" if "n \<in> {0, 1}" for n
    using that by (auto simp: scope_item_digest_def scope_item_json_def scope_item_def run_item_key_json_def result_simps
        safe_int_def Let_def)
  obtain d0 d1 where "scope_item_digest (scope_item 0) = Inr d0" "scope_item_digest (scope_item 1) = Inr d1"
    using d [of 0] d [of 1] by auto
  then have c: "collapse_deliveries [] [scope_item 1, scope_item 0] = Inr [scope_item 1, scope_item 0]"
    by (simp add: scope_item_fields)
  have "sort_key (\<lambda>i. key_order (csi_manifest_item_key i)) [scope_item 1, scope_item 0] = [scope_item 0, scope_item 1]"
    by (simp add: scope_item_fields key_order_def)
  then have "canonicalize_scope_items ''b'' (Digest ''i'') ''m'' (Digest ''md'') 1 (Digest ''pd'')
     [\<lparr>rk_manifest_id = ''m'', rk_item_index = 0\<rparr>, \<lparr>rk_manifest_id = ''m'', rk_item_index = 1\<rparr>]
     [scope_item 1, scope_item 0] = Inr [scope_item 0, scope_item 1]"
    by (simp add: canonicalize_scope_items_def c Let_def require_nonempty_string_def require_nonnegative_version_def
        blank_eval key_order_def scope_item_fields del: collapse_deliveries.simps)
  from cancellation_scope_covers_manifest [OF this]
  have "\<forall>i \<in> set [scope_item 1, scope_item 0]. canonicalize_scope_items ''b'' (Digest ''i'') ''m'' (Digest ''md'') 1 (Digest ''pd'')
     [\<lparr>rk_manifest_id = ''m'', rk_item_index = 0\<rparr>, \<lparr>rk_manifest_id = ''m'', rk_item_index = 1\<rparr>]
     ([scope_item 1, scope_item 0] @ [i]) = Inr [scope_item 0, scope_item 1]" by blast
  then show ?thesis by simp
qed

text \<open>
  C27: Every history of a Batch ends: there is no infinite sequence of commands each of which changes it.
  Whatever commands are run on a Batch that was just created, at most seven of them change it (five edges, the
  cancellation intent and the closure), and its version is the number of those that did.
\<close>

theorem batch_history_terminates:
  assumes "fresh_batch b" "run_batch cs b = (n, b')"
  shows "wf {(t, s). t \<noteq> s \<and> (\<exists>c. exec_batch c s = Inr t)} \<and> n \<le> 7 \<and> bt_version b' = int n"
proof -
  have "{(t, s). t \<noteq> s \<and> (\<exists>c. exec_batch c s = Inr t)} \<subseteq> measure batch_steps_left"
    using exec_batch_steps_left by auto
  then have "wf {(t, s). t \<noteq> s \<and> (\<exists>c. exec_batch c s = Inr t)}" by (rule wf_subset [OF wf_measure])
  moreover have "bt_version b = 0" "batch_steps_left b = 7" using assms(1) by (simp_all add: fresh_batch_def batch_steps_left_def)
  ultimately show ?thesis using run_batch_counts [OF assms(2)] by auto
qed

text \<open>A creation, the first transition and the same command again.\<close>

theorem batch_history_terminates_witness:
  "let c = BatchTransition BatchValidating 0 in
   run_batch [c, c] draft_batch = (1, validating_batch) \<and> bt_version validating_batch = 1"
proof -
  let ?c = "BatchTransition BatchValidating 0"
  have "batch_after ?c draft_batch = validating_batch" using validating_step by (simp add: batch_after_def)
  moreover have "batch_after ?c validating_batch = validating_batch"
    by (simp add: batch_after_def batch_transition_def ensure_expected_version_def validating_batch_def draft_batch_def)
  moreover have "validating_batch \<noteq> draft_batch" by (simp add: validating_batch_def draft_batch_def)
  ultimately have r: "run_batch [?c, ?c] draft_batch = (1, validating_batch)" by (simp add: Let_def)
  then show ?thesis using batch_history_terminates [OF batch_create_fresh [OF draft_created] r] by (simp add: Let_def)
qed

end
