(* ===== verification/Python_Text.thy ===== *)
theory Python_Text
  imports Prelude
begin

text \<open>
  The text operations of Python's \<open>str\<close> that the access and result components use: \<open>strip\<close>, \<open>split\<close>,
  \<open>partition\<close>, \<open>startswith\<close>, \<open>endswith\<close>, \<open>in\<close>, \<open>replace\<close>, \<open>rstrip\<close> and \<open>lower\<close>. Strings are UTF-8
  bytes, as everywhere; \<open>lower\<close> maps the ASCII letters (a non-ASCII letter is kept).
\<close>

section \<open>Trimming\<close>

text \<open>\<open>lstrip\<close> drops the white space in front; \<open>rstrip\<close> keeps the shortest prefix whose rest is blank.\<close>

fun lstrip_bytes :: "nat list \<Rightarrow> nat list" where
  "lstrip_bytes [] = []"
| "lstrip_bytes (b # bs) =
     (if ascii_space b then lstrip_bytes bs
      else if space2 b bs then lstrip_bytes (drop 1 bs)
      else if space3 b bs then lstrip_bytes (drop 2 bs)
      else b # bs)"

fun rstrip_bytes :: "nat list \<Rightarrow> nat list" where
  "rstrip_bytes [] = []"
| "rstrip_bytes (b # bs) = (if blank_bytes (b # bs) then [] else b # rstrip_bytes bs)"

definition strip :: "string \<Rightarrow> string" where
  "strip s = map char_of (rstrip_bytes (lstrip_bytes (map of_char s)))"

lemma lstrip_bytes_Nil_iff: "lstrip_bytes bs = [] \<longleftrightarrow> blank_bytes bs"
  by (induction bs rule: lstrip_bytes.induct) auto

lemma blank_lstrip: "blank_bytes (lstrip_bytes bs) \<longleftrightarrow> blank_bytes bs"
  by (induction bs rule: lstrip_bytes.induct) auto

lemma rstrip_bytes_Nil_iff: "rstrip_bytes bs = [] \<longleftrightarrow> blank_bytes bs"
  by (induction bs) auto

lemma strip_Nil_iff [simp]: "strip s = [] \<longleftrightarrow> blank s"
  by (simp add: strip_def blank_def rstrip_bytes_Nil_iff blank_lstrip)

text \<open>\<open>s.rstrip(chars)\<close> for a set of single characters.\<close>

definition rstrip_chars :: "char list \<Rightarrow> string \<Rightarrow> string" where
  "rstrip_chars cs s = rev (dropWhile (\<lambda>c. c \<in> set cs) (rev s))"

section \<open>Case\<close>

definition lower_char :: "char \<Rightarrow> char" where
  "lower_char c = (let n = of_char c :: nat in if 65 \<le> n \<and> n \<le> 90 then char_of (n + 32) else c)"

definition lower :: "string \<Rightarrow> string" where
  "lower s = map lower_char s"

definition upper_char :: "char \<Rightarrow> char" where
  "upper_char c = (let n = of_char c :: nat in if 97 \<le> n \<and> n \<le> 122 then char_of (n - 32) else c)"

definition upper :: "string \<Rightarrow> string" where
  "upper s = map upper_char s"

lemma lower_char_idem [simp]: "lower_char (lower_char c) = lower_char c"
  by (simp add: lower_char_def Let_def)

lemma lower_idem [simp]: "lower (lower s) = lower s"
  by (simp add: lower_def)

section \<open>Splitting\<close>

text \<open>\<open>s.split(c)\<close> for a single character: always at least one part.\<close>

fun split_on :: "char \<Rightarrow> string \<Rightarrow> string list" where
  "split_on c [] = [[]]"
| "split_on c (x # xs) =
     (if x = c then [] # split_on c xs
      else case split_on c xs of [] \<Rightarrow> [[x]] | p # ps \<Rightarrow> (x # p) # ps)"

lemma split_on_nonempty [simp]: "split_on c s \<noteq> []"
  by (cases s) (auto split: list.splits)

lemma split_on_plain: "c \<notin> set s \<Longrightarrow> split_on c s = [s]"
  by (induction s) auto

lemma split_on_append: "c \<notin> set s \<Longrightarrow> split_on c (s @ c # t) = s # split_on c t"
  by (induction s) auto

text \<open>Splitting undoes joining.\<close>

lemma split_on_join:
  assumes "parts \<noteq> []" "\<forall>p \<in> set parts. c \<notin> set p"
  shows "split_on c (join_with [c] parts) = parts"
  using assms
proof (induction "[c]" parts rule: join_with.induct)
  case (3 x y ys)
  then show ?case by (simp add: split_on_append)
qed (simp_all add: split_on_plain)

text \<open>\<open>s.partition(c)\<close>: the part before the first separator, and the rest when there is one.\<close>

fun partition_on :: "char \<Rightarrow> string \<Rightarrow> string \<times> string option" where
  "partition_on c [] = ([], None)"
| "partition_on c (x # xs) =
     (if x = c then ([], Some xs) else let (p, r) = partition_on c xs in (x # p, r))"

lemma partition_on_plain: "c \<notin> set s \<Longrightarrow> partition_on c s = (s, None)"
  by (induction s) auto

section \<open>Searching\<close>

definition starts_with :: "string \<Rightarrow> string \<Rightarrow> bool" where
  "starts_with p s \<longleftrightarrow> take (length p) s = p"

definition ends_with :: "string \<Rightarrow> string \<Rightarrow> bool" where
  "ends_with p s \<longleftrightarrow> length p \<le> length s \<and> drop (length s - length p) s = p"

lemma starts_with_iff: "starts_with p s \<longleftrightarrow> (\<exists>t. s = p @ t)"
  unfolding starts_with_def by (metis append_eq_conv_conj append_take_drop_id)

lemma ends_with_iff: "ends_with p s \<longleftrightarrow> (\<exists>t. s = t @ p)"
proof
  assume "ends_with p s"
  then have "s = take (length s - length p) s @ p" unfolding ends_with_def by (metis append_take_drop_id)
  then show "\<exists>t. s = t @ p" by blast
qed (auto simp: ends_with_def)

text \<open>\<open>p in s\<close> for strings.\<close>

fun occurs_in :: "string \<Rightarrow> string \<Rightarrow> bool" where
  "occurs_in p [] = (p = [])"
| "occurs_in p (x # xs) = (starts_with p (x # xs) \<or> occurs_in p xs)"

lemma occurs_in_iff: "occurs_in p s \<longleftrightarrow> (\<exists>u v. s = u @ p @ v)"
proof (induction s)
  case (Cons x xs)
  show ?case
  proof
    assume "occurs_in p (x # xs)"
    then consider "\<exists>t. x # xs = p @ t" | "\<exists>u v. xs = u @ p @ v" using Cons by (auto simp: starts_with_iff)
    then show "\<exists>u v. x # xs = u @ p @ v" by cases (metis append_Nil, metis append_Cons)
  next
    assume "\<exists>u v. x # xs = u @ p @ v"
    then obtain u v where uv: "x # xs = u @ p @ v" by blast
    then show "occurs_in p (x # xs)"
    proof (cases u)
      case Nil
      then have "starts_with p (x # xs)" using uv unfolding starts_with_iff by auto
      then show ?thesis by simp
    next
      case (Cons y ys)
      then have "xs = ys @ p @ v" using uv by simp
      then show ?thesis using Cons.IH by auto
    qed
  qed
qed simp

text \<open>
  \<open>s.replace(old, new)\<close> for a non-empty \<open>old\<close>: from the left, without overlap. With an empty \<open>old\<close>
  Python inserts \<open>new\<close> everywhere; the modelled callers exclude it.
\<close>

function replace_all :: "string \<Rightarrow> string \<Rightarrow> string \<Rightarrow> string" where
  "replace_all old new s =
     (if s = [] \<or> old = [] then s
      else if starts_with old s then new @ replace_all old new (drop (length old) s)
      else hd s # replace_all old new (tl s))"
  by pat_completeness auto
termination
  by (relation "measure (\<lambda>(old, new, s). length s)") (auto simp: Suc_le_eq)

declare replace_all.simps [simp del]

end
