(* ===== verification/Ip_Address.thy ===== *)
theory Ip_Address
  imports Python_Text
begin

text \<open>
  What the egress decision uses of Python's \<open>ipaddress\<close> module (the standard library as of Python
  3.12.3; the images of the repository run python:3.12-slim): \<open>ip_address\<close> with the IPv4 and IPv6 readers, \<open>is_loopback\<close>,
  \<open>is_link_local\<close>, \<open>is_private\<close> and \<open>ipv4_mapped\<close>. An address is its number; an IPv6 address may
  carry a scope. \<open>None\<close> is the \<open>ValueError\<close> of a text that is no address.
\<close>

section \<open>IPv4\<close>

definition is_digit :: "char \<Rightarrow> bool" where
  "is_digit c \<longleftrightarrow> (let n = of_char c :: nat in 48 \<le> n \<and> n \<le> 57)"

definition digit_value :: "char \<Rightarrow> nat" where
  "digit_value c = of_char c - 48"

fun digits_value :: "nat \<Rightarrow> string \<Rightarrow> nat" where
  "digits_value acc [] = acc"
| "digits_value acc (c # cs) = digits_value (10 * acc + digit_value c) cs"

definition parse_octet :: "string \<Rightarrow> nat option" where
  "parse_octet s =
     (if s = [] \<or> \<not> list_all is_digit s \<or> 3 < length s \<or> s \<noteq> ''0'' \<and> hd s = CHR ''0'' then None
      else let n = digits_value 0 s in if 255 < n then None else Some n)"

fun all_some :: "'a option list \<Rightarrow> 'a list option" where
  "all_some [] = Some []"
| "all_some (None # xs) = None"
| "all_some (Some x # xs) = map_option ((#) x) (all_some xs)"

fun from_parts :: "nat \<Rightarrow> nat \<Rightarrow> nat list \<Rightarrow> nat" where
  "from_parts base acc [] = acc"
| "from_parts base acc (x # xs) = from_parts base (acc * base + x) xs"

definition parse_ipv4 :: "string \<Rightarrow> nat option" where
  "parse_ipv4 s =
     (if CHR ''/'' \<in> set s \<or> s = [] then None
      else let octets = split_on CHR ''.'' s in
        if length octets \<noteq> 4 then None else map_option (from_parts 256 0) (all_some (map parse_octet octets)))"

section \<open>IPv6\<close>

definition is_hex_digit :: "char \<Rightarrow> bool" where
  "is_hex_digit c \<longleftrightarrow> (let n = of_char c :: nat in 48 \<le> n \<and> n \<le> 57 \<or> 65 \<le> n \<and> n \<le> 70 \<or> 97 \<le> n \<and> n \<le> 102)"

definition hex_value :: "char \<Rightarrow> nat" where
  "hex_value c = (let n = of_char c :: nat in if n \<le> 57 then n - 48 else if n \<le> 70 then n - 55 else n - 87)"

definition parse_hextet :: "string \<Rightarrow> nat option" where
  "parse_hextet s =
     (if \<not> list_all is_hex_digit s \<or> 4 < length s \<or> s = [] then None
      else Some (from_parts 16 0 (map hex_value s)))"

text \<open>
  The groups of the address. A last part in IPv4 notation counts for two groups; here a part is its
  text or the number it has already been read to.
\<close>

datatype hextet = TextPart string | NumberPart nat

fun part_empty :: "hextet \<Rightarrow> bool" where
  "part_empty (TextPart s) = (s = [])"
| "part_empty (NumberPart n) = False"

fun part_value :: "hextet \<Rightarrow> nat option" where
  "part_value (TextPart s) = parse_hextet s"
| "part_value (NumberPart n) = Some n"

definition ipv6_parts :: "string list \<Rightarrow> hextet list option" where
  "ipv6_parts parts =
     (if CHR ''.'' \<in> set (last parts) then
        map_option (\<lambda>v. map TextPart (butlast parts) @ [NumberPart (v div 65536 mod 65536), NumberPart (v mod 65536)])
          (parse_ipv4 (last parts))
      else Some (map TextPart parts))"

text \<open>\<open>skip_index\<close>: the places of the empty parts that are not at an end.\<close>

definition inner_empty :: "hextet list \<Rightarrow> nat list" where
  "inner_empty parts = filter (\<lambda>i. part_empty (parts ! i)) [1..<length parts - 1]"

definition ipv6_layout :: "hextet list \<Rightarrow> (nat \<times> nat \<times> nat) option" where
  "ipv6_layout parts =
     (case inner_empty parts of
        [] \<Rightarrow> if length parts \<noteq> 8 \<or> part_empty (hd parts) \<or> part_empty (last parts) then None else Some (8, 0, 0)
      | [i] \<Rightarrow>
          (let first = part_empty (hd parts); end = part_empty (last parts);
               hi = (if first then i - 1 else i);
               lo = (if end then length parts - i - 2 else length parts - i - 1) in
           if first \<and> hi \<noteq> 0 \<or> end \<and> lo \<noteq> 0 \<or> 8 < hi + lo + 1 then None else Some (hi, lo, 8 - (hi + lo)))
      | _ \<Rightarrow> None)"

definition parse_ipv6_number :: "string \<Rightarrow> nat option" where
  "parse_ipv6_number s =
     (let parts = split_on CHR '':'' s in
      if s = [] \<or> length parts < 3 then None
      else case ipv6_parts parts of None \<Rightarrow> None | Some ps \<Rightarrow>
        if 9 < length ps then None
        else case ipv6_layout ps of None \<Rightarrow> None | Some (hi, lo, skipped) \<Rightarrow>
          (case all_some (map part_value (take hi ps)) of None \<Rightarrow> None | Some his \<Rightarrow>
          (case all_some (map part_value (drop (length ps - lo) ps)) of None \<Rightarrow> None | Some los \<Rightarrow>
             Some (from_parts 65536 (from_parts 65536 0 his * 65536 ^ skipped) los))))"

section \<open>Addresses\<close>

datatype ip_address = IPv4 nat | IPv6 nat "string option"

definition parse_ipv6 :: "string \<Rightarrow> ip_address option" where
  "parse_ipv6 s =
     (if CHR ''/'' \<in> set s then None
      else case partition_on CHR ''%'' s of
        (a, None) \<Rightarrow> map_option (\<lambda>n. IPv6 n None) (parse_ipv6_number a)
      | (a, Some scope) \<Rightarrow>
          if scope = [] \<or> CHR ''%'' \<in> set scope then None
          else map_option (\<lambda>n. IPv6 n (Some scope)) (parse_ipv6_number a))"

definition parse_ip :: "string \<Rightarrow> ip_address option" where
  "parse_ip s = (case parse_ipv4 s of Some n \<Rightarrow> Some (IPv4 n) | None \<Rightarrow> parse_ipv6 s)"

text \<open>\<open>addr in network\<close>: the leading bits agree.\<close>

definition in_network :: "nat \<Rightarrow> nat \<Rightarrow> nat \<times> nat \<Rightarrow> bool" where
  "in_network width n net = (n div 2 ^ (width - snd net) = fst net div 2 ^ (width - snd net))"

definition quad :: "nat \<Rightarrow> nat \<Rightarrow> nat \<Rightarrow> nat \<Rightarrow> nat" where
  "quad a b c d = ((a * 256 + b) * 256 + c) * 256 + d"

definition hextets :: "nat list \<Rightarrow> nat" where
  "hextets hs = from_parts 65536 0 hs * 65536 ^ (8 - length hs)"

definition ipv4_private_networks :: "(nat \<times> nat) list" where
  "ipv4_private_networks =
     [(quad 0 0 0 0, 8), (quad 10 0 0 0, 8), (quad 127 0 0 0, 8), (quad 169 254 0 0, 16), (quad 172 16 0 0, 12),
      (quad 192 0 0 0, 24), (quad 192 0 0 170, 31), (quad 192 0 2 0, 24), (quad 192 168 0 0, 16),
      (quad 198 18 0 0, 15), (quad 198 51 100 0, 24), (quad 203 0 113 0, 24), (quad 240 0 0 0, 4),
      (quad 255 255 255 255, 32)]"

definition ipv4_private_exceptions :: "(nat \<times> nat) list" where
  "ipv4_private_exceptions = [(quad 192 0 0 9, 32), (quad 192 0 0 10, 32)]"

definition ipv6_private_networks :: "(nat \<times> nat) list" where
  "ipv6_private_networks =
     [(1, 128), (0, 128), (0xFFFF * 2 ^ 32, 96), (hextets [0x64, 0xFF9B, 1], 48), (hextets [0x100], 64),
      (hextets [0x2001], 23), (hextets [0x2001, 0xDB8], 32), (hextets [0x2002], 16), (hextets [0xFC00], 7),
      (hextets [0xFE80], 10)]"

definition ipv6_private_exceptions :: "(nat \<times> nat) list" where
  "ipv6_private_exceptions =
     [(hextets [0x2001, 1] + 1, 128), (hextets [0x2001, 1] + 2, 128), (hextets [0x2001, 3], 32),
      (hextets [0x2001, 4, 0x112], 48), (hextets [0x2001, 0x20], 28), (hextets [0x2001, 0x30], 28)]"

definition ipv4_is_private :: "nat \<Rightarrow> bool" where
  "ipv4_is_private n \<longleftrightarrow> list_ex (in_network 32 n) ipv4_private_networks \<and>
     \<not> list_ex (in_network 32 n) ipv4_private_exceptions"

definition ipv4_mapped :: "nat \<Rightarrow> nat option" where
  "ipv4_mapped n = (if n div 2 ^ 32 = 0xFFFF then Some (n mod 2 ^ 32) else None)"

fun is_loopback :: "ip_address \<Rightarrow> bool" where
  "is_loopback (IPv4 n) = in_network 32 n (quad 127 0 0 0, 8)"
| "is_loopback (IPv6 n scope) = (n = 1)"

fun is_link_local :: "ip_address \<Rightarrow> bool" where
  "is_link_local (IPv4 n) = in_network 32 n (quad 169 254 0 0, 16)"
| "is_link_local (IPv6 n scope) = in_network 128 n (hextets [0xFE80], 10)"

fun is_private :: "ip_address \<Rightarrow> bool" where
  "is_private (IPv4 n) = ipv4_is_private n"
| "is_private (IPv6 n scope) =
     (case ipv4_mapped n of Some m \<Rightarrow> ipv4_is_private m
      | None \<Rightarrow> list_ex (in_network 128 n) ipv6_private_networks \<and>
          \<not> list_ex (in_network 128 n) ipv6_private_exceptions)"

lemmas ip_eval = parse_ip_def parse_ipv4_def parse_ipv6_def parse_ipv6_number_def parse_octet_def parse_hextet_def
  is_digit_def digit_value_def is_hex_digit_def hex_value_def ipv6_parts_def inner_empty_def ipv6_layout_def
  in_network_def quad_def hextets_def ipv4_private_networks_def ipv4_private_exceptions_def
  ipv6_private_networks_def ipv6_private_exceptions_def ipv4_is_private_def ipv4_mapped_def

section \<open>Reading what was written\<close>

lemma digit_char_digit [simp]:
  "d < 10 \<Longrightarrow> is_digit (digit_char d)" "d < 10 \<Longrightarrow> digit_value (digit_char d) = d"
  by (simp_all add: is_digit_def digit_char_def digit_value_def Let_def of_char_of)

lemma digit_char_eq_0: "d < 10 \<Longrightarrow> digit_char d = CHR ''0'' \<longleftrightarrow> d = 0"
proof -
  assume d: "d < 10"
  have "digit_char 0 = CHR ''0''" by code_simp
  moreover have "digit_value CHR ''0'' = 0" by code_simp
  ultimately show ?thesis using digit_char_digit(2) [OF d] by metis
qed

lemma show_nat_small: "n < 10 \<Longrightarrow> show_nat n = [digit_char n]"
  by (simp add: show_nat.simps [of n])

lemma show_nat_large: "10 \<le> n \<Longrightarrow> show_nat n = show_nat (n div 10) @ [digit_char (n mod 10)]"
  by (simp add: show_nat.simps [of n])

lemma parse_octet_digits:
  assumes "list_all (\<lambda>d. d < 10) ds" "ds \<noteq> []" "length ds \<le> 3" "ds = [0] \<or> hd ds \<noteq> 0" "digits_value 0 (map digit_char ds) = n" "n \<le> 255"
  shows "parse_octet (map digit_char ds) = Some n"
proof -
  have "list_all is_digit (map digit_char ds)" using assms(1) by (auto simp: list_all_iff)
  moreover have "\<not> (map digit_char ds \<noteq> ''0'' \<and> hd (map digit_char ds) = CHR ''0'')"
  proof (cases "ds = [0]")
    case False
    have "hd ds < 10" using assms(1,2) by (cases ds) auto
    then show ?thesis using False assms(2,4) by (simp add: hd_map digit_char_eq_0)
  qed (use digit_char_eq_0 [of 0] in simp)
  ultimately show ?thesis using assms(2,3,5,6) by (simp add: parse_octet_def)
qed

lemma parse_octet_show:
  assumes "n \<le> 255"
  shows "parse_octet (show_nat n) = Some n"
proof -
  consider "n < 10" | "10 \<le> n" "n < 100" | "100 \<le> n" by linarith
  then show ?thesis
  proof cases
    case 1
    then show ?thesis using parse_octet_digits [of "[n]" n] assms by (cases "n = 0") (simp_all add: show_nat_small)
  next
    case 2
    then have "show_nat n = map digit_char [n div 10, n mod 10]"
      using show_nat_large [of n] show_nat_small [of "n div 10"] by simp
    moreover have "n div 10 < 10" "n div 10 \<noteq> 0" using 2 by auto
    ultimately show ?thesis using parse_octet_digits [of "[n div 10, n mod 10]" n] assms by simp
  next
    case 3
    then have "show_nat n = map digit_char [n div 100, n div 10 mod 10, n mod 10]"
      using show_nat_large [of n] show_nat_large [of "n div 10"] show_nat_small [of "n div 100"] assms
      by (simp add: div_mult2_eq [symmetric])
    moreover have "n div 100 < 10" "n div 100 \<noteq> 0" using 3 assms by auto
    moreover have "10 * (10 * (n div 100) + n div 10 mod 10) + n mod 10 = n"
      using mult_div_mod_eq [of 10 n] mult_div_mod_eq [of 10 "n div 10"] by (simp add: div_mult2_eq [symmetric])
    ultimately show ?thesis using parse_octet_digits [of "[n div 100, n div 10 mod 10, n mod 10]" n] assms by simp
  qed
qed

text \<open>The dotted text of an address.\<close>

definition dotted :: "nat list \<Rightarrow> string" where
  "dotted octets = join_with ''.'' (map show_nat octets)"

lemma all_some_map: "\<forall>x \<in> set xs. f x = Some (g x) \<Longrightarrow> all_some (map f xs) = Some (map g xs)"
  by (induction xs) auto

lemma octet_digits: "n \<le> 255 \<Longrightarrow> list_all is_digit (show_nat n)"
  using parse_octet_show [of n] by (auto simp: parse_octet_def split: if_splits)

lemma not_digit: "\<not> is_digit CHR ''.''" "\<not> is_digit CHR ''/''"
  by code_simp+

lemma join_with_Nil_iff: "join_with sep ps = [] \<longleftrightarrow> ps = [] \<or> ps = [[]] \<or> sep = [] \<and> (\<forall>p \<in> set ps. p = [])"
  by (induction sep ps rule: join_with.induct) auto

lemma set_join_with: "set (join_with sep ps) \<subseteq> set sep \<union> \<Union> (set ` set ps)"
  by (induction sep ps rule: join_with.induct) auto

lemma parse_dotted:
  assumes "length octets = 4" "\<forall>x \<in> set octets. x \<le> 255"
  shows "parse_ipv4 (dotted octets) = Some (from_parts 256 0 octets)"
proof -
  have d: "\<forall>p \<in> set (map show_nat octets). list_all is_digit p" using assms(2) octet_digits by auto
  then have nodot: "\<forall>p \<in> set (map show_nat octets). CHR ''.'' \<notin> set p \<and> CHR ''/'' \<notin> set p"
    using not_digit by (auto simp: list_all_iff)
  have ne: "map show_nat octets \<noteq> []" using assms(1) by auto
  have split: "split_on CHR ''.'' (dotted octets) = map show_nat octets"
    unfolding dotted_def using nodot ne by (intro split_on_join) auto
  have "CHR ''/'' \<notin> set (dotted octets)"
    using set_join_with [of "''.''" "map show_nat octets"] nodot unfolding dotted_def by auto
  moreover have "dotted octets \<noteq> []" using assms(1) unfolding dotted_def by (auto simp: join_with_Nil_iff)
  moreover have "all_some (map parse_octet (map show_nat octets)) = Some octets"
    using all_some_map [of octets "parse_octet \<circ> show_nat" id] assms(2) parse_octet_show by simp
  ultimately show ?thesis using assms(1) by (simp add: parse_ipv4_def split)
qed

lemma parse_dotted_quad:
  assumes "a \<le> 255" "b \<le> 255" "c \<le> 255" "d \<le> 255"
  shows "parse_ip (dotted [a, b, c, d]) = Some (IPv4 (quad a b c d))"
  using parse_dotted [of "[a, b, c, d]"] assms by (simp add: parse_ip_def quad_def)

end
