(* ===== verification/Target_Access.thy ===== *)
theory Target_Access
  imports Canonical_Json Ip_Address
begin

text \<open>
  Target specifications and grants, the environment leases under a grant's unit ceiling, and the
  fail-closed egress decision for one hop (\<open>src/qarunner/domain/target_access.py\<close>). Durations are
  integers of microseconds.
\<close>

section \<open>Target specifications and grants\<close>

datatype target_grant_state =
    GrantDraft | GrantApproved | GrantActive | GrantSuspended | GrantExpired | GrantRevoked

fun grant_state_value :: "target_grant_state \<Rightarrow> string" where
  "grant_state_value GrantDraft = ''draft''"
| "grant_state_value GrantApproved = ''approved''"
| "grant_state_value GrantActive = ''active''"
| "grant_state_value GrantSuspended = ''suspended''"
| "grant_state_value GrantExpired = ''expired''"
| "grant_state_value GrantRevoked = ''revoked''"

record target_spec =
  ts_target_id :: string
  ts_environment :: string
  ts_allowed_dns_names :: "string list"
  ts_allowed_protocols :: "string list"
  ts_allowed_ports :: "int list"
  ts_allow_private_rfc1918 :: bool
  ts_owner_id :: string

definition check_target_spec :: "target_spec \<Rightarrow> domain_error option" where
  "check_target_spec t =
     (let bad = (\<lambda>field. DomainValidationError ''target_spec'' field ''invalid'') in first_some
     [reject_if (blank (ts_target_id t)) (bad ''target_id''),
      reject_if (blank (ts_environment t)) (bad ''environment''),
      reject_if (blank (ts_owner_id t)) (bad ''owner_id''),
      reject_if (ts_allowed_dns_names t = [] \<or> list_ex blank (ts_allowed_dns_names t)) (bad ''allowed_dns_names''),
      reject_if (ts_allowed_protocols t = [] \<or> list_ex blank (ts_allowed_protocols t)) (bad ''allowed_protocols''),
      reject_if (ts_allowed_ports t = [] \<or> list_ex (\<lambda>p. p < 1 \<or> 65535 < p) (ts_allowed_ports t))
        (bad ''allowed_ports'')])"

definition target_digest :: "target_spec \<Rightarrow> digest result" where
  "target_digest t = canonical_digest ''qep.target-spec.v1''
     (JObj [(''target_id'', JStr (ts_target_id t)),
            (''environment'', JStr (ts_environment t)),
            (''allowed_dns_names'', JList (map JStr (ts_allowed_dns_names t))),
            (''allowed_protocols'', JList (map JStr (ts_allowed_protocols t))),
            (''allowed_ports'', JList (map JInt (ts_allowed_ports t))),
            (''allow_private_rfc1918'', JBool (ts_allow_private_rfc1918 t)),
            (''owner_id'', JStr (ts_owner_id t))])"

record target_grant =
  tg_grant_id :: string
  tg_target :: target_spec
  tg_state :: target_grant_state
  tg_max_concurrent_units :: int
  tg_valid_from :: datetime
  tg_valid_until :: datetime
  tg_version :: int

definition check_target_grant :: "target_grant \<Rightarrow> domain_error option" where
  "check_target_grant g =
     (let bad = DomainValidationError ''target_grant'' in first_some
     [reject_if (blank (tg_grant_id g)) (bad ''grant_id'' ''invalid''),
      reject_if (tg_max_concurrent_units g < 1) (bad ''max_concurrent_units'' ''invalid''),
      require_utc ''target_grant'' ''valid_from'' (tg_valid_from g),
      require_utc ''target_grant'' ''valid_until'' (tg_valid_until g),
      reject_if (instant (tg_valid_until g) \<le> instant (tg_valid_from g)) (bad ''valid_until'' ''not_after_valid_from''),
      reject_if (tg_version g < 1) (bad ''version'' ''invalid'')])"

definition grant_effective_at :: "target_grant \<Rightarrow> datetime \<Rightarrow> bool result" where
  "grant_effective_at g t =
     bind_result (raise_or (require_utc ''target_grant'' ''observed_at'' t) ()) (\<lambda>_.
     Inr (tg_state g = GrantActive \<and> instant (tg_valid_from g) \<le> instant t \<and> instant t < instant (tg_valid_until g)))"

definition grant_digest :: "target_grant \<Rightarrow> digest result" where
  "grant_digest g = bind_result (target_digest (tg_target g)) (\<lambda>d. canonical_digest ''qep.target-grant.v1''
     (JObj [(''grant_id'', JStr (tg_grant_id g)),
            (''target_digest'', JStr (digest_value d)),
            (''state'', JStr (grant_state_value (tg_state g))),
            (''max_concurrent_units'', JInt (tg_max_concurrent_units g)),
            (''valid_from'', JStr (iso_offset (tg_valid_from g))),
            (''valid_until'', JStr (iso_offset (tg_valid_until g))),
            (''version'', JInt (tg_version g))]))"

section \<open>Environment leases\<close>

datatype lease_dimension =
    DimSession | DimAccount | DimTenant | DimDataNamespace | DimQpsToken | DimDestructiveLane

datatype environment_lease_state = EnvActive | EnvReleased | EnvExpired | EnvRevoked

record environment_lease =
  el_lease_id :: string
  el_grant_id :: string
  el_target_id :: string
  el_attempt_id :: string
  el_fence :: int
  el_dimension :: lease_dimension
  el_units :: int
  el_acquired_at :: datetime
  el_expires_at :: datetime
  el_state :: environment_lease_state

abbreviation env_lease_invalid :: "string \<Rightarrow> string \<Rightarrow> domain_error" where
  "env_lease_invalid field reason \<equiv> DomainValidationError ''environment_lease'' field reason"

definition check_environment_lease :: "environment_lease \<Rightarrow> domain_error option" where
  "check_environment_lease l = first_some
     [reject_if (blank (el_lease_id l)) (env_lease_invalid ''lease_id'' ''invalid''),
      reject_if (blank (el_grant_id l)) (env_lease_invalid ''grant_id'' ''invalid''),
      reject_if (blank (el_target_id l)) (env_lease_invalid ''target_id'' ''invalid''),
      reject_if (blank (el_attempt_id l)) (env_lease_invalid ''attempt_id'' ''invalid''),
      reject_if (el_fence l < 1) (env_lease_invalid ''fence'' ''invalid''),
      reject_if (el_units l < 1) (env_lease_invalid ''units'' ''invalid''),
      require_utc ''environment_lease'' ''acquired_at'' (el_acquired_at l),
      require_utc ''environment_lease'' ''expires_at'' (el_expires_at l),
      reject_if (instant (el_expires_at l) \<le> instant (el_acquired_at l))
        (env_lease_invalid ''expires_at'' ''not_after_acquired_at'')]"

definition mk_environment_lease :: "environment_lease \<Rightarrow> environment_lease result" where
  "mk_environment_lease l = raise_or (check_environment_lease l) l"

definition lease_live :: "environment_lease \<Rightarrow> int \<Rightarrow> bool" where
  "lease_live l t \<longleftrightarrow> el_state l = EnvActive \<and> instant (el_acquired_at l) \<le> t \<and> t < instant (el_expires_at l)"

definition lease_effective_at :: "environment_lease \<Rightarrow> datetime \<Rightarrow> bool result" where
  "lease_effective_at l t =
     bind_result (raise_or (require_utc ''environment_lease'' ''observed_at'' t) ()) (\<lambda>_. Inr (lease_live l (instant t)))"

definition replace_lease_state :: "environment_lease \<Rightarrow> environment_lease_state \<Rightarrow> environment_lease result" where
  "replace_lease_state l st = mk_environment_lease (l\<lparr>el_state := st\<rparr>)"

section \<open>The lease book of a grant\<close>

record lease_book =
  lb_grant :: target_grant
  lb_leases :: "environment_lease list"

abbreviation book_invalid :: "string \<Rightarrow> string \<Rightarrow> domain_error" where
  "book_invalid field reason \<equiv> DomainValidationError ''environment_lease_book'' field reason"

definition check_lease_book :: "lease_book \<Rightarrow> domain_error option" where
  "check_lease_book b = first_some (
     reject_if (\<not> distinct (map el_lease_id (lb_leases b))) (book_invalid ''leases'' ''duplicate_id'') #
     concat (map (\<lambda>l.
       [reject_if (el_grant_id l \<noteq> tg_grant_id (lb_grant b)) (book_invalid ''leases'' ''grant_mismatch''),
        reject_if (el_target_id l \<noteq> ts_target_id (tg_target (lb_grant b))) (book_invalid ''leases'' ''target_mismatch'')])
       (lb_leases b)))"

definition mk_lease_book :: "lease_book \<Rightarrow> lease_book result" where
  "mk_lease_book b = raise_or (check_lease_book b) b"

definition empty_lease_book :: "target_grant \<Rightarrow> lease_book result" where
  "empty_lease_book g = mk_lease_book \<lparr>lb_grant = g, lb_leases = []\<rparr>"

definition lease_by_id :: "string \<Rightarrow> lease_book \<Rightarrow> environment_lease option" where
  "lease_by_id lease_id b = find (\<lambda>l. el_lease_id l = lease_id) (lb_leases b)"

definition active_units_at :: "lease_book \<Rightarrow> datetime \<Rightarrow> int result" where
  "active_units_at b t =
     map_result (\<lambda>units. sum_list units) (collect_results
       (map (\<lambda>l. map_result (\<lambda>live. if live then el_units l else 0) (lease_effective_at l t)) (lb_leases b)))"

definition book_acquire ::
  "string \<Rightarrow> string \<Rightarrow> int \<Rightarrow> lease_dimension \<Rightarrow> int \<Rightarrow> datetime \<Rightarrow> int \<Rightarrow> lease_book \<Rightarrow>
   (lease_book \<times> environment_lease) result" where
  "book_acquire lease_id attempt_id fence dimension units acquired_at ttl b =
     (if blank lease_id then Inl (book_invalid ''lease_id'' ''invalid'')
      else if blank attempt_id then Inl (book_invalid ''attempt_id'' ''invalid'')
      else if fence < 1 then Inl (book_invalid ''fence'' ''invalid'')
      else if units < 1 then Inl (book_invalid ''units'' ''invalid'')
      else if \<not> is_utc acquired_at then Inl (book_invalid ''acquired_at'' ''not_utc'')
      else if ttl \<le> 0 then Inl (book_invalid ''ttl'' ''invalid'')
      else if lease_by_id lease_id b \<noteq> None then Inl (book_invalid ''lease_id'' ''duplicate'')
      else bind_result (grant_effective_at (lb_grant b) acquired_at) (\<lambda>effective.
      if \<not> effective then Inl (book_invalid ''grant'' ''grant_not_effective'')
      else bind_result (active_units_at b acquired_at) (\<lambda>active.
      if active + units > tg_max_concurrent_units (lb_grant b) then Inl (book_invalid ''units'' ''oversell'')
      else bind_result (mk_environment_lease
        \<lparr>el_lease_id = lease_id, el_grant_id = tg_grant_id (lb_grant b),
         el_target_id = ts_target_id (tg_target (lb_grant b)), el_attempt_id = attempt_id, el_fence = fence,
         el_dimension = dimension, el_units = units, el_acquired_at = acquired_at,
         el_expires_at = plus_delta acquired_at ttl, el_state = EnvActive\<rparr>) (\<lambda>lease.
      map_result (\<lambda>b'. (b', lease)) (mk_lease_book (b\<lparr>lb_leases := lb_leases b @ [lease]\<rparr>))))))"

definition replace_lease :: "string \<Rightarrow> environment_lease \<Rightarrow> lease_book \<Rightarrow> lease_book result" where
  "replace_lease lease_id updated b = mk_lease_book
     (b\<lparr>lb_leases := map (\<lambda>l. if el_lease_id l = lease_id then updated else l) (lb_leases b)\<rparr>)"

text \<open>\<open>release\<close> and \<open>revoke\<close> differ in the state they set and replay on.\<close>

definition book_close ::
  "string \<Rightarrow> environment_lease_state \<Rightarrow> string \<Rightarrow> datetime \<Rightarrow> lease_book \<Rightarrow> lease_book result" where
  "book_close time_field st lease_id at b =
     (if \<not> is_utc at then Inl (book_invalid time_field ''not_utc'')
      else case lease_by_id lease_id b of
        None \<Rightarrow> Inl (book_invalid ''lease_id'' ''not_found'')
      | Some current \<Rightarrow>
          if el_state current = st then Inr b
          else if el_state current \<noteq> EnvActive then Inl (book_invalid ''lease_id'' ''not_active'')
          else bind_result (replace_lease_state current st) (\<lambda>updated. replace_lease lease_id updated b))"

definition book_release :: "string \<Rightarrow> datetime \<Rightarrow> lease_book \<Rightarrow> lease_book result" where
  "book_release = book_close ''released_at'' EnvReleased"

definition book_revoke :: "string \<Rightarrow> datetime \<Rightarrow> lease_book \<Rightarrow> lease_book result" where
  "book_revoke = book_close ''revoked_at'' EnvRevoked"

definition replace_where ::
  "(environment_lease \<Rightarrow> bool) \<Rightarrow> environment_lease_state \<Rightarrow> lease_book \<Rightarrow> lease_book result" where
  "replace_where P st b =
     bind_result (collect_results (map (\<lambda>l. if P l then replace_lease_state l st else Inr l) (lb_leases b))) (\<lambda>leases.
     mk_lease_book (b\<lparr>lb_leases := leases\<rparr>))"

definition book_revoke_all :: "datetime \<Rightarrow> lease_book \<Rightarrow> lease_book result" where
  "book_revoke_all at b =
     (if \<not> is_utc at then Inl (book_invalid ''revoked_at'' ''not_utc'')
      else replace_where (\<lambda>l. el_state l = EnvActive) EnvRevoked b)"

definition book_expire_due :: "datetime \<Rightarrow> lease_book \<Rightarrow> lease_book result" where
  "book_expire_due at b =
     (if \<not> is_utc at then Inl (book_invalid ''observed_at'' ''not_utc'')
      else replace_where (\<lambda>l. el_state l = EnvActive \<and> instant (el_expires_at l) \<le> instant at) EnvExpired b)"

section \<open>Egress decisions\<close>

datatype egress_decision = EgressAllow | EgressDeny

datatype egress_deny_reason =
    GrantMissing | GrantNotEffective | DnsNotInGrant | PortNotInGrant | ProtocolNotInGrant
  | ForbiddenMetadata | ForbiddenLoopback | ForbiddenLinkLocal | PrivateNetworkNotAllowed | InvalidResolvedIp

record egress_evaluation =
  ee_allowed :: bool
  ee_decision :: egress_decision
  ee_reason :: "egress_deny_reason option"
  ee_host :: string
  ee_port :: int
  ee_protocol :: string
  ee_resolved_ip :: string
  ee_is_redirect_hop :: bool
  ee_grant_id :: "string option"
  ee_target_id :: "string option"

definition is_cloud_metadata :: "ip_address \<Rightarrow> bool" where
  "is_cloud_metadata a \<longleftrightarrow> a = IPv4 (quad 169 254 169 254) \<or> a = IPv6 (hextets [0xFD00, 0xEC2] + 0x254) None"

definition normal_name :: "string \<Rightarrow> string" where
  "normal_name s = rstrip_chars ''.'' (lower (strip s))"

definition matches_pattern :: "string \<Rightarrow> string \<Rightarrow> bool" where
  "matches_pattern host raw =
     (let pattern = normal_name raw in
      if pattern = [] then False
      else if starts_with ''*.'' pattern \<and> 2 < length pattern
      then ends_with (tl pattern) host \<and> length (tl pattern) < length host
      else host = pattern)"

definition host_matches_grant :: "string \<Rightarrow> string list \<Rightarrow> bool" where
  "host_matches_grant host patterns = (parse_ip host = None \<and> list_ex (matches_pattern host) patterns)"

definition egress_reason ::
  "target_grant \<Rightarrow> string \<Rightarrow> int \<Rightarrow> string \<Rightarrow> string \<Rightarrow> bool \<Rightarrow> egress_deny_reason option" where
  "egress_reason g host port protocol resolved_ip effective =
     (if \<not> effective then Some GrantNotEffective
      else case parse_ip (strip resolved_ip) of
        None \<Rightarrow> Some InvalidResolvedIp
      | Some a \<Rightarrow> first_some
          [reject_if (is_cloud_metadata a) ForbiddenMetadata,
           reject_if (is_loopback a) ForbiddenLoopback,
           reject_if (is_link_local a) ForbiddenLinkLocal,
           reject_if (is_private a \<and> \<not> ts_allow_private_rfc1918 (tg_target g)) PrivateNetworkNotAllowed,
           reject_if (\<not> host_matches_grant host (ts_allowed_dns_names (tg_target g))) DnsNotInGrant,
           reject_if (protocol \<notin> set (map lower (ts_allowed_protocols (tg_target g)))) ProtocolNotInGrant,
           reject_if (port \<notin> set (ts_allowed_ports (tg_target g))) PortNotInGrant])"

text \<open>\<open>_deny\<close> and the final result differ only in the reason.\<close>

definition egress_result ::
  "target_grant option \<Rightarrow> string \<Rightarrow> int \<Rightarrow> string \<Rightarrow> string \<Rightarrow> bool \<Rightarrow> egress_deny_reason option \<Rightarrow> egress_evaluation" where
  "egress_result grant host port protocol resolved_ip is_redirect_hop reason =
     \<lparr>ee_allowed = (reason = None), ee_decision = (if reason = None then EgressAllow else EgressDeny),
      ee_reason = reason, ee_host = normal_name host, ee_port = port, ee_protocol = lower (strip protocol),
      ee_resolved_ip = strip resolved_ip, ee_is_redirect_hop = is_redirect_hop,
      ee_grant_id = map_option tg_grant_id grant,
      ee_target_id = map_option (\<lambda>g. ts_target_id (tg_target g)) grant\<rparr>"

definition check_egress_request :: "string \<Rightarrow> int \<Rightarrow> string \<Rightarrow> string \<Rightarrow> datetime \<Rightarrow> domain_error option" where
  "check_egress_request host port protocol resolved_ip observed_at =
     (let bad = (\<lambda>field. DomainValidationError ''egress_request'' field ''invalid'') in first_some
     [reject_if (blank host) (bad ''host''),
      reject_if (port < 1 \<or> 65535 < port) (bad ''port''),
      reject_if (blank protocol) (bad ''protocol''),
      reject_if (blank resolved_ip) (bad ''resolved_ip''),
      require_utc ''egress_request'' ''observed_at'' observed_at])"

definition evaluate_egress_request ::
  "target_grant option \<Rightarrow> string \<Rightarrow> int \<Rightarrow> string \<Rightarrow> string \<Rightarrow> datetime \<Rightarrow> bool \<Rightarrow> egress_evaluation result" where
  "evaluate_egress_request grant host port protocol resolved_ip observed_at is_redirect_hop =
     bind_result (raise_or (check_egress_request host port protocol resolved_ip observed_at) ()) (\<lambda>_.
     map_result (egress_result grant host port protocol resolved_ip is_redirect_hop)
       (case grant of
          None \<Rightarrow> Inr (Some GrantMissing)
        | Some g \<Rightarrow> map_result (egress_reason g (normal_name host) port (lower (strip protocol)) resolved_ip)
            (grant_effective_at g observed_at)))"

end
