(* ===== verification/Secret_Delivery.thy ===== *)
theory Secret_Delivery
  imports Worker Python_Text Versioned
begin

text \<open>
  The ledger of opaque, short-lived secret deliveries and the redaction of log text
  (\<open>src/qarunner/domain/secret_delivery.py\<close>). Durations are integers of microseconds.
\<close>

section \<open>Deliveries\<close>

datatype secret_delivery_state = SecretActive | SecretRevoked | SecretExpired

record secret_delivery =
  sd_delivery_handle :: string
  sd_secret_ref :: string
  sd_secret_version :: string
  sd_run_id :: string
  sd_attempt_id :: string
  sd_fence :: int
  sd_worker :: worker_ref
  sd_target_id :: string
  sd_purpose :: string
  sd_issued_at :: datetime
  sd_expires_at :: datetime
  sd_state :: secret_delivery_state

definition check_secret_delivery :: "secret_delivery \<Rightarrow> domain_error option" where
  "check_secret_delivery d =
     (let bad = (\<lambda>field. DomainValidationError ''secret_delivery'' field ''invalid'') in first_some
     [reject_if (blank (sd_delivery_handle d)) (bad ''delivery_handle''),
      reject_if (blank (sd_secret_ref d)) (bad ''secret_ref''),
      reject_if (blank (sd_secret_version d)) (bad ''secret_version''),
      reject_if (blank (sd_run_id d)) (bad ''run_id''),
      reject_if (blank (sd_attempt_id d)) (bad ''attempt_id''),
      reject_if (blank (sd_target_id d)) (bad ''target_id''),
      reject_if (blank (sd_purpose d)) (bad ''purpose''),
      reject_if (sd_fence d < 1) (bad ''fence''),
      require_utc ''secret_delivery'' ''issued_at'' (sd_issued_at d),
      require_utc ''secret_delivery'' ''expires_at'' (sd_expires_at d),
      reject_if (instant (sd_expires_at d) \<le> instant (sd_issued_at d))
        (DomainValidationError ''secret_delivery'' ''expires_at'' ''not_after_issued_at'')])"

definition mk_secret_delivery :: "secret_delivery \<Rightarrow> secret_delivery result" where
  "mk_secret_delivery d = raise_or (check_secret_delivery d) d"

definition delivery_active_at :: "secret_delivery \<Rightarrow> datetime \<Rightarrow> bool result" where
  "delivery_active_at d t =
     bind_result (raise_or (require_utc ''secret_delivery'' ''observed_at'' t) ()) (\<lambda>_.
     Inr (sd_state d = SecretActive \<and> instant (sd_issued_at d) \<le> instant t \<and> instant t < instant (sd_expires_at d)))"

definition delivery_with_state :: "secret_delivery \<Rightarrow> secret_delivery_state \<Rightarrow> secret_delivery result" where
  "delivery_with_state d st = mk_secret_delivery (d\<lparr>sd_state := st\<rparr>)"

section \<open>The ledger\<close>

type_synonym secret_ledger = "secret_delivery list"

abbreviation ledger_invalid :: "string \<Rightarrow> string \<Rightarrow> domain_error" where
  "ledger_invalid field reason \<equiv> DomainValidationError ''secret_delivery_ledger'' field reason"

definition mk_secret_ledger :: "secret_ledger \<Rightarrow> secret_ledger result" where
  "mk_secret_ledger ds =
     (if distinct (map sd_delivery_handle ds) then Inr ds else Inl (ledger_invalid ''deliveries'' ''duplicate_handle''))"

definition delivery_by_handle :: "string \<Rightarrow> secret_ledger \<Rightarrow> secret_delivery option" where
  "delivery_by_handle handle ds = find (\<lambda>d. sd_delivery_handle d = handle) ds"

text \<open>\<open>issue\<close> takes the fields of the new delivery as a record, whose expiry and state it sets.\<close>

definition secret_issue :: "secret_delivery \<Rightarrow> int \<Rightarrow> secret_ledger \<Rightarrow> (secret_ledger \<times> secret_delivery) result" where
  "secret_issue draft ttl ds =
     (if delivery_by_handle (sd_delivery_handle draft) ds \<noteq> None
      then Inl (ledger_invalid ''delivery_handle'' ''duplicate'')
      else if ttl \<le> 0 then Inl (ledger_invalid ''ttl'' ''invalid'')
      else bind_result (raise_or (require_utc ''secret_delivery_ledger'' ''issued_at'' (sd_issued_at draft)) ()) (\<lambda>_.
      bind_result (mk_secret_delivery (draft\<lparr>sd_expires_at := plus_delta (sd_issued_at draft) ttl,
        sd_state := SecretActive\<rparr>)) (\<lambda>d.
      map_result (\<lambda>ds'. (ds', d)) (mk_secret_ledger (ds @ [d])))))"

definition secret_authorize_use ::
  "string \<Rightarrow> string \<Rightarrow> int \<Rightarrow> string \<Rightarrow> string \<Rightarrow> datetime \<Rightarrow> secret_ledger \<Rightarrow> secret_delivery result" where
  "secret_authorize_use handle attempt_id fence target_id purpose observed_at ds =
     bind_result (raise_or (require_utc ''secret_delivery_ledger'' ''observed_at'' observed_at) ()) (\<lambda>_.
     case delivery_by_handle handle ds of
       None \<Rightarrow> Inl (ledger_invalid ''delivery_handle'' ''not_found'')
     | Some d \<Rightarrow> raise_or (first_some
         [reject_if (sd_state d = SecretRevoked) (ledger_invalid ''delivery_handle'' ''revoked''),
          reject_if (sd_state d = SecretExpired \<or> instant (sd_expires_at d) \<le> instant observed_at)
            (ledger_invalid ''delivery_handle'' ''expired''),
          reject_if (sd_state d \<noteq> SecretActive) (ledger_invalid ''delivery_handle'' ''not_active''),
          reject_if (sd_attempt_id d \<noteq> attempt_id) (ledger_invalid ''attempt_id'' ''binding_mismatch''),
          reject_if (sd_fence d \<noteq> fence) (ledger_invalid ''fence'' ''binding_mismatch''),
          reject_if (sd_target_id d \<noteq> target_id) (ledger_invalid ''target_id'' ''binding_mismatch''),
          reject_if (sd_purpose d \<noteq> purpose) (ledger_invalid ''purpose'' ''binding_mismatch'')]) d)"

definition secret_revoke :: "string \<Rightarrow> datetime \<Rightarrow> secret_ledger \<Rightarrow> secret_ledger result" where
  "secret_revoke handle revoked_at ds =
     bind_result (raise_or (require_utc ''secret_delivery_ledger'' ''revoked_at'' revoked_at) ()) (\<lambda>_.
     case delivery_by_handle handle ds of
       None \<Rightarrow> Inl (ledger_invalid ''delivery_handle'' ''not_found'')
     | Some d \<Rightarrow>
         if sd_state d = SecretRevoked then Inr ds
         else if sd_state d \<noteq> SecretActive then Inl (ledger_invalid ''delivery_handle'' ''not_active'')
         else bind_result (delivery_with_state d SecretRevoked) (\<lambda>updated.
           mk_secret_ledger (map (\<lambda>x. if sd_delivery_handle x = handle then updated else x) ds)))"

definition deliveries_where ::
  "(secret_delivery \<Rightarrow> bool) \<Rightarrow> secret_delivery_state \<Rightarrow> secret_ledger \<Rightarrow> secret_ledger result" where
  "deliveries_where P st ds =
     bind_result (collect_results (map (\<lambda>d. if P d then delivery_with_state d st else Inr d) ds)) mk_secret_ledger"

definition secret_revoke_all :: "string \<Rightarrow> int \<Rightarrow> datetime \<Rightarrow> secret_ledger \<Rightarrow> secret_ledger result" where
  "secret_revoke_all attempt_id fence revoked_at ds =
     (if blank attempt_id then Inl (ledger_invalid ''attempt_id'' ''invalid'')
      else if fence < 1 then Inl (ledger_invalid ''fence'' ''invalid'')
      else bind_result (raise_or (require_utc ''secret_delivery_ledger'' ''revoked_at'' revoked_at) ()) (\<lambda>_.
        deliveries_where (\<lambda>d. sd_state d = SecretActive \<and> sd_attempt_id d = attempt_id \<and> sd_fence d = fence)
          SecretRevoked ds))"

definition secret_expire_due :: "datetime \<Rightarrow> secret_ledger \<Rightarrow> secret_ledger result" where
  "secret_expire_due observed_at ds =
     bind_result (raise_or (require_utc ''secret_delivery_ledger'' ''observed_at'' observed_at) ()) (\<lambda>_.
     deliveries_where (\<lambda>d. sd_state d = SecretActive \<and> instant (sd_expires_at d) \<le> instant observed_at)
       SecretExpired ds)"

section \<open>Commands and histories\<close>

datatype secret_command =
    SecretIssue secret_delivery int
  | SecretRevoke string datetime
  | SecretRevokeAll string int datetime
  | SecretExpireDue datetime

fun exec_secret :: "secret_command \<Rightarrow> secret_ledger \<Rightarrow> secret_ledger result" where
  "exec_secret (SecretIssue draft ttl) ds = map_result fst (secret_issue draft ttl ds)"
| "exec_secret (SecretRevoke h t) ds = secret_revoke h t ds"
| "exec_secret (SecretRevokeAll a f t) ds = secret_revoke_all a f t ds"
| "exec_secret (SecretExpireDue t) ds = secret_expire_due t ds"

text \<open>One command appends a delivery or moves some active ones to one closed state.\<close>

definition delivery_moved :: "secret_delivery \<Rightarrow> secret_delivery \<Rightarrow> bool" where
  "delivery_moved d e \<longleftrightarrow> e = d \<or> sd_state d = SecretActive \<and> (\<exists>st. st \<noteq> SecretActive \<and> e = d\<lparr>sd_state := st\<rparr>)"

definition ledger_moved :: "secret_ledger \<Rightarrow> secret_ledger \<Rightarrow> bool" where
  "ledger_moved ds es \<longleftrightarrow> distinct (map sd_delivery_handle es) \<and>
     (\<exists>es' new. es = es' @ new \<and> list_all2 delivery_moved ds es')"

lemma mk_secret_ledger_Inr [result_simps]:
  "mk_secret_ledger ds = Inr es \<longleftrightarrow> distinct (map sd_delivery_handle ds) \<and> es = ds"
  by (auto simp: mk_secret_ledger_def)

lemma delivery_with_state_Inr [result_simps]:
  "delivery_with_state d st = Inr e \<longleftrightarrow> check_secret_delivery d = None \<and> e = d\<lparr>sd_state := st\<rparr>"
  by (auto simp: delivery_with_state_def mk_secret_delivery_def check_secret_delivery_def Let_def result_simps)

lemma deliveries_where_Inr:
  assumes "deliveries_where P st ds = Inr es"
  shows "es = map (\<lambda>d. if P d then d\<lparr>sd_state := st\<rparr> else d) ds \<and> distinct (map sd_delivery_handle es)"
proof -
  obtain xs where xs: "map (\<lambda>d. if P d then delivery_with_state d st else Inr d) ds = map Inr xs" "es = xs"
    "distinct (map sd_delivery_handle xs)"
    using assms by (auto simp: deliveries_where_def collect_results_Inr result_simps)
  have "xs = map (\<lambda>d. if P d then d\<lparr>sd_state := st\<rparr> else d) ds" using xs(1)
  proof (induction ds arbitrary: xs)
    case (Cons d ds)
    then obtain x xs' where "xs = x # xs'" by (cases xs) auto
    then show ?case using Cons by (auto simp: result_simps split: if_splits)
  qed simp
  then show ?thesis using xs by blast
qed

lemma deliveries_where_moved:
  assumes "deliveries_where P st ds = Inr es" "st \<noteq> SecretActive" "\<And>d. P d \<Longrightarrow> sd_state d = SecretActive"
  shows "ledger_moved ds es"
proof -
  note e = deliveries_where_Inr [OF assms(1)]
  have "list_all2 delivery_moved ds es"
    using assms(2,3) unfolding conjunct1 [OF e]
    by (auto simp: list_all2_map2 list_all2_same delivery_moved_def)
  then show ?thesis using e unfolding ledger_moved_def by blast
qed

lemma delivery_by_handle_unique:
  assumes "distinct (map sd_delivery_handle ds)" "delivery_by_handle h ds = Some d" "x \<in> set ds" "sd_delivery_handle x = h"
  shows "x = d"
  using assms distinct_map_find [of sd_delivery_handle ds x] by (auto simp: delivery_by_handle_def)

lemma exec_secret_moved:
  assumes "exec_secret c ds = Inr es" "distinct (map sd_delivery_handle ds)"
  shows "ledger_moved ds es"
proof (cases c)
  case (SecretIssue draft ttl)
  then obtain d where "es = ds @ [d]" "distinct (map sd_delivery_handle es)"
    using assms(1) by (auto simp: secret_issue_def result_simps split: if_splits)
  then show ?thesis unfolding ledger_moved_def by (auto simp: list_all2_same delivery_moved_def)
next
  case (SecretRevoke h t)
  show ?thesis
  proof (cases "es = ds")
    case True
    then show ?thesis using assms(2) unfolding ledger_moved_def
      by (intro conjI exI [of _ ds] exI [of _ "[]"]) (simp_all add: list_all2_same delivery_moved_def)
  next
    case False
    then obtain d where d: "delivery_by_handle h ds = Some d" "sd_state d = SecretActive"
        "es = map (\<lambda>x. if sd_delivery_handle x = h then d\<lparr>sd_state := SecretRevoked\<rparr> else x) ds"
        "distinct (map sd_delivery_handle es)"
      using assms(1) SecretRevoke by (auto simp: secret_revoke_def result_simps split: if_splits option.splits)
    have "delivery_moved x (if sd_delivery_handle x = h then d\<lparr>sd_state := SecretRevoked\<rparr> else x)" if "x \<in> set ds" for x
      using delivery_by_handle_unique [OF assms(2) d(1) that] d(2) by (auto simp: delivery_moved_def)
    then have "list_all2 delivery_moved ds es" by (simp add: d(3) list_all2_map2 list_all2_same)
    then show ?thesis using d(4) unfolding ledger_moved_def by blast
  qed
next
  case (SecretRevokeAll a f t)
  then show ?thesis using assms(1) by (auto simp: secret_revoke_all_def result_simps intro: deliveries_where_moved)
next
  case (SecretExpireDue t)
  then show ?thesis using assms(1) by (auto simp: secret_expire_due_def result_simps intro: deliveries_where_moved)
qed

lemma delivery_moved_trans: "delivery_moved c d \<Longrightarrow> delivery_moved d e \<Longrightarrow> delivery_moved c e"
  by (auto simp: delivery_moved_def)

lemma list_all2_delivery_trans:
  "list_all2 delivery_moved cs ds \<Longrightarrow> list_all2 delivery_moved ds es \<Longrightarrow> list_all2 delivery_moved cs es"
  by (rule list_all2_trans [OF delivery_moved_trans])

lemma ledger_moved_trans: "ledger_moved cs ds \<Longrightarrow> ledger_moved ds es \<Longrightarrow> ledger_moved cs es"
proof -
  assume "ledger_moved cs ds" "ledger_moved ds es"
  then obtain ds' new es' new' where d: "ds = ds' @ new" "list_all2 delivery_moved cs ds'"
    "es = es' @ new'" "list_all2 delivery_moved (ds' @ new) es'" "distinct (map sd_delivery_handle es)"
    unfolding ledger_moved_def by blast
  then obtain es1 es2 where "es' = es1 @ es2" "list_all2 delivery_moved ds' es1" by (auto simp: list_all2_append1)
  then show ?thesis using d list_all2_delivery_trans unfolding ledger_moved_def by (metis append_assoc)
qed

lemma secret_history_moved:
  assumes "history exec_secret ds es" "distinct (map sd_delivery_handle ds)"
  shows "ledger_moved ds es"
  using assms
proof (induction rule: history.induct)
  case (history_refl s)
  then show ?case unfolding ledger_moved_def
    by (intro conjI exI [of _ s] exI [of _ "[]"]) (simp_all add: list_all2_same delivery_moved_def)
next
  case (history_step s t c u)
  then have "ledger_moved s t" by blast
  moreover from this have "ledger_moved t u" using exec_secret_moved [OF history_step(2)] by (simp add: ledger_moved_def)
  ultimately show ?case by (rule ledger_moved_trans)
qed

text \<open>A delivery is found again under its handle, with the same binding, after any history.\<close>

lemma delivery_after_history:
  assumes "history exec_secret ds es" "distinct (map sd_delivery_handle ds)" "delivery_by_handle h ds = Some d"
  shows "\<exists>e. delivery_by_handle h es = Some e \<and> delivery_moved d e"
proof -
  have m: "ledger_moved ds es" by (rule secret_history_moved [OF assms(1,2)])
  then obtain es' new where es: "es = es' @ new" "list_all2 delivery_moved ds es'" unfolding ledger_moved_def by blast
  have d: "d \<in> set ds" "sd_delivery_handle d = h" using assms(3) by (auto simp: delivery_by_handle_def dest: find_SomeD)
  then obtain e where e: "e \<in> set es'" "delivery_moved d e"
    using es(2) by (metis in_set_conv_nth list_all2_conv_all_nth)
  then have "sd_delivery_handle e = h" using d(2) by (auto simp: delivery_moved_def)
  then have "delivery_by_handle h es = Some e"
    using distinct_map_find [of sd_delivery_handle es e] e(1) es(1) m unfolding delivery_by_handle_def ledger_moved_def
    by auto
  then show ?thesis using e(2) by blast
qed

lemma secret_authorize_use_Inr:
  "secret_authorize_use h a f tg p t ds = Inr d \<longleftrightarrow> is_utc t \<and> delivery_by_handle h ds = Some d \<and>
     sd_state d = SecretActive \<and> instant t < instant (sd_expires_at d) \<and> sd_attempt_id d = a \<and> sd_fence d = f \<and>
     sd_target_id d = tg \<and> sd_purpose d = p"
  by (auto simp: secret_authorize_use_def result_simps split: option.splits)

section \<open>Redaction of log text\<close>

text \<open>
  The two regular expressions, read over UTF-8 bytes. A match is given by the length of its group and
  of the secret after it. The white space of \<open>\s\<close> is that of \<open>strip\<close>; under \<open>IGNORECASE\<close> the letter i
  also matches U+0130 and U+0131.
\<close>

definition space_length :: "nat list \<Rightarrow> nat" where
  "space_length bs = (case bs of [] \<Rightarrow> 0 | b # cs \<Rightarrow>
     if ascii_space b then 1 else if space2 b cs then 2 else if space3 b cs then 3 else 0)"

fun skip_spaces :: "nat list \<Rightarrow> nat" where
  "skip_spaces [] = 0"
| "skip_spaces (b # bs) =
     (if ascii_space b then Suc (skip_spaces bs)
      else if space2 b bs then 2 + skip_spaces (drop 1 bs)
      else if space3 b bs then 3 + skip_spaces (drop 2 bs)
      else 0)"

fun token_length :: "nat list \<Rightarrow> nat list \<Rightarrow> nat" where
  "token_length stops [] = 0"
| "token_length stops (b # bs) =
     (if b \<in> set stops \<or> space_length (b # bs) \<noteq> 0 then 0 else Suc (token_length stops bs))"

fun match_ignore_case :: "string \<Rightarrow> nat list \<Rightarrow> nat option" where
  "match_ignore_case [] bs = Some 0"
| "match_ignore_case (c # cs) [] = None"
| "match_ignore_case (c # cs) (b # bs) =
     (if b < 128 \<and> lower_char (char_of b) = lower_char c then map_option Suc (match_ignore_case cs bs)
      else if lower_char c = CHR ''i'' \<and> b = 0xC4 \<and> (take 1 bs = [0xB0] \<or> take 1 bs = [0xB1])
      then map_option ((+) 2) (match_ignore_case cs (drop 1 bs))
      else None)"

definition bearer_match :: "nat list \<Rightarrow> (nat \<times> nat) option" where
  "bearer_match bs =
     (case match_ignore_case ''Authorization:'' bs of None \<Rightarrow> None | Some n1 \<Rightarrow>
      let n2 = n1 + skip_spaces (drop n1 bs) in
      (case match_ignore_case ''Bearer'' (drop n2 bs) of None \<Rightarrow> None | Some n3 \<Rightarrow>
       let n4 = n2 + n3; w = skip_spaces (drop n4 bs); k = token_length [] (drop (n4 + w) bs) in
       if w = 0 \<or> k = 0 then None else Some (n4 + w, k)))"

definition token_names :: "string list" where
  "token_names = [''token'', ''access_token'', ''secret'', ''password'', ''api_key'']"

definition token_query_match :: "nat list \<Rightarrow> (nat \<times> nat) option" where
  "token_query_match bs =
     (case bs of [] \<Rightarrow> None | b # cs \<Rightarrow>
      if b \<noteq> of_char CHR ''?'' \<and> b \<noteq> of_char CHR ''&'' then None
      else case find (\<lambda>name. take (length name + 1) cs = map of_char (name @ ''='')) token_names of
        None \<Rightarrow> None
      | Some name \<Rightarrow>
          let n = length name + 2; k = token_length [of_char CHR ''&''] (drop n bs) in
          if k = 0 then None else Some (n, k))"

definition redaction_mark :: string where
  "redaction_mark = ''[REDACTED]''"

text \<open>\<open>pattern.sub(r"\1[REDACTED]", text)\<close>.\<close>

function substitute :: "(nat list \<Rightarrow> (nat \<times> nat) option) \<Rightarrow> string \<Rightarrow> string" where
  "substitute m s =
     (case s of [] \<Rightarrow> [] | c # cs \<Rightarrow>
      (case m (map of_char s) of
         Some (n, Suc k) \<Rightarrow> take n s @ redaction_mark @ substitute m (drop (n + Suc k) s)
       | _ \<Rightarrow> c # substitute m cs))"
  by pat_completeness auto
termination
  by (relation "measure (\<lambda>(m, s). length s)") auto

declare substitute.simps [simp del]

definition redact_secret_material :: "string list \<Rightarrow> string list \<Rightarrow> string \<Rightarrow> string" where
  "redact_secret_material handles extra_literals text =
     (let scrub = foldl (\<lambda>s literal. if literal = [] then s else replace_all literal redaction_mark s);
          by_handles = scrub text handles;
          by_literals = scrub by_handles (rev (sort_key length (rev (filter (\<lambda>l. l \<noteq> []) extra_literals)))) in
      substitute token_query_match (substitute bearer_match by_literals))"

end
