(* ===== verification/Access_Facts.thy ===== *)
theory Access_Facts
  imports Target_Access Versioned Secret_Delivery "HOL-Library.Sublist"
begin

text \<open>
  What the access components guarantee: the invariant of the lease book, what an allowed hop implies and
  how the redaction of secrets acts on a text.
\<close>

section \<open>The lease book\<close>

text \<open>
  The lease book as a transition system: its commands, what each of them does to the leases, and the
  unit accounting behind the ceiling. A failed command leaves the book unchanged.
\<close>

section \<open>Commands and runs\<close>

datatype book_command =
    BookAcquire string string int lease_dimension int datetime int
  | BookRelease string datetime
  | BookRevoke string datetime
  | BookRevokeAll datetime
  | BookExpireDue datetime

fun exec_book :: "book_command \<Rightarrow> lease_book \<Rightarrow> lease_book result" where
  "exec_book (BookAcquire i a f d u t ttl) b = map_result fst (book_acquire i a f d u t ttl b)"
| "exec_book (BookRelease i t) b = book_release i t b"
| "exec_book (BookRevoke i t) b = book_revoke i t b"
| "exec_book (BookRevokeAll t) b = book_revoke_all t b"
| "exec_book (BookExpireDue t) b = book_expire_due t b"

definition apply_book :: "book_command \<Rightarrow> lease_book \<Rightarrow> lease_book" where
  "apply_book c b = (case exec_book c b of Inl e \<Rightarrow> b | Inr b' \<Rightarrow> b')"

fun acquire_times :: "book_command list \<Rightarrow> int list" where
  "acquire_times [] = []"
| "acquire_times (BookAcquire i a f d u t ttl # cs) = instant t # acquire_times cs"
| "acquire_times (_ # cs) = acquire_times cs"

definition units_at :: "int \<Rightarrow> lease_book \<Rightarrow> int" where
  "units_at t b = (\<Sum>l \<leftarrow> lb_leases b. if lease_live l t then el_units l else 0)"

lemma active_units_at_utc: "is_utc t \<Longrightarrow> active_units_at b t = Inr (units_at (instant t) b)"
proof -
  assume t: "is_utc t"
  have "collect_results (map (\<lambda>l. map_result (\<lambda>live. if live then el_units l else 0) (lease_effective_at l t)) ls) =
      Inr (map (\<lambda>l. if lease_live l (instant t) then el_units l else 0) ls)" for ls
    by (induction ls) (simp_all add: lease_effective_at_def require_utc_def t)
  then show ?thesis by (simp add: active_units_at_def units_at_def)
qed

definition wf_book :: "lease_book \<Rightarrow> bool" where
  "wf_book b \<longleftrightarrow> check_lease_book b = None \<and> list_all (\<lambda>l. check_environment_lease l = None) (lb_leases b)"

lemma lease_by_id_member: "lease_by_id i b = Some l \<Longrightarrow> l \<in> set (lb_leases b) \<and> el_lease_id l = i"
  by (auto simp: lease_by_id_def dest: find_SomeD)

section \<open>What the commands do\<close>

lemma book_acquire_Inr:
  assumes "book_acquire i a f d u t ttl b = Inr (b', l)"
  shows "lb_grant b' = lb_grant b \<and> lb_leases b' = lb_leases b @ [l] \<and> check_lease_book b' = None \<and>
    check_environment_lease l = None \<and> el_state l = EnvActive \<and> el_units l = u \<and> el_acquired_at l = t \<and>
    el_attempt_id l = a \<and> el_fence l = f \<and> el_lease_id l = i \<and> is_utc t \<and>
    tg_state (lb_grant b) = GrantActive \<and> instant (tg_valid_from (lb_grant b)) \<le> instant t \<and>
    instant t < instant (tg_valid_until (lb_grant b)) \<and> el_expires_at l = plus_delta t ttl \<and> 0 < ttl \<and>
    units_at (instant t) b + u \<le> tg_max_concurrent_units (lb_grant b)"
proof -
  have t: "is_utc t" using assms by (simp add: book_acquire_def result_simps split: if_splits)
  show ?thesis using assms
    by (auto simp: book_acquire_def t active_units_at_utc grant_effective_at_def require_utc_def
        mk_environment_lease_def mk_lease_book_def result_simps split: if_splits)
qed

text \<open>Closing commands change states only, and only away from ACTIVE.\<close>

definition lease_closed_to :: "environment_lease \<Rightarrow> environment_lease \<Rightarrow> bool" where
  "lease_closed_to l m \<longleftrightarrow> m = l \<or> el_state l = EnvActive \<and> (\<exists>st. st \<noteq> EnvActive \<and> m = l\<lparr>el_state := st\<rparr>)"

lemma lease_closed_to_refl [simp]: "lease_closed_to l l"
  by (simp add: lease_closed_to_def)

definition book_closed_to :: "lease_book \<Rightarrow> lease_book \<Rightarrow> bool" where
  "book_closed_to b c \<longleftrightarrow> lb_grant c = lb_grant b \<and> list_all2 lease_closed_to (lb_leases b) (lb_leases c)"

lemma book_closed_to_refl [simp]: "book_closed_to b b"
  by (simp add: book_closed_to_def list_all2_same)

lemma replace_lease_state_Inr [result_simps]:
  "replace_lease_state l st = Inr m \<longleftrightarrow> check_environment_lease l = None \<and> m = l\<lparr>el_state := st\<rparr>"
  by (auto simp: replace_lease_state_def mk_environment_lease_def check_environment_lease_def result_simps)

lemma replace_where_closed:
  assumes "replace_where P st b = Inr c" "st \<noteq> EnvActive" "\<And>l. P l \<Longrightarrow> el_state l = EnvActive"
  shows "book_closed_to b c \<and> check_lease_book c = None"
proof -
  obtain leases where l: "collect_results (map (\<lambda>l. if P l then replace_lease_state l st else Inr l) (lb_leases b)) = Inr leases"
    and c: "c = b\<lparr>lb_leases := leases\<rparr>" "check_lease_book c = None"
    using assms(1) by (auto simp: replace_where_def mk_lease_book_def result_simps)
  have "list_all2 lease_closed_to ls ms"
    if "map (\<lambda>l. if P l then replace_lease_state l st else Inr l) ls = map Inr ms" for ls ms
    using that
  proof (induction ls arbitrary: ms)
    case (Cons l ls)
    then obtain m ms' where "ms = m # ms'" by (cases ms) auto
    then show ?case using Cons assms(2,3) by (auto simp: lease_closed_to_def result_simps split: if_splits)
  qed simp
  with l c show ?thesis by (simp add: book_closed_to_def collect_results_Inr)
qed

lemma book_close_closed:
  assumes "book_close field st i t b = Inr c" "st \<noteq> EnvActive" "check_lease_book b = None"
  shows "book_closed_to b c \<and> check_lease_book c = None"
proof -
  obtain l where l: "lease_by_id i b = Some l" using assms(1)
    by (auto simp: book_close_def result_simps split: if_splits option.splits)
  show ?thesis
  proof (cases "el_state l = st")
    case False
    then have a: "el_state l = EnvActive" and c: "c = b\<lparr>lb_leases :=
        map (\<lambda>x. if el_lease_id x = i then l\<lparr>el_state := st\<rparr> else x) (lb_leases b)\<rparr>" "check_lease_book c = None"
      using assms(1) l
      by (auto simp: book_close_def replace_lease_def mk_lease_book_def result_simps split: if_splits)
    have "distinct (map el_lease_id (lb_leases b))"
      using assms(3) by (simp add: check_lease_book_def result_simps)
    then have "x = l" if "x \<in> set (lb_leases b)" "el_lease_id x = i" for x
      using that lease_by_id_member [OF l] by (metis distinct_map inj_on_eq_iff)
    then have "lease_closed_to x (if el_lease_id x = i then l\<lparr>el_state := st\<rparr> else x)" if "x \<in> set (lb_leases b)" for x
      using that a assms(2) unfolding lease_closed_to_def by metis
    then have "list_all2 lease_closed_to (lb_leases b) (lb_leases c)"
      by (simp add: c(1) list_all2_map2 list_all2_same)
    then show ?thesis using c by (simp add: book_closed_to_def)
  qed (use assms l in \<open>auto simp: book_close_def split: if_splits\<close>)
qed

lemma exec_book_cases:
  assumes "exec_book c b = Inr b'" "check_lease_book b = None"
  obtains (close) "book_closed_to b b'" "check_lease_book b' = None" "acquire_times [c] = []"
  | (acquire) i a f d u t ttl l where "c = BookAcquire i a f d u t ttl" "book_acquire i a f d u t ttl b = Inr (b', l)"
proof (cases c)
  case (BookAcquire i a f d u t ttl)
  then show ?thesis using assms(1) acquire by (auto simp: result_simps)
next
  case (BookRelease i t)
  then show ?thesis using assms close book_close_closed by (fastforce simp: book_release_def)
next
  case (BookRevoke i t)
  then show ?thesis using assms close book_close_closed by (fastforce simp: book_revoke_def)
next
  case (BookRevokeAll t)
  then show ?thesis using assms close replace_where_closed [of _ EnvRevoked b b']
    by (auto simp: book_revoke_all_def split: if_splits)
next
  case (BookExpireDue t)
  then show ?thesis using assms close replace_where_closed [of _ EnvExpired b b']
    by (auto simp: book_expire_due_def split: if_splits)
qed

section \<open>The unit ceiling\<close>

lemma units_at_closed:
  assumes "book_closed_to b c" "list_all (\<lambda>l. check_environment_lease l = None) (lb_leases b)"
  shows "units_at t c \<le> units_at t b"
proof -
  have "(\<Sum>l \<leftarrow> ms. if lease_live l t then el_units l else 0) \<le> (\<Sum>l \<leftarrow> ls. if lease_live l t then el_units l else 0)"
    if "list_all2 lease_closed_to ls ms" "list_all (\<lambda>l. check_environment_lease l = None) ls" for ls ms
    using that
  proof (induction rule: list_all2_induct)
    case (Cons l ls m ms)
    have "1 \<le> el_units l" using Cons by (auto simp: check_environment_lease_def result_simps)
    then have "(if lease_live m t then el_units m else 0) \<le> (if lease_live l t then el_units l else 0)"
      using Cons(1) by (auto simp: lease_closed_to_def lease_live_def)
    then show ?case using Cons by (simp add: add_mono)
  qed simp
  then show ?thesis using assms by (simp add: units_at_def book_closed_to_def)
qed

lemma closed_leases_valid:
  "list_all2 lease_closed_to ls ms \<Longrightarrow> list_all (\<lambda>l. check_environment_lease l = None) ls \<Longrightarrow>
     list_all (\<lambda>l. check_environment_lease l = None) ms \<and> (map (\<lambda>l. instant (el_acquired_at l)) ms = map (\<lambda>l. instant (el_acquired_at l)) ls)"
  by (induction rule: list_all2_induct) (auto simp: lease_closed_to_def check_environment_lease_def result_simps)

lemma units_at_mono_late:
  assumes "list_all (\<lambda>l. instant (el_acquired_at l) \<le> s) ls" "s \<le> t" "list_all (\<lambda>l. 1 \<le> el_units l) ls"
  shows "(\<Sum>l \<leftarrow> ls. if lease_live l t then el_units l else 0) \<le> (\<Sum>l \<leftarrow> ls. if lease_live l s then el_units l else 0)"
  using assms
proof (induction ls)
  case (Cons l ls)
  then have "(if lease_live l t then el_units l else 0) \<le> (if lease_live l s then el_units l else 0)"
    by (auto simp: lease_live_def)
  then show ?case using Cons by (simp add: add_mono)
qed simp

text \<open>The invariant: every lease was acquired before the last acquisition, and no instant is oversold.\<close>

definition book_sound :: "int option \<Rightarrow> lease_book \<Rightarrow> bool" where
  "book_sound latest b \<longleftrightarrow> wf_book b \<and> (\<forall>t. units_at t b \<le> tg_max_concurrent_units (lb_grant b)) \<and>
     (\<forall>l \<in> set (lb_leases b). case latest of None \<Rightarrow> False | Some s \<Rightarrow> instant (el_acquired_at l) \<le> s)"

lemma book_sound_later: "book_sound latest b \<Longrightarrow> (\<And>s. latest = Some s \<Longrightarrow> s \<le> t) \<Longrightarrow> book_sound (Some t) b"
  by (cases latest) (fastforce simp: book_sound_def)+

lemma book_sound_acquire:
  assumes "book_sound (Some (instant t)) b" "book_acquire i a f d u t ttl b = Inr (b', l)"
  shows "book_sound (Some (instant t)) b'"
proof -
  note q = book_acquire_Inr [OF assms(2)]
  have wf: "wf_book b" and old: "\<forall>t. units_at t b \<le> tg_max_concurrent_units (lb_grant b)"
    and early: "list_all (\<lambda>l. instant (el_acquired_at l) \<le> instant t) (lb_leases b)"
    using assms(1) by (auto simp: book_sound_def list_all_iff)
  have pos: "list_all (\<lambda>l. 1 \<le> el_units l) (lb_leases b)"
    using wf by (auto simp: wf_book_def list_all_iff check_environment_lease_def result_simps)
  have "units_at s b' \<le> tg_max_concurrent_units (lb_grant b)" for s
  proof (cases "instant t \<le> s")
    case True
    have "units_at s b \<le> units_at (instant t) b"
      unfolding units_at_def by (rule units_at_mono_late [OF early True pos])
    moreover have "1 \<le> el_units l" using q by (auto simp: check_environment_lease_def result_simps)
    ultimately show ?thesis using q by (auto simp: units_at_def)
  next
    case False
    then have "\<not> lease_live l s" using q by (simp add: lease_live_def)
    then show ?thesis using q old by (simp add: units_at_def)
  qed
  then show ?thesis using q wf early by (auto simp: book_sound_def wf_book_def list_all_iff)
qed

lemma book_sound_close:
  assumes "book_sound latest b" "book_closed_to b c" "check_lease_book c = None"
  shows "book_sound latest c"
proof -
  have v: "list_all (\<lambda>l. check_environment_lease l = None) (lb_leases b)"
    using assms(1) by (simp add: book_sound_def wf_book_def)
  note cv = closed_leases_valid [OF _ v] units_at_closed [OF assms(2) v]
  have "\<exists>l' \<in> set (lb_leases b). instant (el_acquired_at l') = instant (el_acquired_at l)" if "l \<in> set (lb_leases c)" for l
  proof -
    have "map (\<lambda>l. instant (el_acquired_at l)) (lb_leases c) = map (\<lambda>l. instant (el_acquired_at l)) (lb_leases b)"
      using cv(1) assms(2) by (simp add: book_closed_to_def)
    then have "instant (el_acquired_at l) \<in> (\<lambda>l. instant (el_acquired_at l)) ` set (lb_leases b)"
      using that by (metis image_eqI list.set_map)
    then show ?thesis by auto
  qed
  moreover have "list_all (\<lambda>l. check_environment_lease l = None) (lb_leases c)" "lb_grant c = lb_grant b"
    using cv(1) assms(2) by (auto simp: book_closed_to_def)
  ultimately show ?thesis using assms cv(2) unfolding book_sound_def wf_book_def
    by (metis order_trans)
qed

lemma acquire_times_Cons: "acquire_times (c # cs) = acquire_times [c] @ acquire_times cs"
  by (cases c) simp_all

lemma book_sound_run:
  assumes "book_sound latest b" "sorted (acquire_times cs)" "\<And>s t. latest = Some s \<Longrightarrow> t \<in> set (acquire_times cs) \<Longrightarrow> s \<le> t"
  shows "\<exists>latest'. book_sound latest' (foldl (\<lambda>b c. apply_book c b) b cs)"
  using assms
proof (induction cs arbitrary: latest b)
  case (Cons c cs)
  have later: "sorted (acquire_times cs)" using Cons.prems(2) by (simp add: acquire_times_Cons [of c cs] sorted_append)
  have wf: "check_lease_book b = None" using Cons.prems(1) by (simp add: book_sound_def wf_book_def)
  show ?case
  proof (cases "exec_book c b")
    case (Inl e)
    then show ?thesis using Cons.IH [OF Cons.prems(1) later] Cons.prems(3)
      by (simp add: apply_book_def acquire_times_Cons [of c cs])
  next
    case (Inr b')
    from Inr wf show ?thesis
    proof (cases rule: exec_book_cases)
      case close
      have "book_sound latest b'" by (rule book_sound_close [OF Cons.prems(1) close(1,2)])
      then show ?thesis using Cons.IH [OF _ later] Cons.prems(3) Inr
        by (simp add: apply_book_def acquire_times_Cons [of c cs])
    next
      case (acquire i a f d u t ttl l)
      have "book_sound (Some (instant t)) b"
        by (rule book_sound_later [OF Cons.prems(1)]) (use Cons.prems(3) acquire(1) in auto)
      then have "book_sound (Some (instant t)) b'" by (rule book_sound_acquire [OF _ acquire(2)])
      then show ?thesis using Cons.IH [OF _ later] Cons.prems(2) acquire(1) Inr by (auto simp: apply_book_def)
    qed
  qed
qed auto

text \<open>
  What an allowed egress hop implies, in terms of the four numbers of an IPv4 address and of the host
  name, and how the same IPv4 address is read when it is written as an IPv4-mapped IPv6 address.
\<close>

section \<open>Plain text is not trimmed\<close>

definition plain_char :: "char \<Rightarrow> bool" where
  "plain_char c \<longleftrightarrow> (let n = of_char c :: nat in 33 \<le> n \<and> n \<le> 126)"

lemma plain_not_space: "plain_char c \<Longrightarrow> \<not> ascii_space (of_char c) \<and> \<not> space2 (of_char c) bs \<and> \<not> space3 (of_char c) bs"
  by (auto simp: plain_char_def ascii_space_def space2_def space3_def Let_def split: list.splits)

lemma strip_plain:
  assumes "list_all plain_char s"
  shows "strip s = s"
proof -
  have l: "lstrip_bytes (map of_char s) = map of_char s" using assms plain_not_space by (cases s) auto
  have "rstrip_bytes (map of_char s) = map of_char s"
    using assms plain_not_space by (induction s) auto
  then show ?thesis by (simp add: strip_def l)
qed

lemma blank_plain: "list_all plain_char s \<Longrightarrow> blank s \<longleftrightarrow> s = []"
  by (metis strip_Nil_iff strip_plain)

lemma digit_plain: "is_digit c \<Longrightarrow> plain_char c"
  by (auto simp: is_digit_def plain_char_def Let_def)

lemma dotted_plain:
  assumes "\<forall>x \<in> set octets. x \<le> 255"
  shows "list_all plain_char (dotted octets)"
proof -
  have "plain_char CHR ''.''" by code_simp
  moreover have "plain_char c" if "p \<in> set (map show_nat octets)" "c \<in> set p" for p c
    using that assms octet_digits by (auto simp: list_all_iff intro: digit_plain)
  ultimately have "\<forall>c \<in> {CHR ''.''} \<union> \<Union> (set ` set (map show_nat octets)). plain_char c" by blast
  then show ?thesis
    using set_join_with [of "''.''" "map show_nat octets"] unfolding dotted_def list_all_iff by auto
qed

lemma dotted_chars:
  assumes "\<forall>x \<in> set octets. x \<le> 255" "c \<in> set (dotted octets)"
  shows "is_digit c \<or> c = CHR ''.''"
  using set_join_with [of "''.''" "map show_nat octets"] assms octet_digits
  unfolding dotted_def list_all_iff by fastforce

section \<open>IPv4-mapped IPv6 addresses\<close>

definition mapped_text :: "nat list \<Rightarrow> string" where
  "mapped_text octets = ''::ffff:'' @ dotted octets"

lemma mapped_chars:
  "\<not> is_digit CHR '':''" "\<not> is_digit CHR ''%''" "list_all plain_char ''::ffff:''" "parse_hextet ''ffff'' = Some 65535"
  by (simp_all add: is_digit_def plain_char_def parse_hextet_def is_hex_digit_def hex_value_def)

lemma mapped_not_ipv4:
  assumes "length octets = 4" "\<forall>x \<in> set octets. x \<le> 255"
  shows "parse_ipv4 (mapped_text octets) = None"
proof -
  obtain a b c d where o: "octets = [a, b, c, d]" using assms(1) by (auto simp: numeral_eq_Suc length_Suc_conv)
  let ?ps = "[''::ffff:'' @ show_nat a, show_nat b, show_nat c, show_nat d]"
  have "CHR ''.'' \<notin> set (show_nat x)" if "x \<in> set octets" for x
    using octet_digits [of x] assms(2) that not_digit(1) by (auto simp: list_all_iff)
  then have split: "split_on CHR ''.'' (join_with ''.'' ?ps) = ?ps" unfolding o by (intro split_on_join) auto
  have "join_with ''.'' ?ps = mapped_text octets" by (simp add: mapped_text_def dotted_def o)
  then have "split_on CHR ''.'' (mapped_text octets) = ?ps" using split by (simp only:)
  moreover have "parse_octet (''::ffff:'' @ show_nat a) = None" using mapped_chars(1) by (simp add: parse_octet_def)
  ultimately show ?thesis by (simp add: parse_ipv4_def)
qed

lemma mapped_number:
  assumes "length octets = 4" "\<forall>x \<in> set octets. x \<le> 255"
  shows "parse_ipv6_number (mapped_text octets) = Some (0xFFFF * 2 ^ 32 + from_parts 256 0 octets)"
proof -
  let ?v = "from_parts 256 0 octets"
  obtain a b c d where o: "octets = [a, b, c, d]" using assms(1) by (auto simp: numeral_eq_Suc length_Suc_conv)
  have "CHR '':'' \<notin> set (dotted octets)" using dotted_chars [OF assms(2)] mapped_chars(1) by auto
  then have split: "split_on CHR '':'' (mapped_text octets) = ['''', '''', ''ffff'', dotted octets]"
    by (simp add: mapped_text_def split_on_plain)
  have "CHR ''.'' \<in> set (dotted octets)" by (simp add: dotted_def o)
  then have parts: "ipv6_parts ['''', '''', ''ffff'', dotted octets] =
      Some [TextPart '''', TextPart '''', TextPart ''ffff'', NumberPart (?v div 65536 mod 65536), NumberPart (?v mod 65536)]"
    using parse_dotted [OF assms] by (simp add: ipv6_parts_def)
  have layout: "ipv6_layout [TextPart '''', TextPart '''', TextPart ''ffff'', NumberPart m, NumberPart n] = Some (0, 3, 5)" for m n
    by (simp add: ipv6_layout_def inner_empty_def upt_rec)
  have "?v < 256 ^ 4" using assms(2) by (simp add: o)
  then have "?v div 65536 mod 65536 * 65536 + ?v mod 65536 = ?v" by (simp add: o)
  then show ?thesis
    by (simp add: parse_ipv6_number_def split parts layout mapped_chars(4)) (simp add: mapped_text_def)
qed

lemma parse_mapped:
  assumes "length octets = 4" "\<forall>x \<in> set octets. x \<le> 255"
  shows "parse_ip (mapped_text octets) = Some (IPv6 (0xFFFF * 2 ^ 32 + from_parts 256 0 octets) None)"
proof -
  have "CHR ''%'' \<notin> set (mapped_text octets)" "CHR ''/'' \<notin> set (mapped_text octets)"
    using dotted_chars [OF assms(2)] not_digit mapped_chars(2) by (auto simp: mapped_text_def)
  then show ?thesis
    by (simp add: parse_ip_def mapped_not_ipv4 [OF assms] parse_ipv6_def partition_on_plain mapped_number [OF assms])
qed

lemma mapped_plain: "\<forall>x \<in> set octets. x \<le> 255 \<Longrightarrow> list_all plain_char (mapped_text octets)"
  using dotted_plain mapped_chars(3) by (simp add: mapped_text_def)

lemma mapped_classes:
  assumes "n < 2 ^ 32"
  shows "\<not> is_cloud_metadata (IPv6 (0xFFFF * 2 ^ 32 + n) None)" "\<not> is_loopback (IPv6 (0xFFFF * 2 ^ 32 + n) None)"
    "\<not> is_link_local (IPv6 (0xFFFF * 2 ^ 32 + n) None)"
    "is_private (IPv6 (0xFFFF * 2 ^ 32 + n) None) \<longleftrightarrow> ipv4_is_private n"
proof -
  have "(0xFFFF * 2 ^ 32 + n) div 2 ^ 118 = 0" using assms by simp
  then show "\<not> is_link_local (IPv6 (0xFFFF * 2 ^ 32 + n) None)" by (simp add: in_network_def hextets_def)
  show "\<not> is_cloud_metadata (IPv6 (0xFFFF * 2 ^ 32 + n) None)" using assms by (simp add: is_cloud_metadata_def hextets_def)
  have "(m * k + n) mod k = n" if "n < k" for m k :: nat using that by simp
  from this [OF assms] have "(0xFFFF * 2 ^ 32 + n) mod 2 ^ 32 = n" .
  moreover have "(0xFFFF * 2 ^ 32 + n) div 2 ^ 32 = 0xFFFF" using assms by simp
  ultimately show "is_private (IPv6 (0xFFFF * 2 ^ 32 + n) None) \<longleftrightarrow> ipv4_is_private n" by (simp add: ipv4_mapped_def)
qed simp

section \<open>The IPv4 classes\<close>

lemma quad_parts:
  assumes "b \<le> 255" "c \<le> 255" "d \<le> 255"
  shows "quad a b c d div 16777216 = a" "quad a b c d div 65536 = a * 256 + b"
    "quad a b c d div 1048576 = a * 16 + b div 16" "quad a b c d div 268435456 = a div 16"
proof -
  have p: "quad a b c d div 65536 = a * 256 + b" using assms by (simp add: quad_def)
  have "quad a b c d div 65536 div 256 = a" "quad a b c d div 65536 div 16 = a * 16 + b div 16"
    "quad a b c d div 65536 div 4096 = a div 16" using assms unfolding p by simp_all
  then show "quad a b c d div 16777216 = a" "quad a b c d div 1048576 = a * 16 + b div 16"
    "quad a b c d div 268435456 = a div 16" by (simp_all add: div_mult2_eq [symmetric])
  show "quad a b c d div 65536 = a * 256 + b" by (rule p)
qed

lemma ipv4_forbidden:
  assumes "b \<le> 255" "c \<le> 255" "d \<le> 255"
  shows "is_loopback (IPv4 (quad a b c d)) \<longleftrightarrow> a = 127"
    "is_link_local (IPv4 (quad a b c d)) \<longleftrightarrow> a * 256 + b = 169 * 256 + 254"
  using quad_parts [OF assms, of a] by (simp_all add: in_network_def quad_def [of 127 0 0 0] quad_def [of 169 254 0 0])

lemma ipv4_private:
  assumes "b \<le> 255" "c \<le> 255" "d \<le> 255"
    "a \<in> {0, 10, 127} \<or> a = 172 \<and> 16 \<le> b \<and> b \<le> 31 \<or> a = 192 \<and> b = 168 \<or> a = 169 \<and> b = 254 \<or> 240 \<le> a \<and> a \<le> 255"
  shows "is_private (IPv4 (quad a b c d))"
proof -
  note q = quad_parts [OF assms(1-3), of a]
  have "\<not> list_ex (in_network 32 (quad a b c d)) ipv4_private_exceptions"
  proof
    assume "list_ex (in_network 32 (quad a b c d)) ipv4_private_exceptions"
    then have "quad a b c d = quad 192 0 0 9 \<or> quad a b c d = quad 192 0 0 10"
      by (auto simp: ipv4_private_exceptions_def in_network_def)
    then have "a * 256 + b = 192 * 256" using q(2) by (auto simp: quad_def)
    then have "a = 192 \<and> b = 0" using assms(1) by presburger
    then show False using assms(4) by auto
  qed
  moreover have "list_ex (in_network 32 (quad a b c d)) ipv4_private_networks"
  proof -
    have n: "in_network 32 (quad a b c d) (quad 0 0 0 0, 8) \<longleftrightarrow> a = 0"
      "in_network 32 (quad a b c d) (quad 10 0 0 0, 8) \<longleftrightarrow> a = 10"
      "in_network 32 (quad a b c d) (quad 127 0 0 0, 8) \<longleftrightarrow> a = 127"
      "in_network 32 (quad a b c d) (quad 169 254 0 0, 16) \<longleftrightarrow> a * 256 + b = 169 * 256 + 254"
      "in_network 32 (quad a b c d) (quad 172 16 0 0, 12) \<longleftrightarrow> a * 16 + b div 16 = 172 * 16 + 1"
      "in_network 32 (quad a b c d) (quad 192 168 0 0, 16) \<longleftrightarrow> a * 256 + b = 192 * 256 + 168"
      "in_network 32 (quad a b c d) (quad 240 0 0 0, 4) \<longleftrightarrow> a div 16 = 15"
      using q by (simp_all add: in_network_def quad_def [of "numeral _"] quad_def [of 0])
    have "a = 0 \<or> a = 10 \<or> a = 127 \<or> a * 256 + b = 169 * 256 + 254 \<or> a * 16 + b div 16 = 172 * 16 + 1 \<or>
        a * 256 + b = 192 * 256 + 168 \<or> a div 16 = 15"
      using assms(4) by fastforce
    then show ?thesis unfolding n [symmetric] ipv4_private_networks_def by auto
  qed
  ultimately show ?thesis by (simp add: ipv4_is_private_def)
qed

section \<open>Decisions\<close>

lemma egress_reason_None:
  "egress_reason g host port protocol ip effective = None \<longleftrightarrow> effective \<and>
     (\<exists>a. parse_ip (strip ip) = Some a \<and> \<not> is_cloud_metadata a \<and> \<not> is_loopback a \<and> \<not> is_link_local a \<and>
        (is_private a \<longrightarrow> ts_allow_private_rfc1918 (tg_target g))) \<and>
     host_matches_grant host (ts_allowed_dns_names (tg_target g)) \<and>
     protocol \<in> set (map lower (ts_allowed_protocols (tg_target g))) \<and> port \<in> set (ts_allowed_ports (tg_target g))"
  by (auto simp: egress_reason_def result_simps split: option.splits)

lemma check_egress_request_None [result_simps]:
  "check_egress_request host port protocol ip t = None \<longleftrightarrow>
     \<not> blank host \<and> 1 \<le> port \<and> port \<le> 65535 \<and> \<not> blank protocol \<and> \<not> blank ip \<and> is_utc t"
  by (auto simp: check_egress_request_def Let_def result_simps)

lemma grant_effective_at_utc:
  "is_utc t \<Longrightarrow> grant_effective_at g t = Inr (tg_state g = GrantActive \<and> instant (tg_valid_from g) \<le> instant t \<and>
     instant t < instant (tg_valid_until g))"
  by (simp add: grant_effective_at_def require_utc_def)

lemma egress_allowed:
  "(\<exists>v. evaluate_egress_request (Some g) host port protocol ip t hop = Inr v \<and> ee_allowed v) \<longleftrightarrow>
     check_egress_request host port protocol ip t = None \<and>
     egress_reason g (normal_name host) port (lower (strip protocol)) ip
       (tg_state g = GrantActive \<and> instant (tg_valid_from g) \<le> instant t \<and> instant t < instant (tg_valid_until g)) = None"
proof (cases "check_egress_request host port protocol ip t")
  case None
  then have "is_utc t" by (simp add: result_simps)
  then show ?thesis
    by (simp add: evaluate_egress_request_def None grant_effective_at_utc egress_result_def del: egress_reason_None)
qed (simp add: evaluate_egress_request_def)

lemma matches_pattern_shape:
  assumes "matches_pattern host raw"
  shows "host = normal_name raw \<or> (\<exists>label base. normal_name raw = ''*.'' @ base \<and> label \<noteq> [] \<and> host = label @ ''.'' @ base)"
proof (cases "starts_with ''*.'' (normal_name raw) \<and> 2 < length (normal_name raw)")
  case True
  then obtain base where b: "normal_name raw = ''*.'' @ base" unfolding starts_with_iff by blast
  have "ends_with (tl (normal_name raw)) host \<and> length (tl (normal_name raw)) < length host"
    using assms True unfolding matches_pattern_def Let_def by (simp split: if_splits)
  then have e: "ends_with (CHR ''.'' # base) host" "length base + 1 < length host" unfolding b by simp_all
  then obtain label where l: "host = label @ CHR ''.'' # base" unfolding ends_with_iff by blast
  then have "label \<noteq> []" using e(2) by auto
  then show ?thesis using b l by auto
next
  case False
  then show ?thesis using assms unfolding matches_pattern_def Let_def by (simp split: if_splits)
qed

text \<open>
  What redaction does to a text: every pass of \<open>redact_secret_material\<close> only replaces pieces of the text
  by the mark, so a word that shares no character with the mark occurs afterwards only where it
  occurred before.
\<close>

inductive scrubbed :: "string \<Rightarrow> string \<Rightarrow> bool" where
  scrubbed_nil: "scrubbed [] []"
| scrubbed_keep: "scrubbed s t \<Longrightarrow> scrubbed (c # s) (c # t)"
| scrubbed_mark: "scrubbed s t \<Longrightarrow> scrubbed (u @ s) (redaction_mark @ t)"

lemma scrubbed_refl: "scrubbed s s"
  by (induction s) (auto intro: scrubbed.intros)

lemma scrubbed_keeps: "scrubbed s t \<Longrightarrow> scrubbed (u @ s) (u @ t)"
  by (induction u) (auto intro: scrubbed.intros)

lemma scrubbed_prefix:
  assumes "scrubbed s t" "prefix l t" "set l \<inter> set redaction_mark = {}"
  shows "prefix l s"
  using assms
proof (induction arbitrary: l)
  case (scrubbed_keep s t c)
  then show ?case by (cases l) auto
next
  case (scrubbed_mark s t u)
  then show ?case by (cases l) (auto simp: redaction_mark_def)
qed simp

lemma sublist_after_disjoint:
  assumes "sublist l (m @ t)" "l \<noteq> []" "set l \<inter> set m = {}"
  shows "sublist l t"
  using assms
proof (induction m)
  case (Cons c m)
  then show ?case by (cases l) (auto simp: sublist_Cons_right)
qed simp

lemma subl_trans: "sublist l s \<Longrightarrow> sublist s t \<Longrightarrow> sublist l t"
  by (rule sublist_order.order_trans)

lemma scrubbed_sublist:
  assumes "scrubbed s t" "sublist l t" "l \<noteq> []" "set l \<inter> set redaction_mark = {}"
  shows "sublist l s"
  using assms
proof (induction)
  case (scrubbed_keep s t c)
  then show ?case
    using scrubbed_prefix [OF scrubbed.scrubbed_keep] by (auto simp: sublist_Cons_right)
next
  case (scrubbed_mark s t u)
  then show ?case using sublist_after_disjoint [of l redaction_mark t] sublist_append_leftI [of s u] subl_trans by blast
qed simp

lemma replace_all_scrubbed: "scrubbed s (replace_all old redaction_mark s)"
proof (induction old redaction_mark s rule: replace_all.induct)
  case (1 old s)
  consider (same) "s = [] \<or> old = []" | (hit) "s \<noteq> []" "old \<noteq> []" "starts_with old s"
    | (miss) "s \<noteq> []" "old \<noteq> []" "\<not> starts_with old s" by blast
  then show ?case
  proof cases
    case same
    then show ?thesis by (subst replace_all.simps) (simp add: scrubbed_refl)
  next
    case hit
    then show ?thesis
      using scrubbed_mark [of "drop (length old) s" "replace_all old redaction_mark (drop (length old) s)" "take (length old) s"]
        1(1) by (subst replace_all.simps) simp
  next
    case miss
    then show ?thesis using scrubbed_keep [OF 1(2), of "hd s"] by (subst replace_all.simps) simp
  qed
qed

lemma replace_all_removes:
  assumes "old \<noteq> []" "set old \<inter> set redaction_mark = {}"
  shows "\<not> sublist old (replace_all old redaction_mark s)"
  using assms
proof (induction old redaction_mark s rule: replace_all.induct)
  case (1 old s)
  show ?case
  proof (cases "s = []")
    case True
    then show ?thesis using 1(3) by (subst replace_all.simps) simp
  next
    case s: False
    show ?thesis
    proof (cases "starts_with old s")
      case True
      then have "\<not> sublist old (replace_all old redaction_mark (drop (length old) s))"
        using 1 s by blast
      then show ?thesis
        using s True 1(3,4) sublist_after_disjoint by (subst replace_all.simps) auto
    next
      case False
      then have "\<not> sublist old (replace_all old redaction_mark (tl s))"
        using 1 s by blast
      moreover have "\<not> prefix old (replace_all old redaction_mark s)"
        using False scrubbed_prefix [OF replace_all_scrubbed _ 1(4)] unfolding starts_with_iff prefix_def by blast
      ultimately show ?thesis
        using s False 1(3) by (subst (asm) (2) replace_all.simps, subst replace_all.simps) (simp add: sublist_Cons_right)
    qed
  qed
qed

lemma substitute_scrubbed: "scrubbed s (substitute m s)"
proof (induction s rule: length_induct)
  case (1 s)
  show ?case
  proof (cases s)
    case Nil
    then show ?thesis by (simp add: substitute.simps scrubbed_nil)
  next
    case (Cons c cs)
    show ?thesis
    proof (cases "\<exists>n k. m (map of_char s) = Some (n, Suc k)")
      case True
      then obtain n k where hit: "m (map of_char s) = Some (n, Suc k)" by blast
      have "scrubbed (drop (n + Suc k) s) (substitute m (drop (n + Suc k) s))" using 1 Cons by simp
      then have "scrubbed (take (Suc k) (drop n s) @ drop (n + Suc k) s) (redaction_mark @ substitute m (drop (n + Suc k) s))"
        by (rule scrubbed_mark)
      moreover have "take (Suc k) (drop n s) @ drop (n + Suc k) s = drop n s"
        by (metis append_take_drop_id drop_drop add.commute)
      ultimately show ?thesis using scrubbed_keeps [of "drop n s" "redaction_mark @ substitute m (drop (n + Suc k) s)" "take n s"] hit
          substitute.simps [of m s] unfolding append_take_drop_id Cons by simp
    next
      case False
      then have "substitute m s = c # substitute m cs"
        using Cons by (subst substitute.simps) (auto split: option.splits prod.splits nat.splits)
      then show ?thesis using 1 Cons by (simp add: scrubbed_keep)
    qed
  qed
qed

text \<open>One list of literals: each of them is gone at the end.\<close>

lemma scrub_list_sublist:
  assumes "sublist l (foldl (\<lambda>s x. if x = [] then s else replace_all x redaction_mark s) s xs)" "l \<noteq> []"
    "set l \<inter> set redaction_mark = {}"
  shows "sublist l s \<and> l \<notin> set xs"
  using assms(1)
proof (induction xs arbitrary: s)
  case (Cons x xs)
  let ?u = "if x = [] then s else replace_all x redaction_mark s"
  have *: "sublist l ?u" "l \<notin> set xs" using Cons.IH [of ?u] Cons.prems by simp_all
  show ?case
  proof (cases "x = []")
    case False
    then have "l \<noteq> x" using * replace_all_removes [OF assms(2,3)] by (metis (full_types))
    then show ?thesis using * False scrubbed_sublist [OF replace_all_scrubbed _ assms(2,3)] by simp
  qed (use * assms(2) in simp)
qed simp

lemma redaction_removes:
  assumes "l \<in> set handles \<union> set extra" "l \<noteq> []" "set l \<inter> set redaction_mark = {}"
  shows "\<not> sublist l (redact_secret_material handles extra text)"
proof
  assume "sublist l (redact_secret_material handles extra text)"
  then have "sublist l (foldl (\<lambda>s x. if x = [] then s else replace_all x redaction_mark s)
      (foldl (\<lambda>s x. if x = [] then s else replace_all x redaction_mark s) text handles)
      (rev (sort_key length (rev (filter (\<lambda>l. l \<noteq> []) extra)))))"
    unfolding redact_secret_material_def Let_def
    using scrubbed_sublist [OF substitute_scrubbed _ assms(2,3)] by blast
  from scrub_list_sublist [OF this assms(2,3)] scrub_list_sublist [OF _ assms(2,3)] show False
    using assms(1,2) by auto
qed

text \<open>
  The handles are taken in the order given: a handle that is a prefix of a later one leaves the rest of
  the later one in the text.
\<close>

lemma handle_prefix_leaks:
  "redact_secret_material [''abc'', ''abcdef''] [] ''abcdef'' = ''[REDACTED]def'' \<and>
   redact_secret_material [] [''abc'', ''abcdef''] ''abcdef'' = ''[REDACTED]''"
proof -
  have "substitute bearer_match ''[REDACTED]def'' = ''[REDACTED]def''" "substitute bearer_match ''[REDACTED]'' = ''[REDACTED]''"
      "substitute token_query_match ''[REDACTED]def'' = ''[REDACTED]def''"
      "substitute token_query_match ''[REDACTED]'' = ''[REDACTED]''"
    by code_simp+
  moreover have "replace_all ''abc'' redaction_mark ''abcdef'' = ''[REDACTED]def''"
      "replace_all ''abcdef'' redaction_mark ''[REDACTED]def'' = ''[REDACTED]def''"
      "replace_all ''abcdef'' redaction_mark ''abcdef'' = ''[REDACTED]''"
      "replace_all ''abc'' redaction_mark ''[REDACTED]'' = ''[REDACTED]''"
    by code_simp+
  moreover have "rev (sort_key length (rev (filter (\<lambda>l. l \<noteq> []) [''abc'', ''abcdef'']))) = [''abcdef'', ''abc'']"
    by (simp add: sort_key_def)
  ultimately show ?thesis by (simp add: redact_secret_material_def Let_def)
qed

end
