(* ===== verification/Access_Properties.thy ===== *)
theory Access_Properties
  imports Access_Facts
begin

text \<open>
  Properties of the access components: the unit ceiling of environment leases, the egress decision, the
  secret ledger and the redaction of log text.
\<close>

section \<open>Environment leases\<close>

definition sample_target :: target_spec where
  "sample_target = \<lparr>ts_target_id = ''t'', ts_environment = ''test'', ts_allowed_dns_names = [''*.example.com''],
     ts_allowed_protocols = [''https''], ts_allowed_ports = [443], ts_allow_private_rfc1918 = True, ts_owner_id = ''o''\<rparr>"

definition sample_target_grant :: target_grant where
  "sample_target_grant = \<lparr>tg_grant_id = ''g'', tg_target = sample_target, tg_state = GrantActive,
     tg_max_concurrent_units = 2, tg_valid_from = utc 0, tg_valid_until = utc 100, tg_version = 1\<rparr>"

definition sample_env_lease :: "string \<Rightarrow> int \<Rightarrow> environment_lease" where
  "sample_env_lease i t = \<lparr>el_lease_id = i, el_grant_id = ''g'', el_target_id = ''t'', el_attempt_id = ''a'', el_fence = 1,
     el_dimension = DimSession, el_units = 2, el_acquired_at = utc t, el_expires_at = utc (t + 20),
     el_state = EnvActive\<rparr>"

definition sample_book :: "environment_lease list \<Rightarrow> lease_book" where
  "sample_book leases = \<lparr>lb_grant = sample_target_grant, lb_leases = leases\<rparr>"

lemmas access_sample_defs = sample_target_def sample_target_grant_def sample_env_lease_def sample_book_def

text \<open>
  C28: The leases of a grant never exceed its unit ceiling, at no instant: in every run of acquisitions,
  releases, revocations and expiries from the empty book whose acquisition times do not run backwards,
  whether the single commands succeed or fail, the units of the leases that are live at an instant sum
  up to at most the maximum of the grant.
\<close>

theorem leases_never_oversell:
  assumes "check_target_grant g = None" "empty_lease_book g = Inr b" "sorted (acquire_times cs)"
  shows "units_at t (foldl (\<lambda>b c. apply_book c b) b cs) \<le> tg_max_concurrent_units g"
proof -
  have b: "b = \<lparr>lb_grant = g, lb_leases = []\<rparr>"
    using assms(2) by (simp add: empty_lease_book_def mk_lease_book_def result_simps)
  have "book_sound None b"
    using assms(1) by (simp add: b book_sound_def wf_book_def check_lease_book_def units_at_def
        check_target_grant_def Let_def result_simps)
  then obtain latest where "book_sound latest (foldl (\<lambda>b c. apply_book c b) b cs)"
    using book_sound_run [OF _ assms(3)] by fastforce
  moreover have "lb_grant (foldl (\<lambda>b c. apply_book c b) b' cs) = lb_grant b'" if "check_lease_book b' = None" for b'
    using that
  proof (induction cs arbitrary: b')
    case (Cons c cs)
    have "lb_grant (apply_book c b') = lb_grant b' \<and> check_lease_book (apply_book c b') = None"
    proof (cases "exec_book c b'")
      case (Inr b'')
      then show ?thesis using Cons.prems
      proof (cases rule: exec_book_cases)
        case (acquire i a f d u t ttl l)
        then show ?thesis using book_acquire_Inr [OF acquire(2)] Inr by (simp add: apply_book_def)
      qed (use Inr in \<open>simp_all add: apply_book_def book_closed_to_def\<close>)
    qed (simp add: apply_book_def Cons.prems)
    then show ?case using Cons.IH by simp
  qed simp
  ultimately show ?thesis by (simp add: book_sound_def b check_lease_book_def result_simps)
qed

theorem leases_never_oversell_witness:
  "units_at 7 (apply_book (BookAcquire ''l'' ''a'' 1 DimSession 2 (utc 5) 20) (sample_book [])) \<le> 2"
proof -
  have "check_target_grant sample_target_grant = None"
    by (simp add: access_sample_defs check_target_grant_def result_simps blank_eval)
  moreover have "empty_lease_book sample_target_grant = Inr (sample_book [])"
    by (simp add: access_sample_defs empty_lease_book_def mk_lease_book_def check_lease_book_def)
  ultimately show ?thesis
    using leases_never_oversell [of sample_target_grant "sample_book []" "[BookAcquire ''l'' ''a'' 1 DimSession 2 (utc 5) 20]" 7]
    by (simp add: sample_target_grant_def)
qed

text \<open>
  The ceiling rests on the order of the acquisition times alone: with one that lies before an
  earlier one, the book accepts a lease although both are live together afterwards and exceed the
  ceiling. Here two leases of two units each are live at 12 under a ceiling of two.
\<close>

theorem late_acquisition_oversells:
  "\<exists>b. foldl (\<lambda>b c. apply_book c b) (sample_book [])
       [BookAcquire ''l1'' ''a'' 1 DimSession 2 (utc 10) 20, BookAcquire ''l2'' ''a'' 1 DimSession 2 (utc 5) 20] = b \<and>
     check_lease_book b = None \<and> units_at 12 b = 4 \<and> tg_max_concurrent_units (lb_grant b) = 2"
proof -
  have "exec_book (BookAcquire ''l1'' ''a'' 1 DimSession 2 (utc 10) 20) (sample_book []) =
      Inr (sample_book [sample_env_lease ''l1'' 10])"
    by (simp add: book_acquire_def lease_by_id_def active_units_at_def grant_effective_at_def require_utc_def access_sample_defs
        mk_environment_lease_def check_environment_lease_def mk_lease_book_def check_lease_book_def plus_delta_def
        utc_def is_utc_def blank_eval)
  moreover have "exec_book (BookAcquire ''l2'' ''a'' 1 DimSession 2 (utc 5) 20) (sample_book [sample_env_lease ''l1'' 10]) =
      Inr (sample_book [sample_env_lease ''l1'' 10, sample_env_lease ''l2'' 5])"
    by (simp add: book_acquire_def lease_by_id_def active_units_at_def grant_effective_at_def require_utc_def access_sample_defs
        lease_effective_at_def lease_live_def
        mk_environment_lease_def check_environment_lease_def mk_lease_book_def check_lease_book_def plus_delta_def
        utc_def is_utc_def blank_eval)
  ultimately have "foldl (\<lambda>b c. apply_book c b) (sample_book [])
       [BookAcquire ''l1'' ''a'' 1 DimSession 2 (utc 10) 20, BookAcquire ''l2'' ''a'' 1 DimSession 2 (utc 5) 20] =
     sample_book [sample_env_lease ''l1'' 10, sample_env_lease ''l2'' 5]"
    by (simp add: apply_book_def)
  then show ?thesis by (simp add: access_sample_defs check_lease_book_def units_at_def lease_live_def)
qed

section \<open>Egress\<close>

text \<open>
  C29: An allowed hop stays inside its grant: the grant is active and in its validity window; the host is
  no IP literal and is an allowed name or a proper subdomain of an allowed wildcard; port and protocol
  are listed; and a resolved IPv4 address is neither loopback nor link-local (so not the metadata
  address), and without the private-network permission not in 0/8, 10/8, 172.16/12, 192.168/16 or
  240/4.
\<close>

theorem allowed_egress_within_grant:
  assumes "evaluate_egress_request (Some g) host port protocol ip t hop = Inr v" "ee_allowed v"
  shows "tg_state g = GrantActive \<and> instant (tg_valid_from g) \<le> instant t \<and> instant t < instant (tg_valid_until g) \<and>
    parse_ip (normal_name host) = None \<and>
    (\<exists>raw \<in> set (ts_allowed_dns_names (tg_target g)). normal_name host = normal_name raw \<or>
       (\<exists>label base. normal_name raw = ''*.'' @ base \<and> label \<noteq> [] \<and> normal_name host = label @ ''.'' @ base)) \<and>
    port \<in> set (ts_allowed_ports (tg_target g)) \<and>
    lower (strip protocol) \<in> set (map lower (ts_allowed_protocols (tg_target g))) \<and>
    (\<forall>a b c d. a \<le> 255 \<and> b \<le> 255 \<and> c \<le> 255 \<and> d \<le> 255 \<and> strip ip = dotted [a, b, c, d] \<longrightarrow>
       a \<noteq> 127 \<and> \<not> (a = 169 \<and> b = 254) \<and>
       (\<not> ts_allow_private_rfc1918 (tg_target g) \<longrightarrow> a \<notin> {0, 10} \<and> a < 240 \<and>
          \<not> (a = 172 \<and> 16 \<le> b \<and> b \<le> 31) \<and> \<not> (a = 192 \<and> b = 168)))"
proof -
  have r: "egress_reason g (normal_name host) port (lower (strip protocol)) ip
      (tg_state g = GrantActive \<and> instant (tg_valid_from g) \<le> instant t \<and> instant t < instant (tg_valid_until g)) = None"
    using egress_allowed [of g host port protocol ip t hop] assms by blast
  then obtain a' where a': "parse_ip (strip ip) = Some a'" "\<not> is_loopback a'" "\<not> is_link_local a'"
    "is_private a' \<longrightarrow> ts_allow_private_rfc1918 (tg_target g)"
    and hm: "host_matches_grant (normal_name host) (ts_allowed_dns_names (tg_target g))"
    unfolding egress_reason_None by blast
  have ip4: "a \<noteq> 127 \<and> \<not> (a = 169 \<and> b = 254) \<and>
       (\<not> ts_allow_private_rfc1918 (tg_target g) \<longrightarrow> a \<notin> {0, 10} \<and> a < 240 \<and>
          \<not> (a = 172 \<and> 16 \<le> b \<and> b \<le> 31) \<and> \<not> (a = 192 \<and> b = 168))"
    if q: "a \<le> 255 \<and> b \<le> 255 \<and> c \<le> 255 \<and> d \<le> 255 \<and> strip ip = dotted [a, b, c, d]" for a b c d
  proof -
    have "a' = IPv4 (quad a b c d)" using parse_dotted_quad [of a b c d] q a'(1) by simp
    then show ?thesis using a'(2-4) ipv4_forbidden [of b c d a] ipv4_private [of b c d a] q by fastforce
  qed
  have names: "\<exists>raw \<in> set (ts_allowed_dns_names (tg_target g)). normal_name host = normal_name raw \<or>
       (\<exists>label base. normal_name raw = ''*.'' @ base \<and> label \<noteq> [] \<and> normal_name host = label @ ''.'' @ base)"
    using hm matches_pattern_shape unfolding host_matches_grant_def list_ex_iff by blast
  show ?thesis using r hm names ip4 unfolding egress_reason_None host_matches_grant_def by blast
qed

lemma digit_char_eval:
  "digit_char 0 = CHR ''0''" "digit_char 1 = CHR ''1''" "digit_char 2 = CHR ''2''" "digit_char 4 = CHR ''4''"
  "digit_char 5 = CHR ''5''" "digit_char 6 = CHR ''6''" "digit_char 9 = CHR ''9''"
  by code_simp+

definition sample_hop :: "string \<Rightarrow> egress_evaluation" where
  "sample_hop ip = egress_result (Some sample_target_grant) ''api.example.com'' 443 ''https'' ip False None"

lemma sample_hop_allowed:
  "evaluate_egress_request (Some sample_target_grant) ''api.example.com'' 443 ''https'' ''10.0.0.1'' (utc 5) False =
     Inr (sample_hop ''10.0.0.1'')"
proof -
  have plain: "list_all plain_char ''api.example.com''" "list_all plain_char ''*.example.com''" "list_all plain_char ''https''"
    by (simp_all add: plain_char_def)
  have n: "normal_name ''api.example.com'' = ''api.example.com''" "normal_name ''*.example.com'' = ''*.example.com''"
    using plain by (simp_all add: normal_name_def strip_plain rstrip_chars_def lower_def lower_char_def)
  have d: "dotted [10, 0, 0, 1] = ''10.0.0.1''" by (simp add: dotted_def show_nat.simps digit_char_eval [simplified])
  have ip: "parse_ip ''10.0.0.1'' = Some (IPv4 (quad 10 0 0 1))" "list_all plain_char ''10.0.0.1''"
    unfolding d [symmetric] by (rule parse_dotted_quad; simp) (rule dotted_plain, simp)
  have "parse_ip ''api.example.com'' = None"
    by (simp add: parse_ip_def parse_ipv4_def parse_ipv6_def parse_ipv6_number_def)
  then have "host_matches_grant ''api.example.com'' [''*.example.com'']"
    by (simp add: host_matches_grant_def matches_pattern_def n starts_with_def ends_with_def)
  moreover have "\<not> is_cloud_metadata (IPv4 (quad 10 0 0 1))" by (simp add: is_cloud_metadata_def quad_def)
  ultimately have "egress_reason sample_target_grant ''api.example.com'' 443 ''https'' ''10.0.0.1'' True = None"
    unfolding egress_reason_None using ipv4_forbidden [of 0 0 1 10] ip
    by (simp add: strip_plain sample_target_grant_def sample_target_def lower_def lower_char_def)
  moreover have "lower (strip ''https'') = ''https''" using plain(3) by (simp add: strip_plain lower_def lower_char_def)
  ultimately show ?thesis
    using blank_plain [OF plain(1)] blank_plain [OF plain(3)] blank_plain [OF ip(2)]
    by (simp add: evaluate_egress_request_def check_egress_request_def Let_def require_utc_def n sample_hop_def
        grant_effective_at_utc) (simp add: sample_target_grant_def)
qed

theorem allowed_egress_within_grant_witness:
  "parse_ip (normal_name ''api.example.com'') = None"
  using allowed_egress_within_grant [OF sample_hop_allowed] by (simp add: sample_hop_def egress_result_def)



section \<open>Secrets\<close>

text \<open>
  C31: A secret that is revoked stays unusable: once a delivery is closed, or once all deliveries of an
  Attempt and fence are revoked, no later history of the ledger makes the use of any such delivery
  succeed, whatever Attempt, fence, target, purpose and time are presented.
\<close>

theorem revoked_secrets_stay_unusable:
  assumes "distinct (map sd_delivery_handle ds)" "delivery_by_handle h ds = Some d"
    "secret_revoke h t ds = Inr es \<or> secret_revoke_all (sd_attempt_id d) (sd_fence d) t ds = Inr es"
    "history exec_secret es fs"
  shows "secret_authorize_use h a f tg p t' fs \<noteq> Inr x"
proof -
  have step: "exec_secret (SecretRevoke h t) ds = Inr es \<or> exec_secret (SecretRevokeAll (sd_attempt_id d) (sd_fence d) t) ds = Inr es"
    using assms(3) by simp
  then have es: "distinct (map sd_delivery_handle es)"
    by (elim disjE) (drule exec_secret_moved [OF _ assms(1)], simp add: ledger_moved_def)+
  obtain e where e: "delivery_by_handle h es = Some e" "delivery_moved d e"
    using step delivery_after_history [OF history_single _ assms(2)] assms(1) by metis
  have "sd_state e \<noteq> SecretActive"
    using assms(3)
  proof
    assume "secret_revoke h t ds = Inr es"
    then have "e = d \<and> sd_state d = SecretRevoked \<or> e = d\<lparr>sd_state := SecretRevoked\<rparr>"
      using assms(2) e(1) find_map [of "\<lambda>x. sd_delivery_handle x = h" "\<lambda>x. if sd_delivery_handle x = h then d\<lparr>sd_state := SecretRevoked\<rparr> else x" ds]
      by (auto simp: secret_revoke_def result_simps delivery_by_handle_def split: if_splits option.splits dest!: find_SomeD)
    then show ?thesis by auto
  next
    assume "secret_revoke_all (sd_attempt_id d) (sd_fence d) t ds = Inr es"
    then have "es = map (\<lambda>x. if sd_state x = SecretActive \<and> sd_attempt_id x = sd_attempt_id d \<and> sd_fence x = sd_fence d
        then x\<lparr>sd_state := SecretRevoked\<rparr> else x) ds"
      using deliveries_where_Inr by (fastforce simp: secret_revoke_all_def result_simps)
    then have "e \<in> (\<lambda>x. if sd_state x = SecretActive \<and> sd_attempt_id x = sd_attempt_id d \<and> sd_fence x = sd_fence d
        then x\<lparr>sd_state := SecretRevoked\<rparr> else x) ` set ds"
      using e(1) by (auto simp: delivery_by_handle_def dest: find_SomeD)
    then show ?thesis using e(2) by (auto simp: delivery_moved_def split: if_splits)
  qed
  then obtain g where "delivery_by_handle h fs = Some g" "sd_state g \<noteq> SecretActive"
    using delivery_after_history [OF assms(4) es e(1)] by (auto simp: delivery_moved_def)
  then show ?thesis by (auto simp: secret_authorize_use_Inr)
qed

definition sample_delivery :: secret_delivery where
  "sample_delivery = \<lparr>sd_delivery_handle = ''h'', sd_secret_ref = ''s'', sd_secret_version = ''1'', sd_run_id = ''r'',
     sd_attempt_id = ''a'', sd_fence = 1, sd_worker = \<lparr>wr_worker_id = ''w'', wr_generation = 1\<rparr>, sd_target_id = ''t'',
     sd_purpose = ''login'', sd_issued_at = utc 0, sd_expires_at = utc 50, sd_state = SecretActive\<rparr>"

lemma sample_delivery_revoked:
  "secret_revoke_all ''a'' 1 (utc 3) [sample_delivery] = Inr [sample_delivery\<lparr>sd_state := SecretRevoked\<rparr>]"
  by (simp add: sample_delivery_def secret_revoke_all_def deliveries_where_def delivery_with_state_def
      mk_secret_delivery_def check_secret_delivery_def Let_def require_utc_def mk_secret_ledger_def blank_eval)

theorem revoked_secrets_stay_unusable_witness:
  "secret_authorize_use ''h'' ''a'' 1 ''t'' ''login'' (utc 5) [sample_delivery] = Inr sample_delivery \<and>
   secret_authorize_use ''h'' ''a'' 1 ''t'' ''login'' (utc 5) [sample_delivery\<lparr>sd_state := SecretRevoked\<rparr>] \<noteq> Inr sample_delivery"
  using revoked_secrets_stay_unusable [of "[sample_delivery]" "''h''" sample_delivery "utc 3" "[sample_delivery\<lparr>sd_state := SecretRevoked\<rparr>]"]
    sample_delivery_revoked history_refl
  by (simp add: secret_authorize_use_Inr delivery_by_handle_def) (simp add: sample_delivery_def)

text \<open>
  The use of a secret is not bound to its Worker nor to its Run: after replacing the Run and the
  Worker of every delivery of the ledger by any others, the same request is authorised, or refused with
  the same error, as before.
\<close>

theorem secret_use_ignores_worker:
  "secret_authorize_use h a f tg p t (map (\<lambda>d. d\<lparr>sd_run_id := r d, sd_worker := w d\<rparr>) ds) =
     map_result (\<lambda>d. d\<lparr>sd_run_id := r d, sd_worker := w d\<rparr>) (secret_authorize_use h a f tg p t ds)"
proof -
  have "delivery_by_handle h (map (\<lambda>d. d\<lparr>sd_run_id := r d, sd_worker := w d\<rparr>) ds) =
      map_option (\<lambda>d. d\<lparr>sd_run_id := r d, sd_worker := w d\<rparr>) (delivery_by_handle h ds)"
    by (simp add: delivery_by_handle_def find_map comp_def)
  then show ?thesis
    by (cases "is_utc t"; cases "delivery_by_handle h ds")
      (auto simp: secret_authorize_use_def require_utc_def raise_or_def reject_if_def split: option.splits)
qed

text \<open>
  Redaction removes what it is told to: a handle or literal that shares no character with the mark
  occurs nowhere in the redacted text, whatever the text, the other handles and literals and their
  order are, and also after the two patterns have been substituted.
\<close>

theorem redacted_words_are_gone:
  assumes "l \<in> set handles \<union> set extra" "l \<noteq> []" "set l \<inter> set ''[REDACTED]'' = {}"
  shows "\<not> occurs_in l (redact_secret_material handles extra text)"
  using redaction_removes [of l handles extra] assms by (simp add: redaction_mark_def occurs_in_iff sublist_def)

theorem redacted_words_are_gone_witness:
  "\<not> occurs_in ''abcdef'' (redact_secret_material [''abc''] [''abcdef''] ''?token=abcdef'')"
  using redacted_words_are_gone [of "''abcdef''" "[''abc'']" "[''abcdef'']" "''?token=abcdef''"] by simp

end
