(* ===== verification/Unknown_Review.thy ===== *)
theory Unknown_Review
  imports Unknown
begin

text \<open>
  The review-start policy for an unknown observation (\<open>src/qarunner/domain/unknown_review.py\<close>): a
  review has to be started by an independent reviewer within 24 hours, otherwise the suite owner and
  the platform on-call are notified and two audit facts are written.
\<close>

section \<open>Requests, notifications and audit facts\<close>

definition review_start_sla :: int where
  "review_start_sla = 24 * 3600 * 1000000"

datatype unknown_review_role = RoleSuiteOwner | RolePlatformOnCall | RoleReviewer

fun unknown_review_role_value :: "unknown_review_role \<Rightarrow> string" where
  "unknown_review_role_value RoleSuiteOwner = ''suite_owner''"
| "unknown_review_role_value RolePlatformOnCall = ''platform_on_call''"
| "unknown_review_role_value RoleReviewer = ''reviewer''"

datatype unknown_review_status = ReviewPending | ReviewStarted | ReviewSlaBreached

fun unknown_review_status_value :: "unknown_review_status \<Rightarrow> string" where
  "unknown_review_status_value ReviewPending = ''pending''"
| "unknown_review_status_value ReviewStarted = ''started''"
| "unknown_review_status_value ReviewSlaBreached = ''sla_breached''"

datatype review_notification_kind = NotifySuiteOwner | NotifyPlatformOnCall

fun review_notification_kind_value :: "review_notification_kind \<Rightarrow> string" where
  "review_notification_kind_value NotifySuiteOwner = ''suite_owner''"
| "review_notification_kind_value NotifyPlatformOnCall = ''platform_on_call''"

datatype review_audit_kind = AuditSecurity | AuditOperations

fun review_audit_kind_value :: "review_audit_kind \<Rightarrow> string" where
  "review_audit_kind_value AuditSecurity = ''security''"
| "review_audit_kind_value AuditOperations = ''operations''"

record unknown_review_actor =
  ur_actor_id :: string
  ur_role :: unknown_review_role

definition check_unknown_review_actor :: "unknown_review_actor \<Rightarrow> domain_error option" where
  "check_unknown_review_actor a = require_nonempty_string ''unknown_review_actor'' ''actor_id'' (ur_actor_id a)"

record unknown_review_request =
  urq_run_id :: string
  urq_attempt_id :: string
  urq_observation_digest :: digest
  urq_triggering_actor_id :: string
  urq_suite_owner_actor_id :: string
  urq_platform_on_call_actor_id :: string
  urq_requested_at :: datetime
  urq_review_start_deadline :: datetime

definition check_unknown_review_request :: "unknown_review_request \<Rightarrow> domain_error option" where
  "check_unknown_review_request r =
     (let e = ''unknown_review_request'' in first_some
     [require_nonempty_string e ''run_id'' (urq_run_id r),
      require_nonempty_string e ''attempt_id'' (urq_attempt_id r),
      require_nonempty_string e ''triggering_actor_id'' (urq_triggering_actor_id r),
      require_nonempty_string e ''suite_owner_actor_id'' (urq_suite_owner_actor_id r),
      require_nonempty_string e ''platform_on_call_actor_id'' (urq_platform_on_call_actor_id r),
      reject_if (urq_suite_owner_actor_id r = urq_platform_on_call_actor_id r)
        (DomainValidationError e ''escalation_recipients'' ''recipients_not_distinct''),
      require_utc e ''requested_at'' (urq_requested_at r),
      require_utc e ''review_start_deadline'' (urq_review_start_deadline r),
      reject_if (instant (urq_review_start_deadline r) \<noteq> instant (urq_requested_at r) + review_start_sla)
        (DomainValidationError e ''review_start_deadline'' ''not_exact_24h'')])"

definition mk_unknown_review_request :: "unknown_review_request \<Rightarrow> unknown_review_request result" where
  "mk_unknown_review_request r = raise_or (check_unknown_review_request r) r"

definition review_request_digest :: "unknown_review_request \<Rightarrow> digest result" where
  "review_request_digest r = canonical_digest ''qep.unknown-review-request.v1''
     (JObj [(''run_id'', JStr (urq_run_id r)),
            (''attempt_id'', JStr (urq_attempt_id r)),
            (''observation_digest'', JStr (digest_value (urq_observation_digest r))),
            (''triggering_actor_id'', JStr (urq_triggering_actor_id r)),
            (''suite_owner_actor_id'', JStr (urq_suite_owner_actor_id r)),
            (''platform_on_call_actor_id'', JStr (urq_platform_on_call_actor_id r)),
            (''requested_at'', JStr (iso_z (urq_requested_at r))),
            (''review_start_deadline'', JStr (iso_z (urq_review_start_deadline r)))])"

lemma review_request_digest_total: "\<exists>d. review_request_digest r = Inr d"
  by (simp add: review_request_digest_def result_simps)

record unknown_review_notification =
  urn_kind :: review_notification_kind
  urn_recipient_actor_id :: string
  urn_request_digest :: digest
  urn_occurred_at :: datetime

definition check_review_notification :: "unknown_review_notification \<Rightarrow> domain_error option" where
  "check_review_notification n = first_some
     [require_nonempty_string ''unknown_review_notification'' ''recipient_actor_id'' (urn_recipient_actor_id n),
      require_utc ''unknown_review_notification'' ''occurred_at'' (urn_occurred_at n)]"

definition mk_review_notification :: "unknown_review_notification \<Rightarrow> unknown_review_notification result" where
  "mk_review_notification n = raise_or (check_review_notification n) n"

definition review_notification_json :: "unknown_review_notification \<Rightarrow> json" where
  "review_notification_json n = JObj
     [(''kind'', JStr (review_notification_kind_value (urn_kind n))),
      (''recipient_actor_id'', JStr (urn_recipient_actor_id n)),
      (''request_digest'', JStr (digest_value (urn_request_digest n))),
      (''occurred_at'', JStr (iso_z (urn_occurred_at n)))]"

record unknown_review_audit_fact =
  uraf_kind :: review_audit_kind
  uraf_request_digest :: digest
  uraf_occurred_at :: datetime

definition check_review_audit_fact :: "unknown_review_audit_fact \<Rightarrow> domain_error option" where
  "check_review_audit_fact f =
     require_utc ''unknown_review_audit_fact'' ''occurred_at'' (uraf_occurred_at f)"

definition mk_review_audit_fact :: "unknown_review_audit_fact \<Rightarrow> unknown_review_audit_fact result" where
  "mk_review_audit_fact f = raise_or (check_review_audit_fact f) f"

definition review_audit_fact_json :: "unknown_review_audit_fact \<Rightarrow> json" where
  "review_audit_fact_json f = JObj
     [(''kind'', JStr (review_audit_kind_value (uraf_kind f))),
      (''request_digest'', JStr (digest_value (uraf_request_digest f))),
      (''occurred_at'', JStr (iso_z (uraf_occurred_at f)))]"

section \<open>Evaluations\<close>

record unknown_review_evaluation =
  ure_request :: unknown_review_request
  ure_status :: unknown_review_status
  ure_reviewer :: "unknown_review_actor option"
  ure_notifications :: "unknown_review_notification list"
  ure_audit_facts :: "unknown_review_audit_fact list"
  ure_evaluated_at :: datetime
  ure_review_started_at :: "datetime option"

abbreviation review_invalid :: "string \<Rightarrow> string \<Rightarrow> domain_error" where
  "review_invalid field reason \<equiv> DomainValidationError ''unknown_review_evaluation'' field reason"

definition validate_reviewer_start ::
  "unknown_review_request \<Rightarrow> unknown_review_actor option \<Rightarrow> datetime option \<Rightarrow> datetime \<Rightarrow> domain_error option" where
  "validate_reviewer_start request reviewer started_at evaluated_at =
     (case reviewer of
        None \<Rightarrow> reject_if (started_at \<noteq> None) (review_invalid ''review_started_at'' ''forbidden_without_reviewer'')
      | Some a \<Rightarrow>
          if ur_role a \<noteq> RoleReviewer then Some (review_invalid ''reviewer'' ''invalid_reviewer'')
          else case started_at of
            None \<Rightarrow> Some (review_invalid ''review_started_at'' ''required_with_reviewer'')
          | Some s \<Rightarrow> first_some
              [require_utc ''unknown_review_evaluation'' ''review_started_at'' s,
               reject_if (instant s < instant (urq_requested_at request))
                 (review_invalid ''review_started_at'' ''before_request''),
               reject_if (instant evaluated_at < instant s)
                 (review_invalid ''review_started_at'' ''after_evaluation'')])"

definition breached_matrix :: "unknown_review_evaluation \<Rightarrow> bool" where
  "breached_matrix v \<longleftrightarrow>
     (let r = ure_request v; ns = ure_notifications v; fs = ure_audit_facts v in
      map urn_kind ns = [NotifySuiteOwner, NotifyPlatformOnCall] \<and>
      map urn_recipient_actor_id ns = [urq_suite_owner_actor_id r, urq_platform_on_call_actor_id r] \<and>
      map uraf_kind fs = [AuditSecurity, AuditOperations] \<and>
      list_all (\<lambda>n. Inr (urn_request_digest n) = review_request_digest r) ns \<and>
      list_all (\<lambda>f. Inr (uraf_request_digest f) = review_request_digest r) fs \<and>
      list_all (\<lambda>n. urn_occurred_at n = ure_evaluated_at v) ns \<and>
      list_all (\<lambda>f. uraf_occurred_at f = ure_evaluated_at v) fs \<and>
      (case ure_review_started_at v of None \<Rightarrow> True
       | Some s \<Rightarrow> instant (urq_review_start_deadline r) < instant s))"

definition status_matrix_check :: "unknown_review_evaluation \<Rightarrow> domain_error option" where
  "status_matrix_check v =
     (case ure_status v of
        ReviewPending \<Rightarrow>
          reject_if (ure_reviewer v \<noteq> None \<or> ure_notifications v \<noteq> [] \<or> ure_audit_facts v \<noteq> [])
            (review_invalid ''status'' ''invalid_pending_matrix'')
      | ReviewStarted \<Rightarrow>
          reject_if (ure_reviewer v = None \<or> ure_notifications v \<noteq> [] \<or> ure_audit_facts v \<noteq> [] \<or>
              (case ure_review_started_at v of None \<Rightarrow> False
               | Some s \<Rightarrow> instant (urq_review_start_deadline (ure_request v)) < instant s))
            (review_invalid ''status'' ''invalid_started_matrix'')
      | ReviewSlaBreached \<Rightarrow>
          reject_if (\<not> breached_matrix v) (review_invalid ''status'' ''invalid_breached_matrix''))"

definition check_unknown_review_evaluation :: "unknown_review_evaluation \<Rightarrow> domain_error option" where
  "check_unknown_review_evaluation v = first_some
     [require_utc ''unknown_review_evaluation'' ''evaluated_at'' (ure_evaluated_at v),
      validate_reviewer_start (ure_request v) (ure_reviewer v) (ure_review_started_at v) (ure_evaluated_at v),
      reject_if (case ure_reviewer v of None \<Rightarrow> False
          | Some a \<Rightarrow> ur_actor_id a \<in> {urq_triggering_actor_id (ure_request v), urq_suite_owner_actor_id (ure_request v)})
        (review_invalid ''reviewer'' ''not_independent''),
      status_matrix_check v]"

definition mk_unknown_review_evaluation :: "unknown_review_evaluation \<Rightarrow> unknown_review_evaluation result" where
  "mk_unknown_review_evaluation v = raise_or (check_unknown_review_evaluation v) v"

definition review_evaluation_digest :: "unknown_review_evaluation \<Rightarrow> digest result" where
  "review_evaluation_digest v =
     bind_result (review_request_digest (ure_request v)) (\<lambda>rd.
     canonical_digest ''qep.unknown-review-evaluation.v1''
     (JObj [(''request_digest'', JStr (digest_value rd)),
            (''status'', JStr (unknown_review_status_value (ure_status v))),
            (''reviewer'', json_opt (\<lambda>a. JObj [(''actor_id'', JStr (ur_actor_id a)),
                (''role'', JStr (unknown_review_role_value (ur_role a)))]) (ure_reviewer v)),
            (''notifications'', JList (map review_notification_json (ure_notifications v))),
            (''audit_facts'', JList (map review_audit_fact_json (ure_audit_facts v))),
            (''evaluated_at'', JStr (iso_z (ure_evaluated_at v))),
            (''review_started_at'', json_opt (JStr \<circ> iso_z) (ure_review_started_at v))]))"

section \<open>The policy\<close>

definition require_actor :: "string \<Rightarrow> unknown_review_actor \<Rightarrow> unknown_review_role \<Rightarrow> domain_error option" where
  "require_actor field a role = reject_if (ur_role a \<noteq> role) (review_invalid field ''role_mismatch'')"

definition check_review_inputs ::
  "string \<Rightarrow> string \<Rightarrow> unknown_observation \<Rightarrow> string \<Rightarrow> unknown_review_actor \<Rightarrow> unknown_review_actor \<Rightarrow>
   unknown_review_actor option \<Rightarrow> datetime \<Rightarrow> domain_error option" where
  "check_review_inputs run_id attempt_id observation triggering_actor_id suite_owner platform_on_call
     assigned_reviewer evaluated_at =
     (let e = ''unknown_review_evaluation'' in first_some (
     [require_nonempty_string e ''run_id'' run_id,
      require_nonempty_string e ''attempt_id'' attempt_id,
      require_nonempty_string e ''triggering_actor_id'' triggering_actor_id,
      require_actor ''suite_owner'' suite_owner RoleSuiteOwner,
      require_actor ''platform_on_call'' platform_on_call RolePlatformOnCall,
      reject_if (ur_actor_id suite_owner = ur_actor_id platform_on_call)
        (review_invalid ''escalation_recipients'' ''recipients_not_distinct''),
      require_utc e ''evaluated_at'' evaluated_at,
      reject_if (instant evaluated_at < instant (uo_recorded_at observation))
        (review_invalid ''evaluated_at'' ''before_request'')] @
     (case assigned_reviewer of None \<Rightarrow> []
      | Some a \<Rightarrow>
          [require_actor ''assigned_reviewer'' a RoleReviewer,
           reject_if (ur_actor_id a \<in> {triggering_actor_id, ur_actor_id suite_owner})
             (review_invalid ''assigned_reviewer'' ''not_independent'')])))"

definition review_breached :: "unknown_review_request \<Rightarrow> datetime option \<Rightarrow> datetime \<Rightarrow> bool" where
  "review_breached request started_at evaluated_at \<longleftrightarrow>
     instant (urq_review_start_deadline request) <
       instant (case started_at of Some s \<Rightarrow> s | None \<Rightarrow> evaluated_at)"

definition review_verdict ::
  "unknown_review_request \<Rightarrow> unknown_review_actor option \<Rightarrow> datetime option \<Rightarrow> datetime \<Rightarrow>
   unknown_review_evaluation result" where
  "review_verdict request assigned_reviewer started_at evaluated_at =
     (let evaluation = \<lambda>status ns fs. mk_unknown_review_evaluation
        \<lparr>ure_request = request, ure_status = status, ure_reviewer = assigned_reviewer, ure_notifications = ns,
         ure_audit_facts = fs, ure_evaluated_at = evaluated_at, ure_review_started_at = started_at\<rparr> in
      if review_breached request started_at evaluated_at then
        bind_result (review_request_digest request) (\<lambda>d.
        bind_result (collect_results (map (\<lambda>(kind, recipient). mk_review_notification
            \<lparr>urn_kind = kind, urn_recipient_actor_id = recipient, urn_request_digest = d, urn_occurred_at = evaluated_at\<rparr>)
          [(NotifySuiteOwner, urq_suite_owner_actor_id request),
           (NotifyPlatformOnCall, urq_platform_on_call_actor_id request)])) (\<lambda>ns.
        bind_result (collect_results (map (\<lambda>kind. mk_review_audit_fact
            \<lparr>uraf_kind = kind, uraf_request_digest = d, uraf_occurred_at = evaluated_at\<rparr>)
          [AuditSecurity, AuditOperations])) (\<lambda>fs.
        evaluation ReviewSlaBreached ns fs)))
      else evaluation (if assigned_reviewer \<noteq> None then ReviewStarted else ReviewPending) [] [])"

definition evaluate_unknown_review ::
  "string \<Rightarrow> string \<Rightarrow> unknown_observation \<Rightarrow> string \<Rightarrow> unknown_review_actor \<Rightarrow> unknown_review_actor \<Rightarrow>
   unknown_review_actor option \<Rightarrow> datetime option \<Rightarrow> datetime \<Rightarrow> unknown_review_evaluation result" where
  "evaluate_unknown_review run_id attempt_id observation triggering_actor_id suite_owner platform_on_call
     assigned_reviewer review_started_at evaluated_at =
     bind_result (raise_or (check_review_inputs run_id attempt_id observation triggering_actor_id suite_owner
       platform_on_call assigned_reviewer evaluated_at) ()) (\<lambda>_.
     bind_result (unknown_observation_digest observation) (\<lambda>od.
     bind_result (mk_unknown_review_request
       \<lparr>urq_run_id = run_id, urq_attempt_id = attempt_id, urq_observation_digest = od,
        urq_triggering_actor_id = triggering_actor_id, urq_suite_owner_actor_id = ur_actor_id suite_owner,
        urq_platform_on_call_actor_id = ur_actor_id platform_on_call, urq_requested_at = uo_recorded_at observation,
        urq_review_start_deadline = plus_delta (uo_recorded_at observation) review_start_sla\<rparr>) (\<lambda>request.
     bind_result (raise_or (validate_reviewer_start request assigned_reviewer review_started_at evaluated_at) ()) (\<lambda>_.
     review_verdict request assigned_reviewer review_started_at evaluated_at))))"

text \<open>What the policy returns, and when it returns at all.\<close>

definition review_start_ok ::
  "string \<Rightarrow> string \<Rightarrow> unknown_observation \<Rightarrow> unknown_review_actor option \<Rightarrow> datetime option \<Rightarrow> datetime \<Rightarrow> bool" where
  "review_start_ok trigger owner observation reviewer started_at evaluated_at \<longleftrightarrow>
     (case (reviewer, started_at) of
        (None, None) \<Rightarrow> True
      | (Some a, Some s) \<Rightarrow> ur_role a = RoleReviewer \<and> ur_actor_id a \<notin> {trigger, owner} \<and> is_utc s \<and>
          instant (uo_recorded_at observation) \<le> instant s \<and> instant s \<le> instant evaluated_at
      | _ \<Rightarrow> False)"

lemma review_verdict_Inr:
  assumes "is_utc evaluated_at" "check_unknown_review_request request = None"
    "validate_reviewer_start request reviewer started_at evaluated_at = None"
    "\<forall>a. reviewer = Some a \<longrightarrow> ur_actor_id a \<notin> {urq_triggering_actor_id request, urq_suite_owner_actor_id request}"
  shows "\<exists>d v. review_request_digest request = Inr d \<and>
    review_verdict request reviewer started_at evaluated_at = Inr v \<and>
    v = \<lparr>ure_request = request,
      ure_status = (if review_breached request started_at evaluated_at then ReviewSlaBreached
        else if reviewer = None then ReviewPending else ReviewStarted),
      ure_reviewer = reviewer,
      ure_notifications = (if review_breached request started_at evaluated_at then
        [\<lparr>urn_kind = NotifySuiteOwner, urn_recipient_actor_id = urq_suite_owner_actor_id request,
          urn_request_digest = d, urn_occurred_at = evaluated_at\<rparr>,
         \<lparr>urn_kind = NotifyPlatformOnCall, urn_recipient_actor_id = urq_platform_on_call_actor_id request,
          urn_request_digest = d, urn_occurred_at = evaluated_at\<rparr>] else []),
      ure_audit_facts = (if review_breached request started_at evaluated_at then
        [\<lparr>uraf_kind = AuditSecurity, uraf_request_digest = d, uraf_occurred_at = evaluated_at\<rparr>,
         \<lparr>uraf_kind = AuditOperations, uraf_request_digest = d, uraf_occurred_at = evaluated_at\<rparr>] else []),
      ure_evaluated_at = evaluated_at, ure_review_started_at = started_at\<rparr>"
proof -
  obtain d where d: "review_request_digest request = Inr d" using review_request_digest_total by blast
  have names: "\<not> blank (urq_suite_owner_actor_id request)" "\<not> blank (urq_platform_on_call_actor_id request)"
    using assms(2) by (simp_all add: check_unknown_review_request_def Let_def result_simps)
  show ?thesis
  proof (cases "review_breached request started_at evaluated_at")
    case True
    then have "case started_at of None \<Rightarrow> True | Some s \<Rightarrow> instant (urq_review_start_deadline request) < instant s"
      by (simp add: review_breached_def split: option.splits)
    then show ?thesis
      using True assms names
      by (auto simp: d review_verdict_def Let_def mk_review_notification_def check_review_notification_def
          mk_review_audit_fact_def check_review_audit_fact_def mk_unknown_review_evaluation_def
          check_unknown_review_evaluation_def status_matrix_check_def breached_matrix_def result_simps
          split: option.splits)
  next
    case False
    then have "\<not> (case started_at of None \<Rightarrow> False | Some s \<Rightarrow> instant (urq_review_start_deadline request) < instant s)"
      by (simp add: review_breached_def split: option.splits)
    then show ?thesis
      using False assms
      by (auto simp: d review_verdict_def Let_def mk_unknown_review_evaluation_def
          check_unknown_review_evaluation_def status_matrix_check_def result_simps split: option.splits)
  qed
qed

end
