(* ===== verification/Duplicate_Risk.thy ===== *)
theory Duplicate_Risk
  imports Canonical_Json
begin

text \<open>
  The single-use acceptance of a duplicate risk (\<open>src/qarunner/domain/duplicate_risk_acceptance.py\<close>):
  a basis agreed by two persons, valid for one hour, bound to a retry intent and consumed at most
  once.
\<close>

section \<open>Facts\<close>

record duplicate_risk_basis =
  drb_id :: string
  drb_run_id :: string
  drb_source_attempt_id :: string
  drb_source_attempt_no :: int
  drb_source_fence :: int
  drb_run_item_set_digest :: digest
  drb_sut_identity :: string
  drb_sut_digest :: digest
  drb_target_grant_identity :: string
  drb_target_grant_version :: int
  drb_target_grant_digest :: digest
  drb_suite_owner_id :: string
  drb_reviewer_id :: string
  drb_original_executor_id :: string
  drb_original_trigger_actor_id :: string
  drb_accepted_at :: datetime
  drb_expires_at :: datetime

definition check_duplicate_risk_basis :: "duplicate_risk_basis \<Rightarrow> domain_error option" where
  "check_duplicate_risk_basis b =
     (let e = ''duplicate_risk_acceptance'' in first_some
     [require_nonempty_string e ''id'' (drb_id b),
      require_nonempty_string e ''run_id'' (drb_run_id b),
      require_nonempty_string e ''source_attempt_id'' (drb_source_attempt_id b),
      require_nonempty_string e ''sut_identity'' (drb_sut_identity b),
      require_nonempty_string e ''target_grant_identity'' (drb_target_grant_identity b),
      require_nonempty_string e ''suite_owner_id'' (drb_suite_owner_id b),
      require_nonempty_string e ''reviewer_id'' (drb_reviewer_id b),
      require_nonempty_string e ''original_executor_id'' (drb_original_executor_id b),
      require_nonempty_string e ''original_trigger_actor_id'' (drb_original_trigger_actor_id b),
      require_positive_integer e ''source_attempt_no'' (drb_source_attempt_no b),
      require_positive_integer e ''source_fence'' (drb_source_fence b),
      require_positive_integer e ''target_grant_version'' (drb_target_grant_version b),
      require_utc e ''accepted_at'' (drb_accepted_at b),
      require_utc e ''expires_at'' (drb_expires_at b),
      reject_if (instant (drb_expires_at b) - instant (drb_accepted_at b) \<noteq> 3600 * 1000000)
        (DomainValidationError e ''expires_at'' ''ttl_not_one_hour''),
      reject_if (drb_reviewer_id b \<in>
          {drb_suite_owner_id b, drb_original_executor_id b, drb_original_trigger_actor_id b})
        (DomainValidationError e ''reviewer_id'' ''not_independent'')])"

definition duplicate_risk_basis_digest :: "duplicate_risk_basis \<Rightarrow> digest result" where
  "duplicate_risk_basis_digest b = canonical_digest ''qep.duplicate-risk-acceptance-basis.v1''
     (JObj [(''id'', JStr (drb_id b)),
            (''run_id'', JStr (drb_run_id b)),
            (''source_attempt_id'', JStr (drb_source_attempt_id b)),
            (''source_attempt_no'', JInt (drb_source_attempt_no b)),
            (''source_fence'', JInt (drb_source_fence b)),
            (''run_item_set_digest'', JStr (digest_value (drb_run_item_set_digest b))),
            (''sut_identity'', JStr (drb_sut_identity b)),
            (''sut_digest'', JStr (digest_value (drb_sut_digest b))),
            (''target_grant_identity'', JStr (drb_target_grant_identity b)),
            (''target_grant_version'', JInt (drb_target_grant_version b)),
            (''target_grant_digest'', JStr (digest_value (drb_target_grant_digest b))),
            (''suite_owner_id'', JStr (drb_suite_owner_id b)),
            (''reviewer_id'', JStr (drb_reviewer_id b)),
            (''original_executor_id'', JStr (drb_original_executor_id b)),
            (''original_trigger_actor_id'', JStr (drb_original_trigger_actor_id b)),
            (''accepted_at'', JStr (iso_z (drb_accepted_at b))),
            (''expires_at'', JStr (iso_z (drb_expires_at b)))])"

record duplicate_risk_acceptance =
  dra_basis :: duplicate_risk_basis
  dra_retry_intent_digest :: digest

definition duplicate_risk_acceptance_digest :: "duplicate_risk_acceptance \<Rightarrow> digest result" where
  "duplicate_risk_acceptance_digest a =
     bind_result (duplicate_risk_basis_digest (dra_basis a)) (\<lambda>bd.
     canonical_digest ''qep.duplicate-risk-acceptance.v2''
       (JObj [(''basis_digest'', JStr (digest_value bd)),
              (''retry_intent_digest'', JStr (digest_value (dra_retry_intent_digest a)))]))"

record duplicate_risk_request =
  drq_scope :: string
  drq_key :: string
  drq_acceptance :: duplicate_risk_acceptance
  drq_requested_at :: datetime

definition check_duplicate_risk_request :: "duplicate_risk_request \<Rightarrow> domain_error option" where
  "check_duplicate_risk_request q =
     (let e = ''duplicate_risk_acceptance_request'' in first_some
     [require_nonempty_string e ''scope'' (drq_scope q),
      require_nonempty_string e ''key'' (drq_key q),
      require_utc e ''requested_at'' (drq_requested_at q)])"

definition duplicate_risk_request_digest :: "duplicate_risk_request \<Rightarrow> digest result" where
  "duplicate_risk_request_digest q =
     bind_result (duplicate_risk_acceptance_digest (drq_acceptance q)) (\<lambda>ad.
     canonical_digest ''qep.duplicate-risk-acceptance-request.v1''
       (JObj [(''scope'', JStr (drq_scope q)),
              (''key'', JStr (drq_key q)),
              (''acceptance_digest'', JStr (digest_value ad)),
              (''requested_at'', JStr (iso_z (drq_requested_at q)))]))"

record duplicate_risk_consumption =
  drc_scope :: string
  drc_key :: string
  drc_acceptance_digest :: digest
  drc_request_digest :: digest
  drc_consumed_at :: datetime

definition check_duplicate_risk_consumption :: "duplicate_risk_consumption \<Rightarrow> domain_error option" where
  "check_duplicate_risk_consumption c =
     (let e = ''duplicate_risk_acceptance_consumption'' in first_some
     [require_nonempty_string e ''scope'' (drc_scope c),
      require_nonempty_string e ''key'' (drc_key c),
      require_utc e ''consumed_at'' (drc_consumed_at c)])"

definition mk_duplicate_risk_consumption :: "duplicate_risk_consumption \<Rightarrow> duplicate_risk_consumption result" where
  "mk_duplicate_risk_consumption c = raise_or (check_duplicate_risk_consumption c) c"

definition duplicate_risk_consumption_digest :: "duplicate_risk_consumption \<Rightarrow> digest result" where
  "duplicate_risk_consumption_digest c = canonical_digest ''qep.duplicate-risk-acceptance-consumption.v1''
     (JObj [(''scope'', JStr (drc_scope c)),
            (''key'', JStr (drc_key c)),
            (''acceptance_digest'', JStr (digest_value (drc_acceptance_digest c))),
            (''request_digest'', JStr (digest_value (drc_request_digest c))),
            (''consumed_at'', JStr (iso_z (drc_consumed_at c)))])"

text \<open>The two results: a new consumption, or the historical one as a replay.\<close>

datatype duplicate_risk_outcome =
    RiskConsumed duplicate_risk_consumption
  | RiskReplayed duplicate_risk_consumption

definition duplicate_risk_replay_digest :: "duplicate_risk_consumption \<Rightarrow> digest result" where
  "duplicate_risk_replay_digest c =
     bind_result (duplicate_risk_consumption_digest c) (\<lambda>d.
     canonical_digest ''qep.duplicate-risk-replay.v1''
       (JObj [(''historical_consumption_digest'', JStr (digest_value d))]))"

section \<open>Consumption\<close>

definition risk_invalid :: "string \<Rightarrow> string \<Rightarrow> domain_error" where
  "risk_invalid field reason = DomainValidationError ''duplicate_risk_acceptance_consumption'' field reason"

text \<open>
  With a prior consumption the request digest is computed on every branch; its computation contains
  that of the acceptance digest, so both raise together.
\<close>

definition resolve_prior ::
  "duplicate_risk_request \<Rightarrow> duplicate_risk_consumption \<Rightarrow> duplicate_risk_outcome result" where
  "resolve_prior q prior =
     bind_result (duplicate_risk_request_digest q) (\<lambda>rd.
     bind_result (duplicate_risk_acceptance_digest (drq_acceptance q)) (\<lambda>ad.
     if drc_scope prior = drq_scope q \<and> drc_key prior = drq_key q \<and> drc_acceptance_digest prior = ad \<and>
        drc_request_digest prior = rd
     then Inr (RiskReplayed prior)
     else Inl (IdempotencyConflict (drq_scope q) (drq_key q) (drc_request_digest prior) rd)))"

definition consume_duplicate_risk_acceptance ::
  "duplicate_risk_request \<Rightarrow> duplicate_risk_consumption option \<Rightarrow> duplicate_risk_outcome result" where
  "consume_duplicate_risk_acceptance q prior =
     (case prior of
        Some p \<Rightarrow> resolve_prior q p
      | None \<Rightarrow>
          if instant (drb_expires_at (dra_basis (drq_acceptance q))) \<le> instant (drq_requested_at q)
          then Inl (risk_invalid ''requested_at'' ''acceptance_expired'')
          else if instant (drq_requested_at q) < instant (drb_accepted_at (dra_basis (drq_acceptance q)))
          then Inl (risk_invalid ''requested_at'' ''before_acceptance'')
          else
            bind_result (duplicate_risk_acceptance_digest (drq_acceptance q)) (\<lambda>ad.
            bind_result (duplicate_risk_request_digest q) (\<lambda>rd.
            map_result RiskConsumed (mk_duplicate_risk_consumption
              \<lparr>drc_scope = drq_scope q, drc_key = drq_key q, drc_acceptance_digest = ad,
               drc_request_digest = rd, drc_consumed_at = drq_requested_at q\<rparr>))))"

section \<open>Histories of one acceptance slot\<close>

text \<open>
  The caller keeps the consumption and passes it as \<open>prior\<close> from then on; a request that fails or is
  replayed stores nothing.
\<close>

definition risk_slot_step ::
  "duplicate_risk_consumption option \<Rightarrow> duplicate_risk_request \<Rightarrow> duplicate_risk_consumption option" where
  "risk_slot_step prior q =
     (case consume_duplicate_risk_acceptance q prior of Inr (RiskConsumed c) \<Rightarrow> Some c | _ \<Rightarrow> prior)"

fun risk_answers ::
  "duplicate_risk_consumption option \<Rightarrow> duplicate_risk_request list \<Rightarrow> duplicate_risk_outcome result list" where
  "risk_answers prior [] = []"
| "risk_answers prior (q # qs) =
     consume_duplicate_risk_acceptance q prior # risk_answers (risk_slot_step prior q) qs"

lemma consume_fresh_Inr:
  "consume_duplicate_risk_acceptance q None = Inr out \<longleftrightarrow>
   (\<exists>ad rd. instant (drb_accepted_at (dra_basis (drq_acceptance q))) \<le> instant (drq_requested_at q) \<and>
      instant (drq_requested_at q) < instant (drb_expires_at (dra_basis (drq_acceptance q))) \<and>
      duplicate_risk_acceptance_digest (drq_acceptance q) = Inr ad \<and> duplicate_risk_request_digest q = Inr rd \<and>
      \<not> blank (drq_scope q) \<and> \<not> blank (drq_key q) \<and> is_utc (drq_requested_at q) \<and>
      out = RiskConsumed \<lparr>drc_scope = drq_scope q, drc_key = drq_key q, drc_acceptance_digest = ad,
        drc_request_digest = rd, drc_consumed_at = drq_requested_at q\<rparr>)"
  by (auto simp: consume_duplicate_risk_acceptance_def mk_duplicate_risk_consumption_def
      check_duplicate_risk_consumption_def Let_def result_simps)

lemma consume_prior_Inr:
  "consume_duplicate_risk_acceptance q (Some p) = Inr out \<longleftrightarrow>
     out = RiskReplayed p \<and> drc_scope p = drq_scope q \<and> drc_key p = drq_key q \<and>
     duplicate_risk_acceptance_digest (drq_acceptance q) = Inr (drc_acceptance_digest p) \<and>
     duplicate_risk_request_digest q = Inr (drc_request_digest p)"
  by (auto simp: consume_duplicate_risk_acceptance_def resolve_prior_def result_simps)

lemma risk_slot_kept: "risk_slot_step (Some p) q = Some p"
  using consume_prior_Inr [of q p] by (auto simp: risk_slot_step_def split: sum.splits duplicate_risk_outcome.splits)

lemma risk_slot_fold_kept: "foldl risk_slot_step (Some p) qs = Some p"
  by (induction qs) (simp_all add: risk_slot_kept)

lemma length_risk_answers [simp]: "length (risk_answers prior qs) = length qs"
  by (induction qs arbitrary: prior) auto

text \<open>An answer depends on the requests before it only through the stored consumption.\<close>

lemma risk_answers_nth:
  "i < length qs \<Longrightarrow>
   risk_answers prior qs ! i = consume_duplicate_risk_acceptance (qs ! i) (foldl risk_slot_step prior (take i qs))"
  by (induction qs arbitrary: prior i) (auto simp: nth_Cons split: nat.splits)

lemma risk_slot_after:
  assumes "i < j" "j < length qs" "risk_answers None qs ! i = Inr out"
  shows "\<exists>c. foldl risk_slot_step None (take j qs) = Some c \<and> (out = RiskConsumed c \<or> out = RiskReplayed c)"
proof -
  define s where "s = foldl risk_slot_step None (take i qs)"
  have i: "consume_duplicate_risk_acceptance (qs ! i) s = Inr out"
    using assms risk_answers_nth [of i qs None] by (simp add: s_def)
  have "take j qs = take i (take j qs) @ take j qs ! i # drop (Suc i) (take j qs)"
    using assms(1,2) by (intro id_take_nth_drop) simp
  then have split: "take j qs = take i qs @ qs ! i # drop (Suc i) (take j qs)"
    using assms(1) by (simp add: min_def)
  have j: "foldl risk_slot_step None (take j qs) =
      foldl risk_slot_step (risk_slot_step s (qs ! i)) (drop (Suc i) (take j qs))"
    by (subst split) (simp add: s_def)
  show ?thesis
  proof (cases s)
    case None
    then obtain c where "out = RiskConsumed c" using i unfolding None consume_fresh_Inr by blast
    then show ?thesis using i None by (simp add: j risk_slot_step_def risk_slot_fold_kept)
  next
    case (Some p)
    then have "out = RiskReplayed p" using i unfolding Some consume_prior_Inr by blast
    then show ?thesis using Some by (simp add: j risk_slot_kept risk_slot_fold_kept)
  qed
qed

end
