(* ===== verification/Review_Properties.thy ===== *)
theory Review_Properties
  imports Unknown_Review Duplicate_Risk
begin

text \<open>
  Properties of the two authorities around an unknown Attempt: the review-start policy and the
  single-use acceptance of a duplicate risk.
\<close>

section \<open>Review start\<close>

text \<open>
  The review policy escalates exactly once the start is late and never takes a verdict back. An
  evaluation that succeeds at one time succeeds, with the same facts, at every later time. It is
  breached exactly when the review was not started within 24 hours of the observation; then it
  notifies the suite owner and the platform on-call, in this order, and writes both audit facts, and
  otherwise it says nothing. A started or breached review keeps its status; a pending one becomes
  breached exactly when the deadline passes. The reviewer is neither the triggering actor nor the
  suite owner.
\<close>

theorem unknown_review_escalates:
  assumes "evaluate_unknown_review run att ob trigger owner oncall reviewer started t = Inr v"
    "is_utc t'" "instant t \<le> instant t'"
  shows "\<exists>w. evaluate_unknown_review run att ob trigger owner oncall reviewer started t' = Inr w \<and>
      (ure_status w = ReviewSlaBreached \<longleftrightarrow>
         instant (uo_recorded_at ob) + review_start_sla < instant (case started of None \<Rightarrow> t' | Some s \<Rightarrow> s)) \<and>
      (ure_status w = ReviewPending \<longrightarrow> reviewer = None) \<and> (ure_status w = ReviewStarted \<longrightarrow> reviewer \<noteq> None) \<and>
      map (\<lambda>n. (urn_kind n, urn_recipient_actor_id n)) (ure_notifications w) =
        (if ure_status w = ReviewSlaBreached
         then [(NotifySuiteOwner, ur_actor_id owner), (NotifyPlatformOnCall, ur_actor_id oncall)] else []) \<and>
      map uraf_kind (ure_audit_facts w) =
        (if ure_status w = ReviewSlaBreached then [AuditSecurity, AuditOperations] else []) \<and>
      (ure_status v \<noteq> ReviewPending \<longrightarrow> ure_status w = ure_status v) \<and>
      (\<forall>a. reviewer = Some a \<longrightarrow> ur_actor_id a \<noteq> trigger \<and> ur_actor_id a \<noteq> ur_actor_id owner)"
proof -
  obtain request where r: "check_review_inputs run att ob trigger owner oncall reviewer t = None"
      "check_unknown_review_request request = None" "validate_reviewer_start request reviewer started t = None"
      "review_verdict request reviewer started t = Inr v"
    and q: "urq_triggering_actor_id request = trigger" "urq_suite_owner_actor_id request = ur_actor_id owner"
      "urq_platform_on_call_actor_id request = ur_actor_id oncall" "urq_requested_at request = uo_recorded_at ob"
      "urq_review_start_deadline request = plus_delta (uo_recorded_at ob) review_start_sla"
    and later: "\<And>u. check_review_inputs run att ob trigger owner oncall reviewer u = None \<Longrightarrow>
      validate_reviewer_start request reviewer started u = None \<Longrightarrow>
      evaluate_unknown_review run att ob trigger owner oncall reviewer started u = review_verdict request reviewer started u"
    using assms(1) by (auto simp: evaluate_unknown_review_def mk_unknown_review_request_def result_simps)
  have inputs: "check_review_inputs run att ob trigger owner oncall reviewer t' = None"
    using r(1) assms(2,3) by (simp add: check_review_inputs_def Let_def result_simps)
  have start: "validate_reviewer_start request reviewer started t' = None"
    using r(3) assms(3) by (auto simp: validate_reviewer_start_def result_simps split: option.splits if_splits)
  have ind: "\<forall>a. reviewer = Some a \<longrightarrow> ur_actor_id a \<noteq> trigger \<and> ur_actor_id a \<noteq> ur_actor_id owner"
    and "is_utc t"
    using r(1) by (auto simp: check_review_inputs_def Let_def result_simps)
  have none: "started = None \<longleftrightarrow> reviewer = None"
    using r(3) by (auto simp: validate_reviewer_start_def result_simps split: option.splits if_splits)
  have apart: "\<forall>a. reviewer = Some a \<longrightarrow>
      ur_actor_id a \<notin> {urq_triggering_actor_id request, urq_suite_owner_actor_id request}"
    using ind by (simp add: q)
  have at_t': "review_breached request started t' \<longleftrightarrow>
      instant (uo_recorded_at ob) + review_start_sla < instant (case started of None \<Rightarrow> t' | Some s \<Rightarrow> s)"
    by (simp add: review_breached_def q)
  have mono: "review_breached request started t \<longrightarrow> review_breached request started t'"
      "started \<noteq> None \<longrightarrow> review_breached request started t = review_breached request started t'"
    using assms(3) by (auto simp: review_breached_def split: option.splits)
  obtain w where w: "review_verdict request reviewer started t' = Inr w"
      "ure_status w = (if review_breached request started t' then ReviewSlaBreached
        else if reviewer = None then ReviewPending else ReviewStarted)"
      "map (\<lambda>n. (urn_kind n, urn_recipient_actor_id n)) (ure_notifications w) =
        (if review_breached request started t'
         then [(NotifySuiteOwner, ur_actor_id owner), (NotifyPlatformOnCall, ur_actor_id oncall)] else [])"
      "map uraf_kind (ure_audit_facts w) =
        (if review_breached request started t' then [AuditSecurity, AuditOperations] else [])"
    using review_verdict_Inr [OF assms(2) r(2) start apart] by (auto simp: q)
  have v: "ure_status v = (if review_breached request started t then ReviewSlaBreached
        else if reviewer = None then ReviewPending else ReviewStarted)"
    using review_verdict_Inr [OF \<open>is_utc t\<close> r(2,3) apart] r(4) by auto
  have "evaluate_unknown_review run att ob trigger owner oncall reviewer started t' = Inr w"
    using later [OF inputs start] w(1) by simp
  then show ?thesis
    using w(2-4) v mono none ind at_t' by (intro exI [of _ w]) simp
qed

definition sample_observation :: unknown_observation where
  "sample_observation = \<lparr>uo_id = ''u'', uo_reason = WorkerLostAfterCommit, uo_source = Coordinator,
     uo_review_basis_digest = Digest ''d'', uo_recorded_at = utc 0\<rparr>"

definition sample_actor :: "string \<Rightarrow> unknown_review_role \<Rightarrow> unknown_review_actor" where
  "sample_actor i r = \<lparr>ur_actor_id = i, ur_role = r\<rparr>"

lemma sample_review_succeeds:
  "\<exists>v. evaluate_unknown_review ''r'' ''a'' sample_observation ''t'' (sample_actor ''o'' RoleSuiteOwner)
     (sample_actor ''p'' RolePlatformOnCall) None None (utc 5) = Inr v"
proof -
  obtain od where od: "unknown_observation_digest sample_observation = Inr od"
    using unknown_observation_digest_total by blast
  have t: "uo_recorded_at sample_observation = utc 0" by (simp add: sample_observation_def)
  define r where "r = \<lparr>urq_run_id = ''r'', urq_attempt_id = ''a'', urq_observation_digest = od,
        urq_triggering_actor_id = ''t'', urq_suite_owner_actor_id = ''o'', urq_platform_on_call_actor_id = ''p'',
        urq_requested_at = utc 0, urq_review_start_deadline = plus_delta (utc 0) review_start_sla\<rparr>"
  have ok: "check_unknown_review_request r = None" "validate_reviewer_start r None None (utc 5) = None"
    by (simp_all add: r_def check_unknown_review_request_def validate_reviewer_start_def Let_def result_simps blank_eval)
  have "check_review_inputs ''r'' ''a'' sample_observation ''t'' (sample_actor ''o'' RoleSuiteOwner)
      (sample_actor ''p'' RolePlatformOnCall) None (utc 5) = None"
    by (simp add: t sample_actor_def check_review_inputs_def require_actor_def Let_def result_simps blank_eval)
  then have "evaluate_unknown_review ''r'' ''a'' sample_observation ''t'' (sample_actor ''o'' RoleSuiteOwner)
      (sample_actor ''p'' RolePlatformOnCall) None None (utc 5) = review_verdict r None None (utc 5)"
    by (simp add: evaluate_unknown_review_def od t sample_actor_def mk_unknown_review_request_def ok flip: r_def)
  then show ?thesis using review_verdict_Inr [OF _ ok] by auto
qed

theorem unknown_review_escalates_witness:
  "\<exists>w. evaluate_unknown_review ''r'' ''a'' sample_observation ''t'' (sample_actor ''o'' RoleSuiteOwner)
     (sample_actor ''p'' RolePlatformOnCall) None None (utc (review_start_sla + 1)) = Inr w \<and>
     ure_status w = ReviewSlaBreached"
proof -
  obtain v where "evaluate_unknown_review ''r'' ''a'' sample_observation ''t'' (sample_actor ''o'' RoleSuiteOwner)
      (sample_actor ''p'' RolePlatformOnCall) None None (utc 5) = Inr v"
    using sample_review_succeeds by blast
  then show ?thesis
    using unknown_review_escalates [of "''r''" "''a''" sample_observation "''t''" "sample_actor ''o'' RoleSuiteOwner"
        "sample_actor ''p'' RolePlatformOnCall" None None "utc 5" v "utc (review_start_sla + 1)"]
    by (auto simp: sample_observation_def review_start_sla_def)
qed

text \<open>
  The validator of an evaluation does not look at the clock for a review that has not started: it
  accepts a pending one after the deadline.
\<close>

lemma review_validator_misses_breach:
  "is_utc t \<Longrightarrow> check_unknown_review_evaluation \<lparr>ure_request = r, ure_status = ReviewPending, ure_reviewer = None,
     ure_notifications = [], ure_audit_facts = [], ure_evaluated_at = t, ure_review_started_at = None\<rparr> = None"
  by (simp add: check_unknown_review_evaluation_def validate_reviewer_start_def status_matrix_check_def result_simps)

section \<open>Duplicate risk\<close>

text \<open>
  C35: An acceptance is consumed at most once, inside its hour and under a second person. In every
  sequence of requests for one slot, when some answer is a new consumption then the request was made
  after the acceptance and less than one hour later, its reviewer is neither the suite owner nor the
  original executor nor the original trigger; every earlier answer is an error, and every later answer
  is an error or the replay of this very consumption to a request with the same scope, key and digest.
\<close>

theorem duplicate_risk_consumed_once:
  assumes "i < length qs" "risk_answers None qs ! i = Inr (RiskConsumed c)"
    "check_duplicate_risk_basis (dra_basis (drq_acceptance (qs ! i))) = None"
  shows "let b = dra_basis (drq_acceptance (qs ! i)) in
    instant (drb_accepted_at b) \<le> instant (drc_consumed_at c) \<and>
    instant (drc_consumed_at c) < instant (drb_accepted_at b) + 3600 * 1000000 \<and>
    drb_reviewer_id b \<notin> {drb_suite_owner_id b, drb_original_executor_id b, drb_original_trigger_actor_id b} \<and>
    (\<forall>j < length qs. j \<noteq> i \<longrightarrow> (\<exists>e. risk_answers None qs ! j = Inl e) \<or>
       i < j \<and> risk_answers None qs ! j = Inr (RiskReplayed c) \<and> drq_scope (qs ! j) = drc_scope c \<and>
       drq_key (qs ! j) = drc_key c \<and> duplicate_risk_request_digest (qs ! j) = Inr (drc_request_digest c))"
proof -
  define b where "b = dra_basis (drq_acceptance (qs ! i))"
  define slot where "slot = foldl risk_slot_step None (take i qs)"
  have i: "consume_duplicate_risk_acceptance (qs ! i) slot = Inr (RiskConsumed c)"
    using assms(1,2) risk_answers_nth [of i qs None] by (simp add: slot_def)
  then have fresh: "slot = None" by (cases slot) (auto simp: consume_prior_Inr)
  then have now: "drc_consumed_at c = drq_requested_at (qs ! i)"
      "instant (drb_accepted_at b) \<le> instant (drq_requested_at (qs ! i))"
      "instant (drq_requested_at (qs ! i)) < instant (drb_expires_at b)"
    using i unfolding fresh consume_fresh_Inr b_def by auto
  have basis: "instant (drb_expires_at b) = instant (drb_accepted_at b) + 3600 * 1000000"
      "drb_reviewer_id b \<notin> {drb_suite_owner_id b, drb_original_executor_id b, drb_original_trigger_actor_id b}"
    using assms(3) by (auto simp: check_duplicate_risk_basis_def b_def Let_def result_simps)
  have others: "(\<exists>e. risk_answers None qs ! j = Inl e) \<or>
       i < j \<and> risk_answers None qs ! j = Inr (RiskReplayed c) \<and> drq_scope (qs ! j) = drc_scope c \<and>
       drq_key (qs ! j) = drc_key c \<and> duplicate_risk_request_digest (qs ! j) = Inr (drc_request_digest c)"
    if j: "j < length qs" "j \<noteq> i" for j
  proof (cases "risk_answers None qs ! j")
    case (Inr out)
    have "\<not> j < i" using risk_slot_after [OF _ assms(1) Inr] fresh by (auto simp: slot_def)
    then have ij: "i < j" using j(2) by simp
    then have "foldl risk_slot_step None (take j qs) = Some c" using risk_slot_after [OF ij j(1) assms(2)] by auto
    then have "consume_duplicate_risk_acceptance (qs ! j) (Some c) = Inr out"
      using Inr j(1) risk_answers_nth [of j qs None] by simp
    then show ?thesis using ij Inr unfolding consume_prior_Inr by auto
  qed simp
  show ?thesis using now basis others by (simp add: Let_def b_def)
qed

definition sample_risk_basis :: duplicate_risk_basis where
  "sample_risk_basis = \<lparr>drb_id = ''b'', drb_run_id = ''r'', drb_source_attempt_id = ''a'', drb_source_attempt_no = 1,
     drb_source_fence = 1, drb_run_item_set_digest = Digest ''i'', drb_sut_identity = ''s'', drb_sut_digest = Digest ''s'',
     drb_target_grant_identity = ''g'', drb_target_grant_version = 1, drb_target_grant_digest = Digest ''g'',
     drb_suite_owner_id = ''o'', drb_reviewer_id = ''v'', drb_original_executor_id = ''x'',
     drb_original_trigger_actor_id = ''t'', drb_accepted_at = utc 0, drb_expires_at = utc 3600000000\<rparr>"

definition sample_risk_request :: duplicate_risk_request where
  "sample_risk_request = \<lparr>drq_scope = ''s'', drq_key = ''k'',
     drq_acceptance = \<lparr>dra_basis = sample_risk_basis, dra_retry_intent_digest = Digest ''i''\<rparr>, drq_requested_at = utc 7\<rparr>"

lemma sample_risk_basis_valid: "check_duplicate_risk_basis sample_risk_basis = None"
  by (simp add: check_duplicate_risk_basis_def sample_risk_basis_def Let_def result_simps blank_eval)

lemma sample_risk_consumed:
  "\<exists>c. consume_duplicate_risk_acceptance sample_risk_request None = Inr (RiskConsumed c)"
  by (simp add: consume_fresh_Inr duplicate_risk_request_digest_def duplicate_risk_acceptance_digest_def
      duplicate_risk_basis_digest_def result_simps)
    (simp add: sample_risk_request_def sample_risk_basis_def safe_int_def blank_eval)

theorem duplicate_risk_consumed_once_witness:
  "\<exists>c. consume_duplicate_risk_acceptance sample_risk_request None = Inr (RiskConsumed c) \<and>
     instant (drc_consumed_at c) < 3600000000 \<and>
     (\<forall>out. risk_answers None [sample_risk_request, sample_risk_request] ! 1 = Inr out \<longrightarrow> out = RiskReplayed c)"
proof -
  obtain c where c: "consume_duplicate_risk_acceptance sample_risk_request None = Inr (RiskConsumed c)"
    using sample_risk_consumed by blast
  then show ?thesis
    using duplicate_risk_consumed_once [of 0 "[sample_risk_request, sample_risk_request]" c] sample_risk_basis_valid
    by (fastforce simp: Let_def sample_risk_request_def sample_risk_basis_def)
qed

end
