(* ===== verification/Binary64.thy ===== *)
theory Binary64
  imports Resource_Profile Complex_Main
begin

text \<open>
  Python floats as rationals: every operation is the exact one followed by \<open>fl\<close>, rounding to a
  53-bit mantissa with ties to even. The exponent range of doubles is not limited here. The lemmas
  used of \<open>fl\<close> are that it is monotone and exact on small integers.
\<close>

definition round_even :: "rat \<Rightarrow> int" where
  "round_even y =
     (let q = \<lfloor>y\<rfloor>; r = y - of_int q in if r < 1 / 2 \<or> (r = 1 / 2 \<and> even q) then q else q + 1)"

definition exponent2 :: "rat \<Rightarrow> int" where
  "exponent2 x = (let (a, b) = quotient_of x in quotient_exponent a b)"

definition fl_pos :: "rat \<Rightarrow> rat" where
  "fl_pos x = (let u = 2 powi (exponent2 x - 52) in of_int (round_even (x / u)) * u)"

definition fl :: "rat \<Rightarrow> rat" where
  "fl x = (if x = 0 then 0 else if x < 0 then - fl_pos (- x) else fl_pos x)"

section \<open>Rounding to an integer\<close>

lemma round_even_of_int [simp]: "round_even (of_int n) = n"
  by (simp add: round_even_def Let_def)

lemma round_even_bounds: "\<lfloor>y\<rfloor> \<le> round_even y" "round_even y \<le> \<lceil>y\<rceil>"
proof -
  show "\<lfloor>y\<rfloor> \<le> round_even y" by (simp add: round_even_def Let_def)
  show "round_even y \<le> \<lceil>y\<rceil>"
  proof (cases "y = of_int \<lfloor>y\<rfloor>")
    case True
    then show ?thesis by (metis ceiling_of_int order_refl round_even_of_int)
  next
    case False
    then have "\<lceil>y\<rceil> = \<lfloor>y\<rfloor> + 1" by (simp add: ceiling_altdef)
    then show ?thesis by (simp add: round_even_def Let_def)
  qed
qed

lemma round_even_mono:
  assumes "y \<le> z"
  shows "round_even y \<le> round_even z"
proof (cases "\<lfloor>y\<rfloor> = \<lfloor>z\<rfloor>")
  case True
  then show ?thesis using assms by (auto simp: round_even_def Let_def)
next
  case False
  then have "\<lfloor>y\<rfloor> + 1 \<le> \<lfloor>z\<rfloor>" using floor_mono [OF assms] by linarith
  moreover have "\<lceil>y\<rceil> \<le> \<lfloor>y\<rfloor> + 1" by (simp add: ceiling_altdef)
  ultimately show ?thesis using round_even_bounds(2) [of y] round_even_bounds(1) [of z] by linarith
qed

section \<open>The exponent\<close>

lemma quotient_exponent_upper:
  assumes "0 < a" "0 < b"
  shows "\<not> at_least_pow2 a b (quotient_exponent a b + 1)"
proof (cases "at_least_pow2 a b (bitlen a - bitlen b)")
  case False
  then show ?thesis by (simp add: quotient_exponent_def Let_def)
next
  case True
  let ?k = "bitlen a - bitlen b + 1"
  have a: "a < 2 ^ nat (bitlen a)" and b: "2 ^ nat (bitlen b - 1) \<le> b"
    using bitlen_bounds [OF assms(1)] bitlen_bounds [OF assms(2)] by auto
  have p: "1 \<le> bitlen a" "1 \<le> bitlen b" using assms by (simp_all add: bitlen_ge_iff_power)
  have e: "nat (bitlen b - 1) + nat ?k = nat (bitlen a) + nat (- ?k)" using p by linarith
  have "a * 2 ^ nat (- ?k) < 2 ^ nat (bitlen a) * 2 ^ nat (- ?k)" using a by simp
  also have "\<dots> = 2 ^ nat (bitlen b - 1) * 2 ^ nat ?k" by (simp only: power_add [symmetric] e)
  also have "\<dots> \<le> b * 2 ^ nat ?k" using b by simp
  finally show ?thesis using True by (simp add: quotient_exponent_def Let_def at_least_pow2_def)
qed

lemma at_least_pow2_quotient:
  assumes "0 < b"
  shows "at_least_pow2 a b e \<longleftrightarrow> 2 powi e \<le> (of_int a / of_int b :: rat)"
proof -
  have b: "0 < (of_int b :: rat)" using assms by simp
  have "at_least_pow2 a b e \<longleftrightarrow> (of_int (b * 2 ^ nat e) :: rat) \<le> of_int (a * 2 ^ nat (- e))"
    unfolding at_least_pow2_def of_int_le_iff ..
  also have "\<dots> \<longleftrightarrow> of_int b * 2 powi e \<le> (of_int a :: rat)"
    by (cases "0 \<le> e") (simp_all add: power_int_def field_simps)
  also have "\<dots> \<longleftrightarrow> 2 powi e \<le> (of_int a / of_int b :: rat)"
    using b by (simp add: field_simps)
  finally show ?thesis .
qed

lemma exponent2_bounds:
  assumes "0 < x"
  shows "2 powi exponent2 x \<le> x" "x < 2 powi (exponent2 x + 1)"
proof -
  obtain a b where q: "quotient_of x = (a, b)" by (cases "quotient_of x")
  then have b: "0 < b" and x: "x = of_int a / of_int b"
    using quotient_of_denom_pos quotient_of_div by blast+
  have a: "0 < a" using assms b by (simp add: x zero_less_divide_iff)
  have e: "exponent2 x = quotient_exponent a b" by (simp add: exponent2_def q)
  show "2 powi exponent2 x \<le> x" "x < 2 powi (exponent2 x + 1)"
    unfolding e using quotient_exponent_lower [OF a b] quotient_exponent_upper [OF a b]
    by (simp_all add: x at_least_pow2_quotient [OF b])
qed

lemma exponent2_mono:
  assumes "0 < x" "x \<le> y"
  shows "exponent2 x \<le> exponent2 y"
proof (rule ccontr)
  assume "\<not> ?thesis"
  then have "2 powi (exponent2 y + 1) \<le> (2 powi exponent2 x :: rat)" by (intro power_int_increasing) simp_all
  then show False using exponent2_bounds [of x] exponent2_bounds [of y] assms by linarith
qed

section \<open>Rounding\<close>

text \<open>The rounded value stays in its binade.\<close>

lemma fl_pos_bounds:
  assumes "0 < x"
  shows "2 powi exponent2 x \<le> fl_pos x" "fl_pos x \<le> 2 powi (exponent2 x + 1)"
proof -
  let ?e = "exponent2 x"
  let ?u = "2 powi (?e - 52) :: rat"
  have u: "0 < ?u" by simp
  have p: "2 powi ?e = of_int (2 ^ 52) * ?u" "2 powi (?e + 1) = of_int (2 ^ 53) * ?u"
    using power_int_add [of "2::rat" 52 "?e - 52"] power_int_add [of "2::rat" 53 "?e - 52"]
    by (simp_all add: algebra_simps)
  have "of_int (2 ^ 52) \<le> x / ?u" using exponent2_bounds(1) [OF assms] u unfolding p(1) by (simp add: pos_le_divide_eq)
  then have "2 ^ 52 \<le> round_even (x / ?u)" using round_even_mono round_even_of_int by metis
  then show "2 powi ?e \<le> fl_pos x"
    unfolding p(1) fl_pos_def Let_def by (intro mult_right_mono) (simp_all only: of_int_le_iff, simp)
  have "x / ?u \<le> of_int (2 ^ 53)"
    using exponent2_bounds(2) [OF assms] u unfolding p(2) by (simp add: pos_divide_le_eq)
  then have "round_even (x / ?u) \<le> 2 ^ 53" using round_even_mono round_even_of_int by metis
  then show "fl_pos x \<le> 2 powi (?e + 1)"
    unfolding p(2) fl_pos_def Let_def by (intro mult_right_mono) (simp_all only: of_int_le_iff, simp)
qed

lemma fl_pos_positive: "0 < x \<Longrightarrow> 0 < fl_pos x"
  using fl_pos_bounds(1) [of x] zero_less_power_int [of "2::rat" "exponent2 x"] by linarith

lemma fl_pos_mono:
  assumes "0 < x" "x \<le> y"
  shows "fl_pos x \<le> fl_pos y"
proof (cases "exponent2 x = exponent2 y")
  case True
  have "round_even (x / 2 powi (exponent2 y - 52)) \<le> round_even (y / 2 powi (exponent2 y - 52))"
    using assms(2) by (intro round_even_mono divide_right_mono) simp_all
  then show ?thesis unfolding fl_pos_def Let_def True by (intro mult_right_mono) simp_all
next
  case False
  then have "exponent2 x + 1 \<le> exponent2 y" using exponent2_mono [OF assms] by simp
  then have "2 powi (exponent2 x + 1) \<le> (2 powi exponent2 y :: rat)" by (intro power_int_increasing) simp_all
  then show ?thesis using fl_pos_bounds(2) [OF assms(1)] fl_pos_bounds(1) [of y] assms by linarith
qed

lemma fl_mono:
  assumes "x \<le> y"
  shows "fl x \<le> fl y"
proof -
  consider "0 < x" | "x \<le> 0" "0 \<le> y" | "y < 0" by linarith
  then show ?thesis
  proof cases
    case 1
    then show ?thesis using fl_pos_mono [OF 1 assms] assms by (simp add: fl_def)
  next
    case 2
    then show ?thesis using fl_pos_positive [of y] fl_pos_positive [of "- x"] by (auto simp: fl_def)
  next
    case 3
    then show ?thesis using fl_pos_mono [of "- y" "- x"] assms by (simp add: fl_def)
  qed
qed

lemma fl_0 [simp]: "fl 0 = 0"
  by (simp add: fl_def)

lemma fl_pos_int:
  assumes "0 < n" "n < 2 ^ 53"
  shows "fl_pos (of_int n) = of_int n"
proof -
  let ?e = "exponent2 (of_int n)"
  have "(2::rat) powi ?e \<le> of_int n" using exponent2_bounds(1) [of "of_int n"] assms(1) by simp
  also have "\<dots> < 2 powi 53" using assms(2) by (metis of_int_less_iff of_int_numeral of_int_power power_int_numeral)
  finally have "?e < 53" by (metis not_less numeral_One one_le_numeral power_int_increasing)
  then obtain k where k: "52 - ?e = int k" using zero_le_imp_eq_int [of "52 - ?e"] by auto
  have u: "2 powi (?e - 52) = (1 / 2 ^ k :: rat)"
  proof -
    have "?e - 52 = - int k" using k by simp
    then show ?thesis by (simp add: power_int_minus divide_inverse)
  qed
  have "of_int n / (1 / 2 ^ k) = (of_int (n * 2 ^ k) :: rat)" by simp
  then show ?thesis unfolding fl_pos_def Let_def u by (simp only: round_even_of_int) simp
qed

lemma fl_int:
  assumes "\<bar>n\<bar> < 2 ^ 53"
  shows "fl (of_int n) = of_int n"
  using assms fl_pos_int [of n] fl_pos_int [of "- n"] by (auto simp: fl_def)

lemma fl_nonneg: "0 \<le> x \<Longrightarrow> 0 \<le> fl x"
  using fl_mono [of 0 x] by simp

lemma fl_positive: "0 < x \<Longrightarrow> 0 < fl x"
  by (simp add: fl_def fl_pos_positive)

section \<open>Timestamps\<close>

text \<open>\<open>datetime.timestamp()\<close>: whole microseconds divided by a million.\<close>

definition timestamp :: "datetime \<Rightarrow> rat" where
  "timestamp d = fl (of_int (instant d) / 1000000)"

lemma timestamp_mono: "instant a \<le> instant b \<Longrightarrow> timestamp a \<le> timestamp b"
  unfolding timestamp_def by (intro fl_mono divide_right_mono) simp_all

lemma timestamp_nonneg: "0 \<le> instant a \<Longrightarrow> 0 \<le> timestamp a"
  unfolding timestamp_def by (intro fl_nonneg) simp

lemma timestamp_seconds: "\<bar>s\<bar> < 2 ^ 53 \<Longrightarrow> timestamp (utc (s * 1000000)) = of_int s"
  by (simp add: timestamp_def fl_int)

end
