(* ===== verification/Rate_Limit.thy ===== *)
theory Rate_Limit
  imports Binary64 Prelude
begin

text \<open>
  The sliding-window rate limiter (\<open>src/qarunner/core/rate_limit.py\<close>). The table keeps for every
  identity the timestamps of its accepted calls, least recently used identity first. A refusal is an
  exception that leaves the pruned table behind, so an operation returns the table and an answer.
\<close>

record rate_limiter =
  rl_max_calls :: int
  rl_window_seconds :: rat
  rl_max_identities :: int
  rl_hits :: "(string \<times> rat list) list"

text \<open>\<open>RateKeyError\<close>: \<open>popitem\<close> on an empty table, when no identity at all may be kept.\<close>

datatype rate_answer = RateAllowed | RateLimited int | RateKeyError

fun evict_oldest :: "(string \<times> 'v) list \<Rightarrow> (string \<times> 'v) list option" where
  "evict_oldest [] = None"
| "evict_oldest (e # es) = Some es"

text \<open>Lookup, eviction and \<open>move_to_end\<close>: the identity's timestamps and the other entries.\<close>

definition rate_entry :: "string \<Rightarrow> rate_limiter \<Rightarrow> (rat list \<times> (string \<times> rat list) list) option" where
  "rate_entry key l =
     (case map_of (rl_hits l) key of
        Some hits \<Rightarrow> Some (hits, remove_key key (rl_hits l))
      | None \<Rightarrow>
          if rl_max_identities l \<le> int (length (rl_hits l))
          then map_option (Pair []) (evict_oldest (rl_hits l))
          else Some ([], rl_hits l))"

definition check_and_record :: "string \<Rightarrow> datetime \<Rightarrow> rate_limiter \<Rightarrow> rate_limiter \<times> rate_answer" where
  "check_and_record key clock_now l =
     (if rl_max_calls l \<le> 0 then (l, RateAllowed)
      else
        let now = timestamp clock_now; cutoff = fl (now - rl_window_seconds l) in
        case rate_entry key l of
          None \<Rightarrow> (l, RateKeyError)
        | Some (hits, others) \<Rightarrow>
            let kept = dropWhile (\<lambda>t. t \<le> cutoff) hits in
            if rl_max_calls l \<le> int (length kept)
            then (l\<lparr>rl_hits := others @ [(key, kept)]\<rparr>,
                  RateLimited (max 1 \<lceil>fl (fl (hd kept + rl_window_seconds l) - now)\<rceil>))
            else (l\<lparr>rl_hits := others @ [(key, kept @ [now])]\<rparr>, RateAllowed))"

fun rate_answers :: "rate_limiter \<Rightarrow> (string \<times> datetime) list \<Rightarrow> rate_answer list" where
  "rate_answers l [] = []"
| "rate_answers l ((key, now) # cs) =
     (let (l', a) = check_and_record key now l in a # rate_answers l' cs)"

section \<open>The specification\<close>

text \<open>
  The log of accepted calls decides: a call is accepted exactly when fewer than the maximum of calls of
  its identity were accepted within the window before it.
\<close>

definition window_count :: "rat \<Rightarrow> (string \<times> rat) list \<Rightarrow> string \<Rightarrow> rat \<Rightarrow> int" where
  "window_count w accepted key now =
     int (length (filter (\<lambda>(k, t). k = key \<and> fl (now - w) < t) accepted))"

fun window_answers :: "int \<Rightarrow> rat \<Rightarrow> (string \<times> rat) list \<Rightarrow> (string \<times> datetime) list \<Rightarrow> bool list" where
  "window_answers n w accepted [] = []"
| "window_answers n w accepted ((key, d) # cs) =
     (let ok = window_count w accepted key (timestamp d) < n in
      ok # window_answers n w (if ok then accepted @ [(key, timestamp d)] else accepted) cs)"

section \<open>Refinement\<close>

definition times_of :: "string \<Rightarrow> (string \<times> rat) list \<Rightarrow> rat list" where
  "times_of key accepted = map snd (filter (\<lambda>e. fst e = key) accepted)"

lemma times_of_append [simp]:
  "times_of key (xs @ [(k, t)]) = (if k = key then times_of key xs @ [t] else times_of key xs)"
  by (simp add: times_of_def)

lemma window_count_times:
  "window_count w accepted key now = int (length (filter (\<lambda>t. fl (now - w) < t) (times_of key accepted)))"
  by (induction accepted) (auto simp: window_count_def times_of_def)

text \<open>
  The table abstracts the log: it holds for every identity a final part of its accepted times, from
  which only times too old for the present were dropped.
\<close>

definition keeps_recent :: "rat \<Rightarrow> rat \<Rightarrow> rat list \<Rightarrow> rat list \<Rightarrow> bool" where
  "keeps_recent w now hits ts \<longleftrightarrow>
     sorted ts \<and> (\<forall>t \<in> set ts. t \<le> now) \<and> (\<exists>old. ts = old @ hits \<and> (\<forall>t \<in> set old. t \<le> fl (now - w)))"

definition entry_hits :: "string \<Rightarrow> (string \<times> rat list) list \<Rightarrow> rat list" where
  "entry_hits key table = (case map_of table key of Some hits \<Rightarrow> hits | None \<Rightarrow> [])"

definition limiter_refines ::
  "string set \<Rightarrow> rat \<Rightarrow> rate_limiter \<Rightarrow> (string \<times> rat) list \<Rightarrow> bool" where
  "limiter_refines K now l accepted \<longleftrightarrow>
     distinct (map fst (rl_hits l)) \<and> fst ` set (rl_hits l) \<subseteq> K \<and>
     (\<forall>key. keeps_recent (rl_window_seconds l) now (entry_hits key (rl_hits l)) (times_of key accepted))"

lemma keeps_recent_later:
  assumes "keeps_recent w now hits ts" "now \<le> now'"
  shows "keeps_recent w now' hits ts"
proof -
  have "fl (now - w) \<le> fl (now' - w)" using assms(2) by (intro fl_mono) simp
  then have "t \<le> fl (now - w) \<Longrightarrow> t \<le> fl (now' - w)" "t \<le> now \<Longrightarrow> t \<le> now'" for t
    using assms(2) by linarith+
  then show ?thesis using assms(1) unfolding keeps_recent_def by blast
qed

lemma dropWhile_sorted:
  "sorted hits \<Longrightarrow> dropWhile (\<lambda>t. t \<le> c) hits = filter (\<lambda>t. c < t) (hits :: rat list)"
proof (induction hits)
  case (Cons a hits)
  then show ?case by (auto simp: not_le filter_id_conv) (metis filter_True order_less_le_trans)
qed simp

lemma keeps_recent_prune:
  assumes "keeps_recent w now hits ts"
  shows "dropWhile (\<lambda>t. t \<le> fl (now - w)) hits = filter (\<lambda>t. fl (now - w) < t) ts"
    and "keeps_recent w now (dropWhile (\<lambda>t. t \<le> fl (now - w)) hits) ts"
proof -
  obtain old where o: "ts = old @ hits" "\<forall>t \<in> set old. t \<le> fl (now - w)" "sorted ts" "\<forall>t \<in> set ts. t \<le> now"
    using assms by (auto simp: keeps_recent_def)
  have "filter (\<lambda>t. fl (now - w) < t) old = []" using o(2) by (auto simp: filter_empty_conv)
  then show "dropWhile (\<lambda>t. t \<le> fl (now - w)) hits = filter (\<lambda>t. fl (now - w) < t) ts"
    using o(1,3) dropWhile_sorted [of hits] by (simp add: sorted_append)
  have "ts = (old @ takeWhile (\<lambda>t. t \<le> fl (now - w)) hits) @ dropWhile (\<lambda>t. t \<le> fl (now - w)) hits"
    using o(1) by simp
  then show "keeps_recent w now (dropWhile (\<lambda>t. t \<le> fl (now - w)) hits) ts"
    using o(2-4) unfolding keeps_recent_def by (metis Un_iff set_append set_takeWhileD)
qed

lemma keeps_recent_snoc:
  assumes "keeps_recent w now hits ts"
  shows "keeps_recent w now (hits @ [now]) (ts @ [now])"
  using assms unfolding keeps_recent_def by (fastforce simp: sorted_append)

lemma entry_hits_put:
  "entry_hits k (remove_key key table @ [(key, v)]) = (if k = key then v else entry_hits k table)"
  using map_of_put_last [of key v table] by (simp add: entry_hits_def put_last_def)

lemma limiter_refines_step:
  assumes "limiter_refines K now0 l accepted" "now0 \<le> timestamp d" "key \<in> K" "finite K"
    "int (card K) \<le> rl_max_identities l" "0 < rl_max_calls l" "check_and_record key d l = (l', a)"
  shows "let ok = window_count (rl_window_seconds l) accepted key (timestamp d) < rl_max_calls l in
    (a = RateAllowed \<longleftrightarrow> ok) \<and> (\<not> ok \<longrightarrow> (\<exists>n \<ge> 1. a = RateLimited n)) \<and>
    limiter_refines K (timestamp d) l' (if ok then accepted @ [(key, timestamp d)] else accepted) \<and>
    rl_max_calls l' = rl_max_calls l \<and> rl_window_seconds l' = rl_window_seconds l \<and>
    rl_max_identities l' = rl_max_identities l"
proof -
  let ?now = "timestamp d" and ?w = "rl_window_seconds l"
  let ?hits = "entry_hits key (rl_hits l)"
  let ?kept = "dropWhile (\<lambda>t. t \<le> fl (?now - ?w)) ?hits"
  have d: "distinct (map fst (rl_hits l))" "fst ` set (rl_hits l) \<subseteq> K"
    and recent: "\<And>k. keeps_recent ?w ?now (entry_hits k (rl_hits l)) (times_of k accepted)"
    using assms(1) keeps_recent_later [OF _ assms(2)] by (simp_all add: limiter_refines_def)
  have entry: "rate_entry key l = Some (?hits, remove_key key (rl_hits l))"
  proof (cases "map_of (rl_hits l) key")
    case None
    then have "length (rl_hits l) < nat (rl_max_identities l)"
      using room_for_key [OF d assms(4) _ assms(3) None] assms(5) by (simp add: le_nat_iff)
    then have "int (length (rl_hits l)) < rl_max_identities l" by linarith
    moreover have "remove_key key (rl_hits l) = rl_hits l"
      using None by (auto simp: remove_key_def filter_id_conv map_of_eq_None_iff)
    ultimately show ?thesis using None by (simp add: rate_entry_def entry_hits_def)
  qed (simp add: rate_entry_def entry_hits_def)
  have count: "int (length ?kept) = window_count ?w accepted key ?now"
    unfolding window_count_times keeps_recent_prune(1) [OF recent [of key]] ..
  have put: "distinct (map fst (remove_key key (rl_hits l) @ [(key, v)]))"
      "fst ` set (remove_key key (rl_hits l) @ [(key, v)]) \<subseteq> K" for v
    using distinct_put_last [OF d(1), of key v] keys_put_last [of key v "rl_hits l"] d(2) assms(3)
    by (auto simp: put_last_def)
  show ?thesis
  proof (cases "window_count ?w accepted key ?now < rl_max_calls l")
    case True
    then have "l' = l\<lparr>rl_hits := remove_key key (rl_hits l) @ [(key, ?kept @ [?now])]\<rparr>" "a = RateAllowed"
      using assms(6,7) count by (simp_all add: check_and_record_def entry Let_def)
    then show ?thesis
      using True put recent keeps_recent_snoc [OF keeps_recent_prune(2) [OF recent [of key]]]
      by (simp add: limiter_refines_def entry_hits_put)
  next
    case False
    then have "l' = l\<lparr>rl_hits := remove_key key (rl_hits l) @ [(key, ?kept)]\<rparr>" "\<exists>n \<ge> 1. a = RateLimited n"
      using assms(6,7) count by (auto simp: check_and_record_def entry Let_def)
    then show ?thesis
      using False put recent keeps_recent_prune(2) [OF recent [of key]]
      by (auto simp: limiter_refines_def entry_hits_put)
  qed
qed

lemma limiter_refines_run:
  assumes "limiter_refines K now l accepted" "\<forall>c \<in> set cs. now \<le> timestamp (snd c)"
    "sorted (map (instant \<circ> snd) cs)" "fst ` set cs \<subseteq> K" "finite K" "int (card K) \<le> rl_max_identities l"
    "0 < rl_max_calls l"
  shows "map (\<lambda>a. a = RateAllowed) (rate_answers l cs) =
    window_answers (rl_max_calls l) (rl_window_seconds l) accepted cs"
  using assms
proof (induction cs arbitrary: now l accepted)
  case (Cons c cs)
  obtain key d where c: "c = (key, d)" by (cases c)
  obtain l' a where step: "check_and_record key d l = (l', a)" by (cases "check_and_record key d l")
  have later: "\<forall>e \<in> set cs. timestamp d \<le> timestamp (snd e)"
    using Cons.prems(3) by (auto simp: c intro: timestamp_mono)
  have "now \<le> timestamp d" "key \<in> K" using Cons.prems(2,4) by (simp_all add: c)
  note s = limiter_refines_step [OF Cons.prems(1) this Cons.prems(5-7) step, unfolded Let_def]
  then show ?case
    using Cons.IH [of "timestamp d" l' "if window_count (rl_window_seconds l) accepted key (timestamp d) < rl_max_calls l
        then accepted @ [(key, timestamp d)] else accepted"] later Cons.prems(3-7)
    by (simp add: c step Let_def)
qed simp

end
