(* ===== verification/Login_Throttle.thy ===== *)
theory Login_Throttle
  imports Binary64 Prelude
begin

text \<open>
  The login throttle (\<open>src/qarunner/core/login_throttle.py\<close>): per identity the consecutive failures, the
  lockouts so far and the end of the current lock. Exceptions leave the mutated table behind, so an
  operation returns the table and an answer. \<open>base_seconds * 2 ** lockouts\<close> raises \<open>OverflowError\<close> when
  the integer power does not fit a double, that is from \<open>2 ^ 1024\<close> on; a product beyond the range of
  doubles is infinite and cut by \<open>max_seconds\<close>, as the unbounded product is here.
\<close>

record login_attempt =
  la_failures :: int
  la_lockouts :: nat
  la_locked_until :: rat

record login_throttle =
  lt_threshold :: int
  lt_base_seconds :: rat
  lt_max_seconds :: rat
  lt_max_identities :: int
  lt_attempts :: "(string \<times> login_attempt) list"

datatype throttle_answer = ThrottleReturned | LockedOut int | ThrottleOverflow | ThrottleKeyError

definition fresh_attempt :: login_attempt where
  "fresh_attempt = \<lparr>la_failures = 0, la_lockouts = 0, la_locked_until = 0\<rparr>"

section \<open>One identity\<close>

definition attempt_check :: "rat \<Rightarrow> login_attempt \<Rightarrow> login_attempt \<times> throttle_answer" where
  "attempt_check now a =
     (if la_locked_until a = 0 then (a, ThrottleReturned)
      else
        let remaining = fl (la_locked_until a - now) in
        if 0 < remaining then (a, LockedOut (max 1 \<lceil>remaining\<rceil>))
        else (a\<lparr>la_locked_until := 0, la_failures := 0\<rparr>, ThrottleReturned))"

definition attempt_fail :: "login_throttle \<Rightarrow> rat \<Rightarrow> login_attempt \<Rightarrow> login_attempt \<times> throttle_answer" where
  "attempt_fail t now a =
     (let a1 = a\<lparr>la_failures := la_failures a + 1\<rparr> in
      if \<not> (0 < lt_threshold t \<and> lt_threshold t \<le> la_failures a1) then (a1, ThrottleReturned)
      else if 1024 \<le> la_lockouts a1 then (a1, ThrottleOverflow)
      else
        let window = min (fl (lt_base_seconds t * 2 ^ la_lockouts a1)) (lt_max_seconds t) in
        (a1\<lparr>la_locked_until := fl (now + window), la_lockouts := la_lockouts a1 + 1, la_failures := 0\<rparr>,
         ThrottleReturned))"

section \<open>The table\<close>

definition throttle_check :: "string \<Rightarrow> datetime \<Rightarrow> login_throttle \<Rightarrow> login_throttle \<times> throttle_answer" where
  "throttle_check key clock_now t =
     (case map_of (lt_attempts t) key of
        None \<Rightarrow> (t, ThrottleReturned)
      | Some a \<Rightarrow>
          let (a', ans) = attempt_check (timestamp clock_now) a in
          (t\<lparr>lt_attempts := put_last key a' (lt_attempts t)\<rparr>, ans))"

definition evict_one :: "rat \<Rightarrow> (string \<times> login_attempt) list \<Rightarrow> (string \<times> login_attempt) list option" where
  "evict_one now es =
     (case find (\<lambda>e. la_locked_until (snd e) \<le> now) es of
        Some e \<Rightarrow> Some (remove_key (fst e) es)
      | None \<Rightarrow> (case es of [] \<Rightarrow> None | e # es' \<Rightarrow> Some es'))"

definition throttle_entry ::
  "string \<Rightarrow> rat \<Rightarrow> login_throttle \<Rightarrow> (login_attempt \<times> (string \<times> login_attempt) list) option" where
  "throttle_entry key now t =
     (case map_of (lt_attempts t) key of
        Some a \<Rightarrow> Some (a, lt_attempts t)
      | None \<Rightarrow>
          if lt_max_identities t \<le> int (length (lt_attempts t))
          then map_option (Pair fresh_attempt) (evict_one now (lt_attempts t))
          else Some (fresh_attempt, lt_attempts t))"

definition record_failure :: "string \<Rightarrow> datetime \<Rightarrow> login_throttle \<Rightarrow> login_throttle \<times> throttle_answer" where
  "record_failure key clock_now t =
     (case throttle_entry key (timestamp clock_now) t of
        None \<Rightarrow> (t, ThrottleKeyError)
      | Some (a, es) \<Rightarrow>
          let (a', ans) = attempt_fail t (timestamp clock_now) a in
          (t\<lparr>lt_attempts := put_last key a' es\<rparr>, ans))"

definition record_success :: "string \<Rightarrow> login_throttle \<Rightarrow> login_throttle" where
  "record_success key t = t\<lparr>lt_attempts := remove_key key (lt_attempts t)\<rparr>"

datatype throttle_op = OpCheck string datetime | OpFailure string datetime | OpSuccess string

fun op_key :: "throttle_op \<Rightarrow> string" where
  "op_key (OpCheck k d) = k"
| "op_key (OpFailure k d) = k"
| "op_key (OpSuccess k) = k"

fun exec_throttle :: "throttle_op \<Rightarrow> login_throttle \<Rightarrow> login_throttle \<times> throttle_answer" where
  "exec_throttle (OpCheck k d) t = throttle_check k d t"
| "exec_throttle (OpFailure k d) t = record_failure k d t"
| "exec_throttle (OpSuccess k) t = (record_success k t, ThrottleReturned)"

definition throttle_after :: "throttle_op list \<Rightarrow> login_throttle \<Rightarrow> login_throttle" where
  "throttle_after ops t = foldl (\<lambda>t c. fst (exec_throttle c t)) t ops"

section \<open>Identities are independent\<close>

text \<open>The abstract throttle: one optional counter per identity, without capacity.\<close>

fun identity_op :: "login_throttle \<Rightarrow> throttle_op \<Rightarrow> login_attempt option \<Rightarrow> login_attempt option \<times> throttle_answer" where
  "identity_op t (OpCheck k d) s =
     (case s of None \<Rightarrow> (None, ThrottleReturned)
      | Some a \<Rightarrow> (let (a', ans) = attempt_check (timestamp d) a in (Some a', ans)))"
| "identity_op t (OpFailure k d) s =
     (let (a', ans) = attempt_fail t (timestamp d) (case s of None \<Rightarrow> fresh_attempt | Some a \<Rightarrow> a) in (Some a', ans))"
| "identity_op t (OpSuccess k) s = (None, ThrottleReturned)"

definition same_limits :: "login_throttle \<Rightarrow> login_throttle \<Rightarrow> bool" where
  "same_limits t u \<longleftrightarrow> lt_threshold t = lt_threshold u \<and> lt_base_seconds t = lt_base_seconds u \<and>
     lt_max_seconds t = lt_max_seconds u \<and> lt_max_identities t = lt_max_identities u"

lemma attempt_fail_cong: "same_limits t u \<Longrightarrow> attempt_fail t = attempt_fail u"
  by (intro ext) (simp add: attempt_fail_def same_limits_def Let_def)

lemma identity_op_cong: "same_limits t u \<Longrightarrow> identity_op t c s = identity_op u c s"
  by (cases c) (simp_all add: attempt_fail_cong)

definition roomy :: "string set \<Rightarrow> login_throttle \<Rightarrow> bool" where
  "roomy K t \<longleftrightarrow> finite K \<and> int (card K) \<le> lt_max_identities t \<and> distinct (map fst (lt_attempts t)) \<and>
     fst ` set (lt_attempts t) \<subseteq> K"

lemma throttle_entry_roomy:
  assumes "roomy K t" "key \<in> K"
  shows "throttle_entry key now t =
    Some (case map_of (lt_attempts t) key of None \<Rightarrow> fresh_attempt | Some a \<Rightarrow> a, lt_attempts t)"
proof (cases "map_of (lt_attempts t) key")
  case None
  have r: "distinct (map fst (lt_attempts t))" "fst ` set (lt_attempts t) \<subseteq> K" "finite K"
      "card K \<le> nat (lt_max_identities t)"
    using assms(1) by (auto simp: roomy_def)
  have "length (lt_attempts t) < nat (lt_max_identities t)" by (rule room_for_key [OF r assms(2) None])
  then have "int (length (lt_attempts t)) < lt_max_identities t" by linarith
  then show ?thesis using None by (simp add: throttle_entry_def)
qed (simp add: throttle_entry_def)

lemma exec_throttle_roomy:
  assumes "roomy K t" "op_key c \<in> K"
  shows "let (t', ans) = exec_throttle c t; (s', ans') = identity_op t c (map_of (lt_attempts t) (op_key c)) in
    ans = ans' \<and> map_of (lt_attempts t') = (map_of (lt_attempts t))(op_key c := s') \<and> same_limits t' t \<and> roomy K t'"
proof (cases c)
  case (OpCheck k d)
  then show ?thesis using assms
    by (auto simp: throttle_check_def Let_def same_limits_def roomy_def fun_eq_iff split: option.splits prod.splits)
next
  case (OpFailure k d)
  then show ?thesis using assms throttle_entry_roomy [OF assms(1), of k "timestamp d"]
    by (auto simp: record_failure_def Let_def same_limits_def roomy_def split: prod.splits)
next
  case (OpSuccess k)
  then show ?thesis using assms by (auto simp: record_success_def same_limits_def roomy_def)
qed

definition identity_after :: "login_throttle \<Rightarrow> throttle_op list \<Rightarrow> login_attempt option \<Rightarrow> login_attempt option" where
  "identity_after t ops s = foldl (\<lambda>s c. fst (identity_op t c s)) s ops"

lemma same_limits_refl [simp]: "same_limits t t"
  by (simp add: same_limits_def)

lemma throttle_after_identity:
  assumes "roomy K t" "op_key ` set ops \<subseteq> K"
  shows "map_of (lt_attempts (throttle_after ops t)) key =
      identity_after t (filter (\<lambda>c. op_key c = key) ops) (map_of (lt_attempts t) key) \<and>
    roomy K (throttle_after ops t) \<and> same_limits (throttle_after ops t) t"
  using assms
proof (induction ops arbitrary: t)
  case Nil
  then show ?case by (simp add: throttle_after_def identity_after_def)
next
  case (Cons c ops)
  obtain t' ans where t': "exec_throttle c t = (t', ans)" by (cases "exec_throttle c t")
  obtain s' where s': "fst (identity_op t c (map_of (lt_attempts t) (op_key c))) = s'" by blast
  have *: "map_of (lt_attempts t') = (map_of (lt_attempts t))(op_key c := s')" "same_limits t' t" "roomy K t'"
    using exec_throttle_roomy [OF Cons.prems(1), of c] Cons.prems(2) s' by (auto simp: t' Let_def split: prod.splits)
  have limits: "identity_after t' os s = identity_after t os s" for os s
    using identity_op_cong [OF *(2)] by (simp add: identity_after_def)
  have "throttle_after (c # ops) t = throttle_after ops t'" by (simp add: throttle_after_def t')
  moreover have "identity_after t (filter (\<lambda>c. op_key c = key) (c # ops)) (map_of (lt_attempts t) key) =
      identity_after t' (filter (\<lambda>c. op_key c = key) ops) (map_of (lt_attempts t') key)"
    unfolding limits using s' by (auto simp: identity_after_def *(1))
  ultimately show ?case
    using Cons.IH [OF *(3)] Cons.prems(2) *(2) by (auto simp: same_limits_def)
qed

text \<open>The answers follow, too.\<close>

lemma throttle_answers:
  assumes "lt_attempts t = []" "int (card (op_key ` set (ops @ [c]))) \<le> lt_max_identities t"
  shows "map_of (lt_attempts (throttle_after ops t)) key =
      identity_after t (filter (\<lambda>c. op_key c = key) ops) None \<and>
    snd (exec_throttle c (throttle_after ops t)) =
      snd (identity_op t c (identity_after t (filter (\<lambda>d. op_key d = op_key c) ops) None))"
proof -
  let ?K = "op_key ` set (ops @ [c])"
  have r: "roomy ?K t" using assms by (simp add: roomy_def)
  have sub: "op_key ` set ops \<subseteq> ?K" "op_key c \<in> ?K" by auto
  note after = throttle_after_identity [OF r sub(1)]
  have "snd (exec_throttle c (throttle_after ops t)) =
      snd (identity_op (throttle_after ops t) c (map_of (lt_attempts (throttle_after ops t)) (op_key c)))"
    using exec_throttle_roomy [of ?K "throttle_after ops t" c] after [of key] sub(2)
    by (auto simp: Let_def split: prod.splits)
  also have "\<dots> = snd (identity_op t c (identity_after t (filter (\<lambda>d. op_key d = op_key c) ops) None))"
    using after [of "op_key c"] identity_op_cong [of "throttle_after ops t" t] assms(1) by simp
  finally show ?thesis using after [of key] assms(1) by simp
qed

section \<open>Lockouts\<close>

definition attempt_of :: "login_attempt option \<Rightarrow> login_attempt" where
  "attempt_of s = (case s of None \<Rightarrow> fresh_attempt | Some a \<Rightarrow> a)"

lemma identity_after_Nil [simp]: "identity_after t [] s = s"
  by (simp add: identity_after_def)

lemma identity_after_append: "identity_after t (xs @ ys) s = identity_after t ys (identity_after t xs s)"
  by (simp add: identity_after_def)

lemma identity_after_single: "identity_after t [c] s = fst (identity_op t c s)"
  by (simp add: identity_after_def)

lemma identity_after_failure:
  "identity_after t [OpFailure key d] s = Some (fst (attempt_fail t (timestamp d) (attempt_of s)))"
  by (simp add: identity_after_single attempt_of_def Let_def split: prod.splits)

text \<open>Failures of an unlocked identity below the threshold only count; the next one locks.\<close>

lemma failures_count:
  assumes "\<forall>c \<in> set ops. \<exists>d. c = OpFailure key d" "int (length ops) < lt_threshold t"
    "attempt_of s = \<lparr>la_failures = 0, la_lockouts = i, la_locked_until = 0\<rparr>"
  shows "attempt_of (identity_after t ops s) = \<lparr>la_failures = int (length ops), la_lockouts = i, la_locked_until = 0\<rparr>"
  using assms
proof (induction ops rule: rev_induct)
  case (snoc c ops)
  then obtain d where c: "c = OpFailure key d" by auto
  have ih: "attempt_of (identity_after t ops s) = \<lparr>la_failures = int (length ops), la_lockouts = i, la_locked_until = 0\<rparr>"
    using snoc by simp
  have "attempt_of (identity_after t (ops @ [c]) s) = fst (attempt_fail t (timestamp d) (attempt_of (identity_after t ops s)))"
    by (simp only: c identity_after_append identity_after_failure) (simp add: attempt_of_def)
  then show ?case using snoc.prems(2) by (simp add: ih attempt_fail_def Let_def)
qed simp

lemma threshold_locks:
  assumes "\<forall>c \<in> set ops. \<exists>d. c = OpFailure key d" "int (length ops) + 1 = lt_threshold t"
    "attempt_of s = \<lparr>la_failures = 0, la_lockouts = i, la_locked_until = 0\<rparr>" "i < 1024"
  shows "identity_after t (ops @ [OpFailure key d]) s =
    Some \<lparr>la_failures = 0, la_lockouts = i + 1,
      la_locked_until = fl (timestamp d + min (fl (lt_base_seconds t * 2 ^ i)) (lt_max_seconds t))\<rparr>"
  using failures_count [OF assms(1) _ assms(3), of t] assms(2,4)
  by (simp only: identity_after_append identity_after_failure) (simp add: attempt_fail_def Let_def)

text \<open>One round: failures up to the threshold at one second, a check when the lock is over.\<close>

definition lockout_round :: "login_throttle \<Rightarrow> string \<Rightarrow> int \<Rightarrow> nat \<Rightarrow> throttle_op list" where
  "lockout_round t key s i =
     replicate (nat (lt_threshold t)) (OpFailure key (utc (int i * s * 1000000))) @
     [OpCheck key (utc ((int i + 1) * s * 1000000))]"

lemma lockout_round_result:
  assumes "0 < lt_threshold t" "lt_max_seconds t \<le> of_int s" "0 \<le> s" "s \<le> 2 ^ 40" "i < 1024"
    "attempt_of st = \<lparr>la_failures = 0, la_lockouts = i, la_locked_until = 0\<rparr>"
  shows "identity_after t (lockout_round t key s i) st = Some \<lparr>la_failures = 0, la_lockouts = i + 1, la_locked_until = 0\<rparr>"
proof -
  define n where "n = nat (lt_threshold t) - 1"
  define d where "d = utc (int i * s * 1000000)"
  define d' where "d' = utc ((int i + 1) * s * 1000000)"
  have n: "nat (lt_threshold t) = Suc n" "int n + 1 = lt_threshold t" using assms(1) by (simp_all add: n_def)
  have "(int i + 1) * s \<le> 1024 * 2 ^ 40" using assms(3-5) by (intro mult_mono) simp_all
  moreover have "int i * s \<le> (int i + 1) * s" using assms(3) by (simp add: algebra_simps)
  moreover have "0 \<le> int i * s" using assms(3) by simp
  ultimately have small: "\<bar>int i * s\<bar> < 2 ^ 53" "\<bar>(int i + 1) * s\<bar> < 2 ^ 53" by simp_all
  have t: "timestamp d = of_int (int i * s)" "timestamp d' = of_int ((int i + 1) * s)"
    unfolding d_def d'_def by (rule timestamp_seconds [OF small(1)], rule timestamp_seconds [OF small(2)])
  let ?w = "min (fl (lt_base_seconds t * 2 ^ i)) (lt_max_seconds t)"
  let ?until = "fl (timestamp d + ?w)"
  have "timestamp d + ?w \<le> of_int ((int i + 1) * s)" using assms(2) by (simp add: t algebra_simps min_def)
  then have "?until \<le> of_int ((int i + 1) * s)" using fl_mono fl_int [OF small(2)] by metis
  then have over: "\<not> 0 < fl (?until - timestamp d')" using fl_mono [of "?until - timestamp d'" 0] by (simp add: t)
  have "lockout_round t key s i = (replicate n (OpFailure key d) @ [OpFailure key d]) @ [OpCheck key d']"
    by (simp add: lockout_round_def n(1) d_def d'_def replicate_append_same)
  then have "identity_after t (lockout_round t key s i) st =
      identity_after t [OpCheck key d'] (Some \<lparr>la_failures = 0, la_lockouts = i + 1, la_locked_until = ?until\<rparr>)"
    using threshold_locks [of "replicate n (OpFailure key d)" key t st i d] n(2) assms(5,6)
    by (simp only: identity_after_append) simp
  then show ?thesis using over by (simp add: identity_after_single attempt_check_def Let_def)
qed

lemma lockout_rounds:
  assumes "0 < lt_threshold t" "lt_max_seconds t \<le> of_int s" "0 \<le> s" "s \<le> 2 ^ 40" "n \<le> 1024"
  shows "attempt_of (identity_after t (concat (map (lockout_round t key s) [0..<n])) None) =
    \<lparr>la_failures = 0, la_lockouts = n, la_locked_until = 0\<rparr>"
  using assms(5)
proof (induction n)
  case 0
  then show ?case by (simp add: attempt_of_def fresh_attempt_def)
next
  case (Suc n)
  then have "identity_after t (lockout_round t key s n) (identity_after t (concat (map (lockout_round t key s) [0..<n])) None) =
      Some \<lparr>la_failures = 0, la_lockouts = n + 1, la_locked_until = 0\<rparr>"
    by (intro lockout_round_result [OF assms(1-4)]) simp_all
  then show ?case by (simp add: identity_after_append attempt_of_def)
qed

text \<open>An identity with 1024 lockouts that is not locked is never locked again.\<close>

definition worn_out :: "login_attempt \<Rightarrow> bool" where
  "worn_out a \<longleftrightarrow> 1024 \<le> la_lockouts a \<and> la_locked_until a = 0"

lemma worn_out_step:
  assumes "worn_out a" "c = OpCheck key d \<or> c = OpFailure key d"
  shows "\<exists>a'. fst (identity_op t c (Some a)) = Some a' \<and> worn_out a'"
  using assms by (auto simp: worn_out_def attempt_check_def attempt_fail_def Let_def)

lemma worn_out_stays:
  assumes "worn_out a" "\<forall>c \<in> set ops. \<exists>d. c = OpCheck key d \<or> c = OpFailure key d"
  shows "\<exists>a'. identity_after t ops (Some a) = Some a' \<and> worn_out a'"
  using assms
proof (induction ops arbitrary: a)
  case (Cons c ops)
  then obtain d where "c = OpCheck key d \<or> c = OpFailure key d" by auto
  then obtain a' where "fst (identity_op t c (Some a)) = Some a'" "worn_out a'"
    using worn_out_step [OF Cons.prems(1)] by blast
  then show ?case using Cons.IH [of a'] Cons.prems(2) by (simp add: identity_after_def)
qed (simp add: identity_after_def)

end
