(* ===== verification/Guard_Properties.thy ===== *)
theory Guard_Properties
  imports Rate_Limit Login_Throttle
begin

text \<open>
  Properties of the two in-process guards of the HTTP interface: the rate limiter and the login
  throttle. \<open>fl\<close> is the rounding of a float operation and \<open>timestamp\<close> the float of a clock reading.
\<close>

section \<open>Rate limiter\<close>

text \<open>
  C36: The rate limiter implements its window exactly: while at most max_identities identities occur and
  the clock does not run backwards, it accepts a call if and only if fewer than max_calls calls of the
  same identity were accepted in the window before it, and it never fails otherwise. This holds with the
  rounding of the float arithmetic.
\<close>

theorem rate_limiter_refines_window:
  assumes "rl_hits l = []" "0 < rl_max_calls l" "sorted (map (instant \<circ> snd) cs)"
    "int (card (fst ` set cs)) \<le> rl_max_identities l"
  shows "map (\<lambda>a. a = RateAllowed) (rate_answers l cs) =
    window_answers (rl_max_calls l) (rl_window_seconds l) [] cs"
proof (cases cs)
  case (Cons c cs')
  let ?now = "timestamp (snd c)"
  have "\<forall>e \<in> set cs. ?now \<le> timestamp (snd e)"
    using assms(3) by (auto simp: Cons intro: timestamp_mono)
  moreover have "limiter_refines (fst ` set cs) ?now l []"
    by (simp add: limiter_refines_def assms(1) keeps_recent_def entry_hits_def times_of_def)
  ultimately show ?thesis
    using limiter_refines_run [of "fst ` set cs" ?now l "[]" cs] assms by simp
qed simp

definition sample_limiter :: rate_limiter where
  "sample_limiter = \<lparr>rl_max_calls = 1, rl_window_seconds = 60, rl_max_identities = 1, rl_hits = []\<rparr>"

theorem rate_limiter_refines_window_witness:
  "map (\<lambda>a. a = RateAllowed) (rate_answers sample_limiter
     [(''u'', utc 0), (''u'', utc 59000000), (''u'', utc 60000000)]) = [True, False, True]"
proof -
  have t: "timestamp (utc 0) = 0" "timestamp (utc 59000000) = 59" "timestamp (utc 60000000) = 60"
    using timestamp_seconds [of 0] timestamp_seconds [of 59] timestamp_seconds [of 60] by simp_all
  have f: "fl (- 60) = - 60" "fl (- 1) = - 1" using fl_int [of "- 60"] fl_int [of "- 1"] by simp_all
  show ?thesis
    using rate_limiter_refines_window [of sample_limiter "[(''u'', utc 0), (''u'', utc 59000000), (''u'', utc 60000000)]"]
    by (simp add: sample_limiter_def window_count_def t f Let_def)
qed

section \<open>Login throttle\<close>

text \<open>
  Identities do not interfere: while at most max_identities identities occur, the throttle holds for
  each identity exactly what that identity's own checks, failures and successes, in their order, lead to,
  and answers it accordingly; the operations of other identities change nothing.
\<close>

theorem throttle_identities_independent:
  assumes "lt_attempts t = []" "int (card (op_key ` set (ops @ [c]))) \<le> lt_max_identities t"
  shows "map_of (lt_attempts (throttle_after ops t)) key =
      identity_after t (filter (\<lambda>c. op_key c = key) ops) None \<and>
    snd (exec_throttle c (throttle_after ops t)) =
      snd (identity_op t c (identity_after t (filter (\<lambda>d. op_key d = op_key c) ops) None))"
  by (rule throttle_answers [OF assms])

definition sample_throttle :: login_throttle where
  "sample_throttle = \<lparr>lt_threshold = 2, lt_base_seconds = 60, lt_max_seconds = 900, lt_max_identities = 2,
     lt_attempts = []\<rparr>"

theorem throttle_identities_independent_witness:
  "map_of (lt_attempts (throttle_after [OpFailure ''a'' (utc 0), OpFailure ''b'' (utc 0)] sample_throttle)) ''a'' =
     Some \<lparr>la_failures = 1, la_lockouts = 0, la_locked_until = 0\<rparr>"
  using throttle_identities_independent [of sample_throttle "[OpFailure ''a'' (utc 0), OpFailure ''b'' (utc 0)]"
      "OpSuccess ''b''" "''a''"]
  by (simp add: sample_throttle_def identity_after_def attempt_fail_def fresh_attempt_def Let_def)

text \<open>
  Lockouts are enforced: when the own operations of an identity are exactly as many failures as the
  threshold, whatever other identities did in between, every check of it before the end of the lock is
  refused with a positive number of seconds. The lock ends base_seconds, at most max_seconds, after the
  last failure.
\<close>

theorem login_lockout_enforced:
  assumes "lt_attempts t = []" "int (card (op_key ` set (ops @ [OpCheck key d']))) \<le> lt_max_identities t"
    "filter (\<lambda>c. op_key c = key) ops = fs @ [OpFailure key d]" "\<forall>c \<in> set fs. \<exists>d. c = OpFailure key d"
    "int (length fs) + 1 = lt_threshold t" "0 < lt_base_seconds t" "0 < lt_max_seconds t" "0 \<le> instant d"
    "0 < fl (fl (timestamp d + min (fl (lt_base_seconds t)) (lt_max_seconds t)) - timestamp d')"
  shows "\<exists>n \<ge> 1. snd (throttle_check key d' (throttle_after ops t)) = LockedOut n"
proof -
  let ?until = "fl (timestamp d + min (fl (lt_base_seconds t)) (lt_max_seconds t))"
  have "0 < min (fl (lt_base_seconds t)) (lt_max_seconds t)" using assms(6,7) fl_positive by simp
  then have "0 < timestamp d + min (fl (lt_base_seconds t)) (lt_max_seconds t)"
    using timestamp_nonneg [OF assms(8)] by linarith
  then have pos: "0 < ?until" by (rule fl_positive)
  have "attempt_of None = \<lparr>la_failures = 0, la_lockouts = 0, la_locked_until = 0\<rparr>"
    by (simp add: attempt_of_def fresh_attempt_def)
  then have "identity_after t (filter (\<lambda>c. op_key c = key) ops) None =
      Some \<lparr>la_failures = 0, la_lockouts = 1, la_locked_until = ?until\<rparr>"
    using threshold_locks [OF assms(4,5), of None 0 d] assms(3) by simp
  then have "snd (exec_throttle (OpCheck key d') (throttle_after ops t)) =
      snd (identity_op t (OpCheck key d') (Some \<lparr>la_failures = 0, la_lockouts = 1, la_locked_until = ?until\<rparr>))"
    using conjunct2 [OF throttle_answers [OF assms(1,2), of key]] by simp
  then show ?thesis using assms(9) pos by (auto simp: attempt_check_def Let_def)
qed

theorem login_lockout_enforced_witness:
  "\<exists>n \<ge> 1. snd (throttle_check ''a'' (utc 59000000)
     (throttle_after [OpFailure ''a'' (utc 0), OpFailure ''b'' (utc 0), OpFailure ''a'' (utc 0)] sample_throttle)) = LockedOut n"
proof -
  have t: "timestamp (utc 0) = 0" "timestamp (utc 59000000) = 59"
    using timestamp_seconds [of 0] timestamp_seconds [of 59] by simp_all
  have f: "fl 60 = 60" "fl 1 = 1" using fl_int [of 60] fl_int [of 1] by simp_all
  show ?thesis
    by (rule login_lockout_enforced [of _ _ _ _ "[OpFailure ''a'' (utc 0)]" "utc 0"])
      (simp_all add: sample_throttle_def t f insert_commute card_insert_if)
qed

text \<open>
  C37: The lockout wears out: for every identity there is a sequence of its own failures and checks after
  which it is never locked again, because 2 ** lockouts no longer fits a double and recording a failure
  raises before it locks. From then on no check is ever refused, whatever further failures are
  recorded.
\<close>

theorem login_lockout_wears_out:
  assumes "lt_attempts t = []" "1 \<le> lt_max_identities t" "0 < lt_threshold t" "lt_max_seconds t \<le> 2 ^ 40"
  shows "\<exists>ops. (\<forall>c \<in> set ops. op_key c = key) \<and>
    (\<forall>later d. (\<forall>c \<in> set later. \<exists>d. c = OpCheck key d \<or> c = OpFailure key d) \<longrightarrow>
       snd (throttle_check key d (throttle_after (ops @ later) t)) = ThrottleReturned)"
proof -
  define s where "s = max 0 \<lceil>lt_max_seconds t\<rceil>"
  define ops where "ops = concat (map (lockout_round t key s) [0..<1024])"
  have "lt_max_seconds t \<le> of_int \<lceil>lt_max_seconds t\<rceil>" by (rule le_of_int_ceiling)
  also have "\<dots> \<le> of_int s" unfolding of_int_le_iff by (simp add: s_def)
  finally have s: "lt_max_seconds t \<le> of_int s" "0 \<le> s" "s \<le> 2 ^ 40"
    using assms(4) by (simp_all add: s_def ceiling_le_iff)
  have keys: "\<forall>c \<in> set ops. op_key c = key" by (auto simp: ops_def lockout_round_def)
  have worn: "worn_out (attempt_of (identity_after t ops None))"
    using lockout_rounds [OF assms(3) s, of 1024 key] by (simp add: ops_def worn_out_def)
  then obtain a where a: "identity_after t ops None = Some a" "worn_out a"
    by (cases "identity_after t ops None") (simp_all add: attempt_of_def fresh_attempt_def worn_out_def)
  have "snd (throttle_check key d (throttle_after (ops @ later) t)) = ThrottleReturned"
    if later: "\<forall>c \<in> set later. \<exists>d. c = OpCheck key d \<or> c = OpFailure key d" for later d
  proof -
    obtain b where b: "identity_after t later (Some a) = Some b" "worn_out b" using worn_out_stays [OF a(2) later] by blast
    have all: "\<forall>c \<in> set (ops @ later @ [OpCheck key d]). op_key c = key" using keys later by auto
    then have "op_key ` set ((ops @ later) @ [OpCheck key d]) = {key}" using all by auto
    then have "int (card (op_key ` set ((ops @ later) @ [OpCheck key d]))) \<le> lt_max_identities t"
      using assms(2) by (simp only: card.insert card.empty finite.emptyI) simp
    from conjunct2 [OF throttle_answers [OF assms(1) this]]
    have "snd (exec_throttle (OpCheck key d) (throttle_after (ops @ later) t)) =
        snd (identity_op t (OpCheck key d) (identity_after t (filter (\<lambda>c. op_key c = key) (ops @ later)) None))" by simp
    moreover have "filter (\<lambda>c. op_key c = key) (ops @ later) = ops @ later"
      unfolding filter_id_conv using all by simp
    ultimately have "snd (exec_throttle (OpCheck key d) (throttle_after (ops @ later) t)) = snd (identity_op t (OpCheck key d) (Some b))"
      using a(1) b(1) by (simp only: identity_after_append)
    then show ?thesis using b(2) by (simp add: worn_out_def attempt_check_def)
  qed
  then show ?thesis using keys by blast
qed

theorem login_lockout_wears_out_witness:
  "\<exists>ops. \<forall>n d. snd (throttle_check ''a'' d (throttle_after (ops @ replicate n (OpFailure ''a'' d)) sample_throttle)) =
     ThrottleReturned"
proof -
  have "lt_attempts sample_throttle = []" "1 \<le> lt_max_identities sample_throttle" "0 < lt_threshold sample_throttle"
      "lt_max_seconds sample_throttle \<le> 2 ^ 40"
    by (simp_all add: sample_throttle_def)
  from login_lockout_wears_out [OF this, of "''a''"] show ?thesis by (metis in_set_replicate)
qed

end
