(* ===== verification/Case_Results.thy ===== *)
theory Case_Results
  imports Evidence Manifest Python_Text
begin

text \<open>
  Per-case execution results (\<open>src/qarunner/domain/pytest_execution_result.py\<close>,
  \<open>src/qarunner/domain/playwright_execution_result.py\<close>): the adapters that accept a sandbox's
  \<open>case-results.json\<close>, declared artifacts and their parts, and the classification of an Attempt at the
  Worker boundary.
\<close>

section \<open>Cases and their locators\<close>

datatype case_outcome = CasePassed | CaseFailed | CaseSkipped | CaseError

fun case_outcome_of :: "string \<Rightarrow> case_outcome option" where
  "case_outcome_of s =
     (if s = ''passed'' then Some CasePassed else if s = ''failed'' then Some CaseFailed
      else if s = ''skipped'' then Some CaseSkipped else if s = ''error'' then Some CaseError else None)"

declare case_outcome_of.simps [simp del]

text \<open>\<open>nodeid.partition("::")\<close>: the text before the first separator, and the rest when there is one.\<close>

fun partition_colons :: "string \<Rightarrow> string \<times> string option" where
  "partition_colons [] = ([], None)"
| "partition_colons (c # cs) =
     (if c = CHR '':'' \<and> take 1 cs = '':'' then ([], Some (drop 1 cs))
      else let (p, r) = partition_colons cs in (c # p, r))"

definition mk_framework_locator :: "framework_locator \<Rightarrow> framework_locator result" where
  "mk_framework_locator l = raise_or (check_framework_locator l) l"

definition pytest_nodeid_locator :: "string \<Rightarrow> framework_locator result" where
  "pytest_nodeid_locator nodeid =
     (if blank nodeid then Inl (DomainValidationError ''pytest_nodeid'' ''nodeid'' ''invalid'')
      else let (file_part, node_part) = partition_colons nodeid in
        mk_framework_locator
          \<lparr>loc_schema_version = ''qep.pytest-locator.v1'', loc_kind = ''pytest_nodeid'',
           loc_parts = [(''file'', file_part), (''node'', case node_part of Some n \<Rightarrow> n | None \<Rightarrow> nodeid)]\<rparr>)"

record validated_case_result =
  vc_stable_case_id :: string
  vc_framework_locator :: framework_locator
  vc_outcome :: case_outcome
  vc_duration_ms :: int
  vc_message :: "string option"

definition check_validated_case_result :: "validated_case_result \<Rightarrow> domain_error option" where
  "check_validated_case_result c = first_some
     [reject_if (blank (vc_stable_case_id c)) (DomainValidationError ''validated_case_result'' ''stable_case_id'' ''invalid''),
      reject_if (vc_duration_ms c < 0) (DomainValidationError ''validated_case_result'' ''duration_ms'' ''invalid'')]"

definition mk_validated_case_result :: "validated_case_result \<Rightarrow> validated_case_result result" where
  "mk_validated_case_result c = raise_or (check_validated_case_result c) c"

section \<open>Raw entries\<close>

text \<open>
  The values of a decoded JSON entry as far as they are looked at; \<open>RFloat\<close> is a float, \<open>ROther\<close> an array or an object.
  The reasons of a rejection are kept as constructors; their English text is not modelled.
\<close>

datatype raw_value = RNull | RBool bool | RInt int | RFloat | RStr string | ROther

type_synonym raw_case = "(string \<times> raw_value) list"

datatype rejection_reason =
    UnsupportedSchema string
  | EmptyCaseList
  | DuplicateCase string
  | MissingField string
  | InvalidOutcome raw_value
  | NotNonEmptyString string
  | InvalidDuration
  | InvalidMessage
  | IdentityMismatch string string

datatype adapter_error = AdapterRejected rejection_reason | AdapterRaised domain_error

fun lift_domain :: "'a result \<Rightarrow> adapter_error + 'a" where
  "lift_domain (Inl e) = Inl (AdapterRaised e)"
| "lift_domain (Inr x) = Inr x"

lemma lift_domain_Inr [result_simps]: "lift_domain m = Inr x \<longleftrightarrow> m = Inr x"
  by (cases m) auto

definition require_fields :: "string list \<Rightarrow> raw_case \<Rightarrow> adapter_error option" where
  "require_fields names raw = first_some
     (map (\<lambda>f. reject_if (map_of raw f = None) (AdapterRejected (MissingField f))) names)"

definition raw_field :: "raw_case \<Rightarrow> string \<Rightarrow> raw_value" where
  "raw_field raw f = (case map_of raw f of None \<Rightarrow> RNull | Some v \<Rightarrow> v)"

definition raw_outcome :: "raw_case \<Rightarrow> adapter_error + case_outcome" where
  "raw_outcome raw =
     (let v = raw_field raw ''outcome'' in
      case (case v of RStr s \<Rightarrow> case_outcome_of s | _ \<Rightarrow> None) of
        None \<Rightarrow> Inl (AdapterRejected (InvalidOutcome v))
      | Some outcome \<Rightarrow> Inr outcome)"

definition raw_text :: "raw_case \<Rightarrow> string \<Rightarrow> adapter_error + string" where
  "raw_text raw f =
     (case raw_field raw f of
        RStr s \<Rightarrow> if blank s then Inl (AdapterRejected (NotNonEmptyString f)) else Inr s
      | _ \<Rightarrow> Inl (AdapterRejected (NotNonEmptyString f)))"

definition raw_duration :: "raw_case \<Rightarrow> adapter_error + int" where
  "raw_duration raw =
     (case raw_field raw ''duration_ms'' of
        RInt i \<Rightarrow> if i < 0 then Inl (AdapterRejected InvalidDuration) else Inr i
      | _ \<Rightarrow> Inl (AdapterRejected InvalidDuration))"

definition raw_message :: "raw_case \<Rightarrow> adapter_error + string option" where
  "raw_message raw =
     (case raw_field raw ''message'' of
        RNull \<Rightarrow> Inr None
      | RStr s \<Rightarrow> Inr (Some s)
      | _ \<Rightarrow> Inl (AdapterRejected InvalidMessage))"

definition parse_pytest_case :: "raw_case \<Rightarrow> adapter_error + validated_case_result" where
  "parse_pytest_case raw =
     bind_result (raise_or (require_fields [''stable_case_id'', ''outcome'', ''duration_ms''] raw) ()) (\<lambda>_.
     bind_result (raw_outcome raw) (\<lambda>outcome.
     bind_result (raw_text raw ''stable_case_id'') (\<lambda>case_id.
     bind_result (raw_duration raw) (\<lambda>duration.
     bind_result (raw_message raw) (\<lambda>message.
     bind_result (lift_domain (pytest_nodeid_locator case_id)) (\<lambda>loc.
     lift_domain (mk_validated_case_result
       \<lparr>vc_stable_case_id = case_id, vc_framework_locator = loc, vc_outcome = outcome,
        vc_duration_ms = duration, vc_message = message\<rparr>)))))))"

section \<open>Playwright identities\<close>

definition playwright_checks :: "string \<Rightarrow> string \<Rightarrow> string \<Rightarrow> string \<Rightarrow> domain_error option" where
  "playwright_checks entity project file title =
     (let bad = (\<lambda>field. DomainValidationError entity field ''invalid'') in first_some
     [reject_if (blank project) (bad ''project''), reject_if (blank file) (bad ''file''),
      reject_if (blank title) (bad ''title'')])"

definition playwright_stable_case_id :: "string \<Rightarrow> string \<Rightarrow> string \<Rightarrow> string result" where
  "playwright_stable_case_id project file title =
     raise_or (playwright_checks ''playwright_case_id'' project file title)
       (strip project @ ''::'' @ strip file @ ''::'' @ strip title)"

definition playwright_test_locator :: "string \<Rightarrow> string \<Rightarrow> string \<Rightarrow> framework_locator result" where
  "playwright_test_locator project file title =
     bind_result (raise_or (playwright_checks ''playwright_test_locator'' project file title) ()) (\<lambda>_.
     mk_framework_locator
       \<lparr>loc_schema_version = ''qep.playwright-locator.v1'', loc_kind = ''playwright_test'',
        loc_parts = [(''project'', strip project), (''file'', strip file), (''title'', strip title)]\<rparr>)"

definition parse_playwright_case :: "raw_case \<Rightarrow> adapter_error + validated_case_result" where
  "parse_playwright_case raw =
     bind_result (raise_or (require_fields
       [''stable_case_id'', ''project'', ''file'', ''title'', ''outcome'', ''duration_ms''] raw) ()) (\<lambda>_.
     bind_result (raw_outcome raw) (\<lambda>outcome.
     bind_result (raw_text raw ''stable_case_id'') (\<lambda>case_id.
     bind_result (raw_text raw ''project'') (\<lambda>project.
     bind_result (raw_text raw ''file'') (\<lambda>file.
     bind_result (raw_text raw ''title'') (\<lambda>title.
     bind_result (raw_duration raw) (\<lambda>duration.
     bind_result (raw_message raw) (\<lambda>message.
     bind_result (lift_domain (playwright_stable_case_id project file title)) (\<lambda>expected_id.
     if strip case_id \<noteq> expected_id then Inl (AdapterRejected (IdentityMismatch case_id expected_id))
     else bind_result (lift_domain (playwright_test_locator project file title)) (\<lambda>loc.
       lift_domain (mk_validated_case_result
         \<lparr>vc_stable_case_id = expected_id, vc_framework_locator = loc, vc_outcome = outcome,
          vc_duration_ms = duration, vc_message = message\<rparr>)))))))))))"

section \<open>The adapters\<close>

text \<open>The loop over the entries: the first malformed or repeated one is rejected.\<close>

fun parse_cases ::
  "(raw_case \<Rightarrow> adapter_error + validated_case_result) \<Rightarrow> string list \<Rightarrow> raw_case list \<Rightarrow>
   adapter_error + validated_case_result list" where
  "parse_cases parse seen [] = Inr []"
| "parse_cases parse seen (raw # raws) =
     bind_result (parse raw) (\<lambda>c.
     if vc_stable_case_id c \<in> set seen then Inl (AdapterRejected (DuplicateCase (vc_stable_case_id c)))
     else map_result ((#) c) (parse_cases parse (vc_stable_case_id c # seen) raws))"

definition count_cases :: "case_outcome list \<Rightarrow> validated_case_result list \<Rightarrow> int" where
  "count_cases outcomes cases = int (length (filter (\<lambda>c. vc_outcome c \<in> set outcomes) cases))"

definition mk_case_summary :: "validated_case_summary \<Rightarrow> validated_case_summary result" where
  "mk_case_summary s = raise_or (check_case_summary s) s"

definition cases_summary ::
  "string \<Rightarrow> artifact_path \<Rightarrow> digest \<Rightarrow> validated_case_result list \<Rightarrow> validated_case_summary result" where
  "cases_summary version path digest cases = mk_case_summary
     \<lparr>su_schema_version = version, su_source_artifact_path = path, su_source_artifact_digest = digest,
      su_expected = int (length cases), su_passed = count_cases [CasePassed] cases,
      su_failed = count_cases [CaseFailed, CaseError] cases, su_skipped = count_cases [CaseSkipped] cases,
      su_not_reported = 0, su_unexpected = 0\<rparr>"

text \<open>The two adapters differ in the schema, the entry parser and the exit code of an empty list.\<close>

definition accept_execution_result ::
  "string \<Rightarrow> (raw_case \<Rightarrow> adapter_error + validated_case_result) \<Rightarrow> int \<Rightarrow>
   string \<Rightarrow> raw_case list \<Rightarrow> int \<Rightarrow> artifact_path \<Rightarrow> digest \<Rightarrow>
   adapter_error + validated_case_result list \<times> validated_case_summary" where
  "accept_execution_result version parse empty_exit_code schema_version raw_cases exit_code path digest =
     (if schema_version \<noteq> version then Inl (AdapterRejected (UnsupportedSchema schema_version))
      else if raw_cases = [] then
        (if exit_code \<noteq> empty_exit_code then Inl (AdapterRejected EmptyCaseList)
         else map_result (Pair []) (lift_domain (cases_summary version path digest [])))
      else bind_result (parse_cases parse [] raw_cases) (\<lambda>cases.
        map_result (Pair cases) (lift_domain (cases_summary version path digest cases))))"

definition accept_pytest_execution_result ::
  "string \<Rightarrow> raw_case list \<Rightarrow> int \<Rightarrow> artifact_path \<Rightarrow> digest \<Rightarrow>
   adapter_error + validated_case_result list \<times> validated_case_summary" where
  "accept_pytest_execution_result = accept_execution_result ''qep.pytest-case-result.v1'' parse_pytest_case 5"

definition accept_playwright_execution_result ::
  "string \<Rightarrow> raw_case list \<Rightarrow> int \<Rightarrow> artifact_path \<Rightarrow> digest \<Rightarrow>
   adapter_error + validated_case_result list \<times> validated_case_summary" where
  "accept_playwright_execution_result =
     accept_execution_result ''qep.playwright-case-result.v1'' parse_playwright_case 0"

section \<open>Declared artifacts\<close>

record declared_artifact =
  da_path :: artifact_path
  da_content_class :: artifact_class
  da_size_bytes :: int
  da_digest :: digest

definition check_declared_artifact :: "declared_artifact \<Rightarrow> domain_error option" where
  "check_declared_artifact d =
     reject_if (da_size_bytes d < 0) (ArtifactValidationError ''size_bytes'' ''must be non-negative'')"

definition mk_verified_artifact :: "verified_artifact \<Rightarrow> verified_artifact result" where
  "mk_verified_artifact a = raise_or (check_verified_artifact a) a"

definition verify_declared_artifact :: "declared_artifact \<Rightarrow> digest \<Rightarrow> int \<Rightarrow> verified_artifact result" where
  "verify_declared_artifact d recomputed_digest recomputed_size =
     (if da_digest d \<noteq> recomputed_digest \<or> da_size_bytes d \<noteq> recomputed_size
      then Inl (ArtifactValidationError ''digest'' ''declared_mismatch_recomputed'')
      else mk_verified_artifact \<lparr>va_path = da_path d, va_content_class = da_content_class d,
        va_size_bytes = recomputed_size, va_digest = recomputed_digest\<rparr>)"

record declared_artifact_part =
  dp_part_no :: int
  dp_size_bytes :: int
  dp_digest :: digest

definition check_declared_artifact_part :: "declared_artifact_part \<Rightarrow> domain_error option" where
  "check_declared_artifact_part p = first_some
     [reject_if (dp_part_no p < 1) (ArtifactValidationError ''part_no'' ''must be positive''),
      reject_if (dp_size_bytes p < 0) (ArtifactValidationError ''size_bytes'' ''must be non-negative'')]"

text \<open>The loop over declared and recomputed parts, which have the same length when it is reached.\<close>

fun check_parts :: "int \<Rightarrow> declared_artifact_part list \<Rightarrow> (digest \<times> int) list \<Rightarrow> domain_error option" where
  "check_parts n (p # ps) ((digest, bytes) # rs) =
     (if dp_part_no p \<noteq> n then Some (ArtifactValidationError ''part_no'' ''not_contiguous'')
      else if dp_digest p \<noteq> digest \<or> dp_size_bytes p \<noteq> bytes
      then Some (ArtifactValidationError ''part_digest'' ''declared_mismatch_recomputed'')
      else check_parts (n + 1) ps rs)"
| "check_parts n _ _ = None"

definition complete_declared_artifact_parts ::
  "artifact_path \<Rightarrow> artifact_class \<Rightarrow> declared_artifact_part list \<Rightarrow> digest \<Rightarrow> (digest \<times> int) list \<Rightarrow> digest \<Rightarrow>
   verified_artifact result" where
  "complete_declared_artifact_parts path content_class declared declared_total recomputed recomputed_total =
     (if declared = [] then Inl (ArtifactValidationError ''parts'' ''empty'')
      else if length declared \<noteq> length recomputed then Inl (ArtifactValidationError ''parts'' ''count_mismatch'')
      else bind_result (raise_or (check_parts 1 declared recomputed) ()) (\<lambda>_.
        if declared_total \<noteq> recomputed_total
        then Inl (ArtifactValidationError ''total_digest'' ''declared_mismatch_recomputed'')
        else mk_verified_artifact \<lparr>va_path = path, va_content_class = content_class,
          va_size_bytes = sum_list (map dp_size_bytes declared), va_digest = recomputed_total\<rparr>))"

section \<open>Classification at the Worker boundary\<close>

datatype attempt_result_class =
  ResultPassed | ResultTestFailed | ResultInfraFailed | ResultCancelled | ResultUnknown

record pytest_attempt_result =
  pr_result_class :: attempt_result_class
  pr_platform_exit_class :: platform_exit_class
  pr_exit_code :: "int option"
  pr_timed_out :: bool
  pr_oom :: bool
  pr_cancelled :: bool
  pr_requires_unknown_observation :: bool

definition attempt_result ::
  "attempt_result_class \<Rightarrow> platform_exit_class \<Rightarrow> int option \<Rightarrow> bool \<Rightarrow> bool \<Rightarrow> bool \<Rightarrow> bool \<Rightarrow> pytest_attempt_result" where
  "attempt_result c x code timed_out oom cancelled unknown =
     \<lparr>pr_result_class = c, pr_platform_exit_class = x, pr_exit_code = code, pr_timed_out = timed_out,
      pr_oom = oom, pr_cancelled = cancelled, pr_requires_unknown_observation = unknown\<rparr>"

definition classify_pytest_attempt_result ::
  "int option \<Rightarrow> bool \<Rightarrow> bool \<Rightarrow> validated_case_summary option \<Rightarrow> bool \<Rightarrow> pytest_attempt_result" where
  "classify_pytest_attempt_result exit_code timed_out cancelled case_summary oom =
     (if cancelled then attempt_result ResultCancelled ExitCancelled exit_code timed_out oom True False
      else if timed_out \<or> oom then attempt_result ResultInfraFailed ExitInfraFailed exit_code timed_out oom False False
      else case exit_code of
        None \<Rightarrow> attempt_result ResultUnknown ExitInfraFailed None False False False True
      | Some code \<Rightarrow>
          (case case_summary of
             None \<Rightarrow> attempt_result ResultInfraFailed ExitInfraFailed exit_code False False False False
           | Some s \<Rightarrow>
               if su_not_reported s > 0 \<or> su_unexpected s > 0
               then attempt_result ResultUnknown ExitInfraFailed exit_code False False False True
               else if code = 0 \<and> su_failed s = 0
               then attempt_result ResultPassed ExitCompleted exit_code False False False False
               else if code \<noteq> 0 \<and> su_failed s > 0
               then attempt_result ResultTestFailed ExitCompleted exit_code False False False False
               else if code \<noteq> 0 \<and> su_failed s = 0
               then attempt_result ResultInfraFailed ExitInfraFailed exit_code False False False False
               else attempt_result ResultUnknown ExitInfraFailed exit_code False False False True))"

definition trusted_exit_facts_from_pytest_result ::
  "pytest_attempt_result \<Rightarrow> string \<Rightarrow> int option \<Rightarrow> trusted_exit_facts option result" where
  "trusted_exit_facts_from_pytest_result result source_event_id pid =
     (if blank source_event_id then Inl (DomainValidationError ''trusted_exit_facts'' ''source_event_id'' ''invalid'')
      else if (case pid of None \<Rightarrow> False | Some p \<Rightarrow> p \<le> 0)
      then Inl (DomainValidationError ''trusted_exit_facts'' ''pid'' ''invalid'')
      else Inr (if pr_result_class result = ResultUnknown then None
        else Some \<lparr>te_source_event_id = source_event_id, te_pid = pid,
          te_exit_class = (case pr_result_class result of ResultCancelled \<Rightarrow> ExitCancelled
            | ResultInfraFailed \<Rightarrow> ExitInfraFailed | _ \<Rightarrow> ExitCompleted),
          te_exit_code = pr_exit_code result, te_signal = None, te_oom = pr_oom result,
          te_timeout = pr_timed_out result\<rparr>))"

section \<open>Facts\<close>

lemma partition_colons_cases:
  "partition_colons s = (p, r) \<Longrightarrow> (case r of None \<Rightarrow> s = p | Some q \<Rightarrow> s = p @ ''::'' @ q)"
proof (induction s arbitrary: p r)
  case (Cons c cs)
  show ?case
  proof (cases "c = CHR '':'' \<and> take 1 cs = '':''")
    case True
    then show ?thesis using Cons.prems by (cases cs) auto
  next
    case False
    obtain p' r' where "partition_colons cs = (p', r')" by (cases "partition_colons cs")
    then show ?thesis using Cons.IH Cons.prems False by (auto split: option.splits)
  qed
qed simp

lemma parse_cases_Inr:
  assumes "parse_cases parse seen raws = Inr cases"
  shows "list_all2 (\<lambda>raw c. parse raw = Inr c) raws cases \<and> distinct (map vc_stable_case_id cases) \<and>
    set (map vc_stable_case_id cases) \<inter> set seen = {}"
  using assms
proof (induction raws arbitrary: seen cases)
  case (Cons raw raws)
  then obtain c cs where "parse raw = Inr c" "vc_stable_case_id c \<notin> set seen"
      "parse_cases parse (vc_stable_case_id c # seen) raws = Inr cs" "cases = c # cs"
    by (auto simp: result_simps)
  then show ?case using Cons.IH [of "vc_stable_case_id c # seen" cs] by auto
qed simp

lemma count_cases_total:
  "count_cases [CasePassed] cs + count_cases [CaseFailed, CaseError] cs + count_cases [CaseSkipped] cs = int (length cs)"
proof (induction cs)
  case (Cons c cs)
  then show ?case by (cases "vc_outcome c") (simp_all add: count_cases_def)
qed (simp add: count_cases_def)

lemma cases_summary_Inr:
  "cases_summary version path digest cases = Inr
     \<lparr>su_schema_version = version, su_source_artifact_path = path, su_source_artifact_digest = digest,
      su_expected = int (length cases), su_passed = count_cases [CasePassed] cases,
      su_failed = count_cases [CaseFailed, CaseError] cases, su_skipped = count_cases [CaseSkipped] cases,
      su_not_reported = 0, su_unexpected = 0\<rparr>"
  using count_cases_total [of cases]
  by (auto simp: cases_summary_def mk_case_summary_def check_case_summary_def result_simps count_cases_def)

lemma accept_execution_result_Inr:
  assumes "accept_execution_result version parse empty_code sv raws code path digest = Inr (cases, s)"
  shows "sv = version" "list_all2 (\<lambda>raw c. parse raw = Inr c) raws cases" "distinct (map vc_stable_case_id cases)"
    "cases_summary version path digest cases = Inr s" "raws = [] \<longrightarrow> code = empty_code"
  using assms parse_cases_Inr [of parse "[]" raws cases]
  by (auto simp: accept_execution_result_def result_simps split: if_splits)

lemma check_parts_None:
  assumes "length ps = length rs"
  shows "check_parts n ps rs = None \<longleftrightarrow>
    map dp_part_no ps = map (\<lambda>i. n + int i) [0..<length ps] \<and> map (\<lambda>p. (dp_digest p, dp_size_bytes p)) ps = rs"
  using assms
proof (induction n ps rs rule: check_parts.induct)
  case (1 n p ps digest bytes rs)
  have "map (\<lambda>i. n + int i) [0..<length (p # ps)] = n # map (\<lambda>i. n + 1 + int i) [0..<length ps]"
    by (simp only: length_Cons upt_conv_Cons zero_less_Suc map_Suc_upt [symmetric] list.map) (simp add: comp_def)
  then show ?case using 1 by auto
qed auto

lemma pytest_result_cases:
  assumes "r = classify_pytest_attempt_result code timed_out cancelled summary oom"
  shows "(pr_result_class r = ResultUnknown \<and> pr_requires_unknown_observation r) \<or>
    (pr_result_class r \<in> {ResultCancelled, ResultInfraFailed} \<and> \<not> pr_requires_unknown_observation r) \<or>
    (\<exists>s. pr_result_class r = ResultPassed \<and> \<not> pr_requires_unknown_observation r \<and> pr_exit_code r = Some 0 \<and>
       \<not> pr_oom r \<and> \<not> pr_timed_out r \<and> summary = Some s \<and> su_failed s = 0 \<and> \<not> su_not_reported s > 0 \<and>
       \<not> su_unexpected s > 0) \<or>
    (\<exists>s c. pr_result_class r = ResultTestFailed \<and> \<not> pr_requires_unknown_observation r \<and> pr_exit_code r = Some c \<and>
       c \<noteq> 0 \<and> \<not> pr_oom r \<and> \<not> pr_timed_out r \<and> summary = Some s \<and> su_failed s > 0 \<and> \<not> su_not_reported s > 0 \<and>
       \<not> su_unexpected s > 0)"
proof (cases "cancelled \<or> timed_out \<or> oom")
  case True
  then show ?thesis by (auto simp: assms classify_pytest_attempt_result_def attempt_result_def)
next
  case False
  then show ?thesis
    by (cases code; cases summary) (auto simp: assms classify_pytest_attempt_result_def attempt_result_def)
qed

end
