(* ===== verification/Worker_Execution.thy ===== *)
theory Worker_Execution
  imports Worker Python_Text Canonical_Json "HOL-Library.Product_Lexorder" "HOL-Library.Multiset"
    Manifest
begin

text \<open>
  The Worker boundary (\<open>src/qarunner/domain/worker_execution.py\<close>): the commit-start proof without which no
  sandbox exists, the identity that a sandbox and its workspace carry, the hardened profiles with the
  validator of Docker's create options, and the reconciliation of sandboxes left after a restart.
\<close>

section \<open>Commit-start proofs\<close>

record commit_start_proof =
  sp_run_id :: string
  sp_assignment_id :: string
  sp_attempt_id :: string
  sp_fence :: int
  sp_start_commit_key :: string
  sp_worker :: worker_ref
  sp_spec_digest :: digest
  sp_committed_at :: datetime

definition check_commit_start_proof :: "commit_start_proof \<Rightarrow> domain_error option" where
  "check_commit_start_proof p =
     (let bad = (\<lambda>field. DomainValidationError ''commit_start_proof'' field ''invalid'') in first_some
     [reject_if (blank (sp_run_id p)) (bad ''run_id''),
      reject_if (blank (sp_assignment_id p)) (bad ''assignment_id''),
      reject_if (blank (sp_attempt_id p)) (bad ''attempt_id''),
      reject_if (blank (sp_start_commit_key p)) (bad ''start_commit_key''),
      reject_if (sp_fence p < 1) (bad ''fence''),
      require_utc ''commit_start_proof'' ''committed_at'' (sp_committed_at p)])"

definition require_execution_admission :: "commit_start_proof \<Rightarrow> commit_start_proof result" where
  "require_execution_admission p =
     (if sp_fence p < 1 then Inl (ExecutionAdmissionError ''invalid_fence'') else Inr p)"

definition sandbox_labels_for_proof :: "commit_start_proof \<Rightarrow> (string \<times> string) list result" where
  "sandbox_labels_for_proof proof = map_result (\<lambda>p.
     [(''qarunner.run_id'', sp_run_id p),
      (''qarunner.assignment_id'', sp_assignment_id p),
      (''qarunner.attempt_id'', sp_attempt_id p),
      (''qarunner.fence'', show_int (sp_fence p)),
      (''qarunner.worker_id'', wr_worker_id (sp_worker p)),
      (''qarunner.worker_generation'', show_int (wr_generation (sp_worker p))),
      (''qarunner.start_commit_key'', sp_start_commit_key p)]) (require_execution_admission proof)"

definition workspace_subpath_for_proof :: "commit_start_proof \<Rightarrow> string result" where
  "workspace_subpath_for_proof proof = map_result (\<lambda>p.
     sp_run_id p @ ''/'' @ sp_assignment_id p @ ''/'' @ sp_attempt_id p @ ''/'' @ show_int (sp_fence p))
     (require_execution_admission proof)"

section \<open>Sandbox profiles\<close>

record execution_sandbox_profile =
  xp_network_mode :: string
  xp_read_only_root :: bool
  xp_cap_drop :: "string list"
  xp_no_new_privileges :: bool
  xp_pids_limit :: int
  xp_mem_limit :: string
  xp_nano_cpus :: int

definition m4_pytest_default :: execution_sandbox_profile where
  "m4_pytest_default = \<lparr>xp_network_mode = ''none'', xp_read_only_root = True, xp_cap_drop = [''ALL''],
     xp_no_new_privileges = True, xp_pids_limit = 512, xp_mem_limit = ''2g'', xp_nano_cpus = 2000000000\<rparr>"

record browser_sandbox_profile =
  bp_network_mode :: string
  bp_read_only_root :: bool
  bp_cap_drop :: "string list"
  bp_no_new_privileges :: bool
  bp_pids_limit :: int
  bp_mem_limit :: string
  bp_nano_cpus :: int
  bp_shm_size :: string
  bp_require_non_root_user :: bool
  bp_forbid_privileged :: bool
  bp_forbid_sys_admin :: bool
  bp_forbid_host_ipc :: bool

definition check_browser_profile :: "browser_sandbox_profile \<Rightarrow> domain_error option" where
  "check_browser_profile p =
     (let bad = (\<lambda>field. DomainValidationError ''browser_sandbox_profile'' field ''invalid'') in first_some
     [reject_if (blank (bp_network_mode p)) (bad ''network_mode''),
      reject_if (bp_cap_drop p = [] \<or> list_ex blank (bp_cap_drop p)) (bad ''cap_drop''),
      reject_if (bp_pids_limit p < 1) (bad ''pids_limit''),
      reject_if (blank (bp_mem_limit p)) (bad ''mem_limit''),
      reject_if (bp_nano_cpus p < 1) (bad ''nano_cpus''),
      reject_if (blank (bp_shm_size p)) (bad ''shm_size'')])"

definition m5_browser_default :: browser_sandbox_profile where
  "m5_browser_default = \<lparr>bp_network_mode = ''none'', bp_read_only_root = True, bp_cap_drop = [''ALL''],
     bp_no_new_privileges = True, bp_pids_limit = 512, bp_mem_limit = ''2g'', bp_nano_cpus = 2000000000,
     bp_shm_size = ''1g'', bp_require_non_root_user = True, bp_forbid_privileged = True,
     bp_forbid_sys_admin = True, bp_forbid_host_ipc = True\<rparr>"

definition browser_profile_digest :: "browser_sandbox_profile \<Rightarrow> digest result" where
  "browser_profile_digest p = canonical_digest ''qep.browser-sandbox-profile.v1''
     (JObj [(''network_mode'', JStr (bp_network_mode p)),
            (''read_only_root'', JBool (bp_read_only_root p)),
            (''cap_drop'', JList (map JStr (bp_cap_drop p))),
            (''no_new_privileges'', JBool (bp_no_new_privileges p)),
            (''pids_limit'', JInt (bp_pids_limit p)),
            (''mem_limit'', JStr (bp_mem_limit p)),
            (''nano_cpus'', JInt (bp_nano_cpus p)),
            (''shm_size'', JStr (bp_shm_size p)),
            (''require_non_root_user'', JBool (bp_require_non_root_user p)),
            (''forbid_privileged'', JBool (bp_forbid_privileged p)),
            (''forbid_sys_admin'', JBool (bp_forbid_sys_admin p)),
            (''forbid_host_ipc'', JBool (bp_forbid_host_ipc p))])"

section \<open>Create options\<close>

text \<open>
  The option values that occur: Docker takes strings, integers, booleans, lists of strings and maps of
  strings. A missing key reads as \<open>VNone\<close>. Iterating an integer or \<open>True\<close> raises \<open>TypeError\<close>.
\<close>

datatype create_value =
    VNone | VBool bool | VInt int | VStr string | VStrs "string list" | VMap "(string \<times> string) list"

type_synonym create_kwargs = "(string \<times> create_value) list"

datatype create_error = CreateRejected domain_error | CreateTypeError

definition kwarg :: "string \<Rightarrow> create_kwargs \<Rightarrow> create_value" where
  "kwarg key kwargs = (case map_of kwargs key of None \<Rightarrow> VNone | Some v \<Rightarrow> v)"

text \<open>\<open>kwargs.get(key) or ()\<close>, a string wrapped into a tuple, then iterated.\<close>

fun iterate_option :: "create_value \<Rightarrow> create_error + string list" where
  "iterate_option VNone = Inr []"
| "iterate_option (VBool b) = (if b then Inl CreateTypeError else Inr [])"
| "iterate_option (VInt i) = (if i = 0 then Inr [] else Inl CreateTypeError)"
| "iterate_option (VStr s) = Inr (if s = [] then [] else [s])"
| "iterate_option (VStrs ss) = Inr ss"
| "iterate_option (VMap m) = Inr (map fst m)"

fun falsy :: "create_value \<Rightarrow> bool" where
  "falsy VNone = True"
| "falsy (VBool b) = (\<not> b)"
| "falsy (VInt i) = (i = 0)"
| "falsy (VStr s) = (s = [])"
| "falsy (VStrs ss) = (ss = [])"
| "falsy (VMap m) = (m = [])"

text \<open>Python's equality of an option with an integer: \<open>True == 1\<close>.\<close>

fun equals_int :: "create_value \<Rightarrow> int \<Rightarrow> bool" where
  "equals_int (VInt i) n = (i = n)"
| "equals_int (VBool b) n = (n = of_bool b)"
| "equals_int _ n = False"

definition reject_create :: "bool \<Rightarrow> string \<Rightarrow> string \<Rightarrow> create_error option" where
  "reject_create b field reason =
     reject_if b (CreateRejected (DomainValidationError ''browser_container_create'' field reason))"

definition reject_iterated ::
  "create_value \<Rightarrow> (string list \<Rightarrow> bool) \<Rightarrow> string \<Rightarrow> string \<Rightarrow> create_error option" where
  "reject_iterated v bad field reason =
     (case iterate_option v of Inl e \<Rightarrow> Some e | Inr xs \<Rightarrow> reject_create (bad xs) field reason)"

definition grants_sys_admin :: "string \<Rightarrow> bool" where
  "grants_sys_admin cap \<longleftrightarrow> replace_all '' '' ''_'' (upper cap) \<in> {''SYS_ADMIN'', ''CAP_SYS_ADMIN''}"

definition root_user :: "string \<Rightarrow> bool" where
  "root_user user \<longleftrightarrow>
     (let u = lower (strip user) in u \<in> {''0'', ''0:0'', ''root'', ''root:root''} \<or> starts_with ''0:'' u)"

definition check_create_user :: "create_value \<Rightarrow> create_error option" where
  "check_create_user v =
     (case v of
        VStr user \<Rightarrow> first_some
          [reject_create (blank user) ''user'' ''required'', reject_create (root_user user) ''user'' ''root_forbidden'']
      | _ \<Rightarrow> reject_create True ''user'' ''required'')"

definition validate_create_kwargs :: "create_kwargs \<Rightarrow> browser_sandbox_profile \<Rightarrow> create_error option" where
  "validate_create_kwargs kwargs policy = first_some (
     [reject_create (bp_forbid_privileged policy \<and> kwarg ''privileged'' kwargs = VBool True) ''privileged'' ''forbidden''] @
     (if bp_forbid_sys_admin policy
      then [reject_iterated (kwarg ''cap_add'' kwargs) (list_ex grants_sys_admin) ''cap_add'' ''sys_admin_forbidden'']
      else []) @
     [reject_create (bp_forbid_host_ipc policy \<and>
        (case kwarg ''ipc_mode'' kwargs of VStr s \<Rightarrow> lower s = ''host'' | _ \<Rightarrow> False)) ''ipc_mode'' ''host_ipc_forbidden'',
      reject_create (kwarg ''network_mode'' kwargs \<noteq> VStr (bp_network_mode policy)) ''network_mode'' ''mismatch'',
      reject_iterated (kwarg ''cap_drop'' kwargs)
        (\<lambda>drops. \<not> set (map upper (bp_cap_drop policy)) \<subseteq> set (map upper drops)) ''cap_drop'' ''incomplete''] @
     (if bp_no_new_privileges policy
      then [reject_iterated (kwarg ''security_opt'' kwargs) (\<lambda>opts. ''no-new-privileges'' \<notin> set opts)
              ''security_opt'' ''no_new_privileges_missing'']
      else []) @
     [reject_create (bp_read_only_root policy \<and> kwarg ''read_only'' kwargs \<noteq> VBool True) ''read_only'' ''required'',
      reject_create (\<not> equals_int (kwarg ''pids_limit'' kwargs) (bp_pids_limit policy)) ''pids_limit'' ''mismatch'',
      reject_create (kwarg ''mem_limit'' kwargs \<noteq> VStr (bp_mem_limit policy)) ''mem_limit'' ''mismatch'',
      reject_create (\<not> equals_int (kwarg ''nano_cpus'' kwargs) (bp_nano_cpus policy)) ''nano_cpus'' ''mismatch'',
      reject_create (falsy (kwarg ''shm_size'' kwargs)) ''shm_size'' ''required'',
      reject_create (kwarg ''shm_size'' kwargs \<noteq> VStr (bp_shm_size policy)) ''shm_size'' ''mismatch''] @
     (if bp_require_non_root_user policy then [check_create_user (kwarg ''user'' kwargs)] else []))"

definition browser_create_options :: "browser_sandbox_profile \<Rightarrow> string \<Rightarrow> create_kwargs" where
  "browser_create_options profile user =
     [(''user'', VStr (strip user)),
      (''network_mode'', VStr (bp_network_mode profile)),
      (''cap_drop'', VStrs (bp_cap_drop profile)),
      (''security_opt'', VStrs (if bp_no_new_privileges profile then [''no-new-privileges''] else [])),
      (''pids_limit'', VInt (bp_pids_limit profile)),
      (''mem_limit'', VStr (bp_mem_limit profile)),
      (''nano_cpus'', VInt (bp_nano_cpus profile)),
      (''read_only'', VBool (bp_read_only_root profile)),
      (''tmpfs'', VMap [(''/tmp'', '''')]),
      (''shm_size'', VStr (bp_shm_size profile)),
      (''privileged'', VBool False)]"

definition browser_container_create_kwargs ::
  "browser_sandbox_profile \<Rightarrow> string \<Rightarrow> create_error + create_kwargs" where
  "browser_container_create_kwargs profile user =
     (if blank user then Inl (CreateRejected (DomainValidationError ''browser_sandbox_profile'' ''user'' ''invalid''))
      else raise_or (validate_create_kwargs (browser_create_options profile user) profile)
        (browser_create_options profile user))"

section \<open>Residual sandboxes\<close>

datatype residual_disposition = Keep | OrphanRemove | UnknownResidual

fun residual_disposition_value :: "residual_disposition \<Rightarrow> string" where
  "residual_disposition_value Keep = ''keep''"
| "residual_disposition_value OrphanRemove = ''orphan_remove''"
| "residual_disposition_value UnknownResidual = ''unknown''"

record residual_observation =
  ro_container_id :: string
  ro_run_id :: string
  ro_assignment_id :: string
  ro_attempt_id :: string
  ro_fence :: int
  ro_worker_id :: string
  ro_worker_generation :: int
  ro_start_commit_key :: string
  ro_running :: bool

definition check_residual_observation :: "residual_observation \<Rightarrow> domain_error option" where
  "check_residual_observation r =
     (let bad = (\<lambda>field. DomainValidationError ''residual_sandbox_observation'' field ''invalid'') in first_some
     [reject_if (blank (ro_container_id r)) (bad ''container_id''),
      reject_if (blank (ro_run_id r)) (bad ''run_id''),
      reject_if (blank (ro_assignment_id r)) (bad ''assignment_id''),
      reject_if (blank (ro_attempt_id r)) (bad ''attempt_id''),
      reject_if (blank (ro_worker_id r)) (bad ''worker_id''),
      reject_if (blank (ro_start_commit_key r)) (bad ''start_commit_key''),
      reject_if (ro_fence r < 1) (bad ''fence''),
      reject_if (ro_worker_generation r < 1) (bad ''worker_generation'')])"

record expected_live_attempt =
  xa_run_id :: string
  xa_assignment_id :: string
  xa_attempt_id :: string
  xa_fence :: int
  xa_start_commit_key :: string
  xa_has_terminal_facts :: bool

definition check_expected_live_attempt :: "expected_live_attempt \<Rightarrow> domain_error option" where
  "check_expected_live_attempt x =
     (let bad = (\<lambda>field. DomainValidationError ''expected_live_attempt'' field ''invalid'') in first_some
     [reject_if (blank (xa_run_id x)) (bad ''run_id''),
      reject_if (blank (xa_assignment_id x)) (bad ''assignment_id''),
      reject_if (blank (xa_attempt_id x)) (bad ''attempt_id''),
      reject_if (blank (xa_start_commit_key x)) (bad ''start_commit_key''),
      reject_if (xa_fence x < 1) (bad ''fence'')])"

type_synonym sandbox_identity = "string \<times> string \<times> string \<times> int"

definition residual_identity :: "residual_observation \<Rightarrow> sandbox_identity" where
  "residual_identity r = (ro_run_id r, ro_assignment_id r, ro_attempt_id r, ro_fence r)"

definition expected_identity :: "expected_live_attempt \<Rightarrow> sandbox_identity" where
  "expected_identity x = (xa_run_id x, xa_assignment_id x, xa_attempt_id x, xa_fence x)"

record residual_action =
  ra_disposition :: residual_disposition
  ra_identity :: sandbox_identity
  ra_container_id :: "string option"
  ra_requires_unknown_observation :: bool

record residual_plan =
  rp_actions :: "residual_action list"
  rp_auto_start_count :: int
  rp_inferred_success_count :: int

definition mk_residual_plan :: "residual_plan \<Rightarrow> residual_plan result" where
  "mk_residual_plan p = raise_or (reject_if (rp_auto_start_count p \<noteq> 0 \<or> rp_inferred_success_count p \<noteq> 0)
     (DomainValidationError ''residual_sandbox_reconcile_plan'' ''red_line'' ''auto_start_or_inferred_success_forbidden'')) p"

definition action_order :: "residual_action \<Rightarrow> string \<times> string \<times> string \<times> int \<times> string" where
  "action_order a = (case ra_identity a of (r, s, t, f) \<Rightarrow> (r, s, t, f, residual_disposition_value (ra_disposition a)))"

definition residual_action_of :: "expected_live_attempt list \<Rightarrow> residual_observation \<Rightarrow> residual_action" where
  "residual_action_of expected r =
     \<lparr>ra_disposition = (if residual_identity r \<in> expected_identity ` set expected then Keep else OrphanRemove),
      ra_identity = residual_identity r, ra_container_id = Some (ro_container_id r),
      ra_requires_unknown_observation = False\<rparr>"

definition unknown_action_of :: "expected_live_attempt \<Rightarrow> residual_action" where
  "unknown_action_of x = \<lparr>ra_disposition = UnknownResidual, ra_identity = expected_identity x, ra_container_id = None,
     ra_requires_unknown_observation = True\<rparr>"

definition reconcile_residual_sandboxes ::
  "expected_live_attempt list \<Rightarrow> residual_observation list \<Rightarrow> residual_plan result" where
  "reconcile_residual_sandboxes expected residuals =
     (if \<not> distinct (map expected_identity expected)
      then Inl (DomainValidationError ''residual_sandbox_reconcile'' ''expected_live'' ''duplicate_identity'')
      else
        let actions = map (residual_action_of expected) residuals @
              map unknown_action_of (filter (\<lambda>x. expected_identity x \<notin> residual_identity ` set residuals \<and>
                \<not> xa_has_terminal_facts x) expected)
        in mk_residual_plan \<lparr>rp_actions = sort_key action_order actions, rp_auto_start_count = 0,
             rp_inferred_success_count = 0\<rparr>)"

lemma reconcile_residual_Inr:
  assumes "reconcile_residual_sandboxes expected residuals = Inr plan"
  shows "rp_auto_start_count plan = 0" "rp_inferred_success_count plan = 0" "distinct (map expected_identity expected)"
    "sorted (map action_order (rp_actions plan))"
    "mset (rp_actions plan) = mset (map (residual_action_of expected) residuals) +
       mset (map unknown_action_of (filter (\<lambda>x. expected_identity x \<notin> residual_identity ` set residuals \<and>
         \<not> xa_has_terminal_facts x) expected))"
  using assms by (auto simp: reconcile_residual_sandboxes_def mk_residual_plan_def Let_def result_simps)

text \<open>
  Acceptance of a collection result (\<open>src/qarunner/domain/collection_adapter.py\<close>) and the isolation
  boundary of collection (\<open>src/qarunner/domain/collection_isolation.py\<close>).
\<close>

definition collection_rejected :: "string \<Rightarrow> string \<Rightarrow> domain_error" where
  "collection_rejected reason reason_class = CollectionAdapterRejected reason reason_class"

definition supported_frameworks :: "string list" where
  "supported_frameworks = [''pytest'', ''playwright'']"

definition locator_kind_of :: "string \<Rightarrow> string" where
  "locator_kind_of framework = (if framework = ''pytest'' then ''pytest_nodeid'' else ''playwright_test'')"

definition required_locator_parts :: "string \<Rightarrow> string list" where
  "required_locator_parts kind = (if kind = ''pytest_nodeid'' then [''file'', ''node''] else [''project'', ''file'', ''title''])"

definition collection_contract_of :: "string \<Rightarrow> string" where
  "collection_contract_of framework =
     (if framework = ''pytest'' then ''qep.pytest-collection.v1'' else ''qep.playwright-collection.v1'')"

definition require_locator_for_framework :: "framework_locator \<Rightarrow> string \<Rightarrow> domain_error option" where
  "require_locator_for_framework l expected_kind = first_some
     [reject_if (loc_kind l \<noteq> expected_kind) (collection_rejected ''unsupported_locator_kind'' ''invalid_input''),
      reject_if (\<not> set (required_locator_parts expected_kind) \<subseteq> fst ` set (loc_parts l))
        (collection_rejected ''locator_parts_incomplete'' ''invalid_input'')]"

definition accept_collection_adapter_result ::
  "string \<Rightarrow> manifest_inputs \<Rightarrow> manifest_inputs \<Rightarrow> manifest_item list \<Rightarrow> string \<Rightarrow> string \<Rightarrow> case_manifest result" where
  "accept_collection_adapter_result framework expected_inputs claimed_inputs items manifest_id batch_id =
     (if framework \<notin> set supported_frameworks then Inl (collection_rejected ''unsupported_framework'' ''invalid_input'')
      else if claimed_inputs \<noteq> expected_inputs then Inl (collection_rejected ''input_digest_mismatch'' ''integrity_failure'')
      else if mi_collection_contract_version claimed_inputs \<noteq> collection_contract_of framework
      then Inl (collection_rejected ''unsupported_collection_contract'' ''invalid_input'')
      else if items = [] then Inl (collection_rejected ''empty_manifest'' ''invalid_input'')
      else bind_result (raise_or (first_some (map (\<lambda>i.
          require_locator_for_framework (it_framework_locator i) (locator_kind_of framework)) items)) ()) (\<lambda>_.
        case case_manifest_create manifest_id batch_id claimed_inputs items of
          Inl (DomainValidationError e f r) \<Rightarrow> Inl (collection_rejected ''malformed_manifest'' ''invalid_input'')
        | other \<Rightarrow> other))"

section \<open>Isolation\<close>

definition forbidden_control_plane_imports :: "string list" where
  "forbidden_control_plane_imports =
     [''qarunner.adapters.docker_runner'', ''qarunner.adapters.postgres_store'', ''qarunner.adapters.sqlite_store'',
      ''qarunner.adapters.subprocess_runner'', ''qarunner.core.orchestrator'', ''qarunner.api.deps'', ''docker'',
      ''asyncpg'', ''aiosqlite'']"

definition forbidden_accept_path_tokens :: "string list" where
  "forbidden_accept_path_tokens =
     [''subprocess'', ''importlib'', ''os.system'', ''docker'', ''asyncpg'', ''aiosqlite'', ''__import__'', ''exec('', ''eval('']"

text \<open>The assertion holds or fails; which token of the set is named first is not modelled.\<close>

definition accept_path_is_isolated :: "string \<Rightarrow> bool" where
  "accept_path_is_isolated source \<longleftrightarrow> list_all (\<lambda>token. \<not> occurs_in token source) forbidden_accept_path_tokens"

definition is_forbidden_control_plane_import :: "string \<Rightarrow> bool" where
  "is_forbidden_control_plane_import module_name \<longleftrightarrow>
     module_name \<in> set forbidden_control_plane_imports \<or>
     list_ex (\<lambda>item. module_name = item \<or> starts_with (item @ ''.'') module_name) forbidden_control_plane_imports"

text \<open>What an accepted collection result satisfies.\<close>

lemma accept_collection_Inr:
  "accept_collection_adapter_result framework expected claimed items mid bid = Inr m \<longleftrightarrow>
     framework \<in> set supported_frameworks \<and> claimed = expected \<and>
     mi_collection_contract_version claimed = collection_contract_of framework \<and> items \<noteq> [] \<and>
     (\<forall>i \<in> set items. loc_kind (it_framework_locator i) = locator_kind_of framework \<and>
        set (required_locator_parts (locator_kind_of framework)) \<subseteq> fst ` set (loc_parts (it_framework_locator i))) \<and>
     case_manifest_create mid bid claimed items = Inr m"
  by (auto simp: accept_collection_adapter_result_def require_locator_for_framework_def result_simps
      split: sum.splits domain_error.splits)

end
