(* ===== verification/Json_Injective.thy ===== *)
theory Json_Injective
  imports Canonical_Json Ip_Address
begin

text \<open>
  The canonical text determines the value: \<open>json_dumps\<close> is injective up to the order of the members of
  objects. So two facts of the program have the same digest only when they carry the same payload, or
  when SHA-256 collides on their texts. Every piece of the text is recognised from its front: what
  follows it never extends it.
\<close>

section \<open>Strings\<close>

definition backslash :: char where
  "backslash = char_of (92::nat)"

definition escape_letter :: "nat \<Rightarrow> nat" where
  "escape_letter n = (if n = 34 then 34 else if n = 92 then 92 else if n = 10 then 110 else if n = 13 then 114
     else if n = 9 then 116 else if n = 12 then 102 else if n = 8 then 98 else 117)"

definition escaped_code :: "nat \<Rightarrow> bool" where
  "escaped_code n \<longleftrightarrow> n = 34 \<or> n = 92 \<or> n < 32"

lemma json_escape_plain: "\<not> escaped_code (of_char c) \<Longrightarrow> json_escape c = [c]"
  by (simp add: json_escape_def escaped_code_def)

lemma json_escape_special:
  assumes "escaped_code (of_char c)"
  shows "json_escape c = backslash # char_of (escape_letter (of_char c)) #
    (if escape_letter (of_char c) = 117 then ''00'' @ hex2 (of_char c) else [])"
proof -
  have letters: "char_of (110::nat) = CHR ''n''" "char_of (114::nat) = CHR ''r''" "char_of (116::nat) = CHR ''t''"
      "char_of (102::nat) = CHR ''f''" "char_of (98::nat) = CHR ''b''" "char_of (117::nat) = CHR ''u''"
    by code_simp+
  show ?thesis using assms
    by (auto simp: json_escape_def escape_letter_def escaped_code_def backslash_def letters Let_def)
qed

lemma escape_letter_inj: "escape_letter n = escape_letter m \<Longrightarrow> escape_letter n \<noteq> 117 \<Longrightarrow> n = m"
  by (auto simp: escape_letter_def split: if_splits)

lemma escape_letter_small: "escape_letter n < 256"
  by (simp add: escape_letter_def)

lemma char_of_eq_iff: "n < 256 \<Longrightarrow> m < 256 \<Longrightarrow> char_of n = char_of m \<longleftrightarrow> n = (m::nat)"
  by (metis of_char_of mod_less)

lemma hex_digit_inj: "n < 16 \<Longrightarrow> m < 16 \<Longrightarrow> hex_digit n = hex_digit m \<Longrightarrow> n = m"
  by (auto simp: hex_digit_def char_of_eq_iff split: if_splits)

lemma hex2_inj:
  assumes "n < 256" "m < 256" "hex2 n = hex2 m"
  shows "n = m"
proof -
  have "n div 16 < 16" "m div 16 < 16" using assms(1,2) by (simp_all add: less_mult_imp_div_less)
  then have "n div 16 = m div 16" using assms(3) hex_digit_inj by (simp add: hex2_def)
  moreover have "n mod 16 = m mod 16" using assms(3) hex_digit_inj [of "n mod 16" "m mod 16"] by (simp add: hex2_def)
  ultimately show ?thesis by (metis div_mult_mod_eq)
qed

lemma json_escape_prefix:
  assumes "json_escape c @ x = json_escape d @ y"
  shows "c = d \<and> x = y"
proof -
  have bs: "\<not> escaped_code (of_char e) \<Longrightarrow> e \<noteq> backslash" for e
    by (auto simp: escaped_code_def backslash_def)
  show ?thesis
  proof (cases "escaped_code (of_char c) \<and> escaped_code (of_char d)")
    case False
    then consider "\<not> escaped_code (of_char c)" "\<not> escaped_code (of_char d)"
      | "\<not> escaped_code (of_char c)" "escaped_code (of_char d)" | "escaped_code (of_char c)" "\<not> escaped_code (of_char d)"
      by blast
    then show ?thesis
    proof cases
      case 1
      then show ?thesis using assms by (simp add: json_escape_plain)
    next
      case 2
      then show ?thesis using assms bs [of c] by (simp add: json_escape_plain json_escape_special)
    next
      case 3
      then show ?thesis using assms bs [of d] by (simp add: json_escape_plain json_escape_special)
    qed
  next
    case True
    let ?n = "of_char c :: nat" and ?m = "of_char d :: nat"
    have l: "escape_letter ?n = escape_letter ?m"
      using assms True escape_letter_small by (auto simp: json_escape_special char_of_eq_iff)
    have "?n = ?m"
    proof (cases "escape_letter ?n = 117")
      case hex: True
      then have "hex2 ?n = hex2 ?m" using assms True l by (auto simp: json_escape_special hex2_def)
      then show ?thesis by (intro hex2_inj) simp_all
    qed (use escape_letter_inj [OF l] in simp)
    then have "c = d" by (metis char_of_char)
    then show ?thesis using assms by simp
  qed
qed

lemma json_escape_quote: "json_escape c @ x \<noteq> quote_char # y"
proof (cases "escaped_code (of_char c)")
  case True
  then show ?thesis by (simp add: json_escape_special backslash_def quote_char_def char_of_eq_iff)
next
  case False
  then have "c \<noteq> quote_char" by (auto simp: escaped_code_def quote_char_def)
  then show ?thesis using False by (simp add: json_escape_plain)
qed

lemma json_quote_prefix:
  assumes "json_quote s @ x = json_quote t @ y"
  shows "s = t \<and> x = y"
proof -
  have "concat (map json_escape s) @ quote_char # x = concat (map json_escape t) @ quote_char # y \<Longrightarrow> s = t \<and> x = y"
  proof (induction s arbitrary: t)
    case Nil
    then show ?case using json_escape_quote by (cases t) (simp_all, metis)
  next
    case (Cons c s)
    show ?case
    proof (cases t)
      case Nil
      then show ?thesis using Cons.prems json_escape_quote [of c] by simp
    next
      case (Cons d t')
      then show ?thesis
        using json_escape_prefix [of c "concat (map json_escape s) @ quote_char # x" d] Cons.prems Cons.IH [of t'] by auto
    qed
  qed
  then show ?thesis using assms by (simp add: json_quote_def)
qed

section \<open>Integers\<close>

lemma digits_value_append: "digits_value acc (xs @ ys) = digits_value (digits_value acc xs) ys"
  by (induction acc xs rule: digits_value.induct) simp_all

lemma show_nat_digits: "list_all is_digit (show_nat n) \<and> digits_value 0 (show_nat n) = n \<and> show_nat n \<noteq> []"
proof (induction n rule: less_induct)
  case (less n)
  show ?case
  proof (cases "n < 10")
    case False
    then show ?thesis using less [of "n div 10"] by (simp add: show_nat_large digits_value_append)
  qed (simp add: show_nat_small)
qed

definition stops :: "string \<Rightarrow> bool" where
  "stops r \<longleftrightarrow> r = [] \<or> \<not> is_digit (hd r)"

lemma digits_prefix:
  assumes "xs @ r = ys @ r'" "list_all is_digit xs" "list_all is_digit ys" "stops r" "stops r'"
  shows "xs = ys \<and> r = r'"
proof -
  have "takeWhile is_digit (zs @ q) = zs" if "list_all is_digit zs" "stops q" for zs q
    using that by (induction zs) (auto simp: stops_def takeWhile_eq_Nil_iff)
  then have "xs = ys" using assms by metis
  then show ?thesis using assms(1) by simp
qed

lemma minus_no_digit: "\<not> is_digit CHR ''-''"
  by code_simp

lemma show_int_prefix:
  assumes "show_int i @ r = show_int k @ r'" "stops r" "stops r'"
  shows "i = k \<and> r = r'"
proof -
  have nat: "n = m \<and> r = r'" if "show_nat n @ r = show_nat m @ r'" for n m
    using digits_prefix [OF that] show_nat_digits [of n] show_nat_digits [of m] assms(2,3) by metis
  have sign: "show_nat n @ x \<noteq> CHR ''-'' # y" for n x y
    using show_nat_digits [of n] minus_no_digit by (cases "show_nat n") auto
  show ?thesis
  proof (cases "i < 0"; cases "k < 0")
    assume ik: "i < 0" "k < 0"
    then have "show_nat (nat (- i)) @ r = show_nat (nat (- k)) @ r'" using assms(1) by (simp add: show_int_def)
    from nat [OF this] show ?thesis using ik by linarith
  next
    assume ik: "\<not> i < 0" "\<not> k < 0"
    then have "show_nat (nat i) @ r = show_nat (nat k) @ r'" using assms(1) by (simp add: show_int_def)
    from nat [OF this] show ?thesis using ik by linarith
  next
    assume "i < 0" "\<not> k < 0"
    then show ?thesis using assms(1) sign [of "nat k" r'] by (simp add: show_int_def) metis
  next
    assume "\<not> i < 0" "k < 0"
    then show ?thesis using assms(1) sign [of "nat i" r] by (simp add: show_int_def)
  qed
qed

lemma hd_show_int: "show_int i \<noteq> []" "is_digit (hd (show_int i)) \<or> hd (show_int i) = CHR ''-''"
  using show_nat_digits [of "nat i"] by (auto simp: show_int_def neq_Nil_conv)

section \<open>Sequences\<close>

text \<open>
  A printer is recognisable on a set when its output determines the value and the rest, before a rest
  that starts with no digit, and never starts with a separator or a closing bracket.
\<close>

definition recognisable :: "('a \<Rightarrow> string) \<Rightarrow> 'a \<Rightarrow> bool" where
  "recognisable f x \<longleftrightarrow>
     (\<forall>y r r'. stops r \<and> stops r' \<and> f x @ r = f y @ r' \<longrightarrow> x = y \<and> r = r')"

definition opens :: "('a \<Rightarrow> string) \<Rightarrow> bool" where
  "opens f \<longleftrightarrow> (\<forall>x. f x \<noteq> [] \<and> hd (f x) \<notin> {CHR '','', CHR '']'', CHR ''}''})"

lemma stops_marks: "stops (CHR '','' # r)" "stops (CHR '']'' # r)" "stops (CHR ''}'' # r)" "stops []"
  by (simp_all add: stops_def is_digit_def)

lemma join_with_Cons: "join_with sep (x # ys) = x @ (if ys = [] then [] else sep @ join_with sep ys)"
  by (cases ys) simp_all

lemma join_recognised:
  assumes "\<forall>x \<in> set xs. recognisable f x" "opens f" "c \<in> {CHR '']'', CHR ''}''}"
    "join_with '','' (map f xs) @ c # r = join_with '','' (map f ys) @ c # r'"
  shows "xs = ys \<and> r = r'"
  using assms(1,4)
proof (induction xs arbitrary: ys)
  case Nil
  show ?case
  proof (cases ys)
    case (Cons y ys')
    have "f y \<noteq> []" "hd (f y) \<noteq> c" using assms(2,3) by (auto simp: opens_def)
    then show ?thesis using Nil.prems(2) by (auto simp: Cons join_with_Cons neq_Nil_conv)
  qed (use Nil in simp)
next
  case (Cons x xs)
  have fx: "f x \<noteq> []" "hd (f x) \<noteq> c" using assms(2,3) by (auto simp: opens_def)
  show ?case
  proof (cases ys)
    case Nil
    then show ?thesis using Cons.prems(2) fx by (auto simp: join_with_Cons neq_Nil_conv)
  next
    case (Cons y ys')
    define rest where "rest = (\<lambda>zs q. (if zs = [] then [] else CHR '','' # join_with '','' (map f zs)) @ c # q)"
    have stop: "stops (rest zs q)" for zs q using assms(3) by (auto simp: rest_def stops_def is_digit_def)
    have "f x @ rest xs r = f y @ rest ys' r'"
      using Cons.prems(2) by (cases "xs = []"; cases "ys' = []") (simp_all add: Cons rest_def join_with_Cons)
    then have xy: "x = y" "rest xs r = rest ys' r'"
      using Cons.prems(1) stop unfolding recognisable_def by (metis list.set_intros(1))+
    have "c \<noteq> CHR '',''" using assms(3) by auto
    then have "(xs = [] \<longleftrightarrow> ys' = []) \<and> join_with '','' (map f xs) @ c # r = join_with '','' (map f ys') @ c # r'"
      using xy(2) by (auto simp: rest_def split: if_splits)
    then show ?thesis using Cons.IH [of ys'] Cons.prems(1) xy(1) by (simp add: Cons)
  qed
qed

section \<open>Values\<close>

text \<open>The serialisation without sorting, and the value with its members sorted.\<close>

fun json_text :: "json \<Rightarrow> string" where
  "json_text JNull = ''null''"
| "json_text (JBool b) = (if b then ''true'' else ''false'')"
| "json_text (JInt i) = show_int i"
| "json_text (JStr s) = json_quote s"
| "json_text (JList js) = ''['' @ join_with '','' (map json_text js) @ '']''"
| "json_text (JObj kvs) = ''{'' @ join_with '','' (map (\<lambda>kv. json_quote (fst kv) @ '':'' @ json_text (snd kv)) kvs) @ ''}''"

fun sorted_members :: "json \<Rightarrow> json" where
  "sorted_members (JList js) = JList (map sorted_members js)"
| "sorted_members (JObj kvs) = JObj (sort_key fst (map (\<lambda>kv. (fst kv, sorted_members (snd kv))) kvs))"
| "sorted_members j = j"

lemma sort_key_map_snd:
  fixes kvs :: "('a::linorder \<times> 'c) list"
  shows "sort_key fst (map (\<lambda>kv. (fst kv, g (snd kv))) kvs) = map (\<lambda>kv. (fst kv, g (snd kv))) (sort_key fst kvs)"
proof -
  have *: "insort_key fst (fst x, g (snd x)) (map (\<lambda>kv. (fst kv, g (snd kv))) xs) =
      map (\<lambda>kv. (fst kv, g (snd kv))) (insort_key fst x xs)" for x and xs :: "('a \<times> 'c) list"
    by (induction xs) auto
  show ?thesis by (induction kvs) (simp_all add: *)
qed

lemma json_dumps_text: "json_dumps j = json_text (sorted_members j)"
proof (induction j)
  case (JList js)
  then have "map json_dumps js = map json_text (map sorted_members js)" by simp
  then show ?case by (simp only: json_dumps.simps sorted_members.simps json_text.simps)
next
  case (JObj kvs)
  then have "map (\<lambda>kv. (fst kv, json_dumps (snd kv))) kvs = map (\<lambda>kv. (fst kv, json_text (sorted_members (snd kv)))) kvs"
    by (auto simp: snds.simps)
  also have "\<dots> = map (\<lambda>kv. (fst kv, json_text (snd kv))) (map (\<lambda>kv. (fst kv, sorted_members (snd kv))) kvs)"
    by simp
  finally show ?case
    by (simp only: json_dumps.simps sorted_members.simps json_text.simps sort_key_map_snd)
      (simp add: json_member_def comp_def)
qed simp_all

text \<open>The first character tells the constructor.\<close>

fun json_kind :: "json \<Rightarrow> nat" where
  "json_kind JNull = 0"
| "json_kind (JBool b) = (if b then 1 else 2)"
| "json_kind (JInt i) = 3"
| "json_kind (JStr s) = 4"
| "json_kind (JList js) = 5"
| "json_kind (JObj kvs) = 6"

definition front_kind :: "char \<Rightarrow> nat" where
  "front_kind c = (if is_digit c \<or> c = CHR ''-'' then 3 else if c = CHR ''n'' then 0 else if c = CHR ''t'' then 1
     else if c = CHR ''f'' then 2 else if c = quote_char then 4 else if c = CHR ''['' then 5
     else if c = CHR ''{'' then 6 else 7)"

lemma front_kind_eval:
  "front_kind CHR ''n'' = 0" "front_kind CHR ''t'' = 1" "front_kind CHR ''f'' = 2" "front_kind quote_char = 4"
  "front_kind CHR ''['' = 5" "front_kind CHR ''{'' = 6" "front_kind CHR '','' = 7" "front_kind CHR '']'' = 7"
  "front_kind CHR ''}'' = 7"
  by code_simp+

lemma json_text_front: "json_text j \<noteq> [] \<and> front_kind (hd (json_text j)) = json_kind j"
proof (cases j)
  case (JInt i)
  then show ?thesis using hd_show_int [of i] by (auto simp: front_kind_def)
qed (simp_all add: json_quote_def front_kind_eval)

lemma json_text_opens: "opens json_text"
  unfolding opens_def
proof
  fix j
  have "json_kind j < 7" by (cases j) simp_all
  then show "json_text j \<noteq> [] \<and> hd (json_text j) \<notin> {CHR '','', CHR '']'', CHR ''}''}"
    using json_text_front [of j] front_kind_eval(7-9) by auto
qed

lemma json_text_kinds:
  assumes "json_text j @ r = json_text k @ r'"
  shows "json_kind j = json_kind k"
proof -
  have "hd (json_text j) = hd (json_text k)" using assms json_text_front by (metis hd_append2)
  then show ?thesis using json_text_front by metis
qed

definition member_text :: "string \<times> json \<Rightarrow> string" where
  "member_text kv = json_quote (fst kv) @ '':'' @ json_text (snd kv)"

lemma member_text_opens: "opens member_text"
  using front_kind_eval by (auto simp: opens_def member_text_def json_quote_def)

lemma member_text_recognisable: "recognisable json_text (snd kv) \<Longrightarrow> recognisable member_text kv"
  unfolding recognisable_def member_text_def
  by (metis append.assoc append_Cons append_Nil json_quote_prefix list.inject prod.expand)

lemma json_text_recognisable: "recognisable json_text j"
proof (induction j)
  case JNull
  have "JNull = k \<and> r = r'" if "json_text JNull @ r = json_text k @ r'" for k r r'
    using json_text_kinds [OF that] that by (cases k) (auto split: if_splits)
  then show ?case unfolding recognisable_def by blast
next
  case (JBool b)
  have "JBool b = k \<and> r = r'" if "json_text (JBool b) @ r = json_text k @ r'" for k r r'
    using json_text_kinds [OF that] that by (cases k) (auto split: if_splits)
  then show ?case unfolding recognisable_def by blast
next
  case (JInt i)
  have "JInt i = k \<and> r = r'" if "json_text (JInt i) @ r = json_text k @ r'" "stops r" "stops r'" for k r r'
    using json_text_kinds [OF that(1)] that show_int_prefix [of i r _ r'] by (cases k) (auto split: if_splits)
  then show ?case unfolding recognisable_def by blast
next
  case (JStr s)
  have "JStr s = k \<and> r = r'" if "json_text (JStr s) @ r = json_text k @ r'" for k r r'
    using json_text_kinds [OF that(1)] that json_quote_prefix [of s r _ r'] by (cases k) (auto split: if_splits)
  then show ?case unfolding recognisable_def by blast
next
  case (JList js)
  have "JList js = k \<and> r = r'" if eq: "json_text (JList js) @ r = json_text k @ r'" for k r r'
  proof -
    obtain ks where k: "k = JList ks" using json_text_kinds [OF eq] by (cases k) (auto split: if_splits)
    then have "join_with '','' (map json_text js) @ CHR '']'' # r = join_with '','' (map json_text ks) @ CHR '']'' # r'"
      using eq by simp
    then show ?thesis using join_recognised [OF _ json_text_opens, of js "CHR '']''" r ks r'] JList k by simp
  qed
  then show ?case unfolding recognisable_def by blast
next
  case (JObj kvs)
  have "JObj kvs = k \<and> r = r'" if eq: "json_text (JObj kvs) @ r = json_text k @ r'" for k r r'
  proof -
    obtain ks where k: "k = JObj ks" using json_text_kinds [OF eq] by (cases k) (auto split: if_splits)
    then have "join_with '','' (map member_text kvs) @ CHR ''}'' # r = join_with '','' (map member_text ks) @ CHR ''}'' # r'"
      using eq unfolding k json_text.simps member_text_def [abs_def] by simp
    moreover have "\<forall>kv \<in> set kvs. recognisable member_text kv"
      using JObj member_text_recognisable by (metis prod_set_simps(2) insertI1 prod.collapse snds.intros)
    ultimately show ?thesis using join_recognised [OF _ member_text_opens, of kvs "CHR ''}''" r ks r'] k by simp
  qed
  then show ?case unfolding recognisable_def by blast
qed

lemma json_dumps_eq_iff: "json_dumps j = json_dumps k \<longleftrightarrow> sorted_members j = sorted_members k"
  unfolding json_dumps_text
  using json_text_recognisable [of "sorted_members j"] stops_marks(4)
  unfolding recognisable_def by (metis append_Nil2)

lemma canonical_bytes_eq_iff:
  "canonical_bytes v p = canonical_bytes w q \<longleftrightarrow> v = w \<and> sorted_members p = sorted_members q"
proof -
  have "sorted_members (JObj [(''payload'', x), (''schema_version'', JStr y)]) =
      JObj [(''payload'', sorted_members x), (''schema_version'', JStr y)]" for x y
    by (simp add: sort_key_def)
  then show ?thesis unfolding canonical_bytes_def json_dumps_eq_iff by auto
qed

end
