(* ===== verification/Result_Properties.thy ===== *)
theory Result_Properties
  imports Case_Results Worker_Execution Json_Injective
begin

text \<open>
  Properties of the Worker boundary: what an accepted result file and the platform's exit facts make of
  an Attempt, declared artifacts, sandboxes and their identity; and of the canonical text under every
  digest.
\<close>

section \<open>Digests\<close>

text \<open>
  C40: The canonical text determines what it stands for: two digests are computed from the same bytes
  exactly when their schema versions agree and their payloads agree up to the order of the members of
  objects. So equal digests of different facts would be a collision of SHA-256 itself.
\<close>

theorem canonical_text_determines_payload:
  "canonical_bytes v p = canonical_bytes w q \<longleftrightarrow> v = w \<and> sorted_members p = sorted_members q"
  by (rule canonical_bytes_eq_iff)

section \<open>Classification\<close>

text \<open>
  C34: The Worker boundary and the control plane agree on every Attempt. Whatever exit code, timeout,
  cancellation, memory kill and case summary are observed, the boundary either reports unknown and
  yields no exit facts, or its exit facts make the control plane's own classification of the same
  summary come to the class the boundary reported; a cancelled one needs a stop proof.
\<close>

theorem worker_boundary_agrees:
  assumes "0 < pid" "\<not> blank event"
  shows "let r = classify_pytest_attempt_result code timed_out cancelled summary oom in
    \<exists>facts. trusted_exit_facts_from_pytest_result r event (Some pid) = Inr facts \<and>
      (facts = None \<longleftrightarrow> pr_result_class r = ResultUnknown) \<and>
      (pr_result_class r = ResultUnknown \<longleftrightarrow> pr_requires_unknown_observation r) \<and>
      (\<forall>x. facts = Some x \<longrightarrow> classify_outcome x summary stop =
        (case pr_result_class r of
           ResultPassed \<Rightarrow> Inr OutcomePassed
         | ResultTestFailed \<Rightarrow> Inr OutcomeTestFailed
         | ResultCancelled \<Rightarrow> (if stop = None
             then Inl (EvidenceNotReady ''trusted cancellation stop proof is missing'') else Inr OutcomeCancelled)
         | _ \<Rightarrow> Inr OutcomeInfraFailed))"
proof -
  define r where "r = classify_pytest_attempt_result code timed_out cancelled summary oom"
  have facts: "trusted_exit_facts_from_pytest_result r event (Some pid) = Inr (if pr_result_class r = ResultUnknown then None
      else Some \<lparr>te_source_event_id = event, te_pid = Some pid,
        te_exit_class = (case pr_result_class r of ResultCancelled \<Rightarrow> ExitCancelled
          | ResultInfraFailed \<Rightarrow> ExitInfraFailed | _ \<Rightarrow> ExitCompleted),
        te_exit_code = pr_exit_code r, te_signal = None, te_oom = pr_oom r, te_timeout = pr_timed_out r\<rparr>)"
    using assms by (simp add: trusted_exit_facts_from_pytest_result_def)
  consider "pr_result_class r = ResultUnknown" "pr_requires_unknown_observation r"
    | "pr_result_class r \<in> {ResultCancelled, ResultInfraFailed}" "\<not> pr_requires_unknown_observation r"
    | s where "pr_result_class r = ResultPassed" "\<not> pr_requires_unknown_observation r" "pr_exit_code r = Some 0"
        "\<not> pr_oom r" "\<not> pr_timed_out r" "summary = Some s" "su_failed s = 0" "\<not> su_not_reported s > 0"
        "\<not> su_unexpected s > 0"
    | s c where "pr_result_class r = ResultTestFailed" "\<not> pr_requires_unknown_observation r" "pr_exit_code r = Some c"
        "c \<noteq> 0" "\<not> pr_oom r" "\<not> pr_timed_out r" "summary = Some s" "su_failed s > 0" "\<not> su_not_reported s > 0"
        "\<not> su_unexpected s > 0"
    using pytest_result_cases [OF r_def] by blast
  then show ?thesis
  proof cases
    case 1
    then show ?thesis unfolding r_def [symmetric] Let_def by (simp add: facts)
  next
    case 2
    then show ?thesis unfolding r_def [symmetric] Let_def by (auto simp: facts classify_outcome_def)
  next
    case 3
    then show ?thesis unfolding r_def [symmetric] Let_def using assms(1) by (simp add: facts classify_outcome_def)
  next
    case 4
    then show ?thesis unfolding r_def [symmetric] Let_def using assms(1) by (simp add: facts classify_outcome_def)
  qed
qed

theorem worker_boundary_agrees_witness:
  "\<exists>x. trusted_exit_facts_from_pytest_result (classify_pytest_attempt_result (Some 0) False False None True) ''e'' (Some 7) =
     Inr (Some x) \<and> classify_outcome x None None = Inr OutcomeInfraFailed"
proof -
  have "\<not> blank ''e''" by (simp add: blank_eval)
  from worker_boundary_agrees [OF _ this, of 7 "Some 0" False False None True None] show ?thesis
    by (auto simp: classify_pytest_attempt_result_def attempt_result_def Let_def)
qed

text \<open>
  C33: Nothing but passing cases makes a pytest Attempt pass. When an accepted result file and the
  platform's facts lead to the outcome passed, the process ended with exit code 0 without timeout,
  memory kill or cancellation, the file had at least one entry, every entry of it is a case with its own
  stable id, and no case failed or raised an error.
\<close>

theorem pytest_pass_needs_passing_cases:
  assumes "accept_pytest_execution_result version raws code path digest = Inr (cases, s)"
    "trusted_exit_facts_from_pytest_result
       (classify_pytest_attempt_result (Some code) timed_out cancelled (Some s) oom) event pid = Inr (Some x)"
    "classify_outcome x (Some s) stop = Inr OutcomePassed"
  shows "code = 0 \<and> \<not> timed_out \<and> \<not> oom \<and> \<not> cancelled \<and> cases \<noteq> [] \<and> length cases = length raws \<and>
    distinct (map vc_stable_case_id cases) \<and> (\<forall>c \<in> set cases. vc_outcome c \<in> {CasePassed, CaseSkipped}) \<and>
    int (length cases) = su_passed s + su_skipped s"
proof -
  note a = accept_execution_result_Inr [OF assms(1) [unfolded accept_pytest_execution_result_def]]
  have s: "su_failed s = count_cases [CaseFailed, CaseError] cases" "su_passed s = count_cases [CasePassed] cases"
      "su_skipped s = count_cases [CaseSkipped] cases"
    using a(4) by (auto simp: cases_summary_Inr)
  have n: "\<not> su_not_reported s > 0" "\<not> su_unexpected s > 0" using a(4) by (auto simp: cases_summary_Inr)
  have p: "code = 0 \<and> \<not> timed_out \<and> \<not> oom \<and> \<not> cancelled \<and> su_failed s = 0"
    using assms(2,3) n by (auto simp: trusted_exit_facts_from_pytest_result_def classify_pytest_attempt_result_def
        attempt_result_def classify_outcome_def result_simps split: if_splits option.splits)
  then have "\<forall>c \<in> set cases. vc_outcome c \<notin> {CaseFailed, CaseError}"
    using s(1) by (auto simp: count_cases_def filter_empty_conv)
  then have "\<forall>c \<in> set cases. vc_outcome c \<in> {CasePassed, CaseSkipped}" by (metis case_outcome.exhaust insertCI)
  moreover have "raws \<noteq> []" using a(5) p by auto
  then have "cases \<noteq> []" using a(2) by auto
  ultimately show ?thesis using p a(3) list_all2_lengthD [OF a(2)] count_cases_total [of cases] s by simp
qed

text \<open>A result file with one passing case.\<close>

definition sample_case :: raw_case where
  "sample_case = [(''stable_case_id'', RStr ''a.py::t''), (''outcome'', RStr ''passed''), (''duration_ms'', RInt 3)]"

lemma sample_case_parsed:
  "\<exists>c. parse_pytest_case sample_case = Inr c \<and> vc_outcome c = CasePassed"
  by (simp add: parse_pytest_case_def sample_case_def require_fields_def raw_outcome_def raw_text_def raw_duration_def
      raw_message_def raw_field_def case_outcome_of.simps pytest_nodeid_locator_def mk_framework_locator_def
      check_framework_locator_def manifest_string_def mk_validated_case_result_def check_validated_case_result_def
      Let_def blank_eval)

lemma sample_result_accepted:
  "\<exists>c s. accept_pytest_execution_result ''qep.pytest-case-result.v1'' [sample_case] 0 path digest = Inr ([c], s) \<and>
     su_failed s = 0 \<and> su_not_reported s = 0 \<and> su_unexpected s = 0"
proof -
  obtain c where c: "parse_pytest_case sample_case = Inr c" "vc_outcome c = CasePassed" using sample_case_parsed by blast
  then show ?thesis
    by (simp add: accept_pytest_execution_result_def accept_execution_result_def cases_summary_Inr count_cases_def)
qed

theorem pytest_pass_needs_passing_cases_witness:
  "\<exists>c s. accept_pytest_execution_result ''qep.pytest-case-result.v1'' [sample_case] 0 (ArtifactPath ''r'') (Digest ''d'') =
     Inr ([c], s) \<and> vc_outcome c \<in> {CasePassed, CaseSkipped}"
proof -
  obtain c s where a: "accept_pytest_execution_result ''qep.pytest-case-result.v1'' [sample_case] 0 (ArtifactPath ''r'')
      (Digest ''d'') = Inr ([c], s)" "su_failed s = 0" "su_not_reported s = 0" "su_unexpected s = 0"
    using sample_result_accepted by blast
  obtain x where x: "trusted_exit_facts_from_pytest_result
      (classify_pytest_attempt_result (Some 0) False False (Some s) False) ''e'' (Some 7) = Inr (Some x)"
      "classify_outcome x (Some s) None = Inr OutcomePassed"
    using a(2-4) by (simp add: classify_pytest_attempt_result_def attempt_result_def
        trusted_exit_facts_from_pytest_result_def classify_outcome_def blank_eval)
  show ?thesis using pytest_pass_needs_passing_cases [OF a(1) x] a(1) by auto
qed

section \<open>Artifacts\<close>

text \<open>
  A multi-part artifact is verified exactly when its parts are numbered 1, 2, 3, ... without a gap,
  each recomputed digest and size is the declared one and so is the digest of the whole; its size is
  then the sum of the recomputed sizes.
\<close>

theorem multipart_artifact_exact:
  assumes "\<forall>p \<in> set parts. check_declared_artifact_part p = None"
  shows "complete_declared_artifact_parts path cls parts declared_whole recomputed recomputed_total = Inr a \<longleftrightarrow>
    parts \<noteq> [] \<and> map dp_part_no parts = map (\<lambda>i. 1 + int i) [0..<length parts] \<and>
    map (\<lambda>p. (dp_digest p, dp_size_bytes p)) parts = recomputed \<and> declared_whole = recomputed_total \<and>
    a = \<lparr>va_path = path, va_content_class = cls, va_size_bytes = sum_list (map snd recomputed), va_digest = declared_whole\<rparr>"
proof -
  have "\<forall>p \<in> set parts. 0 \<le> dp_size_bytes p" using assms by (auto simp: check_declared_artifact_part_def result_simps not_less)
  then have pos: "0 \<le> sum_list (map dp_size_bytes parts)" by (intro sum_list_nonneg) auto
  have len: "map f parts = recomputed \<Longrightarrow> length parts = length recomputed" for f by auto
  have sizes: "sum_list (map snd (map (\<lambda>p. (dp_digest p, dp_size_bytes p)) parts)) = sum_list (map dp_size_bytes parts)"
    by (simp add: comp_def)
  show ?thesis
    using check_parts_None [of parts recomputed 1] pos sizes len
    by (auto simp: complete_declared_artifact_parts_def mk_verified_artifact_def check_verified_artifact_def result_simps)
qed

theorem multipart_artifact_exact_witness:
  "complete_declared_artifact_parts (ArtifactPath ''a'') LogArtifact
     [\<lparr>dp_part_no = 1, dp_size_bytes = 3, dp_digest = Digest ''x''\<rparr>, \<lparr>dp_part_no = 2, dp_size_bytes = 4, dp_digest = Digest ''y''\<rparr>]
     (Digest ''t'') [(Digest ''x'', 3), (Digest ''y'', 4)] (Digest ''t'') =
   Inr \<lparr>va_path = ArtifactPath ''a'', va_content_class = LogArtifact, va_size_bytes = 7, va_digest = Digest ''t''\<rparr>"
  by (subst multipart_artifact_exact) (simp_all add: check_declared_artifact_part_def upt_rec)

section \<open>Sandboxes\<close>

text \<open>
  After a restart every sandbox and every expected Attempt gets its due: the plan consists of one
  action for each container found, kept exactly when an expected Attempt has its identity and otherwise
  removed as an orphan, and one unknown action for each expected Attempt without terminal facts and
  without a container; nothing else, nothing twice, in the order of the identities. It starts no
  sandbox and infers no success.
\<close>

theorem residual_sandboxes_reconciled:
  assumes "reconcile_residual_sandboxes expected residuals = Inr plan"
  shows "mset (rp_actions plan) = mset (map (residual_action_of expected) residuals) +
      mset (map unknown_action_of (filter (\<lambda>x. expected_identity x \<notin> residual_identity ` set residuals \<and>
        \<not> xa_has_terminal_facts x) expected)) \<and>
    (\<forall>x \<in> set expected. \<not> xa_has_terminal_facts x \<longrightarrow>
       (\<exists>a \<in> set (rp_actions plan). ra_identity a = expected_identity x \<and> ra_disposition a \<noteq> OrphanRemove)) \<and>
    (\<forall>a \<in> set (rp_actions plan). ra_disposition a = Keep \<longrightarrow> ra_identity a \<in> expected_identity ` set expected) \<and>
    sorted (map action_order (rp_actions plan)) \<and> rp_auto_start_count plan = 0 \<and> rp_inferred_success_count plan = 0"
proof -
  note r = reconcile_residual_Inr [OF assms]
  have actions: "set (rp_actions plan) = residual_action_of expected ` set residuals \<union>
      unknown_action_of ` {x \<in> set expected. expected_identity x \<notin> residual_identity ` set residuals \<and> \<not> xa_has_terminal_facts x}"
    using arg_cong [OF r(5), of set_mset] by (simp only: set_mset_union set_mset_mset set_map set_filter)
  have "\<exists>a \<in> set (rp_actions plan). ra_identity a = expected_identity x \<and> ra_disposition a \<noteq> OrphanRemove"
    if x: "x \<in> set expected" "\<not> xa_has_terminal_facts x" for x
  proof (cases "expected_identity x \<in> residual_identity ` set residuals")
    case True
    then obtain q where "q \<in> set residuals" "residual_identity q = expected_identity x" by fastforce
    then have "ra_identity (residual_action_of expected q) = expected_identity x"
        "ra_disposition (residual_action_of expected q) \<noteq> OrphanRemove"
      using x(1) by (simp_all add: residual_action_of_def)
    moreover have "residual_action_of expected q \<in> set (rp_actions plan)"
      unfolding actions using \<open>q \<in> set residuals\<close> by blast
    ultimately show ?thesis by blast
  next
    case False
    then show ?thesis using x by (intro bexI [of _ "unknown_action_of x"]) (auto simp: unknown_action_of_def actions)
  qed
  moreover have "\<forall>a \<in> set (rp_actions plan). ra_disposition a = Keep \<longrightarrow> ra_identity a \<in> expected_identity ` set expected"
    by (auto simp: actions residual_action_of_def unknown_action_of_def split: if_splits)
  ultimately show ?thesis using r by blast
qed

definition sample_expected :: expected_live_attempt where
  "sample_expected = \<lparr>xa_run_id = ''r'', xa_assignment_id = ''s'', xa_attempt_id = ''a'', xa_fence = 2,
     xa_start_commit_key = ''k'', xa_has_terminal_facts = False\<rparr>"

definition sample_residual :: residual_observation where
  "sample_residual = \<lparr>ro_container_id = ''c'', ro_run_id = ''r'', ro_assignment_id = ''s'', ro_attempt_id = ''a'', ro_fence = 1,
     ro_worker_id = ''w'', ro_worker_generation = 1, ro_start_commit_key = ''k'', ro_running = True\<rparr>"

theorem residual_sandboxes_reconciled_witness:
  "\<exists>plan. reconcile_residual_sandboxes [sample_expected] [sample_residual] = Inr plan \<and>
     mset (rp_actions plan) = {#residual_action_of [sample_expected] sample_residual, unknown_action_of sample_expected#}"
proof -
  have "\<exists>plan. reconcile_residual_sandboxes [sample_expected] [sample_residual] = Inr plan"
    by (simp add: reconcile_residual_sandboxes_def mk_residual_plan_def Let_def)
  then obtain plan where plan: "reconcile_residual_sandboxes [sample_expected] [sample_residual] = Inr plan" ..
  show ?thesis using residual_sandboxes_reconciled [OF plan] plan
    by (auto simp: sample_expected_def sample_residual_def expected_identity_def residual_identity_def)
qed

text \<open>
  The workspace path of an Attempt determines its identity as long as no id contains a slash; the ids are
  only checked to be non-blank, so in general two identities may share a path.
\<close>

lemma slash_prefix:
  assumes "a @ CHR ''/'' # x = b @ CHR ''/'' # y" "CHR ''/'' \<notin> set a" "CHR ''/'' \<notin> set b"
  shows "a = b \<and> x = y"
proof -
  have "takeWhile (\<lambda>c. c \<noteq> CHR ''/'') (z @ CHR ''/'' # w) = z" if "CHR ''/'' \<notin> set z" for z w
    using that by (induction z) auto
  then have "a = b" using assms by metis
  then show ?thesis using assms(1) by simp
qed

lemma show_int_inj: "show_int i = show_int k \<Longrightarrow> i = k"
  using show_int_prefix [of i "[]" k "[]"] stops_marks(4) by simp

lemma workspace_path_identity:
  assumes "workspace_subpath_for_proof p = Inr path" "workspace_subpath_for_proof q = Inr path"
    "\<forall>s \<in> {sp_run_id p, sp_assignment_id p, sp_attempt_id p, sp_run_id q, sp_assignment_id q, sp_attempt_id q}. CHR ''/'' \<notin> set s"
  shows "sp_run_id p = sp_run_id q \<and> sp_assignment_id p = sp_assignment_id q \<and> sp_attempt_id p = sp_attempt_id q \<and>
    sp_fence p = sp_fence q"
proof -
  have "sp_run_id p @ CHR ''/'' # sp_assignment_id p @ CHR ''/'' # sp_attempt_id p @ CHR ''/'' # show_int (sp_fence p) =
      sp_run_id q @ CHR ''/'' # sp_assignment_id q @ CHR ''/'' # sp_attempt_id q @ CHR ''/'' # show_int (sp_fence q)"
    using assms(1,2) by (auto simp: workspace_subpath_for_proof_def require_execution_admission_def result_simps)
  then show ?thesis using assms(3) by (metis insertCI show_int_inj slash_prefix)
qed

lemma workspace_paths_collide:
  "workspace_subpath_for_proof (p\<lparr>sp_run_id := a @ ''/'' @ b, sp_assignment_id := c\<rparr>) =
   workspace_subpath_for_proof (p\<lparr>sp_run_id := a, sp_assignment_id := b @ ''/'' @ c\<rparr>)"
  by (simp add: workspace_subpath_for_proof_def require_execution_admission_def)

text \<open>
  The validator of the hardened browser options lets root and every capability through: the options
  built for an ordinary user stay accepted when the user becomes \<open>root:users\<close> and all capabilities are
  added, although \<open>root\<close> and \<open>SYS_ADMIN\<close> alone are rejected.
\<close>

theorem root_with_all_capabilities_accepted:
  "validate_create_kwargs ((''user'', VStr ''root:users'') # (''cap_add'', VStrs [''ALL'']) #
       browser_create_options m5_browser_default ''pwuser'') m5_browser_default = None \<and>
   validate_create_kwargs ((''user'', VStr ''root'') # browser_create_options m5_browser_default ''pwuser'')
       m5_browser_default \<noteq> None \<and>
   validate_create_kwargs ((''cap_add'', VStrs [''SYS_ADMIN'']) # browser_create_options m5_browser_default ''pwuser'')
       m5_browser_default \<noteq> None"
  by (intro conjI; code_simp)

end
