(* ===== verification/Application_Basis.thy ===== *)
theory Application_Basis
  imports Batch_Commands Python_Text
begin

text \<open>
  What the application handlers (\<open>src/qarunner/application/\<close>) share: their errors, the contract
  checks of their ports, and the shape of a handler. A handler runs inside one serialized command
  boundary over a gateway whose store is a parameter \<open>'s\<close>: it reads the store, raises, or publishes,
  and a publication may change the store. An \<open>action\<close> is such a computation; an error keeps what was
  written before it.
\<close>

section \<open>The handoff of a materialized scope\<close>

text \<open>
  The handoff of a Batch whose Runs already exist to the execution path
  (\<open>src/qarunner/application/handoff.py\<close>): a cancellation intent or a rejection that races with
  materialized Runs becomes one deterministic event. Its identity depends on the Batch, the
  triggering fact and the kind only; the other bindings enter the digest of the content.
\<close>

datatype handoff_trigger_kind = TriggerCancelIntent | TriggerRejectionConflict

fun handoff_trigger_value :: "handoff_trigger_kind \<Rightarrow> string" where
  "handoff_trigger_value TriggerCancelIntent = ''cancel_intent''"
| "handoff_trigger_value TriggerRejectionConflict = ''rejection_conflict''"

record scope_handoff =
  sh_schema_version :: string
  sh_identity_algorithm_version :: string
  sh_semantic_trigger_key :: digest
  sh_handoff_id :: string
  sh_handoff_digest :: digest
  sh_trigger_kind :: handoff_trigger_kind
  sh_trigger_digest :: digest
  sh_batch_id :: string
  sh_source_batch_version :: int
  sh_project_id :: string
  sh_suite_revision_id :: string
  sh_preplan_scope_digest :: "digest option"
  sh_manifest_digest :: "digest option"
  sh_shard_plan_version :: "int option"
  sh_shard_plan_digest :: "digest option"
  sh_authoritative_run_set_digest :: digest
  sh_authority_digest :: digest
  sh_write_epoch :: int
  sh_destination :: string
  sh_event_id :: string
  sh_payload_digest :: digest

section \<open>Building a handoff\<close>

text \<open>The keyword arguments of \<open>_build_handoff\<close>.\<close>

record handoff_source =
  hs_trigger_kind :: handoff_trigger_kind
  hs_trigger_digest :: digest
  hs_batch_id :: string
  hs_source_batch_version :: int
  hs_project_id :: string
  hs_suite_revision_id :: string
  hs_preplan_scope_digest :: "digest option"
  hs_manifest_digest :: "digest option"
  hs_shard_plan_version :: "int option"
  hs_shard_plan_digest :: "digest option"
  hs_authoritative_run_set_digest :: digest
  hs_authority_digest :: digest
  hs_write_epoch :: int

definition handoff_schema :: string where
  "handoff_schema = ''qep.batch-materialized-scope-handoff.v1''"

definition identity_algorithm :: string where
  "identity_algorithm = ''canonical-sha256.v1''"

text \<open>\<open>value.removeprefix("sha256:")\<close>.\<close>

definition digest_suffix :: "digest \<Rightarrow> string" where
  "digest_suffix d = (let v = digest_value d in if take 7 v = ''sha256:'' then drop 7 v else v)"

definition handoff_identity_members :: "handoff_source \<Rightarrow> (string \<times> json) list" where
  "handoff_identity_members s =
     [(''batch_id'', JStr (hs_batch_id s)),
      (''command_or_observation_digest'', digest_json (hs_trigger_digest s)),
      (''schema_version'', JStr handoff_schema),
      (''trigger_kind'', JStr (handoff_trigger_value (hs_trigger_kind s)))]"

definition handoff_binding_members :: "handoff_source \<Rightarrow> (string \<times> json) list" where
  "handoff_binding_members s =
     handoff_identity_members s @
     [(''source_batch_version'', JInt (hs_source_batch_version s)),
      (''project_id'', JStr (hs_project_id s)),
      (''suite_revision_id'', JStr (hs_suite_revision_id s)),
      (''preplan_scope_digest'', json_opt digest_json (hs_preplan_scope_digest s)),
      (''manifest_digest'', json_opt digest_json (hs_manifest_digest s)),
      (''shard_plan_version'', json_opt JInt (hs_shard_plan_version s)),
      (''shard_plan_digest'', json_opt digest_json (hs_shard_plan_digest s)),
      (''authoritative_run_set_digest'', digest_json (hs_authoritative_run_set_digest s)),
      (''authority_digest'', digest_json (hs_authority_digest s)),
      (''write_epoch'', JInt (hs_write_epoch s)),
      (''destination'', JStr ''execution_path'')]"

definition build_handoff :: "handoff_source \<Rightarrow> scope_handoff result" where
  "build_handoff s =
     bind_result (canonical_digest ''qep.batch-materialized-scope-handoff-identity.v1''
       (JObj (handoff_identity_members s))) (\<lambda>semantic_key.
     bind_result (canonical_digest handoff_schema (JObj (handoff_binding_members s))) (\<lambda>handoff_digest.
     bind_result (canonical_digest ''qep.batch-materialized-scope-handoff-event-payload.v1''
       (JObj [(''handoff_digest'', digest_json handoff_digest)])) (\<lambda>payload_digest.
     Inr \<lparr>sh_schema_version = handoff_schema, sh_identity_algorithm_version = identity_algorithm,
       sh_semantic_trigger_key = semantic_key, sh_handoff_id = ''handoff-'' @ digest_suffix semantic_key,
       sh_handoff_digest = handoff_digest, sh_trigger_kind = hs_trigger_kind s,
       sh_trigger_digest = hs_trigger_digest s, sh_batch_id = hs_batch_id s,
       sh_source_batch_version = hs_source_batch_version s, sh_project_id = hs_project_id s,
       sh_suite_revision_id = hs_suite_revision_id s, sh_preplan_scope_digest = hs_preplan_scope_digest s,
       sh_manifest_digest = hs_manifest_digest s, sh_shard_plan_version = hs_shard_plan_version s,
       sh_shard_plan_digest = hs_shard_plan_digest s,
       sh_authoritative_run_set_digest = hs_authoritative_run_set_digest s,
       sh_authority_digest = hs_authority_digest s, sh_write_epoch = hs_write_epoch s,
       sh_destination = ''execution_path'', sh_event_id = ''handoff-event-'' @ digest_suffix semantic_key,
       sh_payload_digest = payload_digest\<rparr>)))"

definition build_cancel_handoff ::
  "batch_cancellation_intent \<Rightarrow> int \<Rightarrow> digest \<Rightarrow> digest \<Rightarrow> int \<Rightarrow> scope_handoff result" where
  "build_cancel_handoff i source_batch_version run_set_digest authority_digest write_epoch =
     bind_result (batch_cancellation_intent_digest i) (\<lambda>trigger.
     build_handoff \<lparr>hs_trigger_kind = TriggerCancelIntent, hs_trigger_digest = trigger,
       hs_batch_id = bci_batch_id i, hs_source_batch_version = source_batch_version,
       hs_project_id = bci_project_id i, hs_suite_revision_id = bci_suite_revision_id i,
       hs_preplan_scope_digest = bcs_preplan_scope_digest (bci_scope i),
       hs_manifest_digest = bcs_manifest_digest (bci_scope i),
       hs_shard_plan_version = bcs_shard_plan_version (bci_scope i),
       hs_shard_plan_digest = bcs_shard_plan_digest (bci_scope i),
       hs_authoritative_run_set_digest = run_set_digest, hs_authority_digest = authority_digest,
       hs_write_epoch = write_epoch\<rparr>)"

text \<open>\<open>build_rejection_conflict_handoff_from_digest\<close>: the source is given with the rejection's digest.\<close>

definition build_rejection_handoff_from_digest :: "digest \<Rightarrow> handoff_source \<Rightarrow> scope_handoff result" where
  "build_rejection_handoff_from_digest rejection_digest s =
     build_handoff (s\<lparr>hs_trigger_kind := TriggerRejectionConflict, hs_trigger_digest := rejection_digest\<rparr>)"

definition build_rejection_conflict_handoff ::
  "batch_rejection \<Rightarrow> string \<Rightarrow> string \<Rightarrow> batch_cancellation_scope \<Rightarrow> digest \<Rightarrow> digest \<Rightarrow> int \<Rightarrow>
   scope_handoff result" where
  "build_rejection_conflict_handoff r project_id suite_revision_id scope run_set_digest authority_digest write_epoch =
     bind_result (batch_rejection_digest r) (\<lambda>d. build_rejection_handoff_from_digest d
       \<lparr>hs_trigger_kind = TriggerRejectionConflict, hs_trigger_digest = d,
        hs_batch_id = brj_batch_id r, hs_source_batch_version = brj_source_batch_version r,
        hs_project_id = project_id, hs_suite_revision_id = suite_revision_id,
        hs_preplan_scope_digest = bcs_preplan_scope_digest scope, hs_manifest_digest = bcs_manifest_digest scope,
        hs_shard_plan_version = bcs_shard_plan_version scope, hs_shard_plan_digest = bcs_shard_plan_digest scope,
        hs_authoritative_run_set_digest = run_set_digest, hs_authority_digest = authority_digest,
        hs_write_epoch = write_epoch\<rparr>)"

section \<open>Delivery\<close>

text \<open>The claims of the delivery plane (\<open>application/ports/handoff.py\<close>); they never enter an identity.\<close>

record handoff_delivery_metadata =
  hd_claim_id :: string
  hd_attempt :: int
  hd_status :: string

text \<open>Two handoffs of one trigger share their identity, whatever else they bind.\<close>

lemma build_handoff_identity:
  assumes "build_handoff s = Inr h" "build_handoff t = Inr k"
    "hs_batch_id s = hs_batch_id t" "hs_trigger_digest s = hs_trigger_digest t"
    "hs_trigger_kind s = hs_trigger_kind t"
  shows "sh_semantic_trigger_key h = sh_semantic_trigger_key k" "sh_handoff_id h = sh_handoff_id k"
    "sh_event_id h = sh_event_id k"
  using assms by (auto simp: build_handoff_def handoff_identity_members_def result_simps)

section \<open>Errors\<close>

text \<open>
  \<open>PortContractError\<close> (\<open>ports/common.py\<close>), the authority errors of \<open>ports/batch_preexecution.py\<close>, the
  problems of \<open>preexecution_proof.py\<close> and \<open>batch_preexecution.py\<close>, the \<open>ValueError\<close> of
  \<open>run_closed_handoff.py\<close>, the \<open>KeyError\<close> of a table or the
  \<open>AttributeError\<close> of an absent value, and a domain error that passes through.
\<close>

datatype app_error =
    DomainFailure domain_error
  | PortContractError string string string
  | AuthorityProjectionUnavailable
  | AuthorityPermissionDenied
  | InternalAuthorityRetired string
  | AuthorityStateConflict string
  | TemporarilyUnavailable
  | ObjectForbidden
  | PreexecutionStateConflict string
  | ClosureNotReady
  | IntegrityFailure
  | RejectionMaterializedConflict scope_handoff
  | PlainValueError string
  | LookupFailure string

type_synonym 'a answer = "app_error + 'a"

fun of_domain :: "'a result \<Rightarrow> 'a answer" where
  "of_domain (Inl e) = Inl (DomainFailure e)"
| "of_domain (Inr x) = Inr x"

lemma of_domain_Inr [result_simps]: "of_domain r = Inr x \<longleftrightarrow> r = Inr x"
  by (cases r) auto

text \<open>\<open>ReplayResult\<close>: the accepted value, and whether it is a replay.\<close>

record 'a replay_result =
  rr_value :: 'a
  rr_replayed :: bool

section \<open>Actions\<close>

type_synonym ('a, 's) action = "'s \<Rightarrow> 'a answer \<times> 's"

definition give :: "'a \<Rightarrow> ('a, 's) action" where
  "give x = (\<lambda>s. (Inr x, s))"

definition raise :: "app_error \<Rightarrow> ('a, 's) action" where
  "raise e = (\<lambda>s. (Inl e, s))"

text \<open>\<open>ask\<close>: a computation over the store that does not change it, \<open>compute\<close>: one without the store.\<close>

definition ask :: "('s \<Rightarrow> 'a answer) \<Rightarrow> ('a, 's) action" where
  "ask f = (\<lambda>s. (f s, s))"

definition compute :: "'a answer \<Rightarrow> ('a, 's) action" where
  "compute r = (\<lambda>s. (r, s))"

definition and_then :: "('a, 's) action \<Rightarrow> ('a \<Rightarrow> ('b, 's) action) \<Rightarrow> ('b, 's) action" where
  "and_then m f = (\<lambda>s. case m s of (Inl e, s') \<Rightarrow> (Inl e, s') | (Inr x, s') \<Rightarrow> f x s')"

text \<open>\<open>raise_when b e m\<close>: \<open>if b: raise e\<close>, then the rest \<open>m\<close>.\<close>

definition raise_when :: "bool \<Rightarrow> app_error \<Rightarrow> ('a, 's) action \<Rightarrow> ('a, 's) action" where
  "raise_when b e m = (if b then raise e else m)"

named_theorems action_simps \<open>what an action that succeeds has done\<close>

lemma give_run: "give x s = (Inr x, s)"
  by (simp add: give_def)

lemma raise_run: "raise e s = (Inl e, s)"
  by (simp add: raise_def)

lemma ask_run: "ask f s = (f s, s)"
  by (simp add: ask_def)

lemma compute_run: "compute r s = (r, s)"
  by (simp add: compute_def)

lemma action_results [action_simps]:
  "give x s = (r, t) \<longleftrightarrow> r = Inr x \<and> t = s" "raise e s = (r, t) \<longleftrightarrow> r = Inl e \<and> t = s"
  "ask f s = (r, t) \<longleftrightarrow> f s = r \<and> t = s" "compute q s = (r, t) \<longleftrightarrow> q = r \<and> t = s"
  by (auto simp: give_def raise_def ask_def compute_def)

lemmas run_simps = give_run raise_run ask_run compute_run

lemma and_then_Inr [action_simps]:
  "and_then m f s = (Inr y, t) \<longleftrightarrow> (\<exists>x u. m s = (Inr x, u) \<and> f x u = (Inr y, t))"
  by (auto simp: and_then_def split: prod.splits sum.splits)

lemma and_then_Inl [action_simps]:
  "and_then m f s = (Inl e, t) \<longleftrightarrow>
    m s = (Inl e, t) \<or> (\<exists>x u. m s = (Inr x, u) \<and> f x u = (Inl e, t))"
  by (auto simp: and_then_def split: prod.splits sum.splits)

lemma and_then_ask: "and_then (ask f) g s = (case f s of Inl e \<Rightarrow> (Inl e, s) | Inr x \<Rightarrow> g x s)"
  by (simp add: and_then_def run_simps)

lemma and_then_compute: "and_then (compute r) g s = (case r of Inl e \<Rightarrow> (Inl e, s) | Inr x \<Rightarrow> g x s)"
  by (simp add: and_then_def run_simps)

lemma raise_when_run: "raise_when b e m s = (if b then (Inl e, s) else m s)"
  by (simp add: raise_when_def raise_run)

lemma raise_when_Inr [action_simps]: "raise_when b e m s = (Inr y, t) \<longleftrightarrow> \<not> b \<and> m s = (Inr y, t)"
  by (simp add: raise_when_def raise_run)

text \<open>An action that leaves every store as it is.\<close>

definition read_only :: "('a, 's) action \<Rightarrow> bool" where
  "read_only m \<longleftrightarrow> (\<forall>s. snd (m s) = s)"

lemma read_only_intros [intro, simp]:
  "read_only (give x)" "read_only (raise e)" "read_only (ask f)" "read_only (compute r)"
  by (simp_all add: read_only_def run_simps)

lemma read_only_and_then [intro]:
  "read_only m \<Longrightarrow> (\<And>x. read_only (f x)) \<Longrightarrow> read_only (and_then m f)"
  unfolding read_only_def and_then_def by (auto split: prod.splits sum.splits) (metis snd_conv)+

text \<open>The answers to a sequence of commands, and the store after it.\<close>

primrec run_commands :: "('c \<Rightarrow> ('r, 's) action) \<Rightarrow> 'c list \<Rightarrow> 's \<Rightarrow> 'r answer list \<times> 's" where
  "run_commands handle [] s = ([], s)"
| "run_commands handle (c # cs) s =
     (case handle c s of (r, t) \<Rightarrow> case run_commands handle cs t of (rs, u) \<Rightarrow> (r # rs, u))"

text \<open>
  The contract of an idempotent handler: a command writes only where nothing is stored under its
  identity scope.
\<close>

locale fresh_writer =
  fixes handle :: "'c \<Rightarrow> ('r, 's) action" and unstored :: "'c \<Rightarrow> 's \<Rightarrow> bool"
  assumes stored_reads: "\<not> unstored c s \<Longrightarrow> snd (handle c s) = s"
begin

lemma writes_unstored: "snd (handle c s) \<noteq> s \<Longrightarrow> unstored c s"
  using stored_reads by blast

lemma settled_commands:
  assumes "\<forall>c \<in> set cs. \<not> unstored c s"
  shows "run_commands handle cs s = (map (\<lambda>c. fst (handle c s)) cs, s)"
  using assms
proof (induction cs)
  case (Cons c cs)
  then obtain r where "handle c s = (r, s)" using stored_reads [of c s] by (cases "handle c s") auto
  then show ?case using Cons by simp
qed simp

end

section \<open>Contract checks of the ports\<close>

definition port_string :: "string \<Rightarrow> string \<Rightarrow> string \<Rightarrow> app_error option" where
  "port_string entity field v = reject_if (blank v) (PortContractError entity field ''invalid'')"

definition port_positive :: "string \<Rightarrow> string \<Rightarrow> int \<Rightarrow> app_error option" where
  "port_positive entity field v = reject_if (v < 1) (PortContractError entity field ''invalid'')"

definition port_nonnegative :: "string \<Rightarrow> string \<Rightarrow> int \<Rightarrow> app_error option" where
  "port_nonnegative entity field v = reject_if (v < 0) (PortContractError entity field ''invalid'')"

text \<open>An identity scope is a pair of strings; each must not be empty.\<close>

definition scope_ok :: "string \<times> string \<Rightarrow> bool" where
  "scope_ok sc \<longleftrightarrow> fst sc \<noteq> [] \<and> snd sc \<noteq> []"

lemma port_checks_None [result_simps]:
  "port_string entity field v = None \<longleftrightarrow> \<not> blank v"
  "port_positive entity field i = None \<longleftrightarrow> 1 \<le> i"
  "port_nonnegative entity field i = None \<longleftrightarrow> 0 \<le> i"
  by (auto simp: port_string_def port_positive_def port_nonnegative_def reject_if_None)

text \<open>
  A comparison that itself computes a digest: \<open>first_mismatch\<close> evaluates a disjunction from left to
  right and stops at the first that holds or raises.
\<close>

fun any_of :: "('e + bool) list \<Rightarrow> 'e + bool" where
  "any_of [] = Inr False"
| "any_of (m # ms) = bind_result m (\<lambda>b. if b then Inr True else any_of ms)"

lemma any_of_False [result_simps]: "any_of ms = Inr False \<longleftrightarrow> (\<forall>m \<in> set ms. m = Inr False)"
  by (induction ms) (auto simp: result_simps)

end
