(* ===== verification/Preexecution_Proof.thy ===== *)
theory Preexecution_Proof
  imports Application_Basis Batch_Lifecycle
begin

text \<open>
  The proof that nothing of a Batch was executed (\<open>src/qarunner/application/preexecution_proof.py\<close>)
  and the facts it reads (\<open>application/ports/preexecution_proof.py\<close>). The gateway is a parameter: its
  reads are functions of the store \<open>'s\<close>, its quarantine is an action.
\<close>

section \<open>The facts of the port\<close>

record preexecution_task_key =
  tk_phase_ordinal :: int
  tk_task_kind :: string
  tk_task_key :: string
  tk_generation :: int

text \<open>\<open>order=True\<close>: keys are ordered field by field.\<close>

definition task_key_order :: "preexecution_task_key \<Rightarrow> int \<times> string \<times> string \<times> int" where
  "task_key_order k = (tk_phase_ordinal k, tk_task_kind k, tk_task_key k, tk_generation k)"

definition canonical_task_set_digest :: "preexecution_task_key list \<Rightarrow> digest result" where
  "canonical_task_set_digest keys = canonical_digest ''qep.preexecution-task-set.v1''
     (JObj [(''tasks'', JList (map (\<lambda>k. JObj
       [(''phase_ordinal'', JInt (tk_phase_ordinal k)),
        (''task_kind'', JStr (tk_task_kind k)),
        (''task_key'', JStr (tk_task_key k)),
        (''generation'', JInt (tk_generation k))]) keys))])"

record preexecution_task_generation =
  tg_key :: preexecution_task_key
  tg_batch_id :: string
  tg_project_id :: string
  tg_suite_revision_id :: string
  tg_issuer_id :: string
  tg_started_at :: datetime

record trusted_task_stop =
  ts_key :: preexecution_task_key
  ts_batch_id :: string
  ts_project_id :: string
  ts_issuer_id :: string
  ts_stopped_at :: datetime
  ts_digest :: digest

record execution_children =
  xc_run_ids :: "string list"
  xc_assignment_ids :: "string list"
  xc_start_commit_ids :: "string list"
  xc_attempt_ids :: "string list"
  xc_fences :: "int list"
  xc_retry_intent_ids :: "string list"

record sealed_task_inventory =
  ti_batch_id :: string
  ti_project_id :: string
  ti_suite_revision_id :: string
  ti_ledger_version :: int
  ti_high_watermark :: int
  ti_task_count :: int
  ti_task_set_digest :: digest
  ti_issuer_id :: string
  ti_sealed_at :: datetime
  ti_tasks :: "preexecution_task_generation list"

record task_ledger_position =
  lp_ledger_version :: int
  lp_high_watermark :: int

record planned_scope_inventory =
  pi_batch_id :: string
  pi_project_id :: string
  pi_suite_revision_id :: string
  pi_manifest_id :: string
  pi_manifest_digest :: digest
  pi_shard_plan_id :: string
  pi_shard_plan_version :: int
  pi_shard_plan_digest :: digest
  pi_item_count :: int
  pi_manifest_item_keys :: "string list"
  pi_issuer_id :: string
  pi_sealed_at :: datetime

record zero_child_inputs =
  zi_batch_id :: string
  zi_project_id :: string
  zi_suite_revision_id :: string
  zi_source_batch_version :: int
  zi_ledger_version :: int
  zi_high_watermark :: int
  zi_task_set_digest :: digest
  zi_stop_fact_digests :: "digest list"
  zi_scope :: "batch_cancellation_scope option"
  zi_terminal_kind :: "preexecution_terminal_kind option"
  zi_command_digest :: "digest option"
  zi_planned_inventory :: "planned_scope_inventory option"

record 's proof_gateway =
  pg_scan_children :: "string \<Rightarrow> 's \<Rightarrow> execution_children answer"
  pg_sealed_inventory :: "string \<Rightarrow> 's \<Rightarrow> sealed_task_inventory option answer"
  pg_ledger_position :: "string \<Rightarrow> 's \<Rightarrow> task_ledger_position answer"
  pg_task_stops :: "string \<Rightarrow> 's \<Rightarrow> trusted_task_stop list answer"
  pg_trusted_inventory_issuer :: "string \<Rightarrow> 's \<Rightarrow> bool answer"
  pg_trusted_stop_issuer :: "string \<Rightarrow> 's \<Rightarrow> bool answer"
  pg_planned_inventory :: "string \<Rightarrow> 's \<Rightarrow> planned_scope_inventory option answer"
  pg_trusted_planned_issuer :: "string \<Rightarrow> 's \<Rightarrow> bool answer"
  pg_quarantine :: "string \<Rightarrow> (unit, 's) action"
  pg_assemble :: "zero_child_inputs \<Rightarrow> 's \<Rightarrow> preexecution_snapshot answer"

section \<open>The proof\<close>

record prove_closure_command =
  pcc_batch_id :: string
  pcc_project_id :: string
  pcc_suite_revision_id :: string
  pcc_source_batch_version :: int
  pcc_scope :: "batch_cancellation_scope option"
  pcc_terminal_kind :: "preexecution_terminal_kind option"
  pcc_command_digest :: "digest option"

datatype closure_proof =
    ZeroChildren preexecution_snapshot
  | MaterializedScope (ms_batch_id: string) (ms_run_ids: "string list") (ms_run_set_digest: digest)

definition quarantined :: "'s proof_gateway \<Rightarrow> string \<Rightarrow> ('a, 's) action" where
  "quarantined g batch_id = and_then (pg_quarantine g batch_id) (\<lambda>_. raise IntegrityFailure)"

text \<open>\<open>fail_if b g batch_id m\<close>: the fact \<open>b\<close> is an integrity failure; otherwise go on with \<open>m\<close>.\<close>

definition fail_if :: "bool \<Rightarrow> 's proof_gateway \<Rightarrow> string \<Rightarrow> ('a, 's) action \<Rightarrow> ('a, 's) action" where
  "fail_if b g batch_id m = (if b then quarantined g batch_id else m)"

definition orphan_authority :: "execution_children \<Rightarrow> bool" where
  "orphan_authority c \<longleftrightarrow> xc_run_ids c = [] \<and>
     (xc_assignment_ids c \<noteq> [] \<or> xc_start_commit_ids c \<noteq> [] \<or> xc_attempt_ids c \<noteq> [] \<or>
      xc_fences c \<noteq> [] \<or> xc_retry_intent_ids c \<noteq> [])"

fun check_stops :: "'s proof_gateway \<Rightarrow> prove_closure_command \<Rightarrow> trusted_task_stop list \<Rightarrow> (unit, 's) action" where
  "check_stops g c [] = give ()"
| "check_stops g c (stop # stops) =
     and_then (ask (pg_trusted_stop_issuer g (ts_issuer_id stop))) (\<lambda>trusted.
     fail_if (ts_batch_id stop \<noteq> pcc_batch_id c \<or> ts_project_id stop \<noteq> pcc_project_id c \<or> \<not> trusted)
       g (pcc_batch_id c) (check_stops g c stops))"

definition inventory_task_keys :: "sealed_task_inventory \<Rightarrow> preexecution_task_key list" where
  "inventory_task_keys i = map tg_key (ti_tasks i)"

definition inventory_mismatch :: "sealed_task_inventory \<Rightarrow> bool answer" where
  "inventory_mismatch i =
     (let keys = inventory_task_keys i in any_of
     [Inr (ti_task_count i \<noteq> int (length keys)),
      Inr (\<not> distinct keys),
      Inr (keys \<noteq> sort_key task_key_order keys),
      map_result (\<lambda>d. ti_task_set_digest i \<noteq> d) (of_domain (canonical_task_set_digest keys))])"

definition planned_mismatch ::
  "prove_closure_command \<Rightarrow> batch_cancellation_scope \<Rightarrow> bool \<Rightarrow> planned_scope_inventory \<Rightarrow> bool answer" where
  "planned_mismatch c scope trusted p =
     (let keys = sort (pi_manifest_item_keys p) in any_of
     [Inr (\<not> trusted), Inr (pi_batch_id p \<noteq> pcc_batch_id c), Inr (pi_project_id p \<noteq> pcc_project_id c),
      Inr (pi_suite_revision_id p \<noteq> pcc_suite_revision_id c),
      Inr (Some (pi_manifest_digest p) \<noteq> bcs_manifest_digest scope),
      Inr (Some (pi_shard_plan_version p) \<noteq> bcs_shard_plan_version scope),
      Inr (Some (pi_shard_plan_digest p) \<noteq> bcs_shard_plan_digest scope),
      map_result (\<lambda>d. bcs_canonical_run_set_digest scope \<noteq> Some d)
        (of_domain (canonical_materialized_run_set_digest (pcc_batch_id c) [])),
      Inr (pi_item_count p \<noteq> int (length keys)), Inr (keys = []), Inr (pi_manifest_item_keys p \<noteq> keys),
      Inr (\<not> distinct keys), Inr ([] \<in> set keys), Inr (pcc_terminal_kind c = None),
      Inr (pcc_command_digest c = None)])"

text \<open>The planned inventory is read only for a frozen plan.\<close>

definition read_planned ::
  "'s proof_gateway \<Rightarrow> prove_closure_command \<Rightarrow> (planned_scope_inventory option, 's) action" where
  "read_planned g c =
     (case pcc_scope c of
        None \<Rightarrow> give None
      | Some scope \<Rightarrow>
          if bcs_kind scope \<noteq> CancelFrozenPlan then give None
          else and_then (ask (pg_planned_inventory g (pcc_batch_id c))) (\<lambda>planned.
            case planned of
              None \<Rightarrow> raise ClosureNotReady
            | Some p \<Rightarrow>
                and_then (ask (pg_trusted_planned_issuer g (pi_issuer_id p))) (\<lambda>trusted.
                and_then (compute (planned_mismatch c scope trusted p)) (\<lambda>bad.
                fail_if bad g (pcc_batch_id c) (give (Some p))))))"

definition zero_inputs ::
  "prove_closure_command \<Rightarrow> sealed_task_inventory \<Rightarrow> trusted_task_stop list \<Rightarrow> planned_scope_inventory option \<Rightarrow>
   zero_child_inputs" where
  "zero_inputs c i stops planned =
     \<lparr>zi_batch_id = ti_batch_id i, zi_project_id = ti_project_id i, zi_suite_revision_id = ti_suite_revision_id i,
      zi_source_batch_version = pcc_source_batch_version c, zi_ledger_version = ti_ledger_version i,
      zi_high_watermark = ti_high_watermark i, zi_task_set_digest = ti_task_set_digest i,
      zi_stop_fact_digests = map ts_digest stops, zi_scope = pcc_scope c,
      zi_terminal_kind = pcc_terminal_kind c, zi_command_digest = pcc_command_digest c,
      zi_planned_inventory = planned\<rparr>"

text \<open>The proof over a sealed inventory: the task ledger is at its position and every task stopped.\<close>

definition prove_zero_children ::
  "'s proof_gateway \<Rightarrow> prove_closure_command \<Rightarrow> sealed_task_inventory \<Rightarrow> (closure_proof, 's) action" where
  "prove_zero_children g c i =
     (let b = pcc_batch_id c in
     fail_if (ti_ledger_version i < 1 \<or> ti_high_watermark i < 0 \<or> ti_task_count i < 0) g b
     (and_then (ask (pg_ledger_position g b)) (\<lambda>position.
      raise_when (lp_ledger_version position \<noteq> ti_ledger_version i \<or> lp_high_watermark position \<noteq> ti_high_watermark i)
        ClosureNotReady
     (and_then (ask (pg_trusted_inventory_issuer g (ti_issuer_id i))) (\<lambda>trusted.
      fail_if (ti_batch_id i \<noteq> b \<or> ti_project_id i \<noteq> pcc_project_id c \<or>
          ti_suite_revision_id i \<noteq> pcc_suite_revision_id c \<or> \<not> trusted) g b
     (and_then (compute (inventory_mismatch i)) (\<lambda>bad.
      fail_if bad g b
     (and_then (ask (pg_task_stops g b)) (\<lambda>stops.
      and_then (check_stops g c stops) (\<lambda>_.
      raise_when (inventory_task_keys i \<noteq> map ts_key stops) ClosureNotReady
     (and_then (read_planned g c) (\<lambda>planned.
      and_then (ask (pg_assemble g (zero_inputs c i stops planned))) (\<lambda>snapshot.
      give (ZeroChildren snapshot))))))))))))))"

definition prove_preexecution_closure ::
  "'s proof_gateway \<Rightarrow> prove_closure_command \<Rightarrow> (closure_proof, 's) action" where
  "prove_preexecution_closure g c =
     (let b = pcc_batch_id c in
      and_then (ask (pg_scan_children g b)) (\<lambda>children.
      fail_if (orphan_authority children) g b
     (if xc_run_ids children \<noteq> [] then
        let run_ids = sort (xc_run_ids children) in
        and_then (compute (of_domain (canonical_materialized_run_set_digest b run_ids))) (\<lambda>d.
        give (MaterializedScope b run_ids d))
      else and_then (ask (pg_sealed_inventory g b)) (\<lambda>inventory.
        case inventory of None \<Rightarrow> raise ClosureNotReady | Some i \<Rightarrow> prove_zero_children g c i))))"

section \<open>What the proof establishes\<close>

text \<open>
  An action that only changes the store by the quarantine, and then fails. The properties of the
  proof rest on this: whatever succeeds has written nothing.
\<close>

definition quarantines_only :: "'s proof_gateway \<Rightarrow> string \<Rightarrow> ('a, 's) action \<Rightarrow> bool" where
  "quarantines_only g b m \<longleftrightarrow>
     (\<forall>s r t. m s = (r, t) \<longrightarrow> t = s \<and> r \<noteq> Inl IntegrityFailure \<or> t = snd (pg_quarantine g b s) \<and>
        (\<exists>e. r = Inl e \<and> (e = IntegrityFailure \<or> fst (pg_quarantine g b s) = Inl e)))"

text \<open>Reads of the gateway do not themselves raise \<open>IntegrityFailure\<close>, a class of the proof module.\<close>

definition plain_reads :: "'s proof_gateway \<Rightarrow> bool" where
  "plain_reads g \<longleftrightarrow> (\<forall>b s i.
     pg_scan_children g b s \<noteq> Inl IntegrityFailure \<and> pg_sealed_inventory g b s \<noteq> Inl IntegrityFailure \<and>
     pg_ledger_position g b s \<noteq> Inl IntegrityFailure \<and> pg_task_stops g b s \<noteq> Inl IntegrityFailure \<and>
     pg_trusted_inventory_issuer g b s \<noteq> Inl IntegrityFailure \<and>
     pg_trusted_stop_issuer g b s \<noteq> Inl IntegrityFailure \<and> pg_planned_inventory g b s \<noteq> Inl IntegrityFailure \<and>
     pg_trusted_planned_issuer g b s \<noteq> Inl IntegrityFailure \<and> pg_assemble g i s \<noteq> Inl IntegrityFailure)"

lemma quarantines_only_step [intro]:
  "quarantines_only g b (give x)"
  "e \<noteq> IntegrityFailure \<Longrightarrow> quarantines_only g b (raise e)"
  "(\<And>s. f s \<noteq> Inl IntegrityFailure) \<Longrightarrow> quarantines_only g b (ask f)"
  "r \<noteq> Inl IntegrityFailure \<Longrightarrow> quarantines_only g b (compute r)"
  "quarantines_only g b (quarantined g b)"
  by (auto simp: quarantines_only_def quarantined_def and_then_def run_simps split: prod.splits sum.splits)

lemma quarantines_only_then [intro]:
  assumes "quarantines_only g b m" "\<And>x. quarantines_only g b (f x)"
  shows "quarantines_only g b (and_then m f)"
  using assms unfolding quarantines_only_def and_then_def
  by (auto split: prod.splits sum.splits) (metis Inl_Inr_False sum.inject(1))+

lemma quarantines_only_branch [intro]:
  "quarantines_only g b m \<Longrightarrow> quarantines_only g b (fail_if c g b m)"
  "e \<noteq> IntegrityFailure \<Longrightarrow> quarantines_only g b m \<Longrightarrow> quarantines_only g b (raise_when c e m)"
  by (auto simp: fail_if_def raise_when_def)

lemma of_domain_plain [simp]: "of_domain r \<noteq> Inl IntegrityFailure"
  by (cases r) auto

lemma map_of_domain_plain [simp]: "map_result f (of_domain r) \<noteq> Inl IntegrityFailure"
  by (cases r) auto

lemma any_of_plain: "\<forall>m \<in> set ms. m \<noteq> Inl IntegrityFailure \<Longrightarrow> any_of ms \<noteq> Inl IntegrityFailure"
  by (induction ms) (auto simp: bind_result_Inl_iff split: if_splits)

lemma mismatches_plain [simp]:
  "inventory_mismatch i \<noteq> Inl IntegrityFailure" "planned_mismatch c scope trusted p \<noteq> Inl IntegrityFailure"
  unfolding inventory_mismatch_def planned_mismatch_def Let_def by (rule any_of_plain; simp)+

lemma plain_reads_D:
  assumes "plain_reads g"
  shows "pg_scan_children g b s \<noteq> Inl IntegrityFailure" "pg_sealed_inventory g b s \<noteq> Inl IntegrityFailure"
    "pg_ledger_position g b s \<noteq> Inl IntegrityFailure" "pg_task_stops g b s \<noteq> Inl IntegrityFailure"
    "pg_trusted_inventory_issuer g b s \<noteq> Inl IntegrityFailure"
    "pg_trusted_stop_issuer g b s \<noteq> Inl IntegrityFailure" "pg_planned_inventory g b s \<noteq> Inl IntegrityFailure"
    "pg_trusted_planned_issuer g b s \<noteq> Inl IntegrityFailure" "pg_assemble g i s \<noteq> Inl IntegrityFailure"
  using assms unfolding plain_reads_def by blast+

lemmas quarantines_only_rules = quarantines_only_then quarantines_only_branch quarantines_only_step

lemma prove_closure_quarantines:
  assumes "plain_reads g"
  shows "quarantines_only g (pcc_batch_id c) (prove_preexecution_closure g c)"
proof -
  note reads = plain_reads_D [OF assms]
  have "quarantines_only g (pcc_batch_id c) (check_stops g c stops)" for stops
  proof (induction stops)
    case (Cons stop stops)
    then show ?case unfolding check_stops.simps
      by (intro quarantines_only_then quarantines_only_branch quarantines_only_step reads)
  qed (auto intro: quarantines_only_step simp del: fun_eq_iff)
  moreover have "quarantines_only g (pcc_batch_id c) (read_planned g c)"
    unfolding read_planned_def
    by (auto split: option.split simp: reads intro!: quarantines_only_rules)
  ultimately have "quarantines_only g (pcc_batch_id c) (prove_zero_children g c i)" for i
    unfolding prove_zero_children_def Let_def
    by (intro quarantines_only_then quarantines_only_branch quarantines_only_step reads mismatches_plain) simp_all
  then show ?thesis unfolding prove_preexecution_closure_def Let_def
    by (auto split: option.split simp: reads intro!: quarantines_only_rules)
qed

lemma check_stops_Inr:
  "check_stops g c stops s = (Inr (), t) \<Longrightarrow> t = s \<and> (\<forall>x \<in> set stops. ts_batch_id x = pcc_batch_id c \<and>
     ts_project_id x = pcc_project_id c \<and> pg_trusted_stop_issuer g (ts_issuer_id x) s = Inr True)"
  by (induction stops arbitrary: t)
    (auto simp: action_simps fail_if_def quarantined_def split: if_splits)

lemma fail_if_Inr [action_simps]: "fail_if b g batch_id m s = (Inr y, t) \<longleftrightarrow> \<not> b \<and> m s = (Inr y, t)"
  by (auto simp: fail_if_def quarantined_def action_simps)

lemma read_planned_Inr: "read_planned g c s = (Inr p, t) \<Longrightarrow> t = s"
  by (auto simp: read_planned_def action_simps split: option.splits if_splits)

text \<open>What a proof of zero children has seen.\<close>

definition stopped_inventory ::
  "'s proof_gateway \<Rightarrow> prove_closure_command \<Rightarrow> 's \<Rightarrow> sealed_task_inventory \<Rightarrow> trusted_task_stop list \<Rightarrow> bool" where
  "stopped_inventory g c s i stops \<longleftrightarrow>
     pg_ledger_position g (pcc_batch_id c) s =
       Inr \<lparr>lp_ledger_version = ti_ledger_version i, lp_high_watermark = ti_high_watermark i\<rparr> \<and>
     pg_trusted_inventory_issuer g (ti_issuer_id i) s = Inr True \<and> ti_batch_id i = pcc_batch_id c \<and>
     pg_task_stops g (pcc_batch_id c) s = Inr stops \<and> map tg_key (ti_tasks i) = map ts_key stops \<and>
     (\<forall>x \<in> set stops. ts_batch_id x = pcc_batch_id c \<and> pg_trusted_stop_issuer g (ts_issuer_id x) s = Inr True)"

lemma prove_zero_children_Inr:
  assumes "prove_zero_children g c i s = (Inr proof, t)"
  shows "t = s \<and> (\<exists>stops planned snapshot. stopped_inventory g c s i stops \<and> proof = ZeroChildren snapshot \<and>
    pg_assemble g (zero_inputs c i stops planned) s = Inr snapshot)"
proof -
  obtain position stops planned snapshot u where
    facts: "pg_ledger_position g (pcc_batch_id c) s = Inr position" "lp_ledger_version position = ti_ledger_version i"
      "lp_high_watermark position = ti_high_watermark i" "pg_trusted_inventory_issuer g (ti_issuer_id i) s = Inr True"
      "ti_batch_id i = pcc_batch_id c" "pg_task_stops g (pcc_batch_id c) s = Inr stops"
      "check_stops g c stops s = (Inr (), u)" "inventory_task_keys i = map ts_key stops"
      "read_planned g c u = (Inr planned, t)" "pg_assemble g (zero_inputs c i stops planned) t = Inr snapshot"
      "proof = ZeroChildren snapshot"
    using assms unfolding prove_zero_children_def Let_def by (auto simp: action_simps)
  have "u = s" "t = s" using check_stops_Inr [OF facts(7)] read_planned_Inr [OF facts(9)] by simp_all
  moreover have "stopped_inventory g c s i stops"
    using facts(1-8) check_stops_Inr [OF facts(7)] by (auto simp: stopped_inventory_def inventory_task_keys_def)
  ultimately show ?thesis using facts by auto
qed

text \<open>The two results of a proof: with Runs it names them, without any child it rests on stopped tasks.\<close>

definition proved_absence ::
  "'s proof_gateway \<Rightarrow> prove_closure_command \<Rightarrow> 's \<Rightarrow> preexecution_snapshot \<Rightarrow> bool" where
  "proved_absence g c s snapshot \<longleftrightarrow>
     (\<exists>i stops planned. pg_sealed_inventory g (pcc_batch_id c) s = Inr (Some i) \<and> stopped_inventory g c s i stops \<and>
        pg_assemble g (zero_inputs c i stops planned) s = Inr snapshot)"

lemma prove_closure_Inr:
  assumes "prove_preexecution_closure g c s = (Inr proof, t)"
  shows "t = s \<and> (\<exists>children. pg_scan_children g (pcc_batch_id c) s = Inr children \<and> \<not> orphan_authority children \<and>
    (case proof of
       MaterializedScope b run_ids d \<Rightarrow> b = pcc_batch_id c \<and> xc_run_ids children \<noteq> [] \<and> run_ids = sort (xc_run_ids children) \<and>
         canonical_materialized_run_set_digest b run_ids = Inr d
     | ZeroChildren snapshot \<Rightarrow> xc_run_ids children = [] \<and> proved_absence g c s snapshot))"
  using assms unfolding prove_preexecution_closure_def Let_def
  by (auto simp: action_simps result_simps proved_absence_def dest!: prove_zero_children_Inr split: if_splits option.splits) blast

end
