(* ===== verification/Batch_Preexecution.thy ===== *)
theory Batch_Preexecution
  imports Preexecution_Proof Batch_Facts
begin

text \<open>
  The commands that converge a Batch before execution (\<open>src/qarunner/application/batch_preexecution.py\<close>
  over \<open>application/ports/batch_preexecution.py\<close>): requesting a cancellation, closing a cancelled Batch
  and recording a rejection. The two gateways are parameters. Lemmas at the end
  say what a return has read and written.
\<close>

section \<open>Authorities and gateway\<close>

record authority_projection_stamp =
  ap_source :: string
  ap_projection_version :: int
  ap_revocation_watermark :: int
  ap_expires_at :: datetime

record batch_cancellation_authority =
  ca_batch_id :: string
  ca_project_id :: string
  ca_suite_revision_id :: string
  ca_actor_id :: string
  ca_source :: cancellation_source
  ca_authorization_digest :: digest
  ca_scope :: batch_cancellation_scope
  ca_projection :: authority_projection_stamp
  ca_recorded_at :: datetime

record batch_closure_authority =
  ka_batch_id :: string
  ka_project_id :: string
  ka_suite_revision_id :: string
  ka_source_batch_version :: int
  ka_authority_digest :: digest
  ka_scope :: batch_cancellation_scope
  ka_projection :: authority_projection_stamp
  ka_write_epoch :: int

record batch_rejection_authority = batch_closure_authority +
  ka_stage :: batch_rejection_stage
  ka_recorded_at :: datetime

text \<open>The identities shared by audit and outbox.\<close>

record batch_cancellation_side_effect =
  cse_batch_id :: string
  cse_intent_digest :: digest

record batch_closure_side_effect =
  kse_batch_id :: string
  kse_basis_digest :: digest

record batch_rejection_side_effect =
  rse_batch_id :: string
  rse_rejection_digest :: digest
  rse_basis_digest :: digest

record 's batch_gateway =
  bg_cancel_authority :: "string \<Rightarrow> 's \<Rightarrow> batch_cancellation_authority answer"
  bg_batch :: "string \<Rightarrow> 's \<Rightarrow> batch answer"
  bg_publish_cancellation :: "batch \<Rightarrow> batch_cancellation_intent \<Rightarrow> (unit, 's) action"
  bg_closure_authority :: "string \<Rightarrow> string \<Rightarrow> int \<Rightarrow> 's \<Rightarrow> batch_closure_authority answer"
  bg_rejection_authority :: "string \<Rightarrow> string \<Rightarrow> int \<Rightarrow> 's \<Rightarrow> batch_rejection_authority answer"
  bg_publish_handoff :: "scope_handoff \<Rightarrow> (scope_handoff replay_result, 's) action"
  bg_publish_closure :: "batch \<Rightarrow> (unit, 's) action"
  bg_publish_rejection :: "batch \<Rightarrow> batch_rejection \<Rightarrow> (unit, 's) action"

text \<open>\<open>except\<close> clauses: an authority error becomes the public problem; other errors pass.\<close>

definition map_error :: "(app_error \<Rightarrow> app_error) \<Rightarrow> 'a answer \<Rightarrow> 'a answer" where
  "map_error f r = (case r of Inl e \<Rightarrow> Inl (f e) | Inr x \<Rightarrow> Inr x)"

lemma map_error_Inr [result_simps]: "map_error f r = Inr x \<longleftrightarrow> r = Inr x"
  by (auto simp: map_error_def split: sum.splits)

fun cancel_problem :: "app_error \<Rightarrow> app_error" where
  "cancel_problem AuthorityProjectionUnavailable = TemporarilyUnavailable"
| "cancel_problem AuthorityPermissionDenied = ObjectForbidden"
| "cancel_problem e = e"

fun internal_problem :: "string \<Rightarrow> app_error \<Rightarrow> app_error" where
  "internal_problem denied AuthorityProjectionUnavailable = TemporarilyUnavailable"
| "internal_problem denied AuthorityPermissionDenied = PreexecutionStateConflict denied"
| "internal_problem denied (InternalAuthorityRetired reason) = PreexecutionStateConflict reason"
| "internal_problem denied (AuthorityStateConflict reason) = PreexecutionStateConflict reason"
| "internal_problem denied e = e"

section \<open>Requesting a cancellation\<close>

record request_cancellation_command =
  rc_batch_id :: string
  rc_expected_batch_version :: int
  rc_idempotency_key :: string
  rc_reason :: string

definition received_request_digest ::
  "request_cancellation_command \<Rightarrow> batch_cancellation_authority \<Rightarrow> digest result" where
  "received_request_digest c a = canonical_digest ''qep.batch-cancellation-request.v1''
     (JObj [(''batch_id'', JStr (rc_batch_id c)),
            (''source_batch_version'', JInt (rc_expected_batch_version c)),
            (''idempotency_key'', JStr (rc_idempotency_key c)),
            (''source'', JStr (cancellation_source_value (ca_source a))),
            (''actor_id'', JStr (ca_actor_id a)),
            (''reason'', JStr (rc_reason c))])"

definition cancel_binding_superseded :: "batch_cancellation_authority \<Rightarrow> batch_cancellation_intent \<Rightarrow> bool" where
  "cancel_binding_superseded a stored \<longleftrightarrow>
     bci_batch_id stored \<noteq> ca_batch_id a \<or> bci_project_id stored \<noteq> ca_project_id a \<or>
     bci_suite_revision_id stored \<noteq> ca_suite_revision_id a \<or> bci_source stored \<noteq> ca_source a \<or>
     bci_actor_id stored \<noteq> ca_actor_id a \<or> bci_authorization_digest stored \<noteq> ca_authorization_digest a \<or>
     bci_scope stored \<noteq> ca_scope a"

definition same_request ::
  "request_cancellation_command \<Rightarrow> batch_cancellation_authority \<Rightarrow> batch_cancellation_intent \<Rightarrow> bool" where
  "same_request c a stored \<longleftrightarrow>
     bci_batch_id stored = rc_batch_id c \<and> bci_project_id stored = ca_project_id a \<and>
     bci_source_batch_version stored = rc_expected_batch_version c \<and>
     bci_idempotency_key stored = rc_idempotency_key c \<and> bci_source stored = ca_source a \<and>
     bci_actor_id stored = ca_actor_id a \<and> bci_reason stored = rc_reason c"

text \<open>The checks against a stored intent: \<open>Some\<close> is the replay.\<close>

definition stored_cancellation ::
  "request_cancellation_command \<Rightarrow> batch_cancellation_authority \<Rightarrow> digest \<Rightarrow> batch_cancellation_intent option \<Rightarrow>
   batch_cancellation_intent option answer" where
  "stored_cancellation c a received stored =
     (case stored of
        None \<Rightarrow> Inr None
      | Some i \<Rightarrow>
          if bci_idempotency_key i \<noteq> rc_idempotency_key c
          then Inl (DomainFailure (BatchCancellationConflict (rc_batch_id c) (bci_idempotency_key i) (rc_idempotency_key c)))
          else bind_result (of_domain (batch_cancellation_request_digest i)) (\<lambda>d.
            if d \<noteq> received
            then Inl (DomainFailure (IdempotencyConflict (''batch:'' @ rc_batch_id c @ '':cancel'')
              (rc_idempotency_key c) d received))
            else if cancel_binding_superseded a i
            then Inl (PreexecutionStateConflict ''cancel_authority_binding_superseded'')
            else Inr (if same_request c a i then Some i else None)))"

definition requested_intent ::
  "request_cancellation_command \<Rightarrow> batch_cancellation_authority \<Rightarrow> batch_cancellation_intent" where
  "requested_intent c a =
     \<lparr>bci_batch_id = rc_batch_id c, bci_project_id = ca_project_id a,
      bci_suite_revision_id = ca_suite_revision_id a, bci_source_batch_version = rc_expected_batch_version c,
      bci_idempotency_key = rc_idempotency_key c, bci_source = ca_source a, bci_actor_id = ca_actor_id a,
      bci_reason = rc_reason c, bci_authorization_digest = ca_authorization_digest a,
      bci_scope = ca_scope a, bci_recorded_at = ca_recorded_at a\<rparr>"

definition request_batch_cancellation ::
  "'s batch_gateway \<Rightarrow> request_cancellation_command \<Rightarrow> (batch_cancellation_intent, 's) action" where
  "request_batch_cancellation g c =
     and_then (ask (\<lambda>s. map_error cancel_problem (bg_cancel_authority g (rc_batch_id c) s))) (\<lambda>a.
     and_then (ask (bg_batch g (rc_batch_id c))) (\<lambda>b.
     and_then (compute (of_domain (received_request_digest c a))) (\<lambda>received.
     and_then (compute (stored_cancellation c a received (bt_cancellation_intent b))) (\<lambda>replay.
     case replay of
       Some i \<Rightarrow> give i
     | None \<Rightarrow>
         raise_when (bt_rejection_fact b \<noteq> None) (PreexecutionStateConflict ''rejection_terminal_winner'')
         (and_then (compute (of_domain (raise_or (check_batch_cancellation_intent (requested_intent c a)) ()))) (\<lambda>_.
          and_then (compute (of_domain (batch_request_cancel (requested_intent c a) (rc_expected_batch_version c) b))) (\<lambda>b'.
          and_then (bg_publish_cancellation g b' (requested_intent c a)) (\<lambda>_. give (requested_intent c a)))))))))"

section \<open>Closing a cancelled Batch\<close>

text \<open>
  \<open>_basis_matches_authority_scope\<close> compares the string values of the two kinds of scope: a basis is
  \<open>pre_plan\<close> or \<open>planned_unmaterialized\<close>, a cancellation scope \<open>pre_plan\<close> or \<open>frozen_plan\<close>.
\<close>

definition basis_matches_authority_scope :: "preexecution_basis \<Rightarrow> batch_cancellation_scope \<Rightarrow> bool" where
  "basis_matches_authority_scope basis scope \<longleftrightarrow>
     preexecution_scope_value (peb_scope_kind basis) = cancellation_scope_kind_value (bcs_kind scope) \<and>
     peb_preplan_scope_digest basis = bcs_preplan_scope_digest scope \<and>
     peb_manifest_digest basis = bcs_manifest_digest scope \<and>
     peb_shard_plan_version basis = bcs_shard_plan_version scope \<and>
     peb_shard_plan_digest basis = bcs_shard_plan_digest scope \<and>
     peb_canonical_run_set_digest basis = bcs_canonical_run_set_digest scope"

record reconcile_cancellation_command =
  rk_batch_id :: string
  rk_reconciler_id :: string
  rk_closure_epoch :: int

datatype reconciled = ReconciledBatch batch | HandedOff scope_handoff

definition closure_proof_command ::
  "string \<Rightarrow> 'z batch_closure_authority_scheme \<Rightarrow> preexecution_terminal_kind \<Rightarrow> digest \<Rightarrow> prove_closure_command" where
  "closure_proof_command batch_id a kind command_digest =
     \<lparr>pcc_batch_id = batch_id, pcc_project_id = ka_project_id a, pcc_suite_revision_id = ka_suite_revision_id a,
      pcc_source_batch_version = ka_source_batch_version a, pcc_scope = Some (ka_scope a),
      pcc_terminal_kind = Some kind, pcc_command_digest = Some command_digest\<rparr>"

text \<open>The binding of a stored closure basis; the digest of the intent is computed when it is compared.\<close>

definition closure_superseded ::
  "batch_closure_authority \<Rightarrow> batch_cancellation_intent \<Rightarrow> preexecution_basis \<Rightarrow> bool answer" where
  "closure_superseded a intent basis = any_of
     [Inr (peb_batch_id basis \<noteq> ka_batch_id a), Inr (peb_source_batch_version basis \<noteq> ka_source_batch_version a),
      Inr (peb_terminal_kind basis \<noteq> TerminalPrestartCancel),
      map_result (\<lambda>d. peb_cancellation_intent_digest basis \<noteq> Some d)
        (of_domain (batch_cancellation_intent_digest intent)),
      Inr (\<not> basis_matches_authority_scope basis (ka_scope a))]"

definition close_or_hand_off ::
  "'s batch_gateway \<Rightarrow> batch_closure_authority \<Rightarrow> batch \<Rightarrow> batch_cancellation_intent \<Rightarrow> closure_proof \<Rightarrow>
   (reconciled, 's) action" where
  "close_or_hand_off g a b intent proof =
     (case proof of
        MaterializedScope batch_id run_ids run_set_digest \<Rightarrow>
          and_then (compute (of_domain (build_cancel_handoff intent (ka_source_batch_version a) run_set_digest
            (ka_authority_digest a) (ka_write_epoch a)))) (\<lambda>h.
          and_then (bg_publish_handoff g h) (\<lambda>published. give (HandedOff (rr_value published))))
      | ZeroChildren snapshot \<Rightarrow>
          and_then (compute (of_domain
            (batch_finalize_unmaterialized_cancel snapshot (ka_source_batch_version a) b))) (\<lambda>closed.
          and_then (bg_publish_closure g closed) (\<lambda>_. give (ReconciledBatch closed))))"

definition reconcile_preexecution_cancellation ::
  "'s batch_gateway \<Rightarrow> 's proof_gateway \<Rightarrow> reconcile_cancellation_command \<Rightarrow> (reconciled, 's) action" where
  "reconcile_preexecution_cancellation g pg c =
     and_then (ask (\<lambda>s. map_error (internal_problem ''reconciler_authority_denied'')
       (bg_closure_authority g (rk_batch_id c) (rk_reconciler_id c) (rk_closure_epoch c) s))) (\<lambda>a.
     and_then (ask (bg_batch g (rk_batch_id c))) (\<lambda>b.
     case bt_cancellation_intent b of
       None \<Rightarrow> raise (PreexecutionStateConflict ''closure_command_missing'')
     | Some intent \<Rightarrow>
         (case bt_basis b of
            Some basis \<Rightarrow>
              and_then (compute (closure_superseded a intent basis)) (\<lambda>superseded.
              raise_when superseded (PreexecutionStateConflict ''closure_authority_binding_superseded'')
                (give (ReconciledBatch b)))
          | None \<Rightarrow>
              and_then (compute (of_domain (batch_cancellation_intent_digest intent))) (\<lambda>d.
              and_then (prove_preexecution_closure pg
                (closure_proof_command (rk_batch_id c) a TerminalPrestartCancel d)) (\<lambda>proof.
              close_or_hand_off g a b intent proof)))))"

section \<open>Recording a rejection\<close>

record record_rejection_command =
  rj_batch_id :: string
  rj_rejection_id :: string
  rj_reason_class :: batch_rejection_reason_class
  rj_reason_code :: string
  rj_input_digest :: digest
  rj_phase_owner_id :: string
  rj_rejection_epoch :: int

definition recorded_rejection :: "record_rejection_command \<Rightarrow> batch_rejection_authority \<Rightarrow> batch_rejection" where
  "recorded_rejection c a =
     \<lparr>brj_rejection_id = rj_rejection_id c, brj_batch_id = ka_batch_id a,
      brj_source_batch_version = ka_source_batch_version a, brj_stage = ka_stage a,
      brj_reason_class = rj_reason_class c, brj_reason_code = rj_reason_code c,
      brj_input_digest = rj_input_digest c, brj_authority_digest = Some (ka_authority_digest a),
      brj_recorded_at = ka_recorded_at a\<rparr>"

text \<open>The checks against a stored rejection: \<open>True\<close> is the replay.\<close>

definition stored_rejection ::
  "batch_rejection_authority \<Rightarrow> batch_rejection \<Rightarrow> batch \<Rightarrow> bool answer" where
  "stored_rejection a rejection b =
     (case bt_rejection_fact b of
        None \<Rightarrow> if bt_cancellation_intent b \<noteq> None
          then Inl (PreexecutionStateConflict ''cancellation_intent_winner'') else Inr False
      | Some stored \<Rightarrow>
          if brj_rejection_id stored \<noteq> brj_rejection_id rejection
          then Inl (PreexecutionStateConflict ''rejection_terminal_winner'')
          else bind_result (of_domain (batch_rejection_digest stored)) (\<lambda>sd.
            bind_result (of_domain (batch_rejection_digest rejection)) (\<lambda>rd.
            if sd \<noteq> rd
            then Inl (DomainFailure (IdempotencyConflict (''batch:'' @ bt_id b @ '':rejection'')
              (brj_rejection_id stored) sd rd))
            else case bt_basis b of
              Some basis \<Rightarrow> if basis_matches_authority_scope basis (ka_scope a) then Inr True
                else Inl (PreexecutionStateConflict ''rejection_authority_binding_superseded'')
            | None \<Rightarrow> Inl (PreexecutionStateConflict ''rejection_authority_binding_superseded''))))"

definition reject_or_hand_off ::
  "'s batch_gateway \<Rightarrow> batch_rejection_authority \<Rightarrow> batch \<Rightarrow> batch_rejection \<Rightarrow> closure_proof \<Rightarrow> (batch, 's) action" where
  "reject_or_hand_off g a b rejection proof =
     (case proof of
        MaterializedScope batch_id run_ids run_set_digest \<Rightarrow>
          and_then (compute (of_domain (build_rejection_conflict_handoff rejection (ka_project_id a)
            (ka_suite_revision_id a) (ka_scope a) run_set_digest (ka_authority_digest a) (ka_write_epoch a)))) (\<lambda>h.
          and_then (bg_publish_handoff g h) (\<lambda>published. raise (RejectionMaterializedConflict (rr_value published))))
      | ZeroChildren snapshot \<Rightarrow>
          and_then (compute (of_domain
            (batch_reject_preexecution rejection snapshot (ka_source_batch_version a) b))) (\<lambda>closed.
          and_then (bg_publish_rejection g closed rejection) (\<lambda>_. give closed)))"

definition record_preexecution_rejection ::
  "'s batch_gateway \<Rightarrow> 's proof_gateway \<Rightarrow> record_rejection_command \<Rightarrow> (batch, 's) action" where
  "record_preexecution_rejection g pg c =
     and_then (ask (\<lambda>s. map_error (internal_problem ''phase_owner_authority_denied'')
       (bg_rejection_authority g (rj_batch_id c) (rj_phase_owner_id c) (rj_rejection_epoch c) s))) (\<lambda>a.
     and_then (compute (of_domain (mk_batch_rejection (recorded_rejection c a)))) (\<lambda>rejection.
     and_then (ask (bg_batch g (ka_batch_id a))) (\<lambda>b.
     and_then (compute (stored_rejection a rejection b)) (\<lambda>replay.
     if replay then give b
     else
       and_then (compute (of_domain (batch_rejection_digest rejection))) (\<lambda>d.
       and_then (prove_preexecution_closure pg
         (closure_proof_command (ka_batch_id a) a TerminalRejection d)) (\<lambda>proof.
       reject_or_hand_off g a b rejection proof))))))"

text \<open>
  What the pre-execution commands have done when they return: their reads, their proof and their one
  publication.
\<close>

section \<open>What closing a Batch has done\<close>

lemma batch_close_fresh:
  assumes "batch_finalize_unmaterialized_cancel snapshot v b = Inr closed" "bt_cancellation_intent b = Some intent"
    "bt_basis b = None"
  shows "\<exists>k. closed = b\<lparr>bt_state := BatchCancelled, bt_version := bt_version b + 1, bt_basis := Some k\<rparr> \<and>
    check_batch closed = None \<and> cancellation_basis (bt_state b) intent snapshot = Inr k \<and>
    v = bt_version b \<and> bt_state b \<in> set batch_prestart_cancel_states \<and> cancel_snapshot_matches (bci_scope intent) snapshot"
  using assms
  by (auto simp: batch_finalize_unmaterialized_cancel_def batch_cancel_close_def ensure_expected_version_def
      mk_batch_def result_simps split: if_splits)

text \<open>
  A return of the reconciler: a stored closure is replayed, a proof without children closes the Batch,
  a proof with Runs hands them to the execution path.
\<close>

lemma reconcile_Inr:
  assumes "reconcile_preexecution_cancellation g pg c s = (Inr out, t)"
  obtains (replay) a b intent basis where
      "bg_closure_authority g (rk_batch_id c) (rk_reconciler_id c) (rk_closure_epoch c) s = Inr a"
      "bg_batch g (rk_batch_id c) s = Inr b" "bt_cancellation_intent b = Some intent" "bt_basis b = Some basis"
      "closure_superseded a intent basis = Inr False" "out = ReconciledBatch b" "t = s"
  | (closed) a b intent d snapshot b' where
      "bg_closure_authority g (rk_batch_id c) (rk_reconciler_id c) (rk_closure_epoch c) s = Inr a"
      "bg_batch g (rk_batch_id c) s = Inr b" "bt_cancellation_intent b = Some intent" "bt_basis b = None"
      "batch_cancellation_intent_digest intent = Inr d"
      "prove_preexecution_closure pg (closure_proof_command (rk_batch_id c) a TerminalPrestartCancel d) s =
         (Inr (ZeroChildren snapshot), s)"
      "batch_finalize_unmaterialized_cancel snapshot (ka_source_batch_version a) b = Inr b'"
      "bg_publish_closure g b' s = (Inr (), t)" "out = ReconciledBatch b'"
  | (handed) a b intent d batch_id run_ids run_set h p where
      "bg_closure_authority g (rk_batch_id c) (rk_reconciler_id c) (rk_closure_epoch c) s = Inr a"
      "bg_batch g (rk_batch_id c) s = Inr b" "bt_cancellation_intent b = Some intent" "bt_basis b = None"
      "batch_cancellation_intent_digest intent = Inr d"
      "prove_preexecution_closure pg (closure_proof_command (rk_batch_id c) a TerminalPrestartCancel d) s =
         (Inr (MaterializedScope batch_id run_ids run_set), s)"
      "build_cancel_handoff intent (ka_source_batch_version a) run_set (ka_authority_digest a) (ka_write_epoch a) = Inr h"
      "bg_publish_handoff g h s = (Inr p, t)" "out = HandedOff (rr_value p)"
proof -
  obtain a b where ab: "bg_closure_authority g (rk_batch_id c) (rk_reconciler_id c) (rk_closure_epoch c) s = Inr a"
    "bg_batch g (rk_batch_id c) s = Inr b"
    using assms by (auto simp: reconcile_preexecution_cancellation_def action_simps result_simps)
  then obtain intent where i: "bt_cancellation_intent b = Some intent"
    using assms by (auto simp: reconcile_preexecution_cancellation_def action_simps result_simps split: option.splits)
  show thesis
  proof (cases "bt_basis b")
    case (Some basis)
    then show thesis using assms ab i that(1)
      by (auto simp: reconcile_preexecution_cancellation_def action_simps result_simps)
  next
    case None
    then obtain d pf u where p: "batch_cancellation_intent_digest intent = Inr d"
      "prove_preexecution_closure pg (closure_proof_command (rk_batch_id c) a TerminalPrestartCancel d) s = (Inr pf, u)"
      "close_or_hand_off g a b intent pf u = (Inr out, t)"
      using assms ab i by (auto simp: reconcile_preexecution_cancellation_def action_simps result_simps)
    have "u = s" using prove_closure_Inr [OF p(2)] by simp
    then show thesis using p ab i None that(2,3)
      by (cases pf) (auto simp: close_or_hand_off_def action_simps result_simps)
  qed
qed

section \<open>What recording a rejection has done\<close>

lemma record_rejection_Inr:
  assumes "record_preexecution_rejection g pg c s = (Inr out, t)"
  obtains (replay) a b basis where
      "bg_rejection_authority g (rj_batch_id c) (rj_phase_owner_id c) (rj_rejection_epoch c) s = Inr a"
      "bg_batch g (ka_batch_id a) s = Inr b" "bt_basis b = Some basis" "bt_rejection_fact b \<noteq> None"
      "basis_matches_authority_scope basis (ka_scope a)" "out = b" "t = s"
  | (rejected) a b d snapshot where
      "bg_rejection_authority g (rj_batch_id c) (rj_phase_owner_id c) (rj_rejection_epoch c) s = Inr a"
      "bg_batch g (ka_batch_id a) s = Inr b" "bt_rejection_fact b = None" "bt_cancellation_intent b = None"
      "check_batch_rejection (recorded_rejection c a) = None"
      "batch_rejection_digest (recorded_rejection c a) = Inr d"
      "prove_preexecution_closure pg (closure_proof_command (ka_batch_id a) a TerminalRejection d) s =
         (Inr (ZeroChildren snapshot), s)"
      "batch_reject_preexecution (recorded_rejection c a) snapshot (ka_source_batch_version a) b = Inr out"
      "bg_publish_rejection g out (recorded_rejection c a) s = (Inr (), t)"
proof -
  obtain a b replay where ab:
    "bg_rejection_authority g (rj_batch_id c) (rj_phase_owner_id c) (rj_rejection_epoch c) s = Inr a"
    "bg_batch g (ka_batch_id a) s = Inr b" "stored_rejection a (recorded_rejection c a) b = Inr replay"
    "check_batch_rejection (recorded_rejection c a) = None"
    using assms by (auto simp: record_preexecution_rejection_def action_simps result_simps)
  show thesis
  proof (cases replay)
    case True
    then show thesis using assms ab that(1)
      by (auto simp: record_preexecution_rejection_def stored_rejection_def action_simps result_simps
          split: option.splits if_splits)
  next
    case False
    then obtain d pf u where p: "batch_rejection_digest (recorded_rejection c a) = Inr d"
      "prove_preexecution_closure pg (closure_proof_command (ka_batch_id a) a TerminalRejection d) s = (Inr pf, u)"
      "reject_or_hand_off g a b (recorded_rejection c a) pf u = (Inr out, t)"
      using assms ab by (auto simp: record_preexecution_rejection_def action_simps result_simps)
    have "u = s" using prove_closure_Inr [OF p(2)] by simp
    moreover have "bt_rejection_fact b = None" "bt_cancellation_intent b = None"
      using ab(3) False by (auto simp: stored_rejection_def result_simps split: option.splits if_splits)
    ultimately show thesis using p ab that(2)
      by (cases pf) (auto simp: reject_or_hand_off_def action_simps result_simps)
  qed
qed

section \<open>The replay of a closure\<close>

text \<open>The basis of a closed Batch carries the scope of the snapshot it was closed with.\<close>

lemma cancellation_basis_scope:
  assumes "cancellation_basis st intent snapshot = Inr k"
  shows "peb_terminal_kind k = TerminalPrestartCancel" "peb_scope_kind k = pss_scope_kind snapshot"
    "peb_preplan_scope_digest k = pss_preplan_scope_digest snapshot" "peb_source_batch_version k = pss_source_batch_version snapshot"
    "batch_cancellation_intent_digest intent = Inr d \<Longrightarrow> peb_cancellation_intent_digest k = Some d"
    "pss_scope_kind snapshot = ScopePrePlan \<Longrightarrow> peb_manifest_digest k = None \<and> peb_shard_plan_version k = None \<and>
       peb_shard_plan_digest k = None \<and> peb_canonical_run_set_digest k = None"
  using assms
  by (auto simp: cancellation_basis_def build_preexecution_basis_def check_preexecution_basis_def Let_def result_simps)

lemma closed_batch_replay:
  assumes "batch_finalize_unmaterialized_cancel snapshot v b = Inr b'" "bt_cancellation_intent b = Some intent"
    "bt_basis b = None" "batch_cancellation_intent_digest intent = Inr d"
    "ka_batch_id a = bt_id b" "ka_source_batch_version a = v" "ka_scope a = bci_scope intent"
    "check_batch_cancellation_scope (bci_scope intent) = None"
  shows "\<exists>k. bt_basis b' = Some k \<and> bt_cancellation_intent b' = Some intent \<and>
    closure_superseded a intent k = Inr (bcs_kind (bci_scope intent) \<noteq> CancelPrePlan)"
proof -
  obtain k where k: "b' = b\<lparr>bt_state := BatchCancelled, bt_version := bt_version b + 1, bt_basis := Some k\<rparr>"
    "check_batch b' = None" "cancellation_basis (bt_state b) intent snapshot = Inr k" "v = bt_version b"
    "cancel_snapshot_matches (bci_scope intent) snapshot"
    using batch_close_fresh [OF assms(1-3)] by blast
  note scope = cancellation_basis_scope [OF k(3)]
  have ids: "peb_batch_id k = bt_id b" "peb_source_batch_version k = bt_version b"
    using check_batch_basis [OF k(2)] k(1) by auto
  have "basis_matches_authority_scope k (bci_scope intent) \<longleftrightarrow> bcs_kind (bci_scope intent) = CancelPrePlan"
    using k(5) scope assms(8)
    by (cases "bcs_kind (bci_scope intent)")
      (auto simp: basis_matches_authority_scope_def cancel_snapshot_matches_def check_batch_cancellation_scope_def Let_def result_simps
        require_absent_def split: option.splits)
  then have "closure_superseded a intent k = Inr (bcs_kind (bci_scope intent) \<noteq> CancelPrePlan)"
    using ids scope(1) scope(5) [OF assms(4)] assms(4-7) k(4) by (simp add: closure_superseded_def)
  then show ?thesis using k(1) assms(2) by simp
qed

end
