(* ===== verification/Migration_Gates.thy ===== *)
theory Migration_Gates
  imports Application_Basis
begin

text \<open>
  The compatibility decisions of the state-model migration: for the pre-execution facts of a Batch
  (\<open>src/qarunner/application/migration_compatibility.py\<close>), for Run retry chains
  (\<open>run_retry_migration_compatibility.py\<close>) and for Batch finalization
  (\<open>batch_finalization_migration_compatibility.py\<close>). Each module validates records and controls that
  were read before, classifies a record and decides activation and rollback.
\<close>

section \<open>Shared checks\<close>

definition compatibility_epoch :: string where "compatibility_epoch = ''M0-STATE-V1''"

definition state_model_version :: int where "state_model_version = 1"

text \<open>\<open>_require_optional_string\<close> and \<open>_string\<close>; a required field is given as \<open>Some\<close>.\<close>

definition migration_string :: "string \<Rightarrow> string option \<Rightarrow> app_error option" where
  "migration_string field v =
     reject_if (\<exists>x \<in> set_option v. blank x) (PlainValueError (field @ '' must be a non-empty string''))"

definition migration_version :: "string \<Rightarrow> string \<Rightarrow> int option \<Rightarrow> app_error option" where
  "migration_version field complaint v =
     reject_if (\<exists>n \<in> set_option v. n < 0) (PlainValueError (field @ complaint))"

definition migration_positive :: "string \<Rightarrow> int option \<Rightarrow> app_error option" where
  "migration_positive field v =
     reject_if (\<exists>n \<in> set_option v. n < 1) (PlainValueError (field @ '' must be a positive integer or None''))"

text \<open>The truth value of an optional string.\<close>

definition truthy :: "string option \<Rightarrow> bool" where
  "truthy v \<longleftrightarrow> v \<noteq> None \<and> v \<noteq> Some []"

text \<open>A disposition is a class and a reason; a gate decision a permission and a reason.\<close>

type_synonym disposition = "string \<times> string"
type_synonym gate_decision = "bool \<times> string"

section \<open>Pre-execution records\<close>

record migration_record =
  mr_record_id :: string
  mr_legacy_terminal :: "string option"
  mr_state_model_version :: "int option"
  mr_compatibility_epoch :: "string option"
  mr_ownership_digest :: "string option"
  mr_command_digest :: "string option"
  mr_basis_digest :: "string option"
  mr_proof_digest :: "string option"
  mr_v1_terminal :: "string option"

definition check_migration_record :: "migration_record \<Rightarrow> app_error option" where
  "check_migration_record r = first_some
     [migration_string ''record_id'' (Some (mr_record_id r)),
      migration_string ''legacy_terminal'' (mr_legacy_terminal r),
      migration_string ''compatibility_epoch'' (mr_compatibility_epoch r),
      migration_string ''ownership_digest'' (mr_ownership_digest r),
      migration_string ''command_digest'' (mr_command_digest r),
      migration_string ''basis_digest'' (mr_basis_digest r),
      migration_string ''proof_digest'' (mr_proof_digest r),
      migration_string ''v1_terminal'' (mr_v1_terminal r),
      migration_version ''state_model_version'' '' must be a non-negative integer or None''
        (mr_state_model_version r)]"

record migration_control =
  mc_phase :: string
  mc_active_writer_ids :: "string list"
  mc_writer_compatibility_epoch :: "string option"
  mc_writer_state_model_version :: "int option"
  mc_v1_facts_committed :: bool

definition writer_id_checks :: "string list \<Rightarrow> app_error option list" where
  "writer_id_checks ids =
     map (\<lambda>i. migration_string ''active_writer_ids'' (Some i)) ids @
     [reject_if (\<not> distinct ids) (PlainValueError ''active_writer_ids must not contain duplicates'')]"

definition check_migration_control :: "migration_control \<Rightarrow> app_error option" where
  "check_migration_control c = first_some
     ([migration_string ''phase'' (Some (mc_phase c))] @ writer_id_checks (mc_active_writer_ids c) @
      [migration_string ''writer_compatibility_epoch'' (mc_writer_compatibility_epoch c),
       migration_version ''writer_state_model_version'' '' must be non-negative or None''
         (mc_writer_state_model_version c)])"

definition has_complete_immutable_facts :: "migration_record \<Rightarrow> bool" where
  "has_complete_immutable_facts r \<longleftrightarrow>
     mr_ownership_digest r \<noteq> None \<and> mr_command_digest r \<noteq> None \<and> mr_basis_digest r \<noteq> None \<and>
     mr_proof_digest r \<noteq> None"

text \<open>The first tests of all three classifications; the reason for a version without epoch differs.\<close>

definition epoch_failure :: "string \<Rightarrow> string option \<Rightarrow> int option \<Rightarrow> disposition option" where
  "epoch_failure without_epoch epoch version =
     (if epoch \<noteq> None then
        if epoch \<noteq> Some compatibility_epoch then Some (''fail_closed'', ''unsupported_compatibility_epoch'')
        else if version \<noteq> Some state_model_version then Some (''fail_closed'', ''unsupported_state_model_version'')
        else None
      else if version \<noteq> None then Some (''fail_closed'', without_epoch) else None)"

definition classify_migration_record :: "migration_record \<Rightarrow> disposition" where
  "classify_migration_record r =
     (case epoch_failure ''unsupported_compatibility_epoch'' (mr_compatibility_epoch r) (mr_state_model_version r) of
        Some d \<Rightarrow> d
      | None \<Rightarrow>
          let complete = has_complete_immutable_facts r in
          if mr_v1_terminal r \<noteq> None then
            if mr_compatibility_epoch r = None \<or> mr_state_model_version r = None
            then (''fail_closed'', ''missing_v1_compatibility_binding'')
            else if \<not> complete then (''conflict'', ''incomplete_v1_facts'')
            else if mr_legacy_terminal r \<noteq> None \<and> mr_legacy_terminal r \<noteq> mr_v1_terminal r
            then (''conflict'', ''legacy_v1_terminal_mismatch'')
            else (''trusted_v1'', ''v1_facts_complete'')
          else if mr_legacy_terminal r \<noteq> None \<and> complete then (''reconstructable'', ''immutable_facts_complete'')
          else if mr_legacy_terminal r \<noteq> None then (''legacy_unverified'', ''basisless_legacy_terminal'')
          else (''legacy_unverified'', ''no_terminal_basis''))"

text \<open>The activation gate of the first two modules and the rollback gates.\<close>

definition single_writer_gate :: "string list \<Rightarrow> string option \<Rightarrow> int option \<Rightarrow> gate_decision" where
  "single_writer_gate ids epoch version =
     (if length ids \<noteq> 1 then (False, ''single_writer_required'')
      else if epoch \<noteq> Some compatibility_epoch then (False, ''writer_epoch_mismatch'')
      else if version \<noteq> Some state_model_version then (False, ''writer_state_model_version_mismatch'')
      else (True, ''single_compatible_writer''))"

definition evaluate_activation :: "migration_control \<Rightarrow> gate_decision" where
  "evaluate_activation c = single_writer_gate (mc_active_writer_ids c) (mc_writer_compatibility_epoch c)
     (mc_writer_state_model_version c)"

definition evaluate_rollback :: "migration_control \<Rightarrow> gate_decision" where
  "evaluate_rollback c =
     (if mc_v1_facts_committed c then (False, ''forward_only_v1_facts'') else (True, ''preactivation_rollback''))"

section \<open>Run retry chains\<close>

datatype retry_migration_kind = MigratePolicy | MigrateConfirmStopped | MigrateDuplicateRisk

fun retry_migration_value :: "retry_migration_kind \<Rightarrow> string" where
  "retry_migration_value MigratePolicy = ''policy''"
| "retry_migration_value MigrateConfirmStopped = ''confirm_stopped''"
| "retry_migration_value MigrateDuplicateRisk = ''duplicate_risk''"

text \<open>The kind may be given as its string value.\<close>

definition retry_kind_of :: "string option \<Rightarrow> retry_migration_kind option answer" where
  "retry_kind_of v =
     (case v of None \<Rightarrow> Inr None
      | Some s \<Rightarrow>
          (case find (\<lambda>k. retry_migration_value k = s) [MigratePolicy, MigrateConfirmStopped, MigrateDuplicateRisk] of
             Some k \<Rightarrow> Inr (Some k)
           | None \<Rightarrow> Inl (PlainValueError ''retry_kind must be a known RetryMigrationKind or None'')))"

record retry_migration_record =
  mt_record_id :: string
  mt_compatibility_epoch :: "string option"
  mt_state_model_version :: "int option"
  mt_retry_kind :: "retry_migration_kind option"
  mt_intent_digest :: "string option"
  mt_receipt_digest :: "string option"
  mt_authority_digest :: "string option"
  mt_queue_identity_scope_digest :: "string option"
  mt_queued_run_version :: "int option"
  mt_queue_writer_digest :: "string option"
  mt_queue_write_epoch :: "int option"
  mt_reservation_digest :: "string option"
  mt_acceptance_consumption_digest :: "string option"
  mt_start_commit_digest :: "string option"
  mt_attempt_provenance_digest :: "string option"

definition check_retry_migration_record :: "retry_migration_record \<Rightarrow> app_error option" where
  "check_retry_migration_record r = first_some
     [migration_string ''record_id'' (Some (mt_record_id r)),
      migration_string ''compatibility_epoch'' (mt_compatibility_epoch r),
      migration_string ''intent_digest'' (mt_intent_digest r),
      migration_string ''receipt_digest'' (mt_receipt_digest r),
      migration_string ''authority_digest'' (mt_authority_digest r),
      migration_string ''queue_identity_scope_digest'' (mt_queue_identity_scope_digest r),
      migration_string ''queue_writer_digest'' (mt_queue_writer_digest r),
      migration_string ''reservation_digest'' (mt_reservation_digest r),
      migration_string ''acceptance_consumption_digest'' (mt_acceptance_consumption_digest r),
      migration_string ''start_commit_digest'' (mt_start_commit_digest r),
      migration_string ''attempt_provenance_digest'' (mt_attempt_provenance_digest r),
      migration_version ''state_model_version'' '' must be a non-negative integer or None'' (mt_state_model_version r),
      migration_version ''queued_run_version'' '' must be a non-negative integer or None'' (mt_queued_run_version r),
      migration_positive ''queue_write_epoch'' (mt_queue_write_epoch r)]"

record retry_migration_control =
  mv_active_writer_ids :: "string list"
  mv_writer_compatibility_epoch :: "string option"
  mv_writer_state_model_version :: "int option"
  mv_v1_retry_facts_committed :: bool

definition check_retry_migration_control :: "retry_migration_control \<Rightarrow> app_error option" where
  "check_retry_migration_control c = first_some
     (writer_id_checks (mv_active_writer_ids c) @
      [migration_string ''writer_compatibility_epoch'' (mv_writer_compatibility_epoch c),
       migration_version ''writer_state_model_version'' '' must be a non-negative integer or None''
         (mv_writer_state_model_version c)])"

text \<open>Whether a kind of retry reserves a budget, and whether it consumes an acceptance.\<close>

fun retry_participants :: "retry_migration_kind \<Rightarrow> bool \<times> bool" where
  "retry_participants MigratePolicy = (True, False)"
| "retry_participants MigrateConfirmStopped = (False, False)"
| "retry_participants MigrateDuplicateRisk = (False, True)"

definition classify_run_retry_record :: "retry_migration_record \<Rightarrow> disposition" where
  "classify_run_retry_record r =
     (case epoch_failure ''missing_compatibility_epoch'' (mt_compatibility_epoch r) (mt_state_model_version r) of
        Some d \<Rightarrow> d
      | None \<Rightarrow>
          if mt_compatibility_epoch r = None
          then (''legacy_unverified'', if truthy (mt_intent_digest r) then ''basisless_legacy_retry'' else ''no_retry_basis'')
          else if \<not> (truthy (mt_intent_digest r) \<and> truthy (mt_receipt_digest r) \<and> truthy (mt_authority_digest r) \<and>
              truthy (mt_queue_identity_scope_digest r) \<and> truthy (mt_queue_writer_digest r)) \<or>
            mt_queued_run_version r = None \<or> mt_queue_write_epoch r = None
          then (''conflict'', ''incomplete_retry_chain'')
          else case mt_retry_kind r of
            None \<Rightarrow> (''conflict'', ''missing_retry_kind'')
          | Some k \<Rightarrow>
              if (mt_reservation_digest r \<noteq> None, mt_acceptance_consumption_digest r \<noteq> None) \<noteq> retry_participants k
              then (''conflict'', ''retry_participant_kind_mismatch'')
              else if mt_attempt_provenance_digest r \<noteq> None \<and> mt_start_commit_digest r = None
              then (''conflict'', ''attempt_without_start_commit'')
              else if mt_start_commit_digest r \<noteq> None \<and> mt_attempt_provenance_digest r = None
              then (''conflict'', ''missing_attempt_provenance'')
              else (''trusted_v1'', ''immutable_retry_chain_complete''))"

definition evaluate_run_retry_activation :: "retry_migration_control \<Rightarrow> gate_decision" where
  "evaluate_run_retry_activation c = single_writer_gate (mv_active_writer_ids c)
     (mv_writer_compatibility_epoch c) (mv_writer_state_model_version c)"

definition evaluate_run_retry_rollback :: "retry_migration_control \<Rightarrow> gate_decision" where
  "evaluate_run_retry_rollback c =
     (if mv_v1_retry_facts_committed c then (False, ''forward_only_v1_retry_facts'')
      else (True, ''preactivation_rollback''))"

section \<open>Batch finalization\<close>

definition execution_terminals :: "batch_state list" where
  "execution_terminals = [BatchSucceeded, BatchFailed, BatchPartial, BatchCancelled]"

record readiness_migration_fact =
  mf_ref :: string
  mf_batch_id :: string
  mf_source_batch_version :: int
  mf_compatibility_epoch :: string
  mf_state_model_version :: int

record basis_migration_fact = readiness_migration_fact +
  mb_readiness_ref :: string
  mb_outcome :: batch_state

definition required_version :: "string \<Rightarrow> int \<Rightarrow> app_error option" where
  "required_version field v = migration_version field '' must be a non-negative integer or None'' (Some v)"

definition check_readiness_migration_fact :: "readiness_migration_fact \<Rightarrow> app_error option" where
  "check_readiness_migration_fact f = first_some
     [migration_string ''ref'' (Some (mf_ref f)),
      migration_string ''batch_id'' (Some (mf_batch_id f)),
      migration_string ''compatibility_epoch'' (Some (mf_compatibility_epoch f)),
      required_version ''source_batch_version'' (mf_source_batch_version f),
      required_version ''state_model_version'' (mf_state_model_version f)]"

definition check_basis_migration_fact :: "basis_migration_fact \<Rightarrow> app_error option" where
  "check_basis_migration_fact f = first_some
     [migration_string ''ref'' (Some (mf_ref f)),
      migration_string ''batch_id'' (Some (mf_batch_id f)),
      migration_string ''readiness_ref'' (Some (mb_readiness_ref f)),
      migration_string ''compatibility_epoch'' (Some (mf_compatibility_epoch f)),
      required_version ''source_batch_version'' (mf_source_batch_version f),
      required_version ''state_model_version'' (mf_state_model_version f),
      reject_if (mb_outcome f \<notin> set execution_terminals) (PlainValueError ''outcome must be an execution terminal'')]"

record finalization_migration_record =
  mz_record_id :: string
  mz_batch_id :: string
  mz_current_batch_version :: int
  mz_legacy_terminal :: "string option"
  mz_state_model_version :: "int option"
  mz_compatibility_epoch :: "string option"
  mz_v1_state :: "batch_state option"
  mz_readiness_fact :: "readiness_migration_fact option"
  mz_basis_fact :: "basis_migration_fact option"
  mz_outcome :: "batch_state option"

definition check_finalization_migration_record :: "finalization_migration_record \<Rightarrow> app_error option" where
  "check_finalization_migration_record r = first_some
     [migration_string ''record_id'' (Some (mz_record_id r)),
      migration_string ''batch_id'' (Some (mz_batch_id r)),
      required_version ''current_batch_version'' (mz_current_batch_version r),
      migration_string ''legacy_terminal'' (mz_legacy_terminal r),
      migration_version ''state_model_version'' '' must be a non-negative integer or None'' (mz_state_model_version r),
      migration_string ''compatibility_epoch'' (mz_compatibility_epoch r),
      reject_if (\<exists>s \<in> set_option (mz_outcome r). s \<notin> set execution_terminals)
        (PlainValueError ''outcome must be an execution terminal or None'')]"

datatype finalization_writer_role = AttemptCreator | BatchReconciler | LegacyBatchTerminal

record finalization_writer =
  fw_writer_id :: string
  fw_role :: finalization_writer_role
  fw_compatibility_epoch :: "string option"
  fw_state_model_version :: "int option"

definition check_finalization_writer :: "finalization_writer \<Rightarrow> app_error option" where
  "check_finalization_writer w = first_some
     [migration_string ''writer_id'' (Some (fw_writer_id w)),
      migration_string ''compatibility_epoch'' (fw_compatibility_epoch w),
      migration_version ''state_model_version'' '' must be a non-negative integer or None'' (fw_state_model_version w)]"

definition writer_compatible :: "finalization_writer \<Rightarrow> bool" where
  "writer_compatible w \<longleftrightarrow>
     fw_compatibility_epoch w = Some compatibility_epoch \<and> fw_state_model_version w = Some state_model_version"

record finalization_migration_control =
  mx_writers :: "finalization_writer list"
  mx_committed_v1_fact_refs :: "string list"

definition check_finalization_migration_control :: "finalization_migration_control \<Rightarrow> app_error option" where
  "check_finalization_migration_control c =
     (let refs = mx_committed_v1_fact_refs c in first_some
     [reject_if (\<not> distinct (map fw_writer_id (mx_writers c)))
        (PlainValueError ''writers must not contain duplicate identity''),
      reject_if ([] \<in> set refs) (PlainValueError ''committed_v1_fact_refs must be a tuple of non-empty strings''),
      reject_if (refs \<noteq> sort refs \<or> \<not> distinct refs)
        (PlainValueError ''committed_v1_fact_refs must be canonical and unique'')])"

text \<open>\<open>FINALIZING\<close>: the readiness fact alone, bound to the record, one version back.\<close>

definition classify_finalizing :: "finalization_migration_record \<Rightarrow> disposition" where
  "classify_finalizing r =
     (if mz_legacy_terminal r \<noteq> None then (''conflict'', ''legacy_terminal_with_finalizing'')
      else case mz_readiness_fact r of
        None \<Rightarrow> (''conflict'', ''invalid_finalizing_facts'')
      | Some f \<Rightarrow>
          if mz_basis_fact r \<noteq> None \<or> mz_outcome r \<noteq> None then (''conflict'', ''invalid_finalizing_facts'')
          else if mf_batch_id f \<noteq> mz_batch_id r \<or> Some (mf_compatibility_epoch f) \<noteq> mz_compatibility_epoch r \<or>
            Some (mf_state_model_version f) \<noteq> mz_state_model_version r \<or>
            mz_current_batch_version r \<noteq> mf_source_batch_version f + 1
          then (''conflict'', ''readiness_binding_mismatch'')
          else (''trusted_v1'', ''readiness_fact_complete''))"

text \<open>A terminal state: readiness, basis and outcome, bound to the record, two versions back.\<close>

definition terminal_facts_bound ::
  "finalization_migration_record \<Rightarrow> readiness_migration_fact \<Rightarrow> basis_migration_fact \<Rightarrow> bool" where
  "terminal_facts_bound r f b \<longleftrightarrow>
     mf_batch_id f = mz_batch_id r \<and> mf_batch_id b = mz_batch_id r \<and> mb_readiness_ref b = mf_ref f \<and>
     Some (mf_compatibility_epoch f) = mz_compatibility_epoch r \<and>
     Some (mf_compatibility_epoch b) = mz_compatibility_epoch r \<and>
     Some (mf_state_model_version f) = mz_state_model_version r \<and>
     Some (mf_state_model_version b) = mz_state_model_version r \<and>
     mf_source_batch_version b = mf_source_batch_version f + 1 \<and>
     mz_current_batch_version r = mf_source_batch_version b + 1"

definition classify_terminal :: "finalization_migration_record \<Rightarrow> disposition" where
  "classify_terminal r =
     (case (mz_readiness_fact r, mz_basis_fact r, mz_outcome r) of
        (Some f, Some b, Some outcome) \<Rightarrow>
          if \<not> terminal_facts_bound r f b then (''conflict'', ''terminal_fact_binding_mismatch'')
          else if Some outcome \<noteq> mz_v1_state r then (''conflict'', ''terminal_outcome_mismatch'')
          else if mb_outcome b \<noteq> outcome then (''conflict'', ''basis_outcome_mismatch'')
          else if mz_legacy_terminal r \<noteq> None \<and> mz_legacy_terminal r \<noteq> Some (batch_state_value outcome)
          then (''conflict'', ''legacy_v1_terminal_mismatch'')
          else (''trusted_v1'', ''terminal_facts_complete'')
      | _ \<Rightarrow> (''conflict'', ''incomplete_terminal_facts''))"

definition classify_finalization_record :: "finalization_migration_record \<Rightarrow> disposition" where
  "classify_finalization_record r =
     (case epoch_failure ''missing_compatibility_epoch'' (mz_compatibility_epoch r) (mz_state_model_version r) of
        Some d \<Rightarrow> d
      | None \<Rightarrow>
          case mz_v1_state r of
            None \<Rightarrow>
              if mz_readiness_fact r \<noteq> None \<or> mz_basis_fact r \<noteq> None \<or> mz_outcome r \<noteq> None
              then (''conflict'', ''detached_v1_facts'')
              else if mz_legacy_terminal r \<noteq> None then (''legacy_unverified'', ''basisless_legacy_terminal'')
              else (''legacy_pending'', ''no_terminal_fact'')
          | Some st \<Rightarrow>
              if mz_compatibility_epoch r = None \<or> mz_state_model_version r = None
              then (''fail_closed'', ''missing_v1_compatibility_binding'')
              else if st = BatchFinalizing then classify_finalizing r
              else if st \<notin> set execution_terminals then (''fail_closed'', ''unsupported_v1_state'')
              else classify_terminal r)"

definition evaluate_finalization_activation :: "finalization_migration_control \<Rightarrow> gate_decision" where
  "evaluate_finalization_activation c =
     (let reconcilers = filter (\<lambda>w. fw_role w = BatchReconciler) (mx_writers c) in
      if \<exists>w \<in> set (mx_writers c). fw_role w = LegacyBatchTerminal then (False, ''legacy_terminal_writer_active'')
      else if length reconcilers \<noteq> 1 then (False, ''single_reconciler_required'')
      else if \<not> writer_compatible (hd reconcilers) then (False, ''reconciler_epoch_mismatch'')
      else if \<exists>w \<in> set (mx_writers c). fw_role w = AttemptCreator \<and> \<not> writer_compatible w
      then (False, ''attempt_writer_epoch_mismatch'')
      else (True, ''compatible_writer_set''))"

definition evaluate_finalization_rollback :: "finalization_migration_control \<Rightarrow> gate_decision" where
  "evaluate_finalization_rollback c =
     (if mx_committed_v1_fact_refs c \<noteq> [] then (False, ''forward_only_v1_facts'') else (True, ''precommit_rollback''))"

section \<open>What a trusted record holds\<close>

lemma epoch_failure_None:
  "epoch_failure e epoch version = None \<longleftrightarrow>
    epoch = None \<and> version = None \<or> epoch = Some compatibility_epoch \<and> version = Some state_model_version"
  by (auto simp: epoch_failure_def)

lemma epoch_failure_class: "epoch_failure e epoch version = Some d \<Longrightarrow> fst d = ''fail_closed''"
  by (auto simp: epoch_failure_def split: if_splits)

lemma trusted_retry_chain:
  assumes "fst (classify_run_retry_record r) = ''trusted_v1''"
  shows "\<exists>k. mt_retry_kind r = Some k \<and> (mt_reservation_digest r \<noteq> None) = (k = MigratePolicy) \<and>
    (mt_acceptance_consumption_digest r \<noteq> None) = (k = MigrateDuplicateRisk) \<and>
    (mt_attempt_provenance_digest r = None) = (mt_start_commit_digest r = None) \<and>
    mt_compatibility_epoch r = Some compatibility_epoch"
proof (cases "epoch_failure ''missing_compatibility_epoch'' (mt_compatibility_epoch r) (mt_state_model_version r)")
  case None
  obtain k where "mt_retry_kind r = Some k"
    using assms None by (auto simp: classify_run_retry_record_def split: if_splits option.splits)
  then show ?thesis using assms None
    by (cases k) (auto simp: classify_run_retry_record_def epoch_failure_None split: if_splits)
qed (use assms in \<open>simp add: classify_run_retry_record_def epoch_failure_class\<close>)

text \<open>The versions of a trusted terminal record are consecutive and all outcomes agree.\<close>

lemma trusted_terminal_record:
  assumes "classify_finalization_record r = (''trusted_v1'', ''terminal_facts_complete'')"
  obtains f b where "mz_readiness_fact r = Some f" "mz_basis_fact r = Some b"
    "mz_current_batch_version r = mf_source_batch_version f + 2" "mb_readiness_ref b = mf_ref f"
    "mz_outcome r = Some (mb_outcome b)" "mz_v1_state r = Some (mb_outcome b)"
    "mf_compatibility_epoch f = compatibility_epoch" "mf_compatibility_epoch b = compatibility_epoch"
proof -
  have none: "epoch_failure ''missing_compatibility_epoch'' (mz_compatibility_epoch r) (mz_state_model_version r) = None"
    using assms epoch_failure_class by (fastforce simp: classify_finalization_record_def split: option.splits)
  obtain st where v1: "mz_v1_state r = Some st"
    using assms none by (cases "mz_v1_state r") (auto simp: classify_finalization_record_def split: if_splits)
  have st: "st \<noteq> BatchFinalizing" "mz_compatibility_epoch r = Some compatibility_epoch"
    using assms none v1 unfolding classify_finalization_record_def
    by (auto simp: classify_finalizing_def epoch_failure_None split: if_splits option.splits)
  have t: "classify_terminal r = (''trusted_v1'', ''terminal_facts_complete'')"
    using assms none v1 st unfolding classify_finalization_record_def by (auto split: if_splits)
  then obtain f b u where "mz_readiness_fact r = Some f" "mz_basis_fact r = Some b" "mz_outcome r = Some u"
    unfolding classify_terminal_def by (auto split: option.splits)
  then show ?thesis using that t st v1 unfolding classify_terminal_def terminal_facts_bound_def
    by (auto split: if_splits)
qed

lemma activation_single_compatible_writer:
  "fst (single_writer_gate ids epoch version) \<longleftrightarrow>
    (\<exists>i. ids = [i]) \<and> epoch = Some compatibility_epoch \<and> version = Some state_model_version"
  by (auto simp: single_writer_gate_def length_Suc_conv)

end
