(* ===== verification/Run_Closed_Handoff.thy ===== *)
theory Run_Closed_Handoff
  imports Run_Basis Application_Basis
begin

text \<open>
  The immutable facts of a closed Run that are handed to Batch finalization
  (\<open>src/qarunner/application/run_closed_handoff.py\<close>): one event per closed Run version, whose identity
  and payload digest are functions of the basis.
\<close>

record closed_handoff =
  ch_schema_version :: string
  ch_identity_algorithm_version :: string
  ch_semantic_trigger_key :: digest
  ch_handoff_id :: string
  ch_event_id :: string
  ch_batch_id :: string
  ch_run_id :: string
  ch_source_run_version :: int
  ch_run_basis_digest :: digest
  ch_run_outcome :: run_outcome
  ch_terminal_input_kind :: terminal_input_kind
  ch_manifest_digest :: digest
  ch_shard_plan_digest :: digest
  ch_run_item_set_digest :: digest
  ch_original_resolution_set_digest :: digest
  ch_effective_resolution_set_digest :: digest
  ch_item_resolution_set_digest :: digest
  ch_item_count :: int
  ch_cancellation_intent_digest :: "digest option"
  ch_unknown_observation_digest :: "digest option"
  ch_adjudication_chain_digest :: "digest option"
  ch_retry_chain_digest :: "digest option"
  ch_authority_digest :: digest
  ch_write_epoch :: int
  ch_destination :: string
  ch_payload_digest :: digest

definition closed_handoff_schema :: string where
  "closed_handoff_schema = ''qep.run-closed-handoff.v1''"

definition handoff_identity :: "string \<Rightarrow> int \<Rightarrow> digest \<Rightarrow> digest result" where
  "handoff_identity run_id source_run_version basis_digest =
     canonical_digest ''qep.run-closed-handoff-identity.v1''
       (JObj [(''schema_version'', JStr closed_handoff_schema),
              (''run_id'', JStr run_id),
              (''source_run_version'', JInt source_run_version),
              (''run_basis_digest'', digest_json basis_digest)])"

text \<open>\<open>_rebuild_payload\<close>: the digest of the binding, wrapped in the digest of the event payload.\<close>

definition rebuild_payload :: "closed_handoff \<Rightarrow> digest result" where
  "rebuild_payload h =
     bind_result (canonical_digest closed_handoff_schema (JObj
       [(''batch_id'', JStr (ch_batch_id h)),
        (''run_id'', JStr (ch_run_id h)),
        (''source_run_version'', JInt (ch_source_run_version h)),
        (''run_basis_digest'', digest_json (ch_run_basis_digest h)),
        (''run_outcome'', JStr (run_outcome_value (ch_run_outcome h))),
        (''terminal_input_kind'', JStr (terminal_input_value (ch_terminal_input_kind h))),
        (''manifest_digest'', digest_json (ch_manifest_digest h)),
        (''shard_plan_digest'', digest_json (ch_shard_plan_digest h)),
        (''run_item_set_digest'', digest_json (ch_run_item_set_digest h)),
        (''original_resolution_set_digest'', digest_json (ch_original_resolution_set_digest h)),
        (''effective_resolution_set_digest'', digest_json (ch_effective_resolution_set_digest h)),
        (''item_resolution_set_digest'', digest_json (ch_item_resolution_set_digest h)),
        (''item_count'', JInt (ch_item_count h)),
        (''cancellation_intent_digest'', json_opt digest_json (ch_cancellation_intent_digest h)),
        (''unknown_observation_digest'', json_opt digest_json (ch_unknown_observation_digest h)),
        (''adjudication_chain_digest'', json_opt digest_json (ch_adjudication_chain_digest h)),
        (''retry_chain_digest'', json_opt digest_json (ch_retry_chain_digest h)),
        (''authority_digest'', digest_json (ch_authority_digest h)),
        (''write_epoch'', JInt (ch_write_epoch h)),
        (''destination'', JStr (ch_destination h))])) (\<lambda>binding.
     canonical_digest ''qep.run-closed-handoff-event-payload.v1''
       (JObj [(''handoff_digest'', digest_json binding)]))"

section \<open>Validation\<close>

definition self_inconsistent :: "closed_handoff \<Rightarrow> bool result" where
  "self_inconsistent h =
     bind_result (handoff_identity (ch_run_id h) (ch_source_run_version h) (ch_run_basis_digest h)) (\<lambda>identity.
     any_of [Inr (ch_semantic_trigger_key h \<noteq> identity),
       Inr (ch_handoff_id h \<noteq> ''run-closed-handoff-'' @ digest_suffix identity),
       Inr (ch_event_id h \<noteq> ''run-closed-event-'' @ digest_suffix identity),
       map_result (\<lambda>p. ch_payload_digest h \<noteq> p) (rebuild_payload h)])"

definition check_closed_handoff :: "closed_handoff \<Rightarrow> domain_error option" where
  "check_closed_handoff h =
     (let invalid = (\<lambda>field. DomainValidationError ''run_closed_handoff'' field ''invalid'') in first_some
     [reject_if (ch_schema_version h \<noteq> closed_handoff_schema \<or>
         ch_identity_algorithm_version h \<noteq> identity_algorithm \<or> ch_destination h \<noteq> ''batch_finalization'')
        (invalid ''envelope''),
      reject_if (blank (ch_handoff_id h) \<or> blank (ch_event_id h) \<or> blank (ch_batch_id h) \<or> blank (ch_run_id h))
        (invalid ''identity''),
      reject_if (ch_source_run_version h < 0 \<or> ch_item_count h < 1 \<or> ch_write_epoch h < 1) (invalid ''integer''),
      reject_if_result (self_inconsistent h) (invalid ''self_consistency'')])"

section \<open>Building the handoff of a basis\<close>

text \<open>The comparisons before building, from left to right; the set digests may raise.\<close>

definition handoff_binding_mismatch :: "run_basis \<Rightarrow> run_resolution_set \<Rightarrow> bool result" where
  "handoff_binding_mismatch b s = any_of
     [Inr (fb_run_id b \<noteq> rs_run_id s), Inr (fb_batch_id b \<noteq> rs_batch_id s),
      Inr (fb_source_run_version b \<noteq> rs_source_run_version s),
      map_result (\<lambda>d. fb_item_resolution_set_digest b \<noteq> d) (resolution_set_digest s),
      map_result (\<lambda>d. fb_original_resolution_set_digest b \<noteq> d) (original_resolution_set_digest s),
      map_result (\<lambda>d. fb_effective_resolution_set_digest b \<noteq> d) (effective_resolution_set_digest s),
      Inr (fb_run_item_set_digest b \<noteq> rs_run_item_set_digest s),
      Inr (fb_item_count b \<noteq> int (length (rs_entries s))), Inr (fb_outcome b \<noteq> audit_outcome s)]"

text \<open>The handoff before its payload digest is known.\<close>

definition handoff_of_basis :: "run_basis \<Rightarrow> digest \<Rightarrow> digest \<Rightarrow> digest \<Rightarrow> int \<Rightarrow> digest \<Rightarrow> closed_handoff" where
  "handoff_of_basis b basis_digest identity authority_digest write_epoch payload =
     \<lparr>ch_schema_version = closed_handoff_schema, ch_identity_algorithm_version = identity_algorithm,
      ch_semantic_trigger_key = identity, ch_handoff_id = ''run-closed-handoff-'' @ digest_suffix identity,
      ch_event_id = ''run-closed-event-'' @ digest_suffix identity, ch_batch_id = fb_batch_id b,
      ch_run_id = fb_run_id b, ch_source_run_version = fb_source_run_version b,
      ch_run_basis_digest = basis_digest, ch_run_outcome = fb_outcome b,
      ch_terminal_input_kind = fb_terminal_input_kind b, ch_manifest_digest = fb_manifest_digest b,
      ch_shard_plan_digest = fb_shard_plan_digest b, ch_run_item_set_digest = fb_run_item_set_digest b,
      ch_original_resolution_set_digest = fb_original_resolution_set_digest b,
      ch_effective_resolution_set_digest = fb_effective_resolution_set_digest b,
      ch_item_resolution_set_digest = fb_item_resolution_set_digest b, ch_item_count = fb_item_count b,
      ch_cancellation_intent_digest = fb_cancellation_intent_digest b,
      ch_unknown_observation_digest = fb_unknown_observation_digest b,
      ch_adjudication_chain_digest = fb_adjudication_chain_digest b,
      ch_retry_chain_digest = fb_retry_chain_digest b, ch_authority_digest = authority_digest,
      ch_write_epoch = write_epoch, ch_destination = ''batch_finalization'', ch_payload_digest = payload\<rparr>"

text \<open>
  \<open>build_run_closed_handoff\<close>. The payload it digests is the one \<open>_rebuild_payload\<close> rebuilds from the
  handoff, member by member, so it is written here with \<open>rebuild_payload\<close> on the unfinished handoff.
\<close>

definition build_run_closed_handoff ::
  "run_basis \<Rightarrow> run_resolution_set \<Rightarrow> digest \<Rightarrow> int \<Rightarrow> closed_handoff answer" where
  "build_run_closed_handoff b s authority_digest write_epoch =
     bind_result (of_domain (handoff_binding_mismatch b s)) (\<lambda>mismatch.
     if mismatch then Inl (PlainValueError ''run_closed_handoff/binding_mismatch'')
     else of_domain (
       bind_result (run_basis_digest b) (\<lambda>basis_digest.
       bind_result (handoff_identity (fb_run_id b) (fb_source_run_version b) basis_digest) (\<lambda>identity.
       let unfinished = handoff_of_basis b basis_digest identity authority_digest write_epoch identity in
       bind_result (rebuild_payload unfinished) (\<lambda>payload.
       let h = unfinished\<lparr>ch_payload_digest := payload\<rparr> in raise_or (check_closed_handoff h) h)))))"

text \<open>The claims of the delivery plane (\<open>application/ports/run_closed_handoff.py\<close>).\<close>

record closed_delivery_metadata =
  cdm_claim_id :: string
  cdm_attempt :: int
  cdm_status :: string

section \<open>What is built is valid\<close>

lemma handoff_binding_iff:
  "handoff_binding_mismatch b s = Inr False \<longleftrightarrow>
    fb_run_id b = rs_run_id s \<and> fb_batch_id b = rs_batch_id s \<and>
    fb_source_run_version b = rs_source_run_version s \<and>
    resolution_set_digest s = Inr (fb_item_resolution_set_digest b) \<and>
    original_resolution_set_digest s = Inr (fb_original_resolution_set_digest b) \<and>
    effective_resolution_set_digest s = Inr (fb_effective_resolution_set_digest b) \<and>
    fb_run_item_set_digest b = rs_run_item_set_digest s \<and> fb_item_count b = int (length (rs_entries s)) \<and>
    fb_outcome b = audit_outcome s"
  unfolding handoff_binding_mismatch_def any_of_False by (auto simp: map_result_Inr_iff)

lemma rebuild_payload_ignores [simp]: "rebuild_payload (h\<lparr>ch_payload_digest := p\<rparr>) = rebuild_payload h"
  by (simp add: rebuild_payload_def)

text \<open>
  Building succeeds as soon as the basis binds its set and its digests can be computed: the handoff
  passes its own validator, so \<open>self_consistency\<close> is never raised for it.
\<close>

lemma built_handoff:
  assumes "handoff_binding_mismatch b s = Inr False" "check_run_basis b = None" "1 \<le> write_epoch"
    "run_basis_digest b = Inr d" "safe_int write_epoch"
  shows "\<exists>identity payload. handoff_identity (fb_run_id b) (fb_source_run_version b) d = Inr identity \<and>
    build_run_closed_handoff b s a write_epoch = Inr (handoff_of_basis b d identity a write_epoch payload) \<and>
    check_closed_handoff (handoff_of_basis b d identity a write_epoch payload) = None"
proof -
  have members: "list_all (\<lambda>kv. json_safe (snd kv)) (run_basis_members b)"
    using assms(4) by (auto simp: run_basis_digest_def result_simps)
  then have ints: "safe_int (fb_source_run_version b)" "safe_int (fb_item_count b)"
    "json_safe (JStr (fb_run_id b))" "json_safe (JStr (fb_batch_id b))"
    by (simp_all add: run_basis_members_def)
  then obtain identity where i: "handoff_identity (fb_run_id b) (fb_source_run_version b) d = Inr identity"
    by (simp add: handoff_identity_def result_simps closed_handoff_schema_def digest_json_def)
  obtain payload where p: "rebuild_payload (handoff_of_basis b d identity a write_epoch identity) = Inr payload"
    using ints assms(5) by (cases "fb_outcome b"; cases "fb_terminal_input_kind b")
      (auto simp: rebuild_payload_def handoff_of_basis_def result_simps digest_json_def split: option.split)
  let ?h = "handoff_of_basis b d identity a write_epoch payload"
  have h: "(handoff_of_basis b d identity a write_epoch identity)\<lparr>ch_payload_digest := payload\<rparr> = ?h"
    by (simp add: handoff_of_basis_def)
  have basis: "\<not> blank (fb_run_id b)" "\<not> blank (fb_batch_id b)" "0 \<le> fb_source_run_version b" "1 \<le> fb_item_count b"
    using assms(2) by (auto simp: check_run_basis_def Let_def rf_string_def rf_nonnegative_def rf_positive_def result_simps)
  have nonblank: "\<not> blank (''run-closed-handoff-'' @ x)" "\<not> blank (''run-closed-event-'' @ x)" for x
    by (simp_all add: blank_eval)
  have "rebuild_payload ?h = Inr payload" using p rebuild_payload_ignores [of payload "handoff_of_basis b d identity a write_epoch identity"] h by simp
  then have "self_inconsistent ?h = Inr False"
    using i by (simp add: self_inconsistent_def) (simp add: handoff_of_basis_def)
  then have c: "check_closed_handoff ?h = None"
    using basis assms(3) nonblank
    by (simp add: check_closed_handoff_def Let_def result_simps) (simp add: handoff_of_basis_def)
  then have "build_run_closed_handoff b s a write_epoch = Inr ?h"
    using assms(1,4) i p h by (simp add: build_run_closed_handoff_def Let_def)
  then show ?thesis using i c by blast
qed

lemma build_closed_Inr:
  assumes "build_run_closed_handoff b s a epoch = Inr h"
  shows "handoff_binding_mismatch b s = Inr False" "check_closed_handoff h = None" "1 \<le> epoch"
    "\<exists>d identity payload. run_basis_digest b = Inr d \<and> h = handoff_of_basis b d identity a epoch payload"
proof -
  show "handoff_binding_mismatch b s = Inr False"
    using assms by (auto simp: build_run_closed_handoff_def result_simps)
  obtain d identity payload where h: "run_basis_digest b = Inr d"
    "h = (handoff_of_basis b d identity a epoch identity)\<lparr>ch_payload_digest := payload\<rparr>" "check_closed_handoff h = None"
    using assms by (auto simp: build_run_closed_handoff_def Let_def result_simps)
  then show "check_closed_handoff h = None"
    "\<exists>d identity payload. run_basis_digest b = Inr d \<and> h = handoff_of_basis b d identity a epoch payload"
    by (auto simp: handoff_of_basis_def)
  show "1 \<le> epoch" using h(2,3)
    by (auto simp: check_closed_handoff_def Let_def result_simps handoff_of_basis_def)
qed

end
