(* ===== verification/Run_Finalization_Handler.thy ===== *)
theory Run_Finalization_Handler
  imports Run_Closed_Handoff
begin

text \<open>
  Closing a Run (\<open>src/qarunner/application/run_finalization.py\<close>) over its port
  (\<open>application/ports/run_finalization.py\<close>): the command, the values of the port with their contracts,
  and the handler that replays a stored terminal fact or publishes a new one. The gateway is a
  parameter.
\<close>

section \<open>The values of the port\<close>

definition run_finalization_schema :: string where
  "run_finalization_schema = ''qep.run-finalization-basis.v1''"

type_synonym finalization_scope = "string \<times> string \<times> int"

record finalize_run_authority =
  fa_run_id :: string
  fa_batch_id :: string
  fa_source_run_version :: int
  fa_authority_digest :: digest
  fa_write_epoch :: int

definition check_finalize_run_authority :: "finalize_run_authority \<Rightarrow> app_error option" where
  "check_finalize_run_authority a =
     (let e = ''finalize_run_authority'' in first_some
     [port_string e ''run_id'' (fa_run_id a), port_string e ''batch_id'' (fa_batch_id a),
      port_nonnegative e ''source_run_version'' (fa_source_run_version a),
      port_positive e ''write_epoch'' (fa_write_epoch a)])"

definition run_identity_scope :: "finalize_run_authority \<Rightarrow> finalization_scope" where
  "run_identity_scope a = (run_finalization_schema, fa_run_id a, fa_source_run_version a)"

record finalization_projection =
  fj_run_id :: string
  fj_source_run_version :: int
  fj_state :: finalization_state

definition check_finalization_projection :: "finalization_projection \<Rightarrow> app_error option" where
  "check_finalization_projection p =
     (let e = ''run_finalization_projection''; st = fj_state p in first_some
     [port_string e ''run_id'' (fj_run_id p),
      port_nonnegative e ''source_run_version'' (fj_source_run_version p),
      reject_if (fs_phase st \<noteq> PhaseClosed \<or> fs_disposition st \<noteq> Some ClosedNoRetry \<or> fs_outcome st = None \<or>
          fs_finalization_basis_digest st = None) (PortContractError e ''state'' ''not_closed'')])"

record finalization_mutation_snapshot =
  fm_run_id :: string
  fm_run_version :: int
  fm_attempt_id :: "string option"
  fm_attempt_version :: "int option"

definition check_finalization_mutation_snapshot :: "finalization_mutation_snapshot \<Rightarrow> app_error option" where
  "check_finalization_mutation_snapshot m =
     (let e = ''run_finalization_mutation_snapshot'' in first_some (
     [port_string e ''run_id'' (fm_run_id m), port_nonnegative e ''run_version'' (fm_run_version m),
      reject_if ((fm_attempt_id m = None) \<noteq> (fm_attempt_version m = None))
        (PortContractError e ''attempt'' ''identity_all_or_none'')] @
     (case (fm_attempt_id m, fm_attempt_version m) of
        (Some i, Some v) \<Rightarrow> [port_string e ''attempt_id'' i, port_nonnegative e ''attempt_version'' v]
      | _ \<Rightarrow> [])))"

record finalization_side_effect =
  fe_run_id :: string
  fe_basis_digest :: digest
  fe_outcome :: run_outcome

definition check_finalization_side_effect :: "finalization_side_effect \<Rightarrow> app_error option" where
  "check_finalization_side_effect x = port_string ''run_finalization_side_effect'' ''run_id'' (fe_run_id x)"

record run_finalization_publication =
  fq_authority :: finalize_run_authority
  fq_expected_snapshot :: finalization_mutation_snapshot
  fq_basis :: run_basis
  fq_resolution_set :: run_resolution_set
  fq_projection :: finalization_projection
  fq_side_effect :: finalization_side_effect
  fq_handoff :: closed_handoff

text \<open>The binding of a publication, compared from left to right.\<close>

definition publication_mismatch :: "run_finalization_publication \<Rightarrow> bool answer" where
  "publication_mismatch q =
     (let a = fq_authority q; m = fq_expected_snapshot q; b = fq_basis q; s = fq_resolution_set q;
          p = fq_projection q; x = fq_side_effect q in any_of
     [Inr (fa_run_id a \<noteq> fj_run_id p), Inr (fa_source_run_version a \<noteq> fj_source_run_version p),
      Inr (fm_run_id m \<noteq> fj_run_id p), Inr (fm_run_version m \<noteq> fa_source_run_version a),
      Inr (fm_attempt_id m \<noteq> fb_final_attempt_id b), Inr (fm_attempt_version m \<noteq> fb_final_attempt_version b),
      Inr (fb_run_id b \<noteq> fj_run_id p), Inr (fb_batch_id b \<noteq> fa_batch_id a),
      Inr (fb_source_run_version b \<noteq> fa_source_run_version a),
      map_result (\<lambda>d. Some d \<noteq> fs_finalization_basis_digest (fj_state p)) (of_domain (run_basis_digest b)),
      Inr (rs_run_id s \<noteq> fj_run_id p), Inr (rs_source_run_version s \<noteq> fa_source_run_version a),
      map_result (\<lambda>d. d \<noteq> fb_item_resolution_set_digest b) (of_domain (resolution_set_digest s)),
      Inr (fe_run_id x \<noteq> fj_run_id p),
      map_result (\<lambda>d. fe_basis_digest x \<noteq> d) (of_domain (run_basis_digest b)),
      Inr (Some (fe_outcome x) \<noteq> fs_outcome (fj_state p)),
      map_result (\<lambda>h. fq_handoff q \<noteq> h)
        (build_run_closed_handoff b s (fa_authority_digest a) (fa_write_epoch a))])"

definition check_run_publication :: "run_finalization_publication \<Rightarrow> app_error option" where
  "check_run_publication q =
     reject_if_result (publication_mismatch q)
       (PortContractError ''run_finalization_publication'' ''binding'' ''mismatch'')"

record 's run_finalization_gateway =
  rg_authority :: "string \<Rightarrow> 's \<Rightarrow> finalize_run_authority answer"
  rg_lookup :: "finalization_scope \<Rightarrow> 's \<Rightarrow> finalization_projection option answer"
  rg_snapshot :: "string \<Rightarrow> 's \<Rightarrow> finalization_mutation_snapshot answer"
  rg_publish :: "run_finalization_publication \<Rightarrow> (finalization_projection replay_result, 's) action"

section \<open>The command\<close>

record finalize_run_command =
  fc_candidate_basis :: run_basis
  fc_resolution_set :: run_resolution_set
  fc_expected_run_version :: int
  fc_expected_attempt_version :: "int option"

definition command_set_mismatch :: "run_basis \<Rightarrow> run_resolution_set \<Rightarrow> bool result" where
  "command_set_mismatch b s = any_of
     [Inr (fb_run_id b \<noteq> rs_run_id s), Inr (fb_batch_id b \<noteq> rs_batch_id s),
      Inr (fb_source_run_version b \<noteq> rs_source_run_version s),
      map_result (\<lambda>d. fb_item_resolution_set_digest b \<noteq> d) (resolution_set_digest s),
      map_result (\<lambda>d. fb_original_resolution_set_digest b \<noteq> d) (original_resolution_set_digest s),
      map_result (\<lambda>d. fb_effective_resolution_set_digest b \<noteq> d) (effective_resolution_set_digest s),
      Inr (fb_outcome b \<noteq> audit_outcome s)]"

definition check_finalize_run_command :: "finalize_run_command \<Rightarrow> domain_error option" where
  "check_finalize_run_command c =
     (let invalid = DomainValidationError ''finalize_run_command'' in first_some
     [reject_if (fc_expected_run_version c < 0) (invalid ''expected_run_version'' ''invalid''),
      reject_if (\<exists>v \<in> set_option (fc_expected_attempt_version c). v < 0) (invalid ''expected_attempt_version'' ''invalid''),
      reject_if_result (command_set_mismatch (fc_candidate_basis c) (fc_resolution_set c))
        (invalid ''resolution_set'' ''basis_mismatch''),
      reject_if ((fb_final_attempt_id (fc_candidate_basis c) = None) \<noteq> (fc_expected_attempt_version c = None))
        (invalid ''expected_attempt_version'' ''attempt_mismatch'')])"

section \<open>The handler\<close>

record finalize_run_result =
  frr_projection :: finalization_projection
  frr_replayed :: bool

definition closed_state :: "run_basis \<Rightarrow> digest \<Rightarrow> finalization_state" where
  "closed_state b basis_digest =
     \<lparr>fs_phase = PhaseClosed, fs_disposition = Some ClosedNoRetry, fs_outcome = Some (fb_outcome b),
      fs_finalization_basis_digest = Some basis_digest, fs_latest_attempt_fact = fb_final_attempt_state b,
      fs_current_assignment_id = None, fs_pending_retry_intent_id = None\<rparr>"

definition closed_projection :: "run_basis \<Rightarrow> digest \<Rightarrow> finalization_projection" where
  "closed_projection b basis_digest =
     \<lparr>fj_run_id = fb_run_id b, fj_source_run_version = fb_source_run_version b, fj_state = closed_state b basis_digest\<rparr>"

text \<open>The arguments of the publication, each validated by its constructor in the order of the call.\<close>

definition run_publication ::
  "finalize_run_command \<Rightarrow> finalize_run_authority \<Rightarrow> finalization_mutation_snapshot \<Rightarrow> digest \<Rightarrow>
   run_finalization_publication answer" where
  "run_publication c a m basis_digest =
     (let b = fc_candidate_basis c; p = closed_projection b basis_digest;
          x = \<lparr>fe_run_id = fb_run_id b, fe_basis_digest = basis_digest, fe_outcome = fb_outcome b\<rparr> in
     bind_result (of_domain (raise_or (check_finalization_state (fj_state p)) ())) (\<lambda>_.
     bind_result (raise_or (check_finalization_projection p) ()) (\<lambda>_.
     bind_result (raise_or (check_finalization_side_effect x) ()) (\<lambda>_.
     bind_result (build_run_closed_handoff b (fc_resolution_set c) (fa_authority_digest a) (fa_write_epoch a)) (\<lambda>h.
     let q = \<lparr>fq_authority = a, fq_expected_snapshot = m, fq_basis = b, fq_resolution_set = fc_resolution_set c,
       fq_projection = p, fq_side_effect = x, fq_handoff = h\<rparr>
     in raise_or (check_run_publication q) q)))))"

text \<open>\<open>a or b\<close> on an optional string and an optional number.\<close>

definition or_prestart :: "string option \<Rightarrow> string" where
  "or_prestart v = (case v of Some (c # cs) \<Rightarrow> c # cs | _ \<Rightarrow> ''prestart'')"

definition or_zero :: "int option \<Rightarrow> int" where
  "or_zero v = (case v of Some n \<Rightarrow> n | None \<Rightarrow> 0)"

definition stored_run_finalization ::
  "run_basis \<Rightarrow> digest \<Rightarrow> finalization_projection \<Rightarrow> finalize_run_result answer" where
  "stored_run_finalization b basis_digest stored =
     (if fs_finalization_basis_digest (fj_state stored) \<noteq> Some basis_digest
      then Inl (DomainFailure (IdempotencyConflict (''run:'' @ fb_run_id b @ '':finalization'')
        (show_int (fb_source_run_version b)) (the (fs_finalization_basis_digest (fj_state stored))) basis_digest))
      else Inr \<lparr>frr_projection = stored, frr_replayed = True\<rparr>)"

text \<open>A stored miss: lock, compare the versions, publish.\<close>

definition publish_run_finalization ::
  "'s run_finalization_gateway \<Rightarrow> finalize_run_command \<Rightarrow> finalize_run_authority \<Rightarrow> (finalize_run_result, 's) action" where
  "publish_run_finalization g c a =
     (let b = fc_candidate_basis c in
      and_then (ask (rg_snapshot g (fb_run_id b))) (\<lambda>m.
      raise_when (fm_attempt_version m \<noteq> fc_expected_attempt_version c)
        (DomainFailure (VersionConflict ''attempt'' (or_prestart (fm_attempt_id m))
          (or_zero (fm_attempt_version m)) (or_zero (fc_expected_attempt_version c))))
     (raise_when (fm_run_version m \<noteq> fc_expected_run_version c)
        (DomainFailure (VersionConflict ''run'' (fb_run_id b) (fm_run_version m) (fc_expected_run_version c)))
     (and_then (compute (of_domain (run_basis_digest b))) (\<lambda>basis_digest.
      and_then (compute (run_publication c a m basis_digest)) (\<lambda>q.
      and_then (rg_publish g q) (\<lambda>r.
      give \<lparr>frr_projection = rr_value r, frr_replayed = rr_replayed r\<rparr>)))))))"

definition finalize_run ::
  "'s run_finalization_gateway \<Rightarrow> finalize_run_command \<Rightarrow> (finalize_run_result, 's) action" where
  "finalize_run g c =
     (let b = fc_candidate_basis c in
      and_then (ask (rg_authority g (fb_run_id b))) (\<lambda>a.
      raise_when ((fa_batch_id a, fa_source_run_version a) \<noteq> (fb_batch_id b, fb_source_run_version b))
        (DomainFailure (VersionConflict ''run'' (fb_run_id b) (fa_source_run_version a) (fb_source_run_version b)))
     (and_then (ask (rg_lookup g (run_identity_scope a))) (\<lambda>stored.
      case stored of
        Some p \<Rightarrow> and_then (compute (of_domain (run_basis_digest b))) (\<lambda>basis_digest.
          compute (stored_run_finalization b basis_digest p))
      | None \<Rightarrow> publish_run_finalization g c a))))"

text \<open>The handler writes only where nothing is stored.\<close>

definition run_unstored :: "'s run_finalization_gateway \<Rightarrow> finalize_run_command \<Rightarrow> 's \<Rightarrow> bool" where
  "run_unstored g c s \<longleftrightarrow> (\<exists>a. rg_authority g (fb_run_id (fc_candidate_basis c)) s = Inr a \<and> rg_lookup g (run_identity_scope a) s = Inr None)"

interpretation run_closing: fresh_writer "finalize_run g" "run_unstored g" for g
  by unfold_locales
    (auto simp: finalize_run_def run_unstored_def  and_then_def raise_when_def run_simps Let_def split: sum.splits option.splits)

section \<open>What a return of the handler has done\<close>

lemma handoff_binding_command: "handoff_binding_mismatch b s = Inr False \<Longrightarrow> command_set_mismatch b s = Inr False"
  unfolding handoff_binding_iff by (simp add: command_set_mismatch_def)

lemma finalize_run_Inr:
  assumes "finalize_run g c s = (Inr r, t)"
  obtains (replayed) a d p where "rg_authority g (fb_run_id (fc_candidate_basis c)) s = Inr a"
      "rg_lookup g (run_identity_scope a) s = Inr (Some p)" "run_basis_digest (fc_candidate_basis c) = Inr d"
      "fs_finalization_basis_digest (fj_state p) = Some d" "r = \<lparr>frr_projection = p, frr_replayed = True\<rparr>" "t = s"
  | (published) a d m q u where "rg_authority g (fb_run_id (fc_candidate_basis c)) s = Inr a"
      "fa_batch_id a = fb_batch_id (fc_candidate_basis c)"
      "fa_source_run_version a = fb_source_run_version (fc_candidate_basis c)"
      "rg_lookup g (run_identity_scope a) s = Inr None" "run_basis_digest (fc_candidate_basis c) = Inr d"
      "rg_snapshot g (fb_run_id (fc_candidate_basis c)) s = Inr m"
      "fm_run_version m = fc_expected_run_version c" "fm_attempt_version m = fc_expected_attempt_version c"
      "run_publication c a m d = Inr q" "rg_publish g q s = (Inr u, t)"
      "r = \<lparr>frr_projection = rr_value u, frr_replayed = rr_replayed u\<rparr>"
proof -
  obtain a stored where a: "rg_authority g (fb_run_id (fc_candidate_basis c)) s = Inr a"
    "fa_batch_id a = fb_batch_id (fc_candidate_basis c)"
    "fa_source_run_version a = fb_source_run_version (fc_candidate_basis c)"
    "rg_lookup g (run_identity_scope a) s = Inr stored"
    using assms unfolding finalize_run_def Let_def by (auto simp: action_simps)
  show thesis
  proof (cases stored)
    case (Some p)
    then show thesis using assms a that(1) [of a p] unfolding finalize_run_def Let_def
      by (auto simp: action_simps result_simps stored_run_finalization_def)
  next
    case None
    then have "publish_run_finalization g c a s = (Inr r, t)"
      using assms a unfolding finalize_run_def Let_def by (auto simp: action_simps)
    then show thesis using None a that(2) [of a] unfolding publish_run_finalization_def Let_def
      by (auto simp: action_simps result_simps)
  qed
qed

lemma run_publication_Inr:
  assumes "run_publication c a m d = Inr q"
  shows "publication_mismatch q = Inr False" "fq_projection q = closed_projection (fc_candidate_basis c) d"
    "fq_basis q = fc_candidate_basis c" "fq_resolution_set q = fc_resolution_set c" "fq_authority q = a"
    "fq_expected_snapshot q = m"
    "build_run_closed_handoff (fc_candidate_basis c) (fc_resolution_set c) (fa_authority_digest a) (fa_write_epoch a) =
       Inr (fq_handoff q)"
  using assms by (auto simp: run_publication_def Let_def check_run_publication_def result_simps)

end
