(* ===== verification/Application_Properties.thy ===== *)
theory Application_Properties
  imports Batch_Preexecution Migration_Gates Run_Finalization_Handler Batch_Properties
    Finalization_Samples
begin

text \<open>
  Properties of the application handlers over their gateways, with sample gateways that keep their
  facts in memory.
\<close>

section \<open>Convergence of a Batch before execution\<close>

definition no_children :: "execution_children \<Rightarrow> bool" where
  "no_children x \<longleftrightarrow> xc_run_ids x = [] \<and> xc_assignment_ids x = [] \<and> xc_start_commit_ids x = [] \<and>
     xc_attempt_ids x = [] \<and> xc_fences x = [] \<and> xc_retry_intent_ids x = []"

text \<open>
  C14: A cancelled Batch is closed only when nothing of it was executed. When the reconciler returns a
  Batch, either this is a stored closure and nothing was written, or the scan found no Run, assignment,
  start commit, Attempt, fence or retry intent, every task of the sealed inventory was stopped by a
  trusted stop, and exactly the cancelled Batch of the next version was published. When it returns a
  handoff, Runs exist and exactly a handoff bound to their set was published.
\<close>

theorem closure_only_without_runs:
  assumes "reconcile_preexecution_cancellation g pg c s = (Inr out, t)"
  shows "\<exists>b. bg_batch g (rk_batch_id c) s = Inr b \<and> bt_cancellation_intent b \<noteq> None \<and>
    (case out of
       ReconciledBatch b' \<Rightarrow>
         b' = b \<and> bt_basis b \<noteq> None \<and> t = s \<or>
         (\<exists>children i stops. pg_scan_children pg (rk_batch_id c) s = Inr children \<and> no_children children \<and>
            pg_sealed_inventory pg (rk_batch_id c) s = Inr (Some i) \<and> pg_task_stops pg (rk_batch_id c) s = Inr stops \<and>
            map tg_key (ti_tasks i) = map ts_key stops \<and>
            (\<forall>x \<in> set stops. pg_trusted_stop_issuer pg (ts_issuer_id x) s = Inr True)) \<and>
         bt_basis b = None \<and> bt_state b' = BatchCancelled \<and> bt_version b' = bt_version b + 1 \<and>
         bg_publish_closure g b' s = (Inr (), t)
     | HandedOff h \<Rightarrow>
         (\<exists>children k p. pg_scan_children pg (rk_batch_id c) s = Inr children \<and> xc_run_ids children \<noteq> [] \<and>
            canonical_materialized_run_set_digest (rk_batch_id c) (xc_run_ids children) =
              Inr (sh_authoritative_run_set_digest k) \<and>
            bg_publish_handoff g k s = (Inr p, t) \<and> h = rr_value p))"
  using assms
proof (cases rule: reconcile_Inr)
  case (closed a b intent d snapshot b')
  have "\<exists>children. pg_scan_children pg (rk_batch_id c) s = Inr children \<and> \<not> orphan_authority children \<and>
      xc_run_ids children = [] \<and> proved_absence pg (closure_proof_command (rk_batch_id c) a TerminalPrestartCancel d) s snapshot"
    using prove_closure_Inr [OF closed(6)] by (simp add: closure_proof_command_def)
  then show ?thesis
    using closed batch_close_fresh [OF closed(7,3,4)]
    by (auto simp: orphan_authority_def no_children_def proved_absence_def stopped_inventory_def closure_proof_command_def)
next
  case (handed a b intent d batch_id run_ids run_set h p)
  have "\<exists>children. pg_scan_children pg (rk_batch_id c) s = Inr children \<and> xc_run_ids children \<noteq> [] \<and>
      batch_id = rk_batch_id c \<and> run_ids = sort (xc_run_ids children) \<and>
      canonical_materialized_run_set_digest batch_id run_ids = Inr run_set"
    using prove_closure_Inr [OF handed(6)] by (auto simp: closure_proof_command_def)
  moreover have "sh_authoritative_run_set_digest h = run_set"
    using handed(7) by (auto simp: build_cancel_handoff_def build_handoff_def result_simps)
  ultimately show ?thesis
    using handed by (auto simp: canonical_materialized_run_set_digest_def sorted_sort_id) blast
qed auto

text \<open>A gateway whose store is the Batch itself, and a proof gateway with an empty task inventory.\<close>

definition batch_store :: "batch_closure_authority \<Rightarrow> batch batch_gateway" where
  "batch_store a =
     \<lparr>bg_cancel_authority = (\<lambda>_ _. Inl AuthorityPermissionDenied), bg_batch = (\<lambda>_ b. Inr b),
      bg_publish_cancellation = (\<lambda>b _ _. (Inr (), b)), bg_closure_authority = (\<lambda>_ _ _ _. Inr a),
      bg_rejection_authority = (\<lambda>_ _ _ _. Inl AuthorityPermissionDenied),
      bg_publish_handoff = (\<lambda>h b. (Inr \<lparr>rr_value = h, rr_replayed = False\<rparr>, b)),
      bg_publish_closure = (\<lambda>b _. (Inr (), b)), bg_publish_rejection = (\<lambda>b _ _. (Inr (), b))\<rparr>"

definition run_set_digest_of :: "string list \<Rightarrow> digest" where
  "run_set_digest_of run_ids = digest_of ''qep.authoritative-materialized-run-set.v1''
     (JObj [(''batch_id'', JStr ''b''), (''run_ids'', JList (map JStr run_ids))])"

definition frozen_snapshot :: "digest \<Rightarrow> preexecution_snapshot" where
  "frozen_snapshot d =
     \<lparr>pss_batch_id = ''b'', pss_source_batch_version = 2, pss_scope_kind = ScopePlannedUnmaterialized,
      pss_submission_digest = Digest ''sub'', pss_preplan_scope_digest = None,
      pss_manifest_digest = Some (Digest ''m''), pss_shard_plan_version = Some 1,
      pss_shard_plan_digest = Some (Digest ''sp''), pss_canonical_run_set_digest = Some (run_set_digest_of []),
      pss_run_absence_digest = Digest ''none'', pss_execution_absence_digest = Digest ''none'',
      pss_task_stop_fact_digests = [],
      pss_scope_items = [\<lparr>psi_batch_id = ''b'', psi_source_batch_version = 2, psi_terminal_kind = TerminalPrestartCancel,
        psi_rejection_fact_digest = None, psi_cancellation_intent_digest = Some d, psi_manifest_id = ''m'',
        psi_manifest_digest = Digest ''m'', psi_manifest_item_key = ''i'', psi_shard_plan_id = ''sp'',
        psi_shard_plan_version = 1, psi_shard_plan_digest = Digest ''sp'', psi_run_absence_digest = Digest ''none'',
        psi_resolution = ''not_started''\<rparr>],
      pss_item_coverage_proof_digest = Some (Digest ''cov'')\<rparr>"

definition sample_inventory :: sealed_task_inventory where
  "sample_inventory =
     \<lparr>ti_batch_id = ''b'', ti_project_id = ''p'', ti_suite_revision_id = ''r'', ti_ledger_version = 1,
      ti_high_watermark = 0, ti_task_count = 0,
      ti_task_set_digest = digest_of ''qep.preexecution-task-set.v1'' (JObj [(''tasks'', JList [])]),
      ti_issuer_id = ''c'', ti_sealed_at = utc 7, ti_tasks = []\<rparr>"

definition sample_planned :: planned_scope_inventory where
  "sample_planned =
     \<lparr>pi_batch_id = ''b'', pi_project_id = ''p'', pi_suite_revision_id = ''r'', pi_manifest_id = ''m'',
      pi_manifest_digest = Digest ''m'', pi_shard_plan_id = ''sp'', pi_shard_plan_version = 1,
      pi_shard_plan_digest = Digest ''sp'', pi_item_count = 1, pi_manifest_item_keys = [''i''],
      pi_issuer_id = ''c'', pi_sealed_at = utc 7\<rparr>"

definition proof_store :: "string list \<Rightarrow> batch proof_gateway" where
  "proof_store run_ids =
     \<lparr>pg_scan_children = (\<lambda>_ _. Inr \<lparr>xc_run_ids = run_ids, xc_assignment_ids = [], xc_start_commit_ids = [],
        xc_attempt_ids = [], xc_fences = [], xc_retry_intent_ids = []\<rparr>),
      pg_sealed_inventory = (\<lambda>_ _. Inr (Some sample_inventory)),
      pg_ledger_position = (\<lambda>_ _. Inr \<lparr>lp_ledger_version = 1, lp_high_watermark = 0\<rparr>),
      pg_task_stops = (\<lambda>_ _. Inr []), pg_trusted_inventory_issuer = (\<lambda>_ _. Inr True),
      pg_trusted_stop_issuer = (\<lambda>_ _. Inr True), pg_planned_inventory = (\<lambda>_ _. Inr (Some sample_planned)),
      pg_trusted_planned_issuer = (\<lambda>_ _. Inr True), pg_quarantine = (\<lambda>_ b. (Inr (), b)),
      pg_assemble = (\<lambda>i _. Inr (if map_option bcs_kind (zi_scope i) = Some CancelFrozenPlan
        then frozen_snapshot (the (zi_command_digest i)) else preplan_snapshot 2))\<rparr>"

definition frozen_scope :: batch_cancellation_scope where
  "frozen_scope =
     \<lparr>bcs_kind = CancelFrozenPlan, bcs_preplan_scope_digest = None, bcs_manifest_digest = Some (Digest ''m''),
      bcs_shard_plan_version = Some 1, bcs_shard_plan_digest = Some (Digest ''sp''),
      bcs_canonical_run_set_digest = Some (run_set_digest_of [])\<rparr>"

definition admitted_batch :: batch where
  "admitted_batch = cancelling_batch\<lparr>bt_state := BatchAwaitingAdmission,
     bt_cancellation_intent := Some (sample_intent\<lparr>bci_scope := frozen_scope\<rparr>)\<rparr>"

definition closure_authority :: "batch_cancellation_scope \<Rightarrow> batch_closure_authority" where
  "closure_authority scope =
     \<lparr>ka_batch_id = ''b'', ka_project_id = ''p'', ka_suite_revision_id = ''r'', ka_source_batch_version = 2,
      ka_authority_digest = Digest ''auth'', ka_scope = scope,
      ka_projection = \<lparr>ap_source = ''s'', ap_projection_version = 1, ap_revocation_watermark = 0, ap_expires_at = utc 99\<rparr>,
      ka_write_epoch = 1\<rparr>"

definition reconcile_command :: reconcile_cancellation_command where
  "reconcile_command = \<lparr>rk_batch_id = ''b'', rk_reconciler_id = ''rec'', rk_closure_epoch = 1\<rparr>"

lemmas closure_sample_defs = batch_store_def proof_store_def run_set_digest_of_def frozen_snapshot_def
  sample_inventory_def sample_planned_def frozen_scope_def admitted_batch_def closure_authority_def
  reconcile_command_def cancelling_batch_def batch_sample_defs

lemma frozen_intent_digest:
  "\<exists>d. batch_cancellation_intent_digest (sample_intent\<lparr>bci_scope := frozen_scope\<rparr>) = Inr d"
  by (simp add: batch_cancellation_intent_digest_def batch_cancellation_request_digest_def closure_sample_defs
      result_simps safe_int_def)

lemma frozen_proof:
  "prove_preexecution_closure (proof_store [])
     (closure_proof_command ''b'' (closure_authority frozen_scope) TerminalPrestartCancel d) b =
   (Inr (ZeroChildren (frozen_snapshot d)), b)"
  by (simp add: prove_preexecution_closure_def prove_zero_children_def closure_proof_command_def
      proof_store_def closure_authority_def frozen_scope_def sample_inventory_def sample_planned_def
      read_planned_def planned_mismatch_def inventory_mismatch_def inventory_task_keys_def zero_inputs_def
      canonical_task_set_digest_def canonical_materialized_run_set_digest_def canonical_digest_safe run_set_digest_of_def
      orphan_authority_def fail_if_def raise_when_def and_then_def run_simps Let_def)

lemma frozen_close:
  assumes "batch_cancellation_intent_digest (sample_intent\<lparr>bci_scope := frozen_scope\<rparr>) = Inr d"
  shows "\<exists>b'. batch_finalize_unmaterialized_cancel (frozen_snapshot d) 2 admitted_batch = Inr b'"
proof -
  obtain e where "preexecution_scope_item_digest (hd (pss_scope_items (frozen_snapshot d))) = Inr e"
    by (simp add: preexecution_scope_item_digest_def frozen_snapshot_def result_simps safe_int_def)
  then show ?thesis using assms
    by (simp add: batch_finalize_unmaterialized_cancel_def batch_cancel_close_def cancellation_basis_def
        snapshot_command_binding_def build_preexecution_basis_def check_preexecution_basis_def
        cancel_snapshot_matches_def ensure_expected_version_def mk_batch_def check_batch_def create_identity_checks_def
        batch_present_def optional_check_def cancellation_basis_checks_def cancel_basis_matches_def
        batch_terminal_states_def batch_prestart_cancel_states_def batch_frozen_plan_cancel_states_def
        terminal_digest_checks_def frozen_snapshot_def frozen_scope_def admitted_batch_def cancelling_batch_def
        batch_sample_defs result_simps blank_eval Let_def require_absent_def require_present_def)
qed

lemma frozen_closed:
  obtains b' where "reconcile_preexecution_cancellation (batch_store (closure_authority frozen_scope)) (proof_store [])
    reconcile_command admitted_batch = (Inr (ReconciledBatch b'), b')"
proof -
  obtain d where d: "batch_cancellation_intent_digest (sample_intent\<lparr>bci_scope := frozen_scope\<rparr>) = Inr d"
    using frozen_intent_digest by blast
  obtain b' where "batch_finalize_unmaterialized_cancel (frozen_snapshot d) 2 admitted_batch = Inr b'"
    using frozen_close [OF d] by blast
  then have "reconcile_preexecution_cancellation (batch_store (closure_authority frozen_scope)) (proof_store [])
      reconcile_command admitted_batch = (Inr (ReconciledBatch b'), b')"
    using d frozen_proof [of d]
    by (simp add: reconcile_preexecution_cancellation_def close_or_hand_off_def batch_store_def reconcile_command_def
        admitted_batch_def cancelling_batch_def batch_sample_defs closure_authority_def map_error_def and_then_def run_simps)
  then show thesis by (rule that)
qed

theorem closure_only_without_runs_witness:
  "\<exists>b'. reconcile_preexecution_cancellation (batch_store (closure_authority frozen_scope)) (proof_store [])
     reconcile_command admitted_batch = (Inr (ReconciledBatch b'), b') \<and> bt_state b' = BatchCancelled \<and> bt_version b' = 3"
proof -
  obtain b' where b: "reconcile_preexecution_cancellation (batch_store (closure_authority frozen_scope)) (proof_store [])
    reconcile_command admitted_batch = (Inr (ReconciledBatch b'), b')" by (rule frozen_closed)
  have "bt_basis admitted_batch = None" "bt_version admitted_batch = 2"
    by (simp_all add: admitted_batch_def cancelling_batch_def batch_sample_defs)
  then show ?thesis using b closure_only_without_runs [OF b] by (auto simp: batch_store_def)
qed

text \<open>
  C15: Which closures can be replayed depends on the kind of scope. After the reconciler closed a Batch
  and the gateway returns what was published and the same authority, running the same command again
  returns the closed Batch if the scope was the one before planning, and always raises the state
  conflict closure_authority_binding_superseded if it was a frozen plan, because the string values of
  the two kinds of scope differ.
\<close>

theorem closure_replay_depends_on_scope:
  assumes "reconcile_preexecution_cancellation g pg c s = (Inr (ReconciledBatch b'), t)"
    "bg_batch g (rk_batch_id c) s = Inr b" "bt_basis b = None" "bt_cancellation_intent b = Some intent"
    "bg_closure_authority g (rk_batch_id c) (rk_reconciler_id c) (rk_closure_epoch c) s = Inr a"
    "ka_batch_id a = bt_id b" "ka_scope a = bci_scope intent" "check_batch_cancellation_scope (bci_scope intent) = None"
    "bg_closure_authority g (rk_batch_id c) (rk_reconciler_id c) (rk_closure_epoch c) t = Inr a"
    "bg_batch g (rk_batch_id c) t = Inr b'"
  shows "reconcile_preexecution_cancellation g pg c t =
    (if bcs_kind (bci_scope intent) = CancelPrePlan then (Inr (ReconciledBatch b'), t)
     else (Inl (PreexecutionStateConflict ''closure_authority_binding_superseded''), t))"
  using assms(1)
proof (cases rule: reconcile_Inr)
  case (closed a1 b1 intent1 d snapshot b2)
  then have same: "a1 = a" "b1 = b" "intent1 = intent" "b2 = b'" using assms by simp_all
  obtain k where "bt_basis b' = Some k" "bt_cancellation_intent b' = Some intent"
    "closure_superseded a intent k = Inr (bcs_kind (bci_scope intent) \<noteq> CancelPrePlan)"
    using closed_batch_replay [of snapshot "ka_source_batch_version a" b b' intent d a] closed same assms by blast
  then show ?thesis using assms(9,10)
    by (simp add: reconcile_preexecution_cancellation_def map_error_def and_then_def run_simps raise_when_run)
qed (use assms in auto)

theorem closure_replay_depends_on_scope_witness:
  "\<exists>b'. reconcile_preexecution_cancellation (batch_store (closure_authority frozen_scope)) (proof_store [])
     reconcile_command admitted_batch = (Inr (ReconciledBatch b'), b') \<and>
   reconcile_preexecution_cancellation (batch_store (closure_authority frozen_scope)) (proof_store [])
     reconcile_command b' = (Inl (PreexecutionStateConflict ''closure_authority_binding_superseded''), b')"
proof -
  obtain b' where b: "reconcile_preexecution_cancellation (batch_store (closure_authority frozen_scope)) (proof_store [])
    reconcile_command admitted_batch = (Inr (ReconciledBatch b'), b')" by (rule frozen_closed)
  have "bt_basis admitted_batch = None" "bt_id admitted_batch = ''b''"
    "bt_cancellation_intent admitted_batch = Some (sample_intent\<lparr>bci_scope := frozen_scope\<rparr>)"
    by (simp_all add: admitted_batch_def cancelling_batch_def batch_sample_defs)
  moreover have "check_batch_cancellation_scope frozen_scope = None"
    by (simp add: check_batch_cancellation_scope_def frozen_scope_def Let_def require_absent_def require_present_def
        require_optional_version_def result_simps)
  ultimately show ?thesis using b closure_replay_depends_on_scope [OF b]
    by (simp add: batch_store_def closure_authority_def frozen_scope_def)
qed

section \<open>Closing a Run\<close>

text \<open>
  C16: A Run version is closed exactly once. After the handler published the terminal fact of a Run
  version, and the gateway returns what was published, every later command for the same version of the
  Run leaves the store as it is: it returns the published projection as a replay if its basis has the
  same digest, and otherwise raises an idempotency conflict. The published projection is the closed
  state with the outcome and the digest of the basis.
\<close>

theorem run_version_closed_once:
  assumes "finalize_run g c s = (Inr r, t)" "\<not> frr_replayed r"
    "\<forall>q u s t. rg_publish g q s = (Inr u, t) \<longrightarrow> rr_value u = fq_projection q"
    "rg_authority g (fb_run_id (fc_candidate_basis c)) t = rg_authority g (fb_run_id (fc_candidate_basis c)) s"
    "\<forall>a. rg_authority g (fb_run_id (fc_candidate_basis c)) s = Inr a \<longrightarrow>
       rg_lookup g (run_identity_scope a) t = Inr (Some (frr_projection r))"
    "fb_run_id (fc_candidate_basis c') = fb_run_id (fc_candidate_basis c)"
    "fb_batch_id (fc_candidate_basis c') = fb_batch_id (fc_candidate_basis c)"
    "fb_source_run_version (fc_candidate_basis c') = fb_source_run_version (fc_candidate_basis c)"
    "run_basis_digest (fc_candidate_basis c') = Inr d'"
  shows "\<exists>d. run_basis_digest (fc_candidate_basis c) = Inr d \<and>
    frr_projection r = closed_projection (fc_candidate_basis c) d \<and>
    finalize_run g c' t =
      (if d' = d then Inr \<lparr>frr_projection = frr_projection r, frr_replayed = True\<rparr>
       else Inl (DomainFailure (IdempotencyConflict (''run:'' @ fb_run_id (fc_candidate_basis c) @ '':finalization'')
         (show_int (fb_source_run_version (fc_candidate_basis c))) d d')), t)"
  using assms(1)
proof (cases rule: finalize_run_Inr)
  case (published a d m q u)
  have p: "frr_projection r = closed_projection (fc_candidate_basis c) d"
    using published assms(3) run_publication_Inr(2) [OF published(9)] by simp
  have "finalize_run g c' t = (stored_run_finalization (fc_candidate_basis c') d' (frr_projection r), t)"
    using assms(4-9) published
    by (simp add: finalize_run_def Let_def and_then_def run_simps raise_when_run)
  then show ?thesis using p published(5) assms(6,8)
    by (auto simp: stored_run_finalization_def closed_projection_def closed_state_def)
qed (use assms(2) in simp)

text \<open>A gateway that stores one projection, and the command that closes the sample Run.\<close>

definition run_store :: "finalization_projection option run_finalization_gateway" where
  "run_store =
     \<lparr>rg_authority = (\<lambda>_ _. Inr \<lparr>fa_run_id = ''r'', fa_batch_id = ''b'', fa_source_run_version = 3,
        fa_authority_digest = Digest ''auth'', fa_write_epoch = 1\<rparr>),
      rg_lookup = (\<lambda>_ st. Inr st),
      rg_snapshot = (\<lambda>_ _. Inr \<lparr>fm_run_id = ''r'', fm_run_version = 3, fm_attempt_id = Some ''a1'', fm_attempt_version = Some 4\<rparr>),
      rg_publish = (\<lambda>q _. (Inr \<lparr>rr_value = fq_projection q, rr_replayed = False\<rparr>, Some (fq_projection q)))\<rparr>"

definition close_sample_run :: finalize_run_command where
  "close_sample_run = \<lparr>fc_candidate_basis = sample_basis, fc_resolution_set = sample_set,
     fc_expected_run_version = 3, fc_expected_attempt_version = Some 4\<rparr>"

lemma sample_binding: "handoff_binding_mismatch sample_basis sample_set = Inr False"
  using sample_digests sample_set_valid(2)
  by (simp add: handoff_binding_mismatch_def) (simp add: sample_basis_def sample_set_def)

lemma publication_accepted:
  assumes "check_run_basis b = None" "handoff_binding_mismatch b rs = Inr False" "run_basis_digest b = Inr d"
    "fa_run_id a = fb_run_id b" "fa_batch_id a = fb_batch_id b" "fa_source_run_version a = fb_source_run_version b"
    "1 \<le> fa_write_epoch a" "safe_int (fa_write_epoch a)" "fm_run_id m = fb_run_id b"
    "fm_run_version m = fb_source_run_version b" "fm_attempt_id m = fb_final_attempt_id b"
    "fm_attempt_version m = fb_final_attempt_version b" "fc_candidate_basis c = b" "fc_resolution_set c = rs"
  shows "\<exists>q. run_publication c a m d = Inr q"
proof -
  obtain h where h: "build_run_closed_handoff b rs (fa_authority_digest a) (fa_write_epoch a) = Inr h"
    using built_handoff [OF assms(2,1,7,3,8)] by blast
  have basis: "\<not> blank (fb_run_id b)" "0 \<le> fb_source_run_version b"
    using assms(1) by (auto simp: check_run_basis_def Let_def rf_string_def rf_nonnegative_def result_simps)
  have set_ok: "rs_run_id rs = fb_run_id b" "rs_source_run_version rs = fb_source_run_version b"
    "resolution_set_digest rs = Inr (fb_item_resolution_set_digest b)"
    using assms(2) unfolding handoff_binding_iff by simp_all
  have "check_finalization_state (closed_state b d) = None"
    by (simp add: check_finalization_state_def closed_state_def validate_closed_def validate_review_def validate_retry_def result_simps)
  moreover have "check_finalization_projection (closed_projection b d) = None"
    using basis by (simp add: check_finalization_projection_def closed_projection_def closed_state_def result_simps Let_def)
  ultimately show ?thesis
    using basis h set_ok assms
    by (simp add: run_publication_def check_finalization_side_effect_def check_run_publication_def publication_mismatch_def
        result_simps Let_def closed_projection_def closed_state_def)
qed

lemma sample_run_published:
  obtains r where "finalize_run run_store close_sample_run None = (Inr r, Some (frr_projection r))" "\<not> frr_replayed r"
proof -
  let ?a = "\<lparr>fa_run_id = ''r'', fa_batch_id = ''b'', fa_source_run_version = 3,
    fa_authority_digest = Digest ''auth'', fa_write_epoch = 1\<rparr>"
  let ?m = "\<lparr>fm_run_id = ''r'', fm_run_version = 3, fm_attempt_id = Some ''a1'', fm_attempt_version = Some 4\<rparr>"
  obtain q where "run_publication close_sample_run ?a ?m sample_basis_digest = Inr q"
    using publication_accepted [OF sample_basis_built(2) sample_binding sample_basis_digest, of ?a ?m close_sample_run]
    by (auto simp: close_sample_run_def sample_basis_def safe_int_def)
  then have "finalize_run run_store close_sample_run None =
      (Inr \<lparr>frr_projection = fq_projection q, frr_replayed = False\<rparr>, Some (fq_projection q))"
    using sample_basis_digest
    by (simp add: finalize_run_def publish_run_finalization_def run_store_def Let_def and_then_def run_simps raise_when_run
        close_sample_run_def) (simp add: sample_basis_def)
  then show thesis using that [of "\<lparr>frr_projection = fq_projection q, frr_replayed = False\<rparr>"] by simp
qed

theorem run_version_closed_once_witness:
  "\<exists>r. finalize_run run_store close_sample_run None = (Inr r, Some (frr_projection r)) \<and>
    finalize_run run_store close_sample_run (Some (frr_projection r)) =
      (Inr \<lparr>frr_projection = frr_projection r, frr_replayed = True\<rparr>, Some (frr_projection r))"
proof -
  obtain r where r: "finalize_run run_store close_sample_run None = (Inr r, Some (frr_projection r))" "\<not> frr_replayed r"
    by (rule sample_run_published)
  have "run_basis_digest (fc_candidate_basis close_sample_run) = Inr sample_basis_digest"
    by (simp add: close_sample_run_def sample_basis_digest)
  then show ?thesis
    using r run_version_closed_once [OF r, of close_sample_run sample_basis_digest] by (auto simp: run_store_def)
qed

text \<open>
  C17: Closing a Run does not compare all that the Batch needs. A basis that binds its resolution set but
  names another manifest than the set passes the command, its publication and handoff are accepted, and
  afterwards no item of the Run can be resolved for the Batch: every derivation raises a mismatch.
\<close>

theorem closed_run_can_be_unresolvable:
  assumes "check_run_basis b = None" "handoff_binding_mismatch b rs = Inr False" "run_basis_digest b = Inr d"
    "fb_manifest_digest b \<noteq> rs_manifest_digest rs" "fa_run_id a = fb_run_id b" "fa_batch_id a = fb_batch_id b"
    "fa_source_run_version a = fb_source_run_version b" "1 \<le> fa_write_epoch a" "safe_int (fa_write_epoch a)"
    "fm_run_id m = fb_run_id b" "fm_run_version m = fb_source_run_version b" "fm_attempt_id m = fb_final_attempt_id b"
    "fm_attempt_version m = fb_final_attempt_version b" "(fb_final_attempt_id b = None) = (v = None)"
    "\<forall>n \<in> set_option v. 0 \<le> n" "0 \<le> n"
  shows "check_finalize_run_command \<lparr>fc_candidate_basis = b, fc_resolution_set = rs,
      fc_expected_run_version = n, fc_expected_attempt_version = v\<rparr> = None \<and>
    (\<exists>q. run_publication \<lparr>fc_candidate_basis = b, fc_resolution_set = rs,
      fc_expected_run_version = n, fc_expected_attempt_version = v\<rparr> a m d = Inr q) \<and>
    (\<forall>i. \<exists>e. batch_item_from_run b rs i = Inl e)"
proof (intro conjI)
  show "check_finalize_run_command \<lparr>fc_candidate_basis = b, fc_resolution_set = rs,
      fc_expected_run_version = n, fc_expected_attempt_version = v\<rparr> = None"
    using assms(14-16) handoff_binding_command [OF assms(2)]
    by (simp add: check_finalize_run_command_def Let_def first_some_Cons_None first_some_Nil_None reject_if_None not_less)
  show "\<exists>q. run_publication \<lparr>fc_candidate_basis = b, fc_resolution_set = rs,
      fc_expected_run_version = n, fc_expected_attempt_version = v\<rparr> a m d = Inr q"
    by (rule publication_accepted [OF assms(1-3,5-13)]) simp_all
  have "basis_set_mismatch b rs \<noteq> None"
    using assms(4) by (simp add: basis_set_mismatch_def Let_def)
  then show "\<forall>i. \<exists>e. batch_item_from_run b rs i = Inl e"
    by (auto simp: batch_item_from_run_def raise_or_def)
qed

theorem closed_run_can_be_unresolvable_witness:
  "\<exists>d a m. run_basis_digest (sample_basis\<lparr>fb_manifest_digest := Digest ''other''\<rparr>) = Inr d \<and>
    (\<exists>q. run_publication (close_sample_run\<lparr>fc_candidate_basis := sample_basis\<lparr>fb_manifest_digest := Digest ''other''\<rparr>\<rparr>)
      a m d = Inr q) \<and>
    (\<exists>e. batch_item_from_run (sample_basis\<lparr>fb_manifest_digest := Digest ''other''\<rparr>) sample_set sample_resolution = Inl e)"
proof -
  let ?b = "sample_basis\<lparr>fb_manifest_digest := Digest ''other''\<rparr>"
  let ?a = "\<lparr>fa_run_id = ''r'', fa_batch_id = ''b'', fa_source_run_version = 3,
    fa_authority_digest = Digest ''auth'', fa_write_epoch = 1\<rparr>"
  let ?m = "\<lparr>fm_run_id = ''r'', fm_run_version = 3, fm_attempt_id = Some ''a1'', fm_attempt_version = Some 4\<rparr>"
  obtain d where d: "run_basis_digest ?b = Inr d"
    by (simp add: run_basis_digest_def run_basis_members_def decision_ref_json_def sample_basis_def sample_rule_def
        result_simps digest_json_def safe_int_def)
  have "check_run_basis ?b = None" "handoff_binding_mismatch ?b sample_set = Inr False"
    using sample_basis_built(2) sample_binding
    by (simp_all add: check_run_basis_def validate_decisions_def validate_input_kind_def attempt_input_checks_def
        evidence_input_checks_def sample_basis_def Let_def handoff_binding_iff chain_retries_def sample_rule_def)
  from closed_run_can_be_unresolvable [OF this d, of ?a ?m "Some 4" 3]
  show ?thesis using d unfolding close_sample_run_def
    by (simp add: sample_basis_def sample_set_def safe_int_def) blast
qed

end
