(* ===== verification/Batch_Finalization_Handler.thy ===== *)
theory Batch_Finalization_Handler
  imports Batch_Basis Application_Basis
begin

text \<open>
  Publishing the terminal basis of a Batch (\<open>src/qarunner/application/batch_finalization.py\<close>) over its
  port (\<open>application/ports/batch_finalization.py\<close>).
\<close>

section \<open>The values of the port\<close>

definition batch_finalization_schema :: string where
  "batch_finalization_schema = ''qep.batch-finalization-basis.v1''"

record batch_source_snapshot =
  bz_batch_id :: string
  bz_source_batch_version :: int
  bz_manifest_id :: string
  bz_manifest_digest :: digest
  bz_item_count :: int
  bz_shard_plan_id :: string
  bz_shard_plan_version :: int
  bz_shard_plan_digest :: digest
  bz_canonical_run_set_digest :: digest
  bz_success_policy_id :: string
  bz_success_policy_version :: int
  bz_success_policy_digest :: digest
  bz_item_resolution_set_digest :: digest
  bz_completeness_proof_digest :: digest
  bz_cancellation_intent_digest :: "digest option"
  bz_terminal_run_refs :: "terminal_run_ref list"
  bz_non_run_refs :: "non_run_ref list"
  bz_unknown_fact_refs :: "unknown_fact_ref list"

definition check_batch_source_snapshot :: "batch_source_snapshot \<Rightarrow> app_error option" where
  "check_batch_source_snapshot z =
     (let e = ''batch_finalization_source_snapshot'' in first_some
     [port_string e ''batch_id'' (bz_batch_id z), port_string e ''manifest_id'' (bz_manifest_id z),
      port_string e ''shard_plan_id'' (bz_shard_plan_id z), port_string e ''success_policy_id'' (bz_success_policy_id z),
      port_nonnegative e ''source_batch_version'' (bz_source_batch_version z),
      port_nonnegative e ''shard_plan_version'' (bz_shard_plan_version z),
      port_positive e ''item_count'' (bz_item_count z),
      port_positive e ''success_policy_version'' (bz_success_policy_version z)])"

text \<open>\<open>from_basis\<close>: the derived digests of the basis are computed in the order of the arguments.\<close>

definition source_snapshot_from_basis :: "batch_basis \<Rightarrow> batch_source_snapshot answer" where
  "source_snapshot_from_basis b =
     (let t = bb_resolution_set b; p = bb_policy b in
     bind_result (of_domain (success_policy_digest p)) (\<lambda>policy_digest.
     bind_result (of_domain (batch_item_set_digest t)) (\<lambda>set_digest.
     bind_result (of_domain (completeness_proof_digest t (bb_terminal_run_refs b) (bb_unknown_fact_refs b))) (\<lambda>completeness.
     let z = \<lparr>bz_batch_id = bs_batch_id t, bz_source_batch_version = bs_source_batch_version t,
       bz_manifest_id = bs_manifest_id t, bz_manifest_digest = bs_manifest_digest t,
       bz_item_count = ct_original_denominator (counts_of t), bz_shard_plan_id = bs_shard_plan_id t,
       bz_shard_plan_version = bs_shard_plan_version t, bz_shard_plan_digest = bs_shard_plan_digest t,
       bz_canonical_run_set_digest = bs_canonical_run_set_digest t, bz_success_policy_id = po_policy_id p,
       bz_success_policy_version = po_policy_version p, bz_success_policy_digest = policy_digest,
       bz_item_resolution_set_digest = set_digest, bz_completeness_proof_digest = completeness,
       bz_cancellation_intent_digest = oe_intent_digest (bb_evaluation b),
       bz_terminal_run_refs = bb_terminal_run_refs b, bz_non_run_refs = bb_non_run_refs b,
       bz_unknown_fact_refs = bb_unknown_fact_refs b\<rparr>
     in raise_or (check_batch_source_snapshot z) z))))"

record finalize_batch_authority =
  za_source_snapshot :: batch_source_snapshot
  za_authority_digest :: digest
  za_write_epoch :: int

definition check_finalize_batch_authority :: "finalize_batch_authority \<Rightarrow> app_error option" where
  "check_finalize_batch_authority a = port_positive ''finalize_batch_authority'' ''write_epoch'' (za_write_epoch a)"

definition batch_identity_scope :: "finalize_batch_authority \<Rightarrow> string \<times> string \<times> int" where
  "batch_identity_scope a =
     (batch_finalization_schema, bz_batch_id (za_source_snapshot a), bz_source_batch_version (za_source_snapshot a))"

definition port_terminal :: "string \<Rightarrow> batch_state \<Rightarrow> app_error option" where
  "port_terminal entity st =
     reject_if (st \<notin> {BatchSucceeded, BatchFailed, BatchPartial, BatchCancelled})
       (PortContractError entity ''outcome'' ''not_execution_terminal'')"

record batch_finalization_projection =
  zp_batch_id :: string
  zp_source_batch_version :: int
  zp_batch_version :: int
  zp_outcome :: batch_state
  zp_basis_digest :: digest

definition check_batch_projection :: "batch_finalization_projection \<Rightarrow> app_error option" where
  "check_batch_projection p =
     (let e = ''batch_finalization_projection'' in first_some
     [port_string e ''batch_id'' (zp_batch_id p), port_nonnegative e ''source_batch_version'' (zp_source_batch_version p),
      port_positive e ''batch_version'' (zp_batch_version p), port_terminal e (zp_outcome p)])"

record batch_mutation_snapshot =
  zm_batch_id :: string
  zm_batch_version :: int
  zm_state :: batch_state
  zm_source_snapshot :: batch_source_snapshot

definition check_batch_mutation_snapshot :: "batch_mutation_snapshot \<Rightarrow> app_error option" where
  "check_batch_mutation_snapshot m =
     (let e = ''batch_finalization_mutation_snapshot'' in first_some
     [port_string e ''batch_id'' (zm_batch_id m), port_nonnegative e ''batch_version'' (zm_batch_version m),
      reject_if (zm_state m \<noteq> BatchFinalizing) (PortContractError e ''state'' ''not_finalizing''),
      reject_if (zm_batch_id m \<noteq> bz_batch_id (zm_source_snapshot m)) (PortContractError e ''batch_id'' ''source_mismatch''),
      reject_if (zm_batch_version m \<noteq> bz_source_batch_version (zm_source_snapshot m))
        (PortContractError e ''batch_version'' ''source_version_mismatch'')])"

record batch_finalization_side_effect =
  ze_batch_id :: string
  ze_basis_digest :: digest
  ze_outcome :: batch_state

definition check_batch_side_effect :: "batch_finalization_side_effect \<Rightarrow> app_error option" where
  "check_batch_side_effect x =
     (let e = ''batch_finalization_side_effect'' in first_some
     [port_string e ''batch_id'' (ze_batch_id x), port_terminal e (ze_outcome x)])"

record batch_finalization_publication =
  zq_authority :: finalize_batch_authority
  zq_expected_snapshot :: batch_mutation_snapshot
  zq_basis :: batch_basis
  zq_projection :: batch_finalization_projection
  zq_side_effect :: batch_finalization_side_effect

definition batch_publication_mismatch :: "batch_finalization_publication \<Rightarrow> bool answer" where
  "batch_publication_mismatch q =
     (let a = zq_authority q; m = zq_expected_snapshot q; b = zq_basis q; t = bb_resolution_set (zq_basis q);
          p = zq_projection q; x = zq_side_effect q in any_of
     [Inr (bz_batch_id (za_source_snapshot a) \<noteq> bs_batch_id t),
      Inr (bz_source_batch_version (za_source_snapshot a) \<noteq> bs_source_batch_version t),
      map_result (\<lambda>z. za_source_snapshot a \<noteq> z) (source_snapshot_from_basis b),
      Inr (zm_batch_id m \<noteq> bs_batch_id t), Inr (zm_source_snapshot m \<noteq> za_source_snapshot a),
      Inr (zp_batch_id p \<noteq> bs_batch_id t), Inr (zp_source_batch_version p \<noteq> bs_source_batch_version t),
      Inr (zp_batch_version p \<noteq> zm_batch_version m + 1), Inr (zp_outcome p \<noteq> oe_outcome (bb_evaluation b)),
      map_result (\<lambda>d. zp_basis_digest p \<noteq> d) (of_domain (batch_basis_digest b)),
      Inr (ze_batch_id x \<noteq> bs_batch_id t),
      map_result (\<lambda>d. ze_basis_digest x \<noteq> d) (of_domain (batch_basis_digest b)),
      Inr (ze_outcome x \<noteq> oe_outcome (bb_evaluation b))])"

definition check_batch_publication :: "batch_finalization_publication \<Rightarrow> app_error option" where
  "check_batch_publication q =
     reject_if_result (batch_publication_mismatch q)
       (PortContractError ''batch_finalization_publication'' ''binding'' ''mismatch'')"

record 's batch_finalization_gateway =
  zg_authority :: "string \<Rightarrow> 's \<Rightarrow> finalize_batch_authority answer"
  zg_lookup :: "string \<times> string \<times> int \<Rightarrow> 's \<Rightarrow> batch_finalization_projection option answer"
  zg_snapshot :: "string \<Rightarrow> 's \<Rightarrow> batch_mutation_snapshot answer"
  zg_publish :: "batch_finalization_publication \<Rightarrow> (batch_finalization_projection replay_result, 's) action"

section \<open>The handler\<close>

record finalize_batch_command =
  zc_candidate_basis :: batch_basis
  zc_expected_batch_version :: int

definition check_finalize_batch_command :: "finalize_batch_command \<Rightarrow> domain_error option" where
  "check_finalize_batch_command c =
     reject_if (zc_expected_batch_version c < 0)
       (DomainValidationError ''finalize_batch_command'' ''expected_batch_version'' ''invalid'')"

record finalize_batch_result =
  zr_projection :: batch_finalization_projection
  zr_replayed :: bool

definition batch_projection_of :: "batch_basis \<Rightarrow> batch_mutation_snapshot \<Rightarrow> digest \<Rightarrow> batch_finalization_projection" where
  "batch_projection_of b m basis_digest =
     \<lparr>zp_batch_id = bs_batch_id (bb_resolution_set b), zp_source_batch_version = bs_source_batch_version (bb_resolution_set b),
      zp_batch_version = zm_batch_version m + 1, zp_outcome = oe_outcome (bb_evaluation b), zp_basis_digest = basis_digest\<rparr>"

definition batch_publication_of ::
  "batch_basis \<Rightarrow> finalize_batch_authority \<Rightarrow> batch_mutation_snapshot \<Rightarrow> digest \<Rightarrow> batch_finalization_publication answer" where
  "batch_publication_of b a m basis_digest =
     (let p = batch_projection_of b m basis_digest;
          x = \<lparr>ze_batch_id = bs_batch_id (bb_resolution_set b), ze_basis_digest = basis_digest,
               ze_outcome = oe_outcome (bb_evaluation b)\<rparr> in
     bind_result (raise_or (check_batch_projection p) ()) (\<lambda>_.
     bind_result (raise_or (check_batch_side_effect x) ()) (\<lambda>_.
     let q = \<lparr>zq_authority = a, zq_expected_snapshot = m, zq_basis = b, zq_projection = p, zq_side_effect = x\<rparr>
     in raise_or (check_batch_publication q) q)))"

definition stored_batch_finalization ::
  "batch_basis \<Rightarrow> digest \<Rightarrow> batch_finalization_projection \<Rightarrow> finalize_batch_result answer" where
  "stored_batch_finalization b basis_digest stored =
     (if zp_basis_digest stored \<noteq> basis_digest
      then Inl (DomainFailure (IdempotencyConflict (''batch:'' @ bs_batch_id (bb_resolution_set b) @ '':finalization'')
        (show_int (bs_source_batch_version (bb_resolution_set b))) (zp_basis_digest stored) basis_digest))
      else Inr \<lparr>zr_projection = stored, zr_replayed = True\<rparr>)"

definition publish_batch_finalization ::
  "'s batch_finalization_gateway \<Rightarrow> finalize_batch_command \<Rightarrow> finalize_batch_authority \<Rightarrow>
   (finalize_batch_result, 's) action" where
  "publish_batch_finalization g c a =
     (let b = zc_candidate_basis c; batch_id = bs_batch_id (bb_resolution_set b) in
      and_then (ask (zg_snapshot g batch_id)) (\<lambda>m.
      raise_when (zm_batch_version m \<noteq> zc_expected_batch_version c)
        (DomainFailure (VersionConflict ''batch'' batch_id (zm_batch_version m) (zc_expected_batch_version c)))
     (raise_when (zm_source_snapshot m \<noteq> za_source_snapshot a)
        (DomainFailure (DomainValidationError ''finalize_batch'' ''source_snapshot'' ''locked_snapshot_drift''))
     (and_then (compute (of_domain (batch_basis_digest b))) (\<lambda>basis_digest.
      and_then (compute (batch_publication_of b a m basis_digest)) (\<lambda>q.
      and_then (zg_publish g q) (\<lambda>r.
      give \<lparr>zr_projection = rr_value r, zr_replayed = rr_replayed r\<rparr>)))))))"

definition finalize_batch ::
  "'s batch_finalization_gateway \<Rightarrow> finalize_batch_command \<Rightarrow> (finalize_batch_result, 's) action" where
  "finalize_batch g c =
     (let b = zc_candidate_basis c in
      and_then (ask (zg_authority g (bs_batch_id (bb_resolution_set b)))) (\<lambda>a.
      and_then (compute (source_snapshot_from_basis b)) (\<lambda>z.
      raise_when (za_source_snapshot a \<noteq> z)
        (DomainFailure (DomainValidationError ''finalize_batch'' ''source_snapshot'' ''authority_mismatch''))
     (and_then (ask (zg_lookup g (batch_identity_scope a))) (\<lambda>stored.
      case stored of
        Some p \<Rightarrow> and_then (compute (of_domain (batch_basis_digest b))) (\<lambda>basis_digest.
          compute (stored_batch_finalization b basis_digest p))
      | None \<Rightarrow> publish_batch_finalization g c a)))))"

text \<open>The handler writes only where nothing is stored.\<close>

definition batch_unstored :: "'s batch_finalization_gateway \<Rightarrow> finalize_batch_command \<Rightarrow> 's \<Rightarrow> bool" where
  "batch_unstored g c s \<longleftrightarrow> (\<exists>a. zg_authority g (bs_batch_id (bb_resolution_set (zc_candidate_basis c))) s = Inr a \<and>
     zg_lookup g (batch_identity_scope a) s = Inr None)"

interpretation batch_closing: fresh_writer "finalize_batch g" "batch_unstored g" for g
  by unfold_locales
    (auto simp: finalize_batch_def batch_unstored_def  and_then_def raise_when_def run_simps Let_def split: sum.splits option.splits)

section \<open>What a return of the handler has done\<close>

lemma finalize_batch_Inr:
  assumes "finalize_batch g c s = (Inr r, t)"
  obtains (replayed) a d p where "zg_authority g (bs_batch_id (bb_resolution_set (zc_candidate_basis c))) s = Inr a"
      "zg_lookup g (batch_identity_scope a) s = Inr (Some p)" "batch_basis_digest (zc_candidate_basis c) = Inr d"
      "zp_basis_digest p = d" "r = \<lparr>zr_projection = p, zr_replayed = True\<rparr>" "t = s"
  | (published) a d m q u where "zg_authority g (bs_batch_id (bb_resolution_set (zc_candidate_basis c))) s = Inr a"
      "source_snapshot_from_basis (zc_candidate_basis c) = Inr (za_source_snapshot a)"
      "zg_lookup g (batch_identity_scope a) s = Inr None" "batch_basis_digest (zc_candidate_basis c) = Inr d"
      "zg_snapshot g (bs_batch_id (bb_resolution_set (zc_candidate_basis c))) s = Inr m"
      "zm_batch_version m = zc_expected_batch_version c" "zm_source_snapshot m = za_source_snapshot a"
      "batch_publication_of (zc_candidate_basis c) a m d = Inr q" "zg_publish g q s = (Inr u, t)"
      "r = \<lparr>zr_projection = rr_value u, zr_replayed = rr_replayed u\<rparr>"
proof -
  obtain a stored where a: "zg_authority g (bs_batch_id (bb_resolution_set (zc_candidate_basis c))) s = Inr a"
    "source_snapshot_from_basis (zc_candidate_basis c) = Inr (za_source_snapshot a)"
    "zg_lookup g (batch_identity_scope a) s = Inr stored"
    using assms unfolding finalize_batch_def Let_def by (auto simp: action_simps)
  show thesis
  proof (cases stored)
    case (Some p)
    then show thesis using assms a that(1) [of a p] unfolding finalize_batch_def Let_def
      by (auto simp: action_simps result_simps stored_batch_finalization_def)
  next
    case None
    then have "publish_batch_finalization g c a s = (Inr r, t)"
      using assms a unfolding finalize_batch_def Let_def by (auto simp: action_simps)
    then show thesis using None a that(2) [of a] unfolding publish_batch_finalization_def Let_def
      by (auto simp: action_simps result_simps)
  qed
qed

lemma batch_publication_Inr:
  assumes "batch_publication_of b a m d = Inr q"
  shows "zq_projection q = batch_projection_of b m d" "zq_basis q = b" "zq_authority q = a" "zq_expected_snapshot q = m"
  using assms by (auto simp: batch_publication_of_def Let_def result_simps)

end
