(* ===== verification/Batch_Readiness.thy ===== *)
theory Batch_Readiness
  imports Run_Closed_Handoff Batch_Resolution Plan_Validity
begin

text \<open>
  Entering Batch finalization: the facts of the port
  (\<open>src/qarunner/application/ports/batch_finalization_readiness.py\<close>) with their contracts and the
  handler of the transition from RUNNING to FINALIZING (\<open>application/begin_batch_finalization.py\<close>). The
  gateway is a parameter. The last part shows what a readiness snapshot accounts for.
\<close>

section \<open>Closures and opportunities\<close>

datatype opportunity_kind = InitialCommit | RetryCommit

fun opportunity_value :: "opportunity_kind \<Rightarrow> string" where
  "opportunity_value InitialCommit = ''initial_commit''"
| "opportunity_value RetryCommit = ''retry_commit''"

datatype readiness_verdict = ReadinessReady | PendingRetry | PendingAttempt

record attempt_opportunity =
  ao_run_id :: string
  ao_kind :: opportunity_kind
  ao_authority_digest :: digest

definition check_attempt_opportunity :: "attempt_opportunity \<Rightarrow> app_error option" where
  "check_attempt_opportunity a = port_string ''attempt_creation_opportunity'' ''run_id'' (ao_run_id a)"

record batch_run_closure =
  rl_handoff :: closed_handoff
  rl_basis :: run_basis
  rl_resolution_set :: run_resolution_set
  rl_state :: finalization_state

definition closure_run_id :: "batch_run_closure \<Rightarrow> string" where
  "closure_run_id c = fb_run_id (rl_basis c)"

definition closure_mismatch :: "batch_run_closure \<Rightarrow> bool answer" where
  "closure_mismatch c =
     (let st = rl_state c; b = rl_basis c; h = rl_handoff c; s = rl_resolution_set c in any_of
     [Inr (fs_phase st \<noteq> PhaseClosed), Inr (fs_disposition st \<noteq> Some ClosedNoRetry),
      map_result (\<lambda>d. fs_finalization_basis_digest st \<noteq> Some d) (of_domain (run_basis_digest b)),
      Inr (fs_outcome st \<noteq> Some (fb_outcome b)),
      Inr (ch_batch_id h \<noteq> fb_batch_id b), Inr (ch_run_id h \<noteq> fb_run_id b),
      Inr (ch_source_run_version h \<noteq> fb_source_run_version b),
      map_result (\<lambda>d. ch_run_basis_digest h \<noteq> d) (of_domain (run_basis_digest b)),
      Inr (ch_manifest_digest h \<noteq> fb_manifest_digest b), Inr (ch_shard_plan_digest h \<noteq> fb_shard_plan_digest b),
      Inr (ch_item_resolution_set_digest h \<noteq> fb_item_resolution_set_digest b),
      Inr (rs_batch_id s \<noteq> fb_batch_id b), Inr (rs_run_id s \<noteq> fb_run_id b),
      Inr (rs_source_run_version s \<noteq> fb_source_run_version b),
      map_result (\<lambda>d. d \<noteq> fb_item_resolution_set_digest b) (of_domain (resolution_set_digest s))])"

definition check_batch_run_closure :: "batch_run_closure \<Rightarrow> app_error option" where
  "check_batch_run_closure c =
     reject_if_result (closure_mismatch c) (PortContractError ''batch_run_closure'' ''binding'' ''mismatch'')"

section \<open>The frozen plan\<close>

record frozen_plan =
  fz_plan_version :: int
  fz_bound_plan :: bound_shard_plan
  fz_binding_digest :: digest

definition frozen_plan_digest :: "int \<Rightarrow> bound_shard_plan \<Rightarrow> digest result" where
  "frozen_plan_digest plan_version bound = canonical_digest ''qep.frozen-bound-shard-plan.v1''
     (JObj [(''plan_id'', JStr (sp_id (bp_plan bound))),
            (''plan_version'', JInt plan_version),
            (''plan_digest'', digest_json (sp_digest (bp_plan bound))),
            (''bindings'', JList (map (\<lambda>b. JObj
               [(''run_id'', JStr (rb_run_id b)), (''shard_index'', JInt (rb_shard_index b))]) (bp_bindings bound)))])"

definition check_frozen_plan :: "frozen_plan \<Rightarrow> app_error option" where
  "check_frozen_plan f =
     (let e = ''frozen_bound_shard_plan'' in first_some
     [port_nonnegative e ''plan_version'' (fz_plan_version f),
      reject_if_result (map_result (\<lambda>d. fz_binding_digest f \<noteq> d)
          (of_domain (frozen_plan_digest (fz_plan_version f) (fz_bound_plan f))))
        (PortContractError e ''binding_digest'' ''mismatch'')])"

definition freeze_plan :: "int \<Rightarrow> bound_shard_plan \<Rightarrow> frozen_plan answer" where
  "freeze_plan plan_version bound =
     bind_result (of_domain (frozen_plan_digest plan_version bound)) (\<lambda>d.
     let f = \<lparr>fz_plan_version = plan_version, fz_bound_plan = bound, fz_binding_digest = d\<rparr>
     in raise_or (check_frozen_plan f) f)"

section \<open>The readiness snapshot\<close>

record readiness_snapshot =
  rn_batch_id :: string
  rn_source_batch_version :: int
  rn_manifest_id :: string
  rn_manifest_digest :: digest
  rn_item_count :: int
  rn_shard_plan_id :: string
  rn_frozen_plan :: frozen_plan
  rn_canonical_run_ids :: "string list"
  rn_canonical_run_set_digest :: digest
  rn_success_policy :: success_policy
  rn_cancellation_intent_digest :: "digest option"
  rn_run_closures :: "batch_run_closure list"
  rn_pending_retry_intents :: "retry_intent list"
  rn_opportunities :: "attempt_opportunity list"

abbreviation rn_plan :: "readiness_snapshot \<Rightarrow> shard_plan" where
  "rn_plan n \<equiv> bp_plan (fz_bound_plan (rn_frozen_plan n))"

abbreviation rn_bindings :: "readiness_snapshot \<Rightarrow> run_binding list" where
  "rn_bindings n \<equiv> bp_bindings (fz_bound_plan (rn_frozen_plan n))"

definition rn_shard_plan_digest :: "readiness_snapshot \<Rightarrow> digest" where
  "rn_shard_plan_digest n = sp_digest (rn_plan n)"

text \<open>\<open>_canonical_strings\<close> with \<open>nonempty=True\<close>.\<close>

definition canonical_strings_checks :: "string \<Rightarrow> string \<Rightarrow> string list \<Rightarrow> app_error option list" where
  "canonical_strings_checks entity field vs =
     [reject_if ([] \<in> set vs) (PortContractError entity field ''invalid''),
      reject_if (vs = []) (PortContractError entity field ''empty''),
      reject_if (vs \<noteq> sort vs \<or> \<not> distinct vs) (PortContractError entity field ''not_canonical'')]"

definition frozen_plan_mismatch :: "readiness_snapshot \<Rightarrow> bool" where
  "frozen_plan_mismatch n \<longleftrightarrow>
     sp_id (rn_plan n) \<noteq> rn_shard_plan_id n \<or> sp_batch_id (rn_plan n) \<noteq> rn_batch_id n \<or>
     sp_digest (rn_plan n) \<noteq> rn_shard_plan_digest n \<or> cm_id (sp_manifest (rn_plan n)) \<noteq> rn_manifest_id n \<or>
     cm_digest (sp_manifest (rn_plan n)) \<noteq> rn_manifest_digest n \<or>
     int (length (cm_items (sp_manifest (rn_plan n)))) \<noteq> rn_item_count n \<or>
     sort (map rb_run_id (rn_bindings n)) \<noteq> rn_canonical_run_ids n"

definition run_closures_mismatch :: "readiness_snapshot \<Rightarrow> bool" where
  "run_closures_mismatch n \<longleftrightarrow>
     map closure_run_id (rn_run_closures n) \<noteq> rn_canonical_run_ids n \<or>
     (\<exists>c \<in> set (rn_run_closures n). fb_batch_id (rl_basis c) \<noteq> rn_batch_id n \<or>
        fb_manifest_digest (rl_basis c) \<noteq> rn_manifest_digest n \<or>
        fb_shard_plan_digest (rl_basis c) \<noteq> rn_shard_plan_digest n)"

text \<open>
  \<open>shards[bindings[run_id]].manifest_item_indices\<close>: both tables keep the last entry of a key, and a
  missing key is a \<open>KeyError\<close>.
\<close>

definition owned_indices :: "bound_shard_plan \<Rightarrow> string \<Rightarrow> int list answer" where
  "owned_indices bound run_id =
     (case find_last (\<lambda>b. rb_run_id b = run_id) (bp_bindings bound) of
        None \<Rightarrow> Inl (LookupFailure run_id)
      | Some b \<Rightarrow>
          (case find_last (\<lambda>s. ps_shard_index s = rb_shard_index b) (sp_shards (bp_plan bound)) of
             None \<Rightarrow> Inl (LookupFailure (show_int (rb_shard_index b)))
           | Some s \<Rightarrow> Inr (ps_item_indices s)))"

definition closure_keys :: "batch_run_closure \<Rightarrow> run_item_key list" where
  "closure_keys c = map ir_item_key (rs_entries (rl_resolution_set c))"

definition shard_keys :: "string \<Rightarrow> int list \<Rightarrow> run_item_key list" where
  "shard_keys manifest_id indices = map (\<lambda>k. \<lparr>rk_manifest_id = manifest_id, rk_item_index = k\<rparr>) indices"

definition ownership_check :: "readiness_snapshot \<Rightarrow> batch_run_closure \<Rightarrow> app_error option" where
  "ownership_check n c =
     reject_if_result (map_result (\<lambda>indices. closure_keys c \<noteq> shard_keys (rn_manifest_id n) indices)
        (owned_indices (fz_bound_plan (rn_frozen_plan n)) (closure_run_id c)))
       (PortContractError ''batch_finalization_readiness_snapshot'' ''run_closures'' ''shard_item_ownership_mismatch'')"

definition check_readiness_snapshot :: "readiness_snapshot \<Rightarrow> app_error option" where
  "check_readiness_snapshot n =
     (let e = ''batch_finalization_readiness_snapshot'';
          retry_keys = map (\<lambda>i. (ri_run_id i, ri_id i)) (rn_pending_retry_intents n);
          opportunity_keys = map (\<lambda>a. (ao_run_id a, opportunity_value (ao_kind a))) (rn_opportunities n) in first_some (
     [port_string e ''batch_id'' (rn_batch_id n), port_string e ''manifest_id'' (rn_manifest_id n),
      port_string e ''shard_plan_id'' (rn_shard_plan_id n),
      port_nonnegative e ''source_batch_version'' (rn_source_batch_version n),
      port_positive e ''item_count'' (rn_item_count n)] @
     canonical_strings_checks e ''canonical_run_ids'' (rn_canonical_run_ids n) @
     [reject_if (frozen_plan_mismatch n) (PortContractError e ''frozen_plan'' ''binding_mismatch''),
      reject_if_result (map_result (\<lambda>d. rn_canonical_run_set_digest n \<noteq> d)
          (of_domain (canonical_materialized_run_set_digest (rn_batch_id n) (rn_canonical_run_ids n))))
        (PortContractError e ''canonical_run_ids'' ''digest_mismatch''),
      reject_if (run_closures_mismatch n) (PortContractError e ''run_closures'' ''binding_mismatch'')] @
     map (ownership_check n) (rn_run_closures n) @
     [reject_if (retry_keys \<noteq> sort retry_keys \<or> \<not> distinct retry_keys)
        (PortContractError e ''pending_retry_intents'' ''not_canonical''),
      reject_if (\<exists>i \<in> set (rn_pending_retry_intents n). ri_run_id i \<notin> set (rn_canonical_run_ids n))
        (PortContractError e ''pending_retry_intents'' ''unknown_run''),
      reject_if (opportunity_keys \<noteq> sort opportunity_keys \<or> \<not> distinct opportunity_keys)
        (PortContractError e ''attempt_creation_opportunities'' ''not_canonical''),
      reject_if (\<exists>a \<in> set (rn_opportunities n). ao_run_id a \<notin> set (rn_canonical_run_ids n))
        (PortContractError e ''attempt_creation_opportunities'' ''unknown_run'')]))"

definition readiness_reason :: "readiness_snapshot \<Rightarrow> readiness_verdict" where
  "readiness_reason n =
     (if rn_pending_retry_intents n \<noteq> [] then PendingRetry
      else if rn_opportunities n \<noteq> [] then PendingAttempt else ReadinessReady)"

definition readiness_schema :: string where
  "readiness_schema = ''qep.batch-finalization-readiness.v1''"

text \<open>The digests inside the payload are computed in the order of its members.\<close>

definition readiness_digest :: "readiness_snapshot \<Rightarrow> digest result" where
  "readiness_digest n =
     bind_result (success_policy_digest (rn_success_policy n)) (\<lambda>policy_digest.
     bind_result (collect_results (map (run_basis_digest \<circ> rl_basis) (rn_run_closures n))) (\<lambda>basis_digests.
     bind_result (collect_results (map retry_intent_digest (rn_pending_retry_intents n))) (\<lambda>intent_digests.
     canonical_digest readiness_schema (JObj
       [(''batch_id'', JStr (rn_batch_id n)),
        (''source_batch_version'', JInt (rn_source_batch_version n)),
        (''manifest_id'', JStr (rn_manifest_id n)),
        (''manifest_digest'', digest_json (rn_manifest_digest n)),
        (''item_count'', JInt (rn_item_count n)),
        (''shard_plan_id'', JStr (rn_shard_plan_id n)),
        (''shard_plan_version'', JInt (fz_plan_version (rn_frozen_plan n))),
        (''shard_plan_digest'', digest_json (rn_shard_plan_digest n)),
        (''frozen_plan_binding_digest'', digest_json (fz_binding_digest (rn_frozen_plan n))),
        (''canonical_run_ids'', strings_json (rn_canonical_run_ids n)),
        (''canonical_run_set_digest'', digest_json (rn_canonical_run_set_digest n)),
        (''success_policy_digest'', digest_json policy_digest),
        (''batch_cancellation_intent_digest'', json_opt digest_json (rn_cancellation_intent_digest n)),
        (''run_basis_digests'', JList (map digest_json basis_digests)),
        (''pending_retry_intents'', JList (map (\<lambda>(i, d). JObj
           [(''run_id'', JStr (ri_run_id i)), (''intent_digest'', digest_json d)])
           (zip (rn_pending_retry_intents n) intent_digests))),
        (''attempt_creation_opportunities'', JList (map (\<lambda>a. JObj
           [(''run_id'', JStr (ao_run_id a)), (''kind'', JStr (opportunity_value (ao_kind a))),
            (''authority_digest'', digest_json (ao_authority_digest a))]) (rn_opportunities n)))]))))"

section \<open>The values of the publication\<close>

record readiness_authority =
  ra_snapshot :: readiness_snapshot
  ra_authority_digest :: digest
  ra_write_epoch :: int

definition check_readiness_authority :: "readiness_authority \<Rightarrow> app_error option" where
  "check_readiness_authority a =
     port_positive ''batch_finalization_readiness_authority'' ''write_epoch'' (ra_write_epoch a)"

definition readiness_identity_scope :: "readiness_authority \<Rightarrow> string \<times> string \<times> int" where
  "readiness_identity_scope a =
     (readiness_schema, rn_batch_id (ra_snapshot a), rn_source_batch_version (ra_snapshot a))"

record readiness_projection =
  rp_batch_id :: string
  rp_source_batch_version :: int
  rp_batch_version :: int
  rp_state :: batch_state
  rp_readiness_digest :: digest

definition check_readiness_projection :: "readiness_projection \<Rightarrow> app_error option" where
  "check_readiness_projection p =
     (let e = ''batch_finalization_readiness_projection'' in first_some
     [port_string e ''batch_id'' (rp_batch_id p),
      port_nonnegative e ''source_batch_version'' (rp_source_batch_version p),
      port_positive e ''batch_version'' (rp_batch_version p),
      reject_if (rp_state p \<noteq> BatchFinalizing) (PortContractError e ''state'' ''not_finalizing'')])"

record readiness_mutation =
  rm_batch_id :: string
  rm_batch_version :: int
  rm_state :: batch_state
  rm_snapshot :: readiness_snapshot

definition check_readiness_mutation :: "readiness_mutation \<Rightarrow> app_error option" where
  "check_readiness_mutation m =
     (let e = ''batch_finalization_readiness_mutation'' in first_some
     [port_string e ''batch_id'' (rm_batch_id m), port_nonnegative e ''batch_version'' (rm_batch_version m),
      reject_if (rm_state m \<noteq> BatchRunning) (PortContractError e ''state'' ''not_running''),
      reject_if (rm_batch_id m \<noteq> rn_batch_id (rm_snapshot m) \<or>
          rm_batch_version m \<noteq> rn_source_batch_version (rm_snapshot m)) (PortContractError e ''binding'' ''mismatch'')])"

record readiness_side_effect =
  rx_batch_id :: string
  rx_readiness_digest :: digest

definition check_readiness_side_effect :: "readiness_side_effect \<Rightarrow> app_error option" where
  "check_readiness_side_effect x =
     port_string ''batch_finalization_readiness_side_effect'' ''batch_id'' (rx_batch_id x)"

record readiness_publication =
  rq_authority :: readiness_authority
  rq_expected :: readiness_mutation
  rq_projection :: readiness_projection
  rq_side_effect :: readiness_side_effect

definition readiness_publication_mismatch :: "readiness_publication \<Rightarrow> bool answer" where
  "readiness_publication_mismatch q =
     (let n = ra_snapshot (rq_authority q); m = rq_expected q; p = rq_projection q; x = rq_side_effect q in any_of
     [Inr (readiness_reason n \<noteq> ReadinessReady), Inr (rm_snapshot m \<noteq> n), Inr (rp_batch_id p \<noteq> rn_batch_id n),
      Inr (rp_source_batch_version p \<noteq> rn_source_batch_version n),
      Inr (rp_batch_version p \<noteq> rm_batch_version m + 1),
      map_result (\<lambda>d. rp_readiness_digest p \<noteq> d) (of_domain (readiness_digest n)),
      Inr (rx_batch_id x \<noteq> rp_batch_id p), Inr (rx_readiness_digest x \<noteq> rp_readiness_digest p)])"

definition check_readiness_publication :: "readiness_publication \<Rightarrow> app_error option" where
  "check_readiness_publication q =
     reject_if_result (readiness_publication_mismatch q)
       (PortContractError ''batch_finalization_readiness_publication'' ''binding'' ''mismatch'')"

record 's readiness_gateway =
  ng_authority :: "string \<Rightarrow> 's \<Rightarrow> readiness_authority answer"
  ng_lookup :: "string \<times> string \<times> int \<Rightarrow> 's \<Rightarrow> readiness_projection option answer"
  ng_snapshot :: "string \<Rightarrow> 's \<Rightarrow> readiness_mutation answer"
  ng_publish :: "readiness_publication \<Rightarrow> (readiness_projection replay_result, 's) action"

section \<open>The handler\<close>

record begin_finalization_command =
  bf_batch_id :: string
  bf_expected_batch_version :: int

definition check_begin_finalization_command :: "begin_finalization_command \<Rightarrow> domain_error option" where
  "check_begin_finalization_command c =
     (let invalid = (\<lambda>field. DomainValidationError ''begin_batch_finalization_command'' field ''invalid'') in first_some
     [reject_if (blank (bf_batch_id c)) (invalid ''batch_id''),
      reject_if (bf_expected_batch_version c < 0) (invalid ''expected_batch_version'')])"

record begin_finalization_result =
  bo_projection :: "readiness_projection option"
  bo_replayed :: bool
  bo_reason :: readiness_verdict

definition readiness_publication_of ::
  "readiness_authority \<Rightarrow> readiness_mutation \<Rightarrow> digest \<Rightarrow> readiness_publication answer" where
  "readiness_publication_of a m d =
     (let n = ra_snapshot a;
          p = \<lparr>rp_batch_id = rn_batch_id n, rp_source_batch_version = rn_source_batch_version n,
            rp_batch_version = rm_batch_version m + 1, rp_state = BatchFinalizing, rp_readiness_digest = d\<rparr>;
          x = \<lparr>rx_batch_id = rn_batch_id n, rx_readiness_digest = d\<rparr> in
     bind_result (raise_or (check_readiness_projection p) ()) (\<lambda>_.
     bind_result (raise_or (check_readiness_side_effect x) ()) (\<lambda>_.
     let q = \<lparr>rq_authority = a, rq_expected = m, rq_projection = p, rq_side_effect = x\<rparr>
     in raise_or (check_readiness_publication q) q)))"

definition stored_readiness ::
  "readiness_snapshot \<Rightarrow> readiness_projection \<Rightarrow> begin_finalization_result answer" where
  "stored_readiness n stored =
     bind_result (of_domain (readiness_digest n)) (\<lambda>d.
     if rp_readiness_digest stored \<noteq> d
     then Inl (DomainFailure (IdempotencyConflict (''batch:'' @ rn_batch_id n @ '':begin-finalization'')
       (show_int (rn_source_batch_version n)) (rp_readiness_digest stored) d))
     else Inr \<lparr>bo_projection = Some stored, bo_replayed = True, bo_reason = ReadinessReady\<rparr>)"

definition publish_readiness ::
  "'s readiness_gateway \<Rightarrow> begin_finalization_command \<Rightarrow> readiness_authority \<Rightarrow> (begin_finalization_result, 's) action" where
  "publish_readiness g c a =
     (let n = ra_snapshot a in
      and_then (ask (ng_snapshot g (rn_batch_id n))) (\<lambda>m.
      raise_when (rm_batch_version m \<noteq> bf_expected_batch_version c)
        (DomainFailure (VersionConflict ''batch'' (rn_batch_id n) (rm_batch_version m) (bf_expected_batch_version c)))
     (raise_when (rm_snapshot m \<noteq> n)
        (DomainFailure (DomainValidationError ''begin_batch_finalization'' ''readiness_snapshot'' ''locked_snapshot_drift''))
     (and_then (compute (of_domain (readiness_digest n))) (\<lambda>d.
      and_then (compute (readiness_publication_of a m d)) (\<lambda>q.
      and_then (ng_publish g q) (\<lambda>r.
      give \<lparr>bo_projection = Some (rr_value r), bo_replayed = rr_replayed r, bo_reason = ReadinessReady\<rparr>)))))))"

definition begin_batch_finalization ::
  "'s readiness_gateway \<Rightarrow> begin_finalization_command \<Rightarrow> (begin_finalization_result, 's) action" where
  "begin_batch_finalization g c =
     and_then (ask (ng_authority g (bf_batch_id c))) (\<lambda>a.
     if readiness_reason (ra_snapshot a) \<noteq> ReadinessReady
     then give \<lparr>bo_projection = None, bo_replayed = False, bo_reason = readiness_reason (ra_snapshot a)\<rparr>
     else and_then (ask (ng_lookup g (readiness_identity_scope a))) (\<lambda>stored.
       case stored of
         Some p \<Rightarrow> compute (stored_readiness (ra_snapshot a) p)
       | None \<Rightarrow> publish_readiness g c a))"

text \<open>The handler writes only where nothing is stored.\<close>

definition readiness_unstored :: "'s readiness_gateway \<Rightarrow> begin_finalization_command \<Rightarrow> 's \<Rightarrow> bool" where
  "readiness_unstored g c s \<longleftrightarrow> (\<exists>a. ng_authority g (bf_batch_id c) s = Inr a \<and> ng_lookup g (readiness_identity_scope a) s = Inr None)"

interpretation batch_finalizing: fresh_writer "begin_batch_finalization g" "readiness_unstored g" for g
  by unfold_locales
    (auto simp: begin_batch_finalization_def readiness_unstored_def  and_then_def raise_when_def run_simps Let_def split: sum.splits option.splits)

section \<open>What a return of the handler has done\<close>

lemma begin_finalization_Inr:
  assumes "begin_batch_finalization g c s = (Inr r, t)"
  obtains (pending) a where "ng_authority g (bf_batch_id c) s = Inr a" "readiness_reason (ra_snapshot a) \<noteq> ReadinessReady"
      "r = \<lparr>bo_projection = None, bo_replayed = False, bo_reason = readiness_reason (ra_snapshot a)\<rparr>" "t = s"
  | (replayed) a p where "ng_authority g (bf_batch_id c) s = Inr a" "readiness_reason (ra_snapshot a) = ReadinessReady"
      "ng_lookup g (readiness_identity_scope a) s = Inr (Some p)"
      "readiness_digest (ra_snapshot a) = Inr (rp_readiness_digest p)"
      "r = \<lparr>bo_projection = Some p, bo_replayed = True, bo_reason = ReadinessReady\<rparr>" "t = s"
  | (published) a m d q u where "ng_authority g (bf_batch_id c) s = Inr a"
      "readiness_reason (ra_snapshot a) = ReadinessReady" "ng_lookup g (readiness_identity_scope a) s = Inr None"
      "ng_snapshot g (rn_batch_id (ra_snapshot a)) s = Inr m" "rm_batch_version m = bf_expected_batch_version c"
      "rm_snapshot m = ra_snapshot a" "readiness_digest (ra_snapshot a) = Inr d"
      "readiness_publication_of a m d = Inr q" "ng_publish g q s = (Inr u, t)"
      "r = \<lparr>bo_projection = Some (rr_value u), bo_replayed = rr_replayed u, bo_reason = ReadinessReady\<rparr>"
proof -
  obtain a where a: "ng_authority g (bf_batch_id c) s = Inr a"
    using assms unfolding begin_batch_finalization_def by (auto simp: action_simps)
  show thesis
  proof (cases "readiness_reason (ra_snapshot a) = ReadinessReady")
    case False
    then show thesis using assms a that(1) unfolding begin_batch_finalization_def by (auto simp: action_simps)
  next
    case True
    then obtain stored where l: "ng_lookup g (readiness_identity_scope a) s = Inr stored"
      using assms a unfolding begin_batch_finalization_def by (auto simp: action_simps)
    show thesis
    proof (cases stored)
      case (Some p)
      then show thesis using assms a l True that(2) [of a p] unfolding begin_batch_finalization_def
        by (auto simp: action_simps result_simps stored_readiness_def split: if_splits)
    next
      case None
      then have "publish_readiness g c a s = (Inr r, t)"
        using assms a l True unfolding begin_batch_finalization_def by (auto simp: action_simps)
      then show thesis using None a l True that(3) [of a] unfolding publish_readiness_def Let_def
        by (auto simp: action_simps result_simps)
    qed
  qed
qed

section \<open>The closures of a snapshot own every manifest item once\<close>

lemma mset_concat_map: "mset (concat (map f xs)) = \<Sum>\<^sub># (image_mset (\<lambda>x. mset (f x)) (mset xs))"
  by (induction xs) auto

lemma mset_concat_map_cong: "mset xs = mset ys \<Longrightarrow> mset (concat (map f xs)) = mset (concat (map f ys))"
  by (simp add: mset_concat_map)

lemma find_last_Some: "find_last P xs = Some x \<Longrightarrow> x \<in> set xs \<and> P x"
  by (auto simp: find_last_def dest: find_SomeD)

text \<open>Values of the plan have passed their validators.\<close>

definition sound_plan :: "bound_shard_plan \<Rightarrow> bool" where
  "sound_plan bound \<longleftrightarrow> wf_manifest (sp_manifest (bp_plan bound)) \<and> check_shard_plan (bp_plan bound) = None \<and>
     check_bound_shard_plan bound = None"

lemma sound_plan_bindings:
  assumes "sound_plan bound"
  shows "distinct (map rb_run_id (bp_bindings bound))"
    "distinct (map ps_shard_index (sp_shards (bp_plan bound)))"
    "mset (map rb_shard_index (bp_bindings bound)) = mset (map ps_shard_index (sp_shards (bp_plan bound)))"
    "mset (concat (map ps_item_indices (sp_shards (bp_plan bound)))) =
       mset (map it_item_index (cm_items (sp_manifest (bp_plan bound))))"
proof -
  have wf: "wf_items (cm_items (sp_manifest (bp_plan bound)))"
    using assms by (auto simp: sound_plan_def intro: wf_manifest_items)
  have ok: "first_some (plan_candidate_checks (cm_items (sp_manifest (bp_plan bound))) (sp_shards (bp_plan bound))) = None"
    using assms by (simp add: sound_plan_def check_shard_plan_def validate_plan_candidate_def Let_def result_simps)
  note cover = accepted_cover [OF wf ok]
  show d: "distinct (map ps_shard_index (sp_shards (bp_plan bound)))"
    unfolding cover(2) by (simp add: distinct_map inj_on_def)
  have b: "first_some (run_binding_checks (bp_plan bound) (bp_bindings bound)) = None"
    using assms by (auto simp: sound_plan_def check_bound_shard_plan_def result_simps)
  then show "distinct (map rb_run_id (bp_bindings bound))"
    by (auto simp: run_binding_checks_def result_simps)
  show "mset (map rb_shard_index (bp_bindings bound)) = mset (map ps_shard_index (sp_shards (bp_plan bound)))"
    using b exact_cover_None [OF d] by (auto simp: run_binding_checks_def result_simps)
  show "mset (concat (map ps_item_indices (sp_shards (bp_plan bound)))) =
       mset (map it_item_index (cm_items (sp_manifest (bp_plan bound))))"
    by (rule cover(1))
qed

lemma owned_indices_binding:
  assumes "sound_plan bound" "b \<in> set (bp_bindings bound)" "s \<in> set (sp_shards (bp_plan bound))"
    "ps_shard_index s = rb_shard_index b"
  shows "owned_indices bound (rb_run_id b) = Inr (ps_item_indices s)"
proof -
  note p = sound_plan_bindings [OF assms(1)]
  have "find_last (\<lambda>x. rb_run_id x = rb_run_id b) (bp_bindings bound) = Some b"
    using assms(2) p(1) by (intro find_last_unique) (auto simp: distinct_map inj_on_def)
  moreover have "find_last (\<lambda>x. ps_shard_index x = rb_shard_index b) (sp_shards (bp_plan bound)) = Some s"
    using assms(3,4) p(2) by (intro find_last_unique) (auto simp: distinct_map inj_on_def)
  ultimately show ?thesis by (simp add: owned_indices_def)
qed

definition owned :: "bound_shard_plan \<Rightarrow> string \<Rightarrow> int list" where
  "owned bound run_id = (case owned_indices bound run_id of Inr k \<Rightarrow> k | Inl _ \<Rightarrow> [])"

text \<open>The shards of all Runs together are the manifest.\<close>

lemma owned_cover:
  assumes "sound_plan bound"
  shows "mset (concat (map (owned bound) (map rb_run_id (bp_bindings bound)))) =
    mset (map it_item_index (cm_items (sp_manifest (bp_plan bound))))"
proof -
  note p = sound_plan_bindings [OF assms]
  define own where "own k = ps_item_indices (the (find (\<lambda>s. ps_shard_index s = k) (sp_shards (bp_plan bound))))" for k
  have shard: "\<exists>s \<in> set (sp_shards (bp_plan bound)). ps_shard_index s = k \<and> own k = ps_item_indices s"
    if "k \<in> set (map ps_shard_index (sp_shards (bp_plan bound)))" for k
  proof -
    obtain s where "find (\<lambda>s. ps_shard_index s = k) (sp_shards (bp_plan bound)) = Some s"
      using \<open>k \<in> _\<close> by (cases "find (\<lambda>s. ps_shard_index s = k) (sp_shards (bp_plan bound))") (auto simp: find_None_iff)
    then show ?thesis by (auto simp: own_def dest: find_SomeD)
  qed
  have own_shard: "own (ps_shard_index s) = ps_item_indices s" if "s \<in> set (sp_shards (bp_plan bound))" for s
    using shard [of "ps_shard_index s"] that p(2) by (auto simp: distinct_map inj_on_def)
  have "owned bound (rb_run_id b) = own (rb_shard_index b)" if "b \<in> set (bp_bindings bound)" for b
  proof -
    have "rb_shard_index b \<in> set (map ps_shard_index (sp_shards (bp_plan bound)))"
      using that mset_eq_setD [OF p(3)] by auto
    then obtain s where "s \<in> set (sp_shards (bp_plan bound))" "ps_shard_index s = rb_shard_index b"
      "own (rb_shard_index b) = ps_item_indices s" using shard by blast
    then show ?thesis using owned_indices_binding [OF assms that] by (simp add: owned_def)
  qed
  then have "mset (concat (map (owned bound) (map rb_run_id (bp_bindings bound)))) =
      mset (concat (map own (map rb_shard_index (bp_bindings bound))))"
    by (simp cong: map_cong)
  also have "\<dots> = mset (concat (map own (map ps_shard_index (sp_shards (bp_plan bound)))))"
    by (rule mset_concat_map_cong [OF p(3)])
  also have "\<dots> = mset (concat (map ps_item_indices (sp_shards (bp_plan bound))))"
    using own_shard by (simp cong: map_cong)
  finally show ?thesis using p(4) by simp
qed

lemma snapshot_owns_manifest:
  assumes "check_readiness_snapshot n = None" "sound_plan (fz_bound_plan (rn_frozen_plan n))"
  shows "mset (concat (map closure_keys (rn_run_closures n))) =
    mset (shard_keys (rn_manifest_id n) (map it_item_index (cm_items (sp_manifest (rn_plan n)))))"
proof -
  let ?own = "owned (fz_bound_plan (rn_frozen_plan n))"
  have "\<not> run_closures_mismatch n" "\<not> frozen_plan_mismatch n"
    "\<forall>c \<in> set (rn_run_closures n). ownership_check n c = None"
    using assms(1) by (auto simp: check_readiness_snapshot_def Let_def result_simps)
  then have ids: "map closure_run_id (rn_run_closures n) = sort (map rb_run_id (rn_bindings n))"
    and keys: "\<And>c. c \<in> set (rn_run_closures n) \<Longrightarrow> closure_keys c = shard_keys (rn_manifest_id n) (?own (closure_run_id c))"
    by (auto simp: run_closures_mismatch_def frozen_plan_mismatch_def ownership_check_def owned_def result_simps)
  have "concat (map closure_keys (rn_run_closures n)) =
      shard_keys (rn_manifest_id n) (concat (map ?own (map closure_run_id (rn_run_closures n))))"
    using keys by (induction "rn_run_closures n" rule: rev_induct) (simp_all add: shard_keys_def map_concat comp_def cong: map_cong)
  then have "mset (concat (map closure_keys (rn_run_closures n))) =
      image_mset (\<lambda>k. \<lparr>rk_manifest_id = rn_manifest_id n, rk_item_index = k\<rparr>)
        (mset (concat (map ?own (sort (map rb_run_id (rn_bindings n))))))"
    by (simp add: shard_keys_def ids)
  also have "mset (concat (map ?own (sort (map rb_run_id (rn_bindings n))))) =
      mset (concat (map ?own (map rb_run_id (rn_bindings n))))"
    by (rule mset_concat_map_cong) simp
  finally show ?thesis unfolding owned_cover [OF assms(2)] by (simp add: shard_keys_def image_mset.compositionality)
qed

lemma readiness_publication_Inr:
  assumes "readiness_publication_of a m d = Inr q"
  shows "rq_authority q = a" "rq_expected q = m"
    "rq_projection q = \<lparr>rp_batch_id = rn_batch_id (ra_snapshot a), rp_source_batch_version = rn_source_batch_version (ra_snapshot a),
       rp_batch_version = rm_batch_version m + 1, rp_state = BatchFinalizing, rp_readiness_digest = d\<rparr>"
    "readiness_publication_mismatch q = Inr False"
  using assms by (auto simp: readiness_publication_of_def check_readiness_publication_def Let_def result_simps)

end
