(* ===== verification/Readiness_Properties.thy ===== *)
theory Readiness_Properties
  imports Planning_Properties Batch_Readiness Finalization_Samples
begin

text \<open>
  What a Batch that enters finalization accounts for, over every gateway, with a sample Batch of one
  item, one shard and one closed Run.
\<close>

section \<open>Entering finalization\<close>

text \<open>The snapshots a gateway returns have passed their constructors.\<close>

definition sound_snapshot :: "readiness_snapshot \<Rightarrow> bool" where
  "sound_snapshot n \<longleftrightarrow> check_readiness_snapshot n = None \<and> sound_plan (fz_bound_plan (rn_frozen_plan n)) \<and>
     (\<forall>k \<in> set (rn_run_closures n). check_batch_run_closure k = None)"

text \<open>
  C18: A Batch enters finalization only when every item of its manifest is accounted for. When the handler
  returns a projection that is not a replay, no retry intent is pending and no Attempt can still be created,
  every Run of the frozen plan is closed without retry on the basis its handoff announced, the item keys of
  the Runs together are exactly the items of the manifest, each once, and what was published is the FINALIZING
  projection of the next version with the digest of exactly this snapshot.
\<close>

theorem finalizing_accounts_for_every_item:
  assumes "begin_batch_finalization g c s = (Inr r, t)" "bo_projection r \<noteq> None" "\<not> bo_replayed r"
    "\<forall>a. ng_authority g (bf_batch_id c) s = Inr a \<longrightarrow> sound_snapshot (ra_snapshot a)"
  shows "\<exists>a q u d. ng_authority g (bf_batch_id c) s = Inr a \<and> ng_publish g q s = (Inr u, t) \<and>
    bo_projection r = Some (rr_value u) \<and> readiness_digest (ra_snapshot a) = Inr d \<and>
    (let n = ra_snapshot a in rn_pending_retry_intents n = [] \<and> rn_opportunities n = [] \<and>
      map closure_run_id (rn_run_closures n) = sort (map rb_run_id (rn_bindings n)) \<and>
      (\<forall>k \<in> set (rn_run_closures n). fs_phase (rl_state k) = PhaseClosed \<and> fs_disposition (rl_state k) = Some ClosedNoRetry \<and>
         run_basis_digest (rl_basis k) = Inr (ch_run_basis_digest (rl_handoff k)) \<and>
         resolution_set_digest (rl_resolution_set k) = Inr (fb_item_resolution_set_digest (rl_basis k))) \<and>
      mset (concat (map closure_keys (rn_run_closures n))) =
        mset (map (\<lambda>i. \<lparr>rk_manifest_id = rn_manifest_id n, rk_item_index = it_item_index i\<rparr>)
          (cm_items (sp_manifest (rn_plan n)))) \<and>
      distinct (concat (map closure_keys (rn_run_closures n))) \<and>
      rq_projection q = \<lparr>rp_batch_id = rn_batch_id n, rp_source_batch_version = rn_source_batch_version n,
        rp_batch_version = bf_expected_batch_version c + 1, rp_state = BatchFinalizing, rp_readiness_digest = d\<rparr>)"
  using assms(1)
proof (cases rule: begin_finalization_Inr)
  case (published a m d q u)
  let ?n = "ra_snapshot a"
  have sound: "check_readiness_snapshot ?n = None" "sound_plan (fz_bound_plan (rn_frozen_plan ?n))"
    "\<forall>k \<in> set (rn_run_closures ?n). check_batch_run_closure k = None"
    using assms(4) published(1) by (auto simp: sound_snapshot_def)
  have ready: "rn_pending_retry_intents ?n = []" "rn_opportunities ?n = []"
    using published(2) by (auto simp: readiness_reason_def split: if_splits)
  have runs: "map closure_run_id (rn_run_closures ?n) = sort (map rb_run_id (rn_bindings ?n))"
    using sound(1) by (auto simp: check_readiness_snapshot_def run_closures_mismatch_def frozen_plan_mismatch_def Let_def
        result_simps)
  have closed: "fs_phase (rl_state k) = PhaseClosed \<and> fs_disposition (rl_state k) = Some ClosedNoRetry \<and>
      run_basis_digest (rl_basis k) = Inr (ch_run_basis_digest (rl_handoff k)) \<and>
      resolution_set_digest (rl_resolution_set k) = Inr (fb_item_resolution_set_digest (rl_basis k))"
    if "k \<in> set (rn_run_closures ?n)" for k
  proof -
    have "closure_mismatch k = Inr False" using sound(3) that by (simp add: check_batch_run_closure_def result_simps)
    then show ?thesis unfolding closure_mismatch_def Let_def any_of_False by (auto simp: result_simps)
  qed
  have keys: "mset (concat (map closure_keys (rn_run_closures ?n))) =
      mset (map (\<lambda>i. \<lparr>rk_manifest_id = rn_manifest_id ?n, rk_item_index = it_item_index i\<rparr>)
        (cm_items (sp_manifest (rn_plan ?n))))"
    using snapshot_owns_manifest [OF sound(1,2)] by (simp add: shard_keys_def comp_def)
  have "distinct (map it_item_index (cm_items (sp_manifest (rn_plan ?n))))"
    using sound(2) wf_items_sorted(2) [OF wf_manifest_items] by (auto simp: sound_plan_def)
  then have "distinct (map (\<lambda>i. \<lparr>rk_manifest_id = rn_manifest_id ?n, rk_item_index = it_item_index i\<rparr>)
      (cm_items (sp_manifest (rn_plan ?n))))"
    by (simp add: distinct_map inj_on_def)
  then have "distinct (concat (map closure_keys (rn_run_closures ?n)))"
    using keys by (metis mset_eq_imp_distinct_iff)
  then show ?thesis
    using published ready runs closed keys readiness_publication_Inr(3) [OF published(8)]
    by (intro exI [of _ a] exI [of _ q] exI [of _ u] exI [of _ d]) (simp add: Let_def)
qed (use assms(2,3) in simp_all)

section \<open>A Batch of one item\<close>

definition one_item :: "manifest_item list" where
  "one_item = [sample_item 0 ''c0'' ''ga'' 5]"

lemma one_item_plannable: "plannable (manifest_of one_item)"
proof -
  have "json_safe (manifest_json sample_inputs one_item)"
    by (simp add: manifest_json_def manifest_item_json_def strings_json_def one_item_def sample_item_def sample_inputs_def
        safe_int_def)
  then show ?thesis
    by (simp add: manifest_check_defs canonical_digest_safe one_item_def sample_item_def manifest_of_def sample_inputs_def
        blank_eval upt_rec)
qed

definition planned_basis :: "shard_plan \<Rightarrow> run_basis" where
  "planned_basis p = sample_basis\<lparr>fb_manifest_digest := cm_digest (sp_manifest p), fb_shard_plan_digest := sp_digest p\<rparr>"

definition "planned_basis_digest p = digest_or_empty (run_basis_digest (planned_basis p))"

lemma planned_basis_digest: "run_basis_digest (planned_basis p) = Inr (planned_basis_digest p)"
  unfolding planned_basis_digest_def
  by (rule digest_or_empty)
    (simp add: run_basis_digest_def run_basis_members_def decision_ref_json_def planned_basis_def sample_basis_def
      sample_rule_def result_simps digest_json_def safe_int_def)

definition one_bound :: "shard_plan \<Rightarrow> bound_shard_plan" where
  "one_bound p = \<lparr>bp_plan = p, bp_bindings = [\<lparr>rb_run_id = ''r'', rb_shard_index = 0\<rparr>]\<rparr>"

definition one_closure :: "shard_plan \<Rightarrow> batch_run_closure" where
  "one_closure p =
     \<lparr>rl_handoff = handoff_of_basis (planned_basis p) (planned_basis_digest p) (Digest ''id'') (Digest ''auth'') 1 (Digest ''p''),
      rl_basis = planned_basis p, rl_resolution_set = sample_set,
      rl_state = \<lparr>fs_phase = PhaseClosed, fs_disposition = Some ClosedNoRetry, fs_outcome = Some OutcomePassed,
        fs_finalization_basis_digest = Some (planned_basis_digest p), fs_latest_attempt_fact = Some FactPassed,
        fs_current_assignment_id = None, fs_pending_retry_intent_id = None\<rparr>\<rparr>"

definition one_snapshot :: "shard_plan \<Rightarrow> readiness_snapshot" where
  "one_snapshot p =
     \<lparr>rn_batch_id = ''b'', rn_source_batch_version = 6, rn_manifest_id = ''m'',
      rn_manifest_digest = cm_digest (sp_manifest p), rn_item_count = 1, rn_shard_plan_id = sp_id p,
      rn_frozen_plan = \<lparr>fz_plan_version = 1, fz_bound_plan = one_bound p,
        fz_binding_digest = digest_or_empty (frozen_plan_digest 1 (one_bound p))\<rparr>,
      rn_canonical_run_ids = [''r''], rn_canonical_run_set_digest = sample_run_set_digest,
      rn_success_policy = sample_policy, rn_cancellation_intent_digest = None, rn_run_closures = [one_closure p],
      rn_pending_retry_intents = [], rn_opportunities = []\<rparr>"

definition readiness_store :: "shard_plan \<Rightarrow> readiness_projection option readiness_gateway" where
  "readiness_store p =
     \<lparr>ng_authority = (\<lambda>_ _. Inr \<lparr>ra_snapshot = one_snapshot p, ra_authority_digest = Digest ''auth'', ra_write_epoch = 1\<rparr>),
      ng_lookup = (\<lambda>_ st. Inr st),
      ng_snapshot = (\<lambda>_ _. Inr \<lparr>rm_batch_id = ''b'', rm_batch_version = 6, rm_state = BatchRunning, rm_snapshot = one_snapshot p\<rparr>),
      ng_publish = (\<lambda>q _. (Inr \<lparr>rr_value = rq_projection q, rr_replayed = False\<rparr>, Some (rq_projection q)))\<rparr>"

definition begin_sample :: begin_finalization_command where
  "begin_sample = \<lparr>bf_batch_id = ''b'', bf_expected_batch_version = 6\<rparr>"

lemma one_closure_ok: "check_batch_run_closure (one_closure p) = None"
  using planned_basis_digest [of p] sample_digests(4)
  by (simp add: check_batch_run_closure_def closure_mismatch_def one_closure_def Let_def handoff_of_basis_def result_simps)
    (simp add: planned_basis_def sample_basis_def sample_set_def)

lemma one_bound_sound:
  assumes "check_shard_plan p = None" "sp_manifest p = manifest_of one_item" "sp_shards p = part_shards 0 [one_item]"
  shows "sound_plan (one_bound p)"
  using assms one_item_plannable
  by (simp add: sound_plan_def plannable_def check_bound_shard_plan_def run_binding_checks_def exact_cover_checks_def
      one_bound_def part_shard_def result_simps)

lemma one_snapshot_sound:
  assumes "check_shard_plan p = None" "sp_manifest p = manifest_of one_item" "sp_shards p = part_shards 0 [one_item]"
  shows "sound_snapshot (one_snapshot p)" "\<exists>d. readiness_digest (one_snapshot p) = Inr d"
proof -
  have p: "\<not> blank (sp_id p)" "sp_batch_id p = ''b''"
    using assms(1,2) by (auto simp: check_shard_plan_def Let_def manifest_string_def manifest_of_def result_simps)
  have run: "closure_run_id (one_closure p) = ''r''" "fb_batch_id (rl_basis (one_closure p)) = ''b''"
    "fb_manifest_digest (rl_basis (one_closure p)) = cm_digest (sp_manifest p)"
    "fb_shard_plan_digest (rl_basis (one_closure p)) = sp_digest p" "closure_keys (one_closure p) = [sample_key]"
    by (simp_all add: closure_run_id_def one_closure_def planned_basis_def sample_basis_def closure_keys_def sample_set_def
        sample_resolution_def)
  have own: "owned_indices (one_bound p) ''r'' = Inr [0]"
    by (simp add: owned_indices_def one_bound_def find_last_def assms(3) part_shard_def one_item_def sample_item_def)
  have "check_readiness_snapshot (one_snapshot p) = None"
    using p run own assms(2)
    by (simp add: check_readiness_snapshot_def one_snapshot_def canonical_strings_checks_def frozen_plan_mismatch_def
        rn_shard_plan_digest_def run_closures_mismatch_def ownership_check_def sample_run_set_digest one_bound_def
        manifest_of_def one_item_def shard_keys_def sample_key_def blank_eval result_simps Let_def)
  then show "sound_snapshot (one_snapshot p)"
    using one_bound_sound [OF assms] one_closure_ok by (simp add: sound_snapshot_def) (simp add: one_snapshot_def)
  show "\<exists>d. readiness_digest (one_snapshot p) = Inr d"
    using planned_basis_digest [of p]
    by (simp add: readiness_digest_def one_snapshot_def one_closure_def sample_success_policy_digest
        strings_json_def digest_json_def safe_int_def result_simps)
qed

lemma one_item_plan:
  obtains p where "check_shard_plan p = None" "sp_manifest p = manifest_of one_item" "sp_shards p = part_shards 0 [one_item]"
proof -
  have "\<forall>i \<in> set (cm_items (manifest_of one_item)). it_resource_profile_id i = ''p''"
    by (simp add: manifest_of_def one_item_def sample_item_def)
  from plan_single_shard_parts [OF one_item_plannable _ _ this, of "''plan''" "''v1''"] show thesis
    using that by (auto simp: blank_eval manifest_of_def)
qed

theorem finalizing_accounts_for_every_item_witness:
  "\<exists>p r t. begin_batch_finalization (readiness_store p) begin_sample None = (Inr r, t) \<and>
     (\<exists>d. bo_projection r = Some \<lparr>rp_batch_id = ''b'', rp_source_batch_version = 6, rp_batch_version = 7,
        rp_state = BatchFinalizing, rp_readiness_digest = d\<rparr>) \<and>
     mset (concat (map closure_keys (rn_run_closures (one_snapshot p)))) = {#sample_key#}"
proof -
  obtain p where p: "check_shard_plan p = None" "sp_manifest p = manifest_of one_item" "sp_shards p = part_shards 0 [one_item]"
    by (rule one_item_plan)
  obtain d where d: "readiness_digest (one_snapshot p) = Inr d" using one_snapshot_sound(2) [OF p] by blast
  have fields: "rn_batch_id (one_snapshot p) = ''b''" "rn_source_batch_version (one_snapshot p) = 6"
    "readiness_reason (one_snapshot p) = ReadinessReady" "rn_manifest_id (one_snapshot p) = ''m''" "rn_plan (one_snapshot p) = p"
    by (simp_all add: one_snapshot_def readiness_reason_def one_bound_def)
  obtain r t where r: "begin_batch_finalization (readiness_store p) begin_sample None = (Inr r, t)"
    "bo_projection r \<noteq> None" "\<not> bo_replayed r"
    using d fields
    by (simp add: begin_batch_finalization_def publish_readiness_def readiness_publication_of_def check_readiness_projection_def
        check_readiness_side_effect_def check_readiness_publication_def readiness_publication_mismatch_def readiness_store_def
        begin_sample_def port_string_def port_nonnegative_def port_positive_def blank_eval result_simps raise_when_def and_then_def run_simps Let_def)
  have "\<forall>a. ng_authority (readiness_store p) (bf_batch_id begin_sample) None = Inr a \<longrightarrow> sound_snapshot (ra_snapshot a)"
    using one_snapshot_sound(1) [OF p] by (auto simp: readiness_store_def)
  from finalizing_accounts_for_every_item [OF r this] show ?thesis
    using r(1) fields p(2)
    by (intro exI [of _ p] exI [of _ r] exI [of _ t])
      (auto simp: readiness_store_def begin_sample_def Let_def manifest_of_def one_item_def sample_item_def sample_key_def)
qed

end
