(* ===== verification/Retry_Queue.thy ===== *)
theory Retry_Queue
  imports Application_Basis Run_Commands Duplicate_Risk
begin

text \<open>
  Queueing a retry of a Run: the facts of the port with their contracts
  (\<open>src/qarunner/application/ports/run_retry.py\<close>) and the two handlers of \<open>application/run_retry.py\<close>, for a
  retry that a policy decided and for one that an adjudication permits. The gateway is a parameter.
\<close>

section \<open>Reservations and receipts\<close>

record budget_reservation =
  bvr_retry_intent_digest :: digest
  bvr_decision_digest :: digest
  bvr_configured :: retry_budget
  bvr_usage :: retry_budget_usage
  bvr_requested :: retry_requested_budget

definition reservation_from_decision :: "run_retry_decision \<Rightarrow> budget_reservation answer" where
  "reservation_from_decision d =
     (case rd_retry_intent_digest d of
        None \<Rightarrow> Inl (PortContractError ''retry_budget_reservation'' ''decision'' ''closed_no_retry'')
      | Some i \<Rightarrow> map_result (\<lambda>h. \<lparr>bvr_retry_intent_digest = i, bvr_decision_digest = h,
          bvr_configured = rd_budget d, bvr_usage = rd_usage d, bvr_requested = rd_requested d\<rparr>)
          (of_domain (run_retry_decision_digest d)))"

record queue_receipt =
  qr_intent :: retry_intent
  qr_reservation :: "budget_reservation option"
  qr_consumption :: "duplicate_risk_consumption option"
  qr_queue_decision_digest :: digest
  qr_queue_identity_scope :: "string \<times> string"
  qr_queued_run_version :: int
  qr_queue_writer_digest :: digest
  qr_queue_write_epoch :: int

text \<open>The participants that the kind of authority requires or forbids.\<close>

definition receipt_participants :: "queue_receipt \<Rightarrow> app_error option list" where
  "receipt_participants r =
     (let invalid = PortContractError ''retry_queue_receipt'' in
     case ri_authority (qr_intent r) of
       UnknownAuthority a \<Rightarrow>
         [reject_if (qr_reservation r \<noteq> None) (invalid ''reservation'' ''forbidden''),
          reject_if ((ur_decision a = AcceptDuplicateRiskThenRetry) \<noteq> (qr_consumption r \<noteq> None))
            (invalid ''duplicate_acceptance_consumption'' ''decision_mismatch'')]
     | PolicyAuthority a \<Rightarrow>
         (case qr_reservation r of
            None \<Rightarrow> [Some (invalid ''reservation'' ''required'')]
          | Some v \<Rightarrow>
              [reject_if (qr_consumption r \<noteq> None) (invalid ''duplicate_acceptance_consumption'' ''forbidden''),
               reject_if_result (map_result (\<lambda>d. bvr_retry_intent_digest v \<noteq> d)
                   (of_domain (retry_intent_digest (qr_intent r)))) (invalid ''reservation'' ''binding_mismatch''),
               reject_if (bvr_decision_digest v \<noteq> qr_queue_decision_digest r)
                 (invalid ''queue_decision_digest'' ''binding_mismatch'')]))"

definition check_queue_receipt :: "queue_receipt \<Rightarrow> app_error option" where
  "check_queue_receipt r =
     (let e = ''retry_queue_receipt'' in first_some (
     [reject_if (\<not> scope_ok (qr_queue_identity_scope r)) (PortContractError e ''queue_identity_scope'' ''invalid''),
      port_nonnegative e ''queued_run_version'' (qr_queued_run_version r),
      port_positive e ''queue_write_epoch'' (qr_queue_write_epoch r)] @ receipt_participants r))"

definition queue_receipt_digest :: "queue_receipt \<Rightarrow> digest result" where
  "queue_receipt_digest r =
     bind_result (retry_intent_digest (qr_intent r)) (\<lambda>intent_digest.
     bind_result (case qr_consumption r of None \<Rightarrow> Inr None
        | Some c \<Rightarrow> map_result Some (duplicate_risk_consumption_digest c)) (\<lambda>consumption_digest.
     canonical_digest ''qep.retry-queue-receipt.v1'' (JObj
       [(''intent_digest'', digest_json intent_digest),
        (''queue_identity_scope'', JList [JStr (fst (qr_queue_identity_scope r)), JStr (snd (qr_queue_identity_scope r))]),
        (''queued_run_version'', JInt (qr_queued_run_version r)),
        (''queue_writer_digest'', digest_json (qr_queue_writer_digest r)),
        (''queue_write_epoch'', JInt (qr_queue_write_epoch r)),
        (''queue_decision_digest'', digest_json (qr_queue_decision_digest r)),
        (''reservation_decision_digest'', json_opt (\<lambda>v. digest_json (bvr_decision_digest v)) (qr_reservation r)),
        (''consumption_digest'', json_opt digest_json consumption_digest)])))"

record retry_projection =
  pj_run :: run
  pj_decision_digest :: digest
  pj_retry_intent_digest :: "digest option"

record queue_result =
  qp_projection :: retry_projection
  qp_receipt :: "queue_receipt option"

definition check_queue_result :: "queue_result \<Rightarrow> app_error option" where
  "check_queue_result q =
     reject_if ((pj_retry_intent_digest (qp_projection q) \<noteq> None) \<noteq> (qp_receipt q \<noteq> None))
       (PortContractError ''retry_queue_publication_result'' ''receipt'' ''decision_mismatch'')"

section \<open>Authorities and snapshots\<close>

record retry_write_authority =
  rw_run_id :: string
  rw_writer_digest :: digest
  rw_policy_digest :: digest
  rw_authority_schema :: string
  rw_authority_id :: string
  rw_authority_version :: int
  rw_authority_digest :: digest
  rw_write_epoch :: int

definition check_retry_write_authority :: "retry_write_authority \<Rightarrow> app_error option" where
  "check_retry_write_authority a =
     (let e = ''run_retry_write_authority'' in first_some
     [port_string e ''run_id'' (rw_run_id a), port_string e ''authority_schema'' (rw_authority_schema a),
      port_string e ''authority_id'' (rw_authority_id a), port_positive e ''authority_version'' (rw_authority_version a),
      port_positive e ''write_epoch'' (rw_write_epoch a)])"

record unknown_write_authority =
  uw_run_id :: string
  uw_attempt_id :: string
  uw_attempt_version :: int
  uw_attempt_fence :: int
  uw_adjudication_id :: string
  uw_adjudication_digest :: digest
  uw_decision :: unknown_decision
  uw_proof_digest :: "digest option"
  uw_risk_acceptance_basis_digest :: "digest option"
  uw_writer_digest :: digest
  uw_write_epoch :: int

definition check_unknown_write_authority :: "unknown_write_authority \<Rightarrow> app_error option" where
  "check_unknown_write_authority a =
     (let e = ''unknown_retry_write_authority''; invalid = PortContractError e in first_some (
     [port_string e ''run_id'' (uw_run_id a), port_string e ''attempt_id'' (uw_attempt_id a),
      port_string e ''adjudication_id'' (uw_adjudication_id a),
      port_nonnegative e ''attempt_version'' (uw_attempt_version a),
      port_positive e ''attempt_fence'' (uw_attempt_fence a)] @
     (case uw_decision a of
        ConfirmStoppedThenRetry \<Rightarrow>
          [reject_if (uw_proof_digest a = None) (invalid ''proof_digest'' ''not_digest''),
           reject_if (uw_risk_acceptance_basis_digest a \<noteq> None) (invalid ''risk_acceptance_basis_digest'' ''forbidden'')]
      | AcceptDuplicateRiskThenRetry \<Rightarrow>
          [reject_if (uw_risk_acceptance_basis_digest a = None) (invalid ''risk_acceptance_basis_digest'' ''not_digest''),
           reject_if (uw_proof_digest a \<noteq> None) (invalid ''proof_digest'' ''forbidden'')]
      | _ \<Rightarrow> [Some (invalid ''decision'' ''nonretry'')]) @
     [port_positive e ''write_epoch'' (uw_write_epoch a)]))"

record retry_mutation_snapshot =
  rms_run :: run
  rms_attempt_version :: int

definition check_retry_mutation_snapshot :: "retry_mutation_snapshot \<Rightarrow> app_error option" where
  "check_retry_mutation_snapshot m =
     port_nonnegative ''run_retry_mutation_snapshot'' ''attempt_version'' (rms_attempt_version m)"

record unknown_mutation_binding =
  ub_run_item_set_digest :: digest
  ub_sut_identity :: string
  ub_sut_digest :: digest
  ub_target_grant_identity :: string
  ub_target_grant_version :: int
  ub_target_grant_digest :: digest

definition check_unknown_mutation_binding :: "unknown_mutation_binding \<Rightarrow> app_error option" where
  "check_unknown_mutation_binding b =
     (let e = ''unknown_retry_mutation_binding'' in first_some
     [port_string e ''sut_identity'' (ub_sut_identity b),
      port_string e ''target_grant_identity'' (ub_target_grant_identity b),
      port_positive e ''target_grant_version'' (ub_target_grant_version b)])"

record unknown_mutation_snapshot =
  ums_run :: run
  ums_attempt_version :: int
  ums_binding :: unknown_mutation_binding

definition check_unknown_mutation_snapshot :: "unknown_mutation_snapshot \<Rightarrow> app_error option" where
  "check_unknown_mutation_snapshot m =
     port_nonnegative ''unknown_retry_mutation_snapshot'' ''attempt_version'' (ums_attempt_version m)"

record retry_side_effect =
  sx_run_id :: string
  sx_decision_digest :: digest
  sx_retry_intent_digest :: "digest option"

definition check_retry_side_effect :: "retry_side_effect \<Rightarrow> app_error option" where
  "check_retry_side_effect x = port_string ''run_retry_side_effect'' ''run_id'' (sx_run_id x)"

definition mk_retry_side_effect :: "string \<Rightarrow> digest \<Rightarrow> digest option \<Rightarrow> retry_side_effect answer" where
  "mk_retry_side_effect rid decision_digest intent_digest =
     (let x = \<lparr>sx_run_id = rid, sx_decision_digest = decision_digest, sx_retry_intent_digest = intent_digest\<rparr>
      in raise_or (check_retry_side_effect x) x)"

section \<open>The publications\<close>

definition opt_intent_digest :: "retry_intent option \<Rightarrow> digest option result" where
  "opt_intent_digest i = (case i of None \<Rightarrow> Inr None | Some x \<Rightarrow> map_result Some (retry_intent_digest x))"

record policy_publication =
  pq_identity_scope :: "string \<times> string"
  pq_authority :: retry_write_authority
  pq_expected_snapshot :: retry_mutation_snapshot
  pq_intent :: "retry_intent option"
  pq_decision :: run_retry_decision
  pq_projection :: retry_projection
  pq_reservation :: "budget_reservation option"
  pq_side_effect :: retry_side_effect

text \<open>The authority that decided is the one that may write.\<close>

definition authority_superseded :: "retry_write_authority \<Rightarrow> run_retry_decision \<Rightarrow> bool" where
  "authority_superseded a d \<longleftrightarrow>
     Some (rw_policy_digest a) \<noteq> rd_policy_digest d \<or> Some (rw_authority_schema a) \<noteq> rd_authority_schema d \<or>
     Some (rw_authority_id a) \<noteq> rd_authority_id d \<or> Some (rw_authority_version a) \<noteq> rd_authority_version d \<or>
     Some (rw_authority_digest a) \<noteq> rd_authority_digest d"

definition policy_publication_mismatch :: "policy_publication \<Rightarrow> bool answer" where
  "policy_publication_mismatch q =
     (let a = pq_authority q; d = pq_decision q; p = pq_projection q; x = pq_side_effect q;
          source = sf_run_id (rd_source d) in
     bind_result (of_domain (opt_intent_digest (pq_intent q))) (\<lambda>intent_digest. any_of (
     [Inr (rw_run_id a \<noteq> source), Inr (authority_superseded a d),
      Inr (run_id (rms_run (pq_expected_snapshot q)) \<noteq> source), Inr (intent_digest \<noteq> rd_retry_intent_digest d),
      Inr (run_id (pj_run p) \<noteq> source),
      map_result (\<lambda>h. pj_decision_digest p \<noteq> h) (of_domain (run_retry_decision_digest d)),
      Inr (pj_retry_intent_digest p \<noteq> intent_digest)] @
     (case pq_reservation q of None \<Rightarrow> [] | Some v \<Rightarrow>
        [Inr (Some (bvr_retry_intent_digest v) \<noteq> intent_digest),
         map_result (\<lambda>h. bvr_decision_digest v \<noteq> h) (of_domain (run_retry_decision_digest d)),
         Inr (bvr_configured v \<noteq> rd_budget d), Inr (bvr_usage v \<noteq> rd_usage d),
         Inr (bvr_requested v \<noteq> rd_requested d)]) @
     [Inr (sx_run_id x \<noteq> source),
      map_result (\<lambda>h. sx_decision_digest x \<noteq> h) (of_domain (run_retry_decision_digest d)),
      Inr (sx_retry_intent_digest x \<noteq> intent_digest)])))"

definition check_policy_publication :: "policy_publication \<Rightarrow> app_error option" where
  "check_policy_publication q =
     (let e = ''run_retry_publication''; retrying = (rd_decision (pq_decision q) = DecisionRetry) in first_some
     [reject_if (\<not> scope_ok (pq_identity_scope q)) (PortContractError e ''identity_scope'' ''invalid''),
      reject_if (retrying \<noteq> (pq_intent q \<noteq> None) \<or> retrying \<noteq> (pq_reservation q \<noteq> None))
        (PortContractError e ''participants'' ''decision_mismatch''),
      reject_if_result (policy_publication_mismatch q) (PortContractError e ''binding'' ''mismatch'')])"

record unknown_publication =
  uq_identity_scope :: "string \<times> string"
  uq_authority :: unknown_write_authority
  uq_expected_snapshot :: unknown_mutation_snapshot
  uq_intent :: retry_intent
  uq_projection :: retry_projection
  uq_acceptance_request :: "duplicate_risk_request option"
  uq_side_effect :: retry_side_effect

definition acceptance_mismatch :: "unknown_publication \<Rightarrow> duplicate_risk_request \<Rightarrow> bool answer" where
  "acceptance_mismatch q request =
     (let i = uq_intent q; acc = drq_acceptance request; b = dra_basis acc; k = ums_binding (uq_expected_snapshot q) in any_of
     [map_result (\<lambda>d. uw_risk_acceptance_basis_digest (uq_authority q) \<noteq> Some d) (of_domain (duplicate_risk_basis_digest b)),
      map_result (\<lambda>d. dra_retry_intent_digest acc \<noteq> d) (of_domain (retry_intent_digest i)),
      Inr (drb_run_id b \<noteq> ri_run_id i), Inr (drb_source_attempt_id b \<noteq> ri_source_attempt_id i),
      Inr (drb_source_attempt_no b \<noteq> ri_source_attempt_no i), Inr (drb_source_fence b \<noteq> ri_source_fence i),
      Inr (drb_run_item_set_digest b \<noteq> ub_run_item_set_digest k), Inr (drb_sut_identity b \<noteq> ub_sut_identity k),
      Inr (drb_sut_digest b \<noteq> ub_sut_digest k), Inr (drb_target_grant_identity b \<noteq> ub_target_grant_identity k),
      Inr (drb_target_grant_version b \<noteq> ub_target_grant_version k),
      Inr (drb_target_grant_digest b \<noteq> ub_target_grant_digest k)])"

definition unknown_publication_mismatch :: "unknown_publication \<Rightarrow> bool answer" where
  "unknown_publication_mismatch q =
     (let a = uq_authority q; i = uq_intent q; p = uq_projection q; m = uq_expected_snapshot q in any_of
     [Inr (uw_run_id a \<noteq> ri_run_id i), Inr (uw_adjudication_id a \<noteq> intent_adjudication_id i),
      Inr (Some (uw_adjudication_digest a) \<noteq> authority_adjudication_digest (ri_authority i)),
      Inr (Some (uw_decision a) \<noteq> authority_decision (ri_authority i)),
      Inr (uw_attempt_id a \<noteq> ri_source_attempt_id i), Inr (uw_attempt_version a \<noteq> ums_attempt_version m),
      Inr (uw_attempt_fence a \<noteq> ri_source_fence i), Inr (run_id (ums_run m) \<noteq> ri_run_id i),
      Inr (run_id (pj_run p) \<noteq> ri_run_id i),
      map_result (\<lambda>d. pj_retry_intent_digest p \<noteq> Some d) (of_domain (retry_intent_digest i)),
      Inr (pj_decision_digest p \<noteq> uw_adjudication_digest a),
      bind_result (of_domain (retry_intent_digest i)) (\<lambda>d.
        map_result (\<lambda>x. uq_side_effect q \<noteq> x) (mk_retry_side_effect (ri_run_id i) (uw_adjudication_digest a) (Some d)))])"

definition check_unknown_publication :: "unknown_publication \<Rightarrow> app_error option" where
  "check_unknown_publication q =
     (let e = ''unknown_retry_publication''; duplicate = (uw_decision (uq_authority q) = AcceptDuplicateRiskThenRetry) in
     first_some (
     [reject_if (\<not> scope_ok (uq_identity_scope q)) (PortContractError e ''identity_scope'' ''invalid''),
      reject_if (authority_decision (ri_authority (uq_intent q)) = None) (PortContractError e ''intent'' ''not_unknown''),
      reject_if (duplicate \<noteq> (uq_acceptance_request q \<noteq> None)) (PortContractError e ''acceptance_request'' ''decision_mismatch'')] @
     (case uq_acceptance_request q of None \<Rightarrow> [] | Some request \<Rightarrow>
        [reject_if_result (acceptance_mismatch q request) (PortContractError e ''acceptance_binding'' ''mismatch'')]) @
     [reject_if_result (unknown_publication_mismatch q) (PortContractError e ''binding'' ''mismatch'')]))"

datatype retry_publication = PolicyPublication policy_publication | UnknownPublication unknown_publication

record 's retry_gateway =
  wr_authority :: "string \<Rightarrow> 's \<Rightarrow> retry_write_authority answer"
  wr_unknown_authority :: "string \<Rightarrow> 's \<Rightarrow> unknown_write_authority answer"
  wr_lookup :: "string \<times> string \<Rightarrow> 's \<Rightarrow> queue_result option answer"
  wr_snapshot :: "string \<Rightarrow> 's \<Rightarrow> retry_mutation_snapshot answer"
  wr_unknown_snapshot :: "string \<Rightarrow> 's \<Rightarrow> unknown_mutation_snapshot answer"
  wr_publish :: "retry_publication \<Rightarrow> (queue_result replay_result, 's) action"

section \<open>A retry decided by policy\<close>

record queue_policy_command =
  qc_identity_scope :: "string \<times> string"
  qc_candidate_intent :: "retry_intent option"
  qc_decision :: run_retry_decision
  qc_expected_run_version :: int
  qc_expected_attempt_version :: int

definition check_queue_policy_command :: "queue_policy_command \<Rightarrow> domain_error option" where
  "check_queue_policy_command c =
     (let invalid = (\<lambda>field. DomainValidationError ''queue_policy_retry_command'' field ''invalid'') in first_some
     [reject_if ((rd_decision (qc_decision c) = DecisionRetry) \<noteq> (qc_candidate_intent c \<noteq> None)) (invalid ''candidate_intent''),
      reject_if_result (map_result (\<lambda>d. rd_retry_intent_digest (qc_decision c) \<noteq> d)
        (opt_intent_digest (qc_candidate_intent c))) (invalid ''decision_binding''),
      reject_if (qc_expected_run_version c < 0) (invalid ''expected_run_version''),
      reject_if (qc_expected_attempt_version c < 0) (invalid ''expected_attempt_version''),
      reject_if (\<not> scope_ok (qc_identity_scope c)) (invalid ''identity_scope'')])"

text \<open>The result of both handlers; an adjudicated retry always has a receipt.\<close>

record queue_retry_result =
  qo_projection :: retry_projection
  qo_receipt :: "queue_receipt option"
  qo_replayed :: bool

definition scope_conflict :: "string \<times> string \<Rightarrow> digest \<Rightarrow> digest \<Rightarrow> app_error" where
  "scope_conflict scope stored received = DomainFailure (IdempotencyConflict (fst scope) (snd scope) stored received)"

definition stored_policy_mismatch :: "queue_policy_command \<Rightarrow> queue_result \<Rightarrow> bool result" where
  "stored_policy_mismatch c stored =
     (let p = qp_projection stored; d = qc_decision c in any_of (
     [Inr (pj_retry_intent_digest p \<noteq> rd_retry_intent_digest d),
      map_result (\<lambda>h. pj_decision_digest p \<noteq> h) (run_retry_decision_digest d),
      Inr ((qc_candidate_intent c = None) \<noteq> (qp_receipt stored = None))] @
     (case (qc_candidate_intent c, qp_receipt stored) of
        (Some i, Some r) \<Rightarrow>
          [bind_result (retry_intent_digest (qr_intent r)) (\<lambda>x. map_result (\<lambda>y. x \<noteq> y) (retry_intent_digest i)),
           map_result (\<lambda>h. qr_queue_decision_digest r \<noteq> h) (run_retry_decision_digest d)]
      | _ \<Rightarrow> [])))"

definition stored_policy_retry :: "queue_policy_command \<Rightarrow> queue_result \<Rightarrow> queue_retry_result answer" where
  "stored_policy_retry c stored =
     bind_result (of_domain (stored_policy_mismatch c stored)) (\<lambda>mismatch.
     if mismatch
     then bind_result (of_domain (run_retry_decision_digest (qc_decision c))) (\<lambda>h.
       Inl (scope_conflict (qc_identity_scope c) (pj_decision_digest (qp_projection stored)) h))
     else Inr \<lparr>qo_projection = qp_projection stored, qo_receipt = qp_receipt stored, qo_replayed = True\<rparr>)"

text \<open>The locked Run: queued with the intent, or left as it is.\<close>

definition queued_run :: "queue_policy_command \<Rightarrow> run \<Rightarrow> run result" where
  "queued_run c r =
     (case qc_candidate_intent c of
        None \<Rightarrow> Inr r
      | Some i \<Rightarrow> run_queue_policy_retry i (qc_decision c) (qc_expected_run_version c) r)"

definition policy_publication_of ::
  "queue_policy_command \<Rightarrow> retry_write_authority \<Rightarrow> retry_mutation_snapshot \<Rightarrow> run \<Rightarrow> policy_publication answer" where
  "policy_publication_of c a m queued =
     (let d = qc_decision c in
     bind_result (of_domain (run_retry_decision_digest d)) (\<lambda>h.
     bind_result (case qc_candidate_intent c of None \<Rightarrow> Inr None
        | Some i \<Rightarrow> map_result Some (reservation_from_decision d)) (\<lambda>reservation.
     bind_result (mk_retry_side_effect (sf_run_id (rd_source d)) h (rd_retry_intent_digest d)) (\<lambda>x.
     let q = \<lparr>pq_identity_scope = qc_identity_scope c, pq_authority = a, pq_expected_snapshot = m,
       pq_intent = qc_candidate_intent c, pq_decision = d,
       pq_projection = \<lparr>pj_run = queued, pj_decision_digest = h, pj_retry_intent_digest = rd_retry_intent_digest d\<rparr>,
       pq_reservation = reservation, pq_side_effect = x\<rparr>
     in raise_or (check_policy_publication q) q))))"

definition published_result :: "queue_result replay_result \<Rightarrow> queue_retry_result" where
  "published_result r =
     \<lparr>qo_projection = qp_projection (rr_value r), qo_receipt = qp_receipt (rr_value r), qo_replayed = rr_replayed r\<rparr>"

definition publish_policy_retry ::
  "'s retry_gateway \<Rightarrow> queue_policy_command \<Rightarrow> retry_write_authority \<Rightarrow> (queue_retry_result, 's) action" where
  "publish_policy_retry g c a =
     (let d = qc_decision c; rid = sf_run_id (rd_source d) in
      and_then (ask (wr_snapshot g rid)) (\<lambda>m.
      raise_when (rms_attempt_version m \<noteq> qc_expected_attempt_version c)
        (DomainFailure (VersionConflict ''attempt'' (sf_attempt_id (rd_source d)) (rms_attempt_version m)
          (qc_expected_attempt_version c)))
     (raise_when (run_version (rms_run m) \<noteq> qc_expected_run_version c)
        (DomainFailure (VersionConflict ''run'' rid (run_version (rms_run m)) (qc_expected_run_version c)))
     (and_then (compute (of_domain (queued_run c (rms_run m)))) (\<lambda>queued.
      and_then (compute (policy_publication_of c a m queued)) (\<lambda>q.
      and_then (wr_publish g (PolicyPublication q)) (\<lambda>r. give (published_result r))))))))"

definition queue_policy_retry ::
  "'s retry_gateway \<Rightarrow> queue_policy_command \<Rightarrow> (queue_retry_result, 's) action" where
  "queue_policy_retry g c =
     and_then (ask (wr_authority g (sf_run_id (rd_source (qc_decision c))))) (\<lambda>a.
     raise_when (authority_superseded a (qc_decision c)) (AuthorityStateConflict ''retry_authority_superseded'')
     (and_then (ask (wr_lookup g (qc_identity_scope c))) (\<lambda>stored.
      case stored of
        Some q \<Rightarrow> compute (stored_policy_retry c q)
      | None \<Rightarrow> publish_policy_retry g c a)))"

section \<open>A retry that an adjudication permits\<close>

record queue_adjudicated_command =
  qa_identity_scope :: "string \<times> string"
  qa_candidate_intent :: retry_intent
  qa_expected_run_version :: int
  qa_expected_attempt_version :: int
  qa_acceptance_request :: "duplicate_risk_request option"

definition check_queue_adjudicated_command :: "queue_adjudicated_command \<Rightarrow> domain_error option" where
  "check_queue_adjudicated_command c =
     (let invalid = (\<lambda>field. DomainValidationError ''queue_adjudicated_retry_command'' field ''invalid'');
          version = (\<lambda>field. DomainValidationError ''queue_policy_retry_command'' field ''invalid'') in
      case authority_decision (ri_authority (qa_candidate_intent c)) of
        None \<Rightarrow> Some (invalid ''candidate_intent'')
      | Some decision \<Rightarrow> first_some
          [reject_if (\<not> permits_retry decision) (invalid ''candidate_intent''),
           reject_if ((decision = AcceptDuplicateRiskThenRetry) \<noteq> (qa_acceptance_request c \<noteq> None))
             (invalid ''acceptance_request''),
           reject_if (qa_expected_run_version c < 0) (version ''expected_run_version''),
           reject_if (qa_expected_attempt_version c < 0) (version ''expected_attempt_version''),
           reject_if (\<not> scope_ok (qa_identity_scope c)) (invalid ''identity_scope'')])"

definition unknown_authority_superseded :: "unknown_write_authority \<Rightarrow> queue_adjudicated_command \<Rightarrow> bool" where
  "unknown_authority_superseded a c \<longleftrightarrow>
     (let i = qa_candidate_intent c in
     uw_attempt_id a \<noteq> ri_source_attempt_id i \<or> uw_attempt_fence a \<noteq> ri_source_fence i \<or>
     uw_attempt_version a \<noteq> qa_expected_attempt_version c \<or> uw_adjudication_id a \<noteq> intent_adjudication_id i \<or>
     Some (uw_adjudication_digest a) \<noteq> authority_adjudication_digest (ri_authority i) \<or>
     Some (uw_decision a) \<noteq> authority_decision (ri_authority i))"

definition stored_unknown_mismatch ::
  "queue_adjudicated_command \<Rightarrow> unknown_write_authority \<Rightarrow> queue_result \<Rightarrow> bool result" where
  "stored_unknown_mismatch c a stored =
     (let p = qp_projection stored; i = qa_candidate_intent c in any_of (
     [map_result (\<lambda>d. pj_retry_intent_digest p \<noteq> Some d) (retry_intent_digest i),
      Inr (pj_decision_digest p \<noteq> uw_adjudication_digest a), Inr (qp_receipt stored = None)] @
     (case qp_receipt stored of None \<Rightarrow> [] | Some r \<Rightarrow>
        [bind_result (retry_intent_digest (qr_intent r)) (\<lambda>x. map_result (\<lambda>y. x \<noteq> y) (retry_intent_digest i)),
         Inr (qr_queue_decision_digest r \<noteq> uw_adjudication_digest a)])))"

definition stored_adjudicated_retry ::
  "queue_adjudicated_command \<Rightarrow> unknown_write_authority \<Rightarrow> queue_result \<Rightarrow> queue_retry_result answer" where
  "stored_adjudicated_retry c a stored =
     bind_result (of_domain (stored_unknown_mismatch c a stored)) (\<lambda>mismatch.
     if mismatch
     then Inl (scope_conflict (qa_identity_scope c) (pj_decision_digest (qp_projection stored)) (uw_adjudication_digest a))
     else Inr \<lparr>qo_projection = qp_projection stored, qo_receipt = qp_receipt stored, qo_replayed = True\<rparr>)"

definition unknown_publication_of ::
  "queue_adjudicated_command \<Rightarrow> unknown_write_authority \<Rightarrow> unknown_mutation_snapshot \<Rightarrow> run \<Rightarrow> unknown_publication answer" where
  "unknown_publication_of c a m queued =
     (let i = qa_candidate_intent c in
     bind_result (of_domain (retry_intent_digest i)) (\<lambda>d.
     bind_result (mk_retry_side_effect (ri_run_id i) (uw_adjudication_digest a) (Some d)) (\<lambda>x.
     let q = \<lparr>uq_identity_scope = qa_identity_scope c, uq_authority = a, uq_expected_snapshot = m, uq_intent = i,
       uq_projection = \<lparr>pj_run = queued, pj_decision_digest = uw_adjudication_digest a, pj_retry_intent_digest = Some d\<rparr>,
       uq_acceptance_request = qa_acceptance_request c, uq_side_effect = x\<rparr>
     in raise_or (check_unknown_publication q) q)))"

definition publish_adjudicated_retry ::
  "'s retry_gateway \<Rightarrow> queue_adjudicated_command \<Rightarrow> unknown_write_authority \<Rightarrow> (queue_retry_result, 's) action" where
  "publish_adjudicated_retry g c a =
     (let i = qa_candidate_intent c in
      and_then (ask (wr_unknown_snapshot g (ri_run_id i))) (\<lambda>m.
      raise_when (ums_attempt_version m \<noteq> qa_expected_attempt_version c)
        (DomainFailure (VersionConflict ''attempt'' (ri_source_attempt_id i) (ums_attempt_version m)
          (qa_expected_attempt_version c)))
     (raise_when (run_version (ums_run m) \<noteq> qa_expected_run_version c)
        (DomainFailure (VersionConflict ''run'' (ri_run_id i) (run_version (ums_run m)) (qa_expected_run_version c)))
     (and_then (compute (of_domain (run_queue_adjudicated_retry i (qa_expected_run_version c) (ums_run m)))) (\<lambda>queued.
      and_then (compute (unknown_publication_of c a m queued)) (\<lambda>q.
      and_then (wr_publish g (UnknownPublication q)) (\<lambda>r. give (published_result r))))))))"

definition queue_adjudicated_retry ::
  "'s retry_gateway \<Rightarrow> queue_adjudicated_command \<Rightarrow> (queue_retry_result, 's) action" where
  "queue_adjudicated_retry g c =
     and_then (ask (wr_unknown_authority g (ri_run_id (qa_candidate_intent c)))) (\<lambda>a.
     raise_when (unknown_authority_superseded a c) (AuthorityStateConflict ''unknown_retry_authority_superseded'')
     (and_then (ask (wr_lookup g (qa_identity_scope c))) (\<lambda>stored.
      case stored of
        Some q \<Rightarrow> compute (stored_adjudicated_retry c a q)
      | None \<Rightarrow> publish_adjudicated_retry g c a)))"

section \<open>What a return of the handlers has done\<close>

text \<open>The handlers write only where nothing is stored.\<close>

definition policy_unstored :: "'s retry_gateway \<Rightarrow> queue_policy_command \<Rightarrow> 's \<Rightarrow> bool" where
  "policy_unstored g c s \<longleftrightarrow> wr_lookup g (qc_identity_scope c) s = Inr None"

interpretation policy_queue: fresh_writer "queue_policy_retry g" "policy_unstored g" for g
  by unfold_locales
    (auto simp: queue_policy_retry_def policy_unstored_def  and_then_def raise_when_def run_simps Let_def split: sum.splits option.splits)

definition adjudicated_unstored :: "'s retry_gateway \<Rightarrow> queue_adjudicated_command \<Rightarrow> 's \<Rightarrow> bool" where
  "adjudicated_unstored g c s \<longleftrightarrow> wr_lookup g (qa_identity_scope c) s = Inr None"

interpretation adjudicated_queue: fresh_writer "queue_adjudicated_retry g" "adjudicated_unstored g" for g
  by unfold_locales
    (auto simp: queue_adjudicated_retry_def adjudicated_unstored_def  and_then_def raise_when_def run_simps Let_def split: sum.splits option.splits)

lemma queue_policy_retry_Inr:
  assumes "queue_policy_retry g c s = (Inr r, t)"
  obtains (replayed) a k where "wr_authority g (sf_run_id (rd_source (qc_decision c))) s = Inr a"
      "\<not> authority_superseded a (qc_decision c)" "wr_lookup g (qc_identity_scope c) s = Inr (Some k)"
      "stored_policy_mismatch c k = Inr False"
      "r = \<lparr>qo_projection = qp_projection k, qo_receipt = qp_receipt k, qo_replayed = True\<rparr>" "t = s"
  | (published) a m queued q u where "wr_authority g (sf_run_id (rd_source (qc_decision c))) s = Inr a"
      "\<not> authority_superseded a (qc_decision c)" "wr_lookup g (qc_identity_scope c) s = Inr None"
      "wr_snapshot g (sf_run_id (rd_source (qc_decision c))) s = Inr m"
      "rms_attempt_version m = qc_expected_attempt_version c" "run_version (rms_run m) = qc_expected_run_version c"
      "queued_run c (rms_run m) = Inr queued" "policy_publication_of c a m queued = Inr q"
      "wr_publish g (PolicyPublication q) s = (Inr u, t)" "r = published_result u"
proof -
  obtain a stored where a: "wr_authority g (sf_run_id (rd_source (qc_decision c))) s = Inr a"
    "\<not> authority_superseded a (qc_decision c)" "wr_lookup g (qc_identity_scope c) s = Inr stored"
    using assms unfolding queue_policy_retry_def by (auto simp: action_simps)
  show thesis
  proof (cases stored)
    case (Some k)
    then show thesis using assms a replayed [of a k] unfolding queue_policy_retry_def
      by (auto simp: action_simps stored_policy_retry_def result_simps split: if_splits)
  next
    case None
    then show thesis using assms a published [of a] unfolding queue_policy_retry_def publish_policy_retry_def Let_def
      by (auto simp: action_simps of_domain_Inr)
  qed
qed

lemma policy_publication_Inr:
  assumes "policy_publication_of c a m queued = Inr q"
  shows "pq_authority q = a" "pq_decision q = qc_decision c" "pq_intent q = qc_candidate_intent c"
    "pj_run (pq_projection q) = queued" "pq_expected_snapshot q = m" "check_policy_publication q = None"
    "case qc_candidate_intent c of None \<Rightarrow> pq_reservation q = None
     | Some i \<Rightarrow> (\<exists>v. pq_reservation q = Some v \<and> reservation_from_decision (qc_decision c) = Inr v)"
  using assms by (auto simp: policy_publication_of_def Let_def result_simps split: option.splits)

end
