(* ===== verification/Retry_Commit.thy ===== *)
theory Retry_Commit
  imports Retry_Queue
begin

text \<open>
  Committing the start of a queued retry (\<open>src/qarunner/application/retry_commit_start.py\<close> over
  \<open>application/ports/retry_commit_start.py\<close>): the writer's authority is checked against the receipt of the
  queue, the receipt against the stored one, and the Run's own start commit is published. The gateway is
  a parameter.
\<close>

section \<open>The values of the port\<close>

datatype commit_authority = PolicyWriter retry_write_authority | UnknownWriter unknown_write_authority

record commit_snapshot =
  kc_run :: run
  kc_source_attempt_version :: int

definition check_commit_snapshot :: "commit_snapshot \<Rightarrow> app_error option" where
  "check_commit_snapshot m =
     port_nonnegative ''retry_commit_mutation_snapshot'' ''source_attempt_version'' (kc_source_attempt_version m)"

record commit_side_effect =
  ke_run_id :: string
  ke_retry_intent_digest :: digest
  ke_attempt_id :: string

definition check_commit_side_effect :: "commit_side_effect \<Rightarrow> app_error option" where
  "check_commit_side_effect x =
     (let e = ''retry_commit_side_effect'' in first_some
     [port_string e ''run_id'' (ke_run_id x), port_string e ''attempt_id'' (ke_attempt_id x)])"

definition mk_commit_side_effect :: "string \<Rightarrow> digest \<Rightarrow> string \<Rightarrow> commit_side_effect answer" where
  "mk_commit_side_effect rid intent_digest attempt_id =
     (let x = \<lparr>ke_run_id = rid, ke_retry_intent_digest = intent_digest, ke_attempt_id = attempt_id\<rparr>
      in raise_or (check_commit_side_effect x) x)"

record stored_commit =
  ks_commit :: commit_start_result
  ks_receipt_digest :: digest

record commit_publication =
  kp_identity_scope :: "string \<times> string"
  kp_authority :: commit_authority
  kp_expected_snapshot :: commit_snapshot
  kp_receipt :: queue_receipt
  kp_commit :: commit_start_result
  kp_side_effect :: commit_side_effect

definition provenance_digest :: "attempt \<Rightarrow> digest option" where
  "provenance_digest a = map_option rv_retry_intent_digest (at_retry_provenance a)"

definition commit_publication_mismatch :: "commit_publication \<Rightarrow> bool answer" where
  "commit_publication_mismatch q =
     (let i = qr_intent (kp_receipt q); a = sr_attempt (kp_commit q) in any_of
     [Inr (run_id (kc_run (kp_expected_snapshot q)) \<noteq> ri_run_id i), Inr (run_id (sr_run (kp_commit q)) \<noteq> ri_run_id i),
      Inr (at_retry_provenance a = None),
      map_result (\<lambda>d. provenance_digest a \<noteq> Some d) (of_domain (retry_intent_digest i)),
      bind_result (of_domain (retry_intent_digest i)) (\<lambda>d.
        map_result (\<lambda>x. kp_side_effect q \<noteq> x) (mk_commit_side_effect (ri_run_id i) d (at_id a)))])"

definition check_commit_publication :: "commit_publication \<Rightarrow> app_error option" where
  "check_commit_publication q =
     (let e = ''retry_commit_publication'' in first_some
     [reject_if (\<not> scope_ok (kp_identity_scope q)) (PortContractError e ''identity_scope'' ''invalid''),
      reject_if_result (commit_publication_mismatch q) (PortContractError e ''binding'' ''invalid'')])"

record 's commit_gateway =
  kg_authority :: "queue_receipt \<Rightarrow> 's \<Rightarrow> commit_authority answer"
  kg_lookup :: "string \<times> string \<Rightarrow> 's \<Rightarrow> stored_commit option answer"
  kg_receipt :: "digest \<Rightarrow> 's \<Rightarrow> queue_receipt answer"
  kg_snapshot :: "string \<Rightarrow> 's \<Rightarrow> commit_snapshot answer"
  kg_publish :: "commit_publication \<Rightarrow> (commit_start_result replay_result, 's) action"

section \<open>The writer of the receipt\<close>

text \<open>\<open>_authority_matches\<close> for a retry that a policy decided and for an adjudicated one.\<close>

definition policy_writer_matches :: "retry_write_authority \<Rightarrow> policy_retry_authority \<Rightarrow> queue_receipt \<Rightarrow> bool" where
  "policy_writer_matches a pinned r \<longleftrightarrow>
     rw_run_id a = ri_run_id (qr_intent r) \<and> rw_policy_digest a = pr_policy_digest pinned \<and>
     rw_authority_schema a = pr_authority_schema pinned \<and> rw_authority_id a = pr_authority_id pinned \<and>
     rw_authority_version a = pr_authority_version pinned \<and> rw_authority_digest a = pr_authority_digest pinned"

definition unknown_writer_matches :: "unknown_write_authority \<Rightarrow> unknown_retry_authority \<Rightarrow> queue_receipt \<Rightarrow> bool" where
  "unknown_writer_matches a pinned r \<longleftrightarrow>
     uw_run_id a = ri_run_id (qr_intent r) \<and> uw_attempt_id a = ri_source_attempt_id (qr_intent r) \<and>
     uw_attempt_fence a = ri_source_fence (qr_intent r) \<and> uw_adjudication_id a = ur_adjudication_id pinned \<and>
     uw_adjudication_digest a = ur_adjudication_digest pinned \<and> uw_decision a = ur_decision pinned"

definition expected_acceptance :: "unknown_write_authority \<Rightarrow> queue_receipt \<Rightarrow> digest answer" where
  "expected_acceptance a r =
     (case uw_risk_acceptance_basis_digest a of
        None \<Rightarrow> Inl (LookupFailure ''risk_acceptance_basis_digest'')
      | Some basis_digest \<Rightarrow> of_domain (bind_result (retry_intent_digest (qr_intent r)) (\<lambda>d.
          canonical_digest ''qep.duplicate-risk-acceptance.v2''
            (JObj [(''basis_digest'', digest_json basis_digest), (''retry_intent_digest'', digest_json d)]))))"

definition commit_authority_matches :: "commit_authority \<Rightarrow> queue_receipt \<Rightarrow> bool answer" where
  "commit_authority_matches authority r =
     (case ri_authority (qr_intent r) of
        PolicyAuthority pinned \<Rightarrow>
          (case authority of PolicyWriter a \<Rightarrow> Inr (policy_writer_matches a pinned r) | UnknownWriter _ \<Rightarrow> Inr False)
      | UnknownAuthority pinned \<Rightarrow>
          (case authority of
             PolicyWriter _ \<Rightarrow> Inr False
           | UnknownWriter a \<Rightarrow>
               if \<not> unknown_writer_matches a pinned r then Inr False
               else case qr_consumption r of
                 None \<Rightarrow> Inr True
               | Some consumption \<Rightarrow> map_result (\<lambda>d. drc_acceptance_digest consumption = d) (expected_acceptance a r)))"

section \<open>The handler\<close>

record commit_retry_command =
  kr_identity_scope :: "string \<times> string"
  kr_receipt :: queue_receipt
  kr_assignment_id :: string
  kr_worker :: worker_ref
  kr_start_commit_key :: string
  kr_spec_digest :: digest
  kr_new_attempt_id :: string
  kr_observed_at :: datetime
  kr_expected_run_version :: int
  kr_expected_attempt_version :: int

definition check_commit_retry_command :: "commit_retry_command \<Rightarrow> domain_error option" where
  "check_commit_retry_command c =
     (let invalid = (\<lambda>field. DomainValidationError ''commit_retry_start_command'' field ''invalid'') in first_some
     [reject_if (\<not> scope_ok (kr_identity_scope c)) (invalid ''identity_scope''),
      reject_if (kr_assignment_id c = []) (invalid ''assignment_id''),
      reject_if (kr_start_commit_key c = []) (invalid ''start_commit_key''),
      reject_if (kr_new_attempt_id c = []) (invalid ''new_attempt_id''),
      reject_if (kr_expected_run_version c < 0) (invalid ''expected_run_version''),
      reject_if (kr_expected_attempt_version c < 0) (invalid ''expected_attempt_version'')])"

record commit_retry_result =
  ko_commit :: commit_start_result
  ko_replayed :: bool

text \<open>The stored commit is the requested one.\<close>

definition stored_commit_mismatch ::
  "commit_retry_command \<Rightarrow> digest \<Rightarrow> digest \<Rightarrow> stored_commit \<Rightarrow> bool" where
  "stored_commit_mismatch c receipt_digest intent_digest stored \<longleftrightarrow>
     (let a = sr_attempt (ks_commit stored) in
     ks_receipt_digest stored \<noteq> receipt_digest \<or> provenance_digest a \<noteq> Some intent_digest \<or>
     at_id a \<noteq> kr_new_attempt_id c \<or> at_assignment_id a \<noteq> kr_assignment_id c \<or> at_worker a \<noteq> kr_worker c \<or>
     at_start_commit_key a \<noteq> kr_start_commit_key c \<or> at_spec_digest a \<noteq> kr_spec_digest c)"

definition stored_retry_commit ::
  "commit_retry_command \<Rightarrow> queue_receipt \<Rightarrow> digest \<Rightarrow> digest \<Rightarrow> stored_commit \<Rightarrow> commit_retry_result answer" where
  "stored_retry_commit c receipt receipt_digest intent_digest stored =
     (if stored_commit_mismatch c receipt_digest intent_digest stored
      then Inl (scope_conflict (kr_identity_scope c)
        (case provenance_digest (sr_attempt (ks_commit stored)) of
           Some d \<Rightarrow> d | None \<Rightarrow> qr_queue_decision_digest receipt) intent_digest)
      else Inr \<lparr>ko_commit = ks_commit stored, ko_replayed = True\<rparr>)"

definition locked_commit :: "commit_retry_command \<Rightarrow> run \<Rightarrow> commit_start_result result" where
  "locked_commit c r = run_commit_start (kr_assignment_id c) (kr_worker c) (kr_start_commit_key c) (kr_spec_digest c)
     (kr_new_attempt_id c) (kr_observed_at c) (kr_expected_run_version c) r"

definition commit_publication_of ::
  "commit_retry_command \<Rightarrow> commit_authority \<Rightarrow> commit_snapshot \<Rightarrow> queue_receipt \<Rightarrow> digest \<Rightarrow> commit_start_result \<Rightarrow>
   commit_publication answer" where
  "commit_publication_of c authority m receipt intent_digest commit =
     bind_result (mk_commit_side_effect (ri_run_id (qr_intent (kr_receipt c))) intent_digest (at_id (sr_attempt commit))) (\<lambda>x.
     let q = \<lparr>kp_identity_scope = kr_identity_scope c, kp_authority = authority, kp_expected_snapshot = m,
       kp_receipt = receipt, kp_commit = commit, kp_side_effect = x\<rparr>
     in raise_or (check_commit_publication q) q)"

definition publish_retry_commit ::
  "'s commit_gateway \<Rightarrow> commit_retry_command \<Rightarrow> commit_authority \<Rightarrow> queue_receipt \<Rightarrow> digest \<Rightarrow>
   (commit_retry_result, 's) action" where
  "publish_retry_commit g c authority receipt intent_digest =
     (let i = qr_intent (kr_receipt c) in
      and_then (ask (kg_snapshot g (ri_run_id i))) (\<lambda>m.
      raise_when (kc_source_attempt_version m \<noteq> kr_expected_attempt_version c)
        (DomainFailure (VersionConflict ''attempt'' (ri_source_attempt_id i) (kc_source_attempt_version m)
          (kr_expected_attempt_version c)))
     (raise_when (run_version (kc_run m) \<noteq> kr_expected_run_version c)
        (DomainFailure (VersionConflict ''run'' (ri_run_id i) (run_version (kc_run m)) (kr_expected_run_version c)))
     (and_then (compute (of_domain (locked_commit c (kc_run m)))) (\<lambda>commit.
      and_then (compute (commit_publication_of c authority m receipt intent_digest commit)) (\<lambda>q.
      and_then (kg_publish g q) (\<lambda>r. give \<lparr>ko_commit = rr_value r, ko_replayed = rr_replayed r\<rparr>)))))))"

definition commit_retry_start ::
  "'s commit_gateway \<Rightarrow> commit_retry_command \<Rightarrow> (commit_retry_result, 's) action" where
  "commit_retry_start g c =
     and_then (ask (kg_authority g (kr_receipt c))) (\<lambda>authority.
     and_then (compute (commit_authority_matches authority (kr_receipt c))) (\<lambda>matches.
     raise_when (\<not> matches) (AuthorityStateConflict ''retry_commit_authority_superseded'')
     (and_then (compute (of_domain (retry_intent_digest (qr_intent (kr_receipt c))))) (\<lambda>intent_digest.
      and_then (ask (kg_receipt g intent_digest)) (\<lambda>canonical.
      and_then (compute (of_domain (queue_receipt_digest canonical))) (\<lambda>stored_digest.
      and_then (compute (of_domain (queue_receipt_digest (kr_receipt c)))) (\<lambda>received_digest.
      raise_when (stored_digest \<noteq> received_digest) (AuthorityStateConflict ''retry_queue_receipt_mismatch'')
     (and_then (ask (kg_lookup g (kr_identity_scope c))) (\<lambda>stored.
      case stored of
        Some k \<Rightarrow> compute (stored_retry_commit c canonical stored_digest intent_digest k)
      | None \<Rightarrow> publish_retry_commit g c authority canonical intent_digest))))))))) "

section \<open>What a return of the handler has done\<close>

text \<open>The handler writes only where nothing is stored.\<close>

definition commit_unstored :: "'s commit_gateway \<Rightarrow> commit_retry_command \<Rightarrow> 's \<Rightarrow> bool" where
  "commit_unstored g c s \<longleftrightarrow> kg_lookup g (kr_identity_scope c) s = Inr None"

interpretation retry_start: fresh_writer "commit_retry_start g" "commit_unstored g" for g
  by unfold_locales
    (auto simp: commit_retry_start_def commit_unstored_def  and_then_def raise_when_def run_simps Let_def split: sum.splits option.splits)

lemma commit_retry_start_Inr:
  assumes "commit_retry_start g c s = (Inr r, t)"
  obtains (replayed) a d canonical h k where "kg_authority g (kr_receipt c) s = Inr a"
      "commit_authority_matches a (kr_receipt c) = Inr True" "retry_intent_digest (qr_intent (kr_receipt c)) = Inr d"
      "kg_receipt g d s = Inr canonical" "queue_receipt_digest canonical = Inr h"
      "queue_receipt_digest (kr_receipt c) = Inr h" "kg_lookup g (kr_identity_scope c) s = Inr (Some k)"
      "\<not> stored_commit_mismatch c h d k" "r = \<lparr>ko_commit = ks_commit k, ko_replayed = True\<rparr>" "t = s"
  | (published) a d canonical h m commit q u where "kg_authority g (kr_receipt c) s = Inr a"
      "commit_authority_matches a (kr_receipt c) = Inr True" "retry_intent_digest (qr_intent (kr_receipt c)) = Inr d"
      "kg_receipt g d s = Inr canonical" "queue_receipt_digest canonical = Inr h"
      "queue_receipt_digest (kr_receipt c) = Inr h" "kg_lookup g (kr_identity_scope c) s = Inr None"
      "kg_snapshot g (ri_run_id (qr_intent (kr_receipt c))) s = Inr m"
      "kc_source_attempt_version m = kr_expected_attempt_version c" "run_version (kc_run m) = kr_expected_run_version c"
      "locked_commit c (kc_run m) = Inr commit" "commit_publication_of c a m canonical d commit = Inr q"
      "kg_publish g q s = (Inr u, t)" "r = \<lparr>ko_commit = rr_value u, ko_replayed = rr_replayed u\<rparr>"
proof -
  obtain a d canonical h stored where a: "kg_authority g (kr_receipt c) s = Inr a"
    "commit_authority_matches a (kr_receipt c) = Inr True" "retry_intent_digest (qr_intent (kr_receipt c)) = Inr d"
    "kg_receipt g d s = Inr canonical" "queue_receipt_digest canonical = Inr h"
    "queue_receipt_digest (kr_receipt c) = Inr h" "kg_lookup g (kr_identity_scope c) s = Inr stored"
    using assms unfolding commit_retry_start_def by (auto simp: action_simps of_domain_Inr)
  show thesis
  proof (cases stored)
    case (Some k)
    then show thesis using assms a replayed [of a d canonical h k] unfolding commit_retry_start_def
      by (auto simp: action_simps stored_retry_commit_def split: if_splits)
  next
    case None
    then show thesis using assms a published [of a d canonical h] unfolding commit_retry_start_def publish_retry_commit_def Let_def
      by (auto simp: action_simps of_domain_Inr)
  qed
qed

lemma commit_publication_Inr:
  assumes "commit_publication_of c a m canonical d commit = Inr q"
  shows "kp_identity_scope q = kr_identity_scope c" "kp_authority q = a" "kp_receipt q = canonical" "kp_commit q = commit"
    "commit_publication_mismatch q = Inr False"
  using assms by (auto simp: commit_publication_of_def check_commit_publication_def Let_def result_simps)

lemma commit_binding:
  assumes "commit_publication_mismatch q = Inr False"
  shows "\<exists>d. retry_intent_digest (qr_intent (kp_receipt q)) = Inr d \<and> provenance_digest (sr_attempt (kp_commit q)) = Some d"
    "run_id (sr_run (kp_commit q)) = ri_run_id (qr_intent (kp_receipt q))"
  using assms unfolding commit_publication_mismatch_def Let_def any_of_False
  by (auto simp: result_simps)

end
