(* ===== verification/Retry_Properties.thy ===== *)
theory Retry_Properties
  imports Retry_Commit Run_Samples
begin

text \<open>
  Properties of the retry handlers over their gateways, with sample gateways that keep one fact in memory.
\<close>

section \<open>Queueing a retry that a policy decided\<close>

text \<open>
  C21: From the evaluation of a policy to the queue a retry stays in its budget. When the decision of an
  evaluation is queued and this is no replay, exactly one publication was made: its Run is the locked Run
  with the candidate intent queued at the current version, and it reserves for the digest of that intent the
  budget of the policy, the usage and the request that were evaluated; the usage stays below the number of
  retries, and usage and request together within the execution and resource seconds of the policy.
\<close>

theorem evaluated_retry_stays_in_budget:
  assumes "evaluate_run_retry policy source authority usage requested rid decided_at = Inr (qc_decision c)"
    "qc_candidate_intent c = Some i" "check_queue_policy_command c = None"
    "queue_policy_retry g c s = (Inr r, t)" "\<not> qo_replayed r"
  shows "\<exists>p m q u v. policy = Some p \<and> wr_snapshot g (sf_run_id source) s = Inr m \<and>
    wr_publish g (PolicyPublication q) s = (Inr u, t) \<and> r = published_result u \<and>
    run_queue_policy_retry i (qc_decision c) (run_version (rms_run m)) (rms_run m) = Inr (pj_run (pq_projection q)) \<and>
    pq_reservation q = Some v \<and> retry_intent_digest i = Inr (bvr_retry_intent_digest v) \<and>
    bvr_configured v = rp_budget (policy_base p) \<and> bvr_usage v = usage \<and> bvr_requested v = requested \<and>
    ru_retry_count usage < rp_max_retries (policy_base p) \<and>
    ru_execution_seconds usage + rq_execution_seconds requested \<le> rb_max_execution_seconds (bvr_configured v) \<and>
    ru_resource_unit_seconds usage + rq_resource_unit_seconds requested \<le> rb_max_resource_unit_seconds (bvr_configured v)"
proof -
  let ?d = "qc_decision c"
  have retry: "rd_decision ?d = DecisionRetry" "\<exists>h. retry_intent_digest i = Inr h \<and> rd_retry_intent_digest ?d = Some h"
    using assms(2,3) by (auto simp: check_queue_policy_command_def opt_intent_digest_def Let_def result_simps)
  then obtain p where p: "policy = Some p" "within_budget p usage requested"
    using evaluate_run_retry_RETRY [OF assms(1)] by blast
  have d: "rd_source ?d = source" "rd_budget ?d = rp_budget (policy_base p)" "rd_usage ?d = usage" "rd_requested ?d = requested"
    using assms(1) p(1) by (auto simp: evaluate_run_retry_def Let_def result_simps)
  show ?thesis using assms(4)
  proof (cases rule: queue_policy_retry_Inr)
    case (published a m queued q u)
    note q = policy_publication_Inr [OF published(8)]
    obtain v where v: "pq_reservation q = Some v" "reservation_from_decision ?d = Inr v" using q(7) assms(2) by auto
    then have "retry_intent_digest i = Inr (bvr_retry_intent_digest v)" "bvr_configured v = rd_budget ?d"
      "bvr_usage v = rd_usage ?d" "bvr_requested v = rd_requested ?d"
      using retry(2) by (auto simp: reservation_from_decision_def result_simps)
    then show ?thesis using published v(1) q(4) p d assms(2)
      by (intro exI [of _ p] exI [of _ m] exI [of _ q] exI [of _ u] exI [of _ v]) (simp add: queued_run_def within_budget_def)
  qed (use assms(5) in simp)
qed

text \<open>A gateway that keeps one result, with the receipt of the reservation.\<close>

definition queue_store :: "retry_write_authority \<Rightarrow> retry_mutation_snapshot \<Rightarrow> queue_result option retry_gateway" where
  "queue_store a m =
     \<lparr>wr_authority = (\<lambda>_ _. Inr a), wr_unknown_authority = (\<lambda>_ _. Inl AuthorityPermissionDenied),
      wr_lookup = (\<lambda>_ st. Inr st), wr_snapshot = (\<lambda>_ _. Inr m),
      wr_unknown_snapshot = (\<lambda>_ _. Inl AuthorityPermissionDenied),
      wr_publish = (\<lambda>q st. case q of
        UnknownPublication _ \<Rightarrow> (Inl AuthorityPermissionDenied, st)
      | PolicyPublication x \<Rightarrow>
          (let k = \<lparr>qp_projection = pq_projection x,
             qp_receipt = map_option (\<lambda>i. \<lparr>qr_intent = i, qr_reservation = pq_reservation x, qr_consumption = None,
               qr_queue_decision_digest = pj_decision_digest (pq_projection x), qr_queue_identity_scope = pq_identity_scope x,
               qr_queued_run_version = run_version (pj_run (pq_projection x)),
               qr_queue_writer_digest = rw_writer_digest (pq_authority x),
               qr_queue_write_epoch = rw_write_epoch (pq_authority x)\<rparr>) (pq_intent x)\<rparr>
           in (Inr \<lparr>rr_value = k, rr_replayed = False\<rparr>, Some k)))\<rparr>"

definition sample_writer :: retry_write_authority where
  "sample_writer = \<lparr>rw_run_id = ''r'', rw_writer_digest = Digest ''writer'', rw_policy_digest = Digest ''policy'',
     rw_authority_schema = ''s'', rw_authority_id = ''auth'', rw_authority_version = 1,
     rw_authority_digest = Digest ''auth'', rw_write_epoch = 1\<rparr>"

definition queue_sample :: queue_policy_command where
  "queue_sample = \<lparr>qc_identity_scope = (''queue'', ''k''), qc_candidate_intent = Some sample_policy_intent,
     qc_decision = sample_decision, qc_expected_run_version = 7, qc_expected_attempt_version = 3\<rparr>"

definition queue_sample_store :: "queue_result option retry_gateway" where
  "queue_sample_store = queue_store sample_writer \<lparr>rms_run = sample_failed, rms_attempt_version = 3\<rparr>"

definition sample_suite_policy :: suite_retry_policy where
  "sample_suite_policy = \<lparr>rp_policy_id = ''pol'', rp_version = 1, rp_project_id = ''p'',
     rp_retryable_reasons = [RetryReasonSelector ''assertion'' ''flaky''], rp_required_approver_role = ''lead'',
     rp_max_retries = 1, rp_retry_scope = FullRun, rp_budget = rd_budget sample_decision,
     rp_effective_from = utc 0, rp_effective_until = utc 100, rp_policy_digest = Digest ''policy'',
     sp_suite_revision_id = ''rev''\<rparr>"

definition sample_policy_approval :: retry_policy_authority where
  "sample_policy_approval = \<lparr>pa_schema = ''s'', pa_authority_id = ''auth'', pa_version = 1, pa_family = SuiteFamily,
     pa_project_id = ''p'', pa_suite_revision_id = Some ''rev'', pa_runner_id = None, pa_runner_version = None,
     pa_approver_role = ''lead'', pa_approval_record_digest = Digest ''rec'', pa_valid_from = utc 0,
     pa_valid_until = utc 100, pa_authority_digest = Digest ''auth''\<rparr>"

lemma sample_evaluated:
  "evaluate_run_retry (Some (SuitePolicy sample_suite_policy)) sample_source (Some sample_policy_approval)
     (rd_usage sample_decision) (rd_requested sample_decision) sample_policy_digest (utc 20) = Inr sample_decision"
proof -
  have "mk_retry_reason_selector ''assertion'' ''flaky'' = Inr (RetryReasonSelector ''assertion'' ''flaky'')"
    by (simp add: mk_retry_reason_selector_def blank_eval result_simps)
  then have "retry_allowed (Some (SuitePolicy sample_suite_policy)) sample_source (Some sample_policy_approval)
      (rd_usage sample_decision) (rd_requested sample_decision) (utc 20) = Inr True"
    by (simp add: retry_allowed_def authority_matches_def within_budget_def sample_suite_policy_def
        sample_policy_approval_def sample_source_def sample_decision_def retry_policy_base.defs)
  then show ?thesis
    by (simp add: evaluate_run_retry_def check_run_retry_decision_def sample_suite_policy_def sample_policy_approval_def
        sample_source_def sample_decision_def retry_policy_base.defs Let_def result_simps)
qed

lemma sample_decision_digest: "\<exists>h. run_retry_decision_digest sample_decision = Inr h"
  by (simp add: run_retry_decision_digest_def run_retry_decision_json_def sample_decision_def sample_source_def
      budget_json_def usage_json_def requested_json_def opt_digest_json_def canonical_digest_Inr safe_int_def)

lemma sample_queued_published:
  obtains r t where "queue_policy_retry queue_sample_store queue_sample None = (Inr r, t)" "\<not> qo_replayed r"
    "pj_run (qo_projection r) = sample_policy_queued"
proof -
  obtain h where "run_retry_decision_digest sample_decision = Inr h" using sample_decision_digest by blast
  moreover have "run_id sample_failed = ''r''" "run_version sample_failed = 7" "run_id sample_policy_queued = ''r''"
    by (simp_all add: sample_policy_queued_def sample_failed_def sample_defs)
  ultimately show thesis using exec_policy_retry that
    by (simp add: queue_policy_retry_def publish_policy_retry_def policy_publication_of_def check_policy_publication_def
        policy_publication_mismatch_def authority_superseded_def reservation_from_decision_def mk_retry_side_effect_def
        check_retry_side_effect_def port_string_def opt_intent_digest_def scope_ok_def published_result_def queued_run_def
        queue_sample_store_def queue_store_def queue_sample_def sample_writer_def sample_decision_def sample_source_def
        blank_eval result_simps raise_when_def and_then_def run_simps Let_def)
qed

theorem evaluated_retry_stays_in_budget_witness:
  "\<exists>q u r t v. queue_policy_retry queue_sample_store queue_sample None = (Inr r, t) \<and>
     wr_publish queue_sample_store (PolicyPublication q) None = (Inr u, t) \<and>
     pq_reservation q = Some v \<and> rq_execution_seconds (bvr_requested v) = 10"
proof -
  obtain r t where r: "queue_policy_retry queue_sample_store queue_sample None = (Inr r, t)" "\<not> qo_replayed r"
    by (rule sample_queued_published)
  have c: "evaluate_run_retry (Some (SuitePolicy sample_suite_policy)) sample_source (Some sample_policy_approval)
      (rd_usage sample_decision) (rd_requested sample_decision) sample_policy_digest (utc 20) = Inr (qc_decision queue_sample)"
    "qc_candidate_intent queue_sample = Some sample_policy_intent" "check_queue_policy_command queue_sample = None"
    using sample_evaluated
    by (simp_all add: queue_sample_def check_queue_policy_command_def opt_intent_digest_def scope_ok_def
        sample_decision_def result_simps Let_def)
  show ?thesis using evaluated_retry_stays_in_budget [OF c r] r(1) by (auto simp: sample_decision_def)
qed

section \<open>Committing the start of a queued retry\<close>

definition pinned_writer :: "commit_authority \<Rightarrow> queue_receipt \<Rightarrow> bool" where
  "pinned_writer a receipt \<longleftrightarrow>
     (case (ri_authority (qr_intent receipt), a) of
        (PolicyAuthority p, PolicyWriter w) \<Rightarrow> policy_writer_matches w p receipt
      | (UnknownAuthority p, UnknownWriter w) \<Rightarrow> unknown_writer_matches w p receipt \<and>
          (\<forall>k. qr_consumption receipt = Some k \<longrightarrow> expected_acceptance w receipt = Inr (drc_acceptance_digest k))
      | _ \<Rightarrow> False)"

lemma authority_matches_pinned: "commit_authority_matches a receipt = Inr True \<Longrightarrow> pinned_writer a receipt"
  by (auto simp: commit_authority_matches_def pinned_writer_def result_simps
      split: retry_authority.splits commit_authority.splits if_splits option.splits)

text \<open>
  C19: A retry is started only under the receipt that queued it. When the handler returns a commit that is not
  a replay, the current writer is the one the intent of the receipt pins (for an accepted duplicate risk the
  consumed acceptance is the one of the writer's basis and of this intent), the stored receipt has the digest
  of the presented one, the locked Run and the source Attempt have the versions that the command expects, and what was published is
  the start commit of the locked Run, whose Attempt carries the digest of the receipt's intent as its
  provenance and belongs to the Run of the intent.
\<close>

theorem retry_start_bound_to_receipt:
  assumes "commit_retry_start g c s = (Inr r, t)" "\<not> ko_replayed r"
  shows "\<exists>a d canonical h m commit q u. kg_authority g (kr_receipt c) s = Inr a \<and> pinned_writer a (kr_receipt c) \<and>
    retry_intent_digest (qr_intent (kr_receipt c)) = Inr d \<and> kg_receipt g d s = Inr canonical \<and>
    queue_receipt_digest canonical = Inr h \<and> queue_receipt_digest (kr_receipt c) = Inr h \<and>
    kg_snapshot g (ri_run_id (qr_intent (kr_receipt c))) s = Inr m \<and>
    kc_source_attempt_version m = kr_expected_attempt_version c \<and> run_version (kc_run m) = kr_expected_run_version c \<and>
    run_commit_start (kr_assignment_id c) (kr_worker c) (kr_start_commit_key c) (kr_spec_digest c) (kr_new_attempt_id c)
      (kr_observed_at c) (kr_expected_run_version c) (kc_run m) = Inr commit \<and>
    kp_commit q = commit \<and> kp_receipt q = canonical \<and> kg_publish g q s = (Inr u, t) \<and> ko_commit r = rr_value u \<and>
    retry_intent_digest (qr_intent canonical) = Inr (the (provenance_digest (sr_attempt commit))) \<and>
    run_id (sr_run commit) = ri_run_id (qr_intent canonical)"
  using assms(1)
proof (cases rule: commit_retry_start_Inr)
  case (published a d canonical h m commit q u)
  note q = commit_publication_Inr [OF published(12)]
  have "\<exists>x. retry_intent_digest (qr_intent canonical) = Inr x \<and> provenance_digest (sr_attempt commit) = Some x"
    "run_id (sr_run commit) = ri_run_id (qr_intent canonical)"
    using commit_binding [OF q(5)] q(3,4) by simp_all
  then show ?thesis using published q(3,4) authority_matches_pinned [OF published(2)]
    by (intro exI [of _ a] exI [of _ d] exI [of _ canonical] exI [of _ h] exI [of _ m] exI [of _ commit] exI [of _ q] exI [of _ u])
      (auto simp: locked_commit_def)
qed (use assms(2) in simp)

text \<open>A gateway that keeps one commit.\<close>

definition sample_receipt :: queue_receipt where
  "sample_receipt = \<lparr>qr_intent = sample_intent, qr_reservation = None, qr_consumption = None,
     qr_queue_decision_digest = sample_adj_digest, qr_queue_identity_scope = (''queue'', ''k''),
     qr_queued_run_version = 7, qr_queue_writer_digest = Digest ''writer'', qr_queue_write_epoch = 1\<rparr>"

definition commit_store :: "stored_commit option commit_gateway" where
  "commit_store =
     \<lparr>kg_authority = (\<lambda>_ _. Inr (UnknownWriter \<lparr>uw_run_id = ''r'', uw_attempt_id = ''t1'', uw_attempt_version = 2,
        uw_attempt_fence = 1, uw_adjudication_id = ''d1'', uw_adjudication_digest = sample_adj_digest,
        uw_decision = ConfirmStoppedThenRetry, uw_proof_digest = Some (Digest ''proof''),
        uw_risk_acceptance_basis_digest = None, uw_writer_digest = Digest ''writer'', uw_write_epoch = 1\<rparr>)),
      kg_lookup = (\<lambda>_ st. Inr st), kg_receipt = (\<lambda>_ _. Inr sample_receipt),
      kg_snapshot = (\<lambda>_ _. Inr \<lparr>kc_run = sample_claimed2, kc_source_attempt_version = 2\<rparr>),
      kg_publish = (\<lambda>q _. (Inr \<lparr>rr_value = kp_commit q, rr_replayed = False\<rparr>,
        Some \<lparr>ks_commit = kp_commit q, ks_receipt_digest = the_digest (queue_receipt_digest (kp_receipt q))\<rparr>))\<rparr>"

definition start_sample :: commit_retry_command where
  "start_sample = \<lparr>kr_identity_scope = (''start'', ''k2''), kr_receipt = sample_receipt, kr_assignment_id = ''a2'',
     kr_worker = sample_ref, kr_start_commit_key = ''k2'', kr_spec_digest = Digest ''spec'', kr_new_attempt_id = ''t2'',
     kr_observed_at = utc 32, kr_expected_run_version = 9, kr_expected_attempt_version = 2\<rparr>"

lemma sample_receipt_digest: "\<exists>h. queue_receipt_digest sample_receipt = Inr h"
  by (simp add: queue_receipt_digest_def sample_receipt_def canonical_digest_Inr digest_json_def safe_int_def)

lemma sample_started:
  "\<exists>t. commit_retry_start commit_store start_sample None =
    (Inr \<lparr>ko_commit = \<lparr>sr_run = sample_running2, sr_attempt = sample_attempt2, sr_fence = 2, sr_replayed = False\<rparr>,
       ko_replayed = False\<rparr>, t)"
proof -
  obtain h where "queue_receipt_digest sample_receipt = Inr h" using sample_receipt_digest by blast
  moreover have "run_id sample_claimed2 = ''r''" "run_version sample_claimed2 = 9" "run_id sample_running2 = ''r''"
    "at_id sample_attempt2 = ''t2''" "at_retry_provenance sample_attempt2 = Some sample_provenance"
    by (simp_all add: sample_defs sample_defs2)
  ultimately show ?thesis using exec_commit2
    by (simp add: commit_retry_start_def publish_retry_commit_def commit_publication_of_def check_commit_publication_def
        commit_publication_mismatch_def commit_authority_matches_def unknown_writer_matches_def locked_commit_def
        mk_commit_side_effect_def check_commit_side_effect_def port_string_def provenance_digest_def scope_ok_def
        commit_store_def start_sample_def sample_receipt_def sample_provenance_def
        blank_eval result_simps raise_when_def and_then_def run_simps Let_def)
qed

theorem retry_start_bound_to_receipt_witness:
  "\<exists>r t q u. commit_retry_start commit_store start_sample None = (Inr r, t) \<and> sr_attempt (ko_commit r) = sample_attempt2 \<and>
     kg_publish commit_store q None = (Inr u, t) \<and> kp_receipt q = sample_receipt \<and>
     provenance_digest sample_attempt2 = Some sample_intent_digest"
proof -
  let ?r = "\<lparr>ko_commit = \<lparr>sr_run = sample_running2, sr_attempt = sample_attempt2, sr_fence = 2, sr_replayed = False\<rparr>,
    ko_replayed = False\<rparr>"
  obtain t where t: "commit_retry_start commit_store start_sample None = (Inr ?r, t)" using sample_started by blast
  have "kg_receipt commit_store d None = Inr k \<longleftrightarrow> k = sample_receipt" for d k by (auto simp: commit_store_def)
  then have "\<exists>q u. kg_publish commit_store q None = (Inr u, t) \<and> kp_receipt q = sample_receipt"
    using retry_start_bound_to_receipt [OF t] by auto
  then show ?thesis using t by (auto simp: provenance_digest_def sample_attempt2_def sample_provenance_def)
qed

text \<open>
  C20: A retry start is committed once. Suppose the gateway keeps what it publishes under the identity scope.
  Once the handler returned a commit, any later sequence of commands of the same scope leaves the store as
  it is, and each of them either fails or returns that same commit as a replay, for the assignment, Worker,
  start commit key, spec and Attempt identity of that commit only.
\<close>

theorem retry_start_committed_once:
  assumes "commit_retry_start g c s = (Inr r, t)"
    "\<forall>q u s t. kg_publish g q s = (Inr u, t) \<longrightarrow>
       (\<exists>k. kg_lookup g (kp_identity_scope q) t = Inr (Some k) \<and> ks_commit k = rr_value u)"
    "\<forall>c' \<in> set cs. kr_identity_scope c' = kr_identity_scope c"
  shows "\<exists>answers. run_commands (commit_retry_start g) cs t = (answers, t) \<and> length answers = length cs \<and>
    (\<forall>(c', x) \<in> set (zip cs answers). \<forall>y. x = Inr y \<longrightarrow>
       y = \<lparr>ko_commit = ko_commit r, ko_replayed = True\<rparr> \<and>
       (let a = sr_attempt (ko_commit r) in at_id a = kr_new_attempt_id c' \<and> at_assignment_id a = kr_assignment_id c' \<and>
          at_worker a = kr_worker c' \<and> at_start_commit_key a = kr_start_commit_key c' \<and> at_spec_digest a = kr_spec_digest c'))"
proof -
  obtain k where k: "kg_lookup g (kr_identity_scope c) t = Inr (Some k)" "ks_commit k = ko_commit r"
    using assms(1)
  proof (cases rule: commit_retry_start_Inr)
    case (published a d canonical h m commit q u)
    then show thesis using assms(2) commit_publication_Inr(1) [OF published(12)] that by fastforce
  qed (use that in simp)
  have same: "kg_lookup g (kr_identity_scope c') t = Inr (Some k)" if "c' \<in> set cs" for c'
    using k(1) assms(3) that by simp
  have answer: "y = \<lparr>ko_commit = ko_commit r, ko_replayed = True\<rparr> \<and> (\<exists>h d. \<not> stored_commit_mismatch c' h d k)"
    if "c' \<in> set cs" "commit_retry_start g c' t = (Inr y, t)" for c' y
    using that(2)
  proof (cases rule: commit_retry_start_Inr)
    case (replayed a d canonical h k')
    then show ?thesis using same [OF that(1)] k(2) by auto
  qed (use same [OF that(1)] in simp)
  have settled: "\<forall>c' \<in> set cs. \<not> commit_unstored g c' t" using same by (simp add: commit_unstored_def)
  have reads: "commit_retry_start g c' t = (fst (commit_retry_start g c' t), t)" if "c' \<in> set cs" for c'
    using retry_start.stored_reads [of g c' t] settled that by (simp add: prod_eq_iff)
  show ?thesis
    using retry_start.settled_commands [OF settled] answer reads k(2)
    by (auto simp: set_zip stored_commit_mismatch_def Let_def) (metis nth_mem)+
qed

text \<open>The sample start sent again, and then for another Attempt.\<close>

theorem retry_start_committed_once_witness:
  "\<exists>r t answers. commit_retry_start commit_store start_sample None = (Inr r, t) \<and>
     run_commands (commit_retry_start commit_store) [start_sample, start_sample\<lparr>kr_new_attempt_id := ''t3''\<rparr>] t = (answers, t) \<and>
     length answers = 2 \<and> (\<forall>y. answers ! 1 \<noteq> Inr y)"
proof -
  let ?r = "\<lparr>ko_commit = \<lparr>sr_run = sample_running2, sr_attempt = sample_attempt2, sr_fence = 2, sr_replayed = False\<rparr>,
    ko_replayed = False\<rparr>"
  let ?cs = "[start_sample, start_sample\<lparr>kr_new_attempt_id := ''t3''\<rparr>]"
  obtain t where t: "commit_retry_start commit_store start_sample None = (Inr ?r, t)" using sample_started by blast
  have keeps: "\<forall>q u s t. kg_publish commit_store q s = (Inr u, t) \<longrightarrow>
      (\<exists>k. kg_lookup commit_store (kp_identity_scope q) t = Inr (Some k) \<and> ks_commit k = rr_value u)"
    by (auto simp: commit_store_def)
  have same: "\<forall>c' \<in> set ?cs. kr_identity_scope c' = kr_identity_scope start_sample" by simp
  obtain answers where a: "run_commands (commit_retry_start commit_store) ?cs t = (answers, t)"
    "length answers = length ?cs"
    "\<forall>(c', x) \<in> set (zip ?cs answers). \<forall>y. x = Inr y \<longrightarrow> y = \<lparr>ko_commit = ko_commit ?r, ko_replayed = True\<rparr> \<and>
       (let a = sr_attempt (ko_commit ?r) in at_id a = kr_new_attempt_id c' \<and> at_assignment_id a = kr_assignment_id c' \<and>
          at_worker a = kr_worker c' \<and> at_start_commit_key a = kr_start_commit_key c' \<and> at_spec_digest a = kr_spec_digest c')"
    using retry_start_committed_once [OF t keeps same] by blast
  obtain x z where xz: "answers = [x, z]" using a(2) by (auto simp: numeral_2_eq_2 length_Suc_conv)
  have "at_id (sr_attempt (ko_commit ?r)) = ''t3''" if "z = Inr y" for y
    using a(3) that by (simp add: xz Let_def)
  then have "\<forall>y. z \<noteq> Inr y" by (auto simp: sample_attempt2_def)
  then show ?thesis using t a(1) xz
    by (intro exI [of _ ?r] exI [of _ t] exI [of _ answers]) simp
qed

end
