(* ===== verification/Schedule_Fire.thy ===== *)
theory Schedule_Fire
  imports Json_Injective
begin

text \<open>
  Schedules and the identity of one fire (\<open>src/qarunner/domain/schedule_fire.py\<close>). The cron library and
  the time zone table are a parameter.
\<close>

datatype schedule_status = ScheduleEnabled | SchedulePaused | ScheduleDisabled

fun schedule_status_value :: "schedule_status \<Rightarrow> string" where
  "schedule_status_value ScheduleEnabled = ''enabled''"
| "schedule_status_value SchedulePaused = ''paused''"
| "schedule_status_value ScheduleDisabled = ''disabled''"

record schedule_record =
  sk_schedule_id :: string
  sk_name :: string
  sk_profile_id :: string
  sk_cron_expr :: string
  sk_timezone :: string
  sk_status :: schedule_status
  sk_next_fire_at :: "datetime option"
  sk_created_by :: string
  sk_created_at :: datetime

definition schedule_string :: "string \<Rightarrow> string \<Rightarrow> string \<Rightarrow> domain_error option" where
  "schedule_string entity field v = reject_if (blank v) (DomainValidationError entity field ''invalid'')"

definition check_schedule_record :: "schedule_record \<Rightarrow> domain_error option" where
  "check_schedule_record s =
     (let e = ''schedule_record'' in first_some (
     [schedule_string e ''schedule_id'' (sk_schedule_id s), schedule_string e ''name'' (sk_name s),
      schedule_string e ''profile_id'' (sk_profile_id s), schedule_string e ''cron_expr'' (sk_cron_expr s),
      schedule_string e ''timezone'' (sk_timezone s), schedule_string e ''created_by'' (sk_created_by s)] @
     (case sk_next_fire_at s of None \<Rightarrow> [] | Some t \<Rightarrow> [require_utc e ''next_fire_at'' t]) @
     [require_utc e ''created_at'' (sk_created_at s)]))"

definition schedule_digest :: "schedule_record \<Rightarrow> digest result" where
  "schedule_digest s = canonical_digest ''qep.schedule-record.v1''
     (JObj [(''schedule_id'', JStr (sk_schedule_id s)),
            (''name'', JStr (sk_name s)),
            (''profile_id'', JStr (sk_profile_id s)),
            (''cron_expr'', JStr (sk_cron_expr s)),
            (''timezone'', JStr (sk_timezone s)),
            (''status'', JStr (schedule_status_value (sk_status s))),
            (''created_by'', JStr (sk_created_by s))])"

text \<open>
  \<open>croniter.is_valid\<close>, whether \<open>ZoneInfo\<close> knows a zone, and the next fire of an expression in a zone after
  an instant, as an instant.
\<close>

record cron_library =
  cl_valid :: "string \<Rightarrow> bool"
  cl_zone :: "string \<Rightarrow> bool"
  cl_next :: "string \<Rightarrow> string \<Rightarrow> int \<Rightarrow> int"

definition compute_next_fire_at ::
  "cron_library \<Rightarrow> string \<Rightarrow> string \<Rightarrow> datetime \<Rightarrow> bool \<Rightarrow> datetime option result" where
  "compute_next_fire_at lib cron_expr timezone after enabled =
     (case first_some [schedule_string ''schedule'' ''cron_expr'' cron_expr,
         schedule_string ''schedule'' ''timezone'' timezone, require_utc ''schedule'' ''after'' after] of
        Some e \<Rightarrow> Inl e
      | None \<Rightarrow>
          if \<not> enabled then Inr None
          else if \<not> cl_valid lib cron_expr then Inl (DomainValidationError ''schedule'' ''cron_expr'' ''invalid'')
          else if \<not> cl_zone lib timezone then Inl (DomainValidationError ''schedule'' ''timezone'' ''invalid'')
          else Inr (Some (DateTime (cl_next lib cron_expr timezone (instant after)) (Some 0))))"

record fire_identity =
  fy_schedule_id :: string
  fy_fire_at :: datetime
  fy_fire_digest :: digest

definition check_fire_identity :: "fire_identity \<Rightarrow> domain_error option" where
  "check_fire_identity f = first_some
     [schedule_string ''schedule_fire_identity'' ''schedule_id'' (fy_schedule_id f),
      require_utc ''schedule_fire_identity'' ''fire_at'' (fy_fire_at f)]"

definition fire_payload :: "string \<Rightarrow> datetime \<Rightarrow> json" where
  "fire_payload schedule_id fire_at =
     JObj [(''schedule_id'', JStr schedule_id), (''fire_at'', JStr (iso_offset fire_at))]"

definition compute_schedule_fire_identity :: "string \<Rightarrow> datetime \<Rightarrow> fire_identity result" where
  "compute_schedule_fire_identity schedule_id fire_at =
     bind_result (raise_or (first_some [schedule_string ''schedule_fire_identity'' ''schedule_id'' schedule_id,
         require_utc ''schedule_fire_identity'' ''fire_at'' fire_at]) ()) (\<lambda>_.
     bind_result (canonical_digest ''qep.schedule-fire.v1'' (fire_payload schedule_id fire_at)) (\<lambda>d.
     let f = \<lparr>fy_schedule_id = schedule_id, fy_fire_at = fire_at, fy_fire_digest = d\<rparr>
     in raise_or (check_fire_identity f) f))"

section \<open>ISO timestamps are injective\<close>

text \<open>The datetimes that Python can represent: years 1 to 9999.\<close>

definition python_datetime :: "datetime \<Rightarrow> bool" where
  "python_datetime t \<longleftrightarrow> - 719162 * 86400000000 \<le> instant t \<and> instant t < 2932897 * 86400000000"

lemma padded_digits:
  "list_all is_digit (pad_left w (show_nat n)) \<and> digits_value 0 (pad_left w (show_nat n)) = n"
proof -
  have zero: "is_digit CHR ''0''" "digits_value 0 (replicate k CHR ''0'' @ s) = digits_value 0 s" for k s
  proof -
    show z: "is_digit CHR ''0''" by code_simp
    have "digit_value CHR ''0'' = 0" by code_simp
    then show "digits_value 0 (replicate k CHR ''0'' @ s) = digits_value 0 s"
      by (induction k) simp_all
  qed
  have "list_all is_digit (replicate k CHR ''0'')" for k
    using zero(1) by (induction k) simp_all
  then show ?thesis using show_nat_digits [of n] zero(2) by (simp add: pad_left_def)
qed

text \<open>Reading one padded number at the front of a text.\<close>

lemma padded_prefix:
  assumes "pad_left w (show_int i) @ r = pad_left w (show_int k) @ r'" "0 \<le> i" "0 \<le> k" "stops r" "stops r'"
  shows "i = k \<and> r = r'"
proof -
  have "pad_left w (show_nat (nat i)) @ r = pad_left w (show_nat (nat k)) @ r'"
    using assms(1-3) by (simp add: show_int_def)
  then have "pad_left w (show_nat (nat i)) = pad_left w (show_nat (nat k)) \<and> r = r'"
    using padded_digits assms(4,5) digits_prefix by blast
  then show ?thesis using padded_digits assms(2,3) by (metis nat_eq_iff2)
qed

text \<open>A day number is determined by its calendar date.\<close>

definition year_days :: "int \<Rightarrow> int" where
  "year_days y = 365 * y + y div 4 - y div 100"

definition leapless :: "int \<Rightarrow> int" where
  "leapless d = d - d div 1460 + d div 36524 - d div 146096"

lemma div_succ:
  fixes x n :: int
  assumes "0 < n"
  shows "(x + 1) div n = x div n + (if n dvd x + 1 then 1 else 0)"
proof (cases "x mod n + 1 = n")
  case True
  have "x + 1 = n * (x div n) + (x mod n + 1)" by simp
  then have e: "x + 1 = n * (x div n + 1)" unfolding True by (simp only: distrib_left mult_1_right)
  then have "n dvd x + 1" by (metis dvd_triv_left)
  moreover have "(x + 1) div n = x div n + 1" using assms by (subst e) simp
  ultimately show ?thesis by simp
next
  case False
  have b: "0 \<le> x mod n" "x mod n < n" using assms by simp_all
  then have r: "0 \<le> x mod n + 1" "x mod n + 1 < n" using False by linarith+
  have e: "x + 1 = n * (x div n) + (x mod n + 1)" using div_mult_mod_eq [of x n] by (simp add: algebra_simps)
  have "(x + 1) div n = x div n" using e r by (rule int_div_pos_eq)
  moreover have "(x + 1) mod n = x mod n + 1" using e r by (rule int_mod_pos_eq)
  then have "\<not> n dvd x + 1" using b(1) by (simp add: dvd_eq_mod_eq_0)
  ultimately show ?thesis by simp
qed

lemma leapless_mono:
  assumes "x \<le> y"
  shows "leapless x \<le> leapless y"
proof -
  have step: "leapless z \<le> leapless (z + 1)" for z
  proof -
    have "(36524::int) dvd z + 1" if "(146096::int) dvd z + 1"
      using that by (rule dvd_trans [rotated]) simp
    then show ?thesis by (simp add: leapless_def div_succ)
  qed
  have "leapless x \<le> leapless (x + int n)" for n
    by (induction n) (use step order_trans in \<open>force simp: algebra_simps\<close>)+
  from this [of "nat (y - x)"] show ?thesis using assms by simp
qed

text \<open>The first days of the years are the multiples of 365 that \<open>leapless\<close> counts.\<close>

lemma leapless_years:
  assumes "0 \<le> y" "y < 400"
  shows "leapless (year_days y) = 365 * y" "0 < y \<Longrightarrow> \<not> 1460 dvd year_days y" "year_days y < 146096"
    "365 * y \<le> year_days y"
proof -
  define c q r where d: "c = y div 100" "q = y mod 100 div 4" "r = y mod 4"
  have b: "0 \<le> c" "c \<le> 3" "0 \<le> q" "q \<le> 24" "0 \<le> r" "r \<le> 3"
    using assms pos_mod_bound [of 100 y] by (simp_all add: d pos_imp_zdiv_nonneg_iff)
  have "y mod 100 mod 4 = y mod 4" by (rule mod_mod_cancel) simp
  then have "y mod 100 = 4 * q + r" unfolding d by (metis mult_div_mod_eq)
  moreover have "y = 100 * c + y mod 100" by (simp add: d)
  ultimately have y1: "y = 100 * c + 4 * q + r" by linarith
  then have "y = 4 * (25 * c + q) + r" by simp
  then have "y div 4 = 25 * c + q" by (rule int_div_pos_eq) (use b in linarith)+
  with y1 have y: "y = 100 * c + 4 * q + r" "y div 4 = 25 * c + q" by simp_all
  have n: "year_days y = 36524 * c + (1461 * q + 365 * r)" unfolding year_days_def y(2) d(1) [symmetric] using y(1) by simp
  have n': "year_days y = 1460 * (25 * c + q) + (24 * c + q + 365 * r)" using n by simp
  have a: "year_days y div 36524 = c" by (rule int_div_pos_eq [OF n]) (use b in linarith)+
  have a': "year_days y div 1460 = 25 * c + q" by (rule int_div_pos_eq [OF n']) (use b in linarith)+
  show l: "year_days y < 146096" using n b by linarith
  show g: "365 * y \<le> year_days y" using n y(1) b by linarith
  have "year_days y div 146096 = 0" using l g assms(1) by (intro div_pos_pos_trivial) linarith+
  then show "leapless (year_days y) = 365 * y" unfolding leapless_def a a' using n y(1) by linarith
  have "year_days y mod 1460 = 24 * c + q + 365 * r" by (rule int_mod_pos_eq [OF n']) (use b in linarith)+
  moreover have "24 * c + q + 365 * r \<noteq> 0" if "0 < y" using that b y(1) by linarith
  ultimately show "\<not> 1460 dvd year_days y" if "0 < y" using that by (simp only: dvd_eq_mod_eq_0 not_False_eq_True)
qed

lemma leapless_before_year:
  assumes "0 < y" "y \<le> 400"
  shows "leapless (year_days y - 1) < 365 * y"
proof (cases "y = 400")
  case True
  then show ?thesis by (simp add: leapless_def year_days_def)
next
  case False
  then have y: "0 \<le> y" "y < 400" using assms by simp_all
  have "\<not> 146096 dvd year_days y"
  proof
    assume a: "146096 dvd year_days y"
    have "0 < year_days y" using assms(1) leapless_years(4) [OF y] by linarith
    then show False using zdvd_imp_le [OF a] leapless_years(3) [OF y] by simp
  qed
  then have c: "year_days y div 146096 = (year_days y - 1) div 146096"
    using div_succ [of 146096 "year_days y - 1"] by simp
  have a: "year_days y div 1460 = (year_days y - 1) div 1460"
    using div_succ [of 1460 "year_days y - 1"] leapless_years(2) [OF y assms(1)] by simp
  have b: "(year_days y - 1) div 36524 \<le> year_days y div 36524" by (rule zdiv_mono1) simp_all
  have "leapless (year_days y - 1) < leapless (year_days y)" unfolding leapless_def a c using b by linarith
  then show ?thesis using leapless_years(1) [OF y] by simp
qed

lemma year_of_day:
  assumes "0 \<le> d" "d < 146097" "y = leapless d div 365"
  shows "0 \<le> y" "y < 400" "year_days y \<le> d" "d < year_days y + 366"
proof -
  have "leapless 0 = 0" "leapless 146096 = 145999" by (simp_all add: leapless_def)
  then have f: "0 \<le> leapless d" "leapless d \<le> 145999"
    using leapless_mono [of 0 d] leapless_mono [of d 146096] assms(1,2) by simp_all
  then show y: "0 \<le> y" "y < 400" unfolding assms(3) by simp_all
  have b: "365 * y \<le> leapless d" "leapless d < 365 * (y + 1)"
  proof -
    obtain k where "leapless d = y * 365 + k" "0 \<le> k" "k < 365"
      using that [of "leapless d mod 365"] by (simp add: assms(3))
    then show "365 * y \<le> leapless d" "leapless d < 365 * (y + 1)" by simp_all
  qed
  show "year_days y \<le> d"
  proof (rule ccontr)
    assume "\<not> year_days y \<le> d"
    then have "leapless d \<le> leapless (year_days y - 1)" by (intro leapless_mono) simp
    moreover have "0 < y" using y(1) \<open>\<not> year_days y \<le> d\<close> assms(1) by (cases "y = 0") (simp_all add: year_days_def)
    ultimately show False using leapless_before_year [of y] b(1) y(2) by simp
  qed
  show "d < year_days y + 366"
  proof (cases "y + 1 = 400")
    case True
    then have "y = 399" by simp
    then show ?thesis using assms(2) by (simp add: year_days_def)
  next
    case False
    have "d < year_days (y + 1)"
    proof (rule ccontr)
      assume "\<not> d < year_days (y + 1)"
      then have "leapless (year_days (y + 1)) \<le> leapless d" by (intro leapless_mono) simp
      then show False using leapless_years(1) [of "y + 1"] False y b(2) by simp
    qed
    also have "\<dots> \<le> year_days y + 366" by (simp add: year_days_def div_succ)
    finally show ?thesis .
  qed
qed

lemma civil_parts:
  assumes "- 719468 \<le> z" "civil_from_days z = (y, m, d)"
  obtains era yoe doy mp where "z + 719468 = era * 146097 + (year_days yoe + doy)" "0 \<le> era" "0 \<le> yoe" "yoe < 400"
    "0 \<le> mp" "mp < 12" "mp = (5 * doy + 2) div 153" "d = doy - (153 * mp + 2) div 5 + 1" "1 \<le> d"
    "m = (if mp < 10 then mp + 3 else mp - 9)" "y = yoe + era * 400 + (if m \<le> 2 then 1 else 0)"
proof -
  define era where "era = (z + 719468) div 146097"
  define doe where "doe = (z + 719468) mod 146097"
  define yoe where "yoe = leapless doe div 365"
  define doy where "doy = doe - year_days yoe"
  define mp where "mp = (5 * doy + 2) div 153"
  have doe: "0 \<le> doe" "doe < 146097" by (simp_all add: doe_def)
  note yr = year_of_day [OF doe yoe_def]
  have doy: "0 \<le> doy" "doy < 366" using yr(3,4) by (simp_all add: doy_def)
  have "0 \<le> mp" "mp < 12" using doy unfolding mp_def by simp_all
  moreover have "153 * mp \<le> 5 * doy + 2"
  proof -
    have "5 * doy + 2 = mp * 153 + (5 * doy + 2) mod 153" "0 \<le> (5 * doy + 2) mod 153" by (simp_all add: mp_def)
    then show ?thesis by linarith
  qed
  then have "(153 * mp + 2) div 5 \<le> (5 * doy + 4) div 5" by (intro zdiv_mono1) simp_all
  then have "1 \<le> doy - (153 * mp + 2) div 5 + 1" by simp
  moreover have "z + 719468 = era * 146097 + (year_days yoe + doy)" by (simp add: era_def doe_def doy_def)
  moreover have "0 \<le> era" using assms(1) by (simp add: era_def pos_imp_zdiv_nonneg_iff)
  moreover have "civil_from_days z = (yoe + era * 400 + (if (if mp < 10 then mp + 3 else mp - 9) \<le> 2 then 1 else 0),
      (if mp < 10 then mp + 3 else mp - 9), doy - (153 * mp + 2) div 5 + 1)"
    by (simp only: civil_from_days_def Let_def era_def doe_def yoe_def doy_def mp_def year_days_def leapless_def)
  ultimately show thesis using that [of era yoe doy mp] yr(1,2) assms(2) unfolding mp_def by simp
qed

lemma civil_from_days_inj:
  assumes "- 719468 \<le> z" "- 719468 \<le> w" "civil_from_days z = civil_from_days w"
  shows "z = w"
proof -
  obtain y m d where c: "civil_from_days z = (y, m, d)" by (cases "civil_from_days z")
  obtain era yoe doy mp where z: "z + 719468 = era * 146097 + (year_days yoe + doy)" "0 \<le> era" "0 \<le> yoe" "yoe < 400"
    "0 \<le> mp" "mp < 12" "d = doy - (153 * mp + 2) div 5 + 1"
    "m = (if mp < 10 then mp + 3 else mp - 9)" "y = yoe + era * 400 + (if m \<le> 2 then 1 else 0)"
    using civil_parts [OF assms(1) c] by metis
  obtain era' yoe' doy' mp' where w: "w + 719468 = era' * 146097 + (year_days yoe' + doy')" "0 \<le> era'" "0 \<le> yoe'" "yoe' < 400"
    "0 \<le> mp'" "mp' < 12" "d = doy' - (153 * mp' + 2) div 5 + 1"
    "m = (if mp' < 10 then mp' + 3 else mp' - 9)" "y = yoe' + era' * 400 + (if m \<le> 2 then 1 else 0)"
    using civil_parts [OF assms(2)] c assms(3) by metis
  have "mp = mp'" using z(5,6,8) w(5,6,8) by (simp split: if_splits)
  moreover have "yoe + era * 400 = yoe' + era' * 400" using z(9) w(9) by simp
  then have "(yoe + era * 400) mod 400 = (yoe' + era' * 400) mod 400" "(yoe + era * 400) div 400 = (yoe' + era' * 400) div 400"
    by simp_all
  then have "yoe = yoe'" "era = era'" using z(3,4) w(3,4) by simp_all
  ultimately show ?thesis using z(1,7) w(1,7) by simp
qed

text \<open>A timestamp as a list of padded numbers, each with the character after it.\<close>

fun field_text :: "(nat \<times> int \<times> char) list \<Rightarrow> string" where
  "field_text [] = []"
| "field_text ((w, n, c) # fs) = pad_left w (show_int n) @ c # field_text fs"

definition marks :: "(nat \<times> int \<times> char) list \<Rightarrow> (nat \<times> char) list" where
  "marks fs = map (\<lambda>(w, n, c). (w, c)) fs"

lemma field_text_prefix:
  assumes "field_text fs @ r = field_text gs @ r'" "marks fs = marks gs"
    "\<forall>(w, n, c) \<in> set fs. 0 \<le> n \<and> \<not> is_digit c" "\<forall>(w, n, c) \<in> set gs. 0 \<le> n"
  shows "fs = gs \<and> r = r'"
  using assms
proof (induction fs arbitrary: gs)
  case (Cons f fs)
  obtain w n c where f: "f = (w, n, c)" by (cases f) auto
  obtain k gs' where g: "gs = (w, k, c) # gs'" "marks fs = marks gs'"
    using Cons.prems(2) by (cases gs) (auto simp: f marks_def)
  have "n = k \<and> c # field_text fs @ r = c # field_text gs' @ r'"
    using Cons.prems by (intro padded_prefix [of w]) (auto simp: f g stops_def)
  then show ?case using Cons.IH [of gs'] Cons.prems f g by auto
qed (simp add: marks_def)

definition iso_fields :: "int \<times> int \<times> int \<Rightarrow> int \<Rightarrow> (nat \<times> int \<times> char) list" where
  "iso_fields ymd s = (case ymd of (y, m, d) \<Rightarrow>
     [(4, y, CHR ''-''), (2, m, CHR ''-''), (2, d, CHR ''T''), (2, s div 3600, CHR '':''),
      (2, s div 60 mod 60, CHR '':'')])"

definition iso_tail :: "int \<Rightarrow> string" where
  "iso_tail f = (if f = 0 then [] else CHR ''.'' # pad_left 6 (show_int f)) @ ''+00:00''"

lemma iso_offset_fields:
  "iso_offset t = field_text (iso_fields (civil_from_days (instant t div 86400000000)) (instant t mod 86400000000 div 1000000)) @
     pad_left 2 (show_int (instant t mod 86400000000 div 1000000 mod 60)) @ iso_tail (instant t mod 86400000000 mod 1000000)"
proof -
  obtain y m d where "civil_from_days (instant t div 86400000000) = (y, m, d)"
    by (cases "civil_from_days (instant t div 86400000000)")
  then show ?thesis
    by (simp only: iso_offset_def iso_base_def iso_fields_def iso_tail_def Let_def field_text.simps prod.case
        append.simps append_assoc)
qed

lemma mark_digits: "\<not> is_digit CHR ''-''" "\<not> is_digit CHR ''T''" "\<not> is_digit CHR '':''" "\<not> is_digit CHR ''.''"
  "\<not> is_digit CHR ''+''"
  by code_simp+

lemma iso_tail_inj:
  assumes "iso_tail f = iso_tail g" "0 \<le> f" "0 \<le> g"
  shows "f = g"
proof (cases "f = 0 \<or> g = 0")
  case True
  then show ?thesis using assms(1) by (auto simp: iso_tail_def split: if_splits)
next
  case False
  then have "pad_left 6 (show_int f) @ ''+00:00'' = pad_left 6 (show_int g) @ ''+00:00''"
    using assms(1) by (simp add: iso_tail_def)
  moreover have "stops ''+00:00''" using mark_digits(5) by (simp add: stops_def)
  ultimately show ?thesis using padded_prefix [of 6 f "''+00:00''" g "''+00:00''"] assms(2,3) by simp
qed

lemma civil_nonneg:
  assumes "- 719468 \<le> z" "civil_from_days z = (y, m, d)"
  shows "0 \<le> y \<and> 0 \<le> m \<and> 0 \<le> d"
proof -
  obtain era yoe mp where p: "0 \<le> era" "0 \<le> yoe" "0 \<le> mp" "1 \<le> d"
    "m = (if mp < 10 then mp + 3 else mp - 9)" "y = yoe + era * 400 + (if m \<le> 2 then 1 else 0)"
    using civil_parts [OF assms] by metis
  have "0 \<le> yoe + era * 400" "0 \<le> (if m \<le> 2 then 1 else (0::int))" using p(1,2) by simp_all
  then have "0 \<le> y" unfolding p(6) by linarith
  moreover have "0 \<le> m" unfolding p(5) using p(3) by (cases "mp < 10") simp_all
  ultimately show ?thesis using p(4) by simp
qed

text \<open>The text of an instant determines the instant.\<close>

lemma iso_offset_inj:
  assumes "python_datetime t" "python_datetime u" "iso_offset t = iso_offset u"
  shows "instant t = instant u"
proof -
  define zt zu where z: "zt = instant t div 86400000000" "zu = instant u div 86400000000"
  define rt ru where r: "rt = instant t mod 86400000000" "ru = instant u mod 86400000000"
  have era: "- 719468 \<le> zt" "- 719468 \<le> zu"
    using assms(1,2) zdiv_mono1 [of "- 719162 * 86400000000" "instant t" 86400000000]
      zdiv_mono1 [of "- 719162 * 86400000000" "instant u" 86400000000]
    by (simp_all add: z python_datetime_def)
  have pos: "0 \<le> rt" "0 \<le> ru" by (simp_all add: r)
  have fields: "\<forall>(w, n, c) \<in> set (iso_fields (civil_from_days v) (x div 1000000)). 0 \<le> n \<and> \<not> is_digit c"
    if "- 719468 \<le> v" "0 \<le> x" for v x
  proof -
    obtain y m d where c: "civil_from_days v = (y, m, d)" by (cases "civil_from_days v")
    show ?thesis using civil_nonneg [OF that(1) c] that(2) mark_digits
      by (simp add: iso_fields_def c pos_imp_zdiv_nonneg_iff)
  qed
  have same: "marks (iso_fields p a) = marks (iso_fields q b)" for p q a b
    by (simp add: marks_def iso_fields_def split: prod.split)
  have e: "iso_fields (civil_from_days zt) (rt div 1000000) = iso_fields (civil_from_days zu) (ru div 1000000) \<and>
      pad_left 2 (show_int (rt div 1000000 mod 60)) @ iso_tail (rt mod 1000000) =
      pad_left 2 (show_int (ru div 1000000 mod 60)) @ iso_tail (ru mod 1000000)"
    using field_text_prefix [OF _ same fields [OF era(1) pos(1)]] fields [OF era(2) pos(2)] assms(3)
    unfolding iso_offset_fields z r by blast
  have tail: "stops (iso_tail f)" for f using mark_digits by (simp add: iso_tail_def stops_def)
  have s: "rt div 1000000 mod 60 = ru div 1000000 mod 60 \<and> iso_tail (rt mod 1000000) = iso_tail (ru mod 1000000)"
    using padded_prefix [OF conjunct2 [OF e]] tail by simp
  have "rt mod 1000000 = ru mod 1000000" by (rule iso_tail_inj [OF conjunct2 [OF s]]) simp_all
  moreover have hm: "rt div 1000000 div 3600 = ru div 1000000 div 3600"
    "rt div 1000000 div 60 mod 60 = ru div 1000000 div 60 mod 60" and ymd: "civil_from_days zt = civil_from_days zu"
    using e by (auto simp: iso_fields_def split: prod.splits)
  have "x = x div 3600 * 3600 + (x div 60 mod 60) * 60 + x mod 60" for x :: int
  proof -
    have "x div 60 div 60 = x div 3600" by (simp add: zdiv_zmult2_eq [symmetric])
    moreover have "x = x div 60 * 60 + x mod 60" "x div 60 = x div 60 div 60 * 60 + x div 60 mod 60" by simp_all
    ultimately show ?thesis by linarith
  qed
  from this [of "rt div 1000000"] this [of "ru div 1000000"] have "rt div 1000000 = ru div 1000000"
    using hm s by simp
  ultimately have "rt = ru" by (metis mult_div_mod_eq)
  moreover have "zt = zu" by (rule civil_from_days_inj [OF era ymd])
  ultimately show ?thesis unfolding z r by (metis mult_div_mod_eq)
qed

section \<open>The identity of a fire\<close>

lemma iso_offset_cong: "instant t = instant u \<Longrightarrow> iso_offset t = iso_offset u"
  by (simp add: iso_offset_def iso_base_def)

text \<open>A fire is accepted exactly for a named schedule and a UTC time.\<close>

lemma fire_identity_iff:
  "(\<exists>f. compute_schedule_fire_identity schedule_id t = Inr f) \<longleftrightarrow> \<not> blank schedule_id \<and> is_utc t"
  by (auto simp: compute_schedule_fire_identity_def fire_payload_def schedule_string_def check_fire_identity_def Let_def
      result_simps)

text \<open>
  C22: One fire has one identity. For a named schedule and a UTC time the identity is computed, with the digest
  of its payload. Two such fires, at times Python can represent, hash the same text exactly when they are of
  the same schedule and at the same instant, and then their digests are the same. So a misfire or a restart
  computes the digest of the fire again, and another fire shares it only by a collision of SHA-256.
\<close>

theorem fire_identity_determines_fire:
  assumes "python_datetime t" "is_utc t" "\<not> blank a" "python_datetime u" "is_utc u" "\<not> blank b"
  shows "\<exists>f g. compute_schedule_fire_identity a t = Inr f \<and> compute_schedule_fire_identity b u = Inr g \<and>
    fy_fire_digest f = digest_of ''qep.schedule-fire.v1'' (fire_payload a t) \<and>
    (canonical_bytes ''qep.schedule-fire.v1'' (fire_payload a t) = canonical_bytes ''qep.schedule-fire.v1'' (fire_payload b u) \<longleftrightarrow>
       a = b \<and> instant t = instant u) \<and>
    (a = b \<and> instant t = instant u \<longrightarrow> fy_fire_digest f = fy_fire_digest g)"
proof -
  obtain f g where fg: "compute_schedule_fire_identity a t = Inr f" "compute_schedule_fire_identity b u = Inr g"
    using assms fire_identity_iff by blast
  have d: "fy_fire_digest f = digest_of ''qep.schedule-fire.v1'' (fire_payload a t)"
    "fy_fire_digest g = digest_of ''qep.schedule-fire.v1'' (fire_payload b u)"
    using fg unfolding compute_schedule_fire_identity_def Let_def by (auto simp: result_simps)
  have "canonical_bytes ''qep.schedule-fire.v1'' (fire_payload a t) = canonical_bytes ''qep.schedule-fire.v1'' (fire_payload b u)
      \<longleftrightarrow> a = b \<and> iso_offset t = iso_offset u"
    unfolding canonical_bytes_eq_iff by (auto simp: fire_payload_def sort_key_def)
  also have "\<dots> \<longleftrightarrow> a = b \<and> instant t = instant u"
    using iso_offset_inj [OF assms(1,4)] iso_offset_cong by blast
  finally have bytes: "canonical_bytes ''qep.schedule-fire.v1'' (fire_payload a t) =
      canonical_bytes ''qep.schedule-fire.v1'' (fire_payload b u) \<longleftrightarrow> a = b \<and> instant t = instant u" .
  have "fy_fire_digest f = fy_fire_digest g" if "a = b" "instant t = instant u"
    unfolding d fire_payload_def iso_offset_cong [OF that(2)] that(1) ..
  with fg d(1) bytes show ?thesis by blast
qed

theorem fire_identity_determines_fire_witness:
  "canonical_bytes ''qep.schedule-fire.v1'' (fire_payload ''s'' (utc 0)) \<noteq>
   canonical_bytes ''qep.schedule-fire.v1'' (fire_payload ''s'' (utc 60))"
proof -
  have "python_datetime (utc 0)" "python_datetime (utc 60)" "is_utc (utc 0)" "is_utc (utc 60)" "\<not> blank ''s''"
    "instant (utc 0) \<noteq> instant (utc 60)"
    by code_simp+
  then show ?thesis using fire_identity_determines_fire [of "utc 0" "''s''" "utc 60" "''s''"] by blast
qed

end
