(* ===== verification/Run_Arguments.thy ===== *)
theory Run_Arguments
  imports Python_Text
begin

text \<open>
  The arguments of a legacy test run (\<open>src/qarunner/core/orchestrator.py\<close>, \<open>core/paths.py\<close>,
  \<open>core/runners\<close> and the request of \<open>models.py\<close>): which argument vectors and environments of an untrusted
  request are accepted, and what a re-run makes of them. How the file system resolves a path is a
  parameter. The English texts of the errors are not modelled; an error carries the rejected value.
\<close>

datatype argument_error = UnsafeArguments string | UnsafePath string | ShlexError string

section \<open>Shell words\<close>

text \<open>
  \<open>shlex.split\<close>: the states of the lexer in POSIX mode with \<open>whitespace_split\<close> and without comments. An
  escape remembers the state it returns to: a word, or the quotation it stands in.
\<close>

datatype shlex_state = ShBlank | ShWord | ShQuote char | ShEscape "char option"

definition shlex_space :: "char \<Rightarrow> bool" where
  "shlex_space c \<longleftrightarrow> c \<in> {CHR '' '', CHR 0x09, CHR 0x0D, CHR 0x0A}"

definition shlex_quote :: "char \<Rightarrow> bool" where
  "shlex_quote c \<longleftrightarrow> c \<in> {CHR 0x27, CHR 0x22}"

abbreviation backslash :: char where
  "backslash \<equiv> CHR 0x5C"

text \<open>The token so far, and whether it holds a quoted part (an empty one then counts).\<close>

fun shlex_go :: "shlex_state \<Rightarrow> bool \<Rightarrow> string \<Rightarrow> string \<Rightarrow> argument_error + string list" where
  "shlex_go ShBlank quoted token [] = Inr []"
| "shlex_go ShBlank quoted token (c # cs) =
     (if shlex_space c then
        (if token \<noteq> [] \<or> quoted then map_result (Cons token) (shlex_go ShBlank False [] cs)
         else shlex_go ShBlank quoted token cs)
      else if c = backslash then shlex_go (ShEscape None) quoted token cs
      else if shlex_quote c then shlex_go (ShQuote c) quoted token cs
      else shlex_go ShWord quoted [c] cs)"
| "shlex_go (ShQuote q) quoted token [] = Inl (ShlexError ''No closing quotation'')"
| "shlex_go (ShQuote q) quoted token (c # cs) =
     (if c = q then shlex_go ShWord True token cs
      else if c = backslash \<and> q = CHR 0x22 then shlex_go (ShEscape (Some q)) True token cs
      else shlex_go (ShQuote q) True (token @ [c]) cs)"
| "shlex_go (ShEscape back) quoted token [] = Inl (ShlexError ''No escaped character'')"
| "shlex_go (ShEscape back) quoted token (c # cs) =
     (case back of
        None \<Rightarrow> shlex_go ShWord quoted (token @ [c]) cs
      | Some q \<Rightarrow> shlex_go (ShQuote q) quoted ((if c \<noteq> backslash \<and> c \<noteq> q then token @ [backslash] else token) @ [c]) cs)"
| "shlex_go ShWord quoted token [] = Inr (if token = [] \<and> \<not> quoted then [] else [token])"
| "shlex_go ShWord quoted token (c # cs) =
     (if shlex_space c then
        (if token \<noteq> [] \<or> quoted then map_result (Cons token) (shlex_go ShBlank False [] cs)
         else shlex_go ShBlank quoted token cs)
      else if shlex_quote c then shlex_go (ShQuote c) quoted token cs
      else if c = backslash then shlex_go (ShEscape None) quoted token cs
      else shlex_go ShWord quoted (token @ [c]) cs)"

definition shlex_split :: "string \<Rightarrow> argument_error + string list" where
  "shlex_split s = shlex_go ShBlank False [] s"

definition extra_tokens :: "string \<Rightarrow> argument_error + string list" where
  "extra_tokens extra = (if blank extra then Inr [] else shlex_split extra)"

section \<open>Paths\<close>

definition path_join :: "string \<Rightarrow> string \<Rightarrow> string" where
  "path_join root relative =
     (if starts_with ''/'' relative then relative
      else if ends_with ''/'' root then root @ relative else root @ ''/'' @ relative)"

text \<open>\<open>is_relative_to\<close> on resolved paths.\<close>

definition path_under :: "string \<Rightarrow> string \<Rightarrow> bool" where
  "path_under root p \<longleftrightarrow> p = root \<or> starts_with (if ends_with ''/'' root then root else root @ ''/'') p"

definition safe_subpath :: "(string \<Rightarrow> string) \<Rightarrow> string \<Rightarrow> string \<Rightarrow> argument_error + string" where
  "safe_subpath resolve root relative =
     (let r = resolve root; p = resolve (path_join r relative)
      in if path_under r p then Inr p else Inl (UnsafePath relative))"

definition rejects_path_traversal :: "string \<Rightarrow> bool" where
  "rejects_path_traversal v \<longleftrightarrow> ''..'' \<in> set (split_on CHR ''/'' (map (\<lambda>c. if c = backslash then CHR ''/'' else c) v))"

section \<open>Requests\<close>

record run_request =
  tq_tests_path :: string
  tq_runner :: string
  tq_args :: "string list"
  tq_allure :: bool
  tq_timeout :: "int option"
  tq_executor_mode :: string
  tq_selected_files :: "string list"
  tq_selected_markers :: "string list"
  tq_extra_args :: string
  tq_env :: "(string \<times> string) list"

definition max_timeout_seconds :: int where
  "max_timeout_seconds = 86400"

text \<open>The field constraints of the request that its validation checks.\<close>

definition run_request_ok :: "run_request \<Rightarrow> bool" where
  "run_request_ok r \<longleftrightarrow> \<not> rejects_path_traversal (tq_tests_path r) \<and>
     (case tq_timeout r of None \<Rightarrow> True | Some t \<Rightarrow> 0 < t \<and> t \<le> max_timeout_seconds)"

section \<open>The argument vector\<close>

definition dangerous_pytest_flags :: "string list" where
  "dangerous_pytest_flags =
     [''-p'', ''--plugins'', ''-c'', ''--config-file'', ''--pyargs'', ''--rootdir'', ''--import-mode'', ''-o'',
      ''--override-ini'', ''--confcutdir'', ''--pythonpath'', ''--junitxml'', ''--junit-xml'', ''--alluredir'']"

definition dangerous_playwright_flags :: "string list" where
  "dangerous_playwright_flags =
     [''-c'', ''--config'', ''--global-setup'', ''--global-teardown'', ''--output'', ''--reporter'']"

definition playwright_test_suffixes :: "string list" where
  "playwright_test_suffixes = [''.spec.ts'', ''.spec.js'', ''.spec.mjs'', ''.test.ts'', ''.test.js'', ''.test.mjs'']"

text \<open>\<open>token.split("=", 1)[0]\<close>.\<close>

definition flag_of :: "string \<Rightarrow> string" where
  "flag_of token = takeWhile (\<lambda>c. c \<noteq> CHR ''='') token"

definition refuse_flags :: "string list \<Rightarrow> string list \<Rightarrow> argument_error + unit" where
  "refuse_flags flags tokens =
     (case find (\<lambda>t. flag_of t \<in> set flags) tokens of None \<Rightarrow> Inr () | Some t \<Rightarrow> Inl (UnsafeArguments (flag_of t)))"

text \<open>\<open>re.escape\<close>.\<close>

definition regex_special :: "char \<Rightarrow> bool" where
  "regex_special c \<longleftrightarrow> c \<in> set (''()[]{}?*+-|^$'' @ [backslash] @ ''.&~# '' @ [CHR 0x09, CHR 0x0A, CHR 0x0D, CHR 0x0B, CHR 0x0C])"

definition regex_escape :: "string \<Rightarrow> string" where
  "regex_escape s = concat (map (\<lambda>c. if regex_special c then [backslash, c] else [c]) s)"

definition playwright_markers :: "string list \<Rightarrow> string list" where
  "playwright_markers markers =
     (if markers = [] then []
      else [''--grep'', join_with ''|'' (map (\<lambda>m. CHR ''@'' # regex_escape (dropWhile (\<lambda>c. c = CHR ''@'') m)) markers)])"

definition pytest_markers :: "string list \<Rightarrow> string list" where
  "pytest_markers markers = (if markers = [] then [] else [''-m'', join_with '' or '' markers])"

text \<open>\<open>selected.split("::", 1)[0]\<close>.\<close>

fun before_node :: "string \<Rightarrow> string" where
  "before_node [] = []"
| "before_node (c # cs) = (if starts_with ''::'' (c # cs) then [] else c # before_node cs)"

definition playwright_file :: "(string \<Rightarrow> string) \<Rightarrow> string \<Rightarrow> string \<Rightarrow> argument_error + string" where
  "playwright_file resolve tests_dir selected =
     (if starts_with ''-'' selected then Inl (UnsafeArguments selected)
      else bind_result (safe_subpath resolve tests_dir selected) (\<lambda>_.
        if \<not> list_ex (\<lambda>x. ends_with x selected) playwright_test_suffixes then Inl (UnsafeArguments selected)
        else Inr selected))"

definition pytest_file :: "(string \<Rightarrow> string) \<Rightarrow> string \<Rightarrow> string \<Rightarrow> argument_error + string" where
  "pytest_file resolve tests_dir selected =
     (if starts_with ''-'' selected then Inl (UnsafeArguments selected)
      else bind_result (safe_subpath resolve tests_dir (before_node selected)) (\<lambda>_.
        if \<not> ends_with ''.py'' (before_node selected) then Inl (UnsafeArguments selected) else Inr selected))"

definition compile_playwright :: "(string \<Rightarrow> string) \<Rightarrow> run_request \<Rightarrow> string \<Rightarrow> argument_error + string list" where
  "compile_playwright resolve r tests_dir =
     bind_result (extra_tokens (tq_extra_args r)) (\<lambda>extra.
     bind_result (refuse_flags dangerous_playwright_flags (tq_args r @ extra)) (\<lambda>_.
     bind_result (collect_results (map (playwright_file resolve tests_dir) (tq_selected_files r))) (\<lambda>files.
     Inr (tq_args r @ playwright_markers (tq_selected_markers r) @ extra @ files))))"

definition compile_pytest :: "(string \<Rightarrow> string) \<Rightarrow> run_request \<Rightarrow> string \<Rightarrow> argument_error + string list" where
  "compile_pytest resolve r tests_dir =
     bind_result (extra_tokens (tq_extra_args r)) (\<lambda>extra.
     bind_result (refuse_flags dangerous_pytest_flags (tq_args r @ extra)) (\<lambda>_.
     bind_result (collect_results (map (pytest_file resolve tests_dir) (tq_selected_files r))) (\<lambda>files.
     Inr (tq_args r @ pytest_markers (tq_selected_markers r) @ extra @ files))))"

definition compile_args :: "(string \<Rightarrow> string) \<Rightarrow> run_request \<Rightarrow> string \<Rightarrow> string \<Rightarrow> argument_error + string list" where
  "compile_args resolve r tests_dir runner_name =
     (if runner_name = ''playwright'' then compile_playwright resolve r tests_dir else compile_pytest resolve r tests_dir)"

section \<open>The environment\<close>

definition dangerous_env_prefixes :: "string list" where
  "dangerous_env_prefixes = [''LD_'', ''DYLD_'', ''PYTHON'']"

definition dangerous_env_names :: "string list" where
  "dangerous_env_names = [''PATH'', ''BASH_ENV'', ''NODE_OPTIONS'']"

definition env_entry_check :: "string \<times> string \<Rightarrow> argument_error option" where
  "env_entry_check kv =
     (case kv of (key, v) \<Rightarrow> first_some
       [reject_if (key = [] \<or> CHR ''='' \<in> set key \<or> CHR 0x00 \<in> set key) (UnsafeArguments key),
        reject_if (CHR 0x00 \<in> set v) (UnsafeArguments key),
        reject_if (upper key \<in> set dangerous_env_names \<or>
            list_ex (\<lambda>x. starts_with x (upper key)) dangerous_env_prefixes) (UnsafeArguments key)])"

definition sanitize_env :: "(string \<times> string) list \<Rightarrow> argument_error + (string \<times> string) list" where
  "sanitize_env env = raise_or (first_some (map env_entry_check env)) env"

section \<open>The command line of a runner\<close>

definition pytest_command :: "string \<Rightarrow> string \<Rightarrow> string list \<Rightarrow> string list" where
  "pytest_command executable results_dir args =
     [executable, ''-m'', ''pytest'', ''-o'', ''addopts='', ''--junitxml='' @ results_dir @ ''/junit.xml'',
      ''--alluredir='' @ results_dir @ ''/allure-results''] @ args"

definition playwright_command :: "string \<Rightarrow> string list \<Rightarrow> string list" where
  "playwright_command results_dir args =
     [''npx'', ''playwright'', ''test'', ''--reporter=junit'', ''--output='' @ results_dir @ ''/playwright-results''] @ args"

section \<open>What an accepted request holds\<close>

abbreviation refused_flags :: "string \<Rightarrow> string list" where
  "refused_flags name \<equiv> if name = ''playwright'' then dangerous_playwright_flags else dangerous_pytest_flags"

abbreviation marker_tokens :: "string \<Rightarrow> string list \<Rightarrow> string list" where
  "marker_tokens name ms \<equiv> if name = ''playwright'' then playwright_markers ms else pytest_markers ms"

lemma refuse_flags_Inr: "refuse_flags flags tokens = Inr u \<longleftrightarrow> (\<forall>t \<in> set tokens. flag_of t \<notin> set flags)"
  by (auto simp: refuse_flags_def find_None_iff split: option.splits dest: find_SomeD)

lemma collect_accepted:
  assumes "collect_results (map f xs) = Inr ys" "\<And>x y. f x = Inr y \<Longrightarrow> y = x"
  shows "ys = xs \<and> (\<forall>x \<in> set xs. f x = Inr x)"
proof -
  have "map f xs = map Inr ys" using assms(1) by (simp add: collect_results_Inr)
  then show ?thesis using assms(2) by (induction xs arbitrary: ys) (auto simp: Cons_eq_map_conv)
qed

lemma accepted_file:
  "playwright_file resolve d x = Inr y \<Longrightarrow> y = x \<and> \<not> starts_with ''-'' x \<and> (\<exists>p. safe_subpath resolve d x = Inr p)"
  "pytest_file resolve d x = Inr y \<Longrightarrow> y = x \<and> \<not> starts_with ''-'' x \<and> (\<exists>p. safe_subpath resolve d (before_node x) = Inr p)"
  by (auto simp: playwright_file_def pytest_file_def result_simps split: if_splits)

lemma compile_args_Inr:
  assumes "compile_args resolve q d name = Inr argv"
  obtains extra where "extra_tokens (tq_extra_args q) = Inr extra"
    "argv = tq_args q @ marker_tokens name (tq_selected_markers q) @ extra @ tq_selected_files q"
    "\<forall>t \<in> set (tq_args q @ extra). flag_of t \<notin> set (refused_flags name)"
    "\<forall>f \<in> set (tq_selected_files q). \<not> starts_with ''-'' f \<and>
       (\<exists>p. safe_subpath resolve d (if name = ''playwright'' then f else before_node f) = Inr p)"
proof (cases "name = ''playwright''")
  case True
  then obtain extra files where c: "extra_tokens (tq_extra_args q) = Inr extra"
    "refuse_flags dangerous_playwright_flags (tq_args q @ extra) = Inr ()"
    "collect_results (map (playwright_file resolve d) (tq_selected_files q)) = Inr files"
    "argv = tq_args q @ playwright_markers (tq_selected_markers q) @ extra @ files"
    using assms by (auto simp: compile_args_def compile_playwright_def result_simps)
  have "y = x" if "playwright_file resolve d x = Inr y" for x y using accepted_file(1) [OF that] by blast
  note f = collect_accepted [OF c(3) this]
  have "\<forall>x \<in> set (tq_selected_files q). \<not> starts_with ''-'' x \<and> (\<exists>p. safe_subpath resolve d x = Inr p)"
    using f accepted_file(1) by blast
  moreover have "files = tq_selected_files q" using f by blast
  ultimately show thesis using that [of extra] c(1,2,4) True by (simp add: refuse_flags_Inr)
next
  case False
  then obtain extra files where c: "extra_tokens (tq_extra_args q) = Inr extra"
    "refuse_flags dangerous_pytest_flags (tq_args q @ extra) = Inr ()"
    "collect_results (map (pytest_file resolve d) (tq_selected_files q)) = Inr files"
    "argv = tq_args q @ pytest_markers (tq_selected_markers q) @ extra @ files"
    using assms by (auto simp: compile_args_def compile_pytest_def result_simps)
  have "y = x" if "pytest_file resolve d x = Inr y" for x y using accepted_file(2) [OF that] by blast
  note f = collect_accepted [OF c(3) this]
  have "\<forall>x \<in> set (tq_selected_files q). \<not> starts_with ''-'' x \<and> (\<exists>p. safe_subpath resolve d (before_node x) = Inr p)"
    using f accepted_file(2) by blast
  moreover have "files = tq_selected_files q" using f by blast
  ultimately show thesis using that [of extra] c(1,2,4) False by (simp add: refuse_flags_Inr)
qed

text \<open>Every refused flag begins with a dash, so neither a file nor an escaped marker is one.\<close>

lemma refused_flag_dash: "flag \<in> set (refused_flags name) \<Longrightarrow> \<exists>x. flag = CHR ''-'' # x"
  by (auto simp: dangerous_playwright_flags_def dangerous_pytest_flags_def split: if_splits)

lemma flag_of_no_dash:
  assumes "\<not> starts_with ''-'' t"
  shows "flag_of t \<notin> set (refused_flags name)"
proof
  assume "flag_of t \<in> set (refused_flags name)"
  then obtain x where "flag_of t = CHR ''-'' # x" using refused_flag_dash by blast
  then have "starts_with ''-'' t" by (cases t) (auto simp: flag_of_def starts_with_iff split: if_splits)
  then show False using assms by simp
qed

lemma playwright_marker_flags: "\<forall>t \<in> set (playwright_markers ms). flag_of t \<notin> set (refused_flags ''playwright'')"
proof (cases ms)
  case (Cons m ms')
  let ?tag = "\<lambda>m. CHR ''@'' # regex_escape (dropWhile (\<lambda>c. c = CHR ''@'') m)"
  have "\<not> starts_with ''-'' (join_with ''|'' (map ?tag (m # ms')))"
    by (cases ms') (simp_all add: starts_with_iff)
  moreover have "flag_of ''--grep'' \<notin> set dangerous_playwright_flags" by code_simp
  ultimately show ?thesis using flag_of_no_dash [of _ "''playwright''"]
    by (auto simp: playwright_markers_def Cons)
qed (simp add: playwright_markers_def)

lemma pytest_marker_flags:
  "find (\<lambda>t. flag_of t \<in> set dangerous_pytest_flags) (pytest_markers ms) =
     (if ms \<noteq> [] \<and> flag_of (join_with '' or '' ms) \<in> set dangerous_pytest_flags then Some (join_with '' or '' ms) else None)"
proof -
  have "flag_of ''-m'' \<notin> set dangerous_pytest_flags" by code_simp
  then show ?thesis by (simp add: pytest_markers_def)
qed

text \<open>A value attached to a short flag is not recognised: \<open>-pname\<close> passes where \<open>-p\<close> does not.\<close>

lemma attached_value_passes:
  assumes "v \<noteq> []" "CHR ''='' \<notin> set v"
  shows "refuse_flags dangerous_pytest_flags [''-p'' @ v] = Inr ()"
proof -
  have "takeWhile (\<lambda>c. c \<noteq> CHR ''='') v = v" using assms(2) by (auto simp: takeWhile_eq_all_conv)
  then have "flag_of (''-p'' @ v) = ''-p'' @ v" by (simp add: flag_of_def)
  then show ?thesis using assms(1) by (auto simp: refuse_flags_Inr dangerous_pytest_flags_def)
qed

end
