(* ===== verification/Run_Orchestrator.thy ===== *)
theory Run_Orchestrator
  imports Run_Arguments Case_Analysis "HOL-Library.AList"
begin

text \<open>
  The legacy orchestrator (\<open>RunOrchestrator\<close> of \<open>src/qarunner/core/orchestrator.py\<close>): creating a test run,
  executing it and cancelling it. Its ports (store, process, collector, reporter, file system, clock,
  scheduler) are a parameter: each call may return, raise, or be cancelled, and acts on a store \<open>'s\<close>.
  Logging is not modelled.
\<close>

section \<open>Runs\<close>

record report_ref =
  rp_allure_results_dir :: string
  rp_allure_report_file :: "string option"
  rp_html_generated :: bool

record test_run =
  tn_id :: string
  tn_status :: flat_run_status
  tn_runner :: string
  tn_created_by :: string
  tn_tests_path :: string
  tn_args :: "string list"
  tn_allure_enabled :: bool
  tn_timeout :: "int option"
  tn_executor_mode :: string
  tn_summary :: "test_summary option"
  tn_report :: "report_ref option"
  tn_exit_code :: "int option"
  tn_error :: "string option"
  tn_created_at :: datetime
  tn_started_at :: "datetime option"
  tn_finished_at :: "datetime option"
  tn_env :: "(string \<times> string) list"
  tn_locked :: bool
  tn_worker_node_id :: "string option"
  tn_profile_id :: "string option"

text \<open>\<open>RunRequest.from_run\<close>: the request that runs it again.\<close>

definition request_from_run :: "test_run \<Rightarrow> run_request" where
  "request_from_run r =
     \<lparr>tq_tests_path = tn_tests_path r, tq_runner = tn_runner r, tq_args = tn_args r, tq_allure = tn_allure_enabled r,
      tq_timeout = tn_timeout r, tq_executor_mode = tn_executor_mode r, tq_selected_files = [],
      tq_selected_markers = [], tq_extra_args = [], tq_env = tn_env r\<rparr>"

definition settled_status :: "flat_run_status \<Rightarrow> bool" where
  "settled_status st \<longleftrightarrow> st \<in> {FlatCancelled, FlatFailed, FlatCompleted, FlatTimeout}"

section \<open>Tasks\<close>

text \<open>
  What awaiting a call comes to: a value, an exception, or \<open>CancelledError\<close>, which is no
  \<open>Exception\<close>. \<open>OSError\<close> is told apart because one handler catches only it.
\<close>

datatype exn =
    UnknownRunner string
  | OsError string
  | InflightRunLimitExceeded
  | ArgumentException argument_error
  | JailFailed exn
  | OtherException string

datatype 'a outcome = Returned 'a | Raised exn | TaskCancelled

type_synonym ('a, 's) task = "'s \<Rightarrow> 'a outcome \<times> 's"

definition task_return :: "'a \<Rightarrow> ('a, 's) task" where
  "task_return x = (\<lambda>s. (Returned x, s))"

definition task_raise :: "exn \<Rightarrow> ('a, 's) task" where
  "task_raise e = (\<lambda>s. (Raised e, s))"

definition task_bind :: "('a, 's) task \<Rightarrow> ('a \<Rightarrow> ('b, 's) task) \<Rightarrow> ('b, 's) task" where
  "task_bind m f = (\<lambda>s. case m s of (Returned x, t) \<Rightarrow> f x t | (Raised e, t) \<Rightarrow> (Raised e, t)
     | (TaskCancelled, t) \<Rightarrow> (TaskCancelled, t))"

text \<open>\<open>except OSError\<close>, and \<open>except Exception\<close> with a handler.\<close>

definition catch_os :: "('a, 's) task \<Rightarrow> ('a, 's) task \<Rightarrow> ('a, 's) task" where
  "catch_os m h = (\<lambda>s. case m s of (Raised (OsError e), t) \<Rightarrow> h t | x \<Rightarrow> x)"

definition catch_exception :: "('a, 's) task \<Rightarrow> (exn \<Rightarrow> ('a, 's) task) \<Rightarrow> ('a, 's) task" where
  "catch_exception m h = (\<lambda>s. case m s of (Raised e, t) \<Rightarrow> h e t | x \<Rightarrow> x)"

definition check_task :: "argument_error + 'a \<Rightarrow> ('a, 's) task" where
  "check_task r = (case r of Inl e \<Rightarrow> task_raise (ArgumentException e) | Inr x \<Rightarrow> task_return x)"

section \<open>Ports\<close>

record process_result =
  px_exit_code :: int
  px_stdout :: string
  px_stderr :: string
  px_duration_ms :: int
  px_timed_out :: bool

record collect_result =
  cl_summary :: test_summary
  cl_cases :: "test_case_result list"

record 's run_ports =
  wp_get :: "string \<Rightarrow> (test_run, 's) task"
  wp_save :: "test_run \<Rightarrow> (unit, 's) task"
  wp_create_below_limit :: "test_run \<Rightarrow> int \<Rightarrow> (bool, 's) task"
  wp_cancel_if_inflight :: "string \<Rightarrow> datetime \<Rightarrow> (unit, 's) task"
  wp_save_cases :: "string \<Rightarrow> string \<Rightarrow> datetime \<Rightarrow> test_case_result list \<Rightarrow> (unit, 's) task"
  wp_enqueue :: "string \<Rightarrow> (unit, 's) task"
  wp_scheduler_cancel :: "string \<Rightarrow> (unit, 's) task"
  wp_new_id :: "(string, 's) task"
  wp_now :: "'s \<Rightarrow> datetime"
  wp_make_dir :: "string \<Rightarrow> (unit, 's) task"
  wp_copy_jail :: "string \<Rightarrow> string \<Rightarrow> (bool, 's) task"
  wp_jail_exists :: "string \<Rightarrow> (bool, 's) task"
  wp_remove_jail :: "string \<Rightarrow> (unit, 's) task"
  wp_run :: "string list \<Rightarrow> string \<Rightarrow> (string \<times> string) list \<Rightarrow> int \<Rightarrow> string \<Rightarrow> string \<Rightarrow> (process_result, 's) task"
  wp_collect :: "string \<Rightarrow> (collect_result option, 's) task"
  wp_report :: "string \<Rightarrow> bool \<Rightarrow> (report_ref, 's) task"
  wp_notify :: "test_run \<Rightarrow> 's \<Rightarrow> 's"

text \<open>The configuration of an orchestrator. The registry maps a name to how its
  command line is built; \<open>wc_repr\<close> is \<open>repr\<close> of an exception.\<close>

record run_config =
  wc_registry :: "string \<Rightarrow> (string \<Rightarrow> string \<Rightarrow> string list \<Rightarrow> string list) option"
  wc_resolve :: "string \<Rightarrow> string"
  wc_tests_root :: string
  wc_artifacts_root :: string
  wc_executable :: string
  wc_default_timeout :: int
  wc_worker_node_id :: string
  wc_repr :: "exn \<Rightarrow> string"

definition registry_get :: "run_config \<Rightarrow> string \<Rightarrow> (string \<Rightarrow> string \<Rightarrow> string list \<Rightarrow> string list, 's) task" where
  "registry_get w name =
     (case wc_registry w name of None \<Rightarrow> task_raise (UnknownRunner name) | Some build \<Rightarrow> task_return build)"

definition default_registry :: "string \<Rightarrow> (string \<Rightarrow> string \<Rightarrow> string list \<Rightarrow> string list) option" where
  "default_registry =
     [''pytest'' \<mapsto> pytest_command, ''playwright'' \<mapsto> (\<lambda>executable. playwright_command)]"

section \<open>Creating a run\<close>

definition created_run :: "run_config \<Rightarrow> run_request \<Rightarrow> string \<Rightarrow> string option \<Rightarrow> string \<Rightarrow> datetime \<Rightarrow> string list \<Rightarrow>
  (string \<times> string) list \<Rightarrow> test_run" where
  "created_run w q created_by profile_id run_id now args env =
     \<lparr>tn_id = run_id, tn_status = FlatQueued, tn_runner = tq_runner q, tn_created_by = created_by,
      tn_tests_path = tq_tests_path q, tn_args = args, tn_allure_enabled = tq_allure q, tn_timeout = tq_timeout q,
      tn_executor_mode = ''docker'', tn_summary = None, tn_report = None, tn_exit_code = None, tn_error = None,
      tn_created_at = now, tn_started_at = None, tn_finished_at = None, tn_env = env, tn_locked = False,
      tn_worker_node_id = Some (wc_worker_node_id w), tn_profile_id = profile_id\<rparr>"

definition create_test_run :: "run_config \<Rightarrow> 's run_ports \<Rightarrow> run_request \<Rightarrow> string \<Rightarrow> string option \<Rightarrow> int option \<Rightarrow>
  (test_run, 's) task" where
  "create_test_run w p q created_by profile_id inflight_limit =
     task_bind (registry_get w (tq_runner q)) (\<lambda>_.
     task_bind (check_task (safe_subpath (wc_resolve w) (wc_tests_root w) (tq_tests_path q))) (\<lambda>tests_dir.
     task_bind (wp_new_id p) (\<lambda>run_id.
     task_bind (\<lambda>s. (Returned (wp_now p s), s)) (\<lambda>now.
     task_bind (check_task (compile_args (wc_resolve w) q tests_dir (tq_runner q))) (\<lambda>args.
     task_bind (check_task (sanitize_env (tq_env q))) (\<lambda>env.
     let run = created_run w q created_by profile_id run_id now args env in
     task_bind (case inflight_limit of
         None \<Rightarrow> wp_save p run
       | Some limit \<Rightarrow> task_bind (wp_create_below_limit p run limit) (\<lambda>created.
           if created then task_return () else task_raise InflightRunLimitExceeded)) (\<lambda>_.
     task_bind (wp_enqueue p run_id) (\<lambda>_. task_return run))))))))"

section \<open>Executing a run\<close>

text \<open>
  The locals of \<open>execute\<close> that its handlers read: the run as far as it got, whether its outcome is decided,
  and the jail once its name is bound.
\<close>

record exec_locals =
  lo_run :: test_run
  lo_reached :: bool
  lo_jail :: "string option"

type_synonym ('a, 's) body = "('a, exec_locals \<times> 's) task"

definition port :: "('a, 's) task \<Rightarrow> ('a, 's) body" where
  "port m = (\<lambda>(l, s). case m s of (x, t) \<Rightarrow> (x, (l, t)))"

definition set_locals :: "('s \<Rightarrow> exec_locals \<Rightarrow> exec_locals) \<Rightarrow> (unit, 's) body" where
  "set_locals f = (\<lambda>(l, s). (Returned (), (f s l, s)))"

definition the_run :: "(test_run, 's) body" where
  "the_run = (\<lambda>(l, s). (Returned (lo_run l), (l, s)))"

definition run_updated :: "(test_run \<Rightarrow> test_run) \<Rightarrow> exec_locals \<Rightarrow> exec_locals" where
  "run_updated f l = l\<lparr>lo_run := f (lo_run l)\<rparr>"

text \<open>\<open>dict(run.env)\<close> with one more key for Playwright.\<close>

definition process_env :: "string \<Rightarrow> string \<Rightarrow> (string \<times> string) list \<Rightarrow> (string \<times> string) list" where
  "process_env runner results_dir env =
     (if runner = ''playwright''
      then AList.update ''PLAYWRIGHT_JUNIT_OUTPUT_NAME'' (results_dir @ ''/junit.xml'') env else env)"

definition effective_timeout :: "run_config \<Rightarrow> test_run \<Rightarrow> int" where
  "effective_timeout w r = (case tn_timeout r of None \<Rightarrow> wc_default_timeout w
     | Some t \<Rightarrow> if t = 0 then wc_default_timeout w else t)"

definition final_status :: "process_result \<Rightarrow> collect_result option \<Rightarrow> flat_run_status" where
  "final_status proc collected =
     (if px_timed_out proc then FlatTimeout else if collected \<noteq> None then FlatCompleted else FlatFailed)"

text \<open>The directories of a run; the fallback does not change where the results are looked for.\<close>

definition run_directories :: "run_config \<Rightarrow> 's run_ports \<Rightarrow> test_run \<Rightarrow> (string \<times> string \<times> string, 's) task" where
  "run_directories w p r =
     task_bind (check_task (safe_subpath (wc_resolve w) (wc_artifacts_root w) (tn_id r))) (\<lambda>run_dir.
     task_bind (check_task (safe_subpath (wc_resolve w) (wc_tests_root w) (tn_tests_path r))) (\<lambda>tests_dir.
     task_bind (catch_os (task_bind (wp_make_dir p run_dir) (\<lambda>_. task_return run_dir))
       (task_bind (check_task (safe_subpath (wc_resolve w) ''./artifacts'' (tn_id r))) (\<lambda>fallback.
        task_bind (wp_make_dir p fallback) (\<lambda>_. task_return fallback)))) (\<lambda>made.
     task_return (made, path_join run_dir ''results'', tests_dir))))"

text \<open>The jail is a copy of the suite, or the suite itself when there is nothing to copy.\<close>

definition enter_jail :: "'s run_ports \<Rightarrow> string \<Rightarrow> string \<Rightarrow> (string, 's) task" where
  "enter_jail p tests_dir jail_dir =
     catch_exception (task_bind (wp_copy_jail p tests_dir jail_dir) (\<lambda>copied.
       task_return (if copied then jail_dir else tests_dir))) (\<lambda>e. task_raise (JailFailed e))"

definition record_outcome :: "'s run_ports \<Rightarrow> process_result \<Rightarrow> collect_result option \<Rightarrow> report_ref \<Rightarrow> (unit, 's) body" where
  "record_outcome p proc collected report =
     task_bind (set_locals (\<lambda>s l. run_updated (\<lambda>r. r\<lparr>tn_status := final_status proc collected,
       tn_summary := map_option cl_summary collected, tn_report := Some report, tn_finished_at := Some (wp_now p s)\<rparr>)
       l\<lparr>lo_reached := True\<rparr>)) (\<lambda>_.
     task_bind the_run (\<lambda>r.
     task_bind (port (wp_save p r)) (\<lambda>_.
     port (\<lambda>s. (Returned (), wp_notify p r s)))))"

definition run_and_collect ::
  "run_config \<Rightarrow> 's run_ports \<Rightarrow> (string \<Rightarrow> string \<Rightarrow> string list \<Rightarrow> string list) \<Rightarrow> string \<Rightarrow> string \<Rightarrow> string \<Rightarrow> (unit, 's) body" where
  "run_and_collect w p build run_dir results_dir cwd =
     task_bind the_run (\<lambda>r.
     task_bind (port (wp_run p (build (wc_executable w) results_dir (tn_args r)) cwd
       (process_env (tn_runner r) results_dir (tn_env r)) (effective_timeout w r)
       (path_join run_dir ''stdout.log'') (path_join run_dir ''stderr.log''))) (\<lambda>proc.
     task_bind (set_locals (\<lambda>_. run_updated (\<lambda>r. r\<lparr>tn_exit_code := Some (px_exit_code proc)\<rparr>))) (\<lambda>_.
     task_bind (port (wp_collect p results_dir)) (\<lambda>collected.
     task_bind (case collected of None \<Rightarrow> task_return ()
       | Some k \<Rightarrow> port (wp_save_cases p (tn_id r) (tn_tests_path r) (tn_created_at r) (cl_cases k))) (\<lambda>_.
     task_bind (port (wp_report p results_dir (tn_allure_enabled r))) (\<lambda>report.
     record_outcome p proc collected report))))))"

definition execute_body ::
  "run_config \<Rightarrow> 's run_ports \<Rightarrow> (string \<Rightarrow> string \<Rightarrow> string list \<Rightarrow> string list) \<Rightarrow> (unit, 's) body" where
  "execute_body w p build =
     task_bind (set_locals (\<lambda>s. run_updated (\<lambda>r. r\<lparr>tn_status := FlatRunning, tn_started_at := Some (wp_now p s)\<rparr>))) (\<lambda>_.
     task_bind the_run (\<lambda>r.
     task_bind (port (run_directories w p r)) (\<lambda>(run_dir, results_dir, tests_dir).
     task_bind (set_locals (\<lambda>_ l. l\<lparr>lo_jail := Some (path_join run_dir ''workspace'')\<rparr>)) (\<lambda>_.
     task_bind (port (enter_jail p tests_dir (path_join run_dir ''workspace''))) (\<lambda>cwd.
     run_and_collect w p build run_dir results_dir cwd)))))"

text \<open>\<open>except CancelledError\<close>: an outcome that was decided is kept. Failures of the save are only logged.\<close>

definition on_cancel :: "'s run_ports \<Rightarrow> exec_locals \<Rightarrow> (unit, 's) task" where
  "on_cancel p l = (\<lambda>s.
     let r = (if lo_reached l then lo_run l
              else (lo_run l)\<lparr>tn_status := FlatCancelled, tn_finished_at := Some (wp_now p s)\<rparr>) in
     case catch_exception (wp_save p r) (\<lambda>_. task_return ()) s of (_, t) \<Rightarrow> (TaskCancelled, t))"

text \<open>\<open>except Exception\<close>.\<close>

definition on_exception :: "run_config \<Rightarrow> 's run_ports \<Rightarrow> exec_locals \<Rightarrow> exn \<Rightarrow> (unit, 's) task" where
  "on_exception w p l e = (\<lambda>s.
     catch_exception (wp_save p ((lo_run l)\<lparr>tn_status := FlatFailed, tn_error := Some (take 2000 (wc_repr w e)),
       tn_finished_at := Some (wp_now p s)\<rparr>)) (\<lambda>_. task_return ()) s)"

text \<open>
  \<open>finally\<close>: a jail that exists is removed, and a failure of that is only logged; but asking whether it exists
  may raise, and then this replaces how the execution ended.
\<close>

definition leave_jail :: "'s run_ports \<Rightarrow> exec_locals \<Rightarrow> unit outcome \<times> 's \<Rightarrow> unit outcome \<times> 's" where
  "leave_jail p l res =
     (case (lo_jail l, res) of
        (None, res) \<Rightarrow> res
      | (Some jail, (x, s)) \<Rightarrow>
          (case task_bind (wp_jail_exists p jail) (\<lambda>found.
                if found then catch_exception (wp_remove_jail p jail) (\<lambda>_. task_return ()) else task_return ()) s of
             (Returned _, t) \<Rightarrow> (x, t) | (y, t) \<Rightarrow> (y, t)))"

definition execute_guarded ::
  "run_config \<Rightarrow> 's run_ports \<Rightarrow> (string \<Rightarrow> string \<Rightarrow> string list \<Rightarrow> string list) \<Rightarrow> test_run \<Rightarrow> (unit, 's) task" where
  "execute_guarded w p build r = (\<lambda>s.
     case execute_body w p build (\<lparr>lo_run = r, lo_reached = False, lo_jail = None\<rparr>, s) of
       (Returned _, (l, t)) \<Rightarrow> leave_jail p l (Returned (), t)
     | (TaskCancelled, (l, t)) \<Rightarrow> leave_jail p l (on_cancel p l t)
     | (Raised e, (l, t)) \<Rightarrow> leave_jail p l (on_exception w p l e t))"

definition execute_test_run :: "run_config \<Rightarrow> 's run_ports \<Rightarrow> string \<Rightarrow> (unit, 's) task" where
  "execute_test_run w p run_id =
     task_bind (wp_get p run_id) (\<lambda>r.
     if settled_status (tn_status r) then task_return ()
     else task_bind (registry_get w (tn_runner r)) (\<lambda>build. execute_guarded w p build r))"

section \<open>Cancelling a run\<close>

definition cancel_test_run :: "'s run_ports \<Rightarrow> string \<Rightarrow> (test_run, 's) task" where
  "cancel_test_run p run_id =
     task_bind (wp_scheduler_cancel p run_id) (\<lambda>_.
     task_bind (\<lambda>s. (Returned (wp_now p s), s)) (\<lambda>now.
     task_bind (wp_cancel_if_inflight p run_id now) (\<lambda>_. wp_get p run_id)))"

section \<open>What a task leads to\<close>

text \<open>
  From states in \<open>P\<close> the task ends in \<open>Q\<close> with a value, or in \<open>E\<close> with an exception or, without one, a
  cancellation.
\<close>

definition leads :: "('x \<Rightarrow> bool) \<Rightarrow> ('a, 'x) task \<Rightarrow> ('a \<Rightarrow> 'x \<Rightarrow> bool) \<Rightarrow> (exn option \<Rightarrow> 'x \<Rightarrow> bool) \<Rightarrow> bool" where
  "leads P m Q E \<longleftrightarrow> (\<forall>x. P x \<longrightarrow>
     (case m x of (Returned a, y) \<Rightarrow> Q a y | (Raised e, y) \<Rightarrow> E (Some e) y | (TaskCancelled, y) \<Rightarrow> E None y))"

lemma leads_bind: "leads P m Q E \<Longrightarrow> (\<And>a. leads (Q a) (f a) R E) \<Longrightarrow> leads P (task_bind m f) R E"
  unfolding leads_def task_bind_def by (fastforce split: prod.splits outcome.splits)

lemma leads_return: "(\<And>x. P x \<Longrightarrow> Q a x) \<Longrightarrow> leads P (task_return a) Q E"
  by (simp add: leads_def task_return_def)

lemma leads_run: "(\<And>l s. P (l, s) \<Longrightarrow> Q (lo_run l) (l, s)) \<Longrightarrow> leads P the_run Q E"
  by (auto simp: leads_def the_run_def)

lemma leads_locals: "(\<And>l s. P (l, s) \<Longrightarrow> Q () (f s l, s)) \<Longrightarrow> leads P (set_locals f) Q E"
  by (auto simp: leads_def set_locals_def)

text \<open>A port that leaves \<open>view\<close> of the store as it is.\<close>

definition keeps :: "('s \<Rightarrow> 'v) \<Rightarrow> ('a, 's) task \<Rightarrow> bool" where
  "keeps view m \<longleftrightarrow> (\<forall>s. view (snd (m s)) = view s)"

lemma keeps_simple: "keeps view (task_return x)" "keeps view (task_raise e)" "keeps view (check_task r)"
  by (auto simp: keeps_def task_return_def task_raise_def check_task_def split: sum.split)

lemma keeps_bind: "keeps view m \<Longrightarrow> (\<And>x. keeps view (f x)) \<Longrightarrow> keeps view (task_bind m f)"
  unfolding keeps_def task_bind_def by (auto split: prod.splits outcome.splits) (metis snd_conv)+

lemma keeps_catch: "keeps view m \<Longrightarrow> keeps view h \<Longrightarrow> keeps view (catch_os m h)"
  "keeps view m \<Longrightarrow> (\<And>e. keeps view (k e)) \<Longrightarrow> keeps view (catch_exception m k)"
  unfolding keeps_def catch_os_def catch_exception_def
  by (auto split: prod.splits outcome.splits exn.splits) (metis snd_conv)+

lemmas keeps_rules = keeps_simple keeps_bind keeps_catch

text \<open>A value of a port was returned by it in some state.\<close>

lemma leads_port:
  assumes "keeps view m" "\<And>l s t. I (l, s) \<Longrightarrow> view t = view s \<Longrightarrow> I (l, t)" "\<And>z x. I x \<Longrightarrow> E z x"
  shows "leads I (port m) (\<lambda>a x. I x \<and> (\<exists>s. fst (m s) = Returned a)) E"
  unfolding leads_def
proof (intro allI impI)
  fix x assume x: "I x"
  obtain l s where xs: "x = (l, s)" by (cases x)
  obtain y t where m: "m s = (y, t)" by (cases "m s")
  then have "view t = view s" using assms(1) by (metis keeps_def snd_conv)
  then have "I (l, t)" using assms(2) x xs by blast
  then show "case port m x of (Returned a, y) \<Rightarrow> I y \<and> (\<exists>s. fst (m s) = Returned a) | (Raised e, y) \<Rightarrow> E (Some e) y
      | (TaskCancelled, y) \<Rightarrow> E None y"
    using assms(3) m by (cases y) (auto simp: port_def xs intro: exI [of _ s])
qed

section \<open>An executed run settles\<close>

text \<open>
  The store as an execution sees it: what it holds of the runs, and which saves were tried, in order and with
  what they came to. A save may fail or be cancelled, and has then written its run or nothing; one that
  returns has written it. The other calls of \<open>execute\<close>, whatever they come to, leave the stored runs alone.
\<close>

type_synonym save_log = "(test_run \<times> unit outcome) list"

definition logging_store :: "('s \<Rightarrow> string \<Rightarrow> test_run option) \<Rightarrow> ('s \<Rightarrow> save_log) \<Rightarrow> 's run_ports \<Rightarrow> bool" where
  "logging_store stored saves p \<longleftrightarrow>
     (let view = (\<lambda>s. (stored s, saves s)) in
     (\<forall>r s x t. wp_save p r s = (x, t) \<longrightarrow> saves t = saves s @ [(r, x)] \<and>
        (stored t = (stored s)(tn_id r \<mapsto> r) \<or> x \<noteq> Returned () \<and> stored t = stored s)) \<and>
     (\<forall>run_id path created cases. keeps view (wp_save_cases p run_id path created cases)) \<and>
     (\<forall>d. keeps view (wp_make_dir p d)) \<and> (\<forall>a d. keeps view (wp_copy_jail p a d)) \<and>
     (\<forall>d. keeps view (wp_jail_exists p d)) \<and> (\<forall>d. keeps view (wp_remove_jail p d)) \<and>
     (\<forall>cmd cwd env timeout out err. keeps view (wp_run p cmd cwd env timeout out err)) \<and>
     (\<forall>d. keeps view (wp_collect p d)) \<and> (\<forall>d b. keeps view (wp_report p d b)) \<and>
     (\<forall>r s. view (wp_notify p r s) = view s))"

text \<open>What no step of an execution changes in its run, and the results a run may have.\<close>

definition same_task :: "test_run \<Rightarrow> test_run \<Rightarrow> bool" where
  "same_task r r' \<longleftrightarrow> tn_id r' = tn_id r \<and> tn_runner r' = tn_runner r \<and> tn_created_by r' = tn_created_by r \<and>
     tn_tests_path r' = tn_tests_path r \<and> tn_args r' = tn_args r \<and> tn_allure_enabled r' = tn_allure_enabled r \<and>
     tn_timeout r' = tn_timeout r \<and> tn_executor_mode r' = tn_executor_mode r \<and> tn_created_at r' = tn_created_at r \<and>
     tn_env r' = tn_env r \<and> tn_locked r' = tn_locked r \<and> tn_worker_node_id r' = tn_worker_node_id r \<and>
     tn_profile_id r' = tn_profile_id r"

definition same_results :: "test_run \<Rightarrow> test_run \<Rightarrow> bool" where
  "same_results r r' \<longleftrightarrow> tn_summary r' = tn_summary r \<and> tn_report r' = tn_report r"

text \<open>
  The record of an execution that came to its end: the exit code, summary and report are the ones that the
  process, the collector and the reporter returned for the command, environment and time limit of the run.
\<close>

definition final_record :: "run_config \<Rightarrow> 's run_ports \<Rightarrow> (string \<Rightarrow> string \<Rightarrow> string list \<Rightarrow> string list) \<Rightarrow>
  test_run \<Rightarrow> test_run \<Rightarrow> bool" where
  "final_record w p build r f \<longleftrightarrow> (\<exists>proc collected report results_dir cwd stdout stderr s1 s2 s3.
     fst (wp_run p (build (wc_executable w) results_dir (tn_args r)) cwd (process_env (tn_runner r) results_dir (tn_env r))
       (effective_timeout w r) stdout stderr s1) = Returned proc \<and>
     fst (wp_collect p results_dir s2) = Returned collected \<and>
     fst (wp_report p results_dir (tn_allure_enabled r) s3) = Returned report \<and>
     same_task r f \<and> tn_finished_at f \<noteq> None \<and> tn_error f = tn_error r \<and>
     tn_status f = (if px_timed_out proc then FlatTimeout else if collected = None then FlatFailed else FlatCompleted) \<and>
     tn_exit_code f = Some (px_exit_code proc) \<and> tn_summary f = map_option cl_summary collected \<and>
     tn_report f = Some report)"

definition failed_record :: "run_config \<Rightarrow> exn \<Rightarrow> test_run \<Rightarrow> datetime \<Rightarrow> test_run" where
  "failed_record w e r now =
     r\<lparr>tn_status := FlatFailed, tn_error := Some (take 2000 (wc_repr w e)), tn_finished_at := Some now\<rparr>"

text \<open>
  The saves that one execution tries, when it ends with \<open>out\<close>: the final record; the final record again when a
  cancellation interrupted its save; the final record marked failed when its save raised; or, when the outcome
  was not decided, one record that is cancelled or failed and has no new results.
\<close>

inductive execution_saves :: "run_config \<Rightarrow> 's run_ports \<Rightarrow> (string \<Rightarrow> string \<Rightarrow> string list \<Rightarrow> string list) \<Rightarrow> test_run \<Rightarrow>
  unit outcome \<Rightarrow> save_log \<Rightarrow> bool" for w p build r out where
  finished: "final_record w p build r f \<Longrightarrow> execution_saves w p build r out [(f, Returned ())]"
| interrupted: "final_record w p build r f \<Longrightarrow> out \<noteq> Returned () \<Longrightarrow>
    execution_saves w p build r out [(f, TaskCancelled), (f, x)]"
| save_failed: "final_record w p build r f \<Longrightarrow>
    execution_saves w p build r out [(f, Raised e), (failed_record w e f now, x)]"
| cancelled: "same_task r c \<Longrightarrow> same_results r c \<Longrightarrow> tn_error c = tn_error r \<Longrightarrow> tn_status c = FlatCancelled \<Longrightarrow>
    tn_finished_at c \<noteq> None \<Longrightarrow> out \<noteq> Returned () \<Longrightarrow> execution_saves w p build r out [(c, x)]"
| failed: "same_task r c \<Longrightarrow> same_results r c \<Longrightarrow> execution_saves w p build r out [(failed_record w e c now, x)]"

lemma final_record_task: "final_record w p build r f \<Longrightarrow>
    same_task r f \<and> tn_finished_at f \<noteq> None \<and> tn_status f \<in> {FlatCompleted, FlatFailed, FlatTimeout}"
  by (auto simp: final_record_def split: if_splits)

lemma failed_record_task: "same_task r c \<Longrightarrow> same_task r (failed_record w e c now)"
  by (simp add: same_task_def failed_record_def)

lemma execution_saves_settled:
  assumes "execution_saves w p build r out attempts"
  shows "attempts \<noteq> []"
    "\<forall>f \<in> fst ` set attempts. settled_status (tn_status f) \<and> tn_finished_at f \<noteq> None \<and> same_task r f"
  using assms by (induction rule: execution_saves.induct)
    (auto simp: settled_status_def failed_record_task dest!: final_record_task, auto simp: failed_record_def)

lemma logging_save:
  assumes "logging_store stored saves p" "wp_save p r s = (x, t)"
  shows "saves t = saves s @ [(r, x)]" "stored t = (stored s)(tn_id r \<mapsto> r) \<or> x \<noteq> Returned () \<and> stored t = stored s"
  using assms(1) [unfolded logging_store_def Let_def, THEN conjunct1] assms(2) by blast+

lemma logging_keeps:
  fixes stored :: "'s \<Rightarrow> string \<Rightarrow> test_run option" and saves :: "'s \<Rightarrow> save_log"
  defines "view \<equiv> \<lambda>s. (stored s, saves s)"
  assumes "logging_store stored saves p"
  shows "keeps view (wp_save_cases p run_id path created cases)" "keeps view (wp_make_dir p d)"
    "keeps view (wp_copy_jail p a d)" "keeps view (wp_jail_exists p d)" "keeps view (wp_remove_jail p d)"
    "keeps view (wp_run p cmd cwd env timeout out err)" "keeps view (wp_collect p d)" "keeps view (wp_report p d b)"
    "view (wp_notify p r s) = view s"
  using assms(2) [unfolded logging_store_def Let_def, THEN conjunct2] unfolding view_def by blast+

text \<open>The tries so far, and what they have left in the store.\<close>

definition tried :: "('s \<Rightarrow> string \<Rightarrow> test_run option) \<Rightarrow> ('s \<Rightarrow> save_log) \<Rightarrow> test_run \<Rightarrow> 's \<Rightarrow> save_log \<Rightarrow> 's \<Rightarrow> bool" where
  "tried stored saves r s0 attempts s \<longleftrightarrow> saves s = saves s0 @ attempts \<and>
     (attempts \<noteq> [] \<and> snd (last attempts) = Returned () \<longrightarrow> stored s = (stored s0)(tn_id r \<mapsto> fst (last attempts))) \<and>
     (stored s = stored s0 \<or> (\<exists>f \<in> fst ` set attempts. stored s = (stored s0)(tn_id r \<mapsto> f)))"

lemma tried_keep: "tried stored saves r s0 attempts s \<Longrightarrow> (stored t, saves t) = (stored s, saves s) \<Longrightarrow>
    tried stored saves r s0 attempts t"
  by (simp add: tried_def)

lemma tried_save:
  assumes "logging_store stored saves p" "tried stored saves r s0 attempts s" "wp_save p f s = (x, t)" "same_task r f"
  shows "tried stored saves r s0 (attempts @ [(f, x)]) t"
proof -
  note logging_save [OF assms(1,3)]
  moreover have "tn_id f = tn_id r" using assms(4) by (simp add: same_task_def)
  ultimately show ?thesis using assms(2) by (auto simp: tried_def; force)
qed

text \<open>Before the outcome is decided nothing is saved; a body that stops later has tried the final record.\<close>

definition under_way :: "('s \<Rightarrow> string \<Rightarrow> test_run option) \<Rightarrow> ('s \<Rightarrow> save_log) \<Rightarrow> test_run \<Rightarrow> 's \<Rightarrow> exec_locals \<times> 's \<Rightarrow> bool" where
  "under_way stored saves r s0 = (\<lambda>(l, s). tried stored saves r s0 [] s \<and> \<not> lo_reached l \<and> same_task r (lo_run l) \<and>
     same_results r (lo_run l) \<and> tn_error (lo_run l) = tn_error r)"

definition saved_final :: "run_config \<Rightarrow> 's run_ports \<Rightarrow> (string \<Rightarrow> string \<Rightarrow> string list \<Rightarrow> string list) \<Rightarrow>
  ('s \<Rightarrow> string \<Rightarrow> test_run option) \<Rightarrow> ('s \<Rightarrow> save_log) \<Rightarrow> test_run \<Rightarrow> 's \<Rightarrow> unit outcome \<Rightarrow> exec_locals \<times> 's \<Rightarrow> bool" where
  "saved_final w p build stored saves r s0 x = (\<lambda>(l, s). lo_reached l \<and> final_record w p build r (lo_run l) \<and>
     tried stored saves r s0 [(lo_run l, x)] s)"

definition stopped :: "run_config \<Rightarrow> 's run_ports \<Rightarrow> (string \<Rightarrow> string \<Rightarrow> string list \<Rightarrow> string list) \<Rightarrow>
  ('s \<Rightarrow> string \<Rightarrow> test_run option) \<Rightarrow> ('s \<Rightarrow> save_log) \<Rightarrow> test_run \<Rightarrow> 's \<Rightarrow> exn option \<Rightarrow> exec_locals \<times> 's \<Rightarrow> bool" where
  "stopped w p build stored saves r s0 z x \<longleftrightarrow> under_way stored saves r s0 x \<or>
     saved_final w p build stored saves r s0 (case z of None \<Rightarrow> TaskCancelled | Some e \<Rightarrow> Raised e) x"

section \<open>The body of an execution\<close>

lemma under_way_port:
  assumes "keeps (\<lambda>s. (stored s, saves s)) m"
  shows "leads (under_way stored saves r s0) (port m) (\<lambda>a x. under_way stored saves r s0 x \<and> (\<exists>s. fst (m s) = Returned a))
    (stopped w p build stored saves r s0)"
  by (rule leads_port [OF assms]) (auto simp: under_way_def stopped_def intro: tried_keep)

text \<open>After the process returned, the run has its exit code.\<close>

definition exited :: "('s \<Rightarrow> string \<Rightarrow> test_run option) \<Rightarrow> ('s \<Rightarrow> save_log) \<Rightarrow> test_run \<Rightarrow> 's \<Rightarrow> int \<Rightarrow> exec_locals \<times> 's \<Rightarrow> bool" where
  "exited stored saves r s0 code x \<longleftrightarrow> under_way stored saves r s0 x \<and> tn_exit_code (lo_run (fst x)) = Some code"

lemma exited_port:
  assumes "keeps (\<lambda>s. (stored s, saves s)) m"
  shows "leads (exited stored saves r s0 code) (port m)
    (\<lambda>a x. exited stored saves r s0 code x \<and> (\<exists>s. fst (m s) = Returned a)) (stopped w p build stored saves r s0)"
  by (rule leads_port [OF assms]) (auto simp: exited_def under_way_def stopped_def intro: tried_keep)

lemma leads_assuming: "(A \<Longrightarrow> leads P m Q E) \<Longrightarrow> leads (\<lambda>x. P x \<and> A) m Q E"
  by (auto simp: leads_def)

lemma record_outcome_leads:
  assumes "logging_store stored saves p"
    "fst (wp_run p (build (wc_executable w) results_dir (tn_args r)) cwd (process_env (tn_runner r) results_dir (tn_env r))
       (effective_timeout w r) stdout stderr s1) = Returned proc"
    "fst (wp_collect p results_dir s2) = Returned collected"
    "fst (wp_report p results_dir (tn_allure_enabled r) s3) = Returned report"
  shows "leads (exited stored saves r s0 (px_exit_code proc)) (record_outcome p proc collected report)
    (\<lambda>_. saved_final w p build stored saves r s0 (Returned ())) (stopped w p build stored saves r s0)"
  unfolding leads_def
proof (intro allI impI)
  fix x assume x: "exited stored saves r s0 (px_exit_code proc) x"
  obtain l s where xs: "x = (l, s)" by (cases x)
  let ?f = "(lo_run l)\<lparr>tn_status := final_status proc collected, tn_summary := map_option cl_summary collected,
    tn_report := Some report, tn_finished_at := Some (wp_now p s)\<rparr>"
  obtain y t where y: "wp_save p ?f s = (y, t)" by fastforce
  have l: "same_task r (lo_run l)" "tn_error (lo_run l) = tn_error r" "tried stored saves r s0 [] s"
    "tn_exit_code (lo_run l) = Some (px_exit_code proc)"
    using x by (simp_all add: xs exited_def under_way_def)
  then have f: "same_task r ?f" by (simp add: same_task_def)
  have final: "final_record w p build r ?f"
    unfolding final_record_def using assms(2-4) f l
    by (intro exI [of _ proc] exI [of _ collected] exI [of _ report] exI [of _ results_dir] exI [of _ cwd]
      exI [of _ stdout] exI [of _ stderr] exI [of _ s1] exI [of _ s2] exI [of _ s3]) (simp add: final_status_def)
  have tried: "tried stored saves r s0 [(?f, y)] t"
    using tried_save [OF assms(1) l(3) y f] by simp
  have notified: "tried stored saves r s0 [(?f, y)] (wp_notify p ?f t)"
    by (rule tried_keep [OF tried logging_keeps(9) [OF assms(1)]])
  show "case record_outcome p proc collected report x of
      (Returned a, y) \<Rightarrow> saved_final w p build stored saves r s0 (Returned ()) y
    | (Raised e, y) \<Rightarrow> stopped w p build stored saves r s0 (Some e) y
    | (TaskCancelled, y) \<Rightarrow> stopped w p build stored saves r s0 None y"
    using y final tried notified
    by (cases y) (simp_all add: record_outcome_def task_bind_def set_locals_def the_run_def port_def run_updated_def
        saved_final_def stopped_def xs)
qed

lemma run_and_collect_leads:
  assumes "logging_store stored saves p"
  shows "leads (under_way stored saves r s0) (run_and_collect w p build run_dir results_dir cwd)
    (\<lambda>_. saved_final w p build stored saves r s0 (Returned ())) (stopped w p build stored saves r s0)"
    (is "leads ?U _ ?F ?E")
  unfolding run_and_collect_def
proof (rule leads_bind [where Q = "\<lambda>q x. ?U x \<and> same_task r q"], rule leads_run, simp add: under_way_def, rule leads_assuming)
  fix q assume "same_task r q"
  then have q: "tn_args q = tn_args r" "tn_runner q = tn_runner r" "tn_env q = tn_env r"
    "tn_allure_enabled q = tn_allure_enabled r" "effective_timeout w q = effective_timeout w r"
    by (simp_all add: same_task_def effective_timeout_def)
  note ports = logging_keeps [OF assms]
  let ?run = "wp_run p (build (wc_executable w) results_dir (tn_args q)) cwd (process_env (tn_runner q) results_dir (tn_env q))
    (effective_timeout w q) (path_join run_dir ''stdout.log'') (path_join run_dir ''stderr.log'')"
  show "leads ?U (task_bind (port ?run) (\<lambda>proc.
      task_bind (set_locals (\<lambda>_. run_updated (\<lambda>r. r\<lparr>tn_exit_code := Some (px_exit_code proc)\<rparr>))) (\<lambda>_.
      task_bind (port (wp_collect p results_dir)) (\<lambda>collected.
      task_bind (case collected of None \<Rightarrow> task_return ()
        | Some k \<Rightarrow> port (wp_save_cases p (tn_id q) (tn_tests_path q) (tn_created_at q) (cl_cases k))) (\<lambda>_.
      task_bind (port (wp_report p results_dir (tn_allure_enabled q))) (\<lambda>report.
      record_outcome p proc collected report)))))) ?F ?E"
  proof (rule leads_bind [OF under_way_port [OF ports(6)]], rule leads_assuming, elim exE)
    fix proc s1 assume proc: "fst (?run s1) = Returned proc"
    let ?X = "exited stored saves r s0 (px_exit_code proc)"
    have cases: "leads ?X (case collected of None \<Rightarrow> task_return () | Some k \<Rightarrow> port (wp_save_cases p a b c (cl_cases k)))
        (\<lambda>_. ?X) ?E" for collected a b c
    proof (cases collected)
      case (Some k)
      show ?thesis
        using exited_port [OF ports(1), of r s0 "px_exit_code proc" a b c "cl_cases k" w p build]
        by (auto simp: Some leads_def split: prod.splits outcome.splits)
    qed (simp add: leads_return)
    show "leads ?U (task_bind (set_locals (\<lambda>_. run_updated (\<lambda>r. r\<lparr>tn_exit_code := Some (px_exit_code proc)\<rparr>))) (\<lambda>_.
        task_bind (port (wp_collect p results_dir)) (\<lambda>collected.
        task_bind (case collected of None \<Rightarrow> task_return ()
          | Some k \<Rightarrow> port (wp_save_cases p (tn_id q) (tn_tests_path q) (tn_created_at q) (cl_cases k))) (\<lambda>_.
        task_bind (port (wp_report p results_dir (tn_allure_enabled q))) (\<lambda>report.
        record_outcome p proc collected report))))) ?F ?E"
    proof (rule leads_bind [where Q = "\<lambda>_. ?X"], rule leads_locals)
      show "?X (run_updated (\<lambda>r. r\<lparr>tn_exit_code := Some (px_exit_code proc)\<rparr>) l, s)" if "?U (l, s)" for l s
        using that by (simp add: exited_def under_way_def run_updated_def same_task_def same_results_def)
    next
      show "leads ?X (task_bind (port (wp_collect p results_dir)) (\<lambda>collected.
          task_bind (case collected of None \<Rightarrow> task_return ()
            | Some k \<Rightarrow> port (wp_save_cases p (tn_id q) (tn_tests_path q) (tn_created_at q) (cl_cases k))) (\<lambda>_.
          task_bind (port (wp_report p results_dir (tn_allure_enabled q))) (\<lambda>report.
          record_outcome p proc collected report)))) ?F ?E"
        using proc unfolding q
        by (blast intro: leads_bind [OF exited_port [OF ports(7)]] leads_assuming leads_bind [OF cases]
            leads_bind [OF exited_port [OF ports(8)]] record_outcome_leads [OF assms])
    qed
  qed
qed

lemma body_leads:
  assumes "logging_store stored saves p"
  shows "leads (under_way stored saves r s0) (execute_body w p build)
    (\<lambda>_. saved_final w p build stored saves r s0 (Returned ())) (stopped w p build stored saves r s0)"
    (is "leads ?U _ ?F ?E")
proof -
  let ?view = "\<lambda>s. (stored s, saves s)"
  note ports = logging_keeps [OF assms]
  have dirs: "keeps ?view (run_directories w p q)" for q
    unfolding run_directories_def by (intro keeps_rules) (rule ports keeps_rules)+
  have jail: "keeps ?view (enter_jail p a b)" for a b
    unfolding enter_jail_def by (intro keeps_rules) (rule ports keeps_rules)+
  have weaken: "leads ?U m Q ?E \<Longrightarrow> leads (\<lambda>x. ?U x \<and> A) m Q ?E" for m :: "(unit, exec_locals \<times> _) task" and Q A
    by (simp add: leads_def)
  have inside: "leads ?U (task_bind (set_locals (\<lambda>_ l. l\<lparr>lo_jail := Some j\<rparr>)) (\<lambda>_.
      task_bind (port (enter_jail p a j)) (\<lambda>cwd. run_and_collect w p build run_dir results_dir cwd))) ?F ?E"
    for a j run_dir results_dir
  proof (rule leads_bind [where Q = "\<lambda>_. ?U"])
    show "leads ?U (set_locals (\<lambda>_ l. l\<lparr>lo_jail := Some j\<rparr>)) (\<lambda>_. ?U) ?E"
      by (rule leads_locals) (simp add: under_way_def)
    show "leads ?U (task_bind (port (enter_jail p a j)) (\<lambda>cwd. run_and_collect w p build run_dir results_dir cwd)) ?F ?E"
      by (rule leads_bind [OF under_way_port [OF jail]], rule weaken, rule run_and_collect_leads [OF assms])
  qed
  show ?thesis unfolding execute_body_def
  proof (rule leads_bind [where Q = "\<lambda>_. ?U"], rule leads_locals)
    show "?U (run_updated (\<lambda>r. r\<lparr>tn_status := FlatRunning, tn_started_at := Some (wp_now p s)\<rparr>) l, s)" if "?U (l, s)" for l s
      using that by (simp add: under_way_def run_updated_def same_task_def same_results_def)
  next
    show "leads ?U (task_bind the_run (\<lambda>r. task_bind (port (run_directories w p r)) (\<lambda>(run_dir, results_dir, tests_dir).
        task_bind (set_locals (\<lambda>_ l. l\<lparr>lo_jail := Some (path_join run_dir ''workspace'')\<rparr>)) (\<lambda>_.
        task_bind (port (enter_jail p tests_dir (path_join run_dir ''workspace''))) (\<lambda>cwd.
        run_and_collect w p build run_dir results_dir cwd))))) ?F ?E"
    proof (rule leads_bind [where Q = "\<lambda>_. ?U"], rule leads_run, assumption, rule leads_bind [OF under_way_port [OF dirs]],
        rule weaken)
      fix q :: test_run and d :: "string \<times> string \<times> string"
      show "leads ?U (case d of (run_dir, results_dir, tests_dir) \<Rightarrow>
          task_bind (set_locals (\<lambda>_ l. l\<lparr>lo_jail := Some (path_join run_dir ''workspace'')\<rparr>)) (\<lambda>_.
          task_bind (port (enter_jail p tests_dir (path_join run_dir ''workspace''))) (\<lambda>cwd.
          run_and_collect w p build run_dir results_dir cwd))) ?F ?E"
        by (cases d) (simp only: prod.case inside)
    qed
  qed
qed

section \<open>The handlers of an execution\<close>

lemma on_cancel_saves:
  "on_cancel p l s = (TaskCancelled, snd (wp_save p (if lo_reached l then lo_run l
     else (lo_run l)\<lparr>tn_status := FlatCancelled, tn_finished_at := Some (wp_now p s)\<rparr>) s))"
  by (auto simp: on_cancel_def catch_exception_def task_return_def Let_def split: prod.splits outcome.splits)

lemma on_exception_saves:
  "snd (on_exception w p l e s) = snd (wp_save p (failed_record w e (lo_run l) (wp_now p s)) s)"
  by (auto simp: on_exception_def catch_exception_def task_return_def failed_record_def split: prod.splits outcome.splits)

lemma leave_jail_keeps:
  assumes "logging_store stored saves p"
  shows "(stored (snd (leave_jail p l y)), saves (snd (leave_jail p l y))) = (stored (snd y), saves (snd y))"
proof -
  obtain x s where y: "y = (x, s)" by (cases y)
  show ?thesis
  proof (cases "lo_jail l")
    case (Some j)
    let ?m = "task_bind (wp_jail_exists p j) (\<lambda>found.
      if found then catch_exception (wp_remove_jail p j) (\<lambda>_. task_return ()) else task_return ())"
    note ports = logging_keeps [OF assms]
    have "keeps (\<lambda>s. (stored s, saves s)) (if found then catch_exception (wp_remove_jail p j) (\<lambda>_. task_return ())
        else task_return ())" for found by (auto intro: keeps_rules ports)
    then have "keeps (\<lambda>s. (stored s, saves s)) ?m" by (intro keeps_bind ports)
    then have "(stored (snd (?m s)), saves (snd (?m s))) = (stored s, saves s)" by (simp add: keeps_def)
    then show ?thesis by (cases "?m s"; cases "fst (?m s)") (auto simp: leave_jail_def y Some)
  qed (simp add: leave_jail_def y)
qed

lemma leave_jail_stays: "fst y \<noteq> Returned () \<Longrightarrow> fst (leave_jail p l y) \<noteq> Returned ()"
  by (cases y) (auto simp: leave_jail_def split: option.splits prod.splits outcome.splits)

lemma guarded_saves:
  assumes "logging_store stored saves p" "execute_guarded w p build r s = (out, t)"
  shows "\<exists>attempts. execution_saves w p build r out attempts \<and> tried stored saves r s attempts t"
proof -
  let ?l0 = "\<lparr>lo_run = r, lo_reached = False, lo_jail = None\<rparr>"
  obtain x l u where b: "execute_body w p build (?l0, s) = (x, (l, u))" by (metis prod.collapse)
  have "under_way stored saves r s (?l0, s)" by (simp add: under_way_def tried_def same_task_def same_results_def)
  then have body: "case x of Returned _ \<Rightarrow> saved_final w p build stored saves r s (Returned ()) (l, u)
      | Raised e \<Rightarrow> stopped w p build stored saves r s (Some e) (l, u)
      | TaskCancelled \<Rightarrow> stopped w p build stored saves r s None (l, u)"
    using body_leads [OF assms(1), of r s w build] b unfolding leads_def by (fastforce split: outcome.splits)
  have after: "tried stored saves r s attempts t" if "tried stored saves r s attempts (snd y)" "leave_jail p l y = (out, t)" for attempts y
    using tried_keep [OF that(1) leave_jail_keeps [OF assms(1), of l y]] that(2) by simp
  have saved: "tried stored saves r s (attempts @ [(f, fst (wp_save p f u))]) (snd (wp_save p f u))"
    if "tried stored saves r s attempts u" "same_task r f" for attempts f
    by (rule tried_save [OF assms(1) that(1) _ that(2)]) simp
  show ?thesis
  proof (cases x)
    case (Returned a)
    then have "leave_jail p l (Returned (), u) = (out, t)" using assms(2) b by (simp add: execute_guarded_def)
    then show ?thesis using body Returned after [of _ "(Returned (), u)"] by (auto simp: saved_final_def intro: finished)
  next
    case TaskCancelled
    then have j: "leave_jail p l (on_cancel p l u) = (out, t)" using assms(2) b by (simp add: execute_guarded_def)
    have out: "out \<noteq> Returned ()" using leave_jail_stays [of "on_cancel p l u" p l] j by (simp add: on_cancel_saves)
    from body TaskCancelled consider "under_way stored saves r s (l, u)"
      | "saved_final w p build stored saves r s TaskCancelled (l, u)" by (auto simp: stopped_def)
    then show ?thesis
    proof cases
      case 1
      let ?c = "(lo_run l)\<lparr>tn_status := FlatCancelled, tn_finished_at := Some (wp_now p u)\<rparr>"
      have c: "same_task r ?c" "same_results r ?c" "tn_error ?c = tn_error r" "tried stored saves r s [] u" "\<not> lo_reached l"
        using 1 by (simp_all add: under_way_def same_task_def same_results_def)
      then have "tried stored saves r s [(?c, fst (wp_save p ?c u))] (snd (on_cancel p l u))"
        using saved [of "[]" ?c] by (simp add: on_cancel_saves)
      then show ?thesis using after [OF _ j] cancelled [OF c(1-3) _ _ out] by fastforce
    next
      case 2
      then have f: "final_record w p build r (lo_run l)" "lo_reached l" "tried stored saves r s [(lo_run l, TaskCancelled)] u"
        by (simp_all add: saved_final_def)
      then have "tried stored saves r s ([(lo_run l, TaskCancelled)] @ [(lo_run l, fst (wp_save p (lo_run l) u))]) (snd (on_cancel p l u))"
        using saved [OF f(3)] final_record_task [OF f(1)] by (simp add: on_cancel_saves)
      from after [OF this j] show ?thesis using interrupted [OF f(1) out] unfolding append_Cons append_Nil by blast
    qed
  next
    case (Raised e)
    then have j: "leave_jail p l (on_exception w p l e u) = (out, t)" using assms(2) b by (simp add: execute_guarded_def)
    let ?f = "failed_record w e (lo_run l) (wp_now p u)"
    from body Raised consider "under_way stored saves r s (l, u)"
      | "saved_final w p build stored saves r s (Raised e) (l, u)" by (auto simp: stopped_def)
    then show ?thesis
    proof cases
      case 1
      then have c: "same_task r (lo_run l)" "same_results r (lo_run l)" "tried stored saves r s [] u"
        by (simp_all add: under_way_def)
      then have "tried stored saves r s [(?f, fst (wp_save p ?f u))] (snd (on_exception w p l e u))"
        using saved [OF c(3) failed_record_task] by (simp add: on_exception_saves)
      then show ?thesis using after [OF _ j] failed [OF c(1,2)] by blast
    next
      case 2
      then have f: "final_record w p build r (lo_run l)" "tried stored saves r s [(lo_run l, Raised e)] u"
        by (simp_all add: saved_final_def)
      then have "tried stored saves r s ([(lo_run l, Raised e)] @ [(?f, fst (wp_save p ?f u))]) (snd (on_exception w p l e u))"
        using saved [OF f(2) failed_record_task] final_record_task [OF f(1)] by (simp add: on_exception_saves)
      from after [OF this j] show ?thesis using save_failed [OF f(1), of out e "wp_now p u"] unfolding append_Cons append_Nil by blast
    qed
  qed
qed

text \<open>
  C38: An executed run settles. Any port may return anything, raise or be cancelled, the saves included; only
  a save that returns must have written its run, and the other ports leave the stored runs alone. Executing a
  run that is not settled, of a registered runner, then tries to save it once or twice, every time as completed,
  failed, timed out or cancelled and finished, and with the identity, arguments and settings it had. When the
  process, the collector and the reporter all returned, the record has the outcome, the exit code and the
  results they gave: also when a cancellation interrupts its save, which is then tried again unchanged (and the
  execution does not end as if nothing had happened); only when its save raises is it marked failed. If the
  outcome was not decided, the record is cancelled or failed and without new results. If the last save
  returned, its record is what the store holds of the run, and no other run is touched; when no save returned,
  the store may be as it was. With an unregistered runner nothing is tried, so the run stays RUNNING if it was
  taken from the queue.
\<close>

theorem executed_run_settles:
  assumes "logging_store stored saves p" "wp_get p run_id s = (Returned r, s)" "\<not> settled_status (tn_status r)"
    "execute_test_run w p run_id s = (out, t)"
  shows "case wc_registry w (tn_runner r) of
      Some build \<Rightarrow> \<exists>attempts. saves t = saves s @ attempts \<and> attempts \<noteq> [] \<and> execution_saves w p build r out attempts \<and>
        (\<forall>f \<in> fst ` set attempts. settled_status (tn_status f) \<and> tn_finished_at f \<noteq> None \<and> same_task r f) \<and>
        (snd (last attempts) = Returned () \<longrightarrow> stored t = (stored s)(tn_id r \<mapsto> fst (last attempts))) \<and>
        (stored t = stored s \<or> (\<exists>f \<in> fst ` set attempts. stored t = (stored s)(tn_id r \<mapsto> f)))
    | None \<Rightarrow> out = Raised (UnknownRunner (tn_runner r)) \<and> t = s"
proof (cases "wc_registry w (tn_runner r)")
  case None
  then show ?thesis using assms(2-4)
    by (simp add: execute_test_run_def task_bind_def registry_get_def task_raise_def)
next
  case (Some build)
  then have "execute_guarded w p build r s = (out, t)"
    using assms(2-4) by (simp add: execute_test_run_def task_bind_def registry_get_def task_return_def)
  from guarded_saves [OF assms(1) this] obtain attempts
    where a: "execution_saves w p build r out attempts" "tried stored saves r s attempts t" by blast
  then show ?thesis unfolding Some option.case tried_def using execution_saves_settled [OF a(1)]
    by (intro exI [of _ attempts]) blast
qed

text \<open>
  Ports over a map of runs and the log of the saves: the process comes to \<open>x\<close>, and the first save, if \<open>fst_save\<close>
  says so, to something else than a return.
\<close>

type_synonym sample_store = "(string \<Rightarrow> test_run option) \<times> save_log"

definition sample_save :: "unit outcome \<Rightarrow> test_run \<Rightarrow> (unit, sample_store) task" where
  "sample_save fst_save r = (\<lambda>(m, log).
     let x = (if log = [] then fst_save else Returned ())
     in (x, (if x = Returned () then m(tn_id r \<mapsto> r) else m, log @ [(r, x)])))"

definition sample_ports :: "process_result outcome \<Rightarrow> unit outcome \<Rightarrow> sample_store run_ports" where
  "sample_ports x fst_save =
     \<lparr>wp_get = (\<lambda>i s. (case fst s i of Some r \<Rightarrow> Returned r | None \<Rightarrow> Raised (OtherException i), s)),
      wp_save = sample_save fst_save, wp_create_below_limit = (\<lambda>r n (m, log). (Returned True, (m(tn_id r \<mapsto> r), log))),
      wp_cancel_if_inflight = (\<lambda>_ _ s. (Returned (), s)), wp_save_cases = (\<lambda>_ _ _ _ s. (Returned (), s)),
      wp_enqueue = (\<lambda>_ s. (Returned (), s)), wp_scheduler_cancel = (\<lambda>_ s. (Returned (), s)),
      wp_new_id = (\<lambda>s. (Returned ''x'', s)), wp_now = (\<lambda>_. utc 5), wp_make_dir = (\<lambda>_ s. (Returned (), s)),
      wp_copy_jail = (\<lambda>_ _ s. (Returned True, s)), wp_jail_exists = (\<lambda>_ s. (Returned True, s)),
      wp_remove_jail = (\<lambda>_ s. (Returned (), s)), wp_run = (\<lambda>_ _ _ _ _ _ s. (x, s)),
      wp_collect = (\<lambda>_ s. (Returned (Some \<lparr>cl_summary = \<lparr>ts_total = 0, ts_passed = 0, ts_failed = 0, ts_skipped = 0,
        ts_error = 0, ts_duration_ms = 0\<rparr>, cl_cases = []\<rparr>), s)),
      wp_report = (\<lambda>d _ s. (Returned \<lparr>rp_allure_results_dir = d, rp_allure_report_file = None, rp_html_generated = False\<rparr>, s)),
      wp_notify = (\<lambda>_ s. s)\<rparr>"

definition sample_config :: run_config where
  "sample_config = \<lparr>wc_registry = default_registry, wc_resolve = (\<lambda>x. x), wc_tests_root = ''/t'', wc_artifacts_root = ''/a'',
     wc_executable = ''py'', wc_default_timeout = 60, wc_worker_node_id = ''n'', wc_repr = (\<lambda>_. ''e'')\<rparr>"

definition sample_test_run :: test_run where
  "sample_test_run = (created_run sample_config \<lparr>tq_tests_path = ''s'', tq_runner = ''pytest'', tq_args = [], tq_allure = True,
     tq_timeout = None, tq_executor_mode = ''docker'', tq_selected_files = [], tq_selected_markers = [], tq_extra_args = [],
     tq_env = []\<rparr> ''u'' None ''x'' (utc 0) [] [])\<lparr>tn_status := FlatRunning\<rparr>"

definition sample_process :: process_result where
  "sample_process = \<lparr>px_exit_code = 0, px_stdout = [], px_stderr = [], px_duration_ms = 1, px_timed_out = False\<rparr>"

lemma sample_logging: "logging_store fst snd (sample_ports x fst_save)"
  by (auto simp: logging_store_def keeps_def sample_ports_def sample_save_def Let_def split: prod.splits if_splits)

text \<open>A cancellation during the final save: the completed run is saved again with its results.\<close>

theorem executed_run_settles_witness:
  "\<exists>out m log f. execute_test_run sample_config (sample_ports (Returned sample_process) TaskCancelled) ''x''
       ([''x'' \<mapsto> sample_test_run], []) = (out, (m, log)) \<and>
     log = [(f, TaskCancelled), (f, Returned ())] \<and> tn_status f = FlatCompleted \<and> tn_summary f \<noteq> None \<and>
     m = [''x'' \<mapsto> f] \<and> out = TaskCancelled"
proof -
  let ?p = "sample_ports (Returned sample_process) TaskCancelled" and ?s = "([''x'' \<mapsto> sample_test_run], []) :: sample_store"
  let ?e = "execute_test_run sample_config ?p ''x'' ?s"
  obtain out m log where e: "?e = (out, (m, log))" by (metis prod.collapse)
  have "fst ?e = TaskCancelled" "map snd (snd (snd ?e)) = [TaskCancelled, Returned ()]"
    "map (tn_status \<circ> fst) (snd (snd ?e)) = [FlatCompleted, FlatCompleted]"
    by code_simp+
  then have computed: "out = TaskCancelled" "map snd log = [TaskCancelled, Returned ()]"
    "map (tn_status \<circ> fst) log = [FlatCompleted, FlatCompleted]" by (simp_all add: e)
  have r: "wp_get ?p ''x'' ?s = (Returned sample_test_run, ?s)" "\<not> settled_status (tn_status sample_test_run)"
    "wc_registry sample_config (tn_runner sample_test_run) = Some pytest_command" "tn_id sample_test_run = ''x''"
    by (simp_all add: sample_ports_def sample_test_run_def created_run_def sample_config_def default_registry_def settled_status_def)
  from executed_run_settles [OF sample_logging r(1,2) e] obtain attempts
    where a: "log = attempts" "execution_saves sample_config ?p pytest_command sample_test_run out attempts"
      "snd (last attempts) = Returned () \<longrightarrow> m = [''x'' \<mapsto> fst (last attempts)]"
    unfolding r(3,4) option.case by (auto simp: fun_upd_twist)
  from a(2) have "\<exists>f. log = [(f, TaskCancelled), (f, Returned ())] \<and> tn_status f = FlatCompleted \<and> tn_summary f \<noteq> None"
    unfolding a(1) [symmetric] using computed(2,3)
    by (cases rule: execution_saves.cases) (auto simp: final_record_def sample_ports_def)
  then show ?thesis using e a(1,3) computed(1) by auto
qed

section \<open>A created run and its re-run\<close>

lemma create_test_run_Returned:
  assumes "create_test_run w p q by_user profile limit s = (Returned r, t)"
  obtains d args where "safe_subpath (wc_resolve w) (wc_tests_root w) (tq_tests_path q) = Inr d"
    "compile_args (wc_resolve w) q d (tq_runner q) = Inr args" "sanitize_env (tq_env q) = Inr (tn_env r)"
    "tn_args r = args" "tn_runner r = tq_runner q" "tn_status r = FlatQueued" "wc_registry w (tq_runner q) \<noteq> None"
  using assms
  by (auto simp: create_test_run_def task_bind_def registry_get_def check_task_def task_raise_def task_return_def Let_def
      created_run_def sanitize_env_def result_simps split: option.splits sum.splits outcome.splits prod.splits if_splits)

lemma find_middle: "find P xs = None \<Longrightarrow> find P zs = None \<Longrightarrow> find P (xs @ ys @ zs) = find P ys"
  by (simp add: find_append split: option.split)

text \<open>
  C39: Re-running a created run. The request rebuilt from a run that was created compiles to the very arguments
  of the run, in whatever directory, except when the run selects pytest markers whose expression itself reads
  as a refused flag: the creation accepted it unchecked, and the re-run refuses it.
\<close>

theorem rerun_recompiles_arguments:
  assumes "create_test_run w p q by_user profile limit s = (Returned r, t)"
  shows "compile_args resolve (request_from_run r) d (tn_runner r) =
    (let expression = join_with '' or '' (tq_selected_markers q) in
     if tq_runner q \<noteq> ''playwright'' \<and> tq_selected_markers q \<noteq> [] \<and> flag_of expression \<in> set dangerous_pytest_flags
     then Inl (UnsafeArguments (flag_of expression)) else Inr (tn_args r))"
proof -
  obtain d0 args where c: "compile_args (wc_resolve w) q d0 (tq_runner q) = Inr args" "tn_args r = args" "tn_runner r = tq_runner q"
    using assms by (rule create_test_run_Returned)
  obtain extra where e: "args = tq_args q @ marker_tokens (tq_runner q) (tq_selected_markers q) @ extra @ tq_selected_files q"
    "\<forall>t \<in> set (tq_args q @ extra). flag_of t \<notin> set (refused_flags (tq_runner q))"
    "\<forall>f \<in> set (tq_selected_files q). \<not> starts_with ''-'' f"
    using c(1) by (rule compile_args_Inr) auto
  let ?bad = "\<lambda>t. flag_of t \<in> set (refused_flags (tq_runner q))"
  have clean: "find ?bad (tq_args q) = None" "find ?bad (extra @ tq_selected_files q) = None"
    using e(2,3) flag_of_no_dash [of _ "tq_runner q"] by (auto simp: find_None_iff)
  have "find ?bad (marker_tokens (tq_runner q) (tq_selected_markers q)) =
      (if tq_runner q \<noteq> ''playwright'' \<and> tq_selected_markers q \<noteq> [] \<and>
          flag_of (join_with '' or '' (tq_selected_markers q)) \<in> set dangerous_pytest_flags
       then Some (join_with '' or '' (tq_selected_markers q)) else None)"
    using playwright_marker_flags [of "tq_selected_markers q"] pytest_marker_flags [of "tq_selected_markers q"]
    by (auto simp: find_None_iff)
  then have "find ?bad args =
      (if tq_runner q \<noteq> ''playwright'' \<and> tq_selected_markers q \<noteq> [] \<and>
          flag_of (join_with '' or '' (tq_selected_markers q)) \<in> set dangerous_pytest_flags
       then Some (join_with '' or '' (tq_selected_markers q)) else None)"
    unfolding e(1) find_middle [OF clean] .
  then have "refuse_flags (refused_flags (tq_runner q)) args =
      (let expression = join_with '' or '' (tq_selected_markers q) in
       if tq_runner q \<noteq> ''playwright'' \<and> tq_selected_markers q \<noteq> [] \<and> flag_of expression \<in> set dangerous_pytest_flags
       then Inl (UnsafeArguments (flag_of expression)) else Inr ())"
    unfolding refuse_flags_def Let_def by simp
  moreover have "compile_args resolve (request_from_run r) d (tn_runner r) =
      bind_result (refuse_flags (refused_flags (tq_runner q)) args) (\<lambda>_. Inr args)"
    using c(2,3) by (simp add: compile_args_def compile_playwright_def compile_pytest_def request_from_run_def
        extra_tokens_def playwright_markers_def pytest_markers_def)
  ultimately show ?thesis using c(2) by (simp add: Let_def)
qed

text \<open>A run created for the marker \<open>-p\<close> cannot be run again.\<close>

definition marker_request :: run_request where
  "marker_request = \<lparr>tq_tests_path = ''s'', tq_runner = ''pytest'', tq_args = [''-x''], tq_allure = True, tq_timeout = None,
     tq_executor_mode = ''docker'', tq_selected_files = [], tq_selected_markers = [''-p''], tq_extra_args = [], tq_env = []\<rparr>"

theorem rerun_recompiles_arguments_witness:
  "\<exists>r t. create_test_run sample_config (sample_ports TaskCancelled (Returned ())) marker_request ''u'' None None
       (\<lambda>_. None, []) = (Returned r, t) \<and>
     tn_args r = [''-x'', ''-m'', ''-p''] \<and>
     compile_args (\<lambda>x. x) (request_from_run r) ''/t/s'' (tn_runner r) = Inl (UnsafeArguments ''-p'')"
proof -
  have "compile_args (\<lambda>x. x) marker_request ''/t/s'' ''pytest'' = Inr [''-x'', ''-m'', ''-p'']" by code_simp
  moreover have "safe_subpath (\<lambda>x. x) ''/t'' ''s'' = Inr ''/t/s''" by code_simp
  ultimately obtain r t where r: "create_test_run sample_config (sample_ports TaskCancelled (Returned ())) marker_request ''u'' None None
       (\<lambda>_. None, []) =
      (Returned r, t)" "tn_args r = [''-x'', ''-m'', ''-p'']"
    by (simp add: create_test_run_def task_bind_def registry_get_def check_task_def task_return_def created_run_def
        sample_config_def sample_ports_def sample_save_def default_registry_def sanitize_env_def marker_request_def Let_def)
  have "flag_of (join_with '' or '' [''-p'']) \<in> set dangerous_pytest_flags" "flag_of (join_with '' or '' [''-p'']) = ''-p''"
    by code_simp+
  then show ?thesis using r rerun_recompiles_arguments [OF r(1), of "\<lambda>x. x" "''/t/s''"]
    by (auto simp: marker_request_def)
qed

end
