(* ===== verification/Spec2Isabelle.thy ===== *)
theory Spec2Isabelle
  imports Sha256 Component_Properties Planning_Properties Finalization_Properties Batch_Properties
    Access_Properties Review_Properties Guard_Properties Result_Properties Application_Properties
    Batch_Finalization_Handler Readiness_Properties Retry_Properties Schedule_Fire Run_Orchestrator
begin

text \<open>
  Verification library of qarunner, a control plane that runs test suites on remote Workers.

  File names below are relative to the repository's \<open>src/\<close> directory; the Python package is
  \<open>src/qarunner\<close>. The theories translate its execution domain (\<open>domain/\<close>), handlers of
  \<open>application/\<close> and pure parts of \<open>core/\<close>, definition by definition, and prove the properties C1 to C40 of them.

  The program. A Run is executed by Attempts. A Worker generation is offered a reservation
  (Assignment) of a queued Run, claims it and commits the start; the commit creates the Attempt
  and raises the Run's fence. The Attempt reports events under its fence and Worker, is finalized
  with Evidence computed from trusted platform facts, or becomes unknown and waits for an
  adjudication. A failed or adjudicated Attempt may be followed by another one through a retry
  intent; a cancellation intent stops everything and converges on a trusted stop proof. Every
  aggregate is a frozen dataclass whose \<open>__post_init__\<close> validates it; an operation returns a new
  value built by \<open>replace\<close>, which validates again, or raises a domain error.

  How the model is written.
  - A dataclass is a record, an enum a datatype with its value function, \<open>__post_init__\<close> a
    \<open>check_X\<close> that returns the first error in source order, the constructor call \<open>mk_X\<close>. An
    operation returns \<open>domain_error + state\<close>: \<open>Inl\<close> is the exception raised, with its arguments.
  - Type tests (\<open>isinstance\<close>) hold by typing. Integers are \<open>int\<close>, as Python's. Strings are
    \<open>string\<close>, read as UTF-8 bytes; \<open>str.strip\<close> emptiness is \<open>blank\<close>, over the Unicode white space.
    A datetime is an instant in microseconds with an optional offset; Python's range limits of
    datetime and timedelta are not modelled. The test \<open>x is y\<close> on a returned aggregate is equality.
  - Digests are computed: \<open>Canonical_Json\<close> serialises the payload as \<open>json.dumps\<close> does and
    \<open>Sha256\<close> implements SHA-256 over 32-bit words and a published test vector is checked.
    No collision freedom is assumed anywhere: the properties compare digests only as the code does.
  - Every definition is executable and total; the loops of the source are recursions over lists,
    so no fuel is needed.

  The theories, and what their lemmas show.
  - \<open>Prelude\<close>: results, checks, white space, time, decimal and ISO text, list lookups.
  - \<open>Domain_Errors\<close> (\<open>domain/errors.py\<close>): the error classes and the version precondition.
  - \<open>Sha256\<close>, \<open>Canonical_Json\<close> (\<open>domain/digest.py\<close>).
  - \<open>Versioned\<close>: the interfaces \<open>versioned_commands\<close> (every effective command needs the current
    version and raises it by one), \<open>absorbing_lifecycle\<close> and \<open>append_only_log\<close>; no lost update, the
    version identifies the state and logs grow at the end are proved once in them.
  - \<open>Worker\<close> (\<open>domain/worker.py\<close>, \<open>authority.py\<close>), \<open>Assignment\<close>, \<open>Unknown\<close>, \<open>Retry_Policy\<close>

    (\<open>run_retry_policy.py\<close>), \<open>Retry\<close>, \<open>Run_Cancellation\<close> (\<open>cancellation.py\<close>), \<open>Evidence\<close>,
    \<open>Attempt\<close> (\<open>attempt.py\<close>, \<open>event.py\<close>): one theory per module, each with its validators,
    operations and their characterisations. \<open>Attempt_Lifecycle\<close> interprets the interfaces on
    the Attempt.
  - \<open>Run_Model\<close>, \<open>Run_Commands\<close> (\<open>domain/run.py\<close>): the aggregate, its validator, its commands.
    \<open>Run_Lifecycle\<close> gathers the commands into \<open>exec_run\<close> and gives the abstract step relation
    \<open>run_move\<close> that every command refines. \<open>Run_Invariant\<close> reads the validator's consequences,
    \<open>Run_History\<close> interprets the interfaces on the Run, lifts them to histories and shows the
    idempotent replays, \<open>Run_Samples\<close> builds concrete reachable Runs.
    \<open>Execution_Properties\<close> states C1 to C8.
  - Planning. \<open>Resource_Profile\<close> (\<open>domain/resource_profile.py\<close>): vectors, profiles, the shard count
    and admission; the quotient under \<open>math.ceil\<close> is a correctly rounded binary64 division, shown to
    be the exact ceiling below \<open>2 ^ 53\<close>. \<open>Manifest\<close>, \<open>Sharding\<close> (\<open>domain/manifest.py\<close>): the case
    manifest, the plan validator and the planners, with the makespan bound of the
    longest-processing-time assignment. \<open>Plan_Validity\<close> shows that accepted plans are partitions and
    conversely, \<open>Plan_Construction\<close> that the planners build them. \<open>Planning_Properties\<close>: C24 to
    C26.
  - Batches. \<open>Suite\<close> (\<open>domain/suite.py\<close>), \<open>Batch_Cancellation\<close> (\<open>cancellation.py\<close>),
    \<open>Batch_Model\<close> and \<open>Batch_Commands\<close> (\<open>domain/batch.py\<close>). \<open>Batch_Lifecycle\<close> gathers the commands into
    \<open>exec_batch\<close>, gives the abstract step relation \<open>batch_move\<close> and interprets the interfaces;
    \<open>Batch_Facts\<close> shows the replays and what a closed Batch holds. \<open>Batch_Properties\<close>: C23, C27.
  - Finalization. \<open>Run_Resolution\<close>, \<open>Run_Basis\<close> (\<open>domain/run_finalization.py\<close>): how each item of a
    closed Run was resolved, the choice of the effective Attempt, the basis with its decision chain.
    \<open>Batch_Resolution\<close>, \<open>Batch_Basis\<close> (\<open>domain/batch_finalization.py\<close>): the item resolutions of a
    Batch, the outcome policy, the basis with its build and its validator. \<open>Batch_Building\<close>
    inverts the validators and shows build and validator equivalent,
    \<open>Finalization_Samples\<close> builds a concrete closed Batch, \<open>Finalization_Properties\<close>: C9 to C13.
  - \<open>Bounded_Queue\<close> (\<open>bounded_queue.py\<close>) with the interface \<open>class_fifo\<close>, \<open>Worker_Lease\<close>
    (\<open>worker_lease.py\<close>, \<open>idempotency.py\<close>), \<open>Rbac\<close> (\<open>rbac.py\<close>), \<open>Case_Analysis\<close> (\<open>core/flaky.py\<close>,
    \<open>core/regression.py\<close>, \<open>core/trend.py\<close>). \<open>Component_Properties\<close> states C32.
  - Access. \<open>Python_Text\<close> and \<open>Ip_Address\<close> hold the string methods and the \<open>ipaddress\<close> module (that of
    Python 3.12.3, whose address classes do not look through IPv4-mapped addresses) the access checks use. \<open>Target_Access\<close> (\<open>domain/target_access.py\<close>): specs, grants,
    the lease book, the egress decision. \<open>Secret_Delivery\<close> (\<open>domain/secret_delivery.py\<close>): the ledger and
    the redaction. \<open>Access_Facts\<close> shows the invariant of the book,
    what an allowed hop implies and how substitution acts. \<open>Access_Properties\<close>: C28 to C31.
  - Reviews. \<open>Unknown_Review\<close> (\<open>domain/unknown_review.py\<close>), \<open>Duplicate_Risk\<close>
    (\<open>domain/duplicate_risk_acceptance.py\<close>): the review clock with its escalation, the single
    consumption of an acceptance. \<open>Review_Properties\<close>: C35.
  - Results. \<open>Case_Results\<close> (\<open>domain/pytest_execution_result.py\<close>, \<open>playwright_execution_result.py\<close>):
    acceptance of a result file, the classification at the Worker boundary, artifact parts.
    \<open>Worker_Execution\<close> (\<open>domain/worker_execution.py\<close>): start proofs, sandbox profiles, mounts, create
    options, residual reconciliation, and the collection adapter (\<open>domain/collection_adapter.py\<close>,
    \<open>collection_isolation.py\<close>). \<open>Json_Injective\<close> shows that the canonical text determines its payload.
    \<open>Result_Properties\<close>: C33, C34, C40.
  - Guards. \<open>Binary64\<close> (floats as rationals rounded to 53 bits) and the ordered tables of the prelude
    (\<open>OrderedDict\<close>) carry \<open>Rate_Limit\<close> (\<open>core/rate_limit.py\<close>) and \<open>Login_Throttle\<close> (\<open>core/login_throttle.py\<close>).
    \<open>Guard_Properties\<close>: C36, C37.
  - Application handlers (\<open>application/\<close> with its ports). A handler runs inside one serialized command
    boundary over a gateway: \<open>Application_Basis\<close> models it as an action on a store \<open>'s\<close>, and the
    gateway, which the database implements, as a record of functions on that store. An action that
    fails keeps what was written before. It also holds the scope handoff
    (\<open>application/handoff.py\<close>). \<open>Migration_Gates\<close> (the three migration compatibility modules), \<open>Preexecution_Proof\<close> and
    \<open>Batch_Preexecution\<close> (\<open>preexecution_proof.py\<close>, \<open>batch_preexecution.py\<close>), \<open>Run_Closed_Handoff\<close>,
    \<open>Run_Finalization_Handler\<close> and \<open>Batch_Finalization_Handler\<close> (\<open>run_closed_handoff.py\<close>,
    \<open>run_finalization.py\<close>, \<open>batch_finalization.py\<close>). \<open>Batch_Readiness\<close> (\<open>begin_batch_finalization.py\<close>): the readiness snapshot, whose closures own every
    manifest item once, and the transition to FINALIZING. \<open>Retry_Queue\<close>
    (\<open>run_retry.py\<close>) queues a retry that a policy decided or an adjudication permits, and \<open>Retry_Commit\<close>
    (\<open>retry_commit_start.py\<close>) commits its start under the receipt of the queue. Each theory ends with what a
    return of its handlers has read and written, and interprets the interface \<open>fresh_writer\<close> on them: a
    command writes only where nothing is stored under its identity scope. \<open>Application_Properties\<close>: C14 to
    C17, \<open>Readiness_Properties\<close>: C18, \<open>Retry_Properties\<close>: C19 to C21, for every gateway, with witnesses
    on gateways that keep their facts in memory.
  - \<open>Schedule_Fire\<close> (\<open>domain/schedule_fire.py\<close>): schedules, the next fire, whose cron library and time zone
    table are a parameter, and the identity of a fire with C22. It shows that the ISO text of an instant
    determines the instant.
  - The legacy test runs (\<open>core/orchestrator.py\<close>, \<open>core/paths.py\<close>, \<open>core/runners\<close>, parts of \<open>models.py\<close>).
    \<open>Run_Arguments\<close>: the gate for arguments and environments of untrusted requests, with \<open>shlex.split\<close> and
    \<open>re.escape\<close>. \<open>Run_Orchestrator\<close>: create, execute and cancel over a record of ports, each call of
    which may return, raise or be cancelled; the handlers and the cleanup of \<open>execute\<close> are modelled on
    its locals, and rules that follow the structure of a task, with one postcondition for a value and one for
    an exception or a cancellation, carry C38: the store is seen through what it holds and the log of the saves
    that were tried, any of which may fail. C39 is about re-running.

  A Batch is opened for an active Suite. Its collected cases are frozen in a Case Manifest, which a
  planner splits into shards under a host budget, one Run per shard. Before its Runs exist a Batch may
  be rejected or cancelled, each with a closure basis proving that nothing was executed. When its Runs
  are closed, the Batch outcome is computed from the resolutions of all manifest items.

  Approximations. \<open>str.lower\<close> and \<open>str.upper\<close> act on ASCII letters. A float is a rational rounded to 53
  bits with an unbounded exponent; overflow is a branch where the code can meet it
  (\<open>2 ** lockouts\<close>). Each operation of the throttles reads the clock once. In \<open>core/trend.py\<close> the pass
  rate is an exact rational where the code divides floating-point numbers. Decoded JSON values are a
  datatype. English texts of rejections are not modelled where an error class carries one.

  Not modelled. The services of \<open>core/\<close> around stores, notifiers and XML files, of the orchestrator its
  notification tasks, the shutdown drain and the ignore patterns of the jail, and the ports of
  \<open>application/\<close> whose only users are adapters. The
  database and container adapters, the HTTP interface, the migrations and the reporters are input and
  output around the domain, and their behaviour rests on external servers.
\<close>

end
